(* ===== verification/Nox_Prelude.thy ===== *)
theory Nox_Prelude
  imports Main "HOL-Library.Word"
begin

text \<open>
  Shared vocabulary of the development.

  \<^item> Names for the machine integers of \<open>Common.h\<close>/\<open>Define.h\<close> (\<open>uint8\<close> \dots \<open>uint64\<close>).
  \<^item> The fault type: what the C++ code does when it cannot go on. \<open>AssertFail\<close> is a failed
    \<open>ASSERT\<close> of \<open>src/src/shared/Errors.h\<close> (the process aborts); \<open>OutOfBounds\<close> is a memory
    access outside the object (undefined behaviour); \<open>NullDeref\<close> is a dereferenced null
    pointer; \<open>IntOverflow\<close> is an overflow of signed arithmetic (undefined behaviour); \<open>Dangling\<close> is a
    dereferenced pointer to a deleted object. Every fallible operation returns \<open>fault + 'a\<close>.
  \<^item> The sequencing operator of fallible steps and its rules, collected in the named
    collection \<open>fault_simps\<close>.
  \<^item> The little-endian image of a word in memory (the targets of the program are x86
    machines, and values are copied into buffers with \<open>memcpy\<close>), with its round trips.
\<close>

unbundle bit_operations_syntax

type_synonym u8 = "8 word"
type_synonym u16 = "16 word"
type_synonym u32 = "32 word"
type_synonym u64 = "64 word"

type_synonym bytes = "u8 list"

named_theorems fault_simps \<open>evaluation of sequences of fallible steps\<close>

section \<open>Faults\<close>

datatype fault = AssertFail | OutOfBounds | NullDeref | IntOverflow | Dangling

type_synonym 'a res = "fault + 'a"

fun rbind :: "'a res \<Rightarrow> ('a \<Rightarrow> 'b res) \<Rightarrow> 'b res" where
  "rbind (Inl e) f = Inl e"
| "rbind (Inr x) f = f x"

declare rbind.simps [fault_simps]

definition rmap :: "('a \<Rightarrow> 'b) \<Rightarrow> 'a res \<Rightarrow> 'b res" where
  "rmap f m = rbind m (\<lambda>x. Inr (f x))"

lemma rmap_simps [simp, fault_simps]:
  "rmap f (Inl e) = Inl e" "rmap f (Inr x) = Inr (f x)"
  by (simp_all add: rmap_def)

lemma rbind_Inr_iff:
  "rbind m f = Inr y \<longleftrightarrow> (\<exists>x. m = Inr x \<and> f x = Inr y)"
  by (cases m) auto

lemma rbind_Inl_iff:
  "rbind m f = Inl e \<longleftrightarrow> m = Inl e \<or> (\<exists>x. m = Inr x \<and> f x = Inl e)"
  by (cases m) auto

lemma rbind_assoc: "rbind (rbind m f) g = rbind m (\<lambda>x. rbind (f x) g)"
  by (cases m) auto

lemma rbind_Inr_right [simp]: "rbind m Inr = m"
  by (cases m) auto

lemma rbind_cong [fundef_cong]:
  "m = m' \<Longrightarrow> (\<And>x. m' = Inr x \<Longrightarrow> f x = f' x) \<Longrightarrow> rbind m f = rbind m' f'"
  by (cases m') auto

lemma rmap_Inr_iff: "rmap f m = Inr y \<longleftrightarrow> (\<exists>x. m = Inr x \<and> y = f x)"
  by (cases m) auto

lemma rmap_Inl_iff: "rmap f m = Inl e \<longleftrightarrow> m = Inl e"
  by (cases m) auto

lemmas res_iffs = rbind_Inr_iff rbind_Inl_iff rmap_Inr_iff rmap_Inl_iff

text \<open>A loop over a list whose body may fail.\<close>

fun res_fold :: "('a \<Rightarrow> 's \<Rightarrow> 's res) \<Rightarrow> 'a list \<Rightarrow> 's \<Rightarrow> 's res" where
  "res_fold f [] s = Inr s"
| "res_fold f (x # xs) s = rbind (f x s) (\<lambda>s. res_fold f xs s)"

lemma res_fold_Nil [simp]: "res_fold f [] = Inr"
  by (simp add: fun_eq_iff)

lemma res_fold_append: "res_fold f (xs @ ys) s = rbind (res_fold f xs s) (\<lambda>s. res_fold f ys s)"
proof (induction xs arbitrary: s)
  case Nil
  then show ?case by simp
next
  case (Cons x xs)
  show ?case by (cases "f x s") (simp_all add: Cons)
qed

lemma res_fold_snoc: "res_fold f (xs @ [x]) s = rbind (res_fold f xs s) (\<lambda>s. f x s)"
  by (cases "res_fold f xs s") (simp_all add: res_fold_append)

text \<open>The invariant rule for a counting loop that runs to the end.\<close>

lemma res_fold_upt:
  assumes "I 0 s" "\<And>i s. i < n \<Longrightarrow> I i s \<Longrightarrow> \<exists>s'. f i s = Inr s' \<and> I (Suc i) s'"
  shows "\<exists>s'. res_fold f [0..<n] s = Inr s' \<and> I n s'"
  using assms(2)
proof (induction n)
  case 0
  then show ?case using assms(1) by simp
next
  case (Suc n)
  then obtain s' where s': "res_fold f [0..<n] s = Inr s'" "I n s'" by force
  then obtain s'' where "f n s' = Inr s''" "I (Suc n) s''" using Suc.prems by blast
  with s' show ?case by (auto simp: res_fold_append)
qed

text \<open>The rule for a counting loop that fails at turn \<open>m\<close>.\<close>

lemma res_fold_upt_fault:
  assumes "I 0 s" "\<And>i s. i < m \<Longrightarrow> I i s \<Longrightarrow> \<exists>s'. f i s = Inr s' \<and> I (Suc i) s'"
    and "m < n" "\<And>s. I m s \<Longrightarrow> f m s = Inl e"
  shows "res_fold f [0..<n] s = Inl e"
proof -
  obtain s' where s': "res_fold f [0..<m] s = Inr s'" "I m s'"
    using res_fold_upt [of I s m f] assms(1,2) by blast
  have "[0..<n] = [0..<m] @ m # [Suc m..<n]"
    using upt_add_eq_append [of 0 m "n - m"] assms(3) by (simp add: upt_conv_Cons)
  then show ?thesis using s' assms(4) by (simp add: res_fold_append)
qed

lemma div_mod_eqI: "a = d * q + r \<Longrightarrow> r < d \<Longrightarrow> a div d = q \<and> a mod d = (r :: nat)"
  by auto

section \<open>Steps that may not return\<close>

text \<open>A loop that may run forever is a partial function, \<open>None\<close> where it does; \<open>obind\<close> sequences such steps.\<close>

definition obind :: "'a res option \<Rightarrow> ('a \<Rightarrow> 'b res option) \<Rightarrow> 'b res option" where
  "obind m f = (case m of None \<Rightarrow> None | Some r \<Rightarrow> (case r of Inl e \<Rightarrow> Some (Inl e) | Inr x \<Rightarrow> f x))"

lemma obind_simps [simp, fault_simps]:
  "obind None f = None" "obind (Some (Inl e)) f = Some (Inl e)" "obind (Some (Inr x)) f = f x"
  by (simp_all add: obind_def)

lemma obind_Inr_iff: "obind m f = Some (Inr y) \<longleftrightarrow> (\<exists>x. m = Some (Inr x) \<and> f x = Some (Inr y))"
  by (auto simp: obind_def split: option.splits sum.splits)

lemma obind_returns: "(\<exists>r. m = Some r) \<Longrightarrow> (\<And>x. m = Some (Inr x) \<Longrightarrow> \<exists>r. f x = Some r) \<Longrightarrow> \<exists>r. obind m f = Some r"
  by (auto simp: obind_def split: option.splits sum.splits)

lemma obind_mono [partial_function_mono]:
  assumes "mono_option B" "\<And>y. mono_option (\<lambda>f. C y f)"
  shows "mono_option (\<lambda>f. obind (B f) (\<lambda>y. C y f))"
proof -
  have "mono_option (\<lambda>f. case r of Inl e \<Rightarrow> Some (Inl e) | Inr x \<Rightarrow> C x f)" for r
    using assms(2) by (cases r) (simp_all add: monotone_def flat_ord_def)
  from bind_mono [OF assms(1) this]
  have "mono_option (\<lambda>f. Option.bind (B f) (\<lambda>r. case r of Inl e \<Rightarrow> Some (Inl e) | Inr x \<Rightarrow> C x f))" .
  moreover have "obind m g = Option.bind m (\<lambda>r. case r of Inl e \<Rightarrow> Some (Inl e) | Inr x \<Rightarrow> g x)"
    for m :: "'c res option" and g :: "'c \<Rightarrow> 'd res option"
    by (cases m) (simp_all add: obind_def)
  ultimately show ?thesis by simp
qed

section \<open>Words as bytes, low byte first\<close>

primrec le_bytes :: "nat \<Rightarrow> 'a::len word \<Rightarrow> bytes" where
  "le_bytes 0 w = []"
| "le_bytes (Suc n) w = ucast w # le_bytes n (drop_bit 8 w)"

primrec le_word :: "bytes \<Rightarrow> 'a::len word" where
  "le_word [] = 0"
| "le_word (b # bs) = ucast b OR push_bit 8 (le_word bs)"

lemma length_le_bytes [simp]: "length (le_bytes n w) = n"
  by (induction n arbitrary: w) auto

lemma le_bytes_eq_Nil_iff [simp]: "le_bytes n w = [] \<longleftrightarrow> n = 0"
  by (cases n) auto

text \<open>Evaluation at a literal size.\<close>

lemma le_bytes_numeral: "le_bytes (numeral k) w = ucast w # le_bytes (pred_numeral k) (drop_bit 8 w)"
  by (simp add: numeral_eq_Suc)

lemma le_word_le_bytes_take:
  "le_word (le_bytes n w) = take_bit (8 * n) (w :: 'a::len word)"
proof (induction n arbitrary: w)
  case 0
  then show ?case by simp
next
  case (Suc n)
  have "bit (ucast (ucast w :: u8) OR push_bit 8 (take_bit (8 * n) (drop_bit 8 w))) i
        \<longleftrightarrow> bit (take_bit (8 * Suc n) w) i" if "i < LENGTH('a)" for i
    using that
    by (auto simp: bit_simps)
  then show ?case
    by (simp add: Suc.IH bit_eq_iff)
qed

lemma le_word_le_bytes [simp]:
  "LENGTH('a) \<le> 8 * n \<Longrightarrow> le_word (le_bytes n w) = (w :: 'a::len word)"
  by (simp add: le_word_le_bytes_take take_bit_word_eq_self)

lemma le_bytes_le_word:
  "8 * length bs \<le> LENGTH('a) \<Longrightarrow> le_bytes (length bs) (le_word bs :: 'a::len word) = bs"
proof (induction bs)
  case Nil
  then show ?case by simp
next
  case (Cons b bs)
  have hd: "ucast (ucast b OR push_bit 8 (le_word bs) :: 'a word) = b"
    using Cons.prems by (intro bit_word_eqI) (auto simp: bit_simps)
  have b8: "\<not> bit b (n + 8)" for n
    using bit_imp_le_length[of b "n + 8"] by auto
  have tl: "drop_bit 8 (ucast b OR push_bit 8 (le_word bs) :: 'a word)
    = take_bit (LENGTH('a) - 8) (le_word bs)"
    using b8 by (intro bit_word_eqI) (auto simp: bit_simps add.commute)
  have cut: "le_bytes m (take_bit k v) = le_bytes m v" if "8 * m \<le> k" for m k and v :: "'a word"
    using that
  proof (induction m arbitrary: k v)
    case 0
    then show ?case by simp
  next
    case (Suc m)
    have "ucast (take_bit k v) = (ucast v :: u8)"
      using Suc.prems by (intro bit_word_eqI) (auto simp: bit_simps)
    moreover have "le_bytes m (drop_bit 8 (take_bit k v)) = le_bytes m (drop_bit 8 v)"
      using Suc.IH[of "k - 8" "drop_bit 8 v"] Suc.prems
      by (simp add: drop_bit_take_bit)
    ultimately show ?case by simp
  qed
  have "8 * length bs \<le> LENGTH('a) - 8" using Cons.prems by simp
  then show ?case using hd tl cut Cons by simp
qed

end
