(* ===== verification/Byte_Buffer.thy ===== *)
theory Byte_Buffer
  imports Nox_Prelude
begin

text \<open>
  The packet buffer: class \<open>ByteBuffer\<close> of \<open>src/src/shared/ByteBuffer.h\<close>, base class of every
  packet (\<open>WorldPacket\<close>) and of the game-file reader (\<open>NoxBuffer\<close>).

  The record \<open>byte_buffer\<close> has the class's three fields. Positions and sizes are \<open>size_t\<close>; the
  code's sums of them wrap at \<open>2 ^ 32\<close> (the solution files build for Win32), written out
  in \<open>size_add\<close>. A check \<open>ASSERT(pos + n <= size() || PrintPosError(...))\<close> that fails is
  \<open>AssertFail\<close>: \<open>PrintPosError\<close> returns false and the assertion aborts. A check that passes by
  wrap-around, and then touches memory outside the vector, is \<open>OutOfBounds\<close>.

  The insertion and extraction operators of the code's value types are \<open>put_*\<close> and \<open>get_*\<close>. Signed and
  floating point values are stored as their bytes: \<open>float\<close> and \<open>double\<close> are their 32 and 64 bit
  patterns. The stream templates for \<open>std::vector\<close>, \<open>std::list\<close> and \<open>std::map\<close> rely on the
  operators of their element type, which is the locale \<open>codec\<close>.
\<close>

section \<open>State\<close>

record byte_buffer =
  b_rpos :: nat
  b_wpos :: nat
  storage :: bytes

definition size_limit :: nat where
  "size_limit = 2 ^ 32"

definition size_add :: "nat \<Rightarrow> nat \<Rightarrow> nat" where
  "size_add a b = (a + b) mod size_limit"

definition size_sub :: "nat \<Rightarrow> nat \<Rightarrow> nat" where
  "size_sub a b = (a + size_limit - b mod size_limit) mod size_limit"

definition new_buffer :: byte_buffer where
  "new_buffer = \<lparr>b_rpos = 0, b_wpos = 0, storage = []\<rparr>"

definition copy_buffer :: "byte_buffer \<Rightarrow> byte_buffer" where
  "copy_buffer buf = \<lparr>b_rpos = b_rpos buf, b_wpos = b_wpos buf, storage = storage buf\<rparr>"

definition buf_clear :: "byte_buffer \<Rightarrow> byte_buffer" where
  "buf_clear b = b\<lparr>storage := [], b_rpos := 0, b_wpos := 0\<rparr>"

definition buf_size :: "byte_buffer \<Rightarrow> nat" where
  "buf_size b = length (storage b)"

definition set_rpos :: "nat \<Rightarrow> byte_buffer \<Rightarrow> byte_buffer" where
  "set_rpos p b = b\<lparr>b_rpos := p\<rparr>"

definition set_wpos :: "nat \<Rightarrow> byte_buffer \<Rightarrow> byte_buffer" where
  "set_wpos p b = b\<lparr>b_wpos := p\<rparr>"

definition vec_resize :: "nat \<Rightarrow> bytes \<Rightarrow> bytes" where
  "vec_resize n xs = take n xs @ replicate (n - length xs) 0"

definition buf_resize :: "nat \<Rightarrow> byte_buffer \<Rightarrow> byte_buffer" where
  "buf_resize n b = b\<lparr>storage := vec_resize n (storage b), b_rpos := 0, b_wpos := n\<rparr>"

section \<open>Raw reads and writes\<close>

definition read_at :: "nat \<Rightarrow> nat \<Rightarrow> byte_buffer \<Rightarrow> bytes res" where
  "read_at pos n b =
     (if size_add pos n \<le> buf_size b
      then if pos + n \<le> buf_size b \<and> pos + n < size_limit
           then Inr (take n (drop pos (storage b))) else Inl OutOfBounds
      else Inl AssertFail)"

definition read_word_at :: "nat \<Rightarrow> nat \<Rightarrow> byte_buffer \<Rightarrow> 'a::len word res" where
  "read_word_at n pos b = rmap le_word (read_at pos n b)"

definition read_word :: "nat \<Rightarrow> byte_buffer \<Rightarrow> ('a::len word \<times> byte_buffer) res" where
  "read_word n b =
     rbind (read_word_at n (b_rpos b) b) (\<lambda>w.
     Inr (w, b\<lparr>b_rpos := size_add (b_rpos b) n\<rparr>))"

definition read_block :: "nat \<Rightarrow> byte_buffer \<Rightarrow> (bytes \<times> byte_buffer) res" where
  "read_block len b =
     (if len = 0 then Inr ([], b)
      else rbind (read_at (b_rpos b) len b) (\<lambda>bs.
           Inr (bs, b\<lparr>b_rpos := size_add (b_rpos b) len\<rparr>)))"

definition overwrite :: "nat \<Rightarrow> bytes \<Rightarrow> bytes \<Rightarrow> bytes" where
  "overwrite pos src xs = take pos xs @ src @ drop (pos + length src) xs"

definition append_max :: nat where
  "append_max = 10000000"

definition append_bytes :: "bytes \<Rightarrow> byte_buffer \<Rightarrow> byte_buffer res" where
  "append_bytes src b =
     (let cnt = length src in
      if cnt = 0 then Inr b
      else if \<not> buf_size b < append_max then Inl AssertFail
      else let e = size_add (b_wpos b) cnt;
               xs = (if buf_size b < e then vec_resize e (storage b) else storage b)
           in if b_wpos b + cnt \<le> length xs \<and> b_wpos b + cnt < size_limit
              then Inr (b\<lparr>storage := overwrite (b_wpos b) src xs, b_wpos := size_add (b_wpos b) cnt\<rparr>)
              else Inl OutOfBounds)"

definition append_buffer :: "byte_buffer \<Rightarrow> byte_buffer \<Rightarrow> byte_buffer res" where
  "append_buffer src b = (if buf_size src \<noteq> 0 then append_bytes (storage src) b else Inr b)"

definition put_at :: "nat \<Rightarrow> bytes \<Rightarrow> byte_buffer \<Rightarrow> byte_buffer res" where
  "put_at pos src b =
     (if size_add pos (length src) \<le> buf_size b
      then if pos + length src \<le> buf_size b \<and> pos + length src < size_limit
           then Inr (b\<lparr>storage := overwrite pos src (storage b)\<rparr>) else Inl OutOfBounds
      else Inl AssertFail)"

definition put_word_at :: "nat \<Rightarrow> nat \<Rightarrow> 'a::len word \<Rightarrow> byte_buffer \<Rightarrow> byte_buffer res" where
  "put_word_at n pos v b = put_at pos (le_bytes n v) b"

definition buf_index :: "nat \<Rightarrow> byte_buffer \<Rightarrow> u8 res" where
  "buf_index pos b = read_word_at 1 pos b"

section \<open>The stream operators\<close>

definition append_word :: "nat \<Rightarrow> 'a::len word \<Rightarrow> byte_buffer \<Rightarrow> byte_buffer res" where
  "append_word n v b = append_bytes (le_bytes n v) b"

definition put_bool :: "bool \<Rightarrow> byte_buffer \<Rightarrow> byte_buffer res" where
  "put_bool v b = append_word 1 (if v then 1 else 0 :: u8) b"

definition put_u8 :: "u8 \<Rightarrow> byte_buffer \<Rightarrow> byte_buffer res" where
  "put_u8 v b = append_word 1 v b"

definition put_u16 :: "u16 \<Rightarrow> byte_buffer \<Rightarrow> byte_buffer res" where
  "put_u16 v b = append_word 2 v b"

definition put_u32 :: "u32 \<Rightarrow> byte_buffer \<Rightarrow> byte_buffer res" where
  "put_u32 v b = append_word 4 v b"

definition put_u64 :: "u64 \<Rightarrow> byte_buffer \<Rightarrow> byte_buffer res" where
  "put_u64 v b = append_word 8 v b"

definition put_i8 :: "int \<Rightarrow> byte_buffer \<Rightarrow> byte_buffer res" where
  "put_i8 v b = append_word 1 (word_of_int v :: u8) b"

definition put_i16 :: "int \<Rightarrow> byte_buffer \<Rightarrow> byte_buffer res" where
  "put_i16 v b = append_word 2 (word_of_int v :: u16) b"

definition put_i32 :: "int \<Rightarrow> byte_buffer \<Rightarrow> byte_buffer res" where
  "put_i32 v b = append_word 4 (word_of_int v :: u32) b"

definition put_i64 :: "int \<Rightarrow> byte_buffer \<Rightarrow> byte_buffer res" where
  "put_i64 v b = append_word 8 (word_of_int v :: u64) b"

definition put_float :: "u32 \<Rightarrow> byte_buffer \<Rightarrow> byte_buffer res" where
  "put_float v b = append_word 4 v b"

definition put_double :: "u64 \<Rightarrow> byte_buffer \<Rightarrow> byte_buffer res" where
  "put_double v b = append_word 8 v b"

definition put_string :: "bytes \<Rightarrow> byte_buffer \<Rightarrow> byte_buffer res" where
  "put_string s b = rbind (append_bytes s b) (put_u8 0)"

definition put_cstr :: "bytes option \<Rightarrow> byte_buffer \<Rightarrow> byte_buffer res" where
  "put_cstr str b =
     rbind (append_bytes (case str of None \<Rightarrow> [] | Some s \<Rightarrow> takeWhile (\<lambda>c. c \<noteq> 0) s) b) (put_u8 0)"

definition append_string :: "bytes \<Rightarrow> byte_buffer \<Rightarrow> byte_buffer res" where
  "append_string str b = append_bytes (str @ [0]) b"

definition get_bool :: "byte_buffer \<Rightarrow> (bool \<times> byte_buffer) res" where
  "get_bool b = rbind (read_word 1 b) (\<lambda>(c :: u8, b). Inr (sint c > 0, b))"

definition get_u8 :: "byte_buffer \<Rightarrow> (u8 \<times> byte_buffer) res" where
  "get_u8 b = read_word 1 b"

definition get_u16 :: "byte_buffer \<Rightarrow> (u16 \<times> byte_buffer) res" where
  "get_u16 b = read_word 2 b"

definition get_u32 :: "byte_buffer \<Rightarrow> (u32 \<times> byte_buffer) res" where
  "get_u32 b = read_word 4 b"

definition get_u64 :: "byte_buffer \<Rightarrow> (u64 \<times> byte_buffer) res" where
  "get_u64 b = read_word 8 b"

definition get_i8 :: "byte_buffer \<Rightarrow> (int \<times> byte_buffer) res" where
  "get_i8 b = rbind (read_word 1 b) (\<lambda>(w :: u8, b). Inr (sint w, b))"

definition get_i16 :: "byte_buffer \<Rightarrow> (int \<times> byte_buffer) res" where
  "get_i16 b = rbind (read_word 2 b) (\<lambda>(w :: u16, b). Inr (sint w, b))"

definition get_i32 :: "byte_buffer \<Rightarrow> (int \<times> byte_buffer) res" where
  "get_i32 b = rbind (read_word 4 b) (\<lambda>(w :: u32, b). Inr (sint w, b))"

definition get_i64 :: "byte_buffer \<Rightarrow> (int \<times> byte_buffer) res" where
  "get_i64 b = rbind (read_word 8 b) (\<lambda>(w :: u64, b). Inr (sint w, b))"

definition get_float :: "byte_buffer \<Rightarrow> (u32 \<times> byte_buffer) res" where
  "get_float b = read_word 4 b"

definition get_double :: "byte_buffer \<Rightarrow> (u64 \<times> byte_buffer) res" where
  "get_double b = read_word 8 b"

lemma read_word_Inr:
  "read_word n b = Inr (w, b') \<Longrightarrow>
   b_rpos b + n \<le> length (storage b) \<and> b' = b\<lparr>b_rpos := b_rpos b + n\<rparr> \<and>
   w = le_word (take n (drop (b_rpos b) (storage b)))"
  by (auto simp: read_word_def read_word_at_def read_at_def size_add_def buf_size_def res_iffs
      split: if_splits)

function get_string :: "byte_buffer \<Rightarrow> (bytes \<times> byte_buffer) res" where
  "get_string b =
     (if b_rpos b < buf_size b
      then rbind (get_u8 b) (\<lambda>(c, b').
           if c = 0 then Inr ([], b')
           else rbind (get_string b') (\<lambda>(s, b''). Inr (c # s, b'')))
      else Inr ([], b))"
  by pat_completeness auto
termination
  by (relation "measure (\<lambda>b. length (storage b) - b_rpos b)")
    (auto simp: get_u8_def buf_size_def dest!: read_word_Inr)

declare get_string.simps [simp del]

section \<open>Reading and writing: the rules the clients use\<close>

named_theorems buffer_ops \<open>definitions of the stream operators over words\<close>

lemmas put_ops [buffer_ops] =
  put_bool_def put_u8_def put_u16_def put_u32_def put_u64_def put_i8_def put_i16_def put_i32_def
  put_i64_def put_float_def put_double_def append_word_def

lemmas get_ops [buffer_ops] =
  get_bool_def get_u8_def get_u16_def get_u32_def get_u64_def get_i8_def get_i16_def get_i32_def
  get_i64_def get_float_def get_double_def

text \<open>A buffer that a constructor and the appending operators alone have built.\<close>

definition append_only :: "byte_buffer \<Rightarrow> bool" where
  "append_only b \<longleftrightarrow> b_wpos b = length (storage b)"

text \<open>The buffer after \<open>bs\<close> was appended.\<close>

definition appended :: "bytes \<Rightarrow> byte_buffer \<Rightarrow> byte_buffer" where
  "appended bs b = b\<lparr>storage := storage b @ bs, b_wpos := b_wpos b + length bs\<rparr>"

text \<open>The bytes not read yet.\<close>

definition remaining :: "byte_buffer \<Rightarrow> bytes" where
  "remaining b = drop (b_rpos b) (storage b)"

text \<open>A vector of a 32-bit process.\<close>

definition buf_ok :: "byte_buffer \<Rightarrow> bool" where
  "buf_ok b \<longleftrightarrow> length (storage b) < size_limit"

definition advanced :: "nat \<Rightarrow> byte_buffer \<Rightarrow> byte_buffer" where
  "advanced n b = b\<lparr>b_rpos := b_rpos b + n\<rparr>"

lemma appended_simps [simp]:
  "appended [] b = b"
  "append_only (appended bs b) \<longleftrightarrow> append_only b"
  "storage (appended bs b) = storage b @ bs"
  "b_rpos (appended bs b) = b_rpos b"
  "b_wpos (appended bs b) = b_wpos b + length bs"
  "appended cs (appended bs b) = appended (bs @ cs) b"
  by (auto simp: appended_def append_only_def)

lemma advanced_simps [simp]:
  "storage (advanced n b) = storage b"
  "b_rpos (advanced n b) = b_rpos b + n"
  "b_wpos (advanced n b) = b_wpos b"
  "buf_ok (advanced n b) \<longleftrightarrow> buf_ok b"
  "advanced 0 b = b"
  "advanced m (advanced n b) = advanced (n + m) b"
  by (auto simp: advanced_def buf_ok_def add.assoc)

lemma remaining_advanced [simp]: "remaining (advanced n b) = drop n (remaining b)"
  by (simp add: remaining_def advanced_def add.commute)

lemma length_remaining: "length (remaining b) = length (storage b) - b_rpos b"
  by (simp add: remaining_def)

lemma append_bytes_ok:
  assumes "append_only b" "length (storage b) < append_max" "length bs + append_max \<le> size_limit"
  shows "append_bytes bs b = Inr (appended bs b)"
  using assms
  by (auto simp: append_bytes_def append_only_def appended_def size_add_def buf_size_def
      vec_resize_def overwrite_def Let_def)

lemma append_bytes_full:
  "bs \<noteq> [] \<Longrightarrow> append_max \<le> length (storage b) \<Longrightarrow> append_bytes bs b = Inl AssertFail"
  by (simp add: append_bytes_def buf_size_def)

lemma append_bytes_Nil [simp]: "append_bytes [] b = Inr b"
  by (simp add: append_bytes_def)

lemma append_max_limit: "2 * append_max \<le> size_limit"
  by (simp add: append_max_def size_limit_def)

text \<open>
  The form every writer of packets uses: appending to a buffer built by appending, with the
  result below the limit of the assertion.
\<close>

lemma append_bytes_room:
  assumes "append_only b" "length (storage b) + length bs \<le> append_max"
  shows "append_bytes bs b = Inr (appended bs b)"
proof (cases "bs = []")
  case True
  then show ?thesis by simp
next
  case False
  then have "length (storage b) < append_max" using assms(2) by (cases bs) auto
  then show ?thesis using assms append_max_limit by (intro append_bytes_ok) auto
qed

lemma append_word_room:
  "append_only b \<Longrightarrow> length (storage b) + n \<le> append_max \<Longrightarrow>
   append_word n w b = Inr (appended (le_bytes n w) b)"
  by (simp add: append_word_def append_bytes_room)

lemma read_at_remaining:
  assumes "buf_ok b" "n \<le> length (remaining b)" "0 < n"
  shows "read_at (b_rpos b) n b = Inr (take n (remaining b))"
proof -
  have "b_rpos b + n \<le> length (storage b)" using assms(2,3) by (simp add: length_remaining)
  then show ?thesis using assms(1)
    by (simp add: read_at_def size_add_def buf_size_def buf_ok_def remaining_def)
qed

lemma read_word_remaining:
  assumes "buf_ok b" "n \<le> length (remaining b)" "0 < n"
  shows "read_word n b = Inr (le_word (take n (remaining b)), advanced n b)"
proof -
  have "b_rpos b + n \<le> length (storage b)" using assms(2,3) by (simp add: length_remaining)
  then have "size_add (b_rpos b) n = b_rpos b + n"
    using assms(1) by (simp add: size_add_def buf_ok_def)
  then show ?thesis
    using read_at_remaining [OF assms] by (simp add: read_word_def read_word_at_def advanced_def)
qed

lemma read_block_remaining:
  assumes "buf_ok b" "n \<le> length (remaining b)"
  shows "read_block n b = Inr (take n (remaining b), advanced n b)"
proof (cases "n = 0")
  case True
  then show ?thesis by (simp add: read_block_def)
next
  case False
  then have "b_rpos b + n \<le> length (storage b)" using assms(2) by (simp add: length_remaining)
  then have "size_add (b_rpos b) n = b_rpos b + n"
    using assms(1) by (simp add: size_add_def buf_ok_def)
  then show ?thesis
    using read_at_remaining [OF assms] False by (simp add: read_block_def advanced_def)
qed

text \<open>Reading past the end never returns: the assertion fails.\<close>

lemma read_at_short:
  assumes "b_rpos b + n < size_limit" "length (storage b) < b_rpos b + n"
  shows "read_at (b_rpos b) n b = Inl AssertFail"
  using assms by (simp add: read_at_def size_add_def buf_size_def)

lemma read_word_short:
  "b_rpos b + n < size_limit \<Longrightarrow> length (storage b) < b_rpos b + n \<Longrightarrow>
   read_word n b = Inl AssertFail"
  by (simp add: read_word_def read_word_at_def read_at_short)

lemma read_block_short:
  "0 < n \<Longrightarrow> b_rpos b + n < size_limit \<Longrightarrow> length (storage b) < b_rpos b + n \<Longrightarrow>
   read_block n b = Inl AssertFail"
  by (simp add: read_block_def read_at_short)

lemma read_word_storage: "read_word n b = Inr (w, b') \<Longrightarrow> storage b' = storage b"
  by (auto dest!: read_word_Inr)

lemma read_word_progress: "read_word n b = Inr (w, b') \<Longrightarrow> b_rpos b' = b_rpos b + n"
  by (auto dest!: read_word_Inr)

text \<open>Reading back what was written: the shape of every decoding lemma.\<close>

lemma read_word_enc:
  fixes v :: "'a::len word"
  assumes "buf_ok b" "remaining b = le_bytes n v @ rest" "LENGTH('a) \<le> 8 * n" "0 < n"
  shows "read_word n b = Inr (v, advanced n b)"
  using read_word_remaining [of b n, where 'a = 'a] assms by simp

lemma read_block_enc:
  "buf_ok b \<Longrightarrow> remaining b = bs @ rest \<Longrightarrow> read_block (length bs) b = Inr (bs, advanced (length bs) b)"
  using read_block_remaining [of b "length bs"] by simp

lemma get_word_encs:
  "buf_ok b \<Longrightarrow> remaining b = le_bytes 1 v8 @ rest \<Longrightarrow> get_u8 b = Inr (v8, advanced 1 b)"
  "buf_ok b \<Longrightarrow> remaining b = le_bytes 2 v16 @ rest \<Longrightarrow> get_u16 b = Inr (v16, advanced 2 b)"
  "buf_ok b \<Longrightarrow> remaining b = le_bytes 4 v32 @ rest \<Longrightarrow> get_u32 b = Inr (v32, advanced 4 b)"
  "buf_ok b \<Longrightarrow> remaining b = le_bytes 8 v64 @ rest \<Longrightarrow> get_u64 b = Inr (v64, advanced 8 b)"
  unfolding get_ops by (rule read_word_enc; simp)+

section \<open>Readers of a fixed size\<close>

text \<open>
  \<open>fixed_read r n\<close>: the reader \<open>r\<close> takes \<open>n\<close> bytes when they are there and aborts when they are not.
  The handlers of the protocol read their messages by sequences of such readers.
\<close>

definition fixed_read :: "(byte_buffer \<Rightarrow> ('a \<times> byte_buffer) res) \<Rightarrow> nat \<Rightarrow> bool" where
  "fixed_read r n \<longleftrightarrow>
     (\<forall>b. b_rpos b \<le> length (storage b) \<longrightarrow> length (storage b) + n < size_limit \<longrightarrow>
        (if n \<le> length (remaining b) then \<exists>x. r b = Inr (x, advanced n b) else r b = Inl AssertFail))"

named_theorems fixed_reads \<open>readers of a fixed size\<close>

lemma fixed_readD:
  assumes "fixed_read r n" "b_rpos b \<le> length (storage b)" "length (storage b) + n < size_limit"
  shows "n \<le> length (remaining b) \<Longrightarrow> \<exists>x. r b = Inr (x, advanced n b)"
    and "length (remaining b) < n \<Longrightarrow> r b = Inl AssertFail"
  using assms by (auto simp: fixed_read_def split: if_splits)

lemma fixed_readI:
  assumes "\<And>b. buf_ok b \<Longrightarrow> n \<le> length (remaining b) \<Longrightarrow> \<exists>x. r b = Inr (x, advanced n b)"
    and "\<And>b. b_rpos b + n < size_limit \<Longrightarrow> length (storage b) < b_rpos b + n \<Longrightarrow> r b = Inl AssertFail"
  shows "fixed_read r n"
  unfolding fixed_read_def
proof (intro allI impI)
  fix b :: byte_buffer
  assume b: "b_rpos b \<le> length (storage b)" "length (storage b) + n < size_limit"
  then have "buf_ok b" "b_rpos b + n < size_limit" by (simp_all add: buf_ok_def)
  then show "if n \<le> length (remaining b) then \<exists>x. r b = Inr (x, advanced n b) else r b = Inl AssertFail"
    using assms b(1) by (simp add: length_remaining)
qed

lemma fixed_read_word: "0 < n \<Longrightarrow> fixed_read (read_word n) n"
  using read_word_remaining read_word_short by (intro fixed_readI) blast+

lemma fixed_read_block [fixed_reads]: "fixed_read (read_block n) n"
proof (cases "n = 0")
  case True
  then show ?thesis by (simp add: fixed_read_def read_block_def)
next
  case False
  then show ?thesis
    using read_block_remaining read_block_short by (intro fixed_readI) blast+
qed

lemma fixed_read_words [fixed_reads]:
  "fixed_read get_u8 1" "fixed_read get_u16 2" "fixed_read get_u32 4" "fixed_read get_u64 8"
  unfolding get_ops by (rule fixed_read_word; simp)+

lemma fixed_read_return [fixed_reads]: "fixed_read (\<lambda>b. Inr (x, b)) 0"
  by (simp add: fixed_read_def)

lemma fixed_read_bind [fixed_reads]:
  assumes "fixed_read f n" "\<And>x. fixed_read (g x) m" "k = n + m"
  shows "fixed_read (\<lambda>b. rbind (f b) (\<lambda>(x, b). g x b)) k"
  unfolding fixed_read_def
proof (intro allI impI)
  fix b :: byte_buffer
  assume b: "b_rpos b \<le> length (storage b)" "length (storage b) + k < size_limit"
  show "if k \<le> length (remaining b) then \<exists>x. rbind (f b) (\<lambda>(x, b). g x b) = Inr (x, advanced k b)
        else rbind (f b) (\<lambda>(x, b). g x b) = Inl AssertFail"
  proof (cases "n \<le> length (remaining b)")
    case True
    have "length (storage b) + n < size_limit" using b(2) assms(3) by simp
    then obtain x where x: "f b = Inr (x, advanced n b)"
      using fixed_readD(1) [OF assms(1) b(1)] True by blast
    have "b_rpos (advanced n b) \<le> length (storage (advanced n b))"
      using True b by (simp add: length_remaining)
    then show ?thesis
      using fixed_readD [OF assms(2) [of x], of "advanced n b"] True b assms(3)
      by (auto simp: x length_remaining)
  next
    case False
    then show ?thesis using fixed_readD(2) [OF assms(1)] b assms(3) by simp
  qed
qed

section \<open>The container templates and their interface\<close>

text \<open>
  \<open>operator<<\<close> and \<open>operator>>\<close> for \<open>std::vector<T>\<close>, \<open>std::list<T>\<close> and \<open>std::map<K, V>\<close> are
  templates: they call the operators of the element type. The arguments \<open>put\<close> and \<open>get\<close> stand
  for those. The count is written as a \<open>uint32\<close>.
\<close>

fun put_elems :: "('a \<Rightarrow> byte_buffer \<Rightarrow> byte_buffer res) \<Rightarrow> 'a list \<Rightarrow> byte_buffer \<Rightarrow> byte_buffer res" where
  "put_elems put [] b = Inr b"
| "put_elems put (x # xs) b = rbind (put x b) (put_elems put xs)"

definition put_vector :: "('a \<Rightarrow> byte_buffer \<Rightarrow> byte_buffer res) \<Rightarrow> 'a list \<Rightarrow> byte_buffer \<Rightarrow> byte_buffer res" where
  "put_vector put v b = rbind (put_u32 (of_nat (length v)) b) (put_elems put v)"

definition put_list :: "('a \<Rightarrow> byte_buffer \<Rightarrow> byte_buffer res) \<Rightarrow> 'a list \<Rightarrow> byte_buffer \<Rightarrow> byte_buffer res" where
  "put_list put v b = rbind (put_u32 (of_nat (length v)) b) (put_elems put v)"

primrec get_elems :: "(byte_buffer \<Rightarrow> ('a \<times> byte_buffer) res) \<Rightarrow> nat \<Rightarrow> byte_buffer \<Rightarrow> ('a list \<times> byte_buffer) res" where
  "get_elems get 0 b = Inr ([], b)"
| "get_elems get (Suc n) b =
     rbind (get b) (\<lambda>(t, b). rbind (get_elems get n b) (\<lambda>(ts, b). Inr (t # ts, b)))"

definition get_vector :: "(byte_buffer \<Rightarrow> ('a \<times> byte_buffer) res) \<Rightarrow> byte_buffer \<Rightarrow> ('a list \<times> byte_buffer) res" where
  "get_vector get b = rbind (get_u32 b) (\<lambda>(vsize, b). get_elems get (unat vsize) b)"

definition get_list :: "(byte_buffer \<Rightarrow> ('a \<times> byte_buffer) res) \<Rightarrow> byte_buffer \<Rightarrow> ('a list \<times> byte_buffer) res" where
  "get_list get b = rbind (get_u32 b) (\<lambda>(vsize, b). get_elems get (unat vsize) b)"

definition put_pair :: "('k \<Rightarrow> byte_buffer \<Rightarrow> byte_buffer res) \<Rightarrow> ('v \<Rightarrow> byte_buffer \<Rightarrow> byte_buffer res) \<Rightarrow>
    'k \<times> 'v \<Rightarrow> byte_buffer \<Rightarrow> byte_buffer res" where
  "put_pair putk putv kv b = rbind (putk (fst kv) b) (putv (snd kv))"

definition get_pair :: "(byte_buffer \<Rightarrow> ('k \<times> byte_buffer) res) \<Rightarrow> (byte_buffer \<Rightarrow> ('v \<times> byte_buffer) res) \<Rightarrow>
    byte_buffer \<Rightarrow> (('k \<times> 'v) \<times> byte_buffer) res" where
  "get_pair getk getv b =
     rbind (getk b) (\<lambda>(k, b). rbind (getv b) (\<lambda>(v, b). Inr ((k, v), b)))"

text \<open>A map is written in the order of its iterator, and read back by inserting: \<open>insert\<close> keeps the
  entry a key already has.\<close>

definition put_map :: "('k \<Rightarrow> byte_buffer \<Rightarrow> byte_buffer res) \<Rightarrow> ('v \<Rightarrow> byte_buffer \<Rightarrow> byte_buffer res) \<Rightarrow>
    ('k \<times> 'v) list \<Rightarrow> byte_buffer \<Rightarrow> byte_buffer res" where
  "put_map putk putv m b =
     rbind (put_u32 (of_nat (length m)) b) (put_elems (put_pair putk putv) m)"

definition map_insert :: "('k \<times> 'v) \<Rightarrow> ('k \<rightharpoonup> 'v) \<Rightarrow> ('k \<rightharpoonup> 'v)" where
  "map_insert kv m = (case m (fst kv) of None \<Rightarrow> m(fst kv \<mapsto> snd kv) | Some _ \<Rightarrow> m)"

definition get_map :: "(byte_buffer \<Rightarrow> ('k \<times> byte_buffer) res) \<Rightarrow> (byte_buffer \<Rightarrow> ('v \<times> byte_buffer) res) \<Rightarrow>
    byte_buffer \<Rightarrow> (('k \<rightharpoonup> 'v) \<times> byte_buffer) res" where
  "get_map getk getv b =
     rbind (get_u32 b) (\<lambda>(msize, b).
     rbind (get_elems (get_pair getk getv) (unat msize) b) (\<lambda>(kvs, b).
     Inr (fold map_insert kvs Map.empty, b)))"

locale codec =
  fixes enc :: "'a \<Rightarrow> bytes"
    and put :: "'a \<Rightarrow> byte_buffer \<Rightarrow> byte_buffer res"
    and get :: "byte_buffer \<Rightarrow> ('a \<times> byte_buffer) res"
    and ok :: "'a \<Rightarrow> bool"
  assumes enc_nonempty: "ok x \<Longrightarrow> enc x \<noteq> []"
    and put_enc: "ok x \<Longrightarrow> append_only b \<Longrightarrow> length (storage b) + length (enc x) \<le> append_max \<Longrightarrow>
      put x b = Inr (appended (enc x) b)"
    and get_enc: "ok x \<Longrightarrow> buf_ok b \<Longrightarrow> remaining b = enc x @ rest \<Longrightarrow>
      get b = Inr (x, advanced (length (enc x)) b)"

context codec begin

definition enc_all :: "'a list \<Rightarrow> bytes" where
  "enc_all xs = concat (map enc xs)"

definition enc_counted :: "'a list \<Rightarrow> bytes" where
  "enc_counted xs = le_bytes 4 (of_nat (length xs) :: u32) @ enc_all xs"

lemma enc_all_simps [simp]: "enc_all [] = []" "enc_all (x # xs) = enc x @ enc_all xs"
  by (simp_all add: enc_all_def)

lemma length_enc_all: "list_all ok xs \<Longrightarrow> length xs \<le> length (enc_all xs)"
proof (induction xs)
  case Nil
  then show ?case by simp
next
  case (Cons x xs)
  then obtain c cs where "enc x = c # cs" using enc_nonempty [of x] by (cases "enc x") auto
  with Cons show ?case by simp
qed

lemma put_elems_enc:
  "list_all ok xs \<Longrightarrow> append_only b \<Longrightarrow> length (storage b) + length (enc_all xs) \<le> append_max \<Longrightarrow>
   put_elems put xs b = Inr (appended (enc_all xs) b)"
  by (induction xs arbitrary: b) (simp_all add: put_enc)

lemma get_elems_enc:
  "list_all ok xs \<Longrightarrow> buf_ok b \<Longrightarrow> remaining b = enc_all xs @ rest \<Longrightarrow>
   get_elems get (length xs) b = Inr (xs, advanced (length (enc_all xs)) b)"
proof (induction xs arbitrary: b)
  case Nil
  then show ?case by simp
next
  case (Cons x xs)
  have "get b = Inr (x, advanced (length (enc x)) b)"
    using Cons.prems by (intro get_enc) auto
  moreover have "get_elems get (length xs) (advanced (length (enc x)) b)
      = Inr (xs, advanced (length (enc_all xs)) (advanced (length (enc x)) b))"
    using Cons.prems by (intro Cons.IH) auto
  ultimately show ?case by simp
qed

lemma put_vector_enc:
  assumes "list_all ok xs" "append_only b"
    and "length (storage b) + length (enc_counted xs) \<le> append_max"
  shows "put_vector put xs b = Inr (appended (enc_counted xs) b)"
    and "put_list put xs b = Inr (appended (enc_counted xs) b)"
  using assms
  by (simp_all add: put_vector_def put_list_def put_u32_def enc_counted_def append_word_room put_elems_enc)

lemma count_fits:
  assumes "list_all ok xs" "length (enc_counted xs) \<le> append_max"
  shows "unat (of_nat (length xs) :: u32) = length xs"
proof -
  have "length xs \<le> append_max" using length_enc_all [OF assms(1)] assms(2) by (simp add: enc_counted_def)
  then show ?thesis by (simp add: append_max_def unat_of_nat take_bit_nat_eq_self_iff)
qed

lemma get_vector_enc:
  assumes "list_all ok xs" "buf_ok b" "remaining b = enc_counted xs @ rest"
    and "length (enc_counted xs) \<le> append_max"
  shows "get_vector get b = Inr (xs, advanced (length (enc_counted xs)) b)"
    and "get_list get b = Inr (xs, advanced (length (enc_counted xs)) b)"
proof -
  have 1: "get_u32 b = Inr (of_nat (length xs), advanced 4 b)"
    using assms(2,3) by (intro get_word_encs) (auto simp: enc_counted_def)
  have 2: "get_elems get (length xs) (advanced 4 b)
      = Inr (xs, advanced (length (enc_all xs)) (advanced 4 b))"
    using assms by (intro get_elems_enc) (auto simp: enc_counted_def)
  show "get_vector get b = Inr (xs, advanced (length (enc_counted xs)) b)"
    and "get_list get b = Inr (xs, advanced (length (enc_counted xs)) b)"
    unfolding get_vector_def get_list_def using 1 2 count_fits [OF assms(1,4)]
    by (simp_all add: enc_counted_def)
qed

text \<open>What was written at the end of a buffer is read back from it.\<close>

lemma vector_roundtrip:
  assumes "list_all ok xs" "append_only b"
    and "length (storage b) + length (enc_counted xs) \<le> append_max"
    and "put_vector put xs b = Inr b'"
  shows "get_vector get (b'\<lparr>b_rpos := length (storage b)\<rparr>) =
    Inr (xs, b'\<lparr>b_rpos := length (storage b')\<rparr>)"
proof -
  have b': "b' = appended (enc_counted xs) b" using assms put_vector_enc by simp
  let ?c = "b'\<lparr>b_rpos := length (storage b)\<rparr>"
  have "buf_ok ?c" using assms(3) append_max_limit by (simp add: b' buf_ok_def append_max_def size_limit_def)
  moreover have "remaining ?c = enc_counted xs @ []" by (simp add: b' remaining_def)
  ultimately have "get_vector get ?c = Inr (xs, advanced (length (enc_counted xs)) ?c)"
    using assms by (intro get_vector_enc) auto
  then show ?thesis by (simp add: b' advanced_def)
qed

end

text \<open>The entries of a map are pairs: the codec of the pairs from those of keys and values.\<close>

locale pair_codec = keys: codec enck putk getk okk + vals: codec encv putv getv okv
  for enck :: "'k \<Rightarrow> bytes" and putk getk okk
    and encv :: "'v \<Rightarrow> bytes" and putv getv okv
begin

definition enc_pair :: "'k \<times> 'v \<Rightarrow> bytes" where
  "enc_pair kv = enck (fst kv) @ encv (snd kv)"

definition ok_pair :: "'k \<times> 'v \<Rightarrow> bool" where
  "ok_pair kv \<longleftrightarrow> okk (fst kv) \<and> okv (snd kv)"

lemma put_pair_enc:
  "ok_pair x \<Longrightarrow> append_only b \<Longrightarrow> length (storage b) + length (enc_pair x) \<le> append_max \<Longrightarrow>
   put_pair putk putv x b = Inr (appended (enc_pair x) b)"
  by (simp add: put_pair_def enc_pair_def ok_pair_def keys.put_enc vals.put_enc)

lemma get_pair_enc:
  assumes "ok_pair x" "buf_ok b" "remaining b = enc_pair x @ rest"
  shows "get_pair getk getv b = Inr (x, advanced (length (enc_pair x)) b)"
proof -
  have "getk b = Inr (fst x, advanced (length (enck (fst x))) b)"
    using assms by (intro keys.get_enc) (auto simp: enc_pair_def ok_pair_def)
  moreover have "getv (advanced (length (enck (fst x))) b)
      = Inr (snd x, advanced (length (encv (snd x))) (advanced (length (enck (fst x))) b))"
    using assms by (intro vals.get_enc) (auto simp: enc_pair_def ok_pair_def)
  ultimately show ?thesis by (simp add: get_pair_def enc_pair_def)
qed

end

sublocale pair_codec \<subseteq> entries: codec enc_pair "put_pair putk putv" "get_pair getk getv" ok_pair
proof unfold_locales
  fix x assume "ok_pair x"
  then show "enc_pair x \<noteq> []" using keys.enc_nonempty by (simp add: enc_pair_def ok_pair_def)
qed (auto intro: put_pair_enc get_pair_enc)

lemma fold_map_insert:
  "distinct (map fst kvs) \<Longrightarrow> dom m \<inter> set (map fst kvs) = {} \<Longrightarrow>
   fold map_insert kvs m = m ++ map_of kvs"
proof (induction kvs arbitrary: m)
  case Nil
  then show ?case by simp
next
  case (Cons kv kvs)
  obtain k v where kv: "kv = (k, v)" by (cases kv)
  have "m k = None" using Cons.prems(2) kv by auto
  then have ins: "map_insert kv m = m(k \<mapsto> v)" by (simp add: map_insert_def kv)
  have "dom (m(k \<mapsto> v)) \<inter> set (map fst kvs) = {}" "distinct (map fst kvs)"
    using Cons.prems kv by auto
  then have "fold map_insert kvs (m(k \<mapsto> v)) = m(k \<mapsto> v) ++ map_of kvs"
    by (intro Cons.IH)
  moreover have "m(k \<mapsto> v) ++ map_of kvs = m ++ (map_of kvs)(k \<mapsto> v)"
  proof -
    have "map_of kvs k = None" using Cons.prems(1) kv by (simp add: map_of_eq_None_iff)
    then show ?thesis by (auto simp: map_add_def fun_eq_iff split: option.splits)
  qed
  ultimately have "fold map_insert kvs (map_insert kv m) = m ++ (map_of kvs)(k \<mapsto> v)"
    by (simp only: ins)
  then show ?case by (simp only: fold_simps map_of.simps kv fst_conv snd_conv)
qed

context pair_codec begin

lemma put_map_enc:
  assumes "list_all ok_pair m" "append_only b"
    and "length (storage b) + length (entries.enc_counted m) \<le> append_max"
  shows "put_map putk putv m b = Inr (appended (entries.enc_counted m) b)"
  using entries.put_vector_enc(1) [OF assms] by (simp add: put_map_def put_vector_def)

lemma get_map_enc:
  assumes "list_all ok_pair m" "distinct (map fst m)" "buf_ok b"
    and "remaining b = entries.enc_counted m @ rest"
    and "length (entries.enc_counted m) \<le> append_max"
  shows "get_map getk getv b = Inr (map_of m, advanced (length (entries.enc_counted m)) b)"
proof -
  have "get_vector (get_pair getk getv) b = Inr (m, advanced (length (entries.enc_counted m)) b)"
    using assms by (intro entries.get_vector_enc)
  then have "rbind (get_u32 b) (\<lambda>(n, b). get_elems (get_pair getk getv) (unat n) b)
      = Inr (m, advanced (length (entries.enc_counted m)) b)"
    by (simp add: get_vector_def)
  then show ?thesis
    using fold_map_insert [OF assms(2), of Map.empty]
    by (auto simp: get_map_def rbind_Inr_iff split: prod.splits)
qed

end

section \<open>The operators of the code's value types implement the interface\<close>

lemma word_codec:
  assumes "LENGTH('a::len) \<le> 8 * n" "0 < n"
  shows "codec (le_bytes n) (append_word n) (read_word n :: _ \<Rightarrow> ('a word \<times> _) res) (\<lambda>_. True)"
proof unfold_locales
  fix x :: "'a word" and b :: byte_buffer and rest
  show "le_bytes n x \<noteq> []" using assms(2) by simp
  show "append_word n x b = Inr (appended (le_bytes n x) b)"
    if "append_only b" "length (storage b) + length (le_bytes n x) \<le> append_max"
    using that by (simp add: append_word_room)
  show "read_word n b = Inr (x, advanced (length (le_bytes n x)) b)"
    if "buf_ok b" "remaining b = le_bytes n x @ rest"
    using read_word_enc [OF that assms] by simp
qed

lemma word_ops_eq:
  "put_u8 = append_word 1" "put_u16 = append_word 2" "put_u32 = append_word 4" "put_u64 = append_word 8"
  "get_u8 = read_word 1" "get_u16 = read_word 2" "get_u32 = read_word 4" "get_u64 = read_word 8"
  by (simp_all add: fun_eq_iff put_u8_def put_u16_def put_u32_def put_u64_def
      get_u8_def get_u16_def get_u32_def get_u64_def)

interpretation u8c: codec "le_bytes 1 :: u8 \<Rightarrow> bytes" put_u8 get_u8 "\<lambda>_. True"
  unfolding word_ops_eq by (rule word_codec) simp_all

interpretation u16c: codec "le_bytes 2 :: u16 \<Rightarrow> bytes" put_u16 get_u16 "\<lambda>_. True"
  unfolding word_ops_eq by (rule word_codec) simp_all

interpretation u32c: codec "le_bytes 4 :: u32 \<Rightarrow> bytes" put_u32 get_u32 "\<lambda>_. True"
  unfolding word_ops_eq by (rule word_codec) simp_all

interpretation u64c: codec "le_bytes 8 :: u64 \<Rightarrow> bytes" put_u64 get_u64 "\<lambda>_. True"
  unfolding word_ops_eq by (rule word_codec) simp_all

lemma get_string_enc:
  "buf_ok b \<Longrightarrow> 0 \<notin> set s \<Longrightarrow> remaining b = s @ [0] @ rest \<Longrightarrow>
   get_string b = Inr (s, advanced (length s + 1) b)"
proof (induction s arbitrary: b)
  case Nil
  then have "b_rpos b < buf_size b"
    using length_remaining [of b] by (simp add: buf_size_def)
  moreover have "get_u8 b = Inr (0, advanced 1 b)"
    using Nil by (intro get_word_encs) auto
  ultimately show ?case by (simp add: get_string.simps [of b])
next
  case (Cons c s)
  then have "b_rpos b < buf_size b"
    using length_remaining [of b] by (simp add: buf_size_def)
  moreover have "get_u8 b = Inr (c, advanced 1 b)"
    using Cons.prems by (intro get_word_encs) auto
  moreover have "get_string (advanced 1 b) = Inr (s, advanced (length s + 1) (advanced 1 b))"
    using Cons.prems by (intro Cons.IH) auto
  ultimately show ?case using Cons.prems by (simp add: get_string.simps [of b])
qed

text \<open>An unterminated string ends with the packet, without a fault.\<close>

lemma get_string_unterminated:
  "buf_ok b \<Longrightarrow> 0 \<notin> set (remaining b) \<Longrightarrow> b_rpos b \<le> length (storage b) \<Longrightarrow>
   get_string b = Inr (remaining b, b\<lparr>b_rpos := length (storage b)\<rparr>)"
proof (induction "remaining b" arbitrary: b)
  case Nil
  then have "b_rpos b = length (storage b)" by (simp add: remaining_def)
  then show ?case by (simp add: get_string.simps [of b] buf_size_def remaining_def)
next
  case (Cons c s)
  then have lt: "b_rpos b < length (storage b)"
    using length_remaining [of b] by (cases "remaining b") auto
  have "remaining b = le_bytes 1 c @ s" using Cons.hyps(2) by simp
  then have "get_u8 b = Inr (c, advanced 1 b)"
    using Cons.prems by (intro get_word_encs)
  moreover have s: "s = remaining (advanced 1 b)" by (simp flip: Cons.hyps(2))
  moreover have "get_string (advanced 1 b) = Inr (remaining (advanced 1 b),
      (advanced 1 b)\<lparr>b_rpos := length (storage (advanced 1 b))\<rparr>)"
    using Cons.hyps(2) Cons.prems lt
    by (intro Cons.hyps(1) [OF s]) (auto simp flip: Cons.hyps(2) dest: in_set_dropD)
  moreover have "c \<noteq> 0" using Cons.hyps(2) Cons.prems(2) by (metis list.set_intros(1))
  ultimately show ?case
    using lt Cons.hyps(2) by (simp add: get_string.simps [of b] buf_size_def advanced_def)
qed

interpretation strc: codec "\<lambda>s. s @ [0]" put_string get_string "\<lambda>s. 0 \<notin> set s"
proof unfold_locales
  fix x :: bytes and b :: byte_buffer and rest
  show "x @ [0] \<noteq> []" by simp
  show "get_string b = Inr (x, advanced (length (x @ [0])) b)"
    if "0 \<notin> set x" "buf_ok b" "remaining b = (x @ [0]) @ rest"
    using that get_string_enc [of b x rest] by simp
  show "put_string x b = Inr (appended (x @ [0]) b)"
    if "append_only b" "length (storage b) + length (x @ [0]) \<le> append_max"
    using that by (simp add: put_string_def append_bytes_room put_u8_def append_word_room)
qed

interpretation u32_string_map: pair_codec "le_bytes 4 :: u32 \<Rightarrow> bytes" put_u32 get_u32 "\<lambda>_. True"
    "\<lambda>s. s @ [0]" put_string get_string "\<lambda>s. 0 \<notin> set s"
  by unfold_locales

section \<open>Properties\<close>

text \<open>C9: bounds of the reads: reading \<open>n\<close> bytes (\<open>n\<close> below the size of the address space) returns the
  next \<open>n\<close> bytes as a little-endian value and moves the read position behind them exactly when they
  are there. When they are not, the assertion aborts, except that a read position so large that the
  addition in the check wraps around 32 bits is accepted by the check whenever the wrapped end lies
  within the buffer, and the access is out of bounds.\<close>

theorem read_word_bounds:
  assumes "length (storage b) < 2 ^ 32" "0 < n" "n < 2 ^ 32" "b_rpos b < 2 ^ 32"
  shows "read_word n b =
    (if b_rpos b + n \<le> length (storage b)
     then Inr (le_word (take n (drop (b_rpos b) (storage b))), b\<lparr>b_rpos := b_rpos b + n\<rparr>)
     else if b_rpos b + n < 2 ^ 32 then Inl AssertFail
     else if b_rpos b + n - 2 ^ 32 \<le> length (storage b) then Inl OutOfBounds else Inl AssertFail)"
proof -
  have "size_add (b_rpos b) n = (if b_rpos b + n < 2 ^ 32 then b_rpos b + n else b_rpos b + n - 2 ^ 32)"
    using assms by (simp add: size_add_def size_limit_def mod_if)
  then show ?thesis
    using assms by (auto simp: read_word_def read_word_at_def read_at_def buf_size_def size_limit_def)
qed

theorem read_word_bounds_witness:
  "read_word 4 \<lparr>b_rpos = 2 ^ 32 - 2, b_wpos = 3, storage = [1, 2, 3]\<rparr> =
   (Inl OutOfBounds :: (u32 \<times> byte_buffer) res)"
  using read_word_bounds [of "\<lparr>b_rpos = 2 ^ 32 - 2, b_wpos = 3, storage = [1, 2, 3]\<rparr>" 4,
      where ?'a = 32] by simp

text \<open>The stream templates on strings: a list of strings without zero bytes, written at the end of a
  buffer with room for it, is stored as its count and the zero-terminated strings, and reading a
  vector from there gives the list back and ends at the end of the buffer.\<close>

theorem string_vector_roundtrip:
  assumes "\<forall>s \<in> set xs. 0 \<notin> set s" "append_only b"
    and "length (storage b) + 4 + length (concat (map (\<lambda>s. s @ [0]) xs)) \<le> append_max"
  shows "\<exists>b'. put_vector put_string xs b = Inr b' \<and>
    storage b' = storage b @ le_bytes 4 (of_nat (length xs) :: u32) @ concat (map (\<lambda>s. s @ [0]) xs) \<and>
    get_vector get_string (b'\<lparr>b_rpos := length (storage b)\<rparr>) = Inr (xs, b'\<lparr>b_rpos := length (storage b')\<rparr>)"
proof -
  have ok: "list_all (\<lambda>s. 0 \<notin> set s) xs" using assms(1) by (simp add: list_all_iff)
  have len: "length (storage b) + length (strc.enc_counted xs) \<le> append_max"
    using assms(3) by (simp add: strc.enc_counted_def strc.enc_all_def)
  note put = strc.put_vector_enc(1) [OF ok assms(2) len]
  then show ?thesis
    using strc.vector_roundtrip [OF ok assms(2) len put] by (simp add: strc.enc_counted_def strc.enc_all_def)
qed

theorem string_vector_roundtrip_witness:
  "\<exists>b'. put_vector put_string [[110, 111, 120], []] new_buffer = Inr b' \<and>
    storage b' = [2, 0, 0, 0, 110, 111, 120, 0, 0] \<and>
    get_vector get_string (b'\<lparr>b_rpos := 0\<rparr>) = Inr ([[110, 111, 120], []], b'\<lparr>b_rpos := 9\<rparr>)"
proof -
  have "le_bytes 4 (2 :: u32) = [2, 0, 0, 0]" by (simp add: le_bytes_numeral)
  then show ?thesis
    using string_vector_roundtrip [of "[[110, 111, 120], []]" new_buffer]
    by (auto simp: new_buffer_def append_only_def append_max_def)
qed

text \<open>The stream templates on maps: the entries of a map from 32-bit keys to strings, written in
  iteration order, are read back as the same map.\<close>

theorem u32_string_map_roundtrip:
  assumes "distinct (map fst m)" "\<forall>(k, v) \<in> set m. 0 \<notin> set v"
    and "4 + length (concat (map (\<lambda>(k, v). le_bytes 4 k @ v @ [0]) m)) \<le> append_max"
  shows "\<exists>b. put_map put_u32 put_string m new_buffer = Inr b \<and>
    get_map get_u32 get_string b = Inr (map_of m, b\<lparr>b_rpos := length (storage b)\<rparr>)"
proof -
  have enc: "u32_string_map.entries.enc_counted m =
      le_bytes 4 (of_nat (length m) :: u32) @ concat (map (\<lambda>(k, v). le_bytes 4 k @ v @ [0]) m)"
    by (simp add: u32_string_map.entries.enc_counted_def u32_string_map.entries.enc_all_def
        u32_string_map.enc_pair_def case_prod_unfold cong: map_cong)
  have ok: "list_all u32_string_map.ok_pair m"
    using assms(2) by (auto simp: list_all_iff u32_string_map.ok_pair_def)
  have len: "length (u32_string_map.entries.enc_counted m) \<le> append_max"
    using assms(3) by (simp add: enc)
  let ?b = "appended (u32_string_map.entries.enc_counted m) new_buffer"
  have "put_map put_u32 put_string m new_buffer = Inr ?b"
    using len by (intro u32_string_map.put_map_enc [OF ok]) (simp_all add: new_buffer_def append_only_def)
  moreover have "get_map get_u32 get_string ?b =
      Inr (map_of m, advanced (length (u32_string_map.entries.enc_counted m)) ?b)"
    by (rule u32_string_map.get_map_enc [OF ok assms(1) _ _ len, where rest = "[]"])
      (use len append_max_limit in \<open>simp_all add: buf_ok_def new_buffer_def remaining_def append_max_def size_limit_def\<close>)
  ultimately show ?thesis by (simp add: advanced_def new_buffer_def)
qed

theorem u32_string_map_roundtrip_witness:
  "\<exists>b. put_map put_u32 put_string [(7, [65]), (3, [])] new_buffer = Inr b \<and>
    get_map get_u32 get_string b = Inr (map_of [(7, [65]), (3, [])], b\<lparr>b_rpos := length (storage b)\<rparr>)"
  using u32_string_map_roundtrip [of "[(7, [65]), (3, [])]"] by (simp add: append_max_def)

end
