(* ===== verification/Nox_Crypt.thy ===== *)
theory Nox_Crypt
  imports Nox_Crypt_Tables
begin

text \<open>
  The cipher of the game files: class \<open>NoxCrypt\<close> of \<open>src/src/game/NoxCrypt.cpp\<close>.

  \<open>NoxCrypt_crypt\<close> is a Feistel network of eight double rounds on 8-byte blocks, driven by one of
  the tables of \<^theory_text>\<open>Nox_Crypt_Tables\<close>; mode 1 (decrypt) takes its round keys from index \<open>0x418\<close>, any
  other mode from \<open>0x400\<close>. The locale \<open>mirrored_table\<close> is what the network needs of a table: that
  the second run of keys is the first one backwards. Every table of the source is an instance.
\<close>

section \<open>The block cipher\<close>

text \<open>The round keys are read at \<open>table[offset]\<close>; the S-boxes are indexed by the bytes of a half.\<close>

definition sbox_sum :: "nox_table \<Rightarrow> u32 \<Rightarrow> u32" where
  "sbox_sum table part =
     (((table ! (0x000 + unat (drop_bit 24 part AND 0xFF))
      + table ! (0x100 + unat (drop_bit 16 part AND 0xFF)))
      XOR table ! (0x200 + unat (drop_bit 8 part AND 0xFF)))
      + table ! (0x300 + unat (part AND 0xFF)))"

definition crypt_round :: "nox_table \<Rightarrow> nat \<Rightarrow> u32 \<times> u32 \<Rightarrow> u32 \<times> u32" where
  "crypt_round table offset parts =
     (let part1 = fst parts XOR table ! offset;
          sum = sbox_sum table part1 XOR table ! (offset + 1);
          part2 = snd parts XOR sum;
          part1 = part1 XOR sbox_sum table part2
      in (part1, part2))"

primrec crypt_rounds :: "nox_table \<Rightarrow> nat \<Rightarrow> nat \<Rightarrow> u32 \<times> u32 \<Rightarrow> u32 \<times> u32" where
  "crypt_rounds table 0 offset parts = parts"
| "crypt_rounds table (Suc n) offset parts =
     crypt_rounds table n (offset + 2) (crypt_round table offset parts)"

definition crypt_parts :: "nox_table \<Rightarrow> nat \<Rightarrow> u32 \<times> u32 \<Rightarrow> u32 \<times> u32" where
  "crypt_parts table offset parts =
     (let (part1, part2) = crypt_rounds table 8 offset parts
      in (part2 XOR table ! (offset + 17), part1 XOR table ! (offset + 16)))"

text \<open>Eight bytes are two words, high byte first.\<close>

definition be_word :: "u8 \<Rightarrow> u8 \<Rightarrow> u8 \<Rightarrow> u8 \<Rightarrow> u32" where
  "be_word a b c d =
     push_bit 24 (ucast a) OR push_bit 16 (ucast b) OR push_bit 8 (ucast c) OR ucast d"

definition be_bytes :: "u32 \<Rightarrow> bytes" where
  "be_bytes w = [ucast (drop_bit 24 w AND 0xFF), ucast (drop_bit 16 w AND 0xFF),
                 ucast (drop_bit 8 w AND 0xFF), ucast (w AND 0xFF)]"

text \<open>
  The loop over the data. A length that is no multiple of 8 makes the last turn read and write past
  the end.
\<close>

fun crypt_blocks :: "nox_table \<Rightarrow> nat \<Rightarrow> bytes \<Rightarrow> bytes res" where
  "crypt_blocks table offset (d0 # d1 # d2 # d3 # d4 # d5 # d6 # d7 # data) =
     (let out = crypt_parts table offset (be_word d0 d1 d2 d3, be_word d4 d5 d6 d7)
      in rbind (crypt_blocks table offset data) (\<lambda>rest.
         Inr (be_bytes (fst out) @ be_bytes (snd out) @ rest)))"
| "crypt_blocks table offset [] = Inr []"
| "crypt_blocks table offset data = Inl OutOfBounds"

datatype NoxCryptFileTypes =
  NC_PLAYER | NC_MAP | NC_THING_BIN | NC_MODIFIER_BIN | NC_GAMEDATA_BIN | NC_MONSTER_BIN
| NC_SOUNDSET_BIN

fun file_type_code :: "NoxCryptFileTypes \<Rightarrow> int" where
  "file_type_code NC_PLAYER = 1"
| "file_type_code NC_MAP = 2"
| "file_type_code NC_THING_BIN = 3"
| "file_type_code NC_MODIFIER_BIN = 4"
| "file_type_code NC_GAMEDATA_BIN = 5"
| "file_type_code NC_MONSTER_BIN = 6"
| "file_type_code NC_SOUNDSET_BIN = 7"

definition crypt_table :: "int \<Rightarrow> nox_table option" where
  "crypt_table tabl =
     (if tabl = 1 then Some NoxCrypt_plr_table
      else if tabl = 2 then Some NoxCrypt_map_table
      else if tabl = 4 then Some NoxCrypt_modifier_table
      else if tabl = 5 then Some NoxCrypt_gamedata_table
      else if tabl = 7 then Some NoxCrypt_soundset_table
      else if tabl = 6 then Some NoxCrypt_monster_table
      else if tabl = 3 then Some NoxCrypt_thing_table
      else None)"

definition NoxCrypt_crypt :: "bytes \<Rightarrow> int \<Rightarrow> int \<Rightarrow> (int \<times> bytes) res" where
  "NoxCrypt_crypt data tabl mode =
     (case crypt_table tabl of
        None \<Rightarrow> Inr (1, data)
      | Some table \<Rightarrow>
          rbind (crypt_blocks table (if mode = 1 then 0x418 else 0x400) data) (\<lambda>out. Inr (0, out)))"

definition nox_decrypt :: "bytes \<Rightarrow> NoxCryptFileTypes \<Rightarrow> (int \<times> bytes) res" where
  "nox_decrypt data fileType = NoxCrypt_crypt data (file_type_code fileType) 1"

definition nox_encrypt :: "bytes \<Rightarrow> NoxCryptFileTypes \<Rightarrow> (int \<times> bytes) res" where
  "nox_encrypt data fileType = NoxCrypt_crypt data (file_type_code fileType) 0"

section \<open>The interface of a table\<close>

lemma crypt_rounds_Suc_right:
  "crypt_rounds t (Suc n) off p = crypt_round t (off + 2 * n) (crypt_rounds t n off p)"
  by (induction n arbitrary: off p) auto

text \<open>
  Running the rounds with one run of keys and then with the other: after \<open>j\<close> rounds of the second
  run the halves are those \<open>j\<close> rounds before the end of the first, each masked with a key.
\<close>

lemma unwind_rounds:
  assumes keys: "\<And>k. k < 18 \<Longrightarrow> t ! (off' + k) = t ! (off + (17 - k))" and "j \<le> 8"
  shows "crypt_rounds t j off'
      (let (a, b) = crypt_rounds t 8 off p in (b XOR t ! (off + 17), a XOR t ! (off + 16)))
    = (let (a, b) = crypt_rounds t (8 - j) off p
       in (b XOR t ! (off + (17 - 2 * j)), a XOR t ! (off + (16 - 2 * j))))"
  using assms(2)
proof (induction j)
  case 0
  then show ?case by simp
next
  case (Suc j)
  obtain a b where ab: "crypt_rounds t (7 - j) off p = (a, b)" by fastforce
  have "8 - j = Suc (7 - j)" using Suc.prems by simp
  then have prev: "crypt_rounds t (8 - j) off p = crypt_round t (off + 2 * (7 - j)) (a, b)"
    using ab crypt_rounds_Suc_right by metis
  have i1: "17 - 2 * j = Suc (2 * (8 - j) - 0)" "16 - 2 * j = 2 * (8 - j)"
    "17 - 2 * Suc j = 2 * (7 - j) + 1" "16 - 2 * Suc j = 2 * (7 - j)"
    using Suc.prems by auto
  have k1: "t ! (off' + 2 * j) = t ! (off + (17 - 2 * j))"
    using Suc.prems by (intro keys) simp
  have k2: "t ! (off' + (2 * j + 1)) = t ! (off + (17 - (2 * j + 1)))"
    using Suc.prems by (intro keys) simp
  have i2: "17 - (2 * j + 1) = 16 - 2 * j" by simp
  have "crypt_rounds t (Suc j) off'
      (let (a, b) = crypt_rounds t 8 off p in (b XOR t ! (off + 17), a XOR t ! (off + 16)))
    = crypt_round t (off' + 2 * j)
        (let (a, b) = crypt_round t (off + 2 * (7 - j)) (a, b)
         in (b XOR t ! (off + (17 - 2 * j)), a XOR t ! (off + (16 - 2 * j))))"
    using Suc.IH Suc.prems prev by (simp only: crypt_rounds_Suc_right)
  also have "\<dots> = (b XOR t ! (off + (2 * (7 - j) + 1)), a XOR t ! (off + 2 * (7 - j)))"
    using k1 k2 unfolding i2
    by (simp add: crypt_round_def Let_def xor.assoc xor.left_commute xor.commute)
  also have "\<dots> = (let (a, b) = crypt_rounds t (8 - Suc j) off p
       in (b XOR t ! (off + (17 - 2 * Suc j)), a XOR t ! (off + (16 - 2 * Suc j))))"
    unfolding i1 using ab by simp
  finally show ?case .
qed

lemma crypt_parts_inverse:
  assumes "\<And>k. k < 18 \<Longrightarrow> t ! (off' + k) = t ! (off + (17 - k))"
  shows "crypt_parts t off' (crypt_parts t off p) = p"
proof -
  have enc: "crypt_parts t off p =
    (let (a, b) = crypt_rounds t 8 off p in (b XOR t ! (off + 17), a XOR t ! (off + 16)))"
    by (simp add: crypt_parts_def)
  have "crypt_rounds t 8 off' (crypt_parts t off p) = (snd p XOR t ! (off + 1), fst p XOR t ! (off + 0))"
    unfolding enc using unwind_rounds [OF assms, of 8 p] by (simp add: split_beta)
  then show ?thesis
    using assms [of 17] assms [of 16] by (simp add: crypt_parts_def xor.assoc)
qed

lemma be_word_le_word: "be_word a b c d = le_word [d, c, b, a]"
  by (simp add: be_word_def push_bit_or or.commute or.left_commute)

lemma ucast_low_byte: "ucast (w AND 0xFF) = (ucast w :: u8)" for w :: u32
proof -
  have m: "(0xFF :: u32) = mask 8" by (simp add: mask_eq_exp_minus_1)
  show ?thesis unfolding m by (intro bit_word_eqI) (auto simp: bit_simps)
qed

lemma be_bytes_le_bytes: "be_bytes w = rev (le_bytes 4 w)"
  by (simp add: be_bytes_def ucast_low_byte numeral_eq_Suc)

lemma be_word_be_bytes:
  assumes "be_bytes w = [a, b, c, d]"
  shows "be_word a b c d = w"
proof -
  have "le_bytes 4 w = [d, c, b, a]" using arg_cong [OF assms, of rev] by (simp add: be_bytes_le_bytes)
  then have "be_word a b c d = le_word (le_bytes 4 w)" by (simp only: be_word_le_word)
  then show ?thesis by simp
qed

lemma be_bytes_be_word: "be_bytes (be_word a b c d) = [a, b, c, d]"
  using le_bytes_le_word [of "[d, c, b, a]", where 'a = 32]
  by (simp add: be_bytes_le_bytes be_word_le_word numeral_eq_Suc del: le_word.simps le_bytes.simps)

lemma blocks_induct [case_names Block Nil Short]:
  assumes "\<And>d0 d1 d2 d3 d4 d5 d6 d7 data. P data \<Longrightarrow> P (d0 # d1 # d2 # d3 # d4 # d5 # d6 # d7 # data)"
    and "P []" and "\<And>data. 0 < length data \<Longrightarrow> length data < 8 \<Longrightarrow> P data"
  shows "P (data :: bytes)"
proof (rule crypt_blocks.induct [of "\<lambda>_ _ data. P data" undefined undefined])
  show "P (d0 # d1 # d2 # d3 # d4 # d5 # d6 # d7 # data)"
    if "\<And>x. x = crypt_parts table offset (be_word d0 d1 d2 d3, be_word d4 d5 d6 d7) \<Longrightarrow> P data"
    for table offset d0 d1 d2 d3 d4 d5 d6 d7 data
    by (rule assms(1)) (rule that, rule refl)
qed (auto intro: assms(2,3))

lemma crypt_blocks_short:
  "0 < length data \<Longrightarrow> length data < 8 \<Longrightarrow> crypt_blocks t off data = Inl OutOfBounds"
  by (induction t off data rule: crypt_blocks.induct) auto

lemma crypt_blocks_length:
  "crypt_blocks t off data = Inr out \<Longrightarrow> length out = length data"
  by (induction data arbitrary: out rule: blocks_induct)
    (auto simp: Let_def rbind_Inr_iff be_bytes_def crypt_blocks_short)

lemma crypt_blocks_defined:
  "(\<exists>out. crypt_blocks t off data = Inr out) \<longleftrightarrow> 8 dvd length data"
proof (induction data rule: blocks_induct)
  case (Block d0 d1 d2 d3 d4 d5 d6 d7 data)
  have "8 dvd length data \<longleftrightarrow> 8 dvd length (d0 # d1 # d2 # d3 # d4 # d5 # d6 # d7 # data)"
    by (simp; presburger)
  moreover have "(\<exists>out. crypt_blocks t off (d0 # d1 # d2 # d3 # d4 # d5 # d6 # d7 # data) = Inr out)
      \<longleftrightarrow> (\<exists>out. crypt_blocks t off data = Inr out)"
    by (auto simp: Let_def rbind_Inr_iff)
  ultimately show ?case using Block by blast
next
  case (Short data)
  then show ?case by (auto simp: crypt_blocks_short dest: dvd_imp_le)
qed auto

lemma crypt_blocks_fault: "crypt_blocks t off data = Inl e \<Longrightarrow> e = OutOfBounds"
  by (induction data rule: blocks_induct) (auto simp: Let_def rbind_Inl_iff crypt_blocks_short)

lemma crypt_blocks_inverse:
  assumes "\<And>k. k < 18 \<Longrightarrow> t ! (off' + k) = t ! (off + (17 - k))"
  shows "crypt_blocks t off data = Inr out \<Longrightarrow> crypt_blocks t off' out = Inr data"
proof (induction data arbitrary: out rule: blocks_induct)
  case (Block d0 d1 d2 d3 d4 d5 d6 d7 data)
  let ?p = "(be_word d0 d1 d2 d3, be_word d4 d5 d6 d7)"
  obtain o1 o2 where o: "crypt_parts t off ?p = (o1, o2)" by fastforce
  from Block.prems o obtain rest where rest: "crypt_blocks t off data = Inr rest"
    and out: "out = be_bytes o1 @ be_bytes o2 @ rest"
    by (auto simp: Let_def rbind_Inr_iff)
  obtain a b c d where b1: "be_bytes o1 = [a, b, c, d]" by (simp add: be_bytes_def)
  obtain e f g h where b2: "be_bytes o2 = [e, f, g, h]" by (simp add: be_bytes_def)
  have "crypt_parts t off' (o1, o2) = ?p"
    using crypt_parts_inverse [of t off' off ?p] assms o by simp
  then show ?case
    using Block.IH [OF rest]
    by (simp add: out b1 b2 be_word_be_bytes [OF b1] be_word_be_bytes [OF b2] be_bytes_be_word)
qed (auto simp: crypt_blocks_short)

locale mirrored_table =
  fixes table :: nox_table
  assumes table_size: "0x42A \<le> length table"
    and mirrored: "k < 18 \<Longrightarrow> table ! (0x418 + k) = table ! (0x400 + (17 - k))"
begin

lemma decrypt_encrypt:
  "crypt_blocks table 0x400 data = Inr out \<Longrightarrow> crypt_blocks table 0x418 out = Inr data"
  by (rule crypt_blocks_inverse [OF mirrored])

lemma encrypt_decrypt:
  assumes "crypt_blocks table 0x418 data = Inr out"
  shows "crypt_blocks table 0x400 out = Inr data"
proof (rule crypt_blocks_inverse [OF _ assms])
  fix k :: nat assume "k < 18"
  then show "table ! (0x400 + k) = table ! (0x418 + (17 - k))"
    using mirrored [of "17 - k"] by simp
qed

text \<open>No key or S-box index leaves the array.\<close>

lemma sbox_in_range:
  "0x300 + unat (w AND 0xFF :: u32) < length table"
  "0x400 + k < length table" "0x418 + k < length table" if "k < 18" for k
proof -
  have "w AND 0xFF \<le> (0xFF :: u32)" by (simp add: word_and_le1)
  then have "unat (w AND 0xFF :: u32) \<le> 255" by (simp add: word_le_nat_alt)
  with table_size show "0x300 + unat (w AND 0xFF :: u32) < length table" by simp
  from that table_size show "0x400 + k < length table" "0x418 + k < length table" by simp_all
qed

end

text \<open>Every table of the source has the shape.\<close>

lemma mirrored_parts:
  assumes "length s01 = 512" "length s23 = 512" "0x2A \<le> length keys"
    and "take 18 (drop 0x18 keys) = rev (take 18 keys)"
  shows "mirrored_table (s01 @ s23 @ keys)"
proof
  show "0x42A \<le> length (s01 @ s23 @ keys)" using assms by simp
next
  fix k :: nat assume k: "k < 18"
  have "(s01 @ s23 @ keys) ! (0x418 + k) = keys ! (0x18 + k)"
    using assms(1,2) by (simp add: nth_append)
  also have "\<dots> = take 18 (drop 0x18 keys) ! k" using k assms(3) by simp
  also have "\<dots> = take 18 keys ! (17 - k)" unfolding assms(4) using k assms(3) by (simp add: rev_nth)
  also have "\<dots> = keys ! (17 - k)" by simp
  also have "\<dots> = ((s01 @ s23) @ keys) ! (length (s01 @ s23) + (17 - k))"
    by (rule nth_append_length_plus [symmetric])
  also have "\<dots> = (s01 @ s23 @ keys) ! (0x400 + (17 - k))"
    using assms(1,2) by simp
  finally show "(s01 @ s23 @ keys) ! (0x418 + k) = (s01 @ s23 @ keys) ! (0x400 + (17 - k))" .
qed

interpretation plr: mirrored_table NoxCrypt_plr_table
  unfolding NoxCrypt_plr_table_def
  by (rule mirrored_parts)
    (simp_all add: NoxCrypt_plr_table_s01_def NoxCrypt_plr_table_s23_def NoxCrypt_plr_table_keys_def)

interpretation map_tab: mirrored_table NoxCrypt_map_table
  unfolding NoxCrypt_map_table_def
  by (rule mirrored_parts)
    (simp_all add: NoxCrypt_map_table_s01_def NoxCrypt_map_table_s23_def NoxCrypt_map_table_keys_def)

interpretation thing: mirrored_table NoxCrypt_thing_table
  unfolding NoxCrypt_thing_table_def
  by (rule mirrored_parts)
    (simp_all add: NoxCrypt_thing_table_s01_def NoxCrypt_thing_table_s23_def NoxCrypt_thing_table_keys_def)

interpretation modifier: mirrored_table NoxCrypt_modifier_table
  unfolding NoxCrypt_modifier_table_def
  by (rule mirrored_parts)
    (simp_all add: NoxCrypt_modifier_table_s01_def NoxCrypt_modifier_table_s23_def NoxCrypt_modifier_table_keys_def)

interpretation gamedata: mirrored_table NoxCrypt_gamedata_table
  unfolding NoxCrypt_gamedata_table_def
  by (rule mirrored_parts)
    (simp_all add: NoxCrypt_gamedata_table_s01_def NoxCrypt_gamedata_table_s23_def NoxCrypt_gamedata_table_keys_def)

interpretation monster: mirrored_table NoxCrypt_monster_table
  unfolding NoxCrypt_monster_table_def
  by (rule mirrored_parts)
    (simp_all add: NoxCrypt_monster_table_s01_def NoxCrypt_monster_table_s23_def NoxCrypt_monster_table_keys_def)

interpretation soundset: mirrored_table NoxCrypt_soundset_table
  unfolding NoxCrypt_soundset_table_def
  by (rule mirrored_parts)
    (simp_all add: NoxCrypt_soundset_table_s01_def NoxCrypt_soundset_table_s23_def NoxCrypt_soundset_table_keys_def)

lemmas mirrored_tables =
  plr.mirrored_table_axioms map_tab.mirrored_table_axioms thing.mirrored_table_axioms
  modifier.mirrored_table_axioms gamedata.mirrored_table_axioms monster.mirrored_table_axioms
  soundset.mirrored_table_axioms

lemma crypt_table_mirrored: "crypt_table tabl = Some t \<Longrightarrow> mirrored_table t"
  by (auto simp: crypt_table_def mirrored_tables split: if_splits)

lemma crypt_table_file_type: "\<exists>t. crypt_table (file_type_code ft) = Some t"
  by (cases ft) (auto simp: crypt_table_def)

section \<open>Properties\<close>

lemma crypt_there_and_back:
  assumes "crypt_table tabl = Some t" "8 dvd length data"
  shows "\<exists>out. NoxCrypt_crypt data tabl 0 = Inr (0, out) \<and> length out = length data \<and>
    NoxCrypt_crypt out tabl 1 = Inr (0, data)"
    and "\<exists>out. NoxCrypt_crypt data tabl 1 = Inr (0, out) \<and> length out = length data \<and>
    NoxCrypt_crypt out tabl 0 = Inr (0, data)"
proof -
  have mt: "mirrored_table t" by (rule crypt_table_mirrored [OF assms(1)])
  obtain e where e: "crypt_blocks t 0x400 data = Inr e"
    using crypt_blocks_defined assms(2) by blast
  obtain d where d: "crypt_blocks t 0x418 data = Inr d"
    using crypt_blocks_defined assms(2) by blast
  show "\<exists>out. NoxCrypt_crypt data tabl 0 = Inr (0, out) \<and> length out = length data \<and>
    NoxCrypt_crypt out tabl 1 = Inr (0, data)"
    using e mirrored_table.decrypt_encrypt [OF mt e] assms(1) crypt_blocks_length [OF e]
    by (simp add: NoxCrypt_crypt_def)
  show "\<exists>out. NoxCrypt_crypt data tabl 1 = Inr (0, out) \<and> length out = length data \<and>
    NoxCrypt_crypt out tabl 0 = Inr (0, data)"
    using d mirrored_table.encrypt_decrypt [OF mt d] assms(1) crypt_blocks_length [OF d]
    by (simp add: NoxCrypt_crypt_def)
qed

lemma nox_crypt_inverse:
  assumes "8 dvd length data"
  shows "(\<exists>out. nox_encrypt data ft = Inr (0, out) \<and> length out = length data \<and>
            nox_decrypt out ft = Inr (0, data)) \<and>
         (\<exists>out. nox_decrypt data ft = Inr (0, out) \<and> length out = length data \<and>
            nox_encrypt out ft = Inr (0, data))"
proof -
  obtain t where "crypt_table (file_type_code ft) = Some t" using crypt_table_file_type by blast
  from crypt_there_and_back [OF this assms] show ?thesis
    unfolding nox_encrypt_def nox_decrypt_def by (rule conjI)
qed

text \<open>C6: for every kind of game file, encrypting a buffer of whole 8-byte blocks returns 0, keeps the
  length, and decrypting the result gives the buffer back; decrypting first and encrypting the
  result gives it back too.\<close>

theorem nox_crypt_roundtrip:
  assumes "8 dvd length data"
  shows "(\<exists>out. nox_encrypt data ft = Inr (0, out) \<and> length out = length data \<and>
            nox_decrypt out ft = Inr (0, data)) \<and>
         (\<exists>out. nox_decrypt data ft = Inr (0, out) \<and> length out = length data \<and>
            nox_encrypt out ft = Inr (0, data))"
  using assms by (rule nox_crypt_inverse)

theorem nox_crypt_roundtrip_witness:
  "\<exists>out. nox_encrypt [1, 2, 3, 4, 5, 6, 7, 8] NC_MAP = Inr (0, out) \<and>
         nox_decrypt out NC_MAP = Inr (0, [1, 2, 3, 4, 5, 6, 7, 8])"
proof -
  have "8 dvd length [1, 2, 3, 4, 5, 6, 7, 8 :: u8]" by (rule dvdI [of _ _ 1]) simp
  from nox_crypt_roundtrip [OF this, of NC_MAP] show ?thesis by blast
qed

text \<open>The cipher runs exactly when it should: an unknown table code returns 1 and leaves the data
  alone, whole blocks return 0, and a length that is no multiple of 8 runs past the end of the
  buffer.\<close>

theorem nox_crypt_total:
  "NoxCrypt_crypt data tabl mode =
     (case crypt_table tabl of
        None \<Rightarrow> Inr (1, data)
      | Some t \<Rightarrow>
          if 8 dvd length data
          then Inr (0, projr (crypt_blocks t (if mode = 1 then 0x418 else 0x400) data))
          else Inl OutOfBounds)
   \<and> (crypt_table tabl = None \<longleftrightarrow> tabl < 1 \<or> 7 < tabl)"
proof -
  have "crypt_blocks t off data =
      (if 8 dvd length data then Inr (projr (crypt_blocks t off data)) else Inl OutOfBounds)" for t off
    using crypt_blocks_defined [of t off data] crypt_blocks_fault
    by (cases "crypt_blocks t off data") auto
  note cb = this
  have "(crypt_table tabl = None) = (tabl < 1 \<or> 7 < tabl)"
    by (auto simp: crypt_table_def)
  then show ?thesis
    using cb by (auto simp: NoxCrypt_crypt_def split: option.split) (metis rbind.simps)+
qed

end
