(* ===== verification/Nox_Bitwise.thy ===== *)
theory Nox_Bitwise
  imports Nox_Prelude
begin

text \<open>
  The 7-bit packing of the lobby's game description: \<open>NoxCrypt::DecryptBitwise\<close> and
  \<open>NoxCrypt::EncryptBitwise\<close> of \<open>src/src/game/NoxCrypt.cpp\<close>.

  Both loops keep a byte pointer, a bit position and a partial byte; they are modelled variable by
  variable as records. The buffer and its length argument agree (the callers pass a whole array), so
  a read or write past the list is \<open>OutOfBounds\<close>. The loop bound is \<open>dataLen-0x09\<close> in \<open>size_t\<close>: for
  fewer than nine bytes it wraps to about four billion turns, which leave the buffer.
\<close>

text \<open>\<open>(*bittester & (1 << bitloc))>>bitloc\<close>\<close>

definition picked_bit :: "u8 \<Rightarrow> nat \<Rightarrow> u8" where
  "picked_bit x bitloc = drop_bit bitloc (x AND push_bit bitloc 1)"

section \<open>Decoding\<close>

record dec_state =
  d_data :: bytes
  d_tester :: nat
  d_val2 :: u8
  d_bitcount :: nat
  d_bitloc :: nat

text \<open>The two conditional statements that skip the eighth bit.\<close>

definition dec_skip :: "dec_state \<Rightarrow> dec_state res" where
  "dec_skip s =
     (let s = (if d_bitcount s = 7 then s\<lparr>d_bitcount := 0, d_bitloc := d_bitloc s + 1\<rparr> else s)
      in if d_bitloc s = 8
         then if d_tester s < length (d_data s)
              then Inr (s\<lparr>d_data := (d_data s)[d_tester s := 0], d_tester := d_tester s + 1, d_bitloc := 0\<rparr>)
              else Inl OutOfBounds
         else Inr s)"

definition dec_bit :: "nat \<Rightarrow> dec_state \<Rightarrow> dec_state res" where
  "dec_bit j s =
     rbind (dec_skip s) (\<lambda>s.
       if d_tester s < length (d_data s)
       then Inr (s\<lparr>d_val2 := d_val2 s XOR
               push_bit j (picked_bit (d_data s ! d_tester s) (d_bitloc s)),
             d_bitloc := d_bitloc s + 1, d_bitcount := d_bitcount s + 1\<rparr>)
       else Inl OutOfBounds)"

definition dec_byte :: "nat \<Rightarrow> dec_state \<Rightarrow> dec_state res" where
  "dec_byte i s =
     rbind (res_fold dec_bit [0..<8] (s\<lparr>d_val2 := 0\<rparr>)) (\<lambda>s.
       if i < length (d_data s) then Inr (s\<lparr>d_data := (d_data s)[i := d_val2 s]\<rparr>) else Inl OutOfBounds)"

definition DecryptBitwise :: "bytes \<Rightarrow> bytes res" where
  "DecryptBitwise data =
     (if length data < 9 then Inl OutOfBounds
      else rmap d_data (res_fold dec_byte [0..<length data - 9]
             \<lparr>d_data = data, d_tester = 0, d_val2 = 0, d_bitcount = 0, d_bitloc = 0\<rparr>))"

section \<open>Encoding\<close>

record enc_state =
  e_data :: bytes
  e_tester :: nat
  e_val2 :: u8
  e_bitcount :: u8
  e_bitloc :: nat
  e_bitloc2 :: nat

definition enc_flush :: "enc_state \<Rightarrow> enc_state res" where
  "enc_flush s =
     (let s = (if e_bitloc s = 8 then s\<lparr>e_bitloc := 0, e_tester := e_tester s + 1\<rparr> else s)
      in if e_bitloc2 s = 7
         then if unat (e_bitcount s) < length (e_data s)
              then Inr (s\<lparr>e_data := (e_data s)[unat (e_bitcount s) := e_val2 s XOR push_bit 7 1],
                    e_bitcount := e_bitcount s + 1, e_val2 := 0, e_bitloc2 := 0\<rparr>)
              else Inl OutOfBounds
         else Inr s)"

definition enc_bit :: "bytes \<Rightarrow> nat \<Rightarrow> enc_state \<Rightarrow> enc_state res" where
  "enc_bit temdata j s =
     rbind (enc_flush s) (\<lambda>s.
       if e_tester s < length temdata
       then Inr (s\<lparr>e_val2 := e_val2 s XOR
               push_bit (e_bitloc2 s) (picked_bit (temdata ! e_tester s) (e_bitloc s)),
             e_bitloc := e_bitloc s + 1, e_bitloc2 := e_bitloc2 s + 1\<rparr>)
       else Inl OutOfBounds)"

definition enc_byte :: "bytes \<Rightarrow> nat \<Rightarrow> enc_state \<Rightarrow> enc_state res" where
  "enc_byte temdata i s = res_fold (enc_bit temdata) [0..<8] s"

definition EncryptBitwise :: "bytes \<Rightarrow> bytes res" where
  "EncryptBitwise data =
     (if length data < 9 then Inl OutOfBounds
      else rmap e_data (res_fold (enc_byte data) [0..<length data - 9]
             \<lparr>e_data = data, e_tester = 0, e_val2 = 0, e_bitcount = 0, e_bitloc = 0, e_bitloc2 = 0\<rparr>))"

section \<open>Bits\<close>

lemma picked_bit_eq: "picked_bit x i = of_bool (bit x i)"
  using bit_imp_le_length [of x]
  by (intro bit_word_eqI) (auto simp: picked_bit_def bit_simps)

primrec bits_upto :: "(nat \<Rightarrow> bool) \<Rightarrow> nat \<Rightarrow> u8" where
  "bits_upto f 0 = 0"
| "bits_upto f (Suc j) = bits_upto f j XOR push_bit j (of_bool (f j))"

lemma bit_bits_upto: "bit (bits_upto f j) i \<longleftrightarrow> i < j \<and> i < 8 \<and> f i"
  by (induction j) (auto simp: bit_simps less_Suc_eq)

lemma bits_upto_cong: "(\<And>i. i < j \<Longrightarrow> f i = g i) \<Longrightarrow> bits_upto f j = bits_upto g j"
  by (induction j) auto

text \<open>The bit streams: seven bits of each encoded byte, eight of each plain one.\<close>

definition bit7 :: "bytes \<Rightarrow> nat \<Rightarrow> bool" where
  "bit7 xs k = bit (xs ! (k div 7)) (k mod 7)"

definition bit8 :: "bytes \<Rightarrow> nat \<Rightarrow> bool" where
  "bit8 xs k = bit (xs ! (k div 8)) (k mod 8)"

section \<open>The decoder reads the 7-bit stream\<close>

definition dec_inv :: "bytes \<Rightarrow> nat \<Rightarrow> dec_state \<Rightarrow> bool" where
  "dec_inv orig k s \<longleftrightarrow>
     length (d_data s) = length orig \<and>
     d_tester s = (k - 1) div 7 \<and>
     d_bitloc s = (if k = 0 then 0 else (k - 1) mod 7 + 1) \<and> d_bitcount s = d_bitloc s \<and>
     (k = 0 \<or> d_tester s < length orig) \<and>
     (\<forall>p. d_tester s \<le> p \<and> p < length orig \<longrightarrow> d_data s ! p = orig ! p)"

lemma div_step_dvd:
  assumes "0 < k" "d dvd k" "0 < (d :: nat)"
  shows "(k - 1) div d = k div d - 1 \<and> (k - 1) mod d = d - 1 \<and> 0 < k div d \<and> k mod d = 0"
proof -
  from assms obtain m where "k = d * m" "0 < m" by (auto elim!: dvdE)
  then obtain m' where m: "k = d * Suc m'" by (metis Suc_pred)
  then have "k - 1 = d * m' + (d - 1)" using assms(3) by simp
  then have "(k - 1) div d = m'" "(k - 1) mod d = d - 1"
    using assms(3) div_mod_eqI [of "k - 1" d m' "d - 1"] by simp_all
  then show ?thesis using assms(3) by (simp add: m)
qed

lemma div_step_not_dvd:
  assumes "\<not> d dvd k" "0 < (d :: nat)"
  shows "(k - 1) div d = k div d \<and> (k - 1) mod d + 1 = k mod d \<and> k mod d < d"
proof -
  have r: "0 < k mod d" "k mod d < d" using assms by (auto simp: dvd_eq_mod_eq_0)
  have "k = d * (k div d) + k mod d" by simp
  then have "k - 1 = d * (k div d) + (k mod d - 1)" using r(1) by linarith
  from div_mod_eqI [OF this] show ?thesis using r by simp
qed

lemma dec_skip_step:
  assumes "dec_inv orig k s"
  shows "\<exists>s'. dec_skip s = Inr s' \<and> length (d_data s') = length orig \<and> d_tester s' = k div 7 \<and>
    d_bitloc s' = k mod 7 \<and> d_bitcount s' = k mod 7 \<and> d_val2 s' = d_val2 s \<and>
    (\<forall>p. k div 7 \<le> p \<and> p < length orig \<longrightarrow> d_data s' ! p = orig ! p) \<and>
    (\<forall>m. m < d_tester s \<longrightarrow> d_data s' ! m = d_data s ! m)"
proof (cases "k = 0 \<or> \<not> 7 dvd k")
  case True
  then have 1: "d_tester s = k div 7" "d_bitloc s = k mod 7"
    using assms div_step_not_dvd [of 7 k] by (auto simp: dec_inv_def)
  then have "d_bitloc s < 7" by simp
  with 1 show ?thesis using assms by (auto simp: dec_skip_def dec_inv_def)
next
  case False
  then have "0 < k" "7 dvd k" by auto
  from div_step_dvd [OF this] assms \<open>0 < k\<close> show ?thesis
    by (auto simp: dec_skip_def dec_inv_def Let_def)
qed

lemma dec_bit_step:
  assumes "dec_inv orig k s"
  shows "if k div 7 < length orig
     then \<exists>s'. dec_bit j s = Inr s' \<and> dec_inv orig (Suc k) s' \<and>
       d_val2 s' = d_val2 s XOR push_bit j (of_bool (bit7 orig k)) \<and>
       (\<forall>m. m < d_tester s \<longrightarrow> d_data s' ! m = d_data s ! m)
     else dec_bit j s = Inl OutOfBounds"
proof -
  obtain t where t: "dec_skip s = Inr t" "length (d_data t) = length orig" "d_tester t = k div 7"
    "d_bitloc t = k mod 7" "d_bitcount t = k mod 7" "d_val2 t = d_val2 s"
    "\<forall>p. k div 7 \<le> p \<and> p < length orig \<longrightarrow> d_data t ! p = orig ! p"
    "\<forall>m. m < d_tester s \<longrightarrow> d_data t ! m = d_data s ! m"
    using dec_skip_step [OF assms] by blast
  show ?thesis
  proof (cases "k div 7 < length orig")
    case True
    then have x: "d_data t ! (k div 7) = orig ! (k div 7)" using t by blast
    then show ?thesis using True t by (auto simp: dec_bit_def picked_bit_eq dec_inv_def bit7_def)
  next
    case False
    then show ?thesis using t by (simp add: dec_bit_def)
  qed
qed

lemma tester_mono: "dec_inv orig k s \<Longrightarrow> dec_inv orig (k + j) t \<Longrightarrow> d_tester s \<le> d_tester t"
  by (auto simp: dec_inv_def div_le_mono)

lemma dec_bits:
  assumes "dec_inv orig k s" "(k + n - 1) div 7 < length orig" "d_val2 s = 0"
  shows "\<exists>s'. res_fold dec_bit [0..<n] s = Inr s' \<and> dec_inv orig (k + n) s' \<and>
    d_val2 s' = bits_upto (\<lambda>j. bit7 orig (k + j)) n \<and>
    (\<forall>m. m < d_tester s \<longrightarrow> d_data s' ! m = d_data s ! m)"
proof -
  have "\<exists>s'. res_fold dec_bit [0..<n] s = Inr s' \<and> (dec_inv orig (k + n) s' \<and>
    d_val2 s' = bits_upto (\<lambda>j. bit7 orig (k + j)) n \<and>
    (\<forall>m. m < d_tester s \<longrightarrow> d_data s' ! m = d_data s ! m))"
  proof (rule res_fold_upt, goal_cases)
    case 1
    then show ?case using assms by simp
  next
    case (2 i t)
    then have inv: "dec_inv orig (k + i) t" by blast
    have "(k + i) div 7 \<le> (k + n - 1) div 7" using 2(1) by (intro div_le_mono) simp
    then have "(k + i) div 7 < length orig" using assms(2) by simp
    then obtain t' where "dec_bit i t = Inr t'" "dec_inv orig (Suc (k + i)) t'"
       "d_val2 t' = d_val2 t XOR push_bit i (of_bool (bit7 orig (k + i)))"
       "\<forall>m. m < d_tester t \<longrightarrow> d_data t' ! m = d_data t ! m"
      using dec_bit_step [OF inv, of i] by auto
    moreover have "d_tester s \<le> d_tester t" using tester_mono assms(1) inv by blast
    ultimately show ?case using 2(2) by auto
  qed
  then show ?thesis .
qed

lemma dec_bits_fault:
  assumes "dec_inv orig k s" "length orig \<le> (k + n - 1) div 7" "0 < n"
  shows "res_fold dec_bit [0..<n] s = Inl OutOfBounds"
proof (rule res_fold_upt_fault [where I = "\<lambda>i t. dec_inv orig (k + i) t" and m = "7 * length orig - k"],
    goal_cases)
  case 1
  then show ?case using assms(1) by simp
next
  case (2 i t)
  then have "(k + i) div 7 < length orig" by (simp add: less_diff_conv div_less_iff_less_mult algebra_simps)
  then show ?case using dec_bit_step [OF 2(2), of i] by auto
next
  case 3
  have "7 * length orig \<le> k + n - 1" using assms(2) by (simp add: less_eq_div_iff_mult_less_eq mult.commute)
  then show ?case using assms(3) by simp
next
  case (4 t)
  have "\<not> (k + (7 * length orig - k)) div 7 < length orig"
    by (simp add: div_less_iff_less_mult mult.commute)
  then show ?case using dec_bit_step [OF 4, of "7 * length orig - k"] by auto
qed

definition dec_out :: "bytes \<Rightarrow> nat \<Rightarrow> u8" where
  "dec_out orig m = bits_upto (\<lambda>j. bit7 orig (8 * m + j)) 8"

definition dec_loop_inv :: "bytes \<Rightarrow> nat \<Rightarrow> dec_state \<Rightarrow> bool" where
  "dec_loop_inv orig i s \<longleftrightarrow> dec_inv orig (8 * i) s \<and> (\<forall>m < i. d_data s ! m = dec_out orig m)"

lemma dec_byte_step:
  assumes "dec_loop_inv orig i s" "i < length orig"
  shows "if (8 * i + 7) div 7 < length orig
     then \<exists>s'. dec_byte i s = Inr s' \<and> dec_loop_inv orig (Suc i) s'
     else dec_byte i s = Inl OutOfBounds"
proof (cases "(8 * i + 7) div 7 < length orig")
  case True
  let ?s = "s\<lparr>d_val2 := 0\<rparr>"
  have inv: "dec_inv orig (8 * i) ?s" using assms(1) by (auto simp: dec_loop_inv_def dec_inv_def)
  have "(8 * i + 8 - 1) div 7 < length orig" using True by simp
  then obtain t where t: "res_fold dec_bit [0..<8] ?s = Inr t" "dec_inv orig (8 * i + 8) t"
    "d_val2 t = dec_out orig i" "\<forall>m. m < d_tester s \<longrightarrow> d_data t ! m = d_data s ! m"
    using dec_bits [OF inv, of 8] unfolding dec_out_def by auto
  have it: "i \<le> d_tester s" using assms(1) by (cases i) (auto simp: dec_loop_inv_def dec_inv_def)
  have it': "i < d_tester t" using t(2) by (simp add: dec_inv_def)
  have "dec_byte i s = Inr (t\<lparr>d_data := (d_data t)[i := d_val2 t]\<rparr>)"
    using t assms(2) by (simp add: dec_byte_def dec_inv_def)
  moreover have "dec_loop_inv orig (Suc i) (t\<lparr>d_data := (d_data t)[i := d_val2 t]\<rparr>)"
    using t assms it it'
    by (auto simp: dec_loop_inv_def dec_inv_def less_Suc_eq)
  ultimately show ?thesis using True by auto
next
  case False
  let ?s = "s\<lparr>d_val2 := 0\<rparr>"
  have inv: "dec_inv orig (8 * i) ?s" using assms(1) by (auto simp: dec_loop_inv_def dec_inv_def)
  have "8 * i + 8 - 1 = 8 * i + (7 :: nat)" by simp
  then show ?thesis using dec_bits_fault [OF inv, of 8] False by (simp add: dec_byte_def)
qed

lemma dec_loop_inv_init:
  "dec_loop_inv data 0 \<lparr>d_data = data, d_tester = 0, d_val2 = 0, d_bitcount = 0, d_bitloc = 0\<rparr>"
  by (simp add: dec_loop_inv_def dec_inv_def)

lemma DecryptBitwise_in_bounds:
  assumes "9 \<le> length data" "length data \<le> 72"
  shows "\<exists>out. DecryptBitwise data = Inr out \<and> length out = length data \<and>
    (\<forall>m < length data - 9. out ! m = dec_out data m)"
proof -
  let ?s = "\<lparr>d_data = data, d_tester = 0, d_val2 = 0, d_bitcount = 0, d_bitloc = 0\<rparr>"
  have "\<exists>s'. res_fold dec_byte [0..<length data - 9] ?s = Inr s' \<and> dec_loop_inv data (length data - 9) s'"
  proof (rule res_fold_upt, goal_cases)
    case 1
    then show ?case by (rule dec_loop_inv_init)
  next
    case (2 i s)
    then have "(8 * i + 7) div 7 < length data" "i < length data" using assms by auto
    then show ?case using dec_byte_step [OF 2(2)] by simp
  qed
  then show ?thesis using assms(1) by (auto simp: DecryptBitwise_def dec_loop_inv_def dec_inv_def)
qed

lemma DecryptBitwise_out_of_bounds:
  assumes "73 \<le> length data"
  shows "DecryptBitwise data = Inl OutOfBounds"
proof -
  let ?s = "\<lparr>d_data = data, d_tester = 0, d_val2 = 0, d_bitcount = 0, d_bitloc = 0\<rparr>"
  define i where "i = 7 * length data div 8"
  have i: "i < length data - 9" "7 * length data \<le> 8 * i + 7" "8 * i \<le> 7 * length data"
    using assms unfolding i_def by linarith+
  have "res_fold dec_byte [0..<length data - 9] ?s = Inl OutOfBounds"
  proof (rule res_fold_upt_fault [where I = "dec_loop_inv data" and m = i], goal_cases)
    case 1
    then show ?case by (rule dec_loop_inv_init)
  next
    case (2 j s)
    then have "(8 * j + 7) div 7 < length data" "j < length data" using i by linarith+
    then show ?case using dec_byte_step [OF 2(2)] by simp
  next
    case 3
    show ?case by (rule i(1))
  next
    case (4 s)
    have "\<not> (8 * i + 7) div 7 < length data" "i < length data" using i by linarith+
    then show ?case using dec_byte_step [OF 4] by simp
  qed
  then show ?thesis by (simp add: DecryptBitwise_def)
qed

section \<open>The encoder writes it\<close>

text \<open>What the encoder puts into byte \<open>q\<close>: seven bits of the plain stream and a set top bit.\<close>

definition enc_out :: "bytes \<Rightarrow> nat \<Rightarrow> u8" where
  "enc_out tem q = bits_upto (\<lambda>j. bit8 tem (7 * q + j)) 7 XOR push_bit 7 1"

text \<open>After \<open>k\<close> bits, \<open>flushed k\<close> bytes are written.\<close>

definition flushed :: "nat \<Rightarrow> nat" where
  "flushed k = (k - 1) div 7"

definition enc_inv :: "bytes \<Rightarrow> nat \<Rightarrow> enc_state \<Rightarrow> bool" where
  "enc_inv tem k s \<longleftrightarrow>
     length (e_data s) = length tem \<and>
     e_tester s = (k - 1) div 8 \<and>
     e_bitloc s = (if k = 0 then 0 else (k - 1) mod 8 + 1) \<and>
     e_bitloc2 s = (if k = 0 then 0 else (k - 1) mod 7 + 1) \<and>
     unat (e_bitcount s) = flushed k \<and>
     e_val2 s = bits_upto (\<lambda>j. bit8 tem (7 * flushed k + j)) (e_bitloc2 s) \<and>
     (\<forall>q. q < flushed k \<longrightarrow> e_data s ! q = enc_out tem q) \<and>
     (\<forall>q. flushed k \<le> q \<and> q < length tem \<longrightarrow> e_data s ! q = tem ! q)"

text \<open>The first half of a turn: the byte position moves on, a full group is written.\<close>

lemma enc_flush_step:
  assumes inv: "enc_inv tem k s" and "length tem < 256"
  shows "if k div 7 \<le> length tem
    then \<exists>s'. enc_flush s = Inr s' \<and> length (e_data s') = length tem \<and>
      e_tester s' = k div 8 \<and> e_bitloc s' = k mod 8 \<and> e_bitloc2 s' = k mod 7 \<and>
      unat (e_bitcount s') = k div 7 \<and>
      e_val2 s' = bits_upto (\<lambda>j. bit8 tem (7 * (k div 7) + j)) (k mod 7) \<and>
      (\<forall>q. q < k div 7 \<longrightarrow> e_data s' ! q = enc_out tem q) \<and>
      (\<forall>q. k div 7 \<le> q \<and> q < length tem \<longrightarrow> e_data s' ! q = tem ! q)
    else k mod 7 = 0 \<longrightarrow> enc_flush s = Inl OutOfBounds"
proof -
  define s1 where "s1 = (if e_bitloc s = 8 then s\<lparr>e_bitloc := 0, e_tester := e_tester s + 1\<rparr> else s)"
  have s1: "e_tester s1 = k div 8" "e_bitloc s1 = k mod 8"
    and same: "e_data s1 = e_data s" "e_val2 s1 = e_val2 s" "e_bitcount s1 = e_bitcount s"
      "e_bitloc2 s1 = e_bitloc2 s"
  proof -
    show "e_data s1 = e_data s" "e_val2 s1 = e_val2 s" "e_bitcount s1 = e_bitcount s"
      "e_bitloc2 s1 = e_bitloc2 s" by (simp_all add: s1_def)
    show "e_tester s1 = k div 8" "e_bitloc s1 = k mod 8"
      using inv div_step_dvd [of k 8] div_step_not_dvd [of 8 k]
      by (cases "k = 0"; cases "8 dvd k"; auto simp: s1_def enc_inv_def)+
  qed
  have flush: "enc_flush s =
    (if e_bitloc2 s1 = 7
     then if unat (e_bitcount s1) < length (e_data s1)
          then Inr (s1\<lparr>e_data := (e_data s1)[unat (e_bitcount s1) := e_val2 s1 XOR push_bit 7 1],
                e_bitcount := e_bitcount s1 + 1, e_val2 := 0, e_bitloc2 := 0\<rparr>)
          else Inl OutOfBounds
     else Inr s1)"
    by (simp add: enc_flush_def s1_def Let_def)
  show ?thesis
  proof (cases "0 < k \<and> 7 dvd k")
    case True
    from div_step_dvd [OF _ _, of k 7] True
    have k: "(k - 1) div 7 = k div 7 - 1" "(k - 1) mod 7 = 6" "0 < k div 7" "k mod 7 = 0" by auto
    have b2: "e_bitloc2 s1 = 7" "unat (e_bitcount s1) = k div 7 - 1"
      using inv True k same by (auto simp: enc_inv_def flushed_def)
    have v: "e_val2 s1 XOR push_bit 7 1 = enc_out tem (k div 7 - 1)"
      using inv True k same by (auto simp: enc_inv_def flushed_def enc_out_def)
    have cnt: "unat (e_bitcount s1 + 1) = k div 7" if "k div 7 \<le> length tem"
      using b2 k(3) that assms(2) by (simp add: unat_word_ariths)
    have len: "length (e_data s1) = length tem" using inv same by (simp add: enc_inv_def)
    have old: "\<forall>q. q < k div 7 - 1 \<longrightarrow> e_data s1 ! q = enc_out tem q"
      and rest: "\<forall>q. k div 7 - 1 \<le> q \<and> q < length tem \<longrightarrow> e_data s1 ! q = tem ! q"
      using inv same k by (simp_all add: enc_inv_def flushed_def)
    show ?thesis
    proof (cases "k div 7 \<le> length tem")
      case True
      let ?d = "(e_data s1)[k div 7 - 1 := enc_out tem (k div 7 - 1)]"
      have "?d ! q = enc_out tem q" if "q < k div 7" for q
        using that True len old k(3) by (cases "q = k div 7 - 1") auto
      moreover have "?d ! q = tem ! q" if "k div 7 \<le> q" "q < length tem" for q
        using that True len rest k(3) by (cases "q = k div 7 - 1") auto
      moreover have "enc_flush s = Inr (s1\<lparr>e_data := ?d, e_bitcount := e_bitcount s1 + 1,
          e_val2 := 0, e_bitloc2 := 0\<rparr>)"
        using True b2 v len k(3) by (simp add: flush)
      ultimately show ?thesis using True cnt [OF True] s1 len k(4) by simp
    next
      case False
      then show ?thesis using b2 len by (simp add: flush)
    qed
  next
    case False
    then have k: "flushed k = k div 7" "e_bitloc2 s1 = k mod 7"
      using inv same div_step_not_dvd [of 7 k] by (auto simp: enc_inv_def flushed_def)
    then have "e_bitloc2 s1 < 7" by simp
    then have fl: "enc_flush s = Inr s1" by (simp add: flush)
    have "length (e_data s1) = length tem" "unat (e_bitcount s1) = k div 7"
      "e_val2 s1 = bits_upto (\<lambda>j. bit8 tem (7 * (k div 7) + j)) (k mod 7)"
      "\<forall>q. q < k div 7 \<longrightarrow> e_data s1 ! q = enc_out tem q"
      "\<forall>q. k div 7 \<le> q \<and> q < length tem \<longrightarrow> e_data s1 ! q = tem ! q"
      using inv same k by (simp_all add: enc_inv_def)
    moreover have "k div 7 \<le> length tem \<or> k mod 7 \<noteq> 0"
      using False by (cases "k = 0") (auto simp: dvd_eq_mod_eq_0)
    ultimately show ?thesis using fl s1 k(2) by auto
  qed
qed

lemma enc_bit_step:
  assumes inv: "enc_inv tem k s" and "length tem < 256" "k div 8 < length tem"
  shows "if k div 7 \<le> length tem
    then \<exists>s'. enc_bit tem j s = Inr s' \<and> enc_inv tem (Suc k) s'
    else k mod 7 = 0 \<longrightarrow> enc_bit tem j s = Inl OutOfBounds"
proof (cases "k div 7 \<le> length tem")
  case True
  then obtain t where t: "enc_flush s = Inr t" "length (e_data t) = length tem"
    "e_tester t = k div 8" "e_bitloc t = k mod 8" "e_bitloc2 t = k mod 7"
    "unat (e_bitcount t) = k div 7"
    "e_val2 t = bits_upto (\<lambda>j. bit8 tem (7 * (k div 7) + j)) (k mod 7)"
    "\<forall>q. q < k div 7 \<longrightarrow> e_data t ! q = enc_out tem q"
    "\<forall>q. k div 7 \<le> q \<and> q < length tem \<longrightarrow> e_data t ! q = tem ! q"
    using enc_flush_step [OF assms(1,2)] by auto
  have "bit (tem ! (k div 8)) (k mod 8) = bit8 tem (7 * (k div 7) + k mod 7)"
    by (simp add: bit8_def)
  then show ?thesis using True t assms(3)
    by (auto simp: enc_bit_def enc_inv_def flushed_def picked_bit_eq)
next
  case False
  then show ?thesis using enc_flush_step [OF assms(1,2)] by (auto simp: enc_bit_def)
qed

lemma enc_bits:
  assumes "enc_inv tem k s" "length tem < 256" "k + 7 < 8 * length tem" "(k + 7) div 7 \<le> length tem"
  shows "\<exists>s'. res_fold (enc_bit tem) [0..<8] s = Inr s' \<and> enc_inv tem (k + 8) s'"
proof (rule res_fold_upt, goal_cases)
  case 1
  then show ?case using assms(1) by simp
next
  case (2 i t)
  have "(k + i) div 7 \<le> (k + 7) div 7" using 2(1) by (intro div_le_mono) simp
  then have "(k + i) div 7 \<le> length tem" "(k + i) div 8 < length tem"
    using assms(3,4) 2(1) by (auto simp: div_less_iff_less_mult)
  then show ?case using enc_bit_step [OF 2(2) assms(2)] by simp
qed

lemma enc_bits_fault:
  assumes "enc_inv tem k s" "length tem < 256" "k + 7 < 8 * length tem" "length tem < (k + 7) div 7"
    and "k \<le> 7 * Suc (length tem)"
  shows "res_fold (enc_bit tem) [0..<8] s = Inl OutOfBounds"
proof -
  define m where "m = 7 * Suc (length tem) - k"
  have kt: "7 * Suc (length tem) \<le> k + 7"
    using assms(4) by (simp add: Suc_le_eq [symmetric] less_eq_div_iff_mult_less_eq mult.commute)
  have km: "k + m = 7 * Suc (length tem)" using assms(5) by (simp add: m_def)
  show ?thesis
  proof (rule res_fold_upt_fault [where I = "\<lambda>i t. enc_inv tem (k + i) t" and m = m], goal_cases)
    case 1
    then show ?case using assms(1) by simp
  next
    case (2 i t)
    then have "k + i < 7 * Suc (length tem)" using km by simp
    then have "(k + i) div 7 \<le> length tem"
      using less_mult_imp_div_less [of "k + i" "Suc (length tem)" 7] by (simp add: mult.commute)
    moreover have "(k + i) div 8 < length tem"
      using \<open>k + i < 7 * Suc (length tem)\<close> kt assms(3) by (simp add: div_less_iff_less_mult mult.commute)
    ultimately show ?case using enc_bit_step [OF 2(2) assms(2)] by simp
  next
    case 3
    show ?case using kt m_def assms(3) by simp
  next
    case (4 t)
    have "(k + m) div 7 = Suc (length tem)" "(k + m) mod 7 = 0" by (simp_all add: km)
    moreover have "(k + m) div 8 < length tem"
      using kt assms(3) km by (simp add: div_less_iff_less_mult mult.commute)
    ultimately show ?case using enc_bit_step [OF 4 assms(2), of m] by simp
  qed
qed

lemma enc_inv_init:
  "enc_inv data 0 \<lparr>e_data = data, e_tester = 0, e_val2 = 0, e_bitcount = 0, e_bitloc = 0, e_bitloc2 = 0\<rparr>"
  by (simp add: enc_inv_def flushed_def)

lemma EncryptBitwise_in_bounds:
  assumes "9 \<le> length data" "length data \<le> 79"
  shows "\<exists>out. EncryptBitwise data = Inr out \<and> length out = length data \<and>
    (\<forall>q < flushed (8 * (length data - 9)). out ! q = enc_out data q)"
proof -
  let ?s = "\<lparr>e_data = data, e_tester = 0, e_val2 = 0, e_bitcount = 0, e_bitloc = 0, e_bitloc2 = 0\<rparr>"
  have "\<exists>s'. res_fold (enc_byte data) [0..<length data - 9] ?s = Inr s' \<and> enc_inv data (8 * (length data - 9)) s'"
  proof (rule res_fold_upt [where I = "\<lambda>i. enc_inv data (8 * i)"], goal_cases)
    case 1
    then show ?case using enc_inv_init by simp
  next
    case (2 i s)
    then have "8 * i + 7 < 8 * length data" "(8 * i + 7) div 7 \<le> length data"
      using assms by linarith+
    then show ?case using enc_bits [OF 2(2)] assms(2) by (simp add: enc_byte_def add.commute)
  qed
  then show ?thesis using assms(1) by (auto simp: EncryptBitwise_def enc_inv_def)
qed

lemma EncryptBitwise_out_of_bounds:
  assumes "80 \<le> length data" "length data < 256"
  shows "EncryptBitwise data = Inl OutOfBounds"
proof -
  let ?s = "\<lparr>e_data = data, e_tester = 0, e_val2 = 0, e_bitcount = 0, e_bitloc = 0, e_bitloc2 = 0\<rparr>"
  define i where "i = (7 * length data + 7) div 8"
  have "i < length data - 9" "7 * length data + 7 \<le> 8 * i + 7" "8 * i \<le> 7 * length data + 7"
    using assms unfolding i_def by linarith+
  then have i: "i < length data - 9" "7 * Suc (length data) \<le> 8 * i + 7" "8 * i \<le> 7 * Suc (length data)"
    by simp_all
  have "res_fold (enc_byte data) [0..<length data - 9] ?s = Inl OutOfBounds"
  proof (rule res_fold_upt_fault [where I = "\<lambda>i. enc_inv data (8 * i)" and m = i], goal_cases)
    case 1
    then show ?case using enc_inv_init by simp
  next
    case (2 j s)
    then have "8 * j + 7 < 8 * length data" "8 * j + 7 < Suc (length data) * 7"
      using i by simp_all
    moreover from less_mult_imp_div_less [OF this(2)] have "(8 * j + 7) div 7 \<le> length data" by simp
    ultimately show ?case using enc_bits [OF 2(2) assms(2)] by (simp add: enc_byte_def add.commute)
  next
    case 3
    show ?case by (rule i(1))
  next
    case (4 s)
    have "8 * i + 7 < 8 * length data" using i(1) by simp
    moreover have "length data < (8 * i + 7) div 7"
      using i(2) by (simp add: Suc_le_eq [symmetric] less_eq_div_iff_mult_less_eq mult.commute)
    ultimately show ?case using enc_bits_fault [OF 4 assms(2)] i(3) by (simp add: enc_byte_def)
  qed
  then show ?thesis using assms by (simp add: EncryptBitwise_def)
qed

lemma bit7_enc_out:
  assumes "\<forall>q < n. xs ! q = enc_out d q" "k div 7 < n"
  shows "bit7 xs k = bit8 d k"
proof -
  have "k mod 7 < 7" by simp
  then have "k mod 7 < 8" "7 \<noteq> k mod 7" by linarith+
  moreover have "(128 :: u8) = 2 ^ 7" by simp
  ultimately have "\<not> bit (128 :: u8) (k mod 7)" by (metis bit_exp_iff)
  then show ?thesis using assms \<open>k mod 7 < 8\<close>
    by (simp add: bit7_def enc_out_def bit_xor_iff bit_bits_upto)
qed

lemma dec_out_eq:
  assumes "\<And>j. j < 8 \<Longrightarrow> bit7 xs (8 * m + j) = bit8 d (8 * m + j)"
  shows "dec_out xs m = d ! m"
proof -
  have "dec_out xs m = bits_upto (\<lambda>j. bit (d ! m) j) 8"
    unfolding dec_out_def using assms by (intro bits_upto_cong) (simp add: bit8_def)
  then show ?thesis
    using bit_imp_le_length [of "d ! m"] by (intro bit_word_eqI) (auto simp: bit_bits_upto)
qed

section \<open>Properties\<close>

text \<open>C37: the 7-bit packing is lossless on all but the last byte it encodes: for a buffer of 10 to 72
  bytes, decoding the encoded buffer gives back its first \<open>length - 10\<close> bytes.\<close>

theorem bitwise_roundtrip:
  assumes "10 \<le> length data" "length data \<le> 72"
  shows "\<exists>enc out. EncryptBitwise data = Inr enc \<and> DecryptBitwise enc = Inr out \<and>
    length out = length data \<and> take (length data - 10) out = take (length data - 10) data"
proof -
  obtain enc where enc: "EncryptBitwise data = Inr enc" "length enc = length data"
    "\<forall>q < flushed (8 * (length data - 9)). enc ! q = enc_out data q"
    using EncryptBitwise_in_bounds [of data] assms by auto
  obtain out where out: "DecryptBitwise enc = Inr out" "length out = length data"
    "\<forall>m < length data - 9. out ! m = dec_out enc m"
    using DecryptBitwise_in_bounds [of enc] assms enc(2) by auto
  have "out ! m = data ! m" if "m < length data - 10" for m
  proof -
    have "(8 * m + j) div 7 < flushed (8 * (length data - 9))" if "j < 8" for j
      using that \<open>m < length data - 10\<close> unfolding flushed_def by linarith
    then have "dec_out enc m = data ! m"
      using enc(3) by (intro dec_out_eq bit7_enc_out) auto
    then show ?thesis using out(3) that by simp
  qed
  then have "take (length data - 10) out = take (length data - 10) data"
    using out(2) by (intro nth_equalityI) auto
  then show ?thesis using enc out by blast
qed

theorem bitwise_roundtrip_witness:
  "\<exists>enc out. EncryptBitwise [1, 2, 3, 4, 5, 6, 7, 8, 9, 10, 11, 12] = Inr enc \<and>
     DecryptBitwise enc = Inr out \<and> take 2 out = [1, 2]"
  using bitwise_roundtrip [of "[1, 2, 3, 4, 5, 6, 7, 8, 9, 10, 11, 12]"] by (auto simp: numeral_2_eq_2)

text \<open>Where the packing leaves the buffer: encoding is confined to it for lengths 9 to 79 and not for
  80 to 255, decoding is confined to it for lengths 9 to 72 and for no other length.\<close>

theorem bitwise_bounds:
  "(length data < 256 \<longrightarrow>
     ((\<exists>out. EncryptBitwise data = Inr out) \<longleftrightarrow> 9 \<le> length data \<and> length data \<le> 79)) \<and>
   ((\<exists>out. DecryptBitwise data = Inr out) \<longleftrightarrow> 9 \<le> length data \<and> length data \<le> 72)"
proof (intro conjI impI)
  assume "length data < 256"
  then show "(\<exists>out. EncryptBitwise data = Inr out) \<longleftrightarrow> 9 \<le> length data \<and> length data \<le> 79"
    using EncryptBitwise_in_bounds [of data] EncryptBitwise_out_of_bounds [of data]
    by (cases "length data < 9"; cases "length data \<le> 79") (auto simp: EncryptBitwise_def)
next
  show "(\<exists>out. DecryptBitwise data = Inr out) \<longleftrightarrow> 9 \<le> length data \<and> length data \<le> 72"
    using DecryptBitwise_in_bounds [of data] DecryptBitwise_out_of_bounds [of data]
    by (cases "length data < 9"; cases "length data \<le> 72") (auto simp: DecryptBitwise_def)
qed

theorem bitwise_bounds_witness:
  "(\<exists>out. EncryptBitwise (replicate 78 0) = Inr out) \<and> \<not> (\<exists>out. DecryptBitwise (replicate 78 0) = Inr out)"
  using bitwise_bounds [of "replicate 78 0"] by simp

text \<open>The byte before the last nine really is lost: two buffers that differ in it decode to the same.\<close>

lemma bitwise_last_byte_lost:
  "rbind (EncryptBitwise (0x80 # replicate 9 0)) DecryptBitwise = Inr (replicate 10 0)"
  "rbind (EncryptBitwise (replicate 10 0)) DecryptBitwise = Inr (replicate 10 0)"
  by code_simp+

end
