(* ===== verification/Update_Mask.thy ===== *)
theory Update_Mask
  imports Nox_Prelude
begin

text \<open>
  The change mask of an object's update fields: class \<open>UpdateMask\<close> of
  \<open>src/src/game/UpdateMask.h\<close>. The mask is an array of \<open>uint32\<close> blocks on the heap (\<open>None\<close> is the
  null pointer) whose single bits the code reaches through a byte pointer; \<open>mask_byte\<close> and
  \<open>set_mask_byte\<close> are those byte accesses. The abstract value of a mask is the set of its bit
  numbers (\<open>mask_set\<close>).
\<close>

section \<open>State and operations\<close>

record update_mask =
  mCount :: u32
  mBlocks :: u32
  mUpdateMask :: "u32 list option"

definition new_mask :: update_mask where
  "new_mask = \<lparr>mCount = 0, mBlocks = 0, mUpdateMask = None\<rparr>"

definition mask_byte :: "u32 list \<Rightarrow> nat \<Rightarrow> u8" where
  "mask_byte bl i = ucast (drop_bit (8 * (i mod 4)) (bl ! (i div 4)))"

definition set_mask_byte :: "u32 list \<Rightarrow> nat \<Rightarrow> u8 \<Rightarrow> u32 list" where
  "set_mask_byte bl i v =
     bl[i div 4 := (bl ! (i div 4) AND NOT (push_bit (8 * (i mod 4)) 0xFF))
                   OR push_bit (8 * (i mod 4)) (ucast v)]"

definition with_byte :: "update_mask \<Rightarrow> nat \<Rightarrow> (u32 list \<Rightarrow> 'a) \<Rightarrow> 'a res" where
  "with_byte m i f =
     (case mUpdateMask m of None \<Rightarrow> Inl NullDeref
      | Some bl \<Rightarrow> if i < 4 * length bl then Inr (f bl) else Inl OutOfBounds)"

definition SetBit :: "u32 \<Rightarrow> update_mask \<Rightarrow> update_mask res" where
  "SetBit index m =
     (let i = unat (drop_bit 3 index)
      in with_byte m i (\<lambda>bl. m\<lparr>mUpdateMask :=
           Some (set_mask_byte bl i (mask_byte bl i OR push_bit (unat (index AND 0x7)) 1))\<rparr>))"

definition UnsetBit :: "u32 \<Rightarrow> update_mask \<Rightarrow> update_mask res" where
  "UnsetBit index m =
     (let i = unat (drop_bit 3 index)
      in with_byte m i (\<lambda>bl. m\<lparr>mUpdateMask :=
           Some (set_mask_byte bl i (mask_byte bl i AND (0xff XOR push_bit (unat (index AND 0x7)) 1)))\<rparr>))"

definition GetBit :: "u32 \<Rightarrow> update_mask \<Rightarrow> bool res" where
  "GetBit index m =
     (let i = unat (drop_bit 3 index)
      in with_byte m i (\<lambda>bl. mask_byte bl i AND push_bit (unat (index AND 0x7)) 1 \<noteq> 0))"

definition GetBlockCount :: "update_mask \<Rightarrow> u32" where
  "GetBlockCount m = mBlocks m"

definition GetLength :: "update_mask \<Rightarrow> u32" where
  "GetLength m = push_bit 2 (mBlocks m)"

definition GetCount :: "update_mask \<Rightarrow> u32" where
  "GetCount m = mCount m"

definition SetCount :: "u32 \<Rightarrow> update_mask \<Rightarrow> update_mask" where
  "SetCount valuesCount m =
     (let blocks = (valuesCount + 31) div 32
      in m\<lparr>mCount := valuesCount, mBlocks := blocks, mUpdateMask := Some (replicate (unat blocks) 0)\<rparr>)"

definition mask_clear :: "update_mask \<Rightarrow> update_mask" where
  "mask_clear m =
     (case mUpdateMask m of None \<Rightarrow> m
      | Some bl \<Rightarrow> m\<lparr>mUpdateMask := Some (replicate (unat (mBlocks m)) 0 @ drop (unat (mBlocks m)) bl)\<rparr>)"

text \<open>The assignment operator copies as many bytes as the new block count asks for.\<close>

definition mask_assign :: "update_mask \<Rightarrow> update_mask \<Rightarrow> update_mask res" where
  "mask_assign m other =
     (let m = SetCount (mCount other) m; n = unat (mBlocks m)
      in if n = 0 then Inr m
         else case mUpdateMask other of None \<Rightarrow> Inl NullDeref
         | Some bl \<Rightarrow> if n \<le> length bl then Inr (m\<lparr>mUpdateMask := Some (take n bl)\<rparr>) else Inl OutOfBounds)"

text \<open>The loops of \<open>&=\<close> and \<open>|=\<close> run over the blocks of the left mask.\<close>

definition mask_loop :: "(u32 \<Rightarrow> u32 \<Rightarrow> u32) \<Rightarrow> update_mask \<Rightarrow> update_mask \<Rightarrow> update_mask res" where
  "mask_loop f m other =
     (if \<not> mCount other \<le> mCount m then Inl AssertFail
      else if mBlocks m = 0 then Inr m
      else case mUpdateMask m of None \<Rightarrow> Inl NullDeref
      | Some xs \<Rightarrow> (case mUpdateMask other of None \<Rightarrow> Inl NullDeref
        | Some ys \<Rightarrow> let n = unat (mBlocks m)
          in if n \<le> length xs \<and> n \<le> length ys
             then Inr (m\<lparr>mUpdateMask := Some (map2 f (take n xs) (take n ys) @ drop n xs)\<rparr>)
             else Inl OutOfBounds))"

definition mask_and_assign :: "update_mask \<Rightarrow> update_mask \<Rightarrow> update_mask res" where
  "mask_and_assign m other = mask_loop (AND) m other"

definition mask_or_assign :: "update_mask \<Rightarrow> update_mask \<Rightarrow> update_mask res" where
  "mask_or_assign m other = mask_loop (OR) m other"

definition mask_and :: "update_mask \<Rightarrow> update_mask \<Rightarrow> update_mask res" where
  "mask_and m other =
     (if \<not> mCount other \<le> mCount m then Inl AssertFail
      else rbind (mask_assign new_mask m) (\<lambda>newmask. mask_and_assign newmask other))"

definition mask_or :: "update_mask \<Rightarrow> update_mask \<Rightarrow> update_mask res" where
  "mask_or m other =
     (if \<not> mCount other \<le> mCount m then Inl AssertFail
      else rbind (mask_assign new_mask m) (\<lambda>newmask. mask_or_assign newmask other))"

section \<open>Invariant and abstraction\<close>

text \<open>A mask on which \<open>SetCount\<close> was called.\<close>

definition mask_ok :: "update_mask \<Rightarrow> bool" where
  "mask_ok m \<longleftrightarrow> mBlocks m = (mCount m + 31) div 32 \<and>
     (\<exists>bl. mUpdateMask m = Some bl \<and> length bl = unat (mBlocks m))"

definition mask_set :: "update_mask \<Rightarrow> nat set" where
  "mask_set m = {n. n < 32 * unat (mBlocks m) \<and> bit (the (mUpdateMask m) ! (n div 32)) (n mod 32)}"

definition mask_size :: "update_mask \<Rightarrow> nat" where
  "mask_size m = 32 * unat (mBlocks m)"

lemma mask_okE:
  assumes "mask_ok m"
  obtains bl where "mUpdateMask m = Some bl" "length bl = unat (mBlocks m)"
  using assms by (auto simp: mask_ok_def)

lemma index_parts:
  "unat (drop_bit 3 index) = unat index div 8" "unat (index AND 7) = unat index mod 8" for index :: u32
proof -
  have m: "(7 :: u32) = mask 3" by (simp add: mask_eq_exp_minus_1)
  have "unat (take_bit 3 index) = take_bit 3 (unat index)" by (rule unsigned_take_bit_eq)
  then show "unat (index AND 7) = unat index mod 8"
    unfolding m take_bit_eq_mask [symmetric] by (simp add: take_bit_eq_mod)
  have "unat (drop_bit 3 index) = drop_bit 3 (take_bit 32 (unat index))"
    unfolding unsigned_drop_bit_eq by simp
  also have "take_bit 32 (unat index) = unat index"
    using unsigned_less [of index] by (simp add: take_bit_nat_eq_self_iff)
  finally show "unat (drop_bit 3 index) = unat index div 8" by (simp add: drop_bit_eq_div)
qed

lemma byte_index: "n div 8 div 4 = n div 32" "8 * (n div 8 mod 4) + n mod 8 = n mod 32"
  "n div 8 < 4 * k \<longleftrightarrow> n < 32 * k" for n k :: nat
proof -
  show "n div 8 div 4 = n div 32" by (simp flip: div_mult2_eq)
  show "8 * (n div 8 mod 4) + n mod 8 = n mod 32"
    using mod_mult2_eq [of n 8 4] by simp
  show "n div 8 < 4 * k \<longleftrightarrow> n < 32 * k" by (simp add: div_less_iff_less_mult mult.commute mult.assoc)
qed

lemma bit_mask_byte:
  "j < 8 \<Longrightarrow> bit (mask_byte bl i) j \<longleftrightarrow> bit (bl ! (i div 4)) (8 * (i mod 4) + j)"
  by (simp add: mask_byte_def bit_simps)

lemma bit_set_mask_byte:
  assumes "i < 4 * length bl" "k < length bl" "j < 32"
  shows "bit (set_mask_byte bl i v ! k) j \<longleftrightarrow>
    (if k = i div 4 \<and> 8 * (i mod 4) \<le> j \<and> j < 8 * (i mod 4) + 8 then bit v (j - 8 * (i mod 4))
     else bit (bl ! k) j)"
proof -
  have ff: "bit (0xFF :: u32) n \<longleftrightarrow> n < 8" for n
  proof -
    have m: "(0xFF :: u32) = mask 8" by (simp add: mask_eq_exp_minus_1)
    show ?thesis unfolding m bit_mask_iff by auto
  qed
  have v: "bit v n \<Longrightarrow> n < 8" for n using bit_imp_le_length [of v n] by simp
  have uv: "bit (ucast v :: u32) n \<longleftrightarrow> n < 32 \<and> bit v n" for n by (simp add: bit_simps)
  have "bit ((bl ! k AND NOT (push_bit (8 * (i mod 4)) 0xFF)) OR push_bit (8 * (i mod 4)) (ucast v)) j \<longleftrightarrow>
    (if 8 * (i mod 4) \<le> j \<and> j < 8 * (i mod 4) + 8 then bit v (j - 8 * (i mod 4)) else bit (bl ! k) j)"
    unfolding bit_or_iff bit_and_iff bit_not_iff bit_push_bit_iff ff uv
    using v [of "j - 8 * (i mod 4)"] assms(3) by auto
  then show ?thesis using assms by (auto simp: set_mask_byte_def nth_list_update)
qed

lemma with_byte_ok:
  fixes index :: u32
  assumes "mask_ok m" "mUpdateMask m = Some bl"
  shows "with_byte m (unat index div 8) f =
    (if unat index < mask_size m then Inr (f bl) else Inl OutOfBounds)"
  using assms byte_index(3) [of "unat index"]
  by (auto simp: mask_ok_def with_byte_def mask_size_def)

lemma one_bit_effect:
  fixes index :: u32 and v :: u8
  assumes ok: "mask_ok m" "mUpdateMask m = Some bl" and lt: "unat index < mask_size m"
    and v: "\<And>j. j < 8 \<Longrightarrow> bit v j \<longleftrightarrow>
      (if j = unat index mod 8 then b else bit (mask_byte bl (unat index div 8)) j)"
  shows "mask_ok (m\<lparr>mUpdateMask := Some (set_mask_byte bl (unat index div 8) v)\<rparr>)"
    and "mask_set (m\<lparr>mUpdateMask := Some (set_mask_byte bl (unat index div 8) v)\<rparr>) =
      (if b then insert (unat index) (mask_set m) else mask_set m - {unat index})"
proof -
  let ?x = "unat index"
  have len: "length bl = unat (mBlocks m)" using ok by (auto simp: mask_ok_def)
  show "mask_ok (m\<lparr>mUpdateMask := Some (set_mask_byte bl (?x div 8) v)\<rparr>)"
    using ok by (auto simp: mask_ok_def set_mask_byte_def)
  have i: "?x div 8 < 4 * length bl" using lt byte_index(3) len by (simp add: mask_size_def)
  have "bit (set_mask_byte bl (?x div 8) v ! (n div 32)) (n mod 32) \<longleftrightarrow>
      (if n = ?x then b else bit (bl ! (n div 32)) (n mod 32))" if "n < 32 * length bl" for n
  proof (cases "n div 8 = ?x div 8")
    case True
    then have same: "n div 32 = ?x div 8 div 4" "n mod 32 = 8 * (?x div 8 mod 4) + n mod 8"
      using byte_index(1,2) [of n] by auto
    have "n = ?x \<longleftrightarrow> n mod 8 = ?x mod 8" using True by (metis div_mult_mod_eq)
    moreover have lt: "n div 32 < length bl" using that by (simp add: div_less_iff_less_mult mult.commute)
    have c: "n div 32 = ?x div 8 div 4 \<and> 8 * (?x div 8 mod 4) \<le> n mod 32 \<and>
        n mod 32 < 8 * (?x div 8 mod 4) + 8"
      and d: "n mod 32 - 8 * (?x div 8 mod 4) = n mod 8" using same by simp_all
    have "n mod 32 < 32" by simp
    note e = bit_set_mask_byte [OF i lt this, of v]
    have "bit (set_mask_byte bl (?x div 8) v ! (n div 32)) (n mod 32) \<longleftrightarrow> bit v (n mod 8)"
      unfolding e if_P [OF c] d ..
    moreover have "bit (mask_byte bl (?x div 8)) (n mod 8) \<longleftrightarrow> bit (bl ! (n div 32)) (n mod 32)"
      unfolding same by (rule bit_mask_byte) simp
    ultimately show ?thesis using v [of "n mod 8"] by simp
  next
    case False
    then have "n \<noteq> ?x" by auto
    have lt: "n div 32 < length bl" using that by (simp add: div_less_iff_less_mult mult.commute)
    have c: "\<not> (n div 32 = ?x div 8 div 4 \<and> 8 * (?x div 8 mod 4) \<le> n mod 32 \<and>
        n mod 32 < 8 * (?x div 8 mod 4) + 8)"
    proof
      assume *: "n div 32 = ?x div 8 div 4 \<and> 8 * (?x div 8 mod 4) \<le> n mod 32 \<and>
        n mod 32 < 8 * (?x div 8 mod 4) + 8"
      have slot: "8 * b \<le> 8 * a + r \<Longrightarrow> 8 * a + r < 8 * b + 8 \<Longrightarrow> r < 8 \<Longrightarrow> a = b" for a b r :: nat
        by arith
      have "n div 8 mod 4 = ?x div 8 mod 4"
        by (rule slot [of _ _ "n mod 8"]) (use * in \<open>simp_all add: byte_index(2)\<close>)
      moreover have "n div 8 div 4 = ?x div 8 div 4" using * byte_index(1) [of n] by simp
      ultimately show False using False by (metis div_mult_mod_eq)
    qed
    have "n mod 32 < 32" by simp
    note e = bit_set_mask_byte [OF i lt this, of v]
    show ?thesis unfolding e if_not_P [OF c] if_not_P [OF \<open>n \<noteq> ?x\<close>] ..
  qed
  then show "mask_set (m\<lparr>mUpdateMask := Some (set_mask_byte bl (?x div 8) v)\<rparr>) =
      (if b then insert ?x (mask_set m) else mask_set m - {?x})"
    using lt len ok(2) by (cases b) (auto simp: mask_set_def mask_size_def split: if_splits)
qed

text \<open>Setting, clearing and testing one bit of a mask that \<open>SetCount\<close> prepared.\<close>

lemma bit_or_one: "j < 8 \<Longrightarrow> bit (x OR push_bit i 1) j \<longleftrightarrow> (if j = i then True else bit x j)" for x :: u8
  by (auto simp: bit_simps)

lemma bit_and_clear:
  fixes x :: u8
  assumes "j < 8"
  shows "bit (x AND (0xff XOR push_bit i 1)) j \<longleftrightarrow> (if j = i then False else bit x j)"
proof -
  have m: "(0xff :: u8) = mask 8" by (simp add: mask_eq_exp_minus_1)
  show ?thesis
    unfolding m bit_and_iff bit_xor_iff bit_mask_iff bit_push_bit_iff bit_1_iff using assms by auto
qed

lemma SetBit_ok:
  assumes "mask_ok m"
  shows "if unat index < mask_size m
    then \<exists>m'. SetBit index m = Inr m' \<and> mask_ok m' \<and> mask_set m' = insert (unat index) (mask_set m) \<and>
      mCount m' = mCount m \<and> mBlocks m' = mBlocks m
    else SetBit index m = Inl OutOfBounds"
proof -
  obtain bl where bl: "mUpdateMask m = Some bl" using assms by (rule mask_okE)
  have v: "bit (mask_byte bl (unat index div 8) OR push_bit (unat index mod 8) 1) j \<longleftrightarrow>
    (if j = unat index mod 8 then True else bit (mask_byte bl (unat index div 8)) j)" if "j < 8" for j
    using bit_or_one [OF that] .
  note eff = one_bit_effect [OF assms bl _ v]
  show ?thesis
    by (cases "unat index < mask_size m")
      (simp_all add: SetBit_def index_parts Let_def with_byte_ok [OF assms bl] eff [simplified])
qed

lemma UnsetBit_ok:
  assumes "mask_ok m"
  shows "if unat index < mask_size m
    then \<exists>m'. UnsetBit index m = Inr m' \<and> mask_ok m' \<and> mask_set m' = mask_set m - {unat index} \<and>
      mCount m' = mCount m \<and> mBlocks m' = mBlocks m
    else UnsetBit index m = Inl OutOfBounds"
proof -
  obtain bl where bl: "mUpdateMask m = Some bl" using assms by (rule mask_okE)
  have v: "bit (mask_byte bl (unat index div 8) AND (0xff XOR push_bit (unat index mod 8) 1)) j \<longleftrightarrow>
    (if j = unat index mod 8 then False else bit (mask_byte bl (unat index div 8)) j)" if "j < 8" for j
    using bit_and_clear [OF that] .
  note eff = one_bit_effect [OF assms bl _ v]
  show ?thesis
    by (cases "unat index < mask_size m")
      (simp_all add: UnsetBit_def index_parts Let_def with_byte_ok [OF assms bl] eff [simplified])
qed

lemma GetBit_ok:
  assumes "mask_ok m"
  shows "GetBit index m =
    (if unat index < mask_size m then Inr (unat index \<in> mask_set m) else Inl OutOfBounds)"
proof -
  obtain bl where bl: "mUpdateMask m = Some bl" using assms by (rule mask_okE)
  have "bit (mask_byte bl (unat index div 8)) (unat index mod 8) \<longleftrightarrow>
      bit (bl ! (unat index div 32)) (unat index mod 32)"
    using byte_index(1,2) [of "unat index"] by (simp add: bit_mask_byte)
  then show ?thesis
    using bl
    by (simp add: with_byte_ok [OF assms bl] GetBit_def index_parts Let_def and_exp_eq_0_iff_not_bit mask_set_def mask_size_def)
qed

lemma SetCount_ok: "mask_ok (SetCount n m)" "mask_set (SetCount n m) = {}"
  "mCount (SetCount n m) = n" "mBlocks (SetCount n m) = (n + 31) div 32"
  by (auto simp: SetCount_def mask_ok_def mask_set_def Let_def)

text \<open>The bit numbers below the count fit, unless the rounding of the count wraps.\<close>

lemma SetCount_covers:
  assumes "unat n + 31 < 2 ^ 32"
  shows "unat n \<le> mask_size (SetCount n m)" "mask_size (SetCount n m) < unat n + 32"
proof -
  have "unat (n + 31) = unat n + 31" using assms by (simp add: unat_word_ariths)
  then have "mask_size (SetCount n m) = 32 * ((unat n + 31) div 32)"
    by (simp add: mask_size_def SetCount_ok unat_div)
  then show "unat n \<le> mask_size (SetCount n m)" "mask_size (SetCount n m) < unat n + 32" by linarith+
qed

lemma SetCount_wraps: "unat n + 31 \<ge> 2 ^ 32 \<Longrightarrow> mask_size (SetCount n m) = 0"
proof -
  assume n: "unat n + 31 \<ge> 2 ^ 32"
  have "unat n < 2 ^ 32" using unsigned_less [of n] by simp
  then have "unat (n + 31) = unat n + 31 - 2 ^ 32"
    using n by (simp add: unat_word_ariths) (simp add: mod_if)
  then have "unat (n + 31) div 32 = 0" using \<open>unat n < 2 ^ 32\<close> by simp
  then show ?thesis by (simp add: mask_size_def SetCount_ok unat_div)
qed

lemma mask_clear_ok:
  assumes "mask_ok m"
  shows "mask_ok (mask_clear m) \<and> mask_set (mask_clear m) = {} \<and> mask_size (mask_clear m) = mask_size m"
  using assms by (auto simp: mask_clear_def mask_ok_def mask_set_def mask_size_def)

lemma mask_assign_ok:
  assumes "mask_ok other"
  shows "\<exists>m'. mask_assign m other = Inr m' \<and> mask_ok m' \<and> mask_set m' = mask_set other \<and>
    mCount m' = mCount other \<and> mBlocks m' = mBlocks other"
  using assms
  by (auto simp: mask_assign_def mask_ok_def mask_set_def SetCount_def Let_def)

lemma mask_loop_ok:
  assumes "mask_ok m" "mask_ok other" "mCount other \<le> mCount m"
    and f: "\<And>x y i. bit (f x y) i \<longleftrightarrow> g (bit x i) (bit y i)"
  shows "if mBlocks m \<le> mBlocks other
    then \<exists>m'. mask_loop f m other = Inr m' \<and> mask_ok m' \<and> mCount m' = mCount m \<and>
      mBlocks m' = mBlocks m \<and>
      mask_set m' = {n. n < mask_size m \<and> g (n \<in> mask_set m) (n \<in> mask_set other)}
    else mask_loop f m other = Inl OutOfBounds"
proof -
  obtain xs where xs: "mUpdateMask m = Some xs" "length xs = unat (mBlocks m)"
    using assms(1) by (rule mask_okE)
  obtain ys where ys: "mUpdateMask other = Some ys" "length ys = unat (mBlocks other)"
    using assms(2) by (rule mask_okE)
  show ?thesis
  proof (cases "mBlocks m \<le> mBlocks other")
    case True
    then have le: "unat (mBlocks m) \<le> unat (mBlocks other)" by (simp add: word_le_nat_alt)
    let ?m = "m\<lparr>mUpdateMask := Some (map2 f xs (take (unat (mBlocks m)) ys))\<rparr>"
    have "mask_loop f m other = Inr ?m"
    proof (cases "mBlocks m = 0")
      case True
      then show ?thesis using xs assms(3) by (simp add: mask_loop_def)
    next
      case False
      then show ?thesis using xs ys le assms(3) by (simp add: mask_loop_def Let_def)
    qed
    moreover have "mask_ok ?m" using assms(1) ys le xs by (simp add: mask_ok_def)
    moreover have "mask_set ?m = {n. n < mask_size m \<and> g (n \<in> mask_set m) (n \<in> mask_set other)}"
    proof -
      have "n div 32 < unat (mBlocks m)" if "n < 32 * unat (mBlocks m)" for n
        using that by (simp add: div_less_iff_less_mult mult.commute)
      then show ?thesis using xs ys le
        by (auto simp: mask_set_def mask_size_def f)
    qed
    ultimately show ?thesis using True by auto
  next
    case False
    then have "mBlocks m \<noteq> 0" "\<not> unat (mBlocks m) \<le> unat (mBlocks other)" by (auto simp: word_le_nat_alt)
    then show ?thesis using False xs ys assms(3) by (simp add: mask_loop_def Let_def)
  qed
qed

lemma mask_set_bound: "n \<in> mask_set m \<Longrightarrow> n < mask_size m"
  by (simp add: mask_set_def mask_size_def)

section \<open>Properties\<close>

text \<open>C36: the mask implements a set of bit numbers: for a mask with room for \<open>index\<close>, setting a bit
  inserts it, clearing removes it, testing asks for it, each without touching any other bit or the
  size; an index past the last block leaves the array.\<close>

theorem update_mask_refines_set:
  assumes "mask_ok m"
  shows "if unat index < mask_size m
    then (\<exists>m'. SetBit index m = Inr m' \<and> mask_ok m' \<and> mask_size m' = mask_size m \<and>
            mask_set m' = insert (unat index) (mask_set m)) \<and>
         (\<exists>m'. UnsetBit index m = Inr m' \<and> mask_ok m' \<and> mask_size m' = mask_size m \<and>
            mask_set m' = mask_set m - {unat index}) \<and>
         GetBit index m = Inr (unat index \<in> mask_set m)
    else SetBit index m = Inl OutOfBounds \<and> UnsetBit index m = Inl OutOfBounds \<and>
         GetBit index m = Inl OutOfBounds"
  using SetBit_ok [OF assms, of index] UnsetBit_ok [OF assms, of index] GetBit_ok [OF assms, of index]
  by (auto simp: mask_size_def)

theorem update_mask_refines_set_witness:
  "\<exists>m'. SetBit 37 (SetCount 40 new_mask) = Inr m' \<and> mask_set m' = {37}"
proof -
  have "unat (37 :: u32) < mask_size (SetCount 40 new_mask)"
    by (simp add: mask_size_def SetCount_ok)
  then show ?thesis
    using update_mask_refines_set [OF SetCount_ok(1), of 37 40 new_mask] by (auto simp: SetCount_ok)
qed

text \<open>Union and intersection of masks: with the same number of blocks \<open>|\<close> and \<open>&\<close> return a new
  mask with the union and the intersection of the two sets. With fewer blocks on the right, which
  the assertion on the counts lets through, both read past the end of the right operand's array.\<close>

theorem update_mask_or_and:
  assumes "mask_ok m" "mask_ok other" "mCount other \<le> mCount m"
  shows "if mBlocks m = mBlocks other
    then (\<exists>r. mask_or m other = Inr r \<and> mask_ok r \<and> mask_set r = mask_set m \<union> mask_set other) \<and>
         (\<exists>r. mask_and m other = Inr r \<and> mask_ok r \<and> mask_set r = mask_set m \<inter> mask_set other)
    else mBlocks other < mBlocks m \<longrightarrow>
         mask_or m other = Inl OutOfBounds \<and> mask_and m other = Inl OutOfBounds"
proof -
  obtain c where c: "mask_assign new_mask m = Inr c" "mask_ok c" "mask_set c = mask_set m"
    "mCount c = mCount m" "mBlocks c = mBlocks m"
    using mask_assign_ok [OF assms(1)] by blast
  have le: "mCount other \<le> mCount c" using assms(3) c(4) by simp
  have u: "{n. n < mask_size c \<and> (n \<in> mask_set c \<or> n \<in> mask_set other)} = mask_set m \<union> mask_set other"
    if "mBlocks m = mBlocks other"
    using that c mask_set_bound [of _ m] mask_set_bound [of _ other] by (auto simp: mask_size_def)
  have i: "{n. n < mask_size c \<and> (n \<in> mask_set c \<and> n \<in> mask_set other)} = mask_set m \<inter> mask_set other"
    using c mask_set_bound [of _ m] by (auto simp: mask_size_def)
  show ?thesis
    using mask_loop_ok [OF c(2) assms(2) le, of "(OR)" "(\<or>)"]
      mask_loop_ok [OF c(2) assms(2) le, of "(AND)" "(\<and>)"] assms(3) c u i
    by (auto simp: mask_or_def mask_and_def mask_or_assign_def mask_and_assign_def bit_simps split: if_splits)
qed

theorem update_mask_or_and_witness:
  "mask_or (SetCount 64 new_mask) (SetCount 32 new_mask) = Inl OutOfBounds \<and>
   (\<exists>r. mask_or (SetCount 64 new_mask) (SetCount 40 new_mask) = Inr r \<and> mask_set r = {})"
proof
  show "mask_or (SetCount 64 new_mask) (SetCount 32 new_mask) = Inl OutOfBounds"
    using update_mask_or_and [OF SetCount_ok(1) SetCount_ok(1), of 32 new_mask 64 new_mask]
    by (simp add: SetCount_ok)
  show "\<exists>r. mask_or (SetCount 64 new_mask) (SetCount 40 new_mask) = Inr r \<and> mask_set r = {}"
    using update_mask_or_and [OF SetCount_ok(1) SetCount_ok(1), of 40 new_mask 64 new_mask]
    by (auto simp: SetCount_ok)
qed

end
