(* ===== verification/Packed_Guid.thy ===== *)
theory Packed_Guid
  imports Byte_Buffer
begin

text \<open>
  Packed object identifiers: \<open>readGUID\<close> and \<open>writeGUID\<close> of \<open>src/src/game/tools.cpp\<close>. A 64-bit
  identifier is written as a mask byte followed by its nonzero bytes, low byte first. The writer
  fills a local array of eight bytes, mask included.
\<close>

section \<open>Operations\<close>

primrec guid_loop :: "nat \<Rightarrow> nat \<Rightarrow> u8 \<Rightarrow> u8 \<Rightarrow> u64 \<Rightarrow> byte_buffer \<Rightarrow> (u64 \<times> byte_buffer) res" where
  "guid_loop 0 i guidmark shiftdata guid data = Inr (guid, data)"
| "guid_loop (Suc n) i guidmark shiftdata guid data =
     (if guidmark AND shiftdata \<noteq> 0
      then rbind (get_u8 data) (\<lambda>(b, data).
           guid_loop n (i + 1) guidmark (push_bit 1 shiftdata) (guid OR push_bit (i * 8) (ucast b)) data)
      else guid_loop n (i + 1) guidmark (push_bit 1 shiftdata) guid data)"

definition readGUID :: "byte_buffer \<Rightarrow> (u64 \<times> byte_buffer) res" where
  "readGUID data = rbind (get_u8 data) (\<lambda>(guidmark, data). guid_loop 8 0 guidmark 0x1 0 data)"

text \<open>One of the eight conditionals of the writer, for byte \<open>i\<close> of the identifier.\<close>

definition guid_put :: "nat \<Rightarrow> u8 \<Rightarrow> u8 \<times> bytes \<times> nat \<Rightarrow> (u8 \<times> bytes \<times> nat) res" where
  "guid_put i t s =
     (let (RAWmask, PackedGuid, j) = s
      in if t \<noteq> 0
         then if j < 8 then Inr (RAWmask OR push_bit i 1, PackedGuid[j := t], j + 1) else Inl OutOfBounds
         else Inr s)"

definition pack_guid :: "u64 \<Rightarrow> bytes res" where
  "pack_guid guid =
     rbind (res_fold (\<lambda>i. guid_put i (le_bytes 8 guid ! i)) [0..<8] (0, replicate 8 0, 1))
       (\<lambda>(RAWmask, PackedGuid, j). Inr (take j (PackedGuid[0 := RAWmask])))"

definition writeGUID :: "u64 \<Rightarrow> byte_buffer \<Rightarrow> byte_buffer res" where
  "writeGUID guid data = rbind (pack_guid guid) (\<lambda>packed. append_bytes packed data)"

section \<open>The packed form\<close>

definition nonzero :: "bytes \<Rightarrow> bytes" where
  "nonzero bs = filter (\<lambda>b. b \<noteq> 0) bs"

definition guid_mask :: "bytes \<Rightarrow> nat \<Rightarrow> u8 \<Rightarrow> bool" where
  "guid_mask bs n m \<longleftrightarrow> (\<forall>i < 8. bit m i \<longleftrightarrow> i < n \<and> bs ! i \<noteq> 0)"

lemma guid_loop_reads:
  assumes "buf_ok data" "length bs = n" "i + n = 8"
    and "\<And>k. k < n \<Longrightarrow> bit mark (i + k) \<longleftrightarrow> bs ! k \<noteq> 0"
    and "remaining data = nonzero bs @ rest"
  shows "guid_loop n i mark (push_bit i 1) guid data =
    Inr (guid OR push_bit (8 * i) (le_word bs), advanced (length (nonzero bs)) data)"
  using assms
proof (induction n arbitrary: i bs guid data)
  case 0
  then show ?case by (simp add: nonzero_def)
next
  case (Suc n)
  then obtain c cs where bs: "bs = c # cs" "length cs = n" by (cases bs) auto
  have sh: "push_bit 1 (push_bit i 1) = push_bit (i + 1) (1 :: u8)" by simp
  have c: "mark AND push_bit i 1 \<noteq> 0 \<longleftrightarrow> c \<noteq> 0"
    using Suc.prems(4) [of 0] bs by (simp add: and_exp_eq_0_iff_not_bit)
  have bits: "bit mark (i + 1 + k) \<longleftrightarrow> cs ! k \<noteq> 0" if "k < n" for k
    using Suc.prems(4) [of "Suc k"] that bs by simp
  have shift: "push_bit (8 * i) (le_word bs) =
      push_bit (8 * i) (ucast c) OR push_bit (8 * (i + 1)) (le_word cs :: u64)"
    by (simp add: bs push_bit_or add.commute)
  show ?case
  proof (cases "c = 0")
    case True
    then have "remaining data = nonzero cs @ rest" using Suc.prems(5) bs by (simp add: nonzero_def)
    then have "guid_loop n (i + 1) mark (push_bit (i + 1) 1) guid data =
        Inr (guid OR push_bit (8 * (i + 1)) (le_word cs), advanced (length (nonzero cs)) data)"
      using Suc.prems bits bs by (intro Suc.IH) auto
    then show ?thesis using c True shift sh by (simp add: bs nonzero_def mult.commute)
  next
    case False
    then have rem: "remaining data = le_bytes 1 c @ nonzero cs @ rest"
      using Suc.prems(5) bs by (simp add: nonzero_def)
    then have rd: "get_u8 data = Inr (c, advanced 1 data)"
      using Suc.prems(1) by (intro get_word_encs)
    have "guid_loop n (i + 1) mark (push_bit (i + 1) 1) (guid OR push_bit (i * 8) (ucast c)) (advanced 1 data) =
        Inr ((guid OR push_bit (i * 8) (ucast c)) OR push_bit (8 * (i + 1)) (le_word cs),
          advanced (length (nonzero cs)) (advanced 1 data))"
      using Suc.prems bits bs rem by (intro Suc.IH) auto
    then show ?thesis using c False shift sh rd
      by (simp add: bs nonzero_def or.assoc mult.commute)
  qed
qed

text \<open>The writer's state after \<open>i\<close> conditionals.\<close>

definition pack_inv :: "bytes \<Rightarrow> nat \<Rightarrow> u8 \<times> bytes \<times> nat \<Rightarrow> bool" where
  "pack_inv bs i s \<longleftrightarrow> (case s of (m, p, j) \<Rightarrow>
     length p = 8 \<and> j = 1 + length (nonzero (take i bs)) \<and> j \<le> 8 \<and>
     (\<forall>v. take j (p[0 := v]) = v # nonzero (take i bs)) \<and> guid_mask bs i m)"

lemma pack_step:
  assumes "pack_inv bs i s" "i < 8" "length bs = 8"
  shows "if length (nonzero (take (Suc i) bs)) < 8
    then \<exists>s'. guid_put i (bs ! i) s = Inr s' \<and> pack_inv bs (Suc i) s'
    else guid_put i (bs ! i) s = Inl OutOfBounds"
proof -
  obtain m p j where s: "s = (m, p, j)" by (cases s)
  have tk: "take (Suc i) bs = take i bs @ [bs ! i]" using assms(2,3) by (simp add: take_Suc_conv_app_nth)
  have inv: "length p = 8" "j = 1 + length (nonzero (take i bs))" "j \<le> 8"
    "\<And>v. take j (p[0 := v]) = v # nonzero (take i bs)" "guid_mask bs i m"
    using assms(1) by (auto simp: pack_inv_def s)
  show ?thesis
  proof (cases "bs ! i = 0")
    case True
    have "guid_mask bs (Suc i) m" using inv(5) True by (auto simp: guid_mask_def less_Suc_eq)
    then have "pack_inv bs (Suc i) s" using inv True tk by (auto simp: pack_inv_def s nonzero_def)
    moreover have "length (nonzero (take (Suc i) bs)) < 8" using inv True tk by (simp add: nonzero_def)
    ultimately show ?thesis using True by (simp add: guid_put_def s)
  next
    case False
    have nz: "nonzero (take (Suc i) bs) = nonzero (take i bs) @ [bs ! i]"
      using False tk by (simp add: nonzero_def)
    have mask: "guid_mask bs (Suc i) (m OR push_bit i 1)"
      using inv(5) False assms(2) by (auto simp: guid_mask_def bit_simps less_Suc_eq)
    show ?thesis
    proof (cases "j < 8")
      case True
      have "take (j + 1) ((p[j := bs ! i])[0 := v]) = v # nonzero (take (Suc i) bs)" for v
      proof -
        have "(p[j := bs ! i])[0 := v] = (p[0 := v])[j := bs ! i]"
          using inv(2) by (simp add: list_update_swap)
        then show ?thesis using inv(1) inv(4) [of v] True nz
          by (simp add: take_Suc_conv_app_nth)
      qed
      then have "pack_inv bs (Suc i) (m OR push_bit i 1, p[j := bs ! i], j + 1)"
        using inv mask nz True by (simp add: pack_inv_def)
      then show ?thesis using False True inv(2) nz by (simp add: guid_put_def s)
    next
      case b: False
      then show ?thesis using False inv(2,3) nz by (simp add: guid_put_def s)
    qed
  qed
qed

lemma nonzero_full_iff: "length (nonzero bs) = length bs \<longleftrightarrow> 0 \<notin> set bs"
proof (induction bs)
  case Nil
  then show ?case by (simp add: nonzero_def)
next
  case (Cons b bs)
  have "length (filter (\<lambda>b. b \<noteq> 0) bs) \<noteq> Suc (length bs)"
    using length_filter_le [of "\<lambda>b. b \<noteq> 0" bs] by linarith
  then show ?case using Cons by (auto simp: nonzero_def)
qed

lemma nonzero_le: "length (nonzero bs) \<le> length bs"
  by (simp add: nonzero_def)

lemma pack_guid_eq:
  "if 0 \<in> set (le_bytes 8 guid)
   then \<exists>m. pack_guid guid = Inr (m # nonzero (le_bytes 8 guid)) \<and>
     (\<forall>i < 8. bit m i \<longleftrightarrow> le_bytes 8 guid ! i \<noteq> 0)
   else pack_guid guid = Inl OutOfBounds"
proof -
  let ?bs = "le_bytes 8 guid"
  let ?f = "\<lambda>i. guid_put i (?bs ! i)"
  have init: "pack_inv ?bs 0 (0, replicate 8 0, 1)"
    by (simp add: pack_inv_def nonzero_def guid_mask_def numeral_eq_Suc)
  have early: "length (nonzero (take (Suc i) ?bs)) < 8" if "i < 7" for i
    using nonzero_le [of "take (Suc i) ?bs"] that by simp
  show ?thesis
  proof (cases "0 \<in> set ?bs")
    case True
    then have "length (nonzero ?bs) < 8"
      using nonzero_full_iff [of ?bs] nonzero_le [of ?bs] by simp
    then have late: "length (nonzero (take (Suc i) ?bs)) < 8" if "i < 8" for i
      using early [of i] that by (cases "i = 7") simp_all
    have "\<exists>s. res_fold ?f [0..<8] (0, replicate 8 0, 1) = Inr s \<and> pack_inv ?bs 8 s"
    proof (rule res_fold_upt [where I = "pack_inv ?bs"], goal_cases)
      case 1
      show ?case by (rule init)
    next
      case (2 i s)
      then show ?case using pack_step [OF 2(2)] late by simp
    qed
    then obtain m p j where "res_fold ?f [0..<8] (0, replicate 8 0, 1) = Inr (m, p, j)"
      "pack_inv ?bs 8 (m, p, j)" by auto
    then show ?thesis using True by (auto simp: pack_guid_def pack_inv_def guid_mask_def)
  next
    case False
    have "res_fold ?f [0..<8] (0, replicate 8 0, 1) = Inl OutOfBounds"
    proof (rule res_fold_upt_fault [where I = "pack_inv ?bs" and m = 7], goal_cases)
      case 1
      show ?case by (rule init)
    next
      case (2 i s)
      then show ?case using pack_step [OF 2(2)] early by simp
    next
      case 3
      show ?case by simp
    next
      case (4 s)
      have "length (nonzero (take (Suc 7) ?bs)) = 8" using nonzero_full_iff [of ?bs] False by simp
      then show ?case using pack_step [OF 4] by simp
    qed
    then show ?thesis using False by (simp add: pack_guid_def)
  qed
qed

section \<open>Properties\<close>

text \<open>Packing round trip: an identifier with at least one zero byte is appended as its mask and
  its nonzero bytes, and reading at that place returns it and stops right behind it; an identifier
  whose eight bytes are all nonzero overruns the writer's local array.\<close>

theorem guid_roundtrip:
  assumes "append_only data" "length (storage data) + 8 \<le> append_max"
  shows "if 0 \<in> set (le_bytes 8 guid)
    then \<exists>data'. writeGUID guid data = Inr data' \<and>
      length (storage data') = length (storage data) + 1 + length (nonzero (le_bytes 8 guid)) \<and>
      readGUID (set_rpos (length (storage data)) data') =
        Inr (guid, set_rpos (length (storage data')) data')
    else writeGUID guid data = Inl OutOfBounds"
proof (cases "0 \<in> set (le_bytes 8 guid)")
  case True
  let ?nz = "nonzero (le_bytes 8 guid)"
  obtain m where m: "pack_guid guid = Inr (m # ?nz)" "\<forall>i < 8. bit m i \<longleftrightarrow> le_bytes 8 guid ! i \<noteq> 0"
    using pack_guid_eq [of guid] True by auto
  have len: "length ?nz < 8"
    using True nonzero_full_iff [of "le_bytes 8 guid"] nonzero_le [of "le_bytes 8 guid"] by simp
  let ?d = "appended (m # ?nz) data"
  have w: "writeGUID guid data = Inr ?d"
    using m assms len by (simp add: writeGUID_def append_bytes_room)
  let ?r = "set_rpos (length (storage data)) ?d"
  have ok: "buf_ok ?r"
    using assms(2) len by (simp add: buf_ok_def set_rpos_def append_max_def size_limit_def)
  have rem: "remaining ?r = le_bytes 1 m @ ?nz @ []" by (simp add: remaining_def set_rpos_def)
  have "guid_loop 8 0 m (push_bit 0 1) 0 (advanced 1 ?r) =
      Inr (0 OR push_bit (8 * 0) (le_word (le_bytes 8 guid)), advanced (length ?nz) (advanced 1 ?r))"
    using ok m(2) rem by (intro guid_loop_reads [where rest = "[]"]) simp_all
  then have "readGUID ?r = Inr (guid, set_rpos (length (storage ?d)) ?d)"
    using get_word_encs(1) [OF ok rem] by (simp add: readGUID_def set_rpos_def advanced_def)
  then show ?thesis using True w by simp
next
  case False
  then show ?thesis using pack_guid_eq [of guid] by (simp add: writeGUID_def)
qed

theorem guid_roundtrip_witness:
  "\<exists>data'. writeGUID 0x100002 new_buffer = Inr data' \<and>
     readGUID (set_rpos 0 data') = Inr (0x100002, set_rpos (length (storage data')) data')"
proof -
  have "0 \<in> set (le_bytes 8 (0x100002 :: u64))" by code_simp
  then show ?thesis
    using guid_roundtrip [of new_buffer "0x100002"]
    by (auto simp: append_only_def new_buffer_def append_max_def)
qed

end
