(* ===== verification/Util_Funcs.thy ===== *)
theory Util_Funcs
  imports Nox_Prelude "HOL-Library.Signed_Division"
begin

text \<open>
  The helpers of \<open>src/src/shared/Util.cpp\<close> and \<open>Util.h\<close>: splitting strings, printing durations, the two
  random number generators, and the field modifiers.

  Signed 32-bit arithmetic is computed on \<open>int\<close> through \<open>chk32\<close>, which faults where the C type
  overflows; \<open>sdiv\<close> and \<open>smod\<close> are C's truncating division. The static variables \<open>holdrand\<close> and
  \<open>rand32_state\<close> are passed and returned.
\<close>

section \<open>Signed 32-bit arithmetic\<close>

definition chk32 :: "int \<Rightarrow> int res" where
  "chk32 x = (if - (2 ^ 31) \<le> x \<and> x < 2 ^ 31 then Inr x else Inl IntOverflow)"

definition to_i32 :: "u32 \<Rightarrow> int" where
  "to_i32 w = sint w"

definition to_u32 :: "int \<Rightarrow> u32" where
  "to_u32 x = word_of_int x"

section \<open>Splitting\<close>

fun split_loop :: "string \<Rightarrow> string \<Rightarrow> string list \<Rightarrow> string \<Rightarrow> string list" where
  "split_loop [] sep r s = (if s \<noteq> [] then r @ [s] else r)"
| "split_loop (c # src) sep r s =
     (if c \<in> set sep then split_loop src sep (if s \<noteq> [] then r @ [s] else r) []
      else split_loop src sep r (s @ [c]))"

definition StrSplit :: "string \<Rightarrow> string \<Rightarrow> string list" where
  "StrSplit src sep = split_loop src sep [] []"

section \<open>Durations\<close>

definition MINUTE :: nat where "MINUTE = 60"
definition HOUR :: nat where "HOUR = MINUTE * 60"
definition DAY :: nat where "DAY = HOUR * 24"

fun show_nat :: "nat \<Rightarrow> string" where
  "show_nat n = (if n < 10 then [char_of (48 + n)] else show_nat (n div 10) @ [char_of (48 + n mod 10)])"

declare show_nat.simps [simp del]

definition secs_parts :: "nat \<Rightarrow> nat \<times> nat \<times> nat \<times> nat" where
  "secs_parts timeInSecs =
     (timeInSecs div DAY, timeInSecs mod DAY div HOUR, timeInSecs mod HOUR div MINUTE, timeInSecs mod MINUTE)"

definition secsToTimeString :: "u32 \<Rightarrow> bool \<Rightarrow> bool \<Rightarrow> string" where
  "secsToTimeString timeInSecs shortText hoursOnly =
     (let (days, hours, minutes, secs) = secs_parts (unat timeInSecs)
      in (if days \<noteq> 0 then show_nat days @ (if shortText then ''d'' else '' Day(s) '') else []) @
         (if hours \<noteq> 0 then show_nat hours @ (if shortText then ''h'' else '' Hour(s) '') else []) @
         (if \<not> hoursOnly
          then (if minutes \<noteq> 0 then show_nat minutes @ (if shortText then ''m'' else '' Minute(s) '') else []) @
               (if secs \<noteq> 0 then show_nat secs @ (if shortText then ''s'' else '' Second(s).'') else [])
          else []))"

section \<open>Random numbers\<close>

definition Rand_Init :: "u32 \<Rightarrow> u32" where
  "Rand_Init seed = seed"

text \<open>The result and the new \<open>holdrand\<close>.\<close>

definition irand :: "int \<Rightarrow> int \<Rightarrow> u32 \<Rightarrow> (int \<times> u32) res" where
  "irand lo hi holdrand =
     rbind (chk32 (hi - lo)) (\<lambda>d.
     if \<not> d < 32768 then Inl AssertFail
     else rbind (chk32 (hi + 1)) (\<lambda>hi.
       let holdrand = holdrand * 214013 + 2531011 in
       rbind (chk32 (hi - lo)) (\<lambda>d.
       Inr (to_i32 (drop_bit 15 (drop_bit 17 holdrand * to_u32 d) + to_u32 lo), holdrand))))"

definition urand :: "u32 \<Rightarrow> u32 \<Rightarrow> u32 \<Rightarrow> (u32 \<times> u32) res" where
  "urand lo hi holdrand = rmap (\<lambda>(r, h). (to_u32 r, h)) (irand (to_i32 lo) (to_i32 hi) holdrand)"

definition roll_chance_i :: "int \<Rightarrow> u32 \<Rightarrow> (bool \<times> u32) res" where
  "roll_chance_i chance holdrand = rmap (\<lambda>(r, h). (chance > r, h)) (irand 0 99 holdrand)"

text \<open>Schrage's method: \<open>m\<close>, \<open>a\<close>, \<open>q\<close>, \<open>r\<close> are the macros of the function.\<close>

definition rand_m :: int where "rand_m = 2147483647"
definition rand_a :: int where "rand_a = 48271"
definition rand_q :: int where "rand_q = rand_m sdiv rand_a"
definition rand_r :: int where "rand_r = rand_m smod rand_a"

definition RAND32_MAX :: int where "RAND32_MAX = 2147483645"

definition rand32 :: "int \<Rightarrow> (int \<times> int) res" where
  "rand32 rand32_state =
     (let hi = rand32_state sdiv rand_q; lo = rand32_state smod rand_q in
      rbind (chk32 (rand_a * lo)) (\<lambda>al.
      rbind (chk32 (rand_r * hi)) (\<lambda>rh.
      rbind (chk32 (al - rh)) (\<lambda>test.
      rbind (if test > 0 then Inr test else chk32 (test + rand_m)) (\<lambda>rand32_state.
      Inr (rand32_state - 1, rand32_state))))))"

section \<open>Field modifiers and names\<close>

definition ApplyModUInt32Var :: "u32 \<Rightarrow> int \<Rightarrow> bool \<Rightarrow> u32 res" where
  "ApplyModUInt32Var var val apply_it =
     rbind (if apply_it then Inr val else chk32 (- val)) (\<lambda>v.
     rbind (chk32 (to_i32 var + v)) (\<lambda>cur.
     Inr (to_u32 (if cur < 0 then 0 else cur))))"

definition to_upper :: "char \<Rightarrow> char" where
  "to_upper c = (if (97 :: nat) \<le> of_char c \<and> of_char c \<le> (122 :: nat) then char_of (of_char c - (32 :: nat)) else c)"

definition to_lower :: "char \<Rightarrow> char" where
  "to_lower c = (if (65 :: nat) \<le> of_char c \<and> of_char c \<le> (90 :: nat) then char_of (of_char c + (32 :: nat)) else c)"

definition normalizePlayerName :: "string \<Rightarrow> string res" where
  "normalizePlayerName name =
     (case name of [] \<Rightarrow> Inl AssertFail | c # cs \<Rightarrow> Inr (to_upper c # map to_lower cs))"

section \<open>Lemmas on splitting\<close>

lemma split_loop_acc: "split_loop src sep r s = r @ split_loop src sep [] s"
proof (induction src arbitrary: r s)
  case Nil
  then show ?case by simp
next
  case (Cons c src)
  show ?case
    by (auto simp: Cons [of "r @ [s]"] Cons [of "[s]"] Cons [of r "[]"] Cons [of r "s @ [c]"])
qed

lemma split_loop_pieces:
  "set s \<inter> set sep = {} \<Longrightarrow> p \<in> set (split_loop src sep [] s) \<Longrightarrow> p \<noteq> [] \<and> set p \<inter> set sep = {}"
proof (induction src arbitrary: s)
  case Nil
  then show ?case by (auto split: if_splits)
next
  case (Cons c src)
  then show ?case
    using Cons.IH [of "[]"] Cons.IH [of "s @ [c]"]
    by (cases "c \<in> set sep"; cases "s = []") (simp_all add: split_loop_acc [of _ _ "[s]"], blast+)
qed

lemma split_loop_concat:
  "set s \<inter> set sep = {} \<Longrightarrow> concat (split_loop src sep [] s) = s @ filter (\<lambda>c. c \<notin> set sep) src"
proof (induction src arbitrary: s)
  case Nil
  then show ?case by simp
next
  case (Cons c src)
  then show ?case by (auto simp: split_loop_acc [of _ _ "[s]"])
qed

fun join :: "char \<Rightarrow> string list \<Rightarrow> string" where
  "join d [] = []"
| "join d [p] = p"
| "join d (p # ps) = p @ d # join d ps"

lemma split_loop_piece:
  "set p \<inter> set sep = {} \<Longrightarrow> split_loop (p @ rest) sep [] s = split_loop rest sep [] (s @ p)"
  by (induction p arbitrary: s) auto

lemma split_join:
  "d \<in> set sep \<Longrightarrow> \<forall>p \<in> set ps. p \<noteq> [] \<and> set p \<inter> set sep = {} \<Longrightarrow> StrSplit (join d ps) sep = ps"
proof (induction d ps rule: join.induct)
  case (1 d)
  then show ?case by (simp add: StrSplit_def)
next
  case (2 d p)
  then show ?case using split_loop_piece [of p sep "[]" "[]"] by (simp add: StrSplit_def)
next
  case (3 d p q ps)
  then have "split_loop (p @ d # join d (q # ps)) sep [] [] = split_loop (d # join d (q # ps)) sep [] p"
    using split_loop_piece [of p sep "d # join d (q # ps)" "[]"] by simp
  also have "\<dots> = p # split_loop (join d (q # ps)) sep [] []"
    using "3.prems" by (simp add: split_loop_acc [of _ _ "[p]"])
  finally show ?case using 3 by (simp add: StrSplit_def)
qed

section \<open>Lemmas on the generators\<close>

lemma rand_constants: "rand_q = 44488" "rand_r = 3399"
  by (simp_all add: rand_q_def rand_r_def rand_m_def rand_a_def signed_divide_int_def signed_modulo_int_def)

lemma sdiv_smod_pos: "0 \<le> s \<Longrightarrow> 0 < q \<Longrightarrow> s sdiv q = s div q \<and> s smod q = s mod q" for s q :: int
  by (simp add: signed_divide_int_def signed_modulo_int_def sgn_if minus_div_mult_eq_mod)

lemma schrage:
  fixes s :: int
  assumes "0 < s" "s < rand_m"
  defines "test \<equiv> rand_a * (s mod 44488) - 3399 * (s div 44488)"
  shows "(if test > 0 then test else test + rand_m) = rand_a * s mod rand_m"
    and "0 < (if test > 0 then test else test + rand_m)"
    and "(if test > 0 then test else test + rand_m) < rand_m"
    and "- rand_m < test" "test < rand_m"
proof -
  have s: "s = 44488 * (s div 44488) + s mod 44488" by simp
  have lo: "0 \<le> s mod 44488" "s mod 44488 < 44488" by simp_all
  have hi: "0 \<le> s div 44488" "s div 44488 \<le> 48271"
    using assms(1,2) by (simp_all add: rand_m_def)
  show r: "- rand_m < test" "test < rand_m"
    unfolding test_def rand_m_def rand_a_def using lo hi by linarith+
  have cong: "rand_a * s = test + rand_m * (s div 44488)"
    unfolding test_def rand_a_def rand_m_def using s by linarith
  have nz: "test \<noteq> 0"
  proof
    assume "test = 0"
    then have e: "48271 * (s mod 44488) = 3399 * (s div 44488)" by (simp add: test_def rand_a_def)
    have "coprime (48271 :: int) 3399" by (simp add: coprime_iff_gcd_eq_1 gcd_code_int)
    then have "48271 dvd s div 44488"
      using e by (metis coprime_dvd_mult_right_iff dvd_triv_left)
    then have "s div 44488 = 0 \<or> s div 44488 = 48271"
      using hi by (auto elim!: dvdE)
    then show False
    proof
      assume "s div 44488 = 0"
      then show False using e s assms(1) by simp
    next
      assume h: "s div 44488 = 48271"
      then have "s mod 44488 = 3399" using e by simp
      then show False using h s assms(2) by (simp add: rand_m_def)
    qed
  qed
  let ?t = "if test > 0 then test else test + rand_m"
  show b: "0 < ?t" "?t < rand_m" using r nz by auto
  have "?t mod rand_m = rand_a * s mod rand_m" unfolding cong by simp
  then show "?t = rand_a * s mod rand_m" using b by simp
qed

lemma sint_small:
  "- (2 ^ 31) \<le> x \<Longrightarrow> x < 2 ^ 31 \<Longrightarrow> sint (word_of_int x :: u32) = x"
  by (simp add: sint_sbintrunc' signed_take_bit_int_eq_self)

lemma scaled_less: "x < 2 ^ 15 \<Longrightarrow> 0 < d \<Longrightarrow> x * d div 2 ^ 15 < (d :: nat)"
  by (rule less_mult_imp_div_less) (simp add: mult.commute)

lemma irand_scaled:
  fixes h :: u32 and d :: int
  assumes "0 < d" "d \<le> 32768"
  shows "\<exists>y. drop_bit 15 (drop_bit 17 h * to_u32 d) = word_of_int y \<and> 0 \<le> y \<and> y < d"
proof -
  let ?x = "unat (drop_bit 17 h)"
  have "?x = unat h div 2 ^ 17"
  proof -
    have "?x = drop_bit 17 (take_bit 32 (unat h))" unfolding unsigned_drop_bit_eq by simp
    moreover have "take_bit 32 (unat h) = unat h"
      using unsigned_less [of h] by (simp add: take_bit_nat_eq_self_iff)
    ultimately show ?thesis by (simp add: drop_bit_eq_div)
  qed
  moreover have "unat h < 2 ^ 32" using unsigned_less [of h] by simp
  ultimately have x: "?x < 2 ^ 15" by simp
  have d: "unat (to_u32 d) = nat d"
    using assms by (simp add: to_u32_def unat_eq_nat_uint uint_word_of_int take_bit_int_eq_self)
  have "?x * nat d \<le> 2 ^ 15 * 32768" using x assms by (intro mult_mono) auto
  then have p: "unat (drop_bit 17 h * to_u32 d) = ?x * nat d"
    by (simp add: unat_word_ariths d)
  let ?w = "drop_bit 15 (drop_bit 17 h * to_u32 d)"
  have "unat ?w = drop_bit 15 (take_bit 32 (unat (drop_bit 17 h * to_u32 d)))"
    unfolding unsigned_drop_bit_eq by simp
  moreover have "take_bit 32 (unat (drop_bit 17 h * to_u32 d)) = unat (drop_bit 17 h * to_u32 d)"
    using unsigned_less [of "drop_bit 17 h * to_u32 d"] by (simp add: take_bit_nat_eq_self_iff)
  ultimately have "unat ?w = drop_bit 15 (?x * nat d)" unfolding p by simp
  then have w: "unat ?w = ?x * nat d div 2 ^ 15" unfolding drop_bit_eq_div .
  have "unat ?w < nat d" unfolding w by (rule scaled_less [OF x]) (use assms in simp)
  then have "int (unat ?w) < d" using assms(1) by (simp only: nat_less_iff zless_nat_eq_int_zless)
  then have "uint ?w < d" unfolding uint_nat .
  moreover have "?w = word_of_int (uint ?w)" by simp
  moreover have "0 \<le> uint ?w" by simp
  ultimately show ?thesis by blast
qed

section \<open>Properties\<close>

text \<open>The generator \<open>rand32\<close> is the Park-Miller generator: from a state strictly between 0 and the
  modulus no step overflows a signed 32-bit integer, the new state is \<open>48271 * state\<close> modulo
  \<open>2 ^ 31 - 1\<close>, it stays strictly between 0 and the modulus, and the number returned is at most
  \<open>RAND32_MAX\<close>.\<close>

theorem rand32_park_miller:
  assumes "0 < state" "state < rand_m"
  shows "\<exists>r s'. rand32 state = Inr (r, s') \<and> s' = rand_a * state mod rand_m \<and>
    0 < s' \<and> s' < rand_m \<and> r = s' - 1 \<and> 0 \<le> r \<and> r \<le> RAND32_MAX"
proof -
  let ?lo = "state mod 44488" and ?hi = "state div 44488"
  let ?test = "rand_a * ?lo - 3399 * ?hi"
  have hl: "0 \<le> ?lo" "?lo < 44488" "0 \<le> ?hi" "?hi \<le> 48271"
    using assms by (simp_all add: rand_m_def)
  have c1: "chk32 (rand_a * ?lo) = Inr (rand_a * ?lo)" and c2: "chk32 (3399 * ?hi) = Inr (3399 * ?hi)"
    unfolding chk32_def rand_a_def using hl by auto
  note t = schrage [OF assms]
  have c3: "chk32 ?test = Inr ?test" and c4: "?test \<le> 0 \<Longrightarrow> chk32 (?test + rand_m) = Inr (?test + rand_m)"
    using t(4,5) by (simp_all add: chk32_def rand_m_def)
  have sd: "state sdiv rand_q = ?hi" "state smod rand_q = ?lo"
    using assms sdiv_smod_pos [of state 44488] by (simp_all add: rand_constants)
  let ?s = "if ?test > 0 then ?test else ?test + rand_m"
  have "rand32 state = Inr (?s - 1, ?s)"
    unfolding rand32_def sd Let_def unfolding rand_constants by (simp add: c1 c2 c3 c4)
  moreover have "0 < ?s" "?s < rand_m" "?s = rand_a * state mod rand_m" by (rule t)+
  moreover have "0 < s \<Longrightarrow> s < rand_m \<Longrightarrow> 0 \<le> s - 1 \<and> s - 1 \<le> RAND32_MAX" for s
    unfolding RAND32_MAX_def rand_m_def by linarith
  ultimately show ?thesis by blast
qed

theorem rand32_park_miller_witness:
  "\<exists>r s'. rand32 1 = Inr (r, s') \<and> s' = 48271 \<and> r = 48270"
  using rand32_park_miller [of 1] by (auto simp: rand_m_def rand_a_def)

text \<open>\<open>irand\<close> returns a number of the range it is asked for: for \<open>lo \<le> hi\<close> less than 32768 apart
  (and \<open>hi\<close> not the largest integer) nothing overflows and the result lies between the two, whatever
  the state of the generator.\<close>

theorem irand_in_range:
  assumes "- (2 ^ 31) \<le> lo" "lo \<le> hi" "hi < 2 ^ 31 - 1" "hi - lo < 32768"
  shows "\<exists>r h'. irand lo hi h = Inr (r, h') \<and> lo \<le> r \<and> r \<le> hi"
proof -
  let ?h = "h * 214013 + 2531011"
  obtain y where y: "drop_bit 15 (drop_bit 17 ?h * to_u32 (hi + 1 - lo)) = word_of_int y"
    "0 \<le> y" "y < hi + 1 - lo"
    using irand_scaled [of "hi + 1 - lo" ?h] assms by auto
  have "to_i32 (word_of_int y + to_u32 lo) = y + lo"
    using y(2,3) assms by (simp add: to_i32_def to_u32_def sint_small flip: of_int_add)
  then have "irand lo hi h = Inr (y + lo, ?h)"
    using assms y(1) by (simp add: irand_def chk32_def Let_def)
  then show ?thesis using y(2,3) by auto
qed

theorem irand_in_range_witness: "\<exists>r h'. irand 0 99 0x89abcdef = Inr (r, h') \<and> 0 \<le> r \<and> r \<le> 99"
  using irand_in_range [of 0 99] by simp

text \<open>Splitting: the pieces of \<open>StrSplit\<close> are nonempty and free of separators, together they are
  the characters of the text that are no separators in their order, and splitting a list of such
  pieces joined with a separator gives the list back.\<close>

theorem StrSplit_spec:
  "(\<forall>p \<in> set (StrSplit src sep). p \<noteq> [] \<and> set p \<inter> set sep = {}) \<and>
   concat (StrSplit src sep) = filter (\<lambda>c. c \<notin> set sep) src \<and>
   (d \<in> set sep \<and> (\<forall>p \<in> set ps. p \<noteq> [] \<and> set p \<inter> set sep = {}) \<longrightarrow> StrSplit (join d ps) sep = ps)"
  using split_loop_pieces [of "[]" sep _ src] split_loop_concat [of "[]" sep src] split_join [of d sep ps]
  by (auto simp: StrSplit_def)

theorem StrSplit_spec_witness:
  "StrSplit (join (CHR '';'') [''ab'', ''c'']) '';'' = [''ab'', ''c'']"
  using StrSplit_spec [of _ "'';''" "CHR '';''" "[''ab'', ''c'']"] by simp

end
