(* ===== verification/Nox_Buffer.thy ===== *)
theory Nox_Buffer
  imports Byte_Buffer Nox_Crypt
begin

text \<open>
  The reader of the game's files: class \<open>NoxBuffer\<close> (\<open>src/src/game/NoxBuffer.{h,cpp}\<close>), a \<open>ByteBuffer\<close> with
  strings behind their length, the cipher of the files and the jump to the next multiple of eight.

  The files are an argument of \<open>buf_open\<close>: what the file of that name contains, if it can be read. A
  \<open>float\<close> of a file is its 32-bit pattern; \<open>float_coord\<close> is the coordinate it becomes when it is converted
  to \<open>uint32\<close>, which the x86 targets do by truncating to a 64-bit integer and taking its low half.
\<close>

section \<open>Operations\<close>

definition buf_open :: "bytes option \<Rightarrow> byte_buffer \<Rightarrow> bool \<times> byte_buffer" where
  "buf_open file b = (case file of None \<Rightarrow> (False, b) | Some bs \<Rightarrow> (True, b\<lparr>storage := bs\<rparr>))"

text \<open>\<open>readstring<T>\<close> for a \<open>T\<close> of \<open>n\<close> bytes: the characters put into the caller's array of \<open>maxlength\<close>. The
  position skips what does not fit. A length at the very end of the buffer counts as 0.\<close>

definition readstring :: "nat \<Rightarrow> nat \<Rightarrow> byte_buffer \<Rightarrow> (bytes \<times> byte_buffer) res" where
  "readstring n maxlength b =
     rbind (read_word n b) (\<lambda>(w :: u32, b).
       let len = (if b_rpos b \<ge> buf_size b then 0 else unat w);
           maxlength = size_sub maxlength 1
       in if len > maxlength
          then rbind (read_block maxlength b) (\<lambda>(s, b).
               Inr (s, set_rpos (size_sub (size_add (b_rpos b) len) maxlength) b))
          else read_block len b)"

text \<open>The variant for wide characters, two bytes each; what does not fit is counted in characters here, too, but
  skipped in bytes.\<close>

definition readwstring :: "nat \<Rightarrow> nat \<Rightarrow> byte_buffer \<Rightarrow> (bytes \<times> byte_buffer) res" where
  "readwstring n maxlength b =
     rbind (read_word n b) (\<lambda>(w :: u32, b).
       let len = unat w; maxlength = size_sub maxlength 1
       in if len > maxlength
          then rbind (read_block (maxlength * 2 mod size_limit) b) (\<lambda>(s, b).
               Inr (s, set_rpos (size_sub (size_add (b_rpos b) len) maxlength) b))
          else read_block (len * 2 mod size_limit) b)"

definition buf_encrypt :: "NoxCryptFileTypes \<Rightarrow> byte_buffer \<Rightarrow> (int \<times> byte_buffer) res" where
  "buf_encrypt fileType b = rmap (\<lambda>(r, bs). (r, b\<lparr>storage := bs\<rparr>)) (nox_encrypt (storage b) fileType)"

definition buf_decrypt :: "NoxCryptFileTypes \<Rightarrow> byte_buffer \<Rightarrow> (int \<times> byte_buffer) res" where
  "buf_decrypt fileType b = rmap (\<lambda>(r, bs). (r, b\<lparr>storage := bs\<rparr>)) (nox_decrypt (storage b) fileType)"

definition skip_length :: "nat \<Rightarrow> nat" where
  "skip_length pos = (8 - pos mod 8) mod 8"

definition buf_skip :: "byte_buffer \<Rightarrow> nat \<times> byte_buffer" where
  "buf_skip b = (let skip = skip_length (b_rpos b) in (skip, set_rpos (size_add (b_rpos b) skip) b))"

text \<open>\<open>size_t finish = read<int64>() + rpos()\<close>, the end of a section: the sum is one of \<open>int64\<close>.\<close>

definition read_finish :: "byte_buffer \<Rightarrow> (nat \<times> byte_buffer) res" where
  "read_finish b =
     rbind (get_i64 b) (\<lambda>(len, b).
       if len + int (b_rpos b) < 2 ^ 63 then Inr (nat ((len + int (b_rpos b)) mod 2 ^ 32), b) else Inl IntOverflow)"

text \<open>Values that are read and dropped, by their sizes.\<close>

primrec read_skip :: "nat list \<Rightarrow> byte_buffer \<Rightarrow> byte_buffer res" where
  "read_skip [] b = Inr b"
| "read_skip (n # ns) b = rbind (read_word n b) (\<lambda>(w :: u64, b). read_skip ns b)"

text \<open>A character array as a C string.\<close>

definition c_str :: "bytes \<Rightarrow> bytes" where
  "c_str s = takeWhile (\<lambda>c. c \<noteq> 0) s"

definition chars :: "bytes \<Rightarrow> string" where
  "chars s = map (\<lambda>c. char_of (unat c)) s"

definition string_bytes :: "string \<Rightarrow> bytes" where
  "string_bytes s = map (\<lambda>c. of_nat (of_char c)) s"

lemma length_string_bytes [simp]: "length (string_bytes s) = length s"
  by (simp add: string_bytes_def)

lemma chars_string_bytes: "chars (string_bytes s) = s"
proof -
  have "unat (of_nat (of_char c) :: u8) = of_char c" for c :: char
    by (simp add: unsigned_of_nat take_bit_nat_eq_self)
  then show ?thesis by (simp add: chars_def string_bytes_def comp_def)
qed

section \<open>Coordinates\<close>

text \<open>A finite \<open>float\<close> truncated towards zero.\<close>

definition float_trunc :: "u32 \<Rightarrow> int" where
  "float_trunc w =
     (let e = unat (drop_bit 23 w AND 0xFF); m = uint (w AND 0x7FFFFF);
          v = (if e = 0 then 0 else if e \<ge> 150 then (m + 2 ^ 23) * 2 ^ (e - 150) else (m + 2 ^ 23) div 2 ^ (150 - e))
      in if bit w 31 then - v else v)"

definition float_coord :: "u32 \<Rightarrow> u32" where
  "float_coord w = (if unat (drop_bit 23 w AND 0xFF) \<ge> 190 then 0 else of_int (float_trunc w))"

section \<open>Reading what was written\<close>

text \<open>A string behind its length, in \<open>n\<close> bytes.\<close>

definition enc_str :: "nat \<Rightarrow> bytes \<Rightarrow> bytes" where
  "enc_str n s = le_bytes n (of_nat (length s) :: u32) @ s"

lemma length_enc_str [simp]: "length (enc_str n s) = n + length s"
  by (simp add: enc_str_def)

lemma size_sub_le:
  assumes "b \<le> a" "a < size_limit"
  shows "size_sub a b = a - b"
proof -
  have "a + size_limit - b mod size_limit = (a - b) + size_limit" using assms by simp
  then show ?thesis using assms(2) unfolding size_sub_def by (simp only: mod_add_self2 mod_less less_imp_diff_less)
qed

lemma le_word_short:
  assumes "w < 2 ^ (8 * n)" "w < 2 ^ 32"
  shows "le_word (le_bytes n (of_nat w :: u32)) = (of_nat w :: u32)"
proof -
  have "take_bit (8 * n) (of_nat w :: u32) = of_nat (take_bit (8 * n) w)"
    by (simp add: take_bit_of_nat)
  then show ?thesis using assms by (simp add: le_word_le_bytes_take take_bit_nat_eq_self)
qed

lemma readstring_enc:
  assumes "buf_ok b" "remaining b = enc_str n s @ rest" "0 < n" "length s < 2 ^ (8 * n)"
    and "length s < maxlength" "maxlength < size_limit"
  shows "readstring n maxlength b = Inr (s, advanced (n + length s) b)"
proof -
  have len: "length s < 2 ^ 32" using assms(5,6) by (simp add: size_limit_def)
  then have u: "unat (of_nat (length s) :: u32) = length s" by (simp add: unsigned_of_nat take_bit_nat_eq_self)
  have rest: "remaining (advanced n b) = s @ rest" using assms(2) by (simp add: enc_str_def)
  have "read_word n b = Inr (of_nat (length s) :: u32, advanced n b)"
    using read_word_remaining [of b n, where 'a = 32] assms(1,2,3) le_word_short [of "length s" n] assms(4) len
    by (simp add: enc_str_def)
  moreover have "(if b_rpos (advanced n b) \<ge> buf_size (advanced n b) then 0 else unat (of_nat (length s) :: u32)) = length s"
  proof -
    have "length s \<le> length (storage b) - b_rpos (advanced n b)"
      using arg_cong [OF rest, of length] by (simp add: length_remaining)
    then show ?thesis using u by (auto simp: buf_size_def)
  qed
  moreover have "size_sub maxlength 1 = maxlength - 1"
    using assms(5,6) by (intro size_sub_le) simp_all
  moreover have "read_block (length s) (advanced n b) = Inr (s, advanced (n + length s) b)"
    using read_block_enc [of "advanced n b" s rest] assms(1) rest by simp
  moreover have "\<not> maxlength - 1 < length s" using assms(5) by simp
  ultimately show ?thesis by (simp add: readstring_def Let_def)
qed

lemma buf_skip_enc:
  assumes "b_rpos b + skip_length (b_rpos b) < size_limit"
  shows "buf_skip b = (skip_length (b_rpos b), advanced (skip_length (b_rpos b)) b)"
  using assms by (simp add: buf_skip_def Let_def size_add_def set_rpos_def advanced_def)

lemma skip_length_bound: "skip_length p < 8" "(p + skip_length p) mod 8 = 0"
proof -
  show "skip_length p < 8" by (simp add: skip_length_def)
  obtain q r where p: "p = 8 * q + r" "r < 8" by (metis mod_mult_div_eq mod_less_divisor zero_less_numeral add.commute)
  have "p mod 8 = r" using p by simp
  then have skip: "skip_length p = (8 - r) mod 8" by (simp add: skip_length_def)
  show "(p + skip_length p) mod 8 = 0"
  proof (cases "r = 0")
    case False
    then have "p + skip_length p = 8 * (q + 1)" using p skip by simp
    then show ?thesis by (simp only: mod_mult_self1_is_0)
  qed (use p skip in simp)
qed

lemma read_finish_enc:
  assumes "buf_ok b" "remaining b = le_bytes 8 (of_nat n :: u64) @ rest" "n + 8 + b_rpos b < size_limit"
  shows "read_finish b = Inr (b_rpos b + 8 + n, advanced 8 b)"
proof -
  have "read_word 8 b = Inr (of_nat n :: u64, advanced 8 b)"
    using read_word_enc [OF assms(1,2)] by simp
  moreover have "sint (of_nat n :: u64) = int n"
    using assms(3) by (simp add: size_limit_def signed_of_nat signed_take_bit_int_eq_self)
  moreover have "nat ((int n + int (b_rpos (advanced 8 b))) mod 2 ^ 32) = b_rpos b + 8 + n"
    "int n + int (b_rpos (advanced 8 b)) < 2 ^ 63"
    using assms(3) by (simp_all add: size_limit_def)
  ultimately show ?thesis by (simp only: read_finish_def get_i64_def rbind.simps case_prod_conv if_True)
qed

lemma read_skip_enc:
  "buf_ok b \<Longrightarrow> sum_list ns \<le> length (remaining b) \<Longrightarrow> \<forall>n \<in> set ns. 0 < n \<Longrightarrow>
   read_skip ns b = Inr (advanced (sum_list ns) b)"
proof (induction ns arbitrary: b)
  case (Cons n ns)
  then have "read_word n b = Inr (le_word (take n (remaining b)) :: u64, advanced n b)"
    by (intro read_word_remaining) auto
  moreover have "read_skip ns (advanced n b) = Inr (advanced (sum_list ns) (advanced n b))"
    using Cons.prems by (intro Cons.IH) (auto simp: length_remaining)
  ultimately show ?case by simp
qed simp

section \<open>What a read does to the position\<close>

text \<open>\<open>forward r\<close>: when \<open>r\<close> reads something, the position moves on, and was inside the buffer.\<close>

definition inbuf :: "byte_buffer \<Rightarrow> nat \<Rightarrow> byte_buffer \<Rightarrow> bool" where
  "inbuf b k b' \<longleftrightarrow> storage b' = storage b \<and> b_wpos b' = b_wpos b \<and>
     b_rpos b + k \<le> length (storage b) \<and> b_rpos b + k \<le> b_rpos b'"

lemma read_word_inbuf: "read_word n b = Inr (w, b') \<Longrightarrow> inbuf b n b'"
  by (auto simp: inbuf_def dest!: read_word_Inr)

lemma read_block_storage: "read_block n b = Inr (s, b') \<Longrightarrow> storage b' = storage b"
  by (auto simp: read_block_def read_at_def rbind_Inr_iff split: if_splits)

lemma readstring_storage: "readstring n m b = Inr (s, b') \<Longrightarrow> storage b' = storage b"
  by (auto simp: readstring_def rbind_Inr_iff Let_def set_rpos_def dest!: read_word_storage read_block_storage
      split: if_splits)

lemma buf_skip_storage: "storage (snd (buf_skip b)) = storage b"
  by (simp add: buf_skip_def Let_def set_rpos_def)

lemma read_finish_storage: "read_finish b = Inr (n, b') \<Longrightarrow> storage b' = storage b"
  by (auto simp: read_finish_def get_i64_def rbind_Inr_iff dest!: read_word_storage split: if_splits)

lemma read_skip_storage: "read_skip ns b = Inr b' \<Longrightarrow> storage b' = storage b"
  by (induction ns arbitrary: b) (auto simp: rbind_Inr_iff dest!: read_word_storage)

end
