(* ===== verification/World_Packet.thy ===== *)
theory World_Packet
  imports Byte_Buffer
begin

text \<open>
  Packets: class \<open>WorldPacket\<close> of \<open>src/src/shared/worldpacket.h\<close>, a byte buffer with the header fields
  of the protocol. The C++ class inherits from the buffer; here the buffer is the field \<open>p_buf\<close>.

  A packet is written by a sequence of stream operators; \<open>pk_puts\<close> applies such a sequence, and
  \<open>writes f bs\<close> says that the operator \<open>f\<close> appends the bytes \<open>bs\<close> to every buffer with room for them.
\<close>

section \<open>State and operations\<close>

record world_packet =
  p_buf :: byte_buffer
  p_opcode :: u8
  p_accountid :: u8
  p_xor :: u8
  p_unk :: u8
  p_client :: u64

definition new_packet :: world_packet where
  "new_packet = \<lparr>p_buf = new_buffer, p_opcode = 0, p_accountid = 0, p_xor = 0, p_unk = 0, p_client = 0\<rparr>"

definition mk_packet :: "u8 \<Rightarrow> u8 \<Rightarrow> u64 \<Rightarrow> world_packet" where
  "mk_packet opcode n client =
     \<lparr>p_buf = new_buffer, p_opcode = opcode, p_accountid = n, p_xor = 0, p_unk = 0, p_client = client\<rparr>"

definition copy_packet :: "world_packet \<Rightarrow> world_packet" where
  "copy_packet packet =
     \<lparr>p_buf = copy_buffer (p_buf packet), p_opcode = p_opcode packet, p_accountid = p_accountid packet,
      p_xor = p_xor packet, p_unk = p_unk packet, p_client = p_client packet\<rparr>"

definition packet_Initialize :: "u8 \<Rightarrow> u8 \<Rightarrow> u64 \<Rightarrow> world_packet \<Rightarrow> world_packet" where
  "packet_Initialize opcode n client p =
     p\<lparr>p_buf := buf_clear (p_buf p), p_opcode := opcode, p_client := client, p_accountid := n\<rparr>"

definition SetOpcode :: "u8 \<Rightarrow> world_packet \<Rightarrow> world_packet" where
  "SetOpcode opcode p = p\<lparr>p_opcode := opcode\<rparr>"

definition packet_SetClient :: "u64 \<Rightarrow> world_packet \<Rightarrow> world_packet" where
  "packet_SetClient client p = p\<lparr>p_client := client\<rparr>"

definition SetAccountId :: "u8 \<Rightarrow> world_packet \<Rightarrow> world_packet" where
  "SetAccountId n p = p\<lparr>p_accountid := n\<rparr>"

definition SetXor :: "u8 \<Rightarrow> world_packet \<Rightarrow> world_packet" where
  "SetXor x p = p\<lparr>p_xor := x\<rparr>"

definition SetUnk :: "u8 \<Rightarrow> world_packet \<Rightarrow> world_packet" where
  "SetUnk unk p = p\<lparr>p_unk := unk\<rparr>"

definition packet_size :: "world_packet \<Rightarrow> nat" where
  "packet_size p = buf_size (p_buf p)"

definition packet_clear :: "world_packet \<Rightarrow> world_packet" where
  "packet_clear p = p\<lparr>p_buf := buf_clear (p_buf p)\<rparr>"

text \<open>The operators and reads of the base class on a packet.\<close>

definition pk_put :: "(byte_buffer \<Rightarrow> byte_buffer res) \<Rightarrow> world_packet \<Rightarrow> world_packet res" where
  "pk_put f p = rmap (\<lambda>b. p\<lparr>p_buf := b\<rparr>) (f (p_buf p))"

definition pk_get :: "(byte_buffer \<Rightarrow> ('a \<times> byte_buffer) res) \<Rightarrow> world_packet \<Rightarrow> ('a \<times> world_packet) res" where
  "pk_get f p = rmap (\<lambda>(x, b). (x, p\<lparr>p_buf := b\<rparr>)) (f (p_buf p))"

definition packet_append :: "world_packet \<Rightarrow> world_packet \<Rightarrow> world_packet res" where
  "packet_append src p = pk_put (append_bytes (storage (p_buf src))) p"

primrec pk_puts :: "(byte_buffer \<Rightarrow> byte_buffer res) list \<Rightarrow> world_packet \<Rightarrow> world_packet res" where
  "pk_puts [] p = Inr p"
| "pk_puts (f # fs) p = rbind (pk_put f p) (pk_puts fs)"

section \<open>The bytes an operator writes\<close>

definition writes :: "(byte_buffer \<Rightarrow> byte_buffer res) \<Rightarrow> bytes \<Rightarrow> bool" where
  "writes f bs \<longleftrightarrow>
     (\<forall>b. append_only b \<longrightarrow> length (storage b) + length bs \<le> append_max \<longrightarrow> f b = Inr (appended bs b))"

named_theorems writes_intros \<open>what the stream operators write\<close>

lemma writes_append_bytes [writes_intros]: "writes (append_bytes bs) bs"
  by (simp add: writes_def append_bytes_room)

lemma writes_put_u8 [writes_intros]: "writes (put_u8 v) (le_bytes 1 v)"
  by (simp add: writes_def put_u8_def append_word_room)

lemma writes_put_u16 [writes_intros]: "writes (put_u16 v) (le_bytes 2 v)"
  by (simp add: writes_def put_u16_def append_word_room)

lemma writes_put_u32 [writes_intros]: "writes (put_u32 v) (le_bytes 4 v)"
  by (simp add: writes_def put_u32_def append_word_room)

lemma writes_put_u64 [writes_intros]: "writes (put_u64 v) (le_bytes 8 v)"
  by (simp add: writes_def put_u64_def append_word_room)

definition packet_bytes :: "world_packet \<Rightarrow> bytes" where
  "packet_bytes p = storage (p_buf p)"

text \<open>The packet after \<open>bs\<close> was appended.\<close>

definition packet_appended :: "bytes \<Rightarrow> world_packet \<Rightarrow> world_packet" where
  "packet_appended bs p = p\<lparr>p_buf := appended bs (p_buf p)\<rparr>"

lemma packet_appended_simps [simp]:
  "packet_appended [] p = p"
  "packet_appended cs (packet_appended bs p) = packet_appended (bs @ cs) p"
  "packet_bytes (packet_appended bs p) = packet_bytes p @ bs"
  "append_only (p_buf (packet_appended bs p)) \<longleftrightarrow> append_only (p_buf p)"
  "p_opcode (packet_appended bs p) = p_opcode p"
  "p_accountid (packet_appended bs p) = p_accountid p"
  "p_unk (packet_appended bs p) = p_unk p"
  "p_xor (packet_appended bs p) = p_xor p"
  "p_client (packet_appended bs p) = p_client p"
  by (simp_all add: packet_appended_def packet_bytes_def)

lemma pk_put_writes:
  "writes f bs \<Longrightarrow> append_only (p_buf p) \<Longrightarrow> length (packet_bytes p) + length bs \<le> append_max \<Longrightarrow>
   pk_put f p = Inr (packet_appended bs p)"
  by (simp add: pk_put_def writes_def packet_bytes_def packet_appended_def)

lemma pk_puts_writes:
  "list_all2 writes fs bss \<Longrightarrow> append_only (p_buf p) \<Longrightarrow>
   length (packet_bytes p) + length (concat bss) \<le> append_max \<Longrightarrow>
   pk_puts fs p = Inr (packet_appended (concat bss) p)"
proof (induction fs bss arbitrary: p rule: list_all2_induct)
  case Nil
  then show ?case by simp
next
  case (Cons f fs bs bss)
  then have "pk_put f p = Inr (packet_appended bs p)" by (intro pk_put_writes) auto
  moreover have "pk_puts fs (packet_appended bs p) = Inr (packet_appended (concat bss) (packet_appended bs p))"
    using Cons.prems by (intro Cons.IH) auto
  ultimately show ?case by simp
qed

lemma new_packet_simps [simp]:
  "packet_bytes new_packet = []" "packet_bytes (mk_packet c i a) = []"
  "append_only (p_buf new_packet)" "append_only (p_buf (mk_packet c i a))"
  "packet_bytes (packet_Initialize c i a p) = []" "append_only (p_buf (packet_Initialize c i a p))"
  "p_opcode (mk_packet c i a) = c" "p_accountid (mk_packet c i a) = i" "p_unk (mk_packet c i a) = 0"
  "p_client (mk_packet c i a) = a" "p_xor (mk_packet c i a) = 0"
  "p_opcode (packet_Initialize c i a p) = c" "p_accountid (packet_Initialize c i a p) = i"
  "p_unk (packet_Initialize c i a p) = p_unk p" "p_xor (packet_Initialize c i a p) = p_xor p"
  "p_opcode new_packet = 0" "p_accountid new_packet = 0" "p_unk new_packet = 0"
  by (simp_all add: packet_bytes_def new_packet_def mk_packet_def new_buffer_def append_only_def
      packet_Initialize_def buf_clear_def)

lemma packet_setters [simp]:
  "p_buf (SetUnk u p) = p_buf p" "p_unk (SetUnk u p) = u" "p_opcode (SetUnk u p) = p_opcode p"
  "p_accountid (SetUnk u p) = p_accountid p" "p_xor (SetUnk u p) = p_xor p" "p_client (SetUnk u p) = p_client p"
  "p_buf (SetXor x p) = p_buf p" "p_xor (SetXor x p) = x" "p_opcode (SetXor x p) = p_opcode p"
  "p_accountid (SetXor x p) = p_accountid p" "p_unk (SetXor x p) = p_unk p" "p_client (SetXor x p) = p_client p"
  "p_buf (packet_SetClient c p) = p_buf p" "p_client (packet_SetClient c p) = c"
  "p_opcode (packet_SetClient c p) = p_opcode p" "p_accountid (packet_SetClient c p) = p_accountid p"
  "p_unk (packet_SetClient c p) = p_unk p" "p_xor (packet_SetClient c p) = p_xor p"
  "p_buf (SetOpcode o1 p) = p_buf p" "p_opcode (SetOpcode o1 p) = o1" "p_accountid (SetOpcode o1 p) = p_accountid p"
  "p_unk (SetOpcode o1 p) = p_unk p" "p_xor (SetOpcode o1 p) = p_xor p" "p_client (SetOpcode o1 p) = p_client p"
  "p_buf (SetAccountId i p) = p_buf p" "p_accountid (SetAccountId i p) = i" "p_opcode (SetAccountId i p) = p_opcode p"
  "p_unk (SetAccountId i p) = p_unk p" "p_xor (SetAccountId i p) = p_xor p" "p_client (SetAccountId i p) = p_client p"
  by (simp_all add: SetUnk_def SetXor_def packet_SetClient_def SetOpcode_def SetAccountId_def)

lemma copy_packet_id [simp]: "copy_packet p = p"
  by (simp add: copy_packet_def copy_buffer_def)

end
