(* ===== verification/Opcodes.thy ===== *)
theory Opcodes
  imports Nox_Prelude
begin

text \<open>
  The message codes of the protocol (\<open>enum OpCodes\<close> of \<open>src/src/game/Opcodes.h\<close>), their names for the
  log (\<open>g_worldOpcodeNames\<close> of \<open>Opcodes.cpp\<close>, searched by \<open>LookupName\<close> and \<open>LookupId\<close> of
  \<open>NameTables.h\<close>), and the dispatch table of the session (\<open>WorldSession::FillOpcodeHandlerHashTable\<close>).
  Each enumerator is an abbreviation of its code; \<open>OpCodes\<close> lists them with their names.
\<close>

section \<open>Codes\<close>

abbreviation (input) MSG_PARTIAL_TIMESTAMP :: u8 where "MSG_PARTIAL_TIMESTAMP \<equiv> 0x27"
abbreviation (input) MSG_FULL_TIMESTAMP :: u8 where "MSG_FULL_TIMESTAMP \<equiv> 0x28"
abbreviation (input) MSG_NEED_TIMESTAMP :: u8 where "MSG_NEED_TIMESTAMP \<equiv> 0x29"
abbreviation (input) MSG_SIMULATED_TIMESTAMP :: u8 where "MSG_SIMULATED_TIMESTAMP \<equiv> 0x2A"
abbreviation (input) MSG_USE_MAP :: u8 where "MSG_USE_MAP \<equiv> 0x2B"
abbreviation (input) MSG_JOIN_DATA :: u8 where "MSG_JOIN_DATA \<equiv> 0x2C"
abbreviation (input) MSG_NEW_PLAYER :: u8 where "MSG_NEW_PLAYER \<equiv> 0x2D"
abbreviation (input) MSG_PLAYER_QUIT :: u8 where "MSG_PLAYER_QUIT \<equiv> 0x2E"
abbreviation (input) MSG_SIMPLE_OBJ :: u8 where "MSG_SIMPLE_OBJ \<equiv> 0x2F"
abbreviation (input) MSG_COMPLEX_OBJ :: u8 where "MSG_COMPLEX_OBJ \<equiv> 0x30"
abbreviation (input) MSG_DESTROY_OBJECT :: u8 where "MSG_DESTROY_OBJECT \<equiv> 0x31"
abbreviation (input) MSG_OBJECT_OUT_OF_SIGHT :: u8 where "MSG_OBJECT_OUT_OF_SIGHT \<equiv> 0x32"
abbreviation (input) MSG_OBJECT_IN_SHADOWS :: u8 where "MSG_OBJECT_IN_SHADOWS \<equiv> 0x33"
abbreviation (input) MSG_OBJECT_FRIEND_ADD :: u8 where "MSG_OBJECT_FRIEND_ADD \<equiv> 0x34"
abbreviation (input) MSG_OBJECT_FRIEND_REMOVE :: u8 where "MSG_OBJECT_FRIEND_REMOVE \<equiv> 0x35"
abbreviation (input) MSG_RESET_FRIENDS :: u8 where "MSG_RESET_FRIENDS \<equiv> 0x36"
abbreviation (input) MSG_ENABLE_OBJECT :: u8 where "MSG_ENABLE_OBJECT \<equiv> 0x37"
abbreviation (input) MSG_DISABLE_OBJECT :: u8 where "MSG_DISABLE_OBJECT \<equiv> 0x38"
abbreviation (input) MSG_DRAW_FRAME :: u8 where "MSG_DRAW_FRAME \<equiv> 0x39"
abbreviation (input) MSG_DESTROY_WALL :: u8 where "MSG_DESTROY_WALL \<equiv> 0x3A"
abbreviation (input) MSG_OPEN_WALL :: u8 where "MSG_OPEN_WALL \<equiv> 0x3B"
abbreviation (input) MSG_CLOSE_WALL :: u8 where "MSG_CLOSE_WALL \<equiv> 0x3C"
abbreviation (input) MSG_CHANGE_OR_ADD_WALL_MAGIC :: u8 where "MSG_CHANGE_OR_ADD_WALL_MAGIC \<equiv> 0x3D"
abbreviation (input) MSG_REMOVE_WALL_MAGIC :: u8 where "MSG_REMOVE_WALL_MAGIC \<equiv> 0x3E"
abbreviation (input) MSG_PLAYER_INPUT :: u8 where "MSG_PLAYER_INPUT \<equiv> 0x3F"
abbreviation (input) MSG_PLAYER_SET_WAYPOINT :: u8 where "MSG_PLAYER_SET_WAYPOINT \<equiv> 0x40"
abbreviation (input) MSG_REPORT_HEALTH :: u8 where "MSG_REPORT_HEALTH \<equiv> 0x41"
abbreviation (input) MSG_REPORT_HEALTH_DELTA :: u8 where "MSG_REPORT_HEALTH_DELTA \<equiv> 0x42"
abbreviation (input) MSG_REPORT_PLAYER_HEALTH :: u8 where "MSG_REPORT_PLAYER_HEALTH \<equiv> 0x43"
abbreviation (input) MSG_REPORT_ITEM_HEALTH :: u8 where "MSG_REPORT_ITEM_HEALTH \<equiv> 0x44"
abbreviation (input) MSG_REPORT_MANA :: u8 where "MSG_REPORT_MANA \<equiv> 0x45"
abbreviation (input) MSG_REPORT_POISON :: u8 where "MSG_REPORT_POISON \<equiv> 0x46"
abbreviation (input) MSG_REPORT_STAMINA :: u8 where "MSG_REPORT_STAMINA \<equiv> 0x47"
abbreviation (input) MSG_REPORT_STATS :: u8 where "MSG_REPORT_STATS \<equiv> 0x48"
abbreviation (input) MSG_REPORT_ARMOR_VALUE :: u8 where "MSG_REPORT_ARMOR_VALUE \<equiv> 0x49"
abbreviation (input) MSG_REPORT_GOLD :: u8 where "MSG_REPORT_GOLD \<equiv> 0x4A"
abbreviation (input) MSG_REPORT_PICKUP :: u8 where "MSG_REPORT_PICKUP \<equiv> 0x4B"
abbreviation (input) MSG_REPORT_MODIFIABLE_PICKUP :: u8 where "MSG_REPORT_MODIFIABLE_PICKUP \<equiv> 0x4C"
abbreviation (input) MSG_REPORT_DROP :: u8 where "MSG_REPORT_DROP \<equiv> 0x4D"
abbreviation (input) MSG_REPORT_LESSON :: u8 where "MSG_REPORT_LESSON \<equiv> 0x4E"
abbreviation (input) MSG_REPORT_MUNDANE_ARMOR_EQUIP :: u8 where "MSG_REPORT_MUNDANE_ARMOR_EQUIP \<equiv> 0x4F"
abbreviation (input) MSG_REPORT_MUNDANE_WEAPON_EQUIP :: u8 where "MSG_REPORT_MUNDANE_WEAPON_EQUIP \<equiv> 0x50"
abbreviation (input) MSG_REPORT_MODIFIABLE_WEAPON_EQUIP :: u8 where "MSG_REPORT_MODIFIABLE_WEAPON_EQUIP \<equiv> 0x51"
abbreviation (input) MSG_REPORT_MODIFIABLE_ARMOR_EQUIP :: u8 where "MSG_REPORT_MODIFIABLE_ARMOR_EQUIP \<equiv> 0x52"
abbreviation (input) MSG_REPORT_ARMOR_DEQUIP :: u8 where "MSG_REPORT_ARMOR_DEQUIP \<equiv> 0x53"
abbreviation (input) MSG_REPORT_WEAPON_DEQUIP :: u8 where "MSG_REPORT_WEAPON_DEQUIP \<equiv> 0x54"
abbreviation (input) MSG_REPORT_TREASURE_COUNT :: u8 where "MSG_REPORT_TREASURE_COUNT \<equiv> 0x55"
abbreviation (input) MSG_REPORT_FLAG_BALL_WINNER :: u8 where "MSG_REPORT_FLAG_BALL_WINNER \<equiv> 0x56"
abbreviation (input) MSG_REPORT_FLAG_WINNER :: u8 where "MSG_REPORT_FLAG_WINNER \<equiv> 0x57"
abbreviation (input) MSG_REPORT_DEATHMATCH_WINNER :: u8 where "MSG_REPORT_DEATHMATCH_WINNER \<equiv> 0x58"
abbreviation (input) MSG_REPORT_DEATHMATCH_TEAM_WINNER :: u8 where "MSG_REPORT_DEATHMATCH_TEAM_WINNER \<equiv> 0x59"
abbreviation (input) MSG_REPORT_ENCHANTMENT :: u8 where "MSG_REPORT_ENCHANTMENT \<equiv> 0x5A"
abbreviation (input) MSG_REPORT_ITEM_ENCHANTMENT :: u8 where "MSG_REPORT_ITEM_ENCHANTMENT \<equiv> 0x5B"
abbreviation (input) MSG_REPORT_LIGHT_COLOR :: u8 where "MSG_REPORT_LIGHT_COLOR \<equiv> 0x5C"
abbreviation (input) MSG_REPORT_LIGHT_INTENSITY :: u8 where "MSG_REPORT_LIGHT_INTENSITY \<equiv> 0x5D"
abbreviation (input) MSG_REPORT_Z_PLUS :: u8 where "MSG_REPORT_Z_PLUS \<equiv> 0x5E"
abbreviation (input) MSG_REPORT_Z_MINUS :: u8 where "MSG_REPORT_Z_MINUS \<equiv> 0x5F"
abbreviation (input) MSG_REPORT_EQUIP :: u8 where "MSG_REPORT_EQUIP \<equiv> 0x60"
abbreviation (input) MSG_REPORT_DEQUIP :: u8 where "MSG_REPORT_DEQUIP \<equiv> 0x61"
abbreviation (input) MSG_REPORT_ACQUIRE_SPELL :: u8 where "MSG_REPORT_ACQUIRE_SPELL \<equiv> 0x62"
abbreviation (input) MSG_REPORT_TARGET :: u8 where "MSG_REPORT_TARGET \<equiv> 0x63"
abbreviation (input) MSG_REPORT_CHARGES :: u8 where "MSG_REPORT_CHARGES \<equiv> 0x64"
abbreviation (input) MSG_REPORT_X_STATUS :: u8 where "MSG_REPORT_X_STATUS \<equiv> 0x65"
abbreviation (input) MSG_REPORT_PLAYER_STATUS :: u8 where "MSG_REPORT_PLAYER_STATUS \<equiv> 0x66"
abbreviation (input) MSG_REPORT_MODIFIER :: u8 where "MSG_REPORT_MODIFIER \<equiv> 0x67"
abbreviation (input) MSG_REPORT_STAT_MODIFIER :: u8 where "MSG_REPORT_STAT_MODIFIER \<equiv> 0x68"
abbreviation (input) MSG_REPORT_NPC :: u8 where "MSG_REPORT_NPC \<equiv> 0x69"
abbreviation (input) MSG_REPORT_CLIENT_STATUS :: u8 where "MSG_REPORT_CLIENT_STATUS \<equiv> 0x6A"
abbreviation (input) MSG_REPORT_ANIMATION_FRAME :: u8 where "MSG_REPORT_ANIMATION_FRAME \<equiv> 0x6B"
abbreviation (input) MSG_REPORT_ACQUIRE_CREATURE :: u8 where "MSG_REPORT_ACQUIRE_CREATURE \<equiv> 0x6C"
abbreviation (input) MSG_REPORT_LOSE_CREATURE :: u8 where "MSG_REPORT_LOSE_CREATURE \<equiv> 0x6D"
abbreviation (input) MSG_REPORT_EXPERIENCE :: u8 where "MSG_REPORT_EXPERIENCE \<equiv> 0x6E"
abbreviation (input) MSG_REPORT_SPELL_AWARD :: u8 where "MSG_REPORT_SPELL_AWARD \<equiv> 0x6F"
abbreviation (input) MSG_REPORT_SPELL_START :: u8 where "MSG_REPORT_SPELL_START \<equiv> 0x70"
abbreviation (input) MSG_REPORT_INVENTORY_LOADED :: u8 where "MSG_REPORT_INVENTORY_LOADED \<equiv> 0x71"
abbreviation (input) MSG_TRY_DROP :: u8 where "MSG_TRY_DROP \<equiv> 0x72"
abbreviation (input) MSG_TRY_GET :: u8 where "MSG_TRY_GET \<equiv> 0x73"
abbreviation (input) MSG_TRY_USE :: u8 where "MSG_TRY_USE \<equiv> 0x74"
abbreviation (input) MSG_TRY_EQUIP :: u8 where "MSG_TRY_EQUIP \<equiv> 0x75"
abbreviation (input) MSG_TRY_DEQUIP :: u8 where "MSG_TRY_DEQUIP \<equiv> 0x76"
abbreviation (input) MSG_TRY_TARGET :: u8 where "MSG_TRY_TARGET \<equiv> 0x77"
abbreviation (input) MSG_TRY_CREATURE_COMMAND :: u8 where "MSG_TRY_CREATURE_COMMAND \<equiv> 0x78"
abbreviation (input) MSG_TRY_SPELL :: u8 where "MSG_TRY_SPELL \<equiv> 0x79"
abbreviation (input) MSG_TRY_ABILITY :: u8 where "MSG_TRY_ABILITY \<equiv> 0x7A"
abbreviation (input) MSG_TRY_COLLIDE :: u8 where "MSG_TRY_COLLIDE \<equiv> 0x7B"
abbreviation (input) MSG_FX_PARTICLEFX :: u8 where "MSG_FX_PARTICLEFX \<equiv> 0x7C"
abbreviation (input) MSG_FX_PLASMA :: u8 where "MSG_FX_PLASMA \<equiv> 0x7D"
abbreviation (input) MSG_FX_SUMMON :: u8 where "MSG_FX_SUMMON \<equiv> 0x7E"
abbreviation (input) MSG_FX_SUMMON_CANCEL :: u8 where "MSG_FX_SUMMON_CANCEL \<equiv> 0x7F"
abbreviation (input) MSG_FX_SHIELD :: u8 where "MSG_FX_SHIELD \<equiv> 0x80"
abbreviation (input) MSG_FX_BLUE_SPARKS :: u8 where "MSG_FX_BLUE_SPARKS \<equiv> 0x81"
abbreviation (input) MSG_FX_YELLOW_SPARKS :: u8 where "MSG_FX_YELLOW_SPARKS \<equiv> 0x82"
abbreviation (input) MSG_FX_CYAN_SPARKS :: u8 where "MSG_FX_CYAN_SPARKS \<equiv> 0x83"
abbreviation (input) MSG_FX_VIOLET_SPARKS :: u8 where "MSG_FX_VIOLET_SPARKS \<equiv> 0x84"
abbreviation (input) MSG_FX_EXPLOSION :: u8 where "MSG_FX_EXPLOSION \<equiv> 0x85"
abbreviation (input) MSG_FX_LESSER_EXPLOSION :: u8 where "MSG_FX_LESSER_EXPLOSION \<equiv> 0x86"
abbreviation (input) MSG_FX_COUNTERSPELL_EXPLOSION :: u8 where "MSG_FX_COUNTERSPELL_EXPLOSION \<equiv> 0x87"
abbreviation (input) MSG_FX_THIN_EXPLOSION :: u8 where "MSG_FX_THIN_EXPLOSION \<equiv> 0x88"
abbreviation (input) MSG_FX_TELEPORT :: u8 where "MSG_FX_TELEPORT \<equiv> 0x89"
abbreviation (input) MSG_FX_SMOKE_BLAST :: u8 where "MSG_FX_SMOKE_BLAST \<equiv> 0x8A"
abbreviation (input) MSG_FX_DAMAGE_POOF :: u8 where "MSG_FX_DAMAGE_POOF \<equiv> 0x8B"
abbreviation (input) MSG_FX_LIGHTNING :: u8 where "MSG_FX_LIGHTNING \<equiv> 0x8C"
abbreviation (input) MSG_FX_ENERGY_BOLT :: u8 where "MSG_FX_ENERGY_BOLT \<equiv> 0x8D"
abbreviation (input) MSG_FX_CHAIN_LIGHTNING_BOLT :: u8 where "MSG_FX_CHAIN_LIGHTNING_BOLT \<equiv> 0x8E"
abbreviation (input) MSG_FX_DRAIN_MANA :: u8 where "MSG_FX_DRAIN_MANA \<equiv> 0x8F"
abbreviation (input) MSG_FX_CHARM :: u8 where "MSG_FX_CHARM \<equiv> 0x90"
abbreviation (input) MSG_FX_GREATER_HEAL :: u8 where "MSG_FX_GREATER_HEAL \<equiv> 0x91"
abbreviation (input) MSG_FX_MAGIC :: u8 where "MSG_FX_MAGIC \<equiv> 0x92"
abbreviation (input) MSG_FX_SPARK_EXPLOSION :: u8 where "MSG_FX_SPARK_EXPLOSION \<equiv> 0x93"
abbreviation (input) MSG_FX_DEATH_RAY :: u8 where "MSG_FX_DEATH_RAY \<equiv> 0x94"
abbreviation (input) MSG_FX_SENTRY_RAY :: u8 where "MSG_FX_SENTRY_RAY \<equiv> 0x95"
abbreviation (input) MSG_FX_RICOCHET :: u8 where "MSG_FX_RICOCHET \<equiv> 0x96"
abbreviation (input) MSG_FX_JIGGLE :: u8 where "MSG_FX_JIGGLE \<equiv> 0x97"
abbreviation (input) MSG_FX_GREEN_BOLT :: u8 where "MSG_FX_GREEN_BOLT \<equiv> 0x98"
abbreviation (input) MSG_FX_GREEN_EXPLOSION :: u8 where "MSG_FX_GREEN_EXPLOSION \<equiv> 0x99"
abbreviation (input) MSG_FX_WHITE_FLASH :: u8 where "MSG_FX_WHITE_FLASH \<equiv> 0x9A"
abbreviation (input) MSG_FX_GENERATING_MAP :: u8 where "MSG_FX_GENERATING_MAP \<equiv> 0x9B"
abbreviation (input) MSG_FX_ASSEMBLING_MAP :: u8 where "MSG_FX_ASSEMBLING_MAP \<equiv> 0x9C"
abbreviation (input) MSG_FX_POPULATING_MAP :: u8 where "MSG_FX_POPULATING_MAP \<equiv> 0x9D"
abbreviation (input) MSG_FX_DURATION_SPELL :: u8 where "MSG_FX_DURATION_SPELL \<equiv> 0x9E"
abbreviation (input) MSG_FX_DELTAZ_SPELL_START :: u8 where "MSG_FX_DELTAZ_SPELL_START \<equiv> 0x9F"
abbreviation (input) MSG_FX_TURN_UNDEAD :: u8 where "MSG_FX_TURN_UNDEAD \<equiv> 0xA0"
abbreviation (input) MSG_FX_ARROW_TRAP :: u8 where "MSG_FX_ARROW_TRAP \<equiv> 0xA1"
abbreviation (input) MSG_FX_VAMPIRISM :: u8 where "MSG_FX_VAMPIRISM \<equiv> 0xA2"
abbreviation (input) MSG_FX_MANA_BOMB_CANCEL :: u8 where "MSG_FX_MANA_BOMB_CANCEL \<equiv> 0xA3"
abbreviation (input) MSG_UPDATE_STREAM :: u8 where "MSG_UPDATE_STREAM \<equiv> 0xA4"
abbreviation (input) MSG_NEW_ALIAS :: u8 where "MSG_NEW_ALIAS \<equiv> 0xA5"
abbreviation (input) MSG_AUDIO_EVENT :: u8 where "MSG_AUDIO_EVENT \<equiv> 0xA6"
abbreviation (input) MSG_AUDIO_PLAYER_EVENT :: u8 where "MSG_AUDIO_PLAYER_EVENT \<equiv> 0xA7"
abbreviation (input) MSG_TEXT_MESSAGE :: u8 where "MSG_TEXT_MESSAGE \<equiv> 0xA8"
abbreviation (input) MSG_INFORM :: u8 where "MSG_INFORM \<equiv> 0xA9"
abbreviation (input) MSG_IMPORTANT :: u8 where "MSG_IMPORTANT \<equiv> 0xAA"
abbreviation (input) MSG_IMPORTANT_ACK :: u8 where "MSG_IMPORTANT_ACK \<equiv> 0xAB"
abbreviation (input) MSG_MOUSE :: u8 where "MSG_MOUSE \<equiv> 0xAC"
abbreviation (input) MSG_INCOMING_CLIENT :: u8 where "MSG_INCOMING_CLIENT \<equiv> 0xAD"
abbreviation (input) MSG_OUTGOING_CLIENT :: u8 where "MSG_OUTGOING_CLIENT \<equiv> 0xAE"
abbreviation (input) MSG_GAME_SETTINGS :: u8 where "MSG_GAME_SETTINGS \<equiv> 0xAF"
abbreviation (input) MSG_GAME_SETTINGS_2 :: u8 where "MSG_GAME_SETTINGS_2 \<equiv> 0xB0"
abbreviation (input) MSG_UPDATE_GUI_GAME_SETTINGS :: u8 where "MSG_UPDATE_GUI_GAME_SETTINGS \<equiv> 0xB1"
abbreviation (input) MSG_DOOR_ANGLE :: u8 where "MSG_DOOR_ANGLE \<equiv> 0xB2"
abbreviation (input) MSG_OBELISK_CHARGE :: u8 where "MSG_OBELISK_CHARGE \<equiv> 0xB3"
abbreviation (input) MSG_PENTAGRAM_ACTIVATE :: u8 where "MSG_PENTAGRAM_ACTIVATE \<equiv> 0xB4"
abbreviation (input) MSG_CLIENT_PREDICT_LINEAR :: u8 where "MSG_CLIENT_PREDICT_LINEAR \<equiv> 0xB5"
abbreviation (input) MSG_REQUEST_MAP :: u8 where "MSG_REQUEST_MAP \<equiv> 0xB6"
abbreviation (input) MSG_CANCEL_MAP :: u8 where "MSG_CANCEL_MAP \<equiv> 0xB7"
abbreviation (input) MSG_MAP_SEND_START :: u8 where "MSG_MAP_SEND_START \<equiv> 0xB8"
abbreviation (input) MSG_MAP_SEND_PACKET :: u8 where "MSG_MAP_SEND_PACKET \<equiv> 0xB9"
abbreviation (input) MSG_MAP_SEND_ABORT :: u8 where "MSG_MAP_SEND_ABORT \<equiv> 0xBA"
abbreviation (input) MSG_SERVER_CMD :: u8 where "MSG_SERVER_CMD \<equiv> 0xBB"
abbreviation (input) MSG_SYSOP_PW :: u8 where "MSG_SYSOP_PW \<equiv> 0xBC"
abbreviation (input) MSG_SYSOP_RESULT :: u8 where "MSG_SYSOP_RESULT \<equiv> 0xBD"
abbreviation (input) MSG_KEEP_ALIVE :: u8 where "MSG_KEEP_ALIVE \<equiv> 0xBE"
abbreviation (input) MSG_RECEIVED_MAP :: u8 where "MSG_RECEIVED_MAP \<equiv> 0xBF"
abbreviation (input) MSG_CLIENT_READY :: u8 where "MSG_CLIENT_READY \<equiv> 0xC0"
abbreviation (input) MSG_REQUEST_SAVE_PLAYER :: u8 where "MSG_REQUEST_SAVE_PLAYER \<equiv> 0xC1"
abbreviation (input) MSG_XFER_MSG :: u8 where "MSG_XFER_MSG \<equiv> 0xC2"
abbreviation (input) MSG_PLAYER_OBJ :: u8 where "MSG_PLAYER_OBJ \<equiv> 0xC3"
abbreviation (input) MSG_TEAM_MSG :: u8 where "MSG_TEAM_MSG \<equiv> 0xC4"
abbreviation (input) MSG_KICK_NOTIFICATION :: u8 where "MSG_KICK_NOTIFICATION \<equiv> 0xC5"
abbreviation (input) MSG_TIMEOUT_NOTIFICATION :: u8 where "MSG_TIMEOUT_NOTIFICATION \<equiv> 0xC6"
abbreviation (input) MSG_SERVER_QUIT :: u8 where "MSG_SERVER_QUIT \<equiv> 0xC7"
abbreviation (input) MSG_SERVER_QUIT_ACK :: u8 where "MSG_SERVER_QUIT_ACK \<equiv> 0xC8"
abbreviation (input) MSG_TRADE :: u8 where "MSG_TRADE \<equiv> 0xC9"
abbreviation (input) MSG_CHAT_KILL :: u8 where "MSG_CHAT_KILL \<equiv> 0xCA"
abbreviation (input) MSG_MESSAGES_KILL :: u8 where "MSG_MESSAGES_KILL \<equiv> 0xCB"
abbreviation (input) MSG_SEQ_IMPORTANT :: u8 where "MSG_SEQ_IMPORTANT \<equiv> 0xCC"
abbreviation (input) MSG_REPORT_ABILITY_AWARD :: u8 where "MSG_REPORT_ABILITY_AWARD \<equiv> 0xCD"
abbreviation (input) MSG_REPORT_ABILITY_STATE :: u8 where "MSG_REPORT_ABILITY_STATE \<equiv> 0xCE"
abbreviation (input) MSG_REPORT_ACTIVE_ABILITIES :: u8 where "MSG_REPORT_ACTIVE_ABILITIES \<equiv> 0xCF"
abbreviation (input) MSG_DIALOG :: u8 where "MSG_DIALOG \<equiv> 0xD0"
abbreviation (input) MSG_REPORT_GUIDE_AWARD :: u8 where "MSG_REPORT_GUIDE_AWARD \<equiv> 0xD1"
abbreviation (input) MSG_INTERESTING_ID :: u8 where "MSG_INTERESTING_ID \<equiv> 0xD2"
abbreviation (input) MSG_TIMER_STATUS :: u8 where "MSG_TIMER_STATUS \<equiv> 0xD3"
abbreviation (input) MSG_REQUEST_TIMER_STATUS :: u8 where "MSG_REQUEST_TIMER_STATUS \<equiv> 0xD4"
abbreviation (input) MSG_JOURNAL_MSG :: u8 where "MSG_JOURNAL_MSG \<equiv> 0xD5"
abbreviation (input) MSG_CHAPTER_END :: u8 where "MSG_CHAPTER_END \<equiv> 0xD6"
abbreviation (input) MSG_REPORT_ALL_LATENCY :: u8 where "MSG_REPORT_ALL_LATENCY \<equiv> 0xD7"
abbreviation (input) MSG_REPORT_FLAG_STATUS :: u8 where "MSG_REPORT_FLAG_STATUS \<equiv> 0xD8"
abbreviation (input) MSG_REPORT_BALL_STATUS :: u8 where "MSG_REPORT_BALL_STATUS \<equiv> 0xD9"
abbreviation (input) MSG_REPORT_OBJECT_POISON :: u8 where "MSG_REPORT_OBJECT_POISON \<equiv> 0xDA"
abbreviation (input) MSG_REPORT_MONITOR_CREATURE :: u8 where "MSG_REPORT_MONITOR_CREATURE \<equiv> 0xDB"
abbreviation (input) MSG_REPORT_UNMONITOR_CREATURE :: u8 where "MSG_REPORT_UNMONITOR_CREATURE \<equiv> 0xDC"
abbreviation (input) MSG_REPORT_TOTAL_HEALTH :: u8 where "MSG_REPORT_TOTAL_HEALTH \<equiv> 0xDD"
abbreviation (input) MSG_REPORT_TOTAL_MANA :: u8 where "MSG_REPORT_TOTAL_MANA \<equiv> 0xDE"
abbreviation (input) MSG_REPORT_SPELL_STAT :: u8 where "MSG_REPORT_SPELL_STAT \<equiv> 0xDF"
abbreviation (input) MSG_REPORT_SECONDARY_WEAPON :: u8 where "MSG_REPORT_SECONDARY_WEAPON \<equiv> 0xE0"
abbreviation (input) MSG_REPORT_LAST_QUIVER :: u8 where "MSG_REPORT_LAST_QUIVER \<equiv> 0xE1"
abbreviation (input) MSG_INFO_BOOK_DATA :: u8 where "MSG_INFO_BOOK_DATA \<equiv> 0xE2"
abbreviation (input) MSG_SOCIAL :: u8 where "MSG_SOCIAL \<equiv> 0xE3"
abbreviation (input) MSG_FADE_BEGIN :: u8 where "MSG_FADE_BEGIN \<equiv> 0xE4"
abbreviation (input) MSG_MUSIC_EVENT :: u8 where "MSG_MUSIC_EVENT \<equiv> 0xE5"
abbreviation (input) MSG_MUSIC_PUSH_EVENT :: u8 where "MSG_MUSIC_PUSH_EVENT \<equiv> 0xE6"
abbreviation (input) MSG_MUSIC_POP_EVENT :: u8 where "MSG_MUSIC_POP_EVENT \<equiv> 0xE7"
abbreviation (input) MSG_PLAYER_DIED :: u8 where "MSG_PLAYER_DIED \<equiv> 0xE8"
abbreviation (input) MSG_PLAYER_RESPAWN :: u8 where "MSG_PLAYER_RESPAWN \<equiv> 0xE9"
abbreviation (input) MSG_FORGET_DRAWABLES :: u8 where "MSG_FORGET_DRAWABLES \<equiv> 0xEA"
abbreviation (input) MSG_RESET_ABILITIES :: u8 where "MSG_RESET_ABILITIES \<equiv> 0xEB"
abbreviation (input) MSG_RATE_CHANGE :: u8 where "MSG_RATE_CHANGE \<equiv> 0xEC"
abbreviation (input) MSG_REPORT_CREATURE_CMD :: u8 where "MSG_REPORT_CREATURE_CMD \<equiv> 0xED"
abbreviation (input) MSG_VOTE :: u8 where "MSG_VOTE \<equiv> 0xEE"
abbreviation (input) MSG_STAT_MULTIPLIERS :: u8 where "MSG_STAT_MULTIPLIERS \<equiv> 0xEF"
abbreviation (input) MSG_GAUNTLET :: u8 where "MSG_GAUNTLET \<equiv> 0xF0"
abbreviation (input) MSG_INVENTORY_FAIL :: u8 where "MSG_INVENTORY_FAIL \<equiv> 0xF1"

definition OpCodes :: "(string \<times> u8) list" where
  "OpCodes =
    [(''MSG_PARTIAL_TIMESTAMP'', MSG_PARTIAL_TIMESTAMP), (''MSG_FULL_TIMESTAMP'', MSG_FULL_TIMESTAMP),
    (''MSG_NEED_TIMESTAMP'', MSG_NEED_TIMESTAMP),
    (''MSG_SIMULATED_TIMESTAMP'', MSG_SIMULATED_TIMESTAMP), (''MSG_USE_MAP'', MSG_USE_MAP),
    (''MSG_JOIN_DATA'', MSG_JOIN_DATA), (''MSG_NEW_PLAYER'', MSG_NEW_PLAYER),
    (''MSG_PLAYER_QUIT'', MSG_PLAYER_QUIT), (''MSG_SIMPLE_OBJ'', MSG_SIMPLE_OBJ),
    (''MSG_COMPLEX_OBJ'', MSG_COMPLEX_OBJ), (''MSG_DESTROY_OBJECT'', MSG_DESTROY_OBJECT),
    (''MSG_OBJECT_OUT_OF_SIGHT'', MSG_OBJECT_OUT_OF_SIGHT),
    (''MSG_OBJECT_IN_SHADOWS'', MSG_OBJECT_IN_SHADOWS),
    (''MSG_OBJECT_FRIEND_ADD'', MSG_OBJECT_FRIEND_ADD),
    (''MSG_OBJECT_FRIEND_REMOVE'', MSG_OBJECT_FRIEND_REMOVE),
    (''MSG_RESET_FRIENDS'', MSG_RESET_FRIENDS), (''MSG_ENABLE_OBJECT'', MSG_ENABLE_OBJECT),
    (''MSG_DISABLE_OBJECT'', MSG_DISABLE_OBJECT), (''MSG_DRAW_FRAME'', MSG_DRAW_FRAME),
    (''MSG_DESTROY_WALL'', MSG_DESTROY_WALL), (''MSG_OPEN_WALL'', MSG_OPEN_WALL),
    (''MSG_CLOSE_WALL'', MSG_CLOSE_WALL),
    (''MSG_CHANGE_OR_ADD_WALL_MAGIC'', MSG_CHANGE_OR_ADD_WALL_MAGIC),
    (''MSG_REMOVE_WALL_MAGIC'', MSG_REMOVE_WALL_MAGIC), (''MSG_PLAYER_INPUT'', MSG_PLAYER_INPUT),
    (''MSG_PLAYER_SET_WAYPOINT'', MSG_PLAYER_SET_WAYPOINT), (''MSG_REPORT_HEALTH'', MSG_REPORT_HEALTH),
    (''MSG_REPORT_HEALTH_DELTA'', MSG_REPORT_HEALTH_DELTA),
    (''MSG_REPORT_PLAYER_HEALTH'', MSG_REPORT_PLAYER_HEALTH),
    (''MSG_REPORT_ITEM_HEALTH'', MSG_REPORT_ITEM_HEALTH), (''MSG_REPORT_MANA'', MSG_REPORT_MANA),
    (''MSG_REPORT_POISON'', MSG_REPORT_POISON), (''MSG_REPORT_STAMINA'', MSG_REPORT_STAMINA),
    (''MSG_REPORT_STATS'', MSG_REPORT_STATS), (''MSG_REPORT_ARMOR_VALUE'', MSG_REPORT_ARMOR_VALUE),
    (''MSG_REPORT_GOLD'', MSG_REPORT_GOLD), (''MSG_REPORT_PICKUP'', MSG_REPORT_PICKUP),
    (''MSG_REPORT_MODIFIABLE_PICKUP'', MSG_REPORT_MODIFIABLE_PICKUP),
    (''MSG_REPORT_DROP'', MSG_REPORT_DROP), (''MSG_REPORT_LESSON'', MSG_REPORT_LESSON),
    (''MSG_REPORT_MUNDANE_ARMOR_EQUIP'', MSG_REPORT_MUNDANE_ARMOR_EQUIP),
    (''MSG_REPORT_MUNDANE_WEAPON_EQUIP'', MSG_REPORT_MUNDANE_WEAPON_EQUIP),
    (''MSG_REPORT_MODIFIABLE_WEAPON_EQUIP'', MSG_REPORT_MODIFIABLE_WEAPON_EQUIP),
    (''MSG_REPORT_MODIFIABLE_ARMOR_EQUIP'', MSG_REPORT_MODIFIABLE_ARMOR_EQUIP),
    (''MSG_REPORT_ARMOR_DEQUIP'', MSG_REPORT_ARMOR_DEQUIP),
    (''MSG_REPORT_WEAPON_DEQUIP'', MSG_REPORT_WEAPON_DEQUIP),
    (''MSG_REPORT_TREASURE_COUNT'', MSG_REPORT_TREASURE_COUNT),
    (''MSG_REPORT_FLAG_BALL_WINNER'', MSG_REPORT_FLAG_BALL_WINNER),
    (''MSG_REPORT_FLAG_WINNER'', MSG_REPORT_FLAG_WINNER),
    (''MSG_REPORT_DEATHMATCH_WINNER'', MSG_REPORT_DEATHMATCH_WINNER),
    (''MSG_REPORT_DEATHMATCH_TEAM_WINNER'', MSG_REPORT_DEATHMATCH_TEAM_WINNER),
    (''MSG_REPORT_ENCHANTMENT'', MSG_REPORT_ENCHANTMENT),
    (''MSG_REPORT_ITEM_ENCHANTMENT'', MSG_REPORT_ITEM_ENCHANTMENT),
    (''MSG_REPORT_LIGHT_COLOR'', MSG_REPORT_LIGHT_COLOR),
    (''MSG_REPORT_LIGHT_INTENSITY'', MSG_REPORT_LIGHT_INTENSITY),
    (''MSG_REPORT_Z_PLUS'', MSG_REPORT_Z_PLUS), (''MSG_REPORT_Z_MINUS'', MSG_REPORT_Z_MINUS),
    (''MSG_REPORT_EQUIP'', MSG_REPORT_EQUIP), (''MSG_REPORT_DEQUIP'', MSG_REPORT_DEQUIP),
    (''MSG_REPORT_ACQUIRE_SPELL'', MSG_REPORT_ACQUIRE_SPELL),
    (''MSG_REPORT_TARGET'', MSG_REPORT_TARGET), (''MSG_REPORT_CHARGES'', MSG_REPORT_CHARGES),
    (''MSG_REPORT_X_STATUS'', MSG_REPORT_X_STATUS),
    (''MSG_REPORT_PLAYER_STATUS'', MSG_REPORT_PLAYER_STATUS),
    (''MSG_REPORT_MODIFIER'', MSG_REPORT_MODIFIER),
    (''MSG_REPORT_STAT_MODIFIER'', MSG_REPORT_STAT_MODIFIER), (''MSG_REPORT_NPC'', MSG_REPORT_NPC),
    (''MSG_REPORT_CLIENT_STATUS'', MSG_REPORT_CLIENT_STATUS),
    (''MSG_REPORT_ANIMATION_FRAME'', MSG_REPORT_ANIMATION_FRAME),
    (''MSG_REPORT_ACQUIRE_CREATURE'', MSG_REPORT_ACQUIRE_CREATURE),
    (''MSG_REPORT_LOSE_CREATURE'', MSG_REPORT_LOSE_CREATURE),
    (''MSG_REPORT_EXPERIENCE'', MSG_REPORT_EXPERIENCE),
    (''MSG_REPORT_SPELL_AWARD'', MSG_REPORT_SPELL_AWARD),
    (''MSG_REPORT_SPELL_START'', MSG_REPORT_SPELL_START),
    (''MSG_REPORT_INVENTORY_LOADED'', MSG_REPORT_INVENTORY_LOADED), (''MSG_TRY_DROP'', MSG_TRY_DROP),
    (''MSG_TRY_GET'', MSG_TRY_GET), (''MSG_TRY_USE'', MSG_TRY_USE), (''MSG_TRY_EQUIP'', MSG_TRY_EQUIP),
    (''MSG_TRY_DEQUIP'', MSG_TRY_DEQUIP), (''MSG_TRY_TARGET'', MSG_TRY_TARGET),
    (''MSG_TRY_CREATURE_COMMAND'', MSG_TRY_CREATURE_COMMAND), (''MSG_TRY_SPELL'', MSG_TRY_SPELL),
    (''MSG_TRY_ABILITY'', MSG_TRY_ABILITY), (''MSG_TRY_COLLIDE'', MSG_TRY_COLLIDE),
    (''MSG_FX_PARTICLEFX'', MSG_FX_PARTICLEFX), (''MSG_FX_PLASMA'', MSG_FX_PLASMA),
    (''MSG_FX_SUMMON'', MSG_FX_SUMMON), (''MSG_FX_SUMMON_CANCEL'', MSG_FX_SUMMON_CANCEL),
    (''MSG_FX_SHIELD'', MSG_FX_SHIELD), (''MSG_FX_BLUE_SPARKS'', MSG_FX_BLUE_SPARKS),
    (''MSG_FX_YELLOW_SPARKS'', MSG_FX_YELLOW_SPARKS), (''MSG_FX_CYAN_SPARKS'', MSG_FX_CYAN_SPARKS),
    (''MSG_FX_VIOLET_SPARKS'', MSG_FX_VIOLET_SPARKS), (''MSG_FX_EXPLOSION'', MSG_FX_EXPLOSION),
    (''MSG_FX_LESSER_EXPLOSION'', MSG_FX_LESSER_EXPLOSION),
    (''MSG_FX_COUNTERSPELL_EXPLOSION'', MSG_FX_COUNTERSPELL_EXPLOSION),
    (''MSG_FX_THIN_EXPLOSION'', MSG_FX_THIN_EXPLOSION), (''MSG_FX_TELEPORT'', MSG_FX_TELEPORT),
    (''MSG_FX_SMOKE_BLAST'', MSG_FX_SMOKE_BLAST), (''MSG_FX_DAMAGE_POOF'', MSG_FX_DAMAGE_POOF),
    (''MSG_FX_LIGHTNING'', MSG_FX_LIGHTNING), (''MSG_FX_ENERGY_BOLT'', MSG_FX_ENERGY_BOLT),
    (''MSG_FX_CHAIN_LIGHTNING_BOLT'', MSG_FX_CHAIN_LIGHTNING_BOLT),
    (''MSG_FX_DRAIN_MANA'', MSG_FX_DRAIN_MANA), (''MSG_FX_CHARM'', MSG_FX_CHARM),
    (''MSG_FX_GREATER_HEAL'', MSG_FX_GREATER_HEAL), (''MSG_FX_MAGIC'', MSG_FX_MAGIC),
    (''MSG_FX_SPARK_EXPLOSION'', MSG_FX_SPARK_EXPLOSION), (''MSG_FX_DEATH_RAY'', MSG_FX_DEATH_RAY),
    (''MSG_FX_SENTRY_RAY'', MSG_FX_SENTRY_RAY), (''MSG_FX_RICOCHET'', MSG_FX_RICOCHET),
    (''MSG_FX_JIGGLE'', MSG_FX_JIGGLE), (''MSG_FX_GREEN_BOLT'', MSG_FX_GREEN_BOLT),
    (''MSG_FX_GREEN_EXPLOSION'', MSG_FX_GREEN_EXPLOSION), (''MSG_FX_WHITE_FLASH'', MSG_FX_WHITE_FLASH),
    (''MSG_FX_GENERATING_MAP'', MSG_FX_GENERATING_MAP),
    (''MSG_FX_ASSEMBLING_MAP'', MSG_FX_ASSEMBLING_MAP),
    (''MSG_FX_POPULATING_MAP'', MSG_FX_POPULATING_MAP),
    (''MSG_FX_DURATION_SPELL'', MSG_FX_DURATION_SPELL),
    (''MSG_FX_DELTAZ_SPELL_START'', MSG_FX_DELTAZ_SPELL_START),
    (''MSG_FX_TURN_UNDEAD'', MSG_FX_TURN_UNDEAD), (''MSG_FX_ARROW_TRAP'', MSG_FX_ARROW_TRAP),
    (''MSG_FX_VAMPIRISM'', MSG_FX_VAMPIRISM), (''MSG_FX_MANA_BOMB_CANCEL'', MSG_FX_MANA_BOMB_CANCEL),
    (''MSG_UPDATE_STREAM'', MSG_UPDATE_STREAM), (''MSG_NEW_ALIAS'', MSG_NEW_ALIAS),
    (''MSG_AUDIO_EVENT'', MSG_AUDIO_EVENT), (''MSG_AUDIO_PLAYER_EVENT'', MSG_AUDIO_PLAYER_EVENT),
    (''MSG_TEXT_MESSAGE'', MSG_TEXT_MESSAGE), (''MSG_INFORM'', MSG_INFORM),
    (''MSG_IMPORTANT'', MSG_IMPORTANT), (''MSG_IMPORTANT_ACK'', MSG_IMPORTANT_ACK),
    (''MSG_MOUSE'', MSG_MOUSE), (''MSG_INCOMING_CLIENT'', MSG_INCOMING_CLIENT),
    (''MSG_OUTGOING_CLIENT'', MSG_OUTGOING_CLIENT), (''MSG_GAME_SETTINGS'', MSG_GAME_SETTINGS),
    (''MSG_GAME_SETTINGS_2'', MSG_GAME_SETTINGS_2),
    (''MSG_UPDATE_GUI_GAME_SETTINGS'', MSG_UPDATE_GUI_GAME_SETTINGS),
    (''MSG_DOOR_ANGLE'', MSG_DOOR_ANGLE), (''MSG_OBELISK_CHARGE'', MSG_OBELISK_CHARGE),
    (''MSG_PENTAGRAM_ACTIVATE'', MSG_PENTAGRAM_ACTIVATE),
    (''MSG_CLIENT_PREDICT_LINEAR'', MSG_CLIENT_PREDICT_LINEAR), (''MSG_REQUEST_MAP'', MSG_REQUEST_MAP),
    (''MSG_CANCEL_MAP'', MSG_CANCEL_MAP), (''MSG_MAP_SEND_START'', MSG_MAP_SEND_START),
    (''MSG_MAP_SEND_PACKET'', MSG_MAP_SEND_PACKET), (''MSG_MAP_SEND_ABORT'', MSG_MAP_SEND_ABORT),
    (''MSG_SERVER_CMD'', MSG_SERVER_CMD), (''MSG_SYSOP_PW'', MSG_SYSOP_PW),
    (''MSG_SYSOP_RESULT'', MSG_SYSOP_RESULT), (''MSG_KEEP_ALIVE'', MSG_KEEP_ALIVE),
    (''MSG_RECEIVED_MAP'', MSG_RECEIVED_MAP), (''MSG_CLIENT_READY'', MSG_CLIENT_READY),
    (''MSG_REQUEST_SAVE_PLAYER'', MSG_REQUEST_SAVE_PLAYER), (''MSG_XFER_MSG'', MSG_XFER_MSG),
    (''MSG_PLAYER_OBJ'', MSG_PLAYER_OBJ), (''MSG_TEAM_MSG'', MSG_TEAM_MSG),
    (''MSG_KICK_NOTIFICATION'', MSG_KICK_NOTIFICATION),
    (''MSG_TIMEOUT_NOTIFICATION'', MSG_TIMEOUT_NOTIFICATION), (''MSG_SERVER_QUIT'', MSG_SERVER_QUIT),
    (''MSG_SERVER_QUIT_ACK'', MSG_SERVER_QUIT_ACK), (''MSG_TRADE'', MSG_TRADE),
    (''MSG_CHAT_KILL'', MSG_CHAT_KILL), (''MSG_MESSAGES_KILL'', MSG_MESSAGES_KILL),
    (''MSG_SEQ_IMPORTANT'', MSG_SEQ_IMPORTANT),
    (''MSG_REPORT_ABILITY_AWARD'', MSG_REPORT_ABILITY_AWARD),
    (''MSG_REPORT_ABILITY_STATE'', MSG_REPORT_ABILITY_STATE),
    (''MSG_REPORT_ACTIVE_ABILITIES'', MSG_REPORT_ACTIVE_ABILITIES), (''MSG_DIALOG'', MSG_DIALOG),
    (''MSG_REPORT_GUIDE_AWARD'', MSG_REPORT_GUIDE_AWARD), (''MSG_INTERESTING_ID'', MSG_INTERESTING_ID),
    (''MSG_TIMER_STATUS'', MSG_TIMER_STATUS), (''MSG_REQUEST_TIMER_STATUS'', MSG_REQUEST_TIMER_STATUS),
    (''MSG_JOURNAL_MSG'', MSG_JOURNAL_MSG), (''MSG_CHAPTER_END'', MSG_CHAPTER_END),
    (''MSG_REPORT_ALL_LATENCY'', MSG_REPORT_ALL_LATENCY),
    (''MSG_REPORT_FLAG_STATUS'', MSG_REPORT_FLAG_STATUS),
    (''MSG_REPORT_BALL_STATUS'', MSG_REPORT_BALL_STATUS),
    (''MSG_REPORT_OBJECT_POISON'', MSG_REPORT_OBJECT_POISON),
    (''MSG_REPORT_MONITOR_CREATURE'', MSG_REPORT_MONITOR_CREATURE),
    (''MSG_REPORT_UNMONITOR_CREATURE'', MSG_REPORT_UNMONITOR_CREATURE),
    (''MSG_REPORT_TOTAL_HEALTH'', MSG_REPORT_TOTAL_HEALTH),
    (''MSG_REPORT_TOTAL_MANA'', MSG_REPORT_TOTAL_MANA),
    (''MSG_REPORT_SPELL_STAT'', MSG_REPORT_SPELL_STAT),
    (''MSG_REPORT_SECONDARY_WEAPON'', MSG_REPORT_SECONDARY_WEAPON),
    (''MSG_REPORT_LAST_QUIVER'', MSG_REPORT_LAST_QUIVER), (''MSG_INFO_BOOK_DATA'', MSG_INFO_BOOK_DATA),
    (''MSG_SOCIAL'', MSG_SOCIAL), (''MSG_FADE_BEGIN'', MSG_FADE_BEGIN),
    (''MSG_MUSIC_EVENT'', MSG_MUSIC_EVENT), (''MSG_MUSIC_PUSH_EVENT'', MSG_MUSIC_PUSH_EVENT),
    (''MSG_MUSIC_POP_EVENT'', MSG_MUSIC_POP_EVENT), (''MSG_PLAYER_DIED'', MSG_PLAYER_DIED),
    (''MSG_PLAYER_RESPAWN'', MSG_PLAYER_RESPAWN), (''MSG_FORGET_DRAWABLES'', MSG_FORGET_DRAWABLES),
    (''MSG_RESET_ABILITIES'', MSG_RESET_ABILITIES), (''MSG_RATE_CHANGE'', MSG_RATE_CHANGE),
    (''MSG_REPORT_CREATURE_CMD'', MSG_REPORT_CREATURE_CMD), (''MSG_VOTE'', MSG_VOTE),
    (''MSG_STAT_MULTIPLIERS'', MSG_STAT_MULTIPLIERS), (''MSG_GAUNTLET'', MSG_GAUNTLET),
    (''MSG_INVENTORY_FAIL'', MSG_INVENTORY_FAIL)]"

definition MAX_OPCODE_ID :: nat where
  "MAX_OPCODE_ID = 0xF1"

section \<open>Names\<close>

definition opcode_names_low :: "string list" where
  "opcode_names_low =
    [''UNKNOWN'', ''UNKNOWN'', ''UNKNOWN'', ''UNKNOWN'', ''UNKNOWN'', ''UNKNOWN'', ''UNKNOWN'',
    ''UNKNOWN'', ''UNKNOWN'', ''UNKNOWN'', ''UNKNOWN'', ''UNKNOWN'', ''UNKNOWN'', ''UNKNOWN'',
    ''UNKNOWN'', ''UNKNOWN'', ''UNKNOWN'', ''UNKNOWN'', ''UNKNOWN'', ''UNKNOWN'', ''UNKNOWN'',
    ''UNKNOWN'', ''UNKNOWN'', ''UNKNOWN'', ''UNKNOWN'', ''UNKNOWN'', ''UNKNOWN'', ''UNKNOWN'',
    ''UNKNOWN'', ''UNKNOWN'', ''UNKNOWN'', ''UNKNOWN'', ''UNKNOWN'', ''UNKNOWN'', ''UNKNOWN'',
    ''UNKNOWN'', ''UNKNOWN'', ''UNKNOWN'', ''UNKNOWN'', ''MSG_PARTIAL_TIMESTAMP'',
    ''MSG_FULL_TIMESTAMP'', ''MSG_NEED_TIMESTAMP'', ''MSG_SIMULATED_TIMESTAMP'', ''MSG_USE_MAP'',
    ''MSG_JOIN_DATA'', ''MSG_NEW_PLAYER'', ''MSG_PLAYER_QUIT'', ''MSG_SIMPLE_OBJ'',
    ''MSG_COMPLEX_OBJ'', ''MSG_DESTROY_OBJECT'', ''MSG_OBJECT_OUT_OF_SIGHT'',
    ''MSG_OBJECT_IN_SHADOWS'', ''MSG_OBJECT_FRIEND_ADD'', ''MSG_OBJECT_FRIEND_REMOVE'',
    ''MSG_RESET_FRIENDS'', ''MSG_ENABLE_OBJECT'', ''MSG_DISABLE_OBJECT'', ''MSG_DRAW_FRAME'',
    ''MSG_DESTROY_WALL'', ''MSG_OPEN_WALL'', ''MSG_CLOSE_WALL'', ''MSG_CHANGE_OR_ADD_WALL_MAGIC'',
    ''MSG_REMOVE_WALL_MAGIC'', ''MSG_PLAYER_INPUT'', ''MSG_PLAYER_SET_WAYPOINT'',
    ''MSG_REPORT_HEALTH'', ''MSG_REPORT_HEALTH_DELTA'', ''MSG_REPORT_PLAYER_HEALTH'',
    ''MSG_REPORT_ITEM_HEALTH'', ''MSG_REPORT_MANA'', ''MSG_REPORT_POISON'', ''MSG_REPORT_STAMINA'',
    ''MSG_REPORT_STATS'', ''MSG_REPORT_ARMOR_VALUE'', ''MSG_REPORT_GOLD'', ''MSG_REPORT_PICKUP'',
    ''MSG_REPORT_MODIFIABLE_PICKUP'', ''MSG_REPORT_DROP'', ''MSG_REPORT_LESSON'',
    ''MSG_REPORT_MUNDANE_ARMOR_EQUIP'', ''MSG_REPORT_MUNDANE_WEAPON_EQUIP'',
    ''MSG_REPORT_MODIFIABLE_WEAPON_EQUIP'', ''MSG_REPORT_MODIFIABLE_ARMOR_EQUIP'',
    ''MSG_REPORT_ARMOR_DEQUIP'', ''MSG_REPORT_WEAPON_DEQUIP'', ''MSG_REPORT_TREASURE_COUNT'',
    ''MSG_REPORT_FLAG_BALL_WINNER'', ''MSG_REPORT_FLAG_WINNER'', ''MSG_REPORT_DEATHMATCH_WINNER'',
    ''MSG_REPORT_DEATHMATCH_TEAM_WINNER'', ''MSG_REPORT_ENCHANTMENT'', ''MSG_REPORT_ITEM_ENCHANTMENT'',
    ''MSG_REPORT_LIGHT_COLOR'', ''MSG_REPORT_LIGHT_INTENSITY'', ''MSG_REPORT_Z_PLUS'',
    ''MSG_REPORT_Z_MINUS'', ''MSG_REPORT_EQUIP'', ''MSG_REPORT_DEQUIP'', ''MSG_REPORT_ACQUIRE_SPELL'',
    ''MSG_REPORT_TARGET'', ''MSG_REPORT_CHARGES'', ''MSG_REPORT_X_STATUS'',
    ''MSG_REPORT_PLAYER_STATUS'', ''MSG_REPORT_MODIFIER'', ''MSG_REPORT_STAT_MODIFIER'',
    ''MSG_REPORT_NPC'', ''MSG_REPORT_CLIENT_STATUS'', ''MSG_REPORT_ANIMATION_FRAME'',
    ''MSG_REPORT_ACQUIRE_CREATURE'', ''MSG_REPORT_LOSE_CREATURE'', ''MSG_REPORT_EXPERIENCE'',
    ''MSG_REPORT_SPELL_AWARD'', ''MSG_REPORT_SPELL_START'', ''MSG_REPORT_INVENTORY_LOADED'',
    ''MSG_TRY_DROP'', ''MSG_TRY_GET'', ''MSG_TRY_USE'', ''MSG_TRY_EQUIP'', ''MSG_TRY_DEQUIP'',
    ''MSG_TRY_TARGET'', ''MSG_TRY_CREATURE_COMMAND'', ''MSG_TRY_SPELL'', ''MSG_TRY_ABILITY'',
    ''MSG_TRY_COLLIDE'', ''MSG_FX_PARTICLEFX'', ''MSG_FX_PLASMA'', ''MSG_FX_SUMMON'',
    ''MSG_FX_SUMMON_CANCEL'']"

definition opcode_names_high :: "string list" where
  "opcode_names_high =
    [''MSG_FX_SHIELD'', ''MSG_FX_BLUE_SPARKS'', ''MSG_FX_YELLOW_SPARKS'', ''MSG_FX_CYAN_SPARKS'',
    ''MSG_FX_VIOLET_SPARKS'', ''MSG_FX_EXPLOSION'', ''MSG_FX_LESSER_EXPLOSION'',
    ''MSG_FX_COUNTERSPELL_EXPLOSION'', ''MSG_FX_THIN_EXPLOSION'', ''MSG_FX_TELEPORT'',
    ''MSG_FX_SMOKE_BLAST'', ''MSG_FX_DAMAGE_POOF'', ''MSG_FX_LIGHTNING'', ''MSG_FX_ENERGY_BOLT'',
    ''MSG_FX_CHAIN_LIGHTNING_BOLT'', ''MSG_FX_DRAIN_MANA'', ''MSG_FX_CHARM'', ''MSG_FX_GREATER_HEAL'',
    ''MSG_FX_MAGIC'', ''MSG_FX_SPARK_EXPLOSION'', ''MSG_FX_DEATH_RAY'', ''MSG_FX_SENTRY_RAY'',
    ''MSG_FX_RICOCHET'', ''MSG_FX_JIGGLE'', ''MSG_FX_GREEN_BOLT'', ''MSG_FX_GREEN_EXPLOSION'',
    ''MSG_FX_WHITE_FLASH'', ''MSG_FX_GENERATING_MAP'', ''MSG_FX_ASSEMBLING_MAP'',
    ''MSG_FX_POPULATING_MAP'', ''MSG_FX_DURATION_SPELL'', ''MSG_FX_DELTAZ_SPELL_START'',
    ''MSG_FX_TURN_UNDEAD'', ''MSG_FX_ARROW_TRAP'', ''MSG_FX_VAMPIRISM'', ''MSG_FX_MANA_BOMB_CANCEL'',
    ''MSG_UPDATE_STREAM'', ''MSG_NEW_ALIAS'', ''MSG_AUDIO_EVENT'', ''MSG_AUDIO_PLAYER_EVENT'',
    ''MSG_TEXT_MESSAGE'', ''MSG_INFORM'', ''MSG_IMPORTANT'', ''MSG_IMPORTANT_ACK'', ''MSG_MOUSE'',
    ''MSG_INCOMING_CLIENT'', ''MSG_OUTGOING_CLIENT'', ''MSG_GAME_SETTINGS'', ''MSG_GAME_SETTINGS_2'',
    ''MSG_UPDATE_GUI_GAME_SETTINGS'', ''MSG_DOOR_ANGLE'', ''MSG_OBELISK_CHARGE'',
    ''MSG_PENTAGRAM_ACTIVATE'', ''MSG_CLIENT_PREDICT_LINEAR'', ''MSG_REQUEST_MAP'', ''MSG_CANCEL_MAP'',
    ''MSG_MAP_SEND_START'', ''MSG_MAP_SEND_PACKET'', ''MSG_MAP_SEND_ABORT'', ''MSG_SERVER_CMD'',
    ''MSG_SYSOP_PW'', ''MSG_SYSOP_RESULT'', ''MSG_KEEP_ALIVE'', ''MSG_RECEIVED_MAP'',
    ''MSG_CLIENT_READY'', ''MSG_REQUEST_SAVE_PLAYER'', ''MSG_XFER_MSG'', ''MSG_PLAYER_OBJ'',
    ''MSG_TEAM_MSG'', ''MSG_KICK_NOTIFICATION'', ''MSG_TIMEOUT_NOTIFICATION'', ''MSG_SERVER_QUIT'',
    ''MSG_SERVER_QUIT_ACK'', ''MSG_TRADE'', ''MSG_CHAT_KILL'', ''MSG_MESSAGES_KILL'',
    ''MSG_SEQ_IMPORTANT'', ''MSG_REPORT_ABILITY_AWARD'', ''MSG_REPORT_ABILITY_STATE'',
    ''MSG_REPORT_ACTIVE_ABILITIES'', ''MSG_DIALOG'', ''MSG_REPORT_GUIDE_AWARD'',
    ''MSG_INTERESTING_ID'', ''MSG_TIMER_STATUS'', ''MSG_REQUEST_TIMER_STATUS'', ''MSG_JOURNAL_MSG'',
    ''MSG_CHAPTER_END'', ''MSG_REPORT_ALL_LATENCY'', ''MSG_REPORT_FLAG_STATUS'',
    ''MSG_REPORT_BALL_STATUS'', ''MSG_REPORT_OBJECT_POISON'', ''MSG_REPORT_MONITOR_CREATURE'',
    ''MSG_REPORT_UNMONITOR_CREATURE'', ''MSG_REPORT_TOTAL_HEALTH'', ''MSG_REPORT_TOTAL_MANA'',
    ''MSG_REPORT_SPELL_STAT'', ''MSG_REPORT_SECONDARY_WEAPON'', ''MSG_REPORT_LAST_QUIVER'',
    ''MSG_INFO_BOOK_DATA'', ''MSG_SOCIAL'', ''MSG_FADE_BEGIN'', ''MSG_MUSIC_EVENT'',
    ''MSG_MUSIC_PUSH_EVENT'', ''MSG_MUSIC_POP_EVENT'', ''MSG_PLAYER_DIED'', ''MSG_PLAYER_RESPAWN'',
    ''MSG_FORGET_DRAWABLES'', ''MSG_RESET_ABILITIES'', ''MSG_RATE_CHANGE'',
    ''MSG_REPORT_CREATURE_CMD'', ''MSG_VOTE'', ''MSG_STAT_MULTIPLIERS'', ''MSG_GAUNTLET'',
    ''MSG_INVENTORY_FAIL'']"

definition g_worldOpcodeNames :: "string list" where
  "g_worldOpcodeNames = opcode_names_low @ opcode_names_high"

text \<open>The table ends with a null pointer, which is no entry of the list.\<close>

definition LookupName :: "u32 \<Rightarrow> string list \<Rightarrow> string option res" where
  "LookupName n table =
     (if unat n > MAX_OPCODE_ID then Inr (Some ''UNKNOWN OPCODE_CODE received, it is more than max!'')
      else if unat n < length table then Inr (Some (table ! unat n))
      else if unat n = length table then Inr None
      else Inl OutOfBounds)"

definition INVALID_ID :: u8 where
  "INVALID_ID = 0xFF"

text \<open>The loop stops at the first name that \<open>strcmp\<close> finds different.\<close>

primrec lookup_id_loop :: "string \<Rightarrow> string list \<Rightarrow> u8 \<Rightarrow> u8" where
  "lookup_id_loop name [] i = INVALID_ID"
| "lookup_id_loop name (t # table) i = (if t \<noteq> name then i else lookup_id_loop name table (i + 1))"

definition LookupId :: "string \<Rightarrow> string list \<Rightarrow> u8" where
  "LookupId name table = lookup_id_loop name table 0"

section \<open>Dispatch\<close>

datatype SessionStatus = STATUS_AUTHED | STATUS_CONFIRMED | STATUS_LOGGEDIN

datatype opcode_handler =
    HandleUnknown06Opcode
  | HandlePlayerJoinOpcode
  | HandleNewUnknownOpcode
  | HandleNeedTimestampOpcode
  | HandlePlayerInputOpcode
  | HandlePlayerSetWaypointOpcode
  | HandleTryDropOpcode
  | HandleTryGetOpcode
  | HandleTryUseOpcode
  | HandleTryEquipOpcode
  | HandleTryDequipOpcode
  | HandleTryCreatureCommandOpcode
  | HandleTrySpellOpcode
  | HandleTryAbilityOpcode
  | HandleTryCollideOpcode
  | HandleNewAliasOpcode
  | HandleTextMessageOpcode
  | HandleImportantOpcode
  | HandleImportantAckOpcode
  | HandleMouseOpcode
  | HandleIncomingClientOpcode
  | HandleOutgoingClientOpcode
  | HandleRequestMapOpcode
  | HandleCancelMapOpcode
  | HandleServerCmdOpcode
  | HandleSysopPwOpcode
  | HandleKeepAliveOpcode
  | HandleReceivedMapOpcode
  | HandleClientReadyOpcode
  | HandleRequestSavePlayerOpcode
  | HandleXferMsgOpcode
  | HandleTeamMsgOpcode
  | HandleServerQuitAckOpcode
  | HandleTradeOpcode
  | HandleDialogOpcode
  | HandleRequestTimerStatusOpcode
  | HandleReportSecondaryWeaponOpcode
  | HandleInfoBookDataOpcode
  | HandleSocialOpcode
  | HandleVoteOpcode
  | HandleGauntletOpcode
  | HandleInventoryFailOpcode

definition opcodeTable_low :: "(u8 \<times> SessionStatus \<times> opcode_handler) list" where
  "opcodeTable_low =
    [
     (0x06, STATUS_AUTHED, HandleUnknown06Opcode),
     (0x1F, STATUS_AUTHED, HandlePlayerJoinOpcode),
     (MSG_PARTIAL_TIMESTAMP, STATUS_LOGGEDIN, HandleNewUnknownOpcode),
     (MSG_FULL_TIMESTAMP, STATUS_LOGGEDIN, HandleNewUnknownOpcode),
     (MSG_NEED_TIMESTAMP, STATUS_LOGGEDIN, HandleNeedTimestampOpcode),
     (MSG_SIMULATED_TIMESTAMP, STATUS_LOGGEDIN, HandleNewUnknownOpcode),
     (MSG_USE_MAP, STATUS_LOGGEDIN, HandleNewUnknownOpcode),
     (MSG_JOIN_DATA, STATUS_LOGGEDIN, HandleNewUnknownOpcode),
     (MSG_NEW_PLAYER, STATUS_LOGGEDIN, HandleNewUnknownOpcode),
     (MSG_PLAYER_QUIT, STATUS_LOGGEDIN, HandleNewUnknownOpcode),
     (MSG_SIMPLE_OBJ, STATUS_LOGGEDIN, HandleNewUnknownOpcode),
     (MSG_COMPLEX_OBJ, STATUS_LOGGEDIN, HandleNewUnknownOpcode),
     (MSG_DESTROY_OBJECT, STATUS_LOGGEDIN, HandleNewUnknownOpcode),
     (MSG_OBJECT_OUT_OF_SIGHT, STATUS_LOGGEDIN, HandleNewUnknownOpcode),
     (MSG_OBJECT_IN_SHADOWS, STATUS_LOGGEDIN, HandleNewUnknownOpcode),
     (MSG_OBJECT_FRIEND_ADD, STATUS_LOGGEDIN, HandleNewUnknownOpcode),
     (MSG_OBJECT_FRIEND_REMOVE, STATUS_LOGGEDIN, HandleNewUnknownOpcode),
     (MSG_RESET_FRIENDS, STATUS_LOGGEDIN, HandleNewUnknownOpcode),
     (MSG_ENABLE_OBJECT, STATUS_LOGGEDIN, HandleNewUnknownOpcode),
     (MSG_DISABLE_OBJECT, STATUS_LOGGEDIN, HandleNewUnknownOpcode),
     (MSG_DRAW_FRAME, STATUS_LOGGEDIN, HandleNewUnknownOpcode),
     (MSG_DESTROY_WALL, STATUS_LOGGEDIN, HandleNewUnknownOpcode),
     (MSG_OPEN_WALL, STATUS_LOGGEDIN, HandleNewUnknownOpcode),
     (MSG_CLOSE_WALL, STATUS_LOGGEDIN, HandleNewUnknownOpcode),
     (MSG_CHANGE_OR_ADD_WALL_MAGIC, STATUS_LOGGEDIN, HandleNewUnknownOpcode),
     (MSG_REMOVE_WALL_MAGIC, STATUS_LOGGEDIN, HandleNewUnknownOpcode),
     (MSG_PLAYER_INPUT, STATUS_LOGGEDIN, HandlePlayerInputOpcode),
     (MSG_PLAYER_SET_WAYPOINT, STATUS_LOGGEDIN, HandlePlayerSetWaypointOpcode),
     (MSG_REPORT_HEALTH, STATUS_LOGGEDIN, HandleNewUnknownOpcode),
     (MSG_REPORT_HEALTH_DELTA, STATUS_LOGGEDIN, HandleNewUnknownOpcode),
     (MSG_REPORT_PLAYER_HEALTH, STATUS_LOGGEDIN, HandleNewUnknownOpcode),
     (MSG_REPORT_ITEM_HEALTH, STATUS_LOGGEDIN, HandleNewUnknownOpcode),
     (MSG_REPORT_MANA, STATUS_LOGGEDIN, HandleNewUnknownOpcode),
     (MSG_REPORT_POISON, STATUS_LOGGEDIN, HandleNewUnknownOpcode),
     (MSG_REPORT_STAMINA, STATUS_LOGGEDIN, HandleNewUnknownOpcode),
     (MSG_REPORT_STATS, STATUS_LOGGEDIN, HandleNewUnknownOpcode),
     (MSG_REPORT_ARMOR_VALUE, STATUS_LOGGEDIN, HandleNewUnknownOpcode),
     (MSG_REPORT_GOLD, STATUS_LOGGEDIN, HandleNewUnknownOpcode),
     (MSG_REPORT_PICKUP, STATUS_LOGGEDIN, HandleNewUnknownOpcode),
     (MSG_REPORT_MODIFIABLE_PICKUP, STATUS_LOGGEDIN, HandleNewUnknownOpcode),
     (MSG_REPORT_DROP, STATUS_LOGGEDIN, HandleNewUnknownOpcode),
     (MSG_REPORT_LESSON, STATUS_LOGGEDIN, HandleNewUnknownOpcode),
     (MSG_REPORT_MUNDANE_ARMOR_EQUIP, STATUS_LOGGEDIN, HandleNewUnknownOpcode),
     (MSG_REPORT_MUNDANE_WEAPON_EQUIP, STATUS_LOGGEDIN, HandleNewUnknownOpcode),
     (MSG_REPORT_MODIFIABLE_WEAPON_EQUIP, STATUS_LOGGEDIN, HandleNewUnknownOpcode),
     (MSG_REPORT_MODIFIABLE_ARMOR_EQUIP, STATUS_LOGGEDIN, HandleNewUnknownOpcode),
     (MSG_REPORT_ARMOR_DEQUIP, STATUS_LOGGEDIN, HandleNewUnknownOpcode),
     (MSG_REPORT_WEAPON_DEQUIP, STATUS_LOGGEDIN, HandleNewUnknownOpcode),
     (MSG_REPORT_TREASURE_COUNT, STATUS_LOGGEDIN, HandleNewUnknownOpcode),
     (MSG_REPORT_FLAG_BALL_WINNER, STATUS_LOGGEDIN, HandleNewUnknownOpcode),
     (MSG_REPORT_FLAG_WINNER, STATUS_LOGGEDIN, HandleNewUnknownOpcode),
     (MSG_REPORT_DEATHMATCH_WINNER, STATUS_LOGGEDIN, HandleNewUnknownOpcode),
     (MSG_REPORT_DEATHMATCH_TEAM_WINNER, STATUS_LOGGEDIN, HandleNewUnknownOpcode),
     (MSG_REPORT_ENCHANTMENT, STATUS_LOGGEDIN, HandleNewUnknownOpcode),
     (MSG_REPORT_ITEM_ENCHANTMENT, STATUS_LOGGEDIN, HandleNewUnknownOpcode),
     (MSG_REPORT_LIGHT_COLOR, STATUS_LOGGEDIN, HandleNewUnknownOpcode),
     (MSG_REPORT_LIGHT_INTENSITY, STATUS_LOGGEDIN, HandleNewUnknownOpcode),
     (MSG_REPORT_Z_PLUS, STATUS_LOGGEDIN, HandleNewUnknownOpcode),
     (MSG_REPORT_Z_MINUS, STATUS_LOGGEDIN, HandleNewUnknownOpcode),
     (MSG_REPORT_EQUIP, STATUS_LOGGEDIN, HandleNewUnknownOpcode),
     (MSG_REPORT_DEQUIP, STATUS_LOGGEDIN, HandleNewUnknownOpcode),
     (MSG_REPORT_ACQUIRE_SPELL, STATUS_LOGGEDIN, HandleNewUnknownOpcode),
     (MSG_REPORT_TARGET, STATUS_LOGGEDIN, HandleNewUnknownOpcode),
     (MSG_REPORT_CHARGES, STATUS_LOGGEDIN, HandleNewUnknownOpcode),
     (MSG_REPORT_X_STATUS, STATUS_LOGGEDIN, HandleNewUnknownOpcode),
     (MSG_REPORT_PLAYER_STATUS, STATUS_LOGGEDIN, HandleNewUnknownOpcode),
     (MSG_REPORT_MODIFIER, STATUS_LOGGEDIN, HandleNewUnknownOpcode),
     (MSG_REPORT_STAT_MODIFIER, STATUS_LOGGEDIN, HandleNewUnknownOpcode),
     (MSG_REPORT_NPC, STATUS_LOGGEDIN, HandleNewUnknownOpcode),
     (MSG_REPORT_CLIENT_STATUS, STATUS_LOGGEDIN, HandleNewUnknownOpcode),
     (MSG_REPORT_ANIMATION_FRAME, STATUS_LOGGEDIN, HandleNewUnknownOpcode),
     (MSG_REPORT_ACQUIRE_CREATURE, STATUS_LOGGEDIN, HandleNewUnknownOpcode),
     (MSG_REPORT_LOSE_CREATURE, STATUS_LOGGEDIN, HandleNewUnknownOpcode),
     (MSG_REPORT_EXPERIENCE, STATUS_LOGGEDIN, HandleNewUnknownOpcode),
     (MSG_REPORT_SPELL_AWARD, STATUS_LOGGEDIN, HandleNewUnknownOpcode),
     (MSG_REPORT_SPELL_START, STATUS_LOGGEDIN, HandleNewUnknownOpcode),
     (MSG_REPORT_INVENTORY_LOADED, STATUS_LOGGEDIN, HandleNewUnknownOpcode),
     (MSG_TRY_DROP, STATUS_LOGGEDIN, HandleTryDropOpcode),
     (MSG_TRY_GET, STATUS_LOGGEDIN, HandleTryGetOpcode),
     (MSG_TRY_USE, STATUS_LOGGEDIN, HandleTryUseOpcode),
     (MSG_TRY_EQUIP, STATUS_LOGGEDIN, HandleTryEquipOpcode),
     (MSG_TRY_DEQUIP, STATUS_LOGGEDIN, HandleTryDequipOpcode),
     (MSG_TRY_TARGET, STATUS_LOGGEDIN, HandleNewUnknownOpcode),
     (MSG_TRY_CREATURE_COMMAND, STATUS_LOGGEDIN, HandleTryCreatureCommandOpcode),
     (MSG_TRY_SPELL, STATUS_LOGGEDIN, HandleTrySpellOpcode),
     (MSG_TRY_ABILITY, STATUS_LOGGEDIN, HandleTryAbilityOpcode),
     (MSG_TRY_COLLIDE, STATUS_LOGGEDIN, HandleTryCollideOpcode),
     (MSG_FX_PARTICLEFX, STATUS_LOGGEDIN, HandleNewUnknownOpcode),
     (MSG_FX_PLASMA, STATUS_LOGGEDIN, HandleNewUnknownOpcode),
     (MSG_FX_SUMMON, STATUS_LOGGEDIN, HandleNewUnknownOpcode),
     (MSG_FX_SUMMON_CANCEL, STATUS_LOGGEDIN, HandleNewUnknownOpcode),
     (MSG_FX_SHIELD, STATUS_LOGGEDIN, HandleNewUnknownOpcode),
     (MSG_FX_BLUE_SPARKS, STATUS_LOGGEDIN, HandleNewUnknownOpcode),
     (MSG_FX_YELLOW_SPARKS, STATUS_LOGGEDIN, HandleNewUnknownOpcode),
     (MSG_FX_CYAN_SPARKS, STATUS_LOGGEDIN, HandleNewUnknownOpcode),
     (MSG_FX_VIOLET_SPARKS, STATUS_LOGGEDIN, HandleNewUnknownOpcode),
     (MSG_FX_EXPLOSION, STATUS_LOGGEDIN, HandleNewUnknownOpcode),
     (MSG_FX_LESSER_EXPLOSION, STATUS_LOGGEDIN, HandleNewUnknownOpcode),
     (MSG_FX_COUNTERSPELL_EXPLOSION, STATUS_LOGGEDIN, HandleNewUnknownOpcode),
     (MSG_FX_THIN_EXPLOSION, STATUS_LOGGEDIN, HandleNewUnknownOpcode)]"

definition opcodeTable_high :: "(u8 \<times> SessionStatus \<times> opcode_handler) list" where
  "opcodeTable_high =
    [
     (MSG_FX_TELEPORT, STATUS_LOGGEDIN, HandleNewUnknownOpcode),
     (MSG_FX_SMOKE_BLAST, STATUS_LOGGEDIN, HandleNewUnknownOpcode),
     (MSG_FX_DAMAGE_POOF, STATUS_LOGGEDIN, HandleNewUnknownOpcode),
     (MSG_FX_LIGHTNING, STATUS_LOGGEDIN, HandleNewUnknownOpcode),
     (MSG_FX_ENERGY_BOLT, STATUS_LOGGEDIN, HandleNewUnknownOpcode),
     (MSG_FX_CHAIN_LIGHTNING_BOLT, STATUS_LOGGEDIN, HandleNewUnknownOpcode),
     (MSG_FX_DRAIN_MANA, STATUS_LOGGEDIN, HandleNewUnknownOpcode),
     (MSG_FX_CHARM, STATUS_LOGGEDIN, HandleNewUnknownOpcode),
     (MSG_FX_GREATER_HEAL, STATUS_LOGGEDIN, HandleNewUnknownOpcode),
     (MSG_FX_MAGIC, STATUS_LOGGEDIN, HandleNewUnknownOpcode),
     (MSG_FX_SPARK_EXPLOSION, STATUS_LOGGEDIN, HandleNewUnknownOpcode),
     (MSG_FX_DEATH_RAY, STATUS_LOGGEDIN, HandleNewUnknownOpcode),
     (MSG_FX_SENTRY_RAY, STATUS_LOGGEDIN, HandleNewUnknownOpcode),
     (MSG_FX_RICOCHET, STATUS_LOGGEDIN, HandleNewUnknownOpcode),
     (MSG_FX_JIGGLE, STATUS_LOGGEDIN, HandleNewUnknownOpcode),
     (MSG_FX_GREEN_BOLT, STATUS_LOGGEDIN, HandleNewUnknownOpcode),
     (MSG_FX_GREEN_EXPLOSION, STATUS_LOGGEDIN, HandleNewUnknownOpcode),
     (MSG_FX_WHITE_FLASH, STATUS_LOGGEDIN, HandleNewUnknownOpcode),
     (MSG_FX_GENERATING_MAP, STATUS_LOGGEDIN, HandleNewUnknownOpcode),
     (MSG_FX_ASSEMBLING_MAP, STATUS_LOGGEDIN, HandleNewUnknownOpcode),
     (MSG_FX_POPULATING_MAP, STATUS_LOGGEDIN, HandleNewUnknownOpcode),
     (MSG_FX_DURATION_SPELL, STATUS_LOGGEDIN, HandleNewUnknownOpcode),
     (MSG_FX_DELTAZ_SPELL_START, STATUS_LOGGEDIN, HandleNewUnknownOpcode),
     (MSG_FX_TURN_UNDEAD, STATUS_LOGGEDIN, HandleNewUnknownOpcode),
     (MSG_FX_ARROW_TRAP, STATUS_LOGGEDIN, HandleNewUnknownOpcode),
     (MSG_FX_VAMPIRISM, STATUS_LOGGEDIN, HandleNewUnknownOpcode),
     (MSG_FX_MANA_BOMB_CANCEL, STATUS_LOGGEDIN, HandleNewUnknownOpcode),
     (MSG_UPDATE_STREAM, STATUS_LOGGEDIN, HandleNewUnknownOpcode),
     (MSG_NEW_ALIAS, STATUS_LOGGEDIN, HandleNewAliasOpcode),
     (MSG_AUDIO_EVENT, STATUS_LOGGEDIN, HandleNewUnknownOpcode),
     (MSG_AUDIO_PLAYER_EVENT, STATUS_LOGGEDIN, HandleNewUnknownOpcode),
     (MSG_TEXT_MESSAGE, STATUS_LOGGEDIN, HandleTextMessageOpcode),
     (MSG_INFORM, STATUS_LOGGEDIN, HandleNewUnknownOpcode),
     (MSG_IMPORTANT, STATUS_LOGGEDIN, HandleImportantOpcode),
     (MSG_IMPORTANT_ACK, STATUS_LOGGEDIN, HandleImportantAckOpcode),
     (MSG_MOUSE, STATUS_LOGGEDIN, HandleMouseOpcode),
     (MSG_INCOMING_CLIENT, STATUS_LOGGEDIN, HandleIncomingClientOpcode),
     (MSG_OUTGOING_CLIENT, STATUS_LOGGEDIN, HandleOutgoingClientOpcode),
     (MSG_GAME_SETTINGS, STATUS_LOGGEDIN, HandleNewUnknownOpcode),
     (MSG_GAME_SETTINGS_2, STATUS_LOGGEDIN, HandleNewUnknownOpcode),
     (MSG_UPDATE_GUI_GAME_SETTINGS, STATUS_LOGGEDIN, HandleNewUnknownOpcode),
     (MSG_DOOR_ANGLE, STATUS_LOGGEDIN, HandleNewUnknownOpcode),
     (MSG_OBELISK_CHARGE, STATUS_LOGGEDIN, HandleNewUnknownOpcode),
     (MSG_PENTAGRAM_ACTIVATE, STATUS_LOGGEDIN, HandleNewUnknownOpcode),
     (MSG_CLIENT_PREDICT_LINEAR, STATUS_LOGGEDIN, HandleNewUnknownOpcode),
     (MSG_REQUEST_MAP, STATUS_LOGGEDIN, HandleRequestMapOpcode),
     (MSG_CANCEL_MAP, STATUS_LOGGEDIN, HandleCancelMapOpcode),
     (MSG_MAP_SEND_START, STATUS_LOGGEDIN, HandleNewUnknownOpcode),
     (MSG_MAP_SEND_PACKET, STATUS_LOGGEDIN, HandleNewUnknownOpcode),
     (MSG_MAP_SEND_ABORT, STATUS_LOGGEDIN, HandleNewUnknownOpcode),
     (MSG_SERVER_CMD, STATUS_LOGGEDIN, HandleServerCmdOpcode),
     (MSG_SYSOP_PW, STATUS_LOGGEDIN, HandleSysopPwOpcode),
     (MSG_SYSOP_RESULT, STATUS_LOGGEDIN, HandleNewUnknownOpcode),
     (MSG_KEEP_ALIVE, STATUS_LOGGEDIN, HandleKeepAliveOpcode),
     (MSG_RECEIVED_MAP, STATUS_LOGGEDIN, HandleReceivedMapOpcode),
     (MSG_CLIENT_READY, STATUS_LOGGEDIN, HandleClientReadyOpcode),
     (MSG_REQUEST_SAVE_PLAYER, STATUS_LOGGEDIN, HandleRequestSavePlayerOpcode),
     (MSG_XFER_MSG, STATUS_LOGGEDIN, HandleXferMsgOpcode),
     (MSG_PLAYER_OBJ, STATUS_LOGGEDIN, HandleNewUnknownOpcode),
     (MSG_TEAM_MSG, STATUS_LOGGEDIN, HandleTeamMsgOpcode),
     (MSG_KICK_NOTIFICATION, STATUS_LOGGEDIN, HandleNewUnknownOpcode),
     (MSG_TIMEOUT_NOTIFICATION, STATUS_LOGGEDIN, HandleNewUnknownOpcode),
     (MSG_SERVER_QUIT, STATUS_LOGGEDIN, HandleNewUnknownOpcode),
     (MSG_SERVER_QUIT_ACK, STATUS_LOGGEDIN, HandleServerQuitAckOpcode),
     (MSG_TRADE, STATUS_LOGGEDIN, HandleTradeOpcode),
     (MSG_CHAT_KILL, STATUS_LOGGEDIN, HandleNewUnknownOpcode),
     (MSG_MESSAGES_KILL, STATUS_LOGGEDIN, HandleNewUnknownOpcode),
     (MSG_SEQ_IMPORTANT, STATUS_LOGGEDIN, HandleNewUnknownOpcode),
     (MSG_REPORT_ABILITY_AWARD, STATUS_LOGGEDIN, HandleNewUnknownOpcode),
     (MSG_REPORT_ABILITY_STATE, STATUS_LOGGEDIN, HandleNewUnknownOpcode),
     (MSG_REPORT_ACTIVE_ABILITIES, STATUS_LOGGEDIN, HandleNewUnknownOpcode),
     (MSG_DIALOG, STATUS_LOGGEDIN, HandleDialogOpcode),
     (MSG_REPORT_GUIDE_AWARD, STATUS_LOGGEDIN, HandleNewUnknownOpcode),
     (MSG_INTERESTING_ID, STATUS_LOGGEDIN, HandleNewUnknownOpcode),
     (MSG_TIMER_STATUS, STATUS_LOGGEDIN, HandleNewUnknownOpcode),
     (MSG_REQUEST_TIMER_STATUS, STATUS_LOGGEDIN, HandleRequestTimerStatusOpcode),
     (MSG_JOURNAL_MSG, STATUS_LOGGEDIN, HandleNewUnknownOpcode),
     (MSG_CHAPTER_END, STATUS_LOGGEDIN, HandleNewUnknownOpcode),
     (MSG_REPORT_ALL_LATENCY, STATUS_LOGGEDIN, HandleNewUnknownOpcode),
     (MSG_REPORT_FLAG_STATUS, STATUS_LOGGEDIN, HandleNewUnknownOpcode),
     (MSG_REPORT_BALL_STATUS, STATUS_LOGGEDIN, HandleNewUnknownOpcode),
     (MSG_REPORT_OBJECT_POISON, STATUS_LOGGEDIN, HandleNewUnknownOpcode),
     (MSG_REPORT_MONITOR_CREATURE, STATUS_LOGGEDIN, HandleNewUnknownOpcode),
     (MSG_REPORT_UNMONITOR_CREATURE, STATUS_LOGGEDIN, HandleNewUnknownOpcode),
     (MSG_REPORT_TOTAL_HEALTH, STATUS_LOGGEDIN, HandleNewUnknownOpcode),
     (MSG_REPORT_TOTAL_MANA, STATUS_LOGGEDIN, HandleNewUnknownOpcode),
     (MSG_REPORT_SPELL_STAT, STATUS_LOGGEDIN, HandleNewUnknownOpcode),
     (MSG_REPORT_SECONDARY_WEAPON, STATUS_LOGGEDIN, HandleReportSecondaryWeaponOpcode),
     (MSG_REPORT_LAST_QUIVER, STATUS_LOGGEDIN, HandleNewUnknownOpcode),
     (MSG_INFO_BOOK_DATA, STATUS_LOGGEDIN, HandleInfoBookDataOpcode),
     (MSG_SOCIAL, STATUS_LOGGEDIN, HandleSocialOpcode),
     (MSG_FADE_BEGIN, STATUS_LOGGEDIN, HandleNewUnknownOpcode),
     (MSG_MUSIC_EVENT, STATUS_LOGGEDIN, HandleNewUnknownOpcode),
     (MSG_MUSIC_PUSH_EVENT, STATUS_LOGGEDIN, HandleNewUnknownOpcode),
     (MSG_MUSIC_POP_EVENT, STATUS_LOGGEDIN, HandleNewUnknownOpcode),
     (MSG_PLAYER_DIED, STATUS_LOGGEDIN, HandleNewUnknownOpcode),
     (MSG_PLAYER_RESPAWN, STATUS_LOGGEDIN, HandleNewUnknownOpcode),
     (MSG_FORGET_DRAWABLES, STATUS_LOGGEDIN, HandleNewUnknownOpcode),
     (MSG_RESET_ABILITIES, STATUS_LOGGEDIN, HandleNewUnknownOpcode),
     (MSG_RATE_CHANGE, STATUS_LOGGEDIN, HandleNewUnknownOpcode),
     (MSG_REPORT_CREATURE_CMD, STATUS_LOGGEDIN, HandleNewUnknownOpcode),
     (MSG_VOTE, STATUS_LOGGEDIN, HandleVoteOpcode),
     (MSG_STAT_MULTIPLIERS, STATUS_LOGGEDIN, HandleNewUnknownOpcode),
     (MSG_GAUNTLET, STATUS_LOGGEDIN, HandleGauntletOpcode),
     (MSG_INVENTORY_FAIL, STATUS_LOGGEDIN, HandleInventoryFailOpcode)]"

definition opcodeTable :: "(u8 \<times> SessionStatus \<times> opcode_handler) list" where
  "opcodeTable = opcodeTable_low @ opcodeTable_high"

definition opcode_find :: "u8 \<Rightarrow> (SessionStatus \<times> opcode_handler) option" where
  "opcode_find opcode = map_of opcodeTable opcode"

section \<open>Lemmas\<close>

lemma OpCodes_codes: "map snd OpCodes = map word_of_int [0x27..0xF1]"
  unfolding OpCodes_def by (simp add: upto_rec_numeral)

lemma opcodeTable_codes: "map fst opcodeTable = 6 # 0x1F # map word_of_int [0x27..0xF1]"
  unfolding opcodeTable_def opcodeTable_low_def opcodeTable_high_def by (simp add: upto_rec_numeral)

lemma code_range: "word_of_int ` {0x27..0xF1} = {0x27..(0xF1 :: u8)}"
proof
  show "word_of_int ` {0x27..0xF1} \<subseteq> {0x27..(0xF1 :: u8)}"
    by (auto simp: word_le_def uint_word_of_int take_bit_int_eq_self)
  show "{0x27..(0xF1 :: u8)} \<subseteq> word_of_int ` {0x27..0xF1}"
  proof
    fix x :: u8 assume "x \<in> {0x27..0xF1}"
    then have "uint x \<in> {0x27..0xF1}" by (simp add: word_le_def)
    then show "x \<in> word_of_int ` {0x27..0xF1}" by (metis imageI word_of_int_uint)
  qed
qed

lemma opcode_find_iff: "(\<exists>e. opcode_find c = Some e) \<longleftrightarrow> c \<in> {6, 0x1F} \<union> {0x27..0xF1}"
proof -
  have "(\<exists>e. opcode_find c = Some e) \<longleftrightarrow> c \<in> set (map fst opcodeTable)"
    by (metis map_of_eq_None_iff not_None_eq opcode_find_def set_map)
  also have "set (map fst opcodeTable) = {6, 0x1F} \<union> word_of_int ` {0x27..0xF1}"
    unfolding opcodeTable_codes list.set set_map set_upto by blast
  finally show ?thesis unfolding code_range .
qed

lemma opcodeTable_status:
  "\<forall>(c, st, h) \<in> set opcodeTable. st = (if c \<in> {6, 0x1F} then STATUS_AUTHED else STATUS_LOGGEDIN)"
  unfolding opcodeTable_def opcodeTable_low_def opcodeTable_high_def by simp

lemma opcode_find_status:
  "opcode_find c = Some (st, h) \<Longrightarrow> st = (if c \<in> {6, 0x1F} then STATUS_AUTHED else STATUS_LOGGEDIN)"
  using opcodeTable_status by (auto simp: opcode_find_def dest!: map_of_SomeD)

lemma names_suffix: "drop 39 g_worldOpcodeNames = map fst OpCodes"
  unfolding g_worldOpcodeNames_def opcode_names_low_def opcode_names_high_def OpCodes_def by simp

lemma names_length: "length g_worldOpcodeNames = 242"
  unfolding g_worldOpcodeNames_def opcode_names_low_def opcode_names_high_def by simp

lemma OpCodes_length: "length OpCodes = 203"
  using arg_cong [OF OpCodes_codes, of length] by simp

lemma OpCodes_nth:
  assumes "i < 203"
  shows "unat (snd (OpCodes ! i)) = 39 + i" and "g_worldOpcodeNames ! (39 + i) = fst (OpCodes ! i)"
proof -
  have "snd (OpCodes ! i) = map snd OpCodes ! i" using assms by (simp add: OpCodes_length)
  also have "\<dots> = word_of_int ([0x27..0xF1] ! i)"
    unfolding OpCodes_codes by (rule nth_map) (use assms in \<open>simp only: length_upto\<close>)
  also have "[0x27..0xF1] ! i = int (39 + i)"
    by (subst nth_upto) (use assms in simp_all)
  finally have s: "snd (OpCodes ! i) = of_nat (39 + i)" by simp
  show "unat (snd (OpCodes ! i)) = 39 + i"
  proof -
    have "take_bit 8 (39 + i) = 39 + i" using assms by (simp add: take_bit_nat_eq_self_iff)
    then show ?thesis unfolding s unsigned_of_nat by simp
  qed
  have "fst (OpCodes ! i) = drop 39 g_worldOpcodeNames ! i"
    using assms by (simp add: names_suffix OpCodes_length)
  then show "g_worldOpcodeNames ! (39 + i) = fst (OpCodes ! i)" by (simp add: names_length)
qed

lemma LookupName_total: "\<exists>s. LookupName n g_worldOpcodeNames = Inr (Some s)"
  by (simp add: LookupName_def names_length MAX_OPCODE_ID_def)

section \<open>Properties\<close>

text \<open>The tables of the protocol agree: every message code of the enumeration has its own name in the
  name table and a handler in the dispatch table, no code occurs twice there, and looking up a name
  never leaves the table, whatever number a packet carries.\<close>

theorem opcode_tables_agree:
  "(\<forall>(name, code) \<in> set OpCodes. LookupName (ucast code) g_worldOpcodeNames = Inr (Some name) \<and>
      (\<exists>h. opcode_find code = Some (STATUS_LOGGEDIN, h))) \<and>
   distinct (map fst opcodeTable) \<and>
   (\<forall>n. \<exists>s. LookupName n g_worldOpcodeNames = Inr (Some s))"
proof (intro conjI)
  show "\<forall>n. \<exists>s. LookupName n g_worldOpcodeNames = Inr (Some s)" using LookupName_total by blast
  have "inj_on (word_of_int :: int \<Rightarrow> u8) {0x27..0xF1}"
    by (auto simp: inj_on_def word_of_int_eq_iff take_bit_int_eq_self)
  moreover have "(6 :: u8) \<notin> {0x27..0xF1}" "(0x1F :: u8) \<notin> {0x27..0xF1}" by auto
  ultimately show "distinct (map fst opcodeTable)"
    unfolding opcodeTable_codes distinct.simps list.set set_map set_upto distinct_map code_range by auto
  show "\<forall>(name, code) \<in> set OpCodes. LookupName (ucast code) g_worldOpcodeNames = Inr (Some name) \<and>
      (\<exists>h. opcode_find code = Some (STATUS_LOGGEDIN, h))"
  proof safe
    fix name code assume "(name, code) \<in> set OpCodes"
    then obtain i where i: "i < 203" "OpCodes ! i = (name, code)"
      by (auto simp: in_set_conv_nth OpCodes_length)
    then have u: "unat code = 39 + i" "g_worldOpcodeNames ! (39 + i) = name"
      using OpCodes_nth [of i] by simp_all
    then show "LookupName (ucast code) g_worldOpcodeNames = Inr (Some name)"
    proof -
      have "unat (ucast code :: u32) = 39 + i"
        using u(1) i(1) by (simp add: unsigned_ucast_eq take_bit_nat_eq_self)
      then show ?thesis using i(1) u(2) by (simp add: LookupName_def MAX_OPCODE_ID_def names_length)
    qed
    have "code \<in> {0x27..0xF1}" using u(1) i(1) by (simp add: word_le_nat_alt)
    then obtain st h where "opcode_find code = Some (st, h)"
      using opcode_find_iff [of code] by auto
    moreover have "code \<notin> {6, 0x1F}" using u(1) by auto
    ultimately show "\<exists>h. opcode_find code = Some (STATUS_LOGGEDIN, h)"
      using opcode_find_status by fastforce
  qed
qed

theorem opcode_tables_agree_witness:
  "LookupName (ucast MSG_KEEP_ALIVE) g_worldOpcodeNames = Inr (Some ''MSG_KEEP_ALIVE'')"
proof -
  have "(''MSG_KEEP_ALIVE'', MSG_KEEP_ALIVE) \<in> set OpCodes" unfolding OpCodes_def by simp
  then show ?thesis using opcode_tables_agree by fastforce
qed

text \<open>Searching a code by its name finds the first entry that is not that name: the result is 0
  unless the name is the first entry of the table, and 1 if it is and the second entry differs.\<close>

theorem LookupId_inverted:
  "(name \<noteq> t \<longrightarrow> LookupId name (t # table) = 0) \<and> (u \<noteq> t \<longrightarrow> LookupId t (t # u # table) = 1)"
  by (simp_all add: LookupId_def)

theorem LookupId_inverted_witness:
  "LookupId ''SPELL_BLINK'' [''SPELL_INVALID'', ''SPELL_ANCHOR'', ''SPELL_BLINK''] = 0 \<and>
   LookupId ''SPELL_INVALID'' [''SPELL_INVALID'', ''SPELL_ANCHOR'', ''SPELL_BLINK''] = 1"
  using LookupId_inverted [where name = "''SPELL_BLINK''" and t = "''SPELL_INVALID''" and table = "[''SPELL_ANCHOR'', ''SPELL_BLINK'']"]
    LookupId_inverted [where t = "''SPELL_INVALID''" and u = "''SPELL_ANCHOR''" and table = "[''SPELL_BLINK'']"] by simp

end
