(* ===== verification/Grid_Pair.thy ===== *)
theory Grid_Pair
  imports Nox_Prelude
begin

text \<open>
  Map positions: \<open>CoordPair<LIMIT>\<close> of \<open>src/src/game/GridDefines.h\<close>, instantiated as \<open>GridPair\<close> with the
  limit 5880. The coordinates are \<open>uint32\<close>; the operators that move a pair test the new coordinate in
  32-bit arithmetic. \<open>distance\<close> computes the square root of the squared distance in \<open>double\<close> and
  truncates it; for coordinates on the map the squares are exact and the result is the integer
  square root.
\<close>

section \<open>Operations\<close>

type_synonym grid_pair = "u32 \<times> u32"

definition GRID_LIMIT :: u32 where
  "GRID_LIMIT = 5880"

definition pair_left :: "u32 \<Rightarrow> grid_pair \<Rightarrow> grid_pair" where
  "pair_left v p = (if fst p \<ge> v then (fst p - v, snd p) else p)"

definition pair_right :: "u32 \<Rightarrow> grid_pair \<Rightarrow> grid_pair" where
  "pair_right v p = (if fst p + v < GRID_LIMIT then (fst p + v, snd p) else p)"

definition pair_up :: "u32 \<Rightarrow> grid_pair \<Rightarrow> grid_pair" where
  "pair_up v p = (if snd p \<ge> v then (fst p, snd p - v) else p)"

definition pair_down :: "u32 \<Rightarrow> grid_pair \<Rightarrow> grid_pair" where
  "pair_down v p = (if snd p + v < GRID_LIMIT then (fst p, snd p + v) else p)"

definition pair_in :: "grid_pair \<Rightarrow> grid_pair \<Rightarrow> grid_pair \<Rightarrow> bool" where
  "pair_in p leftTop rightBottom \<longleftrightarrow>
     fst leftTop \<le> fst p \<and> fst rightBottom \<ge> fst p \<and> snd leftTop \<le> snd p \<and> snd rightBottom \<ge> snd p"

text \<open>\<open>(uint32)sqrt(x)\<close> for a nonnegative integer.\<close>

fun isqrt :: "nat \<Rightarrow> nat" where
  "isqrt n =
     (if n = 0 then 0
      else let r = 2 * isqrt (n div 4) in if (r + 1) * (r + 1) \<le> n then r + 1 else r)"

declare isqrt.simps [simp del]

definition pair_distance :: "grid_pair \<Rightarrow> grid_pair \<Rightarrow> u32" where
  "pair_distance a b = of_nat (isqrt (nat ((uint (fst a) - uint (fst b)) ^ 2 + (uint (snd a) - uint (snd b)) ^ 2)))"

section \<open>Lemmas\<close>

lemma isqrt_bounds: "isqrt n * isqrt n \<le> n \<and> n < (isqrt n + 1) * (isqrt n + 1)"
proof (induction n rule: isqrt.induct)
  case (1 n)
  show ?case
  proof (cases "n = 0")
    case True
    then show ?thesis by (simp add: isqrt.simps [of 0])
  next
    case False
    define k where "k = isqrt (n div 4)"
    have k: "k * k \<le> n div 4" "n div 4 < (k + 1) * (k + 1)" using 1 [OF False] by (simp_all add: k_def)
    have "4 * (n div 4) \<le> n" by simp
    then have lo: "(2 * k) * (2 * k) \<le> n" using k(1) by linarith
    have hi: "n < (2 * k + 2) * (2 * k + 2)"
    proof -
      have "n < 4 * (n div 4) + 4" by (simp add: dividend_less_times_div algebra_simps)
      also have "\<dots> \<le> 4 * ((k + 1) * (k + 1))" using k(2) by linarith
      finally show ?thesis by (simp add: algebra_simps)
    qed
    show ?thesis
      using lo hi False by (simp add: isqrt.simps [of n] Let_def flip: k_def)
  qed
qed

lemma isqrt_int:
  assumes "0 \<le> q"
  shows "int (isqrt (nat q)) ^ 2 \<le> q \<and> q < (int (isqrt (nat q)) + 1) ^ 2"
proof -
  obtain n where n: "q = int n" using assms by (metis nonneg_int_cases)
  have "int (isqrt n * isqrt n) \<le> int n" "int n < int ((isqrt n + 1) * (isqrt n + 1))"
    using isqrt_bounds [of n] by (simp_all only: of_nat_le_iff of_nat_less_iff)
  then show ?thesis by (simp add: n power2_eq_square algebra_simps)
qed

lemma isqrt_unique: "r * r \<le> n \<Longrightarrow> n < (r + 1) * (r + 1) \<Longrightarrow> isqrt n = r"
proof -
  assume r: "r * r \<le> n" "n < (r + 1) * (r + 1)"
  let ?i = "isqrt n"
  have "\<not> r < ?i"
  proof
    assume "r < ?i"
    then have "(r + 1) * (r + 1) \<le> ?i * ?i" by (intro mult_mono) auto
    then show False using isqrt_bounds [of n] r by linarith
  qed
  moreover have "\<not> ?i < r"
  proof
    assume "?i < r"
    then have "(?i + 1) * (?i + 1) \<le> r * r" by (intro mult_mono) auto
    then show False using isqrt_bounds [of n] r by linarith
  qed
  ultimately show ?thesis by simp
qed

lemma pair_distance_sym: "pair_distance a b = pair_distance b a"
  by (simp add: pair_distance_def power2_commute)

lemma pair_distance_self [simp]: "pair_distance a a = 0"
  by (simp add: pair_distance_def isqrt.simps [of 0])

definition on_map :: "grid_pair \<Rightarrow> bool" where
  "on_map p \<longleftrightarrow> fst p < GRID_LIMIT \<and> snd p < GRID_LIMIT"

lemma on_map_moves:
  "on_map p \<Longrightarrow> on_map (pair_left v p)" "on_map p \<Longrightarrow> on_map (pair_right v p)"
  "on_map p \<Longrightarrow> on_map (pair_up v p)" "on_map p \<Longrightarrow> on_map (pair_down v p)"
  by (auto simp: on_map_def pair_left_def pair_right_def pair_up_def pair_down_def
      intro: le_less_trans [OF word_sub_le])

lemma pair_distance_on_map:
  assumes "on_map a" "on_map b"
  shows "unat (pair_distance a b) = isqrt (nat ((uint (fst a) - uint (fst b)) ^ 2 + (uint (snd a) - uint (snd b)) ^ 2))"
    (is "_ = isqrt ?d")
proof -
  have sq: "(uint x - uint y) ^ 2 \<le> 5880 ^ 2" if "x < GRID_LIMIT" "y < GRID_LIMIT" for x y :: u32
  proof -
    have "uint x < 5880" "uint y < 5880" "0 \<le> uint x" "0 \<le> uint y"
      using that by (simp_all add: GRID_LIMIT_def word_less_def)
    then have "\<bar>uint x - uint y\<bar> \<le> \<bar>5880\<bar>" by linarith
    then show ?thesis by (rule abs_le_square_iff [THEN iffD1])
  qed
  have "(uint (fst a) - uint (fst b)) ^ 2 + (uint (snd a) - uint (snd b)) ^ 2 \<le> 5880 ^ 2 + 5880 ^ 2"
    using assms sq by (intro add_mono) (auto simp: on_map_def)
  then have "?d \<le> 69148800" by (simp add: nat_le_iff)
  moreover have "isqrt ?d * isqrt ?d \<le> ?d" using isqrt_bounds by blast
  ultimately have "isqrt ?d * isqrt ?d < 10000 * 10000" by linarith
  then have "isqrt ?d < 10000" using mult_le_mono [of 10000 "isqrt ?d" 10000 "isqrt ?d"] by linarith
  then show ?thesis by (simp add: pair_distance_def unsigned_of_nat take_bit_nat_eq_self)
qed

section \<open>Properties\<close>

text \<open>Positions stay on the map and distances are right: moving a position of the map by any 32-bit
  amount, in any direction, gives a position of the map; and the distance of two positions of the map
  is the largest integer whose square is at most the sum of the squared differences.\<close>

theorem grid_pair_correct:
  assumes "on_map a" "on_map b"
  shows "on_map (pair_left v a) \<and> on_map (pair_right v a) \<and> on_map (pair_up v a) \<and> on_map (pair_down v a) \<and>
    (let d = int (unat (pair_distance a b));
         q = (uint (fst a) - uint (fst b)) ^ 2 + (uint (snd a) - uint (snd b)) ^ 2
     in d ^ 2 \<le> q \<and> q < (d + 1) ^ 2)"
proof -
  have "int (isqrt (nat q)) ^ 2 \<le> q \<and> q < (int (isqrt (nat q)) + 1) ^ 2"
    if "q = (uint (fst a) - uint (fst b)) ^ 2 + (uint (snd a) - uint (snd b)) ^ 2" for q
    using that by (intro isqrt_int) simp
  then show ?thesis
    using assms on_map_moves by (simp add: Let_def pair_distance_on_map)
qed

theorem grid_pair_correct_witness:
  "on_map (pair_right 0xFFFFFFF6 (20, 7)) \<and>
   (let d = int (unat (pair_distance (10, 20) (13, 24))) in d ^ 2 \<le> 25 \<and> 25 < (d + 1) ^ 2)"
  using grid_pair_correct [of "(20, 7)" "(20, 7)" "0xFFFFFFF6"] grid_pair_correct [of "(10, 20)" "(13, 24)"]
  by (simp add: on_map_def GRID_LIMIT_def)

end
