(* ===== verification/Session_Out.thy ===== *)
theory Session_Out
  imports World_Packet Opcodes Grid_Pair
begin

text \<open>
  The state of a client session and its outgoing side: the fields of class \<open>WorldSession\<close>
  (\<open>src/src/game/WorldSession.h\<close>), \<open>SendPacket\<close> and \<open>_SendPacket\<close> (\<open>WorldSession.cpp\<close>).

  \<open>SendPacket\<close> collects messages in the packet \<open>ss_sendPacket\<close> for as long as they have the same
  header (account id and \<open>unk\<close>); a message with another header first flushes what was collected. The
  operations return the packets they hand to the socket, in order. What a client receives is the
  stream of message bytes, each under the header of its packet: \<open>stream\<close>. The refinement is that
  \<open>SendPacket\<close> appends its message to the stream, whatever it flushes.
\<close>

section \<open>State\<close>

record session =
  ss_player :: "nat option"
  ss_socket :: bool
  ss_client :: u64
  ss_sendPacket :: world_packet
  ss_security :: u32
  ss_accountId :: u32
  ss_mouse :: grid_pair
  ss_logoutTime :: int
  ss_playerLoading :: bool
  ss_recentlyLogout :: bool
  ss_observing :: bool
  ss_downloading :: int
  ss_connTimer :: u32
  ss_xorKey :: u8
  ss_status :: SessionStatus
  ss_timestamp :: u32
  ss_unk :: u8
  ss_unk2 :: u8
  ss_recvQueue :: "world_packet list"

definition TIMEOUT_MS :: u32 where
  "TIMEOUT_MS = 30000"

text \<open>The constructor leaves \<open>_client\<close> and \<open>m_unk2\<close> to later assignments; they are 0 here.\<close>

definition new_session :: "u32 \<Rightarrow> u32 \<Rightarrow> session" where
  "new_session account sec =
     \<lparr>ss_player = None, ss_socket = True, ss_client = 0, ss_sendPacket = new_packet, ss_security = sec,
      ss_accountId = account, ss_mouse = (0, 0), ss_logoutTime = 0, ss_playerLoading = False,
      ss_recentlyLogout = False, ss_observing = True, ss_downloading = 0, ss_connTimer = TIMEOUT_MS,
      ss_xorKey = 0, ss_status = STATUS_AUTHED, ss_timestamp = 1000, ss_unk = 0, ss_unk2 = 0,
      ss_recvQueue = []\<rparr>"

definition LogoutRequest :: "int \<Rightarrow> session \<Rightarrow> session" where
  "LogoutRequest requestTime s = s\<lparr>ss_logoutTime := requestTime\<rparr>"

definition isLoggingOut :: "session \<Rightarrow> bool" where
  "isLoggingOut s \<longleftrightarrow> ss_logoutTime s \<noteq> 0"

definition ShouldLogOut :: "int \<Rightarrow> session \<Rightarrow> bool" where
  "ShouldLogOut currTime s \<longleftrightarrow> ss_logoutTime s > 0 \<and> currTime \<ge> ss_logoutTime s"

definition MoveMouse :: "u16 \<Rightarrow> u16 \<Rightarrow> session \<Rightarrow> session" where
  "MoveMouse deltax deltay s =
     s\<lparr>ss_mouse := pair_down (ucast deltay) (pair_right (ucast deltax) (ss_mouse s))\<rparr>"

definition QueuePacket :: "world_packet \<Rightarrow> session \<Rightarrow> session" where
  "QueuePacket packet s = s\<lparr>ss_recvQueue := ss_recvQueue s @ [copy_packet packet]\<rparr>"

section \<open>Sending\<close>

text \<open>\<open>_SendPacket(&sendPacket)\<close>: the packets handed to the socket and the new state.\<close>

definition flush_packet :: "session \<Rightarrow> world_packet list \<times> session" where
  "flush_packet s =
     (let p = ss_sendPacket s;
          p = (if ss_socket s then SetXor (ss_xorKey s) (packet_SetClient (ss_client s) p) else p)
      in (if ss_socket s then [copy_packet p] else [], s\<lparr>ss_sendPacket := packet_Initialize 0 0 0 p\<rparr>))"

text \<open>\<open>SendPacket\<close>, in its three steps; \<open>changeUnk\<close> writes the session's \<open>unk\<close> into the caller's packet.\<close>

definition flush_if_other :: "world_packet \<Rightarrow> session \<Rightarrow> world_packet list \<times> session" where
  "flush_if_other packet s =
     (let sp = ss_sendPacket s
      in if p_opcode sp \<noteq> 0 \<and> (p_unk packet \<noteq> p_unk sp \<or> p_accountid packet \<noteq> p_accountid sp)
         then flush_packet s else ([], s))"

definition open_message :: "world_packet \<Rightarrow> world_packet \<Rightarrow> world_packet res" where
  "open_message packet sp =
     (if p_opcode sp = 0
      then Inr (SetUnk (p_unk packet) (SetAccountId (p_accountid packet) (SetOpcode (p_opcode packet) sp)))
      else pk_put (put_u8 (p_opcode packet)) sp)"

definition SendPacket :: "world_packet \<Rightarrow> bool \<Rightarrow> bool \<Rightarrow> session \<Rightarrow> (world_packet \<times> world_packet list \<times> session) res" where
  "SendPacket packet ifReady changeUnk s =
     (if ss_socket s \<and> (\<not> ifReady \<or> \<not> ss_playerLoading s)
      then let packet = (if changeUnk then SetUnk (ss_unk s) packet else packet);
               (out, s) = flush_if_other packet s
           in rbind (open_message packet (ss_sendPacket s)) (\<lambda>sp.
              rbind (if packet_size packet > 0 then packet_append packet sp else Inr sp) (\<lambda>sp.
              Inr (packet, out, s\<lparr>ss_sendPacket := sp\<rparr>)))
      else Inr (packet, [], s))"

section \<open>The stream a client receives\<close>

type_synonym header = "u8 \<times> u8"

definition tagged :: "world_packet \<Rightarrow> (header \<times> u8) list" where
  "tagged p = map (\<lambda>b. ((p_accountid p, p_unk p), b)) (p_opcode p # packet_bytes p)"

definition stream_of :: "world_packet list \<Rightarrow> (header \<times> u8) list" where
  "stream_of ps = concat (map tagged ps)"

text \<open>The message collected so far, if any.\<close>

definition pending :: "session \<Rightarrow> world_packet list" where
  "pending s = (if p_opcode (ss_sendPacket s) \<noteq> 0 then [ss_sendPacket s] else [])"

definition send_ok :: "session \<Rightarrow> bool" where
  "send_ok s \<longleftrightarrow> append_only (p_buf (ss_sendPacket s)) \<and>
     (p_opcode (ss_sendPacket s) = 0 \<longrightarrow> packet_bytes (ss_sendPacket s) = [])"

lemma stream_of_simps [simp]:
  "stream_of [] = []" "stream_of (p # ps) = tagged p @ stream_of ps"
  "stream_of (ps @ qs) = stream_of ps @ stream_of qs"
  by (simp_all add: stream_of_def)

lemma tagged_header:
  "tagged (SetXor x (packet_SetClient c p)) = tagged p"
  by (simp add: tagged_def packet_bytes_def)

lemma flush_packet_stream:
  assumes "flush_packet s = (out, s')" "ss_socket s" "p_opcode (ss_sendPacket s) \<noteq> 0"
  shows "stream_of out = stream_of (pending s)" "pending s' = []" "send_ok s'"
    "p_opcode (ss_sendPacket s') = 0" "packet_bytes (ss_sendPacket s') = []"
    "s' = s\<lparr>ss_sendPacket := ss_sendPacket s'\<rparr>"
  using assms by (auto simp: flush_packet_def Let_def pending_def tagged_header send_ok_def)

lemma flush_if_other_stream:
  assumes "flush_if_other packet s = (out, s')" "ss_socket s" "send_ok s"
  shows "stream_of out @ stream_of (pending s') = stream_of (pending s)" and "send_ok s'"
    and "p_opcode (ss_sendPacket s') \<noteq> 0 \<Longrightarrow>
      p_unk (ss_sendPacket s') = p_unk packet \<and> p_accountid (ss_sendPacket s') = p_accountid packet"
    and "s' = s\<lparr>ss_sendPacket := ss_sendPacket s'\<rparr>"
    and "length (packet_bytes (ss_sendPacket s')) \<le> length (packet_bytes (ss_sendPacket s))"
  using assms flush_packet_stream [of s out s']
  by (auto simp: flush_if_other_def Let_def split: if_splits)

lemma SendPacket_sends:
  fixes changeUnk :: bool
  assumes "send_ok s" "ss_socket s" "\<not> ifReady \<or> \<not> ss_playerLoading s" "p_opcode packet \<noteq> 0"
    and "length (packet_bytes (ss_sendPacket s)) + length (packet_bytes packet) < append_max"
  defines "sent \<equiv> (if changeUnk then SetUnk (ss_unk s) packet else packet)"
  shows "\<exists>out s'. SendPacket packet ifReady changeUnk s = Inr (sent, out, s') \<and>
    stream_of (out @ pending s') = stream_of (pending s) @ tagged sent \<and>
    send_ok s' \<and> s' = s\<lparr>ss_sendPacket := ss_sendPacket s'\<rparr>"
proof -
  obtain out s1 where f: "flush_if_other sent s = (out, s1)" by fastforce
  note fl = flush_if_other_stream [OF f assms(2,1)]
  let ?sp = "ss_sendPacket s1"
  have opc: "p_opcode sent \<noteq> 0" and bytes: "packet_bytes sent = packet_bytes packet"
    using assms(4) by (simp_all add: sent_def packet_bytes_def)
  have len: "length (packet_bytes ?sp) + length (packet_bytes sent) < append_max"
    using fl(5) assms(5) by (simp add: bytes)
  have ao: "append_only (p_buf ?sp)" using fl(2) by (simp add: send_ok_def)
  obtain sp where sp: "open_message sent ?sp = Inr sp" "append_only (p_buf sp)"
      "length (packet_bytes sp) + length (packet_bytes sent) \<le> append_max" "p_opcode sp \<noteq> 0"
      "tagged sp @ map (\<lambda>b. ((p_accountid sp, p_unk sp), b)) (packet_bytes sent) = stream_of (pending s1) @ tagged sent"
  proof (cases "p_opcode ?sp = 0")
    case True
    then have "packet_bytes ?sp = []" using fl(2) by (simp add: send_ok_def)
    then show ?thesis
      using that [of "SetUnk (p_unk sent) (SetAccountId (p_accountid sent) (SetOpcode (p_opcode sent) ?sp))"]
        True ao len opc
      by (simp add: open_message_def tagged_def pending_def packet_bytes_def)
  next
    case False
    have "pk_put (put_u8 (p_opcode sent)) ?sp = Inr (packet_appended (le_bytes 1 (p_opcode sent)) ?sp)"
      using len ao by (intro pk_put_writes writes_put_u8) auto
    then show ?thesis
      using that [of "packet_appended (le_bytes 1 (p_opcode sent)) ?sp"] False ao len fl(3)
      by (simp add: open_message_def tagged_def pending_def)
  qed
  define sp' where "sp' = packet_appended (packet_bytes sent) sp"
  have app: "(if packet_size sent > 0 then packet_append sent sp else Inr sp) = Inr sp'"
    using pk_put_writes [OF writes_append_bytes, of sp "packet_bytes sent"] sp(2,3)
    by (auto simp: packet_append_def packet_size_def buf_size_def packet_bytes_def sp'_def)
  have "SendPacket packet ifReady changeUnk s =
      (case flush_if_other sent s of (out, s) \<Rightarrow>
        rbind (open_message sent (ss_sendPacket s)) (\<lambda>sp.
        rbind (if packet_size sent > 0 then packet_append sent sp else Inr sp) (\<lambda>sp.
        Inr (sent, out, s\<lparr>ss_sendPacket := sp\<rparr>))))"
    unfolding SendPacket_def sent_def Let_def using assms(2,3) by simp
  then have "SendPacket packet ifReady changeUnk s = Inr (sent, out, s1\<lparr>ss_sendPacket := sp'\<rparr>)"
    by (simp add: f sp(1) app)
  moreover have "stream_of (out @ pending (s1\<lparr>ss_sendPacket := sp'\<rparr>)) = stream_of (pending s) @ tagged sent"
  proof -
    have "tagged sp' = stream_of (pending s1) @ tagged sent"
      using sp(5) by (simp add: sp'_def tagged_def)
    then show ?thesis using fl(1) sp(4) by (simp add: pending_def sp'_def flip: append_assoc)
  qed
  moreover have "send_ok (s1\<lparr>ss_sendPacket := sp'\<rparr>)" using sp(2,4) by (simp add: send_ok_def sp'_def)
  moreover have "s1\<lparr>ss_sendPacket := sp'\<rparr> = s\<lparr>ss_sendPacket := sp'\<rparr>" by (subst fl(4)) simp
  ultimately show ?thesis by (metis session.select_convs(4) session.surjective session.update_convs(4))
qed

section \<open>Properties\<close>

text \<open>C5: sending refines an append to the client's stream: in a session whose socket is open, and which
  is not loading unless the caller sends regardless, \<open>SendPacket\<close> with a message that fits returns;
  what it hands to the socket followed by what it keeps is exactly what was kept before followed by
  the new message, every byte under the header of its own packet; and nothing but the kept packet
  changes in the session. When the session may not send, the call changes nothing.\<close>

theorem SendPacket_stream:
  assumes "send_ok s" "p_opcode packet \<noteq> 0"
    and "length (packet_bytes (ss_sendPacket s)) + length (packet_bytes packet) < append_max"
  shows "\<exists>sent out s'. SendPacket packet ifReady changeUnk s = Inr (sent, out, s') \<and> send_ok s' \<and>
    s' = s\<lparr>ss_sendPacket := ss_sendPacket s'\<rparr> \<and>
    (if ss_socket s \<and> (\<not> ifReady \<or> \<not> ss_playerLoading s)
     then sent = (if changeUnk then SetUnk (ss_unk s) packet else packet) \<and>
          stream_of (out @ pending s') = stream_of (pending s) @ tagged sent
     else sent = packet \<and> out = [] \<and> s' = s)"
proof (cases "ss_socket s \<and> (\<not> ifReady \<or> \<not> ss_playerLoading s)")
  case True
  then obtain out s' where
    "SendPacket packet ifReady changeUnk s = Inr (if changeUnk then SetUnk (ss_unk s) packet else packet, out, s')"
    "stream_of (out @ pending s') = stream_of (pending s) @ tagged (if changeUnk then SetUnk (ss_unk s) packet else packet)"
    "send_ok s'" "s' = s\<lparr>ss_sendPacket := ss_sendPacket s'\<rparr>"
    using SendPacket_sends [OF assms(1) _ _ assms(2,3), of ifReady changeUnk] by blast
  then show ?thesis using True by (intro exI conjI) simp_all
next
  case False
  then show ?thesis using assms(1) by (auto simp: SendPacket_def)
qed

theorem SendPacket_stream_witness:
  "\<exists>sent out s'. SendPacket (mk_packet MSG_SOCIAL 0 0) True True (new_session 7 0) = Inr (sent, out, s') \<and>
     stream_of (out @ pending s') = [((0, 0), MSG_SOCIAL)]"
proof -
  let ?s = "new_session 7 0" and ?p = "mk_packet MSG_SOCIAL 0 0"
  have "send_ok ?s" "pending ?s = []" "ss_socket ?s" "\<not> ss_playerLoading ?s" "ss_unk ?s = 0"
    "length (packet_bytes (ss_sendPacket ?s)) + length (packet_bytes ?p) < append_max"
    by (simp_all add: send_ok_def new_session_def pending_def append_max_def)
  moreover have "tagged (SetUnk 0 ?p) = [((0, 0), MSG_SOCIAL)]"
    by (simp add: tagged_def packet_bytes_def mk_packet_def new_buffer_def)
  ultimately show ?thesis
    using SendPacket_stream [of ?s ?p True True] by auto
qed

end
