(* ===== verification/Game_Enums.thy ===== *)
theory Game_Enums
  imports Nox_Prelude
begin

text \<open>
  The enumerations of the game: every enumerator is an abbreviation of its value, with the width of
  the variables that hold it. Of the thousand sounds of \<open>SharedDefines.h\<close> those the code plays.
\<close>

section \<open>\<open>UnitActionType\<close> (\<open>Unit.h\<close>): what a unit is doing\<close>

abbreviation (input) ACTION_IDLE :: u8 where "ACTION_IDLE \<equiv> 0x0"
abbreviation (input) ACTION_DIE :: u8 where "ACTION_DIE \<equiv> 0x1"
abbreviation (input) ACTION_DEAD :: u8 where "ACTION_DEAD \<equiv> 0x2"
abbreviation (input) ACTION_JUMP :: u8 where "ACTION_JUMP \<equiv> 0x3"
abbreviation (input) ACTION_WALK :: u8 where "ACTION_WALK \<equiv> 0x4"
abbreviation (input) ACTION_WALK_AND_DRAG :: u8 where "ACTION_WALK_AND_DRAG \<equiv> 0x5"
abbreviation (input) ACTION_RUN :: u8 where "ACTION_RUN \<equiv> 0x6"
abbreviation (input) ACTION_RUNNING_JUMP :: u8 where "ACTION_RUNNING_JUMP \<equiv> 0x7"
abbreviation (input) ACTION_PICKUP :: u8 where "ACTION_PICKUP \<equiv> 0x8"
abbreviation (input) ACTION_DODGE_LEFT :: u8 where "ACTION_DODGE_LEFT \<equiv> 0x9"
abbreviation (input) ACTION_DODGE_RIGHT :: u8 where "ACTION_DODGE_RIGHT \<equiv> 0xA"
abbreviation (input) ACTION_ELECTROCUTED :: u8 where "ACTION_ELECTROCUTED \<equiv> 0xB"
abbreviation (input) ACTION_FALL :: u8 where "ACTION_FALL \<equiv> 0xC"
abbreviation (input) ACTION_TRIP :: u8 where "ACTION_TRIP \<equiv> 0xD"
abbreviation (input) ACTION_GET_UP :: u8 where "ACTION_GET_UP \<equiv> 0xE"
abbreviation (input) ACTION_LAUGH :: u8 where "ACTION_LAUGH \<equiv> 0xF"
abbreviation (input) ACTION_POINT :: u8 where "ACTION_POINT \<equiv> 0x10"
abbreviation (input) ACTION_SIT :: u8 where "ACTION_SIT \<equiv> 0x11"
abbreviation (input) ACTION_SLEEP :: u8 where "ACTION_SLEEP \<equiv> 0x12"
abbreviation (input) ACTION_TALK :: u8 where "ACTION_TALK \<equiv> 0x13"
abbreviation (input) ACTION_TAUNT :: u8 where "ACTION_TAUNT \<equiv> 0x14"
abbreviation (input) ACTION_CAST_SPELL :: u8 where "ACTION_CAST_SPELL \<equiv> 0x15"
abbreviation (input) ACTION_CONCENTRATE :: u8 where "ACTION_CONCENTRATE \<equiv> 0x16"
abbreviation (input) ACTION_PUNCH_LEFT :: u8 where "ACTION_PUNCH_LEFT \<equiv> 0x17"
abbreviation (input) ACTION_PUNCH_RIGHT :: u8 where "ACTION_PUNCH_RIGHT \<equiv> 0x18"
abbreviation (input) ACTION_PUNCH_RIGHT_HOOK :: u8 where "ACTION_PUNCH_RIGHT_HOOK \<equiv> 0x19"
abbreviation (input) ACTION_MACE_STRIKE :: u8 where "ACTION_MACE_STRIKE \<equiv> 0x1A"
abbreviation (input) ACTION_SWORD_STRIKE :: u8 where "ACTION_SWORD_STRIKE \<equiv> 0x1B"
abbreviation (input) ACTION_LONG_SWORD_STRIKE :: u8 where "ACTION_LONG_SWORD_STRIKE \<equiv> 0x1C"
abbreviation (input) ACTION_STAFF_STRIKE :: u8 where "ACTION_STAFF_STRIKE \<equiv> 0x1D"
abbreviation (input) ACTION_STAFF_BLOCK :: u8 where "ACTION_STAFF_BLOCK \<equiv> 0x1E"
abbreviation (input) ACTION_STAFF_SPELL_BLAST :: u8 where "ACTION_STAFF_SPELL_BLAST \<equiv> 0x1F"
abbreviation (input) ACTION_STAFF_THRUST :: u8 where "ACTION_STAFF_THRUST \<equiv> 0x20"
abbreviation (input) ACTION_SHOOT_BOW :: u8 where "ACTION_SHOOT_BOW \<equiv> 0x21"
abbreviation (input) ACTION_SHOOT_CROSSBOW :: u8 where "ACTION_SHOOT_CROSSBOW \<equiv> 0x22"
abbreviation (input) ACTION_AXE_STRIKE :: u8 where "ACTION_AXE_STRIKE \<equiv> 0x23"
abbreviation (input) ACTION_GREAT_SWORD_PARRY :: u8 where "ACTION_GREAT_SWORD_PARRY \<equiv> 0x24"
abbreviation (input) ACTION_GREAT_SWORD_STRIKE :: u8 where "ACTION_GREAT_SWORD_STRIKE \<equiv> 0x25"
abbreviation (input) ACTION_GREAT_SWORD_IDLE :: u8 where "ACTION_GREAT_SWORD_IDLE \<equiv> 0x26"
abbreviation (input) ACTION_HAMMER_STRIKE :: u8 where "ACTION_HAMMER_STRIKE \<equiv> 0x27"
abbreviation (input) ACTION_RAISE_SHIELD :: u8 where "ACTION_RAISE_SHIELD \<equiv> 0x28"
abbreviation (input) ACTION_RECOIL_FORWARD :: u8 where "ACTION_RECOIL_FORWARD \<equiv> 0x29"
abbreviation (input) ACTION_RECOIL_BACKWARD :: u8 where "ACTION_RECOIL_BACKWARD \<equiv> 0x2A"
abbreviation (input) ACTION_RECOIL_SHIELD :: u8 where "ACTION_RECOIL_SHIELD \<equiv> 0x2B"
abbreviation (input) ACTION_CHAKRAM_STRIKE :: u8 where "ACTION_CHAKRAM_STRIKE \<equiv> 0x2C"
abbreviation (input) ACTION_BERSERKER_CHARGE :: u8 where "ACTION_BERSERKER_CHARGE \<equiv> 0x2D"
abbreviation (input) ACTION_WARCRY :: u8 where "ACTION_WARCRY \<equiv> 0x2E"
abbreviation (input) ACTION_GREAT_SWORD_BLOCK_LEFT :: u8 where "ACTION_GREAT_SWORD_BLOCK_LEFT \<equiv> 0x2F"
abbreviation (input) ACTION_GREAT_SWORD_BLOCK_RIGHT :: u8 where "ACTION_GREAT_SWORD_BLOCK_RIGHT \<equiv> 0x30"
abbreviation (input) ACTION_GREAT_SWORD_BLOCK_DOWN :: u8 where "ACTION_GREAT_SWORD_BLOCK_DOWN \<equiv> 0x31"
abbreviation (input) ACTION_ELECTRIC_ZAP :: u8 where "ACTION_ELECTRIC_ZAP \<equiv> 0x32"
abbreviation (input) ACTION_DUST :: u8 where "ACTION_DUST \<equiv> 0x33"
abbreviation (input) ACTION_RECOIL :: u8 where "ACTION_RECOIL \<equiv> 0x34"
abbreviation (input) ACTION_SNEAK :: u8 where "ACTION_SNEAK \<equiv> 0x35"
abbreviation (input) ACTION_HARPOONTHROW :: u8 where "ACTION_HARPOONTHROW \<equiv> 0x36"

section \<open>\<open>UnitSlotType\<close> (\<open>Unit.h\<close>): equipment slots\<close>

abbreviation (input) SLOT_HELMET :: nat where "SLOT_HELMET \<equiv> 0"
abbreviation (input) SLOT_BREASTPLATE :: nat where "SLOT_BREASTPLATE \<equiv> 1"
abbreviation (input) SLOT_ARM_ARMOR :: nat where "SLOT_ARM_ARMOR \<equiv> 2"
abbreviation (input) SLOT_PANTS :: nat where "SLOT_PANTS \<equiv> 3"
abbreviation (input) SLOT_BOOTS :: nat where "SLOT_BOOTS \<equiv> 4"
abbreviation (input) SLOT_SHIRT :: nat where "SLOT_SHIRT \<equiv> 5"
abbreviation (input) SLOT_LEG_ARMOR :: nat where "SLOT_LEG_ARMOR \<equiv> 6"
abbreviation (input) SLOT_BACK :: nat where "SLOT_BACK \<equiv> 7"
abbreviation (input) SLOT_SHIELD :: nat where "SLOT_SHIELD \<equiv> 8"
abbreviation (input) SLOT_FLAG :: nat where "SLOT_FLAG \<equiv> 9"
abbreviation (input) SLOT_QUIVER :: nat where "SLOT_QUIVER \<equiv> 10"
abbreviation (input) SLOT_WEP_PRIMARY :: nat where "SLOT_WEP_PRIMARY \<equiv> 11"
abbreviation (input) SLOT_WEP_SECONDARY :: nat where "SLOT_WEP_SECONDARY \<equiv> 12"
abbreviation (input) SLOT_SIZE :: nat where "SLOT_SIZE \<equiv> 13"

section \<open>\<open>UnitArmorType\<close> (\<open>Unit.h\<close>): armor bits of the equipment messages\<close>

abbreviation (input) STREET_SNEAKERS :: u32 where "STREET_SNEAKERS \<equiv> 0x1"
abbreviation (input) MEDIEVAL_CLOAK :: u32 where "MEDIEVAL_CLOAK \<equiv> 0x2"
abbreviation (input) STREET_PANTS :: u32 where "STREET_PANTS \<equiv> 0x4"
abbreviation (input) MEDIEVAL_PANTS :: u32 where "MEDIEVAL_PANTS \<equiv> 0x8"
abbreviation (input) LEATHER_LEGGINGS :: u32 where "LEATHER_LEGGINGS \<equiv> 0x10"
abbreviation (input) CHAIN_LEGGINGS :: u32 where "CHAIN_LEGGINGS \<equiv> 0x20"
abbreviation (input) LEATHER_BOOTS :: u32 where "LEATHER_BOOTS \<equiv> 0x40"
abbreviation (input) LEATHER_ARMORED_BOOTS :: u32 where "LEATHER_ARMORED_BOOTS \<equiv> 0x80"
abbreviation (input) PLATE_BOOTS :: u32 where "PLATE_BOOTS \<equiv> 0x100"
abbreviation (input) PLATE_LEGGINGS :: u32 where "PLATE_LEGGINGS \<equiv> 0x200"
abbreviation (input) STREET_SHIRT :: u32 where "STREET_SHIRT \<equiv> 0x400"
abbreviation (input) MEDIEVAL_SHIRT :: u32 where "MEDIEVAL_SHIRT \<equiv> 0x800"
abbreviation (input) LEATHER_ARMBANDS :: u32 where "LEATHER_ARMBANDS \<equiv> 0x1000"
abbreviation (input) PLATE_ARMS :: u32 where "PLATE_ARMS \<equiv> 0x2000"
abbreviation (input) WIZARD_ROBE :: u32 where "WIZARD_ROBE \<equiv> 0x4000"
abbreviation (input) LEATHER_TUNIC :: u32 where "LEATHER_TUNIC \<equiv> 0x8000"
abbreviation (input) CHAIN_TUNIC :: u32 where "CHAIN_TUNIC \<equiv> 0x10000"
abbreviation (input) PLATE_BREAST :: u32 where "PLATE_BREAST \<equiv> 0x20000"
abbreviation (input) CHAIN_COIF :: u32 where "CHAIN_COIF \<equiv> 0x40000"
abbreviation (input) WIZARD_HELM :: u32 where "WIZARD_HELM \<equiv> 0x80000"
abbreviation (input) CONJURER_HELM :: u32 where "CONJURER_HELM \<equiv> 0x100000"
abbreviation (input) LEATHER_HELM :: u32 where "LEATHER_HELM \<equiv> 0x200000"
abbreviation (input) PLATE_HELM :: u32 where "PLATE_HELM \<equiv> 0x400000"
abbreviation (input) ORNATE_HELM :: u32 where "ORNATE_HELM \<equiv> 0x800000"
abbreviation (input) ROUND_SHIELD :: u32 where "ROUND_SHIELD \<equiv> 0x1000000"
abbreviation (input) KITE_SHIELD :: u32 where "KITE_SHIELD \<equiv> 0x2000000"

section \<open>\<open>UnitEnchantType\<close> (\<open>Unit.h\<close>): enchantments\<close>

abbreviation (input) ENCHANT_INVISIBLE :: nat where "ENCHANT_INVISIBLE \<equiv> 0"
abbreviation (input) ENCHANT_MOONGLOW :: nat where "ENCHANT_MOONGLOW \<equiv> 1"
abbreviation (input) ENCHANT_BLINDED :: nat where "ENCHANT_BLINDED \<equiv> 2"
abbreviation (input) ENCHANT_CONFUSED :: nat where "ENCHANT_CONFUSED \<equiv> 3"
abbreviation (input) ENCHANT_SLOWED :: nat where "ENCHANT_SLOWED \<equiv> 4"
abbreviation (input) ENCHANT_HELD :: nat where "ENCHANT_HELD \<equiv> 5"
abbreviation (input) ENCHANT_DETECTING :: nat where "ENCHANT_DETECTING \<equiv> 6"
abbreviation (input) ENCHANT_ETHEREAL :: nat where "ENCHANT_ETHEREAL \<equiv> 7"
abbreviation (input) ENCHANT_RUN :: nat where "ENCHANT_RUN \<equiv> 8"
abbreviation (input) ENCHANT_HASTED :: nat where "ENCHANT_HASTED \<equiv> 9"
abbreviation (input) ENCHANT_VILLAIN :: nat where "ENCHANT_VILLAIN \<equiv> 10"
abbreviation (input) ENCHANT_AFRAID :: nat where "ENCHANT_AFRAID \<equiv> 11"
abbreviation (input) ENCHANT_BURNING :: nat where "ENCHANT_BURNING \<equiv> 12"
abbreviation (input) ENCHANT_VAMPIRISM :: nat where "ENCHANT_VAMPIRISM \<equiv> 13"
abbreviation (input) ENCHANT_ANCHORED :: nat where "ENCHANT_ANCHORED \<equiv> 14"
abbreviation (input) ENCHANT_LIGHT :: nat where "ENCHANT_LIGHT \<equiv> 15"
abbreviation (input) ENCHANT_DEATH :: nat where "ENCHANT_DEATH \<equiv> 16"
abbreviation (input) ENCHANT_PROTECT_FROM_FIRE :: nat where "ENCHANT_PROTECT_FROM_FIRE \<equiv> 17"
abbreviation (input) ENCHANT_PROTECT_FROM_POISON :: nat where "ENCHANT_PROTECT_FROM_POISON \<equiv> 18"
abbreviation (input) ENCHANT_PROTECT_FROM_MAGIC :: nat where "ENCHANT_PROTECT_FROM_MAGIC \<equiv> 19"
abbreviation (input) ENCHANT_PROTECT_FROM_ELECTRICITY :: nat where "ENCHANT_PROTECT_FROM_ELECTRICITY \<equiv> 20"
abbreviation (input) ENCHANT_INFRAVISION :: nat where "ENCHANT_INFRAVISION \<equiv> 21"
abbreviation (input) ENCHANT_SHOCK :: nat where "ENCHANT_SHOCK \<equiv> 22"
abbreviation (input) ENCHANT_INVULNERABLE :: nat where "ENCHANT_INVULNERABLE \<equiv> 23"
abbreviation (input) ENCHANT_TELEKINESIS :: nat where "ENCHANT_TELEKINESIS \<equiv> 24"
abbreviation (input) ENCHANT_FREEZE :: nat where "ENCHANT_FREEZE \<equiv> 25"
abbreviation (input) ENCHANT_SHIELD :: nat where "ENCHANT_SHIELD \<equiv> 26"
abbreviation (input) ENCHANT_REFLECTIVE_SHIELD :: nat where "ENCHANT_REFLECTIVE_SHIELD \<equiv> 27"
abbreviation (input) ENCHANT_CHARMING :: nat where "ENCHANT_CHARMING \<equiv> 28"
abbreviation (input) ENCHANT_ANTI_MAGIC :: nat where "ENCHANT_ANTI_MAGIC \<equiv> 29"
abbreviation (input) ENCHANT_CROWN :: nat where "ENCHANT_CROWN \<equiv> 30"
abbreviation (input) ENCHANT_SNEAK :: nat where "ENCHANT_SNEAK \<equiv> 31"
abbreviation (input) ENCHANT_SIZE :: nat where "ENCHANT_SIZE \<equiv> 32"

section \<open>\<open>PlayerClassType\<close> (\<open>Player.h\<close>): player classes\<close>

abbreviation (input) PLAYER_CLASS_WARRIOR :: u8 where "PLAYER_CLASS_WARRIOR \<equiv> 0x0"
abbreviation (input) PLAYER_CLASS_WIZARD :: u8 where "PLAYER_CLASS_WIZARD \<equiv> 0x1"
abbreviation (input) PLAYER_CLASS_CONJURER :: u8 where "PLAYER_CLASS_CONJURER \<equiv> 0x2"

section \<open>\<open>ObjectUpdateMask\<close> (\<open>Object.h\<close>): what changed in an object\<close>

abbreviation (input) MASK_ENCHANTMENTS :: u32 where "MASK_ENCHANTMENTS \<equiv> 0x1"
abbreviation (input) MASK_HEALTH :: u32 where "MASK_HEALTH \<equiv> 0x2"
abbreviation (input) MASK_MANA :: u32 where "MASK_MANA \<equiv> 0x4"
abbreviation (input) MASK_TEAM :: u32 where "MASK_TEAM \<equiv> 0x8"

section \<open>\<open>AbilityType\<close> (\<open>Spell.h\<close>): warrior abilities\<close>

abbreviation (input) ABILITY_INVALID :: u8 where "ABILITY_INVALID \<equiv> 0x0"
abbreviation (input) ABILITY_BERSERKER_CHARGE :: u8 where "ABILITY_BERSERKER_CHARGE \<equiv> 0x1"
abbreviation (input) ABILITY_WARCRY :: u8 where "ABILITY_WARCRY \<equiv> 0x2"
abbreviation (input) ABILITY_HARPOON :: u8 where "ABILITY_HARPOON \<equiv> 0x3"
abbreviation (input) ABILITY_TREAD_LIGHTLY :: u8 where "ABILITY_TREAD_LIGHTLY \<equiv> 0x4"
abbreviation (input) ABILITY_EYE_OF_THE_WOLF :: u8 where "ABILITY_EYE_OF_THE_WOLF \<equiv> 0x5"
abbreviation (input) ABILITY_ALL :: u8 where "ABILITY_ALL \<equiv> 0x6"

section \<open>\<open>SpellType\<close> (\<open>Spell.h\<close>): spells\<close>

abbreviation (input) SPELL_INVALID :: u8 where "SPELL_INVALID \<equiv> 0x0"
abbreviation (input) SPELL_ANCHOR :: u8 where "SPELL_ANCHOR \<equiv> 0x1"
abbreviation (input) SPELL_ARACHNAPHOBIA :: u8 where "SPELL_ARACHNAPHOBIA \<equiv> 0x2"
abbreviation (input) SPELL_BLIND :: u8 where "SPELL_BLIND \<equiv> 0x3"
abbreviation (input) SPELL_BLINK :: u8 where "SPELL_BLINK \<equiv> 0x4"
abbreviation (input) SPELL_BURN :: u8 where "SPELL_BURN \<equiv> 0x5"
abbreviation (input) SPELL_CANCEL :: u8 where "SPELL_CANCEL \<equiv> 0x6"
abbreviation (input) SPELL_CHAIN_LIGHTNING_BOLT :: u8 where "SPELL_CHAIN_LIGHTNING_BOLT \<equiv> 0x7"
abbreviation (input) SPELL_CHANNEL_LIFE :: u8 where "SPELL_CHANNEL_LIFE \<equiv> 0x8"
abbreviation (input) SPELL_CHARM :: u8 where "SPELL_CHARM \<equiv> 0x9"
abbreviation (input) SPELL_CLEANSING_FLAME :: u8 where "SPELL_CLEANSING_FLAME \<equiv> 0xA"
abbreviation (input) SPELL_CLEANSING_MANA_FLAME :: u8 where "SPELL_CLEANSING_MANA_FLAME \<equiv> 0xB"
abbreviation (input) SPELL_CONFUSE :: u8 where "SPELL_CONFUSE \<equiv> 0xC"
abbreviation (input) SPELL_COUNTERSPELL :: u8 where "SPELL_COUNTERSPELL \<equiv> 0xD"
abbreviation (input) SPELL_CURE_POISON :: u8 where "SPELL_CURE_POISON \<equiv> 0xE"
abbreviation (input) SPELL_DEATH :: u8 where "SPELL_DEATH \<equiv> 0xF"
abbreviation (input) SPELL_DEATH_RAY :: u8 where "SPELL_DEATH_RAY \<equiv> 0x10"
abbreviation (input) SPELL_DETECT_MAGIC :: u8 where "SPELL_DETECT_MAGIC \<equiv> 0x11"
abbreviation (input) SPELL_DETONATE :: u8 where "SPELL_DETONATE \<equiv> 0x12"
abbreviation (input) SPELL_DETONATE_GLYPHS :: u8 where "SPELL_DETONATE_GLYPHS \<equiv> 0x13"
abbreviation (input) SPELL_DISENCHANT_ALL :: u8 where "SPELL_DISENCHANT_ALL \<equiv> 0x14"
abbreviation (input) SPELL_TURN_UNDEAD :: u8 where "SPELL_TURN_UNDEAD \<equiv> 0x15"
abbreviation (input) SPELL_DRAIN_MANA :: u8 where "SPELL_DRAIN_MANA \<equiv> 0x16"
abbreviation (input) SPELL_EARTHQUAKE :: u8 where "SPELL_EARTHQUAKE \<equiv> 0x17"
abbreviation (input) SPELL_LIGHTNING :: u8 where "SPELL_LIGHTNING \<equiv> 0x18"
abbreviation (input) SPELL_EXPLOSION :: u8 where "SPELL_EXPLOSION \<equiv> 0x19"
abbreviation (input) SPELL_FEAR :: u8 where "SPELL_FEAR \<equiv> 0x1A"
abbreviation (input) SPELL_FIREBALL :: u8 where "SPELL_FIREBALL \<equiv> 0x1B"
abbreviation (input) SPELL_FIREWALK :: u8 where "SPELL_FIREWALK \<equiv> 0x1C"
abbreviation (input) SPELL_FIST :: u8 where "SPELL_FIST \<equiv> 0x1D"
abbreviation (input) SPELL_FORCE_FIELD :: u8 where "SPELL_FORCE_FIELD \<equiv> 0x1E"
abbreviation (input) SPELL_FORCE_OF_NATURE :: u8 where "SPELL_FORCE_OF_NATURE \<equiv> 0x1F"
abbreviation (input) SPELL_FREEZE :: u8 where "SPELL_FREEZE \<equiv> 0x20"
abbreviation (input) SPELL_FUMBLE :: u8 where "SPELL_FUMBLE \<equiv> 0x21"
abbreviation (input) SPELL_GLYPH :: u8 where "SPELL_GLYPH \<equiv> 0x22"
abbreviation (input) SPELL_GREATER_HEAL :: u8 where "SPELL_GREATER_HEAL \<equiv> 0x23"
abbreviation (input) SPELL_HASTE :: u8 where "SPELL_HASTE \<equiv> 0x24"
abbreviation (input) SPELL_INFRAVISION :: u8 where "SPELL_INFRAVISION \<equiv> 0x25"
abbreviation (input) SPELL_INVERSION :: u8 where "SPELL_INVERSION \<equiv> 0x26"
abbreviation (input) SPELL_INVISIBILITY :: u8 where "SPELL_INVISIBILITY \<equiv> 0x27"
abbreviation (input) SPELL_INVULNERABILITY :: u8 where "SPELL_INVULNERABILITY \<equiv> 0x28"
abbreviation (input) SPELL_LESSER_HEAL :: u8 where "SPELL_LESSER_HEAL \<equiv> 0x29"
abbreviation (input) SPELL_LIGHT :: u8 where "SPELL_LIGHT \<equiv> 0x2A"
abbreviation (input) SPELL_CHAIN_LIGHTNING :: u8 where "SPELL_CHAIN_LIGHTNING \<equiv> 0x2B"
abbreviation (input) SPELL_LOCK :: u8 where "SPELL_LOCK \<equiv> 0x2C"
abbreviation (input) SPELL_MARK :: u8 where "SPELL_MARK \<equiv> 0x2D"
abbreviation (input) SPELL_MARK_1 :: u8 where "SPELL_MARK_1 \<equiv> 0x2E"
abbreviation (input) SPELL_MARK_2 :: u8 where "SPELL_MARK_2 \<equiv> 0x2F"
abbreviation (input) SPELL_MARK_3 :: u8 where "SPELL_MARK_3 \<equiv> 0x30"
abbreviation (input) SPELL_MARK_4 :: u8 where "SPELL_MARK_4 \<equiv> 0x31"
abbreviation (input) SPELL_MAGIC_MISSILE :: u8 where "SPELL_MAGIC_MISSILE \<equiv> 0x32"
abbreviation (input) SPELL_SHIELD :: u8 where "SPELL_SHIELD \<equiv> 0x33"
abbreviation (input) SPELL_METEOR :: u8 where "SPELL_METEOR \<equiv> 0x34"
abbreviation (input) SPELL_METEOR_SHOWER :: u8 where "SPELL_METEOR_SHOWER \<equiv> 0x35"
abbreviation (input) SPELL_MOONGLOW :: u8 where "SPELL_MOONGLOW \<equiv> 0x36"
abbreviation (input) SPELL_NULLIFY :: u8 where "SPELL_NULLIFY \<equiv> 0x37"
abbreviation (input) SPELL_MANA_BOMB :: u8 where "SPELL_MANA_BOMB \<equiv> 0x38"
abbreviation (input) SPELL_PHANTOM :: u8 where "SPELL_PHANTOM \<equiv> 0x39"
abbreviation (input) SPELL_PIXIE_SWARM :: u8 where "SPELL_PIXIE_SWARM \<equiv> 0x3A"
abbreviation (input) SPELL_PLASMA :: u8 where "SPELL_PLASMA \<equiv> 0x3B"
abbreviation (input) SPELL_POISON :: u8 where "SPELL_POISON \<equiv> 0x3C"
abbreviation (input) SPELL_PROTECTION_FROM_ELECTRICITY :: u8 where "SPELL_PROTECTION_FROM_ELECTRICITY \<equiv> 0x3D"
abbreviation (input) SPELL_PROTECTION_FROM_FIRE :: u8 where "SPELL_PROTECTION_FROM_FIRE \<equiv> 0x3E"
abbreviation (input) SPELL_PROTECTION_FROM_MAGIC :: u8 where "SPELL_PROTECTION_FROM_MAGIC \<equiv> 0x3F"
abbreviation (input) SPELL_PROTECTION_FROM_POISON :: u8 where "SPELL_PROTECTION_FROM_POISON \<equiv> 0x40"
abbreviation (input) SPELL_PULL :: u8 where "SPELL_PULL \<equiv> 0x41"
abbreviation (input) SPELL_PUSH :: u8 where "SPELL_PUSH \<equiv> 0x42"
abbreviation (input) SPELL_OVAL_SHIELD :: u8 where "SPELL_OVAL_SHIELD \<equiv> 0x43"
abbreviation (input) SPELL_RESTORE_HEALTH :: u8 where "SPELL_RESTORE_HEALTH \<equiv> 0x44"
abbreviation (input) SPELL_RESTORE_MANA :: u8 where "SPELL_RESTORE_MANA \<equiv> 0x45"
abbreviation (input) SPELL_RUN :: u8 where "SPELL_RUN \<equiv> 0x46"
abbreviation (input) SPELL_SHOCK :: u8 where "SPELL_SHOCK \<equiv> 0x47"
abbreviation (input) SPELL_SLOW :: u8 where "SPELL_SLOW \<equiv> 0x48"
abbreviation (input) SPELL_SMALL_ZAP :: u8 where "SPELL_SMALL_ZAP \<equiv> 0x49"
abbreviation (input) SPELL_STUN :: u8 where "SPELL_STUN \<equiv> 0x4A"
abbreviation (input) SPELL_SUMMON_BAT :: u8 where "SPELL_SUMMON_BAT \<equiv> 0x4B"
abbreviation (input) SPELL_SUMMON_BLACK_BEAR :: u8 where "SPELL_SUMMON_BLACK_BEAR \<equiv> 0x4C"
abbreviation (input) SPELL_SUMMON_BEAR :: u8 where "SPELL_SUMMON_BEAR \<equiv> 0x4D"
abbreviation (input) SPELL_SUMMON_BEHOLDER :: u8 where "SPELL_SUMMON_BEHOLDER \<equiv> 0x4E"
abbreviation (input) SPELL_SUMMON_BOMBER :: u8 where "SPELL_SUMMON_BOMBER \<equiv> 0x4F"
abbreviation (input) SPELL_SUMMON_CARNIVOROUS_PLANT :: u8 where "SPELL_SUMMON_CARNIVOROUS_PLANT \<equiv> 0x50"
abbreviation (input) SPELL_SUMMON_ALBINO_SPIDER :: u8 where "SPELL_SUMMON_ALBINO_SPIDER \<equiv> 0x51"
abbreviation (input) SPELL_SUMMON_SMALL_ALBINO_SPIDER :: u8 where "SPELL_SUMMON_SMALL_ALBINO_SPIDER \<equiv> 0x52"
abbreviation (input) SPELL_SUMMON_EVIL_CHERUB :: u8 where "SPELL_SUMMON_EVIL_CHERUB \<equiv> 0x53"
abbreviation (input) SPELL_SUMMON_EMBER_DEMON :: u8 where "SPELL_SUMMON_EMBER_DEMON \<equiv> 0x54"
abbreviation (input) SPELL_SUMMON_GHOST :: u8 where "SPELL_SUMMON_GHOST \<equiv> 0x55"
abbreviation (input) SPELL_SUMMON_GIANT_LEECH :: u8 where "SPELL_SUMMON_GIANT_LEECH \<equiv> 0x56"
abbreviation (input) SPELL_SUMMON_IMP :: u8 where "SPELL_SUMMON_IMP \<equiv> 0x57"
abbreviation (input) SPELL_SUMMON_MECHANICAL_FLYER :: u8 where "SPELL_SUMMON_MECHANICAL_FLYER \<equiv> 0x58"
abbreviation (input) SPELL_SUMMON_MECHANICAL_GOLEM :: u8 where "SPELL_SUMMON_MECHANICAL_GOLEM \<equiv> 0x59"
abbreviation (input) SPELL_SUMMON_MIMIC :: u8 where "SPELL_SUMMON_MIMIC \<equiv> 0x5A"
abbreviation (input) SPELL_SUMMON_OGRE :: u8 where "SPELL_SUMMON_OGRE \<equiv> 0x5B"
abbreviation (input) SPELL_SUMMON_OGRE_BRUTE :: u8 where "SPELL_SUMMON_OGRE_BRUTE \<equiv> 0x5C"
abbreviation (input) SPELL_SUMMON_OGRE_WARLORD :: u8 where "SPELL_SUMMON_OGRE_WARLORD \<equiv> 0x5D"
abbreviation (input) SPELL_SUMMON_SCORPION :: u8 where "SPELL_SUMMON_SCORPION \<equiv> 0x5E"
abbreviation (input) SPELL_SUMMON_SHADE :: u8 where "SPELL_SUMMON_SHADE \<equiv> 0x5F"
abbreviation (input) SPELL_SUMMON_SKELETON :: u8 where "SPELL_SUMMON_SKELETON \<equiv> 0x60"
abbreviation (input) SPELL_SUMMON_SKELETON_LORD :: u8 where "SPELL_SUMMON_SKELETON_LORD \<equiv> 0x61"
abbreviation (input) SPELL_SUMMON_SPIDER :: u8 where "SPELL_SUMMON_SPIDER \<equiv> 0x62"
abbreviation (input) SPELL_SUMMON_SMALL_SPIDER :: u8 where "SPELL_SUMMON_SMALL_SPIDER \<equiv> 0x63"
abbreviation (input) SPELL_SUMMON_SPITTING_SPIDER :: u8 where "SPELL_SUMMON_SPITTING_SPIDER \<equiv> 0x64"
abbreviation (input) SPELL_SUMMON_STONE_GOLEM :: u8 where "SPELL_SUMMON_STONE_GOLEM \<equiv> 0x65"
abbreviation (input) SPELL_SUMMON_TROLL :: u8 where "SPELL_SUMMON_TROLL \<equiv> 0x66"
abbreviation (input) SPELL_SUMMON_URCHIN :: u8 where "SPELL_SUMMON_URCHIN \<equiv> 0x67"
abbreviation (input) SPELL_SUMMON_WASP :: u8 where "SPELL_SUMMON_WASP \<equiv> 0x68"
abbreviation (input) SPELL_SUMMON_WILLOWISP :: u8 where "SPELL_SUMMON_WILLOWISP \<equiv> 0x69"
abbreviation (input) SPELL_SUMMON_WOLF :: u8 where "SPELL_SUMMON_WOLF \<equiv> 0x6A"
abbreviation (input) SPELL_SUMMON_BLACK_WOLF :: u8 where "SPELL_SUMMON_BLACK_WOLF \<equiv> 0x6B"
abbreviation (input) SPELL_SUMMON_WHITE_WOLF :: u8 where "SPELL_SUMMON_WHITE_WOLF \<equiv> 0x6C"
abbreviation (input) SPELL_SUMMON_ZOMBIE :: u8 where "SPELL_SUMMON_ZOMBIE \<equiv> 0x6D"
abbreviation (input) SPELL_SUMMON_VILE_ZOMBIE :: u8 where "SPELL_SUMMON_VILE_ZOMBIE \<equiv> 0x6E"
abbreviation (input) SPELL_SUMMON_DEMON :: u8 where "SPELL_SUMMON_DEMON \<equiv> 0x6F"
abbreviation (input) SPELL_SUMMON_LICH :: u8 where "SPELL_SUMMON_LICH \<equiv> 0x70"
abbreviation (input) SPELL_SUMMON_DRYAD :: u8 where "SPELL_SUMMON_DRYAD \<equiv> 0x71"
abbreviation (input) SPELL_SUMMON_URCHIN_SHAMAN :: u8 where "SPELL_SUMMON_URCHIN_SHAMAN \<equiv> 0x72"
abbreviation (input) SPELL_SWAP :: u8 where "SPELL_SWAP \<equiv> 0x73"
abbreviation (input) SPELL_TAG :: u8 where "SPELL_TAG \<equiv> 0x74"
abbreviation (input) SPELL_TELEPORT_OTHER_TO_MARK_1 :: u8 where "SPELL_TELEPORT_OTHER_TO_MARK_1 \<equiv> 0x75"
abbreviation (input) SPELL_TELEPORT_OTHER_TO_MARK_2 :: u8 where "SPELL_TELEPORT_OTHER_TO_MARK_2 \<equiv> 0x76"
abbreviation (input) SPELL_TELEPORT_OTHER_TO_MARK_3 :: u8 where "SPELL_TELEPORT_OTHER_TO_MARK_3 \<equiv> 0x77"
abbreviation (input) SPELL_TELEPORT_OTHER_TO_MARK_4 :: u8 where "SPELL_TELEPORT_OTHER_TO_MARK_4 \<equiv> 0x78"
abbreviation (input) SPELL_TELEPORT_POP :: u8 where "SPELL_TELEPORT_POP \<equiv> 0x79"
abbreviation (input) SPELL_TELEPORT_TO_MARK_1 :: u8 where "SPELL_TELEPORT_TO_MARK_1 \<equiv> 0x7A"
abbreviation (input) SPELL_TELEPORT_TO_MARK_2 :: u8 where "SPELL_TELEPORT_TO_MARK_2 \<equiv> 0x7B"
abbreviation (input) SPELL_TELEPORT_TO_MARK_3 :: u8 where "SPELL_TELEPORT_TO_MARK_3 \<equiv> 0x7C"
abbreviation (input) SPELL_TELEPORT_TO_MARK_4 :: u8 where "SPELL_TELEPORT_TO_MARK_4 \<equiv> 0x7D"
abbreviation (input) SPELL_TELEPORT_TO_TARGET :: u8 where "SPELL_TELEPORT_TO_TARGET \<equiv> 0x7E"
abbreviation (input) SPELL_TELEKINESIS :: u8 where "SPELL_TELEKINESIS \<equiv> 0x7F"
abbreviation (input) SPELL_TOXIC_CLOUD :: u8 where "SPELL_TOXIC_CLOUD \<equiv> 0x80"
abbreviation (input) SPELL_TRIGGER_GLYPH :: u8 where "SPELL_TRIGGER_GLYPH \<equiv> 0x81"
abbreviation (input) SPELL_VAMPIRISM :: u8 where "SPELL_VAMPIRISM \<equiv> 0x82"
abbreviation (input) SPELL_VILLAIN :: u8 where "SPELL_VILLAIN \<equiv> 0x83"
abbreviation (input) SPELL_WALL :: u8 where "SPELL_WALL \<equiv> 0x84"
abbreviation (input) SPELL_WINK :: u8 where "SPELL_WINK \<equiv> 0x85"
abbreviation (input) SPELL_SUMMON_CREATURE :: u8 where "SPELL_SUMMON_CREATURE \<equiv> 0x86"
abbreviation (input) SPELL_MARK_LOCATION :: u8 where "SPELL_MARK_LOCATION \<equiv> 0x87"
abbreviation (input) SPELL_TELEPORT_TO_MARKER :: u8 where "SPELL_TELEPORT_TO_MARKER \<equiv> 0x88"

section \<open>\<open>NoxClassType\<close> (\<open>NoxThinglib.h\<close>): class bits of an object type\<close>

abbreviation (input) CLASS_NULL :: u32 where "CLASS_NULL \<equiv> 0x0"
abbreviation (input) CLASS_MONSTER :: u32 where "CLASS_MONSTER \<equiv> 0x1"
abbreviation (input) CLASS_PLAYER :: u32 where "CLASS_PLAYER \<equiv> 0x2"
abbreviation (input) CLASS_OBSTACLE :: u32 where "CLASS_OBSTACLE \<equiv> 0x4"
abbreviation (input) CLASS_FOOD :: u32 where "CLASS_FOOD \<equiv> 0x8"
abbreviation (input) CLASS_EXIT :: u32 where "CLASS_EXIT \<equiv> 0x10"
abbreviation (input) CLASS_KEY :: u32 where "CLASS_KEY \<equiv> 0x20"
abbreviation (input) CLASS_DOOR :: u32 where "CLASS_DOOR \<equiv> 0x40"
abbreviation (input) CLASS_INFO_BOOK :: u32 where "CLASS_INFO_BOOK \<equiv> 0x80"
abbreviation (input) CLASS_TRIGGER :: u32 where "CLASS_TRIGGER \<equiv> 0x100"
abbreviation (input) CLASS_TRANSPORTER :: u32 where "CLASS_TRANSPORTER \<equiv> 0x200"
abbreviation (input) CLASS_HOLE :: u32 where "CLASS_HOLE \<equiv> 0x400"
abbreviation (input) CLASS_WAND :: u32 where "CLASS_WAND \<equiv> 0x800"
abbreviation (input) CLASS_FIRE :: u32 where "CLASS_FIRE \<equiv> 0x1000"
abbreviation (input) CLASS_ELEVATOR :: u32 where "CLASS_ELEVATOR \<equiv> 0x2000"
abbreviation (input) CLASS_ELEVATOR_SHAFT :: u32 where "CLASS_ELEVATOR_SHAFT \<equiv> 0x4000"
abbreviation (input) CLASS_DANGEROUS :: u32 where "CLASS_DANGEROUS \<equiv> 0x8000"
abbreviation (input) CLASS_MONSTERGENERATOR :: u32 where "CLASS_MONSTERGENERATOR \<equiv> 0x10000"
abbreviation (input) CLASS_READABLE :: u32 where "CLASS_READABLE \<equiv> 0x20000"
abbreviation (input) CLASS_LIGHT :: u32 where "CLASS_LIGHT \<equiv> 0x40000"
abbreviation (input) CLASS_SIMPLE :: u32 where "CLASS_SIMPLE \<equiv> 0x80000"
abbreviation (input) CLASS_COMPLEX :: u32 where "CLASS_COMPLEX \<equiv> 0x100000"
abbreviation (input) CLASS_IMMOBILE :: u32 where "CLASS_IMMOBILE \<equiv> 0x200000"
abbreviation (input) CLASS_VISIBLE_ENABLE :: u32 where "CLASS_VISIBLE_ENABLE \<equiv> 0x400000"
abbreviation (input) CLASS_WEAPON :: u32 where "CLASS_WEAPON \<equiv> 0x800000"
abbreviation (input) CLASS_ARMOR :: u32 where "CLASS_ARMOR \<equiv> 0x1000000"
abbreviation (input) CLASS_NOT_STACKABLE :: u32 where "CLASS_NOT_STACKABLE \<equiv> 0x2000000"
abbreviation (input) CLASS_TREASURE :: u32 where "CLASS_TREASURE \<equiv> 0x4000000"
abbreviation (input) CLASS_FLAG :: u32 where "CLASS_FLAG \<equiv> 0x8000000"
abbreviation (input) CLASS_CLIENT_PERSIST :: u32 where "CLASS_CLIENT_PERSIST \<equiv> 0x10000000"
abbreviation (input) CLASS_CLIENT_PREDICT :: u32 where "CLASS_CLIENT_PREDICT \<equiv> 0x20000000"
abbreviation (input) CLASS_PICKUP :: u32 where "CLASS_PICKUP \<equiv> 0x40000000"
abbreviation (input) CLASS_MISSILE :: u32 where "CLASS_MISSILE \<equiv> 0x80000000"

section \<open>\<open>NoxSubclassType\<close> (\<open>NoxThinglib.h\<close>): subclasses of an object type\<close>

abbreviation (input) SUBCLASS_HELMET :: u32 where "SUBCLASS_HELMET \<equiv> 0x0"
abbreviation (input) SUBCLASS_BREASTPLATE :: u32 where "SUBCLASS_BREASTPLATE \<equiv> 0x1"
abbreviation (input) SUBCLASS_ARM_ARMOR :: u32 where "SUBCLASS_ARM_ARMOR \<equiv> 0x2"
abbreviation (input) SUBCLASS_PANTS :: u32 where "SUBCLASS_PANTS \<equiv> 0x3"
abbreviation (input) SUBCLASS_BOOTS :: u32 where "SUBCLASS_BOOTS \<equiv> 0x4"
abbreviation (input) SUBCLASS_SHIRT :: u32 where "SUBCLASS_SHIRT \<equiv> 0x5"
abbreviation (input) SUBCLASS_LEG_ARMOR :: u32 where "SUBCLASS_LEG_ARMOR \<equiv> 0x6"
abbreviation (input) SUBCLASS_BACK :: u32 where "SUBCLASS_BACK \<equiv> 0x7"
abbreviation (input) SUBCLASS_SHIELD :: u32 where "SUBCLASS_SHIELD \<equiv> 0x8"
abbreviation (input) SUBCLASS_WEAPON :: u32 where "SUBCLASS_WEAPON \<equiv> 0x20"
abbreviation (input) SUBCLASS_FLAG :: u32 where "SUBCLASS_FLAG \<equiv> 0x20"
abbreviation (input) SUBCLASS_QUIVER :: u32 where "SUBCLASS_QUIVER \<equiv> 0x21"
abbreviation (input) SUBCLASS_BOW :: u32 where "SUBCLASS_BOW \<equiv> 0x22"
abbreviation (input) SUBCLASS_CROSSBOW :: u32 where "SUBCLASS_CROSSBOW \<equiv> 0x23"
abbreviation (input) SUBCLASS_ARROW :: u32 where "SUBCLASS_ARROW \<equiv> 0x24"
abbreviation (input) SUBCLASS_BOLT :: u32 where "SUBCLASS_BOLT \<equiv> 0x25"
abbreviation (input) SUBCLASS_CHAKRAM :: u32 where "SUBCLASS_CHAKRAM \<equiv> 0x26"
abbreviation (input) SUBCLASS_SHURIKEN :: u32 where "SUBCLASS_SHURIKEN \<equiv> 0x27"
abbreviation (input) SUBCLASS_SWORD :: u32 where "SUBCLASS_SWORD \<equiv> 0x28"
abbreviation (input) SUBCLASS_LONG_SWORD :: u32 where "SUBCLASS_LONG_SWORD \<equiv> 0x29"
abbreviation (input) SUBCLASS_GREAT_SWORD :: u32 where "SUBCLASS_GREAT_SWORD \<equiv> 0x2A"
abbreviation (input) SUBCLASS_MACE :: u32 where "SUBCLASS_MACE \<equiv> 0x2B"
abbreviation (input) SUBCLASS_AXE :: u32 where "SUBCLASS_AXE \<equiv> 0x2C"
abbreviation (input) SUBCLASS_OGRE_AXE :: u32 where "SUBCLASS_OGRE_AXE \<equiv> 0x2D"
abbreviation (input) SUBCLASS_HAMMER :: u32 where "SUBCLASS_HAMMER \<equiv> 0x2E"
abbreviation (input) SUBCLASS_STAFF :: u32 where "SUBCLASS_STAFF \<equiv> 0x2F"
abbreviation (input) SUBCLASS_STAFF_SULPHOROUS_FLARE :: u32 where "SUBCLASS_STAFF_SULPHOROUS_FLARE \<equiv> 0x30"
abbreviation (input) SUBCLASS_STAFF_SULPHOROUS_SHOWER :: u32 where "SUBCLASS_STAFF_SULPHOROUS_SHOWER \<equiv> 0x31"
abbreviation (input) SUBCLASS_STAFF_LIGHTNING :: u32 where "SUBCLASS_STAFF_LIGHTNING \<equiv> 0x32"
abbreviation (input) SUBCLASS_STAFF_FIREBALL :: u32 where "SUBCLASS_STAFF_FIREBALL \<equiv> 0x33"
abbreviation (input) SUBCLASS_STAFF_TRIPLE_FIREBALL :: u32 where "SUBCLASS_STAFF_TRIPLE_FIREBALL \<equiv> 0x34"
abbreviation (input) SUBCLASS_STAFF_FORCE_OF_NATURE :: u32 where "SUBCLASS_STAFF_FORCE_OF_NATURE \<equiv> 0x35"
abbreviation (input) SUBCLASS_STAFF_DEATH_RAY :: u32 where "SUBCLASS_STAFF_DEATH_RAY \<equiv> 0x36"
abbreviation (input) SUBCLASS_STAFF_OBLIVION_HALBERD :: u32 where "SUBCLASS_STAFF_OBLIVION_HALBERD \<equiv> 0x37"
abbreviation (input) SUBCLASS_STAFF_OBLIVION_HEART :: u32 where "SUBCLASS_STAFF_OBLIVION_HEART \<equiv> 0x38"
abbreviation (input) SUBCLASS_STAFF_OBLIVION_WIERDLING :: u32 where "SUBCLASS_STAFF_OBLIVION_WIERDLING \<equiv> 0x39"
abbreviation (input) SUBCLASS_STAFF_OBLIVION_ORB :: u32 where "SUBCLASS_STAFF_OBLIVION_ORB \<equiv> 0x3A"
abbreviation (input) SUBCLASS_SMALL_MONSTER :: u32 where "SUBCLASS_SMALL_MONSTER \<equiv> 0x3B"
abbreviation (input) SUBCLASS_MEDIUM_MONSTER :: u32 where "SUBCLASS_MEDIUM_MONSTER \<equiv> 0x3C"
abbreviation (input) SUBCLASS_LARGE_MONSTER :: u32 where "SUBCLASS_LARGE_MONSTER \<equiv> 0x3D"
abbreviation (input) SUBCLASS_SHOPKEEPER :: u32 where "SUBCLASS_SHOPKEEPER \<equiv> 0x3E"
abbreviation (input) SUBCLASS_NPC :: u32 where "SUBCLASS_NPC \<equiv> 0x3F"
abbreviation (input) SUBCLASS_FEMALE_NPC :: u32 where "SUBCLASS_FEMALE_NPC \<equiv> 0x40"
abbreviation (input) SUBCLASS_UNDEAD :: u32 where "SUBCLASS_UNDEAD \<equiv> 0x41"
abbreviation (input) SUBCLASS_MONITOR :: u32 where "SUBCLASS_MONITOR \<equiv> 0x42"
abbreviation (input) SUBCLASS_MIGRATE :: u32 where "SUBCLASS_MIGRATE \<equiv> 0x43"
abbreviation (input) SUBCLASS_IMMUNE_POISON :: u32 where "SUBCLASS_IMMUNE_POISON \<equiv> 0x44"
abbreviation (input) SUBCLASS_IMMUNE_FIRE :: u32 where "SUBCLASS_IMMUNE_FIRE \<equiv> 0x45"
abbreviation (input) SUBCLASS_IMMUNE_ELECTRICITY :: u32 where "SUBCLASS_IMMUNE_ELECTRICITY \<equiv> 0x46"
abbreviation (input) SUBCLASS_IMMUNE_FEAR :: u32 where "SUBCLASS_IMMUNE_FEAR \<equiv> 0x47"
abbreviation (input) SUBCLASS_BOMBER :: u32 where "SUBCLASS_BOMBER \<equiv> 0x48"
abbreviation (input) SUBCLASS_NO_TARGET :: u32 where "SUBCLASS_NO_TARGET \<equiv> 0x49"
abbreviation (input) SUBCLASS_NO_SPELL_TARGET :: u32 where "SUBCLASS_NO_SPELL_TARGET \<equiv> 0x4A"
abbreviation (input) SUBCLASS_HAS_SOUL :: u32 where "SUBCLASS_HAS_SOUL \<equiv> 0x4B"
abbreviation (input) SUBCLASS_WARCRY_STUN :: u32 where "SUBCLASS_WARCRY_STUN \<equiv> 0x4C"
abbreviation (input) SUBCLASS_LOOK_AROUND :: u32 where "SUBCLASS_LOOK_AROUND \<equiv> 0x4D"
abbreviation (input) SUBCLASS_WOUNDED_NPC :: u32 where "SUBCLASS_WOUNDED_NPC \<equiv> 0x4E"
abbreviation (input) SUBCLASS_SIMPLE :: u32 where "SUBCLASS_SIMPLE \<equiv> 0x4F"
abbreviation (input) SUBCLASS_APPLE :: u32 where "SUBCLASS_APPLE \<equiv> 0x50"
abbreviation (input) SUBCLASS_JUG :: u32 where "SUBCLASS_JUG \<equiv> 0x51"
abbreviation (input) SUBCLASS_POTION :: u32 where "SUBCLASS_POTION \<equiv> 0x52"
abbreviation (input) SUBCLASS_HEALTH_POTION :: u32 where "SUBCLASS_HEALTH_POTION \<equiv> 0x53"
abbreviation (input) SUBCLASS_MANA_POTION :: u32 where "SUBCLASS_MANA_POTION \<equiv> 0x54"
abbreviation (input) SUBCLASS_CURE_POISON_POTION :: u32 where "SUBCLASS_CURE_POISON_POTION \<equiv> 0x55"
abbreviation (input) SUBCLASS_MUSHROOM :: u32 where "SUBCLASS_MUSHROOM \<equiv> 0x56"
abbreviation (input) SUBCLASS_HASTE_POTION :: u32 where "SUBCLASS_HASTE_POTION \<equiv> 0x57"
abbreviation (input) SUBCLASS_INVISIBILITY_POTION :: u32 where "SUBCLASS_INVISIBILITY_POTION \<equiv> 0x58"
abbreviation (input) SUBCLASS_SHIELD_POTION :: u32 where "SUBCLASS_SHIELD_POTION \<equiv> 0x59"
abbreviation (input) SUBCLASS_FIRE_PROTECT_POTION :: u32 where "SUBCLASS_FIRE_PROTECT_POTION \<equiv> 0x5A"
abbreviation (input) SUBCLASS_SHOCK_PROTECT_POTION :: u32 where "SUBCLASS_SHOCK_PROTECT_POTION \<equiv> 0x5B"
abbreviation (input) SUBCLASS_POISON_PROTECT_POTION :: u32 where "SUBCLASS_POISON_PROTECT_POTION \<equiv> 0x5C"
abbreviation (input) SUBCLASS_INVULNERABILITY_POTION :: u32 where "SUBCLASS_INVULNERABILITY_POTION \<equiv> 0x5D"
abbreviation (input) SUBCLASS_INFRAVISION_POTION :: u32 where "SUBCLASS_INFRAVISION_POTION \<equiv> 0x5E"
abbreviation (input) SUBCLASS_VAMPIRISM_POTION :: u32 where "SUBCLASS_VAMPIRISM_POTION \<equiv> 0x5F"
abbreviation (input) SUBCLASS_HEAVY :: u32 where "SUBCLASS_HEAVY \<equiv> 0x60"
abbreviation (input) SUBCLASS_LAVA :: u32 where "SUBCLASS_LAVA \<equiv> 0x61"
abbreviation (input) SUBCLASS_GATE :: u32 where "SUBCLASS_GATE \<equiv> 0x62"
abbreviation (input) SUBCLASS_VISIBLE_OBELISK :: u32 where "SUBCLASS_VISIBLE_OBELISK \<equiv> 0x63"
abbreviation (input) SUBCLASS_INVISIBLE_OBELISK :: u32 where "SUBCLASS_INVISIBLE_OBELISK \<equiv> 0x64"
abbreviation (input) SUBCLASS_TECH :: u32 where "SUBCLASS_TECH \<equiv> 0x65"
abbreviation (input) SUBCLASS_LOTD :: u32 where "SUBCLASS_LOTD \<equiv> 0x66"
abbreviation (input) SUBCLASS_USEABLE :: u32 where "SUBCLASS_USEABLE \<equiv> 0x67"
abbreviation (input) SUBCLASS_CHEST_NW :: u32 where "SUBCLASS_CHEST_NW \<equiv> 0x68"
abbreviation (input) SUBCLASS_CHEST_NE :: u32 where "SUBCLASS_CHEST_NE \<equiv> 0x69"
abbreviation (input) SUBCLASS_CHEST_SE :: u32 where "SUBCLASS_CHEST_SE \<equiv> 0x6A"
abbreviation (input) SUBCLASS_CHEST_SW :: u32 where "SUBCLASS_CHEST_SW \<equiv> 0x6B"
abbreviation (input) SUBCLASS_STONE_DOOR :: u32 where "SUBCLASS_STONE_DOOR \<equiv> 0x6C"
abbreviation (input) SUBCLASS_SPELL_BOOK :: u32 where "SUBCLASS_SPELL_BOOK \<equiv> 0x6D"
abbreviation (input) SUBCLASS_FIELD_GUIDE :: u32 where "SUBCLASS_FIELD_GUIDE \<equiv> 0x6E"
abbreviation (input) SUBCLASS_ABILITY_BOOK :: u32 where "SUBCLASS_ABILITY_BOOK \<equiv> 0x6F"
abbreviation (input) SUBCLASS_MISSILE_COUNTERSPELL :: u32 where "SUBCLASS_MISSILE_COUNTERSPELL \<equiv> 0x70"
abbreviation (input) SUBCLASS_MAGIC :: u32 where "SUBCLASS_MAGIC \<equiv> 0x71"
abbreviation (input) SUBCLASS_GENERATOR_NW :: u32 where "SUBCLASS_GENERATOR_NW \<equiv> 0x72"
abbreviation (input) SUBCLASS_GENERATOR_NE :: u32 where "SUBCLASS_GENERATOR_NE \<equiv> 0x73"
abbreviation (input) SUBCLASS_GENERATOR_SE :: u32 where "SUBCLASS_GENERATOR_SE \<equiv> 0x74"
abbreviation (input) SUBCLASS_GENERATOR_SW :: u32 where "SUBCLASS_GENERATOR_SW \<equiv> 0x75"
abbreviation (input) SUBCLASS_QUEST_EXIT :: u32 where "SUBCLASS_QUEST_EXIT \<equiv> 0x76"
abbreviation (input) SUBCLASS_QUEST_WARP_EXIT :: u32 where "SUBCLASS_QUEST_WARP_EXIT \<equiv> 0x77"

section \<open>\<open>NoxFlagType\<close> (\<open>NoxThinglib.h\<close>): flag bits of an object type\<close>

abbreviation (input) FLAG_NULL :: u32 where "FLAG_NULL \<equiv> 0x0"
abbreviation (input) FLAG_BELOW :: u32 where "FLAG_BELOW \<equiv> 0x1"
abbreviation (input) FLAG_NO_UPDATE :: u32 where "FLAG_NO_UPDATE \<equiv> 0x2"
abbreviation (input) FLAG_ACTIVE :: u32 where "FLAG_ACTIVE \<equiv> 0x4"
abbreviation (input) FLAG_ALLOW_OVERLAP :: u32 where "FLAG_ALLOW_OVERLAP \<equiv> 0x8"
abbreviation (input) FLAG_SHORT :: u32 where "FLAG_SHORT \<equiv> 0x10"
abbreviation (input) FLAG_DESTROYED :: u32 where "FLAG_DESTROYED \<equiv> 0x20"
abbreviation (input) FLAG_NO_COLLIDE :: u32 where "FLAG_NO_COLLIDE \<equiv> 0x40"
abbreviation (input) FLAG_MISSILE_HIT :: u32 where "FLAG_MISSILE_HIT \<equiv> 0x80"
abbreviation (input) FLAG_EQUIPPED :: u32 where "FLAG_EQUIPPED \<equiv> 0x100"
abbreviation (input) FLAG_PARTITIONED :: u32 where "FLAG_PARTITIONED \<equiv> 0x200"
abbreviation (input) FLAG_NO_COLLIDE_OWNER :: u32 where "FLAG_NO_COLLIDE_OWNER \<equiv> 0x400"
abbreviation (input) FLAG_OWNER_VISIBLE :: u32 where "FLAG_OWNER_VISIBLE \<equiv> 0x800"
abbreviation (input) FLAG_EDIT_VISIBLE :: u32 where "FLAG_EDIT_VISIBLE \<equiv> 0x1000"
abbreviation (input) FLAG_NO_PUSH_CHARACTERS :: u32 where "FLAG_NO_PUSH_CHARACTERS \<equiv> 0x2000"
abbreviation (input) FLAG_AIRBORNE :: u32 where "FLAG_AIRBORNE \<equiv> 0x4000"
abbreviation (input) FLAG_DEAD :: u32 where "FLAG_DEAD \<equiv> 0x8000"
abbreviation (input) FLAG_SHADOW :: u32 where "FLAG_SHADOW \<equiv> 0x10000"
abbreviation (input) FLAG_FALLING :: u32 where "FLAG_FALLING \<equiv> 0x20000"
abbreviation (input) FLAG_IN_HOLE :: u32 where "FLAG_IN_HOLE \<equiv> 0x40000"
abbreviation (input) FLAG_RESPAWN :: u32 where "FLAG_RESPAWN \<equiv> 0x80000"
abbreviation (input) FLAG_ON_OBJECT :: u32 where "FLAG_ON_OBJECT \<equiv> 0x100000"
abbreviation (input) FLAG_SIGHT_DESTROY :: u32 where "FLAG_SIGHT_DESTROY \<equiv> 0x200000"
abbreviation (input) FLAG_TRANSIENT :: u32 where "FLAG_TRANSIENT \<equiv> 0x400000"
abbreviation (input) FLAG_BOUNCY :: u32 where "FLAG_BOUNCY \<equiv> 0x800000"
abbreviation (input) FLAG_ENABLED :: u32 where "FLAG_ENABLED \<equiv> 0x1000000"
abbreviation (input) FLAG_PENDING :: u32 where "FLAG_PENDING \<equiv> 0x2000000"
abbreviation (input) FLAG_TRANSLUCENT :: u32 where "FLAG_TRANSLUCENT \<equiv> 0x4000000"
abbreviation (input) FLAG_STILL :: u32 where "FLAG_STILL \<equiv> 0x8000000"
abbreviation (input) FLAG_NO_AUTO_DROP :: u32 where "FLAG_NO_AUTO_DROP \<equiv> 0x10000000"
abbreviation (input) FLAG_FLICKER :: u32 where "FLAG_FLICKER \<equiv> 0x20000000"
abbreviation (input) FLAG_SELECTED :: u32 where "FLAG_SELECTED \<equiv> 0x40000000"
abbreviation (input) FLAG_MARKED :: u32 where "FLAG_MARKED \<equiv> 0x80000000"

section \<open>\<open>NoxCollideType\<close> (\<open>NoxThinglib.h\<close>): collision behaviours\<close>

abbreviation (input) COLLIDE_NONE :: u32 where "COLLIDE_NONE \<equiv> 0x0"
abbreviation (input) COLLIDE_DEFAULT :: u32 where "COLLIDE_DEFAULT \<equiv> 0x1"
abbreviation (input) COLLIDE_MONSTER :: u32 where "COLLIDE_MONSTER \<equiv> 0x2"
abbreviation (input) COLLIDE_PLAYER :: u32 where "COLLIDE_PLAYER \<equiv> 0x3"
abbreviation (input) COLLIDE_PROJECTILE :: u32 where "COLLIDE_PROJECTILE \<equiv> 0x4"
abbreviation (input) COLLIDE_PROJECTILESPARK :: u32 where "COLLIDE_PROJECTILESPARK \<equiv> 0x5"
abbreviation (input) COLLIDE_DOOR :: u32 where "COLLIDE_DOOR \<equiv> 0x6"
abbreviation (input) COLLIDE_PICKUP :: u32 where "COLLIDE_PICKUP \<equiv> 0x7"
abbreviation (input) COLLIDE_EXIT :: u32 where "COLLIDE_EXIT \<equiv> 0x8"
abbreviation (input) COLLIDE_DAMAGE :: u32 where "COLLIDE_DAMAGE \<equiv> 0x9"
abbreviation (input) COLLIDE_MANADRAIN :: u32 where "COLLIDE_MANADRAIN \<equiv> 0xA"
abbreviation (input) COLLIDE_BOMB :: u32 where "COLLIDE_BOMB \<equiv> 0xB"
abbreviation (input) COLLIDE_SPARKEXPLOSION :: u32 where "COLLIDE_SPARKEXPLOSION \<equiv> 0xC"
abbreviation (input) COLLIDE_CHEST :: u32 where "COLLIDE_CHEST \<equiv> 0xD"
abbreviation (input) COLLIDE_WALLREFLECT :: u32 where "COLLIDE_WALLREFLECT \<equiv> 0xE"
abbreviation (input) COLLIDE_WALLREFLECTSPARK :: u32 where "COLLIDE_WALLREFLECTSPARK \<equiv> 0xF"
abbreviation (input) COLLIDE_PIXIE :: u32 where "COLLIDE_PIXIE \<equiv> 0x10"
abbreviation (input) COLLIDE_OWN :: u32 where "COLLIDE_OWN \<equiv> 0x11"
abbreviation (input) COLLIDE_SPARK :: u32 where "COLLIDE_SPARK \<equiv> 0x12"
abbreviation (input) COLLIDE_BARREL :: u32 where "COLLIDE_BARREL \<equiv> 0x13"
abbreviation (input) COLLIDE_AUDIOEVENT :: u32 where "COLLIDE_AUDIOEVENT \<equiv> 0x14"
abbreviation (input) COLLIDE_TRIGGER :: u32 where "COLLIDE_TRIGGER \<equiv> 0x15"
abbreviation (input) COLLIDE_TELEPORT :: u32 where "COLLIDE_TELEPORT \<equiv> 0x16"
abbreviation (input) COLLIDE_ELEVATOR :: u32 where "COLLIDE_ELEVATOR \<equiv> 0x17"
abbreviation (input) COLLIDE_AWARDSPELL :: u32 where "COLLIDE_AWARDSPELL \<equiv> 0x18"
abbreviation (input) COLLIDE_DIE :: u32 where "COLLIDE_DIE \<equiv> 0x19"
abbreviation (input) COLLIDE_GLYPH :: u32 where "COLLIDE_GLYPH \<equiv> 0x1A"
abbreviation (input) COLLIDE_SPELLPROJECTILE :: u32 where "COLLIDE_SPELLPROJECTILE \<equiv> 0x1B"
abbreviation (input) COLLIDE_BOOM :: u32 where "COLLIDE_BOOM \<equiv> 0x1C"
abbreviation (input) COLLIDE_SIGN :: u32 where "COLLIDE_SIGN \<equiv> 0x1D"
abbreviation (input) COLLIDE_PENTAGRAM :: u32 where "COLLIDE_PENTAGRAM \<equiv> 0x1E"
abbreviation (input) COLLIDE_SPIDERSPIT :: u32 where "COLLIDE_SPIDERSPIT \<equiv> 0x1F"
abbreviation (input) COLLIDE_DEATHBALL :: u32 where "COLLIDE_DEATHBALL \<equiv> 0x20"
abbreviation (input) COLLIDE_DEATHBALLFRAGMENT :: u32 where "COLLIDE_DEATHBALLFRAGMENT \<equiv> 0x21"
abbreviation (input) COLLIDE_TELEKINESIS :: u32 where "COLLIDE_TELEKINESIS \<equiv> 0x22"
abbreviation (input) COLLIDE_FIST :: u32 where "COLLIDE_FIST \<equiv> 0x23"
abbreviation (input) COLLIDE_TELEPORTWAKE :: u32 where "COLLIDE_TELEPORTWAKE \<equiv> 0x24"
abbreviation (input) COLLIDE_FLAG :: u32 where "COLLIDE_FLAG \<equiv> 0x25"
abbreviation (input) COLLIDE_CHAKRAMINMOTION :: u32 where "COLLIDE_CHAKRAMINMOTION \<equiv> 0x26"
abbreviation (input) COLLIDE_ARROW :: u32 where "COLLIDE_ARROW \<equiv> 0x27"
abbreviation (input) COLLIDE_MONSTERARROW :: u32 where "COLLIDE_MONSTERARROW \<equiv> 0x28"
abbreviation (input) COLLIDE_BEARTRAP :: u32 where "COLLIDE_BEARTRAP \<equiv> 0x29"
abbreviation (input) COLLIDE_POISONGASTRAP :: u32 where "COLLIDE_POISONGASTRAP \<equiv> 0x2A"
abbreviation (input) COLLIDE_TRAPDOOR :: u32 where "COLLIDE_TRAPDOOR \<equiv> 0x2B"
abbreviation (input) COLLIDE_BALL :: u32 where "COLLIDE_BALL \<equiv> 0x2C"
abbreviation (input) COLLIDE_HOMEBASE :: u32 where "COLLIDE_HOMEBASE \<equiv> 0x2D"
abbreviation (input) COLLIDE_CROWN :: u32 where "COLLIDE_CROWN \<equiv> 0x2E"
abbreviation (input) COLLIDE_UNDEADKILLER :: u32 where "COLLIDE_UNDEADKILLER \<equiv> 0x2F"
abbreviation (input) COLLIDE_YELLOWSTARSHOT :: u32 where "COLLIDE_YELLOWSTARSHOT \<equiv> 0x30"
abbreviation (input) COLLIDE_MIMIC :: u32 where "COLLIDE_MIMIC \<equiv> 0x31"
abbreviation (input) COLLIDE_HARPOON :: u32 where "COLLIDE_HARPOON \<equiv> 0x32"
abbreviation (input) COLLIDE_MONSTERGENERATOR :: u32 where "COLLIDE_MONSTERGENERATOR \<equiv> 0x33"
abbreviation (input) COLLIDE_SOULGATE :: u32 where "COLLIDE_SOULGATE \<equiv> 0x34"
abbreviation (input) COLLIDE_ANKH :: u32 where "COLLIDE_ANKH \<equiv> 0x35"

section \<open>\<open>NoxPickupType\<close> (\<open>NoxThinglib.h\<close>): pickup behaviours\<close>

abbreviation (input) PICKUP_DEFEAULT :: u32 where "PICKUP_DEFEAULT \<equiv> 0x0"
abbreviation (input) PICKUP_FOOD :: u32 where "PICKUP_FOOD \<equiv> 0x1"
abbreviation (input) PICKUP_USE :: u32 where "PICKUP_USE \<equiv> 0x2"
abbreviation (input) PICKUP_ARMOR :: u32 where "PICKUP_ARMOR \<equiv> 0x3"
abbreviation (input) PICKUP_WEAPON :: u32 where "PICKUP_WEAPON \<equiv> 0x4"
abbreviation (input) PICKUP_OBLIVION :: u32 where "PICKUP_OBLIVION \<equiv> 0x5"
abbreviation (input) PICKUP_TREASURE :: u32 where "PICKUP_TREASURE \<equiv> 0x6"
abbreviation (input) PICKUP_TRAP :: u32 where "PICKUP_TRAP \<equiv> 0x7"
abbreviation (input) PICKUP_POTION :: u32 where "PICKUP_POTION \<equiv> 0x8"
abbreviation (input) PICKUP_GOLD :: u32 where "PICKUP_GOLD \<equiv> 0x9"
abbreviation (input) PICKUP_AMMO :: u32 where "PICKUP_AMMO \<equiv> 0xA"
abbreviation (input) PICKUP_SPELLBOOK :: u32 where "PICKUP_SPELLBOOK \<equiv> 0xB"
abbreviation (input) PICKUP_ABILITYBOOK :: u32 where "PICKUP_ABILITYBOOK \<equiv> 0xC"
abbreviation (input) PICKUP_CROWN :: u32 where "PICKUP_CROWN \<equiv> 0xD"
abbreviation (input) PICKUP_AUDEVENT :: u32 where "PICKUP_AUDEVENT \<equiv> 0xE"
abbreviation (input) PICKUP_ANKHTRADEABLE :: u32 where "PICKUP_ANKHTRADEABLE \<equiv> 0xF"

section \<open>\<open>NoxUpdateType\<close> (\<open>NoxThinglib.h\<close>): update behaviours\<close>

abbreviation (input) UPDATE_NONE :: u32 where "UPDATE_NONE \<equiv> 0x0"
abbreviation (input) UPDATE_PLAYER :: u32 where "UPDATE_PLAYER \<equiv> 0x1"
abbreviation (input) UPDATE_PROJECTILE :: u32 where "UPDATE_PROJECTILE \<equiv> 0x2"
abbreviation (input) UPDATE_HOMINGPROJECTILE :: u32 where "UPDATE_HOMINGPROJECTILE \<equiv> 0x3"
abbreviation (input) UPDATE_SPELLPROJECTILE :: u32 where "UPDATE_SPELLPROJECTILE \<equiv> 0x4"
abbreviation (input) UPDATE_ANTISPELLPROJECTILE :: u32 where "UPDATE_ANTISPELLPROJECTILE \<equiv> 0x5"
abbreviation (input) UPDATE_DOOR :: u32 where "UPDATE_DOOR \<equiv> 0x6"
abbreviation (input) UPDATE_SPARK :: u32 where "UPDATE_SPARK \<equiv> 0x7"
abbreviation (input) UPDATE_PROJECTILETRAIL :: u32 where "UPDATE_PROJECTILETRAIL \<equiv> 0x8"
abbreviation (input) UPDATE_PUSH :: u32 where "UPDATE_PUSH \<equiv> 0x9"
abbreviation (input) UPDATE_TRIGGER :: u32 where "UPDATE_TRIGGER \<equiv> 0xA"
abbreviation (input) UPDATE_TOGGLE :: u32 where "UPDATE_TOGGLE \<equiv> 0xB"
abbreviation (input) UPDATE_MONSTER :: u32 where "UPDATE_MONSTER \<equiv> 0xC"
abbreviation (input) UPDATE_LOOPANDDAMAGE :: u32 where "UPDATE_LOOPANDDAMAGE \<equiv> 0xD"
abbreviation (input) UPDATE_ELEVATOR :: u32 where "UPDATE_ELEVATOR \<equiv> 0xE"
abbreviation (input) UPDATE_ELEVATORSHAFT :: u32 where "UPDATE_ELEVATORSHAFT \<equiv> 0xF"
abbreviation (input) UPDATE_PHANTOMPLAYER :: u32 where "UPDATE_PHANTOMPLAYER \<equiv> 0x10"
abbreviation (input) UPDATE_OBELISK :: u32 where "UPDATE_OBELISK \<equiv> 0x11"
abbreviation (input) UPDATE_LIFETIME :: u32 where "UPDATE_LIFETIME \<equiv> 0x12"
abbreviation (input) UPDATE_MAGICMISSILE :: u32 where "UPDATE_MAGICMISSILE \<equiv> 0x13"
abbreviation (input) UPDATE_PIXIE :: u32 where "UPDATE_PIXIE \<equiv> 0x14"
abbreviation (input) UPDATE_SPIKEBLOCK :: u32 where "UPDATE_SPIKEBLOCK \<equiv> 0x15"
abbreviation (input) UPDATE_TOWER :: u32 where "UPDATE_TOWER \<equiv> 0x16"
abbreviation (input) UPDATE_SKULL :: u32 where "UPDATE_SKULL \<equiv> 0x17"
abbreviation (input) UPDATE_PENTAGRAM :: u32 where "UPDATE_PENTAGRAM \<equiv> 0x18"
abbreviation (input) UPDATE_INVISIBLEPENTAGRAM :: u32 where "UPDATE_INVISIBLEPENTAGRAM \<equiv> 0x19"
abbreviation (input) UPDATE_SWITCH :: u32 where "UPDATE_SWITCH \<equiv> 0x1A"
abbreviation (input) UPDATE_BLOW :: u32 where "UPDATE_BLOW \<equiv> 0x1B"
abbreviation (input) UPDATE_MOVER :: u32 where "UPDATE_MOVER \<equiv> 0x1C"
abbreviation (input) UPDATE_BLACKPOWDERBARREL :: u32 where "UPDATE_BLACKPOWDERBARREL \<equiv> 0x1D"
abbreviation (input) UPDATE_ONESECONDDIE :: u32 where "UPDATE_ONESECONDDIE \<equiv> 0x1E"
abbreviation (input) UPDATE_WATERBARREL :: u32 where "UPDATE_WATERBARREL \<equiv> 0x1F"
abbreviation (input) UPDATE_SELFDESTRUCT :: u32 where "UPDATE_SELFDESTRUCT \<equiv> 0x20"
abbreviation (input) UPDATE_BLACKPOWDERBURN :: u32 where "UPDATE_BLACKPOWDERBURN \<equiv> 0x21"
abbreviation (input) UPDATE_DEATHBALL :: u32 where "UPDATE_DEATHBALL \<equiv> 0x22"
abbreviation (input) UPDATE_DEATHBALLFRAGMENT :: u32 where "UPDATE_DEATHBALLFRAGMENT \<equiv> 0x23"
abbreviation (input) UPDATE_MOONGLOW :: u32 where "UPDATE_MOONGLOW \<equiv> 0x24"
abbreviation (input) UPDATE_SENTRYGLOBE :: u32 where "UPDATE_SENTRYGLOBE \<equiv> 0x25"
abbreviation (input) UPDATE_TELEKINESIS :: u32 where "UPDATE_TELEKINESIS \<equiv> 0x26"
abbreviation (input) UPDATE_FIST :: u32 where "UPDATE_FIST \<equiv> 0x27"
abbreviation (input) UPDATE_METEORSHOWER :: u32 where "UPDATE_METEORSHOWER \<equiv> 0x28"
abbreviation (input) UPDATE_METEOR :: u32 where "UPDATE_METEOR \<equiv> 0x29"
abbreviation (input) UPDATE_TOXICCLOUD :: u32 where "UPDATE_TOXICCLOUD \<equiv> 0x2A"
abbreviation (input) UPDATE_SMALLTOXICCLOUD :: u32 where "UPDATE_SMALLTOXICCLOUD \<equiv> 0x2B"
abbreviation (input) UPDATE_ARACHNAPHOBIA :: u32 where "UPDATE_ARACHNAPHOBIA \<equiv> 0x2C"
abbreviation (input) UPDATE_EXPIRE :: u32 where "UPDATE_EXPIRE \<equiv> 0x2D"
abbreviation (input) UPDATE_BREAK :: u32 where "UPDATE_BREAK \<equiv> 0x2E"
abbreviation (input) UPDATE_OPEN :: u32 where "UPDATE_OPEN \<equiv> 0x2F"
abbreviation (input) UPDATE_BREAKANDREMOVE :: u32 where "UPDATE_BREAKANDREMOVE \<equiv> 0x30"
abbreviation (input) UPDATE_CHAKRAMINMOTION :: u32 where "UPDATE_CHAKRAMINMOTION \<equiv> 0x31"
abbreviation (input) UPDATE_FLAG :: u32 where "UPDATE_FLAG \<equiv> 0x32"
abbreviation (input) UPDATE_TRAPDOOR :: u32 where "UPDATE_TRAPDOOR \<equiv> 0x33"
abbreviation (input) UPDATE_BALL :: u32 where "UPDATE_BALL \<equiv> 0x34"
abbreviation (input) UPDATE_CROWN :: u32 where "UPDATE_CROWN \<equiv> 0x35"
abbreviation (input) UPDATE_UNDEADKILLER :: u32 where "UPDATE_UNDEADKILLER \<equiv> 0x36"
abbreviation (input) UPDATE_HARPOON :: u32 where "UPDATE_HARPOON \<equiv> 0x37"
abbreviation (input) UPDATE_WEAPONARMOR :: u32 where "UPDATE_WEAPONARMOR \<equiv> 0x38"
abbreviation (input) UPDATE_MONSTERGENERATOR :: u32 where "UPDATE_MONSTERGENERATOR \<equiv> 0x39"

section \<open>\<open>NoxUseType\<close> (\<open>NoxThinglib.h\<close>): use behaviours\<close>

abbreviation (input) USE_CONSUME :: u32 where "USE_CONSUME \<equiv> 0x0"
abbreviation (input) USE_CONSUMECONFUSE :: u32 where "USE_CONSUMECONFUSE \<equiv> 0x1"
abbreviation (input) USE_FIREWAND :: u32 where "USE_FIREWAND \<equiv> 0x2"
abbreviation (input) USE_CAST :: u32 where "USE_CAST \<equiv> 0x3"
abbreviation (input) USE_ENCHANT :: u32 where "USE_ENCHANT \<equiv> 0x4"
abbreviation (input) USE_MUSHROOM :: u32 where "USE_MUSHROOM \<equiv> 0x5"
abbreviation (input) USE_READ :: u32 where "USE_READ \<equiv> 0x6"
abbreviation (input) USE_WARPREAD :: u32 where "USE_WARPREAD \<equiv> 0x7"
abbreviation (input) USE_WAND :: u32 where "USE_WAND \<equiv> 0x8"
abbreviation (input) USE_WANDCAST :: u32 where "USE_WANDCAST \<equiv> 0x9"
abbreviation (input) USE_SPELLREWARD :: u32 where "USE_SPELLREWARD \<equiv> 0xA"
abbreviation (input) USE_ABILITYREWARD :: u32 where "USE_ABILITYREWARD \<equiv> 0xB"
abbreviation (input) USE_FIELDGUIDE :: u32 where "USE_FIELDGUIDE \<equiv> 0xC"
abbreviation (input) USE_POTION :: u32 where "USE_POTION \<equiv> 0xD"
abbreviation (input) USE_AMMO :: u32 where "USE_AMMO \<equiv> 0xE"
abbreviation (input) USE_BOW :: u32 where "USE_BOW \<equiv> 0xF"

section \<open>\<open>NoxXferType\<close> (\<open>NoxThinglib.h\<close>): map object formats\<close>

abbreviation (input) XFER_DEFAULT :: u32 where "XFER_DEFAULT \<equiv> 0x0"
abbreviation (input) XFER_SPELLPAGEPEDESTAL :: u32 where "XFER_SPELLPAGEPEDESTAL \<equiv> 0x1"
abbreviation (input) XFER_SPELLREWARD :: u32 where "XFER_SPELLREWARD \<equiv> 0x2"
abbreviation (input) XFER_ABILITYREWARD :: u32 where "XFER_ABILITYREWARD \<equiv> 0x3"
abbreviation (input) XFER_FIELDGUIDE :: u32 where "XFER_FIELDGUIDE \<equiv> 0x4"
abbreviation (input) XFER_READABLE :: u32 where "XFER_READABLE \<equiv> 0x5"
abbreviation (input) XFER_EXIT :: u32 where "XFER_EXIT \<equiv> 0x6"
abbreviation (input) XFER_DOOR :: u32 where "XFER_DOOR \<equiv> 0x7"
abbreviation (input) XFER_TRIGGER :: u32 where "XFER_TRIGGER \<equiv> 0x8"
abbreviation (input) XFER_MONSTER :: u32 where "XFER_MONSTER \<equiv> 0x9"
abbreviation (input) XFER_HOLE :: u32 where "XFER_HOLE \<equiv> 0xA"
abbreviation (input) XFER_TRANSPORTER :: u32 where "XFER_TRANSPORTER \<equiv> 0xB"
abbreviation (input) XFER_ELEVATOR :: u32 where "XFER_ELEVATOR \<equiv> 0xC"
abbreviation (input) XFER_ELEVATORSHAFT :: u32 where "XFER_ELEVATORSHAFT \<equiv> 0xD"
abbreviation (input) XFER_MOVER :: u32 where "XFER_MOVER \<equiv> 0xE"
abbreviation (input) XFER_GLYPH :: u32 where "XFER_GLYPH \<equiv> 0xF"
abbreviation (input) XFER_INVISIBLELIGHT :: u32 where "XFER_INVISIBLELIGHT \<equiv> 0x10"
abbreviation (input) XFER_SENTRY :: u32 where "XFER_SENTRY \<equiv> 0x11"
abbreviation (input) XFER_WEAPON :: u32 where "XFER_WEAPON \<equiv> 0x12"
abbreviation (input) XFER_ARMOR :: u32 where "XFER_ARMOR \<equiv> 0x13"
abbreviation (input) XFER_TEAM :: u32 where "XFER_TEAM \<equiv> 0x14"
abbreviation (input) XFER_GOLD :: u32 where "XFER_GOLD \<equiv> 0x15"
abbreviation (input) XFER_AMMO :: u32 where "XFER_AMMO \<equiv> 0x16"
abbreviation (input) XFER_NPC :: u32 where "XFER_NPC \<equiv> 0x17"
abbreviation (input) XFER_OBELISK :: u32 where "XFER_OBELISK \<equiv> 0x18"
abbreviation (input) XFER_TOXICCLOUD :: u32 where "XFER_TOXICCLOUD \<equiv> 0x19"
abbreviation (input) XFER_MONSTERGENERATOR :: u32 where "XFER_MONSTERGENERATOR \<equiv> 0x1A"
abbreviation (input) XFER_REWARDMARKER :: u32 where "XFER_REWARDMARKER \<equiv> 0x1B"

section \<open>\<open>NoxExtentShapeType\<close> (\<open>NoxThinglib.h\<close>): shapes of an object type\<close>

abbreviation (input) EXTENT_BOX :: u8 where "EXTENT_BOX \<equiv> 0x0"
abbreviation (input) EXTENT_CIRCLE :: u8 where "EXTENT_CIRCLE \<equiv> 0x1"
abbreviation (input) EXTENT_CENTER :: u8 where "EXTENT_CENTER \<equiv> 0x2"

section \<open>\<open>NoxWallFacingType\<close> (\<open>NoxMap.h\<close>): wall facings\<close>

abbreviation (input) WALL_NORTH :: u8 where "WALL_NORTH \<equiv> 0x0"
abbreviation (input) WALL_WEST :: u8 where "WALL_WEST \<equiv> 0x1"
abbreviation (input) WALL_CROSS :: u8 where "WALL_CROSS \<equiv> 0x2"
abbreviation (input) WALL_SOUTH_T :: u8 where "WALL_SOUTH_T \<equiv> 0x3"
abbreviation (input) WALL_EAST_T :: u8 where "WALL_EAST_T \<equiv> 0x4"
abbreviation (input) WALL_NORTH_T :: u8 where "WALL_NORTH_T \<equiv> 0x5"
abbreviation (input) WALL_WEST_T :: u8 where "WALL_WEST_T \<equiv> 0x6"
abbreviation (input) WALL_SW_CORNER :: u8 where "WALL_SW_CORNER \<equiv> 0x7"
abbreviation (input) WALL_NW_CORNER :: u8 where "WALL_NW_CORNER \<equiv> 0x8"
abbreviation (input) WALL_NE_CORNER :: u8 where "WALL_NE_CORNER \<equiv> 0x9"
abbreviation (input) WALL_SE_CORNER :: u8 where "WALL_SE_CORNER \<equiv> 0xA"

section \<open>\<open>Sounds\<close> (\<open>SharedDefines.h\<close>): the sounds the code plays\<close>

abbreviation (input) SOUND_ANCHORON :: u16 where "SOUND_ANCHORON \<equiv> 0x2"
abbreviation (input) SOUND_ANCHOROFF :: u16 where "SOUND_ANCHOROFF \<equiv> 0x3"
abbreviation (input) SOUND_BLINDON :: u16 where "SOUND_BLINDON \<equiv> 0x5"
abbreviation (input) SOUND_BLINDOFF :: u16 where "SOUND_BLINDOFF \<equiv> 0x6"
abbreviation (input) SOUND_CONFUSEON :: u16 where "SOUND_CONFUSEON \<equiv> 0x12"
abbreviation (input) SOUND_CONFUSEOFF :: u16 where "SOUND_CONFUSEOFF \<equiv> 0x13"
abbreviation (input) SOUND_CUREPOISONEFFECT :: u16 where "SOUND_CUREPOISONEFFECT \<equiv> 0x16"
abbreviation (input) SOUND_DEATHRAYCAST :: u16 where "SOUND_DEATHRAYCAST \<equiv> 0x1B"
abbreviation (input) SOUND_FORCEFIELDCAST :: u16 where "SOUND_FORCEFIELDCAST \<equiv> 0x31"
abbreviation (input) SOUND_HASTEON :: u16 where "SOUND_HASTEON \<equiv> 0x3B"
abbreviation (input) SOUND_HASTEOFF :: u16 where "SOUND_HASTEOFF \<equiv> 0x3C"
abbreviation (input) SOUND_INVISIBILITYON :: u16 where "SOUND_INVISIBILITYON \<equiv> 0x42"
abbreviation (input) SOUND_INVISIBILITYOFF :: u16 where "SOUND_INVISIBILITYOFF \<equiv> 0x43"
abbreviation (input) SOUND_LESSERHEALEFFECT :: u16 where "SOUND_LESSERHEALEFFECT \<equiv> 0x49"
abbreviation (input) SOUND_LIGHTON :: u16 where "SOUND_LIGHTON \<equiv> 0x4B"
abbreviation (input) SOUND_LIGHTOFF :: u16 where "SOUND_LIGHTOFF \<equiv> 0x4C"
abbreviation (input) SOUND_MOONGLOWON :: u16 where "SOUND_MOONGLOWON \<equiv> 0x59"
abbreviation (input) SOUND_MOONGLOWOFF :: u16 where "SOUND_MOONGLOWOFF \<equiv> 0x5A"
abbreviation (input) SOUND_PROTECTIONFROMFIREON :: u16 where "SOUND_PROTECTIONFROMFIREON \<equiv> 0x66"
abbreviation (input) SOUND_PROTECTIONFROMFIREOFF :: u16 where "SOUND_PROTECTIONFROMFIREOFF \<equiv> 0x67"
abbreviation (input) SOUND_PROTECTIONFROMELECTRICITYON :: u16 where "SOUND_PROTECTIONFROMELECTRICITYON \<equiv> 0x6A"
abbreviation (input) SOUND_PROTECTIONFROMELECTRICITYOFF :: u16 where "SOUND_PROTECTIONFROMELECTRICITYOFF \<equiv> 0x6B"
abbreviation (input) SOUND_PROTECTIONFROMPOISONON :: u16 where "SOUND_PROTECTIONFROMPOISONON \<equiv> 0x6E"
abbreviation (input) SOUND_PROTECTIONFROMPOISONOFF :: u16 where "SOUND_PROTECTIONFROMPOISONOFF \<equiv> 0x6F"
abbreviation (input) SOUND_PROTECTIONFROMMAGICON :: u16 where "SOUND_PROTECTIONFROMMAGICON \<equiv> 0x72"
abbreviation (input) SOUND_PROTECTIONFROMMAGICOFF :: u16 where "SOUND_PROTECTIONFROMMAGICOFF \<equiv> 0x73"
abbreviation (input) SOUND_RUNON :: u16 where "SOUND_RUNON \<equiv> 0x7E"
abbreviation (input) SOUND_RUNOFF :: u16 where "SOUND_RUNOFF \<equiv> 0x7F"
abbreviation (input) SOUND_SHIELDOFF :: u16 where "SOUND_SHIELDOFF \<equiv> 0x82"
abbreviation (input) SOUND_SHOCKON :: u16 where "SOUND_SHOCKON \<equiv> 0x85"
abbreviation (input) SOUND_SHOCKOFF :: u16 where "SOUND_SHOCKOFF \<equiv> 0x86"
abbreviation (input) SOUND_SHOCKED :: u16 where "SOUND_SHOCKED \<equiv> 0x87"
abbreviation (input) SOUND_SLOWON :: u16 where "SOUND_SLOWON \<equiv> 0x89"
abbreviation (input) SOUND_SLOWOFF :: u16 where "SOUND_SLOWOFF \<equiv> 0x8A"
abbreviation (input) SOUND_STUNON :: u16 where "SOUND_STUNON \<equiv> 0x8C"
abbreviation (input) SOUND_STUNOFF :: u16 where "SOUND_STUNOFF \<equiv> 0x8D"
abbreviation (input) SOUND_VAMPIRISMON :: u16 where "SOUND_VAMPIRISMON \<equiv> 0xA1"
abbreviation (input) SOUND_VAMPIRISMOFF :: u16 where "SOUND_VAMPIRISMOFF \<equiv> 0xA2"
abbreviation (input) SOUND_BERSERKERCHARGEINVOKE :: u16 where "SOUND_BERSERKERCHARGEINVOKE \<equiv> 0xAA"
abbreviation (input) SOUND_BERSERKERCRASH :: u16 where "SOUND_BERSERKERCRASH \<equiv> 0xAB"
abbreviation (input) SOUND_BERSERKERCHARGEON :: u16 where "SOUND_BERSERKERCHARGEON \<equiv> 0xAC"
abbreviation (input) SOUND_BERSERKERCHARGEOFF :: u16 where "SOUND_BERSERKERCHARGEOFF \<equiv> 0xAD"
abbreviation (input) SOUND_WARCRYINVOKE :: u16 where "SOUND_WARCRYINVOKE \<equiv> 0xAE"
abbreviation (input) SOUND_WARCRYON :: u16 where "SOUND_WARCRYON \<equiv> 0xAF"
abbreviation (input) SOUND_TREADLIGHTLYINVOKE :: u16 where "SOUND_TREADLIGHTLYINVOKE \<equiv> 0xB4"
abbreviation (input) SOUND_TREADLIGHTLYON :: u16 where "SOUND_TREADLIGHTLYON \<equiv> 0xB5"
abbreviation (input) SOUND_EYEOFTHEWOLFINVOKE :: u16 where "SOUND_EYEOFTHEWOLFINVOKE \<equiv> 0xB7"
abbreviation (input) SOUND_BLUEFIREDAMAGE :: u16 where "SOUND_BLUEFIREDAMAGE \<equiv> 0xE4"
abbreviation (input) SOUND_PERMANENTFIZZLE :: u16 where "SOUND_PERMANENTFIZZLE \<equiv> 0xE7"
abbreviation (input) SOUND_MANAEMPTY :: u16 where "SOUND_MANAEMPTY \<equiv> 0xE8"
abbreviation (input) SOUND_TAUNTLAUGH :: u16 where "SOUND_TAUNTLAUGH \<equiv> 0x12C"
abbreviation (input) SOUND_TAUNTSHAKEFIST :: u16 where "SOUND_TAUNTSHAKEFIST \<equiv> 0x12D"
abbreviation (input) SOUND_TAUNTPOINT :: u16 where "SOUND_TAUNTPOINT \<equiv> 0x12E"
abbreviation (input) SOUND_TROLLFLATUS :: u16 where "SOUND_TROLLFLATUS \<equiv> 0x284"
abbreviation (input) SOUND_POTIONUSE :: u16 where "SOUND_POTIONUSE \<equiv> 0x2F0"
abbreviation (input) SOUND_RESTOREHEALTH :: u16 where "SOUND_RESTOREHEALTH \<equiv> 0x2F2"
abbreviation (input) SOUND_RESTOREMANA :: u16 where "SOUND_RESTOREMANA \<equiv> 0x2F3"

end
