(* ===== verification/Game_State.thy ===== *)
theory Game_State
  imports Complex_Main Session_Out Game_Enums Util_Funcs
begin

text \<open>
  The state of the running server and the steps over it.

  Objects, units, players and sessions live on heaps indexed by addresses; a pointer is a
  \<open>nat option\<close>. The C++ classes \<open>Object\<close>, \<open>WorldObject\<close>, \<open>Unit\<close> and \<open>Player\<close> extend each other: an
  address has an entry in \<open>sv_objects\<close> for the fields of \<open>Object\<close> and \<open>WorldObject\<close>, one in \<open>sv_units\<close>
  if it is a \<open>Unit\<close> and one in \<open>sv_players\<close> if it is a \<open>Player\<close>. Containers ordered by address
  (\<open>std::set<Object*>\<close>) are lists of addresses in ascending order, hash maps are association lists.

  A step is a function \<open>server \<Rightarrow> ('a \<times> server) res\<close>; \<open>gbind\<close> sequences steps. What the code takes
  from outside (the object types of \<open>thing.bin\<close>, the game configuration, the clock, the map file, the
  trigonometry of the C library, the platform's conversion of a NaN to \<open>int\<close>) is the record \<open>env\<close>, an
  argument of the steps.

  Health and mana are \<open>float\<close> in the code and rational numbers here (rounding is not modelled). The
  position of a body is kept by the physics library; here it is the pair \<open>GetPosition\<close> reads.
\<close>

section \<open>The environment\<close>

record thing_info =
  th_Name :: string
  th_flags :: u32
  th_classes :: u32
  th_subclass :: u32
  th_collide :: u32
  th_update :: u32
  th_pickup :: u32
  th_use :: u32
  th_xfer :: u32
  th_use_args :: "string list"
  th_collide_args :: "string list"

record map_file =
  mf_checksum :: u32
  mf_nxz :: "bytes option"
  mf_nxzname :: bytes

record env =
  e_things :: "thing_info list"
  e_config :: "string \<Rightarrow> rat option"
  e_time :: int
  e_drop_offset :: "u8 \<Rightarrow> u32 \<Rightarrow> u32 \<times> u32"
  e_nan :: int
  e_map :: map_file

definition GetFloatDefault :: "env \<Rightarrow> string \<Rightarrow> rat \<Rightarrow> rat" where
  "GetFloatDefault E name def = (case e_config E name of Some v \<Rightarrow> v | None \<Rightarrow> def)"

section \<open>Objects\<close>

datatype object_kind = KObject | KWorldObject | KPlayer | KMagic u8 nat bool | KWall

text \<open>The last velocity handed to the physics library: none, or a direction and a speed.\<close>

type_synonym velocity = "(int \<times> int \<times> rat) option"

record nox_object =
  ob_kind :: object_kind
  ob_extent :: u16
  ob_type :: u16
  ob_center :: grid_pair
  ob_cmask :: u32
  ob_velocity :: velocity
  ob_max_health :: rat
  ob_health :: rat
  ob_delta_health :: rat
  ob_combined_health :: rat
  ob_max_mana :: rat
  ob_mana :: rat
  ob_update_timer :: u32
  ob_inventory :: "nat list"
  ob_flags :: u32
  ob_props1 :: u16
  ob_props2 :: u16
  ob_worth :: u32
  wo_updateMask :: u32
  wo_teamId :: u8

record nox_unit =
  un_action :: u8
  un_action_time :: int
  un_animFrames :: int
  un_animTimer :: int
  un_poison :: u8
  un_poisoncycle :: rat
  un_poisoner :: u16
  un_weight :: u16
  un_speed :: u16
  un_max_speed :: u16
  un_strength :: u16
  un_angle :: u8
  un_auras :: u32
  un_aura_times :: "int list"
  un_equipment :: "nat option list"

text \<open>\<open>struct PlayerInfo\<close>, 0x7E bytes in memory: the three bytes of \<open>pi_unk4\<close>'s padding included.\<close>

record player_info =
  pi_name :: bytes
  pi_pclass :: u8
  pi_unk3 :: u8
  pi_info :: bytes
  pi_unk0 :: u8
  pi_unk1 :: bytes
  pi_unk4 :: u8
  pi_pad :: u8
  pi_unk2 :: u32
  pi_username :: bytes
  pi_flag :: u8

record nox_player =
  pl_info :: player_info
  pl_session :: nat
  pl_updateAll :: bool
  pl_oldposition :: grid_pair
  pl_treadposition :: grid_pair
  pl_ability_delays :: "u16 list"
  pl_updateQueue :: "nat list"

section \<open>The server\<close>

record server =
  sv_objects :: "nat \<rightharpoonup> nox_object"
  sv_units :: "nat \<rightharpoonup> nox_unit"
  sv_players :: "nat \<rightharpoonup> nox_player"
  sv_sessions :: "nat \<rightharpoonup> session"
  sv_next :: nat
  om_objectTable :: "nat list"
  om_objectExtents :: "u16 \<Rightarrow> nat option"
  om_playerList :: "nat list"
  oa_players :: "(u16 \<times> nat) list"
  oa_objects :: "nat list"
  oa_objectsToRemove :: "nat list"
  ws_sendQueue :: "world_packet list"
  ws_sessions :: "(u64 \<times> u32) list"
  ws_closeAndDelete :: bool
  w_sessions :: "(u32 \<times> nat option) list"
  w_maxSessionsCount :: u32
  w_freeids :: "u8 list"
  w_kicked :: "nat list"

type_synonym 'a game = "server \<Rightarrow> ('a \<times> server) res"

section \<open>Steps\<close>

definition gret :: "'a \<Rightarrow> 'a game" where
  "gret x s = Inr (x, s)"

definition gfail :: "fault \<Rightarrow> 'a game" where
  "gfail e s = Inl e"

definition gbind :: "'a game \<Rightarrow> ('a \<Rightarrow> 'b game) \<Rightarrow> 'b game" where
  "gbind m f s = rbind (m s) (\<lambda>(x, s). f x s)"

definition gthen :: "'a game \<Rightarrow> 'b game \<Rightarrow> 'b game" where
  "gthen m n = gbind m (\<lambda>_. n)"

text \<open>A block of statements.\<close>

primrec gseq :: "unit game list \<Rightarrow> unit game" where
  "gseq [] = gret ()"
| "gseq (m # ms) = gthen m (gseq ms)"

primrec gfor :: "'a list \<Rightarrow> ('a \<Rightarrow> unit game) \<Rightarrow> unit game" where
  "gfor [] f = gret ()"
| "gfor (x # xs) f = gthen (f x) (gfor xs f)"

definition gwhen :: "bool \<Rightarrow> unit game \<Rightarrow> unit game" where
  "gwhen c m = (if c then m else gret ())"

definition gvoid :: "'a game \<Rightarrow> unit game" where
  "gvoid m = gthen m (gret ())"

definition gget :: "(server \<Rightarrow> 'a) \<Rightarrow> 'a game" where
  "gget f s = Inr (f s, s)"

definition gmod :: "(server \<Rightarrow> server) \<Rightarrow> unit game" where
  "gmod f s = Inr ((), f s)"

definition glift :: "'a res \<Rightarrow> 'a game" where
  "glift m s = rmap (\<lambda>x. (x, s)) m"

named_theorems step_simps \<open>evaluation of steps\<close>

lemmas step_defs [step_simps] =
  gret_def gfail_def gbind_def gthen_def gwhen_def gvoid_def gget_def gmod_def glift_def

lemma gbind_Inr_iff: "gbind m f s = Inr (y, s'') \<longleftrightarrow> (\<exists>x s'. m s = Inr (x, s') \<and> f x s' = Inr (y, s''))"
  by (auto simp: gbind_def rbind_Inr_iff)

lemma gthen_Inr_iff: "gthen m n s = Inr (y, s'') \<longleftrightarrow> (\<exists>x s'. m s = Inr (x, s') \<and> n s' = Inr (y, s''))"
  by (simp add: gthen_def gbind_Inr_iff)

lemma gret_Inr_iff [simp]: "gret x s = Inr (y, s') \<longleftrightarrow> y = x \<and> s' = s"
  by (auto simp: gret_def)

section \<open>The heaps\<close>

definition get_object :: "nat \<Rightarrow> nox_object game" where
  "get_object a s = (case sv_objects s a of None \<Rightarrow> Inl Dangling | Some x \<Rightarrow> Inr (x, s))"

definition get_unit :: "nat \<Rightarrow> nox_unit game" where
  "get_unit a s = (case sv_units s a of None \<Rightarrow> Inl Dangling | Some x \<Rightarrow> Inr (x, s))"

definition get_player :: "nat \<Rightarrow> nox_player game" where
  "get_player a s = (case sv_players s a of None \<Rightarrow> Inl Dangling | Some x \<Rightarrow> Inr (x, s))"

definition get_session :: "nat \<Rightarrow> session game" where
  "get_session a s = (case sv_sessions s a of None \<Rightarrow> Inl Dangling | Some x \<Rightarrow> Inr (x, s))"

definition upd_object :: "nat \<Rightarrow> (nox_object \<Rightarrow> nox_object) \<Rightarrow> unit game" where
  "upd_object a f = gbind (get_object a) (\<lambda>x. gmod (\<lambda>s. s\<lparr>sv_objects := (sv_objects s)(a \<mapsto> f x)\<rparr>))"

definition upd_unit :: "nat \<Rightarrow> (nox_unit \<Rightarrow> nox_unit) \<Rightarrow> unit game" where
  "upd_unit a f = gbind (get_unit a) (\<lambda>x. gmod (\<lambda>s. s\<lparr>sv_units := (sv_units s)(a \<mapsto> f x)\<rparr>))"

definition upd_player :: "nat \<Rightarrow> (nox_player \<Rightarrow> nox_player) \<Rightarrow> unit game" where
  "upd_player a f = gbind (get_player a) (\<lambda>x. gmod (\<lambda>s. s\<lparr>sv_players := (sv_players s)(a \<mapsto> f x)\<rparr>))"

definition upd_session :: "nat \<Rightarrow> (session \<Rightarrow> session) \<Rightarrow> unit game" where
  "upd_session a f = gbind (get_session a) (\<lambda>x. gmod (\<lambda>s. s\<lparr>sv_sessions := (sv_sessions s)(a \<mapsto> f x)\<rparr>))"

definition deref :: "'a option \<Rightarrow> 'a game" where
  "deref p = (case p of None \<Rightarrow> gfail NullDeref | Some a \<Rightarrow> gret a)"

definition new_address :: "nat game" where
  "new_address s = Inr (sv_next s, s\<lparr>sv_next := sv_next s + 1\<rparr>)"

text \<open>Ordered sets of addresses.\<close>

definition set_add :: "'a::linorder \<Rightarrow> 'a list \<Rightarrow> 'a list" where
  "set_add x xs = (if x \<in> set xs then xs else insort x xs)"

definition set_del :: "'a \<Rightarrow> 'a list \<Rightarrow> 'a list" where
  "set_del x xs = filter (\<lambda>y. y \<noteq> x) xs"

text \<open>Maps as association lists: an assignment through \<open>operator[]\<close> and an erasure.\<close>

fun map_put :: "'k \<Rightarrow> 'v \<Rightarrow> ('k \<times> 'v) list \<Rightarrow> ('k \<times> 'v) list" where
  "map_put k v [] = [(k, v)]"
| "map_put k v ((k', v') # m) = (if k' = k then (k, v) # m else (k', v') # map_put k v m)"

definition map_del :: "'k \<Rightarrow> ('k \<times> 'v) list \<Rightarrow> ('k \<times> 'v) list" where
  "map_del k m = filter (\<lambda>(k', v). k' \<noteq> k) m"

lemma set_set_add [simp]: "set (set_add x xs) = insert x (set xs)"
  by (auto simp: set_add_def set_insort_key)

lemma set_set_del [simp]: "set (set_del x xs) = set xs - {x}"
  by (auto simp: set_del_def)

lemma sorted_set_add: "sorted xs \<Longrightarrow> sorted (set_add x xs)"
  by (simp add: set_add_def sorted_insort)

lemma distinct_set_add: "distinct xs \<Longrightarrow> distinct (set_add x xs)"
  by (simp add: set_add_def distinct_insort)

lemma sorted_distinct_set_del:
  "sorted xs \<Longrightarrow> sorted (set_del x xs)" "distinct xs \<Longrightarrow> distinct (set_del x xs)"
  by (simp_all add: set_del_def sorted_wrt_filter)

lemma map_of_map_put [simp]: "map_of (map_put k v m) = (map_of m)(k \<mapsto> v)"
  by (induction k v m rule: map_put.induct) (auto simp: fun_eq_iff)

lemma map_of_map_del [simp]: "map_of (map_del k m) = (map_of m)(k := None)"
  by (induction m) (auto simp: map_del_def fun_eq_iff)

lemma keys_map_put: "fst ` set (map_put k v m) = insert k (fst ` set m)"
  by (induction k v m rule: map_put.induct) auto

lemma distinct_map_put: "distinct (map fst m) \<Longrightarrow> distinct (map fst (map_put k v m))"
  by (induction k v m rule: map_put.induct) (auto simp: keys_map_put)

lemma distinct_map_del: "distinct (map fst m) \<Longrightarrow> distinct (map fst (map_del k m))"
  by (induction m) (auto simp: map_del_def)

text \<open>Sending from a session: the packet may get the session's \<open>unk\<close>, which the caller sees.\<close>

definition session_send :: "nat \<Rightarrow> world_packet \<Rightarrow> bool \<Rightarrow> bool \<Rightarrow> world_packet game" where
  "session_send a packet ifReady changeUnk =
     gbind (get_session a) (\<lambda>ss.
     gbind (glift (SendPacket packet ifReady changeUnk ss)) (\<lambda>(packet, out, ss).
     gthen (gmod (\<lambda>s. s\<lparr>sv_sessions := (sv_sessions s)(a \<mapsto> ss), ws_sendQueue := ws_sendQueue s @ out\<rparr>))
       (gret packet)))"

definition session_flush :: "nat \<Rightarrow> unit game" where
  "session_flush a =
     gbind (get_session a) (\<lambda>ss.
       let (out, ss) = flush_packet ss
       in gmod (\<lambda>s. s\<lparr>sv_sessions := (sv_sessions s)(a \<mapsto> ss), ws_sendQueue := ws_sendQueue s @ out\<rparr>))"

end
