(* ===== verification/World_Socket.thy ===== *)
theory World_Socket
  imports Game_State
begin

text \<open>
  The UDP endpoint: \<open>src/src/game/WorldSocket.{h,cpp}\<close> and the session table of \<open>World.{h,cpp}\<close>.

  \<open>OnRawData\<close> is what the socket library calls with a datagram and its source; the length field
  \<open>_remaining\<close> is a \<open>uint16\<close>. \<open>WorldSocket_Update\<close> empties the send queue into datagrams
  (address, port, bytes), which the library sends. Logging is left out. The server has one such socket;
  a session's \<open>_socket\<close> pointer is the flag \<open>ss_socket\<close>.
\<close>

section \<open>Addresses\<close>

definition IPtoClientAddr :: "u32 \<Rightarrow> u16 \<Rightarrow> u64" where
  "IPtoClientAddr x y = push_bit 32 (ucast y) OR ucast x"

definition ClientAddrtoIP :: "u64 \<Rightarrow> u32" where
  "ClientAddrtoIP x = ucast (x AND 0xFFFFFFFF)"

definition ClientAddrtoPort :: "u64 \<Rightarrow> u16" where
  "ClientAddrtoPort x = ucast (drop_bit 32 x)"

text \<open>The sessions of the socket are a \<open>std::map\<close>, ordered by address.\<close>

fun omap_put :: "'k::linorder \<Rightarrow> 'v \<Rightarrow> ('k \<times> 'v) list \<Rightarrow> ('k \<times> 'v) list" where
  "omap_put k v [] = [(k, v)]"
| "omap_put k v ((k', v') # m) =
     (if k' = k then (k, v) # m else if k < k' then (k, v) # (k', v') # m else (k', v') # omap_put k v m)"

lemma map_of_omap_put [simp]: "map_of (omap_put k v m) = (map_of m)(k \<mapsto> v)"
  by (induction k v m rule: omap_put.induct) (auto simp: fun_eq_iff)

section \<open>The session table of the world\<close>

definition initial_freeids :: "u8 list" where
  "initial_freeids = [1, 2, 3, 4, 5, 6, 7, 8, 9, 10, 11, 12, 13, 14, 15, 16, 17, 18, 19, 20, 21, 22, 23, 24,
     25, 26, 27, 28, 29, 30, 31]"

definition FindSession :: "u32 \<Rightarrow> nat option game" where
  "FindSession n = gget (\<lambda>s. case map_of (w_sessions s) n of Some p \<Rightarrow> p | None \<Rightarrow> None)"

definition AddSession :: "nat \<Rightarrow> unit game" where
  "AddSession a =
     gbind (get_session a) (\<lambda>ss.
     gmod (\<lambda>s. let m = map_put (ss_accountId ss) (Some a) (w_sessions s)
               in s\<lparr>w_sessions := m, w_maxSessionsCount := max (w_maxSessionsCount s) (of_nat (length m))\<rparr>))"

definition KickPlayer :: "nat \<Rightarrow> unit game" where
  "KickPlayer a =
     gbind (get_session a) (\<lambda>ss.
     gwhen (ss_socket ss)
       (gthen (gmod (\<lambda>s. s\<lparr>ws_closeAndDelete := True\<rparr>)) (upd_session a (\<lambda>ss. ss\<lparr>ss_socket := False\<rparr>))))"

definition RemoveSession :: "u32 \<Rightarrow> bool game" where
  "RemoveSession n =
     gbind (FindSession n) (\<lambda>p. case p of
       None \<Rightarrow> gret True
     | Some a \<Rightarrow> gbind (get_session a) (\<lambda>ss.
         if ss_playerLoading ss then gret False
         else gthen (KickPlayer a)
             (gthen (gmod (\<lambda>s. s\<lparr>w_kicked := set_add a (w_kicked s),
                                w_sessions := map_put n None (w_sessions s)\<rparr>))
               (gret True))))"

definition RequestFreeId :: "u8 game" where
  "RequestFreeId s =
     (case w_freeids s of [] \<Rightarrow> Inr (0xFF, s) | n # ids \<Rightarrow> Inr (n, s\<lparr>w_freeids := ids\<rparr>))"

definition ReturnFreeId :: "u8 \<Rightarrow> unit game" where
  "ReturnFreeId n = gmod (\<lambda>s. s\<lparr>w_freeids := set_add n (w_freeids s)\<rparr>)"

text \<open>The server when its socket is opened: the constructors of \<open>World\<close>, \<open>ObjectMgr\<close>, \<open>ObjectAccessor\<close>
  and \<open>WorldSocket\<close>.\<close>

definition new_server :: server where
  "new_server =
     \<lparr>sv_objects = Map.empty, sv_units = Map.empty, sv_players = Map.empty, sv_sessions = Map.empty,
      sv_next = 0, om_objectTable = [], om_objectExtents = Map.empty, om_playerList = [],
      oa_players = [], oa_objects = [], oa_objectsToRemove = [], ws_sendQueue = [], ws_sessions = [],
      ws_closeAndDelete = False, w_sessions = [], w_maxSessionsCount = 0, w_freeids = initial_freeids,
      w_kicked = []\<rparr>"

section \<open>Sending\<close>

definition CryptData :: "u8 \<Rightarrow> bytes \<Rightarrow> bytes" where
  "CryptData x data = (if x = 0 then data else map (\<lambda>b. b XOR x) data)"

definition socket_SendPacket :: "world_packet \<Rightarrow> unit game" where
  "socket_SendPacket packet = gmod (\<lambda>s. s\<lparr>ws_sendQueue := ws_sendQueue s @ [copy_packet packet]\<rparr>)"

type_synonym datagram = "u32 \<times> u16 \<times> bytes"

definition packet_datagram :: "world_packet \<Rightarrow> datagram" where
  "packet_datagram packet =
     (let hdr = [p_accountid packet, p_unk packet, p_opcode packet];
          buffer = hdr @ storage (p_buf packet);
          buffer = (if p_xor packet \<noteq> 0 then CryptData (p_xor packet) buffer else buffer)
      in (ClientAddrtoIP (p_client packet), ClientAddrtoPort (p_client packet), buffer))"

definition WorldSocket_Update :: "datagram list game" where
  "WorldSocket_Update s = Inr (map packet_datagram (ws_sendQueue s), s\<lparr>ws_sendQueue := []\<rparr>)"

section \<open>Receiving\<close>

text \<open>The packet made of a datagram of at least three bytes.\<close>

definition received_packet :: "bytes \<Rightarrow> u64 \<Rightarrow> world_packet" where
  "received_packet data client =
     (let remaining = unat (of_nat (length data - 3) :: u16);
          packet = SetUnk (data ! 1) (mk_packet (data ! 2) (data ! 0) client)
      in packet\<lparr>p_buf := (buf_resize remaining (p_buf packet))\<lparr>storage := take remaining (drop 3 data)\<rparr>\<rparr>)"

definition read_join :: "byte_buffer \<Rightarrow> (unit \<times> byte_buffer) res" where
  "read_join b =
     rbind (get_u8 b) (\<lambda>(zero1, b).
     rbind (read_block 24 b) (\<lambda>(name, b).
     rbind (read_block 28 b) (\<lambda>(data, b).
     rbind (read_block 22 b) (\<lambda>(serial, b).
     rbind (get_u16 b) (\<lambda>(zero2, b).
     rbind (get_u32 b) (\<lambda>(unknown1, b).
     rbind (get_u32 b) (\<lambda>(zero3, b).
     rbind (read_block 8 b) (\<lambda>(username, b).
     rbind (get_u32 b) (\<lambda>(unknown2, b). Inr ((), b))))))))))"

definition HandleJoin :: "world_packet \<Rightarrow> unit game" where
  "HandleJoin recvPacket =
     gbind (glift (read_join (p_buf recvPacket))) (\<lambda>_.
     gbind RequestFreeId (\<lambda>n.
     gbind new_address (\<lambda>a.
     gthen (gmod (\<lambda>s. s\<lparr>sv_sessions := (sv_sessions s)(a \<mapsto> (new_session (ucast n) 0)\<lparr>ss_client := p_client recvPacket\<rparr>)\<rparr>))
    (gthen (AddSession a)
    (gthen (gmod (\<lambda>s. s\<lparr>ws_sessions := omap_put (p_client recvPacket AND 0xFFFFFFFF) (ucast n) (ws_sessions s)\<rparr>))
    (socket_SendPacket (mk_packet 0x14 0 (p_client recvPacket))))))))"

definition read_ping :: "byte_buffer \<Rightarrow> (u32 \<times> byte_buffer) res" where
  "read_ping b =
     rbind (get_u8 b) (\<lambda>(u0, b).
     rbind (get_u8 b) (\<lambda>(u1, b).
     rbind (get_u8 b) (\<lambda>(u2, b).
     rbind (get_u8 b) (\<lambda>(u3, b).
     rbind (get_u8 b) (\<lambda>(u4, b).
     get_u32 b)))))"

definition pong_writes :: "u32 \<Rightarrow> (byte_buffer \<Rightarrow> byte_buffer res) list" where
  "pong_writes stamp =
     map put_u8 [0, 1, 0xF, 0xF, 0xFF, 0xFF, 0xFF] @
     [append_bytes [0x45, 0x73, 0x74, 0x61, 0x74, 0x65, 0, 0, 0]] @
     map put_u8 [0x1, 0x0, 0x0, 0x55, 0x0, 0x9A, 0x3, 0x1, 0x0, 0x7, 0x21, 0x3, 0x10,
       0xFF, 0xFF, 0xFF, 0xFF, 0xFF, 0xFF, 0xFF, 0xFF, 0xC0, 0x0, 0xD4, 0x0] @
     [put_u32 stamp] @
     map put_u8 [0xFF, 0xFF, 0xFF, 0xFF, 0xFF, 0xEF, 0xFF, 0xFF, 0xFF, 0xFF, 0xFF, 0xFF, 0xFF, 0xFF,
       0xFF, 0xFF, 0xFF, 0xFF, 0xFF, 0xFF, 0x84, 0x82, 0xD3, 0x01] @
     [append_bytes [0x54, 0x65, 0x73, 0x74], put_u8 0x0]"

definition HandleLANPing :: "world_packet \<Rightarrow> unit game" where
  "HandleLANPing recvPacket =
     gbind (glift (read_ping (p_buf recvPacket))) (\<lambda>(stamp, _).
     gbind (glift (pk_puts (pong_writes stamp) (mk_packet 0x0D 0 (p_client recvPacket)))) socket_SendPacket)"

text \<open>Which session a source belongs to: its own entry, or the entry of its address alone, which a join
  made and which this packet turns into an entry with its port.\<close>

definition find_source :: "u64 \<Rightarrow> nat option game" where
  "find_source client =
     gbind (gget ws_sessions) (\<lambda>sessions.
     case map_of sessions client of
       Some n \<Rightarrow> FindSession n
     | None \<Rightarrow> (case map_of sessions (client AND 0xFFFFFFFF) of
         Some n \<Rightarrow> gbind (FindSession n) (\<lambda>session.
           gthen (gmod (\<lambda>s. s\<lparr>ws_sessions := map_del (client AND 0xFFFFFFFF) (omap_put client n (ws_sessions s))\<rparr>))
          (gbind (deref session) (\<lambda>a.
           gthen (upd_session a (\<lambda>ss. ss\<lparr>ss_client := client\<rparr>)) (gret session))))
       | None \<Rightarrow> gret None))"

definition session_CryptData :: "nat \<Rightarrow> bytes \<Rightarrow> bytes game" where
  "session_CryptData a data =
     gbind (get_session a) (\<lambda>ss.
       if ss_xorKey ss = 0 then gret data
       else if \<not> ss_socket ss then gfail NullDeref
       else gret (CryptData (ss_xorKey ss) data))"

definition OnRawData :: "bytes \<Rightarrow> u32 \<Rightarrow> u16 \<Rightarrow> unit game" where
  "OnRawData data ip port =
     gbind (find_source (IPtoClientAddr ip port)) (\<lambda>session.
     gbind (case session of None \<Rightarrow> gret data | Some a \<Rightarrow> session_CryptData a data) (\<lambda>szBuffer.
     if length szBuffer < 3 then gret ()
     else let packet = received_packet szBuffer (IPtoClientAddr ip port)
          in if p_opcode packet = 0xC then HandleLANPing packet
             else if p_opcode packet = 0xE then HandleJoin packet
             else (case session of
                 Some a \<Rightarrow> upd_session a (QueuePacket packet)
               | None \<Rightarrow> gret ())))"

text \<open>When the library deletes the socket.\<close>

definition OnDelete :: "unit game" where
  "OnDelete =
     gbind (gget ws_sessions) (\<lambda>sessions.
     gfor sessions (\<lambda>(client, n).
       gbind (FindSession n) (\<lambda>p. case p of
         None \<Rightarrow> gret ()
       | Some a \<Rightarrow> gthen (upd_session a (\<lambda>ss. ss\<lparr>ss_socket := False\<rparr>)) (gvoid (RemoveSession n)))))"

section \<open>Datagrams\<close>

lemma xor_twice: "(b XOR x) XOR x = (b :: 'a::len word)"
  by (simp add: xor.assoc)

lemma CryptData_involution: "CryptData x (CryptData x data) = data"
  by (simp add: CryptData_def xor_twice o_def)

lemma CryptData_0 [simp]: "CryptData 0 data = data"
  by (simp add: CryptData_def)

lemma low_half: "x AND 0xFFFFFFFF = take_bit 32 (x :: u64)"
proof -
  have "(0xFFFFFFFF :: u64) = mask 32" by (simp add: mask_eq_exp_minus_1)
  then show ?thesis by (simp only: take_bit_eq_mask)
qed

lemma client_address:
  fixes c :: u64
  assumes "c < 2 ^ 48"
  shows "IPtoClientAddr (ClientAddrtoIP c) (ClientAddrtoPort c) = c"
proof -
  have "c = take_bit 48 c" using less_mask_eq [OF assms] by (simp only: take_bit_eq_mask)
  then have hi: "\<not> bit c n" if "48 \<le> n" for n
    using that by (metis bit_take_bit_iff not_le)
  show ?thesis
    unfolding IPtoClientAddr_def ClientAddrtoIP_def ClientAddrtoPort_def low_half
  proof (rule bit_word_eqI)
    fix n
    assume "n < LENGTH(64)"
    then show "bit (push_bit 32 (ucast (ucast (drop_bit 32 c) :: u16)) OR ucast (ucast (take_bit 32 c) :: u32) :: u64) n = bit c n"
      using hi [of n] by (cases "n < 32"; cases "n < 48") (auto simp: bit_simps)
  qed
qed

lemma client_address_inverse:
  "ClientAddrtoIP (IPtoClientAddr x y) = x" "ClientAddrtoPort (IPtoClientAddr x y) = y"
proof -
  show "ClientAddrtoIP (IPtoClientAddr x y) = x"
    unfolding IPtoClientAddr_def ClientAddrtoIP_def low_half
    by (intro bit_word_eqI) (auto simp: bit_simps)
  have x: "\<not> bit x (n + 32)" for n using bit_imp_le_length [of x "n + 32"] by auto
  show "ClientAddrtoPort (IPtoClientAddr x y) = y"
    unfolding IPtoClientAddr_def ClientAddrtoPort_def
    by (intro bit_word_eqI) (use x in \<open>auto simp: bit_simps add.commute\<close>)
qed

lemma received_packet_simps:
  assumes "3 \<le> length data" "length data - 3 < 2 ^ 16"
  shows "received_packet data client =
    \<lparr>p_buf = \<lparr>b_rpos = 0, b_wpos = length data - 3, storage = drop 3 data\<rparr>, p_opcode = data ! 2,
     p_accountid = data ! 0, p_xor = 0, p_unk = data ! 1, p_client = client\<rparr>"
proof -
  have "unat (of_nat m :: u16) = m" if "m < 2 ^ 16" for m
    using that by (simp add: unsigned_of_nat take_bit_nat_eq_self)
  then have "unat (of_nat (length data - 3) :: u16) = length data - 3" using assms(2) by blast
  then show ?thesis
    unfolding received_packet_def Let_def
    by (simp only:) (simp add: SetUnk_def mk_packet_def buf_resize_def new_buffer_def)
qed

text \<open>C8: what one side sends the other receives: the datagram of a packet of less than 64 KiB goes to
  the address and port of the packet's client, and when it is decrypted with the same key and read as
  a packet, that packet has the opcode, the account id, the \<open>unk\<close> byte and the contents of the one
  sent, with the read position at the start.\<close>

theorem datagram_roundtrip:
  assumes "packet_datagram packet = (ip, port, data)"
    and "p_client packet < 2 ^ 48" "length (packet_bytes packet) < 2 ^ 16"
  shows "IPtoClientAddr ip port = p_client packet \<and>
    (let received = received_packet (CryptData (p_xor packet) data) client
     in p_opcode received = p_opcode packet \<and> p_accountid received = p_accountid packet \<and>
        p_unk received = p_unk packet \<and> p_client received = client \<and>
        remaining (p_buf received) = packet_bytes packet)"
proof -
  let ?plain = "[p_accountid packet, p_unk packet, p_opcode packet] @ packet_bytes packet"
  have "data = CryptData (p_xor packet) ?plain" "ip = ClientAddrtoIP (p_client packet)"
      "port = ClientAddrtoPort (p_client packet)"
    using assms(1) by (auto simp: packet_datagram_def Let_def packet_bytes_def)
  then show ?thesis
    using received_packet_simps [of ?plain client] client_address [OF assms(2)] assms(3)
    by (simp add: CryptData_involution Let_def remaining_def)
qed

theorem datagram_roundtrip_witness:
  "let packet = SetXor 0x55 ((mk_packet 0x2A 3 0x123401020304)\<lparr>p_buf := \<lparr>b_rpos = 0, b_wpos = 2, storage = [7, 9]\<rparr>\<rparr>);
       (ip, port, data) = packet_datagram packet
   in data = [0x56, 0x55, 0x7F, 0x52, 0x5C] \<and> ip = 0x01020304 \<and> port = 0x1234 \<and>
      IPtoClientAddr ip port = 0x123401020304 \<and>
      remaining (p_buf (received_packet (CryptData 0x55 data) 1)) = [7, 9]"
proof -
  define packet where
    "packet = SetXor 0x55 ((mk_packet 0x2A 3 0x123401020304)\<lparr>p_buf := \<lparr>b_rpos = 0, b_wpos = 2, storage = [7, 9]\<rparr>\<rparr>)"
  have p: "p_xor packet = 0x55" "p_client packet = 0x123401020304" "packet_bytes packet = [7, 9]"
    by (simp_all add: packet_def packet_bytes_def)
  have d: "packet_datagram packet = (0x01020304, 0x1234, [0x56, 0x55, 0x7F, 0x52, 0x5C])"
    by (simp add: packet_def packet_datagram_def CryptData_def ClientAddrtoIP_def ClientAddrtoPort_def)
  then show ?thesis
    using datagram_roundtrip [OF d, of 1] by (simp add: p Let_def flip: packet_def)
qed

section \<open>What a datagram does\<close>

lemma read_join_fixed: "fixed_read read_join 97"
proof -
  have "fixed_read (\<lambda>b. read_join b) 97"
    unfolding read_join_def by (rule fixed_reads refl)+ simp
  then show ?thesis by simp
qed

lemma read_ping_fixed: "fixed_read read_ping 9"
proof -
  have "fixed_read (\<lambda>b. read_ping b) 9"
    unfolding read_ping_def by (rule fixed_reads refl)+ simp
  then show ?thesis by simp
qed

text \<open>The session an address belongs to, before anything is changed.\<close>

definition source_entry :: "u64 \<Rightarrow> server \<Rightarrow> u32 option" where
  "source_entry client s =
     (case map_of (ws_sessions s) client of
       Some n \<Rightarrow> Some n
     | None \<Rightarrow> map_of (ws_sessions s) (client AND 0xFFFFFFFF))"

text \<open>The state after a join: a new session with the least free id (or 0xFF), registered in the
  world's table and under the address alone in the socket's, and an answer queued.\<close>

definition join_id :: "server \<Rightarrow> u8" where
  "join_id s = (case w_freeids s of [] \<Rightarrow> 0xFF | n # ids \<Rightarrow> n)"

definition after_join :: "u64 \<Rightarrow> server \<Rightarrow> server" where
  "after_join client s =
     (let n = join_id s; m = map_put (ucast n) (Some (sv_next s)) (w_sessions s)
      in s\<lparr>w_freeids := tl (w_freeids s), sv_next := sv_next s + 1,
           sv_sessions := (sv_sessions s)(sv_next s \<mapsto> (new_session (ucast n) 0)\<lparr>ss_client := client\<rparr>),
           w_sessions := m, w_maxSessionsCount := max (w_maxSessionsCount s) (of_nat (length m)),
           ws_sessions := omap_put (client AND 0xFFFFFFFF) (ucast n) (ws_sessions s),
           ws_sendQueue := ws_sendQueue s @ [mk_packet 0x14 0 client]\<rparr>)"

lemma read_join_short:
  assumes "3 \<le> length data" "length data - 3 < 2 ^ 16"
  shows "read_join (p_buf (received_packet data client)) =
    (if length data < 100 then Inl AssertFail else Inr ((), advanced 97 (p_buf (received_packet data client))))"
proof -
  let ?b = "p_buf (received_packet data client)"
  have b: "?b = \<lparr>b_rpos = 0, b_wpos = length data - 3, storage = drop 3 data\<rparr>"
    using received_packet_simps [OF assms] by simp
  have "b_rpos ?b \<le> length (storage ?b)" "length (storage ?b) + 97 < size_limit"
    using assms by (simp_all add: b size_limit_def)
  note r = fixed_readD [OF read_join_fixed this]
  have l: "length (remaining ?b) = length data - 3" by (simp add: b remaining_def)
  show ?thesis
  proof (cases "length data < 100")
    case True
    then show ?thesis using r(2) assms(1) by (simp add: l)
  next
    case False
    then show ?thesis using r(1) by (auto simp: l)
  qed
qed

lemma HandleJoin_result:
  "read_join (p_buf packet) = Inr r \<Longrightarrow> HandleJoin packet s = Inr ((), after_join (p_client packet) s)"
  by (cases "w_freeids s")
     (auto simp: HandleJoin_def after_join_def join_id_def step_simps RequestFreeId_def new_address_def
       AddSession_def get_session_def socket_SendPacket_def Let_def new_session_def split: prod.splits)

lemma HandleJoin_fault: "read_join (p_buf packet) = Inl e \<Longrightarrow> HandleJoin packet s = Inl e"
  by (simp add: HandleJoin_def step_simps)

lemma find_source_unknown:
  "source_entry client s = None \<Longrightarrow> find_source client s = Inr (None, s)"
  by (auto simp: find_source_def source_entry_def step_simps split: option.splits)

lemma unknown_source:
  assumes "source_entry (IPtoClientAddr ip port) s = None" "length data - 3 < 2 ^ 16"
  shows "(length data < 3 \<or> data ! 2 \<notin> {0xC, 0xE} \<longrightarrow> OnRawData data ip port s = Inr ((), s)) \<and>
    (3 \<le> length data \<and> data ! 2 = 0xE \<longrightarrow>
       OnRawData data ip port s =
         (if length data < 100 then Inl AssertFail else Inr ((), after_join (IPtoClientAddr ip port) s)))"
proof -
  let ?c = "IPtoClientAddr ip port"
  let ?p = "received_packet data ?c"
  have o: "OnRawData data ip port s =
      (if length data < 3 then Inr ((), s)
       else if p_opcode ?p = 0xC then HandleLANPing ?p s
       else if p_opcode ?p = 0xE then HandleJoin ?p s else Inr ((), s))"
    by (simp add: OnRawData_def gbind_def find_source_unknown [OF assms(1)] gret_def Let_def)
  show ?thesis
  proof (cases "length data < 3")
    case True
    then show ?thesis by (simp add: o)
  next
    case False
    then have "3 \<le> length data" by simp
    note p = received_packet_simps [OF this assms(2), of ?c] and r = read_join_short [OF this assms(2), of ?c]
    have "p_opcode ?p = data ! 2" "p_client ?p = ?c" by (simp_all add: p)
    then show ?thesis
      using False HandleJoin_result [of ?p _ s] HandleJoin_fault [of ?p _ s] r by (auto simp: o)
  qed
qed

section \<open>The answer to a ping\<close>

definition pong_bytes :: "bytes \<Rightarrow> bytes" where
  "pong_bytes stamp =
     [0, 1, 0xF, 0xF, 0xFF, 0xFF, 0xFF, 0x45, 0x73, 0x74, 0x61, 0x74, 0x65, 0, 0, 0,
      0x1, 0x0, 0x0, 0x55, 0x0, 0x9A, 0x3, 0x1, 0x0, 0x7, 0x21, 0x3, 0x10,
      0xFF, 0xFF, 0xFF, 0xFF, 0xFF, 0xFF, 0xFF, 0xFF, 0xC0, 0x0, 0xD4, 0x0] @ stamp @
     [0xFF, 0xFF, 0xFF, 0xFF, 0xFF, 0xEF, 0xFF, 0xFF, 0xFF, 0xFF, 0xFF, 0xFF, 0xFF, 0xFF,
      0xFF, 0xFF, 0xFF, 0xFF, 0xFF, 0xFF, 0x84, 0x82, 0xD3, 0x01, 0x54, 0x65, 0x73, 0x74, 0x0]"

lemma writes_bytes: "list_all2 writes (map put_u8 bs) (map (\<lambda>b. [b]) bs)"
  using writes_put_u8 by (auto simp: list_all2_conv_all_nth)

lemma concat_singles [simp]: "concat (map (\<lambda>b. [b]) bs) = bs"
  by (induction bs) auto

lemma pong_packet:
  "pk_puts (pong_writes stamp) (mk_packet 0x0D 0 client) =
   Inr (packet_appended (pong_bytes (le_bytes 4 stamp)) (mk_packet 0x0D 0 client))"
proof -
  let ?w = "\<lambda>bs. map (\<lambda>b. [b]) bs"
  let ?a = "[0, 1, 0xF, 0xF, 0xFF, 0xFF, 0xFF] :: bytes" and ?name = "[0x45, 0x73, 0x74, 0x61, 0x74, 0x65, 0, 0, 0] :: bytes"
  let ?b = "[0x1, 0x0, 0x0, 0x55, 0x0, 0x9A, 0x3, 0x1, 0x0, 0x7, 0x21, 0x3, 0x10,
       0xFF, 0xFF, 0xFF, 0xFF, 0xFF, 0xFF, 0xFF, 0xFF, 0xC0, 0x0, 0xD4, 0x0] :: bytes"
  let ?c = "[0xFF, 0xFF, 0xFF, 0xFF, 0xFF, 0xEF, 0xFF, 0xFF, 0xFF, 0xFF, 0xFF, 0xFF, 0xFF, 0xFF,
       0xFF, 0xFF, 0xFF, 0xFF, 0xFF, 0xFF, 0x84, 0x82, 0xD3, 0x01] :: bytes"
  let ?bss = "?w ?a @ [?name] @ ?w ?b @ [le_bytes 4 stamp] @ ?w ?c @ [[0x54, 0x65, 0x73, 0x74], [0]]"
  have last: "list_all2 writes [append_bytes [0x54, 0x65, 0x73, 0x74], put_u8 0x0] [[0x54, 0x65, 0x73, 0x74], [0]]"
    using writes_append_bytes writes_put_u8 [of 0] by simp
  have one: "list_all2 writes [append_bytes bs] [bs]" "list_all2 writes [put_u32 v] [le_bytes 4 v]" for bs v
    using writes_append_bytes writes_put_u32 by simp_all
  have all: "list_all2 writes (pong_writes stamp) ?bss"
    unfolding pong_writes_def by (intro list_all2_appendI writes_bytes one last)
  have bytes: "concat ?bss = pong_bytes (le_bytes 4 stamp)"
    by (simp only: concat_append concat_singles concat.simps pong_bytes_def append.simps append_Nil2 append_assoc)
  have "length (pong_bytes (le_bytes 4 stamp)) \<le> append_max"
    by (simp add: pong_bytes_def append_max_def)
  then show ?thesis using pk_puts_writes [OF all] unfolding bytes by simp
qed

lemma read_ping_value:
  assumes "buf_ok b" "9 \<le> length (remaining b)"
  shows "read_ping b = Inr (le_word (take 4 (drop 5 (remaining b))), advanced 9 b)"
  using assms
  by (simp add: read_ping_def get_ops read_word_remaining buf_ok_def advanced_def remaining_def)
     (simp add: eval_nat_numeral)

text \<open>A ping (command 0xC) from an address with no session: with a payload of at least nine bytes it
  is answered, whatever the state of the server, by one packet to the sender with the four stamp
  bytes 8 to 11 of the datagram at offset 41 of its 74 bytes, and nothing else changes; a shorter one
  aborts the server.\<close>

theorem OnRawData_ping:
  assumes "source_entry (IPtoClientAddr ip port) s = None" "length data - 3 < 2 ^ 16"
    and "3 \<le> length data" "data ! 2 = 0xC"
  shows "OnRawData data ip port s =
    (if length data < 12 then Inl AssertFail
     else Inr ((), s\<lparr>ws_sendQueue := ws_sendQueue s @
       [packet_appended (pong_bytes (take 4 (drop 8 data))) (mk_packet 0x0D 0 (IPtoClientAddr ip port))]\<rparr>))"
proof -
  let ?c = "IPtoClientAddr ip port"
  let ?p = "received_packet data ?c"
  note p = received_packet_simps [OF assms(3,2), of ?c]
  have o: "OnRawData data ip port s = HandleLANPing ?p s"
    using assms(3,4) by (simp add: OnRawData_def gbind_def find_source_unknown [OF assms(1)] gret_def Let_def p)
  have b: "b_rpos (p_buf ?p) \<le> length (storage (p_buf ?p))" "length (storage (p_buf ?p)) + 9 < size_limit"
      "buf_ok (p_buf ?p)" "remaining (p_buf ?p) = drop 3 data" "p_client ?p = ?c"
    using assms(2) by (simp_all add: p size_limit_def buf_ok_def remaining_def)
  show ?thesis
  proof (cases "length data < 12")
    case True
    then have "read_ping (p_buf ?p) = Inl AssertFail"
      using fixed_readD(2) [OF read_ping_fixed b(1,2)] assms(3) by (simp add: b(4))
    then show ?thesis using True by (simp add: o HandleLANPing_def step_simps)
  next
    case False
    have "le_bytes 4 (le_word (take 4 (drop 8 data)) :: u32) = take 4 (drop 8 data)"
      using le_bytes_le_word [of "take 4 (drop 8 data)", where 'a = 32] False by simp
    then show ?thesis
      using False read_ping_value [OF b(3)]
      by (simp add: o HandleLANPing_def step_simps b(4,5) pong_packet socket_SendPacket_def)
  qed
qed

theorem OnRawData_ping_witness:
  "\<exists>q. OnRawData [0, 0, 0xC, 0, 0, 0, 0, 0, 0xA, 0xB, 0xC, 0xD] 1 2 new_server = Inr ((), new_server\<lparr>ws_sendQueue := [q]\<rparr>) \<and>
     length (packet_bytes q) = 74 \<and> take 4 (drop 41 (packet_bytes q)) = [0xA, 0xB, 0xC, 0xD]"
proof -
  have "source_entry (IPtoClientAddr 1 2) new_server = None" "ws_sendQueue new_server = []"
    by (simp_all add: new_server_def source_entry_def)
  then show ?thesis
    using OnRawData_ping [of 1 2 new_server "[0, 0, 0xC, 0, 0, 0, 0, 0, 0xA, 0xB, 0xC, 0xD]"]
    by (intro exI [of _ "packet_appended (pong_bytes [0xA, 0xB, 0xC, 0xD]) (mk_packet 0x0D 0 (IPtoClientAddr 1 2))"])
       (simp add: pong_bytes_def)
qed

section \<open>Any datagram from an address without a session\<close>

text \<open>C32: all that a datagram from an address with no session can do, whatever the state of the server. Shorter than a header, or with a command other
  than 0xC and 0xE, it changes nothing. A ping (0xC) with a payload of at least nine bytes is answered by one packet to the sender with the
  stamp of the datagram, and nothing else changes. A join (0xE) with a payload of at least 97 bytes makes a session with the least free id,
  or the id 0xFF when none is left. A shorter ping or join aborts the server: the failed read is an assertion, and the \<open>catch\<close> clause is
  never reached.\<close>

theorem OnRawData_unknown_source:
  assumes "source_entry (IPtoClientAddr ip port) s = None" "length data - 3 < 2 ^ 16"
  shows "OnRawData data ip port s =
    (if length data < 3 then Inr ((), s)
     else if data ! 2 = 0xC then
       if length data < 12 then Inl AssertFail
       else Inr ((), s\<lparr>ws_sendQueue := ws_sendQueue s @
         [packet_appended (pong_bytes (take 4 (drop 8 data))) (mk_packet 0x0D 0 (IPtoClientAddr ip port))]\<rparr>)
     else if data ! 2 = 0xE then
       if length data < 100 then Inl AssertFail else Inr ((), after_join (IPtoClientAddr ip port) s)
     else Inr ((), s))"
  using unknown_source [OF assms] OnRawData_ping [OF assms] by (simp add: not_less)

theorem OnRawData_unknown_source_witness:
  "let s = new_server; d = [0, 0, 0xE] @ replicate 97 0
   in OnRawData d 1 2 s = Inr ((), after_join (IPtoClientAddr 1 2) s) \<and>
      OnRawData (take 99 d) 1 2 s = Inl AssertFail \<and> OnRawData [0, 0, 7] 1 2 s = Inr ((), s) \<and>
      OnRawData [0, 0, 0xC] 1 2 s = Inl AssertFail \<and> join_id s = 1"
proof -
  define s :: server where "s = new_server"
  have "source_entry (IPtoClientAddr 1 2) s = None" by (simp add: s_def new_server_def source_entry_def)
  note w = OnRawData_unknown_source [OF this]
  have "join_id s = 1" by (simp add: s_def new_server_def join_id_def initial_freeids_def)
  then show ?thesis
    using w [of "[0, 0, 0xE] @ replicate 97 0"] w [of "take 99 ([0, 0, 0xE] @ replicate 97 0)"] w [of "[0, 0, 7]"] w [of "[0, 0, 0xC]"]
    by (simp flip: s_def)
qed

end
