(* ===== verification/Game_Logic.thy ===== *)
theory Game_Logic
  imports Game_State
begin

text \<open>
  Reasoning about steps: \<open>triple P m Q F\<close> says that from a state with \<open>P\<close> the step \<open>m\<close> either ends
  with a value and a state for which \<open>Q\<close> holds, or stops with a fault of the set \<open>F\<close>. The rules follow
  the combinators; \<open>keeps I m F\<close> is the triple of an invariant.
\<close>

definition triple :: "(server \<Rightarrow> bool) \<Rightarrow> 'a game \<Rightarrow> ('a \<Rightarrow> server \<Rightarrow> bool) \<Rightarrow> fault set \<Rightarrow> bool" where
  "triple P m Q F \<longleftrightarrow> (\<forall>s. P s \<longrightarrow> (case m s of Inl e \<Rightarrow> e \<in> F | Inr (x, s') \<Rightarrow> Q x s'))"

abbreviation keeps :: "(server \<Rightarrow> bool) \<Rightarrow> 'a game \<Rightarrow> fault set \<Rightarrow> bool" where
  "keeps I m F \<equiv> triple I m (\<lambda>_. I) F"

named_theorems triples \<open>rules for steps\<close>

lemma tripleI:
  assumes "\<And>s x s'. P s \<Longrightarrow> m s = Inr (x, s') \<Longrightarrow> Q x s'" "\<And>s e. P s \<Longrightarrow> m s = Inl e \<Longrightarrow> e \<in> F"
  shows "triple P m Q F"
  using assms by (auto simp: triple_def split: sum.split)

lemma tripleD:
  assumes "triple P m Q F" "P s"
  shows "m s = Inr (x, s') \<Longrightarrow> Q x s'" "m s = Inl e \<Longrightarrow> e \<in> F"
  using assms by (auto simp: triple_def)

lemma triple_weaken:
  "triple P m Q F \<Longrightarrow> (\<And>s. P' s \<Longrightarrow> P s) \<Longrightarrow> (\<And>x s. Q x s \<Longrightarrow> Q' x s) \<Longrightarrow> F \<subseteq> F' \<Longrightarrow> triple P' m Q' F'"
  by (fastforce simp: triple_def split: sum.splits)

lemma triple_bind:
  assumes "triple P m R F" "\<And>x. triple (R x) (f x) Q F"
  shows "triple P (gbind m f) Q F"
  unfolding triple_def
proof (intro allI impI)
  fix s
  assume "P s"
  then have m: "case m s of Inl e \<Rightarrow> e \<in> F | Inr (x, s') \<Rightarrow> R x s'"
    using assms(1) by (simp add: triple_def)
  show "case gbind m f s of Inl e \<Rightarrow> e \<in> F | Inr (x, s') \<Rightarrow> Q x s'"
  proof (cases "m s")
    case (Inl e)
    then show ?thesis using m by (simp add: gbind_def)
  next
    case (Inr xs)
    then show ?thesis using m assms(2) by (cases xs) (simp add: gbind_def triple_def)
  qed
qed

lemma triple_then:
  "triple P m R F \<Longrightarrow> (\<And>x. triple (R x) n Q F) \<Longrightarrow> triple P (gthen m n) Q F"
  unfolding gthen_def by (rule triple_bind)

lemma triple_ret: "(\<And>s. P s \<Longrightarrow> Q x s) \<Longrightarrow> triple P (gret x) Q F"
  by (simp add: triple_def gret_def)

lemma triple_fail: "e \<in> F \<Longrightarrow> triple P (gfail e) Q F"
  by (simp add: triple_def gfail_def)

lemma triple_get: "(\<And>s. P s \<Longrightarrow> Q (f s) s) \<Longrightarrow> triple P (gget f) Q F"
  by (simp add: triple_def gget_def)

lemma triple_mod: "(\<And>s. P s \<Longrightarrow> Q () (f s)) \<Longrightarrow> triple P (gmod f) Q F"
  by (simp add: triple_def gmod_def)

lemma triple_lift:
  "(\<And>x s. m = Inr x \<Longrightarrow> P s \<Longrightarrow> Q x s) \<Longrightarrow> (\<And>e. m = Inl e \<Longrightarrow> e \<in> F) \<Longrightarrow> triple P (glift m) Q F"
  by (cases m) (auto simp: triple_def glift_def)

lemma keeps_ret [triples]: "keeps I (gret x) F"
  by (rule triple_ret)

lemma keeps_get [triples]: "keeps I (gget f) F"
  by (rule triple_get)

lemma keeps_bind [triples]: "keeps I m F \<Longrightarrow> (\<And>x. keeps I (f x) F) \<Longrightarrow> keeps I (gbind m f) F"
  by (rule triple_bind)

lemma keeps_then [triples]: "keeps I m F \<Longrightarrow> keeps I n F \<Longrightarrow> keeps I (gthen m n) F"
  by (rule triple_then)

lemma keeps_when [triples]: "(c \<Longrightarrow> keeps I m F) \<Longrightarrow> keeps I (gwhen c m) F"
  by (simp add: gwhen_def triples)

lemma keeps_void [triples]: "keeps I m F \<Longrightarrow> keeps I (gvoid m) F"
  unfolding gvoid_def by (intro triples)

lemma keeps_for [triples]: "(\<And>x. x \<in> set xs \<Longrightarrow> keeps I (f x) F) \<Longrightarrow> keeps I (gfor xs f) F"
  by (induction xs) (auto intro: triples)

lemma keeps_seq [triples]: "(\<And>m. m \<in> set ms \<Longrightarrow> keeps I m F) \<Longrightarrow> keeps I (gseq ms) F"
  by (induction ms) (auto intro: triples)

lemma keeps_if [triples]: "(c \<Longrightarrow> keeps I m F) \<Longrightarrow> (\<not> c \<Longrightarrow> keeps I n F) \<Longrightarrow> keeps I (if c then m else n) F"
  by simp

lemma keeps_option [triples]:
  "(p = None \<Longrightarrow> keeps I m F) \<Longrightarrow> (\<And>a. p = Some a \<Longrightarrow> keeps I (f a) F) \<Longrightarrow>
   keeps I (case p of None \<Rightarrow> m | Some a \<Rightarrow> f a) F"
  by (cases p) auto

lemma keeps_prod [triples]: "(\<And>a b. p = (a, b) \<Longrightarrow> keeps I (f a b) F) \<Longrightarrow> keeps I (case p of (a, b) \<Rightarrow> f a b) F"
  by (cases p) auto

end
