(* ===== verification/Session_Table.thy ===== *)
theory Session_Table
  imports World_Socket Game_Logic
begin

text \<open>
  The invariant of the session table, and the states the network side can reach.

  \<open>net_inv\<close>: the world's table maps an account id to a live session with that account id; an id in the
  table is not free; the ids of the pool are 1 to 31; no id is in the table twice; and the sessions to
  delete are live, all different and no longer in the table.
\<close>

section \<open>The invariant\<close>

definition free_ids_ok :: "u8 list \<Rightarrow> bool" where
  "free_ids_ok ids \<longleftrightarrow> sorted ids \<and> distinct ids \<and> set ids \<subseteq> set initial_freeids"

definition used_id :: "u8 list \<Rightarrow> u32 \<Rightarrow> bool" where
  "used_id ids n \<longleftrightarrow> n = 0xFF \<or> (\<exists>i \<in> set initial_freeids - set ids. n = ucast i)"

definition net_inv :: "server \<Rightarrow> bool" where
  "net_inv s \<longleftrightarrow>
     free_ids_ok (w_freeids s) \<and>
     (\<forall>n p. map_of (w_sessions s) n = Some p \<longrightarrow> used_id (w_freeids s) n) \<and>
     (\<forall>n a. map_of (w_sessions s) n = Some (Some a) \<longrightarrow>
        map_option ss_accountId (sv_sessions s a) = Some n \<and> a \<notin> set (w_kicked s)) \<and>
     distinct (map fst (w_sessions s)) \<and> distinct (w_kicked s) \<and>
     (\<forall>a. sv_next s \<le> a \<longrightarrow> sv_sessions s a = None) \<and>
     (\<forall>a \<in> set (w_kicked s). sv_sessions s a \<noteq> None)"

text \<open>A change of session contents that keeps the account ids, of the queues and of the socket's table
  keeps the invariant.\<close>

lemma net_inv_frame:
  assumes "net_inv s"
    and "w_freeids s' = w_freeids s" "w_sessions s' = w_sessions s" "w_kicked s' = w_kicked s"
    and "\<And>a. map_option ss_accountId (sv_sessions s' a) = map_option ss_accountId (sv_sessions s a)"
    and "sv_next s \<le> sv_next s'"
  shows "net_inv s'"
proof -
  have "sv_sessions s' a = None \<longleftrightarrow> sv_sessions s a = None" for a
    using assms(5) [of a] by (metis option.map_disc_iff)
  then show ?thesis
    using assms(1,6) unfolding net_inv_def assms(2-5) by (auto intro: le_trans)
qed

lemma find_session_live:
  assumes "net_inv s" "FindSession n s = Inr (Some a, s')"
  shows "s' = s" "\<exists>ss. sv_sessions s a = Some ss \<and> ss_accountId ss = n"
  using assms by (auto simp: FindSession_def step_simps net_inv_def split: option.splits)

lemma net_inv_account:
  "net_inv s \<Longrightarrow> map_of (w_sessions s) n = Some (Some a) \<Longrightarrow> map_option ss_accountId (sv_sessions s a) = Some n"
  unfolding net_inv_def by blast

lemma net_inv_live:
  "net_inv s \<Longrightarrow> map_of (w_sessions s) n = Some (Some a) \<Longrightarrow> \<exists>ss. sv_sessions s a = Some ss"
  using net_inv_account by fastforce

lemma FindSession_keeps: "FindSession n s = Inr (p, s') \<Longrightarrow> s' = s"
  by (auto simp: FindSession_def step_simps)

lemma FindSession_total: "\<exists>p. FindSession n s = Inr (p, s)"
  by (auto simp: FindSession_def step_simps)

lemma net_inv_upd_session:
  assumes "net_inv s" "sv_sessions s a = Some ss" "ss_accountId ss' = ss_accountId ss"
  shows "net_inv (s\<lparr>sv_sessions := (sv_sessions s)(a \<mapsto> ss')\<rparr>)"
  using assms by (intro net_inv_frame [OF assms(1)]) (auto simp: net_inv_def)

section \<open>The operations keep the invariant\<close>

text \<open>Live pointers: a null pointer or the address of a session.\<close>

definition live :: "nat option \<Rightarrow> server \<Rightarrow> bool" where
  "live p s \<longleftrightarrow> (\<forall>a. p = Some a \<longrightarrow> sv_sessions s a \<noteq> None)"

lemma triple_FindSession:
  "triple net_inv (FindSession n) (\<lambda>p s. net_inv s \<and> live p s) {}"
proof (rule tripleI)
  fix s p s'
  assume "net_inv s" "FindSession n s = Inr (p, s')"
  then show "net_inv s' \<and> live p s'"
    using find_session_live [of s n _ s'] FindSession_keeps [of n s p s'] by (cases p) (auto simp: live_def)
qed (simp add: FindSession_def step_simps)

lemma triple_upd_session:
  assumes "\<And>ss. ss_accountId (f ss) = ss_accountId ss"
  shows "triple (\<lambda>s. net_inv s \<and> live (Some a) s) (upd_session a f) (\<lambda>_ s. net_inv s \<and> live (Some a) s) {}"
proof (rule tripleI)
  fix s x s'
  assume s: "net_inv s \<and> live (Some a) s" and r: "upd_session a f s = Inr (x, s')"
  then obtain ss where ss: "sv_sessions s a = Some ss" by (auto simp: live_def)
  then have "s' = s\<lparr>sv_sessions := (sv_sessions s)(a \<mapsto> f ss)\<rparr>"
    using r by (simp add: upd_session_def get_session_def step_simps)
  then show "net_inv s' \<and> live (Some a) s'"
    using net_inv_upd_session [OF _ ss assms] s by (simp add: live_def)
qed (auto simp: upd_session_def get_session_def step_simps live_def)

lemma triple_QueuePacket:
  "triple (\<lambda>s. net_inv s \<and> live (Some a) s) (upd_session a (QueuePacket p)) (\<lambda>_. net_inv) {}"
  by (rule triple_weaken [OF triple_upd_session]) (auto simp: QueuePacket_def)

lemma triple_find_source:
  "triple net_inv (find_source c) (\<lambda>p s. net_inv s \<and> live p s) {NullDeref}"
proof (rule tripleI)
  fix s p s'
  assume inv: "net_inv s" and r: "find_source c s = Inr (p, s')"
  consider (own) n where "map_of (ws_sessions s) c = Some n"
    | (joined) n where "map_of (ws_sessions s) c = None" "map_of (ws_sessions s) (c AND 0xFFFFFFFF) = Some n"
    | (unknown) "source_entry c s = None"
    by (cases "map_of (ws_sessions s) c"; cases "map_of (ws_sessions s) (c AND 0xFFFFFFFF)")
       (auto simp: source_entry_def)
  then show "net_inv s' \<and> live p s'"
  proof cases
    case own
    then have "FindSession n s = Inr (p, s')" using r by (simp add: find_source_def gbind_def gget_def)
    then show ?thesis using tripleD(1) [OF triple_FindSession inv] by blast
  next
    case joined
    obtain a ss where a: "map_of (w_sessions s) n = Some (Some a)" "sv_sessions s a = Some ss" "p = Some a"
      and s': "s' = s\<lparr>ws_sessions := map_del (c AND 0xFFFFFFFF) (omap_put c n (ws_sessions s)),
        sv_sessions := (sv_sessions s)(a \<mapsto> ss\<lparr>ss_client := c\<rparr>)\<rparr>"
      using r joined
      by (auto simp: find_source_def FindSession_def step_simps deref_def upd_session_def get_session_def
          split: option.splits)
    have "net_inv s'"
      using inv a joined unfolding s' by (intro net_inv_frame [OF inv]) (auto simp: net_inv_def split: if_splits)
    then show ?thesis using a by (simp add: live_def s')
  next
    case unknown
    then show ?thesis using r inv by (simp add: find_source_unknown live_def)
  qed
next
  fix s e
  assume inv: "net_inv s" and "find_source c s = Inl e"
  then show "e \<in> {NullDeref}"
    by (auto simp: find_source_def FindSession_def step_simps deref_def upd_session_def get_session_def
        split: option.splits dest: net_inv_live [OF inv])
qed

lemma triple_session_CryptData:
  "triple (\<lambda>s. net_inv s \<and> live (Some a) s) (session_CryptData a data) (\<lambda>_ s. net_inv s \<and> live (Some a) s) {NullDeref}"
  by (auto simp: triple_def session_CryptData_def get_session_def step_simps live_def)

text \<open>A join takes an id out of the pool, or reuses 0xFF.\<close>

lemma net_inv_after_join:
  assumes "net_inv s"
  shows "net_inv (after_join c s)"
proof -
  have new: "sv_sessions s (sv_next s) = None" and k: "sv_next s \<notin> set (w_kicked s)"
    and tab: "map_of (w_sessions s) n \<noteq> Some (Some (sv_next s))" for n
    using assms by (force simp: net_inv_def)+
  have free: "free_ids_ok (tl (w_freeids s))"
    using assms by (cases "w_freeids s") (auto simp: net_inv_def free_ids_ok_def)
  have used: "used_id (tl (w_freeids s)) n" if "used_id (w_freeids s) n" for n
    using that by (cases "w_freeids s") (auto simp: used_id_def)
  have own: "used_id (tl (w_freeids s)) (ucast (join_id s))"
    using assms by (cases "w_freeids s") (auto simp: used_id_def join_id_def net_inv_def free_ids_ok_def)
  show ?thesis
    using assms free used own new k tab
    unfolding net_inv_def after_join_def Let_def new_session_def
    by (intro conjI allI impI) (auto split: if_splits simp: distinct_map_put)
qed

lemma received_packet_buf:
  "b_rpos (p_buf (received_packet data c)) = 0" "length (storage (p_buf (received_packet data c))) < 2 ^ 16"
proof -
  have "unat (w :: u16) < 2 ^ 16" for w using unsigned_less [of w] by simp
  then show "length (storage (p_buf (received_packet data c))) < 2 ^ 16"
    by (simp add: received_packet_def Let_def) (meson le_less_trans min.cobounded2)
qed (simp add: received_packet_def Let_def buf_resize_def)

lemma received_fixed_read:
  assumes "fixed_read r n" "n < 2 ^ 16" "r (p_buf (received_packet data c)) = Inl e"
  shows "e = AssertFail"
proof -
  let ?b = "p_buf (received_packet data c)"
  have b: "b_rpos ?b \<le> length (storage ?b)" "length (storage ?b) + n < size_limit"
    using received_packet_buf [of data c] assms(2) by (simp_all add: size_limit_def)
  show ?thesis using fixed_readD [OF assms(1) b] assms(3) by (cases "n \<le> length (remaining ?b)") auto
qed

lemma triple_HandleJoin: "keeps net_inv (HandleJoin (received_packet data c)) {AssertFail}"
proof (rule tripleI)
  fix s x s'
  assume "net_inv s" "HandleJoin (received_packet data c) s = Inr (x, s')"
  then show "net_inv s'"
    using HandleJoin_result [of "received_packet data c" _ s] HandleJoin_fault [of "received_packet data c" _ s]
      net_inv_after_join
    by (cases "read_join (p_buf (received_packet data c))") auto
next
  fix s e
  assume "HandleJoin (received_packet data c) s = Inl e"
  then have "read_join (p_buf (received_packet data c)) = Inl e"
    using HandleJoin_result [of "received_packet data c" _ s] HandleJoin_fault [of "received_packet data c" _ s]
    by (cases "read_join (p_buf (received_packet data c))") auto
  then show "e \<in> {AssertFail}" using received_fixed_read [OF read_join_fixed] by simp
qed

lemma net_inv_queue: "net_inv (s\<lparr>ws_sendQueue := q\<rparr>) = net_inv s"
  by (simp add: net_inv_def)

lemma triple_HandleLANPing: "keeps net_inv (HandleLANPing (received_packet data c)) {AssertFail}"
proof (rule tripleI)
  fix s x s'
  assume "net_inv s" "HandleLANPing (received_packet data c) s = Inr (x, s')"
  then show "net_inv s'"
    by (auto simp: HandleLANPing_def step_simps res_iffs pong_packet socket_SendPacket_def net_inv_queue)
next
  fix s e
  assume "HandleLANPing (received_packet data c) s = Inl e"
  then have "read_ping (p_buf (received_packet data c)) = Inl e"
    by (auto simp: HandleLANPing_def step_simps res_iffs pong_packet socket_SendPacket_def)
  then show "e \<in> {AssertFail}" using received_fixed_read [OF read_ping_fixed] by simp
qed

lemma keeps_OnRawData: "keeps net_inv (OnRawData data ip port) {AssertFail, NullDeref}"
  unfolding OnRawData_def
proof (intro triple_bind)
  fix p
  show "triple net_inv (find_source (IPtoClientAddr ip port)) (\<lambda>p s. net_inv s \<and> live p s) {AssertFail, NullDeref}"
    by (rule triple_weaken [OF triple_find_source]) auto
  show "triple (\<lambda>s. net_inv s \<and> live p s) (case p of None \<Rightarrow> gret data | Some a \<Rightarrow> session_CryptData a data)
      (\<lambda>_ s. net_inv s \<and> live p s) {AssertFail, NullDeref}"
  proof (cases p)
    case None
    then show ?thesis by (simp add: triple_ret)
  next
    case (Some a)
    then show ?thesis using triple_weaken [OF triple_session_CryptData] by simp
  qed
next
  fix p buffer
  let ?p = "received_packet buffer (IPtoClientAddr ip port)"
  let ?P = "\<lambda>s. net_inv s \<and> live p s" and ?Q = "\<lambda>_ :: unit. net_inv" and ?F = "{AssertFail, NullDeref}"
  have ret: "triple ?P (gret ()) ?Q ?F" by (rule triple_ret) simp
  have ping: "triple ?P (HandleLANPing ?p) ?Q ?F" and join: "triple ?P (HandleJoin ?p) ?Q ?F"
    by (rule triple_weaken [OF triple_HandleLANPing] triple_weaken [OF triple_HandleJoin]; simp)+
  have "triple ?P (case p of None \<Rightarrow> gret () | Some a \<Rightarrow> upd_session a (QueuePacket ?p)) ?Q ?F"
    using ret triple_weaken [OF triple_QueuePacket, of ?P _ ?Q ?F] by (auto split: option.splits)
  then show "triple ?P (if length buffer < 3 then gret ()
      else let packet = ?p in if p_opcode packet = 0xC then HandleLANPing packet
           else if p_opcode packet = 0xE then HandleJoin packet
           else (case p of None \<Rightarrow> gret () | Some a \<Rightarrow> upd_session a (QueuePacket packet))) ?Q ?F"
    using ret ping join by (simp add: Let_def)
qed

lemma keeps_WorldSocket_Update: "keeps net_inv WorldSocket_Update {}"
  by (simp add: triple_def WorldSocket_Update_def net_inv_queue)

lemma KickPlayer_result:
  assumes "sv_sessions s a = Some ss"
  shows "KickPlayer a s = Inr ((),
    if ss_socket ss
    then s\<lparr>ws_closeAndDelete := True, sv_sessions := (sv_sessions s)(a \<mapsto> ss\<lparr>ss_socket := False\<rparr>)\<rparr> else s)"
  using assms by (simp add: KickPlayer_def upd_session_def get_session_def step_simps)

lemma net_inv_KickPlayer: "net_inv s \<Longrightarrow> KickPlayer a s = Inr (x, s') \<Longrightarrow> net_inv s' \<and> w_sessions s' = w_sessions s"
proof -
  assume inv: "net_inv s" and r: "KickPlayer a s = Inr (x, s')"
  then obtain ss where ss: "sv_sessions s a = Some ss"
    by (auto simp: KickPlayer_def get_session_def step_simps split: option.splits)
  have "net_inv (s\<lparr>ws_closeAndDelete := True\<rparr>)" using inv by (simp add: net_inv_def)
  then have "net_inv (s\<lparr>ws_closeAndDelete := True, sv_sessions := (sv_sessions s)(a \<mapsto> ss\<lparr>ss_socket := False\<rparr>)\<rparr>)"
    using net_inv_upd_session [of "s\<lparr>ws_closeAndDelete := True\<rparr>" a ss "ss\<lparr>ss_socket := False\<rparr>"] ss by simp
  then show ?thesis using r inv KickPlayer_result [OF ss] by (auto split: if_splits)
qed

lemma net_inv_kicked:
  assumes "net_inv s" "map_of (w_sessions s) n = Some (Some a)"
  shows "net_inv (s\<lparr>w_kicked := set_add a (w_kicked s), w_sessions := map_put n None (w_sessions s)\<rparr>)"
proof -
  have "map_of (w_sessions s) m \<noteq> Some (Some a)" if "m \<noteq> n" for m
    using net_inv_account [OF assms(1), of m a] net_inv_account [OF assms] that by auto
  then show ?thesis
    using assms(1) net_inv_live [OF assms] assms(2) unfolding net_inv_def
    by (intro conjI) (auto split: if_splits simp: distinct_map_put distinct_set_add)
qed

lemma keeps_RemoveSession: "keeps net_inv (RemoveSession n) {}"
proof (rule tripleI)
  fix s x s'
  assume inv: "net_inv s" and r: "RemoveSession n s = Inr (x, s')"
  show "net_inv s'"
  proof (cases "\<exists>a. map_of (w_sessions s) n = Some (Some a)")
    case True
    then obtain a ss where a: "map_of (w_sessions s) n = Some (Some a)" "sv_sessions s a = Some ss"
      using net_inv_live [OF inv] by blast
    obtain s1 where s1: "KickPlayer a s = Inr ((), s1)" using KickPlayer_result [OF a(2)] by blast
    then have "net_inv s1" "map_of (w_sessions s1) n = Some (Some a)"
      using net_inv_KickPlayer [OF inv s1] a by simp_all
    then have "net_inv (s1\<lparr>w_kicked := set_add a (w_kicked s1), w_sessions := map_put n None (w_sessions s1)\<rparr>)"
      by (rule net_inv_kicked)
    then show ?thesis
      using r inv by (auto simp: RemoveSession_def FindSession_def get_session_def step_simps a s1 split: if_splits)
  next
    case False
    then show ?thesis
      using r inv by (auto simp: RemoveSession_def FindSession_def step_simps split: option.splits)
  qed
next
  fix s e
  assume inv: "net_inv s" and "RemoveSession n s = Inl e"
  then show "e \<in> {}"
    by (auto simp: RemoveSession_def FindSession_def get_session_def step_simps KickPlayer_result
        split: option.splits if_splits dest: net_inv_live [OF inv])
qed

section \<open>Reachable states\<close>

text \<open>The network side of the server: a datagram arrives, the send queue is emptied, a session is removed.\<close>

inductive net_step :: "server \<Rightarrow> server \<Rightarrow> bool" where
  received: "OnRawData data ip port s = Inr ((), s') \<Longrightarrow> net_step s s'"
| sent: "WorldSocket_Update s = Inr (out, s') \<Longrightarrow> net_step s s'"
| removed: "RemoveSession n s = Inr (b, s') \<Longrightarrow> net_step s s'"

inductive net_reachable :: "server \<Rightarrow> bool" where
  start: "net_reachable new_server"
| step: "net_reachable s \<Longrightarrow> net_step s s' \<Longrightarrow> net_reachable s'"

inductive_cases net_stepE: "net_step s s'"

lemma net_inv_new_server: "net_inv new_server"
  by (simp add: net_inv_def new_server_def free_ids_ok_def initial_freeids_def)

lemma net_inv_reachable: "net_reachable s \<Longrightarrow> net_inv s"
proof (induction rule: net_reachable.induct)
  case start
  show ?case by (rule net_inv_new_server)
next
  case (step s s')
  from \<open>net_step s s'\<close> show ?case
    by (rule net_stepE)
      (use step.IH in \<open>blast dest: tripleD(1) [OF keeps_OnRawData] tripleD(1) [OF keeps_WorldSocket_Update]
         tripleD(1) [OF keeps_RemoveSession]\<close>)+
qed

text \<open>C3: in every reachable state, whatever datagram arrives, \<open>OnRawData\<close> can only stop the server with a
  failed assertion (a ping or join that is too short) or with a null pointer, never through a deleted
  session or an access out of bounds; a session found by an id exists and has this id as its account
  id; and an id in use, other than the 0xFF given out when the pool is empty, is one of 1 to 31 and is
  not in the pool.\<close>

theorem session_table_safe:
  assumes "net_reachable s"
  shows "(OnRawData data ip port s = Inl e \<longrightarrow> e \<in> {AssertFail, NullDeref}) \<and>
    (FindSession n s = Inr (Some a, s') \<longrightarrow>
       s' = s \<and> map_option ss_accountId (sv_sessions s a) = Some n \<and>
       (n = 0xFF \<or> (\<exists>i \<in> set initial_freeids - set (w_freeids s). n = ucast i)))"
proof -
  have inv: "net_inv s" using assms by (rule net_inv_reachable)
  have "used_id (w_freeids s) n" if "map_of (w_sessions s) n = Some p" for p
    using inv that by (auto simp: net_inv_def)
  then have "FindSession n s = Inr (Some a, s') \<longrightarrow> used_id (w_freeids s) n"
    by (auto simp: FindSession_def step_simps split: option.splits)
  then show ?thesis
    using tripleD(2) [OF keeps_OnRawData inv] find_session_live [OF inv, of n a s'] by (auto simp: used_id_def)
qed

lemma step_join: "net_step new_server (after_join (IPtoClientAddr ip port) new_server)"
proof (rule net_step.received)
  let ?d = "[0, 0, 0xE] @ replicate 97 0"
  have "source_entry (IPtoClientAddr ip port) new_server = None" by (simp add: new_server_def source_entry_def)
  from unknown_source [OF this, of ?d]
  show "OnRawData ?d ip port new_server = Inr ((), after_join (IPtoClientAddr ip port) new_server)" by simp
qed

lemma reachable_join: "net_reachable (after_join (IPtoClientAddr ip port) new_server)"
  by (rule net_reachable.step [OF net_reachable.start step_join])

lemma after_join_new:
  "after_join c new_server = new_server\<lparr>w_freeids := tl initial_freeids, sv_next := 1,
     sv_sessions := [0 \<mapsto> (new_session 1 0)\<lparr>ss_client := c\<rparr>], w_sessions := [(1, Some 0)], w_maxSessionsCount := 1,
     ws_sessions := [(c AND 0xFFFFFFFF, 1)], ws_sendQueue := [mk_packet 0x14 0 c]\<rparr>"
proof -
  have "join_id new_server = 1" by (simp add: join_id_def new_server_def initial_freeids_def)
  then show ?thesis by (simp add: after_join_def Let_def) (simp add: new_server_def)
qed

lemma remove_joined:
  "\<exists>s'. RemoveSession 1 (after_join c new_server) = Inr (True, s') \<and>
     map_of (w_sessions s') 1 = Some None \<and> ws_sessions s' = [(c AND 0xFFFFFFFF, 1)]"
  unfolding after_join_new
  by (simp add: RemoveSession_def FindSession_def KickPlayer_def upd_session_def get_session_def step_simps
      new_session_def)

lemma FindSession_join: "\<exists>s'. FindSession 1 (after_join c new_server) = Inr (Some 0, s')"
  by (simp add: FindSession_def step_simps after_join_new)

theorem session_table_safe_witness:
  "let s = after_join (IPtoClientAddr 1 2) new_server in
   FindSession 1 s = Inr (Some 0, s) \<and> map_option ss_accountId (sv_sessions s 0) = Some 1 \<and>
   OnRawData [0, 0, 0xE] 9 9 s \<noteq> Inl Dangling"
  using session_table_safe [OF reachable_join [of 1 2], of "[0, 0, 0xE]" 9 9 Dangling 1 0] FindSession_join [of "IPtoClientAddr 1 2"]
  by (auto simp: Let_def)

text \<open>An address that joined, but sent nothing since, crashes the server with its next datagram, however
  short, when its session was removed in between: \<open>OnRawData\<close> stores the address in the session it looks
  up without checking that it was found.\<close>

theorem OnRawData_removed_session:
  assumes "map_of (ws_sessions s) (IPtoClientAddr ip port) = None"
    and "map_of (ws_sessions s) (IPtoClientAddr ip port AND 0xFFFFFFFF) = Some n"
    and "map_of (w_sessions s) n = Some None"
  shows "OnRawData data ip port s = Inl NullDeref"
  using assms by (simp add: OnRawData_def find_source_def FindSession_def deref_def step_simps)

theorem OnRawData_removed_session_witness:
  "\<exists>s. net_reachable s \<and> OnRawData [] 1 2 s = Inl NullDeref"
proof -
  let ?c = "IPtoClientAddr 1 2"
  let ?s = "after_join ?c new_server"
  obtain s' where r: "RemoveSession 1 ?s = Inr (True, s')"
    and s': "map_of (w_sessions s') 1 = Some None" "ws_sessions s' = [(?c AND 0xFFFFFFFF, 1)]"
    using remove_joined by blast
  have "net_reachable s'" using reachable_join [of 1 2] net_step.removed [OF r] by (rule net_reachable.step)
  moreover have "map_of (ws_sessions s') ?c = None" "map_of (ws_sessions s') (?c AND 0xFFFFFFFF) = Some 1"
    by (simp_all add: s' IPtoClientAddr_def)
  then have "OnRawData [] 1 2 s' = Inl NullDeref"
    using OnRawData_removed_session s'(1) by blast
  ultimately show ?thesis by blast
qed

section \<open>The pool of ids\<close>

lemma keeps_ids_mod: "(\<And>s. w_freeids (f s) = w_freeids s) \<Longrightarrow> keeps (\<lambda>s. set (w_freeids s) \<subseteq> A) (gmod f) UNIV"
  by (rule triple_mod) simp

lemma keeps_ids_basic [triples]:
  "keeps (\<lambda>s. set (w_freeids s) \<subseteq> A) (get_session a) UNIV"
  "keeps (\<lambda>s. set (w_freeids s) \<subseteq> A) new_address UNIV"
  "keeps (\<lambda>s. set (w_freeids s) \<subseteq> A) RequestFreeId UNIV"
  "keeps (\<lambda>s. set (w_freeids s) \<subseteq> A) (gfail flt) UNIV"
  by (auto simp: triple_def get_session_def new_address_def RequestFreeId_def glift_def gfail_def
      split: option.split list.split sum.split)

lemma keeps_lift [triples]: "keeps I (glift m) UNIV"
  by (rule triple_lift) simp_all

lemmas ids_steps = triples keeps_ids_mod

lemma keeps_ids_ops:
  "keeps (\<lambda>s. set (w_freeids s) \<subseteq> A) (OnRawData data ip port) UNIV"
  "keeps (\<lambda>s. set (w_freeids s) \<subseteq> A) (RemoveSession n) UNIV"
  "keeps (\<lambda>s. set (w_freeids s) \<subseteq> A) WorldSocket_Update UNIV"
proof -
  show "keeps (\<lambda>s. set (w_freeids s) \<subseteq> A) (OnRawData data ip port) UNIV"
    unfolding OnRawData_def find_source_def FindSession_def deref_def upd_session_def session_CryptData_def
      HandleJoin_def HandleLANPing_def AddSession_def socket_SendPacket_def Let_def
    by (intro ids_steps) simp_all
  show "keeps (\<lambda>s. set (w_freeids s) \<subseteq> A) (RemoveSession n) UNIV"
    unfolding RemoveSession_def FindSession_def KickPlayer_def upd_session_def
    by (intro ids_steps) simp_all
  show "keeps (\<lambda>s. set (w_freeids s) \<subseteq> A) WorldSocket_Update UNIV"
    by (simp add: triple_def WorldSocket_Update_def)
qed

text \<open>Ids leave the pool and never come back: whatever the network side does, removals included, no id
  is free afterwards that was not free before. So once 31 clients have joined, every later one gets
  the id 0xFF, and its session replaces the one that had it in the table.\<close>

theorem free_ids_never_grow:
  assumes "net_step\<^sup>*\<^sup>* s s'"
  shows "set (w_freeids s') \<subseteq> set (w_freeids s) \<and> (w_freeids s = [] \<longrightarrow> join_id s' = 0xFF)"
proof -
  have "set (w_freeids s') \<subseteq> set (w_freeids s)" using assms
  proof (induction rule: rtranclp_induct)
    case (step y z)
    from step.hyps(2) show ?case
      by (rule net_stepE)
        (use step.IH in \<open>blast dest: tripleD(1) [OF keeps_ids_ops(1)] tripleD(1) [OF keeps_ids_ops(2)]
          tripleD(1) [OF keeps_ids_ops(3)]\<close>)+
  qed simp
  then show ?thesis by (auto simp: join_id_def)
qed

theorem free_ids_never_grow_witness:
  "let s = after_join (IPtoClientAddr 1 2) new_server
   in \<exists>s'. RemoveSession 1 s = Inr (True, s') \<and> set (w_freeids s') \<subseteq> set (w_freeids s) \<and> 1 \<notin> set (w_freeids s')"
proof -
  let ?s = "after_join (IPtoClientAddr 1 2) new_server"
  obtain s' where r: "RemoveSession 1 ?s = Inr (True, s')" using remove_joined by blast
  have "1 \<notin> set (w_freeids ?s)" by (simp add: after_join_new initial_freeids_def)
  then show ?thesis
    using r free_ids_never_grow [OF r_into_rtranclp [of net_step, OF net_step.removed [OF r]]] by (auto simp: Let_def)
qed

end
