(* ===== verification/Object_Mgr.thy ===== *)
theory Object_Mgr
  imports Session_Table
begin

text \<open>
  The registry of objects: class \<open>ObjectMgr\<close> (\<open>src/src/game/ObjectMgr.{h,cpp}\<close>), with the parts of
  \<open>Object\<close> and \<open>ObjectAccessor\<close> that put an object into the world and take it out.

  Every object has an extent, the 15-bit number clients know it by. \<open>objectExtents\<close> maps extents to
  objects, \<open>objectTable\<close> is the set of all objects. Extent 0 is invalid; \<open>RequestExtent\<close> returns it when
  no extent is free, and the object is then stored at index 0.

  The array of extents starts empty here (the constructor of \<open>ObjectMgr\<close> clears \<open>MAX_EXTENT\<close> bytes of it
  rather than \<open>MAX_EXTENT + 1\<close> pointers).
\<close>

section \<open>Objects and their types\<close>

definition MAX_EXTENT :: u16 where
  "MAX_EXTENT = 0x7FFF"

definition INVALID_EXTENT :: u16 where
  "INVALID_EXTENT = 0"

definition PLAYER_TYPE :: u16 where
  "PLAYER_TYPE = 0x2C9"

definition GetExtent :: "nat \<Rightarrow> u16 game" where
  "GetExtent a = gbind (get_object a) (\<lambda>ob. gret (ob_extent ob))"

definition GetType :: "nat \<Rightarrow> u16 game" where
  "GetType a = gbind (get_object a) (\<lambda>ob. gret (ob_type ob))"

definition GetPosition :: "nat \<Rightarrow> grid_pair game" where
  "GetPosition a = gbind (get_object a) (\<lambda>ob. gret (ob_center ob))"

definition GetPositionX :: "nat \<Rightarrow> u16 game" where
  "GetPositionX a = gbind (get_object a) (\<lambda>ob. gret (ucast (fst (ob_center ob))))"

definition GetPositionY :: "nat \<Rightarrow> u16 game" where
  "GetPositionY a = gbind (get_object a) (\<lambda>ob. gret (ucast (snd (ob_center ob))))"

text \<open>\<open>sThingBin.Thing.Object.Objects.Get(GetType()-1)\<close>, null outside the table.\<close>

definition info_of_type :: "env \<Rightarrow> u16 \<Rightarrow> thing_info option" where
  "info_of_type E t =
     (if 1 \<le> unat t \<and> unat t \<le> length (e_things E) then Some (e_things E ! (unat t - 1)) else None)"

text \<open>\<open>strncmp(a, b, n) == 0\<close> for C strings.\<close>

definition same_upto :: "nat \<Rightarrow> string \<Rightarrow> string \<Rightarrow> bool" where
  "same_upto n a b \<longleftrightarrow> take n a = take n b"

text \<open>\<open>GNHTSTRUCT::GetIndex\<close>: the number of the first object type of this name, counting from 1 in 16 bits; 0 if none.
  At least 50 characters are compared.\<close>

fun index_from :: "u16 \<Rightarrow> nat \<Rightarrow> string \<Rightarrow> thing_info list \<Rightarrow> u16" where
  "index_from i n name [] = 0"
| "index_from i n name (info # infos) =
     (if same_upto n (th_Name info) name then i + 1 else index_from (i + 1) n name infos)"

definition GetIndex :: "string \<Rightarrow> nat \<Rightarrow> thing_info list \<Rightarrow> u16" where
  "GetIndex name mx things = index_from 0 (max 50 mx) name things"

definition GetObjectInfo :: "env \<Rightarrow> nat \<Rightarrow> thing_info game" where
  "GetObjectInfo E a = gbind (get_object a) (\<lambda>ob. deref (info_of_type E (ob_type ob)))"

definition IsImmobile :: "env \<Rightarrow> nat \<Rightarrow> bool game" where
  "IsImmobile E a =
     gbind (get_object a) (\<lambda>ob.
       if ob_kind ob = KWall then gret True
       else gbind (GetObjectInfo E a) (\<lambda>info. gret (th_classes info AND CLASS_IMMOBILE \<noteq> 0)))"

section \<open>The table of extents\<close>

definition GetImmobileObj :: "u16 \<Rightarrow> nat option game" where
  "GetImmobileObj extent =
     (if extent > MAX_EXTENT then gret None else gget (\<lambda>s. om_objectExtents s extent))"

definition GetObj :: "env \<Rightarrow> u16 \<Rightarrow> nat option game" where
  "GetObj E extent =
     gbind (GetImmobileObj extent) (\<lambda>obj. case obj of
       None \<Rightarrow> gret None
     | Some a \<Rightarrow> gbind (IsImmobile E a) (\<lambda>im. gret (if \<not> im then Some a else None)))"

definition IsExtentAvailable :: "u16 \<Rightarrow> bool game" where
  "IsExtentAvailable extent =
     gget (\<lambda>s. \<not> (extent = 0 \<or> extent > MAX_EXTENT \<or> om_objectExtents s extent \<noteq> None))"

text \<open>The loop of \<open>RequestExtent\<close>, from index \<open>e\<close>.\<close>

function scan_extents :: "(u16 \<Rightarrow> nat option) \<Rightarrow> nat \<Rightarrow> nat" where
  "scan_extents t e = (if e < 0x8000 \<and> t (of_nat e) \<noteq> None then scan_extents t (e + 1) else e)"
  by auto
termination by (relation "measure (\<lambda>(t, e). 0x8000 - e)") auto

declare scan_extents.simps [simp del]

definition RequestExtent :: "u16 game" where
  "RequestExtent =
     gget (\<lambda>s. let e = scan_extents (om_objectExtents s) 1 in if e \<ge> 0x8000 then INVALID_EXTENT else of_nat e)"

definition set_extent :: "u16 \<Rightarrow> nat option \<Rightarrow> unit game" where
  "set_extent extent p =
     (if extent > MAX_EXTENT then gfail OutOfBounds
      else gmod (\<lambda>s. s\<lparr>om_objectExtents := (om_objectExtents s)(extent := p)\<rparr>))"

definition AddObject :: "env \<Rightarrow> nat \<Rightarrow> unit game" where
  "AddObject E obj =
     gbind (GetExtent obj) (\<lambda>extent.
     gbind (GetObj E extent) (\<lambda>found.
       if found = Some obj then gret ()
       else gbind (IsExtentAvailable extent) (\<lambda>free.
         gseq [gwhen (extent = 0 \<or> \<not> free)
                 (gbind RequestExtent (\<lambda>e. upd_object obj (\<lambda>ob. ob\<lparr>ob_extent := e\<rparr>))),
               gbind (GetExtent obj) (\<lambda>e. set_extent e (Some obj)),
               gmod (\<lambda>s. s\<lparr>om_objectTable := set_add obj (om_objectTable s)\<rparr>),
               gbind (GetType obj) (\<lambda>t.
                 gwhen (t = PLAYER_TYPE) (gmod (\<lambda>s. s\<lparr>om_playerList := set_add obj (om_playerList s)\<rparr>)))])))"

definition RemoveObject :: "nat \<Rightarrow> bool game" where
  "RemoveObject obj =
     gbind (gget om_objectTable) (\<lambda>table.
       if obj \<notin> set table then gret False
       else gthen (gmod (\<lambda>s. s\<lparr>om_objectTable := set_del obj (om_objectTable s)\<rparr>))
           (gthen (gbind (GetType obj) (\<lambda>t.
              gwhen (t = PLAYER_TYPE) (gmod (\<lambda>s. s\<lparr>om_playerList := set_del obj (om_playerList s)\<rparr>))))
           (gthen (gbind (GetExtent obj) (\<lambda>e. set_extent e None)) (gret True))))"

definition ChangeObjectExtent :: "env \<Rightarrow> nat \<Rightarrow> u16 \<Rightarrow> bool game" where
  "ChangeObjectExtent E obj newExtent =
     gbind (IsExtentAvailable newExtent) (\<lambda>free.
       if \<not> free then gret False
       else gthen (gvoid (RemoveObject obj))
           (gthen (upd_object obj (\<lambda>ob. ob\<lparr>ob_extent := newExtent\<rparr>))
           (gthen (AddObject E obj) (gret True))))"

definition ContainsObject :: "nat \<Rightarrow> bool game" where
  "ContainsObject obj = gbind (GetExtent obj) (\<lambda>e. gget (\<lambda>s. om_objectExtents s e \<noteq> None))"

text \<open>A loop that keeps the elements a step says yes to.\<close>

primrec gfilter :: "('a \<Rightarrow> bool game) \<Rightarrow> 'a list \<Rightarrow> 'a list game" where
  "gfilter f [] = gret []"
| "gfilter f (x # xs) =
     gbind (f x) (\<lambda>b. gbind (gfilter f xs) (\<lambda>ys. gret (if b then x # ys else ys)))"

definition GetObjectsInRect :: "env \<Rightarrow> grid_pair \<Rightarrow> grid_pair \<Rightarrow> nat list game" where
  "GetObjectsInRect E leftTop rightBottom =
     gbind (gget om_objectTable) (\<lambda>table.
     gfilter (\<lambda>a. gbind (IsImmobile E a) (\<lambda>im.
       if im then gret False
       else gbind (GetPosition a) (\<lambda>pos. gret (pair_in pos leftTop rightBottom)))) table)"

section \<open>Into the world and out of it\<close>

definition AddUpdateObject :: "nat \<Rightarrow> unit game" where
  "AddUpdateObject obj = gmod (\<lambda>s. s\<lparr>oa_objects := set_add obj (oa_objects s)\<rparr>)"

definition RemoveUpdateObject :: "nat \<Rightarrow> unit game" where
  "RemoveUpdateObject obj = gmod (\<lambda>s. s\<lparr>oa_objects := set_del obj (oa_objects s)\<rparr>)"

definition AddToWorld :: "env \<Rightarrow> nat \<Rightarrow> unit game" where
  "AddToWorld E obj =
     gthen (AddObject E obj)
    (gbind (GetObjectInfo E obj) (\<lambda>info. gwhen (th_update info \<noteq> UPDATE_NONE) (AddUpdateObject obj)))"

definition RemoveFromWorld :: "nat \<Rightarrow> unit game" where
  "RemoveFromWorld obj = gthen (gvoid (RemoveObject obj)) (RemoveUpdateObject obj)"

text \<open>The collision mask a body gets: the default of the physics library or of the collision table (both
  all ones), or none for an object type that does not collide.\<close>

definition collide_mask :: "thing_info \<Rightarrow> u32" where
  "collide_mask info =
     (if th_flags info AND (FLAG_ALLOW_OVERLAP OR FLAG_NO_COLLIDE OR FLAG_BELOW) \<noteq> 0 then 0 else 0xFFFFFFFF)"

definition blank_object :: "object_kind \<Rightarrow> u16 \<Rightarrow> grid_pair \<Rightarrow> u16 \<Rightarrow> u32 \<Rightarrow> nox_object" where
  "blank_object kind type pos extent cmask =
     \<lparr>ob_kind = kind, ob_extent = extent, ob_type = type, ob_center = pos, ob_cmask = cmask, ob_velocity = None,
      ob_max_health = 0, ob_health = 0, ob_delta_health = 0, ob_combined_health = 0, ob_max_mana = 0,
      ob_mana = 0, ob_update_timer = 0, ob_inventory = [], ob_flags = 0, ob_props1 = 0,
      ob_props2 = 0, ob_worth = 0, wo_updateMask = 0, wo_teamId = 0\<rparr>"

text \<open>The constructor of \<open>Object\<close>; \<open>extent\<close> is an \<open>int16\<close>, and any but 0 puts the object into the world.\<close>

definition new_object :: "env \<Rightarrow> object_kind \<Rightarrow> u16 \<Rightarrow> grid_pair \<Rightarrow> u16 \<Rightarrow> nat game" where
  "new_object E kind type pos extent =
     gbind (deref (info_of_type E type)) (\<lambda>info.
     gbind new_address (\<lambda>a.
     gthen (gmod (\<lambda>s. s\<lparr>sv_objects := (sv_objects s)(a \<mapsto>
       blank_object kind type pos (if extent > MAX_EXTENT then 0 else extent) (collide_mask info))\<rparr>))
    (gthen (gwhen (extent \<noteq> 0) (AddToWorld E a)) (gret a))))"

text \<open>\<open>delete obj\<close>.\<close>

definition delete_object :: "nat \<Rightarrow> unit game" where
  "delete_object a =
     gthen (gvoid (get_object a))
    (gthen (RemoveFromWorld a)
    (gmod (\<lambda>s. s\<lparr>sv_objects := (sv_objects s)(a := None), sv_units := (sv_units s)(a := None),
                 sv_players := (sv_players s)(a := None)\<rparr>)))"

section \<open>The invariant of the registry\<close>

text \<open>
  Every entry of the extent table is a registered object with this extent; a registered object with a
  valid extent is found under it; registered objects are alive and of a known type.
\<close>

definition known_type :: "env \<Rightarrow> nox_object \<Rightarrow> bool" where
  "known_type E ob \<longleftrightarrow> ob_kind ob = KWall \<or> info_of_type E (ob_type ob) \<noteq> None"

definition registry_ok :: "env \<Rightarrow> server \<Rightarrow> bool" where
  "registry_ok E s \<longleftrightarrow>
     (\<forall>e a. om_objectExtents s e = Some a \<longrightarrow>
        a \<in> set (om_objectTable s) \<and> map_option ob_extent (sv_objects s a) = Some e \<and> e \<le> MAX_EXTENT) \<and>
     (\<forall>a \<in> set (om_objectTable s). \<exists>ob. sv_objects s a = Some ob \<and> known_type E ob \<and> ob_extent ob \<le> MAX_EXTENT \<and>
        (ob_extent ob \<noteq> 0 \<longrightarrow> om_objectExtents s (ob_extent ob) = Some a)) \<and>
     sorted (om_objectTable s) \<and> distinct (om_objectTable s)"

lemma registry_object:
  assumes "registry_ok E s" "a \<in> set (om_objectTable s)"
  shows "\<exists>ob. sv_objects s a = Some ob \<and> known_type E ob \<and> ob_extent ob \<le> MAX_EXTENT \<and>
    (ob_extent ob \<noteq> 0 \<longrightarrow> om_objectExtents s (ob_extent ob) = Some a)"
  using assms unfolding registry_ok_def by blast

lemma registry_entry:
  assumes "registry_ok E s" "om_objectExtents s e = Some a"
  shows "a \<in> set (om_objectTable s)" "map_option ob_extent (sv_objects s a) = Some e" "e \<le> MAX_EXTENT"
  using assms unfolding registry_ok_def by blast+

lemma IsImmobile_known:
  assumes "sv_objects s a = Some ob" "known_type E ob"
  shows "\<exists>b. IsImmobile E a s = Inr (b, s)"
  using assms by (auto simp: IsImmobile_def known_type_def GetObjectInfo_def deref_def get_object_def step_simps)

lemma GetObj_total:
  assumes "registry_ok E s"
  shows "\<exists>p. GetObj E e s = Inr (p, s) \<and> (p = None \<or> p = om_objectExtents s e \<and> e \<le> MAX_EXTENT)"
proof (cases "e \<le> MAX_EXTENT \<and> om_objectExtents s e \<noteq> None")
  case True
  then obtain a where a: "om_objectExtents s e = Some a" by blast
  then obtain ob where "sv_objects s a = Some ob" "known_type E ob"
    using registry_object [OF assms registry_entry(1) [OF assms a]] by blast
  then obtain b where "IsImmobile E a s = Inr (b, s)" using IsImmobile_known by blast
  then show ?thesis
    using True a by (cases b) (auto simp: GetObj_def GetImmobileObj_def step_simps not_le [symmetric])
next
  case False
  then show ?thesis by (auto simp: GetObj_def GetImmobileObj_def step_simps)
qed

section \<open>Free extents\<close>

lemma scan_extents_result:
  "e \<le> 0x8000 \<Longrightarrow> scan_extents t e \<le> 0x8000 \<and> e \<le> scan_extents t e \<and>
   (\<forall>i. e \<le> i \<and> i < scan_extents t e \<longrightarrow> t (of_nat i) \<noteq> None) \<and>
   (scan_extents t e < 0x8000 \<longrightarrow> t (of_nat (scan_extents t e)) = None)"
proof (induction t e rule: scan_extents.induct)
  case (1 t e)
  show ?case
  proof (cases "e < 0x8000 \<and> t (of_nat e) \<noteq> None")
    case True
    then have eq: "scan_extents t e = scan_extents t (e + 1)" by (simp add: scan_extents.simps [of t e])
    have "t (of_nat i) \<noteq> None" if "e \<le> i" "i < scan_extents t (e + 1)" for i
      using "1.IH" [OF True] True that by (cases "i = e") auto
    then show ?thesis using "1.IH" [OF True] True unfolding eq by auto
  next
    case False
    then have "scan_extents t e = e" by (subst scan_extents.simps) auto
    then show ?thesis using False "1.prems" by auto
  qed
qed

text \<open>The extents that may be handed out, and the one that is.\<close>

definition free_extents :: "server \<Rightarrow> u16 set" where
  "free_extents s = {e. 0 < e \<and> e \<le> MAX_EXTENT \<and> om_objectExtents s e = None}"

lemma RequestExtent_least:
  "\<exists>e. RequestExtent s = Inr (e, s) \<and>
    (if free_extents s = {} then e = 0 else e \<in> free_extents s \<and> (\<forall>e' \<in> free_extents s. e \<le> e'))"
proof -
  let ?t = "om_objectExtents s"
  define n where "n = scan_extents ?t 1"
  have n: "1 \<le> n" "n \<le> 0x8000" "\<And>i. 1 \<le> i \<Longrightarrow> i < n \<Longrightarrow> ?t (of_nat i) \<noteq> None" "n < 0x8000 \<Longrightarrow> ?t (of_nat n) = None"
    using scan_extents_result [of 1 ?t] by (auto simp: n_def)
  have le: "n \<le> unat e" if "e \<in> free_extents s" for e
  proof (rule ccontr)
    assume "\<not> n \<le> unat e"
    moreover have "1 \<le> unat e" using that by (simp add: free_extents_def unat_gt_0 Suc_leI word_gt_0)
    ultimately have "?t (of_nat (unat e)) \<noteq> None" by (intro n(3)) auto
    then show False using that by (simp add: free_extents_def)
  qed
  have lt: "unat e < 0x8000" if "e \<in> free_extents s" for e
    using that by (simp add: free_extents_def MAX_EXTENT_def word_le_nat_alt)
  have req: "RequestExtent s = Inr (if n \<ge> 0x8000 then 0 else of_nat n, s)"
    by (simp add: RequestExtent_def gget_def Let_def INVALID_EXTENT_def n_def)
  show ?thesis
  proof (cases "n < 0x8000")
    case True
    then have u: "unat (of_nat n :: u16) = n" by (simp add: unsigned_of_nat take_bit_nat_eq_self)
    have "of_nat n \<in> free_extents s"
      using n True u by (simp add: free_extents_def MAX_EXTENT_def word_le_nat_alt word_less_nat_alt)
    moreover have "of_nat n \<le> e'" if "e' \<in> free_extents s" for e'
      using le [OF that] u by (simp add: word_le_nat_alt)
    ultimately show ?thesis using True by (auto simp: req)
  next
    case False
    then have "free_extents s = {}" using le lt by fastforce
    then show ?thesis using False by (auto simp: req)
  qed
qed

section \<open>Registering an object\<close>

text \<open>The extent an object gets.\<close>

definition gets_extent :: "server \<Rightarrow> u16 \<Rightarrow> u16 \<Rightarrow> bool" where
  "gets_extent s old e \<longleftrightarrow>
     (if old \<in> free_extents s then e = old
      else if free_extents s = {} then e = 0
      else e \<in> free_extents s \<and> (\<forall>e' \<in> free_extents s. e \<le> e'))"

definition registered :: "nat \<Rightarrow> nox_object \<Rightarrow> u16 \<Rightarrow> server \<Rightarrow> server" where
  "registered a ob e s =
     s\<lparr>sv_objects := (sv_objects s)(a \<mapsto> ob\<lparr>ob_extent := e\<rparr>),
       om_objectExtents := (om_objectExtents s)(e \<mapsto> a), om_objectTable := set_add a (om_objectTable s),
       om_playerList := (if ob_type ob = PLAYER_TYPE then set_add a (om_playerList s) else om_playerList s)\<rparr>"

lemma IsExtentAvailable_result: "IsExtentAvailable e s = Inr (e \<in> free_extents s, s)"
  by (auto simp: IsExtentAvailable_def gget_def free_extents_def word_gt_0)

lemma AddObject_result:
  assumes ok: "registry_ok E s" and a: "sv_objects s a = Some ob" "a \<notin> set (om_objectTable s)"
  shows "\<exists>e. AddObject E a s = Inr ((), registered a ob e s) \<and> gets_extent s (ob_extent ob) e"
proof -
  have other: "om_objectExtents s (ob_extent ob) \<noteq> Some a" using registry_entry(1) [OF ok] a(2) by blast
  then obtain p where p: "GetObj E (ob_extent ob) s = Inr (p, s)" "p \<noteq> Some a"
    using GetObj_total [OF ok, of "ob_extent ob"] by auto
  obtain r where r: "RequestExtent s = Inr (r, s)"
      "if free_extents s = {} then r = 0 else r \<in> free_extents s \<and> (\<forall>e' \<in> free_extents s. r \<le> e')"
    using RequestExtent_least [of s] by blast
  define e where "e = (if ob_extent ob \<in> free_extents s then ob_extent ob else r)"
  have e: "gets_extent s (ob_extent ob) e" using r(2) by (auto simp: gets_extent_def e_def)
  have "AddObject E a s = Inr ((), registered a ob e s)"
  proof (cases "ob_extent ob \<in> free_extents s")
    case True
    then have "ob_extent ob \<noteq> 0" "\<not> MAX_EXTENT < ob_extent ob" by (auto simp: free_extents_def)
    then show ?thesis
      using a(1) p True
      by (auto simp: AddObject_def GetExtent_def GetType_def get_object_def set_extent_def step_simps
          IsExtentAvailable_result registered_def e_def fun_upd_idem)
  next
    case False
    then have "\<not> MAX_EXTENT < r" using r(2) by (auto simp: free_extents_def split: if_splits)
    then show ?thesis
      using a(1) p False r(1)
      by (auto simp: AddObject_def GetExtent_def GetType_def get_object_def upd_object_def set_extent_def step_simps
          IsExtentAvailable_result registered_def e_def)
  qed
  then show ?thesis using e by blast
qed

lemma registry_registered:
  assumes ok: "registry_ok E s" and a: "known_type E ob" "a \<notin> set (om_objectTable s)"
    and e: "gets_extent s old e"
  shows "registry_ok E (registered a ob e s)"
proof -
  have free: "e = 0 \<or> om_objectExtents s e = None" "e \<le> MAX_EXTENT"
    using e by (auto simp: gets_extent_def free_extents_def split: if_splits)
  have other: "a' \<noteq> a" if "om_objectExtents s e' = Some a'" for e' a'
    using registry_entry(1) [OF ok that] a(2) by auto
  have "sorted (set_add a (om_objectTable s))" "distinct (set_add a (om_objectTable s))"
    using ok by (simp_all add: registry_ok_def sorted_set_add distinct_set_add)
  moreover have "\<exists>ob'. sv_objects (registered a ob e s) b = Some ob' \<and> known_type E ob' \<and> ob_extent ob' \<le> MAX_EXTENT \<and>
      (ob_extent ob' \<noteq> 0 \<longrightarrow> om_objectExtents (registered a ob e s) (ob_extent ob') = Some b)"
    if b: "b \<in> insert a (set (om_objectTable s))" for b
  proof (cases "b = a")
    case True
    then show ?thesis using a(1) free by (simp add: registered_def known_type_def)
  next
    case False
    then obtain ob' where ob': "sv_objects s b = Some ob'" "known_type E ob'" "ob_extent ob' \<le> MAX_EXTENT"
        "ob_extent ob' \<noteq> 0 \<longrightarrow> om_objectExtents s (ob_extent ob') = Some b"
      using b registry_object [OF ok, of b] by blast
    then show ?thesis using False free(1) by (auto simp: registered_def)
  qed
  moreover have "a' \<in> insert a (set (om_objectTable s)) \<and>
      map_option ob_extent (sv_objects (registered a ob e s) a') = Some e' \<and> e' \<le> MAX_EXTENT"
    if "om_objectExtents (registered a ob e s) e' = Some a'" for e' a'
    using that registry_entry [OF ok, of e' a'] other [of e' a'] free(2) by (auto simp: registered_def split: if_splits)
  ultimately show ?thesis unfolding registry_ok_def by (auto simp: registered_def)
qed

text \<open>C7: registering an object that is not in the world never fails, keeps the registry consistent and makes
  the object found under its extent: the one it asks for when this is free, else the least free one, or
  the invalid extent 0 when none is left. No other object changes.\<close>

theorem AddObject_registers:
  assumes "registry_ok E s" "sv_objects s a = Some ob" "known_type E ob" "a \<notin> set (om_objectTable s)"
  shows "\<exists>e s'. AddObject E a s = Inr ((), s') \<and> registry_ok E s' \<and> gets_extent s (ob_extent ob) e \<and>
    sv_objects s' = (sv_objects s)(a \<mapsto> ob\<lparr>ob_extent := e\<rparr>) \<and> om_objectExtents s' e = Some a \<and>
    set (om_objectTable s') = insert a (set (om_objectTable s)) \<and>
    (\<forall>e'. e' \<noteq> e \<longrightarrow> om_objectExtents s' e' = om_objectExtents s e')"
proof -
  obtain e where e: "AddObject E a s = Inr ((), registered a ob e s)" "gets_extent s (ob_extent ob) e"
    using AddObject_result [OF assms(1,2,4)] by blast
  then show ?thesis
    using registry_registered [OF assms(1,3,4) e(2)]
    by (intro exI [of _ e] exI [of _ "registered a ob e s"]) (simp add: registered_def)
qed

text \<open>A world of one object type, and an object of it.\<close>

definition sample_thing :: thing_info where
  "sample_thing =
     \<lparr>th_Name = ''Longsword'', th_flags = 0, th_classes = 0, th_subclass = 0, th_collide = 0, th_update = 0,
      th_pickup = 0, th_use = 0, th_xfer = 0, th_use_args = [], th_collide_args = []\<rparr>"

definition sample_env :: env where
  "sample_env =
     \<lparr>e_things = [sample_thing], e_config = (\<lambda>_. None), e_time = 0, e_drop_offset = (\<lambda>_ _. (0, 0)), e_nan = 0,
      e_map = \<lparr>mf_checksum = 0, mf_nxz = None, mf_nxzname = []\<rparr>\<rparr>"

lemma sample_known: "known_type sample_env (blank_object KWorldObject 1 p x m)"
  by (simp add: known_type_def info_of_type_def sample_env_def blank_object_def)

lemma registry_new: "registry_ok E (new_server\<lparr>sv_objects := h\<rparr>)"
  by (simp add: registry_ok_def new_server_def)

lemma free_extents_new: "free_extents (new_server\<lparr>sv_objects := h\<rparr>) = {e. 0 < e \<and> e \<le> MAX_EXTENT}"
  by (auto simp: free_extents_def new_server_def)

theorem AddObject_registers_witness:
  "let ob = blank_object KWorldObject 1 (10, 20) 7 0; s = new_server\<lparr>sv_objects := [3 \<mapsto> ob]\<rparr>
   in \<exists>s'. AddObject sample_env 3 s = Inr ((), s') \<and> om_objectExtents s' 7 = Some 3 \<and> om_objectTable s' = [3]"
proof -
  let ?ob = "blank_object KWorldObject 1 (10, 20) 7 0"
  let ?s = "new_server\<lparr>sv_objects := [3 \<mapsto> ?ob]\<rparr>"
  have "(7::u16) \<in> free_extents ?s" by (simp add: free_extents_new MAX_EXTENT_def)
  moreover have "ob_extent ?ob = 7" by (simp add: blank_object_def)
  moreover have "om_objectTable ?s = []" by (simp add: new_server_def)
  ultimately obtain s' where s': "AddObject sample_env 3 ?s = Inr ((), s')" "registry_ok sample_env s'"
      "om_objectExtents s' 7 = Some 3" "set (om_objectTable s') = {3}"
    using AddObject_registers [OF registry_new _ sample_known, of "[3 \<mapsto> ?ob]" 3 "(10, 20)" 7 0]
    by (auto simp: gets_extent_def)
  moreover have "om_objectTable s' = [3]"
    using s'(2,4) by (metis list.set(1,2) registry_ok_def sorted_distinct_set_unique sorted1 distinct_singleton)
  ultimately show ?thesis by (auto simp: Let_def)
qed

section \<open>Removing and renumbering\<close>

definition unregistered :: "nat \<Rightarrow> nox_object \<Rightarrow> server \<Rightarrow> server" where
  "unregistered a ob s =
     s\<lparr>om_objectTable := set_del a (om_objectTable s), om_objectExtents := (om_objectExtents s)(ob_extent ob := None),
       om_playerList := (if ob_type ob = PLAYER_TYPE then set_del a (om_playerList s) else om_playerList s)\<rparr>"

lemma RemoveObject_result:
  assumes "sv_objects s a = Some ob" "ob_extent ob \<le> MAX_EXTENT" "a \<in> set (om_objectTable s)"
  shows "RemoveObject a s = Inr (True, unregistered a ob s)"
  using assms
  by (simp add: RemoveObject_def GetType_def GetExtent_def get_object_def set_extent_def step_simps unregistered_def
      not_less)

lemma registry_unregistered:
  assumes ok: "registry_ok E s" and a: "sv_objects s a = Some ob" "a \<in> set (om_objectTable s)"
  shows "registry_ok E (unregistered a ob s)" and "om_objectExtents (unregistered a ob s) e \<noteq> Some a"
proof -
  have own: "e = ob_extent ob" if "om_objectExtents s e = Some a" for e
    using registry_entry(2) [OF ok that] a(1) by simp
  then show "om_objectExtents (unregistered a ob s) e \<noteq> Some a" by (auto simp: unregistered_def)
  have "sorted (set_del a (om_objectTable s))" "distinct (set_del a (om_objectTable s))"
    using ok by (simp_all add: registry_ok_def sorted_distinct_set_del)
  moreover have "b \<in> set (om_objectTable s) - {a} \<and> map_option ob_extent (sv_objects s b) = Some e' \<and> e' \<le> MAX_EXTENT"
    if "om_objectExtents (unregistered a ob s) e' = Some b" for e' b
    using that registry_entry [OF ok, of e' b] own [of e'] by (auto simp: unregistered_def split: if_splits)
  moreover have "\<exists>ob'. sv_objects s b = Some ob' \<and> known_type E ob' \<and> ob_extent ob' \<le> MAX_EXTENT \<and>
      (ob_extent ob' \<noteq> 0 \<longrightarrow> om_objectExtents (unregistered a ob s) (ob_extent ob') = Some b)"
    if b: "b \<in> set (om_objectTable s) - {a}" for b
  proof -
    obtain ob' where ob': "sv_objects s b = Some ob'" "known_type E ob'" "ob_extent ob' \<le> MAX_EXTENT"
        "ob_extent ob' \<noteq> 0 \<longrightarrow> om_objectExtents s (ob_extent ob') = Some b"
      using b registry_object [OF ok, of b] by blast
    have "ob_extent ob' \<noteq> ob_extent ob" if "ob_extent ob' \<noteq> 0"
      using registry_object [OF ok a(2)] a(1) ob'(4) that b by auto
    then show ?thesis using ob' by (auto simp: unregistered_def)
  qed
  ultimately show "registry_ok E (unregistered a ob s)"
    unfolding registry_ok_def by (simp add: unregistered_def)
qed

text \<open>Removing is the inverse of registering: it fails only for an object that is not registered, keeps
  the registry consistent, and leaves no extent that names the object; and an object that was registered
  under a valid extent and is removed again leaves the extent table as it was.\<close>

theorem RemoveObject_unregisters:
  assumes "registry_ok E s" "sv_objects s a = Some ob"
  shows "(a \<notin> set (om_objectTable s) \<longrightarrow> RemoveObject a s = Inr (False, s)) \<and>
    (a \<in> set (om_objectTable s) \<longrightarrow>
      (\<exists>s'. RemoveObject a s = Inr (True, s') \<and> registry_ok E s' \<and> sv_objects s' = sv_objects s \<and>
        set (om_objectTable s') = set (om_objectTable s) - {a} \<and> (\<forall>e. om_objectExtents s' e \<noteq> Some a))) \<and>
    (a \<notin> set (om_objectTable s) \<and> known_type E ob \<and> free_extents s \<noteq> {} \<longrightarrow>
      (\<exists>s1 s2. AddObject E a s = Inr ((), s1) \<and> RemoveObject a s1 = Inr (True, s2) \<and>
        om_objectExtents s2 = om_objectExtents s \<and> om_objectTable s2 = om_objectTable s))"
proof (intro conjI impI)
  assume "a \<notin> set (om_objectTable s)"
  then show "RemoveObject a s = Inr (False, s)" by (simp add: RemoveObject_def step_simps)
next
  assume a: "a \<in> set (om_objectTable s)"
  then have "ob_extent ob \<le> MAX_EXTENT" using registry_object [OF assms(1) a] assms(2) by auto
  then have "RemoveObject a s = Inr (True, unregistered a ob s)" using RemoveObject_result assms(2) a by blast
  then show "\<exists>s'. RemoveObject a s = Inr (True, s') \<and> registry_ok E s' \<and> sv_objects s' = sv_objects s \<and>
      set (om_objectTable s') = set (om_objectTable s) - {a} \<and> (\<forall>e. om_objectExtents s' e \<noteq> Some a)"
    using registry_unregistered [OF assms a] by (intro exI [of _ "unregistered a ob s"]) (simp add: unregistered_def)
next
  assume new: "a \<notin> set (om_objectTable s) \<and> known_type E ob \<and> free_extents s \<noteq> {}"
  then obtain e where e: "AddObject E a s = Inr ((), registered a ob e s)" "gets_extent s (ob_extent ob) e"
    using AddObject_result [OF assms] by blast
  have free: "e \<in> free_extents s" using e(2) new by (auto simp: gets_extent_def split: if_splits)
  let ?s1 = "registered a ob e s" and ?ob = "ob\<lparr>ob_extent := e\<rparr>"
  have "RemoveObject a ?s1 = Inr (True, unregistered a ?ob ?s1)"
    using free by (intro RemoveObject_result) (simp_all add: registered_def free_extents_def)
  moreover have "om_objectExtents (unregistered a ?ob ?s1) = om_objectExtents s"
    using free by (simp add: registered_def unregistered_def free_extents_def fun_upd_idem)
  moreover have "om_objectTable (unregistered a ?ob ?s1) = om_objectTable s"
  proof (rule sorted_distinct_set_unique)
    have "registry_ok E (unregistered a ?ob ?s1)"
      using registry_registered [OF assms(1) _ _ e(2)] new by (intro registry_unregistered) (auto simp: registered_def)
    then show "sorted (om_objectTable (unregistered a ?ob ?s1))" "distinct (om_objectTable (unregistered a ?ob ?s1))"
      by (simp_all add: registry_ok_def)
    show "sorted (om_objectTable s)" "distinct (om_objectTable s)" using assms(1) by (simp_all add: registry_ok_def)
    show "set (om_objectTable (unregistered a ?ob ?s1)) = set (om_objectTable s)"
      using new by (auto simp: registered_def unregistered_def)
  qed
  ultimately show "\<exists>s1 s2. AddObject E a s = Inr ((), s1) \<and> RemoveObject a s1 = Inr (True, s2) \<and>
      om_objectExtents s2 = om_objectExtents s \<and> om_objectTable s2 = om_objectTable s"
    using e(1) by blast
qed

theorem RemoveObject_unregisters_witness:
  "let s = new_server\<lparr>sv_objects := [3 \<mapsto> blank_object KWorldObject 1 (10, 20) 7 0]\<rparr>
   in \<exists>s1 s2. AddObject sample_env 3 s = Inr ((), s1) \<and> RemoveObject 3 s1 = Inr (True, s2) \<and>
     om_objectExtents s2 = om_objectExtents s \<and> RemoveObject 3 s = Inr (False, s)"
proof -
  let ?ob = "blank_object KWorldObject 1 (10, 20) 7 0"
  let ?s = "new_server\<lparr>sv_objects := [3 \<mapsto> ?ob]\<rparr>"
  have "(7::u16) \<in> free_extents ?s" by (simp add: free_extents_new MAX_EXTENT_def)
  moreover have "om_objectTable ?s = []" by (simp add: new_server_def)
  ultimately show ?thesis
    using RemoveObject_unregisters [OF registry_new, of "[3 \<mapsto> ?ob]" 3 ?ob sample_env] sample_known [of "(10, 20)" 7 0]
    by (auto simp: Let_def)
qed

lemma gthen_void_Inr: "m s = Inr (x, s') \<Longrightarrow> gthen (gvoid m) n s = n s'"
  by (simp add: step_simps)

text \<open>Giving a registered, movable object another extent works exactly when this extent is free; the
  object is then found under the new extent, and the old one is free again.\<close>

theorem ChangeObjectExtent_moves:
  assumes "registry_ok E s" "sv_objects s a = Some ob" "a \<in> set (om_objectTable s)" "ob_extent ob \<noteq> 0"
  shows "(new \<notin> free_extents s \<longrightarrow> ChangeObjectExtent E a new s = Inr (False, s)) \<and>
    (new \<in> free_extents s \<longrightarrow>
      (\<exists>s'. ChangeObjectExtent E a new s = Inr (True, s') \<and> registry_ok E s' \<and>
        sv_objects s' = (sv_objects s)(a \<mapsto> ob\<lparr>ob_extent := new\<rparr>) \<and>
        om_objectExtents s' = (om_objectExtents s)(ob_extent ob := None, new \<mapsto> a)))"
proof (intro conjI impI)
  assume "new \<notin> free_extents s"
  then show "ChangeObjectExtent E a new s = Inr (False, s)"
    by (simp add: ChangeObjectExtent_def gbind_def IsExtentAvailable_result gret_def)
next
  assume new: "new \<in> free_extents s"
  have ob: "known_type E ob" "ob_extent ob \<le> MAX_EXTENT" "om_objectExtents s (ob_extent ob) = Some a"
    using registry_object [OF assms(1,3)] assms(2,4) by auto
  then have ne: "new \<noteq> ob_extent ob" using new by (auto simp: free_extents_def)
  let ?s1 = "unregistered a ob s" and ?ob = "ob\<lparr>ob_extent := new\<rparr>"
  let ?s2 = "?s1\<lparr>sv_objects := (sv_objects s)(a \<mapsto> ?ob)\<rparr>"
  have remove: "RemoveObject a s = Inr (True, ?s1)" using RemoveObject_result ob(2) assms(2,3) by blast
  have s1: "registry_ok E ?s1" "a \<notin> set (om_objectTable ?s1)" "\<And>e. om_objectExtents ?s1 e \<noteq> Some a"
    using registry_unregistered [OF assms(1-3)] by (auto simp: unregistered_def)
  have s2: "registry_ok E ?s2"
    using s1 unfolding registry_ok_def by (auto simp: unregistered_def split: if_splits)
  have "sv_objects ?s2 a = Some ?ob" "a \<notin> set (om_objectTable ?s2)" using s1(2) by simp_all
  then obtain e where e: "AddObject E a ?s2 = Inr ((), registered a ?ob e ?s2)" "gets_extent ?s2 new e"
    using AddObject_result [OF s2] by fastforce
  have "new \<in> free_extents ?s2" using new ne by (auto simp: free_extents_def unregistered_def)
  then have "e = new" using e(2) by (simp add: gets_extent_def)
  have "upd_object a (\<lambda>ob. ob\<lparr>ob_extent := new\<rparr>) ?s1 = Inr ((), ?s2)"
    using assms(2) by (simp add: upd_object_def get_object_def step_simps unregistered_def)
  then have "ChangeObjectExtent E a new s = Inr (True, registered a ?ob new ?s2)"
    using new e(1) remove \<open>e = new\<close>
    by (simp add: ChangeObjectExtent_def gbind_def IsExtentAvailable_result gthen_def gvoid_def gret_def)
  moreover have "registry_ok E (registered a ?ob new ?s2)"
    using registry_registered [OF s2 _ _ e(2)] ob(1) s1(2) \<open>e = new\<close> by (simp add: known_type_def)
  ultimately show "\<exists>s'. ChangeObjectExtent E a new s = Inr (True, s') \<and> registry_ok E s' \<and>
      sv_objects s' = (sv_objects s)(a \<mapsto> ob\<lparr>ob_extent := new\<rparr>) \<and>
      om_objectExtents s' = (om_objectExtents s)(ob_extent ob := None, new \<mapsto> a)"
    by (intro exI [of _ "registered a ?ob new ?s2"]) (simp add: registered_def unregistered_def)
qed

theorem ChangeObjectExtent_moves_witness:
  "let ob = blank_object KWorldObject 1 (10, 20) 7 0; s = registered 3 ob 7 (new_server\<lparr>sv_objects := [3 \<mapsto> ob]\<rparr>)
   in (\<exists>s'. ChangeObjectExtent sample_env 3 9 s = Inr (True, s') \<and> om_objectExtents s' = [9 \<mapsto> 3]) \<and>
      ChangeObjectExtent sample_env 3 7 s = Inr (False, s)"
proof -
  let ?ob = "blank_object KWorldObject 1 (10, 20) 7 0"
  let ?start = "new_server\<lparr>sv_objects := [3 \<mapsto> ?ob]\<rparr>"
  let ?s = "registered 3 ?ob 7 ?start"
  have "gets_extent ?start 7 7" by (simp add: gets_extent_def free_extents_new MAX_EXTENT_def)
  moreover have "3 \<notin> set (om_objectTable ?start)" by (simp add: new_server_def)
  ultimately have ok: "registry_ok sample_env ?s"
    using registry_registered [OF registry_new sample_known] by blast
  have "sv_objects ?s 3 = Some ?ob" "3 \<in> set (om_objectTable ?s)" "ob_extent ?ob \<noteq> 0" "ob_extent ?ob = 7"
    by (simp_all add: registered_def blank_object_def)
  note w = ChangeObjectExtent_moves [OF ok this(1-3)] and seven = this(4)
  have "om_objectExtents ?s = [7 \<mapsto> 3]" by (simp add: registered_def new_server_def)
  then have "9 \<in> free_extents ?s" "7 \<notin> free_extents ?s" by (simp_all add: free_extents_def MAX_EXTENT_def)
  then show ?thesis
    using w [of 9] w [of 7] \<open>om_objectExtents ?s = [7 \<mapsto> 3]\<close> seven by (auto simp: Let_def)
qed

end
