(* ===== verification/Map_Objects.thy ===== *)
theory Map_Objects
  imports Nox_Buffer Object_Mgr
begin

text \<open>
  Objects and walls out of a map file: \<open>ObjectMgr::CreateObjectFromFile\<close>, the transfer handlers, and
  \<open>NoxWallObject\<close> (\<open>src/src/game/ObjectMgr.cpp\<close>).

  An object in the file is the number of its type in the map's own table of contents, padding to the next multiple of
  eight, the length of its data and the data; the objects it carries follow. The code looks the class of the object
  up with \<open>Objects.Get(type)\<close>, though types count from 1: it is the class of the next object type, and there is none
  for the last (\<open>NullDeref\<close>). All objects are read by \<open>DefaultXferHandler\<close>; the table of handlers by
  object type is filled and not used.

  The end of an object's data is taken from the file and may lie anywhere, also before the object. The recursion over the
  objects carried is a partial function.
\<close>

section \<open>Walls\<close>

type_synonym vec2 = "rat \<times> rat"
type_synonym wall_line = "vec2 \<times> vec2"

text \<open>\<open>NoxWallFacingFlagType\<close>: the directions of the lines of a wall.\<close>

abbreviation (input) WALL_NORTH_FLAG :: u8 where "WALL_NORTH_FLAG \<equiv> 0x01"
abbreviation (input) WALL_WEST_FLAG :: u8 where "WALL_WEST_FLAG \<equiv> 0x02"
abbreviation (input) WALL_SOUTH_FLAG :: u8 where "WALL_SOUTH_FLAG \<equiv> 0x04"
abbreviation (input) WALL_EAST_FLAG :: u8 where "WALL_EAST_FLAG \<equiv> 0x08"
abbreviation (input) WALL_SW_CORNER_FLAG :: u8 where "WALL_SW_CORNER_FLAG \<equiv> 0x06"
abbreviation (input) WALL_NW_CORNER_FLAG :: u8 where "WALL_NW_CORNER_FLAG \<equiv> 0x03"
abbreviation (input) WALL_NE_CORNER_FLAG :: u8 where "WALL_NE_CORNER_FLAG \<equiv> 0x09"
abbreviation (input) WALL_SE_CORNER_FLAG :: u8 where "WALL_SE_CORNER_FLAG \<equiv> 0x0C"

text \<open>\<open>CreateWall\<close>: lines from the centre of the wall's square to its corners.\<close>

definition CreateWall :: "u8 \<times> u8 \<Rightarrow> u8 \<Rightarrow> wall_line list" where
  "CreateWall pos flags =
     (let wallSize = 23; halfSize = 23 / 2;
          x = of_int (uint (fst pos)) * wallSize + halfSize;
          y = of_int (uint (snd pos)) * wallSize + halfSize
      in (if flags AND WALL_NORTH_FLAG \<noteq> 0 then [((x, y), (x + halfSize, y - halfSize))] else []) @
         (if flags AND WALL_SOUTH_FLAG \<noteq> 0 then [((x, y), (x - halfSize, y + halfSize))] else []) @
         (if flags AND WALL_EAST_FLAG \<noteq> 0 then [((x, y), (x + halfSize, y + halfSize))] else []) @
         (if flags AND WALL_WEST_FLAG \<noteq> 0 then [((x, y), (x - halfSize, y - halfSize))] else []))"

definition wall_flags :: "u8 \<Rightarrow> u8" where
  "wall_flags facing =
     (if facing = WALL_NORTH then WALL_NORTH_FLAG OR WALL_SOUTH_FLAG
      else if facing = WALL_WEST then WALL_EAST_FLAG OR WALL_WEST_FLAG
      else if facing = WALL_SW_CORNER then WALL_WEST_FLAG OR WALL_NORTH_FLAG
      else if facing = WALL_NW_CORNER then WALL_NORTH_FLAG OR WALL_EAST_FLAG
      else if facing = WALL_NE_CORNER then WALL_SOUTH_FLAG OR WALL_EAST_FLAG
      else if facing = WALL_SE_CORNER then WALL_WEST_FLAG OR WALL_SOUTH_FLAG
      else if facing = WALL_SOUTH_T then WALL_WEST_FLAG OR WALL_NORTH_FLAG OR WALL_SOUTH_FLAG
      else if facing = WALL_EAST_T then WALL_NORTH_FLAG OR WALL_EAST_FLAG OR WALL_WEST_FLAG
      else if facing = WALL_NORTH_T then WALL_SOUTH_FLAG OR WALL_EAST_FLAG OR WALL_NORTH_FLAG
      else if facing = WALL_WEST_T then WALL_WEST_FLAG OR WALL_EAST_FLAG OR WALL_SOUTH_FLAG
      else WALL_NORTH_FLAG OR WALL_SOUTH_FLAG)"

definition NoxWallObject_AddWall :: "u8 \<times> u8 \<Rightarrow> u8 \<Rightarrow> wall_line list list \<Rightarrow> wall_line list list" where
  "NoxWallObject_AddWall pos facing shape = shape @ [CreateWall pos (wall_flags facing)]"

text \<open>The object \<open>collisionWalls\<close> itself, a member of \<open>ObjectMgr\<close>; here it gets its address when it is put into
  the table of objects.\<close>

definition wall_object :: nox_object where
  "wall_object = blank_object KWall 0 (0, 0) 0 1"

definition AddCollisionWalls :: "nat option \<Rightarrow> nat option game" where
  "AddCollisionWalls walls =
     gbind (case walls of
              Some a \<Rightarrow> gret a
            | None \<Rightarrow> gbind new_address (\<lambda>a.
                gthen (gmod (\<lambda>s. s\<lparr>sv_objects := (sv_objects s)(a \<mapsto> wall_object)\<rparr>)) (gret a)))
       (\<lambda>a. gthen (gmod (\<lambda>s. s\<lparr>om_objectTable := set_add a (om_objectTable s)\<rparr>)) (gret (Some a)))"

section \<open>The transfer handlers\<close>

definition frd :: "(byte_buffer \<Rightarrow> ('a \<times> byte_buffer) res) \<Rightarrow> byte_buffer \<Rightarrow> ('a \<times> byte_buffer) game" where
  "frd get b = glift (get b)"

definition fskip :: "nat list \<Rightarrow> byte_buffer \<Rightarrow> byte_buffer game" where
  "fskip ns b = glift (read_skip ns b)"

text \<open>A string that is read into a local array and dropped.\<close>

definition fstring :: "nat \<Rightarrow> byte_buffer \<Rightarrow> byte_buffer game" where
  "fstring n b = gbind (frd (readstring n 256) b) (\<lambda>(_, b). gret b)"

primrec fstrings :: "nat \<Rightarrow> nat \<Rightarrow> byte_buffer \<Rightarrow> byte_buffer game" where
  "fstrings 0 n b = gret b"
| "fstrings (Suc k) n b = gbind (fstring n b) (fstrings k n)"

definition xfer_rest :: "nat \<Rightarrow> byte_buffer \<Rightarrow> (nat \<times> byte_buffer) game" where
  "xfer_rest obj b =
     gbind (frd get_u32 b) (\<lambda>(flags, b).
     gthen (upd_object obj (\<lambda>ob. ob\<lparr>ob_flags := flags\<rparr>))
    (gbind (fstring 1 b) (\<lambda>b.
     gbind (fskip [1] b) (\<lambda>b.
     gbind (frd get_u8 b) (\<lambda>(inventory, b).
     gbind (frd get_u16 b) (\<lambda>(i, b).
     gbind (fskip (replicate (unat i) 4) b) (\<lambda>b.
     gbind (fskip [2, 4] b) (\<lambda>b.
     gbind (get_object obj) (\<lambda>ob.
     gbind (if ob_props2 ob = 0x40 then fstring 4 b else gret b) (\<lambda>b.
     gbind (fskip [8] b) (\<lambda>b.
     gret (unat inventory, b))))))))))))"

definition DefaultXferHandler :: "nat \<Rightarrow> byte_buffer \<Rightarrow> (nat \<times> byte_buffer) game" where
  "DefaultXferHandler obj b =
     gbind (frd get_u16 b) (\<lambda>(props1, b).
     gthen (upd_object obj (\<lambda>ob. ob\<lparr>ob_props1 := props1\<rparr>))
    (gbind (frd get_u16 b) (\<lambda>(props2, b).
     gthen (upd_object obj (\<lambda>ob. ob\<lparr>ob_props2 := props2\<rparr>))
    (gbind (frd get_u32 b) (\<lambda>(extent, b).
     gthen (upd_object obj (\<lambda>ob. ob\<lparr>ob_extent := ucast extent\<rparr>))
    (gbind (fskip [4] b) (\<lambda>b.
     gbind (frd get_float b) (\<lambda>(x, b).
     gbind (frd get_float b) (\<lambda>(y, b).
     gthen (upd_object obj (\<lambda>ob. ob\<lparr>ob_center := (float_coord x, float_coord y)\<rparr>))
    (gbind (frd get_u8 b) (\<lambda>(more, b).
     if more = 0xFF then xfer_rest obj b else gret (0, b))))))))))))"

definition then_skip :: "nat list \<Rightarrow> nat \<times> byte_buffer \<Rightarrow> (nat \<times> byte_buffer) game" where
  "then_skip ns r = (case r of (inventory, b) \<Rightarrow> gbind (fskip ns b) (\<lambda>b. gret (inventory, b)))"

definition then_strings :: "nat \<Rightarrow> nat \<Rightarrow> nat \<times> byte_buffer \<Rightarrow> (nat \<times> byte_buffer) game" where
  "then_strings k n r = (case r of (inventory, b) \<Rightarrow> gbind (fstrings k n b) (\<lambda>b. gret (inventory, b)))"

text \<open>A reader for objects whose first property is above a limit.\<close>

definition when_props1 :: "(u16 \<Rightarrow> bool) \<Rightarrow> nat \<Rightarrow> nat list \<Rightarrow> nat list \<Rightarrow> nat \<times> byte_buffer \<Rightarrow> (nat \<times> byte_buffer) game" where
  "when_props1 c obj ns ms r = gbind (get_object obj) (\<lambda>ob. then_skip (if c (ob_props1 ob) then ns else ms) r)"

definition GoldXferHandler :: "nat \<Rightarrow> byte_buffer \<Rightarrow> (nat \<times> byte_buffer) game" where
  "GoldXferHandler obj b =
     gbind (DefaultXferHandler obj b) (\<lambda>(inventory, b).
     gbind (frd get_u32 b) (\<lambda>(worth, b).
     gthen (upd_object obj (\<lambda>ob. ob\<lparr>ob_worth := worth\<rparr>)) (gret (inventory, b))))"

definition ObeliskXferHandler :: "nat \<Rightarrow> byte_buffer \<Rightarrow> (nat \<times> byte_buffer) game" where
  "ObeliskXferHandler obj b = gbind (DefaultXferHandler obj b) (when_props1 (\<lambda>p. p < 0x3D) obj [] [4, 1])"

definition ToxicCloudXferHandler :: "nat \<Rightarrow> byte_buffer \<Rightarrow> (nat \<times> byte_buffer) game" where
  "ToxicCloudXferHandler obj b = gbind (DefaultXferHandler obj b) (then_skip [4])"

definition counted_strings :: "byte_buffer \<Rightarrow> byte_buffer game" where
  "counted_strings b = gbind (frd get_u16 b) (\<lambda>(strings, b). fstrings (unat strings) 1 b)"

definition RewardMarkerXferHandler :: "nat \<Rightarrow> byte_buffer \<Rightarrow> (nat \<times> byte_buffer) game" where
  "RewardMarkerXferHandler obj b =
     gbind (DefaultXferHandler obj b) (\<lambda>(inventory, b).
     gbind (fskip [4, 4] b) (\<lambda>b.
     gbind (counted_strings b) (\<lambda>b.
     gbind (counted_strings b) (\<lambda>b.
     gbind (counted_strings b) (\<lambda>b.
     gbind (fskip [4, 4, 4, 4, 4] b) (\<lambda>b.
     gbind (get_object obj) (\<lambda>ob.
     gbind (fskip (if ob_props1 ob > 0x3E then [4] else []) b) (\<lambda>b.
     gbind (fskip (if ob_props2 ob > 0x3F then [1] else []) b) (\<lambda>b.
     gret (inventory, b))))))))))"

definition AmmoXferHandler :: "nat \<Rightarrow> byte_buffer \<Rightarrow> (nat \<times> byte_buffer) game" where
  "AmmoXferHandler obj b =
     gbind (gbind (DefaultXferHandler obj b) (then_strings 4 1)) (then_skip [1, 1])"

definition SpellPagePedestalXferHandler :: "nat \<Rightarrow> byte_buffer \<Rightarrow> (nat \<times> byte_buffer) game" where
  "SpellPagePedestalXferHandler obj b = gbind (DefaultXferHandler obj b) (then_skip [4])"

definition SpellRewardXferHandler :: "nat \<Rightarrow> byte_buffer \<Rightarrow> (nat \<times> byte_buffer) game" where
  "SpellRewardXferHandler obj b = gbind (DefaultXferHandler obj b) (then_strings 1 1)"

definition AbilityRewardXferHandler :: "nat \<Rightarrow> byte_buffer \<Rightarrow> (nat \<times> byte_buffer) game" where
  "AbilityRewardXferHandler obj b = gbind (DefaultXferHandler obj b) (then_strings 1 1)"

definition FieldGuideXferHandler :: "nat \<Rightarrow> byte_buffer \<Rightarrow> (nat \<times> byte_buffer) game" where
  "FieldGuideXferHandler obj b = gbind (DefaultXferHandler obj b) (then_strings 1 1)"

definition ReadableXferHandler :: "nat \<Rightarrow> byte_buffer \<Rightarrow> (nat \<times> byte_buffer) game" where
  "ReadableXferHandler obj b = gbind (DefaultXferHandler obj b) (then_strings 1 4)"

definition ExitXferHandler :: "nat \<Rightarrow> byte_buffer \<Rightarrow> (nat \<times> byte_buffer) game" where
  "ExitXferHandler obj b =
     gbind (gbind (DefaultXferHandler obj b) (then_strings 1 4)) (then_skip [4, 4])"

definition DoorXferHandler :: "nat \<Rightarrow> byte_buffer \<Rightarrow> (nat \<times> byte_buffer) game" where
  "DoorXferHandler obj b = gbind (DefaultXferHandler obj b) (then_skip [4, 4, 4])"

text \<open>One call of a trigger: a count, the name of a function, its argument.\<close>

definition trigger_call :: "nat \<times> byte_buffer \<Rightarrow> (nat \<times> byte_buffer) game" where
  "trigger_call r = gbind (gbind (then_skip [2] r) (then_strings 1 4)) (then_skip [4])"

definition TriggerXferHandler :: "nat \<Rightarrow> byte_buffer \<Rightarrow> (nat \<times> byte_buffer) game" where
  "TriggerXferHandler obj b =
     gbind (DefaultXferHandler obj b) (\<lambda>r.
     gbind (then_skip [4, 4] r) (\<lambda>r.
     gbind (when_props1 (\<lambda>p. p > 0x29) obj [1, 1, 1, 1, 1, 1] [4, 4, 1] r) (\<lambda>r.
     gbind (then_skip [4] r) (\<lambda>r.
     gbind (trigger_call r) (\<lambda>r.
     gbind (trigger_call r) (\<lambda>r.
     gbind (trigger_call r) (\<lambda>r.
     then_skip [4, 1, 1, 1, 1, 4, 4] r)))))))"

definition HoleXferHandler :: "nat \<Rightarrow> byte_buffer \<Rightarrow> (nat \<times> byte_buffer) game" where
  "HoleXferHandler obj b =
     gbind (DefaultXferHandler obj b) (\<lambda>r.
     gbind (then_skip [4] r) (\<lambda>r.
     gbind (trigger_call r) (\<lambda>r.
     then_skip [4, 4, 4, 2] r)))"

definition TransporterXferHandler :: "nat \<Rightarrow> byte_buffer \<Rightarrow> (nat \<times> byte_buffer) game" where
  "TransporterXferHandler obj b = gbind (DefaultXferHandler obj b) (then_skip [4])"

definition ElevatorXferHandler :: "nat \<Rightarrow> byte_buffer \<Rightarrow> (nat \<times> byte_buffer) game" where
  "ElevatorXferHandler obj b = gbind (DefaultXferHandler obj b) (then_skip [4, 4, 1])"

definition ElevatorShaftXferHandler :: "nat \<Rightarrow> byte_buffer \<Rightarrow> (nat \<times> byte_buffer) game" where
  "ElevatorShaftXferHandler obj b = gbind (DefaultXferHandler obj b) (then_skip [4])"

definition MoverXferHandler :: "nat \<Rightarrow> byte_buffer \<Rightarrow> (nat \<times> byte_buffer) game" where
  "MoverXferHandler obj b = gbind (DefaultXferHandler obj b) (then_skip [4, 4, 4, 1, 4, 4, 4, 4])"

definition GlyphXferHandler :: "nat \<Rightarrow> byte_buffer \<Rightarrow> (nat \<times> byte_buffer) game" where
  "GlyphXferHandler obj b =
     gbind (gbind (DefaultXferHandler obj b) (then_skip [1, 4, 4])) (\<lambda>(inventory, b).
     gbind (frd get_u8 b) (\<lambda>(num_spells, b).
     then_strings (unat num_spells) 1 (inventory, b)))"

definition InvisibleLightXferHandler :: "nat \<Rightarrow> byte_buffer \<Rightarrow> (nat \<times> byte_buffer) game" where
  "InvisibleLightXferHandler obj b =
     gbind (DefaultXferHandler obj b)
       (then_skip ([4, 4, 4, 4] @ [4, 4, 4] @ [2, 2, 4, 2] @ replicate 12 4 @ replicate 4 4 @ replicate 4 4 @
                   [2, 2, 2, 4, 2, 2, 1, 4]))"

definition SentryXferHandler :: "nat \<Rightarrow> byte_buffer \<Rightarrow> (nat \<times> byte_buffer) game" where
  "SentryXferHandler obj b =
     gbind (gbind (DefaultXferHandler obj b) (then_skip [4, 4])) (when_props1 (\<lambda>p. p > 0x3C) obj [4] [])"

definition WeaponXferHandler :: "nat \<Rightarrow> byte_buffer \<Rightarrow> (nat \<times> byte_buffer) game" where
  "WeaponXferHandler obj b = gbind (gbind (DefaultXferHandler obj b) (then_strings 4 1)) (then_skip [2])"

definition ArmorXferHandler :: "nat \<Rightarrow> byte_buffer \<Rightarrow> (nat \<times> byte_buffer) game" where
  "ArmorXferHandler obj b = gbind (gbind (DefaultXferHandler obj b) (then_strings 4 1)) (then_skip [2])"

definition TeamXferHandler :: "nat \<Rightarrow> byte_buffer \<Rightarrow> (nat \<times> byte_buffer) game" where
  "TeamXferHandler obj b = gbind (DefaultXferHandler obj b) (then_strings 4 1)"

definition xferTable :: "(u32 \<times> (nat \<Rightarrow> byte_buffer \<Rightarrow> (nat \<times> byte_buffer) game)) list" where
  "xferTable =
     [(XFER_DEFAULT, DefaultXferHandler), (XFER_SPELLPAGEPEDESTAL, SpellPagePedestalXferHandler),
      (XFER_SPELLREWARD, SpellRewardXferHandler), (XFER_ABILITYREWARD, AbilityRewardXferHandler),
      (XFER_FIELDGUIDE, FieldGuideXferHandler), (XFER_READABLE, ReadableXferHandler), (XFER_EXIT, ExitXferHandler),
      (XFER_DOOR, DoorXferHandler), (XFER_TRIGGER, TriggerXferHandler), (XFER_MONSTER, DefaultXferHandler),
      (XFER_HOLE, HoleXferHandler), (XFER_TRANSPORTER, TransporterXferHandler), (XFER_ELEVATOR, ElevatorXferHandler),
      (XFER_ELEVATORSHAFT, ElevatorShaftXferHandler), (XFER_MOVER, MoverXferHandler), (XFER_GLYPH, GlyphXferHandler),
      (XFER_INVISIBLELIGHT, InvisibleLightXferHandler), (XFER_SENTRY, SentryXferHandler),
      (XFER_WEAPON, WeaponXferHandler), (XFER_ARMOR, ArmorXferHandler), (XFER_TEAM, TeamXferHandler),
      (XFER_GOLD, GoldXferHandler), (XFER_AMMO, AmmoXferHandler), (XFER_NPC, DefaultXferHandler),
      (XFER_OBELISK, ObeliskXferHandler), (XFER_TOXICCLOUD, ToxicCloudXferHandler),
      (XFER_MONSTERGENERATOR, DefaultXferHandler), (XFER_REWARDMARKER, RewardMarkerXferHandler)]"

section \<open>Creating objects\<close>

text \<open>The object type of a name of the table of contents.\<close>

definition type_index :: "env \<Rightarrow> bytes \<Rightarrow> u16" where
  "type_index E name = GetIndex (chars (c_str name)) (length name) (e_things E)"

type_synonym object_toc = "(u16 \<times> bytes) list"

text \<open>\<open>Objects.Get(type)\<close>, with \<open>type\<close> counting from 0.\<close>

definition info_at :: "env \<Rightarrow> u16 \<Rightarrow> thing_info option" where
  "info_at E t = (if unat t < length (e_things E) then Some (e_things E ! unat t) else None)"

definition object_class :: "thing_info \<Rightarrow> object_kind" where
  "object_class info = (if th_classes info AND CLASS_IMMOBILE \<noteq> 0 then KObject else KWorldObject)"

text \<open>\<open>CreateObjectFromFile\<close> up to the objects carried: the object, if the type is known, with their number.\<close>

definition read_object :: "env \<Rightarrow> object_toc \<Rightarrow> byte_buffer \<Rightarrow> ((nat \<times> nat) option \<times> byte_buffer) game" where
  "read_object E toc b =
     gbind (frd get_u16 b) (\<lambda>(type, b).
     case map_of toc type of
       None \<Rightarrow> gret (None, b)
     | Some name \<Rightarrow>
         let b = snd (buf_skip b); type = type_index E name
         in if type = 0 then gfail AssertFail
            else gbind (deref (info_at E type)) (\<lambda>info.
                 gbind (new_object E (object_class info) type (0, 0) 0) (\<lambda>obj.
                 gbind (frd read_finish b) (\<lambda>(finish, b).
                 gbind (DefaultXferHandler obj b) (\<lambda>(inventory, b).
                 gret (Some (obj, inventory), set_rpos finish b))))))"

definition put_in_inventory :: "nat \<Rightarrow> nat \<Rightarrow> unit game" where
  "put_in_inventory obj child = upd_object obj (\<lambda>ob. ob\<lparr>ob_inventory := set_add child (ob_inventory ob)\<rparr>)"

text \<open>The loop over the objects that \<open>obj\<close> carries.\<close>

partial_function (option) read_children ::
    "env \<Rightarrow> object_toc \<Rightarrow> nat \<Rightarrow> nat \<Rightarrow> byte_buffer \<Rightarrow> server \<Rightarrow> (byte_buffer \<times> server) res option" where
  [code]: "read_children E toc obj n b s =
     (if n = 0 then Some (Inr (b, s))
      else obind (Some (read_object E toc b s)) (\<lambda>((r, b), s).
           case r of
             None \<Rightarrow> Some (Inr (b, s))
           | Some p \<Rightarrow>
               obind (read_children E toc (fst p) (snd p) b s) (\<lambda>(b, s).
               obind (Some (gthen (AddToWorld E (fst p)) (put_in_inventory obj (fst p)) s)) (\<lambda>(_, s).
               read_children E toc obj (n - 1) b s))))"

definition CreateObjectFromFile ::
    "env \<Rightarrow> object_toc \<Rightarrow> byte_buffer \<Rightarrow> server \<Rightarrow> ((nat option \<times> byte_buffer) \<times> server) res option" where
  "CreateObjectFromFile E toc b s =
     obind (Some (read_object E toc b s)) (\<lambda>((r, b), s).
     case r of
       None \<Rightarrow> Some (Inr ((None, b), s))
     | Some p \<Rightarrow>
         obind (read_children E toc (fst p) (snd p) b s) (\<lambda>(b, s).
         obind (Some (AddToWorld E (fst p) s)) (\<lambda>(_, s).
         Some (Inr ((Some (fst p), b), s)))))"

end
