(* ===== verification/Nox_Map.thy ===== *)
theory Nox_Map
  imports Map_Objects
begin

text \<open>
  Map files: class \<open>NoxMap\<close> with its walls, table of contents and header (\<open>src/src/game/NoxMap.{h,cpp}\<close>).

  A file is a header of 24 bytes and sections, each a name, padding to a multiple of eight, the length of its
  content in eight bytes, and the content. Loading decrypts a file that does not start with the magic number,
  reads the walls and the table of contents into the map, creates the objects in the server, and
  skips the other sections. The length of a section is taken as it is, a negative one goes back in the file:
  the loop over the sections is a partial function.

  The file system is the argument \<open>files\<close>: the content of a file that can be opened.
\<close>

section \<open>State\<close>

record nox_wall =
  wl_x :: u8
  wl_y :: u8
  wl_facing :: u8
  wl_variation :: u8
  wl_minimap :: u8

record map_header =
  mh_fileid :: u32
  mh_unk1 :: u32
  mh_checksum :: u32
  mh_unk2 :: u32
  mh_unk3 :: u32
  mh_unk4 :: u32

text \<open>The map, with the shape of \<open>objmgr.collisionWalls\<close> and the address of this object.\<close>

record nox_map =
  nm_buf :: byte_buffer
  nm_walls :: "(u16 \<times> nox_wall) list"
  nm_shape :: "wall_line list list"
  nm_walls_object :: "nat option"
  nm_toc :: object_toc
  nm_header :: map_header
  nm_nxz :: "bytes option"
  nm_nxzname :: bytes

definition new_map :: nox_map where
  "new_map =
     \<lparr>nm_buf = new_buffer, nm_walls = [], nm_shape = [], nm_walls_object = None, nm_toc = [],
      nm_header = \<lparr>mh_fileid = 0, mh_unk1 = 0, mh_checksum = 0, mh_unk2 = 0, mh_unk3 = 0, mh_unk4 = 0\<rparr>,
      nm_nxz = None, nm_nxzname = replicate 0x50 0\<rparr>"

section \<open>Walls\<close>

definition GetPositionKey :: "nox_wall \<Rightarrow> u16" where
  "GetPositionKey w = ucast (wl_x w) OR push_bit 8 (ucast (wl_y w))"

definition read_wall :: "byte_buffer \<Rightarrow> (nox_wall \<times> byte_buffer) res" where
  "read_wall b =
     rbind (get_u8 b) (\<lambda>(x, b).
     rbind (get_u8 b) (\<lambda>(y, b).
     rbind (get_u8 b) (\<lambda>(facing, b).
     rbind (get_u8 b) (\<lambda>(_, b).
     rbind (get_u8 b) (\<lambda>(variation, b).
     rbind (get_u8 b) (\<lambda>(minimap, b).
     rbind (get_u8 b) (\<lambda>(_, b).
     Inr (\<lparr>wl_x = x, wl_y = y, wl_facing = facing AND 0x7F, wl_variation = variation, wl_minimap = minimap\<rparr>, b))))))))"

type_synonym wall_map = "(u16 \<times> nox_wall) list \<times> wall_line list list"

text \<open>A second wall at the same position is dropped.\<close>

definition NoxWallMap_AddWall :: "nox_wall \<Rightarrow> wall_map \<Rightarrow> bool \<times> wall_map" where
  "NoxWallMap_AddWall w ws =
     (if GetPositionKey w \<in> fst ` set (fst ws) then (False, ws)
      else (True, map_put (GetPositionKey w) w (fst ws),
                  NoxWallObject_AddWall (wl_x w, wl_y w) (wl_facing w) (snd ws)))"

definition GetWall :: "u16 \<Rightarrow> nox_map \<Rightarrow> nox_wall option" where
  "GetWall key m = map_of (nm_walls m) key"

definition GetWallAt :: "grid_pair \<Rightarrow> nox_map \<Rightarrow> nox_wall option" where
  "GetWallAt pos m =
     GetWall (ucast (ucast (fst pos div 23) :: u8) OR push_bit 8 (ucast (ucast (snd pos div 23) :: u8))) m"

lemma read_word_limit: "read_word n b = Inr (w, b') \<Longrightarrow> b_rpos b + n < size_limit"
  by (auto simp: read_word_def read_word_at_def read_at_def res_iffs split: if_splits)

lemma read_wall_rpos: "read_wall b = Inr (w, b') \<Longrightarrow> storage b' = storage b \<and> b_rpos b' = b_rpos b + 7 \<and> b_rpos b' \<le> length (storage b)"
  by (auto simp: read_wall_def get_u8_def rbind_Inr_iff dest!: read_word_Inr)

lemma two_back:
  assumes "get_u8 b = Inr (x, b1)" "get_u8 b1 = Inr (y, b2)"
  shows "storage b2 = storage b \<and> size_sub (b_rpos b2) 2 = b_rpos b \<and> b_rpos b + 2 = b_rpos b2"
proof -
  have "b1 = b\<lparr>b_rpos := b_rpos b + 1\<rparr>" "b2 = b1\<lparr>b_rpos := b_rpos b1 + 1\<rparr>" "b_rpos b1 + 1 < size_limit"
    using assms read_word_Inr read_word_limit unfolding get_u8_def by blast+
  then show ?thesis using size_sub_le [of 2 "b_rpos b + 2"] by simp
qed

text \<open>The loop of \<open>NoxWallMap::read\<close>: it ends at a position with the coordinate 0xFF, otherwise goes back two bytes.\<close>

function read_walls :: "wall_map \<Rightarrow> byte_buffer \<Rightarrow> (wall_map \<times> byte_buffer) res" where
  "read_walls ws b =
     rbind (get_u8 b) (\<lambda>(x, b).
       if x = 0xFF then Inr (ws, b)
       else rbind (get_u8 b) (\<lambda>(y, b).
         if y = 0xFF then Inr (ws, b)
         else rbind (read_wall (set_rpos (size_sub (b_rpos b) 2) b)) (\<lambda>(w, b).
              read_walls (snd (NoxWallMap_AddWall w ws)) b)))"
  by pat_completeness auto
termination
  by (relation "measure (\<lambda>(ws, b). length (storage b) - b_rpos b)")
    (simp, clarsimp simp: set_rpos_def, drule (1) two_back, drule read_wall_rpos, clarsimp, linarith)

declare read_walls.simps [simp del]

definition NoxWallMap_read :: "nox_map \<Rightarrow> nox_map game" where
  "NoxWallMap_read m =
     gbind (frd read_finish (nm_buf m)) (\<lambda>(finish, b).
     gbind (fskip [2, 4, 4, 4, 4] b) (\<lambda>b.
     gbind (glift (read_walls (nm_walls m, nm_shape m) b)) (\<lambda>(ws, b).
     gbind (AddCollisionWalls (nm_walls_object m)) (\<lambda>a.
     gret (m\<lparr>nm_buf := set_rpos finish b, nm_walls := fst ws, nm_shape := snd ws, nm_walls_object := a\<rparr>)))))"

section \<open>Header and table of contents\<close>

definition NoxMapHeader_read :: "byte_buffer \<Rightarrow> (map_header \<times> byte_buffer) res" where
  "NoxMapHeader_read b =
     rbind (get_u32 b) (\<lambda>(fileid, b).
     rbind (get_u32 b) (\<lambda>(unk1, b).
     rbind (get_u32 b) (\<lambda>(checksum, b).
     rbind (get_u32 b) (\<lambda>(unk2, b).
     rbind (get_u32 b) (\<lambda>(unk3, b).
     rbind (get_u32 b) (\<lambda>(unk4, b).
     if fileid = 0xFADEFACE
     then Inr (\<lparr>mh_fileid = fileid, mh_unk1 = unk1, mh_checksum = checksum, mh_unk2 = unk2, mh_unk3 = unk3, mh_unk4 = unk4\<rparr>, b)
     else Inl AssertFail))))))"

definition toc_insert :: "u16 \<Rightarrow> bytes \<Rightarrow> object_toc \<Rightarrow> object_toc" where
  "toc_insert i name toc = (if i \<in> fst ` set toc then toc else map_put i name toc)"

partial_function (option) read_toc :: "nat \<Rightarrow> object_toc \<Rightarrow> byte_buffer \<Rightarrow> (object_toc \<times> byte_buffer) res option" where
  [code]: "read_toc finish toc b =
     (if b_rpos b < finish
      then obind (Some (rbind (get_u16 b) (\<lambda>(i, b).
                        rbind (readstring 1 0xFF b) (\<lambda>(name, b). Inr (toc_insert i name toc, b)))))
             (\<lambda>(toc, b). read_toc finish toc b)
      else Some (Inr (toc, b)))"

definition NoxObjectTOC_read :: "object_toc \<Rightarrow> byte_buffer \<Rightarrow> (object_toc \<times> byte_buffer) res option" where
  "NoxObjectTOC_read toc b =
     obind (Some (rbind (read_finish b) (\<lambda>(finish, b).
                  rbind (read_skip [2] b) (\<lambda>b.
                  rbind (get_u16 b) (\<lambda>(entries, b). Inr (finish, entries, b))))))
       (\<lambda>(finish, entries, b).
     obind (read_toc finish toc b) (\<lambda>(toc, b).
     Some (if length toc = unat entries then Inr (toc, b) else Inl AssertFail)))"

section \<open>Objects\<close>

partial_function (option) read_objects ::
    "env \<Rightarrow> object_toc \<Rightarrow> byte_buffer \<Rightarrow> server \<Rightarrow> (byte_buffer \<times> server) res option" where
  [code]: "read_objects E toc b s =
     (if b_rpos b < buf_size b
      then obind (CreateObjectFromFile E toc b s) (\<lambda>((p, b), s).
           if p = None then Some (Inr (b, s)) else read_objects E toc b s)
      else Some (Inr (b, s)))"

definition readObjects :: "env \<Rightarrow> object_toc \<Rightarrow> byte_buffer \<Rightarrow> server \<Rightarrow> (byte_buffer \<times> server) res option" where
  "readObjects E toc b s =
     obind (Some (rbind (read_finish b) (\<lambda>(finish, b). read_skip [2] b))) (\<lambda>b. read_objects E toc b s)"

section \<open>Loading\<close>

definition skipSection :: "byte_buffer \<Rightarrow> byte_buffer res" where
  "skipSection b = rbind (read_finish b) (\<lambda>(finish, b). Inr (set_rpos finish b))"

definition skipped_sections :: "string list" where
  "skipped_sections =
     [''MapInfo'', ''FloorMap'', ''SecretWalls'', ''DestructableWalls'', ''WayPoints'', ''DebugData'',
      ''WindowWalls'', ''GroupData'', ''ScriptObject'', ''AmbientData'', ''Polygons'', ''MapIntro'', ''ScriptData'']"

definition read_section :: "env \<Rightarrow> string \<Rightarrow> nox_map \<Rightarrow> server \<Rightarrow> (nox_map \<times> server) res option" where
  "read_section E name m s =
     (if name \<in> set skipped_sections then Some (rmap (\<lambda>b. (m\<lparr>nm_buf := b\<rparr>, s)) (skipSection (nm_buf m)))
      else if name = ''WallMap'' then Some (NoxWallMap_read m s)
      else if name = ''ObjectTOC'' then
        obind (NoxObjectTOC_read (nm_toc m) (nm_buf m)) (\<lambda>(toc, b). Some (Inr (m\<lparr>nm_toc := toc, nm_buf := b\<rparr>, s)))
      else if name = ''ObjectData'' then
        obind (readObjects E (nm_toc m) (nm_buf m) s) (\<lambda>(b, s). Some (Inr (m\<lparr>nm_buf := b\<rparr>, s)))
      else Some (Inr (m, s)))"

definition section_name :: "byte_buffer \<Rightarrow> (string \<times> byte_buffer) res" where
  "section_name b = rbind (readstring 1 0xFF b) (\<lambda>(name, b). Inr (chars (c_str name), snd (buf_skip b)))"

partial_function (option) read_sections :: "env \<Rightarrow> nox_map \<Rightarrow> server \<Rightarrow> (nox_map \<times> server) res option" where
  [code]: "read_sections E m s =
     (if b_rpos (nm_buf m) < buf_size (nm_buf m)
      then obind (Some (section_name (nm_buf m))) (\<lambda>(name, b).
           obind (read_section E name (m\<lparr>nm_buf := b\<rparr>) s) (\<lambda>(m, s). read_sections E m s))
      else Some (Inr (m, s)))"

text \<open>\<open>strrchr\<close>: the index of the last occurrence.\<close>

definition strrchr :: "char \<Rightarrow> string \<Rightarrow> nat option" where
  "strrchr c s =
     (if c \<in> set s then Some (length s - 1 - length (takeWhile (\<lambda>d. d \<noteq> c) (rev s))) else None)"

text \<open>The compressed map beside the map: the three characters behind the last dot of the path, in an array of 512, become
  \<open>nxz\<close>; the name sent to clients is what follows the last backslash.\<close>

definition nxz_path :: "string \<Rightarrow> nat \<Rightarrow> string" where
  "nxz_path mappath i = take (i + 1) mappath @ ''nxz'' @ drop (i + 4) mappath"

definition nxz_name :: "string \<Rightarrow> nat \<Rightarrow> bytes" where
  "nxz_name mappath j = take 0x50 (string_bytes (drop (j + 1) mappath) @ replicate 0x50 0)"

definition getNxz :: "(string \<Rightarrow> bytes option) \<Rightarrow> string \<Rightarrow> nox_map \<Rightarrow> nox_map res" where
  "getNxz files mappath m =
     (if length mappath \<ge> 512 then Inl OutOfBounds
      else case strrchr CHR ''.'' mappath of
        None \<Rightarrow> Inr m
      | Some i \<Rightarrow>
          if i + 3 \<ge> 511 then Inl OutOfBounds
          else case files (nxz_path mappath i) of
            None \<Rightarrow> Inr (m\<lparr>nm_nxz := None\<rparr>)
          | Some bs \<Rightarrow> Inr (case strrchr CHR 0x5C mappath of
                None \<Rightarrow> m\<lparr>nm_nxz := Some bs\<rparr>
              | Some j \<Rightarrow> m\<lparr>nm_nxz := Some bs, nm_nxzname := nxz_name mappath j\<rparr>))"

definition load_header :: "nox_map \<Rightarrow> nox_map res" where
  "load_header m =
     rbind (get_u32 (nm_buf m)) (\<lambda>(magic, b).
     rbind (if magic \<noteq> 0xFADEFACE then rmap snd (buf_decrypt NC_MAP b) else Inr b) (\<lambda>b.
     rbind (NoxMapHeader_read (set_rpos 0 b)) (\<lambda>(h, b).
     Inr (m\<lparr>nm_buf := b, nm_header := h\<rparr>))))"

definition NoxMap_open ::
    "env \<Rightarrow> (string \<Rightarrow> bytes option) \<Rightarrow> string \<Rightarrow> nox_map \<Rightarrow> server \<Rightarrow> ((bool \<times> nox_map) \<times> server) res option" where
  "NoxMap_open E files fileName m s =
     (case buf_open (files fileName) (nm_buf m) of (opened, b) \<Rightarrow>
        if \<not> opened then Some (Inr ((False, m), s))
        else obind (Some (rbind (getNxz files fileName (m\<lparr>nm_buf := b\<rparr>)) load_header)) (\<lambda>m.
             obind (read_sections E m s) (\<lambda>(m, s). Some (Inr ((True, m), s)))))"

text \<open>What the sessions use of the map.\<close>

definition map_file_of :: "nox_map \<Rightarrow> map_file" where
  "map_file_of m = \<lparr>mf_checksum = mh_checksum (nm_header m), mf_nxz = nm_nxz m, mf_nxzname = nm_nxzname m\<rparr>"

end
