(* ===== verification/Map_Encoding.thy ===== *)
theory Map_Encoding
  imports Nox_Map
begin

text \<open>
  Map files written from what they describe: \<open>enc_object\<close> is an object with those it carries as it stands in a file,
  and \<open>create_object\<close> creates it without a file. Reading an object is creating it: \<open>read_object_enc\<close>,
  \<open>CreateObjectFromFile_enc\<close>.
\<close>

section \<open>Readers and what they read\<close>

text \<open>From state \<open>s\<close>, the reader \<open>m\<close> takes the bytes \<open>bs\<close> off the buffer, returns \<open>x\<close> and goes to state \<open>s'\<close>.\<close>

definition takes :: "(byte_buffer \<Rightarrow> ('a \<times> byte_buffer) game) \<Rightarrow> bytes \<Rightarrow> server \<Rightarrow> 'a \<Rightarrow> server \<Rightarrow> bool" where
  "takes m bs s x s' \<longleftrightarrow>
     (\<forall>b rest. buf_ok b \<longrightarrow> remaining b = bs @ rest \<longrightarrow> m b s = Inr ((x, advanced (length bs) b), s'))"

lemma gbind_gret: "gbind (gret x) f = f x"
  by (simp add: fun_eq_iff gbind_def gret_def)

lemma deref_Some: "deref (Some x) = gret x"
  by (simp add: deref_def)

lemma takesD: "takes m bs s x s' \<Longrightarrow> buf_ok b \<Longrightarrow> remaining b = bs @ rest \<Longrightarrow> m b s = Inr ((x, advanced (length bs) b), s')"
  unfolding takes_def by blast

lemma takes_read:
  assumes "\<And>b rest. buf_ok b \<Longrightarrow> remaining b = bs @ rest \<Longrightarrow> r b = Inr (x, advanced (length bs) b)"
    and "takes (g x) cs s y s'"
  shows "takes (\<lambda>b. gbind (frd r b) (\<lambda>(x, b). g x b)) (bs @ cs) s y s'"
  unfolding takes_def
proof (intro allI impI)
  fix b rest
  assume b: "buf_ok b" "remaining b = (bs @ cs) @ rest"
  then have "r b = Inr (x, advanced (length bs) b)" by (intro assms(1)) simp_all
  moreover have "g x (advanced (length bs) b) s = Inr ((y, advanced (length cs) (advanced (length bs) b)), s')"
    using b by (intro takesD [OF assms(2)]) simp_all
  ultimately show "gbind (frd r b) (\<lambda>(x, b). g x b) s = Inr ((y, advanced (length (bs @ cs)) b), s')"
    by (simp add: frd_def step_simps)
qed

lemma takes_words:
  "takes (g wa) cs s y s' \<Longrightarrow> takes (\<lambda>b. gbind (frd get_u8 b) (\<lambda>(x, b). g x b)) (le_bytes 1 wa @ cs) s y s'"
  "takes (h wb) cs s y s' \<Longrightarrow> takes (\<lambda>b. gbind (frd get_u16 b) (\<lambda>(x, b). h x b)) (le_bytes 2 wb @ cs) s y s'"
  "takes (k wc) cs s y s' \<Longrightarrow> takes (\<lambda>b. gbind (frd get_u32 b) (\<lambda>(x, b). k x b)) (le_bytes 4 wc @ cs) s y s'"
  "takes (k wc) cs s y s' \<Longrightarrow> takes (\<lambda>b. gbind (frd get_float b) (\<lambda>(x, b). k x b)) (le_bytes 4 wc @ cs) s y s'"
  by (rule takes_read; use get_word_encs in \<open>simp add: get_float_def flip: get_u32_def\<close>)+

lemma takes_drop:
  assumes "\<And>b rest. buf_ok b \<Longrightarrow> remaining b = bs @ rest \<Longrightarrow> r b = Inr (advanced (length bs) b)" "takes g cs s y s'"
  shows "takes (\<lambda>b. gbind (glift (r b)) g) (bs @ cs) s y s'"
  unfolding takes_def
proof (intro allI impI)
  fix b rest
  assume b: "buf_ok b" "remaining b = (bs @ cs) @ rest"
  then have "r b = Inr (advanced (length bs) b)" by (intro assms(1)) simp_all
  moreover have "g (advanced (length bs) b) s = Inr ((y, advanced (length cs) (advanced (length bs) b)), s')"
    using b by (intro takesD [OF assms(2)]) simp_all
  ultimately show "gbind (glift (r b)) g s = Inr ((y, advanced (length (bs @ cs)) b), s')"
    by (simp add: step_simps)
qed

lemma takes_skip:
  assumes "sum_list ns = length bs" "\<forall>n \<in> set ns. 0 < n" "takes g cs s y s'"
  shows "takes (\<lambda>b. gbind (fskip ns b) g) (bs @ cs) s y s'"
  unfolding fskip_def
proof (rule takes_drop [OF _ assms(3)])
  fix b rest
  assume b: "buf_ok b" "remaining b = bs @ rest"
  then have "sum_list ns \<le> length (remaining b)" using assms(1) by simp
  then show "read_skip ns b = Inr (advanced (length bs) b)" using read_skip_enc [OF b(1) _ assms(2)] assms(1) by simp
qed

lemma takes_string:
  assumes "0 < n" "length str < 2 ^ (8 * n)" "length str < 256" "takes g cs s y s'"
  shows "takes (\<lambda>b. gbind (fstring n b) g) (enc_str n str @ cs) s y s'"
proof -
  have "readstring n 256 b = Inr (str, advanced (length (enc_str n str)) b)"
    if "buf_ok b" "remaining b = enc_str n str @ rest" for b rest
    using readstring_enc [OF that assms(1,2,3)] by (simp add: size_limit_def)
  from takes_drop [of "enc_str n str" "\<lambda>b. rmap snd (readstring n 256 b)", OF _ assms(4)] this
  have "takes (\<lambda>b. gbind (glift (rmap snd (readstring n 256 b))) g) (enc_str n str @ cs) s y s'" by simp
  moreover have "fstring n b = glift (rmap snd (readstring n 256 b))" for b
    by (cases "readstring n 256 b") (auto simp: fstring_def frd_def step_simps fun_eq_iff)
  ultimately show ?thesis by simp
qed

lemma takes_ret: "takes (\<lambda>b. gret (x, b)) [] s x s"
  by (simp add: takes_def gret_def)

lemma takes_step: "m s = Inr (u, s1) \<Longrightarrow> takes g cs s1 y s' \<Longrightarrow> takes (\<lambda>b. gthen m (g b)) cs s y s'"
  by (simp add: takes_def step_simps)

lemma takes_bind: "m s = Inr (u, s1) \<Longrightarrow> takes (g u) cs s1 y s' \<Longrightarrow> takes (\<lambda>b. gbind m (\<lambda>u. g u b)) cs s y s'"
  by (simp add: takes_def step_simps)

section \<open>Objects as they stand in a file\<close>

record object_head =
  oh_id :: u16
  oh_props1 :: u16
  oh_props2 :: u16
  oh_extent :: u32
  oh_x :: u32
  oh_y :: u32

record object_more =
  mr_flags :: u32
  mr_script :: bytes
  mr_links :: "u32 list"
  mr_text :: bytes

datatype map_object = MapObject object_head "object_more option" "map_object list"

definition enc_more :: "u16 \<Rightarrow> nat \<Rightarrow> object_more \<Rightarrow> bytes" where
  "enc_more props2 kids m =
     le_bytes 4 (mr_flags m) @ enc_str 1 (mr_script m) @ [0] @ le_bytes 1 (of_nat kids :: u8) @
     le_bytes 2 (of_nat (length (mr_links m)) :: u16) @ concat (map (le_bytes 4) (mr_links m)) @
     replicate 6 0 @ (if props2 = 0x40 then enc_str 4 (mr_text m) else []) @ replicate 8 0"

definition enc_data :: "object_head \<Rightarrow> object_more option \<Rightarrow> nat \<Rightarrow> bytes" where
  "enc_data h mo kids =
     le_bytes 2 (oh_props1 h) @ le_bytes 2 (oh_props2 h) @ le_bytes 4 (oh_extent h) @ replicate 4 0 @
     le_bytes 4 (oh_x h) @ le_bytes 4 (oh_y h) @
     (case mo of None \<Rightarrow> le_bytes 1 (0 :: u8) | Some m \<Rightarrow> le_bytes 1 (0xFF :: u8) @ enc_more (oh_props2 h) kids m)"

text \<open>An object at position \<open>p\<close> of the file, without those it carries.\<close>

definition enc_frame :: "nat \<Rightarrow> object_head \<Rightarrow> object_more option \<Rightarrow> nat \<Rightarrow> bytes" where
  "enc_frame p h mo kids =
     le_bytes 2 (oh_id h) @ replicate (skip_length (p + 2)) 0 @
     le_bytes 8 (of_nat (length (enc_data h mo kids)) :: u64) @ enc_data h mo kids"

fun enc_object :: "nat \<Rightarrow> map_object \<Rightarrow> bytes" and enc_objects :: "nat \<Rightarrow> map_object list \<Rightarrow> bytes" where
  "enc_object p (MapObject h mo kids) =
     (let f = enc_frame p h mo (length kids) in f @ enc_objects (p + length f) kids)"
| "enc_objects p [] = []"
| "enc_objects p (k # ks) = (let e = enc_object p k in e @ enc_objects (p + length e) ks)"

text \<open>What the format can hold: the strings fit the arrays they are read into, counts their bytes.\<close>

definition more_ok :: "object_more \<Rightarrow> bool" where
  "more_ok m \<longleftrightarrow> length (mr_script m) < 256 \<and> length (mr_links m) < 2 ^ 16 \<and> length (mr_text m) < 256"

fun object_ok :: "object_toc \<Rightarrow> map_object \<Rightarrow> bool" where
  "object_ok toc (MapObject h mo kids) \<longleftrightarrow>
     oh_id h \<in> dom (map_of toc) \<and> length kids < 256 \<and> (mo = None \<longrightarrow> kids = []) \<and>
     (\<forall>m. mo = Some m \<longrightarrow> more_ok m) \<and> (\<forall>k \<in> set kids. object_ok toc k)"

section \<open>Creating them without a file\<close>

definition fill_object :: "object_head \<Rightarrow> object_more option \<Rightarrow> nox_object \<Rightarrow> nox_object" where
  "fill_object h mo ob =
     ob\<lparr>ob_props1 := oh_props1 h, ob_props2 := oh_props2 h, ob_extent := ucast (oh_extent h),
        ob_center := (float_coord (oh_x h), float_coord (oh_y h)),
        ob_flags := (case mo of None \<Rightarrow> ob_flags ob | Some m \<Rightarrow> mr_flags m)\<rparr>"

definition begin_object :: "env \<Rightarrow> object_toc \<Rightarrow> object_head \<Rightarrow> object_more option \<Rightarrow> nat game" where
  "begin_object E toc h mo =
     gbind (deref (map_of toc (oh_id h))) (\<lambda>name.
       let type = type_index E name
       in if type = 0 then gfail AssertFail
          else gbind (deref (info_at E type)) (\<lambda>info.
               gbind (new_object E (object_class info) type (0, 0) 0) (\<lambda>a.
               gthen (upd_object a (fill_object h mo)) (gret a))))"

fun create_object :: "env \<Rightarrow> object_toc \<Rightarrow> map_object \<Rightarrow> nat game"
  and carry_objects :: "env \<Rightarrow> object_toc \<Rightarrow> nat \<Rightarrow> map_object list \<Rightarrow> unit game" where
  "create_object E toc (MapObject h mo kids) =
     gbind (begin_object E toc h mo) (\<lambda>a.
     gthen (carry_objects E toc a kids) (gthen (AddToWorld E a) (gret a)))"
| "carry_objects E toc a [] = gret ()"
| "carry_objects E toc a (k # ks) =
     gbind (create_object E toc k) (\<lambda>c. gthen (put_in_inventory a c) (carry_objects E toc a ks))"

section \<open>Reading is creating\<close>

lemma upd_object_at: "sv_objects s a = Some ob \<Longrightarrow> upd_object a f s = Inr ((), s\<lparr>sv_objects := (sv_objects s)(a \<mapsto> f ob)\<rparr>)"
  by (simp add: upd_object_def get_object_def step_simps)

lemma get_object_at: "sv_objects s a = Some ob \<Longrightarrow> get_object a s = Inr (ob, s)"
  by (simp add: get_object_def)

lemma le_byte: "le_bytes 1 (w :: u8) = [w]" "le_bytes (Suc 0) (w :: u8) = [w]"
  by simp_all

lemma takes_xfer_rest:
  assumes "sv_objects s a = Some ob" "ob_props2 ob = p2" "more_ok m" "kids < 256"
  shows "takes (xfer_rest a) (enc_more p2 kids m) s kids (s\<lparr>sv_objects := (sv_objects s)(a \<mapsto> ob\<lparr>ob_flags := mr_flags m\<rparr>)\<rparr>)"
proof -
  have u8: "unat (of_nat kids :: u8) = kids" using assms(4) by (simp add: unsigned_of_nat take_bit_nat_eq_self)
  have u16: "unat (of_nat (length (mr_links m)) :: u16) = length (mr_links m)"
    using assms(3) by (simp add: more_ok_def unsigned_of_nat take_bit_nat_eq_self)
  let ?s = "s\<lparr>sv_objects := (sv_objects s)(a \<mapsto> ob\<lparr>ob_flags := mr_flags m\<rparr>)\<rparr>"
  have links: "sum_list (replicate n 4) = length (concat (map (le_bytes 4 :: u32 \<Rightarrow> _) ls))" if "n = length ls" for n ls
    unfolding that by (induction ls) simp_all
  have tail: "takes (\<lambda>b. gbind (fskip [8] b) (\<lambda>b. gret (unat (of_nat kids :: u8), b))) (replicate 8 0) ?s kids ?s"
    using takes_skip [OF _ _ takes_ret, of "[8]" "replicate 8 0"] u8 by simp
  have body: "takes (\<lambda>b. gbind (if p2 = 0x40 then fstring 4 b else gret b) (\<lambda>b. gbind (fskip [8] b) (\<lambda>b. gret (unat (of_nat kids :: u8), b))))
      ((if p2 = 0x40 then enc_str 4 (mr_text m) else []) @ replicate 8 0) ?s kids ?s"
  proof (cases "p2 = 0x40")
    case True
    then show ?thesis using takes_string [OF _ _ _ tail, of 4 "mr_text m"] assms(3) by (simp add: more_ok_def)
  next
    case False
    then show ?thesis using tail by (simp add: gbind_gret)
  qed
  show ?thesis
    unfolding xfer_rest_def enc_more_def
    apply (rule takes_words)
    apply (rule takes_step, rule upd_object_at, rule assms(1))
    apply (rule takes_string)
    using assms(3) apply (simp_all add: more_ok_def) [3]
    apply (rule takes_skip, simp, simp)
    apply (rule takes_words)+
    apply (rule takes_skip, rule links, simp add: u16, simp)
    apply (rule takes_skip, simp, simp)
    apply (rule takes_bind, rule get_object_at, simp)
    using body assms(2) apply simp
    done
qed

lemma takes_DefaultXferHandler:
  assumes "sv_objects s a = Some ob" "kids < 256" "mo = None \<longrightarrow> kids = 0" "\<And>m. mo = Some m \<Longrightarrow> more_ok m"
  shows "takes (DefaultXferHandler a) (enc_data h mo kids) s kids
    (s\<lparr>sv_objects := (sv_objects s)(a \<mapsto> fill_object h mo ob)\<rparr>)"
proof -
  let ?f = "\<lambda>ob. ob\<lparr>ob_props1 := oh_props1 h, ob_props2 := oh_props2 h, ob_extent := ucast (oh_extent h),
      ob_center := (float_coord (oh_x h), float_coord (oh_y h))\<rparr>"
  let ?s = "s\<lparr>sv_objects := (sv_objects s)(a \<mapsto> ?f ob)\<rparr>"
  have tail: "takes (\<lambda>b. gbind (frd get_u8 b) (\<lambda>(more, b). if more = 0xFF then xfer_rest a b else gret (0, b)))
      (case mo of None \<Rightarrow> le_bytes 1 (0 :: u8) | Some m \<Rightarrow> le_bytes 1 (0xFF :: u8) @ enc_more (oh_props2 h) kids m) ?s kids
      (s\<lparr>sv_objects := (sv_objects s)(a \<mapsto> fill_object h mo ob)\<rparr>)"
  proof (cases mo)
    case None
    have "takes (\<lambda>b. if (0 :: u8) = 0xFF then xfer_rest a b else gret (0, b)) [] ?s 0 ?s" using takes_ret by simp
    from takes_words(1) [where g = "\<lambda>more b. if more = 0xFF then xfer_rest a b else gret (0, b)" and wa = 0, OF this] show ?thesis using None assms(3) by (simp add: fill_object_def)
  next
    case (Some m)
    have "takes (xfer_rest a) (enc_more (oh_props2 h) kids m) ?s kids
        (?s\<lparr>sv_objects := (sv_objects ?s)(a \<mapsto> (?f ob)\<lparr>ob_flags := mr_flags m\<rparr>)\<rparr>)"
      by (rule takes_xfer_rest) (simp_all add: assms(2,4) Some)
    then have "takes (\<lambda>b. if (0xFF :: u8) = 0xFF then xfer_rest a b else gret (0, b)) (enc_more (oh_props2 h) kids m) ?s kids
        (s\<lparr>sv_objects := (sv_objects s)(a \<mapsto> fill_object h mo ob)\<rparr>)" by (simp add: fill_object_def Some)
    from takes_words(1) [where g = "\<lambda>more b. if more = 0xFF then xfer_rest a b else gret (0, b)" and wa = "0xFF", OF this] show ?thesis by (simp only: Some option.case)
  qed
  show ?thesis
    unfolding DefaultXferHandler_def enc_data_def
    apply (rule takes_words, rule takes_step, rule upd_object_at, rule assms(1))
    apply (rule takes_words, rule takes_step, rule upd_object_at, simp)
    apply (rule takes_words, rule takes_step, rule upd_object_at, simp)
    apply (rule takes_skip, simp, simp)
    apply (rule takes_words, rule takes_words, rule takes_step, rule upd_object_at, simp)
    using tail apply simp
    done
qed

lemma new_object_result:
  assumes "info_of_type E type = Some info"
  shows "new_object E kind type pos 0 s =
    Inr (sv_next s, s\<lparr>sv_next := sv_next s + 1, sv_objects := (sv_objects s)(sv_next s \<mapsto> blank_object kind type pos 0 (collide_mask info))\<rparr>)"
  using assms by (simp add: new_object_def deref_def new_address_def step_simps)

lemma info_at_known: "info_at E t = Some info \<Longrightarrow> t \<noteq> 0 \<Longrightarrow> \<exists>info'. info_of_type E t = Some info'"
  by (auto simp: info_at_def info_of_type_def unat_gt_0 Suc_leI split: if_splits)

lemma begin_object_result:
  assumes "map_of toc (oh_id h) = Some name" "type_index E name \<noteq> 0" "info_at E (type_index E name) = Some info"
  shows "\<exists>info' kind. info_of_type E (type_index E name) = Some info' \<and> kind \<in> {KObject, KWorldObject} \<and>
    begin_object E toc h mo s = Inr (sv_next s, s\<lparr>sv_next := sv_next s + 1, sv_objects := (sv_objects s)(sv_next s \<mapsto>
      fill_object h mo (blank_object kind (type_index E name) (0, 0) 0 (collide_mask info')))\<rparr>)"
proof -
  obtain info' where i: "info_of_type E (type_index E name) = Some info'" using info_at_known assms(2,3) by blast
  show ?thesis
    using assms(1,2,3) new_object_result [OF i]
    by (intro exI [of _ info'] exI [of _ "object_class info"])
      (simp add: object_class_def i begin_object_def deref_def gbind_gret Let_def gbind_def gthen_def upd_object_at gret_def)
qed

text \<open>The frame of an object: its type, the padding, the length and the data.\<close>

lemma read_object_enc:
  assumes "buf_ok b" "remaining b = enc_frame (b_rpos b) h mo kids @ rest"
    and "oh_id h \<in> dom (map_of toc)" "kids < 256" "mo = None \<longrightarrow> kids = 0" "\<And>m. mo = Some m \<Longrightarrow> more_ok m"
  shows "read_object E toc b s =
    rmap (\<lambda>(a, s). ((Some (a, kids), advanced (length (enc_frame (b_rpos b) h mo kids)) b), s)) (begin_object E toc h mo s)"
proof -
  let ?d = "enc_data h mo kids" and ?k = "skip_length (b_rpos b + 2)"
  obtain name where name: "map_of toc (oh_id h) = Some name" using assms(3) by blast
  let ?t = "type_index E name"
  have rest: "remaining b = le_bytes 2 (oh_id h) @ replicate ?k 0 @ le_bytes 8 (of_nat (length ?d) :: u64) @ ?d @ rest"
    using assms(2) by (simp add: enc_frame_def)
  have room: "b_rpos b + 2 + ?k + 8 + length ?d < size_limit"
  proof -
    have "length (remaining b) = 2 + ?k + 8 + length ?d + length rest" using rest by simp
    then have "b_rpos b + (2 + ?k + 8 + length ?d) \<le> length (storage b)" by (simp add: length_remaining)
    then show ?thesis using assms(1) by (simp add: buf_ok_def)
  qed
  define b1 b2 b3 b4 f where "b1 = advanced 2 b" and "b2 = advanced ?k b1" and "b3 = advanced 8 b2"
    and "b4 = advanced (length ?d) b3" and "f = b_rpos b2 + 8 + length ?d"
  note bs = b1_def b2_def b3_def b4_def f_def
  have id: "get_u16 b = Inr (oh_id h, b1)" unfolding bs using get_word_encs(2) [OF assms(1) rest] .
  have skip: "snd (buf_skip b1) = b2" using buf_skip_enc [of b1] room by (simp add: bs)
  have fin: "read_finish b2 = Inr (f, b3)"
    unfolding f_def b3_def using assms(1) rest room
    by (intro read_finish_enc [where rest = "?d @ rest"]) (simp_all add: bs)
  have pos: "set_rpos f b4 = advanced (length (enc_frame (b_rpos b) h mo kids)) b"
    by (simp add: bs set_rpos_def advanced_def enc_frame_def)
  show ?thesis
  proof (cases "?t = 0 \<or> info_at E ?t = None")
    case True
    then show ?thesis
      using id name by (auto simp: read_object_def begin_object_def frd_def deref_def gbind_gret Let_def step_simps)
  next
    case False
    then obtain info where info: "info_at E ?t = Some info" by blast
    obtain info' where i: "info_of_type E ?t = Some info'" using info_at_known info False by blast
    define kind where "kind = (object_class info)"
    define ob where "ob = blank_object kind ?t (0, 0) 0 (collide_mask info')"
    define s1 where "s1 = s\<lparr>sv_next := sv_next s + 1, sv_objects := (sv_objects s)(sv_next s \<mapsto> ob)\<rparr>"
    define s2 where "s2 = s1\<lparr>sv_objects := (sv_objects s1)(sv_next s \<mapsto> fill_object h mo ob)\<rparr>"
    have new: "new_object E kind ?t (0, 0) 0 s = Inr (sv_next s, s1)"
      unfolding s1_def ob_def using new_object_result [OF i] by blast
    have at: "sv_objects s1 (sv_next s) = Some ob" by (simp add: s1_def)
    have "takes (DefaultXferHandler (sv_next s)) ?d s1 kids s2"
      unfolding s2_def by (rule takes_DefaultXferHandler) (simp_all add: assms(4,5,6) at)
    then have xfer: "DefaultXferHandler (sv_next s) b3 s1 = Inr ((kids, b4), s2)"
      unfolding b4_def using assms(1) rest by (intro takesD [where rest = rest]) (simp_all add: bs)
    have "begin_object E toc h mo s = Inr (sv_next s, s2)"
      using name False info new upd_object_at [OF at, of "fill_object h mo"] unfolding s2_def kind_def
      by (simp add: begin_object_def deref_Some gbind_gret Let_def) (simp add: gbind_def gthen_def gret_def)
    moreover have "read_object E toc b s = Inr ((Some (sv_next s, kids), set_rpos f b4), s2)"
      using name False info new unfolding kind_def
      by (simp add: read_object_def deref_Some gbind_gret Let_def)
        (simp add: gbind_def glift_def gret_def frd_def id skip fin xfer deref_Some)
    ultimately show ?thesis using pos by simp
  qed
qed

lemma obind_assoc: "obind (obind m f) g = obind m (\<lambda>x. obind (f x) g)"
  by (auto simp: obind_def split: option.split sum.split)

lemma obind_Some: "obind (Some m) f = (case m of Inl e \<Rightarrow> Some (Inl e) | Inr x \<Rightarrow> f x)"
  by (cases m) simp_all

lemma read_children_0 [simp]: "read_children E toc a 0 b s = Some (Inr (b, s))"
  by (subst read_children.simps) simp

text \<open>The loop over the objects carried calls \<open>CreateObjectFromFile\<close>.\<close>

lemma read_children_Suc:
  "read_children E toc a (Suc n) b s =
     obind (CreateObjectFromFile E toc b s) (\<lambda>((p, b), s).
       case p of
         None \<Rightarrow> Some (Inr (b, s))
       | Some c \<Rightarrow> obind (Some (put_in_inventory a c s)) (\<lambda>(_, s). read_children E toc a n b s))"
  by (subst read_children.simps)
    (auto simp: CreateObjectFromFile_def obind_assoc obind_Some gthen_def gbind_def rbind_Inr_iff
      intro!: arg_cong2 [of _ _ _ _ obind] split: sum.split option.split)

lemma read_enc:
  "buf_ok b \<Longrightarrow> remaining b = enc_object (b_rpos b) obj @ rest \<Longrightarrow> object_ok toc obj \<Longrightarrow>
     CreateObjectFromFile E toc b s =
       Some (rmap (\<lambda>(a, s). ((Some a, advanced (length (enc_object (b_rpos b) obj)) b), s)) (create_object E toc obj s))"
  "buf_ok b' \<Longrightarrow> remaining b' = enc_objects (b_rpos b') kids @ rest' \<Longrightarrow> \<forall>k \<in> set kids. object_ok toc k \<Longrightarrow>
     read_children E toc a (length kids) b' s' =
       Some (rmap (\<lambda>(u, s). (advanced (length (enc_objects (b_rpos b') kids)) b', s)) (carry_objects E toc a kids s'))"
proof (induction "b_rpos b" obj and "b_rpos b'" kids arbitrary: b rest s and a b' rest' s' rule: enc_object_enc_objects.induct)
  case (1 h mo kids)
  let ?f = "enc_frame (b_rpos b) h mo (length kids)"
  have ok: "oh_id h \<in> dom (map_of toc)" "length kids < 256" "mo = None \<longrightarrow> kids = []" "\<And>m. mo = Some m \<Longrightarrow> more_ok m"
      "\<forall>k \<in> set kids. object_ok toc k"
    using "1.prems"(3) by auto
  have frame: "read_object E toc b s = rmap (\<lambda>(a, s). ((Some (a, length kids), advanced (length ?f) b), s)) (begin_object E toc h mo s)"
    by (rule read_object_enc [where rest = "enc_objects (b_rpos b + length ?f) kids @ rest"])
      (use "1.prems" ok in \<open>simp_all add: Let_def\<close>)
  have kids: "read_children E toc a (length kids) (advanced (length ?f) b) s =
      Some (rmap (\<lambda>(u, s). (advanced (length (enc_objects (b_rpos b + length ?f) kids)) (advanced (length ?f) b), s))
        (carry_objects E toc a kids s))" for a s
    using "1.hyps" [of "?f" "advanced (length ?f) b" rest a s] "1.prems"(1,2) ok(5) by (simp add: Let_def)
  show ?case
  proof (cases "begin_object E toc h mo s")
    case (Inr as)
    obtain a s1 where a: "begin_object E toc h mo s = Inr (a, s1)" using Inr by (cases as) auto
    show ?thesis
    proof (cases "carry_objects E toc a kids s1")
      case (Inr us)
      then obtain s2 where c: "carry_objects E toc a kids s1 = Inr ((), s2)" by (cases us) auto
      show ?thesis
        by (cases "AddToWorld E a s2")
          (auto simp: CreateObjectFromFile_def frame kids Let_def gbind_def gthen_def gret_def a c)
    qed (simp add: CreateObjectFromFile_def frame kids Let_def gbind_def gthen_def a)
  qed (simp add: CreateObjectFromFile_def frame gbind_def)
next
  case (2 b')
  then show ?case by (simp add: gret_def)
next
  case (3 k ks)
  let ?e = "enc_object (b_rpos b') k"
  have first: "CreateObjectFromFile E toc b' s' =
      Some (rmap (\<lambda>(a, s). ((Some a, advanced (length ?e) b'), s)) (create_object E toc k s'))"
    using "3.hyps"(1) [of b' "enc_objects (b_rpos b' + length ?e) ks @ rest'" s'] "3.prems" by (simp add: Let_def)
  have others: "read_children E toc a (length ks) (advanced (length ?e) b') s =
      Some (rmap (\<lambda>(u, s). (advanced (length (enc_objects (b_rpos b' + length ?e) ks)) (advanced (length ?e) b'), s))
        (carry_objects E toc a ks s))" for s
    using "3.hyps"(2) [of ?e "advanced (length ?e) b'" rest' a s] "3.prems" by (simp add: Let_def)
  show ?case
  proof (cases "create_object E toc k s'")
    case (Inr cs)
    obtain c s1 where c: "create_object E toc k s' = Inr (c, s1)" using Inr by (cases cs) auto
    show ?thesis
    proof (cases "put_in_inventory a c s1")
      case (Inr us)
      then obtain s2 where u: "put_in_inventory a c s1 = Inr ((), s2)" by (cases us) auto
      show ?thesis
        by (cases "carry_objects E toc a ks s2")
          (auto simp: read_children_Suc first others Let_def gbind_def gthen_def c u)
    qed (simp add: read_children_Suc first gbind_def gthen_def c)
  qed (simp add: read_children_Suc first gbind_def)
qed

end
