(* ===== verification/Map_Loading.thy ===== *)
theory Map_Loading
  imports Map_Encoding
begin

text \<open>
  Whole map files: loading a file written from a header and sections is what the sections describe
  (\<open>map_file_loads\<close>), a section with a negative length makes the server load for ever
  (\<open>map_loading_hangs\<close>), and an encrypted file loads like the plain one.
\<close>

section \<open>Sections as they stand in a file\<close>

datatype map_section =
    SkippedSection string bytes
  | WallMap "nox_wall list"
  | ObjectTOC "(u16 \<times> bytes) list"
  | ObjectData "map_object list"

fun section_title :: "map_section \<Rightarrow> string" where
  "section_title (SkippedSection name content) = name"
| "section_title (WallMap ws) = ''WallMap''"
| "section_title (ObjectTOC es) = ''ObjectTOC''"
| "section_title (ObjectData objs) = ''ObjectData''"

definition wall_bytes :: "nox_wall \<Rightarrow> bytes" where
  "wall_bytes w = [wl_x w, wl_y w, wl_facing w, 0, wl_variation w, wl_minimap w, 0]"

definition entry_bytes :: "u16 \<times> bytes \<Rightarrow> bytes" where
  "entry_bytes e = le_bytes 2 (fst e) @ enc_str 1 (snd e)"

text \<open>The content of a section that starts at position \<open>p\<close>; objects are closed by the type 0.\<close>

fun enc_content :: "nat \<Rightarrow> map_section \<Rightarrow> bytes" where
  "enc_content p (SkippedSection name content) = content"
| "enc_content p (WallMap ws) = replicate 18 0 @ concat (map wall_bytes ws) @ [0xFF]"
| "enc_content p (ObjectTOC es) = [1, 0] @ le_bytes 2 (of_nat (length es) :: u16) @ concat (map entry_bytes es)"
| "enc_content p (ObjectData objs) = [1, 0] @ enc_objects (p + 2) objs @ le_bytes 2 (0 :: u16)"

definition enc_title :: "nat \<Rightarrow> string \<Rightarrow> bytes" where
  "enc_title p name = enc_str 1 (string_bytes name) @ replicate (skip_length (p + 1 + length name)) 0"

definition enc_section :: "nat \<Rightarrow> map_section \<Rightarrow> bytes" where
  "enc_section p sec =
     (let t = enc_title p (section_title sec); c = enc_content (p + length t + 8) sec
      in t @ le_bytes 8 (of_nat (length c) :: u64) @ c)"

fun enc_sections :: "nat \<Rightarrow> map_section list \<Rightarrow> bytes" where
  "enc_sections p [] = []"
| "enc_sections p (sec # secs) = (let e = enc_section p sec in e @ enc_sections (p + length e) secs)"

definition enc_header :: "map_header \<Rightarrow> bytes" where
  "enc_header h =
     le_bytes 4 (mh_fileid h) @ le_bytes 4 (mh_unk1 h) @ le_bytes 4 (mh_checksum h) @ le_bytes 4 (mh_unk2 h) @
     le_bytes 4 (mh_unk3 h) @ le_bytes 4 (mh_unk4 h)"

definition map_bytes :: "map_header \<Rightarrow> map_section list \<Rightarrow> bytes" where
  "map_bytes h secs = enc_header h @ enc_sections 24 secs"

section \<open>What they describe\<close>

definition add_walls :: "nox_wall list \<Rightarrow> wall_map \<Rightarrow> wall_map" where
  "add_walls ws W = fold (\<lambda>w W. snd (NoxWallMap_AddWall w W)) ws W"

definition add_entries :: "(u16 \<times> bytes) list \<Rightarrow> object_toc \<Rightarrow> object_toc" where
  "add_entries es toc = fold (\<lambda>(i, name). toc_insert i name) es toc"

fun apply_section :: "env \<Rightarrow> map_section \<Rightarrow> nox_map \<Rightarrow> nox_map game" where
  "apply_section E (SkippedSection name content) m = gret m"
| "apply_section E (WallMap ws) m =
     gbind (AddCollisionWalls (nm_walls_object m)) (\<lambda>a.
       let W = add_walls ws (nm_walls m, nm_shape m)
       in gret (m\<lparr>nm_walls := fst W, nm_shape := snd W, nm_walls_object := a\<rparr>))"
| "apply_section E (ObjectTOC es) m =
     (let toc = add_entries es (nm_toc m)
      in if length toc = length es then gret (m\<lparr>nm_toc := toc\<rparr>) else gfail AssertFail)"
| "apply_section E (ObjectData objs) m = gthen (gfor objs (\<lambda>obj. gvoid (create_object E (nm_toc m) obj))) (gret m)"

fun apply_sections :: "env \<Rightarrow> map_section list \<Rightarrow> nox_map \<Rightarrow> nox_map game" where
  "apply_sections E [] m = gret m"
| "apply_sections E (sec # secs) m = gbind (apply_section E sec m) (apply_sections E secs)"

text \<open>What the format can hold, given the table of contents read so far.\<close>

fun section_ok :: "object_toc \<Rightarrow> map_section \<Rightarrow> bool" where
  "section_ok toc (SkippedSection name content) \<longleftrightarrow> name \<in> set skipped_sections"
| "section_ok toc (WallMap ws) \<longleftrightarrow> (\<forall>w \<in> set ws. wl_x w \<noteq> 0xFF \<and> wl_y w \<noteq> 0xFF \<and> wl_facing w < 0x80)"
| "section_ok toc (ObjectTOC es) \<longleftrightarrow> length es < 2 ^ 16 \<and> (\<forall>(i, name) \<in> set es. length name < 255)"
| "section_ok toc (ObjectData objs) \<longleftrightarrow> 0 \<notin> dom (map_of toc) \<and> (\<forall>obj \<in> set objs. object_ok toc obj)"

fun toc_after :: "map_section \<Rightarrow> object_toc \<Rightarrow> object_toc" where
  "toc_after (ObjectTOC es) toc = add_entries es toc"
| "toc_after sec toc = toc"

fun sections_ok :: "object_toc \<Rightarrow> map_section list \<Rightarrow> bool" where
  "sections_ok toc [] \<longleftrightarrow> True"
| "sections_ok toc (sec # secs) \<longleftrightarrow> section_ok toc sec \<and> sections_ok (toc_after sec toc) secs"

section \<open>Reading them\<close>

lemma titles: "section_ok toc sec \<Longrightarrow> length (section_title sec) < 254 \<and> 0 \<notin> set (string_bytes (section_title sec))"
  by (cases sec) (auto simp: skipped_sections_def string_bytes_def)

lemma section_name_enc:
  assumes "buf_ok b" "remaining b = enc_title (b_rpos b) name @ rest" "length name < 254" "0 \<notin> set (string_bytes name)"
  shows "section_name b = Inr (name, advanced (length (enc_title (b_rpos b) name)) b)"
proof -
  let ?k = "skip_length (b_rpos b + 1 + length name)"
  have rest: "remaining b = enc_str 1 (string_bytes name) @ replicate ?k 0 @ rest" using assms(2) by (simp add: enc_title_def)
  have str: "readstring 1 0xFF b = Inr (string_bytes name, advanced (1 + length name) b)"
    using readstring_enc [OF assms(1) rest, of 255] assms(3) by (simp add: size_limit_def)
  have room: "b_rpos b + (1 + length name + ?k) \<le> length (storage b)"
    using arg_cong [OF rest, of length] by (simp add: length_remaining)
  then have skip: "snd (buf_skip (advanced (1 + length name) b)) = advanced (1 + length name + ?k) b"
    using buf_skip_enc [of "advanced (1 + length name) b"] assms(1) by (simp add: buf_ok_def add.assoc)
  have "c_str (string_bytes name) = string_bytes name"
    using assms(4) by (simp add: c_str_def takeWhile_eq_all_conv) metis
  then show ?thesis using str skip by (simp add: section_name_def chars_string_bytes enc_title_def)
qed

lemma read_wall_enc:
  assumes "buf_ok b" "remaining b = wall_bytes w @ rest" "wl_facing w < 0x80"
  shows "read_wall b = Inr (w, advanced 7 b)"
proof -
  have step: "get_u8 (advanced n b) = Inr (drop n (remaining b) ! 0, advanced (n + 1) b)" if "n < 7" for n
  proof -
    have "n < length (remaining b)" using assms(2) that by (simp add: wall_bytes_def)
    then have "remaining (advanced n b) = le_bytes 1 (remaining b ! n) @ drop (n + 1) (remaining b)"
      by (simp add: Cons_nth_drop_Suc)
    then show ?thesis using get_word_encs(1) [of "advanced n b"] assms(1) \<open>n < length _\<close> by simp
  qed
  have facing: "wl_facing w AND 0x7F = wl_facing w"
  proof -
    have "unat (wl_facing w) < 2 ^ 7" using assms(3) by (simp add: word_less_nat_alt)
    then have "take_bit 7 (wl_facing w) = wl_facing w"
      by (intro word_unat_eq_iff [THEN iffD2]) (simp add: unsigned_take_bit_eq take_bit_nat_eq_self)
    then show ?thesis by (simp add: take_bit_eq_mask mask_numeral)
  qed
  show ?thesis
    unfolding read_wall_def using step [of 0] step [of 1] step [of 2] step [of 3] step [of 4] step [of 5] step [of 6] assms(2) facing
    by (simp add: wall_bytes_def numeral_eq_Suc)
qed

lemma read_walls_enc:
  assumes "buf_ok b" "remaining b = concat (map wall_bytes ws) @ [0xFF] @ rest"
    and "\<forall>w \<in> set ws. wl_x w \<noteq> 0xFF \<and> wl_y w \<noteq> 0xFF \<and> wl_facing w < 0x80"
  shows "read_walls W b = Inr (add_walls ws W, advanced (7 * length ws + 1) b)"
  using assms
proof (induction ws arbitrary: b W)
  case Nil
  then have "get_u8 b = Inr (0xFF, advanced 1 b)" by (intro get_word_encs) simp_all
  then show ?case by (simp add: read_walls.simps [of W b] add_walls_def)
next
  case (Cons w ws)
  have x: "get_u8 b = Inr (wl_x w, advanced 1 b)"
    using Cons.prems by (intro get_word_encs [where rest = "tl (remaining b)"]) (simp_all add: wall_bytes_def)
  have y: "get_u8 (advanced 1 b) = Inr (wl_y w, advanced 2 b)"
    using get_word_encs(1) [of "advanced 1 b" "wl_y w" "drop 2 (remaining b)"] Cons.prems by (simp add: wall_bytes_def)
  have return: "set_rpos (size_sub (b_rpos (advanced 2 b)) 2) (advanced 2 b) = b"
    using two_back [OF x y] by (simp add: set_rpos_def advanced_def)
  have wall: "read_wall b = Inr (w, advanced 7 b)" using Cons.prems by (intro read_wall_enc) auto
  have "read_walls (snd (NoxWallMap_AddWall w W)) (advanced 7 b) =
      Inr (add_walls ws (snd (NoxWallMap_AddWall w W)), advanced (7 * length ws + 1) (advanced 7 b))"
    using Cons.prems by (intro Cons.IH) (simp_all add: wall_bytes_def)
  then show ?case
    using Cons.prems(3) x y return wall by (simp add: read_walls.simps [of W b] add_walls_def)
qed

lemma read_toc_enc:
  assumes "buf_ok b" "remaining b = concat (map entry_bytes es) @ rest" "\<forall>(i, name) \<in> set es. length name < 255"
    and "finish = b_rpos b + length (concat (map entry_bytes es))"
  shows "read_toc finish toc b = Some (Inr (add_entries es toc, advanced (length (concat (map entry_bytes es))) b))"
  using assms
proof (induction es arbitrary: b toc)
  case Nil
  then have "finish \<le> b_rpos b" by simp
  then show ?case by (subst read_toc.simps) (simp add: add_entries_def)
next
  case (Cons e es)
  obtain i name where e: "e = (i, name)" by (cases e)
  have len: "length name < 255" using Cons.prems(3) e by simp
  have rest: "remaining b = le_bytes 2 i @ enc_str 1 name @ concat (map entry_bytes es) @ rest"
    using Cons.prems(2) by (simp add: e entry_bytes_def [of "(i, name)"])
  have i: "get_u16 b = Inr (i, advanced 2 b)" using get_word_encs(2) [OF Cons.prems(1) rest] .
  have name: "readstring 1 0xFF (advanced 2 b) = Inr (name, advanced (3 + length name) b)"
    using readstring_enc [of "advanced 2 b" 1 name "concat (map entry_bytes es) @ rest" 255] Cons.prems(1) rest len
    by (simp add: size_limit_def)
  have entry: "length (entry_bytes e) = 3 + length name" by (simp add: e entry_bytes_def)
  have "b_rpos b < finish" using Cons.prems(4) entry by simp
  moreover have "read_toc finish (toc_insert i name toc) (advanced (3 + length name) b) =
      Some (Inr (add_entries es (toc_insert i name toc), advanced (length (concat (map entry_bytes es))) (advanced (3 + length name) b)))"
    using Cons.prems rest entry by (intro Cons.IH) simp_all
  ultimately show ?case
    using i name entry by (simp add: read_toc.simps [of finish toc b] add_entries_def e)
qed

text \<open>The objects of a section, up to the type 0 that is not in the table.\<close>

lemma read_objects_enc:
  assumes "buf_ok b" "remaining b = enc_objects (b_rpos b) objs @ le_bytes 2 (0 :: u16) @ rest"
    and "0 \<notin> dom (map_of toc)" "\<forall>obj \<in> set objs. object_ok toc obj"
  shows "read_objects E toc b s =
    Some (rmap (\<lambda>(u, s). (advanced (length (enc_objects (b_rpos b) objs) + 2) b, s))
      (gfor objs (\<lambda>obj. gvoid (create_object E toc obj)) s))"
  using assms
proof (induction objs arbitrary: b s)
  case Nil
  have zero: "get_u16 b = Inr (0, advanced 2 b)" using Nil.prems by (intro get_word_encs) simp_all
  have "b_rpos b < buf_size b" using arg_cong [OF Nil.prems(2), of length] by (simp add: length_remaining buf_size_def)
  moreover have "map_of toc 0 = None" using Nil.prems(3) by (simp add: domIff)
  ultimately show ?case
    using zero by (subst read_objects.simps) (simp add: CreateObjectFromFile_def read_object_def frd_def step_simps)
next
  case (Cons obj objs)
  let ?e = "enc_object (b_rpos b) obj"
  have one: "CreateObjectFromFile E toc b s =
      Some (rmap (\<lambda>(a, s). ((Some a, advanced (length ?e) b), s)) (create_object E toc obj s))"
    using Cons.prems by (intro read_enc(1)) (simp_all add: Let_def)
  have others: "read_objects E toc (advanced (length ?e) b) s =
      Some (rmap (\<lambda>(u, s). (advanced (length (enc_objects (b_rpos b + length ?e) objs) + 2) (advanced (length ?e) b), s))
        (gfor objs (\<lambda>obj. gvoid (create_object E toc obj)) s))" for s
    using Cons.prems Cons.IH [of "advanced (length ?e) b"] by (simp add: Let_def)
  have "remaining b \<noteq> []" using Cons.prems(2) by (simp add: Let_def)
  then have "b_rpos b < buf_size b" by (simp add: remaining_def buf_size_def)
  then show ?case
    using one others
    by (subst read_objects.simps, cases "create_object E toc obj s") (auto simp: Let_def step_simps)
qed

section \<open>Reading a section\<close>

lemma section_content_room:
  assumes "buf_ok b" "remaining b = le_bytes 8 (of_nat (length c) :: u64) @ c @ rest"
  shows "length c + 8 + b_rpos b < size_limit"
  using arg_cong [OF assms(2), of length] assms(1) by (simp add: length_remaining buf_ok_def)

lemma read_section_enc:
  assumes "buf_ok (nm_buf m)" "section_ok (nm_toc m) sec" "c = enc_content (b_rpos (nm_buf m) + 8) sec"
    and "remaining (nm_buf m) = le_bytes 8 (of_nat (length c) :: u64) @ c @ rest"
  shows "read_section E (section_title sec) m s =
    Some (rmap (\<lambda>(m', s'). (m'\<lparr>nm_buf := advanced (8 + length c) (nm_buf m)\<rparr>, s')) (apply_section E sec m s))"
proof -
  define b where "b = nm_buf m"
  define b1 where "b1 = advanced 8 b"
  have fin: "read_finish b = Inr (b_rpos b + 8 + length c, b1)"
    unfolding b1_def b_def using section_content_room [OF assms(1,4)] by (intro read_finish_enc [OF assms(1,4)])
  have jump: "set_rpos (b_rpos b + 8 + length c) (advanced n b) = advanced (8 + length c) b" for n
    by (simp add: set_rpos_def advanced_def)
  have ok: "buf_ok b1" using assms(1) by (simp add: b1_def b_def)
  have rest: "remaining b1 = c @ rest" using assms(4) by (simp add: b1_def b_def)
  have pos1: "b_rpos b1 = b_rpos b + 8" by (simp add: b1_def)
  show ?thesis
  proof (cases sec)
    case (SkippedSection name content)
    then show ?thesis using assms(2) fin jump [of 8]
      by (simp add: read_section_def skipSection_def b1_def step_simps flip: b_def)
  next
    case (WallMap ws)
    have c: "c = replicate 18 0 @ concat (map wall_bytes ws) @ [0xFF]" using assms(3) WallMap by simp
    have skip: "read_skip [2, 4, 4, 4, 4] b1 = Inr (advanced 18 b1)"
      using read_skip_enc [OF ok, of "[2, 4, 4, 4, 4]"] rest c by simp
    have walls: "read_walls W (advanced 18 b1) = Inr (add_walls ws W, advanced (7 * length ws + 1) (advanced 18 b1))" for W
      using assms(2) WallMap ok rest c by (intro read_walls_enc [where rest = rest]) simp_all
    show ?thesis
      unfolding WallMap section_title.simps
      using fin skip walls jump
      by (cases "AddCollisionWalls (nm_walls_object m) s")
        (auto simp: read_section_def skipped_sections_def NoxWallMap_read_def frd_def fskip_def step_simps Let_def b1_def
          simp flip: b_def)
  next
    case (ObjectTOC es)
    have c: "c = [1, 0] @ le_bytes 2 (of_nat (length es) :: u16) @ concat (map entry_bytes es)" using assms(3) ObjectTOC by simp
    have skip: "read_skip [2] b1 = Inr (advanced 2 b1)" using read_skip_enc [OF ok, of "[2]"] rest c by simp
    have num: "get_u16 (advanced 2 b1) = Inr (of_nat (length es), advanced 4 b1)"
      using get_word_encs(2) [of "advanced 2 b1" "of_nat (length es)" "concat (map entry_bytes es) @ rest"] ok rest c by simp
    have toc: "read_toc (b_rpos b + 8 + length c) toc (advanced 4 b1) =
        Some (Inr (add_entries es toc, advanced (length (concat (map entry_bytes es))) (advanced 4 b1)))" for toc
      using assms(2) ObjectTOC ok rest c pos1 by (intro read_toc_enc [where rest = rest]) simp_all
    have "unat (of_nat (length es) :: u16) = length es"
      using assms(2) ObjectTOC by (simp add: unsigned_of_nat take_bit_nat_eq_self)
    then show ?thesis
      unfolding ObjectTOC section_title.simps
      using fin skip num toc c
      by (simp add: read_section_def skipped_sections_def NoxObjectTOC_read_def step_simps b1_def flip: b_def)
  next
    case (ObjectData objs)
    let ?os = "enc_objects (b_rpos b + 10) objs"
    have c: "c = [1, 0] @ ?os @ le_bytes 2 (0 :: u16)" using assms(3) ObjectData by (simp add: b_def add.commute)
    have skip: "read_skip [2] b1 = Inr (advanced 2 b1)" using read_skip_enc [OF ok, of "[2]"] rest c by simp
    have objs: "read_objects E (nm_toc m) (advanced 2 b1) s =
        Some (rmap (\<lambda>(u, s). (advanced (length ?os + 2) (advanced 2 b1), s)) (gfor objs (\<lambda>obj. gvoid (create_object E (nm_toc m) obj)) s))" for s
      using read_objects_enc [of "advanced 2 b1" objs rest "nm_toc m" E s] assms(2) ObjectData ok rest c pos1
      by (simp add: add.commute)
    show ?thesis
      unfolding ObjectData section_title.simps
      using fin skip objs c
      by (cases "gfor objs (\<lambda>obj. gvoid (create_object E (nm_toc m) obj)) s")
        (auto simp: read_section_def skipped_sections_def readObjects_def step_simps b1_def simp flip: b_def)
  qed
qed

section \<open>Reading them all\<close>

lemma apply_section_buf:
  "apply_section E sec (m\<lparr>nm_buf := b\<rparr>) s = rmap (\<lambda>(m', s'). (m'\<lparr>nm_buf := b\<rparr>, s')) (apply_section E sec m s)"
proof (cases sec)
  case (WallMap ws)
  then show ?thesis by (cases "AddCollisionWalls (nm_walls_object m) s") (auto simp: step_simps Let_def)
next
  case (ObjectData objs)
  then show ?thesis
    by (cases "gfor objs (\<lambda>obj. gvoid (create_object E (nm_toc m) obj)) s") (auto simp: step_simps)
qed (simp_all add: step_simps Let_def)

lemma apply_sections_buf:
  "apply_sections E secs (m\<lparr>nm_buf := b\<rparr>) s = rmap (\<lambda>(m', s'). (m'\<lparr>nm_buf := b\<rparr>, s')) (apply_sections E secs m s)"
proof (induction secs arbitrary: m s)
  case (Cons sec secs)
  then show ?case
    by (cases "apply_section E sec m s") (auto simp: apply_section_buf step_simps)
qed (simp add: gret_def)

lemma apply_section_toc: "apply_section E sec m s = Inr (m', s') \<Longrightarrow> nm_toc m' = toc_after sec (nm_toc m)"
  by (cases sec) (auto simp: step_simps Let_def rbind_Inr_iff split: if_splits)

lemma read_sections_enc:
  "buf_ok (nm_buf m) \<Longrightarrow> remaining (nm_buf m) = enc_sections (b_rpos (nm_buf m)) secs \<Longrightarrow> sections_ok (nm_toc m) secs \<Longrightarrow>
   read_sections E m s =
     Some (rmap (\<lambda>(m', s'). (m'\<lparr>nm_buf := advanced (length (enc_sections (b_rpos (nm_buf m)) secs)) (nm_buf m)\<rparr>, s'))
       (apply_sections E secs m s))"
proof (induction secs arbitrary: m s)
  case Nil
  then have "\<not> b_rpos (nm_buf m) < buf_size (nm_buf m)" by (simp add: remaining_def buf_size_def)
  then show ?case by (subst read_sections.simps) (simp add: gret_def)
next
  case (Cons sec secs)
  define b where "b = nm_buf m"
  define t where "t = enc_title (b_rpos b) (section_title sec)"
  define c where "c = enc_content (b_rpos b + length t + 8) sec"
  define k where "k = length t + 8 + length c"
  define es where "es = enc_sections (b_rpos b + k) secs"
  have sec_bytes: "enc_section (b_rpos b) sec = t @ le_bytes 8 (of_nat (length c) :: u64) @ c"
    by (simp add: enc_section_def t_def c_def Let_def)
  then have size: "length (enc_section (b_rpos b) sec) = k" by (simp add: k_def)
  have whole: "enc_sections (b_rpos b) (sec # secs) = t @ le_bytes 8 (of_nat (length c) :: u64) @ c @ es"
    using sec_bytes size by (simp add: Let_def es_def)
  then have whole_size: "length (enc_sections (b_rpos b) (sec # secs)) = length t + (8 + (length c + length es))"
    by (simp del: enc_sections.simps)
  have rest: "remaining b = t @ le_bytes 8 (of_nat (length c) :: u64) @ c @ es" using Cons.prems(2) whole by (simp add: b_def)
  have ok: "buf_ok b" using Cons.prems(1) by (simp add: b_def)
  have names: "length (section_title sec) < 254" "0 \<notin> set (string_bytes (section_title sec))"
    using titles [of "nm_toc m" sec] Cons.prems(3) by simp_all
  have name: "section_name b = Inr (section_title sec, advanced (length t) b)"
    unfolding t_def using rest by (intro section_name_enc [OF ok _ names]) (simp add: t_def)
  have "remaining b \<noteq> []" using rest by (simp add: t_def enc_title_def enc_str_def)
  then have "b_rpos b < buf_size b" by (simp add: remaining_def buf_size_def)
  moreover have "read_section E (section_title sec) (m\<lparr>nm_buf := advanced (length t) b\<rparr>) s =
      Some (rmap (\<lambda>(m', s'). (m'\<lparr>nm_buf := advanced k b\<rparr>, s')) (apply_section E sec m s))"
    using read_section_enc [of "m\<lparr>nm_buf := advanced (length t) b\<rparr>" sec c es E s] ok rest Cons.prems(3)
    by (cases "apply_section E sec m s") (auto simp: c_def k_def apply_section_buf add.assoc)
  moreover have "read_sections E (m'\<lparr>nm_buf := advanced k b\<rparr>) s' =
      Some (rmap (\<lambda>(m', s'). (m'\<lparr>nm_buf := advanced (k + length es) b\<rparr>, s')) (apply_sections E secs m' s'))"
    if "apply_section E sec m s = Inr (m', s')" for m' s'
    using Cons.IH [of "m'\<lparr>nm_buf := advanced k b\<rparr>" s'] ok rest apply_section_toc [OF that] Cons.prems(3)
    by (cases "apply_sections E secs m' s'") (auto simp: es_def k_def apply_sections_buf)
  ultimately show ?case
    using name
    by (subst read_sections.simps, cases "apply_section E sec m s")
      (auto simp: step_simps whole_size k_def add.assoc simp flip: b_def simp del: enc_sections.simps)
qed

section \<open>Loading a file\<close>

lemma header_enc:
  assumes "buf_ok b" "remaining b = enc_header h @ rest" "mh_fileid h = 0xFADEFACE"
  shows "get_u32 b = Inr (0xFADEFACE, advanced 4 b)" "NoxMapHeader_read b = Inr (h, advanced 24 b)"
proof -
  have step: "get_u32 (advanced n b) = Inr (w, advanced (n + 4) b)" if "drop n (remaining b) = le_bytes 4 w @ more" for n w more
    using get_word_encs(3) [of "advanced n b" w more] assms(1) that by simp
  note steps = step [of 0 "mh_fileid h"] step [of 4 "mh_unk1 h"] step [of 8 "mh_checksum h"] step [of 12 "mh_unk2 h"]
    step [of 16 "mh_unk3 h"] step [of 20 "mh_unk4 h" rest]
  show "get_u32 b = Inr (0xFADEFACE, advanced 4 b)" using steps(1) assms(2,3) by (simp add: enc_header_def)
  show "NoxMapHeader_read b = Inr (h, advanced 24 b)"
    using steps assms(2,3) by (simp add: NoxMapHeader_read_def enc_header_def)
qed

text \<open>The map object once the whole file is read.\<close>

definition read_up :: "bytes \<Rightarrow> nat \<Rightarrow> nox_map \<Rightarrow> nox_map" where
  "read_up file w m = m\<lparr>nm_buf := \<lparr>b_rpos = length file, b_wpos = w, storage = file\<rparr>\<rparr>"

lemma load_sections:
  assumes "mh_fileid h = 0xFADEFACE" "length (map_bytes h secs) < size_limit" "sections_ok (nm_toc m) secs"
    and "nm_buf m = \<lparr>b_rpos = 0, b_wpos = w, storage = map_bytes h secs\<rparr>"
  shows "obind (Some (load_header m)) (\<lambda>m. read_sections E m s) =
    Some (rmap (\<lambda>(m', s'). (read_up (map_bytes h secs) w m', s')) (apply_sections E secs (m\<lparr>nm_header := h\<rparr>) s))"
proof -
  define b where "b = nm_buf m"
  define m1 where "m1 = m\<lparr>nm_buf := advanced 24 b, nm_header := h\<rparr>"
  have b: "buf_ok b" "remaining b = enc_header h @ enc_sections 24 secs"
    using assms(2,4) by (simp_all add: buf_ok_def remaining_def map_bytes_def b_def)
  have head: "length (enc_header h) = 24" by (simp add: enc_header_def)
  have zero: "set_rpos 0 (advanced 4 b) = b" by (simp add: set_rpos_def advanced_def assms(4) b_def)
  have load: "load_header m = Inr m1"
    using header_enc [OF b assms(1)] zero by (simp add: load_header_def m1_def flip: b_def)
  have m1: "m1 = (m\<lparr>nm_header := h\<rparr>)\<lparr>nm_buf := advanced 24 b\<rparr>" by (simp add: m1_def)
  have pos: "b_rpos (nm_buf m1) = 24" by (simp add: m1_def b_def assms(4))
  have last_pos: "advanced (length (enc_sections 24 secs)) (nm_buf m1) = \<lparr>b_rpos = length (map_bytes h secs), b_wpos = w, storage = map_bytes h secs\<rparr>"
    by (simp add: m1_def b_def assms(4) advanced_def map_bytes_def head)
  have "read_sections E m1 s = Some (rmap (\<lambda>(m', s'). (m'\<lparr>nm_buf := advanced (length (enc_sections 24 secs)) (nm_buf m1)\<rparr>, s'))
      (apply_sections E secs m1 s))"
    using read_sections_enc [of m1 secs E s] b assms(3) head unfolding pos by (simp add: m1_def)
  also have "\<dots> = Some (rmap (\<lambda>(m', s'). (read_up (map_bytes h secs) w m', s')) (apply_sections E secs (m\<lparr>nm_header := h\<rparr>) s))"
    unfolding last_pos unfolding m1 apply_sections_buf
    by (cases "apply_sections E secs (m\<lparr>nm_header := h\<rparr>) s") (auto simp: read_up_def)
  finally show ?thesis using load by simp
qed

lemma open_file:
  assumes "files name = Some file" "nm_buf m = new_buffer"
  shows "NoxMap_open E files name m s =
    obind (obind (Some (rbind (getNxz files name (m\<lparr>nm_buf := \<lparr>b_rpos = 0, b_wpos = 0, storage = file\<rparr>\<rparr>)) load_header))
      (\<lambda>m. read_sections E m s)) (\<lambda>(m, s). Some (Inr ((True, m), s)))"
  using assms by (simp add: NoxMap_open_def buf_open_def new_buffer_def obind_assoc)

lemma getNxz_buf: "getNxz files name (m\<lparr>nm_buf := b\<rparr>) = rmap (\<lambda>m. m\<lparr>nm_buf := b\<rparr>) (getNxz files name m)"
  by (simp add: getNxz_def split: option.split)

lemma getNxz_frame: "getNxz files name m = Inr m' \<Longrightarrow> nm_buf m' = nm_buf m \<and> nm_toc m' = nm_toc m"
  by (auto simp: getNxz_def split: if_splits option.splits)

lemma open_sections:
  assumes "files name = Some (map_bytes h secs)" "length (map_bytes h secs) < size_limit"
    and "mh_fileid h = 0xFADEFACE" "sections_ok [] secs" "getNxz files name new_map = Inr m"
  shows "NoxMap_open E files name new_map s =
    Some (rmap (\<lambda>(m', s'). ((True, read_up (map_bytes h secs) 0 m'), s')) (apply_sections E secs (m\<lparr>nm_header := h\<rparr>) s))"
proof -
  let ?b = "\<lparr>b_rpos = 0, b_wpos = 0, storage = map_bytes h secs\<rparr>"
  have header_last: "(m\<lparr>nm_header := h\<rparr>)\<lparr>nm_buf := b\<rparr> = m\<lparr>nm_buf := b, nm_header := h\<rparr>" for b by simp
  have toc: "nm_toc m = []" using getNxz_frame [OF assms(5)] by (simp add: new_map_def)
  have "obind (Some (load_header (m\<lparr>nm_buf := ?b\<rparr>))) (\<lambda>m. read_sections E m s) =
      Some (rmap (\<lambda>(m', s'). (read_up (map_bytes h secs) 0 m', s')) (apply_sections E secs (m\<lparr>nm_buf := ?b, nm_header := h\<rparr>) s))"
    using load_sections [of h secs "m\<lparr>nm_buf := ?b\<rparr>" 0 E s] assms(2,3,4) toc by simp
  moreover have "apply_sections E secs (m\<lparr>nm_buf := ?b, nm_header := h\<rparr>) s =
      rmap (\<lambda>(m', s'). (m'\<lparr>nm_buf := ?b\<rparr>, s')) (apply_sections E secs (m\<lparr>nm_header := h\<rparr>) s)"
    using apply_sections_buf [where m = "m\<lparr>nm_header := h\<rparr>" and b = ?b and E = E and secs = secs and s = s]
    unfolding header_last .
  moreover have "nm_buf new_map = new_buffer" by (simp add: new_map_def)
  ultimately show ?thesis
    using open_file [of files name "map_bytes h secs" new_map E s] assms(1,5) getNxz_buf [of files name ?b new_map]
    by (cases "apply_sections E secs (m\<lparr>nm_header := h\<rparr>) s") (auto simp: read_up_def)
qed

text \<open>C11: a map file that holds a header, walls, a table of contents, objects and sections the server skips loads into the map
  and the server they describe, byte for byte: nothing of it is lost, nothing else is read, and loading ends.\<close>

theorem map_file_loads:
  assumes "files name = Some (map_bytes h secs)" "length (map_bytes h secs) < size_limit"
    and "mh_fileid h = 0xFADEFACE" "sections_ok [] secs" "getNxz files name new_map = Inr m"
  shows "NoxMap_open E files name new_map s =
    Some (rmap (\<lambda>(m', s'). ((True, read_up (map_bytes h secs) 0 m'), s')) (apply_sections E secs (m\<lparr>nm_header := h\<rparr>) s))"
  using assms by (rule open_sections)

section \<open>Files that never load\<close>

lemma strrchr_less: "strrchr c str = Some i \<Longrightarrow> i < length str"
  by (cases "str = []") (auto simp: strrchr_def split: if_splits)

lemma getNxz_ok: "length name < 509 \<Longrightarrow> \<exists>m'. getNxz files name m = Inr m'"
  by (auto simp: getNxz_def split: option.split dest: strrchr_less)

text \<open>A section whose length takes the position back to its own name.\<close>

definition hanging_map :: "map_header \<Rightarrow> bytes \<Rightarrow> bytes" where
  "hanging_map h extra = enc_header h @ enc_title 24 ''MapInfo'' @ le_bytes 8 (- 16 :: u64) @ extra"

lemma section_loop:
  assumes "section_name (nm_buf m) = Inr (name, b)" "name \<in> set skipped_sections" "skipSection b = Inr (nm_buf m)"
    and "b_rpos (nm_buf m) < buf_size (nm_buf m)"
  shows "read_sections E m s = None"
proof (rule ccontr)
  assume "read_sections E m s \<noteq> None"
  then obtain r where "read_sections E m s = Some r" by blast
  moreover have "nm_buf m' \<noteq> nm_buf m" if "read_sections E m' s' = Some r'" for E m' s' r'
    using that
  proof (rule read_sections.raw_induct [where P = "\<lambda>E m' s' r'. nm_buf m' \<noteq> nm_buf m", rotated])
    fix rs E m' s' r'
    assume IH: "\<And>E m' s' r'. rs E m' s' = Some r' \<Longrightarrow> nm_buf m' \<noteq> nm_buf m"
      and body: "(if b_rpos (nm_buf m') < buf_size (nm_buf m')
        then obind (Some (section_name (nm_buf m'))) (\<lambda>(name, b).
             obind (read_section E name (m'\<lparr>nm_buf := b\<rparr>) s') (\<lambda>(m, s). rs E m s))
        else Some (Inr (m', s'))) = Some r'"
    show "nm_buf m' \<noteq> nm_buf m"
    proof
      assume same: "nm_buf m' = nm_buf m"
      then have "rs E (m'\<lparr>nm_buf := nm_buf m\<rparr>) s' = Some r'"
        using body assms by (simp add: read_section_def)
      from IH [OF this] show False by simp
    qed
  qed
  ultimately show False by blast
qed

text \<open>C38: whatever follows it, a section of negative length that points back to its own name makes loading run for ever.\<close>

theorem map_loading_hangs:
  assumes "files name = Some (hanging_map h extra)" "length (hanging_map h extra) < size_limit"
    and "mh_fileid h = 0xFADEFACE" "length name < 509"
  shows "NoxMap_open E files name new_map s = None"
proof -
  define b where "b = \<lparr>b_rpos = 0, b_wpos = 0, storage = hanging_map h extra\<rparr>"
  have head: "length (enc_header h) = 24" by (simp add: enc_header_def)
  have b: "buf_ok b" "remaining b = enc_header h @ enc_title 24 ''MapInfo'' @ le_bytes 8 (- 16 :: u64) @ extra"
    using assms(2) by (simp_all add: b_def buf_ok_def remaining_def hanging_map_def)
  define b1 where "b1 = advanced 24 b"
  have rest: "buf_ok b1" "b_rpos b1 = 24" "remaining b1 = enc_title 24 ''MapInfo'' @ le_bytes 8 (- 16 :: u64) @ extra"
    using b head by (simp_all add: b1_def) (simp add: b_def)
  have title: "length (enc_title 24 ''MapInfo'') = 8" by (simp add: enc_title_def skip_length_def)
  have name: "section_name b1 = Inr (''MapInfo'', advanced 8 b1)"
    using section_name_enc [of b1 "''MapInfo''" "le_bytes 8 (- 16 :: u64) @ extra"] rest title by (simp add: string_bytes_def)
  have "read_word 8 (advanced 8 b1) = Inr (- 16 :: u64, advanced 16 b1)"
    using read_word_enc [of "advanced 8 b1" 8 "- 16 :: u64" extra] rest title by simp
  then have "read_finish (advanced 8 b1) = Inr (24, advanced 16 b1)"
    using rest(2) by (simp add: read_finish_def get_i64_def)
  then have skip: "skipSection (advanced 8 b1) = Inr b1"
    using rest(2) by (simp add: skipSection_def set_rpos_def advanced_def)
  have "remaining b1 \<noteq> []" using rest(3) by (simp add: enc_title_def enc_str_def)
  then have size: "b_rpos b1 < buf_size b1" by (simp add: remaining_def buf_size_def)
  have loops: "read_sections E m s = None" if "nm_buf m = b1" for m
    using section_loop [of m "''MapInfo''" "advanced 8 b1"] name skip size that by (simp add: skipped_sections_def)
  have zero: "set_rpos 0 (advanced 4 b) = b" by (simp add: set_rpos_def advanced_def b_def)
  obtain m where m: "getNxz files name (new_map\<lparr>nm_buf := b\<rparr>) = Inr m" "nm_buf m = b"
    using getNxz_ok [OF assms(4), of files "new_map\<lparr>nm_buf := b\<rparr>"] getNxz_frame by fastforce
  have "load_header m = Inr (m\<lparr>nm_buf := b1, nm_header := h\<rparr>)"
    using header_enc [OF b assms(3)] zero by (simp add: load_header_def m(2) b1_def)
  moreover have "nm_buf new_map = new_buffer" by (simp add: new_map_def)
  ultimately show ?thesis
    using open_file [of files name "hanging_map h extra" new_map E s] assms(1) m(1) loops
    by (simp flip: b_def)
qed

section \<open>Encrypted files\<close>

text \<open>A file that was encrypted, and does not start with the magic number by chance, loads like the plain one.\<close>

theorem encrypted_map_loads:
  assumes "8 dvd length plain" "nox_encrypt plain NC_MAP = Inr (r, file)" "files name = Some file"
    and "get_u32 \<lparr>b_rpos = 0, b_wpos = 0, storage = plain\<rparr> = Inr (0xFADEFACE, b1)"
    and "get_u32 \<lparr>b_rpos = 0, b_wpos = 0, storage = file\<rparr> = Inr (magic, b2)" "magic \<noteq> 0xFADEFACE"
    and "\<forall>i. strrchr CHR ''.'' name = Some i \<longrightarrow> nxz_path name i \<noteq> name"
  shows "NoxMap_open E files name new_map s = NoxMap_open E (files(name \<mapsto> plain)) name new_map s"
proof -
  let ?b = "\<lambda>bs. \<lparr>b_rpos = 0, b_wpos = 0, storage = bs\<rparr>"
  have "nox_decrypt file NC_MAP = Inr (0, plain)" using nox_crypt_inverse [OF assms(1), of NC_MAP] assms(2) by auto
  then have back_again: "buf_decrypt NC_MAP b2 = Inr (0, b2\<lparr>storage := plain\<rparr>)"
    using read_word_Inr [of 4 "?b file" magic b2] assms(5) by (auto simp: buf_decrypt_def get_u32_def)
  have b2: "set_rpos 0 (b2\<lparr>storage := plain\<rparr>) = ?b plain"
    using read_word_Inr [of 4 "?b file" magic b2] assms(5) by (auto simp: set_rpos_def get_u32_def)
  have b1: "set_rpos 0 b1 = ?b plain"
    using read_word_Inr [of 4 "?b plain" "0xFADEFACE :: u32" b1] assms(4) by (auto simp: set_rpos_def get_u32_def)
  have header: "load_header (m\<lparr>nm_buf := ?b file\<rparr>) = load_header (m\<lparr>nm_buf := ?b plain\<rparr>)" for m
    using assms(4,5,6) back_again b1 b2 by (simp add: load_header_def)
  have nxz: "getNxz files name m = getNxz (files(name \<mapsto> plain)) name m" for m
    using assms(7) by (auto simp: getNxz_def split: option.split)
  have "rbind (getNxz files name (new_map\<lparr>nm_buf := ?b file\<rparr>)) load_header =
      rbind (getNxz (files(name \<mapsto> plain)) name (new_map\<lparr>nm_buf := ?b plain\<rparr>)) load_header"
    unfolding getNxz_buf nxz [of new_map] by (cases "getNxz (files(name \<mapsto> plain)) name new_map") (simp_all add: header)
  moreover have "nm_buf new_map = new_buffer" by (simp add: new_map_def)
  ultimately show ?thesis
    using open_file [of files name "file" new_map E s] assms(3) open_file [of "files(name \<mapsto> plain)" name plain new_map E s] by simp
qed

section \<open>Examples\<close>

definition sample_wall :: nox_wall where
  "sample_wall = \<lparr>wl_x = 3, wl_y = 4, wl_facing = 0, wl_variation = 1, wl_minimap = 2\<rparr>"

definition sample_header :: map_header where
  "sample_header = \<lparr>mh_fileid = 0xFADEFACE, mh_unk1 = 0, mh_checksum = 5, mh_unk2 = 0, mh_unk3 = 0, mh_unk4 = 0\<rparr>"

definition sample_sections :: "map_section list" where
  "sample_sections = [SkippedSection ''MapInfo'' [1, 2, 3], WallMap [sample_wall]]"

lemma sample_nxz: "getNxz [''m'' \<mapsto> file] ''m'' new_map = Inr new_map"
  by (simp add: getNxz_def strrchr_def)

lemma sample_fits: "length (map_bytes sample_header sample_sections) < size_limit" "sections_ok [] sample_sections"
    "mh_fileid sample_header = 0xFADEFACE"
  by (simp_all add: map_bytes_def enc_header_def sample_sections_def enc_section_def enc_title_def wall_bytes_def skip_length_def
      size_limit_def Let_def skipped_sections_def sample_wall_def sample_header_def)

lemma sample_result:
  "\<exists>m s. apply_sections sample_env sample_sections (new_map\<lparr>nm_header := sample_header\<rparr>) new_server = Inr (m, s) \<and>
     GetWall 0x403 m = Some sample_wall \<and> mh_checksum (nm_header m) = 5"
  by (simp add: sample_sections_def AddCollisionWalls_def new_address_def step_simps add_walls_def NoxWallMap_AddWall_def
      new_map_def new_server_def Let_def GetWall_def GetPositionKey_def sample_wall_def sample_header_def)

theorem map_file_loads_witness:
  "\<exists>m s. NoxMap_open sample_env [''m'' \<mapsto> map_bytes sample_header sample_sections] ''m'' new_map new_server = Some (Inr ((True, m), s)) \<and>
     GetWall 0x403 m = Some sample_wall \<and> mh_checksum (nm_header m) = 5"
  using map_file_loads [of "[''m'' \<mapsto> map_bytes sample_header sample_sections]" "''m''", OF _ sample_fits(1,3,2) sample_nxz,
      of sample_env new_server] sample_result
  by (auto simp: read_up_def GetWall_def)

lemma sample_loads:
  "\<exists>m s. NoxMap_open sample_env [''m'' \<mapsto> map_bytes sample_header sample_sections] ''m'' new_map new_server = Some (Inr ((True, m), s))"
  using open_sections [of "[''m'' \<mapsto> map_bytes sample_header sample_sections]" "''m''", OF _ sample_fits(1,3,2) sample_nxz,
      of sample_env new_server] sample_result
  by auto

theorem map_loading_hangs_witness:
  "NoxMap_open sample_env [''m'' \<mapsto> hanging_map sample_header []] ''m'' new_map new_server = None"
  by (rule map_loading_hangs [of _ _ sample_header "[]"])
    (simp_all add: sample_header_def hanging_map_def enc_header_def enc_title_def skip_length_def size_limit_def)

end
