(* ===== verification/Thing_Names.thy ===== *)
theory Thing_Names
  imports Game_Enums
begin

text \<open>
  The name tables of \<open>src/src/game/NoxThinglib.cpp\<close> and \<open>Unit.cpp\<close>: arrays of pairs of an enumerator
  and its name in \<open>thing.bin\<close>, closed by an entry without a name, and \<open>ThingBin::noxNameToEnum\<close>, which
  searches them. A table is the list of its entries together with the enumerator of the closing one.
\<close>

section \<open>Tables\<close>

type_synonym name_table = "(u32 \<times> string) list \<times> u32"

definition g_noxClassNames :: name_table where
  "g_noxClassNames =
     ([(CLASS_MISSILE, ''MISSILE''), (CLASS_MONSTER, ''MONSTER''), (CLASS_PLAYER, ''PLAYER''),
       (CLASS_OBSTACLE, ''OBSTACLE''), (CLASS_FOOD, ''FOOD''), (CLASS_EXIT, ''EXIT''), (CLASS_KEY, ''KEY''),
       (CLASS_DOOR, ''DOOR''), (CLASS_INFO_BOOK, ''INFO_BOOK''), (CLASS_TRIGGER, ''TRIGGER''),
       (CLASS_TRANSPORTER, ''TRANSPORTER''), (CLASS_HOLE, ''HOLE''), (CLASS_WAND, ''WAND''),
       (CLASS_FIRE, ''FIRE''), (CLASS_ELEVATOR, ''ELEVATOR''), (CLASS_ELEVATOR_SHAFT, ''ELEVATOR_SHAFT''),
       (CLASS_DANGEROUS, ''DANGEROUS''), (CLASS_MONSTERGENERATOR, ''MONSTERGENERATOR''),
       (CLASS_READABLE, ''READABLE''), (CLASS_LIGHT, ''LIGHT''), (CLASS_SIMPLE, ''SIMPLE''),
       (CLASS_COMPLEX, ''COMPLEX''), (CLASS_IMMOBILE, ''IMMOBILE''), (CLASS_VISIBLE_ENABLE, ''ENABLE''),
       (CLASS_WEAPON, ''WEAPON''), (CLASS_ARMOR, ''ARMOR''), (CLASS_NOT_STACKABLE, ''NOT_STACKABLE''),
       (CLASS_TREASURE, ''TREASURE''), (CLASS_FLAG, ''FLAG''), (CLASS_CLIENT_PERSIST, ''CLIENT_PERSIST''),
       (CLASS_CLIENT_PREDICT, ''CLIENT_PREDICT''), (CLASS_PICKUP, ''PICKUP'')],
      0)"

definition g_noxSubclassNames :: name_table where
  "g_noxSubclassNames =
     ([(SUBCLASS_HELMET, ''HELMET''), (SUBCLASS_SHIELD, ''SHIELD''), (SUBCLASS_BREASTPLATE, ''BREASTPLATE''),
       (SUBCLASS_ARM_ARMOR, ''ARM_ARMOR''), (SUBCLASS_PANTS, ''PANTS''), (SUBCLASS_BOOTS, ''BOOTS''),
       (SUBCLASS_SHIRT, ''SHIRT''), (SUBCLASS_LEG_ARMOR, ''LEG_ARMOR''), (SUBCLASS_BACK, ''BACK''),
       (SUBCLASS_FLAG, ''FLAG''), (SUBCLASS_QUIVER, ''QUIVER''), (SUBCLASS_BOW, ''BOW''),
       (SUBCLASS_CROSSBOW, ''CROSSBOW''), (SUBCLASS_ARROW, ''ARROW''), (SUBCLASS_BOLT, ''BOLT''),
       (SUBCLASS_CHAKRAM, ''CHAKRAM''), (SUBCLASS_SHURIKEN, ''SHURIKEN''), (SUBCLASS_SWORD, ''SWORD''),
       (SUBCLASS_LONG_SWORD, ''LONG_SWORD''), (SUBCLASS_GREAT_SWORD, ''GREAT_SWORD''),
       (SUBCLASS_MACE, ''MACE''), (SUBCLASS_AXE, ''AXE''), (SUBCLASS_OGRE_AXE, ''OGRE_AXE''),
       (SUBCLASS_HAMMER, ''HAMMER''), (SUBCLASS_STAFF, ''STAFF''),
       (SUBCLASS_STAFF_SULPHOROUS_FLARE, ''STAFF_SULPHOROUS_FLARE''),
       (SUBCLASS_STAFF_SULPHOROUS_SHOWER, ''STAFF_SULPHOROUS_SHOWER''),
       (SUBCLASS_STAFF_LIGHTNING, ''STAFF_LIGHTNING''), (SUBCLASS_STAFF_FIREBALL, ''STAFF_FIREBALL''),
       (SUBCLASS_STAFF_TRIPLE_FIREBALL, ''STAFF_TRIPLE_FIREBALL''),
       (SUBCLASS_STAFF_FORCE_OF_NATURE, ''STAFF_FORCE_OF_NATURE''),
       (SUBCLASS_STAFF_DEATH_RAY, ''STAFF_DEATH_RAY''),
       (SUBCLASS_STAFF_OBLIVION_HALBERD, ''STAFF_OBLIVION_HALBERD''),
       (SUBCLASS_STAFF_OBLIVION_HEART, ''STAFF_OBLIVION_HEART''),
       (SUBCLASS_STAFF_OBLIVION_WIERDLING, ''STAFF_OBLIVION_WIERDLING''),
       (SUBCLASS_STAFF_OBLIVION_ORB, ''STAFF_OBLIVION_ORB''),
       (SUBCLASS_STAFF_OBLIVION_ORB, ''STAFF_OBLIVION_ORB''), (SUBCLASS_SMALL_MONSTER, ''SMALL_MONSTER''),
       (SUBCLASS_MEDIUM_MONSTER, ''MEDIUM_MONSTER''), (SUBCLASS_LARGE_MONSTER, ''LARGE_MONSTER''),
       (SUBCLASS_SHOPKEEPER, ''SHOPKEEPER''), (SUBCLASS_NPC, ''NPC''), (SUBCLASS_FEMALE_NPC, ''FEMALE_NPC''),
       (SUBCLASS_UNDEAD, ''UNDEAD''), (SUBCLASS_MONITOR, ''MONITOR''), (SUBCLASS_MIGRATE, ''MIGRATE''),
       (SUBCLASS_IMMUNE_POISON, ''IMMUNE_POISON''), (SUBCLASS_IMMUNE_FIRE, ''IMMUNE_FIRE''),
       (SUBCLASS_IMMUNE_ELECTRICITY, ''IMMUNE_ELECTRICITY''), (SUBCLASS_IMMUNE_FEAR, ''IMMUNE_FEAR''),
       (SUBCLASS_BOMBER, ''BOMBER''), (SUBCLASS_NO_TARGET, ''NO_TARGET''),
       (SUBCLASS_NO_SPELL_TARGET, ''NO_SPELL_TARGET''), (SUBCLASS_HAS_SOUL, ''HAS_SOUL''),
       (SUBCLASS_WARCRY_STUN, ''WARCRY_STUN''), (SUBCLASS_LOOK_AROUND, ''LOOK_AROUND''),
       (SUBCLASS_WOUNDED_NPC, ''WOUNDED_NPC''), (SUBCLASS_SIMPLE, ''SIMPLE''), (SUBCLASS_APPLE, ''APPLE''),
       (SUBCLASS_JUG, ''JUG''), (SUBCLASS_POTION, ''POTION''), (SUBCLASS_HEALTH_POTION, ''HEALTH_POTION''),
       (SUBCLASS_MANA_POTION, ''MANA_POTION''), (SUBCLASS_CURE_POISON_POTION, ''CURE_POISON_POTION''),
       (SUBCLASS_MUSHROOM, ''MUSHROOM''), (SUBCLASS_HASTE_POTION, ''HASTE_POTION''),
       (SUBCLASS_INVISIBILITY_POTION, ''INVISIBILITY_POTION''), (SUBCLASS_SHIELD_POTION, ''SHIELD_POTION''),
       (SUBCLASS_FIRE_PROTECT_POTION, ''FIRE_PROTECT_POTION''),
       (SUBCLASS_SHOCK_PROTECT_POTION, ''SHOCK_PROTECT_POTION''),
       (SUBCLASS_POISON_PROTECT_POTION, ''POISON_PROTECT_POTION''),
       (SUBCLASS_INVULNERABILITY_POTION, ''INVULNERABILITY_POTION''),
       (SUBCLASS_INFRAVISION_POTION, ''INFRAVISION_POTION''),
       (SUBCLASS_VAMPIRISM_POTION, ''VAMPIRISM_POTION''), (SUBCLASS_HEAVY, ''HEAVY''),
       (SUBCLASS_LAVA, ''LAVA''), (SUBCLASS_GATE, ''GATE''), (SUBCLASS_VISIBLE_OBELISK, ''VISIBLE_OBELISK''),
       (SUBCLASS_INVISIBLE_OBELISK, ''INVISIBLE_OBELISK''), (SUBCLASS_TECH, ''TECH''),
       (SUBCLASS_LOTD, ''LOTD''), (SUBCLASS_USEABLE, ''USEABLE''), (SUBCLASS_CHEST_NW, ''CHEST_NW''),
       (SUBCLASS_CHEST_NE, ''CHEST_NE''), (SUBCLASS_CHEST_SE, ''CHEST_SE''),
       (SUBCLASS_CHEST_SW, ''CHEST_SW''), (SUBCLASS_STONE_DOOR, ''STONE_DOOR''),
       (SUBCLASS_SPELL_BOOK, ''SPELL_BOOK''), (SUBCLASS_FIELD_GUIDE, ''FIELD_GUIDE''),
       (SUBCLASS_ABILITY_BOOK, ''ABILITY_BOOK''), (SUBCLASS_MISSILE_COUNTERSPELL, ''MISSILE_COUNTERSPELL''),
       (SUBCLASS_MAGIC, ''MAGIC''), (SUBCLASS_GENERATOR_NW, ''GENERATOR_NW''),
       (SUBCLASS_GENERATOR_NE, ''GENERATOR_NE''), (SUBCLASS_GENERATOR_SE, ''GENERATOR_SE''),
       (SUBCLASS_GENERATOR_SW, ''GENERATOR_SW''), (SUBCLASS_QUEST_EXIT, ''QUEST_EXIT''),
       (SUBCLASS_QUEST_WARP_EXIT, ''QUEST_WARP_EXIT'')],
      0)"

definition g_noxFlagNames :: name_table where
  "g_noxFlagNames =
     ([(FLAG_BELOW, ''BELOW''), (FLAG_NO_UPDATE, ''NO_UPDATE''), (FLAG_ACTIVE, ''ACTIVE''),
       (FLAG_ALLOW_OVERLAP, ''ALLOW_OVERLAP''), (FLAG_SHORT, ''SHORT''), (FLAG_DESTROYED, ''DESTROYED''),
       (FLAG_NO_COLLIDE, ''NO_COLLIDE''), (FLAG_MISSILE_HIT, ''MISSILE_HIT''), (FLAG_EQUIPPED, ''EQUIPPED''),
       (FLAG_PARTITIONED, ''PARTITIONED''), (FLAG_NO_COLLIDE_OWNER, ''NO_COLLIDE_OWNER''),
       (FLAG_OWNER_VISIBLE, ''OWNER_VISIBLE''), (FLAG_EDIT_VISIBLE, ''EDIT_VISIBLE''),
       (FLAG_NO_PUSH_CHARACTERS, ''NO_PUSH_CHARACTERS''), (FLAG_AIRBORNE, ''AIRBORNE''),
       (FLAG_DEAD, ''DEAD''), (FLAG_SHADOW, ''SHADOW''), (FLAG_FALLING, ''FALLING''),
       (FLAG_IN_HOLE, ''IN_HOLE''), (FLAG_RESPAWN, ''RESPAWN''), (FLAG_ON_OBJECT, ''ON_OBJECT''),
       (FLAG_SIGHT_DESTROY, ''SIGHT_DESTROY''), (FLAG_TRANSIENT, ''TRANSIENT''), (FLAG_BOUNCY, ''BOUNCY''),
       (FLAG_ENABLED, ''ENABLED''), (FLAG_PENDING, ''PENDING''), (FLAG_TRANSLUCENT, ''TRANSLUCENT''),
       (FLAG_STILL, ''STILL''), (FLAG_NO_AUTO_DROP, ''DROP_AUTO_DROP''), (FLAG_FLICKER, ''FLICKER''),
       (FLAG_SELECTED, ''SELECTED''), (FLAG_MARKED, ''MARKED'')],
      0)"

definition g_noxCollideNames :: name_table where
  "g_noxCollideNames =
     ([(COLLIDE_NONE, ''NoCollide''), (COLLIDE_DEFAULT, ''DefaultCollide''),
       (COLLIDE_MONSTER, ''MonsterCollide''), (COLLIDE_PLAYER, ''PlayerCollide''),
       (COLLIDE_PROJECTILE, ''ProjectileCollide''), (COLLIDE_PROJECTILESPARK, ''ProjectileSparkCollide''),
       (COLLIDE_DOOR, ''DoorCollide''), (COLLIDE_PICKUP, ''PickupCollide''), (COLLIDE_EXIT, ''ExitCollide''),
       (COLLIDE_DAMAGE, ''DamageCollide''), (COLLIDE_MANADRAIN, ''ManaDrainCollide''),
       (COLLIDE_BOMB, ''BombCollide''), (COLLIDE_SPARKEXPLOSION, ''SparkExplosionCollide''),
       (COLLIDE_CHEST, ''ChestCollide''), (COLLIDE_WALLREFLECT, ''WallReflectCollide''),
       (COLLIDE_WALLREFLECTSPARK, ''WallReflectSparkCollide''), (COLLIDE_PIXIE, ''PixieCollide''),
       (COLLIDE_OWN, ''OwnCollide''), (COLLIDE_SPARK, ''SparkCollide''), (COLLIDE_BARREL, ''BarrelCollide''),
       (COLLIDE_AUDIOEVENT, ''AudioEventCollide''), (COLLIDE_TRIGGER, ''TriggerCollide''),
       (COLLIDE_TELEPORT, ''TeleportCollide''), (COLLIDE_ELEVATOR, ''ElevatorCollide''),
       (COLLIDE_AWARDSPELL, ''AwardSpellCollide''), (COLLIDE_DIE, ''DieCollide''),
       (COLLIDE_GLYPH, ''GlyphCollide''), (COLLIDE_SPELLPROJECTILE, ''SpellProjectileCollide''),
       (COLLIDE_BOOM, ''BoomCollide''), (COLLIDE_SIGN, ''SignCollide''),
       (COLLIDE_PENTAGRAM, ''PentagramCollide''), (COLLIDE_SPIDERSPIT, ''SpiderSpitCollide''),
       (COLLIDE_DEATHBALL, ''DeathBallCollide''), (COLLIDE_DEATHBALLFRAGMENT, ''DeathBallFragmentCollide''),
       (COLLIDE_TELEKINESIS, ''TelekinesisCollide''), (COLLIDE_FIST, ''FistCollide''),
       (COLLIDE_TELEPORTWAKE, ''TeleportWakeCollide''), (COLLIDE_FLAG, ''FlagCollide''),
       (COLLIDE_CHAKRAMINMOTION, ''ChakramInMotionCollide''), (COLLIDE_ARROW, ''ArrowCollide''),
       (COLLIDE_MONSTERARROW, ''MonsterArrowCollide''), (COLLIDE_BEARTRAP, ''BearTrapCollide''),
       (COLLIDE_POISONGASTRAP, ''PoisonGasTrapCollide''), (COLLIDE_TRAPDOOR, ''TrapDoorCollide''),
       (COLLIDE_BALL, ''BallCollide''), (COLLIDE_HOMEBASE, ''HomeBaseCollide''),
       (COLLIDE_CROWN, ''CrownCollide''), (COLLIDE_UNDEADKILLER, ''UndeadKillerCollide''),
       (COLLIDE_YELLOWSTARSHOT, ''YellowStarShotCollide''), (COLLIDE_MIMIC, ''MimicCollide''),
       (COLLIDE_HARPOON, ''HarpoonCollide''), (COLLIDE_MONSTERGENERATOR, ''MonsterGeneratorCollide''),
       (COLLIDE_SOULGATE, ''SoulGateCollide''), (COLLIDE_ANKH, ''AnkhCollide'')],
      0)"

definition g_noxPickupNames :: name_table where
  "g_noxPickupNames =
     ([(PICKUP_DEFEAULT, ''DefaultPickup''), (PICKUP_FOOD, ''FoodPickup''), (PICKUP_USE, ''UsePickup''),
       (PICKUP_ARMOR, ''ArmorPickup''), (PICKUP_WEAPON, ''WeaponPickup''),
       (PICKUP_OBLIVION, ''OblivionPickup''), (PICKUP_TREASURE, ''TreasurePickup''),
       (PICKUP_TRAP, ''TrapPickup''), (PICKUP_POTION, ''PotionPickup''), (PICKUP_GOLD, ''GoldPickup''),
       (PICKUP_AMMO, ''AmmoPickup''), (PICKUP_SPELLBOOK, ''SpellBookPickup''),
       (PICKUP_ABILITYBOOK, ''AbilityBookPickup''), (PICKUP_CROWN, ''CrownPickup''),
       (PICKUP_AUDEVENT, ''AudEventPickup''), (PICKUP_ANKHTRADEABLE, ''AnkhTradablePickup'')],
      0)"

definition g_noxUpdateNames :: name_table where
  "g_noxUpdateNames =
     ([(UPDATE_NONE, ''NoUpdate''), (UPDATE_PLAYER, ''PlayerUpdate''),
       (UPDATE_PROJECTILE, ''ProjectileUpdate''), (UPDATE_HOMINGPROJECTILE, ''HomingProjectileUpdate''),
       (UPDATE_SPELLPROJECTILE, ''SpellProjectileUpdate''),
       (UPDATE_ANTISPELLPROJECTILE, ''AntiSpellProjectilUpdate''), (UPDATE_DOOR, ''DoorUpdate''),
       (UPDATE_SPARK, ''SparkUpdate''), (UPDATE_PROJECTILETRAIL, ''ProjectileTrailUpdate''),
       (UPDATE_PUSH, ''PushUpdate''), (UPDATE_TRIGGER, ''TriggerUpdate''), (UPDATE_TOGGLE, ''ToggleUpdate''),
       (UPDATE_MONSTER, ''MonsterUpdate''), (UPDATE_LOOPANDDAMAGE, ''LoopAndDamageUpdate''),
       (UPDATE_ELEVATOR, ''ElevatorUpdate''), (UPDATE_ELEVATORSHAFT, ''ElevatorShaftUpdate''),
       (UPDATE_PHANTOMPLAYER, ''PhantomPlayerUpdate''), (UPDATE_OBELISK, ''ObeliskUpdate''),
       (UPDATE_LIFETIME, ''LifetimeUpdate''), (UPDATE_MAGICMISSILE, ''MagicMissileUpdate''),
       (UPDATE_PIXIE, ''PixieUpdate''), (UPDATE_SPIKEBLOCK, ''SpikeBlockUpdate''),
       (UPDATE_TOWER, ''TowerUpdate''), (UPDATE_SKULL, ''SkullUpdate''),
       (UPDATE_PENTAGRAM, ''PentagramUpdate''), (UPDATE_INVISIBLEPENTAGRAM, ''InvisiblePentagramUpdate''),
       (UPDATE_SWITCH, ''SwitchUpdate''), (UPDATE_BLOW, ''BlowUpdate''), (UPDATE_MOVER, ''MoverUpdate''),
       (UPDATE_BLACKPOWDERBARREL, ''BlackPowderBarrelUpdate''), (UPDATE_ONESECONDDIE, ''OneSecondDieUpdate''),
       (UPDATE_WATERBARREL, ''WaterBarrelUpdate''), (UPDATE_SELFDESTRUCT, ''SelfDestructUpdate''),
       (UPDATE_BLACKPOWDERBURN, ''BlackPowderBurnUpdate''), (UPDATE_DEATHBALL, ''DeathBallUpdate''),
       (UPDATE_DEATHBALLFRAGMENT, ''DeathBallFragmentUpdate''), (UPDATE_MOONGLOW, ''MoonglowUpdate''),
       (UPDATE_SENTRYGLOBE, ''SentryGlobeUpdate''), (UPDATE_TELEKINESIS, ''TelekinesisUpdate''),
       (UPDATE_FIST, ''FistUpdate''), (UPDATE_METEORSHOWER, ''MeteorShowerUpdate''),
       (UPDATE_METEOR, ''MeteorUpdate''), (UPDATE_TOXICCLOUD, ''ToxicCloudUpdate''),
       (UPDATE_SMALLTOXICCLOUD, ''SmallToxicCloudUpdate''), (UPDATE_ARACHNAPHOBIA, ''ArachnaphobiaUpdate''),
       (UPDATE_EXPIRE, ''ExpireUpdate''), (UPDATE_BREAK, ''BreakUpdate''), (UPDATE_OPEN, ''OpenUpdate''),
       (UPDATE_BREAKANDREMOVE, ''BreakAndRemoveUpdate''), (UPDATE_CHAKRAMINMOTION, ''ChakramInMotionUpdate''),
       (UPDATE_FLAG, ''FlagUpdate''), (UPDATE_TRAPDOOR, ''TrapDoorUpdate''), (UPDATE_BALL, ''BallUpdate''),
       (UPDATE_CROWN, ''CrownUpdate''), (UPDATE_UNDEADKILLER, ''UndeadKillerUpdate''),
       (UPDATE_HARPOON, ''HarpoonUpdate''), (UPDATE_WEAPONARMOR, ''WeaponArmorUpdate''),
       (UPDATE_MONSTERGENERATOR, ''MonsterGeneratorUpdate'')],
      0)"

definition g_noxUseNames :: name_table where
  "g_noxUseNames =
     ([(USE_CONSUME, ''ConsumeUse''), (USE_CONSUMECONFUSE, ''ConsumeConfuseUse''),
       (USE_FIREWAND, ''FireWandUse''), (USE_CAST, ''CaseUse''), (USE_ENCHANT, ''EnchantUse''),
       (USE_MUSHROOM, ''MushroomUse''), (USE_READ, ''ReadUse''), (USE_WARPREAD, ''WarpReadUse''),
       (USE_WAND, ''WandUse''), (USE_WANDCAST, ''WandCastUse''), (USE_SPELLREWARD, ''SpellRewardUse''),
       (USE_ABILITYREWARD, ''AbilityRewardUse''), (USE_FIELDGUIDE, ''FieldGuideUse''),
       (USE_POTION, ''PotionUse''), (USE_AMMO, ''AmmoUse''), (USE_BOW, ''BowUse'')],
      0)"

definition g_noxXferNames :: name_table where
  "g_noxXferNames =
     ([(XFER_DEFAULT, ''DefaultXfer''), (XFER_SPELLPAGEPEDESTAL, ''SpellPagePedestalXfer''),
       (XFER_SPELLREWARD, ''SpellRewardXfer''), (XFER_ABILITYREWARD, ''AbilityRewardXfer''),
       (XFER_FIELDGUIDE, ''FieldGuideXfer''), (XFER_READABLE, ''ReadableXfer''), (XFER_EXIT, ''ExitXfer''),
       (XFER_DOOR, ''DoorXfer''), (XFER_TRIGGER, ''TriggerXfer''), (XFER_MONSTER, ''MonsterXfer''),
       (XFER_HOLE, ''HoleXfer''), (XFER_TRANSPORTER, ''TransporterXfer''), (XFER_ELEVATOR, ''ElevatorXfer''),
       (XFER_ELEVATORSHAFT, ''ElevatorShaftXfer''), (XFER_MOVER, ''MoverXfer''), (XFER_GLYPH, ''GlyphXfer''),
       (XFER_INVISIBLELIGHT, ''InvisibleLightXfer''), (XFER_SENTRY, ''SentryXfer''),
       (XFER_WEAPON, ''WeaponXfer''), (XFER_ARMOR, ''ArmorXfer''), (XFER_TEAM, ''TeamXfer''),
       (XFER_GOLD, ''GoldXfer''), (XFER_AMMO, ''AmmoXfer''), (XFER_NPC, ''NPCXfer''),
       (XFER_OBELISK, ''ObeliskXfer''), (XFER_TOXICCLOUD, ''ToxicCloudXfer''),
       (XFER_MONSTERGENERATOR, ''MonsterGeneratorXfer''), (XFER_REWARDMARKER, ''RewardMarkerXfer'')],
      XFER_DEFAULT)"

definition g_noxUnitArmorNames :: name_table where
  "g_noxUnitArmorNames =
     ([(STREET_SNEAKERS, ''StreetSneakers''), (MEDIEVAL_CLOAK, ''MedievalCloak''),
       (STREET_PANTS, ''StreetPants''), (MEDIEVAL_PANTS, ''MedievalPants''),
       (LEATHER_LEGGINGS, ''LeatherLeggings''), (CHAIN_LEGGINGS, ''ChainLeggings''),
       (LEATHER_BOOTS, ''LeatherBoots''), (LEATHER_ARMORED_BOOTS, ''LeatherArmoredBoots''),
       (PLATE_BOOTS, ''PlateBoots''), (PLATE_LEGGINGS, ''PlateLeggings''), (STREET_SHIRT, ''StreetShirt''),
       (MEDIEVAL_SHIRT, ''MedievalShirt''), (LEATHER_ARMBANDS, ''LeatherArmbands''),
       (PLATE_ARMS, ''PlateArms''), (WIZARD_ROBE, ''WizardRobe''), (LEATHER_TUNIC, ''LeatherArmor''),
       (CHAIN_TUNIC, ''ChainTunic''), (PLATE_BREAST, ''Breastplate''), (CHAIN_COIF, ''ChainCoif''),
       (WIZARD_HELM, ''WizardHelm''), (CONJURER_HELM, ''ConjurerHelm''), (LEATHER_HELM, ''LeatherHelm''),
       (PLATE_HELM, ''SteelHelm''), (ORNATE_HELM, ''OrnateHelm''), (ROUND_SHIELD, ''RoundShield''),
       (KITE_SHIELD, ''SteelShield'')],
      0)"

section \<open>The search\<close>

fun find_name :: "string \<Rightarrow> (u32 \<times> string) list \<Rightarrow> u32 \<Rightarrow> u32" where
  "find_name name [] dflt = dflt"
| "find_name name ((v, n) # table) dflt = (if n = name then v else find_name name table dflt)"

definition noxNameToEnum :: "string \<Rightarrow> name_table \<Rightarrow> u32" where
  "noxNameToEnum name table = find_name name (fst table) (snd table)"

lemma find_name_first:
  "(v, n) \<in> set table \<Longrightarrow> distinct (map snd table) \<Longrightarrow> find_name n table dflt = v"
  by (induction n table dflt rule: find_name.induct) (auto simp: rev_image_eqI)

lemma find_name_unknown: "n \<notin> snd ` set table \<Longrightarrow> find_name n table dflt = dflt"
  by (induction n table dflt rule: find_name.induct) auto

lemma find_name_append:
  "find_name n (t1 @ t2) dflt = (if n \<in> snd ` set t1 then find_name n t1 dflt else find_name n t2 dflt)"
  by (induction n t1 dflt rule: find_name.induct) auto

text \<open>A table of flags: nonzero values without common bits.\<close>

fun disjoint_words :: "u32 list \<Rightarrow> bool" where
  "disjoint_words [] \<longleftrightarrow> True"
| "disjoint_words (v # vs) \<longleftrightarrow> v \<noteq> 0 \<and> list_all (\<lambda>w. v AND w = 0) vs \<and> disjoint_words vs"

text \<open>The words of a \<open>CLASS\<close>, \<open>SUBCLASS\<close> or \<open>FLAGS\<close> line are combined by \<open>|=\<close>.\<close>

definition or_names :: "name_table \<Rightarrow> string list \<Rightarrow> u32 \<Rightarrow> u32" where
  "or_names table names w = foldl (\<lambda>w n. w OR noxNameToEnum n table) w names"

definition name_tables :: "name_table list" where
  "name_tables =
     [g_noxClassNames, g_noxSubclassNames, g_noxFlagNames, g_noxCollideNames, g_noxPickupNames, g_noxUpdateNames,
      g_noxUseNames, g_noxXferNames, g_noxUnitArmorNames]"

lemmas table_defs = g_noxClassNames_def g_noxSubclassNames_def g_noxFlagNames_def g_noxCollideNames_def
  g_noxPickupNames_def g_noxUpdateNames_def g_noxUseNames_def g_noxXferNames_def g_noxUnitArmorNames_def

definition consistent_table :: "name_table \<Rightarrow> bool" where
  "consistent_table table \<longleftrightarrow> list_all (\<lambda>(v, n). noxNameToEnum n table = v) (fst table)"

lemma consistent_class: "consistent_table g_noxClassNames"
  by code_simp

lemma consistent_flag: "consistent_table g_noxFlagNames"
  by code_simp

lemma consistent_collide: "consistent_table g_noxCollideNames"
  by code_simp

lemma consistent_pickup: "consistent_table g_noxPickupNames"
  by code_simp

lemma consistent_update: "consistent_table g_noxUpdateNames"
  by code_simp

lemma consistent_use: "consistent_table g_noxUseNames"
  by code_simp

lemma consistent_xfer: "consistent_table g_noxXferNames"
  by code_simp

lemma consistent_armor: "consistent_table g_noxUnitArmorNames"
  by code_simp

lemma disjoint_class: "disjoint_words (map fst (fst g_noxClassNames))"
  by code_simp

lemma disjoint_flag: "disjoint_words (map fst (fst g_noxFlagNames))"
  by code_simp

lemma disjoint_armor: "disjoint_words (map fst (fst g_noxUnitArmorNames))"
  by code_simp

lemma closing_enumerators:
  "map snd name_tables = [0, 0, 0, 0, 0, 0, 0, 0, 0]"
  by code_simp

end
