(* ===== verification/Player_Packets.thy ===== *)
theory Player_Packets
  imports Object_Mgr Thing_Names
begin

text \<open>
  The messages about objects, units and players: the \<open>_Build\<dots>Packet\<close> methods of
  \<open>src/src/game/Object.cpp\<close>, \<open>Unit.cpp\<close> and \<open>Player.cpp\<close>, as steps that read the state of the object and
  return the packet they were given with the message written into it.

  A \<open>float\<close> that is put on the wire as a \<open>uint16\<close> or \<open>uint8\<close> is truncated towards zero and reduced to
  the width, as the x86 targets do it.
\<close>

section \<open>Numbers and layouts\<close>

definition trunc_int :: "rat \<Rightarrow> int" where
  "trunc_int q = (if 0 \<le> q then \<lfloor>q\<rfloor> else - \<lfloor>- q\<rfloor>)"

definition GetHealth :: "nox_object \<Rightarrow> u16" where
  "GetHealth ob = of_int (trunc_int (ob_health ob))"

definition GetMaxHealth :: "nox_object \<Rightarrow> u16" where
  "GetMaxHealth ob = of_int (trunc_int (ob_max_health ob))"

definition GetMana :: "nox_object \<Rightarrow> u16" where
  "GetMana ob = of_int (trunc_int (ob_mana ob))"

definition GetMaxMana :: "nox_object \<Rightarrow> u16" where
  "GetMaxMana ob = of_int (trunc_int (ob_max_mana ob))"

definition IsDead :: "nox_object \<Rightarrow> bool" where
  "IsDead ob \<longleftrightarrow> ob_health ob \<le> 0"

text \<open>The bytes of \<open>struct PlayerInfo\<close> up to its last field (\<open>0x7E\<close> of them).\<close>

definition info_bytes :: "player_info \<Rightarrow> bytes" where
  "info_bytes i =
     pi_name i @ [pi_pclass i, pi_unk3 i] @ pi_info i @ [pi_unk0 i] @ pi_unk1 i @ [pi_unk4 i, pi_pad i] @
     le_bytes 4 (pi_unk2 i) @ pi_username i @ [pi_flag i]"

section \<open>Objects\<close>

definition Object_BuildUpdatePacket :: "env \<Rightarrow> nat \<Rightarrow> world_packet \<Rightarrow> world_packet game" where
  "Object_BuildUpdatePacket E a packet =
     gbind (IsImmobile E a) (\<lambda>im.
       if im then gret packet
       else gbind (get_object a) (\<lambda>ob. glift (pk_puts
         [put_u8 0x00, put_u8 0xFF, put_u16 (ob_extent ob), put_u16 (ob_type ob),
          put_u16 (ucast (fst (ob_center ob))), put_u16 (ucast (snd (ob_center ob)))]
         (SetOpcode MSG_UPDATE_STREAM packet))))"

definition Object_BuildHealthPacket :: "nat \<Rightarrow> world_packet \<Rightarrow> world_packet game" where
  "Object_BuildHealthPacket a packet =
     gbind (get_object a) (\<lambda>ob. glift (pk_puts
       [put_u16 (ob_extent ob), put_u16 (GetHealth ob), put_u16 (GetMaxHealth ob)]
       (SetOpcode MSG_REPORT_ITEM_HEALTH packet)))"

definition BuildDeltaHealthPacket :: "nat \<Rightarrow> world_packet \<Rightarrow> world_packet game" where
  "BuildDeltaHealthPacket a packet =
     gbind (get_object a) (\<lambda>ob.
       let c = of_int (trunc_int (ob_combined_health ob)) :: u16
       in if c > 0
          then glift (pk_puts [put_u16 (ob_extent ob), put_u16 c] (SetOpcode MSG_REPORT_HEALTH_DELTA packet))
          else gret packet)"

section \<open>Units\<close>

definition equip_opcode :: "bool \<Rightarrow> u32 \<Rightarrow> u8" where
  "equip_opcode armor modifier =
     (if armor \<and> modifier \<noteq> 0 then MSG_REPORT_MODIFIABLE_ARMOR_EQUIP
      else if armor then MSG_REPORT_MUNDANE_ARMOR_EQUIP
      else if modifier \<noteq> 0 then MSG_REPORT_MODIFIABLE_WEAPON_EQUIP
      else MSG_REPORT_MUNDANE_WEAPON_EQUIP)"

definition BuildEquipPacket :: "nat \<Rightarrow> bool \<Rightarrow> u32 \<Rightarrow> u32 \<Rightarrow> world_packet \<Rightarrow> world_packet game" where
  "BuildEquipPacket a armor slot modifier packet =
     gbind (GetExtent a) (\<lambda>e. glift (pk_puts
       ([put_u16 (e OR 0x8000), put_u32 slot] @ (if modifier \<noteq> 0 then [put_u32 modifier] else []))
       (packet_Initialize (equip_opcode armor modifier) 0 0 packet)))"

definition BuildDequipPacket :: "nat \<Rightarrow> bool \<Rightarrow> u32 \<Rightarrow> world_packet \<Rightarrow> world_packet game" where
  "BuildDequipPacket a armor slot packet =
     gbind (GetExtent a) (\<lambda>e. glift (pk_puts [put_u16 e, put_u32 slot]
       (packet_Initialize (if armor then MSG_REPORT_ARMOR_DEQUIP else MSG_REPORT_WEAPON_DEQUIP) 0 0 packet)))"

definition BuildEnchantsPacket :: "nat \<Rightarrow> world_packet \<Rightarrow> world_packet game" where
  "BuildEnchantsPacket a packet =
     gbind (GetExtent a) (\<lambda>e. gbind (get_unit a) (\<lambda>un.
       glift (pk_puts [put_u16 e, put_u32 (un_auras un)] (packet_Initialize MSG_REPORT_ENCHANTMENT 0 0 packet))))"

definition ObjectToUnitArmor :: "env \<Rightarrow> nat \<Rightarrow> u32 game" where
  "ObjectToUnitArmor E obj =
     gbind (GetObjectInfo E obj) (\<lambda>info. gret (noxNameToEnum (th_Name info) g_noxUnitArmorNames))"

section \<open>Players\<close>

definition Player_BuildUpdatePacket :: "nat \<Rightarrow> world_packet \<Rightarrow> world_packet game" where
  "Player_BuildUpdatePacket a packet =
     gbind (get_object a) (\<lambda>ob. gbind (get_unit a) (\<lambda>un. glift (pk_puts
       ((if packet_size packet > 0 then [put_u8 0x00] else []) @
        [put_u8 0xFF, put_u16 (ob_extent ob), put_u16 (ob_type ob),
         put_u16 (ucast (fst (ob_center ob))), put_u16 (ucast (snd (ob_center ob))),
         put_u8 (un_angle un), put_u8 (un_action un)])
       (SetOpcode MSG_UPDATE_STREAM packet))))"

definition BuildNewPlayerPacket :: "nat \<Rightarrow> world_packet \<Rightarrow> world_packet game" where
  "BuildNewPlayerPacket a packet =
     gbind (GetExtent a) (\<lambda>e. gbind (get_player a) (\<lambda>pl. glift (pk_puts
       [put_u16 e, append_bytes (info_bytes (pl_info pl))] (packet_Initialize MSG_NEW_PLAYER 0x80 0 packet))))"

definition player_session :: "nat \<Rightarrow> session game" where
  "player_session a = gbind (get_player a) (\<lambda>pl. get_session (pl_session pl))"

definition BuildClientStatusPacket :: "nat \<Rightarrow> world_packet \<Rightarrow> world_packet game" where
  "BuildClientStatusPacket a packet =
     gbind (GetExtent a) (\<lambda>e. gbind (player_session a) (\<lambda>ss. glift (pk_puts
       [put_u16 e, put_u32 (if ss_observing ss then 1 else 0)]
       (packet_Initialize MSG_REPORT_CLIENT_STATUS 0 0 packet))))"

definition BuildResetAbilityPacket :: "u8 \<Rightarrow> world_packet \<Rightarrow> world_packet game" where
  "BuildResetAbilityPacket ability packet =
     glift (pk_puts [put_u8 ability] (packet_Initialize MSG_RESET_ABILITIES 0 0 packet))"

definition IsAbilityReady :: "nat \<Rightarrow> u8 \<Rightarrow> bool game" where
  "IsAbilityReady a ability =
     gbind (get_player a) (\<lambda>pl.
       gret (if ability < 1 \<or> ability > 5 then False else pl_ability_delays pl ! (unat ability - 1) = 0))"

definition BuildAbilityStatePacket :: "nat \<Rightarrow> u8 \<Rightarrow> world_packet \<Rightarrow> world_packet game" where
  "BuildAbilityStatePacket a ability packet =
     gbind (IsAbilityReady a ability) (\<lambda>ready. glift (pk_puts
       [put_u8 ability, put_u8 (if ready then 1 else 0)] (packet_Initialize MSG_REPORT_ABILITY_STATE 0 0 packet)))"

definition Player_BuildHealthPacket :: "nat \<Rightarrow> world_packet \<Rightarrow> world_packet game" where
  "Player_BuildHealthPacket a packet =
     gbind (get_object a) (\<lambda>ob. glift (pk_puts
       [put_u16 (ob_extent ob), put_u8 (of_int (trunc_int (ob_health ob)))]
       (packet_Initialize MSG_REPORT_HEALTH 0 0 packet)))"

definition BuildMyHealthPacket :: "nat \<Rightarrow> world_packet \<Rightarrow> world_packet game" where
  "BuildMyHealthPacket a packet =
     gbind (get_object a) (\<lambda>ob. glift (pk_puts [put_u16 (GetHealth ob)]
       (packet_Initialize MSG_REPORT_PLAYER_HEALTH 0 0 packet)))"

definition BuildTotalHealthPacket :: "nat \<Rightarrow> world_packet \<Rightarrow> world_packet game" where
  "BuildTotalHealthPacket a packet =
     gbind (get_object a) (\<lambda>ob. glift (pk_puts
       [put_u16 (ob_extent ob), put_u16 (GetHealth ob), put_u16 (GetMaxHealth ob)]
       (packet_Initialize MSG_REPORT_TOTAL_HEALTH 0 0 packet)))"

definition BuildManaPacket :: "nat \<Rightarrow> world_packet \<Rightarrow> world_packet game" where
  "BuildManaPacket a packet =
     gbind (get_object a) (\<lambda>ob. glift (pk_puts [put_u16 (ob_extent ob), put_u16 (GetMana ob)]
       (packet_Initialize MSG_REPORT_MANA 0 0 packet)))"

definition BuildTotalManaPacket :: "nat \<Rightarrow> world_packet \<Rightarrow> world_packet game" where
  "BuildTotalManaPacket a packet =
     gbind (get_object a) (\<lambda>ob. glift (pk_puts
       [put_u16 (ob_extent ob), put_u16 (GetMana ob), put_u16 (GetMaxMana ob)]
       (packet_Initialize MSG_REPORT_TOTAL_MANA 0 0 packet)))"

definition BuildStatsPacket :: "nat \<Rightarrow> world_packet \<Rightarrow> world_packet game" where
  "BuildStatsPacket a packet =
     gbind (get_object a) (\<lambda>ob. gbind (get_unit a) (\<lambda>un. glift (pk_puts
       [put_u16 (ob_extent ob), put_u16 (GetHealth ob), put_u16 (GetMana ob), put_u16 (un_weight un),
        put_u16 (un_speed un), put_u16 (un_strength un), put_u8 10]
       (packet_Initialize MSG_REPORT_STATS 0 0 packet))))"

end
