(* ===== verification/Object_Accessor.thy ===== *)
theory Object_Accessor
  imports Player_Packets
begin

text \<open>
  The players and the objects to update: class \<open>ObjectAccessor\<close> (\<open>src/src/game/ObjectAccessor.cpp\<close>), with
  the parts of \<open>Object\<close>, \<open>Player\<close> and \<open>WorldSession\<close> it calls: what a player sees, the update queue of
  a player, the sound event of a session.

  \<open>SendPacketToAll\<close> hands the same packet to every player's session in turn; each session may write its
  \<open>unk\<close> into it. \<open>Update\<close> is in the theory of the objects' update handlers.
\<close>

section \<open>Sending\<close>

text \<open>\<open>GetSession()->SendPacket(packet)\<close>.\<close>

definition send_player :: "nat \<Rightarrow> world_packet \<Rightarrow> world_packet game" where
  "send_player pl packet = gbind (get_player pl) (\<lambda>p. session_send (pl_session p) packet True True)"

primrec send_each :: "nat list \<Rightarrow> world_packet \<Rightarrow> world_packet game" where
  "send_each [] packet = gret packet"
| "send_each (pl # pls) packet = gbind (send_player pl packet) (send_each pls)"

definition SendPacketToAll :: "world_packet \<Rightarrow> world_packet game" where
  "SendPacketToAll packet = gbind (gget (\<lambda>s. map snd (oa_players s))) (\<lambda>pls. send_each pls packet)"

primrec send_team :: "u8 \<Rightarrow> nat list \<Rightarrow> world_packet \<Rightarrow> world_packet game" where
  "send_team team [] packet = gret packet"
| "send_team team (pl # pls) packet =
     gbind (get_object pl) (\<lambda>ob.
     gbind (if wo_teamId ob = team then send_player pl packet else gret packet) (send_team team pls))"

definition SendPacketToTeam :: "world_packet \<Rightarrow> u8 \<Rightarrow> world_packet game" where
  "SendPacketToTeam packet teamId =
     gbind (gget (\<lambda>s. map snd (oa_players s))) (\<lambda>pls. send_team teamId pls packet)"

text \<open>A packet built from scratch and sent to a session, or to all.\<close>

definition send_new :: "nat \<Rightarrow> bool \<Rightarrow> world_packet \<Rightarrow> (byte_buffer \<Rightarrow> byte_buffer res) list \<Rightarrow> unit game" where
  "send_new ss ifReady packet fs =
     gbind (glift (pk_puts fs packet)) (\<lambda>packet. gvoid (session_send ss packet ifReady True))"

definition send_self :: "nat \<Rightarrow> world_packet \<Rightarrow> (byte_buffer \<Rightarrow> byte_buffer res) list \<Rightarrow> unit game" where
  "send_self pl packet fs = gbind (get_player pl) (\<lambda>p. send_new (pl_session p) True packet fs)"

definition SendAudioPlayerEvent :: "nat \<Rightarrow> u16 \<Rightarrow> u8 \<Rightarrow> u8 \<Rightarrow> unit game" where
  "SendAudioPlayerEvent ss sound volume balance =
     gbind (get_session ss) (\<lambda>st.
       send_new ss True (mk_packet MSG_AUDIO_PLAYER_EVENT 0 (ss_client st))
         [put_u8 balance, put_u16 (push_bit 9 (ucast volume) OR (sound AND 0x3FF))])"

section \<open>What players see and hear\<close>

text \<open>The corners are computed in \<open>uint32\<close> and wrap around for positions within 300 of the border.\<close>

definition CanSeePoint :: "nat \<Rightarrow> u16 \<Rightarrow> u16 \<Rightarrow> bool game" where
  "CanSeePoint a x y =
     gbind (GetPosition a) (\<lambda>pos. gret (pair_in (ucast x, ucast y)
       (fst pos - 300, snd pos - 300) (fst pos + 300, snd pos + 300)))"

definition PlayersCanSeePoint :: "u16 \<Rightarrow> u16 \<Rightarrow> nat list game" where
  "PlayersCanSeePoint x y =
     gbind (gget (\<lambda>s. map snd (oa_players s))) (\<lambda>pls.
     gbind (gfilter (\<lambda>pl. CanSeePoint pl x y) pls) (\<lambda>v. gret (fold set_add v [])))"

text \<open>
  The volume \<open>EmitSoundEvent\<close> computes for a player at \<open>p\<close> and an object at \<open>o\<close>: the sum under the root
  takes the difference of the squares, not the square of the differences. The root of a negative
  number is not a number, and its conversion to \<open>int\<close> is the platform's, \<open>e_nan\<close>.
\<close>

definition sound_distance :: "env \<Rightarrow> u16 \<times> u16 \<Rightarrow> u16 \<times> u16 \<Rightarrow> int" where
  "sound_distance E obj pl =
     (let n = (uint (fst obj) ^ 2 - uint (fst pl) ^ 2) + (uint (snd pl) ^ 2 - uint (snd obj) ^ 2)
      in if n \<ge> 0 then int (isqrt (nat n)) else e_nan E)"

definition sound_volume :: "env \<Rightarrow> u16 \<times> u16 \<Rightarrow> u16 \<times> u16 \<Rightarrow> u8" where
  "sound_volume E obj pl = of_int (max 0 (trunc_int (100 - of_int (sound_distance E obj pl) / 4)))"

definition EmitSoundEvent :: "env \<Rightarrow> u16 \<Rightarrow> nat \<Rightarrow> unit game" where
  "EmitSoundEvent E soundevent obj =
     gbind (gget (\<lambda>s. map snd (oa_players s))) (\<lambda>pls. gfor pls (\<lambda>pl.
       gbind (GetPositionX obj) (\<lambda>ox. gbind (GetPositionY obj) (\<lambda>oy.
       gbind (GetPositionX pl) (\<lambda>px. gbind (GetPositionY pl) (\<lambda>py.
       gbind (get_player pl) (\<lambda>p.
         SendAudioPlayerEvent (pl_session p) soundevent (sound_volume E (ox, oy) (px, py)) 0)))))))"

definition EmitSound :: "env \<Rightarrow> nat \<Rightarrow> u16 \<Rightarrow> unit game" where
  "EmitSound E a soundevent = EmitSoundEvent E soundevent a"

section \<open>The update queue of a player\<close>

definition Player_AddUpdateObject :: "nat \<Rightarrow> nat \<Rightarrow> unit game" where
  "Player_AddUpdateObject pl obj = upd_player pl (\<lambda>p. p\<lparr>pl_updateQueue := set_add obj (pl_updateQueue p)\<rparr>)"

definition ObjectOutOfSight :: "nat \<Rightarrow> nat \<Rightarrow> unit game" where
  "ObjectOutOfSight pl obj =
     gthen (upd_player pl (\<lambda>p. p\<lparr>pl_updateQueue := set_del obj (pl_updateQueue p)\<rparr>))
    (gbind (GetExtent obj) (\<lambda>e. send_self pl (mk_packet MSG_OBJECT_OUT_OF_SIGHT 0 0) [put_u16 e]))"

definition ObjectDestroyed :: "nat \<Rightarrow> nat \<Rightarrow> unit game" where
  "ObjectDestroyed pl obj =
     gthen (upd_player pl (\<lambda>p. p\<lparr>pl_updateQueue := set_del obj (pl_updateQueue p)\<rparr>))
    (gbind (GetExtent obj) (\<lambda>e. send_self pl (mk_packet MSG_DESTROY_OBJECT 0 0) [put_u16 e]))"

section \<open>The tables of ObjectAccessor\<close>

definition FindPlayer :: "u16 \<Rightarrow> nat option game" where
  "FindPlayer extent = gget (\<lambda>s. map_of (oa_players s) extent)"

text \<open>\<open>wcscmp\<close> compares two zero-terminated strings of 16-bit characters.\<close>

fun wide_chars :: "bytes \<Rightarrow> u16 list" where
  "wide_chars (a # b # bs) = (ucast a OR push_bit 8 (ucast b)) # wide_chars bs"
| "wide_chars bs = []"

definition wide_string :: "bytes \<Rightarrow> u16 list" where
  "wide_string bs = takeWhile (\<lambda>c. c \<noteq> 0) (wide_chars bs)"

primrec find_by_name :: "u16 list \<Rightarrow> nat list \<Rightarrow> nat option game" where
  "find_by_name name [] = gret None"
| "find_by_name name (pl # pls) =
     gbind (get_player pl) (\<lambda>p.
       if name = wide_string (pi_name (pl_info p)) then gret (Some pl) else find_by_name name pls)"

definition FindPlayerByName :: "bytes \<Rightarrow> nat option game" where
  "FindPlayerByName name =
     gbind (gget (\<lambda>s. map snd (oa_players s))) (\<lambda>pls. find_by_name (wide_string name) pls)"

definition AddObjectToRemoveList :: "nat \<Rightarrow> unit game" where
  "AddObjectToRemoveList obj = gmod (\<lambda>s. s\<lparr>oa_objectsToRemove := set_add obj (oa_objectsToRemove s)\<rparr>)"

text \<open>The loop takes the first object of the set until the set is empty.\<close>

definition remove_one :: "nat \<Rightarrow> unit game" where
  "remove_one obj =
     gthen (gmod (\<lambda>s. s\<lparr>oa_objectsToRemove := set_del obj (oa_objectsToRemove s)\<rparr>)) (delete_object obj)"

definition RemoveAllObjectsInRemoveList :: "unit game" where
  "RemoveAllObjectsInRemoveList = gbind (gget oa_objectsToRemove) (\<lambda>objs. gfor objs remove_one)"

text \<open>Every player who sees another one gets an update of it.\<close>

definition see_other :: "nat \<Rightarrow> nat \<Rightarrow> unit game" where
  "see_other pl pl2 =
     gwhen (pl \<noteq> pl2)
       (gbind (GetPositionX pl) (\<lambda>x. gbind (GetPositionY pl) (\<lambda>y. gbind (CanSeePoint pl2 x y) (\<lambda>b.
          gwhen b (Player_AddUpdateObject pl2 pl)))))"

definition accessor_update :: "unit game" where
  "accessor_update =
     gthen RemoveAllObjectsInRemoveList
    (gbind (gget (\<lambda>s. map snd (oa_players s))) (\<lambda>pls. gfor pls (\<lambda>pl. gfor pls (see_other pl))))"

definition InsertPlayer :: "nat \<Rightarrow> unit game" where
  "InsertPlayer pl =
     gbind (GetExtent pl) (\<lambda>e.
     gthen (gmod (\<lambda>s. s\<lparr>oa_players := map_put e pl (oa_players s)\<rparr>)) accessor_update)"

definition RemovePlayer :: "nat \<Rightarrow> unit game" where
  "RemovePlayer pl =
     gbind (GetExtent pl) (\<lambda>e.
     gthen (gmod (\<lambda>s. s\<lparr>oa_players := map_del e (oa_players s)\<rparr>)) (gvoid (RemoveObject pl)))"

text \<open>The four packets about one player, built one after the other in the same \<open>WorldPacket\<close>.\<close>

definition send_info :: "nat \<Rightarrow> nat \<Rightarrow> world_packet \<Rightarrow> world_packet game" where
  "send_info ss pl packet =
     gbind (BuildNewPlayerPacket pl packet) (\<lambda>packet. gbind (session_send ss packet True True) (\<lambda>packet.
     gbind (BuildClientStatusPacket pl packet) (\<lambda>packet. gbind (session_send ss packet True True) (\<lambda>packet.
     gbind (BuildTotalHealthPacket pl packet) (\<lambda>packet. gbind (session_send ss packet True True) (\<lambda>packet.
     gbind (BuildStatsPacket pl packet) (\<lambda>packet. session_send ss packet True True)))))))"

primrec send_infos :: "nat \<Rightarrow> nat option \<Rightarrow> nat list \<Rightarrow> world_packet \<Rightarrow> unit game" where
  "send_infos ss self [] packet = gret ()"
| "send_infos ss self (pl # pls) packet =
     gbind (if Some pl \<noteq> self then send_info ss pl packet else gret packet) (send_infos ss self pls)"

definition SendPlayerInfo :: "nat \<Rightarrow> unit game" where
  "SendPlayerInfo ss =
     gbind (get_session ss) (\<lambda>st. gbind (gget (\<lambda>s. map snd (oa_players s))) (\<lambda>pls.
       send_infos ss (ss_player st) pls (mk_packet MSG_NEW_PLAYER 0 0)))"

end
