(* ===== verification/Thing_Props.thy ===== *)
theory Thing_Props
  imports Thing_Names Util_Funcs
begin

text \<open>
  The property lines of an object of \<open>thing.bin\<close>: \<open>ThingBin::Parse_String\<close>, which tells the drawing
  directives from the properties, and the part of \<open>ThingBin::Load_Object\<close>
  (\<open>src/src/game/NoxThinglib.cpp\<close>) that takes a property line such as \<open>CLASS = WEAPON+FOOD\<close> apart
  with \<open>strtok\<close> and records it in the object.

  A line is its C string, without the closing zero. The arrays of arguments have five entries of thirty
  bytes: a sixth argument is a write past the array (\<open>OutOfBounds\<close>); an argument of thirty bytes or
  more is cut by \<open>strncpy\<close> and keeps its first thirty bytes.
\<close>

section \<open>Tokens\<close>

text \<open>\<open>strtok(rest, delims)\<close>: the next token and what is left for the next call.\<close>

definition strtok :: "string \<Rightarrow> string \<Rightarrow> (string \<times> string) option" where
  "strtok delims s =
     (case dropWhile (\<lambda>c. c \<in> set delims) s of
        [] \<Rightarrow> None
      | t \<Rightarrow> Some (takeWhile (\<lambda>c. c \<notin> set delims) t, drop 1 (dropWhile (\<lambda>c. c \<notin> set delims) t)))"

lemma strtok_shorter: "strtok delims s = Some (t, r) \<Longrightarrow> length r < length s"
proof -
  assume a: "strtok delims s = Some (t, r)"
  let ?u = "dropWhile (\<lambda>c. c \<in> set delims) s"
  from a have u: "?u \<noteq> []" and r: "r = drop 1 (dropWhile (\<lambda>c. c \<notin> set delims) ?u)"
    by (simp_all only: strtok_def split: list.splits) simp_all
  have "length ?u \<le> length s" "length (dropWhile (\<lambda>c. c \<notin> set delims) ?u) \<le> length ?u"
    by (rule length_dropWhile_le)+
  moreover have "length r = length (dropWhile (\<lambda>c. c \<notin> set delims) ?u) - 1"
    by (simp only: r length_drop)
  moreover have "0 < length ?u" using u by (simp only: length_greater_0_conv not_False_eq_True)
  ultimately show ?thesis by linarith
qed

text \<open>The tokens successive calls return until the first null pointer.\<close>

function tokens :: "string \<Rightarrow> string \<Rightarrow> string list" where
  "tokens delims s = (case strtok delims s of None \<Rightarrow> [] | Some (t, r) \<Rightarrow> t # tokens delims r)"
  by auto
termination
  by (relation "measure (\<lambda>(d, s). length s)") (auto dest: strtok_shorter)

declare tokens.simps [simp del]

section \<open>The object\<close>

record thing =
  t_flags :: u32
  t_classes :: u32
  t_subclass :: u32
  t_collide :: u32
  t_update :: u32
  t_pickup :: u32
  t_use :: u32
  t_use_args :: "string list"
  t_update_args :: "string list"
  t_collide_args :: "string list"
  t_shape :: u8
  t_extent_x :: u8
  t_extent_y :: u8

text \<open>\<open>for(int i = 0; (string = strtok(NULL, " +")) != NULL; i++) strncpy(args[i], string, 30)\<close>.\<close>

fun copy_args :: "nat \<Rightarrow> string list \<Rightarrow> string list \<Rightarrow> string list res" where
  "copy_args i [] args = Inr args"
| "copy_args i (t # ts) args =
     (if i < length args then copy_args (i + 1) ts (args[i := take 30 t]) else Inl OutOfBounds)"

text \<open>\<open>atoi\<close>: optional sign and the digits up to the first other character.\<close>

fun digits_value :: "int \<Rightarrow> string \<Rightarrow> int" where
  "digits_value n [] = n"
| "digits_value n (c # cs) =
     (if of_char c \<in> {48..57 :: nat} then digits_value (n * 10 + of_char c - 48) cs else n)"

definition is_space :: "char \<Rightarrow> bool" where
  "is_space c \<longleftrightarrow> c = CHR '' '' \<or> of_char c \<in> {9..13 :: nat}"

definition atoi :: "string \<Rightarrow> int" where
  "atoi s =
     (case dropWhile is_space s of
        [] \<Rightarrow> 0
      | c # cs \<Rightarrow> if c = CHR ''-'' then - digits_value 0 cs
                  else if c = CHR ''+'' then digits_value 0 cs else digits_value 0 (c # cs))"

text \<open>The numbers of an \<open>EXTENT\<close> line; the radius shares its byte with the width.\<close>

fun extent_box :: "string list \<Rightarrow> thing \<Rightarrow> thing" where
  "extent_box [] ob = ob"
| "extent_box [x] ob = ob\<lparr>t_extent_x := of_int (atoi x)\<rparr>"
| "extent_box (x # y # ts) ob = ob\<lparr>t_extent_x := of_int (atoi x), t_extent_y := of_int (atoi y)\<rparr>"

definition property_extent :: "string list \<Rightarrow> thing \<Rightarrow> thing res" where
  "property_extent ts ob =
     (case ts of
        [] \<Rightarrow> Inl NullDeref
      | shape # args \<Rightarrow>
          if shape = ''BOX'' then Inr (extent_box args (ob\<lparr>t_shape := EXTENT_BOX\<rparr>))
          else if shape = ''CIRCLE'' then
            Inr (let ob = ob\<lparr>t_shape := EXTENT_CIRCLE\<rparr>
                 in case args of [] \<Rightarrow> ob | r # _ \<Rightarrow> ob\<lparr>t_extent_x := of_int (atoi r)\<rparr>)
          else Inr ob)"

text \<open>
  One property line. The token after the keyword (the equals sign) is skipped whatever it is.
\<close>

definition property_line :: "string \<Rightarrow> thing \<Rightarrow> thing res" where
  "property_line line ob =
     (case tokens '' +'' line of
        [] \<Rightarrow> Inl NullDeref
      | key # rest \<Rightarrow>
          let ts = drop 1 rest in
          if key = ''CLASS'' then Inr (ob\<lparr>t_classes := or_names g_noxClassNames ts (t_classes ob)\<rparr>)
          else if key = ''FLAGS'' then Inr (ob\<lparr>t_flags := or_names g_noxFlagNames ts (t_flags ob)\<rparr>)
          else if key = ''SUBCLASS'' then Inr (ob\<lparr>t_subclass := or_names g_noxSubclassNames ts (t_subclass ob)\<rparr>)
          else if key = ''COLLIDE'' then
            (case ts of
               [] \<Rightarrow> Inr ob
             | n # args \<Rightarrow> rmap (\<lambda>a. ob\<lparr>t_collide := noxNameToEnum n g_noxCollideNames, t_collide_args := a\<rparr>)
                             (copy_args 0 args (t_collide_args ob)))
          else if key = ''UPDATE'' then
            (case ts of
               [] \<Rightarrow> Inr ob
             | n # args \<Rightarrow> rmap (\<lambda>a. ob\<lparr>t_update := noxNameToEnum n g_noxUpdateNames, t_update_args := a\<rparr>)
                             (copy_args 0 args (t_update_args ob)))
          else if key = ''USE'' then
            (case ts of
               [] \<Rightarrow> Inr ob
             | n # args \<Rightarrow> rmap (\<lambda>a. ob\<lparr>t_use := noxNameToEnum n g_noxUseNames, t_use_args := a\<rparr>)
                             (copy_args 0 args (t_use_args ob)))
          else if key = ''PICKUP'' then
            (case ts of [] \<Rightarrow> Inr ob | n # args \<Rightarrow> Inr (ob\<lparr>t_pickup := noxNameToEnum n g_noxPickupNames\<rparr>))
          else if key = ''EXTENT'' then property_extent ts ob
          else Inr ob)"

section \<open>Directives\<close>

text \<open>\<open>strstr(s, t) != NULL\<close>.\<close>

fun strstr :: "string \<Rightarrow> string \<Rightarrow> bool" where
  "strstr [] t \<longleftrightarrow> t = []"
| "strstr (c # cs) t \<longleftrightarrow> take (length t) (c # cs) = t \<or> strstr cs t"

definition Parse_String :: "string \<Rightarrow> nat" where
  "Parse_String str =
     (if strstr str ''Update'' \<or> strstr str ''UPDATE'' then 0
      else if str \<in> set [''StaticDraw'', ''ArmorDraw'', ''WeaponDraw'', ''SlaveDraw'', ''BaseDraw''] then 1
      else if str = ''PlayerDraw'' then 10
      else if str \<in> set [''AnimateDraw'', ''SphericalShieldDraw'', ''WeaponAnimateDraw'', ''FlagDraw'',
                         ''SummonEffectDraw'', ''ReleasedSoulDraw'', ''GlyphDraw''] then 2
      else if str \<in> set [''AnimateStateDraw'', ''MonsterDraw'', ''MaidenDraw''] then 3
      else if str \<in> set [''BoulderDraw'', ''StaticRandomDraw'', ''DoorDraw'', ''ArrowDraw'', ''HarpoonDraw'',
                         ''WeakArrowDraw''] then 4
      else if str = ''VectorAnimateDraw'' then 5
      else if str \<in> set [''ConditionalAnimateDraw'', ''MonsterGeneratorDraw''] then 6
      else if str = ''MENUICON'' then 7
      else if str = ''PRETTYIMAGE'' then 8
      else if strstr str ''Draw'' then 9
      else 0)"

section \<open>Lines of words\<close>

lemma strtok_word:
  assumes "w \<noteq> []" "set w \<inter> set delims = {}" "set sep \<subseteq> set delims" "d \<in> set delims"
  shows "strtok delims (sep @ w @ d # rest) = Some (w, rest)"
    and "strtok delims (sep @ w) = Some (w, [])"
proof -
  obtain c cs where w: "w = c # cs" using assms(1) by (cases w) auto
  have p: "\<forall>x\<in>set w. x \<notin> set delims" using assms(2) by auto
  have d: "dropWhile (\<lambda>c. c \<in> set delims) (sep @ w @ u) = w @ u" for u
    using assms(3) p w by (subst dropWhile_append2) (auto simp: subset_iff)
  have "takeWhile (\<lambda>c. c \<notin> set delims) (w @ u) = w @ takeWhile (\<lambda>c. c \<notin> set delims) u"
    "dropWhile (\<lambda>c. c \<notin> set delims) (w @ u) = dropWhile (\<lambda>c. c \<notin> set delims) u" for u
    using p by (simp_all add: takeWhile_append2 dropWhile_append2)
  note this [of "d # rest"] this [of "[]"]
  then show "strtok delims (sep @ w @ d # rest) = Some (w, rest)" "strtok delims (sep @ w) = Some (w, [])"
    using d [of "d # rest"] d [of "[]"] assms(4) w by (simp_all add: strtok_def split: list.split)
qed

lemma strtok_empty: "set sep \<subseteq> set delims \<Longrightarrow> strtok delims sep = None"
  by (simp add: strtok_def subset_iff dropWhile_eq_Nil_conv [THEN iffD2])

lemma tokens_word:
  assumes "w \<noteq> []" "set w \<inter> set delims = {}" "set sep \<subseteq> set delims" "d \<in> set delims"
  shows "tokens delims (sep @ w @ d # rest) = w # tokens delims rest"
    and "tokens delims (sep @ w) = [w]"
proof -
  have "tokens delims [] = []" by (subst tokens.simps) (simp add: strtok_empty)
  then show "tokens delims (sep @ w @ d # rest) = w # tokens delims rest" "tokens delims (sep @ w) = [w]"
    using strtok_word [OF assms] by (subst tokens.simps, simp)+
qed

lemma tokens_join:
  assumes "d \<in> set delims" "\<forall>w\<in>set ws. w \<noteq> [] \<and> set w \<inter> set delims = {}"
  shows "tokens delims (join d ws) = ws"
  using assms
proof (induction d ws rule: join.induct)
  case (1 d)
  show ?case by (subst tokens.simps) (simp add: strtok_empty)
next
  case (2 d w)
  then show ?case using tokens_word(2) [of w delims "[]" d] by simp
next
  case (3 d w w' ws)
  then show ?case using tokens_word(1) [of w delims "[]" d] by simp
qed

definition token :: "string \<Rightarrow> bool" where
  "token w \<longleftrightarrow> w \<noteq> [] \<and> set w \<inter> {CHR '' '', CHR ''+''} = {}"

lemma tokens_line:
  assumes "token key" "\<forall>w\<in>set ws. token w"
  shows "tokens '' +'' (key @ '' = '' @ join (CHR ''+'') ws) = key # ''='' # ws"
proof -
  have "tokens '' +'' ([] @ key @ CHR '' '' # (''= '' @ join (CHR ''+'') ws)) = key # tokens '' +'' (''= '' @ join (CHR ''+'') ws)"
    using assms(1) by (intro tokens_word(1)) (auto simp: token_def)
  moreover have "tokens '' +'' ([] @ ''='' @ CHR '' '' # join (CHR ''+'') ws) = ''='' # tokens '' +'' (join (CHR ''+'') ws)"
    by (rule tokens_word(1)) auto
  moreover have "tokens '' +'' (join (CHR ''+'') ws) = ws"
    using assms(2) by (intro tokens_join) (auto simp: token_def)
  ultimately show ?thesis by simp
qed

section \<open>The sets of flags\<close>

lemma or_names_bit: "bit (or_names T ns w) i \<longleftrightarrow> bit w i \<or> (\<exists>n\<in>set ns. bit (noxNameToEnum n T) i)"
  by (induction ns arbitrary: w) (auto simp: or_names_def bit_or_iff)

lemma disjoint_words_bits:
  "disjoint_words vs \<Longrightarrow> i < length vs \<Longrightarrow> j < length vs \<Longrightarrow> i \<noteq> j \<Longrightarrow> vs ! i AND vs ! j = 0"
proof (induction vs arbitrary: i j)
  case (Cons v vs)
  have "v AND w = 0" "w AND v = 0" if "w \<in> set vs" for w
    using that Cons.prems(1) by (auto simp: list_all_iff ac_simps)
  then show ?case using Cons by (cases i; cases j) auto
qed simp

lemma disjoint_words_nonzero: "disjoint_words vs \<Longrightarrow> v \<in> set vs \<Longrightarrow> v \<noteq> 0"
  by (induction vs) auto

definition flag_table :: "name_table \<Rightarrow> bool" where
  "flag_table T \<longleftrightarrow> consistent_table T \<and> disjoint_words (map fst (fst T)) \<and> snd T = 0"

lemma consistent_lookup: "consistent_table T \<Longrightarrow> (v, n) \<in> set (fst T) \<Longrightarrow> noxNameToEnum n T = v"
  by (auto simp: consistent_table_def list_all_iff)

lemma flag_table_name:
  assumes "flag_table T" "(v, n) \<in> set (fst T)"
  shows "noxNameToEnum n' T AND v \<noteq> 0 \<longleftrightarrow> n' = n"
proof (cases "n' \<in> snd ` set (fst T)")
  case True
  then obtain v' where v': "(v', n') \<in> set (fst T)" by auto
  obtain i j where i: "i < length (fst T)" "fst T ! i = (v, n)" and j: "j < length (fst T)" "fst T ! j = (v', n')"
    using assms(2) v' by (auto simp: in_set_conv_nth)
  have e: "noxNameToEnum n' T = v'" "noxNameToEnum n T = v"
    using assms v' by (auto simp: flag_table_def intro: consistent_lookup)
  have d: "disjoint_words (map fst (fst T))" using assms(1) by (simp add: flag_table_def)
  show ?thesis
  proof (cases "i = j")
    case True
    have "v \<noteq> 0" using disjoint_words_nonzero [OF d, of v] assms(2) by force
    then show ?thesis using True i j e by simp
  next
    case False
    then have z: "v' AND v = 0" using disjoint_words_bits [OF d, of j i] i j by simp
    have "v \<noteq> 0" using disjoint_words_nonzero [OF d, of v] assms(2) by force
    then have "n' \<noteq> n" using z e by auto
    then show ?thesis using z e by simp
  qed
next
  case False
  then have "noxNameToEnum n' T = 0"
    using assms(1) by (auto simp: noxNameToEnum_def find_name_unknown flag_table_def)
  then show ?thesis using False assms(2) by force
qed

lemma and_nonzero: "(a AND b :: u32) \<noteq> 0 \<longleftrightarrow> (\<exists>i. bit a i \<and> bit b i)"
proof -
  have "bit a i \<Longrightarrow> i < 32" for i using bit_imp_le_length [of a i] by simp
  then show ?thesis by (auto simp: bit_eq_iff bit_and_iff)
qed

lemma or_names_flags:
  assumes "flag_table T" "(v, n) \<in> set (fst T)"
  shows "or_names T ns w AND v \<noteq> 0 \<longleftrightarrow> w AND v \<noteq> 0 \<or> n \<in> set ns"
proof -
  have "or_names T ns w AND v \<noteq> 0 \<longleftrightarrow> w AND v \<noteq> 0 \<or> (\<exists>m\<in>set ns. noxNameToEnum m T AND v \<noteq> 0)"
    by (auto simp: and_nonzero or_names_bit)
  then show ?thesis by (auto simp: flag_table_name [OF assms])
qed

lemma flag_tables: "flag_table g_noxClassNames" "flag_table g_noxFlagNames"
  using closing_enumerators by (simp_all add: flag_table_def name_tables_def consistent_class consistent_flag disjoint_class disjoint_flag)

lemma token_keys: "token ''CLASS''" "token ''FLAGS''"
  by (simp_all add: token_def)

section \<open>Properties\<close>

text \<open>A \<open>CLASS\<close> or \<open>FLAGS\<close> line whose words are joined by plus signs leaves every other field of the
  object alone, and afterwards the object has a class (a flag) of the table exactly if it had it before or
  its name is among the words; words outside the table have no effect.\<close>

theorem flag_lines:
  assumes "\<forall>n\<in>set ns. token n"
  shows "(\<exists>w. property_line (''CLASS'' @ '' = '' @ join (CHR ''+'') ns) ob = Inr (ob\<lparr>t_classes := w\<rparr>) \<and>
           (\<forall>(v, n)\<in>set (fst g_noxClassNames). (w AND v \<noteq> 0 \<longleftrightarrow> t_classes ob AND v \<noteq> 0 \<or> n \<in> set ns))) \<and>
         (\<exists>w. property_line (''FLAGS'' @ '' = '' @ join (CHR ''+'') ns) ob = Inr (ob\<lparr>t_flags := w\<rparr>) \<and>
           (\<forall>(v, n)\<in>set (fst g_noxFlagNames). (w AND v \<noteq> 0 \<longleftrightarrow> t_flags ob AND v \<noteq> 0 \<or> n \<in> set ns)))"
proof -
  have "property_line (''CLASS'' @ '' = '' @ join (CHR ''+'') ns) ob
      = Inr (ob\<lparr>t_classes := or_names g_noxClassNames ns (t_classes ob)\<rparr>)"
    "property_line (''FLAGS'' @ '' = '' @ join (CHR ''+'') ns) ob
      = Inr (ob\<lparr>t_flags := or_names g_noxFlagNames ns (t_flags ob)\<rparr>)"
    unfolding property_line_def tokens_line [OF token_keys(1) assms] tokens_line [OF token_keys(2) assms]
    by simp_all
  then show ?thesis
    using or_names_flags [OF flag_tables(1)] or_names_flags [OF flag_tables(2)] by blast
qed

definition no_thing :: thing where
  "no_thing = \<lparr>t_flags = 0, t_classes = 0, t_subclass = 0, t_collide = 0, t_update = 0, t_pickup = 0, t_use = 0,
     t_use_args = [[], [], [], [], []], t_update_args = [[], [], [], [], []], t_collide_args = [[], [], [], [], []],
     t_shape = 0, t_extent_x = 0, t_extent_y = 0\<rparr>"

theorem flag_lines_witness:
  "\<exists>w. property_line ''CLASS = WEAPON+FOOD'' no_thing = Inr (no_thing\<lparr>t_classes := w\<rparr>) \<and>
       (\<forall>(v, n)\<in>set (fst g_noxClassNames). (w AND v \<noteq> 0 \<longleftrightarrow> n \<in> {''WEAPON'', ''FOOD''}))"
  using flag_lines [of "[''WEAPON'', ''FOOD'']" no_thing] by (simp add: token_def no_thing_def)

text \<open>Searching a table for one of its names gives the enumerator beside it, and for a name the table
  does not have the enumerator of the closing entry.\<close>

theorem name_lookup:
  assumes "T \<in> set [g_noxClassNames, g_noxFlagNames, g_noxCollideNames, g_noxPickupNames, g_noxUpdateNames,
                    g_noxUseNames, g_noxXferNames, g_noxUnitArmorNames]"
  shows "((v, n) \<in> set (fst T) \<longrightarrow> noxNameToEnum n T = v) \<and>
         (n \<notin> snd ` set (fst T) \<longrightarrow> noxNameToEnum n T = 0)"
proof -
  have "consistent_table T" "snd T = 0"
    using assms closing_enumerators
    by (auto simp: name_tables_def consistent_class consistent_flag consistent_collide consistent_pickup
        consistent_update consistent_use consistent_xfer consistent_armor)
  then show ?thesis
    using consistent_lookup [of T v n] by (auto simp: noxNameToEnum_def find_name_unknown)
qed

theorem name_lookup_witness:
  "noxNameToEnum ''WEAPON'' g_noxClassNames = CLASS_WEAPON \<and> noxNameToEnum ''WEAPONS'' g_noxClassNames = 0"
  using name_lookup [of g_noxClassNames CLASS_WEAPON "''WEAPON''"]
    name_lookup [of g_noxClassNames 0 "''WEAPONS''"]
  by (simp add: g_noxClassNames_def)

end
