(* ===== verification/World_Objects.thy ===== *)
theory World_Objects
  imports Object_Accessor Thing_Props
begin

text \<open>
  Objects in the world: positions, inventories, health and mana of \<open>Object\<close> and \<open>WorldObject\<close>
  (\<open>src/src/game/Object.cpp\<close>).

  An object in an inventory is moved to the position (5880, 5880), outside the map; being there is what
  \<open>InAnInventory\<close> tests. Health changes are collected in \<open>m_delta_health\<close> and applied by the update of
  the player.
\<close>

section \<open>Positions\<close>

definition INVENTORY_POSITION :: grid_pair where
  "INVENTORY_POSITION = (5880, 5880)"

definition InAnInventory :: "nat \<Rightarrow> bool game" where
  "InAnInventory a = gbind (GetPosition a) (\<lambda>pos. gret (pos = INVENTORY_POSITION))"

text \<open>\<open>SetPosition\<close>: players who see the new position get an update, players who only saw the old one
  (or all of them, for an object put into an inventory) lose sight of the object.\<close>

definition SetPosition :: "nat \<Rightarrow> grid_pair \<Rightarrow> unit game" where
  "SetPosition a position =
     gbind (GetPosition a) (\<lambda>oldPos.
     gbind (PlayersCanSeePoint (ucast (fst oldPos)) (ucast (snd oldPos))) (\<lambda>oldPlayers.
     gbind (PlayersCanSeePoint (ucast (fst position)) (ucast (snd position))) (\<lambda>newPlayers.
     gthen (upd_object a (\<lambda>ob. ob\<lparr>ob_center := position\<rparr>))
    (gbind (InAnInventory a) (\<lambda>inv.
       if inv then gfor oldPlayers (\<lambda>pl. ObjectOutOfSight pl a)
       else gthen (gfor newPlayers (\<lambda>pl. Player_AddUpdateObject pl a))
             (gfor (filter (\<lambda>pl. pl \<notin> set newPlayers) oldPlayers) (\<lambda>pl. ObjectOutOfSight pl a)))))))"

section \<open>Inventories\<close>

definition InMyInventory :: "nat \<Rightarrow> nat \<Rightarrow> bool game" where
  "InMyInventory a obj = gbind (get_object a) (\<lambda>ob. gret (obj \<in> set (ob_inventory ob)))"

definition AddToInventory :: "nat \<Rightarrow> nat option \<Rightarrow> bool game" where
  "AddToInventory a p =
     (case p of
        None \<Rightarrow> gret False
      | Some obj \<Rightarrow> gbind (InAnInventory obj) (\<lambda>inv.
          if inv then gret False
          else gthen (SetPosition obj INVENTORY_POSITION)
              (gthen (upd_object a (\<lambda>ob. ob\<lparr>ob_inventory := set_add obj (ob_inventory ob)\<rparr>)) (gret True))))"

text \<open>\<open>Object::RemoveFromInventory\<close>; the result is whether the object was there.\<close>

definition Object_RemoveFromInventory :: "nat \<Rightarrow> nat \<Rightarrow> grid_pair \<Rightarrow> bool game" where
  "Object_RemoveFromInventory a obj newPos =
     gthen (SetPosition obj newPos)
    (gbind (InMyInventory a obj) (\<lambda>b.
     gthen (upd_object a (\<lambda>ob. ob\<lparr>ob_inventory := set_del obj (ob_inventory ob)\<rparr>)) (gret b)))"

definition Object_Pickup :: "nat \<Rightarrow> nat option \<Rightarrow> u32 \<Rightarrow> bool game" where
  "Object_Pickup a p max_dist =
     (case p of
        None \<Rightarrow> gret False
      | Some obj \<Rightarrow> gbind (InAnInventory obj) (\<lambda>inv.
          if inv then gret False
          else gbind (GetPosition a) (\<lambda>pos. gbind (GetPosition obj) (\<lambda>opos.
            if max_dist \<noteq> 0 \<and> pair_distance pos opos > max_dist then gret False
            else AddToInventory a (Some obj)))))"

section \<open>Health and mana\<close>

definition Damage :: "nat \<Rightarrow> rat \<Rightarrow> unit game" where
  "Damage a damage =
     upd_object a (\<lambda>ob. if IsDead ob then ob else ob\<lparr>ob_delta_health := ob_delta_health ob - damage\<rparr>)"

definition Heal :: "nat \<Rightarrow> rat \<Rightarrow> unit game" where
  "Heal a heal =
     upd_object a (\<lambda>ob. if IsDead ob then ob else ob\<lparr>ob_delta_health := ob_delta_health ob + heal\<rparr>)"

definition drain_mana :: "rat \<Rightarrow> nox_object \<Rightarrow> nox_object" where
  "drain_mana damage ob =
     (let m = ob_mana ob - damage
      in ob\<lparr>ob_mana := if m < 0 then 0 else if m > ob_max_mana ob then ob_max_mana ob else m\<rparr>)"

definition ManaDrain :: "nat \<Rightarrow> rat \<Rightarrow> bool game" where
  "ManaDrain a damage =
     gbind (get_object a) (\<lambda>ob.
       if ob_max_mana ob \<le> 0 then gret False
       else gthen (upd_object a (drain_mana damage)) (gret True))"

text \<open>\<open>atoi(use_args[0])\<close> of an object type.\<close>

definition first_arg :: "string list \<Rightarrow> int" where
  "first_arg args = (case args of [] \<Rightarrow> 0 | s # _ \<Rightarrow> atoi s)"

end
