(* ===== verification/Units.thy ===== *)
theory Units
  imports World_Objects
begin

text \<open>
  Units (\<open>src/src/game/Unit.{h,cpp}\<close>): enchantments, animations, movement, equipment, and the overrides of
  these in class \<open>Player\<close> (\<open>src/src/game/Player.cpp\<close>), which also report to the player's client.
  \<open>enchantTable\<close> is the table of \<open>src/src/game/ObjectMgr.cpp\<close>.

  A unit has 32 enchantments, a bit of \<open>m_auras\<close> and a counter of frames each; a counter is an \<open>int16\<close>.
  Its thirteen equipment slots hold pointers to objects.
\<close>

section \<open>Enchantments\<close>

definition to_i16 :: "int \<Rightarrow> int" where
  "to_i16 n = sint (word_of_int n :: u16)"

text \<open>The sounds of the table are kept as \<open>int8\<close> and passed on as \<open>uint16\<close>.\<close>

definition narrow :: "u16 \<Rightarrow> u16" where
  "narrow sound = scast (ucast sound :: u8)"

text \<open>Name, frames, sound when it begins, sound when it ends, by the number of the enchantment. In the entry
  of \<open>ENCHANT_BLINDED\<close> the frames are missing, so its sounds are one place off.\<close>

definition enchantTable :: "(string \<times> int \<times> u16 \<times> u16) list" where
  "enchantTable =
     [(''ENCHANT_INVISIBLE'', 1800, narrow SOUND_INVISIBILITYON, narrow SOUND_INVISIBILITYOFF),
      (''ENCHANT_MOONGLOW'', 9000, narrow SOUND_MOONGLOWON, narrow SOUND_MOONGLOWOFF),
      (''ENCHANT_BLINDED'', (uint SOUND_BLINDON), narrow SOUND_BLINDOFF, narrow 0),
      (''ENCHANT_CONFUSED'', 90, narrow SOUND_CONFUSEON, narrow SOUND_CONFUSEOFF),
      (''ENCHANT_SLOWED'', 120, narrow SOUND_SLOWON, narrow SOUND_SLOWOFF),
      (''ENCHANT_HELD'', 60, narrow SOUND_STUNON, narrow SOUND_STUNOFF),
      (''ENCHANT_DETECTING'', 0, narrow 0, narrow 0),
      (''ENCHANT_ETHEREAL'', 0, narrow 0, narrow 0),
      (''ENCHANT_RUN'', 90, narrow SOUND_RUNON, narrow SOUND_RUNOFF),
      (''ENCHANT_HASTED'', 600, narrow SOUND_HASTEON, narrow SOUND_HASTEOFF),
      (''ENCHANT_VILLAIN'', 0, narrow 0, narrow 0),
      (''ENCHANT_AFRAID'', 0, narrow 0, narrow 0),
      (''ENCHANT_BURNING'', 0, narrow 0, narrow 0),
      (''ENCHANT_VAMPIRISM'', 900, narrow SOUND_VAMPIRISMON, narrow SOUND_VAMPIRISMOFF),
      (''ENCHANT_ANCHORED'', 300, narrow SOUND_ANCHORON, narrow SOUND_ANCHOROFF),
      (''ENCHANT_LIGHT'', 9000, narrow SOUND_LIGHTON, narrow SOUND_LIGHTOFF),
      (''ENCHANT_DEATH'', 0, narrow 0, narrow 0),
      (''ENCHANT_PROTECT_FROM_FIRE'', 1800, narrow SOUND_PROTECTIONFROMFIREON, narrow SOUND_PROTECTIONFROMFIREOFF),
      (''ENCHANT_PROTECT_FROM_POISON'', 1800, narrow SOUND_PROTECTIONFROMPOISONON, narrow SOUND_PROTECTIONFROMPOISONOFF),
      (''ENCHANT_PROTECT_FROM_MAGIC'', 1800, narrow SOUND_PROTECTIONFROMMAGICON, narrow SOUND_PROTECTIONFROMMAGICOFF),
      (''ENCHANT_PROTECT_FROM_ELECTRICITY'', 1800, narrow SOUND_PROTECTIONFROMELECTRICITYON, narrow SOUND_PROTECTIONFROMELECTRICITYOFF),
      (''ENCHANT_INFRAVISION'', 900, narrow 0, narrow 0),
      (''ENCHANT_SHOCK'', 600, narrow SOUND_SHOCKON, narrow SOUND_SHOCKOFF),
      (''ENCHANT_INVULNERABLE'', 150, narrow 0, narrow 0),
      (''ENCHANT_TELEKINESIS'', 0, narrow 0, narrow 0),
      (''ENCHANT_FREEZE'', 0, narrow 0, narrow 0),
      (''ENCHANT_SHIELD'', 0, narrow SOUND_FORCEFIELDCAST, narrow SOUND_SHIELDOFF),
      (''ENCHANT_REFLECTIVE_SHIELD'', 0, narrow 0, narrow 0),
      (''ENCHANT_CHARMING'', 0, narrow 0, narrow 0),
      (''ENCHANT_ANTI_MAGIC'', 0, narrow 0, narrow 0),
      (''ENCHANT_CROWN'', 0, narrow 0, narrow 0),
      (''ENCHANT_SNEAK'', 0, narrow 0, narrow 0)]"

definition HasEnchant :: "nat \<Rightarrow> nat \<Rightarrow> bool game" where
  "HasEnchant a enchant = gbind (get_unit a) (\<lambda>un. gret (un_auras un AND push_bit enchant 1 \<noteq> 0))"

definition mark_update :: "nat \<Rightarrow> u32 \<Rightarrow> unit game" where
  "mark_update a m = upd_object a (\<lambda>ob. ob\<lparr>wo_updateMask := wo_updateMask ob OR m\<rparr>)"

definition clear_aura :: "nat \<Rightarrow> nox_unit \<Rightarrow> nox_unit" where
  "clear_aura e un = un\<lparr>un_auras := un_auras un AND NOT (push_bit e 1), un_aura_times := (un_aura_times un)[e := 0]\<rparr>"

definition set_aura :: "nat \<Rightarrow> int \<Rightarrow> nox_unit \<Rightarrow> nox_unit" where
  "set_aura e t un = un\<lparr>un_auras := un_auras un OR push_bit e 1, un_aura_times := (un_aura_times un)[e := t]\<rparr>"

text \<open>Every enchantment below \<open>ENCHANT_SIZE\<close> has an entry in the table.\<close>

definition UnsetEnchant :: "env \<Rightarrow> nat \<Rightarrow> nat \<Rightarrow> unit game" where
  "UnsetEnchant E a enchant =
     gseq [upd_unit a (clear_aura enchant),
           mark_update a MASK_ENCHANTMENTS,
           (case enchantTable ! enchant of (_, _, _, soundoff) \<Rightarrow> EmitSound E a soundoff)]"

definition aura_frames :: "nat \<Rightarrow> int \<Rightarrow> int" where
  "aura_frames enchant frames =
     (let f = to_i16 frames
      in if f \<noteq> 0 then f else to_i16 (case enchantTable ! enchant of (_, frames, _, _) \<Rightarrow> frames))"

definition Unit_SetEnchant :: "env \<Rightarrow> nat \<Rightarrow> nat \<Rightarrow> int \<Rightarrow> unit game" where
  "Unit_SetEnchant E a enchant frames =
     gseq [upd_unit a (set_aura enchant (aura_frames enchant frames)),
           mark_update a MASK_ENCHANTMENTS,
           (case enchantTable ! enchant of (_, _, soundon, _) \<Rightarrow> EmitSound E a soundon)]"

text \<open>\<open>Player::SetEnchant\<close>: with a message for a confused or held player.\<close>

definition SetEnchant :: "env \<Rightarrow> nat \<Rightarrow> nat \<Rightarrow> int \<Rightarrow> unit game" where
  "SetEnchant E a enchant frames =
     gthen (Unit_SetEnchant E a enchant frames)
    (if enchant = ENCHANT_CONFUSED then send_self a (mk_packet MSG_INFORM 0 0) [put_u8 0x0D, put_u32 1]
     else if enchant = ENCHANT_HELD then send_self a (mk_packet MSG_INFORM 0 0) [put_u8 0x0D, put_u32 0]
     else gret ())"

definition ResetEnchants :: "nat \<Rightarrow> unit game" where
  "ResetEnchants a =
     gthen (upd_unit a (\<lambda>un. un\<lparr>un_auras := 0, un_aura_times := replicate ENCHANT_SIZE 0\<rparr>))
           (mark_update a MASK_ENCHANTMENTS)"

section \<open>Poison\<close>

definition IsPoisoned :: "nat \<Rightarrow> bool game" where
  "IsPoisoned a = gbind (get_unit a) (\<lambda>un. gret (un_poison un \<noteq> 0))"

definition Unit_Poison :: "nat \<Rightarrow> u8 \<Rightarrow> u16 \<Rightarrow> unit game" where
  "Unit_Poison a poisoned poisoner =
     upd_unit a (\<lambda>un. un\<lparr>un_poison := poisoned,
                          un_poisoner := if poisoned \<noteq> 0 then poisoner else un_poisoner un\<rparr>)"

definition Poison :: "nat \<Rightarrow> u8 \<Rightarrow> u16 \<Rightarrow> unit game" where
  "Poison a poisoned poisoner =
     gthen (Unit_Poison a poisoned poisoner)
    (gbind (GetExtent a) (\<lambda>e. gbind (get_unit a) (\<lambda>un.
     gthen (send_self a (mk_packet MSG_REPORT_POISON 0 0) [put_u16 e, put_u8 (un_poison un)])
           (send_self a (mk_packet MSG_INFORM 0 0) [put_u8 0x0D, put_u32 2]))))"

section \<open>Animations and movement\<close>

definition ResetActionAnim :: "nat \<Rightarrow> unit game" where
  "ResetActionAnim a =
     gthen (upd_unit a (\<lambda>un. un\<lparr>un_action := ACTION_IDLE, un_action_time := 0, un_angle := un_angle un AND 0x7F\<rparr>))
           (upd_object a (\<lambda>ob. ob\<lparr>ob_velocity := None\<rparr>))"

definition SetActionAnim :: "nat \<Rightarrow> u8 \<Rightarrow> u32 \<Rightarrow> bool game" where
  "SetActionAnim a anim frames =
     gbind (get_unit a) (\<lambda>un.
       if un_action_time un \<noteq> 0 \<and> un_action un \<noteq> anim \<and> un_action un \<noteq> ACTION_WALK \<and> un_action un \<noteq> ACTION_RUN
       then gret False
       else gthen (gwhen (un_action un \<noteq> anim) (ResetActionAnim a))
           (gthen (upd_unit a (\<lambda>un. un\<lparr>un_action := anim, un_action_time := uint (frames * 33), un_animFrames := 0\<rparr>))
             (gret True)))"

text \<open>The velocity points from the position to the target; its length is the speed.\<close>

definition MoveToward :: "nat \<Rightarrow> u16 \<Rightarrow> u16 \<Rightarrow> rat \<Rightarrow> unit game" where
  "MoveToward a x y speed =
     upd_object a (\<lambda>ob.
       if IsDead ob then ob
       else ob\<lparr>ob_velocity := Some (uint x - uint (ucast (fst (ob_center ob)) :: u16),
                                     uint y - uint (ucast (snd (ob_center ob)) :: u16), speed)\<rparr>)"

definition rot_data :: "u8 list" where
  "rot_data = [0x40, 0x70, 0x60, 0x50, 0x30, 0x00, 0x10, 0x20]"

text \<open>\<open>floor((double)angle / 0x20 + 0.5)\<close> is \<open>(angle + 16) div 32\<close>.\<close>

definition SetAngle :: "nat \<Rightarrow> u8 \<Rightarrow> unit game" where
  "SetAngle a angle =
     gbind (get_object a) (\<lambda>ob.
       gwhen (\<not> IsDead ob)
         (upd_unit a (\<lambda>un. un\<lparr>un_angle := rot_data ! unat ((word_of_int ((uint angle + 16) div 32) :: u8) AND 0x7)\<rparr>)))"

text \<open>\<open>(int)((speed*206)+.5)-2\<close>.\<close>

definition ConvertToNoXSpeed :: "int \<Rightarrow> int" where
  "ConvertToNoXSpeed speed = trunc_int (of_int (speed * 206) + 1 / 2) - 2"

definition Unit_CanMove :: "nat \<Rightarrow> bool game" where
  "Unit_CanMove a = gbind (HasEnchant a ENCHANT_HELD) (\<lambda>h. gbind (HasEnchant a ENCHANT_FREEZE) (\<lambda>f. gret (\<not> (h \<or> f))))"

definition CanMove :: "nat \<Rightarrow> bool game" where
  "CanMove a =
     gbind (Unit_CanMove a) (\<lambda>c.
       if c then gbind (player_session a) (\<lambda>ss. gret (ss_observing ss)) else gret False)"

section \<open>Equipment\<close>

text \<open>A packet built from an empty one and sent to every player.\<close>

definition send_built :: "(world_packet \<Rightarrow> world_packet game) \<Rightarrow> unit game" where
  "send_built f = gbind (f new_packet) (\<lambda>packet. gvoid (SendPacketToAll packet))"

definition weapon_bit :: "thing_info \<Rightarrow> u32" where
  "weapon_bit info = push_bit (unat (th_subclass info AND 0x1F)) 1"

text \<open>The loop over the slots: the first one that holds the object.\<close>

definition find_slot :: "nat option list \<Rightarrow> nat \<Rightarrow> nat option" where
  "find_slot slots obj = List.find (\<lambda>i. slots ! i = Some obj) [0..<SLOT_SIZE]"

definition Unit_Dequip :: "env \<Rightarrow> nat \<Rightarrow> nat option \<Rightarrow> bool game" where
  "Unit_Dequip E a p =
     (case p of
        None \<Rightarrow> gret False
      | Some obj \<Rightarrow> gbind (get_unit a) (\<lambda>un.
          case find_slot (un_equipment un) obj of
            None \<Rightarrow> gret False
          | Some i \<Rightarrow> gbind (GetObjectInfo E obj) (\<lambda>info.
              gthen (if th_subclass info AND SUBCLASS_WEAPON \<noteq> 0 \<and> i \<noteq> SLOT_WEP_SECONDARY
                     then send_built (BuildDequipPacket a False (weapon_bit info))
                     else gbind (ObjectToUnitArmor E obj) (\<lambda>slot. send_built (BuildDequipPacket a True slot)))
             (gthen (upd_unit a (\<lambda>un. un\<lparr>un_equipment := (un_equipment un)[i := None]\<rparr>)) (gret True)))))"

text \<open>\<open>Player::Dequip\<close>, which overrides \<open>Unit::Dequip\<close>.\<close>

definition Dequip :: "env \<Rightarrow> nat \<Rightarrow> nat option \<Rightarrow> bool game" where
  "Dequip E a p =
     gbind (Unit_Dequip E a p) (\<lambda>b.
       if b then gbind (deref p) (\<lambda>obj. gbind (GetExtent obj) (\<lambda>e.
              gthen (send_self a (mk_packet MSG_REPORT_DEQUIP 0 0) [put_u16 e]) (gret True)))
       else gret False)"

definition Equip_slot :: "env \<Rightarrow> nat \<Rightarrow> nat option \<Rightarrow> u32 \<Rightarrow> bool game" where
  "Equip_slot E a p slot =
     (case p of
        None \<Rightarrow> gret False
      | Some obj \<Rightarrow> gbind (InMyInventory a obj) (\<lambda>b.
          if \<not> b \<or> slot \<ge> of_nat SLOT_SIZE then gret False
          else gbind (get_unit a) (\<lambda>un.
               gthen (gvoid (Dequip E a (un_equipment un ! unat slot)))
              (gthen (upd_unit a (\<lambda>un. un\<lparr>un_equipment := (un_equipment un)[unat slot := Some obj]\<rparr>)) (gret True)))))"

definition weapon_slot :: "u32 \<Rightarrow> u32" where
  "weapon_slot subclass =
     (if subclass = SUBCLASS_QUIVER then of_nat SLOT_QUIVER
      else if subclass = SUBCLASS_FLAG then of_nat SLOT_FLAG
      else of_nat SLOT_WEP_PRIMARY)"

definition Unit_Equip :: "env \<Rightarrow> nat \<Rightarrow> nat option \<Rightarrow> bool game" where
  "Unit_Equip E a p =
     (case p of
        None \<Rightarrow> gret False
      | Some obj \<Rightarrow> gbind (GetObjectInfo E obj) (\<lambda>info.
          let slot = (if th_subclass info AND SUBCLASS_WEAPON \<noteq> 0 then weapon_slot (th_subclass info)
                      else th_subclass info)
          in gbind (Equip_slot E a p slot) (\<lambda>b.
             if \<not> b then gret False
             else gthen (if th_subclass info AND SUBCLASS_WEAPON \<noteq> 0
                         then send_built (BuildEquipPacket a False (weapon_bit info) 0xFFFFFFFF)
                         else gbind (ObjectToUnitArmor E obj) (\<lambda>slot.
                                send_built (BuildEquipPacket a True slot 0xFFFFFFFF)))
                  (gret True))))"

definition Equip :: "env \<Rightarrow> nat \<Rightarrow> nat option \<Rightarrow> bool game" where
  "Equip E a p =
     gbind (Unit_Equip E a p) (\<lambda>b.
       if b then gbind (deref p) (\<lambda>obj. gbind (GetExtent obj) (\<lambda>e.
              gthen (send_self a (mk_packet MSG_REPORT_EQUIP 0 0) [put_u16 e]) (gret True)))
       else gret False)"

text \<open>The guard of \<open>EquipSecondary\<close> tests \<open>!obj && !InMyInventory(obj)\<close>: an object that is not in the
  inventory passes. A null pointer is never in the set \<open>InMyInventory\<close> searches, so the function returns for it, and
  its branches for a null pointer (the swap of the weapons) are dead code.\<close>

definition EquipSecondary :: "env \<Rightarrow> nat \<Rightarrow> nat option \<Rightarrow> unit game" where
  "EquipSecondary E a p =
     gwhen (p \<noteq> None)
       (gthen (gvoid (Dequip E a p))
          (gthen (upd_unit a (\<lambda>un. un\<lparr>un_equipment := (un_equipment un)[SLOT_WEP_SECONDARY := p]\<rparr>))
          (gbind (deref p) (\<lambda>obj. gbind (GetExtent obj) (\<lambda>e.
             send_self a (mk_packet MSG_REPORT_SECONDARY_WEAPON 0 0) [put_u16 e])))))"

end
