(* ===== verification/Items.thy ===== *)
theory Items
  imports Units
begin

text \<open>
  Items and players: the overrides of the inventory operations in \<open>Unit\<close> and \<open>Player\<close>, the pickup and use
  handlers of \<open>WorldObject\<close> (\<open>src/src/game/Object.cpp\<close>) with the tables \<open>pickupTable\<close> and \<open>useTable\<close> of
  \<open>ObjectMgr.cpp\<close>, and dying.

  A call through a virtual function of \<open>Object\<close> is resolved by the kind of the object. A handler gets the
  object used and the player.
\<close>

section \<open>Taking things out of an inventory\<close>

definition Player_RemoveFromInventory :: "env \<Rightarrow> nat \<Rightarrow> nat \<Rightarrow> grid_pair \<Rightarrow> bool game" where
  "Player_RemoveFromInventory E a obj newPos =
     gbind (InMyInventory a obj) (\<lambda>b.
       if b then gthen (gvoid (Dequip E a (Some obj)))
                (gthen (gvoid (Object_RemoveFromInventory a obj newPos))
                (gbind (GetExtent obj) (\<lambda>e.
                 gthen (send_self a (mk_packet MSG_REPORT_DROP 0 0) [put_u16 e, put_u16 0]) (gret True))))
       else gret False)"

definition RemoveFromInventory :: "env \<Rightarrow> nat \<Rightarrow> nat \<Rightarrow> grid_pair \<Rightarrow> bool game" where
  "RemoveFromInventory E a obj newPos =
     gbind (get_object a) (\<lambda>ob.
       if ob_kind ob = KPlayer then Player_RemoveFromInventory E a obj newPos
       else Object_RemoveFromInventory a obj newPos)"

definition Object_Drop :: "env \<Rightarrow> nat \<Rightarrow> nat option \<Rightarrow> grid_pair \<Rightarrow> bool game" where
  "Object_Drop E a p newPos =
     (case p of
        None \<Rightarrow> gret False
      | Some obj \<Rightarrow> gbind (InMyInventory a obj) (\<lambda>b.
          if \<not> b then gret False
          else gthen (gvoid (RemoveFromInventory E a obj newPos)) (gret True)))"

text \<open>Too far away, the object falls at an offset the C library computes from the angle of the unit; the
  offset is added to or taken from each coordinate in \<open>uint32\<close>.\<close>

definition drop_position :: "env \<Rightarrow> u8 \<Rightarrow> u32 \<Rightarrow> grid_pair \<Rightarrow> grid_pair \<Rightarrow> grid_pair" where
  "drop_position E angle max_dist pos newPos =
     (let (x, y) = e_drop_offset E angle max_dist;
          px = ucast (ucast (fst pos) :: u16); py = ucast (ucast (snd pos) :: u16)
      in (if fst newPos < px then px - x else x + px, if snd newPos < py then py - y else y + py))"

definition Unit_Drop :: "env \<Rightarrow> nat \<Rightarrow> nat option \<Rightarrow> u32 \<Rightarrow> grid_pair \<Rightarrow> bool game" where
  "Unit_Drop E a p max_dist newPos =
     gbind (GetPosition a) (\<lambda>pos. gbind (get_unit a) (\<lambda>un.
       Object_Drop E a p
         (if pair_distance newPos pos > max_dist then drop_position E (un_angle un) max_dist pos newPos else newPos)))"

definition DropAll :: "env \<Rightarrow> nat \<Rightarrow> unit game" where
  "DropAll E a =
     gbind (GetPosition a) (\<lambda>pos. gbind (get_object a) (\<lambda>ob.
       gfor (ob_inventory ob) (\<lambda>obj. gvoid (RemoveFromInventory E a obj pos))))"

definition Die :: "env \<Rightarrow> nat \<Rightarrow> unit game" where
  "Die E a = gthen (DropAll E a) (upd_object a (\<lambda>ob. ob\<lparr>ob_health := 0\<rparr>))"

definition OneSecondDieUpdate :: "env \<Rightarrow> nat \<Rightarrow> u32 \<Rightarrow> unit game" where
  "OneSecondDieUpdate E a diff =
     gthen (upd_object a (\<lambda>ob. if ob_update_timer ob = 0 then ob\<lparr>ob_update_timer := 1000\<rparr> else ob))
    (gbind (get_object a) (\<lambda>ob.
       if ob_update_timer ob > diff then upd_object a (\<lambda>ob. ob\<lparr>ob_update_timer := ob_update_timer ob - diff\<rparr>)
       else Die E a))"

section \<open>Using things\<close>

text \<open>What every consumed object ends with.\<close>

definition consume :: "env \<Rightarrow> nat \<Rightarrow> nat \<Rightarrow> unit game" where
  "consume E obj plr =
     gthen (gvoid (RemoveFromInventory E plr obj INVENTORY_POSITION)) (AddObjectToRemoveList obj)"

definition self_sound :: "nat \<Rightarrow> u16 \<Rightarrow> unit game" where
  "self_sound plr sound = gbind (get_player plr) (\<lambda>p. SendAudioPlayerEvent (pl_session p) sound 100 0)"

text \<open>The effect of a potion by its subclass, and whether the potion is used up. The enumerators of the
  subclasses are consecutive numbers, tested here bit by bit.\<close>

definition potion_enchants :: "(u32 \<times> nat) list" where
  "potion_enchants =
     [(SUBCLASS_HASTE_POTION, ENCHANT_HASTED), (SUBCLASS_INVISIBILITY_POTION, ENCHANT_INVISIBLE),
      (SUBCLASS_SHIELD_POTION, ENCHANT_SHIELD), (SUBCLASS_FIRE_PROTECT_POTION, ENCHANT_PROTECT_FROM_FIRE),
      (SUBCLASS_SHOCK_PROTECT_POTION, ENCHANT_PROTECT_FROM_ELECTRICITY),
      (SUBCLASS_POISON_PROTECT_POTION, ENCHANT_PROTECT_FROM_POISON),
      (SUBCLASS_INVULNERABILITY_POTION, ENCHANT_INVULNERABLE), (SUBCLASS_INFRAVISION_POTION, ENCHANT_DETECTING),
      (SUBCLASS_VAMPIRISM_POTION, ENCHANT_VAMPIRISM)]"

definition potion_effect :: "env \<Rightarrow> thing_info \<Rightarrow> nat \<Rightarrow> bool game" where
  "potion_effect E info plr =
     (let type = th_subclass info; amt = of_int (first_arg (th_use_args info)) :: rat
      in if type AND SUBCLASS_MANA_POTION \<noteq> 0 then
           gbind (get_object plr) (\<lambda>ob.
             if GetMaxMana ob = 0
             then gthen (gvoid (ManaDrain plr (0 - amt))) (gthen (self_sound plr SOUND_RESTOREMANA) (gret True))
             else gret False)
         else if type AND SUBCLASS_HEALTH_POTION \<noteq> 0 then
           gthen (Heal plr (0 - amt)) (gthen (self_sound plr SOUND_RESTOREHEALTH) (gret True))
         else if type AND SUBCLASS_CURE_POISON_POTION \<noteq> 0 then
           gbind (IsPoisoned plr) (\<lambda>poisoned.
             if poisoned then gthen (Poison plr 0 0) (gthen (self_sound plr SOUND_CUREPOISONEFFECT) (gret True))
             else gret False)
         else case List.find (\<lambda>(c, _). type AND c \<noteq> 0) potion_enchants of
                Some (_, enchant) \<Rightarrow> gthen (SetEnchant E plr enchant 0) (gret True)
              | None \<Rightarrow> gret True)"

definition PotionUse :: "env \<Rightarrow> nat \<Rightarrow> nat \<Rightarrow> unit game" where
  "PotionUse E obj plr =
     gbind (GetObjectInfo E obj) (\<lambda>info. gbind (potion_effect E info plr) (\<lambda>used.
       gwhen used (gthen (EmitSound E plr SOUND_POTIONUSE) (consume E obj plr))))"

definition ConsumeUse :: "env \<Rightarrow> nat \<Rightarrow> nat \<Rightarrow> unit game" where
  "ConsumeUse E obj plr =
     gbind (GetObjectInfo E obj) (\<lambda>info.
     gthen (Heal plr (of_int (first_arg (th_use_args info)))) (consume E obj plr))"

definition ConsumeConfuseUse :: "env \<Rightarrow> nat \<Rightarrow> nat \<Rightarrow> unit game" where
  "ConsumeConfuseUse E obj plr =
     gbind (GetObjectInfo E obj) (\<lambda>info.
     gthen (SetEnchant E plr ENCHANT_CONFUSED 90)
    (gthen (Heal plr (of_int (first_arg (th_use_args info)))) (consume E obj plr)))"

definition MushroomUse :: "env \<Rightarrow> nat \<Rightarrow> nat \<Rightarrow> unit game" where
  "MushroomUse E obj plr =
     gthen (Poison plr 0 0) (gthen (SetEnchant E plr ENCHANT_CONFUSED 90) (consume E obj plr))"

definition Use :: "env \<Rightarrow> nat \<Rightarrow> nat \<Rightarrow> unit game" where
  "Use E obj plr =
     gbind (GetObjectInfo E obj) (\<lambda>info.
       if th_use info = USE_POTION then PotionUse E obj plr
       else if th_use info = USE_CONSUME then ConsumeUse E obj plr
       else if th_use info = USE_CONSUMECONFUSE then ConsumeConfuseUse E obj plr
       else if th_use info = USE_MUSHROOM then MushroomUse E obj plr
       else gret ())"

section \<open>Picking things up\<close>

text \<open>The result of a pickup handler is whether the player keeps the object.\<close>

definition FoodPickup :: "env \<Rightarrow> nat \<Rightarrow> nat \<Rightarrow> bool game" where
  "FoodPickup E obj plr =
     gbind (GetObjectInfo E obj) (\<lambda>info. gbind (get_object plr) (\<lambda>ob. gbind (IsPoisoned plr) (\<lambda>poisoned.
       let mushroom = th_subclass info AND SUBCLASS_MUSHROOM \<noteq> 0
       in if sint (GetMaxHealth ob) - sint (GetHealth ob) > first_arg (th_use_args info) \<and> \<not> mushroom
          then gthen (Use E obj plr) (gret False)
          else if mushroom \<and> poisoned then gthen (Use E obj plr) (gret False)
          else gret True)))"

text \<open>Equipping what was picked up, if the slot is free; a slot outside the array is an access out of bounds.\<close>

definition pickup_equip :: "env \<Rightarrow> nat \<Rightarrow> nat \<Rightarrow> u32 \<Rightarrow> (world_packet \<Rightarrow> world_packet game) \<Rightarrow> bool game" where
  "pickup_equip E obj plr slot build =
     gbind (get_unit plr) (\<lambda>un.
       if slot \<ge> of_nat SLOT_SIZE then gfail OutOfBounds
       else if un_equipment un ! unat slot \<noteq> None then gret True
       else gthen (upd_unit plr (\<lambda>un. un\<lparr>un_equipment := (un_equipment un)[unat slot := Some obj]\<rparr>))
           (gthen (send_built build)
           (gbind (GetExtent obj) (\<lambda>e.
            gthen (send_self plr (mk_packet MSG_REPORT_EQUIP 0 0) [put_u16 e]) (gret True)))))"

definition ArmorPickup :: "env \<Rightarrow> nat \<Rightarrow> nat \<Rightarrow> bool game" where
  "ArmorPickup E obj plr =
     gbind (GetObjectInfo E obj) (\<lambda>info.
       pickup_equip E obj plr (th_subclass info)
         (\<lambda>packet. gbind (ObjectToUnitArmor E obj) (\<lambda>slot. BuildEquipPacket plr True slot 0xFFFFFFFF packet)))"

definition WeaponPickup :: "env \<Rightarrow> nat \<Rightarrow> nat \<Rightarrow> bool game" where
  "WeaponPickup E obj plr =
     gbind (GetObjectInfo E obj) (\<lambda>info.
       pickup_equip E obj plr (weapon_slot (th_subclass info))
         (BuildEquipPacket plr False (weapon_bit info) 0xFFFFFFFF))"

definition HandlePickup :: "env \<Rightarrow> nat \<Rightarrow> nat \<Rightarrow> bool game" where
  "HandlePickup E obj plr =
     gbind (GetObjectInfo E obj) (\<lambda>info.
       if th_pickup info = PICKUP_FOOD then FoodPickup E obj plr
       else if th_pickup info = PICKUP_ARMOR then ArmorPickup E obj plr
       else if th_pickup info = PICKUP_WEAPON then WeaponPickup E obj plr
       else gret False)"

definition Player_Pickup :: "env \<Rightarrow> nat \<Rightarrow> nat option \<Rightarrow> u32 \<Rightarrow> bool game" where
  "Player_Pickup E a p max_dist =
     gbind (Object_Pickup a p max_dist) (\<lambda>b.
       if b then gbind (deref p) (\<lambda>obj. gbind (GetExtent obj) (\<lambda>e. gbind (GetType obj) (\<lambda>t.
              gthen (send_self a (mk_packet MSG_REPORT_MODIFIABLE_PICKUP 0 0) [put_u16 e, put_u16 t, put_u32 0xFFFFFFFF])
                    (HandlePickup E obj a))))
       else gret False)"

definition Pickup :: "env \<Rightarrow> nat \<Rightarrow> nat option \<Rightarrow> u32 \<Rightarrow> bool game" where
  "Pickup E a p max_dist =
     gbind (get_object a) (\<lambda>ob.
       if ob_kind ob = KPlayer then Player_Pickup E a p max_dist else Object_Pickup a p max_dist)"

text \<open>A new object put straight into the inventory; null if it was not kept.\<close>

definition NewPickup :: "env \<Rightarrow> nat \<Rightarrow> u16 \<Rightarrow> u16 \<Rightarrow> nat option game" where
  "NewPickup E a type extent =
     gbind (new_object E KWorldObject type (1, 1) (if extent = 0 then 0xFFFF else extent)) (\<lambda>obj.
     gbind (Pickup E a (Some obj) 0) (\<lambda>kept.
       if kept then gret (Some obj)
       else gthen (gvoid (RemoveFromInventory E a obj (0, 0))) (gthen (delete_object obj) (gret None))))"

end
