(* ===== verification/Players.thy ===== *)
theory Players
  imports Items
begin

text \<open>
  Class \<open>Player\<close> (\<open>src/src/game/Player.cpp\<close>) with the update of \<open>Unit\<close> (\<open>Unit.cpp\<close>): creation, the actions
  a client asks for, respawning, and the update that every tick applies the collected health changes,
  counts the timers down and sends the player what it sees. \<open>ObjectAccessor::Update\<close> runs the update of
  every object.
\<close>

section \<open>Creation\<close>

text \<open>\<open>Unit::InitRespawn\<close>, and the fields the constructors leave uninitialised as zeros.\<close>

definition init_unit :: nox_unit where
  "init_unit =
     \<lparr>un_action = ACTION_IDLE, un_action_time = 0, un_animFrames = -1, un_animTimer = 0, un_poison = 0,
      un_poisoncycle = 0, un_poisoner = 0, un_weight = 0, un_speed = 0, un_max_speed = 0, un_strength = 0,
      un_angle = 0, un_auras = 0, un_aura_times = replicate ENCHANT_SIZE 0,
      un_equipment = replicate SLOT_SIZE None\<rparr>"

definition init_info :: player_info where
  "init_info =
     \<lparr>pi_name = replicate 66 0, pi_pclass = 0, pi_unk3 = 0, pi_info = replicate 29 0, pi_unk0 = 0,
      pi_unk1 = replicate 12 0, pi_unk4 = 0, pi_pad = 0, pi_unk2 = 0, pi_username = replicate 9 0, pi_flag = 0x20\<rparr>"

definition init_player :: "nat \<Rightarrow> nox_player" where
  "init_player ss =
     \<lparr>pl_info = init_info, pl_session = ss, pl_updateAll = False, pl_oldposition = (0, 0),
      pl_treadposition = (0, 0), pl_ability_delays = [0, 0, 0, 0, 0], pl_updateQueue = []\<rparr>"

definition new_player :: "env \<Rightarrow> nat \<Rightarrow> nat game" where
  "new_player E ss =
     gbind (new_object E KPlayer PLAYER_TYPE (2285, 2600) 0xFFFF) (\<lambda>a.
     gthen (gmod (\<lambda>s. s\<lparr>sv_units := (sv_units s)(a \<mapsto> init_unit), sv_players := (sv_players s)(a \<mapsto> init_player ss)\<rparr>))
    (gthen (upd_object a (\<lambda>ob. ob\<lparr>ob_cmask := 0xFFFFFFFF, wo_updateMask := MASK_ENCHANTMENTS\<rparr>)) (gret a)))"

section \<open>Abilities\<close>

definition ResetAbilityDelays :: "nat \<Rightarrow> unit game" where
  "ResetAbilityDelays a =
     gthen (upd_player a (\<lambda>p. p\<lparr>pl_ability_delays := [0, 0, 0, 0, 0]\<rparr>))
    (gbind (BuildResetAbilityPacket ABILITY_ALL new_packet) (\<lambda>packet. gvoid (send_player a packet)))"

definition SetAbilityDelay :: "nat \<Rightarrow> u8 \<Rightarrow> u16 \<Rightarrow> unit game" where
  "SetAbilityDelay a ability frames =
     (if ability < 1 \<or> ability > 5 then gret ()
      else gthen (upd_player a (\<lambda>p. p\<lparr>pl_ability_delays := (pl_ability_delays p)[unat ability - 1 := frames]\<rparr>))
          (gbind (if frames \<noteq> 0 then BuildAbilityStatePacket a ability new_packet
                  else BuildResetAbilityPacket ability new_packet)
            (\<lambda>packet. gvoid (send_player a packet))))"

definition SetTreadLightlyMarker :: "nat \<Rightarrow> grid_pair \<Rightarrow> unit game" where
  "SetTreadLightlyMarker a pos = upd_player a (\<lambda>p. p\<lparr>pl_treadposition := pos\<rparr>)"

section \<open>What a player sees\<close>

definition ForceUpdateAll :: "nat \<Rightarrow> unit game" where
  "ForceUpdateAll a = upd_player a (\<lambda>p. p\<lparr>pl_updateAll := True\<rparr>)"

definition queue_rect :: "env \<Rightarrow> nat \<Rightarrow> grid_pair \<Rightarrow> grid_pair \<Rightarrow> unit game" where
  "queue_rect E a leftTop rightBottom =
     gbind (GetObjectsInRect E leftTop rightBottom) (\<lambda>v.
       upd_player a (\<lambda>p. p\<lparr>pl_updateQueue := fold set_add v (pl_updateQueue p)\<rparr>))"

text \<open>The strip that came into view since the last position: the deltas are \<open>int16\<close>, the corners \<open>uint32\<close>.\<close>

definition delta16 :: "u32 \<Rightarrow> u32 \<Rightarrow> int" where
  "delta16 new old = sint (ucast (new - old) :: u16)"

definition UpdateView :: "env \<Rightarrow> nat \<Rightarrow> unit game" where
  "UpdateView E a =
     gbind (GetPosition a) (\<lambda>(px, py). gbind (get_player a) (\<lambda>p.
       case pl_oldposition p of (ox, oy) \<Rightarrow>
       if ox \<noteq> 0 \<and> oy \<noteq> 0 then
         let dx = delta16 px ox; dy = delta16 py oy
         in gwhen (dx > 10 \<or> dy > 10)
           (gseq [gwhen (dx \<noteq> 0)
                    (let left = (if dx < 0 then px - 300 else px - of_int dx + 300)
                     in queue_rect E a (left, py - 300) (left + of_int \<bar>dx\<bar>, py + 300)),
                  gwhen (dy \<noteq> 0)
                    (let top = (if dy < 0 then py - 300 else py - of_int dy + 300)
                     in queue_rect E a (px - 300, top) (px + 300, top + of_int \<bar>dy\<bar>)),
                  upd_player a (\<lambda>p. p\<lparr>pl_oldposition := (px, py)\<rparr>)])
       else upd_player a (\<lambda>p. p\<lparr>pl_oldposition := (px, py)\<rparr>)))"

text \<open>\<open>(*iter)->_BuildUpdatePacket(packet)\<close>.\<close>

definition BuildUpdatePacket :: "env \<Rightarrow> nat \<Rightarrow> world_packet \<Rightarrow> world_packet game" where
  "BuildUpdatePacket E a packet =
     gbind (get_object a) (\<lambda>ob.
       if ob_kind ob = KPlayer then Player_BuildUpdatePacket a packet else Object_BuildUpdatePacket E a packet)"

primrec build_updates :: "env \<Rightarrow> nat list \<Rightarrow> world_packet \<Rightarrow> world_packet game" where
  "build_updates E [] packet = gret packet"
| "build_updates E (a # as) packet = gbind (BuildUpdatePacket E a packet) (build_updates E as)"

definition SendUpdatePacket :: "env \<Rightarrow> nat \<Rightarrow> unit game" where
  "SendUpdatePacket E a =
     gthen (upd_player a (\<lambda>p. p\<lparr>pl_updateQueue := set_del a (pl_updateQueue p)\<rparr>))
    (gbind (Player_BuildUpdatePacket a (mk_packet MSG_UPDATE_STREAM 0 0)) (\<lambda>packet.
     gbind (get_player a) (\<lambda>p.
     gbind (build_updates E (pl_updateQueue p) packet) (\<lambda>packet.
     gthen (upd_player a (\<lambda>p. p\<lparr>pl_updateQueue := []\<rparr>))
    (gbind (glift (pk_puts [put_u8 0, put_u8 0, put_u8 0] packet)) (\<lambda>packet. gvoid (send_player a packet)))))))"

section \<open>Actions\<close>

definition social :: "nat \<Rightarrow> unit game" where
  "social a = send_self a (mk_packet MSG_SOCIAL 0 0) []"

definition Laugh :: "env \<Rightarrow> nat \<Rightarrow> unit game" where
  "Laugh E a = gseq [gvoid (SetActionAnim a ACTION_LAUGH 30), EmitSound E a SOUND_TAUNTLAUGH, social a]"

definition Point :: "env \<Rightarrow> nat \<Rightarrow> unit game" where
  "Point E a = gseq [gvoid (SetActionAnim a ACTION_POINT 29), EmitSound E a SOUND_TAUNTPOINT, social a]"

definition Taunt :: "env \<Rightarrow> nat \<Rightarrow> unit game" where
  "Taunt E a = gseq [gvoid (SetActionAnim a ACTION_TAUNT 27), EmitSound E a SOUND_TAUNTSHAKEFIST, social a]"

definition Unit_Attack :: "env \<Rightarrow> nat \<Rightarrow> unit game" where
  "Unit_Attack E a =
     gthen (gvoid (SetActionAnim a ACTION_LONG_SWORD_STRIKE 30))
    (gbind (HasEnchant a ENCHANT_INVULNERABLE) (\<lambda>b. gwhen b (UnsetEnchant E a ENCHANT_INVULNERABLE)))"

definition can_jump :: "u8 \<Rightarrow> bool" where
  "can_jump action \<longleftrightarrow>
     action = ACTION_IDLE \<or> action = ACTION_WALK \<or> action = ACTION_RUN \<or> action = ACTION_SNEAK"

definition Jump :: "nat \<Rightarrow> unit game" where
  "Jump a =
     gbind (get_unit a) (\<lambda>un. gwhen (can_jump (un_action un))
       (gbind (player_session a) (\<lambda>ss.
        gthen (gvoid (SetActionAnim a ACTION_JUMP 12))
              (MoveToward a (ucast (fst (ss_mouse ss))) (ucast (snd (ss_mouse ss))) (42 / 100)))))"

definition RunningJump :: "nat \<Rightarrow> unit game" where
  "RunningJump a =
     gbind (get_unit a) (\<lambda>un. gwhen (can_jump (un_action un))
       (gbind (player_session a) (\<lambda>ss.
        gthen (gvoid (SetActionAnim a ACTION_JUMP 12))
              (MoveToward a (ucast (fst (ss_mouse ss))) (ucast (snd (ss_mouse ss))) (42 / 100)))))"

definition move_anim :: "nat \<Rightarrow> u8 \<Rightarrow> rat \<Rightarrow> u16 \<Rightarrow> u16 \<Rightarrow> unit game" where
  "move_anim a anim factor x y =
     gbind (SetActionAnim a anim 3) (\<lambda>b.
       gwhen b (gbind (get_unit a) (\<lambda>un. MoveToward a x y (of_int (uint (un_speed un)) * factor))))"

definition RunTowards :: "nat \<Rightarrow> u16 \<Rightarrow> u16 \<Rightarrow> unit game" where
  "RunTowards a = move_anim a ACTION_RUN (1 / 100000)"

definition WalkTowards :: "nat \<Rightarrow> u16 \<Rightarrow> u16 \<Rightarrow> unit game" where
  "WalkTowards a = move_anim a ACTION_WALK (5 / 1000000)"

definition TreadTowards :: "nat \<Rightarrow> u16 \<Rightarrow> u16 \<Rightarrow> unit game" where
  "TreadTowards a = move_anim a ACTION_SNEAK (5 / 1000000)"

text \<open>The differences are computed in \<open>int\<close> from \<open>uint32\<close> coordinates; so is the square of the distance.
  \<open>UnsetEnchant\<close> is called whenever the player is away from the marker, sneaking or not. The comparison
  with the configured radius is one of \<open>uint32\<close> with \<open>int\<close>, so it is unsigned.\<close>

definition sq_length :: "grid_pair \<Rightarrow> u16 \<Rightarrow> u16 \<Rightarrow> int" where
  "sq_length pos x y =
     (let dx = fst pos - ucast x; dy = snd pos - ucast y in sint (dx * dx + dy * dy))"

definition MoveTowards :: "env \<Rightarrow> nat \<Rightarrow> u16 \<Rightarrow> u16 \<Rightarrow> unit game" where
  "MoveTowards E a x y =
     gbind (get_object a) (\<lambda>ob. gbind (HasEnchant a ENCHANT_HELD) (\<lambda>held.
       if IsDead ob \<or> held then gret ()
       else let sq = sq_length (ob_center ob) x y;
                radius = of_int (trunc_int (GetFloatDefault E ''TreadLightlyRadiusInPixels'' 230)) :: u32
            in gbind (get_player a) (\<lambda>p.
               gthen (gwhen (pair_distance (ob_center ob) (pl_treadposition p) > radius) (UnsetEnchant E a ENCHANT_SNEAK))
              (gbind (HasEnchant a ENCHANT_SNEAK) (\<lambda>sneak. gbind (HasEnchant a ENCHANT_RUN) (\<lambda>run.
               gbind (get_unit a) (\<lambda>un.
                 if sneak \<and> \<not> run then TreadTowards a x y
                 else if sq < 1600 \<and> \<not> run then WalkTowards a x y
                 else if sq < 2500 \<and> un_action un = ACTION_WALK \<and> \<not> run then WalkTowards a x y
                 else RunTowards a x y)))))))"

section \<open>Respawning\<close>

definition set_stats :: "env \<Rightarrow> nat \<Rightarrow> string \<Rightarrow> rat \<Rightarrow> rat \<Rightarrow> rat \<Rightarrow> unit game" where
  "set_stats E a cls health mana speed =
     gthen (upd_object a (\<lambda>ob. ob\<lparr>ob_health := GetFloatDefault E (cls @ ''MaxHealth'') health,
                                  ob_mana := GetFloatDefault E (cls @ ''MaxMana'') mana\<rparr>))
           (upd_unit a (\<lambda>un. un\<lparr>un_speed := of_int (trunc_int (GetFloatDefault E (cls @ ''MaxSpeed'') speed)),
                                un_strength := of_int (trunc_int (GetFloatDefault E (cls @ ''MaxStrength'') 125)),
                                un_weight := 3000\<rparr>))"

text \<open>\<open>Pickup(NewPickup(type))\<close>, in the variant that first tests the type.\<close>

definition give :: "env \<Rightarrow> nat \<Rightarrow> u16 \<Rightarrow> unit game" where
  "give E a type = gbind (NewPickup E a type 0) (\<lambda>p. gvoid (Player_Pickup E a p 0))"

definition give_known :: "env \<Rightarrow> nat \<Rightarrow> string \<Rightarrow> unit game" where
  "give_known E a name = (let type = GetIndex name 0x50 (e_things E) in gwhen (type \<noteq> 0) (give E a type))"

definition class_outfit :: "env \<Rightarrow> nat \<Rightarrow> unit game" where
  "class_outfit E a =
     gbind (get_player a) (\<lambda>p.
       if pi_pclass (pl_info p) = PLAYER_CLASS_WARRIOR then
         gseq [ResetAbilityDelays a, set_stats E a ''Warrior'' 150 0 21000,
               give E a (GetIndex ''Longsword'' 0x50 (e_things E))]
       else if pi_pclass (pl_info p) = PLAYER_CLASS_CONJURER then
         gseq [set_stats E a ''Conjurer'' 100 150 18500, give E a (GetIndex ''StreetShirt'' 0x50 (e_things E))]
       else if pi_pclass (pl_info p) = PLAYER_CLASS_WIZARD then
         gseq [set_stats E a ''Wizard'' 75 125 17500, give_known E a ''StreetShirt'', give_known E a ''WizardRobe'']
       else gret ())"

text \<open>\<open>_SendPlayerRespawnOpcode\<close> of the session.\<close>

definition SendPlayerRespawnOpcode :: "nat \<Rightarrow> unit game" where
  "SendPlayerRespawnOpcode ss =
     gbind (get_session ss) (\<lambda>st. gbind (deref (ss_player st)) (\<lambda>pl. gbind (get_object pl) (\<lambda>ob.
       gthen (gbind (glift (pk_puts [put_u16 (ob_extent ob), put_u32 (ss_timestamp st), put_u8 0xFF, put_u8 0x01]
                 (mk_packet MSG_PLAYER_RESPAWN 0 (ss_client st)))) (\<lambda>packet. gvoid (SendPacketToAll packet)))
             (gbind (glift (pk_puts [put_u16 (ob_extent ob), put_u16 (ob_type ob),
                 put_u16 (ucast (fst (ob_center ob))), put_u16 (ucast (snd (ob_center ob)))]
                 (mk_packet MSG_SIMPLE_OBJ 0 0))) (\<lambda>packet. gvoid (SendPacketToAll packet))))))"

definition Respawn :: "env \<Rightarrow> nat \<Rightarrow> unit game" where
  "Respawn E a =
     gseq [class_outfit E a,
           give_known E a ''StreetPants'', give_known E a ''StreetSneakers'',
           upd_unit a (\<lambda>un. un\<lparr>un_max_speed := un_speed un\<rparr>),
           upd_object a (\<lambda>ob. ob\<lparr>ob_max_mana := ob_mana ob, ob_max_health := ob_health ob\<rparr>),
           SetPosition a (3000, 2900),
           ForceUpdateAll a,
           ResetEnchants a,
           SetEnchant E a ENCHANT_INVULNERABLE 0,
           gbind (get_player a) (\<lambda>p. SendPlayerRespawnOpcode (pl_session p)),
           send_built (BuildTotalHealthPacket a), send_built (BuildTotalManaPacket a), send_built (BuildStatsPacket a),
           gbind (BuildDequipPacket a True 0xFFFFFFFF new_packet) (\<lambda>packet. gvoid (send_player a packet)),
           gbind (BuildDequipPacket a False 0xFFFFFFFF new_packet) (\<lambda>packet. gvoid (send_player a packet))]"

text \<open>\<open>SetObserving\<close> of the session, with \<open>_SendClientStatusOpcode\<close>.\<close>

definition SendClientStatusOpcode :: "nat \<Rightarrow> unit game" where
  "SendClientStatusOpcode ss =
     gbind (get_session ss) (\<lambda>st. gbind (deref (ss_player st)) (\<lambda>pl. gbind (GetExtent pl) (\<lambda>e.
       let obs = (if ss_observing st then 1 else 0) :: u32
       in gthen (gbind (glift (pk_puts [put_u16 e, put_u32 obs] (mk_packet MSG_REPORT_CLIENT_STATUS 0 (ss_client st))))
                   (\<lambda>packet. gvoid (SendPacketToAll packet)))
                (gwhen (ss_observing st) (send_new ss True (mk_packet MSG_INFORM 0 0) [put_u8 0x0C, put_u32 obs])))))"

definition SetObserving :: "nat \<Rightarrow> bool \<Rightarrow> unit game" where
  "SetObserving ss state =
     gthen (upd_session ss (\<lambda>st. st\<lparr>ss_observing := state\<rparr>)) (SendClientStatusOpcode ss)"

definition Attack :: "env \<Rightarrow> nat \<Rightarrow> unit game" where
  "Attack E a =
     gthen (Unit_Attack E a)
    (gbind (get_player a) (\<lambda>p. gbind (player_session a) (\<lambda>ss.
     gthen (gwhen (ss_observing ss) (SetObserving (pl_session p) False))
    (gbind (get_object a) (\<lambda>ob. gwhen (IsDead ob) (Respawn E a))))))"

end
