(* ===== verification/Game_Update.thy ===== *)
theory Game_Update
  imports Players
begin

text \<open>
  The update of the game objects, once a tick: \<open>Unit::Update\<close> (\<open>src/src/game/Unit.cpp\<close>), \<open>Player::Update\<close>
  (\<open>Player.cpp\<close>), \<open>Magic::Update\<close> (\<open>Spell.cpp\<close>), \<open>Object::Update\<close> with the table of update handlers
  (\<open>Object.cpp\<close>), and \<open>ObjectAccessor::Update\<close>, which runs them.

  A packet that the code reuses for several messages is a fresh packet for each of them here:
  \<open>Initialize\<close> clears all of it but the \<open>unk\<close> byte, which every session overwrites.
\<close>

section \<open>Units\<close>

text \<open>The action in progress runs out. The test in the code, \<open>m_action || m_action != ACTION_RAISE_SHIELD\<close>,
  is always true.\<close>

definition update_action :: "env \<Rightarrow> nat \<Rightarrow> u32 \<Rightarrow> unit game" where
  "update_action E a p_time =
     gbind (get_object a) (\<lambda>ob. gbind (get_unit a) (\<lambda>un.
       if IsDead ob then
         gthen (upd_unit a (\<lambda>un. un\<lparr>un_action := ACTION_DEAD\<rparr>)) (upd_object a (\<lambda>ob. ob\<lparr>ob_health := 0\<rparr>))
       else gwhen (un_action un \<noteq> 0 \<or> un_action un \<noteq> ACTION_RAISE_SHIELD)
         (if uint p_time > un_action_time un then
            gseq [gbind (HasEnchant a ENCHANT_SNEAK) (\<lambda>b. gwhen b (UnsetEnchant E a ENCHANT_SNEAK)),
                  upd_object a (\<lambda>ob. ob\<lparr>ob_velocity := None\<rparr>),
                  (if un_equipment un ! SLOT_SHIELD \<noteq> None then gvoid (SetActionAnim a ACTION_RAISE_SHIELD 0)
                   else upd_unit a (\<lambda>un. un\<lparr>un_action := ACTION_IDLE\<rparr>)),
                  upd_unit a (\<lambda>un. un\<lparr>un_action_time := 0\<rparr>)]
          else upd_unit a (\<lambda>un. un\<lparr>un_action_time := un_action_time un - uint p_time\<rparr>))))"

definition update_poison :: "nat \<Rightarrow> unit game" where
  "update_poison a =
     gthen (gbind (get_unit a) (\<lambda>un.
       if un_poisoncycle un \<noteq> 30 then upd_unit a (\<lambda>un. un\<lparr>un_poisoncycle := un_poisoncycle un + 1\<rparr>)
       else gwhen (un_poison un \<noteq> 0) (gthen (Damage a 1) (upd_unit a (\<lambda>un. un\<lparr>un_poisoncycle := 0\<rparr>)))))
    (gbind (HasEnchant a ENCHANT_PROTECT_FROM_POISON) (\<lambda>b.
       gwhen b (upd_unit a (\<lambda>un. un\<lparr>un_poisoncycle := un_poisoncycle un - 1 / 2\<rparr>))))"

definition update_mana :: "nat \<Rightarrow> unit game" where
  "update_mana a = gbind (get_object a) (\<lambda>ob. gwhen (ob_max_mana ob \<noteq> 0) (gvoid (ManaDrain a (- 167 / 10000))))"

definition update_speed :: "nat \<Rightarrow> unit game" where
  "update_speed a =
     gthen (gbind (HasEnchant a ENCHANT_HASTED) (\<lambda>b. gwhen b
       (upd_unit a (\<lambda>un. un\<lparr>un_speed := un_max_speed un + of_int (ConvertToNoXSpeed 25)\<rparr>))))
    (gbind (HasEnchant a ENCHANT_SLOWED) (\<lambda>b. gwhen b
       (upd_unit a (\<lambda>un. un\<lparr>un_speed := un_max_speed un + of_int (ConvertToNoXSpeed (-30))\<rparr>))))"

text \<open>A counter that is neither positive nor zero stays as it is: the enchantment does not end.\<close>

definition update_enchant :: "env \<Rightarrow> nat \<Rightarrow> nat \<Rightarrow> unit game" where
  "update_enchant E a i =
     gbind (get_unit a) (\<lambda>un.
       if un_aura_times un ! i > 0
       then upd_unit a (\<lambda>un. un\<lparr>un_aura_times := (un_aura_times un)[i := un_aura_times un ! i - 1]\<rparr>)
       else gwhen (un_aura_times un ! i = 0 \<and> un_auras un AND push_bit i 1 \<noteq> 0) (UnsetEnchant E a i))"

definition update_enchants :: "env \<Rightarrow> nat \<Rightarrow> unit game" where
  "update_enchants E a = gfor [0..<ENCHANT_SIZE] (update_enchant E a)"

definition update_anim :: "nat \<Rightarrow> u32 \<Rightarrow> unit game" where
  "update_anim a p_time =
     gbind (get_unit a) (\<lambda>un.
       gwhen (un_animFrames un \<ge> 0 \<and> un_animFrames un < 256)
         (gthen (gbind (GetExtent a) (\<lambda>e.
            send_built (\<lambda>packet. glift (pk_puts [put_u16 e, put_u8 (of_int (un_animFrames un))]
              (packet_Initialize MSG_DRAW_FRAME 0 0 packet)))))
           (upd_unit a (\<lambda>un.
              if un_animTimer un < uint p_time then un\<lparr>un_animFrames := un_animFrames un + 1, un_animTimer := 40\<rparr>
              else un\<lparr>un_animTimer := un_animTimer un - uint p_time\<rparr>))))"

definition report_enchants :: "nat \<Rightarrow> unit game" where
  "report_enchants a =
     gbind (get_object a) (\<lambda>ob.
       gwhen (wo_updateMask ob AND MASK_ENCHANTMENTS \<noteq> 0)
         (gthen (upd_object a (\<lambda>ob. ob\<lparr>wo_updateMask := wo_updateMask ob AND NOT MASK_ENCHANTMENTS\<rparr>))
                (send_built (BuildEnchantsPacket a))))"

definition Unit_Update :: "env \<Rightarrow> nat \<Rightarrow> u32 \<Rightarrow> unit game" where
  "Unit_Update E a p_time =
     gseq [update_action E a p_time, update_poison a, update_mana a, update_speed a, update_enchants E a,
           update_anim a p_time, report_enchants a]"

section \<open>Players\<close>

definition see :: "env \<Rightarrow> nat \<Rightarrow> unit game" where
  "see E a =
     gbind (get_player a) (\<lambda>p.
       if pl_updateAll p then
         gbind (GetPosition a) (\<lambda>pos.
           let x = ucast (ucast (fst pos) :: u16) :: u32; y = ucast (ucast (snd pos) :: u16) :: u32
           in gthen (queue_rect E a (x - 300, y - 300) (x + 300, y + 300))
                    (upd_player a (\<lambda>p. p\<lparr>pl_updateAll := False\<rparr>)))
       else UpdateView E a)"

text \<open>The health changes collected since the last update.\<close>

definition apply_delta :: "nox_object \<Rightarrow> nox_object" where
  "apply_delta ob = ob\<lparr>ob_health := min (ob_health ob + ob_delta_health ob) (ob_max_health ob)\<rparr>"

definition update_health :: "env \<Rightarrow> nat \<Rightarrow> unit game" where
  "update_health E a =
     gbind (get_object a) (\<lambda>ob.
       if ob_delta_health ob \<noteq> 0 then
         gseq [upd_object a apply_delta,
               gbind (get_object a) (\<lambda>ob. gwhen (ob_health ob \<le> 0) (Die E a)),
               upd_object a (\<lambda>ob. ob\<lparr>ob_combined_health := ob_combined_health ob + ob_delta_health ob, ob_delta_health := 0\<rparr>),
               gbind (BuildMyHealthPacket a new_packet) (\<lambda>packet. gvoid (send_player a packet))]
       else gwhen (ob_combined_health ob \<noteq> 0)
         (gthen (send_built (BuildDeltaHealthPacket a)) (upd_object a (\<lambda>ob. ob\<lparr>ob_combined_health := 0\<rparr>))))"

definition report_mana :: "nat \<Rightarrow> unit game" where
  "report_mana a = gbind (get_object a) (\<lambda>ob. gwhen (ob_mana ob \<noteq> 0) (send_built (BuildManaPacket a)))"

text \<open>The packet built when a delay reaches zero is not sent.\<close>

definition count_delays :: "u16 list \<Rightarrow> u16 list" where
  "count_delays = map (\<lambda>d. if d > 0 then d - 1 else d)"

definition update_delays :: "nat \<Rightarrow> unit game" where
  "update_delays a =
     upd_player a (\<lambda>p. if pi_pclass (pl_info p) = PLAYER_CLASS_WARRIOR
                        then p\<lparr>pl_ability_delays := count_delays (pl_ability_delays p)\<rparr> else p)"

definition Player_Update :: "env \<Rightarrow> nat \<Rightarrow> u32 \<Rightarrow> unit game" where
  "Player_Update E a time =
     gseq [see E a, update_health E a, report_mana a, update_delays a, SendUpdatePacket E a, Unit_Update E a time]"

section \<open>All objects\<close>

definition Magic_Update :: "nat \<Rightarrow> unit game" where
  "Magic_Update a = gbind (GetPosition a) (SetPosition a)"

definition Object_Update :: "env \<Rightarrow> nat \<Rightarrow> u32 \<Rightarrow> unit game" where
  "Object_Update E a time =
     gbind (GetObjectInfo E a) (\<lambda>info. gwhen (th_update info = UPDATE_ONESECONDDIE) (OneSecondDieUpdate E a time))"

definition virtual_Update :: "env \<Rightarrow> u32 \<Rightarrow> nat \<Rightarrow> unit game" where
  "virtual_Update E time a =
     gbind (get_object a) (\<lambda>ob. case ob_kind ob of
         KPlayer \<Rightarrow> Player_Update E a time
       | KMagic _ _ _ \<Rightarrow> Magic_Update a
       | _ \<Rightarrow> Object_Update E a time)"

text \<open>No update handler adds an object to \<open>i_objects\<close> or takes one out.\<close>

definition Accessor_Update :: "env \<Rightarrow> u32 \<Rightarrow> unit game" where
  "Accessor_Update E diff = gthen accessor_update (gbind (gget oa_objects) (\<lambda>objs. gfor objs (virtual_Update E diff)))"

end
