(* ===== verification/Spells.thy ===== *)
theory Spells
  imports Game_Update
begin

text \<open>
  Spells and abilities: class \<open>SpellMgr\<close> and the spell functions of \<open>WorldSession\<close> (\<open>src/src/game/Spell.{h,cpp}\<close>,
  \<open>WorldSession.h\<close>). A spell is the number of its row in \<open>spellTable\<close>; most rows name \<open>HandleSpellUnknown\<close>,
  which does nothing. The handlers \<open>HandleSpellDeathRay\<close> and \<open>HandleSpellShock\<close> are in no row.

  Durations and delays come from the game configuration as \<open>float\<close>, become \<open>int\<close> and are handed on as
  \<open>int16\<close> or \<open>uint16\<close>.
\<close>

section \<open>Tables\<close>

datatype spell_handler =
    HandleSpellUnknown
  | HandleSpellCurePoison
  | HandleSpellForceField
  | HandleSpellHaste
  | HandleSpellInfravision
  | HandleSpellLesserHeal
  | HandleSpellProtectFromElectricity
  | HandleSpellProtectFromFire
  | HandleSpellProtectFromPoison
  | HandleSpellTeleportToTarget
  | HandleSpellVampirism
  | HandleSpellDeathRay
  | HandleSpellShock

definition spellTable :: "(u8 \<times> spell_handler) list" where
  "spellTable =
     [(SPELL_ANCHOR, HandleSpellUnknown), (SPELL_ARACHNAPHOBIA, HandleSpellUnknown),
      (SPELL_BLIND, HandleSpellUnknown), (SPELL_BLINK, HandleSpellUnknown), (SPELL_BURN, HandleSpellUnknown),
      (SPELL_CANCEL, HandleSpellUnknown), (SPELL_CHAIN_LIGHTNING_BOLT, HandleSpellUnknown),
      (SPELL_CHANNEL_LIFE, HandleSpellUnknown), (SPELL_CHARM, HandleSpellUnknown),
      (SPELL_CLEANSING_FLAME, HandleSpellUnknown), (SPELL_CLEANSING_MANA_FLAME, HandleSpellUnknown),
      (SPELL_CONFUSE, HandleSpellUnknown), (SPELL_COUNTERSPELL, HandleSpellUnknown),
      (SPELL_CURE_POISON, HandleSpellCurePoison), (SPELL_DEATH, HandleSpellUnknown),
      (SPELL_DEATH_RAY, HandleSpellUnknown), (SPELL_DETECT_MAGIC, HandleSpellUnknown),
      (SPELL_DETONATE, HandleSpellUnknown), (SPELL_DETONATE_GLYPHS, HandleSpellUnknown),
      (SPELL_DISENCHANT_ALL, HandleSpellUnknown), (SPELL_TURN_UNDEAD, HandleSpellUnknown),
      (SPELL_DRAIN_MANA, HandleSpellUnknown), (SPELL_EARTHQUAKE, HandleSpellUnknown),
      (SPELL_LIGHTNING, HandleSpellUnknown), (SPELL_EXPLOSION, HandleSpellUnknown),
      (SPELL_FEAR, HandleSpellUnknown), (SPELL_FIREBALL, HandleSpellUnknown),
      (SPELL_FIREWALK, HandleSpellUnknown), (SPELL_FIST, HandleSpellUnknown),
      (SPELL_FORCE_FIELD, HandleSpellForceField), (SPELL_FORCE_OF_NATURE, HandleSpellUnknown),
      (SPELL_FREEZE, HandleSpellUnknown), (SPELL_FUMBLE, HandleSpellUnknown),
      (SPELL_GLYPH, HandleSpellUnknown), (SPELL_GREATER_HEAL, HandleSpellUnknown),
      (SPELL_HASTE, HandleSpellHaste), (SPELL_INFRAVISION, HandleSpellInfravision),
      (SPELL_INVERSION, HandleSpellUnknown), (SPELL_INVISIBILITY, HandleSpellUnknown),
      (SPELL_INVULNERABILITY, HandleSpellUnknown), (SPELL_LESSER_HEAL, HandleSpellLesserHeal),
      (SPELL_LIGHT, HandleSpellUnknown), (SPELL_CHAIN_LIGHTNING, HandleSpellUnknown),
      (SPELL_LOCK, HandleSpellUnknown), (SPELL_MARK, HandleSpellUnknown), (SPELL_MARK_1, HandleSpellUnknown),
      (SPELL_MARK_2, HandleSpellUnknown), (SPELL_MARK_3, HandleSpellUnknown),
      (SPELL_MARK_4, HandleSpellUnknown), (SPELL_MAGIC_MISSILE, HandleSpellUnknown),
      (SPELL_SHIELD, HandleSpellForceField), (SPELL_METEOR, HandleSpellUnknown),
      (SPELL_METEOR_SHOWER, HandleSpellUnknown), (SPELL_MOONGLOW, HandleSpellUnknown),
      (SPELL_NULLIFY, HandleSpellUnknown), (SPELL_MANA_BOMB, HandleSpellUnknown),
      (SPELL_PHANTOM, HandleSpellUnknown), (SPELL_PIXIE_SWARM, HandleSpellUnknown),
      (SPELL_PLASMA, HandleSpellUnknown), (SPELL_POISON, HandleSpellUnknown),
      (SPELL_PROTECTION_FROM_ELECTRICITY, HandleSpellProtectFromElectricity),
      (SPELL_PROTECTION_FROM_FIRE, HandleSpellProtectFromFire),
      (SPELL_PROTECTION_FROM_MAGIC, HandleSpellUnknown),
      (SPELL_PROTECTION_FROM_POISON, HandleSpellProtectFromPoison), (SPELL_PULL, HandleSpellUnknown),
      (SPELL_PUSH, HandleSpellUnknown), (SPELL_OVAL_SHIELD, HandleSpellUnknown),
      (SPELL_RESTORE_HEALTH, HandleSpellUnknown), (SPELL_RESTORE_MANA, HandleSpellUnknown),
      (SPELL_RUN, HandleSpellUnknown), (SPELL_SHOCK, HandleSpellUnknown), (SPELL_SLOW, HandleSpellUnknown),
      (SPELL_SMALL_ZAP, HandleSpellUnknown), (SPELL_STUN, HandleSpellUnknown),
      (SPELL_SUMMON_BAT, HandleSpellUnknown), (SPELL_SUMMON_BLACK_BEAR, HandleSpellUnknown),
      (SPELL_SUMMON_BEAR, HandleSpellUnknown), (SPELL_SUMMON_BEHOLDER, HandleSpellUnknown),
      (SPELL_SUMMON_BOMBER, HandleSpellUnknown), (SPELL_SUMMON_CARNIVOROUS_PLANT, HandleSpellUnknown),
      (SPELL_SUMMON_ALBINO_SPIDER, HandleSpellUnknown), (SPELL_SUMMON_SMALL_ALBINO_SPIDER, HandleSpellUnknown),
      (SPELL_SUMMON_EVIL_CHERUB, HandleSpellUnknown), (SPELL_SUMMON_EMBER_DEMON, HandleSpellUnknown),
      (SPELL_SUMMON_GHOST, HandleSpellUnknown), (SPELL_SUMMON_GIANT_LEECH, HandleSpellUnknown),
      (SPELL_SUMMON_IMP, HandleSpellUnknown), (SPELL_SUMMON_MECHANICAL_FLYER, HandleSpellUnknown),
      (SPELL_SUMMON_MECHANICAL_GOLEM, HandleSpellUnknown), (SPELL_SUMMON_MIMIC, HandleSpellUnknown),
      (SPELL_SUMMON_OGRE, HandleSpellUnknown), (SPELL_SUMMON_OGRE_BRUTE, HandleSpellUnknown),
      (SPELL_SUMMON_OGRE_WARLORD, HandleSpellUnknown), (SPELL_SUMMON_SCORPION, HandleSpellUnknown),
      (SPELL_SUMMON_SHADE, HandleSpellUnknown), (SPELL_SUMMON_SKELETON, HandleSpellUnknown),
      (SPELL_SUMMON_SKELETON_LORD, HandleSpellUnknown), (SPELL_SUMMON_SPIDER, HandleSpellUnknown),
      (SPELL_SUMMON_SMALL_SPIDER, HandleSpellUnknown), (SPELL_SUMMON_SPITTING_SPIDER, HandleSpellUnknown),
      (SPELL_SUMMON_STONE_GOLEM, HandleSpellUnknown), (SPELL_SUMMON_TROLL, HandleSpellUnknown),
      (SPELL_SUMMON_URCHIN, HandleSpellUnknown), (SPELL_SUMMON_WASP, HandleSpellUnknown),
      (SPELL_SUMMON_WILLOWISP, HandleSpellUnknown), (SPELL_SUMMON_WOLF, HandleSpellUnknown),
      (SPELL_SUMMON_BLACK_WOLF, HandleSpellUnknown), (SPELL_SUMMON_WHITE_WOLF, HandleSpellUnknown),
      (SPELL_SUMMON_ZOMBIE, HandleSpellUnknown), (SPELL_SUMMON_VILE_ZOMBIE, HandleSpellUnknown),
      (SPELL_SUMMON_DEMON, HandleSpellUnknown), (SPELL_SUMMON_LICH, HandleSpellUnknown),
      (SPELL_SUMMON_DRYAD, HandleSpellUnknown), (SPELL_SUMMON_URCHIN_SHAMAN, HandleSpellUnknown),
      (SPELL_SWAP, HandleSpellUnknown), (SPELL_TAG, HandleSpellUnknown),
      (SPELL_TELEPORT_OTHER_TO_MARK_1, HandleSpellUnknown),
      (SPELL_TELEPORT_OTHER_TO_MARK_2, HandleSpellUnknown),
      (SPELL_TELEPORT_OTHER_TO_MARK_3, HandleSpellUnknown),
      (SPELL_TELEPORT_OTHER_TO_MARK_4, HandleSpellUnknown), (SPELL_TELEPORT_POP, HandleSpellUnknown),
      (SPELL_TELEPORT_TO_MARK_1, HandleSpellUnknown), (SPELL_TELEPORT_TO_MARK_2, HandleSpellUnknown),
      (SPELL_TELEPORT_TO_MARK_3, HandleSpellUnknown), (SPELL_TELEPORT_TO_MARK_4, HandleSpellUnknown),
      (SPELL_TELEPORT_TO_TARGET, HandleSpellTeleportToTarget), (SPELL_TELEKINESIS, HandleSpellUnknown),
      (SPELL_TOXIC_CLOUD, HandleSpellUnknown), (SPELL_TRIGGER_GLYPH, HandleSpellUnknown),
      (SPELL_VAMPIRISM, HandleSpellVampirism), (SPELL_VILLAIN, HandleSpellUnknown),
      (SPELL_WALL, HandleSpellUnknown), (SPELL_WINK, HandleSpellUnknown),
      (SPELL_SUMMON_CREATURE, HandleSpellUnknown), (SPELL_MARK_LOCATION, HandleSpellUnknown),
      (SPELL_TELEPORT_TO_MARKER, HandleSpellUnknown)]"

definition g_spellNames :: "string list" where
  "g_spellNames =
     [''SPELL_INVALID'', ''SPELL_ANCHOR'', ''SPELL_ARACHNAPHOBIA'', ''SPELL_BLIND'', ''SPELL_BLINK'',
      ''SPELL_BURN'', ''SPELL_CANCEL'', ''SPELL_CHAIN_LIGHTNING_BOLT'', ''SPELL_CHANNEL_LIFE'',
      ''SPELL_CHARM'', ''SPELL_CLEANSING_FLAME'', ''SPELL_CLEANSING_MANA_FLAME'', ''SPELL_CONFUSE'',
      ''SPELL_COUNTERSPELL'', ''SPELL_CURE_POISON'', ''SPELL_DEATH'', ''SPELL_DEATH_RAY'',
      ''SPELL_DETECT_MAGIC'', ''SPELL_DETONATE'', ''SPELL_DETONATE_GLYPHS'', ''SPELL_DISENCHANT_ALL'',
      ''SPELL_TURN_UNDEAD'', ''SPELL_DRAIN_MANA'', ''SPELL_EARTHQUAKE'', ''SPELL_LIGHTNING'',
      ''SPELL_EXPLOSION'', ''SPELL_FEAR'', ''SPELL_FIREBALL'', ''SPELL_FIREWALK'', ''SPELL_FIST'',
      ''SPELL_FORCE_FIELD'', ''SPELL_FORCE_OF_NATURE'', ''SPELL_FREEZE'', ''SPELL_FUMBLE'', ''SPELL_GLYPH'',
      ''SPELL_GREATER_HEAL'', ''SPELL_HASTE'', ''SPELL_INFRAVISION'', ''SPELL_INVERSION'',
      ''SPELL_INVISIBILITY'', ''SPELL_INVULNERABILITY'', ''SPELL_LESSER_HEAL'', ''SPELL_LIGHT'',
      ''SPELL_CHAIN_LIGHTNING'', ''SPELL_LOCK'', ''SPELL_MARK'', ''SPELL_MARK_1'', ''SPELL_MARK_2'',
      ''SPELL_MARK_3'', ''SPELL_MARK_4'', ''SPELL_MAGIC_MISSILE'', ''SPELL_SHIELD'', ''SPELL_METEOR'',
      ''SPELL_METEOR_SHOWER'', ''SPELL_MOONGLOW'', ''SPELL_NULLIFY'', ''SPELL_MANA_BOMB'', ''SPELL_PHANTOM'',
      ''SPELL_PIXIE_SWARM'', ''SPELL_PLASMA'', ''SPELL_POISON'', ''SPELL_PROTECTION_FROM_ELECTRICITY'',
      ''SPELL_PROTECTION_FROM_FIRE'', ''SPELL_PROTECTION_FROM_MAGIC'', ''SPELL_PROTECTION_FROM_POISON'',
      ''SPELL_PULL'', ''SPELL_PUSH'', ''SPELL_OVAL_SHIELD'', ''SPELL_RESTORE_HEALTH'', ''SPELL_RESTORE_MANA'',
      ''SPELL_RUN'', ''SPELL_SHOCK'', ''SPELL_SLOW'', ''SPELL_SMALL_ZAP'', ''SPELL_STUN'',
      ''SPELL_SUMMON_BAT'', ''SPELL_SUMMON_BLACK_BEAR'', ''SPELL_SUMMON_BEAR'', ''SPELL_SUMMON_BEHOLDER'',
      ''SPELL_SUMMON_BOMBER'', ''SPELL_SUMMON_CARNIVOROUS_PLANT'', ''SPELL_SUMMON_ALBINO_SPIDER'',
      ''SPELL_SUMMON_SMALL_ALBINO_SPIDER'', ''SPELL_SUMMON_EVIL_CHERUB'', ''SPELL_SUMMON_EMBER_DEMON'',
      ''SPELL_SUMMON_GHOST'', ''SPELL_SUMMON_GIANT_LEECH'', ''SPELL_SUMMON_IMP'',
      ''SPELL_SUMMON_MECHANICAL_FLYER'', ''SPELL_SUMMON_MECHANICAL_GOLEM'', ''SPELL_SUMMON_MIMIC'',
      ''SPELL_SUMMON_OGRE'', ''SPELL_SUMMON_OGRE_BRUTE'', ''SPELL_SUMMON_OGRE_WARLORD'',
      ''SPELL_SUMMON_SCORPION'', ''SPELL_SUMMON_SHADE'', ''SPELL_SUMMON_SKELETON'',
      ''SPELL_SUMMON_SKELETON_LORD'', ''SPELL_SUMMON_SPIDER'', ''SPELL_SUMMON_SMALL_SPIDER'',
      ''SPELL_SUMMON_SPITTING_SPIDER'', ''SPELL_SUMMON_STONE_GOLEM'', ''SPELL_SUMMON_TROLL'',
      ''SPELL_SUMMON_URCHIN'', ''SPELL_SUMMON_WASP'', ''SPELL_SUMMON_WILLOWISP'', ''SPELL_SUMMON_WOLF'',
      ''SPELL_SUMMON_BLACK_WOLF'', ''SPELL_SUMMON_WHITE_WOLF'', ''SPELL_SUMMON_ZOMBIE'',
      ''SPELL_SUMMON_VILE_ZOMBIE'', ''SPELL_SUMMON_DEMON'', ''SPELL_SUMMON_LICH'', ''SPELL_SUMMON_DRYAD'',
      ''SPELL_SUMMON_URCHIN_SHAMAN'', ''SPELL_SWAP'', ''SPELL_TAG'', ''SPELL_TELEPORT_OTHER_TO_MARK_1'',
      ''SPELL_TELEPORT_OTHER_TO_MARK_2'', ''SPELL_TELEPORT_OTHER_TO_MARK_3'',
      ''SPELL_TELEPORT_OTHER_TO_MARK_4'', ''SPELL_TELEPORT_POP'', ''SPELL_TELEPORT_TO_MARK_1'',
      ''SPELL_TELEPORT_TO_MARK_2'', ''SPELL_TELEPORT_TO_MARK_3'', ''SPELL_TELEPORT_TO_MARK_4'',
      ''SPELL_TELEPORT_TO_TARGET'', ''SPELL_TELEKINESIS'', ''SPELL_TOXIC_CLOUD'', ''SPELL_TRIGGER_GLYPH'',
      ''SPELL_VAMPIRISM'', ''SPELL_VILLAIN'', ''SPELL_WALL'', ''SPELL_WINK'', ''SPELL_SUMMON_CREATURE'',
      ''SPELL_MARK_LOCATION'', ''SPELL_TELEPORT_TO_MARKER'']"

definition g_abilityNames :: "string list" where
  "g_abilityNames =
     [''ABILITY_INVALID'', ''ABILITY_BERSERKER_CHARGE'', ''ABILITY_WARCRY'', ''ABILITY_HARPOON'',
      ''ABILITY_TREAD_LIGHTLY'', ''ABILITY_EYE_OF_THE_WOLF'']"

section \<open>Spells\<close>

definition config_int :: "env \<Rightarrow> string \<Rightarrow> rat \<Rightarrow> int" where
  "config_int E name d = trunc_int (GetFloatDefault E name d)"

definition HasEnoughMana :: "nat \<Rightarrow> int \<Rightarrow> bool game" where
  "HasEnoughMana plr cost =
     gbind (get_object plr) (\<lambda>ob.
       if sint (GetMana ob) \<ge> cost then gret True
       else gthen (self_sound plr SOUND_MANAEMPTY) (gret False))"

text \<open>The cursor of the target's session, if the target sees that point.\<close>

definition at_visible_cursor :: "nat \<Rightarrow> (grid_pair \<Rightarrow> unit game) \<Rightarrow> unit game" where
  "at_visible_cursor target f =
     gbind (player_session target) (\<lambda>ss.
     gbind (CanSeePoint target (ucast (fst (ss_mouse ss))) (ucast (snd (ss_mouse ss)))) (\<lambda>b.
       gwhen b (f (ss_mouse ss))))"

definition HandleSpellTeleport :: "nat \<Rightarrow> unit game" where
  "HandleSpellTeleport target = at_visible_cursor target (SetPosition target)"

definition SendFxDeathRaySpell :: "nat \<Rightarrow> u16 \<Rightarrow> u16 \<Rightarrow> u16 \<Rightarrow> u16 \<Rightarrow> unit game" where
  "SendFxDeathRaySpell ss x y x2 y2 =
     gbind (get_session ss) (\<lambda>st. send_new ss True (mk_packet MSG_FX_DEATH_RAY 0 (ss_client st))
       [put_u16 x, put_u16 y, put_u16 x2, put_u16 y2])"

definition HandleSpellRay :: "env \<Rightarrow> nat \<Rightarrow> nat \<Rightarrow> unit game" where
  "HandleSpellRay E caster target =
     at_visible_cursor target (\<lambda>mouse.
       gbind (get_player caster) (\<lambda>p. gbind (GetPositionX caster) (\<lambda>x. gbind (GetPositionY caster) (\<lambda>y.
         gthen (SendFxDeathRaySpell (pl_session p) x y (ucast (fst mouse)) (ucast (snd mouse)))
               (EmitSound E caster SOUND_DEATHRAYCAST)))))"

definition spell_step :: "env \<Rightarrow> spell_handler \<Rightarrow> nat \<Rightarrow> nat option \<Rightarrow> unit game" where
  "spell_step E h caster p =
     (let target = (case p of None \<Rightarrow> caster | Some t \<Rightarrow> t)
      in case h of
           HandleSpellUnknown \<Rightarrow> gret ()
         | HandleSpellCurePoison \<Rightarrow> Poison target 0 0
         | HandleSpellDeathRay \<Rightarrow> HandleSpellRay E caster target
         | HandleSpellForceField \<Rightarrow> SetEnchant E target ENCHANT_SHIELD 1200
         | HandleSpellHaste \<Rightarrow> SetEnchant E target ENCHANT_HASTED (config_int E ''HasteEnchantDuration'' 600)
         | HandleSpellInfravision \<Rightarrow>
             SetEnchant E target ENCHANT_INFRAVISION (config_int E ''InfravisionEnchantDuration'' 900)
         | HandleSpellLesserHeal \<Rightarrow>
             gthen (Heal target (GetFloatDefault E ''LesserHealAmount'' 15)) (EmitSound E target SOUND_LESSERHEALEFFECT)
         | HandleSpellProtectFromFire \<Rightarrow>
             SetEnchant E target ENCHANT_PROTECT_FROM_FIRE (config_int E ''ProtectFireEnchantDuration'' 1800)
         | HandleSpellProtectFromElectricity \<Rightarrow>
             SetEnchant E target ENCHANT_PROTECT_FROM_ELECTRICITY (config_int E ''ProtectElectricityEnchantDuration'' 1800)
         | HandleSpellProtectFromPoison \<Rightarrow>
             SetEnchant E target ENCHANT_PROTECT_FROM_POISON (config_int E ''ProtectPoisonEnchantDuration'' 1800)
         | HandleSpellShock \<Rightarrow> SetEnchant E target ENCHANT_SHOCK (config_int E ''ShockPoisonEnchantDuration'' 1800)
         | HandleSpellTeleportToTarget \<Rightarrow> HandleSpellTeleport target
         | HandleSpellVampirism \<Rightarrow> SetEnchant E target ENCHANT_VAMPIRISM (config_int E ''VampirismDuration'' 900))"

definition DoSpellEffect :: "env \<Rightarrow> u8 \<Rightarrow> nat \<Rightarrow> nat option \<Rightarrow> unit game" where
  "DoSpellEffect E spellId caster target =
     (case map_of spellTable spellId of None \<Rightarrow> gret () | Some h \<Rightarrow> spell_step E h caster target)"

text \<open>\<open>new Magic(spell, owner, friendly)\<close>.\<close>

definition DoSpellProjectile :: "env \<Rightarrow> u8 \<Rightarrow> nat \<Rightarrow> bool \<Rightarrow> unit game" where
  "DoSpellProjectile E spellId caster friendly =
     gbind (GetPosition caster) (\<lambda>pos. gvoid (new_object E (KMagic spellId caster friendly) 0x3BB pos 0xFFFF))"

definition ExecuteSpell :: "env \<Rightarrow> nat \<Rightarrow> u8 \<Rightarrow> bool \<Rightarrow> bool game" where
  "ExecuteSpell E plr spellId dontinvert =
     gbind (HasEnoughMana plr 30) (\<lambda>b.
       if b then gthen (if dontinvert then DoSpellEffect E spellId plr None else DoSpellProjectile E spellId plr False)
                (gthen (gvoid (ManaDrain plr 30)) (gret True))
       else gret False)"

definition ExecuteSpell_named :: "env \<Rightarrow> nat \<Rightarrow> string \<Rightarrow> bool \<Rightarrow> bool game" where
  "ExecuteSpell_named E plr name dontinvert =
     (let n = LookupId name g_spellNames
      in if n = INVALID_ID then gret False else ExecuteSpell E plr n dontinvert)"

section \<open>Abilities\<close>

datatype ability_handler =
    HandleBerserkerChargeAbility
  | HandleWarcryAbility
  | HandleAbilityUnknown
  | HandleTreadLightlyAbility
  | HandleEyeOfWolfAbility

definition abilityTable :: "(u8 \<times> ability_handler) list" where
  "abilityTable =
     [(ABILITY_BERSERKER_CHARGE, HandleBerserkerChargeAbility), (ABILITY_WARCRY, HandleWarcryAbility),
      (ABILITY_HARPOON, HandleAbilityUnknown), (ABILITY_TREAD_LIGHTLY, HandleTreadLightlyAbility),
      (ABILITY_EYE_OF_THE_WOLF, HandleEyeOfWolfAbility)]"

definition berserker_charge :: "env \<Rightarrow> nat \<Rightarrow> unit game" where
  "berserker_charge E plr =
     gbind (player_session plr) (\<lambda>ss.
     gseq [gvoid (SetActionAnim plr ACTION_BERSERKER_CHARGE (of_int (config_int E ''BerserkerChargeDuration'' 90))),
           MoveToward plr (ucast (fst (ss_mouse ss))) (ucast (snd (ss_mouse ss))) (42 / 100),
           SetAbilityDelay plr ABILITY_BERSERKER_CHARGE (of_int (config_int E ''BerserkerChargeDelay'' 300)),
           EmitSound E plr SOUND_BERSERKERCHARGEINVOKE,
           EmitSound E plr SOUND_BERSERKERCHARGEON])"

definition tread_lightly :: "env \<Rightarrow> nat \<Rightarrow> unit game" where
  "tread_lightly E plr =
     gseq [SetEnchant E plr ENCHANT_SNEAK (config_int E ''TreadLightlyDuration'' 99999),
           SetAbilityDelay plr ABILITY_TREAD_LIGHTLY (of_int (config_int E ''TreadLightlyDelay'' 30)),
           gbind (GetPosition plr) (SetTreadLightlyMarker plr),
           EmitSound E plr SOUND_TREADLIGHTLYINVOKE,
           EmitSound E plr SOUND_TREADLIGHTLYON]"

definition warcry :: "env \<Rightarrow> nat \<Rightarrow> unit game" where
  "warcry E plr =
     gseq [SetAbilityDelay plr ABILITY_WARCRY (of_int (config_int E ''WarcryDelay'' 300)),
           gvoid (SetActionAnim plr ACTION_WARCRY 15),
           EmitSound E plr SOUND_WARCRYINVOKE,
           EmitSound E plr SOUND_WARCRYON]"

definition eye_of_the_wolf :: "env \<Rightarrow> nat \<Rightarrow> unit game" where
  "eye_of_the_wolf E plr =
     gseq [SetEnchant E plr ENCHANT_INFRAVISION (config_int E ''EyeOfTheWolfDuration'' 300),
           SetAbilityDelay plr ABILITY_EYE_OF_THE_WOLF (of_int (config_int E ''EyeOfTheWolfDelay'' 600)),
           EmitSound E plr SOUND_TROLLFLATUS]"

definition ability_step :: "env \<Rightarrow> ability_handler \<Rightarrow> nat \<Rightarrow> unit game" where
  "ability_step E h plr =
     (case h of
        HandleBerserkerChargeAbility \<Rightarrow> berserker_charge E plr
      | HandleWarcryAbility \<Rightarrow> warcry E plr
      | HandleAbilityUnknown \<Rightarrow> gret ()
      | HandleTreadLightlyAbility \<Rightarrow> tread_lightly E plr
      | HandleEyeOfWolfAbility \<Rightarrow> eye_of_the_wolf E plr)"

definition ExecuteAbility :: "env \<Rightarrow> nat \<Rightarrow> u8 \<Rightarrow> bool game" where
  "ExecuteAbility E plr abilityId =
     (case map_of abilityTable abilityId of
        None \<Rightarrow> gret False
      | Some h \<Rightarrow> gthen (ability_step E h plr) (gret True))"

section \<open>Collisions\<close>

text \<open>
  The callbacks of the physics library (\<open>src/src/game/CollisionResponse.cpp\<close>, \<open>Player.cpp\<close>): the object of
  the callback and the one it touches, either of which may have no object behind its body. A magic
  projectile is recognised by its collision handler alone; another kind of object in its place is read
  out of bounds.
\<close>

definition type_is_player :: "nat \<Rightarrow> bool game" where
  "type_is_player a = gbind (GetType a) (\<lambda>t. gret (t = PLAYER_TYPE))"

definition on_player_contact :: "nat option \<Rightarrow> nat option \<Rightarrow> (nat \<Rightarrow> nat \<Rightarrow> unit game) \<Rightarrow> unit game" where
  "on_player_contact me other f =
     (case (me, other) of
        (Some m, Some oth) \<Rightarrow> gbind (type_is_player oth) (\<lambda>b. gwhen b (f m oth))
      | _ \<Rightarrow> gret ())"

definition DamageCollideCallback :: "env \<Rightarrow> nat option \<Rightarrow> nat option \<Rightarrow> unit game" where
  "DamageCollideCallback E me other =
     on_player_contact me other (\<lambda>m plr. gbind (GetObjectInfo E m) (\<lambda>info.
       Damage plr (of_int (first_arg (th_collide_args info)) / 3)))"

definition ManaDrainCollideCallback :: "env \<Rightarrow> nat option \<Rightarrow> nat option \<Rightarrow> unit game" where
  "ManaDrainCollideCallback E me other =
     on_player_contact me other (\<lambda>m plr. gbind (GetObjectInfo E m) (\<lambda>info.
       gbind (ManaDrain plr (of_int (first_arg (th_collide_args info)) / 3)) (\<lambda>b.
         gwhen b (EmitSound E m SOUND_BLUEFIREDAMAGE))))"

definition SpellProjectileCollideCallback :: "env \<Rightarrow> nat option \<Rightarrow> nat option \<Rightarrow> unit game" where
  "SpellProjectileCollideCallback E me other =
     on_player_contact me other (\<lambda>m plr. gbind (get_object m) (\<lambda>ob.
       case ob_kind ob of
         KMagic spell owner friendly \<Rightarrow> DoSpellEffect E spell owner (Some plr)
       | _ \<Rightarrow> gfail OutOfBounds))"

definition crash_obstacle :: "env \<Rightarrow> nat \<Rightarrow> unit game" where
  "crash_obstacle E plr =
     gbind (get_unit plr) (\<lambda>un. gwhen (un_action un = ACTION_BERSERKER_CHARGE)
       (gseq [ResetActionAnim plr,
              gbind (get_object plr) (\<lambda>ob. Damage plr (of_int (sint (GetHealth ob)) * (1 / 5))),
              SetEnchant E plr ENCHANT_HELD 45,
              EmitSound E plr SOUND_BERSERKERCRASH,
              EmitSound E plr SOUND_BERSERKERCHARGEOFF]))"

definition crash_player :: "env \<Rightarrow> nat \<Rightarrow> nat \<Rightarrow> unit game" where
  "crash_player E plr obj =
     gbind (get_unit plr) (\<lambda>un. gwhen (un_action un = ACTION_BERSERKER_CHARGE)
       (gseq [ResetActionAnim plr,
              gbind (get_object obj) (\<lambda>ob. gwhen (sint (GetHealth ob) \<le> 100)
                (SetAbilityDelay plr ABILITY_BERSERKER_CHARGE 0)),
              Damage obj 100,
              EmitSound E plr SOUND_BERSERKERCHARGEOFF]))"

text \<open>The last test dereferences the object whatever it is.\<close>

definition shock :: "env \<Rightarrow> nat \<Rightarrow> nat option \<Rightarrow> unit game" where
  "shock E plr p =
     gbind (HasEnchant plr ENCHANT_SHOCK) (\<lambda>b. gwhen b
       (gbind (deref p) (\<lambda>obj. gbind (type_is_player obj) (\<lambda>b. gwhen b
         (gseq [Damage obj 45, UnsetEnchant E plr ENCHANT_SHOCK, EmitSound E plr SOUND_SHOCKED])))))"

definition PlayerCollideCallback :: "env \<Rightarrow> nat option \<Rightarrow> nat option \<Rightarrow> unit game" where
  "PlayerCollideCallback E me other =
     (case me of
        None \<Rightarrow> gret ()
      | Some plr \<Rightarrow>
          gthen (case other of
                   None \<Rightarrow> crash_obstacle E plr
                 | Some obj \<Rightarrow> gbind (get_object obj) (\<lambda>ob.
                     if ob_cmask ob AND 1 \<noteq> 0 then crash_obstacle E plr
                     else if ob_type ob = PLAYER_TYPE then crash_player E plr obj
                     else gret ()))
                (shock E plr other))"

text \<open>The callback of a body, by the collision handler of its type; that of a player is set by the constructor.\<close>

definition collide :: "env \<Rightarrow> nat option \<Rightarrow> nat option \<Rightarrow> unit game" where
  "collide E me other =
     (case me of
        None \<Rightarrow> gret ()
      | Some m \<Rightarrow> gbind (get_object m) (\<lambda>ob. gbind (GetObjectInfo E m) (\<lambda>info.
          if ob_kind ob = KPlayer \<or> th_collide info = COLLIDE_PLAYER then PlayerCollideCallback E me other
          else if th_collide info = COLLIDE_DAMAGE then DamageCollideCallback E me other
          else if th_collide info = COLLIDE_MANADRAIN then ManaDrainCollideCallback E me other
          else if th_collide info = COLLIDE_SPELLPROJECTILE then SpellProjectileCollideCallback E me other
          else gret ())))"

end
