(* ===== verification/Session_Handlers.thy ===== *)
theory Session_Handlers
  imports Spells
begin

text \<open>
  The message handlers of a session and the messages it sends (\<open>src/src/game/WorldSession.cpp\<close>).

  A handler is a step that takes the address of the session and the packet, positioned behind the opcode,
  and returns the packet with its new read position: several messages share a packet, and
  \<open>WorldSession::Update\<close> goes on reading where the handler stopped. The handlers catch
  \<open>ByteBuffer::error\<close>, which no read throws: a read past the end fails an assertion.
\<close>

section \<open>Reading\<close>

definition rd8 :: "world_packet \<Rightarrow> (u8 \<times> world_packet) game" where
  "rd8 packet = glift (pk_get get_u8 packet)"

definition rd16 :: "world_packet \<Rightarrow> (u16 \<times> world_packet) game" where
  "rd16 packet = glift (pk_get get_u16 packet)"

definition rd32 :: "world_packet \<Rightarrow> (u32 \<times> world_packet) game" where
  "rd32 packet = glift (pk_get get_u32 packet)"

definition rdn :: "nat \<Rightarrow> world_packet \<Rightarrow> (bytes \<times> world_packet) game" where
  "rdn n packet = glift (pk_get (read_block n) packet)"

text \<open>Values that are read and not used, of the given numbers of bytes.\<close>

primrec skip :: "nat list \<Rightarrow> world_packet \<Rightarrow> world_packet game" where
  "skip [] packet = gret packet"
| "skip (n # ns) packet =
     gbind (if n = 1 then gbind (rd8 packet) (\<lambda>(_, packet). gret packet)
            else if n = 2 then gbind (rd16 packet) (\<lambda>(_, packet). gret packet)
            else gbind (rd32 packet) (\<lambda>(_, packet). gret packet))
       (skip ns)"

definition move_rpos :: "(nat \<Rightarrow> nat) \<Rightarrow> world_packet \<Rightarrow> world_packet" where
  "move_rpos f packet = packet\<lparr>p_buf := set_rpos (f (b_rpos (p_buf packet))) (p_buf packet)\<rparr>"

definition the_player :: "nat \<Rightarrow> nat game" where
  "the_player ss = gbind (get_session ss) (\<lambda>st. deref (ss_player st))"

section \<open>Messages of the session\<close>

text \<open>A packet with the client's address, sent even while the player is loading.\<close>

definition send_now :: "nat \<Rightarrow> u8 \<Rightarrow> u8 \<Rightarrow> (byte_buffer \<Rightarrow> byte_buffer res) list \<Rightarrow> unit game" where
  "send_now ss opcode n fs =
     gbind (get_session ss) (\<lambda>st. send_new ss False (mk_packet opcode n (ss_client st)) fs)"

definition SendFullTimestampOpcode :: "nat \<Rightarrow> unit game" where
  "SendFullTimestampOpcode ss =
     gbind (get_session ss) (\<lambda>st. send_now ss MSG_FULL_TIMESTAMP 0x80 [put_u32 (ss_timestamp st)])"

definition SendJoinDataOpcode :: "nat \<Rightarrow> unit game" where
  "SendJoinDataOpcode ss =
     gbind (the_player ss) (\<lambda>pl. gbind (GetExtent pl) (\<lambda>e. send_now ss MSG_JOIN_DATA 0x80 [put_u16 e, put_u32 0]))"

text \<open>\<open>ZoaEDK's Game\<close> and three zeros.\<close>

definition SendGameSettings2Opcode :: "nat \<Rightarrow> unit game" where
  "SendGameSettings2Opcode ss =
     send_now ss MSG_GAME_SETTINGS_2 0x80
       ([append_bytes [0x5A, 0x6F, 0x61, 0x45, 0x44, 0x4B, 0x27, 0x73, 0x20, 0x47, 0x61, 0x6D, 0x65, 0, 0, 0]] @
        replicate 7 (put_u32 0xFFFFFFFF) @ [put_u32 0])"

definition SendGameSettingsOpcode :: "nat \<Rightarrow> unit game" where
  "SendGameSettingsOpcode ss =
     gbind (get_session ss) (\<lambda>st. send_now ss MSG_GAME_SETTINGS 0x80
       [put_u32 (ss_timestamp st), put_u32 0x0001039A, put_u32 0x00032080, put_u32 0x00002002,
        put_u8 0x20, put_u8 0x0F, put_u8 0x00])"

definition SendNewPlayerOpcode :: "nat \<Rightarrow> unit game" where
  "SendNewPlayerOpcode ss = gbind (the_player ss) (\<lambda>pl. send_built (BuildNewPlayerPacket pl))"

text \<open>\<open>manamine.map\<close> and a zero.\<close>

definition SendUseMapOpcode :: "env \<Rightarrow> nat \<Rightarrow> unit game" where
  "SendUseMapOpcode E ss =
     gthen (upd_session ss (\<lambda>st. st\<lparr>ss_playerLoading := True\<rparr>))
    (gbind (get_session ss) (\<lambda>st. send_now ss MSG_USE_MAP 0x80
       [append_bytes [0x6D, 0x61, 0x6E, 0x61, 0x6D, 0x69, 0x6E, 0x65, 0x2E, 0x6D, 0x61, 0x70, 0],
        put_u16 0, put_u32 0, put_u32 0, put_u32 0, put_u16 0, put_u16 0, put_u8 0,
        put_u32 (mf_checksum (e_map E)), put_u32 (ss_timestamp st)]))"

definition SendPartialTimestampOpcode :: "nat \<Rightarrow> unit game" where
  "SendPartialTimestampOpcode ss =
     gbind (get_session ss) (\<lambda>st. send_now ss MSG_PARTIAL_TIMESTAMP 0 [put_u16 (ucast (ss_timestamp st))])"

definition SendFadeBeginOpcode :: "nat \<Rightarrow> unit game" where
  "SendFadeBeginOpcode ss = send_now ss MSG_FADE_BEGIN 0 [put_u8 1, put_u8 1]"

definition SendImportantAckOpcode :: "nat \<Rightarrow> u32 \<Rightarrow> unit game" where
  "SendImportantAckOpcode ss timestamp = send_now ss MSG_IMPORTANT_ACK 0 [put_u32 timestamp]"

definition SendReportSpellStart :: "nat \<Rightarrow> u8 \<Rightarrow> unit game" where
  "SendReportSpellStart ss spell =
     gbind (get_session ss) (\<lambda>st. send_new ss True (mk_packet MSG_REPORT_SPELL_START 0 (ss_client st)) [put_u8 spell])"

definition SendFxDurationSpell :: "nat \<Rightarrow> u16 \<Rightarrow> u16 \<Rightarrow> u16 \<Rightarrow> unit game" where
  "SendFxDurationSpell ss type x y =
     gbind (get_session ss) (\<lambda>st. send_new ss True (mk_packet MSG_FX_DURATION_SPELL 0 (ss_client st))
       [put_u16 type, put_u16 x, put_u16 y])"

section \<open>The map download\<close>

text \<open>\<open>NoxMap::GetNxzSize\<close> and \<open>ReadNxzBytes\<close> of the compressed map file, if there is one.\<close>

definition GetNxzSize :: "env \<Rightarrow> u32" where
  "GetNxzSize E = (case mf_nxz (e_map E) of None \<Rightarrow> 0 | Some bs \<Rightarrow> of_nat (length bs))"

definition ReadNxzBytes :: "env \<Rightarrow> u32 \<Rightarrow> nat \<Rightarrow> bytes" where
  "ReadNxzBytes E offset n = (case mf_nxz (e_map E) of None \<Rightarrow> [] | Some bs \<Rightarrow> take n (drop (unat offset) bs))"

definition SendMapSendStart :: "env \<Rightarrow> nat \<Rightarrow> unit game" where
  "SendMapSendStart E ss =
     gbind (get_session ss) (\<lambda>st. gwhen (ss_downloading st = 0)
       (gthen (send_now ss MSG_MAP_SEND_START 0x80
          [put_u8 0xF8, put_u16 0x0013, put_u32 (GetNxzSize E), append_bytes (mf_nxzname (e_map E))])
        (upd_session ss (\<lambda>st. st\<lparr>ss_downloading := 1, ss_unk2 := ss_unk st\<rparr>))))"

text \<open>The number of the packet to send after packet \<open>n\<close> of \<open>r\<close> bytes, 0 when the download is over. The
  comparison is one of \<open>int32\<close> with \<open>uint32\<close>, so it is unsigned.\<close>

definition next_chunk :: "u32 \<Rightarrow> int \<Rightarrow> nat \<Rightarrow> int" where
  "next_chunk nxz n r = (if (of_int (n * int r) :: u32) > nxz then 0 else n + 1)"

definition SendMapSendPacket :: "env \<Rightarrow> nat \<Rightarrow> unit game" where
  "SendMapSendPacket E ss =
     gthen (upd_session ss (\<lambda>st. st\<lparr>ss_unk2 := ss_unk2 st + 1\<rparr>))
    (gbind (get_session ss) (\<lambda>st.
       let data = ReadNxzBytes E (of_int ((ss_downloading st - 1) * 0x200)) 0x200
       in gbind (glift (pk_puts [put_u8 0xF8, put_u16 (of_int (ss_downloading st)), put_u16 (of_nat (length data)),
              append_bytes data] (mk_packet MSG_MAP_SEND_PACKET 0x80 (ss_client st)))) (\<lambda>packet.
          gthen (gvoid (session_send ss (SetUnk (ss_unk2 st) packet) False False))
                (upd_session ss (\<lambda>st. st\<lparr>ss_downloading := next_chunk (GetNxzSize E) (ss_downloading st) (length data)\<rparr>)))))"

section \<open>Joining\<close>

definition HandleJoinConfirmation :: "nat \<Rightarrow> unit game" where
  "HandleJoinConfirmation ss =
     gbind (get_session ss) (\<lambda>st.
     gbind (glift (pk_puts [put_u8 0, put_u8 1, put_u8 (ucast (ss_accountId st)), put_u8 0, put_u8 0, put_u8 0,
         put_u8 (ss_xorKey st)] (mk_packet 0x1F 0x80 (ss_client st)))) (\<lambda>packet.
       if ss_socket st
       then gthen (gmod (\<lambda>s. s\<lparr>ws_sendQueue := ws_sendQueue s @ [copy_packet packet]\<rparr>))
                  (upd_session ss (\<lambda>st. st\<lparr>ss_status := STATUS_CONFIRMED\<rparr>))
       else gfail NullDeref))"

text \<open>The first \<open>0x61\<close> bytes of \<open>PlayerInfo\<close> are read as they are; the name and the user name are then cut.\<close>

definition info_head :: "bytes \<Rightarrow> player_info \<Rightarrow> player_info" where
  "info_head d i =
     i\<lparr>pi_name := (take 66 d)[48 := 0, 49 := 0], pi_pclass := d ! 66, pi_unk3 := d ! 67, pi_info := drop 68 d\<rparr>"

definition upd_info :: "nat \<Rightarrow> (player_info \<Rightarrow> player_info) \<Rightarrow> unit game" where
  "upd_info pl f = upd_player pl (\<lambda>p. p\<lparr>pl_info := f (pl_info p)\<rparr>)"

definition read_info :: "nat \<Rightarrow> world_packet \<Rightarrow> world_packet game" where
  "read_info pl packet =
     gbind (skip [1, 1] packet) (\<lambda>packet.
     gbind (rdn 0x61 packet) (\<lambda>(d, packet).
     gthen (upd_info pl (info_head d))
    (gbind (rdn 0x1F packet) (\<lambda>(_, packet).
     gbind (rdn 9 packet) (\<lambda>(u, packet).
     gthen (upd_info pl (\<lambda>i. i\<lparr>pi_username := u[8 := 0]\<rparr>))
    (gbind (rdn 0x0C packet) (\<lambda>(u1, packet).
     gthen (upd_info pl (\<lambda>i. i\<lparr>pi_unk1 := u1\<rparr>))
    (gbind (rdn 3 packet) (\<lambda>(_, packet). gret packet)))))))))"

definition session_player :: "env \<Rightarrow> nat \<Rightarrow> nat game" where
  "session_player E ss =
     gbind (get_session ss) (\<lambda>st. case ss_player st of
         Some pl \<Rightarrow> gret pl
       | None \<Rightarrow> gbind (new_player E ss) (\<lambda>pl.
           gthen (upd_session ss (\<lambda>st. st\<lparr>ss_player := Some pl\<rparr>)) (gret pl)))"

text \<open>The greeting of a new player, in the order the client expects. The first packet is used again for the
  empty message that closes the sequence, with its header cleared.\<close>

definition greet :: "env \<Rightarrow> nat \<Rightarrow> unit game" where
  "greet E ss =
     gseq [upd_session ss (\<lambda>st. st\<lparr>ss_unk := ss_unk st + 1\<rparr>),
           send_now ss MSG_INFORM 0x80 [put_u8 0x0C, put_u32 1],
           SendFullTimestampOpcode ss, SendJoinDataOpcode ss, SendGameSettingsOpcode ss,
           SendGameSettings2Opcode ss, SendNewPlayerOpcode ss,
           upd_session ss (\<lambda>st. st\<lparr>ss_unk := ss_unk st + 1\<rparr>),
           SendUseMapOpcode E ss,
           gbind (get_session ss) (\<lambda>st. gvoid (session_send ss (mk_packet 0x04 0 (ss_client st)) False False)),
           session_flush ss,
           upd_session ss (\<lambda>st. st\<lparr>ss_timestamp := ss_timestamp st + 1\<rparr>),
           SendPartialTimestampOpcode ss]"

definition HandlePlayerJoin :: "env \<Rightarrow> nat \<Rightarrow> world_packet \<Rightarrow> world_packet game" where
  "HandlePlayerJoin E ss packet =
     gbind (session_player E ss) (\<lambda>pl.
     gbind (read_info pl packet) (\<lambda>packet.
     gthen (upd_session ss (\<lambda>st. st\<lparr>ss_status := STATUS_LOGGEDIN\<rparr>))
    (gthen (InsertPlayer pl) (gthen (greet E ss) (gret packet)))))"

definition HandleClientReady :: "env \<Rightarrow> nat \<Rightarrow> world_packet \<Rightarrow> world_packet game" where
  "HandleClientReady E ss packet =
     gthen (upd_session ss (\<lambda>st. st\<lparr>ss_unk := p_unk packet + 1\<rparr>))
    (gbind (get_session ss) (\<lambda>st.
     gthen (gwhen (ss_playerLoading st)
       (gseq [upd_session ss (\<lambda>st. st\<lparr>ss_playerLoading := False, ss_timestamp := ss_timestamp st + 1\<rparr>),
              SendPartialTimestampOpcode ss,
              gbind (the_player ss) (SendUpdatePacket E),
              SendFadeBeginOpcode ss,
              gbind (the_player ss) (Respawn E),
              SendPlayerInfo ss]))
       (gret packet)))"

section \<open>Player input\<close>

text \<open>The second byte of an input \<open>0x0E\<close>. For an unknown one the code steps back and reads it again.\<close>

definition input_action :: "env \<Rightarrow> nat \<Rightarrow> u8 \<Rightarrow> unit game" where
  "input_action E pl b =
     (if b = 0x06 then Attack E pl
      else if b = 0x07 then Jump pl
      else if b = 0x30 then Laugh E pl
      else if b = 0x31 then Point E pl
      else if b = 0x2F then Taunt E pl
      else gret ())"

definition HandlePlayerInput :: "env \<Rightarrow> nat \<Rightarrow> world_packet \<Rightarrow> world_packet game" where
  "HandlePlayerInput E ss packet =
     gbind (the_player ss) (\<lambda>pl.
     gbind (rd8 packet) (\<lambda>(b, packet).
     gbind (if b = 0x0E then
              gbind (rd8 packet) (\<lambda>(b, packet). gthen (input_action E pl b) (skip [1, 1, 1] packet))
            else if b = 0x0F then
              gbind (get_session ss) (\<lambda>st.
                gthen (MoveTowards E pl (ucast (fst (ss_mouse st))) (ucast (snd (ss_mouse st)))) (skip [4, 1] packet))
            else if b = 0x13 then
              gbind (rd32 packet) (\<lambda>(w, packet).
                gthen (gwhen (w = 0x07) (RunningJump pl)) (skip [1, 1, 2, 1] packet))
            else gret packet) (\<lambda>packet.
     gbind (skip [1, 1, 1, 1] packet) (\<lambda>packet.
     gbind (rd8 packet) (\<lambda>(angle, packet).
     gthen (SetAngle pl angle) (skip [1, 1, 1, 1, 1] packet))))))"

definition HandleMouse :: "nat \<Rightarrow> world_packet \<Rightarrow> world_packet game" where
  "HandleMouse ss packet =
     gbind (rd16 packet) (\<lambda>(x, packet).
     gthen (upd_session ss (\<lambda>st. st\<lparr>ss_mouse := (ucast x, snd (ss_mouse st))\<rparr>))
    (gbind (rd16 packet) (\<lambda>(y, packet).
     gthen (upd_session ss (\<lambda>st. st\<lparr>ss_mouse := (fst (ss_mouse st), ucast y)\<rparr>)) (gret packet))))"

section \<open>Text and commands\<close>

text \<open>The text is sent to everyone as it came. A length of 0 writes the terminator before the array.\<close>

definition HandleTextMessage :: "world_packet \<Rightarrow> world_packet game" where
  "HandleTextMessage packet =
     (let pstart = b_rpos (p_buf packet)
      in gbind (skip [2, 1, 2, 2] packet) (\<lambda>packet.
         gbind (rd16 packet) (\<lambda>(len, packet).
         gbind (skip [1] packet) (\<lambda>packet.
         gbind (rdn (unat len) packet) (\<lambda>(_, packet).
         if len = 0 then gfail OutOfBounds
         else let pend = b_rpos (p_buf packet);
                  text = take (pend - pstart) (drop pstart (storage (p_buf packet)))
              in gthen (gbind (glift (pk_puts [append_bytes text] (mk_packet MSG_TEXT_MESSAGE 0 0)))
                         (\<lambda>p. gvoid (SendPacketToAll p)))
                   (gret packet))))))"

text \<open>The first branch reads a counted list of 16-bit values, the second a counted text.\<close>

definition HandleServerCmd :: "world_packet \<Rightarrow> world_packet game" where
  "HandleServerCmd packet =
     gbind (rd8 packet) (\<lambda>(b, packet).
       if b = 0 then
         gbind (skip [2] packet) (\<lambda>packet. gbind (rd8 packet) (\<lambda>(n, packet).
           skip (replicate (unat n) 2 @ [1, 1]) packet))
       else if b = 2 then
         gbind (skip [2] packet) (\<lambda>packet. gbind (rd8 packet) (\<lambda>(len, packet).
         gbind (rdn (unat len * 2) packet) (\<lambda>(_, packet).
           if len = 0 then gfail OutOfBounds else skip [1, 1] packet)))
       else gret packet)"

section \<open>Things\<close>

text \<open>A message with the extent of an object.\<close>

definition read_obj :: "env \<Rightarrow> world_packet \<Rightarrow> (nat option \<times> world_packet) game" where
  "read_obj E packet = gbind (rd16 packet) (\<lambda>(e, packet). gbind (GetObj E e) (\<lambda>p. gret (p, packet)))"

definition HandleTryDrop :: "env \<Rightarrow> nat \<Rightarrow> world_packet \<Rightarrow> world_packet game" where
  "HandleTryDrop E ss packet =
     gbind (read_obj E packet) (\<lambda>(p, packet).
     gbind (rd16 packet) (\<lambda>(x, packet). gbind (rd16 packet) (\<lambda>(y, packet).
     gbind (the_player ss) (\<lambda>pl.
       gthen (gvoid (Unit_Drop E pl p 75 (ucast x, ucast y))) (gret packet)))))"

definition HandleTryGet :: "env \<Rightarrow> nat \<Rightarrow> world_packet \<Rightarrow> world_packet game" where
  "HandleTryGet E ss packet =
     gbind (read_obj E packet) (\<lambda>(p, packet). gbind (the_player ss) (\<lambda>pl.
       gthen (gvoid (Player_Pickup E pl p 75)) (gret packet)))"

definition HandleTryUse :: "env \<Rightarrow> nat \<Rightarrow> world_packet \<Rightarrow> world_packet game" where
  "HandleTryUse E ss packet =
     gbind (read_obj E packet) (\<lambda>(p, packet).
       case p of None \<Rightarrow> gret packet
       | Some obj \<Rightarrow> gbind (the_player ss) (\<lambda>pl. gthen (Use E obj pl) (gret packet)))"

definition HandleTryEquip :: "env \<Rightarrow> nat \<Rightarrow> world_packet \<Rightarrow> world_packet game" where
  "HandleTryEquip E ss packet =
     gbind (read_obj E packet) (\<lambda>(p, packet). gbind (the_player ss) (\<lambda>pl.
       gthen (gvoid (Equip E pl p)) (gret packet)))"

definition HandleTryDequip :: "env \<Rightarrow> nat \<Rightarrow> world_packet \<Rightarrow> world_packet game" where
  "HandleTryDequip E ss packet =
     gbind (read_obj E packet) (\<lambda>(p, packet). gbind (the_player ss) (\<lambda>pl.
       gthen (gvoid (Dequip E pl p)) (gret packet)))"

definition HandleReportSecondaryWeapon :: "env \<Rightarrow> nat \<Rightarrow> world_packet \<Rightarrow> world_packet game" where
  "HandleReportSecondaryWeapon E ss packet =
     gbind (read_obj E packet) (\<lambda>(p, packet). gbind (the_player ss) (\<lambda>pl.
       gthen (EquipSecondary E pl p) (gret packet)))"

section \<open>Spells and abilities\<close>

definition HandleTryAbility :: "env \<Rightarrow> nat \<Rightarrow> world_packet \<Rightarrow> world_packet game" where
  "HandleTryAbility E ss packet =
     gbind (rd8 packet) (\<lambda>(ability, packet). gbind (the_player ss) (\<lambda>pl.
     gbind (IsAbilityReady pl ability) (\<lambda>ready.
       gthen (if ready then gvoid (ExecuteAbility E pl ability) else SendAudioPlayerEvent ss SOUND_PERMANENTFIZZLE 100 0)
             (gret packet))))"

definition HandleTrySpell :: "env \<Rightarrow> nat \<Rightarrow> world_packet \<Rightarrow> world_packet game" where
  "HandleTrySpell E ss packet =
     gbind (rd8 packet) (\<lambda>(spellId, packet).
     gbind (rd8 (move_rpos (\<lambda>p. size_add p 19) packet)) (\<lambda>(dontinvert, packet).
     gbind (the_player ss) (\<lambda>pl.
     gbind (ExecuteSpell E pl spellId (dontinvert \<noteq> 0)) (\<lambda>b.
     gthen (gwhen b (SendReportSpellStart ss spellId))
    (gbind (GetPositionX pl) (\<lambda>x. gbind (GetPositionY pl) (\<lambda>y.
     gthen (SendFxDurationSpell ss 7 x y) (gret packet))))))))"

section \<open>Dispatch\<close>

text \<open>The handlers whose messages the server only reads over.\<close>

definition skipped :: "opcode_handler \<Rightarrow> nat list option" where
  "skipped h =
     (case h of
        HandleUnknown06Opcode \<Rightarrow> Some [4] | HandlePlayerSetWaypointOpcode \<Rightarrow> Some [2, 2, 2]
      | HandleTryCreatureCommandOpcode \<Rightarrow> Some [2, 1] | HandleTryCollideOpcode \<Rightarrow> Some [2]
      | HandleNewAliasOpcode \<Rightarrow> Some [1, 2, 2, 4] | HandleImportantAckOpcode \<Rightarrow> Some [4]
      | HandleIncomingClientOpcode \<Rightarrow> Some [] | HandleCancelMapOpcode \<Rightarrow> Some []
      | HandleKeepAliveOpcode \<Rightarrow> Some [] | HandleRequestSavePlayerOpcode \<Rightarrow> Some [2]
      | HandleServerQuitAckOpcode \<Rightarrow> Some [] | HandleTradeOpcode \<Rightarrow> Some [1, 2]
      | HandleDialogOpcode \<Rightarrow> Some [1, 1] | HandleRequestTimerStatusOpcode \<Rightarrow> Some []
      | HandleInfoBookDataOpcode \<Rightarrow> Some [2, 1] | HandleSocialOpcode \<Rightarrow> Some [1]
      | HandleGauntletOpcode \<Rightarrow> Some [1] | HandleInventoryFailOpcode \<Rightarrow> Some [2]
      | _ \<Rightarrow> None)"

definition to_end :: "world_packet \<Rightarrow> world_packet" where
  "to_end packet = move_rpos (\<lambda>_. packet_size packet) packet"

text \<open>\<open>HandleTeamMsgOpcode\<close> moves to the end of the packet and then reads on.\<close>

definition handle :: "env \<Rightarrow> nat \<Rightarrow> opcode_handler \<Rightarrow> world_packet \<Rightarrow> world_packet game" where
  "handle E ss h packet =
     (case h of
        HandlePlayerJoinOpcode \<Rightarrow> HandlePlayerJoin E ss packet
      | HandleNewUnknownOpcode \<Rightarrow> gret (to_end packet)
      | HandleNeedTimestampOpcode \<Rightarrow> gthen (SendFullTimestampOpcode ss) (gret packet)
      | HandlePlayerInputOpcode \<Rightarrow> HandlePlayerInput E ss packet
      | HandleTryDropOpcode \<Rightarrow> HandleTryDrop E ss packet
      | HandleTryGetOpcode \<Rightarrow> HandleTryGet E ss packet
      | HandleTryUseOpcode \<Rightarrow> HandleTryUse E ss packet
      | HandleTryEquipOpcode \<Rightarrow> HandleTryEquip E ss packet
      | HandleTryDequipOpcode \<Rightarrow> HandleTryDequip E ss packet
      | HandleTrySpellOpcode \<Rightarrow> HandleTrySpell E ss packet
      | HandleTryAbilityOpcode \<Rightarrow> HandleTryAbility E ss packet
      | HandleTextMessageOpcode \<Rightarrow> HandleTextMessage packet
      | HandleImportantOpcode \<Rightarrow>
          gbind (rd32 packet) (\<lambda>(stamp, packet). gthen (SendImportantAckOpcode ss stamp) (gret packet))
      | HandleMouseOpcode \<Rightarrow> HandleMouse ss packet
      | HandleOutgoingClientOpcode \<Rightarrow> gthen (upd_session ss (LogoutRequest (e_time E))) (gret packet)
      | HandleRequestMapOpcode \<Rightarrow>
          gthen (upd_session ss (\<lambda>st. st\<lparr>ss_unk := p_unk packet\<rparr>)) (gthen (SendMapSendStart E ss) (gret packet))
      | HandleServerCmdOpcode \<Rightarrow> HandleServerCmd packet
      | HandleSysopPwOpcode \<Rightarrow> gret (move_rpos (\<lambda>p. size_add p 20) packet)
      | HandleReceivedMapOpcode \<Rightarrow> gthen (upd_session ss (\<lambda>st. st\<lparr>ss_downloading := 0\<rparr>)) (gret packet)
      | HandleClientReadyOpcode \<Rightarrow> HandleClientReady E ss packet
      | HandleXferMsgOpcode \<Rightarrow>
          gbind (skip [1, 1, 1, 4] packet) (\<lambda>packet. gret (move_rpos (\<lambda>p. size_add p 0x84) packet))
      | HandleTeamMsgOpcode \<Rightarrow> skip [1, 4, 2, 2] (to_end packet)
      | HandleReportSecondaryWeaponOpcode \<Rightarrow> HandleReportSecondaryWeapon E ss packet
      | HandleVoteOpcode \<Rightarrow>
          gbind (skip [1] packet) (\<lambda>packet. gret (move_rpos (\<lambda>p. size_add p 0x32) packet))
      | _ \<Rightarrow> (case skipped h of Some ns \<Rightarrow> skip ns packet | None \<Rightarrow> gret packet))"

end
