(* ===== verification/World_Update.thy ===== *)
theory World_Update
  imports Session_Handlers
begin

text \<open>
  A tick of the server: \<open>WorldSession::Update\<close> (\<open>src/src/game/WorldSession.cpp\<close>) dispatches the queued
  messages of a session, \<open>World::Update\<close> (\<open>World.cpp\<close>) runs the sessions and the objects when their timers
  (\<open>src/src/shared/Timer.h\<close>) have passed, with the shutdown countdown; \<open>WorldRunnable::run\<close>
  (\<open>src/src/noxserverd/WorldRunnable.cpp\<close>) calls it with the time since the last tick.

  The dispatch loop of a session goes on until its queue is empty; it is a partial function whose result
  \<open>None\<close> would mean that it does not return. The step of the physics library, which moves the bodies and
  calls the collision callbacks, is the parameter \<open>physics\<close>.
\<close>

section \<open>Leaving\<close>

definition LogoutPlayer :: "nat \<Rightarrow> unit game" where
  "LogoutPlayer ss =
     gbind (get_session ss) (\<lambda>st.
     gthen (case ss_player st of
              None \<Rightarrow> gret ()
            | Some pl \<Rightarrow> gseq [RemovePlayer pl, delete_object pl, upd_session ss (\<lambda>st. st\<lparr>ss_player := None\<rparr>)])
           (upd_session ss (\<lambda>st. st\<lparr>ss_socket := False\<rparr>)))"

text \<open>\<open>delete session\<close>: the destructor logs the player out.\<close>

definition delete_session :: "nat \<Rightarrow> unit game" where
  "delete_session ss =
     gbind (get_session ss) (\<lambda>st.
     gthen (gwhen (ss_player st \<noteq> None) (LogoutPlayer ss))
           (gmod (\<lambda>s. s\<lparr>sv_sessions := (sv_sessions s)(ss := None)\<rparr>)))"

section \<open>Dispatch\<close>

text \<open>One message: the opcode with its handler, if the session may send it in its state.\<close>

definition dispatch :: "env \<Rightarrow> nat \<Rightarrow> world_packet \<Rightarrow> world_packet game" where
  "dispatch E ss packet =
     gbind (get_session ss) (\<lambda>st.
       if p_opcode packet = 0 \<and> p_accountid packet = 0xFF then
         gthen (gwhen (ss_status st = STATUS_AUTHED) (HandleJoinConfirmation ss)) (gret packet)
       else case opcode_find (p_opcode packet) of
              None \<Rightarrow> gret packet
            | Some (status, h) \<Rightarrow>
                if status = STATUS_LOGGEDIN \<and> ss_player st \<noteq> None then handle E ss h packet
                else if status = STATUS_AUTHED then
                  gthen (upd_session ss (\<lambda>st. st\<lparr>ss_recentlyLogout := False\<rparr>)) (handle E ss h packet)
                else gret packet)"

text \<open>\<open>_recvQueue.next()\<close>.\<close>

definition next_packet :: "nat \<Rightarrow> world_packet game" where
  "next_packet ss =
     gbind (get_session ss) (\<lambda>st. case ss_recvQueue st of
         [] \<Rightarrow> gfail OutOfBounds
       | packet # queue \<Rightarrow> gthen (upd_session ss (\<lambda>st. st\<lparr>ss_recvQueue := queue\<rparr>)) (gret packet))"

text \<open>One iteration of the loop on the packet in progress: \<open>None\<close> when the loop is over, otherwise the
  packet to go on with, if it has bytes left.\<close>

definition loop_step :: "env \<Rightarrow> nat \<Rightarrow> world_packet option \<Rightarrow> world_packet option option game" where
  "loop_step E ss p =
     gbind (get_session ss) (\<lambda>st.
       if (p = None \<and> ss_recvQueue st = []) \<or> \<not> ss_socket st then gret None
       else gbind (case p of Some packet \<Rightarrow> gret packet | None \<Rightarrow> next_packet ss) (\<lambda>packet.
            gbind (dispatch E ss packet) (\<lambda>packet.
              if b_rpos (p_buf packet) = packet_size packet then gret (Some None)
              else gbind (rd8 packet) (\<lambda>(opcode, packet). gret (Some (Some (SetOpcode opcode packet)))))))"

partial_function (option) dispatch_loop :: "env \<Rightarrow> nat \<Rightarrow> world_packet option \<Rightarrow> server \<Rightarrow> server res option" where
  [code]: "dispatch_loop E ss p s =
     (case loop_step E ss p s of
        Inl e \<Rightarrow> Some (Inl e)
      | Inr (r, s') \<Rightarrow> (case r of None \<Rightarrow> Some (Inr s') | Some p' \<Rightarrow> dispatch_loop E ss p' s'))"

section \<open>The update of a session\<close>

definition connection_timer :: "u32 \<Rightarrow> session \<Rightarrow> session" where
  "connection_timer diff st =
     (if ss_recvQueue st \<noteq> [] \<and> ss_connTimer st < TIMEOUT_MS then st\<lparr>ss_connTimer := TIMEOUT_MS\<rparr>
      else if ss_connTimer st < diff then LogoutRequest 1 st
      else st\<lparr>ss_connTimer := ss_connTimer st - diff\<rparr>)"

definition session_before :: "nat \<Rightarrow> u32 \<Rightarrow> unit game" where
  "session_before ss diff =
     gbind (get_session ss) (\<lambda>st.
     gthen (gwhen (ss_status st = STATUS_LOGGEDIN)
       (gthen (upd_session ss (\<lambda>st. st\<lparr>ss_timestamp := ss_timestamp st + 1\<rparr>)) (SendPartialTimestampOpcode ss)))
     (upd_session ss (connection_timer diff)))"

definition session_after :: "env \<Rightarrow> nat \<Rightarrow> bool game" where
  "session_after E ss =
     gthen (gbind (get_session ss) (\<lambda>st. gwhen (p_opcode (ss_sendPacket st) \<noteq> 0) (session_flush ss)))
    (gthen (gbind (get_session ss) (\<lambda>st. gwhen (ss_downloading st > 0) (SendMapSendPacket E ss)))
    (gthen (gbind (get_session ss) (\<lambda>st.
              gwhen (\<not> ss_socket st \<or> (ShouldLogOut (e_time E) st \<and> \<not> ss_playerLoading st)) (LogoutPlayer ss)))
    (gbind (get_session ss) (\<lambda>st. gret (ss_socket st)))))"

text \<open>A loop that does not return is not the case; see the termination of \<open>dispatch_loop\<close>.\<close>

definition WorldSession_Update :: "env \<Rightarrow> u32 \<Rightarrow> nat \<Rightarrow> server \<Rightarrow> (bool \<times> server) res option" where
  "WorldSession_Update E diff ss s =
     (case session_before ss diff s of
        Inl e \<Rightarrow> Some (Inl e)
      | Inr (_, s) \<Rightarrow> (case dispatch_loop E ss None s of
            None \<Rightarrow> None
          | Some (Inl e) \<Rightarrow> Some (Inl e)
          | Some (Inr s) \<Rightarrow> Some (session_after E ss s)))"

section \<open>The world\<close>

record interval_timer =
  it_interval :: int
  it_current :: int

definition timer_Update :: "int \<Rightarrow> interval_timer \<Rightarrow> interval_timer" where
  "timer_Update diff t = t\<lparr>it_current := max 0 (it_current t + diff)\<rparr>"

definition timer_Passed :: "interval_timer \<Rightarrow> bool" where
  "timer_Passed t \<longleftrightarrow> it_current t \<ge> it_interval t"

definition timer_Reset :: "interval_timer \<Rightarrow> interval_timer" where
  "timer_Reset t = (if it_current t \<ge> it_interval t then t\<lparr>it_current := it_current t - it_interval t\<rparr> else t)"

record world =
  wo_server :: server
  wo_timers :: "interval_timer list"
  wo_gameTime :: int
  wo_idleMode :: bool
  wo_shutdownTimer :: u32
  wo_stopEvent :: bool

definition WUPDATE_OBJECTS :: nat where "WUPDATE_OBJECTS = 0"

definition WUPDATE_SESSIONS :: nat where "WUPDATE_SESSIONS = 1"

definition initial_timers :: "interval_timer list" where
  "initial_timers = map (\<lambda>i. \<lparr>it_interval = i, it_current = 0\<rparr>) [30, 30, 60000, 1000]"

text \<open>The seconds at which a countdown is shown; the messages themselves are commented out in the code.\<close>

definition shows_countdown :: "u32 \<Rightarrow> bool" where
  "shows_countdown t \<longleftrightarrow>
     t < 10 \<or> (t < 30 \<and> t mod 5 = 0) \<or> (t < 300 \<and> t mod 60 = 0) \<or> (t < 1800 \<and> t mod 300 = 0) \<or>
     (t < 43200 \<and> t mod 3600 = 0) \<or> (t > 43200 \<and> t mod 43200 = 0)"

definition GetSessionCount :: "world \<Rightarrow> nat" where
  "GetSessionCount w = length (w_sessions (wo_server w))"

definition UpdateGameTime :: "int \<Rightarrow> world \<Rightarrow> world" where
  "UpdateGameTime thisTime w =
     (let elapsed = of_int (thisTime - wo_gameTime w) :: u32; w = w\<lparr>wo_gameTime := thisTime\<rparr>
      in if wo_shutdownTimer w > 0 \<and> elapsed > 0 then
           if wo_shutdownTimer w \<le> elapsed then
             if \<not> wo_idleMode w \<or> GetSessionCount w = 0 then w\<lparr>wo_stopEvent := True\<rparr>
             else w\<lparr>wo_shutdownTimer := 1\<rparr>
           else w\<lparr>wo_shutdownTimer := wo_shutdownTimer w - elapsed\<rparr>
         else w)"

definition ShutdownServ :: "u32 \<Rightarrow> bool \<Rightarrow> world \<Rightarrow> world" where
  "ShutdownServ time idle w =
     (let w = w\<lparr>wo_idleMode := idle\<rparr>
      in if time = 0 then
           if \<not> idle \<or> GetSessionCount w = 0 then w\<lparr>wo_stopEvent := True\<rparr> else w\<lparr>wo_shutdownTimer := 1\<rparr>
         else w\<lparr>wo_shutdownTimer := time\<rparr>)"

definition ShutdownCancel :: "world \<Rightarrow> world" where
  "ShutdownCancel w =
     (if wo_shutdownTimer w = 0 then w else w\<lparr>wo_idleMode := False, wo_shutdownTimer := 0\<rparr>)"

text \<open>The kicked sessions, then every session of the table; one that is over is deleted and erased.\<close>

definition delete_kicked :: "unit game" where
  "delete_kicked =
     gbind (gget w_kicked) (\<lambda>ks. gthen (gfor ks delete_session) (gmod (\<lambda>s. s\<lparr>w_kicked := []\<rparr>)))"

fun update_sessions :: "env \<Rightarrow> u32 \<Rightarrow> (u32 \<times> nat option) list \<Rightarrow> server \<Rightarrow> server res option" where
  "update_sessions E diff [] s = Some (Inr s)"
| "update_sessions E diff ((n, None) # m) s = update_sessions E diff m s"
| "update_sessions E diff ((n, Some ss) # m) s =
     (case WorldSession_Update E diff ss s of
        None \<Rightarrow> None
      | Some (Inl e) \<Rightarrow> Some (Inl e)
      | Some (Inr (True, s)) \<Rightarrow> update_sessions E diff m s
      | Some (Inr (False, s)) \<Rightarrow>
          (case delete_session ss s of
             Inl e \<Rightarrow> Some (Inl e)
           | Inr (_, s) \<Rightarrow> update_sessions E diff m (s\<lparr>w_sessions := map_del n (w_sessions s)\<rparr>)))"

definition sessions_tick :: "env \<Rightarrow> u32 \<Rightarrow> server \<Rightarrow> server res option" where
  "sessions_tick E diff s =
     (case delete_kicked s of
        Inl e \<Rightarrow> Some (Inl e)
      | Inr (_, s) \<Rightarrow> update_sessions E diff (w_sessions s) s)"

definition objects_tick :: "(u32 \<Rightarrow> unit game) \<Rightarrow> env \<Rightarrow> u32 \<Rightarrow> unit game" where
  "objects_tick physics E diff =
     gthen (gbind (gget om_objectTable) (\<lambda>objs. gwhen (objs \<noteq> []) (physics diff))) (Accessor_Update E diff)"

definition reset_timer :: "nat \<Rightarrow> world \<Rightarrow> world" where
  "reset_timer i w = w\<lparr>wo_timers := (wo_timers w)[i := timer_Reset (wo_timers w ! i)]\<rparr>"

definition World_Update :: "(u32 \<Rightarrow> unit game) \<Rightarrow> env \<Rightarrow> u32 \<Rightarrow> world \<Rightarrow> world res option" where
  "World_Update physics E diff w =
     (let w = w\<lparr>wo_timers := map (\<lambda>t. if it_current t \<ge> 0 then timer_Update (uint diff) t else t\<lparr>it_current := 0\<rparr>) (wo_timers w)\<rparr>;
          w = UpdateGameTime (e_time E) w;
          run = (if timer_Passed (wo_timers w ! WUPDATE_SESSIONS)
                 then map_option (map_sum id (\<lambda>s. (reset_timer WUPDATE_SESSIONS w)\<lparr>wo_server := s\<rparr>)) (sessions_tick E diff (wo_server w))
                 else Some (Inr w))
      in case run of
           None \<Rightarrow> None
         | Some (Inl e) \<Rightarrow> Some (Inl e)
         | Some (Inr w) \<Rightarrow>
             if timer_Passed (wo_timers w ! WUPDATE_OBJECTS)
             then Some (rmap (\<lambda>(_, s). (reset_timer WUPDATE_OBJECTS w)\<lparr>wo_server := s\<rparr>) (objects_tick physics E diff (wo_server w)))
             else Some (Inr w))"

text \<open>The time of a tick, from the readings of a clock of milliseconds that wraps around.\<close>

definition tick_diff :: "u32 \<Rightarrow> u32 \<Rightarrow> u32" where
  "tick_diff prev now = (if prev > now then 0xFFFFFFFF - (prev - now) else now - prev)"

end
