(* ===== verification/Game_Frame.thy ===== *)
theory Game_Frame
  imports World_Update
begin

text \<open>
  What no step of the game does. \<open>stays R m\<close> says that the step \<open>m\<close>, when it succeeds, leads from a state
  to one related to it by \<open>R\<close>. A ladder of locales states which relations a step stays within; in each of them the
  operations it covers are proved once for all its relations:

  \<^item> \<open>step_order\<close>: a preorder; the combinators, and everything that only reads.
  \<^item> \<open>send_frame\<close>: it allows the changes of sessions and of the socket's queue that sending makes.
  \<^item> \<open>step_frame\<close>: it allows the changes the operations of the game are built from, namely
    of the tables of objects and players, of objects as long as their health and mana stay within their bounds, and of units and
    players as long as they stay well-formed.
  \<^item> \<open>game_frame\<close>: it allows respawning, where a player gets new bounds, with its health and mana set before
    them. Every operation of the game up to the handlers of messages and the update of objects is within it.

  The interpretations on the model are in the theories that use them: that sending changes nothing but sessions
  and the socket's queue, that no operation touches the network side, and that objects, units and players
  stay well-formed.
\<close>

section \<open>Well-formed objects, units and players\<close>

definition i16 :: "int \<Rightarrow> bool" where
  "i16 n \<longleftrightarrow> - 32768 \<le> n \<and> n < 32768"

definition unit_ok :: "nox_unit \<Rightarrow> bool" where
  "unit_ok un \<longleftrightarrow>
     length (un_equipment un) = SLOT_SIZE \<and> length (un_aura_times un) = ENCHANT_SIZE \<and>
     (\<forall>t\<in>set (un_aura_times un). i16 t) \<and> 0 \<le> un_action_time un \<and> 0 \<le> un_animTimer un \<and>
     - 1 \<le> un_animFrames un"

definition info_ok :: "player_info \<Rightarrow> bool" where
  "info_ok i \<longleftrightarrow> length (pi_name i) = 66 \<and> length (pi_info i) = 29 \<and> length (pi_unk1 i) = 12 \<and> length (pi_username i) = 9"

definition player_ok :: "nox_player \<Rightarrow> bool" where
  "player_ok p \<longleftrightarrow> length (pl_ability_delays p) = 5 \<and> info_ok (pl_info p)"

text \<open>Health and mana are never above their maximum, or above zero if that is negative.\<close>

definition vital_ok :: "nox_object \<Rightarrow> bool" where
  "vital_ok ob \<longleftrightarrow> ob_health ob \<le> max 0 (ob_max_health ob) \<and> ob_mana ob \<le> max 0 (ob_max_mana ob)"

definition session_frame :: "session \<Rightarrow> session \<Rightarrow> bool" where
  "session_frame st st' \<longleftrightarrow> ss_recvQueue st' = ss_recvQueue st \<and> ss_accountId st' = ss_accountId st"

definition stays :: "(server \<Rightarrow> server \<Rightarrow> bool) \<Rightarrow> 'a game \<Rightarrow> bool" where
  "stays R m \<longleftrightarrow> (\<forall>s x s'. m s = Inr (x, s') \<longrightarrow> R s s')"

definition stays_from :: "(server \<Rightarrow> server \<Rightarrow> bool) \<Rightarrow> server \<Rightarrow> 'a game \<Rightarrow> bool" where
  "stays_from R s m \<longleftrightarrow> (\<forall>x s'. m s = Inr (x, s') \<longrightarrow> R s s')"

lemma staysI: "(\<And>s x s'. m s = Inr (x, s') \<Longrightarrow> R s s') \<Longrightarrow> stays R m"
  by (simp add: stays_def)

lemma staysD: "stays R m \<Longrightarrow> m s = Inr (x, s') \<Longrightarrow> R s s'"
  by (simp add: stays_def)

named_theorems frames \<open>steps within a relation\<close>
named_theorems frame_simps \<open>side conditions of the frame rules\<close>

lemma i16_simps [frame_simps]: "i16 0" "i16 (to_i16 n)" "i16 t \<Longrightarrow> 0 < t \<Longrightarrow> i16 (t - 1)" "i16 (aura_frames e n)"
proof -
  have to: "i16 (to_i16 m)" for m
    using sint_greater_eq [of "word_of_int m :: u16"] sint_less [of "word_of_int m :: u16"]
    by (simp add: i16_def to_i16_def)
  then show "i16 0" "i16 (to_i16 n)" "i16 t \<Longrightarrow> 0 < t \<Longrightarrow> i16 (t - 1)" by (simp_all add: i16_def)
  show "i16 (aura_frames e n)" using to by (simp add: aura_frames_def Let_def)
qed

lemma unit_ok_times [frame_simps]:
  "unit_ok un \<Longrightarrow> i16 t \<Longrightarrow> unit_ok (un\<lparr>un_aura_times := (un_aura_times un)[e := t]\<rparr>)"
  by (auto simp: unit_ok_def dest: set_update_subset_insert [THEN subsetD])

lemma unit_ok_auras [frame_simps]:
  "unit_ok un \<Longrightarrow> unit_ok (clear_aura e un)"
  "unit_ok un \<Longrightarrow> i16 t \<Longrightarrow> unit_ok (set_aura e t un)"
  by (auto simp: unit_ok_def clear_aura_def set_aura_def i16_simps dest: set_update_subset_insert [THEN subsetD])

lemma vital_ok_simps [frame_simps]:
  "vital_ok ob \<Longrightarrow> vital_ok (apply_delta ob)" "vital_ok ob \<Longrightarrow> vital_ok (drain_mana d ob)"
  "vital_ok ob \<Longrightarrow> vital_ok (ob\<lparr>ob_health := 0\<rparr>)" "vital_ok (blank_object kind type pos extent cmask)"
  by (auto simp: vital_ok_def apply_delta_def drain_mana_def Let_def blank_object_def)

lemmas ok_defs = vital_ok_def unit_ok_def player_ok_def info_ok_def session_frame_def

lemma count_delays_length [frame_simps]: "length (count_delays ds) = length ds"
  by (simp add: count_delays_def)

lemma init_ok: "unit_ok init_unit" "player_ok (init_player ss)"
  by (simp_all add: unit_ok_def init_unit_def i16_simps player_ok_def init_player_def init_info_def info_ok_def)

lemma unit_ok_count:
  assumes "unit_ok un" "0 < un_aura_times un ! i"
  shows "unit_ok (un\<lparr>un_aura_times := (un_aura_times un)[i := un_aura_times un ! i - 1]\<rparr>)"
proof (cases "i < ENCHANT_SIZE")
  case True
  then show ?thesis using assms by (intro unit_ok_times i16_simps) (auto simp: unit_ok_def)
next
  case False
  then show ?thesis using assms(1) by (simp add: unit_ok_def list_update_beyond)
qed

lemma session_frames [frame_simps]:
  "session_frame st (LogoutRequest t st)" "session_frame st (connection_timer diff st)"
  by (simp_all add: session_frame_def LogoutRequest_def connection_timer_def)

lemma unit_ok_nth: "unit_ok un \<Longrightarrow> e < ENCHANT_SIZE \<Longrightarrow> i16 (un_aura_times un ! e)"
  by (simp add: unit_ok_def)

section \<open>Preorders\<close>

locale step_order =
  fixes R :: "server \<Rightarrow> server \<Rightarrow> bool"
  assumes same: "R s s"
    and trans: "R s s' \<Longrightarrow> R s' s'' \<Longrightarrow> R s s''"
begin

section \<open>The combinators\<close>

lemma stays_ret [frames]: "stays R (gret x)"
  by (auto simp: stays_def same)

lemma stays_fail [frames]: "stays R (gfail e)"
  by (simp add: stays_def gfail_def)

lemma stays_get [frames]: "stays R (gget f)"
  by (auto simp: stays_def gget_def same)

lemma stays_lift [frames]: "stays R (glift m)"
  by (cases m) (auto simp: stays_def glift_def same)

lemma stays_bind: "stays R m \<Longrightarrow> (\<And>s x s'. m s = Inr (x, s') \<Longrightarrow> stays R (f x)) \<Longrightarrow> stays R (gbind m f)"
  unfolding stays_def gbind_Inr_iff by (blast intro: trans)

lemma stays_bind_any [frames]: "stays R m \<Longrightarrow> (\<And>x. stays R (f x)) \<Longrightarrow> stays R (gbind m f)"
  by (rule stays_bind)

lemma stays_then [frames]: "stays R m \<Longrightarrow> stays R n \<Longrightarrow> stays R (gthen m n)"
  by (simp add: gthen_def stays_bind)

lemma stays_void [frames]: "stays R m \<Longrightarrow> stays R (gvoid m)"
  by (simp add: gvoid_def stays_then stays_ret)

lemma stays_when [frames]: "(c \<Longrightarrow> stays R m) \<Longrightarrow> stays R (gwhen c m)"
  by (simp add: gwhen_def stays_ret)

lemma stays_if [frames]: "(c \<Longrightarrow> stays R m) \<Longrightarrow> (\<not> c \<Longrightarrow> stays R n) \<Longrightarrow> stays R (if c then m else n)"
  by simp

lemma stays_let [frames]: "(\<And>x. x = e \<Longrightarrow> stays R (f x)) \<Longrightarrow> stays R (Let e f)"
  by simp

lemma stays_prod [frames]: "(\<And>x y. p = (x, y) \<Longrightarrow> stays R (f x y)) \<Longrightarrow> stays R (case p of (x, y) \<Rightarrow> f x y)"
  by (cases p) simp

lemma stays_option [frames]:
  "(p = None \<Longrightarrow> stays R m) \<Longrightarrow> (\<And>x. p = Some x \<Longrightarrow> stays R (f x)) \<Longrightarrow>
   stays R (case p of None \<Rightarrow> m | Some x \<Rightarrow> f x)"
  by (cases p) auto

lemma stays_list [frames]:
  "(xs = [] \<Longrightarrow> stays R m) \<Longrightarrow> (\<And>x ys. xs = x # ys \<Longrightarrow> stays R (f x ys)) \<Longrightarrow>
   stays R (case xs of [] \<Rightarrow> m | x # ys \<Rightarrow> f x ys)"
  by (cases xs) auto

lemma stays_kind [frames]:
  "stays R m \<Longrightarrow> stays R n \<Longrightarrow> stays R p \<Longrightarrow> (\<And>x y z. stays R (f x y z)) \<Longrightarrow> stays R q \<Longrightarrow>
   stays R (case k of KObject \<Rightarrow> m | KWorldObject \<Rightarrow> n | KPlayer \<Rightarrow> p | KMagic x y z \<Rightarrow> f x y z | KWall \<Rightarrow> q)"
  by (cases k) auto

lemma stays_for [frames]: "(\<And>x. x \<in> set xs \<Longrightarrow> stays R (f x)) \<Longrightarrow> stays R (gfor xs f)"
  by (induction xs) (auto intro: frames)

lemma stays_Nil [frames]: "stays R (gseq [])"
  by (simp add: frames)

lemma stays_Cons [frames]: "stays R m \<Longrightarrow> stays R (gseq ms) \<Longrightarrow> stays R (gseq (m # ms))"
  by (simp add: frames)

lemma stays_filter [frames]: "(\<And>x. stays R (f x)) \<Longrightarrow> stays R (gfilter f xs)"
  by (induction xs) (auto intro!: frames)

lemma stays_mod [frames]: "(\<And>s. R s (f s)) \<Longrightarrow> stays R (gmod f)"
  by (auto simp: stays_def gmod_def)

lemma stays_heaps [frames]:
  "stays R (get_object a)" "stays R (get_unit a)" "stays R (get_player a)" "stays R (get_session a)" "stays R (deref p)"
  by (auto simp: stays_def get_object_def get_unit_def get_player_def get_session_def deref_def same step_simps
      split: option.splits)

end

section \<open>Sending\<close>

text \<open>The relations that allow what sending does: the socket's queue, and sessions but for their own queue and account.\<close>

locale send_frame = step_order +
  assumes queue: "R s (s\<lparr>ws_sendQueue := q\<rparr>)"
    and sessions: "sv_sessions s a = Some st \<Longrightarrow> session_frame st st' \<Longrightarrow>
      R s (s\<lparr>sv_sessions := (sv_sessions s)(a \<mapsto> st')\<rparr>)"
begin

lemma stays_upd_session [frames]: "(\<And>st. session_frame st (f st)) \<Longrightarrow> stays R (upd_session a f)"
  by (auto simp: stays_def upd_session_def get_session_def step_simps intro!: sessions split: option.splits)

lemma flush_frame: "flush_packet st = (out, st') \<Longrightarrow> session_frame st st'"
  by (auto simp: flush_packet_def Let_def session_frame_def)

lemma send_session_frame: "SendPacket packet ifReady changeUnk st = Inr (packet', out, st') \<Longrightarrow> session_frame st st'"
  by (auto simp: SendPacket_def Let_def session_frame_def flush_if_other_def flush_packet_def rbind_Inr_iff
      split: if_splits)

lemma sessions_queue:
  "sv_sessions s a = Some st \<Longrightarrow> session_frame st st' \<Longrightarrow>
   R s (s\<lparr>sv_sessions := (sv_sessions s)(a \<mapsto> st'), ws_sendQueue := q\<rparr>)"
  using trans [OF sessions queue] by simp

lemma stays_session_send [frames]: "stays R (session_send a packet ifReady changeUnk)"
  unfolding session_send_def
  by (auto simp: stays_def gbind_Inr_iff gthen_Inr_iff get_session_def glift_def gmod_def rmap_Inr_iff
      intro!: sessions_queue send_session_frame split: option.splits)

lemma stays_session_flush [frames]: "stays R (session_flush a)"
  by (auto simp: stays_def session_flush_def get_session_def step_simps
      intro!: sessions_queue flush_frame split: option.splits prod.splits)

lemma stays_GetExtent [frames]:
  "stays R (GetExtent a)" "stays R (GetType a)" "stays R (GetPosition a)" "stays R (GetPositionX a)"
  "stays R (GetPositionY a)" "stays R (GetObjectInfo E a)"
  unfolding GetExtent_def GetType_def GetPosition_def GetPositionX_def GetPositionY_def GetObjectInfo_def
  by (intro frames queue; (fastforce simp: frame_simps | fastforce simp: frame_simps ok_defs))+

lemma stays_IsImmobile [frames]:
  "stays R (IsImmobile E a)" "stays R (GetImmobileObj extent)"
  unfolding IsImmobile_def GetImmobileObj_def
  by (intro frames queue; (fastforce simp: frame_simps | fastforce simp: frame_simps ok_defs))+

lemma stays_GetObj [frames]:
  "stays R (GetObj E extent)" "stays R (IsExtentAvailable extent)" "stays R RequestExtent"
  "stays R (ContainsObject obj)" "stays R (GetObjectsInRect E leftTop rightBottom)"
  unfolding GetObj_def IsExtentAvailable_def RequestExtent_def ContainsObject_def GetObjectsInRect_def
  by (intro frames queue; (fastforce simp: frame_simps | fastforce simp: frame_simps ok_defs))+

lemma stays_Object_BuildUpdatePacket [frames]:
  "stays R (Object_BuildUpdatePacket E a packet)" "stays R (Object_BuildHealthPacket a packet)"
  "stays R (BuildDeltaHealthPacket a packet)" "stays R (BuildEquipPacket a armor slot modifier packet)"
  "stays R (BuildDequipPacket a armor slot packet)" "stays R (BuildEnchantsPacket a packet)"
  "stays R (ObjectToUnitArmor E obj)" "stays R (Player_BuildUpdatePacket a packet)"
  "stays R (BuildNewPlayerPacket a packet)" "stays R (player_session a)"
  unfolding Object_BuildUpdatePacket_def Object_BuildHealthPacket_def BuildDeltaHealthPacket_def
    BuildEquipPacket_def BuildDequipPacket_def BuildEnchantsPacket_def ObjectToUnitArmor_def
    Player_BuildUpdatePacket_def BuildNewPlayerPacket_def player_session_def
  by (intro frames queue; (fastforce simp: frame_simps | fastforce simp: frame_simps ok_defs))+

lemma stays_BuildClientStatusPacket [frames]:
  "stays R (BuildClientStatusPacket a packet)" "stays R (BuildResetAbilityPacket ability packet)"
  "stays R (IsAbilityReady a ability)"
  unfolding BuildClientStatusPacket_def BuildResetAbilityPacket_def IsAbilityReady_def
  by (intro frames queue; (fastforce simp: frame_simps | fastforce simp: frame_simps ok_defs))+

lemma stays_BuildAbilityStatePacket [frames]:
  "stays R (BuildAbilityStatePacket a ability packet)" "stays R (Player_BuildHealthPacket a packet)"
  "stays R (BuildMyHealthPacket a packet)" "stays R (BuildTotalHealthPacket a packet)"
  "stays R (BuildManaPacket a packet)" "stays R (BuildTotalManaPacket a packet)"
  "stays R (BuildStatsPacket a packet)"
  unfolding BuildAbilityStatePacket_def Player_BuildHealthPacket_def BuildMyHealthPacket_def
    BuildTotalHealthPacket_def BuildManaPacket_def BuildTotalManaPacket_def BuildStatsPacket_def
  by (intro frames queue; (fastforce simp: frame_simps | fastforce simp: frame_simps ok_defs))+

lemma stays_send_player [frames]:
  "stays R (send_player pl packet)"
  unfolding send_player_def
  by (intro frames queue; (fastforce simp: frame_simps | fastforce simp: frame_simps ok_defs))+

lemma stays_send_each [frames]: "stays R (send_each pls packet)"
  by (induction pls arbitrary: packet) (auto intro!: frames)

lemma stays_SendPacketToAll [frames]:
  "stays R (SendPacketToAll packet)"
  unfolding SendPacketToAll_def
  by (intro frames queue; (fastforce simp: frame_simps | fastforce simp: frame_simps ok_defs))+

lemma stays_send_team [frames]: "stays R (send_team team pls packet)"
  by (induction pls arbitrary: packet) (auto intro!: frames)

lemma stays_SendPacketToTeam [frames]:
  "stays R (SendPacketToTeam packet teamId)" "stays R (send_new ss ifReady packet fs)"
  unfolding SendPacketToTeam_def send_new_def
  by (intro frames queue; (fastforce simp: frame_simps | fastforce simp: frame_simps ok_defs))+

lemma stays_send_self [frames]:
  "stays R (send_self pl packet fs)"
  unfolding send_self_def
  by (intro frames queue; (fastforce simp: frame_simps | fastforce simp: frame_simps ok_defs))+

lemma stays_SendAudioPlayerEvent [frames]:
  "stays R (SendAudioPlayerEvent ss sound volume balance)" "stays R (CanSeePoint a x y)"
  unfolding SendAudioPlayerEvent_def CanSeePoint_def
  by (intro frames queue; (fastforce simp: frame_simps | fastforce simp: frame_simps ok_defs))+

lemma stays_PlayersCanSeePoint [frames]:
  "stays R (PlayersCanSeePoint x y)" "stays R (EmitSoundEvent E soundevent obj)"
  unfolding PlayersCanSeePoint_def EmitSoundEvent_def
  by (intro frames queue; (fastforce simp: frame_simps | fastforce simp: frame_simps ok_defs))+

lemma stays_EmitSound [frames]:
  "stays R (EmitSound E a soundevent)"
  unfolding EmitSound_def
  by (intro frames queue; (fastforce simp: frame_simps | fastforce simp: frame_simps ok_defs))+

lemma stays_FindPlayer [frames]:
  "stays R (FindPlayer extent)"
  unfolding FindPlayer_def
  by (intro frames queue; (fastforce simp: frame_simps | fastforce simp: frame_simps ok_defs))+

lemma stays_find_by_name [frames]: "stays R (find_by_name name pls)"
  by (induction pls) (auto intro!: frames)

lemma stays_FindPlayerByName [frames]:
  "stays R (FindPlayerByName name)" "stays R (send_info ss pl packet)"
  unfolding FindPlayerByName_def send_info_def
  by (intro frames queue; (fastforce simp: frame_simps | fastforce simp: frame_simps ok_defs))+

lemma stays_send_infos [frames]: "stays R (send_infos ss self pls packet)"
  by (induction pls arbitrary: packet) (auto intro!: frames)

lemma stays_SendPlayerInfo [frames]:
  "stays R (SendPlayerInfo ss)"
  unfolding SendPlayerInfo_def
  by (intro frames queue; (fastforce simp: frame_simps | fastforce simp: frame_simps ok_defs))+

lemma stays_InAnInventory [frames]:
  "stays R (InAnInventory a)" "stays R (InMyInventory a obj)"
  unfolding InAnInventory_def InMyInventory_def
  by (intro frames queue; (fastforce simp: frame_simps | fastforce simp: frame_simps ok_defs))+

lemma stays_HasEnchant [frames]:
  "stays R (HasEnchant a enchant)"
  unfolding HasEnchant_def
  by (intro frames queue; (fastforce simp: frame_simps | fastforce simp: frame_simps ok_defs))+

lemma stays_IsPoisoned [frames]:
  "stays R (IsPoisoned a)" "stays R (Unit_CanMove a)"
  unfolding IsPoisoned_def Unit_CanMove_def
  by (intro frames queue; (fastforce simp: frame_simps | fastforce simp: frame_simps ok_defs))+

lemma stays_CanMove [frames]:
  "stays R (CanMove a)"
  unfolding CanMove_def
  by (intro frames queue; (fastforce simp: frame_simps | fastforce simp: frame_simps ok_defs))+

lemma stays_send_built [frames]: "(\<And>packet. stays R (f packet)) \<Longrightarrow> stays R (send_built f)"
  unfolding send_built_def by (intro frames)

lemma stays_self_sound [frames]:
  "stays R (self_sound plr sound)"
  unfolding self_sound_def
  by (intro frames queue; (fastforce simp: frame_simps | fastforce simp: frame_simps ok_defs))+

lemma stays_SendPlayerRespawnOpcode [frames]:
  "stays R (SendPlayerRespawnOpcode ss)" "stays R (SendClientStatusOpcode ss)"
  unfolding SendPlayerRespawnOpcode_def SendClientStatusOpcode_def
  by (intro frames queue; (fastforce simp: frame_simps | fastforce simp: frame_simps ok_defs))+

lemma stays_report_mana [frames]:
  "stays R (report_mana a)"
  unfolding report_mana_def
  by (intro frames queue; (fastforce simp: frame_simps | fastforce simp: frame_simps ok_defs))+

lemma stays_HasEnoughMana [frames]:
  "stays R (HasEnoughMana plr cost)" "stays R (SendFxDeathRaySpell ss x y x2 y2)" "stays R (type_is_player a)"
  unfolding HasEnoughMana_def SendFxDeathRaySpell_def type_is_player_def
  by (intro frames queue; (fastforce simp: frame_simps | fastforce simp: frame_simps ok_defs))+

lemma stays_rd8 [frames]:
  "stays R (rd8 packet)" "stays R (rd16 packet)" "stays R (rd32 packet)" "stays R (rdn n packet)"
  unfolding rd8_def rd16_def rd32_def rdn_def
  by (intro frames queue; (fastforce simp: frame_simps | fastforce simp: frame_simps ok_defs))+

lemma stays_skip [frames]: "stays R (skip ns packet)"
  by (induction ns arbitrary: packet) (auto intro!: frames)

lemma stays_the_player [frames]:
  "stays R (the_player ss)" "stays R (send_now ss opcode n fs)"
  unfolding the_player_def send_now_def
  by (intro frames queue; (fastforce simp: frame_simps | fastforce simp: frame_simps ok_defs))+

lemma stays_SendFullTimestampOpcode [frames]:
  "stays R (SendFullTimestampOpcode ss)" "stays R (SendJoinDataOpcode ss)" "stays R (SendGameSettings2Opcode ss)"
  "stays R (SendGameSettingsOpcode ss)" "stays R (SendNewPlayerOpcode ss)" "stays R (SendUseMapOpcode E ss)"
  "stays R (SendPartialTimestampOpcode ss)" "stays R (SendFadeBeginOpcode ss)"
  "stays R (SendImportantAckOpcode ss timestamp)" "stays R (SendReportSpellStart ss spell)"
  "stays R (SendFxDurationSpell ss type x y)" "stays R (SendMapSendStart E ss)"
  unfolding SendFullTimestampOpcode_def SendJoinDataOpcode_def SendGameSettings2Opcode_def
    SendGameSettingsOpcode_def SendNewPlayerOpcode_def SendUseMapOpcode_def SendPartialTimestampOpcode_def
    SendFadeBeginOpcode_def SendImportantAckOpcode_def SendReportSpellStart_def SendFxDurationSpell_def
    SendMapSendStart_def
  by (intro frames queue; (fastforce simp: frame_simps | fastforce simp: frame_simps ok_defs))+

lemma stays_SendMapSendPacket [frames]:
  "stays R (SendMapSendPacket E ss)" "stays R (HandleJoinConfirmation ss)"
  unfolding SendMapSendPacket_def HandleJoinConfirmation_def
  by (intro frames queue; (fastforce simp: frame_simps | fastforce simp: frame_simps ok_defs))+

end

section \<open>Changes of the game\<close>

locale step_frame = send_frame +
  assumes registry: "R s (s\<lparr>om_objectTable := t\<rparr>)" "R s (s\<lparr>om_objectExtents := x\<rparr>)" "R s (s\<lparr>om_playerList := l\<rparr>)"
    and accessor: "R s (s\<lparr>oa_players := pls\<rparr>)" "R s (s\<lparr>oa_objects := l\<rparr>)" "R s (s\<lparr>oa_objectsToRemove := l\<rparr>)"
    and address: "R s (s\<lparr>sv_next := Suc (sv_next s)\<rparr>)"
    and objects: "sv_objects s a = Some ob \<Longrightarrow> (vital_ok ob \<Longrightarrow> vital_ok ob') \<Longrightarrow>
      R s (s\<lparr>sv_objects := (sv_objects s)(a \<mapsto> ob')\<rparr>)"
    and born: "vital_ok ob \<Longrightarrow> R s (s\<lparr>sv_objects := (sv_objects s)(a \<mapsto> ob)\<rparr>)"
    and units: "sv_units s a = Some un \<Longrightarrow> (unit_ok un \<Longrightarrow> unit_ok un') \<Longrightarrow>
      R s (s\<lparr>sv_units := (sv_units s)(a \<mapsto> un')\<rparr>)"
    and players: "sv_players s a = Some p \<Longrightarrow> (player_ok p \<Longrightarrow> player_ok p') \<Longrightarrow>
      R s (s\<lparr>sv_players := (sv_players s)(a \<mapsto> p')\<rparr>)"
    and spawn: "unit_ok un \<Longrightarrow> player_ok p \<Longrightarrow>
      R s (s\<lparr>sv_units := (sv_units s)(a \<mapsto> un), sv_players := (sv_players s)(a \<mapsto> p)\<rparr>)"
    and free: "R s (s\<lparr>sv_objects := (sv_objects s)(a := None), sv_units := (sv_units s)(a := None),
      sv_players := (sv_players s)(a := None)\<rparr>)"
begin

lemma stays_new_address [frames]: "stays R new_address"
  by (simp add: stays_def new_address_def address step_simps)

lemma stays_upd_object [frames]: "(\<And>ob. vital_ok ob \<Longrightarrow> vital_ok (f ob)) \<Longrightarrow> stays R (upd_object a f)"
  by (auto simp: stays_def upd_object_def get_object_def step_simps intro!: objects split: option.splits)

lemma stays_upd_unit [frames]: "(\<And>un. unit_ok un \<Longrightarrow> unit_ok (f un)) \<Longrightarrow> stays R (upd_unit a f)"
  by (auto simp: stays_def upd_unit_def get_unit_def step_simps intro!: units split: option.splits)

text \<open>A unit that was read is the one that is updated next.\<close>

lemma stays_get_unit:
  assumes "\<And>s un. sv_units s a = Some un \<Longrightarrow> stays_from R s (f un)"
  shows "stays R (gbind (get_unit a) f)"
  using assms by (auto simp: stays_def stays_from_def get_unit_def step_simps split: option.splits)

lemma from_if: "(c \<Longrightarrow> stays_from R s m) \<Longrightarrow> (\<not> c \<Longrightarrow> stays_from R s n) \<Longrightarrow> stays_from R s (if c then m else n)"
  by simp

lemma from_when: "(c \<Longrightarrow> stays_from R s m) \<Longrightarrow> stays_from R s (gwhen c m)"
  by (auto simp: gwhen_def stays_from_def same)

lemma from_stays: "stays R m \<Longrightarrow> stays_from R s m"
  by (simp add: stays_def stays_from_def)

lemma from_upd_unit: "sv_units s a = Some un \<Longrightarrow> (unit_ok un \<Longrightarrow> unit_ok (f un)) \<Longrightarrow> stays_from R s (upd_unit a f)"
  by (auto simp: stays_from_def upd_unit_def get_unit_def step_simps intro!: units split: option.splits)

lemma stays_upd_player [frames]: "(\<And>p. player_ok p \<Longrightarrow> player_ok (f p)) \<Longrightarrow> stays R (upd_player a f)"
  by (auto simp: stays_def upd_player_def get_player_def step_simps intro!: players split: option.splits)

section \<open>Object Mgr\<close>

lemma stays_set_extent [frames]: "stays R (set_extent extent p)"
  unfolding set_extent_def by (intro frames registry)

lemma stays_AddObject [frames]: "stays R (AddObject E obj)"
  unfolding AddObject_def by (intro frames registry) (simp add: vital_ok_def)

lemma stays_RemoveObject [frames]: "stays R (RemoveObject obj)"
  unfolding RemoveObject_def by (intro frames registry)

lemma stays_ChangeObjectExtent [frames]:
  "stays R (ChangeObjectExtent E obj newExtent)"
  unfolding ChangeObjectExtent_def
  by (intro frames queue; (fastforce simp: frame_simps | fastforce simp: frame_simps ok_defs))+

lemma stays_update_objects [frames]: "stays R (AddUpdateObject obj)" "stays R (RemoveUpdateObject obj)"
  unfolding AddUpdateObject_def RemoveUpdateObject_def by (intro frames accessor)+

lemma stays_AddToWorld [frames]:
  "stays R (AddToWorld E obj)" "stays R (RemoveFromWorld obj)"
  unfolding AddToWorld_def RemoveFromWorld_def
  by (intro frames queue; (fastforce simp: frame_simps | fastforce simp: frame_simps ok_defs))+

lemma stays_new_object [frames]: "stays R (new_object E kind type pos extent)"
  unfolding new_object_def by (intro frames born vital_ok_simps)

lemma stays_delete_object [frames]: "stays R (delete_object a)"
  unfolding delete_object_def by (intro frames free)

section \<open>Object Accessor\<close>

lemma stays_Player_AddUpdateObject [frames]:
  "stays R (Player_AddUpdateObject pl obj)" "stays R (ObjectOutOfSight pl obj)"
  "stays R (ObjectDestroyed pl obj)"
  unfolding Player_AddUpdateObject_def ObjectOutOfSight_def ObjectDestroyed_def
  by (intro frames queue; (fastforce simp: frame_simps | fastforce simp: frame_simps ok_defs))+

lemma stays_remove_list [frames]: "stays R (AddObjectToRemoveList obj)" "stays R (remove_one obj)"
  unfolding AddObjectToRemoveList_def remove_one_def by (intro frames accessor)+

lemma stays_RemoveAllObjectsInRemoveList [frames]:
  "stays R RemoveAllObjectsInRemoveList" "stays R (see_other pl pl2)"
  unfolding RemoveAllObjectsInRemoveList_def see_other_def
  by (intro frames queue; (fastforce simp: frame_simps | fastforce simp: frame_simps ok_defs))+

lemma stays_accessor_update [frames]:
  "stays R accessor_update"
  unfolding accessor_update_def
  by (intro frames queue; (fastforce simp: frame_simps | fastforce simp: frame_simps ok_defs))+

lemma stays_player_table [frames]: "stays R (InsertPlayer pl)" "stays R (RemovePlayer pl)"
  unfolding InsertPlayer_def RemovePlayer_def by (intro frames accessor)+

section \<open>World Objects\<close>

lemma stays_SetPosition [frames]:
  "stays R (SetPosition a position)"
  unfolding SetPosition_def
  by (intro frames queue; (fastforce simp: frame_simps | fastforce simp: frame_simps ok_defs))+

lemma stays_AddToInventory [frames]:
  "stays R (AddToInventory a p)" "stays R (Object_RemoveFromInventory a obj newPos)"
  unfolding AddToInventory_def Object_RemoveFromInventory_def
  by (intro frames queue; (fastforce simp: frame_simps | fastforce simp: frame_simps ok_defs))+

lemma stays_Object_Pickup [frames]:
  "stays R (Object_Pickup a p max_dist)"
  unfolding Object_Pickup_def
  by (intro frames queue; (fastforce simp: frame_simps | fastforce simp: frame_simps ok_defs))+

lemma stays_Damage [frames]:
  "stays R (Damage a damage)"
  unfolding Damage_def
  by (intro frames queue; (fastforce simp: frame_simps | fastforce simp: frame_simps ok_defs))+

lemma stays_Heal [frames]:
  "stays R (Heal a heal)"
  unfolding Heal_def
  by (intro frames queue; (fastforce simp: frame_simps | fastforce simp: frame_simps ok_defs))+

lemma stays_ManaDrain [frames]:
  "stays R (ManaDrain a damage)"
  unfolding ManaDrain_def
  by (intro frames queue; (fastforce simp: frame_simps | fastforce simp: frame_simps ok_defs))+

section \<open>Units\<close>

lemma stays_mark_update [frames]:
  "stays R (mark_update a m)"
  unfolding mark_update_def
  by (intro frames queue; (fastforce simp: frame_simps | fastforce simp: frame_simps ok_defs))+

lemma stays_UnsetEnchant [frames]:
  "stays R (UnsetEnchant E a enchant)" "stays R (Unit_SetEnchant E a enchant frames)"
  unfolding UnsetEnchant_def Unit_SetEnchant_def
  by (intro frames queue; (fastforce simp: frame_simps | fastforce simp: frame_simps ok_defs))+

lemma stays_SetEnchant [frames]:
  "stays R (SetEnchant E a enchant frames)" "stays R (ResetEnchants a)"
  "stays R (Unit_Poison a poisoned poisoner)"
  unfolding SetEnchant_def ResetEnchants_def Unit_Poison_def
  by (intro frames queue; (fastforce simp: frame_simps | fastforce simp: frame_simps ok_defs))+

lemma stays_Poison [frames]:
  "stays R (Poison a poisoned poisoner)" "stays R (ResetActionAnim a)"
  unfolding Poison_def ResetActionAnim_def
  by (intro frames queue; (fastforce simp: frame_simps | fastforce simp: frame_simps ok_defs))+

lemma stays_SetActionAnim [frames]:
  "stays R (SetActionAnim a anim frames)" "stays R (MoveToward a x y speed)" "stays R (SetAngle a angle)"
  "stays R (Unit_Dequip E a p)"
  unfolding SetActionAnim_def MoveToward_def SetAngle_def Unit_Dequip_def
  by (intro frames queue; (fastforce simp: frame_simps | fastforce simp: frame_simps ok_defs))+

lemma stays_Dequip [frames]:
  "stays R (Dequip E a p)"
  unfolding Dequip_def
  by (intro frames queue; (fastforce simp: frame_simps | fastforce simp: frame_simps ok_defs))+

lemma stays_Equip_slot [frames]:
  "stays R (Equip_slot E a p slot)"
  unfolding Equip_slot_def
  by (intro frames queue; (fastforce simp: frame_simps | fastforce simp: frame_simps ok_defs))+

lemma stays_Unit_Equip [frames]:
  "stays R (Unit_Equip E a p)"
  unfolding Unit_Equip_def
  by (intro frames queue; (fastforce simp: frame_simps | fastforce simp: frame_simps ok_defs))+

lemma stays_Equip [frames]:
  "stays R (Equip E a p)" "stays R (EquipSecondary E a p)"
  unfolding Equip_def EquipSecondary_def
  by (intro frames queue; (fastforce simp: frame_simps | fastforce simp: frame_simps ok_defs))+

section \<open>Items\<close>

lemma stays_Player_RemoveFromInventory [frames]:
  "stays R (Player_RemoveFromInventory E a obj newPos)"
  unfolding Player_RemoveFromInventory_def
  by (intro frames queue; (fastforce simp: frame_simps | fastforce simp: frame_simps ok_defs))+

lemma stays_RemoveFromInventory [frames]:
  "stays R (RemoveFromInventory E a obj newPos)"
  unfolding RemoveFromInventory_def
  by (intro frames queue; (fastforce simp: frame_simps | fastforce simp: frame_simps ok_defs))+

lemma stays_Object_Drop [frames]:
  "stays R (Object_Drop E a p newPos)"
  unfolding Object_Drop_def
  by (intro frames queue; (fastforce simp: frame_simps | fastforce simp: frame_simps ok_defs))+

lemma stays_Unit_Drop [frames]:
  "stays R (Unit_Drop E a p max_dist newPos)" "stays R (DropAll E a)"
  unfolding Unit_Drop_def DropAll_def
  by (intro frames queue; (fastforce simp: frame_simps | fastforce simp: frame_simps ok_defs))+

lemma stays_Die [frames]:
  "stays R (Die E a)"
  unfolding Die_def
  by (intro frames queue; (fastforce simp: frame_simps | fastforce simp: frame_simps ok_defs))+

lemma stays_OneSecondDieUpdate [frames]:
  "stays R (OneSecondDieUpdate E a diff)" "stays R (consume E obj plr)" "stays R (potion_effect E info plr)"
  unfolding OneSecondDieUpdate_def consume_def potion_effect_def
  by (intro frames queue; (fastforce simp: frame_simps | fastforce simp: frame_simps ok_defs))+

lemma stays_PotionUse [frames]:
  "stays R (PotionUse E obj plr)" "stays R (ConsumeUse E obj plr)" "stays R (ConsumeConfuseUse E obj plr)"
  "stays R (MushroomUse E obj plr)"
  unfolding PotionUse_def ConsumeUse_def ConsumeConfuseUse_def MushroomUse_def
  by (intro frames queue; (fastforce simp: frame_simps | fastforce simp: frame_simps ok_defs))+

lemma stays_Use [frames]:
  "stays R (Use E obj plr)"
  unfolding Use_def
  by (intro frames queue; (fastforce simp: frame_simps | fastforce simp: frame_simps ok_defs))+

lemma stays_FoodPickup [frames]:
  "stays R (FoodPickup E obj plr)"
  unfolding FoodPickup_def
  by (intro frames queue; (fastforce simp: frame_simps | fastforce simp: frame_simps ok_defs))+

lemma stays_pickup_equip [frames]:
  "(\<And>packet. stays R (build packet)) \<Longrightarrow> stays R (pickup_equip E obj plr slot build)"
  unfolding pickup_equip_def by (intro frames; fastforce simp: ok_defs)

lemma stays_ArmorPickup [frames]:
  "stays R (ArmorPickup E obj plr)" "stays R (WeaponPickup E obj plr)"
  unfolding ArmorPickup_def WeaponPickup_def
  by (intro frames queue; (fastforce simp: frame_simps | fastforce simp: frame_simps ok_defs))+

lemma stays_HandlePickup [frames]:
  "stays R (HandlePickup E obj plr)"
  unfolding HandlePickup_def
  by (intro frames queue; (fastforce simp: frame_simps | fastforce simp: frame_simps ok_defs))+

lemma stays_Player_Pickup [frames]:
  "stays R (Player_Pickup E a p max_dist)"
  unfolding Player_Pickup_def
  by (intro frames queue; (fastforce simp: frame_simps | fastforce simp: frame_simps ok_defs))+

lemma stays_Pickup [frames]:
  "stays R (Pickup E a p max_dist)"
  unfolding Pickup_def
  by (intro frames queue; (fastforce simp: frame_simps | fastforce simp: frame_simps ok_defs))+

lemma stays_NewPickup [frames]:
  "stays R (NewPickup E a type extent)"
  unfolding NewPickup_def
  by (intro frames queue; (fastforce simp: frame_simps | fastforce simp: frame_simps ok_defs))+

section \<open>Players\<close>

lemma stays_new_player [frames]: "stays R (new_player E ss)"
  unfolding new_player_def by (intro frames spawn init_ok) (simp add: vital_ok_def)

lemma stays_ResetAbilityDelays [frames]:
  "stays R (ResetAbilityDelays a)" "stays R (SetAbilityDelay a ability frames)"
  "stays R (SetTreadLightlyMarker a pos)" "stays R (ForceUpdateAll a)"
  "stays R (queue_rect E a leftTop rightBottom)"
  unfolding ResetAbilityDelays_def SetAbilityDelay_def SetTreadLightlyMarker_def ForceUpdateAll_def
    queue_rect_def
  by (intro frames queue; (fastforce simp: frame_simps | fastforce simp: frame_simps ok_defs))+

lemma stays_UpdateView [frames]:
  "stays R (UpdateView E a)" "stays R (BuildUpdatePacket E a packet)"
  unfolding UpdateView_def BuildUpdatePacket_def
  by (intro frames queue; (fastforce simp: frame_simps | fastforce simp: frame_simps ok_defs))+

lemma stays_build_updates [frames]: "stays R (build_updates E as packet)"
  by (induction as arbitrary: packet) (auto intro!: frames)

lemma stays_SendUpdatePacket [frames]:
  "stays R (SendUpdatePacket E a)" "stays R (social a)"
  unfolding SendUpdatePacket_def social_def
  by (intro frames queue; (fastforce simp: frame_simps | fastforce simp: frame_simps ok_defs))+

lemma stays_Laugh [frames]:
  "stays R (Laugh E a)" "stays R (Point E a)" "stays R (Taunt E a)" "stays R (Unit_Attack E a)"
  "stays R (Jump a)" "stays R (RunningJump a)" "stays R (move_anim a anim factor x y)"
  unfolding Laugh_def Point_def Taunt_def Unit_Attack_def Jump_def RunningJump_def move_anim_def
  by (intro frames queue; (fastforce simp: frame_simps | fastforce simp: frame_simps ok_defs))+

lemma stays_towards [frames]:
  "stays R (RunTowards a x y)" "stays R (WalkTowards a x y)" "stays R (TreadTowards a x y)"
  unfolding RunTowards_def WalkTowards_def TreadTowards_def by (intro frames)+

lemma stays_MoveTowards [frames]:
  "stays R (MoveTowards E a x y)"
  unfolding MoveTowards_def
  by (intro frames queue; (fastforce simp: frame_simps | fastforce simp: frame_simps ok_defs))+

lemma stays_give [frames]:
  "stays R (give E a type)"
  unfolding give_def
  by (intro frames queue; (fastforce simp: frame_simps | fastforce simp: frame_simps ok_defs))+

lemma stays_give_known [frames]:
  "stays R (give_known E a name)"
  unfolding give_known_def
  by (intro frames queue; (fastforce simp: frame_simps | fastforce simp: frame_simps ok_defs))+

text \<open>A relation that allows every change of objects allows respawning.\<close>

lemma respawn_any:
  assumes any: "\<And>s a ob. R s (s\<lparr>sv_objects := (sv_objects s)(a \<mapsto> ob)\<rparr>)"
  shows "stays R (Respawn E a)"
proof -
  have upd: "stays R (upd_object a f)" for a f
    by (auto simp: stays_def upd_object_def get_object_def step_simps intro!: any split: option.splits)
  have "stays R (class_outfit E a)"
    unfolding class_outfit_def set_stats_def by (intro frames upd; simp add: unit_ok_def)
  then show ?thesis unfolding Respawn_def by (intro frames upd; simp add: unit_ok_def)
qed

end

section \<open>The interface of all operations\<close>

locale game_frame = step_frame +
  assumes respawn [frames]: "stays R (Respawn E a)"
begin

lemma stays_SetObserving [frames]:
  "stays R (SetObserving ss state)"
  unfolding SetObserving_def
  by (intro frames queue; (fastforce simp: frame_simps | fastforce simp: frame_simps ok_defs))+

lemma stays_Attack [frames]:
  "stays R (Attack E a)"
  unfolding Attack_def
  by (intro frames queue; (fastforce simp: frame_simps | fastforce simp: frame_simps ok_defs))+

section \<open>Game Update\<close>

lemma stays_update_action [frames]: "stays R (update_action E a p_time)"
  unfolding update_action_def
  by (rule stays_bind_any, rule stays_heaps, rule stays_get_unit, intro from_if from_when)
    (rule from_upd_unit from_stays, assumption?, (intro frames)?; fastforce simp: ok_defs)+

lemma stays_update_poison [frames]:
  "stays R (update_poison a)" "stays R (update_mana a)" "stays R (update_speed a)"
  unfolding update_poison_def update_mana_def update_speed_def
  by (intro frames queue; (fastforce simp: frame_simps | fastforce simp: frame_simps ok_defs))+

lemma stays_update_enchant [frames]: "stays R (update_enchant E a i)"
  unfolding update_enchant_def
  by (rule stays_get_unit, rule from_if)
    (rule from_upd_unit unit_ok_count | assumption | intro from_stays frames)+

lemma stays_update_enchants [frames]:
  "stays R (update_enchants E a)" "stays R (update_anim a p_time)" "stays R (report_enchants a)"
  unfolding update_enchants_def update_anim_def report_enchants_def
  by (intro frames queue; (fastforce simp: frame_simps | fastforce simp: frame_simps ok_defs))+

lemma stays_Unit_Update [frames]:
  "stays R (Unit_Update E a p_time)" "stays R (see E a)"
  unfolding Unit_Update_def see_def
  by (intro frames queue; (fastforce simp: frame_simps | fastforce simp: frame_simps ok_defs))+

lemma stays_update_health [frames]:
  "stays R (update_health E a)"
  unfolding update_health_def
  by (intro frames queue; (fastforce simp: frame_simps | fastforce simp: frame_simps ok_defs))+

lemma stays_update_delays [frames]:
  "stays R (update_delays a)"
  unfolding update_delays_def
  by (intro frames queue; (fastforce simp: frame_simps | fastforce simp: frame_simps ok_defs))+

lemma stays_Player_Update [frames]:
  "stays R (Player_Update E a time)" "stays R (Magic_Update a)" "stays R (Object_Update E a time)"
  unfolding Player_Update_def Magic_Update_def Object_Update_def
  by (intro frames queue; (fastforce simp: frame_simps | fastforce simp: frame_simps ok_defs))+

lemma stays_virtual_Update [frames]:
  "stays R (virtual_Update E time a)"
  unfolding virtual_Update_def
  by (intro frames queue; (fastforce simp: frame_simps | fastforce simp: frame_simps ok_defs))+

lemma stays_Accessor_Update [frames]:
  "stays R (Accessor_Update E diff)"
  unfolding Accessor_Update_def
  by (intro frames queue; (fastforce simp: frame_simps | fastforce simp: frame_simps ok_defs))+

section \<open>Spells\<close>

lemma stays_at_visible_cursor [frames]: "(\<And>p. stays R (f p)) \<Longrightarrow> stays R (at_visible_cursor target f)"
  unfolding at_visible_cursor_def by (intro frames)

lemma stays_HandleSpellTeleport [frames]:
  "stays R (HandleSpellTeleport target)" "stays R (HandleSpellRay E caster target)"
  unfolding HandleSpellTeleport_def HandleSpellRay_def
  by (intro frames queue; (fastforce simp: frame_simps | fastforce simp: frame_simps ok_defs))+

lemma stays_spell_step [frames]: "stays R (spell_step E h caster p)"
  unfolding spell_step_def Let_def by (cases h) (auto intro!: frames)

lemma stays_DoSpellEffect [frames]:
  "stays R (DoSpellEffect E spellId caster target)" "stays R (DoSpellProjectile E spellId caster friendly)"
  unfolding DoSpellEffect_def DoSpellProjectile_def
  by (intro frames queue; (fastforce simp: frame_simps | fastforce simp: frame_simps ok_defs))+

lemma stays_ExecuteSpell [frames]:
  "stays R (ExecuteSpell E plr spellId dontinvert)"
  unfolding ExecuteSpell_def
  by (intro frames queue; (fastforce simp: frame_simps | fastforce simp: frame_simps ok_defs))+

lemma stays_ExecuteSpell_named [frames]:
  "stays R (ExecuteSpell_named E plr name dontinvert)" "stays R (berserker_charge E plr)"
  "stays R (tread_lightly E plr)" "stays R (warcry E plr)" "stays R (eye_of_the_wolf E plr)"
  unfolding ExecuteSpell_named_def berserker_charge_def tread_lightly_def warcry_def eye_of_the_wolf_def
  by (intro frames queue; (fastforce simp: frame_simps | fastforce simp: frame_simps ok_defs))+

lemma stays_ability_step [frames]: "stays R (ability_step E h plr)"
  unfolding ability_step_def by (cases h) (auto intro!: frames)

lemma stays_ExecuteAbility [frames]:
  "stays R (ExecuteAbility E plr abilityId)"
  unfolding ExecuteAbility_def
  by (intro frames queue; (fastforce simp: frame_simps | fastforce simp: frame_simps ok_defs))+

lemma stays_on_player_contact [frames]: "(\<And>m p. stays R (f m p)) \<Longrightarrow> stays R (on_player_contact me other f)"
  unfolding on_player_contact_def by (intro frames)

lemma stays_DamageCollideCallback [frames]:
  "stays R (DamageCollideCallback E me other)" "stays R (ManaDrainCollideCallback E me other)"
  "stays R (SpellProjectileCollideCallback E me other)" "stays R (crash_obstacle E plr)"
  "stays R (crash_player E plr obj)" "stays R (shock E plr p)"
  unfolding DamageCollideCallback_def ManaDrainCollideCallback_def SpellProjectileCollideCallback_def
    crash_obstacle_def crash_player_def shock_def
  by (intro frames queue; (fastforce simp: frame_simps | fastforce simp: frame_simps ok_defs))+

lemma stays_PlayerCollideCallback [frames]:
  "stays R (PlayerCollideCallback E me other)"
  unfolding PlayerCollideCallback_def
  by (intro frames queue; (fastforce simp: frame_simps | fastforce simp: frame_simps ok_defs))+

lemma stays_collide [frames]:
  "stays R (collide E me other)"
  unfolding collide_def
  by (intro frames queue; (fastforce simp: frame_simps | fastforce simp: frame_simps ok_defs))+

section \<open>Session Handlers\<close>

lemma stays_upd_info [frames]: "(\<And>i. info_ok i \<Longrightarrow> info_ok (f i)) \<Longrightarrow> stays R (upd_info pl f)"
  unfolding upd_info_def by (intro frames) (simp add: player_ok_def)

lemma read_block_length: "read_block n b = Inr (xs, b') \<Longrightarrow> length xs = n"
  by (auto simp: read_block_def read_at_def rbind_Inr_iff buf_size_def split: if_splits)

lemma rdn_length: "rdn n packet s = Inr ((xs, packet'), s') \<Longrightarrow> length xs = n"
  by (auto simp: rdn_def glift_def pk_get_def rmap_Inr_iff split: sum.splits dest: read_block_length)

lemma stays_rdn:
  assumes "\<And>xs packet. length xs = n \<Longrightarrow> stays R (f xs packet)"
  shows "stays R (gbind (rdn n packet) (\<lambda>(xs, packet). f xs packet))"
  by (rule stays_bind) (auto simp: rdn_def intro!: frames assms dest: rdn_length [unfolded rdn_def])

lemma stays_read_info [frames]: "stays R (read_info pl packet)"
  unfolding read_info_def by (intro stays_rdn frames; simp add: info_ok_def info_head_def)

lemma stays_session_player [frames]: "stays R (session_player E ss)"
  unfolding session_player_def by (intro frames; simp add: session_frame_def)

lemma stays_greet [frames]:
  "stays R (greet E ss)"
  unfolding greet_def
  by (intro frames queue; (fastforce simp: frame_simps | fastforce simp: frame_simps ok_defs))+

lemma stays_HandlePlayerJoin [frames]:
  "stays R (HandlePlayerJoin E ss packet)" "stays R (HandleClientReady E ss packet)"
  "stays R (input_action E pl b)"
  unfolding HandlePlayerJoin_def HandleClientReady_def input_action_def
  by (intro frames queue; (fastforce simp: frame_simps | fastforce simp: frame_simps ok_defs))+

lemma stays_HandlePlayerInput [frames]:
  "stays R (HandlePlayerInput E ss packet)" "stays R (HandleMouse ss packet)"
  "stays R (HandleTextMessage packet)" "stays R (HandleServerCmd packet)" "stays R (read_obj E packet)"
  unfolding HandlePlayerInput_def HandleMouse_def HandleTextMessage_def HandleServerCmd_def read_obj_def
  by (intro frames queue; (fastforce simp: frame_simps | fastforce simp: frame_simps ok_defs))+

lemma stays_HandleTryDrop [frames]:
  "stays R (HandleTryDrop E ss packet)" "stays R (HandleTryGet E ss packet)" "stays R (HandleTryUse E ss packet)"
  "stays R (HandleTryEquip E ss packet)" "stays R (HandleTryDequip E ss packet)"
  "stays R (HandleReportSecondaryWeapon E ss packet)" "stays R (HandleTryAbility E ss packet)"
  "stays R (HandleTrySpell E ss packet)"
  unfolding HandleTryDrop_def HandleTryGet_def HandleTryUse_def HandleTryEquip_def HandleTryDequip_def
    HandleReportSecondaryWeapon_def HandleTryAbility_def HandleTrySpell_def
  by (intro frames queue; (fastforce simp: frame_simps | fastforce simp: frame_simps ok_defs))+

lemma stays_handle [frames]: "stays R (handle E ss h packet)"
  unfolding handle_def by (cases h) (auto intro!: frames simp: frame_simps session_frame_def LogoutRequest_def split: option.split)

section \<open>World Update\<close>

lemma stays_LogoutPlayer [frames]:
  "stays R (LogoutPlayer ss)"
  unfolding LogoutPlayer_def
  by (intro frames queue; (fastforce simp: frame_simps | fastforce simp: frame_simps ok_defs))+

lemma stays_dispatch [frames]:
  "stays R (dispatch E ss packet)"
  unfolding dispatch_def
  by (intro frames queue; (fastforce simp: frame_simps | fastforce simp: frame_simps ok_defs))+

lemma stays_session_before [frames]:
  "stays R (session_before ss diff)"
  unfolding session_before_def
  by (intro frames queue; (fastforce simp: frame_simps | fastforce simp: frame_simps ok_defs))+

lemma stays_session_after [frames]:
  "stays R (session_after E ss)"
  unfolding session_after_def
  by (intro frames queue; (fastforce simp: frame_simps | fastforce simp: frame_simps ok_defs))+

end

section \<open>Sending only sends\<close>

definition only_sends :: "server \<Rightarrow> server \<Rightarrow> bool" where
  "only_sends s s' \<longleftrightarrow>
     sv_objects s' = sv_objects s \<and> sv_units s' = sv_units s \<and> sv_players s' = sv_players s \<and> sv_next s' = sv_next s \<and>
     om_objectTable s' = om_objectTable s \<and> om_objectExtents s' = om_objectExtents s \<and> om_playerList s' = om_playerList s \<and>
     oa_players s' = oa_players s \<and> oa_objects s' = oa_objects s \<and> oa_objectsToRemove s' = oa_objectsToRemove s \<and>
     ws_sessions s' = ws_sessions s \<and> w_sessions s' = w_sessions s \<and> w_freeids s' = w_freeids s \<and> w_kicked s' = w_kicked s"

interpretation sends: send_frame only_sends
  by unfold_locales (auto simp: only_sends_def)

text \<open>What a message that was sent leaves: every fact about the game.\<close>

lemma sent:
  assumes "m s = Inr (x, s')" "stays only_sends m"
  shows "sv_objects s' = sv_objects s" "sv_units s' = sv_units s" "sv_players s' = sv_players s"
    "oa_players s' = oa_players s" "oa_objectsToRemove s' = oa_objectsToRemove s"
  using staysD [OF assms(2,1)] by (simp_all add: only_sends_def)

end
