(* ===== verification/Dispatch_Loop.thy ===== *)
theory Dispatch_Loop
  imports Game_Frame
begin

text \<open>
  The dispatch loop of \<open>WorldSession::Update\<close> comes to an end. Two facts carry it: a handler leaves the
  packet where it was or further on, and no handler touches the queues of the sessions (the first
  interpretation of the interface). So every iteration either takes a packet off the queue or moves on
  in the packet at hand.
\<close>

section \<open>The network side is left alone\<close>

definition session_key :: "session \<Rightarrow> world_packet list \<times> u32" where
  "session_key st = (ss_recvQueue st, ss_accountId st)"

definition net_frame :: "server \<Rightarrow> server \<Rightarrow> bool" where
  "net_frame s s' \<longleftrightarrow>
     w_sessions s' = w_sessions s \<and> w_freeids s' = w_freeids s \<and> w_kicked s' = w_kicked s \<and>
     ws_sessions s' = ws_sessions s \<and> w_maxSessionsCount s' = w_maxSessionsCount s \<and> sv_next s \<le> sv_next s' \<and>
     (\<forall>a. map_option session_key (sv_sessions s' a) = map_option session_key (sv_sessions s a))"

interpretation nfs: step_frame net_frame
  by unfold_locales (auto simp: net_frame_def session_frame_def session_key_def)

interpretation nf: game_frame net_frame
  by unfold_locales (rule nfs.respawn_any, simp add: net_frame_def)

lemma net_frame_session:
  assumes "net_frame s s'" "sv_sessions s a = Some st"
  shows "\<exists>st'. sv_sessions s' a = Some st' \<and> session_frame st st'"
proof -
  have "map_option session_key (sv_sessions s' a) = Some (session_key st)"
    using assms by (simp add: net_frame_def)
  then show ?thesis by (auto simp: session_frame_def session_key_def)
qed

section \<open>Where a packet is read\<close>

definition pk_pos :: "world_packet \<Rightarrow> nat" where
  "pk_pos p = b_rpos (p_buf p)"

text \<open>A packet of a datagram: its size has 16 bits, and it is read inside.\<close>

definition inside :: "world_packet \<Rightarrow> bool" where
  "inside p \<longleftrightarrow> pk_pos p \<le> packet_size p \<and> packet_size p < 2 ^ 16"

definition moved :: "world_packet \<Rightarrow> world_packet \<Rightarrow> bool" where
  "moved p p' \<longleftrightarrow> storage (p_buf p') = storage (p_buf p) \<and> pk_pos p \<le> pk_pos p'"

text \<open>\<open>reads\<close>: a step that returns a value and the packet behind it; \<open>handles Q\<close>: a step that returns the
  packet, at a position with \<open>Q\<close>.\<close>

definition reads :: "world_packet \<Rightarrow> ('a \<times> world_packet) game \<Rightarrow> bool" where
  "reads p m \<longleftrightarrow> (inside p \<longrightarrow> (\<forall>s x p' s'. m s = Inr ((x, p'), s') \<longrightarrow> moved p p' \<and> inside p'))"

definition handles :: "(world_packet \<Rightarrow> bool) \<Rightarrow> world_packet \<Rightarrow> world_packet game \<Rightarrow> bool" where
  "handles Q p m \<longleftrightarrow> (inside p \<longrightarrow> (\<forall>s p' s'. m s = Inr (p', s') \<longrightarrow> moved p p' \<and> Q p'))"

lemma moved_refl [simp]: "moved p p"
  by (simp add: moved_def)

lemma moved_trans: "moved p p' \<Longrightarrow> moved p' p'' \<Longrightarrow> moved p p''"
  by (auto simp: moved_def)

named_theorems reading \<open>where steps leave a packet\<close>

lemma reads_fixed:
  assumes "fixed_read f n" "n < 2 ^ 18"
  shows "reads p (glift (pk_get f p))"
  unfolding reads_def
proof (intro impI allI)
  fix s x p' s'
  assume p: "inside p" and run: "glift (pk_get f p) s = Inr ((x, p'), s')"
  then have b: "b_rpos (p_buf p) \<le> length (storage (p_buf p))" "length (storage (p_buf p)) + n < size_limit"
    using assms(2) by (simp_all add: inside_def pk_pos_def packet_size_def buf_size_def size_limit_def)
  from run obtain b' where b': "f (p_buf p) = Inr (x, b')" "p' = p\<lparr>p_buf := b'\<rparr>"
    by (auto simp: glift_def pk_get_def rmap_Inr_iff split: sum.splits)
  then have n: "n \<le> length (remaining (p_buf p))" and "b' = advanced n (p_buf p)"
    using fixed_readD [OF assms(1) b] by (cases "n \<le> length (remaining (p_buf p))"; fastforce)+
  then show "moved p p' \<and> inside p'"
    using p b(1) by (simp add: b' moved_def inside_def pk_pos_def packet_size_def buf_size_def length_remaining)
qed

lemma reads_words [reading]: "reads p (rd8 p)" "reads p (rd16 p)" "reads p (rd32 p)"
  unfolding rd8_def rd16_def rd32_def by (rule reads_fixed, rule fixed_reads, simp)+

lemma reads_block [reading]: "n < 2 ^ 18 \<Longrightarrow> reads p (rdn n p)"
  unfolding rdn_def by (rule reads_fixed [OF fixed_read_block])

text \<open>The rules of \<open>handles\<close>: the packet is handed on by a read, by another step on it, or not at all.\<close>

lemma handlesI:
  "(\<And>s p' s'. inside p \<Longrightarrow> m s = Inr (p', s') \<Longrightarrow> moved p p' \<and> Q p') \<Longrightarrow> handles Q p m"
  by (simp add: handles_def)

lemma handlesD: "handles Q p m \<Longrightarrow> inside p \<Longrightarrow> m s = Inr (p', s') \<Longrightarrow> moved p p' \<and> Q p'"
  unfolding handles_def by blast

lemma readsD: "reads p m \<Longrightarrow> inside p \<Longrightarrow> m s = Inr ((x, p'), s') \<Longrightarrow> moved p p' \<and> inside p'"
  unfolding reads_def by blast

lemma handles_read:
  assumes "reads p m" "\<And>x p'. handles Q p' (f x p')"
  shows "handles Q p (gbind m (\<lambda>(x, p'). f x p'))"
proof (rule handlesI)
  fix s p' s'
  assume p: "inside p" and "gbind m (\<lambda>(x, p'). f x p') s = Inr (p', s')"
  then obtain x p1 s1 where m: "m s = Inr ((x, p1), s1)" and f: "f x p1 s1 = Inr (p', s')"
    by (auto simp: gbind_Inr_iff)
  then have "moved p p1 \<and> inside p1" using readsD [OF assms(1) p] by blast
  then show "moved p p' \<and> Q p'" using handlesD [OF assms(2) _ f] moved_trans by blast
qed

lemma handles_seq:
  assumes "handles inside p m" "\<And>p'. handles Q p' (f p')"
  shows "handles Q p (gbind m f)"
proof (rule handlesI)
  fix s p' s'
  assume p: "inside p" and "gbind m f s = Inr (p', s')"
  then obtain p1 s1 where "m s = Inr (p1, s1)" and f: "f p1 s1 = Inr (p', s')" by (auto simp: gbind_Inr_iff)
  then have "moved p p1 \<and> inside p1" using handlesD [OF assms(1) p] by blast
  then show "moved p p' \<and> Q p'" using handlesD [OF assms(2) _ f] moved_trans by blast
qed

lemma handles_bind: "(\<And>x. handles Q p (f x)) \<Longrightarrow> handles Q p (gbind m f)"
  unfolding handles_def gbind_Inr_iff by blast

lemma handles_then: "handles Q p n \<Longrightarrow> handles Q p (gthen m n)"
  unfolding gthen_def by (rule handles_bind)

lemma handles_ret: "handles inside p (gret p)"
  by (auto simp: handles_def)

lemma handles_any: "handles inside p m \<Longrightarrow> handles (\<lambda>_. True) p m"
  by (auto simp: handles_def)

lemma handles_fail: "handles Q p (gfail e)"
  by (simp add: handles_def gfail_def)

lemma handles_if: "(c \<Longrightarrow> handles Q p m) \<Longrightarrow> (\<not> c \<Longrightarrow> handles Q p n) \<Longrightarrow> handles Q p (if c then m else n)"
  by simp

lemma handles_option:
  "handles Q p m \<Longrightarrow> (\<And>x. handles Q p (f x)) \<Longrightarrow> handles Q p (case q of None \<Rightarrow> m | Some x \<Rightarrow> f x)"
  by (cases q) auto

lemma handles_skip: "handles inside p (skip ns p)"
proof (induction ns arbitrary: p)
  case Nil
  show ?case by (simp add: handles_ret)
next
  case (Cons n ns)
  have "handles inside p (if n = 1 then gbind (rd8 p) (\<lambda>(_, p). gret p)
      else if n = 2 then gbind (rd16 p) (\<lambda>(_, p). gret p) else gbind (rd32 p) (\<lambda>(_, p). gret p))"
    by (intro handles_if handles_read reads_words handles_ret)
  then show ?case by (auto intro: handles_seq Cons.IH)
qed

text \<open>The order matters: a step on the packet at hand comes before one that leaves it alone.\<close>

lemmas handling =
  handles_read [OF reads_words(1)] handles_read [OF reads_words(2)] handles_read [OF reads_words(3)]
  handles_read [OF reads_block] handles_seq handles_skip handles_ret handles_fail handles_if handles_option
  handles_then handles_bind

section \<open>The handlers\<close>

lemma handles_read_info: "handles inside p (read_info pl p)"
  unfolding read_info_def by (rule handling | simp)+

lemma handles_login: "handles inside p (HandlePlayerJoin E ss p)" "handles inside p (HandleClientReady E ss p)"
  unfolding HandlePlayerJoin_def HandleClientReady_def
  by (rule handles_read_info handling)+

lemma handles_input: "handles inside p (HandlePlayerInput E ss p)"
  unfolding HandlePlayerInput_def by (rule handling)+

lemma handles_mouse: "handles inside p (HandleMouse ss p)"
  unfolding HandleMouse_def by (rule handling)+

lemma handles_server_cmd: "handles inside p (HandleServerCmd p)"
proof -
  have b: "unat (n :: u8) < 2 ^ 8" for n using unsigned_less [of n] by simp
  have n: "unat (n :: u8) * 2 < 2 ^ 18" for n using b [of n] by simp
  show ?thesis unfolding HandleServerCmd_def by (rule handling n)+
qed

lemma handles_text: "handles inside p (HandleTextMessage p)"
proof -
  have "unat (n :: u16) < 2 ^ 16" for n using unsigned_less [of n] by simp
  then have n: "unat (n :: u16) < 2 ^ 18" for n by (rule less_trans) simp
  show ?thesis unfolding HandleTextMessage_def Let_def by (rule handling n)+
qed

lemma reads_read_obj: "reads p (read_obj E p)"
  unfolding reads_def read_obj_def
  by (auto simp: gbind_Inr_iff gret_Inr_iff dest: readsD [OF reads_words(2)])

lemmas handling_obj = handles_read [OF reads_read_obj] handling

lemma handles_things:
  "handles inside p (HandleTryDrop E ss p)" "handles inside p (HandleTryGet E ss p)"
  "handles inside p (HandleTryUse E ss p)" "handles inside p (HandleTryEquip E ss p)"
  "handles inside p (HandleTryDequip E ss p)" "handles inside p (HandleReportSecondaryWeapon E ss p)"
  unfolding HandleTryDrop_def HandleTryGet_def HandleTryUse_def HandleTryEquip_def HandleTryDequip_def
    HandleReportSecondaryWeapon_def
  by (rule handling_obj)+

lemma handles_ability: "handles inside p (HandleTryAbility E ss p)"
  unfolding HandleTryAbility_def by (rule handling)+

text \<open>A position behind the end is possible: some handlers step over bytes without looking. The next read fails.\<close>

definition near :: "world_packet \<Rightarrow> bool" where
  "near p \<longleftrightarrow> pk_pos p + 1 < size_limit"

lemma inside_near: "inside p \<Longrightarrow> near p"
  by (simp add: inside_def near_def size_limit_def)

lemma handles_near: "handles inside p m \<Longrightarrow> handles near p m"
  by (auto simp: handles_def inside_near)

lemma move_rpos_simps [simp]:
  "storage (p_buf (move_rpos f p)) = storage (p_buf p)" "pk_pos (move_rpos f p) = f (pk_pos p)"
  by (simp_all add: move_rpos_def pk_pos_def set_rpos_def)

lemma steps_over: "inside p \<Longrightarrow> k < 2 ^ 16 \<Longrightarrow> size_add (pk_pos p) k = pk_pos p + k \<and> pk_pos p + k + 1 < size_limit"
  by (simp add: inside_def size_add_def size_limit_def)

lemma handles_move: "k < 2 ^ 16 \<Longrightarrow> handles near p (gret (move_rpos (\<lambda>q. size_add q k) p))"
  using steps_over [of p k] by (auto simp: handles_def moved_def near_def)

lemma handles_to_end: "handles inside p (gret (to_end p))"
  by (auto simp: handles_def moved_def to_end_def inside_def packet_size_def buf_size_def)

lemma inside_to_end: "inside p \<Longrightarrow> moved p (to_end p) \<and> inside (to_end p)"
  using handlesD [OF handles_to_end] by (simp add: gret_def)

lemma rd8_near:
  assumes "near p" "packet_size p < 2 ^ 16" "rd8 p s = Inr ((x, p'), s')"
  shows "moved p p' \<and> pk_pos p' = pk_pos p + 1 \<and> inside p'"
proof (cases "pk_pos p < packet_size p")
  case True
  then have "inside p" using assms(2) by (simp add: inside_def)
  moreover have "pk_pos p' = pk_pos p + 1"
    using assms(3) read_word_progress
    by (fastforce simp: rd8_def glift_def pk_get_def rmap_Inr_iff pk_pos_def get_u8_def split: sum.splits)
  ultimately show ?thesis using readsD [OF reads_words(1) _ assms(3)] by simp
next
  case False
  then have "get_u8 (p_buf p) = Inl AssertFail"
    using assms(1) unfolding get_u8_def
    by (intro read_word_short) (simp_all add: near_def pk_pos_def packet_size_def buf_size_def)
  then show ?thesis using assms(3) by (simp add: rd8_def glift_def pk_get_def)
qed

lemma reads_over: "k < 2 ^ 16 \<Longrightarrow> reads p (rd8 (move_rpos (\<lambda>q. size_add q k) p))"
  unfolding reads_def
proof (intro impI allI)
  fix s x p' s'
  assume k: "k < 2 ^ 16" and p: "inside p" and r: "rd8 (move_rpos (\<lambda>q. size_add q k) p) s = Inr ((x, p'), s')"
  have "near (move_rpos (\<lambda>q. size_add q k) p)" "packet_size (move_rpos (\<lambda>q. size_add q k) p) < 2 ^ 16"
    using p steps_over [OF p k] by (simp_all add: near_def inside_def packet_size_def buf_size_def)
  from rd8_near [OF this r] show "moved p p' \<and> inside p'"
    using steps_over [OF p k] by (simp add: moved_def)
qed

lemma handles_spell: "handles inside p (HandleTrySpell E ss p)"
  unfolding HandleTrySpell_def by (rule handling handles_read [OF reads_over] | simp)+

text \<open>No handler goes back in its packet, or writes to it.\<close>

lemma handles_team_msg: "handles inside p (skip ns (to_end p))"
  using handlesD [OF handles_skip] inside_to_end moved_trans by (intro handlesI) blast

lemmas near_steps =
  handles_near [OF handles_skip] handles_near [OF handles_ret] handles_near [OF handles_to_end]
  handles_near [OF handles_team_msg] handles_near [OF handles_login(1)] handles_near [OF handles_login(2)]
  handles_near [OF handles_input] handles_near [OF handles_mouse] handles_near [OF handles_server_cmd]
  handles_near [OF handles_text] handles_near [OF handles_ability] handles_near [OF handles_spell]
  handles_things [THEN handles_near] handles_move handles_then handles_seq
  handles_read [OF reads_words(3)] handles_skip

lemma handles_handle: "handles near p (handle E ss h p)"
  unfolding handle_def
  by (cases h; simp add: skipped_def del: skip.simps; (rule near_steps | simp)+)

section \<open>The loop\<close>

lemma handles_prod: "(\<And>x y. handles Q p (f x y)) \<Longrightarrow> handles Q p (case q of (x, y) \<Rightarrow> f x y)"
  by (cases q) simp

lemma handles_dispatch: "handles near p (dispatch E ss p)"
  unfolding dispatch_def
  by (rule handles_bind handles_if handles_option handles_prod handles_then handles_handle near_steps)+

text \<open>The packets of the queue of a session are as they came from the socket.\<close>

definition queue_ok :: "nat \<Rightarrow> server \<Rightarrow> bool" where
  "queue_ok ss s \<longleftrightarrow> (\<exists>st. sv_sessions s ss = Some st \<and> (\<forall>p \<in> set (ss_recvQueue st). inside p))"

definition work_left :: "nat \<Rightarrow> world_packet option \<Rightarrow> server \<Rightarrow> nat" where
  "work_left ss p s =
     (case sv_sessions s ss of None \<Rightarrow> 0 | Some st \<Rightarrow> (\<Sum>q\<leftarrow>ss_recvQueue st. packet_size q + 2)) +
     (case p of None \<Rightarrow> 0 | Some q \<Rightarrow> packet_size q - pk_pos q + 1)"

text \<open>The second half of an iteration: the message of the packet, then the next opcode in it.\<close>

definition message :: "env \<Rightarrow> nat \<Rightarrow> world_packet \<Rightarrow> world_packet option option game" where
  "message E ss p =
     gbind (dispatch E ss p) (\<lambda>p.
       if b_rpos (p_buf p) = packet_size p then gret (Some None)
       else gbind (rd8 p) (\<lambda>(opcode, p). gret (Some (Some (SetOpcode opcode p)))))"

context game_frame begin

lemma stays_message: "stays R (message E ss p)"
  unfolding message_def rd8_def by (intro frames)

end

lemma message_frame: "message E ss p s = Inr (r, s') \<Longrightarrow> net_frame s s'"
  by (rule staysD [OF nf.stays_message])

lemma net_frame_queue:
  assumes "net_frame s s'"
  shows "queue_ok ss s' = queue_ok ss s" "work_left ss p s' = work_left ss p s"
proof -
  have eq: "map_option session_key (sv_sessions s' ss) = map_option session_key (sv_sessions s ss)"
    using assms by (simp add: net_frame_def)
  then show "queue_ok ss s' = queue_ok ss s"
    by (cases "sv_sessions s ss"; cases "sv_sessions s' ss") (auto simp: queue_ok_def session_key_def)
  from eq show "work_left ss p s' = work_left ss p s"
    by (cases "sv_sessions s ss"; cases "sv_sessions s' ss") (auto simp: work_left_def session_key_def)
qed

lemma message_advances:
  assumes p: "inside p" and r: "message E ss p s = Inr (r, s')"
  shows "\<exists>p'. r = Some p' \<and> (\<forall>q. p' = Some q \<longrightarrow> inside q \<and> packet_size q - pk_pos q < packet_size p - pk_pos p)"
proof -
  obtain p1 s1 where d: "dispatch E ss p s = Inr (p1, s1)"
    and rest: "(if b_rpos (p_buf p1) = packet_size p1 then gret (Some None)
       else gbind (rd8 p1) (\<lambda>(opcode, p). gret (Some (Some (SetOpcode opcode p))))) s1 = Inr (r, s')"
    using r by (auto simp: message_def gbind_Inr_iff)
  have m: "moved p p1" "near p1" using handlesD [OF handles_dispatch p d] by simp_all
  then have size: "packet_size p1 = packet_size p" by (simp add: moved_def packet_size_def buf_size_def)
  show ?thesis
  proof (cases "b_rpos (p_buf p1) = packet_size p1")
    case True
    then show ?thesis using rest by (simp add: gret_Inr_iff)
  next
    case False
    then obtain op p2 where n: "rd8 p1 s1 = Inr ((op, p2), s')" and rr: "r = Some (Some (SetOpcode op p2))"
      using rest by (auto simp: gbind_Inr_iff gret_Inr_iff)
    have "moved p1 p2 \<and> pk_pos p2 = pk_pos p1 + 1 \<and> inside p2"
      by (rule rd8_near [OF m(2) _ n]) (use p size in \<open>simp add: inside_def\<close>)
    then show ?thesis
      using m(1) size by (auto simp: rr moved_def inside_def pk_pos_def packet_size_def buf_size_def SetOpcode_def)
  qed
qed

text \<open>One iteration: nothing is taken from a queue but its head, and the work left gets less.\<close>

lemma loop_step_packet:
  assumes "sv_sessions s ss = Some st" "ss_socket st"
  shows "loop_step E ss (Some p) s = message E ss p s"
  using assms by (simp add: loop_step_def message_def get_session_def step_simps)

lemma loop_step_next:
  assumes "sv_sessions s ss = Some st" "ss_socket st" "ss_recvQueue st = p # ps"
  shows "loop_step E ss None s =
    message E ss p (s\<lparr>sv_sessions := (sv_sessions s)(ss \<mapsto> st\<lparr>ss_recvQueue := ps\<rparr>)\<rparr>)"
  using assms
  by (simp add: loop_step_def message_def next_packet_def upd_session_def get_session_def step_simps)

lemma loop_step_over:
  assumes "sv_sessions s ss = Some st" "(p = None \<and> ss_recvQueue st = []) \<or> \<not> ss_socket st"
  shows "loop_step E ss p s = Inr (None, s)"
  using assms by (simp add: loop_step_def get_session_def step_simps)

lemma loop_step_decreases:
  assumes ok: "queue_ok ss s" "\<And>q. p = Some q \<Longrightarrow> inside q"
    and step: "loop_step E ss p s = Inr (Some p', s')"
  shows "queue_ok ss s' \<and> (\<forall>q. p' = Some q \<longrightarrow> inside q) \<and> work_left ss p' s' < work_left ss p s"
proof -
  obtain st where st: "sv_sessions s ss = Some st" and q: "\<forall>q \<in> set (ss_recvQueue st). inside q"
    using ok(1) by (auto simp: queue_ok_def)
  have more: "ss_socket st" "p = None \<Longrightarrow> ss_recvQueue st \<noteq> []"
    using loop_step_over [OF st, of p E] step by auto
  obtain q s1 where m: "message E ss q s1 = Inr (Some p', s')" and qq: "inside q" and ok1: "queue_ok ss s1"
    and less: "work_left ss None s1 + (packet_size q - pk_pos q + 1) \<le> work_left ss p s"
  proof (cases p)
    case (Some q)
    then show ?thesis
      using that [of q s] step ok by (simp add: loop_step_packet [OF st more(1)] work_left_def)
  next
    case None
    then obtain q qs where cons: "ss_recvQueue st = q # qs" using more(2) by (cases "ss_recvQueue st") auto
    then show ?thesis
      using that [of q "s\<lparr>sv_sessions := (sv_sessions s)(ss \<mapsto> st\<lparr>ss_recvQueue := qs\<rparr>)\<rparr>"] step q None
      by (simp add: loop_step_next [OF st more(1) cons] work_left_def queue_ok_def st)
  qed
  have frame: "queue_ok ss s' = queue_ok ss s1" "work_left ss x s' = work_left ss x s1" for x
    using net_frame_queue message_frame [OF m] by blast+
  obtain x where x: "Some p' = Some x" and adv: "\<forall>r. x = Some r \<longrightarrow> inside r \<and> packet_size r - pk_pos r < packet_size q - pk_pos q"
    using message_advances [OF qq m] by blast
  have "work_left ss p' s1 < work_left ss None s1 + (packet_size q - pk_pos q + 1)"
    using x adv by (cases p') (auto simp: work_left_def)
  then show ?thesis using x adv less frame ok1 by auto
qed

text \<open>The loop ends.\<close>

lemma dispatch_loop_ends:
  assumes "queue_ok ss s" "\<And>q. p = Some q \<Longrightarrow> inside q"
  shows "\<exists>r. dispatch_loop E ss p s = Some r"
  using assms
proof (induction "work_left ss p s" arbitrary: p s rule: less_induct)
  case less
  show ?case
  proof (cases "loop_step E ss p s")
    case (Inl e)
    then show ?thesis by (simp add: dispatch_loop.simps)
  next
    case (Inr rs)
    obtain r s' where rs: "rs = (r, s')" by (cases rs)
    show ?thesis
    proof (cases r)
      case None
      then show ?thesis using Inr rs by (simp add: dispatch_loop.simps)
    next
      case (Some p')
      then have step: "loop_step E ss p s = Inr (Some p', s')" using Inr rs by simp
      have "\<exists>r. dispatch_loop E ss p' s' = Some r"
        using less.hyps [of p' s'] loop_step_decreases [OF less.prems step] by blast
      then show ?thesis using step by (subst dispatch_loop.simps) simp
    qed
  qed
qed

text \<open>An invariant of the iterations holds after the loop.\<close>

lemma dispatch_loop_invariant:
  assumes "dispatch_loop E ss p s = Some r" "I p s"
    and step: "\<And>p s r s'. I p s \<Longrightarrow> loop_step E ss p s = Inr (Some r, s') \<Longrightarrow> I r s'"
    and over: "\<And>p s s'. I p s \<Longrightarrow> loop_step E ss p s = Inr (None, s') \<Longrightarrow> J s'"
  shows "r = Inr s' \<longrightarrow> J s'"
proof -
  have "E = E \<and> ss = ss \<and> I p s \<longrightarrow> r = Inr s' \<longrightarrow> J s'"
  proof (rule dispatch_loop.raw_induct
      [where P = "\<lambda>E' ss' p s r. E' = E \<and> ss' = ss \<and> I p s \<longrightarrow> r = Inr s' \<longrightarrow> J s'", OF _ assms(1)])
    fix loop E' ss' p s r
    assume "\<And>E' ss' p s r. loop E' ss' p s = Some r \<Longrightarrow> E' = E \<and> ss' = ss \<and> I p s \<longrightarrow> r = Inr s' \<longrightarrow> J s'"
      and "(case loop_step E' ss' p s of Inl e \<Rightarrow> Some (Inl e)
        | Inr (r, s') \<Rightarrow> (case r of None \<Rightarrow> Some (Inr s') | Some p' \<Rightarrow> loop E' ss' p' s')) = Some r"
    then show "E' = E \<and> ss' = ss \<and> I p s \<longrightarrow> r = Inr s' \<longrightarrow> J s'"
      using step over by (fastforce split: sum.splits option.splits)
  qed
  then show ?thesis using assms(2) by simp
qed

end
