(* ===== verification/Map_Registry.thy ===== *)
theory Map_Registry
  imports Map_Loading Dispatch_Loop
begin

text \<open>
  What loading a map does to the server, for any file that loads, malformed ones too: the registry of objects
  stays consistent, every object that is created is in it, and no other object changes
  (\<open>loading_keeps_registry\<close>).

  The loops over objects and sections are followed once, in the locale \<open>map_frame\<close>, for any relation of states that
  creating an object and adding the walls keep; the registry and the relations of \<open>Game_Frame\<close> are its instances.
\<close>

section \<open>Relations that loading keeps\<close>

locale map_frame = step_order R for R :: "server \<Rightarrow> server \<Rightarrow> bool" +
  fixes E :: env and W :: "nat option \<Rightarrow> server \<Rightarrow> bool"
  assumes created: "CreateObjectFromFile E toc b s = Some (Inr (x, s')) \<Longrightarrow> R s s'"
    and walls: "W w s \<Longrightarrow> AddCollisionWalls w s = Inr (a, s') \<Longrightarrow> R s s' \<and> W a s'"
    and kept: "R s s' \<Longrightarrow> W w s \<Longrightarrow> W w s'"
begin

lemma read_objects_frame:
  assumes "read_objects E toc b s = Some (Inr (b', s'))"
  shows "R s s'"
proof -
  have "\<forall>b' s'. E' = E \<longrightarrow> r = Inr (b', s') \<longrightarrow> R s s'" if "read_objects E' toc b s = Some r" for E' toc b s r
    using that
  proof (rule read_objects.raw_induct [where P = "\<lambda>E' toc b s r. \<forall>b' s'. E' = E \<longrightarrow> r = Inr (b', s') \<longrightarrow> R s s'", rotated])
    fix rs E' toc b s r
    assume IH: "\<And>E' toc b s r. rs E' toc b s = Some r \<Longrightarrow> \<forall>b' s'. E' = E \<longrightarrow> r = Inr (b', s') \<longrightarrow> R s s'"
      and body: "(if b_rpos b < buf_size b
        then obind (CreateObjectFromFile E' toc b s) (\<lambda>((p, b), s). if p = None then Some (Inr (b, s)) else rs E' toc b s)
        else Some (Inr (b, s))) = Some r"
    show "\<forall>b' s'. E' = E \<longrightarrow> r = Inr (b', s') \<longrightarrow> R s s'"
      using body created IH by (fastforce simp: obind_Inr_iff intro: same trans split: if_splits)
  qed
  then show ?thesis using assms by blast
qed

lemma readObjects_frame: "readObjects E toc b s = Some (Inr (b', s')) \<Longrightarrow> R s s'"
  by (auto simp: readObjects_def obind_Inr_iff dest: read_objects_frame)

lemma read_section_frame:
  assumes "read_section E name m s = Some (Inr (m', s'))" "W (nm_walls_object m) s"
  shows "R s s' \<and> W (nm_walls_object m') s'"
proof -
  have "R s s' \<and> W (nm_walls_object m') s'" if "NoxWallMap_read m s = Inr (m', s')"
    using that walls assms(2) by (auto simp: NoxWallMap_read_def frd_def fskip_def step_simps res_iffs simp del: read_skip.simps)
  then show ?thesis
    using assms(1,2) same
    by (auto simp: read_section_def obind_Inr_iff rmap_Inr_iff dest!: readObjects_frame intro: kept split: if_splits)
qed

lemma read_sections_frame:
  assumes "read_sections E m s = Some (Inr (m', s'))" "W (nm_walls_object m) s"
  shows "R s s' \<and> W (nm_walls_object m') s'"
proof -
  let ?P = "\<lambda>E' m s r. \<forall>m' s'. E' = E \<longrightarrow> W (nm_walls_object m) s \<longrightarrow> r = Inr (m', s') \<longrightarrow> R s s' \<and> W (nm_walls_object m') s'"
  have "?P E' m s r" if "read_sections E' m s = Some r" for E' m s r
    using that
  proof (rule read_sections.raw_induct [where P = ?P, rotated])
    fix rs E' m s r
    assume IH: "\<And>E' m s r. rs E' m s = Some r \<Longrightarrow> ?P E' m s r"
      and body: "(if b_rpos (nm_buf m) < buf_size (nm_buf m)
        then obind (Some (section_name (nm_buf m))) (\<lambda>(name, b).
             obind (read_section E' name (m\<lparr>nm_buf := b\<rparr>) s) (\<lambda>(m, s). rs E' m s))
        else Some (Inr (m, s))) = Some r"
    show "?P E' m s r"
    proof (intro allI impI)
      fix m' s'
      assume E: "E' = E" and W: "W (nm_walls_object m) s" and r: "r = Inr (m', s')"
      show "R s s' \<and> W (nm_walls_object m') s'"
      proof (cases "b_rpos (nm_buf m) < buf_size (nm_buf m)")
        case True
        then obtain name b m1 s1 where "read_section E name (m\<lparr>nm_buf := b\<rparr>) s = Some (Inr (m1, s1))" "rs E m1 s1 = Some (Inr (m', s'))"
          using body r E by (auto simp: obind_Inr_iff)
        moreover from this have "R s s1 \<and> W (nm_walls_object m1) s1" using read_section_frame W by fastforce
        ultimately show ?thesis using IH [of E m1 s1] trans by blast
      next
        case False
        then show ?thesis using body r W same by simp
      qed
    qed
  qed
  then show ?thesis using assms by blast
qed

lemma load_header_walls: "load_header m = Inr m' \<Longrightarrow> nm_walls_object m' = nm_walls_object m"
  by (auto simp: load_header_def rbind_Inr_iff)

lemma open_frame:
  assumes "NoxMap_open E files name m s = Some (Inr ((ok, m'), s'))" "W (nm_walls_object m) s"
  shows "R s s'"
proof -
  have "nm_walls_object m1 = nm_walls_object m" if "getNxz files name (m\<lparr>nm_buf := b\<rparr>) = Inr m1" for b m1
    using that by (auto simp: getNxz_def split: if_splits option.splits)
  then show ?thesis
    using assms read_sections_frame same
    by (auto simp: NoxMap_open_def obind_Inr_iff rbind_Inr_iff dest!: load_header_walls split: if_splits prod.splits)
qed

end

section \<open>The relations of the game\<close>

context step_frame begin

lemma stays_DefaultXferHandler [frames]: "stays R (DefaultXferHandler obj b)"
  unfolding DefaultXferHandler_def xfer_rest_def frd_def fskip_def fstring_def
  by (intro frames) (simp_all add: vital_ok_def)

lemma stays_read_object [frames]: "stays R (read_object E toc b)"
  unfolding read_object_def frd_def by (intro frames)

lemma stays_put_in_inventory [frames]: "stays R (put_in_inventory obj child)"
  unfolding put_in_inventory_def by (intro frames) (simp add: vital_ok_def)

lemma read_children_frame:
  assumes "read_children E toc obj n b s = Some (Inr (b', s'))"
  shows "R s s'"
proof -
  let ?P = "\<lambda>E toc obj n b s r. \<forall>b' s'. r = Inr (b', s') \<longrightarrow> R s s'"
  have "?P E toc obj n b s r" if "read_children E toc obj n b s = Some r" for E toc obj n b s r
    using that
  proof (rule read_children.raw_induct [where P = ?P, rotated])
    fix rc E toc obj n b s r
    assume IH: "\<And>E toc obj n b s r. rc E toc obj n b s = Some r \<Longrightarrow> ?P E toc obj n b s r"
      and body: "(if n = 0 then Some (Inr (b, s))
        else obind (Some (read_object E toc b s)) (\<lambda>((r, b), s).
             case r of None \<Rightarrow> Some (Inr (b, s))
             | Some p \<Rightarrow> obind (rc E toc (fst p) (snd p) b s) (\<lambda>(b, s).
                 obind (Some (gthen (AddToWorld E (fst p)) (put_in_inventory obj (fst p)) s)) (\<lambda>(_, s).
                 rc E toc obj (n - 1) b s)))) = Some r"
    have add: "R s s'" if "gthen (AddToWorld E a) (put_in_inventory obj a) s = Inr (u, s')" for a s u s'
      using that by (rule staysD [rotated]) (intro frames)
    have obj: "R s s'" if "read_object E toc b s = Inr (x, s')" for b s x s'
      using that by (rule staysD [rotated]) (intro frames)
    show "?P E toc obj n b s r"
    proof (cases "n = 0")
      case True
      then show ?thesis using body same by auto
    next
      case False
      show ?thesis
      proof (intro allI impI)
        fix b' s'
        assume r: "r = Inr (b', s')"
        then obtain p b1 s1 where first: "read_object E toc b s = Inr ((p, b1), s1)"
          using body False by (auto simp: obind_Inr_iff)
        show "R s s'"
        proof (cases p)
          case None
          then show ?thesis using body False r first obj by auto
        next
          case (Some q)
          then obtain b2 s2 u s3 where "rc E toc (fst q) (snd q) b1 s1 = Some (Inr (b2, s2))"
              "gthen (AddToWorld E (fst q)) (put_in_inventory obj (fst q)) s2 = Inr (u, s3)"
              "rc E toc obj (n - 1) b2 s3 = Some (Inr (b', s'))"
            using body False r first by (auto simp: obind_Inr_iff)
          then have "R s1 s2" "R s2 s3" "R s3 s'" using add IH by blast+
          then show ?thesis using obj [OF first] trans by blast
        qed
      qed
    qed
  qed
  then show ?thesis using assms by blast
qed

lemma CreateObjectFromFile_frame: "CreateObjectFromFile E toc b s = Some (Inr (x, s')) \<Longrightarrow> R s s'"
  unfolding CreateObjectFromFile_def
  by (auto simp: obind_Inr_iff split: option.splits
      dest!: read_children_frame staysD [OF stays_read_object] staysD [OF stays_AddToWorld(1)] intro: trans [OF trans])

lemma stays_AddCollisionWalls [frames]: "stays R (AddCollisionWalls w)"
  unfolding AddCollisionWalls_def by (intro frames born registry) (simp_all add: wall_object_def vital_ok_simps)

end

sublocale step_frame \<subseteq> loading: map_frame R E "\<lambda>_ _. True" for E
  by unfold_locales (auto dest: CreateObjectFromFile_frame staysD [OF stays_AddCollisionWalls])

section \<open>The registry of objects\<close>

text \<open>The addresses from \<open>sv_next\<close> on are free.\<close>

definition fresh :: "server \<Rightarrow> bool" where
  "fresh s \<longleftrightarrow> (\<forall>a \<ge> sv_next s. sv_objects s a = None)"

text \<open>The registry grew by the objects created between the two states.\<close>

definition object_make :: "nox_object option \<Rightarrow> (object_kind \<times> u16) option" where
  "object_make p = map_option (\<lambda>ob. (ob_kind ob, ob_type ob)) p"

definition grown :: "env \<Rightarrow> server \<Rightarrow> server \<Rightarrow> bool" where
  "grown E s s' \<longleftrightarrow> (registry_ok E s \<and> fresh s \<longrightarrow>
     registry_ok E s' \<and> fresh s' \<and> sv_next s \<le> sv_next s' \<and>
     set (om_objectTable s') = set (om_objectTable s) \<union> {sv_next s..<sv_next s'} \<and>
     (\<forall>a \<in> set (om_objectTable s). sv_objects s' a = sv_objects s a) \<and>
     (\<forall>a < sv_next s. object_make (sv_objects s' a) = object_make (sv_objects s a)))"

lemma registered_below: "registry_ok E s \<Longrightarrow> fresh s \<Longrightarrow> a \<in> set (om_objectTable s) \<Longrightarrow> a < sv_next s"
  using registry_object [of E s a] by (fastforce simp: fresh_def not_le [symmetric])

lemma grown_trans: "grown E s s' \<Longrightarrow> grown E s' s'' \<Longrightarrow> grown E s s''"
proof -
  assume one: "grown E s s'" and two: "grown E s' s''"
  show ?thesis unfolding grown_def
  proof (intro impI)
    assume ok: "registry_ok E s \<and> fresh s"
    then have a: "registry_ok E s' \<and> fresh s'" "sv_next s \<le> sv_next s'"
        "set (om_objectTable s') = set (om_objectTable s) \<union> {sv_next s..<sv_next s'}"
        "\<forall>a \<in> set (om_objectTable s). sv_objects s' a = sv_objects s a"
        "\<forall>a < sv_next s. object_make (sv_objects s' a) = object_make (sv_objects s a)"
      using one unfolding grown_def by blast+
    then have b: "registry_ok E s''" "fresh s''" "sv_next s' \<le> sv_next s''"
        "set (om_objectTable s'') = set (om_objectTable s') \<union> {sv_next s'..<sv_next s''}"
        "\<forall>a \<in> set (om_objectTable s'). sv_objects s'' a = sv_objects s' a"
        "\<forall>a < sv_next s'. object_make (sv_objects s'' a) = object_make (sv_objects s' a)"
      using two unfolding grown_def by blast+
    have "set (om_objectTable s'') = set (om_objectTable s) \<union> {sv_next s..<sv_next s''}" "sv_next s \<le> sv_next s''"
      using a(2,3) b(3,4) by auto
    moreover have "\<forall>a \<in> set (om_objectTable s). sv_objects s'' a = sv_objects s a" using a(3,4) b(5) by simp
    moreover have "\<forall>a < sv_next s. object_make (sv_objects s'' a) = object_make (sv_objects s a)"
      using a(2,5) b(6) by simp
    ultimately show "registry_ok E s'' \<and> fresh s'' \<and> sv_next s \<le> sv_next s'' \<and>
       set (om_objectTable s'') = set (om_objectTable s) \<union> {sv_next s..<sv_next s''} \<and>
       (\<forall>a \<in> set (om_objectTable s). sv_objects s'' a = sv_objects s a) \<and>
       (\<forall>a < sv_next s. object_make (sv_objects s'' a) = object_make (sv_objects s a))"
      using b(1,2) by blast
  qed
qed

interpretation growth: step_order "grown E" for E
  by unfold_locales (auto simp: grown_def intro: grown_trans)

text \<open>One object, not registered, gets other contents.\<close>

definition edits :: "nat \<Rightarrow> server \<Rightarrow> server \<Rightarrow> bool" where
  "edits a s s' \<longleftrightarrow> s' = s \<or> (\<exists>ob ob'. sv_objects s a = Some ob \<and> s' = s\<lparr>sv_objects := (sv_objects s)(a \<mapsto> ob')\<rparr> \<and>
     ob_kind ob' = ob_kind ob \<and> ob_type ob' = ob_type ob)"

interpretation editing: step_order "edits a" for a
  by unfold_locales (auto simp: edits_def)

lemma stays_edit: "(\<And>ob. ob_kind (f ob) = ob_kind ob \<and> ob_type (f ob) = ob_type ob) \<Longrightarrow> stays (edits a) (upd_object a f)"
  by (auto simp: stays_def edits_def upd_object_def get_object_def step_simps split: option.splits)

lemma edits_DefaultXferHandler: "stays (edits a) (DefaultXferHandler a b)"
  unfolding DefaultXferHandler_def xfer_rest_def frd_def fskip_def fstring_def
  by (intro frames editing.stays_bind_any editing.stays_then editing.stays_lift stays_edit editing.stays_ret editing.stays_if
      editing.stays_prod editing.stays_heaps) simp_all

lemma registry_forgotten:
  assumes "registry_ok E s" "a \<notin> set (om_objectTable s)"
  shows "registry_ok E (s\<lparr>sv_objects := (sv_objects s)(a := p)\<rparr>)" "registry_ok E (s\<lparr>sv_objects := (sv_objects s)(a := p), sv_next := n\<rparr>)"
  using assms unfolding registry_ok_def by auto

lemma edits_grown: "edits a s s' \<Longrightarrow> a \<notin> set (om_objectTable s) \<Longrightarrow> grown E s s'"
  using registry_forgotten by (auto simp: edits_def grown_def fresh_def object_make_def)

text \<open>An object that is not yet in the registry, at an address below \<open>sv_next\<close>, of a known type.\<close>

definition pending :: "env \<Rightarrow> nat \<Rightarrow> server \<Rightarrow> bool" where
  "pending E a s \<longleftrightarrow> registry_ok E s \<and> fresh s \<and> a < sv_next s \<and> a \<notin> set (om_objectTable s) \<and>
     (\<exists>ob. sv_objects s a = Some ob \<and> known_type E ob)"

lemma pending_grown: "grown E s s' \<Longrightarrow> pending E a s \<Longrightarrow> pending E a s'"
proof -
  assume g: "grown E s s'" and p: "pending E a s"
  then obtain ob where ob: "sv_objects s a = Some ob" "known_type E ob" by (auto simp: pending_def)
  have "object_make (sv_objects s' a) = Some (ob_kind ob, ob_type ob)"
    using g p ob(1) by (auto simp: grown_def pending_def object_make_def)
  then have "\<exists>ob'. sv_objects s' a = Some ob' \<and> known_type E ob'" using ob(2) by (auto simp: object_make_def known_type_def)
  then show ?thesis using g p by (auto simp: grown_def pending_def)
qed

lemma put_in_inventory_grown: "put_in_inventory a c s = Inr (u, s') \<Longrightarrow> pending E a s \<Longrightarrow> grown E s s'"
  using staysD [OF stays_edit [of "\<lambda>ob. ob\<lparr>ob_inventory := set_add c (ob_inventory ob)\<rparr>"]]
  by (intro edits_grown [of a]) (auto simp: put_in_inventory_def pending_def)

lemma read_object_result:
  assumes "read_object E toc b s = Inr ((r, b'), s')"
  shows "r = None \<and> s' = s \<or> (\<exists>n. r = Some (sv_next s, n) \<and> (\<exists>s1. edits (sv_next s) s1 s' \<and> sv_next s1 = sv_next s + 1 \<and>
    om_objectTable s1 = om_objectTable s \<and> om_objectExtents s1 = om_objectExtents s \<and>
    (\<exists>ob. known_type E ob \<and> sv_objects s1 = (sv_objects s)(sv_next s \<mapsto> ob))))"
proof -
  obtain t b1 where t: "get_u16 b = Inr (t, b1)"
    using assms by (auto simp: read_object_def frd_def gbind_Inr_iff glift_def rmap_Inr_iff)
  show ?thesis
  proof (cases "map_of toc t")
    case None
    then show ?thesis using assms t by (simp add: read_object_def frd_def gbind_def glift_def)
  next
    case (Some name)
    let ?t = "type_index E name"
    obtain info where info: "?t \<noteq> 0" "info_at E ?t = Some info"
      using assms t Some
      by (cases "info_at E ?t") (auto simp: read_object_def frd_def gbind_def glift_def Let_def gfail_def deref_def split: if_splits)
    then obtain a s1 b2 b3 n where new: "new_object E (object_class info) ?t (0, 0) 0 s = Inr (a, s1)"
        and xfer: "DefaultXferHandler a b2 s1 = Inr ((n, b3), s')" and p: "r = Some (a, n)"
      using assms t Some
      by (auto simp: read_object_def frd_def gbind_Inr_iff glift_def rmap_Inr_iff Let_def deref_def)
  have "edits a s1 s'" using xfer staysD [OF edits_DefaultXferHandler] by blast
  moreover obtain info' where i: "info_of_type E ?t = Some info'" using info_at_known info by blast
  then have "a = sv_next s \<and> sv_next s1 = sv_next s + 1 \<and> om_objectTable s1 = om_objectTable s \<and>
      om_objectExtents s1 = om_objectExtents s \<and>
      sv_objects s1 = (sv_objects s)(sv_next s \<mapsto> blank_object (object_class info) ?t (0, 0) 0 (collide_mask info'))"
    using new new_object_result [OF i, of "object_class info" "(0, 0)" s] by auto
  moreover have "known_type E (blank_object (object_class info) ?t (0, 0) 0 (collide_mask info'))"
    using i by (simp add: known_type_def blank_object_def)
  ultimately show ?thesis using p by blast
  qed
qed

text \<open>A new object waits for its place in the registry.\<close>

lemma read_object_pending:
  assumes "read_object E toc b s = Inr ((Some p, b'), s')" "registry_ok E s" "fresh s"
  shows "fst p = sv_next s \<and> pending E (sv_next s) s' \<and> sv_next s' = sv_next s + 1 \<and>
    om_objectTable s' = om_objectTable s \<and> (\<forall>a < sv_next s. sv_objects s' a = sv_objects s a)"
proof -
  obtain s1 ob where s1: "fst p = sv_next s" "edits (sv_next s) s1 s'" "sv_next s1 = sv_next s + 1"
      "om_objectTable s1 = om_objectTable s" "om_objectExtents s1 = om_objectExtents s" "known_type E ob"
      "sv_objects s1 = (sv_objects s)(sv_next s \<mapsto> ob)"
    using read_object_result [OF assms(1)] by auto
  have out: "sv_next s \<notin> set (om_objectTable s)" using registered_below [OF assms(2,3)] by blast
  have "registry_ok E s1" using assms(2) out s1(4,5,7) unfolding registry_ok_def by auto
  moreover have "fresh s1" using assms(3) s1(3,7) by (simp add: fresh_def)
  ultimately have "pending E (sv_next s) s1" using s1 out by (simp add: pending_def)
  then have "pending E (sv_next s) s'"
    using pending_grown [OF edits_grown [OF s1(2)]] out s1(4) by simp
  then show ?thesis using s1 by (auto simp: edits_def)
qed

lemma registry_ok_updates: "registry_ok E (s\<lparr>oa_objects := l\<rparr>) = registry_ok E s"
  by (simp add: registry_ok_def)

lemma AddToWorld_pending:
  assumes "AddToWorld E a s = Inr (u, s')" "pending E a s"
  shows "registry_ok E s' \<and> fresh s' \<and> sv_next s' = sv_next s \<and> set (om_objectTable s') = insert a (set (om_objectTable s)) \<and>
    (\<forall>c. c \<noteq> a \<longrightarrow> sv_objects s' c = sv_objects s c)"
proof -
  obtain ob where ob: "sv_objects s a = Some ob" "known_type E ob" using assms(2) by (auto simp: pending_def)
  obtain e where e: "AddObject E a s = Inr ((), registered a ob e s)" "gets_extent s (ob_extent ob) e"
    using AddObject_result [OF _ ob(1)] assms(2) by (auto simp: pending_def)
  have "registry_ok E (registered a ob e s)"
    using registry_registered [OF _ ob(2) _ e(2)] assms(2) by (simp add: pending_def)
  moreover have "\<exists>l. s' = (registered a ob e s)\<lparr>oa_objects := l\<rparr>"
  proof -
    obtain info :: thing_info where "gwhen (th_update info \<noteq> UPDATE_NONE) (AddUpdateObject a) (registered a ob e s) = Inr (u, s')"
      using assms(1) e(1)
      by (auto simp: AddToWorld_def gthen_Inr_iff gbind_Inr_iff GetObjectInfo_def get_object_def deref_def gfail_def split: option.splits)
    then show ?thesis
      by (cases "th_update info = UPDATE_NONE")
        (auto simp: gwhen_def AddUpdateObject_def gmod_def intro: exI [of _ "oa_objects (registered a ob e s)"])
  qed
  ultimately show ?thesis
    using assms(2) by (auto simp: pending_def registered_def registry_ok_updates fresh_def)
qed

text \<open>An object with all it carries: from the first read to its place in the registry.\<close>

lemma object_grown:
  assumes "read_object E toc b s = Inr ((Some p, b1), s1)" "pending E (fst p) s1 \<longrightarrow> grown E s1 s2"
    and "AddToWorld E (fst p) s2 = Inr (u, s3)"
  shows "grown E s s3"
  unfolding grown_def
proof (intro impI)
  assume ok: "registry_ok E s \<and> fresh s"
  note new = read_object_pending [OF assms(1)]
  let ?a = "sv_next s"
  have p: "fst p = ?a" "pending E ?a s1" "sv_next s1 = ?a + 1" "om_objectTable s1 = om_objectTable s"
      "\<forall>a < ?a. sv_objects s1 a = sv_objects s a"
    using new ok by simp_all
  then have g: "grown E s1 s2" using assms(2) by simp
  have below: "\<And>a. a \<in> set (om_objectTable s) \<Longrightarrow> a < ?a" using registered_below ok by blast
  have add: "registry_ok E s3 \<and> fresh s3 \<and> sv_next s3 = sv_next s2 \<and> set (om_objectTable s3) = insert ?a (set (om_objectTable s2)) \<and>
      (\<forall>c. c \<noteq> ?a \<longrightarrow> sv_objects s3 c = sv_objects s2 c)"
    using AddToWorld_pending [OF assms(3)] pending_grown [OF g p(2)] p(1) by simp
  have s2: "sv_next s1 \<le> sv_next s2" "set (om_objectTable s2) = set (om_objectTable s1) \<union> {sv_next s1..<sv_next s2}"
      "\<forall>a \<in> set (om_objectTable s1). sv_objects s2 a = sv_objects s1 a"
      "\<forall>a < sv_next s1. object_make (sv_objects s2 a) = object_make (sv_objects s1 a)"
    using g p(2) unfolding grown_def pending_def by blast+
  have "set (om_objectTable s3) = set (om_objectTable s) \<union> {?a..<sv_next s3}"
    using add s2(1,2) p(3,4) by auto
  moreover have "\<forall>a \<in> set (om_objectTable s). sv_objects s3 a = sv_objects s a"
    using add s2(3) p(4,5) below by fastforce
  moreover have "\<forall>a < ?a. object_make (sv_objects s3 a) = object_make (sv_objects s a)"
    using add s2(4) p(3,5) by simp
  moreover have "?a \<le> sv_next s3" using add s2(1) p(3) by simp
  ultimately show "registry_ok E s3 \<and> fresh s3 \<and> ?a \<le> sv_next s3 \<and>
       set (om_objectTable s3) = set (om_objectTable s) \<union> {?a..<sv_next s3} \<and>
       (\<forall>a \<in> set (om_objectTable s). sv_objects s3 a = sv_objects s a) \<and>
       (\<forall>a < ?a. object_make (sv_objects s3 a) = object_make (sv_objects s a))"
    using add by blast
qed

lemma read_children_grown:
  assumes "read_children E toc a n b s = Some (Inr (b', s'))" "pending E a s"
  shows "grown E s s'"
proof -
  let ?P = "\<lambda>E toc a n b s r. \<forall>b' s'. pending E a s \<longrightarrow> r = Inr (b', s') \<longrightarrow> grown E s s'"
  have "?P E toc a n b s r" if "read_children E toc a n b s = Some r" for E toc a n b s r
    using that
  proof (rule read_children.raw_induct [where P = ?P, rotated])
    fix rc E toc obj n b s r
    assume IH: "\<And>E toc obj n b s r. rc E toc obj n b s = Some r \<Longrightarrow> ?P E toc obj n b s r"
      and body: "(if n = 0 then Some (Inr (b, s))
        else obind (Some (read_object E toc b s)) (\<lambda>((r, b), s).
             case r of None \<Rightarrow> Some (Inr (b, s))
             | Some p \<Rightarrow> obind (rc E toc (fst p) (snd p) b s) (\<lambda>(b, s).
                 obind (Some (gthen (AddToWorld E (fst p)) (put_in_inventory obj (fst p)) s)) (\<lambda>(_, s).
                 rc E toc obj (n - 1) b s)))) = Some r"
    show "?P E toc obj n b s r"
    proof (intro allI impI)
      fix b' s'
      assume p: "pending E obj s" and r: "r = Inr (b', s')"
      show "grown E s s'"
      proof (cases "n = 0")
        case True
        then show ?thesis using body r growth.same by simp
      next
        case False
        then obtain q b1 s1 where first: "read_object E toc b s = Inr ((q, b1), s1)"
          using body r by (auto simp: obind_Inr_iff)
        show ?thesis
        proof (cases q)
          case None
          then have "s' = s" using read_object_result [OF first] body False r first by simp
          then show ?thesis using growth.same by simp
        next
          case (Some c)
          then obtain b2 s2 u s3 v s4 where steps: "rc E toc (fst c) (snd c) b1 s1 = Some (Inr (b2, s2))"
              "AddToWorld E (fst c) s2 = Inr (u, s3)" "put_in_inventory obj (fst c) s3 = Inr (v, s4)"
              "rc E toc obj (n - 1) b2 s4 = Some (Inr (b', s'))"
            using body False r first by (auto simp: obind_Inr_iff gthen_Inr_iff)
          have "pending E (fst c) s1 \<longrightarrow> grown E s1 s2" using IH [OF steps(1)] by blast
          then have one: "grown E s s3" using object_grown first steps(2) Some by blast
          have two: "grown E s3 s4" using put_in_inventory_grown [OF steps(3)] pending_grown [OF one p] by blast
          have "pending E obj s4" using pending_grown [OF two] pending_grown [OF one p] by blast
          then have "grown E s4 s'" using IH [OF steps(4)] by blast
          then show ?thesis using one two grown_trans by blast
        qed
      qed
    qed
  qed
  then show ?thesis using assms by blast
qed

lemma CreateObjectFromFile_grown:
  assumes "CreateObjectFromFile E toc b s = Some (Inr (x, s'))"
  shows "grown E s s'"
proof -
  obtain r b1 s1 where first: "read_object E toc b s = Inr ((r, b1), s1)"
    using assms by (auto simp: CreateObjectFromFile_def obind_Inr_iff)
  show ?thesis
  proof (cases r)
    case None
    then have "s' = s" using read_object_result [OF first] assms first by (simp add: CreateObjectFromFile_def)
    then show ?thesis using growth.same by simp
  next
    case (Some p)
    then obtain b2 s2 u where "read_children E toc (fst p) (snd p) b1 s1 = Some (Inr (b2, s2))" "AddToWorld E (fst p) s2 = Inr (u, s')"
      using assms first by (auto simp: CreateObjectFromFile_def obind_Inr_iff)
    then show ?thesis using object_grown read_children_grown first Some by blast
  qed
qed

lemma AddCollisionWalls_grown:
  assumes "AddCollisionWalls w s = Inr (a, s')" "\<And>c. w = Some c \<Longrightarrow> c \<in> set (om_objectTable s)"
  shows "grown E s s' \<and> (\<exists>c. a = Some c \<and> c \<in> set (om_objectTable s'))"
proof (cases w)
  case (Some c)
  then have "s' = s" using assms by (auto simp: AddCollisionWalls_def gbind_gret gthen_def gbind_def gmod_def set_add_def)
  then show ?thesis using assms Some growth.same
    by (auto simp: AddCollisionWalls_def gbind_gret gthen_def gbind_def gmod_def)
next
  case None
  then have a: "a = Some (sv_next s)" and s': "s' = s\<lparr>sv_next := sv_next s + 1,
      sv_objects := (sv_objects s)(sv_next s \<mapsto> wall_object), om_objectTable := set_add (sv_next s) (om_objectTable s)\<rparr>"
    using assms(1) by (auto simp: AddCollisionWalls_def new_address_def step_simps)
  have "grown E s s'" unfolding grown_def
  proof (intro impI)
    assume ok: "registry_ok E s \<and> fresh s"
    then have out: "sv_next s \<notin> set (om_objectTable s)" using registered_below by blast
    have wall: "known_type E wall_object \<and> ob_extent wall_object = 0" by (simp add: known_type_def wall_object_def blank_object_def)
    have reg: "registry_ok E s'" using ok out wall
      unfolding registry_ok_def s' by (auto simp: sorted_set_add distinct_set_add)
    show "registry_ok E s' \<and> fresh s' \<and> sv_next s \<le> sv_next s' \<and>
       set (om_objectTable s') = set (om_objectTable s) \<union> {sv_next s..<sv_next s'} \<and>
       (\<forall>a \<in> set (om_objectTable s). sv_objects s' a = sv_objects s a) \<and>
       (\<forall>a < sv_next s. object_make (sv_objects s' a) = object_make (sv_objects s a))"
      using ok out reg unfolding s' by (auto simp: fresh_def)
  qed
  then show ?thesis using a s' by simp
qed

definition walls_in :: "env \<Rightarrow> nat option \<Rightarrow> server \<Rightarrow> bool" where
  "walls_in E w s \<longleftrightarrow> registry_ok E s \<and> fresh s \<and> (\<forall>c. w = Some c \<longrightarrow> c \<in> set (om_objectTable s))"

interpretation growing: map_frame "grown E" E "walls_in E" for E
proof unfold_locales
  fix w s a s'
  assume "walls_in E w s" "AddCollisionWalls w s = Inr (a, s')"
  then show "grown E s s' \<and> walls_in E a s'"
    using AddCollisionWalls_grown [of w s a s' E] by (auto simp: walls_in_def grown_def)
next
  fix s s' w
  assume "grown E s s'" "walls_in E w s"
  then show "walls_in E w s'" by (auto simp: walls_in_def grown_def)
qed (rule CreateObjectFromFile_grown)

text \<open>C12: whatever file it is, malformed ones too: when loading it returns, the registry of objects is consistent,
  the objects in it are those from before, unchanged, and all the objects that were created.\<close>

theorem loading_keeps_registry:
  assumes "NoxMap_open E files name new_map s = Some (Inr ((ok, m), s'))" "registry_ok E s" "fresh s"
  shows "registry_ok E s' \<and> fresh s' \<and> set (om_objectTable s') = set (om_objectTable s) \<union> {sv_next s..<sv_next s'} \<and>
    (\<forall>a \<in> set (om_objectTable s). sv_objects s' a = sv_objects s a)"
proof -
  have "nm_walls_object new_map = None" by (simp add: new_map_def)
  then have "grown E s s'" using growing.open_frame [OF assms(1)] assms(2,3) by (simp add: walls_in_def)
  then show ?thesis using assms(2,3) by (simp add: grown_def)
qed

theorem loading_keeps_registry_witness:
  "\<exists>m s. NoxMap_open sample_env [''m'' \<mapsto> map_bytes sample_header sample_sections] ''m'' new_map new_server = Some (Inr ((True, m), s)) \<and>
     registry_ok sample_env s \<and> set (om_objectTable s) = {0..<sv_next s}"
proof -
  obtain m s where load: "NoxMap_open sample_env [''m'' \<mapsto> map_bytes sample_header sample_sections] ''m'' new_map new_server =
      Some (Inr ((True, m), s))"
    using sample_loads by blast
  have "registry_ok sample_env new_server" "fresh new_server" "om_objectTable new_server = []" "sv_next new_server = 0"
    by (simp_all add: registry_ok_def fresh_def new_server_def)
  then show ?thesis using loading_keeps_registry [OF load] load by auto
qed

end
