(* ===== verification/Server_Reach.thy ===== *)
theory Server_Reach
  imports Map_Registry
begin

text \<open>
  The states the running server can reach, and what holds in all of them: the invariant of the session
  table, queues of packets that are read inside, and well-formed units and players. A step is a datagram
  or another step of the network side, a tick of the world, or a command of the console.
\<close>

section \<open>The invariant\<close>

text \<open>Well-formed objects, units and players, but for the health and mana of the objects \<open>X\<close>.\<close>

definition shapes_ok :: "nat set \<Rightarrow> server \<Rightarrow> bool" where
  "shapes_ok X s \<longleftrightarrow>
     (\<forall>a ob. a \<notin> X \<longrightarrow> sv_objects s a = Some ob \<longrightarrow> vital_ok ob) \<and>
     (\<forall>a un. sv_units s a = Some un \<longrightarrow> unit_ok un) \<and> (\<forall>a p. sv_players s a = Some p \<longrightarrow> player_ok p)"

definition shapes_frame :: "nat set \<Rightarrow> server \<Rightarrow> server \<Rightarrow> bool" where
  "shapes_frame X s s' \<longleftrightarrow> (shapes_ok X s \<longrightarrow> shapes_ok X s')"

interpretation shs: step_frame "shapes_frame X" for X
proof unfold_locales
  show "shapes_frame X s s' \<Longrightarrow> shapes_frame X s' s'' \<Longrightarrow> shapes_frame X s s''" for s s' s''
    by (simp add: shapes_frame_def)
qed (auto simp: shapes_frame_def shapes_ok_def)

text \<open>While a player respawns, its health and mana may be out of bounds; then they become the new bounds.\<close>

lemma gseq_append: "gseq (ms @ ns) s = Inr ((), s'') \<longleftrightarrow> (\<exists>s'. gseq ms s = Inr ((), s') \<and> gseq ns s' = Inr ((), s''))"
  by (induction ms arbitrary: s) (auto simp: gthen_Inr_iff)

lemma shapes_outfit: "stays (shapes_frame (insert a X)) (class_outfit E a)"
proof -
  have upd: "stays (shapes_frame (insert a X)) (upd_object a f)" for f
    by (auto simp: stays_def upd_object_def get_object_def step_simps shapes_frame_def shapes_ok_def
        split: option.splits)
  have "stays (shapes_frame (insert a X)) (set_stats E a cls health mana speed)" for cls health mana speed
    unfolding set_stats_def by (rule shs.stays_then [OF upd shs.stays_upd_unit]) (simp add: unit_ok_def)
  then show ?thesis unfolding class_outfit_def by (intro frames)
qed

lemma shapes_limits:
  assumes "upd_object a (\<lambda>ob. ob\<lparr>ob_max_mana := ob_mana ob, ob_max_health := ob_health ob\<rparr>) s = Inr (u, s')"
    and "shapes_ok (insert a X) s"
  shows "shapes_ok X s'"
  using assms
  by (auto simp: upd_object_def get_object_def step_simps shapes_ok_def vital_ok_def split: option.splits if_splits)

lemma shapes_respawn: "stays (shapes_frame X) (Respawn E a)"
proof (rule staysI)
  fix s u s'
  assume run: "Respawn E a s = Inr (u, s')"
  let ?before = "[class_outfit E a, give_known E a ''StreetPants'', give_known E a ''StreetSneakers'',
    upd_unit a (\<lambda>un. un\<lparr>un_max_speed := un_speed un\<rparr>)]"
  let ?limits = "upd_object a (\<lambda>ob. ob\<lparr>ob_max_mana := ob_mana ob, ob_max_health := ob_health ob\<rparr>)"
  let ?after = "[SetPosition a (3000, 2900), ForceUpdateAll a, ResetEnchants a, SetEnchant E a ENCHANT_INVULNERABLE 0,
    gbind (get_player a) (\<lambda>p. SendPlayerRespawnOpcode (pl_session p)),
    send_built (BuildTotalHealthPacket a), send_built (BuildTotalManaPacket a), send_built (BuildStatsPacket a),
    gbind (BuildDequipPacket a True 0xFFFFFFFF new_packet) (\<lambda>packet. gvoid (send_player a packet)),
    gbind (BuildDequipPacket a False 0xFFFFFFFF new_packet) (\<lambda>packet. gvoid (send_player a packet))]"
  have "Respawn E a = gseq (?before @ ?limits # ?after)" by (simp add: Respawn_def)
  then obtain s1 s2 where before: "gseq ?before s = Inr ((), s1)" and limits: "?limits s1 = Inr ((), s2)"
    and after: "gseq ?after s2 = Inr ((), s')"
    using run gseq_append [of ?before "?limits # ?after" s s'] by (auto simp: gthen_Inr_iff)
  have "stays (shapes_frame (insert a X)) (gseq ?before)" by (intro frames shapes_outfit; simp add: unit_ok_def)
  then have "shapes_frame (insert a X) s s1" using before by (rule staysD)
  moreover have "stays (shapes_frame X) (gseq ?after)" by (intro frames)
  then have "shapes_frame X s2 s'" using after by (rule staysD)
  moreover have "shapes_ok X s \<Longrightarrow> shapes_ok (insert a X) s" unfolding shapes_ok_def by blast
  ultimately show "shapes_frame X s s'" using shapes_limits [OF limits] by (simp add: shapes_frame_def)
qed

interpretation shf: game_frame "shapes_frame X" for X
  by unfold_locales (rule shapes_respawn)

definition packets_ok :: "server \<Rightarrow> bool" where
  "packets_ok s \<longleftrightarrow> (\<forall>a st. sv_sessions s a = Some st \<longrightarrow> (\<forall>p \<in> set (ss_recvQueue st). inside p))"

definition server_inv :: "server \<Rightarrow> bool" where
  "server_inv s \<longleftrightarrow> net_inv s \<and> packets_ok s \<and> shapes_ok {} s"

lemma packets_queue: "packets_ok s \<Longrightarrow> sv_sessions s a \<noteq> None \<Longrightarrow> queue_ok a s"
  by (auto simp: packets_ok_def queue_ok_def)

lemma net_frame_inv:
  assumes "net_frame s s'" "net_inv s"
  shows "net_inv s'"
proof (rule net_inv_frame [OF assms(2)])
  fix a
  have "map_option session_key (sv_sessions s' a) = map_option session_key (sv_sessions s a)"
    using assms(1) by (simp add: net_frame_def)
  then show "map_option ss_accountId (sv_sessions s' a) = map_option ss_accountId (sv_sessions s a)"
    by (cases "sv_sessions s a"; cases "sv_sessions s' a") (auto simp: session_key_def)
qed (use assms(1) in \<open>simp_all add: net_frame_def\<close>)

lemma net_frame_sym:
  assumes "net_frame s s'" "sv_sessions s' a = Some st'"
  shows "\<exists>st. sv_sessions s a = Some st \<and> session_frame st st'"
proof -
  have "map_option session_key (sv_sessions s a) = Some (session_key st')"
    using assms unfolding net_frame_def by (metis option.simps(9))
  then show ?thesis by (auto simp: session_frame_def session_key_def)
qed

lemma net_frame_packets: "net_frame s s' \<Longrightarrow> packets_ok s \<Longrightarrow> packets_ok s'"
  by (auto simp: packets_ok_def session_frame_def dest!: net_frame_sym)

text \<open>A step within both relations, with what it leaves alone.\<close>

definition server_frame :: "server \<Rightarrow> server \<Rightarrow> bool" where
  "server_frame s s' \<longleftrightarrow> net_frame s s' \<and> shapes_frame {} s s'"

lemma server_frame_inv: "server_frame s s' \<Longrightarrow> server_inv s \<Longrightarrow> server_inv s'"
  by (auto simp: server_frame_def server_inv_def shapes_frame_def net_frame_inv net_frame_packets)

lemma server_frame_tables:
  "server_frame s s' \<Longrightarrow> w_sessions s' = w_sessions s"
  "server_frame s s' \<Longrightarrow> sv_sessions s' a = None \<longleftrightarrow> sv_sessions s a = None"
proof -
  assume f: "server_frame s s'"
  then show "w_sessions s' = w_sessions s" by (simp add: server_frame_def net_frame_def)
  have "map_option session_key (sv_sessions s' a) = map_option session_key (sv_sessions s a)"
    using f by (simp add: server_frame_def net_frame_def)
  then show "sv_sessions s' a = None \<longleftrightarrow> sv_sessions s a = None" by (metis option.map_disc_iff)
qed

lemma frameI:
  "stays net_frame m \<Longrightarrow> stays (shapes_frame {}) m \<Longrightarrow> m s = Inr (x, s') \<Longrightarrow> server_frame s s'"
  by (auto simp: server_frame_def dest: staysD)

section \<open>The sessions of a tick\<close>

lemma server_inv_pop:
  assumes "server_inv s" "sv_sessions s a = Some st" "ss_recvQueue st = p # ps"
  shows "server_inv (s\<lparr>sv_sessions := (sv_sessions s)(a \<mapsto> st\<lparr>ss_recvQueue := ps\<rparr>)\<rparr>)"
  using assms net_inv_upd_session [of s a st "st\<lparr>ss_recvQueue := ps\<rparr>"]
  by (auto simp: server_inv_def packets_ok_def shapes_ok_def)

text \<open>What holds between two iterations of the loop.\<close>

definition loop_inv :: "nat \<Rightarrow> (u32 \<times> nat option) list \<Rightarrow> world_packet option \<Rightarrow> server \<Rightarrow> bool" where
  "loop_inv ss m p s \<longleftrightarrow>
     server_inv s \<and> sv_sessions s ss \<noteq> None \<and> w_sessions s = m \<and> (\<forall>q. p = Some q \<longrightarrow> inside q)"

lemma loop_inv_frame: "server_frame s s' \<Longrightarrow> loop_inv ss m p s \<Longrightarrow> (\<forall>q. p' = Some q \<longrightarrow> inside q) \<Longrightarrow> loop_inv ss m p' s'"
  by (simp add: loop_inv_def server_frame_inv server_frame_tables)

lemma loop_inv_step:
  assumes inv: "loop_inv ss m p s" and step: "loop_step E ss p s = Inr (r, s')"
  shows "case r of None \<Rightarrow> s' = s | Some p' \<Rightarrow> loop_inv ss m p' s'"
proof -
  obtain st where st: "sv_sessions s ss = Some st" using inv by (auto simp: loop_inv_def)
  have msg: "case r of None \<Rightarrow> s' = s | Some p' \<Rightarrow> loop_inv ss m p' s'"
    if i: "loop_inv ss m None s1" and q: "inside q" and run: "message E ss q s1 = Inr (r, s')" for q s1
  proof -
    obtain p' where r: "r = Some p'" "\<forall>q. p' = Some q \<longrightarrow> inside q" using message_advances [OF q run] by blast
    have "server_frame s1 s'" by (rule frameI [OF nf.stays_message shf.stays_message run])
    then show ?thesis using loop_inv_frame [OF _ i r(2)] r by simp
  qed
  show ?thesis
  proof (cases "(p = None \<and> ss_recvQueue st = []) \<or> \<not> ss_socket st")
    case True
    then show ?thesis using loop_step_over [OF st True, of E] step by simp
  next
    case False
    then have sock: "ss_socket st" by simp
    show ?thesis
    proof (cases p)
      case (Some q)
      then show ?thesis using msg [of s q] inv step loop_step_packet [OF st sock] by (simp add: loop_inv_def)
    next
      case None
      then obtain q qs where cons: "ss_recvQueue st = q # qs" using False by (cases "ss_recvQueue st") auto
      have "inside q" using inv st cons by (fastforce simp: loop_inv_def server_inv_def packets_ok_def)
      moreover have "loop_inv ss m None (s\<lparr>sv_sessions := (sv_sessions s)(ss \<mapsto> st\<lparr>ss_recvQueue := qs\<rparr>)\<rparr>)"
        using inv server_inv_pop [OF _ st cons] by (simp add: loop_inv_def)
      ultimately show ?thesis using msg step None loop_step_next [OF st sock cons] by simp
    qed
  qed
qed

lemma loop_runs:
  assumes inv: "server_inv s" "sv_sessions s ss \<noteq> None"
  shows "\<exists>r. dispatch_loop E ss None s = Some r \<and>
    (\<forall>s'. r = Inr s' \<longrightarrow> server_inv s' \<and> sv_sessions s' ss \<noteq> None \<and> w_sessions s' = w_sessions s)"
proof -
  have "queue_ok ss s" using inv by (intro packets_queue) (simp_all add: server_inv_def)
  then obtain r where r: "dispatch_loop E ss None s = Some r" using dispatch_loop_ends by blast
  let ?I = "loop_inv ss (w_sessions s)"
  have "r = Inr s' \<longrightarrow> ?I None s'" for s'
  proof (rule dispatch_loop_invariant [OF r, where I = ?I and J = "?I None"])
    show "?I None s" using inv by (simp add: loop_inv_def)
    show "?I p s1 \<Longrightarrow> loop_step E ss p s1 = Inr (Some r1, s2) \<Longrightarrow> ?I r1 s2" for p s1 r1 s2
      using loop_inv_step [of ss _ p s1 E "Some r1" s2] by simp
    show "?I p s1 \<Longrightarrow> loop_step E ss p s1 = Inr (None, s2) \<Longrightarrow> ?I None s2" for p s1 s2
      using loop_inv_step [of ss _ p s1 E None s2] by (simp add: loop_inv_def)
  qed
  then show ?thesis using r by (auto simp: loop_inv_def)
qed

lemma session_runs:
  assumes inv: "server_inv s" "sv_sessions s ss \<noteq> None"
  shows "\<exists>r. WorldSession_Update E diff ss s = Some r \<and>
    (\<forall>b s'. r = Inr (b, s') \<longrightarrow> server_inv s' \<and> sv_sessions s' ss \<noteq> None \<and> w_sessions s' = w_sessions s)"
proof (cases "session_before ss diff s")
  case (Inl e)
  then show ?thesis by (simp add: WorldSession_Update_def)
next
  case (Inr xs)
  then obtain s1 where before: "session_before ss diff s = Inr ((), s1)" by (cases xs) auto
  then have f1: "server_frame s s1" by (rule frameI [OF nf.stays_session_before shf.stays_session_before])
  then have "server_inv s1" "sv_sessions s1 ss \<noteq> None"
    using inv by (simp_all add: server_frame_inv server_frame_tables)
  then obtain r where loop: "dispatch_loop E ss None s1 = Some r"
    "\<And>s'. r = Inr s' \<Longrightarrow> server_inv s' \<and> sv_sessions s' ss \<noteq> None \<and> w_sessions s' = w_sessions s1"
    using loop_runs by blast
  show ?thesis
  proof (cases r)
    case (Inl e)
    then show ?thesis using before loop by (simp add: WorldSession_Update_def)
  next
    case (Inr s2)
    have "WorldSession_Update E diff ss s = Some (session_after E ss s2)"
      using before loop(1) Inr by (simp add: WorldSession_Update_def)
    moreover have "server_inv s3 \<and> sv_sessions s3 ss \<noteq> None \<and> w_sessions s3 = w_sessions s"
      if "session_after E ss s2 = Inr (b, s3)" for b s3
    proof -
      have "server_frame s2 s3" using that by (rule frameI [OF nf.stays_session_after shf.stays_session_after])
      then show ?thesis
        using loop(2) [OF Inr] server_frame_tables(1) [OF f1] by (simp add: server_frame_inv server_frame_tables)
    qed
    ultimately show ?thesis by blast
  qed
qed

section \<open>Deleted sessions\<close>

lemma delete_session_result:
  assumes "delete_session a s = Inr (x, s')"
  shows "\<exists>s1. server_frame s s1 \<and> s' = s1\<lparr>sv_sessions := (sv_sessions s1)(a := None)\<rparr>"
proof -
  have "server_frame s s1" if "gwhen c (LogoutPlayer a) s = Inr (y, s1)" for c y s1
    using that by (rule frameI [rotated 2]) (intro frames)+
  then show ?thesis
    using assms by (auto simp: delete_session_def gbind_Inr_iff gthen_Inr_iff get_session_def gmod_def split: option.splits)
qed

lemma server_inv_erase:
  assumes inv: "server_inv s" and a: "map_of (w_sessions s) n = Some (Some a)"
  shows "server_inv (s\<lparr>sv_sessions := (sv_sessions s)(a := None), w_sessions := map_del n (w_sessions s)\<rparr>)"
proof -
  have "map_of (w_sessions s) m \<noteq> Some (Some a)" if "m \<noteq> n" for m
    using net_inv_account [of s m a] net_inv_account [OF _ a] inv that by (auto simp: server_inv_def)
  then show ?thesis
    using inv a unfolding server_inv_def net_inv_def packets_ok_def shapes_ok_def
    by (auto split: if_splits simp: distinct_map_del)
qed

lemma server_inv_kicked:
  assumes "server_inv (s\<lparr>w_kicked := a # ks\<rparr>)"
  shows "server_inv (s\<lparr>sv_sessions := (sv_sessions s)(a := None), w_kicked := ks\<rparr>)"
  using assms unfolding server_inv_def net_inv_def packets_ok_def shapes_ok_def
  by (auto split: if_splits)

lemma server_frame_kicked: "server_frame s s' \<Longrightarrow> server_frame (s\<lparr>w_kicked := ks\<rparr>) (s'\<lparr>w_kicked := ks\<rparr>)"
proof -
  have "shapes_ok {} (s\<lparr>w_kicked := ks\<rparr>) = shapes_ok {} s" for s by (simp add: shapes_ok_def)
  then show "server_frame s s' \<Longrightarrow> server_frame (s\<lparr>w_kicked := ks\<rparr>) (s'\<lparr>w_kicked := ks\<rparr>)"
    by (simp add: server_frame_def shapes_frame_def) (simp add: net_frame_def)
qed

lemma kicked_deleted:
  assumes "gfor ks delete_session s = Inr (x, s')" "server_inv (s\<lparr>w_kicked := ks\<rparr>)"
  shows "server_inv (s'\<lparr>w_kicked := []\<rparr>)"
  using assms
proof (induction ks arbitrary: s)
  case Nil
  then show ?case by (simp add: gret_Inr_iff)
next
  case (Cons a ks)
  obtain s2 where d: "delete_session a s = Inr ((), s2)" and rest: "gfor ks delete_session s2 = Inr (x, s')"
    using Cons.prems(1) by (auto simp: gthen_Inr_iff)
  obtain s1 where f: "server_frame s s1" and s2: "s2 = s1\<lparr>sv_sessions := (sv_sessions s1)(a := None)\<rparr>"
    using delete_session_result [OF d] by blast
  from server_frame_kicked [OF f] have "server_inv (s1\<lparr>w_kicked := a # ks\<rparr>)" by (rule server_frame_inv [OF _ Cons.prems(2)])
  from server_inv_kicked [OF this] show ?case using Cons.IH [OF rest] by (simp add: s2)
qed

lemma delete_kicked_inv:
  assumes "server_inv s" "delete_kicked s = Inr (x, s')"
  shows "server_inv s'"
  using assms kicked_deleted [of "w_kicked s" s]
  by (auto simp: delete_kicked_def gbind_Inr_iff gthen_Inr_iff gget_def gmod_def)

text \<open>The sessions of the table one after the other: none of those still to come is deleted.\<close>

lemma update_sessions_runs:
  assumes "server_inv s" "distinct (map fst m)" "\<And>n a. (n, Some a) \<in> set m \<Longrightarrow> map_of (w_sessions s) n = Some (Some a)"
  shows "\<exists>r. update_sessions E diff m s = Some r \<and> (\<forall>s'. r = Inr s' \<longrightarrow> server_inv s')"
  using assms
proof (induction E diff m s rule: update_sessions.induct)
  case (1 E diff s)
  then show ?case by simp
next
  case (2 E diff n m s)
  then show ?case by simp
next
  case (3 E diff n ss m s)
  have here: "map_of (w_sessions s) n = Some (Some ss)" using "3.prems"(3) by simp
  then have "sv_sessions s ss \<noteq> None" using "3.prems"(1) net_inv_live by (auto simp: server_inv_def)
  then obtain r where run: "WorldSession_Update E diff ss s = Some r"
    and after: "\<And>b s1. r = Inr (b, s1) \<Longrightarrow> server_inv s1 \<and> w_sessions s1 = w_sessions s"
    using session_runs [OF "3.prems"(1)] by blast
  show ?case
  proof (cases r)
    case (Inl e)
    then show ?thesis using run by simp
  next
    case (Inr bs)
    obtain b s1 where r: "r = Inr (b, s1)" using Inr by (cases bs) simp
    then have s1: "server_inv s1" "w_sessions s1 = w_sessions s" using after by blast+
    show ?thesis
    proof (cases b)
      case True
      then have "\<exists>r. update_sessions E diff m s1 = Some r \<and> (\<forall>s'. r = Inr s' \<longrightarrow> server_inv s')"
        using "3.IH"(1) [OF run] r s1 "3.prems" by simp
      then show ?thesis using run r True by simp
    next
      case False
      show ?thesis
      proof (cases "delete_session ss s1")
        case (Inl e)
        then show ?thesis using run r False by simp
      next
        case (Inr us)
        then obtain s2 where d: "delete_session ss s1 = Inr ((), s2)" by (cases us) simp
        let ?s = "s2\<lparr>w_sessions := map_del n (w_sessions s2)\<rparr>"
        obtain s3 where f: "server_frame s1 s3" and s2: "s2 = s3\<lparr>sv_sessions := (sv_sessions s3)(ss := None)\<rparr>"
          using delete_session_result [OF d] by blast
        have "server_inv s3" "w_sessions s3 = w_sessions s"
          using server_frame_inv [OF f s1(1)] server_frame_tables(1) [OF f] s1(2) by simp_all
        then have inv: "server_inv ?s" and tab: "w_sessions ?s = map_del n (w_sessions s)"
          using server_inv_erase [of s3 n ss] here by (simp_all add: s2)
        have "map_of (w_sessions ?s) n' = Some (Some a)" if "(n', Some a) \<in> set m" for n' a
          using that "3.prems"(2,3) tab by (force simp: map_of_map_del)
        then have "\<exists>r. update_sessions E diff m ?s = Some r \<and> (\<forall>s'. r = Inr s' \<longrightarrow> server_inv s')"
          using "3.IH"(2) [OF run r refl _ d refl] inv False "3.prems"(2) by simp
        then show ?thesis using run r False d by simp
      qed
    qed
  qed
qed

lemma sessions_tick_runs:
  assumes "server_inv s"
  shows "\<exists>r. sessions_tick E diff s = Some r \<and> (\<forall>s'. r = Inr s' \<longrightarrow> server_inv s')"
proof (cases "delete_kicked s")
  case (Inl e)
  then show ?thesis by (simp add: sessions_tick_def)
next
  case (Inr us)
  then obtain s1 where k: "delete_kicked s = Inr ((), s1)" by (cases us) simp
  then have inv: "server_inv s1" using delete_kicked_inv [OF assms] by blast
  then have "distinct (map fst (w_sessions s1))" by (simp add: server_inv_def net_inv_def)
  then show ?thesis using update_sessions_runs [OF inv, of "w_sessions s1"] k by (simp add: sessions_tick_def)
qed

section \<open>The objects of a tick\<close>

text \<open>What the physics library does to the game in a step: it moves bodies, and it calls the callbacks of
  bodies that touch.\<close>

datatype physics_event = Moves nat grid_pair | Touches "nat option" "nat option"

definition physics_event :: "env \<Rightarrow> physics_event \<Rightarrow> unit game" where
  "physics_event E ev = (case ev of Moves a pos \<Rightarrow> upd_object a (\<lambda>ob. ob\<lparr>ob_center := pos\<rparr>) | Touches a b \<Rightarrow> collide E a b)"

definition physics_run :: "env \<Rightarrow> physics_event list \<Rightarrow> u32 \<Rightarrow> unit game" where
  "physics_run E evs diff = gfor evs (physics_event E)"

context game_frame begin

lemma stays_objects_tick: "stays R (objects_tick (physics_run E evs) E diff)"
proof -
  have "stays R (physics_event E ev)" for ev
    by (cases ev) (auto simp: physics_event_def vital_ok_def intro!: frames)
  then show ?thesis unfolding objects_tick_def physics_run_def by (intro frames)
qed

end

section \<open>Reachable worlds\<close>

definition new_world :: "int \<Rightarrow> world" where
  "new_world now = \<lparr>wo_server = new_server, wo_timers = initial_timers, wo_gameTime = now, wo_idleMode = False,
     wo_shutdownTimer = 0, wo_stopEvent = False\<rparr>"

inductive world_step :: "world \<Rightarrow> world \<Rightarrow> bool" where
  network: "net_step (wo_server w) s \<Longrightarrow> world_step w (w\<lparr>wo_server := s\<rparr>)"
| tick: "World_Update (physics_run E evs) E diff w = Some (Inr w') \<Longrightarrow> world_step w w'"
| shutdown: "world_step w (ShutdownServ t idle w)"
| cancel: "world_step w (ShutdownCancel w)"
| exit: "world_step w (w\<lparr>wo_stopEvent := True\<rparr>)"

inductive world_reachable :: "world \<Rightarrow> bool" where
  start: "world_reachable (new_world now)"
| loaded: "NoxMap_open E files name new_map new_server = Some (Inr ((ok, m), s)) \<Longrightarrow>
    world_reachable ((new_world now)\<lparr>wo_server := s\<rparr>)"
| step: "world_reachable w \<Longrightarrow> world_step w w' \<Longrightarrow> world_reachable w'"

inductive_cases world_stepE: "world_step w w'"

lemma update_server [simp]:
  "wo_server (UpdateGameTime t w) = wo_server w" "wo_server (reset_timer i w) = wo_server w"
  "wo_server (ShutdownServ n idle w) = wo_server w" "wo_server (ShutdownCancel w) = wo_server w"
  by (simp_all add: UpdateGameTime_def reset_timer_def ShutdownServ_def ShutdownCancel_def Let_def)

lemma World_Update_runs:
  assumes "server_inv (wo_server w)"
  shows "\<exists>r. World_Update (physics_run E evs) E diff w = Some r \<and> (\<forall>w'. r = Inr w' \<longrightarrow> server_inv (wo_server w'))"
proof -
  let ?w = "UpdateGameTime (e_time E) (w\<lparr>wo_timers := map (\<lambda>t. if it_current t \<ge> 0 then timer_Update (uint diff) t
      else t\<lparr>it_current := 0\<rparr>) (wo_timers w)\<rparr>)"
  let ?run = "if timer_Passed (wo_timers ?w ! WUPDATE_SESSIONS)
      then map_option (map_sum id (\<lambda>s. (reset_timer WUPDATE_SESSIONS ?w)\<lparr>wo_server := s\<rparr>)) (sessions_tick E diff (wo_server ?w))
      else Some (Inr ?w)"
  have inv: "server_inv (wo_server ?w)" using assms by simp
  have "\<exists>r. ?run = Some r \<and> (\<forall>w1. r = Inr w1 \<longrightarrow> server_inv (wo_server w1))"
  proof (cases "timer_Passed (wo_timers ?w ! WUPDATE_SESSIONS)")
    case True
    obtain t where "sessions_tick E diff (wo_server ?w) = Some t" "\<And>s'. t = Inr s' \<Longrightarrow> server_inv s'"
      using sessions_tick_runs [OF inv, of E diff] by blast
    then show ?thesis using True by (cases t) simp_all
  next
    case False
    then show ?thesis using inv by simp
  qed
  then obtain r where r: "?run = Some r" and w1: "\<And>w1. r = Inr w1 \<Longrightarrow> server_inv (wo_server w1)"
    by blast
  have objs: "server_inv s'" if "server_inv s" "objects_tick (physics_run E evs) E diff s = Inr (u, s')" for u s s'
    using frameI [OF nf.stays_objects_tick shf.stays_objects_tick that(2)] that(1) by (rule server_frame_inv)
  show ?thesis
  proof (cases r)
    case (Inl e)
    then show ?thesis using r by (simp add: World_Update_def Let_def)
  next
    case (Inr w1)
    then show ?thesis using r w1 [OF Inr] objs unfolding World_Update_def Let_def
      by (auto simp: rmap_Inr_iff)
  qed
qed

section \<open>The network side\<close>

text \<open>Datagrams only add packets that are read inside, and touch neither units nor players.\<close>

definition quiet :: "server \<Rightarrow> bool" where
  "quiet s \<longleftrightarrow> packets_ok s \<and> shapes_ok {} s"

lemma quiet_tables [simp]:
  "quiet (s\<lparr>w_freeids := x1\<rparr>) = quiet s" "quiet (s\<lparr>sv_next := x2\<rparr>) = quiet s" "quiet (s\<lparr>w_sessions := x3\<rparr>) = quiet s"
  "quiet (s\<lparr>ws_sessions := x4\<rparr>) = quiet s" "quiet (s\<lparr>ws_sendQueue := x5\<rparr>) = quiet s"
  "quiet (s\<lparr>w_kicked := x6\<rparr>) = quiet s" "quiet (s\<lparr>w_maxSessionsCount := x7\<rparr>) = quiet s"
  "quiet (s\<lparr>ws_closeAndDelete := x8\<rparr>) = quiet s"
  by (simp_all add: quiet_def packets_ok_def shapes_ok_def)

lemma quiet_session:
  assumes "quiet s" "\<forall>p \<in> set (ss_recvQueue st). inside p" "sv_sessions s' = (sv_sessions s)(a \<mapsto> st)"
    and "sv_objects s' = sv_objects s" "sv_units s' = sv_units s" "sv_players s' = sv_players s"
  shows "quiet s'"
  using assms by (simp add: quiet_def packets_ok_def shapes_ok_def)

lemma quiet_upd_session:
  assumes "\<And>st. \<forall>p \<in> set (ss_recvQueue st). inside p \<Longrightarrow> \<forall>p \<in> set (ss_recvQueue (f st)). inside p"
  shows "keeps quiet (upd_session a f) UNIV"
proof (rule tripleI)
  fix s x s'
  assume s: "quiet s" and "upd_session a f s = Inr (x, s')"
  then obtain st where st: "sv_sessions s a = Some st" and s': "s' = s\<lparr>sv_sessions := (sv_sessions s)(a \<mapsto> f st)\<rparr>"
    by (auto simp: upd_session_def get_session_def step_simps split: option.splits)
  have "\<forall>p \<in> set (ss_recvQueue st). inside p" using s st by (auto simp: quiet_def packets_ok_def)
  then show "quiet s'" by (intro quiet_session [OF s assms]) (simp_all add: s')
qed simp

lemma inside_received: "inside (received_packet data c)"
  using received_packet_buf [of data c] by (simp add: inside_def pk_pos_def packet_size_def buf_size_def)

lemma inside_copy: "inside p \<Longrightarrow> inside (copy_packet p)"
  by (simp add: inside_def pk_pos_def packet_size_def buf_size_def copy_packet_def copy_buffer_def)

lemma quiet_HandleJoin: "keeps quiet (HandleJoin p) UNIV"
proof (rule tripleI)
  fix s x s'
  assume s: "quiet s" and r: "HandleJoin p s = Inr (x, s')"
  then have "s' = after_join (p_client p) s"
    using HandleJoin_result [of p _ s] HandleJoin_fault [of p _ s] by (cases "read_join (p_buf p)") auto
  then show "quiet s'" by (intro quiet_session [OF s]) (simp_all add: after_join_def Let_def new_session_def)
qed simp

lemma quiet_steps [triples]:
  "keeps quiet (get_session a) UNIV" "keeps quiet (deref q) UNIV" "keeps quiet (gfail e) UNIV" "keeps quiet (glift m) UNIV"
  "keeps quiet (socket_SendPacket p) UNIV" "keeps quiet (FindSession n) UNIV"
  "keeps quiet (gmod (\<lambda>s. s\<lparr>ws_sessions := f s\<rparr>)) UNIV"
  by (auto simp: triple_def get_session_def deref_def socket_SendPacket_def FindSession_def gfail_def gret_def glift_def
      gget_def gmod_def rmap_Inr_iff split: sum.splits option.splits)

lemma quiet_OnRawData: "keeps quiet (OnRawData data ip port) UNIV"
  unfolding OnRawData_def find_source_def session_CryptData_def HandleLANPing_def Let_def
  by (intro triples quiet_HandleJoin quiet_upd_session)
    (auto simp: QueuePacket_def inside_copy inside_received)

lemma quiet_RemoveSession: "keeps quiet (RemoveSession n) UNIV"
proof -
  have kick: "keeps quiet (KickPlayer a) UNIV" for a
    unfolding KickPlayer_def by (intro triples triple_mod quiet_upd_session) auto
  have "keeps quiet (gmod (\<lambda>s. s\<lparr>w_kicked := f s, w_sessions := g s\<rparr>)) UNIV" for f g
    by (rule triple_mod) simp
  with kick show ?thesis unfolding RemoveSession_def by (intro triples)
qed

lemma quiet_WorldSocket_Update: "keeps quiet WorldSocket_Update UNIV"
  by (simp add: triple_def WorldSocket_Update_def)

lemma net_step_inv: "server_inv s \<Longrightarrow> net_step s s' \<Longrightarrow> server_inv s'"
proof -
  assume inv: "server_inv s" and step: "net_step s s'"
  then have s: "net_inv s" "quiet s" by (simp_all add: server_inv_def quiet_def)
  from step have "net_inv s' \<and> quiet s'"
  proof (rule net_stepE)
    fix data ip port
    assume "OnRawData data ip port s = Inr ((), s')"
    then show ?thesis using tripleD(1) [OF keeps_OnRawData s(1)] tripleD(1) [OF quiet_OnRawData s(2)] by blast
  next
    fix out
    assume "WorldSocket_Update s = Inr (out, s')"
    then show ?thesis
      using tripleD(1) [OF keeps_WorldSocket_Update s(1)] tripleD(1) [OF quiet_WorldSocket_Update s(2)] by blast
  next
    fix n b
    assume "RemoveSession n s = Inr (b, s')"
    then show ?thesis using tripleD(1) [OF keeps_RemoveSession s(1)] tripleD(1) [OF quiet_RemoveSession s(2)] by blast
  qed
  then show ?thesis by (simp add: server_inv_def quiet_def)
qed

section \<open>Every reachable world\<close>

lemma server_inv_new: "server_inv new_server"
proof -
  have "quiet new_server" by (simp add: quiet_def packets_ok_def shapes_ok_def new_server_def)
  then show ?thesis using net_inv_new_server by (simp add: server_inv_def quiet_def)
qed

lemma server_inv_loaded:
  assumes "NoxMap_open E files name m s = Some (Inr ((ok, m'), s'))" "server_inv s"
  shows "server_inv s'"
  using nfs.loading.open_frame [OF assms(1) TrueI] shs.loading.open_frame [OF assms(1) TrueI] assms(2)
  by (intro server_frame_inv [of s s']) (simp_all add: server_frame_def)

lemma world_inv: "world_reachable w \<Longrightarrow> server_inv (wo_server w)"
proof (induction rule: world_reachable.induct)
  case (start now)
  then show ?case using server_inv_new by (simp add: new_world_def)
next
  case (loaded E files name ok m s now)
  then show ?case using server_inv_loaded server_inv_new by simp
next
  case (step w w')
  from step.hyps(2) show ?case
  proof (rule world_stepE)
    fix s
    assume "w' = w\<lparr>wo_server := s\<rparr>" "net_step (wo_server w) s"
    then show ?thesis using net_step_inv [OF step.IH] by simp
  next
    fix E evs diff
    assume "World_Update (physics_run E evs) E diff w = Some (Inr w')"
    then show ?thesis using World_Update_runs [OF step.IH, of E evs diff] by auto
  qed (use step.IH in simp_all)
qed


text \<open>C1: a tick of the server returns, in every state that datagrams, ticks, removals of sessions and console
  commands lead to, from a new server or one that has loaded a map from any file, and whatever the physics library does meanwhile: the loop of \<open>WorldSession::Update\<close> over the
  messages of a session ends for every content of the queued datagrams, and the ticks that follow start
  again from such a state.\<close>

theorem World_Update_returns:
  assumes "world_reachable w"
  shows "(\<exists>r. World_Update (physics_run E evs) E diff w = Some r) \<and>
    (\<forall>ss. sv_sessions (wo_server w) ss \<noteq> None \<longrightarrow> (\<exists>r. dispatch_loop E ss None (wo_server w) = Some r))"
proof -
  have inv: "server_inv (wo_server w)" using assms by (rule world_inv)
  show ?thesis using World_Update_runs [OF inv] loop_runs [OF inv] by blast
qed

text \<open>A server with a client that sent a datagram of two messages \<open>0x06\<close>, each with four bytes to skip.\<close>

definition sample_server :: server where
  "sample_server =
     (case OnRawData [0, 0, 6, 1, 2, 3, 4, 6, 5, 6, 7, 8] 1 2 (after_join (IPtoClientAddr 1 2) new_server) of
        Inr (_, s) \<Rightarrow> s | Inl e \<Rightarrow> new_server)"

lemma sample_data:
  "\<exists>s st. OnRawData [0, 0, 6, 1, 2, 3, 4, 6, 5, 6, 7, 8] 1 2 (after_join (IPtoClientAddr 1 2) new_server) = Inr ((), s) \<and>
     sv_sessions s 0 = Some st \<and> length (ss_recvQueue st) = 1 \<and> map_of (w_sessions s) 1 = Some (Some 0)"
  unfolding after_join_new
  by (simp add: OnRawData_def find_source_def FindSession_def deref_def upd_session_def get_session_def step_simps
      IPtoClientAddr_def session_CryptData_def new_session_def received_packet_def Let_def QueuePacket_def
      new_server_def map_del_def mk_packet_def buf_resize_def SetUnk_def copy_packet_def copy_buffer_def new_buffer_def)

lemma sample_server:
  "OnRawData [0, 0, 6, 1, 2, 3, 4, 6, 5, 6, 7, 8] 1 2 (after_join (IPtoClientAddr 1 2) new_server) = Inr ((), sample_server)"
  "\<exists>st. sv_sessions sample_server 0 = Some st \<and> length (ss_recvQueue st) = 1"
  "map_of (w_sessions sample_server) 1 = Some (Some 0)"
  using sample_data by (auto simp: sample_server_def)

definition sample_world :: world where
  "sample_world = (new_world 0)\<lparr>wo_server := sample_server\<rparr>"

lemma reachable_network: "world_reachable w \<Longrightarrow> net_step (wo_server w) s \<Longrightarrow> world_reachable (w\<lparr>wo_server := s\<rparr>)"
  by (rule world_reachable.step [OF _ world_step.network])

lemma reachable_sample: "world_reachable sample_world"
proof -
  let ?s = "after_join (IPtoClientAddr 1 2) new_server"
  have "world_reachable ((new_world 0)\<lparr>wo_server := ?s\<rparr>)"
    by (rule reachable_network [OF world_reachable.start]) (simp add: new_world_def step_join)
  from reachable_network [OF this] show ?thesis
    using net_step.received [OF sample_server(1)] by (simp add: sample_world_def)
qed

theorem World_Update_returns_witness:
  "(\<exists>r. World_Update (physics_run sample_env [Touches None None]) sample_env 50 sample_world = Some r) \<and>
   (\<exists>r. dispatch_loop sample_env 0 None (wo_server sample_world) = Some r)"
proof -
  have "sv_sessions (wo_server sample_world) 0 \<noteq> None" using sample_server(2) by (auto simp: sample_world_def)
  then show ?thesis using World_Update_returns [OF reachable_sample] by blast
qed



end
