(* ===== verification/Broadcast.thy ===== *)
theory Broadcast
  imports Object_Accessor
begin

text \<open>
  What \<open>ObjectAccessor::SendPacketToAll\<close> delivers: the stream of messages a client gets, those already
  with the socket and the one its session is collecting, is longer by exactly the message sent. Clients that are
  still loading are left out.
\<close>

section \<open>The stream of one client\<close>

definition stream_to :: "server \<Rightarrow> nat \<Rightarrow> (header \<times> u8) list" where
  "stream_to s a =
     (case sv_sessions s a of
        None \<Rightarrow> []
      | Some st \<Rightarrow> stream_of (filter (\<lambda>p. p_client p = ss_client st) (ws_sendQueue s) @ pending st))"

definition ready :: "session \<Rightarrow> bool" where
  "ready st \<longleftrightarrow> ss_socket st \<and> \<not> ss_playerLoading st"

text \<open>A session with room for the packet in the message it collects.\<close>

definition has_room :: "world_packet \<Rightarrow> session \<Rightarrow> bool" where
  "has_room packet st \<longleftrightarrow>
     send_ok st \<and> length (packet_bytes (ss_sendPacket st)) + length (packet_bytes packet) < append_max"

definition heard :: "world_packet \<Rightarrow> session \<Rightarrow> (header \<times> u8) list" where
  "heard packet st = (if ready st then tagged (SetUnk (ss_unk st) packet) else [])"

lemma SetUnk_SetUnk [simp]: "SetUnk u (SetUnk v packet) = SetUnk u packet"
  by (simp add: SetUnk_def)

lemma packet_bytes_SetUnk [simp]: "packet_bytes (SetUnk u packet) = packet_bytes packet"
  by (simp add: SetUnk_def packet_bytes_def)

lemma has_room_SetUnk [simp]: "has_room (SetUnk u packet) st = has_room packet st"
  by (simp add: has_room_def)

lemma heard_SetUnk [simp]: "heard (SetUnk u packet) st = heard packet st"
  by (simp add: heard_def)

lemma SendPacket_client:
  assumes "SendPacket packet ifReady changeUnk st = Inr (packet', out, st')" "p \<in> set out"
  shows "p_client p = ss_client st"
  using assms
  by (auto simp: SendPacket_def Let_def flush_if_other_def flush_packet_def rbind_Inr_iff copy_packet_def SetXor_def
      packet_SetClient_def split: if_splits)

lemma session_send_stream:
  assumes st: "sv_sessions s a = Some st" and room: "has_room packet st" and code: "p_opcode packet \<noteq> 0"
  shows "\<exists>out st'. session_send a packet True True s =
      Inr (if ready st then SetUnk (ss_unk st) packet else packet,
           s\<lparr>sv_sessions := (sv_sessions s)(a \<mapsto> st'), ws_sendQueue := ws_sendQueue s @ out\<rparr>) \<and>
    (\<forall>p \<in> set out. p_client p = ss_client st) \<and> ss_client st' = ss_client st \<and>
    stream_of (out @ pending st') = stream_of (pending st) @ heard packet st"
proof (cases "ready st")
  case True
  obtain out st' where send: "SendPacket packet True True st = Inr (SetUnk (ss_unk st) packet, out, st')"
    and str: "stream_of (out @ pending st') = stream_of (pending st) @ tagged (SetUnk (ss_unk st) packet)"
    and same: "st' = st\<lparr>ss_sendPacket := ss_sendPacket st'\<rparr>"
    using SendPacket_sends [of st True packet True] True room code by (auto simp: ready_def has_room_def)
  have "ss_client st' = ss_client st" using arg_cong [OF same, of ss_client] by simp
  then show ?thesis
    using send str True SendPacket_client [OF send] st
    by (auto simp: session_send_def get_session_def step_simps heard_def)
next
  case False
  then have "SendPacket packet True True st = Inr (packet, [], st)" by (auto simp: SendPacket_def ready_def)
  then show ?thesis
    using False st by (intro exI [of _ "[]"] exI [of _ st]) (simp add: session_send_def get_session_def step_simps heard_def)
qed

section \<open>One session after the other\<close>

text \<open>The players \<open>pls\<close> with their sessions \<open>as\<close>, all with room and with addresses of their own.\<close>

definition audience :: "server \<Rightarrow> nat list \<Rightarrow> nat list \<Rightarrow> bool" where
  "audience s pls as \<longleftrightarrow>
     list_all2 (\<lambda>pl a. map_option pl_session (sv_players s pl) = Some a) pls as \<and> distinct as"

definition audible :: "world_packet \<Rightarrow> server \<Rightarrow> nat \<Rightarrow> bool" where
  "audible packet s a \<longleftrightarrow> (\<exists>st. sv_sessions s a = Some st \<and> has_room packet st)"

definition own_address :: "server \<Rightarrow> nat \<Rightarrow> nat \<Rightarrow> bool" where
  "own_address s a b \<longleftrightarrow> map_option ss_client (sv_sessions s a) \<noteq> map_option ss_client (sv_sessions s b)"

definition delivered :: "world_packet \<Rightarrow> server \<Rightarrow> server \<Rightarrow> nat \<Rightarrow> bool" where
  "delivered packet s s' a \<longleftrightarrow>
     (\<exists>st. sv_sessions s a = Some st \<and> stream_to s' a = stream_to s a @ heard packet st)"

lemma filter_all: "\<forall>x \<in> set xs. P x \<Longrightarrow> filter P xs = xs"
  by (simp add: filter_id_conv)

lemma filter_none: "\<forall>x \<in> set xs. \<not> P x \<Longrightarrow> filter P xs = []"
  by (simp add: filter_empty_conv)

lemma send_player_delivers:
  assumes pl: "map_option pl_session (sv_players s pl) = Some a"
    and a: "audible packet s a" and code: "p_opcode packet \<noteq> 0"
  shows "\<exists>u s'. send_player pl packet s = Inr (u, s') \<and> (u = packet \<or> (\<exists>n. u = SetUnk n packet)) \<and>
    delivered packet s s' a \<and> sv_players s' = sv_players s \<and>
    (\<forall>b. b \<noteq> a \<longrightarrow> sv_sessions s' b = sv_sessions s b \<and> (own_address s a b \<longrightarrow> stream_to s' b = stream_to s b)) \<and>
    (\<forall>b. map_option ss_client (sv_sessions s' b) = map_option ss_client (sv_sessions s b))"
proof -
  obtain st where st: "sv_sessions s a = Some st" "has_room packet st" using a by (auto simp: audible_def)
  obtain out st' where send: "session_send a packet True True s =
      Inr (if ready st then SetUnk (ss_unk st) packet else packet,
           s\<lparr>sv_sessions := (sv_sessions s)(a \<mapsto> st'), ws_sendQueue := ws_sendQueue s @ out\<rparr>)"
    and own: "\<forall>p \<in> set out. p_client p = ss_client st" "ss_client st' = ss_client st"
    and str: "stream_of (out @ pending st') = stream_of (pending st) @ heard packet st"
    using session_send_stream [OF st code] by blast
  let ?s = "s\<lparr>sv_sessions := (sv_sessions s)(a \<mapsto> st'), ws_sendQueue := ws_sendQueue s @ out\<rparr>"
  have run: "send_player pl packet s = Inr (if ready st then SetUnk (ss_unk st) packet else packet, ?s)"
    using pl send by (auto simp: send_player_def get_player_def step_simps split: option.splits)
  have "stream_to ?s a = stream_to s a @ heard packet st"
    using own str st(1) by (simp add: stream_to_def filter_all)
  moreover have "stream_to ?s b = stream_to s b" if "b \<noteq> a" "own_address s a b" for b
    using that own st(1) by (auto simp: stream_to_def own_address_def filter_none split: option.split)
  ultimately show ?thesis
    unfolding delivered_def using st own by - (intro exI conjI allI impI, rule run, auto)
qed

lemma send_each_delivers:
  assumes "audience s pls as" "\<And>a. a \<in> set as \<Longrightarrow> audible packet s a" "p_opcode packet \<noteq> 0"
    and "\<And>a b. a \<in> set as \<Longrightarrow> b \<in> set as \<Longrightarrow> a \<noteq> b \<Longrightarrow> own_address s a b"
  shows "\<exists>u s'. send_each pls packet s = Inr (u, s') \<and> (\<forall>a \<in> set as. delivered packet s s' a) \<and>
    (\<forall>b. b \<notin> set as \<longrightarrow> sv_sessions s' b = sv_sessions s b \<and>
       ((\<forall>a \<in> set as. own_address s a b) \<longrightarrow> stream_to s' b = stream_to s b))"
  using assms
proof (induction pls arbitrary: as packet s)
  case Nil
  then show ?case by (simp add: audience_def gret_def)
next
  case (Cons pl pls)
  obtain a bs where as: "as = a # bs" and pl: "map_option pl_session (sv_players s pl) = Some a"
    and rest: "list_all2 (\<lambda>pl a. map_option pl_session (sv_players s pl) = Some a) pls bs" and dist: "a \<notin> set bs" "distinct bs"
    using Cons.prems(1) by (auto simp: audience_def list_all2_Cons1)
  obtain u s1 where u: "send_player pl packet s = Inr (u, s1)" "u = packet \<or> (\<exists>n. u = SetUnk n packet)"
    and del: "delivered packet s s1 a" and s1: "sv_players s1 = sv_players s"
    and other: "\<And>b. b \<noteq> a \<Longrightarrow> sv_sessions s1 b = sv_sessions s b"
      "\<And>b. b \<noteq> a \<Longrightarrow> own_address s a b \<Longrightarrow> stream_to s1 b = stream_to s b"
    and cl: "\<And>b. map_option ss_client (sv_sessions s1 b) = map_option ss_client (sv_sessions s b)"
    using send_player_delivers [OF pl, of packet] Cons.prems(2,3) as by auto
  have addr: "own_address s1 b c = own_address s b c" for b c by (simp add: own_address_def cl)
  have ne: "b \<noteq> a" if "b \<in> set bs" for b using that dist by auto
  have aud: "audience s1 pls bs" using rest dist s1 by (simp add: audience_def)
  have room: "audible u s1 b" if "b \<in> set bs" for b
    using Cons.prems(2) [of b] other(1) [OF ne [OF that]] u(2) that as by (auto simp: audible_def)
  have code: "p_opcode u \<noteq> 0" using u(2) Cons.prems(3) by auto
  have own: "own_address s1 b c" if "b \<in> set bs" "c \<in> set bs" "b \<noteq> c" for b c
    using Cons.prems(4) that by (simp add: addr as)
  obtain v s2 where v: "send_each pls u s1 = Inr (v, s2)" "\<forall>b \<in> set bs. delivered u s1 s2 b"
    and keep: "\<forall>b. b \<notin> set bs \<longrightarrow> sv_sessions s2 b = sv_sessions s1 b \<and>
       ((\<forall>a \<in> set bs. own_address s1 a b) \<longrightarrow> stream_to s2 b = stream_to s1 b)"
    using Cons.IH [OF aud room code own] by blast
  have run: "send_each (pl # pls) packet s = Inr (v, s2)" using u(1) v(1) by (simp add: step_simps)
  have "stream_to s2 a = stream_to s1 a" using keep dist Cons.prems(4) as ne by (auto simp: addr)
  then have here: "delivered packet s s2 a" using del by (simp add: delivered_def)
  have there: "delivered packet s s2 b" if b: "b \<in> set bs" for b
  proof -
    obtain st where "sv_sessions s1 b = Some st" "stream_to s2 b = stream_to s1 b @ heard u st"
      using bspec [OF v(2) b] unfolding delivered_def by blast
    moreover have "own_address s a b" using Cons.prems(4) [of a b] b ne as by auto
    ultimately show ?thesis using other [OF ne [OF b]] u(2) by (auto simp: delivered_def)
  qed
  have frame: "sv_sessions s2 b = sv_sessions s b \<and>
      ((\<forall>a \<in> set as. own_address s a b) \<longrightarrow> stream_to s2 b = stream_to s b)" if "b \<notin> set as" for b
    using keep other that by (auto simp: as addr)
  show ?case using run here there frame by (auto simp: as)
qed

text \<open>C4: a broadcast reaches everyone once: when every connected player has a session of its own, with a client address
  of its own and room in the message being collected, \<open>SendPacketToAll\<close> returns; the stream of every
  session that is ready is longer by exactly the message, under that session's own \<open>unk\<close>; the stream of a session
  that is loading or has no socket, and of every session that is not a player's, is unchanged.\<close>

theorem SendPacketToAll_delivers:
  assumes "audience s (map snd (oa_players s)) as" "p_opcode packet \<noteq> 0"
    and "\<And>a. a \<in> set as \<Longrightarrow> audible packet s a"
    and "\<And>a b. sv_sessions s a \<noteq> None \<Longrightarrow> sv_sessions s b \<noteq> None \<Longrightarrow> a \<noteq> b \<Longrightarrow> own_address s a b"
  shows "\<exists>u s'. SendPacketToAll packet s = Inr (u, s') \<and>
    (\<forall>a st. sv_sessions s a = Some st \<longrightarrow>
       stream_to s' a = stream_to s a @
         (if a \<in> set as \<and> ss_socket st \<and> \<not> ss_playerLoading st then tagged (SetUnk (ss_unk st) packet) else []))"
proof -
  have own: "own_address s a b" if "a \<in> set as" "b \<in> set as" "a \<noteq> b" for a b
    using assms(3) [OF that(1)] assms(3) [OF that(2)] assms(4) that(3) by (auto simp: audible_def)
  obtain u s' where run: "send_each (map snd (oa_players s)) packet s = Inr (u, s')"
    and here: "\<forall>a \<in> set as. delivered packet s s' a"
    and there: "\<forall>b. b \<notin> set as \<longrightarrow> sv_sessions s' b = sv_sessions s b \<and>
       ((\<forall>a \<in> set as. own_address s a b) \<longrightarrow> stream_to s' b = stream_to s b)"
    using send_each_delivers [OF assms(1,3,2) own] by blast
  have addr: "\<forall>a \<in> set as. own_address s a b" if "b \<notin> set as" "sv_sessions s b = Some st" for b st
    using assms(3,4) that by (fastforce simp: audible_def)
  have "stream_to s' a = stream_to s a @
      (if a \<in> set as \<and> ss_socket st \<and> \<not> ss_playerLoading st then tagged (SetUnk (ss_unk st) packet) else [])"
    if st: "sv_sessions s a = Some st" for a st
  proof (cases "a \<in> set as")
    case True
    then have "delivered packet s s' a" using here by blast
    then show ?thesis using True st by (simp add: delivered_def heard_def ready_def)
  next
    case False
    then have "stream_to s' a = stream_to s a" using there addr [OF False st] by blast
    then show ?thesis using False by simp
  qed
  then show ?thesis using run by (auto simp: SendPacketToAll_def step_simps)
qed

text \<open>Two players, the second of which is loading.\<close>

definition two_players :: server where
  "two_players =
     (let pl = \<lambda>a. \<lparr>pl_info = \<lparr>pi_name = [], pi_pclass = 0, pi_unk3 = 0, pi_info = [], pi_unk0 = 0, pi_unk1 = [],
                      pi_unk4 = 0, pi_pad = 0, pi_unk2 = 0, pi_username = [], pi_flag = 0\<rparr>,
                    pl_session = a, pl_updateAll = False, pl_oldposition = (0, 0), pl_treadposition = (0, 0),
                    pl_ability_delays = [0, 0, 0, 0, 0], pl_updateQueue = []\<rparr>
      in new_server\<lparr>oa_players := [(7, 10), (8, 11)], sv_players := [10 \<mapsto> pl 0, 11 \<mapsto> pl 1],
           sv_sessions := [0 \<mapsto> (new_session 1 0)\<lparr>ss_client := 5, ss_unk := 9\<rparr>,
                           1 \<mapsto> (new_session 2 0)\<lparr>ss_client := 6, ss_playerLoading := True\<rparr>]\<rparr>)"

theorem SendPacketToAll_delivers_witness:
  "\<exists>u s'. SendPacketToAll (mk_packet MSG_SOCIAL 0 0) two_players = Inr (u, s') \<and>
     stream_to s' 0 = [((0, 9), MSG_SOCIAL)] \<and> stream_to s' 1 = []"
proof -
  let ?p = "mk_packet MSG_SOCIAL 0 0"
  have start: "stream_to two_players 0 = []" "stream_to two_players 1 = []"
    by (simp_all add: two_players_def stream_to_def new_server_def pending_def new_session_def)
  have tag: "tagged (SetUnk 9 ?p) = [((0, 9), MSG_SOCIAL)]"
    by (simp add: tagged_def packet_bytes_def mk_packet_def new_buffer_def)
  have room: "a \<in> set [0, 1] \<Longrightarrow> audible ?p two_players a" for a
    by (auto simp: two_players_def audible_def has_room_def send_ok_def new_session_def append_max_def)
  have own: "sv_sessions two_players a \<noteq> None \<Longrightarrow> sv_sessions two_players b \<noteq> None \<Longrightarrow> a \<noteq> b \<Longrightarrow>
      own_address two_players a b" for a b
    by (auto simp: two_players_def own_address_def split: if_splits)
  have "audience two_players (map snd (oa_players two_players)) [0, 1]"
    by (simp add: two_players_def audience_def)
  from SendPacketToAll_delivers [OF this _ room own] obtain u s' where
    run: "SendPacketToAll ?p two_players = Inr (u, s')"
    and str: "\<And>a st. sv_sessions two_players a = Some st \<Longrightarrow> stream_to s' a = stream_to two_players a @
      (if a \<in> set [0, 1] \<and> ss_socket st \<and> \<not> ss_playerLoading st then tagged (SetUnk (ss_unk st) ?p) else [])"
    by (fastforce simp: packet_setters)
  have "sv_sessions two_players 0 = Some ((new_session 1 0)\<lparr>ss_client := 5, ss_unk := 9\<rparr>)"
    "sv_sessions two_players 1 = Some ((new_session 2 0)\<lparr>ss_client := 6, ss_playerLoading := True\<rparr>)"
    by (simp_all add: two_players_def)
  then show ?thesis using run str start tag by (auto simp: new_session_def)
qed

end
