(* ===== verification/Sight.thy ===== *)
theory Sight
  imports Object_Accessor
begin

text \<open>
  Who sees a point of the map: \<open>Object::CanSeePoint\<close> and \<open>ObjectAccessor::PlayersCanSeePoint\<close>, which decide to
  whom \<open>SetPosition\<close> and the updates of the other players are reported.
\<close>

definition sees :: "grid_pair \<Rightarrow> u16 \<Rightarrow> u16 \<Rightarrow> bool" where
  "sees p x y \<longleftrightarrow>
     300 \<le> uint (fst p) \<and> 300 \<le> uint (snd p) \<and>
     \<bar>uint x - uint (fst p)\<bar> \<le> 300 \<and> \<bar>uint y - uint (snd p)\<bar> \<le> 300"

definition on_map :: "server \<Rightarrow> nat \<Rightarrow> bool" where
  "on_map s a \<longleftrightarrow>
     (\<exists>ob. sv_objects s a = Some ob \<and> fst (ob_center ob) < GRID_LIMIT \<and> snd (ob_center ob) < GRID_LIMIT)"

text \<open>One coordinate: below 300 the left edge wraps around and lies beyond every 16-bit coordinate.\<close>

lemma window:
  fixes p :: u32 and x :: u16
  assumes "p < GRID_LIMIT"
  shows "p - 300 \<le> ucast x \<and> ucast x \<le> p + 300 \<longleftrightarrow> 300 \<le> uint p \<and> \<bar>uint x - uint p\<bar> \<le> 300"
proof -
  have x: "uint (ucast x :: u32) = uint x" "0 \<le> uint x" "uint x < 65536"
    using uint_lt2p [of x] by (simp_all add: unsigned_ucast_eq take_bit_int_eq_self)
  have p: "0 \<le> uint p" "uint p < 5880" using assms by (simp_all add: word_less_def GRID_LIMIT_def)
  have right: "uint (p + 300) = uint p + 300" using p by (simp add: uint_word_ariths)
  have left: "uint (p - 300) = (if 300 \<le> uint p then uint p - 300 else uint p - 300 + 2 ^ 32)"
    by (simp add: uint_sub_if')
  show ?thesis using x p by (auto simp: word_le_def left right)
qed

lemma CanSeePoint_sees:
  assumes "sv_objects s a = Some ob" "fst (ob_center ob) < GRID_LIMIT" "snd (ob_center ob) < GRID_LIMIT"
  shows "CanSeePoint a x y s = Inr (sees (ob_center ob) x y, s)"
  using assms window [OF assms(2), of x] window [OF assms(3), of y]
  by (auto simp: CanSeePoint_def GetPosition_def get_object_def step_simps pair_in_def sees_def)

lemma gfilter_pure:
  assumes "\<And>x. x \<in> set xs \<Longrightarrow> f x s = Inr (P x, s)"
  shows "gfilter f xs s = Inr (filter P xs, s)"
  using assms by (induction xs) (auto simp: step_simps)

lemma fold_set_add:
  fixes acc :: "nat list"
  assumes "sorted acc" "distinct acc"
  shows "sorted (fold set_add xs acc) \<and> distinct (fold set_add xs acc) \<and> set (fold set_add xs acc) = set acc \<union> set xs"
  using assms
proof (induction xs arbitrary: acc)
  case (Cons x xs)
  then show ?case using Cons.IH [of "set_add x acc"] by (auto simp: sorted_set_add distinct_set_add set_set_add)
qed simp

text \<open>C33: with every player on the map, \<open>PlayersCanSeePoint\<close> returns the set of exactly those players at most 300 away
  from the point in each direction and themselves at least 300 away from the left and from the top border:
  a player closer to one of these borders sees nothing at all.\<close>

theorem PlayersCanSeePoint_window:
  assumes "\<And>pl. pl \<in> snd ` set (oa_players s) \<Longrightarrow> on_map s pl"
  shows "\<exists>v. PlayersCanSeePoint x y s = Inr (v, s) \<and> sorted v \<and> distinct v \<and>
    (\<forall>pl. pl \<in> set v \<longleftrightarrow>
       pl \<in> snd ` set (oa_players s) \<and> (\<exists>ob. sv_objects s pl = Some ob \<and> sees (ob_center ob) x y))"
proof -
  let ?P = "\<lambda>pl. \<exists>ob. sv_objects s pl = Some ob \<and> sees (ob_center ob) x y"
  let ?v = "fold set_add (filter ?P (map snd (oa_players s))) []"
  have "CanSeePoint pl x y s = Inr (?P pl, s)" if pl: "pl \<in> set (map snd (oa_players s))" for pl
  proof -
    have "on_map s pl" using assms pl by simp
    then show ?thesis unfolding on_map_def using CanSeePoint_sees by fastforce
  qed
  then have "PlayersCanSeePoint x y s = Inr (?v, s)"
    by (simp add: PlayersCanSeePoint_def gbind_def gget_def gfilter_pure gret_def del: set_map)
  then show ?thesis using fold_set_add [of "[]"] by auto
qed

text \<open>Three players: one near the point, one too far away, one at the border right beside the point.\<close>

definition three_players :: server where
  "three_players =
     (let body = \<lambda>p. blank_object KPlayer PLAYER_TYPE p 1 0
      in new_server\<lparr>oa_players := [(1, 5), (2, 6), (3, 7)],
           sv_objects := [5 \<mapsto> body (500, 400), 6 \<mapsto> body (900, 400), 7 \<mapsto> body (299, 400)]\<rparr>)"

theorem PlayersCanSeePoint_window_witness:
  "\<exists>v. PlayersCanSeePoint 300 400 three_players = Inr (v, three_players) \<and> set v = {5}"
proof -
  have tab: "snd ` set (oa_players three_players) = {5, 6, 7}"
    and obs: "sv_objects three_players 5 = Some (blank_object KPlayer PLAYER_TYPE (500, 400) 1 0)"
      "sv_objects three_players 6 = Some (blank_object KPlayer PLAYER_TYPE (900, 400) 1 0)"
      "sv_objects three_players 7 = Some (blank_object KPlayer PLAYER_TYPE (299, 400) 1 0)"
    by (simp_all add: three_players_def Let_def)
  have "on_map three_players pl" if "pl \<in> snd ` set (oa_players three_players)" for pl
    using that tab obs by (auto simp: on_map_def blank_object_def GRID_LIMIT_def)
  from PlayersCanSeePoint_window [OF this, of 300 400] show ?thesis
    unfolding tab by (auto simp: obs blank_object_def sees_def)
qed

end
