(* ===== verification/Enchantments.thy ===== *)
theory Enchantments
  imports Game_Frame
begin

text \<open>
  How long an enchantment lasts: \<open>Unit::SetEnchant\<close>, \<open>UnsetEnchant\<close> and \<open>Unit::Update\<close> (\<open>src/src/game/Unit.cpp\<close>), over any number of calls.
  It counts the enchantments, and ends sneaking with the action of the unit.
\<close>

section \<open>The bits of the enchantments\<close>

unbundle bit_operations_syntax

lemma aura_bit:
  fixes w :: u32
  shows "w AND push_bit e 1 \<noteq> 0 \<longleftrightarrow> bit w e"
  by (simp add: and_exp_eq_0_iff_not_bit push_bit_eq_mult)

lemmas aura_bit_exp = aura_bit [unfolded push_bit_eq_mult mult_1]

lemma aura_bits [simp]:
  "bit (un_auras (clear_aura e un)) i \<longleftrightarrow> bit (un_auras un) i \<and> i \<noteq> e"
  "i < 32 \<Longrightarrow> bit (un_auras (set_aura e t un)) i \<longleftrightarrow> bit (un_auras un) i \<or> i = e"
  "un_aura_times (clear_aura e un) = (un_aura_times un)[e := 0]"
  "un_aura_times (set_aura e t un) = (un_aura_times un)[e := t]"
proof -
  show "bit (un_auras (clear_aura e un)) i \<longleftrightarrow> bit (un_auras un) i \<and> i \<noteq> e"
    by (auto simp: clear_aura_def bit_and_iff bit_not_iff bit_push_bit_iff bit_1_iff bit_exp_iff dest: bit_imp_le_length)
  show "i < 32 \<Longrightarrow> bit (un_auras (set_aura e t un)) i \<longleftrightarrow> bit (un_auras un) i \<or> i = e"
    by (auto simp: set_aura_def bit_or_iff bit_push_bit_iff bit_1_iff bit_exp_iff)
qed (simp_all add: clear_aura_def set_aura_def)

section \<open>One enchantment in one tick\<close>

definition count_aura :: "nat \<Rightarrow> nox_unit \<Rightarrow> nox_unit" where
  "count_aura e un =
     (if un_aura_times un ! e > 0 then un\<lparr>un_aura_times := (un_aura_times un)[e := un_aura_times un ! e - 1]\<rparr>
      else if un_aura_times un ! e = 0 \<and> bit (un_auras un) e then clear_aura e un
      else un)"

lemma upd_unit_result:
  "upd_unit a f s = Inr (x, s') \<longleftrightarrow> (\<exists>un. sv_units s a = Some un \<and> s' = s\<lparr>sv_units := (sv_units s)(a \<mapsto> f un)\<rparr>)"
  by (auto simp: upd_unit_def get_unit_def step_simps split: option.splits)

lemma mark_update_units: "mark_update a m s = Inr (x, s') \<Longrightarrow> sv_units s' = sv_units s"
  by (auto simp: mark_update_def upd_object_def get_object_def step_simps split: option.splits)

lemma UnsetEnchant_units:
  assumes "UnsetEnchant E a e s = Inr (x, s')" "sv_units s a = Some un"
  shows "sv_units s' = (sv_units s)(a \<mapsto> clear_aura e un)"
  using assms
  by (auto simp: UnsetEnchant_def gthen_Inr_iff upd_unit_result split: prod.splits
      dest!: mark_update_units sent(2) [OF _ sends.stays_EmitSound])

lemma SetEnchant_units:
  assumes "Unit_SetEnchant E a e f s = Inr (x, s')" "sv_units s a = Some un"
  shows "sv_units s' = (sv_units s)(a \<mapsto> set_aura e (aura_frames e f) un)"
  using assms
  by (auto simp: Unit_SetEnchant_def gthen_Inr_iff upd_unit_result split: prod.splits
      dest!: mark_update_units sent(2) [OF _ sends.stays_EmitSound])

lemma update_enchant_units:
  assumes "update_enchant E a e s = Inr (x, s')" "sv_units s a = Some un"
  shows "sv_units s' = (sv_units s)(a \<mapsto> count_aura e un)"
  using assms UnsetEnchant_units [of E a e s _ s' un]
  by (auto simp: update_enchant_def gbind_Inr_iff gwhen_def get_unit_def upd_unit_result count_aura_def aura_bit aura_bit_exp
      split: if_splits option.splits)

section \<open>All enchantments, tick after tick\<close>

lemma count_other:
  "e \<noteq> i \<Longrightarrow> un_aura_times (count_aura e un) ! i = un_aura_times un ! i"
  "e \<noteq> i \<Longrightarrow> bit (un_auras (count_aura e un)) i = bit (un_auras un) i"
  "length (un_aura_times (count_aura e un)) = length (un_aura_times un)"
  by (simp_all add: count_aura_def)

lemma count_self:
  assumes "i < length (un_aura_times un)"
  shows "un_aura_times (count_aura i un) ! i = (if un_aura_times un ! i > 0 then un_aura_times un ! i - 1 else un_aura_times un ! i)"
    "bit (un_auras (count_aura i un)) i \<longleftrightarrow> bit (un_auras un) i \<and> un_aura_times un ! i \<noteq> 0"
  using assms by (auto simp: count_aura_def)

lemma fold_count_other:
  assumes "i \<notin> set es"
  shows "un_aura_times (fold count_aura es un) ! i = un_aura_times un ! i"
    "bit (un_auras (fold count_aura es un)) i = bit (un_auras un) i"
  using assms by (induction es arbitrary: un) (auto simp: count_other)

lemma fold_count_length: "length (un_aura_times (fold count_aura es un)) = length (un_aura_times un)"
  by (induction es arbitrary: un) (auto simp: count_other)

lemma fold_count_self:
  assumes "distinct es" "i \<in> set es" "i < length (un_aura_times un)"
  shows "un_aura_times (fold count_aura es un) ! i =
      (if un_aura_times un ! i > 0 then un_aura_times un ! i - 1 else un_aura_times un ! i)"
    "bit (un_auras (fold count_aura es un)) i \<longleftrightarrow> bit (un_auras un) i \<and> un_aura_times un ! i \<noteq> 0"
  using assms
proof (induction es arbitrary: un)
  case (Cons e es)
  {
    case 1
    then show ?case using Cons.IH(1) [of "count_aura e un"]
      by (cases "e = i") (simp_all add: count_other count_self fold_count_other)
  next
    case 2
    then show ?case using Cons.IH(2) [of "count_aura e un"]
      by (cases "e = i") (simp_all add: count_other count_self fold_count_other)
  }
qed simp_all

lemma update_enchants_fold:
  assumes "gfor es (update_enchant E a) s = Inr (x, s')" "sv_units s a = Some un"
  shows "sv_units s' a = Some (fold count_aura es un)"
  using assms
proof (induction es arbitrary: s un)
  case (Cons e es)
  then obtain s1 where "update_enchant E a e s = Inr ((), s1)" and rest: "gfor es (update_enchant E a) s1 = Inr (x, s')"
    by (auto simp: gthen_Inr_iff)
  then have "sv_units s1 a = Some (count_aura e un)" using update_enchant_units [OF _ Cons.prems(2)] by simp
  from Cons.IH [OF rest this] show ?case by simp
qed simp

section \<open>Everything else in a tick\<close>

text \<open>What \<open>Unit::Update\<close> does besides keeps this part of the units, and who is dead.\<close>

definition same_units :: "(nox_unit \<Rightarrow> 'k) \<Rightarrow> server \<Rightarrow> server \<Rightarrow> bool" where
  "same_units k s s' \<longleftrightarrow> (\<forall>a. map_option k (sv_units s' a) = map_option k (sv_units s a) \<and>
     map_option IsDead (sv_objects s' a) = map_option IsDead (sv_objects s a))"

interpretation unit_keys: send_frame "same_units k" for k
  by unfold_locales (auto simp: same_units_def)

lemma unit_key_updates [frames]:
  "(\<And>un. k (f un) = k un) \<Longrightarrow> stays (same_units k) (upd_unit a f)" "stays (same_units k) (upd_player a g)"
  "(\<And>ob. IsDead (h ob) = IsDead ob) \<Longrightarrow> stays (same_units k) (upd_object a h)"
  by (auto simp: stays_def upd_unit_def upd_player_def upd_object_def get_unit_def get_player_def get_object_def
      step_simps same_units_def split: option.splits)

lemma same_unitsD:
  assumes "same_units k s s'"
  shows "sv_units s a = Some un \<Longrightarrow> \<exists>un'. sv_units s' a = Some un' \<and> k un' = k un"
    "sv_objects s a = Some ob \<Longrightarrow> \<exists>ob'. sv_objects s' a = Some ob' \<and> IsDead ob' = IsDead ob"
proof -
  assume "sv_units s a = Some un"
  then have "map_option k (sv_units s' a) = Some (k un)" using assms by (simp add: same_units_def)
  then show "\<exists>un'. sv_units s' a = Some un' \<and> k un' = k un" by auto
next
  assume "sv_objects s a = Some ob"
  then have "map_option IsDead (sv_objects s' a) = Some (IsDead ob)" using assms by (simp add: same_units_def)
  then show "\<exists>ob'. sv_objects s' a = Some ob' \<and> IsDead ob' = IsDead ob" by auto
qed

definition enchant_key :: "nox_unit \<Rightarrow> u32 \<times> int list \<times> int" where
  "enchant_key un = (un_auras un, un_aura_times un, un_action_time un)"

lemma other_updates:
  "stays (same_units enchant_key) (update_poison a)" "stays (same_units enchant_key) (update_mana a)"
  "stays (same_units enchant_key) (update_speed a)" "stays (same_units enchant_key) (update_anim a t)"
  "stays (same_units enchant_key) (report_enchants a)"
proof -
  have damage: "stays (same_units enchant_key) (Damage a d)" for d
    unfolding Damage_def by (intro frames) (simp add: IsDead_def)
  have drain: "stays (same_units enchant_key) (ManaDrain a d)" for d
    unfolding ManaDrain_def by (intro frames) (simp add: IsDead_def drain_mana_def Let_def)
  show "stays (same_units enchant_key) (update_poison a)" "stays (same_units enchant_key) (update_mana a)"
    "stays (same_units enchant_key) (update_speed a)" "stays (same_units enchant_key) (update_anim a t)"
    "stays (same_units enchant_key) (report_enchants a)"
    unfolding update_poison_def update_mana_def update_speed_def update_anim_def report_enchants_def
    by (intro frames damage drain; simp add: enchant_key_def IsDead_def)+
qed

section \<open>A tick\<close>

text \<open>What an action that runs out does to the enchantments, and what is left of its time.\<close>

definition end_action :: "bool \<Rightarrow> int \<Rightarrow> nox_unit \<Rightarrow> nox_unit" where
  "end_action dead t un =
     (if dead then un
      else if t > un_action_time un
      then (if bit (un_auras un) ENCHANT_SNEAK then clear_aura ENCHANT_SNEAK un else un)\<lparr>un_action_time := 0\<rparr>
      else un\<lparr>un_action_time := un_action_time un - t\<rparr>)"

definition tick_unit :: "bool \<Rightarrow> int \<Rightarrow> nox_unit \<Rightarrow> nox_unit" where
  "tick_unit dead t un = fold count_aura [0..<ENCHANT_SIZE] (end_action dead t un)"

lemma action_anim_keeps: "stays (same_units (\<lambda>un. (un_auras un, un_aura_times un))) (SetActionAnim a anim f)"
  unfolding SetActionAnim_def ResetActionAnim_def by (intro frames; simp add: IsDead_def)

lemma UnsetEnchant_alive:
  assumes "UnsetEnchant E a e s = Inr (x, s')" "sv_objects s a = Some ob"
  shows "\<exists>ob'. sv_objects s' a = Some ob' \<and> IsDead ob' = IsDead ob"
proof -
  have keep: "stays (same_units (\<lambda>_. ())) (UnsetEnchant E a e)"
    unfolding UnsetEnchant_def mark_update_def by (intro frames; simp add: IsDead_def)
  show ?thesis using same_unitsD(2) [OF staysD [OF keep assms(1)] assms(2)] by blast
qed

lemma update_action_result:
  assumes "update_action E a t s = Inr (x, s')" "sv_units s a = Some un" "sv_objects s a = Some ob"
  shows "(\<exists>un'. sv_units s' a = Some un' \<and> enchant_key un' = enchant_key (end_action (IsDead ob) (uint t) un)) \<and>
    (\<exists>ob'. sv_objects s' a = Some ob' \<and> IsDead ob' = IsDead ob)"
proof (cases "\<not> IsDead ob \<and> uint t > un_action_time un")
  case False
  then show ?thesis using assms
    by (auto simp: update_action_def get_object_def get_unit_def upd_unit_def upd_object_def step_simps end_action_def enchant_key_def IsDead_def
        split: if_splits)
next
  case True
  let ?un1 = "if bit (un_auras un) ENCHANT_SNEAK then clear_aura ENCHANT_SNEAK un else un"
  have "gseq [gbind (HasEnchant a ENCHANT_SNEAK) (\<lambda>b. gwhen b (UnsetEnchant E a ENCHANT_SNEAK)),
          upd_object a (\<lambda>ob. ob\<lparr>ob_velocity := None\<rparr>),
          (if un_equipment un ! SLOT_SHIELD \<noteq> None then gvoid (SetActionAnim a ACTION_RAISE_SHIELD 0)
           else upd_unit a (\<lambda>un. un\<lparr>un_action := ACTION_IDLE\<rparr>)),
          upd_unit a (\<lambda>un. un\<lparr>un_action_time := 0\<rparr>)] s = Inr (x, s')"
    using assms True by (auto simp: update_action_def get_object_def get_unit_def step_simps split: if_splits)
  then obtain s1 s2 s3 where
    s1: "gbind (HasEnchant a ENCHANT_SNEAK) (\<lambda>b. gwhen b (UnsetEnchant E a ENCHANT_SNEAK)) s = Inr ((), s1)" and
    s2: "upd_object a (\<lambda>ob. ob\<lparr>ob_velocity := None\<rparr>) s1 = Inr ((), s2)" and
    s3: "(if un_equipment un ! SLOT_SHIELD \<noteq> None then gvoid (SetActionAnim a ACTION_RAISE_SHIELD 0)
       else upd_unit a (\<lambda>un. un\<lparr>un_action := ACTION_IDLE\<rparr>)) s2 = Inr ((), s3)" and
    s4: "upd_unit a (\<lambda>un. un\<lparr>un_action_time := 0\<rparr>) s3 = Inr ((), s')"
    by (auto simp: gthen_Inr_iff)
  have unit1: "sv_units s1 a = Some ?un1" and ob1: "\<exists>ob1. sv_objects s1 a = Some ob1 \<and> IsDead ob1 = IsDead ob"
  proof -
    have bits: "HasEnchant a ENCHANT_SNEAK s = Inr (bit (un_auras un) ENCHANT_SNEAK, s)"
      using assms(2) aura_bit [of "un_auras un" ENCHANT_SNEAK] by (simp add: HasEnchant_def get_unit_def step_simps)
    show "sv_units s1 a = Some ?un1"
      using s1 bits assms(2) UnsetEnchant_units [of E a ENCHANT_SNEAK s "()" s1 un] by (auto simp: step_simps split: if_splits)
    show "\<exists>ob1. sv_objects s1 a = Some ob1 \<and> IsDead ob1 = IsDead ob"
      using s1 bits assms(3) UnsetEnchant_alive [of E a ENCHANT_SNEAK s "()" s1 ob] by (auto simp: step_simps split: if_splits)
  qed
  let ?k = "\<lambda>un. (un_auras un, un_aura_times un)"
  have v: "stays (same_units ?k) (upd_object a (\<lambda>ob. ob\<lparr>ob_velocity := None\<rparr>))" by (intro frames) (simp add: IsDead_def)
  have w: "stays (same_units ?k) (if un_equipment un ! SLOT_SHIELD \<noteq> None then gvoid (SetActionAnim a ACTION_RAISE_SHIELD 0)
       else upd_unit a (\<lambda>un. un\<lparr>un_action := ACTION_IDLE\<rparr>))"
    by (intro frames action_anim_keeps) simp
  have k: "same_units ?k s1 s3"
    using staysD [OF v s2] staysD [OF w s3] unit_keys.trans by blast
  obtain un3 where un3: "sv_units s3 a = Some un3" "?k un3 = ?k ?un1" using same_unitsD(1) [OF k unit1] by blast
  obtain ob3 where ob3: "sv_objects s3 a = Some ob3" "IsDead ob3 = IsDead ob" using ob1 same_unitsD(2) [OF k] by metis
  show ?thesis using s4 un3 ob3 True by (auto simp: upd_unit_result end_action_def enchant_key_def)
qed

lemma count_aura_key:
  "enchant_key un = enchant_key un' \<Longrightarrow> enchant_key (fold count_aura es un) = enchant_key (fold count_aura es un')"
proof (induction es arbitrary: un un')
  case (Cons e es)
  then have "enchant_key (count_aura e un) = enchant_key (count_aura e un')"
    by (auto simp: enchant_key_def count_aura_def clear_aura_def)
  from Cons.IH [OF this] show ?case by simp
qed simp

lemma update_enchants_alive:
  assumes "update_enchants E a s = Inr (x, s')" "sv_objects s a = Some ob"
  shows "\<exists>ob'. sv_objects s' a = Some ob' \<and> IsDead ob' = IsDead ob"
proof -
  have keep: "stays (same_units (\<lambda>_. ())) (update_enchants E a)"
    unfolding update_enchants_def update_enchant_def UnsetEnchant_def mark_update_def by (intro frames; simp add: IsDead_def)
  show ?thesis using same_unitsD(2) [OF staysD [OF keep assms(1)] assms(2)] by blast
qed

text \<open>\<open>Unit::Update\<close>, as far as enchantments, the time of the action and death go.\<close>

lemma Unit_Update_result:
  assumes "Unit_Update E a t s = Inr (x, s')" "sv_units s a = Some un" "sv_objects s a = Some ob"
  shows "\<exists>un' ob'. sv_units s' a = Some un' \<and> enchant_key un' = enchant_key (tick_unit (IsDead ob) (uint t) un) \<and>
    sv_objects s' a = Some ob' \<and> IsDead ob' = IsDead ob"
proof -
  obtain s1 s2 s3 s4 s5 s6 where
    s1: "update_action E a t s = Inr ((), s1)" and s2: "update_poison a s1 = Inr ((), s2)" and s3: "update_mana a s2 = Inr ((), s3)" and
    s4: "update_speed a s3 = Inr ((), s4)" and s5: "update_enchants E a s4 = Inr ((), s5)" and
    s6: "update_anim a t s5 = Inr ((), s6)" "report_enchants a s6 = Inr ((), s')"
    using assms(1) by (auto simp: Unit_Update_def gthen_Inr_iff)
  obtain un1 ob1 where a1: "sv_units s1 a = Some un1" "enchant_key un1 = enchant_key (end_action (IsDead ob) (uint t) un)"
      "sv_objects s1 a = Some ob1" "IsDead ob1 = IsDead ob"
    using update_action_result [OF s1 assms(2,3)] by blast
  have k14: "same_units enchant_key s1 s4"
    using staysD [OF other_updates(1) s2] staysD [OF other_updates(2) s3] staysD [OF other_updates(3) s4] unit_keys.trans by blast
  obtain un4 where un4: "sv_units s4 a = Some un4" "enchant_key un4 = enchant_key un1" using same_unitsD(1) [OF k14 a1(1)] by blast
  obtain ob4 where ob4: "sv_objects s4 a = Some ob4" "IsDead ob4 = IsDead ob1" using same_unitsD(2) [OF k14 a1(3)] by blast
  have un5: "sv_units s5 a = Some (fold count_aura [0..<ENCHANT_SIZE] un4)"
    using update_enchants_fold [OF _ un4(1)] s5 by (simp add: update_enchants_def)
  obtain ob5 where ob5: "sv_objects s5 a = Some ob5" "IsDead ob5 = IsDead ob4" using update_enchants_alive [OF s5 ob4(1)] by blast
  have k56: "same_units enchant_key s5 s'"
    using staysD [OF other_updates(4) s6(1)] staysD [OF other_updates(5) s6(2)] unit_keys.trans by blast
  have "enchant_key (fold count_aura [0..<ENCHANT_SIZE] un4) = enchant_key (tick_unit (IsDead ob) (uint t) un)"
    unfolding tick_unit_def using un4(2) a1(2) by (intro count_aura_key) simp
  then show ?thesis using same_unitsD(1) [OF k56 un5] same_unitsD(2) [OF k56 ob5(1)] ob5(2) ob4(2) a1(4) by auto
qed

section \<open>Tick after tick\<close>

lemma tick_unit_key: "enchant_key un = enchant_key un' \<Longrightarrow> enchant_key (tick_unit dead t un) = enchant_key (tick_unit dead t un')"
  unfolding tick_unit_def by (intro count_aura_key) (auto simp: enchant_key_def end_action_def clear_aura_def)

lemma ticks_key: "enchant_key un = enchant_key un' \<Longrightarrow> enchant_key (fold (tick_unit dead) ts un) = enchant_key (fold (tick_unit dead) ts un')"
proof (induction ts arbitrary: un un')
  case (Cons t ts)
  from Cons.IH [OF tick_unit_key [OF Cons.prems]] show ?case by simp
qed simp

lemma Unit_Updates_result:
  assumes "gfor ts (Unit_Update E a) s = Inr (x, s')" "sv_units s a = Some un" "sv_objects s a = Some ob"
  shows "\<exists>un'. sv_units s' a = Some un' \<and> enchant_key un' = enchant_key (fold (tick_unit (IsDead ob)) (map uint ts) un)"
  using assms
proof (induction ts arbitrary: s un ob)
  case (Cons t ts)
  obtain s1 where s1: "Unit_Update E a t s = Inr ((), s1)" and rest: "gfor ts (Unit_Update E a) s1 = Inr (x, s')"
    using Cons.prems(1) by (auto simp: gthen_Inr_iff)
  obtain un1 ob1 where u: "sv_units s1 a = Some un1" "enchant_key un1 = enchant_key (tick_unit (IsDead ob) (uint t) un)"
      "sv_objects s1 a = Some ob1" "IsDead ob1 = IsDead ob"
    using Unit_Update_result [OF s1 Cons.prems(2,3)] by blast
  show ?case using Cons.IH [OF rest u(1,3)] ticks_key [OF u(2)] u(4) by auto
qed simp

text \<open>One enchantment in one tick: \<open>t\<close> is the time of the tick.\<close>

lemma tick_unit_aura:
  fixes dead :: bool and t :: int
  assumes "e < ENCHANT_SIZE" "length (un_aura_times un) = ENCHANT_SIZE"
  defines "over \<equiv> e = ENCHANT_SNEAK \<and> \<not> dead \<and> t > un_action_time un"
  shows "bit (un_auras (tick_unit dead t un)) e \<longleftrightarrow> bit (un_auras un) e \<and> un_aura_times un ! e \<noteq> 0 \<and> \<not> over"
    "\<not> over \<Longrightarrow> un_aura_times (tick_unit dead t un) ! e = (if un_aura_times un ! e > 0 then un_aura_times un ! e - 1 else un_aura_times un ! e)"
    "length (un_aura_times (tick_unit dead t un)) = ENCHANT_SIZE"
    "un_action_time (tick_unit dead t un) = (if dead then un_action_time un else if t > un_action_time un then 0 else un_action_time un - t)"
proof -
  let ?un = "end_action dead t un"
  have time: "un_action_time (fold count_aura es u) = un_action_time u" for es u
    by (induction es arbitrary: u) (simp_all add: count_aura_def clear_aura_def)
  have len: "length (un_aura_times ?un) = ENCHANT_SIZE" using assms(2) by (simp add: end_action_def)
  have e: "distinct [0..<ENCHANT_SIZE]" "e \<in> set [0..<ENCHANT_SIZE]" "e < length (un_aura_times ?un)" using assms(1) len by simp_all
  have bits: "bit (un_auras ?un) e \<longleftrightarrow> bit (un_auras un) e \<and> \<not> over" by (auto simp: end_action_def over_def)
  have times: "un_aura_times ?un ! e = un_aura_times un ! e" if "\<not> over \<or> \<not> bit (un_auras un) e"
    using that by (auto simp: end_action_def over_def)
  show "bit (un_auras (tick_unit dead t un)) e \<longleftrightarrow> bit (un_auras un) e \<and> un_aura_times un ! e \<noteq> 0 \<and> \<not> over"
    unfolding tick_unit_def fold_count_self(2) [OF e] using bits times by auto
  show "un_aura_times (tick_unit dead t un) ! e = (if un_aura_times un ! e > 0 then un_aura_times un ! e - 1 else un_aura_times un ! e)"
    if "\<not> over"
    unfolding tick_unit_def fold_count_self(1) [OF e] using times that by auto
  show "length (un_aura_times (tick_unit dead t un)) = ENCHANT_SIZE" using len by (simp add: tick_unit_def fold_count_length)
  show "un_action_time (tick_unit dead t un) = (if dead then un_action_time un else if t > un_action_time un then 0 else un_action_time un - t)"
    by (simp add: tick_unit_def time end_action_def clear_aura_def)
qed

lemma ticks_aura:
  assumes "e < ENCHANT_SIZE" "length (un_aura_times un) = ENCHANT_SIZE" "\<forall>t \<in> set ts. 0 \<le> t"
  shows "bit (un_auras (fold (tick_unit dead) ts un)) e \<longleftrightarrow> bit (un_auras un) e \<and> (un_aura_times un ! e < 0 \<or> int (length ts) \<le> un_aura_times un ! e \<or> ts = []) \<and>
    (e \<noteq> ENCHANT_SNEAK \<or> dead \<or> ts = [] \<or> sum_list ts \<le> un_action_time un)"
  using assms(2,3)
proof (induction ts arbitrary: un)
  case (Cons t ts)
  let ?un = "tick_unit dead t un" and ?n = "un_aura_times un ! e" and ?T = "un_action_time un"
  note tick = tick_unit_aura [OF assms(1) Cons.prems(1), where dead = dead and t = t]
  have IH: "bit (un_auras (fold (tick_unit dead) ts ?un)) e \<longleftrightarrow> bit (un_auras ?un) e \<and>
      (un_aura_times ?un ! e < 0 \<or> int (length ts) \<le> un_aura_times ?un ! e \<or> ts = []) \<and>
      (e \<noteq> ENCHANT_SNEAK \<or> dead \<or> ts = [] \<or> sum_list ts \<le> un_action_time ?un)"
    using Cons.IH [OF tick(3)] Cons.prems(2) by simp
  have sum: "0 \<le> sum_list ts" using Cons.prems(2) by (simp add: sum_list_nonneg)
  show ?case
  proof (cases "bit (un_auras ?un) e")
    case False
    then have "\<not> bit (un_auras un) e \<or> ?n = 0 \<or> (e = ENCHANT_SNEAK \<and> \<not> dead \<and> t > ?T)" using tick(1) by blast
    then show ?thesis using IH False sum by auto
  next
    case True
    then have on: "bit (un_auras un) e" "?n \<noteq> 0" "\<not> (e = ENCHANT_SNEAK \<and> \<not> dead \<and> t > ?T)" using tick(1) by blast+
    have n: "un_aura_times ?un ! e = (if ?n > 0 then ?n - 1 else ?n)" by (rule tick(2) [OF on(3)])
    have "(un_aura_times ?un ! e < 0 \<or> int (length ts) \<le> un_aura_times ?un ! e \<or> ts = []) \<longleftrightarrow> (?n < 0 \<or> int (length (t # ts)) \<le> ?n)"
      using on(2) unfolding n by auto
    moreover have "(e \<noteq> ENCHANT_SNEAK \<or> dead \<or> ts = [] \<or> sum_list ts \<le> un_action_time ?un) \<longleftrightarrow>
        (e \<noteq> ENCHANT_SNEAK \<or> dead \<or> sum_list (t # ts) \<le> ?T)"
      using on(3) tick(4) sum by auto
    ultimately show ?thesis using IH True on(1) by simp
  qed
qed simp

text \<open>C31: how long an enchantment lasts. After \<open>SetEnchant\<close> with a number of frames (or 0, for the number of the table), cut to 16 bits, and any
  calls of \<open>Unit::Update\<close>, with the times \<open>ts\<close>, the unit has the enchantment exactly if their number is at most the number of frames, or this has become
  negative; but sneaking ends as well, unless the unit is dead, with the first call at which the action of the unit has run out, that is when the
  times together are more than what was left of the action.\<close>

theorem enchantment_lasts:
  assumes "sv_units s a = Some un" "length (un_aura_times un) = ENCHANT_SIZE" "sv_objects s a = Some ob" "e < ENCHANT_SIZE"
    and "gthen (Unit_SetEnchant E a e f) (gfor ts (Unit_Update E a)) s = Inr (x, s')"
  shows "HasEnchant a e s' = Inr
    ((aura_frames e f < 0 \<or> int (length ts) \<le> aura_frames e f) \<and>
     (e \<noteq> ENCHANT_SNEAK \<or> IsDead ob \<or> ts = [] \<or> sum_list (map uint ts) \<le> un_action_time un), s')"
proof -
  let ?t = "aura_frames e f"
  obtain s1 where set: "Unit_SetEnchant E a e f s = Inr ((), s1)" and ticks: "gfor ts (Unit_Update E a) s1 = Inr (x, s')"
    using assms(5) by (auto simp: gthen_Inr_iff)
  let ?un = "set_aura e ?t un"
  have un1: "sv_units s1 a = Some ?un" using SetEnchant_units [OF set assms(1)] by simp
  have keep: "stays (same_units (\<lambda>_. ())) (Unit_SetEnchant E a e f)"
    unfolding Unit_SetEnchant_def mark_update_def by (intro frames; simp add: IsDead_def)
  obtain ob1 where ob1: "sv_objects s1 a = Some ob1" "IsDead ob1 = IsDead ob"
    using same_unitsD(2) [OF staysD [OF keep set] assms(3)] by blast
  obtain un' where un': "sv_units s' a = Some un'" "enchant_key un' = enchant_key (fold (tick_unit (IsDead ob)) (map uint ts) ?un)"
    using Unit_Updates_result [OF ticks un1 ob1(1)] ob1(2) by auto
  have "un_action_time ?un = un_action_time un" "bit (un_auras ?un) e" "un_aura_times ?un ! e = ?t" "length (un_aura_times ?un) = ENCHANT_SIZE"
    using assms(2,4) by (simp_all add: set_aura_def bit_or_iff bit_push_bit_iff bit_exp_iff)
  then have "bit (un_auras un') e \<longleftrightarrow> (?t < 0 \<or> int (length ts) \<le> ?t) \<and>
      (e \<noteq> ENCHANT_SNEAK \<or> IsDead ob \<or> ts = [] \<or> sum_list (map uint ts) \<le> un_action_time un)"
    using ticks_aura [of e ?un "map uint ts" "IsDead ob"] assms(4) un'(2) by (auto simp: enchant_key_def)
  then show ?thesis using un'(1) by (simp add: HasEnchant_def get_unit_def step_simps aura_bit_exp push_bit_eq_mult)
qed

section \<open>Sneaking\<close>

text \<open>A state without players, in which nothing is sent: updates return.\<close>

definition silent :: "nat \<Rightarrow> server \<Rightarrow> bool" where
  "silent a s \<longleftrightarrow> oa_players s = [] \<and> sv_objects s a \<noteq> None \<and> sv_units s a \<noteq> None"

definition runs :: "nat \<Rightarrow> 'x game \<Rightarrow> bool" where
  "runs a m \<longleftrightarrow> (\<forall>s. silent a s \<longrightarrow> (\<exists>x s'. m s = Inr (x, s') \<and> silent a s'))"

lemma no_players_silent: "oa_players s = [] \<Longrightarrow> EmitSound E a sound s = Inr ((), s)"
  by (simp add: EmitSound_def EmitSoundEvent_def step_simps)

lemma runs_steps:
  "runs a (upd_unit a f)" "runs a (upd_object a h)" "runs a (gret x)" "runs a (EmitSound E b sound)" "runs a (HasEnchant a e)"
  "runs a (get_unit a)" "runs a (get_object a)" "runs a (GetExtent a)" "runs a (SendPacketToAll p)"
  by (auto simp: runs_def silent_def upd_unit_def upd_object_def get_unit_def get_object_def HasEnchant_def GetExtent_def
      SendPacketToAll_def no_players_silent step_simps)

lemma runs_bind: "runs a m \<Longrightarrow> (\<And>x. runs a (f x)) \<Longrightarrow> runs a (gbind m f)"
  unfolding runs_def by (metis gbind_Inr_iff)

lemma runs_if: "(c \<Longrightarrow> runs a m) \<Longrightarrow> (\<not> c \<Longrightarrow> runs a n) \<Longrightarrow> runs a (if c then m else n)"
  by simp

lemma runs_then: "runs a m \<Longrightarrow> runs a n \<Longrightarrow> runs a (gthen m n)"
  by (simp add: gthen_def runs_bind)

lemma runs_void: "runs a m \<Longrightarrow> runs a (gvoid m)"
  by (simp add: gvoid_def runs_then runs_steps)

lemma runs_comb:
  "(c \<Longrightarrow> runs a m) \<Longrightarrow> runs a (gwhen c m)"
  "runs a (gseq [])" "runs a m \<Longrightarrow> runs a (gseq ms) \<Longrightarrow> runs a (gseq (m # ms))"
  by (auto simp: gwhen_def intro: runs_then runs_steps)

lemma runs_for: "(\<And>x. runs a (f x)) \<Longrightarrow> runs a (gfor xs f)"
  by (induction xs) (auto intro: runs_then runs_steps)

lemma runs_prod: "(\<And>x y. runs a (f x y)) \<Longrightarrow> runs a (case p of (x, y) \<Rightarrow> f x y)"
  by (cases p) simp

lemmas runs_rules = runs_steps runs_if runs_then runs_void runs_comb runs_bind runs_for runs_prod

lemma runs_UnsetEnchant: "runs a (UnsetEnchant E a e)"
  unfolding UnsetEnchant_def mark_update_def by (intro runs_rules)

lemma runs_SetEnchant: "runs a (Unit_SetEnchant E a e f)"
  unfolding Unit_SetEnchant_def mark_update_def by (intro runs_rules)

lemma runs_packets:
  "runs a (glift (pk_puts [put_u16 x, put_u8 y] (packet_Initialize c 0 0 new_packet)))"
  "runs a (glift (pk_puts [put_u16 x, put_u32 z] (packet_Initialize c 0 0 new_packet)))"
proof -
  have "list_all2 writes [put_u16 x, put_u8 y] [le_bytes 2 x, le_bytes 1 y]" "list_all2 writes [put_u16 x, put_u32 z] [le_bytes 2 x, le_bytes 4 z]"
    using writes_put_u16 [of x] writes_put_u8 [of y] writes_put_u32 [of z] by (simp_all del: le_bytes_numeral)
  moreover have "append_only (p_buf (packet_Initialize c 0 0 new_packet))" "packet_bytes (packet_Initialize c 0 0 new_packet) = []"
    by (simp_all add: packet_Initialize_def new_packet_def append_only_def packet_bytes_def buf_clear_def new_buffer_def)
  ultimately have "\<exists>p. pk_puts [put_u16 x, put_u8 y] (packet_Initialize c 0 0 new_packet) = Inr p"
      "\<exists>p. pk_puts [put_u16 x, put_u32 z] (packet_Initialize c 0 0 new_packet) = Inr p"
    using pk_puts_writes [of "[put_u16 x, put_u8 y]" "[le_bytes 2 x, le_bytes 1 y]"]
      pk_puts_writes [of "[put_u16 x, put_u32 z]" "[le_bytes 2 x, le_bytes 4 z]"]
    by (simp_all add: append_max_def del: pk_puts.simps le_bytes_numeral)
  then show "runs a (glift (pk_puts [put_u16 x, put_u8 y] (packet_Initialize c 0 0 new_packet)))"
      "runs a (glift (pk_puts [put_u16 x, put_u32 z] (packet_Initialize c 0 0 new_packet)))"
    by (auto simp: runs_def glift_def simp del: pk_puts.simps)
qed

lemma runs_Unit_Update: "runs a (Unit_Update E a t)"
proof -
  have anim: "runs a (SetActionAnim a anim f)" for anim f
    unfolding SetActionAnim_def ResetActionAnim_def by (intro runs_rules)
  show ?thesis
    unfolding Unit_Update_def update_action_def update_poison_def Damage_def update_mana_def ManaDrain_def update_speed_def
      update_enchants_def update_enchant_def update_anim_def report_enchants_def send_built_def BuildEnchantsPacket_def
    by (intro runs_rules anim runs_UnsetEnchant runs_packets)
qed

text \<open>\<open>SetEnchant(ENCHANT_SNEAK, 99999)\<close> of the ability Tread Lightly: the number does not fit 16 bits and becomes
  negative, so sneaking lasts as long as the action of the unit, here 100 milliseconds: over two ticks of 40, not over three.\<close>

definition one_unit :: server where
  "one_unit = new_server\<lparr>sv_objects := [7 \<mapsto> (blank_object KPlayer PLAYER_TYPE (0, 0) 1 0)\<lparr>ob_health := 100\<rparr>],
     sv_units := [7 \<mapsto> init_unit\<lparr>un_action_time := 100\<rparr>]\<rparr>"

theorem enchantment_lasts_witness:
  "aura_frames ENCHANT_SNEAK 99999 = -31073 \<and>
   (\<exists>s'. gthen (Unit_SetEnchant sample_env 7 ENCHANT_SNEAK 99999) (gfor [40, 40] (Unit_Update sample_env 7)) one_unit = Inr ((), s') \<and>
      HasEnchant 7 ENCHANT_SNEAK s' = Inr (True, s')) \<and>
   (\<exists>s'. gthen (Unit_SetEnchant sample_env 7 ENCHANT_SNEAK 99999) (gfor [40, 40, 40] (Unit_Update sample_env 7)) one_unit = Inr ((), s') \<and>
      HasEnchant 7 ENCHANT_SNEAK s' = Inr (False, s'))"
proof -
  have frames: "aura_frames ENCHANT_SNEAK 99999 = -31073" by (simp add: aura_frames_def to_i16_def)
  have silent: "silent 7 one_unit" by (simp add: silent_def one_unit_def new_server_def)
  have run: "\<exists>s'. gthen (Unit_SetEnchant sample_env 7 ENCHANT_SNEAK 99999) (gfor ts (Unit_Update sample_env 7)) one_unit = Inr ((), s')" for ts
  proof -
    have "runs 7 (gthen (Unit_SetEnchant sample_env 7 ENCHANT_SNEAK 99999) (gfor ts (Unit_Update sample_env 7)))"
      by (intro runs_rules runs_SetEnchant runs_Unit_Update)
    then show ?thesis using silent by (auto simp: runs_def)
  qed
  have state: "sv_units one_unit 7 = Some (init_unit\<lparr>un_action_time := 100\<rparr>)"
    "length (un_aura_times (init_unit\<lparr>un_action_time := 100\<rparr>)) = ENCHANT_SIZE"
    "sv_objects one_unit 7 = Some ((blank_object KPlayer PLAYER_TYPE (0, 0) 1 0)\<lparr>ob_health := 100\<rparr>)"
    by (simp_all add: one_unit_def init_unit_def)
  note lasts = enchantment_lasts [OF state, of ENCHANT_SNEAK sample_env 99999]
  obtain s2 s3 where
    s2: "gthen (Unit_SetEnchant sample_env 7 ENCHANT_SNEAK 99999) (gfor [40, 40] (Unit_Update sample_env 7)) one_unit = Inr ((), s2)" and
    s3: "gthen (Unit_SetEnchant sample_env 7 ENCHANT_SNEAK 99999) (gfor [40, 40, 40] (Unit_Update sample_env 7)) one_unit = Inr ((), s3)"
    using run by blast
  have "HasEnchant 7 ENCHANT_SNEAK s2 = Inr (True, s2)" using lasts [OF _ s2] frames by (simp add: IsDead_def)
  moreover have "HasEnchant 7 ENCHANT_SNEAK s3 = Inr (False, s3)" using lasts [OF _ s3] frames by (simp add: IsDead_def)
  ultimately show ?thesis using frames s2 s3 by blast
qed

end
