(* ===== verification/Magic_Combat.thy ===== *)
theory Magic_Combat
  imports Enchantments
begin

text \<open>
  What casting costs, and what a charging player does to what it runs into: \<open>WorldSession::HandleTrySpell\<close>'s
  \<open>ExecuteSpell\<close> (\<open>src/src/game/Spell.cpp\<close>) and the collision callback of players (\<open>src/src/game/Player.cpp\<close>).
  Most steps leave a part of the objects alone; \<open>same_key k\<close> says which.
\<close>

section \<open>A part of every object is left alone\<close>

definition same_key :: "(nox_object \<Rightarrow> 'k) \<Rightarrow> server \<Rightarrow> server \<Rightarrow> bool" where
  "same_key k s s' \<longleftrightarrow> (\<forall>a. map_option k (sv_objects s' a) = map_option k (sv_objects s a))"

interpretation keyed: send_frame "same_key k" for k
  by unfold_locales (auto simp: same_key_def)

lemma keyed_updates [frames]:
  "stays (same_key k) (upd_unit a f)" "stays (same_key k) (upd_player a g)"
  "(\<And>ob. k (h ob) = k ob) \<Longrightarrow> stays (same_key k) (upd_object a h)"
  by (auto simp: stays_def upd_unit_def upd_player_def upd_object_def get_unit_def get_player_def get_object_def
      step_simps same_key_def split: option.splits)

lemma same_keyD:
  assumes "same_key k s s'" "sv_objects s a = Some ob"
  shows "\<exists>ob'. sv_objects s' a = Some ob' \<and> k ob' = k ob"
proof -
  have "map_option k (sv_objects s' a) = Some (k ob)" using assms by (simp add: same_key_def)
  then show ?thesis by auto
qed

section \<open>Mana\<close>

definition mana_of :: "nox_object \<Rightarrow> rat \<times> rat" where
  "mana_of ob = (ob_mana ob, ob_max_mana ob)"

lemma SetPosition_mana [frames]: "stays (same_key mana_of) (SetPosition a pos)"
  unfolding SetPosition_def Player_AddUpdateObject_def ObjectOutOfSight_def
  by (intro frames) (simp add: mana_of_def)

lemma SetEnchant_mana [frames]: "stays (same_key mana_of) (SetEnchant E a e f)"
  unfolding SetEnchant_def Unit_SetEnchant_def mark_update_def
  by (intro frames) (simp add: mana_of_def)

lemma Poison_mana [frames]: "stays (same_key mana_of) (Poison a p q)"
  unfolding Poison_def Unit_Poison_def by (intro frames)

lemma Heal_mana [frames]: "stays (same_key mana_of) (Heal a h)"
  unfolding Heal_def by (intro frames) (simp add: mana_of_def)

lemma DoSpellEffect_mana [frames]: "stays (same_key mana_of) (DoSpellEffect E n caster target)"
proof -
  have "stays (same_key mana_of) (HandleSpellRay E a b)" for a b
    unfolding HandleSpellRay_def at_visible_cursor_def by (intro frames)
  moreover have "stays (same_key mana_of) (HandleSpellTeleport a)" for a
    unfolding HandleSpellTeleport_def at_visible_cursor_def by (intro frames)
  ultimately have "stays (same_key mana_of) (spell_step E h caster target)" for h
    unfolding spell_step_def Let_def by (cases h) (auto intro: frames)
  then show ?thesis unfolding DoSpellEffect_def by (intro frames)
qed

lemma ManaDrain_result:
  assumes "sv_objects s a = Some ob"
  shows "ManaDrain a d s = Inr (0 < ob_max_mana ob,
    if 0 < ob_max_mana ob then s\<lparr>sv_objects := (sv_objects s)(a \<mapsto> drain_mana d ob)\<rparr> else s)"
  using assms by (simp add: ManaDrain_def upd_object_def get_object_def step_simps)

lemma HasEnoughMana_result:
  assumes "HasEnoughMana a cost s = Inr (b, s')" "sv_objects s a = Some ob"
  shows "b = (cost \<le> sint (GetMana ob))" "sv_objects s' = sv_objects s"
  using assms sent(1) [OF _ sends.stays_self_sound]
  by (auto simp: HasEnoughMana_def get_object_def gbind_Inr_iff gthen_Inr_iff split: if_splits option.splits)

text \<open>A spell cast on oneself costs 30 mana whatever spell it is, also one that the server does not know:
  \<open>ExecuteSpell\<close> fails exactly if the mana of the caster, as a signed 16-bit number, is below 30; then the mana is unchanged, otherwise 30 are taken,
  never going below 0 or above the maximum. A caster with no maximum pays nothing.\<close>

theorem spell_cost:
  assumes "sv_objects s plr = Some ob" "ExecuteSpell E plr n True s = Inr (b, s')"
  shows "b = (30 \<le> sint (GetMana ob)) \<and>
    (\<exists>ob'. sv_objects s' plr = Some ob' \<and> ob_max_mana ob' = ob_max_mana ob \<and>
       ob_mana ob' = (if b \<and> 0 < ob_max_mana ob then max 0 (min (ob_mana ob - 30) (ob_max_mana ob)) else ob_mana ob))"
proof -
  obtain c s1 where has: "HasEnoughMana plr 30 s = Inr (c, s1)"
    and rest: "(if c then gthen (DoSpellEffect E n plr None) (gthen (gvoid (ManaDrain plr 30)) (gret True)) else gret False) s1
      = Inr (b, s')"
    using assms(2) unfolding ExecuteSpell_def if_True gbind_Inr_iff by blast
  note c = HasEnoughMana_result [OF has assms(1)]
  show ?thesis
  proof (cases c)
    case False
    then show ?thesis using rest c assms(1) by auto
  next
    case True
    then obtain s2 where effect: "DoSpellEffect E n plr None s1 = Inr ((), s2)"
      and drain: "gthen (gvoid (ManaDrain plr 30)) (gret True) s2 = Inr (b, s')"
      using rest by (auto simp: gthen_Inr_iff)
    obtain ob2 where ob2: "sv_objects s2 plr = Some ob2" "mana_of ob2 = mana_of ob"
      using same_keyD [OF staysD [OF DoSpellEffect_mana effect], of plr ob] c(2) assms(1) by auto
    then show ?thesis
      using drain c True
      by (auto simp: step_simps ManaDrain_result [OF ob2(1)] mana_of_def drain_mana_def Let_def)
  qed
qed

text \<open>A wizard at the exact price, with the spell 200, which no table knows.\<close>

definition one_caster :: server where
  "one_caster = new_server\<lparr>sv_objects := [7 \<mapsto> (blank_object KPlayer PLAYER_TYPE (0, 0) 1 0)\<lparr>ob_mana := 30, ob_max_mana := 125\<rparr>],
     sv_units := [7 \<mapsto> init_unit]\<rparr>"

lemma unknown_spell: "map_of spellTable 200 = None"
  by code_simp

theorem spell_cost_witness:
  "\<exists>s' ob'. ExecuteSpell sample_env 7 200 True one_caster = Inr (True, s') \<and> sv_objects s' 7 = Some ob' \<and> ob_mana ob' = 0"
proof -
  let ?ob = "(blank_object KPlayer PLAYER_TYPE (0, 0) 1 0)\<lparr>ob_mana := 30, ob_max_mana := 125\<rparr>"
  have ob: "sv_objects one_caster 7 = Some ?ob" by (simp add: one_caster_def)
  have "sint (GetMana ?ob) = 30" by (simp add: GetMana_def trunc_int_def)
  then have "\<exists>s'. ExecuteSpell sample_env 7 200 True one_caster = Inr (True, s')"
    using ob ManaDrain_result [OF ob, of 30]
    by (simp add: ExecuteSpell_def HasEnoughMana_def get_object_def DoSpellEffect_def unknown_spell step_simps)
  then obtain s' where run: "ExecuteSpell sample_env 7 200 True one_caster = Inr (True, s')" by blast
  then show ?thesis using spell_cost [OF ob run] by auto
qed

section \<open>Berserker charge\<close>















end
