(* ===== verification/World_Clock.thy ===== *)
theory World_Clock
  imports World_Update
begin

text \<open>
  Time in the server: the interval timers of \<open>src/src/shared/Timer.h\<close> as \<open>World::Update\<close> uses them, the countdown to a
  shutdown in \<open>World::_UpdateGameTime\<close>, and the length of a tick in \<open>WorldRunnable::run\<close>.
\<close>

section \<open>Interval timers\<close>

text \<open>One tick of \<open>World::Update\<close> for one timer: the update, and the reset if it has passed.\<close>

definition timer_tick :: "int \<Rightarrow> interval_timer \<Rightarrow> bool \<times> interval_timer" where
  "timer_tick d t =
     (let t = (if it_current t \<ge> 0 then timer_Update d t else t\<lparr>it_current := 0\<rparr>)
      in if timer_Passed t then (True, timer_Reset t) else (False, t))"

primrec timer_run :: "int list \<Rightarrow> interval_timer \<Rightarrow> nat \<times> interval_timer" where
  "timer_run [] t = (0, t)"
| "timer_run (d # ds) t =
     (case timer_tick d t of (fired, t) \<Rightarrow> case timer_run ds t of (n, t) \<Rightarrow> ((if fired then n + 1 else n), t))"

lemma timer_tick_time:
  assumes "0 < it_interval t" "0 \<le> it_current t" "0 \<le> d" "timer_tick d t = (fired, t')"
  shows "it_interval t' = it_interval t" "0 \<le> it_current t'"
    "it_current t' + (if fired then it_interval t else 0) = it_current t + d"
    "d \<le> it_interval t \<Longrightarrow> it_current t < it_interval t \<Longrightarrow> it_current t' < it_interval t"
  using assms
  by (auto simp: timer_tick_def Let_def timer_Update_def timer_Passed_def timer_Reset_def split: if_splits)

text \<open>No time is lost by the timers of the world: after any sequence of ticks, the time a timer has counted and the intervals of the
  updates it let through add up to what it had counted before and the lengths of the ticks; and if no tick is longer
  than the interval, the timer never lags behind by an interval.\<close>

theorem timer_keeps_time:
  assumes "0 < it_interval t" "0 \<le> it_current t" "\<forall>d \<in> set ds. 0 \<le> d" "timer_run ds t = (n, t')"
  shows "it_interval t' = it_interval t \<and> 0 \<le> it_current t' \<and>
    it_current t' + int n * it_interval t = it_current t + sum_list ds \<and>
    (it_current t < it_interval t \<longrightarrow> (\<forall>d \<in> set ds. d \<le> it_interval t) \<longrightarrow> it_current t' < it_interval t)"
  using assms
proof (induction ds arbitrary: t n t')
  case (Cons d ds)
  obtain fired t1 where tick: "timer_tick d t = (fired, t1)" by fastforce
  obtain m t2 where run: "timer_run ds t1 = (m, t2)" by fastforce
  have d: "0 \<le> d" using Cons.prems(3) by simp
  note t1 = timer_tick_time [OF Cons.prems(1,2) d tick]
  have res: "t' = t2" "n = (if fired then m + 1 else m)" using Cons.prems(4) tick run by simp_all
  have "it_interval t2 = it_interval t1 \<and> 0 \<le> it_current t2 \<and>
    it_current t2 + int m * it_interval t1 = it_current t1 + sum_list ds \<and>
    (it_current t1 < it_interval t1 \<longrightarrow> (\<forall>d \<in> set ds. d \<le> it_interval t1) \<longrightarrow> it_current t2 < it_interval t1)"
    using Cons.IH [OF _ _ _ run] t1 Cons.prems(1,3) by simp
  then show ?case using t1 res by (auto simp: algebra_simps split: if_splits)
qed simp

text \<open>The timer of the sessions, with three ticks of 20, 25 and 50 milliseconds: two updates, 35 left.\<close>

theorem timer_keeps_time_witness:
  "timer_run [20, 25, 50] (initial_timers ! WUPDATE_SESSIONS) = (2, \<lparr>it_interval = 30, it_current = 35\<rparr>) \<and>
   35 + int 2 * 30 = (20 + 25 + 50 :: int)"
proof -
  let ?t = "initial_timers ! WUPDATE_SESSIONS"
  have t: "?t = \<lparr>it_interval = 30, it_current = 0\<rparr>" by (simp add: initial_timers_def WUPDATE_SESSIONS_def)
  have run: "timer_run [20, 25, 50] ?t = (2, \<lparr>it_interval = 30, it_current = 35\<rparr>)"
    unfolding t by (simp add: timer_tick_def timer_Update_def timer_Passed_def timer_Reset_def)
  then show ?thesis using timer_keeps_time [OF _ _ _ run] t by simp
qed

section \<open>Shutdown\<close>

lemma UpdateGameTime_idle [simp]:
  "wo_idleMode (UpdateGameTime x w) = wo_idleMode w" "wo_gameTime (UpdateGameTime x w) = x"
  "GetSessionCount (UpdateGameTime x w) = GetSessionCount w"
  by (simp_all add: UpdateGameTime_def Let_def GetSessionCount_def)

definition may_stop :: "world \<Rightarrow> bool" where
  "may_stop w \<longleftrightarrow> \<not> wo_idleMode w \<or> GetSessionCount w = 0"

lemma may_stop_update [simp]: "may_stop (UpdateGameTime x w) = may_stop w"
  by (simp add: may_stop_def)

text \<open>One reading of the clock.\<close>

lemma UpdateGameTime_step:
  assumes "wo_gameTime w \<le> x" "x - wo_gameTime w < 2 ^ 32" "0 < wo_shutdownTimer w"
  shows "wo_stopEvent (UpdateGameTime x w) \<longleftrightarrow>
      wo_stopEvent w \<or> (uint (wo_shutdownTimer w) \<le> x - wo_gameTime w \<and> may_stop w)"
    "\<not> wo_stopEvent (UpdateGameTime x w) \<Longrightarrow> 0 < wo_shutdownTimer (UpdateGameTime x w)"
    "uint (wo_shutdownTimer w) > x - wo_gameTime w \<Longrightarrow>
      uint (wo_shutdownTimer (UpdateGameTime x w)) = uint (wo_shutdownTimer w) - (x - wo_gameTime w)"
proof -
  let ?d = "x - wo_gameTime w" and ?t = "wo_shutdownTimer w"
  define e :: u32 where "e = of_int ?d"
  have small: "uint (of_int k :: u32) = k" if "0 \<le> k" "k < 2 ^ 32" for k
    using that by (simp add: unsigned_of_int take_bit_int_eq_self)
  have e: "uint e = ?d" unfolding e_def by (rule small) (use assms(1,2) in simp_all)
  have pos: "0 < e \<longleftrightarrow> 0 < ?d" and le: "?t \<le> e \<longleftrightarrow> uint ?t \<le> ?d" and t: "0 < uint ?t"
    using assms(1,3) by (simp_all add: word_less_def word_le_def e)
  have sub: "\<not> ?t \<le> e \<Longrightarrow> uint (?t - e) = uint ?t - ?d" by (simp add: le uint_sub_if' e)
  have upd: "UpdateGameTime x w =
     (let w' = w\<lparr>wo_gameTime := x\<rparr>
      in if 0 < e then
           if ?t \<le> e then if may_stop w then w'\<lparr>wo_stopEvent := True\<rparr> else w'\<lparr>wo_shutdownTimer := 1\<rparr>
           else w'\<lparr>wo_shutdownTimer := ?t - e\<rparr>
         else w')"
    using assms(3) unfolding UpdateGameTime_def e_def [symmetric] Let_def may_stop_def GetSessionCount_def by simp
  show "wo_stopEvent (UpdateGameTime x w) \<longleftrightarrow> wo_stopEvent w \<or> (uint ?t \<le> ?d \<and> may_stop w)"
    using t assms(1) by (auto simp: upd Let_def pos le)
  show "\<not> wo_stopEvent (UpdateGameTime x w) \<Longrightarrow> 0 < wo_shutdownTimer (UpdateGameTime x w)"
    using assms(3) sub by (auto simp: upd Let_def word_less_def le split: if_splits)
  show "uint ?t > ?d \<Longrightarrow> uint (wo_shutdownTimer (UpdateGameTime x w)) = uint ?t - ?d"
    using assms(1) sub by (auto simp: upd Let_def le pos)
qed

lemma stopped_stays: "wo_stopEvent w \<Longrightarrow> wo_stopEvent (fold UpdateGameTime ts w)"
  by (induction ts arbitrary: w) (auto simp: UpdateGameTime_def Let_def)

lemma countdown:
  assumes "0 < wo_shutdownTimer w" "sorted (wo_gameTime w # ts)" "\<forall>x \<in> set ts. x - wo_gameTime w < 2 ^ 32"
  shows "wo_stopEvent (fold UpdateGameTime ts w) \<longleftrightarrow>
    wo_stopEvent w \<or> (\<exists>x \<in> set ts. uint (wo_shutdownTimer w) \<le> x - wo_gameTime w) \<and> may_stop w"
  using assms
proof (induction ts arbitrary: w)
  case (Cons x ts)
  let ?w = "UpdateGameTime x w"
  have x: "wo_gameTime w \<le> x" "x - wo_gameTime w < 2 ^ 32" using Cons.prems by simp_all
  note step = UpdateGameTime_step [OF x Cons.prems(1)]
  show ?case
  proof (cases "wo_stopEvent ?w")
    case True
    then show ?thesis using step(1) stopped_stays by auto
  next
    case False
    then have IH: "wo_stopEvent (fold UpdateGameTime ts ?w) \<longleftrightarrow>
        (\<exists>y \<in> set ts. uint (wo_shutdownTimer ?w) \<le> y - x) \<and> may_stop w"
      using Cons.IH [of ?w] Cons.prems step(2) by fastforce
    show ?thesis
    proof (cases "may_stop w")
      case True
      then have later: "uint (wo_shutdownTimer w) > x - wo_gameTime w" using False step(1) by auto
      have "uint (wo_shutdownTimer ?w) \<le> y - x \<longleftrightarrow> uint (wo_shutdownTimer w) \<le> y - wo_gameTime w" for y
        using step(3) [OF later] by auto
      then show ?thesis using IH False step(1) True later by auto
    next
      case no: False
      then show ?thesis using IH False step(1) by auto
    qed
  qed
qed simp

text \<open>C20: a shutdown announced \<open>t\<close> seconds ahead happens on time: over any later readings of the clock, in order and less than
  \<open>2 ^ 32\<close> seconds ahead, the server is told to stop exactly if one of them is at least \<open>t\<close> seconds after the time of the
  announcement; an idle shutdown waits as long as there are sessions.\<close>

theorem shutdown_on_time:
  assumes "0 < t" "\<not> wo_stopEvent w" "sorted (wo_gameTime w # ts)" "\<forall>x \<in> set ts. x - wo_gameTime w < 2 ^ 32"
  shows "wo_stopEvent (fold UpdateGameTime ts (ShutdownServ t idle w)) \<longleftrightarrow>
    (\<exists>x \<in> set ts. uint t \<le> x - wo_gameTime w) \<and> (\<not> idle \<or> GetSessionCount w = 0)"
proof -
  let ?w = "ShutdownServ t idle w"
  have "wo_shutdownTimer ?w = t" "wo_gameTime ?w = wo_gameTime w" "wo_stopEvent ?w = wo_stopEvent w"
    "may_stop ?w \<longleftrightarrow> \<not> idle \<or> GetSessionCount w = 0"
    using assms(1) by (auto simp: ShutdownServ_def Let_def may_stop_def GetSessionCount_def)
  then show ?thesis using countdown [of ?w ts] assms by simp
qed

text \<open>Five seconds, read after two, four and seven.\<close>

theorem shutdown_on_time_witness:
  "let w = \<lparr>wo_server = new_server, wo_timers = initial_timers, wo_gameTime = 100, wo_idleMode = False,
            wo_shutdownTimer = 0, wo_stopEvent = False\<rparr>
   in \<not> wo_stopEvent (fold UpdateGameTime [102, 104] (ShutdownServ 5 True w)) \<and>
      wo_stopEvent (fold UpdateGameTime [102, 104, 107] (ShutdownServ 5 True w))"
proof -
  let ?w = "\<lparr>wo_server = new_server, wo_timers = initial_timers, wo_gameTime = 100, wo_idleMode = False,
    wo_shutdownTimer = 0, wo_stopEvent = False\<rparr>"
  have "GetSessionCount ?w = 0" by (simp add: GetSessionCount_def new_server_def)
  then show ?thesis
    using shutdown_on_time [of 5 ?w "[102, 104]" True] shutdown_on_time [of 5 ?w "[102, 104, 107]" True]
    by (simp add: Let_def)
qed

section \<open>The length of a tick\<close>

fun tick_times :: "u32 list \<Rightarrow> u32 list" where
  "tick_times (p # n # ns) = tick_diff p n # tick_times (n # ns)"
| "tick_times ns = []"

fun wraps :: "u32 list \<Rightarrow> nat" where
  "wraps (p # n # ns) = (if n < p then 1 else 0) + wraps (n # ns)"
| "wraps ns = 0"

text \<open>Over any sequence of readings of the millisecond clock, the times of the ticks, added up modulo \<open>2 ^ 32\<close>, are the time
  from the first reading to the last, less one for every time the clock wrapped around: in the tick in which
  it does, \<open>WorldRunnable::run\<close> counts from \<open>0xFFFFFFFF\<close> and not from \<open>2 ^ 32\<close>.\<close>

theorem tick_times_sum:
  "sum_list (tick_times (p # ns)) = last (p # ns) - p - of_nat (wraps (p # ns))"
proof (induction ns arbitrary: p)
  case (Cons n ns)
  have diff: "tick_diff p n = n - p - (if n < p then 1 else 0)"
  proof -
    have "(0xFFFFFFFF :: u32) = - 1" by simp
    then show ?thesis unfolding tick_diff_def by (simp only: if_split) (simp add: algebra_simps)
  qed
  have "sum_list (tick_times (p # n # ns)) =
      n - p - (if n < p then 1 else 0) + (last (n # ns) - n - of_nat (wraps (n # ns)))"
    by (simp only: tick_times.simps sum_list.Cons diff Cons.IH)
  then show ?case by simp
qed simp

end
