(* ===== verification/Map_Download.thy ===== *)
theory Map_Download
  imports Broadcast Session_Handlers
begin

text \<open>
  The download of a map: \<open>WorldSession::_SendMapSendPacket\<close> (\<open>src/src/game/WorldSession.cpp\<close>) sends the next piece of
  the compressed map in every update of a session that is downloading.
\<close>

section \<open>The pieces of the file\<close>

definition chunk :: "bytes \<Rightarrow> nat \<Rightarrow> bytes" where
  "chunk bs n = take 0x200 (drop (0x200 * (n - 1)) bs)"

lemma chunks_concat: "concat (map (chunk bs) [1..<k + 1]) = take (0x200 * k) bs"
proof (induction k)
  case (Suc k)
  have "concat (map (chunk bs) [1..<Suc k + 1]) = take (0x200 * k) bs @ chunk bs (Suc k)" using Suc by simp
  also have "\<dots> = take (0x200 * k + 0x200) bs" by (simp add: chunk_def take_add)
  finally show ?case by (simp add: add.commute)
qed simp

lemma chunk_bound: "1 \<le> n \<Longrightarrow> n * length (chunk bs n) \<le> length bs"
proof -
  assume n: "1 \<le> n"
  show ?thesis
  proof (cases "0x200 * n \<le> length bs")
    case True
    then have "length (chunk bs n) = 0x200" using n by (cases n) (auto simp: chunk_def)
    then show ?thesis using True by simp
  next
    case False
    show ?thesis
    proof (cases "0x200 * (n - 1) \<le> length bs")
      case True
      let ?r = "length bs - 0x200 * (n - 1)"
      have r: "length (chunk bs n) = ?r" "?r < 0x200" using True False n by (auto simp: chunk_def min_def)
      have "n * ?r = (n - 1) * ?r + ?r" using n by (cases n) auto
      also have "(n - 1) * ?r \<le> (n - 1) * 0x200" using r(2) by (intro mult_left_mono) auto
      finally show ?thesis using r True by simp
    next
      case False
      then show ?thesis by (simp add: chunk_def)
    qed
  qed
qed

text \<open>The number of the next packet is never 0, whatever is left of the file.\<close>

lemma next_chunk_goes_on:
  assumes "1 \<le> n" "length bs < 2 ^ 31"
  shows "next_chunk (of_nat (length bs)) (int n) (length (chunk bs n)) = int n + 1"
proof -
  have n: "n * length (chunk bs n) \<le> length bs" using assms(1) by (rule chunk_bound)
  have small: "unat (of_nat k :: u32) = k" if "k < 2 ^ 32" for k
    using that by (simp add: unsigned_of_nat take_bit_nat_eq_self)
  have "\<not> (of_nat k :: u32) > of_nat l" if "k \<le> l" "l < 2 ^ 31" for k l
    using that by (simp add: word_less_nat_alt small)
  from this [OF n assms(2)] show ?thesis by (simp add: next_chunk_def)
qed

section \<open>One packet\<close>

lemma session_send_now:
  assumes st: "sv_sessions s a = Some st" and room: "has_room packet st" and code: "p_opcode packet \<noteq> 0"
  shows "\<exists>out st'. session_send a packet False False s =
      Inr (packet, s\<lparr>sv_sessions := (sv_sessions s)(a \<mapsto> st'), ws_sendQueue := ws_sendQueue s @ out\<rparr>) \<and>
    (\<forall>p \<in> set out. p_client p = ss_client st) \<and> ss_client st' = ss_client st \<and> ss_downloading st' = ss_downloading st \<and>
    stream_of (out @ pending st') = stream_of (pending st) @ (if ss_socket st then tagged packet else [])"
proof (cases "ss_socket st")
  case True
  obtain out st' where send: "SendPacket packet False False st = Inr (packet, out, st')"
    and str: "stream_of (out @ pending st') = stream_of (pending st) @ tagged packet"
    and same: "st' = st\<lparr>ss_sendPacket := ss_sendPacket st'\<rparr>"
    using SendPacket_sends [of st False packet False] True room code by (auto simp: has_room_def)
  have "ss_client st' = ss_client st" "ss_downloading st' = ss_downloading st"
    using arg_cong [OF same, of ss_client] arg_cong [OF same, of ss_downloading] by simp_all
  then show ?thesis
    using send str True SendPacket_client [OF send] st
    by (auto simp: session_send_def get_session_def step_simps)
next
  case False
  then have "SendPacket packet False False st = Inr (packet, [], st)" by (simp add: SendPacket_def)
  then show ?thesis
    using False st by (intro exI [of _ "[]"] exI [of _ st]) (simp add: session_send_def get_session_def step_simps)
qed

definition chunk_message :: "bytes \<Rightarrow> nat \<Rightarrow> bytes" where
  "chunk_message bs n =
     MSG_MAP_SEND_PACKET # [0xF8] @ le_bytes 2 (of_nat n :: u16) @ le_bytes 2 (of_nat (length (chunk bs n)) :: u16) @ chunk bs n"

lemma chunk_packet:
  assumes "length (chunk bs n) \<le> 0x200"
  shows "pk_puts [put_u8 0xF8, put_u16 (of_nat n), put_u16 (of_nat (length (chunk bs n))), append_bytes (chunk bs n)]
      (mk_packet MSG_MAP_SEND_PACKET 0x80 c) =
    Inr (packet_appended (tl (chunk_message bs n)) (mk_packet MSG_MAP_SEND_PACKET 0x80 c))"
proof -
  let ?bss = "[le_bytes 1 (0xF8 :: u8), le_bytes 2 (of_nat n :: u16), le_bytes 2 (of_nat (length (chunk bs n)) :: u16), chunk bs n]"
  have "list_all2 writes [put_u8 0xF8, put_u16 (of_nat n), put_u16 (of_nat (length (chunk bs n))), append_bytes (chunk bs n)] ?bss"
    using writes_put_u8 writes_put_u16 writes_append_bytes by (simp del: le_bytes_numeral)
  from pk_puts_writes [OF this, of "mk_packet MSG_MAP_SEND_PACKET 0x80 c"]
  have "pk_puts [put_u8 0xF8, put_u16 (of_nat n), put_u16 (of_nat (length (chunk bs n))), append_bytes (chunk bs n)]
      (mk_packet MSG_MAP_SEND_PACKET 0x80 c) = Inr (packet_appended (concat ?bss) (mk_packet MSG_MAP_SEND_PACKET 0x80 c))"
    using assms by (simp add: append_max_def length_le_bytes del: pk_puts.simps)
  moreover have "concat ?bss = tl (chunk_message bs n)" by (simp add: chunk_message_def)
  ultimately show ?thesis by simp
qed

text \<open>C10: a client gets the map: in every update of a session that is at packet \<open>n\<close> of the download, the client's stream is longer by the message with
  the \<open>n\<close>th piece of 512 bytes of the compressed file, its number and its length, and the session goes on to packet \<open>n + 1\<close>;
  the first \<open>k\<close> pieces put together are the first \<open>512 * k\<close> bytes of the file. The session never goes back to 0, not
  even behind the end of the file, where the pieces are empty: only the client ends the download.\<close>

theorem map_download:
  assumes "sv_sessions s ss = Some st" "ss_downloading st = int n" "1 \<le> n" "n < 2 ^ 22"
    and "mf_nxz (e_map E) = Some bs" "length bs < 2 ^ 31"
    and "send_ok st" "length (packet_bytes (ss_sendPacket st)) + 0x205 < append_max"
  shows "(\<exists>s' st'. SendMapSendPacket E ss s = Inr ((), s') \<and> sv_sessions s' ss = Some st' \<and>
      ss_downloading st' = int n + 1 \<and>
      stream_to s' ss = stream_to s ss @
        (if ss_socket st then map (\<lambda>b. ((0x80, ss_unk2 st + 1), b)) (chunk_message bs n) else [])) \<and>
    concat (map (chunk bs) [1..<k + 1]) = take (0x200 * k) bs"
proof -
  let ?st = "st\<lparr>ss_unk2 := ss_unk2 st + 1\<rparr>"
  let ?s = "s\<lparr>sv_sessions := (sv_sessions s)(ss \<mapsto> ?st)\<rparr>"
  let ?p = "SetUnk (ss_unk2 ?st) (packet_appended (tl (chunk_message bs n)) (mk_packet MSG_MAP_SEND_PACKET 0x80 (ss_client st)))"
  have off: "unat (of_int ((int n - 1) * 0x200) :: u32) = 0x200 * (n - 1)"
  proof -
    have "unat (of_nat m :: u32) = m" if "m < 2 ^ 32" for m using that by (simp add: unsigned_of_nat take_bit_nat_eq_self)
    from this [of "0x200 * (n - 1)"] show ?thesis using assms(3,4) by (simp add: of_nat_diff algebra_simps)
  qed
  have data: "ReadNxzBytes E (of_int ((ss_downloading ?st - 1) * 0x200)) 0x200 = chunk bs n"
    unfolding ReadNxzBytes_def using off assms(2,5) by (simp add: chunk_def)
  have len: "length (chunk bs n) \<le> 0x200" by (simp add: chunk_def)
  then have room: "has_room ?p ?st"
    using assms(7,8) by (simp add: has_room_def send_ok_def chunk_message_def length_le_bytes)
  have "sv_sessions ?s ss = Some ?st" "p_opcode ?p \<noteq> 0" by simp_all
  from session_send_now [OF this(1) room this(2)] obtain out st' where
    send: "session_send ss ?p False False ?s =
      Inr (?p, ?s\<lparr>sv_sessions := (sv_sessions ?s)(ss \<mapsto> st'), ws_sendQueue := ws_sendQueue ?s @ out\<rparr>)"
    and own: "\<forall>p \<in> set out. p_client p = ss_client ?st" "ss_client st' = ss_client ?st" "ss_downloading st' = ss_downloading ?st"
    and str: "stream_of (out @ pending st') = stream_of (pending ?st) @ (if ss_socket ?st then tagged ?p else [])"
    by blast
  let ?s' = "s\<lparr>sv_sessions := (sv_sessions s)(ss \<mapsto> st'\<lparr>ss_downloading := int n + 1\<rparr>), ws_sendQueue := ws_sendQueue s @ out\<rparr>"
  have next_n: "next_chunk (GetNxzSize E) (ss_downloading ?st) (length (chunk bs n)) = int n + 1"
    using next_chunk_goes_on [OF assms(3,6)] assms(2,5) by (simp add: GetNxzSize_def)
  have run: "SendMapSendPacket E ss s = Inr ((), ?s')"
    using assms(1) send next_n data assms(2) own(3)
    by (simp add: SendMapSendPacket_def upd_session_def get_session_def step_simps chunk_packet [OF len] del: pk_puts.simps)
  have "tagged ?p = map (\<lambda>b. ((0x80, ss_unk2 st + 1), b)) (chunk_message bs n)"
    by (simp add: tagged_def chunk_message_def)
  moreover have "pending (st'\<lparr>ss_downloading := int n + 1\<rparr>) = pending st'" "pending ?st = pending st"
    by (simp_all add: pending_def)
  ultimately have "stream_to ?s' ss = stream_to s ss @
      (if ss_socket st then map (\<lambda>b. ((0x80, ss_unk2 st + 1), b)) (chunk_message bs n) else [])"
    using str own assms(1) by (simp add: stream_to_def filter_all)
  then show ?thesis using run chunks_concat by fastforce
qed

text \<open>A file of 700 bytes: the second packet has the last 188 of them, and a third one follows.\<close>

definition downloading_server :: server where
  "downloading_server = new_server\<lparr>sv_sessions := [3 \<mapsto> (new_session 1 0)\<lparr>ss_downloading := 2\<rparr>]\<rparr>"

theorem map_download_witness:
  "let E = sample_env\<lparr>e_map := \<lparr>mf_checksum = 0, mf_nxz = Some (replicate 700 7), mf_nxzname = []\<rparr>\<rparr>
   in \<exists>s' st'. SendMapSendPacket E 3 downloading_server = Inr ((), s') \<and> sv_sessions s' 3 = Some st' \<and>
        ss_downloading st' = 3 \<and>
        stream_to s' 3 = map (\<lambda>b. ((0x80, 1), b)) ([MSG_MAP_SEND_PACKET, 0xF8, 2, 0, 188, 0] @ replicate 188 7)"
proof -
  let ?E = "sample_env\<lparr>e_map := \<lparr>mf_checksum = 0, mf_nxz = Some (replicate 700 7), mf_nxzname = []\<rparr>\<rparr>"
  let ?st = "(new_session 1 0)\<lparr>ss_downloading := 2\<rparr>"
  have st: "sv_sessions downloading_server 3 = Some ?st" by (simp add: downloading_server_def)
  have "chunk (replicate 700 7) 2 = replicate 188 7" by (simp add: chunk_def)
  then have msg: "chunk_message (replicate 700 7) 2 = [MSG_MAP_SEND_PACKET, 0xF8, 2, 0, 188, 0] @ replicate 188 7"
  proof -
    have "le_bytes 2 (2 :: u16) = [2, 0]" "le_bytes 2 (188 :: u16) = [188, 0]" by code_simp+
    then show ?thesis using \<open>chunk (replicate 700 7) 2 = _\<close> by (simp add: chunk_message_def)
  qed
  have start: "stream_to downloading_server 3 = []"
    by (simp add: stream_to_def downloading_server_def new_server_def pending_def new_session_def)
  have "send_ok ?st" "length (packet_bytes (ss_sendPacket ?st)) + 0x205 < append_max" "ss_socket ?st" "ss_unk2 ?st = 0"
    by (simp_all add: send_ok_def new_session_def append_max_def)
  then show ?thesis
    using map_download [OF st, of 2 ?E "replicate 700 7"] start by (simp add: Let_def msg)
qed

end
