(* ===== verification/Potions.thy ===== *)
theory Potions
  imports Game_Frame
begin

text \<open>
  What a potion does: \<open>WorldObject::PotionUse\<close> (\<open>src/src/game/Object.cpp\<close>). It tells the potions apart by testing bits
  of a subclass, but the subclasses are consecutive numbers.
\<close>

lemma potion_mana_bit:
  fixes c :: u32
  assumes "SUBCLASS_POTION \<le> c" "c \<le> SUBCLASS_VAMPIRISM_POTION"
  shows "c AND SUBCLASS_MANA_POTION \<noteq> 0"
proof -
  have c: "c = of_nat (unat c)" "0x52 \<le> unat c" "unat c \<le> 0x5F"
    using assms by (simp_all add: word_le_nat_alt)
  have "\<forall>n \<in> {0x52..0x5F}. (of_nat n :: u32) AND SUBCLASS_MANA_POTION \<noteq> 0" by code_simp
  then show ?thesis using c by (metis atLeastAtMost_iff)
qed

text \<open>C35: every potion is taken for a mana potion, although the code notes that this test can only be true for those; and the test of the maximum of
  the mana is the wrong way round. So whatever the potion: a player who has mana at all does not drink it, and
  nothing happens; for a player without mana the potion is used up, but no health, no mana, no enchantment and no poison changes.\<close>

theorem potions_have_no_effect:
  assumes "GetObjectInfo E obj s = Inr (info, s)" "sv_objects s plr = Some ob"
    and "SUBCLASS_POTION \<le> th_subclass info" "th_subclass info \<le> SUBCLASS_VAMPIRISM_POTION"
  shows "(GetMaxMana ob \<noteq> 0 \<longrightarrow> PotionUse E obj plr s = Inr ((), s)) \<and>
    (ob_max_mana ob = 0 \<and> potion_effect E info plr s = Inr (b, s') \<longrightarrow>
       b \<and> sv_objects s' = sv_objects s \<and> sv_units s' = sv_units s)"
proof -
  have "th_subclass info AND SUBCLASS_MANA_POTION \<noteq> 0" using assms(3,4) by (rule potion_mana_bit)
  then have effect: "potion_effect E info plr s =
      (if GetMaxMana ob = 0
       then gthen (gvoid (ManaDrain plr (0 - of_int (first_arg (th_use_args info)))))
              (gthen (self_sound plr SOUND_RESTOREMANA) (gret True)) s
       else Inr (False, s))"
    using assms(2) by (simp add: potion_effect_def Let_def get_object_def step_simps)
  have "GetMaxMana ob \<noteq> 0 \<Longrightarrow> PotionUse E obj plr s = Inr ((), s)"
    using assms(1) effect by (simp add: PotionUse_def step_simps)
  moreover have "b \<and> sv_objects s' = sv_objects s \<and> sv_units s' = sv_units s"
    if none: "ob_max_mana ob = 0" "potion_effect E info plr s = Inr (b, s')"
  proof -
    have "ManaDrain plr d s = Inr (False, s)" for d
      using assms(2) none(1) by (simp add: ManaDrain_def get_object_def step_simps)
    moreover have "GetMaxMana ob = 0" using none(1) by (simp add: GetMaxMana_def trunc_int_def)
    ultimately have "b" "self_sound plr SOUND_RESTOREMANA s = Inr ((), s')"
      using none(2) effect by (auto simp: gthen_Inr_iff gvoid_def)
    then show ?thesis using sent(1,2) [OF _ sends.stays_self_sound] by blast
  qed
  ultimately show ?thesis by blast
qed

text \<open>A hurt wizard and a potion of health.\<close>

theorem potions_have_no_effect_witness:
  "let E = sample_env\<lparr>e_things := [sample_thing\<lparr>th_subclass := SUBCLASS_HEALTH_POTION\<rparr>]\<rparr>;
       s = new_server\<lparr>sv_objects := [3 \<mapsto> blank_object KWorldObject 1 INVENTORY_POSITION 7 0,
                                     5 \<mapsto> (blank_object KPlayer PLAYER_TYPE (0, 0) 1 0)\<lparr>ob_health := 1, ob_max_health := 75, ob_max_mana := 125\<rparr>]\<rparr>
   in PotionUse E 3 5 s = Inr ((), s)"
proof -
  let ?info = "sample_thing\<lparr>th_subclass := SUBCLASS_HEALTH_POTION\<rparr>"
  let ?E = "sample_env\<lparr>e_things := [?info]\<rparr>"
  let ?ob = "(blank_object KPlayer PLAYER_TYPE (0, 0) 1 0)\<lparr>ob_health := 1, ob_max_health := 75, ob_max_mana := 125\<rparr>"
  let ?s = "new_server\<lparr>sv_objects := [3 \<mapsto> blank_object KWorldObject 1 INVENTORY_POSITION 7 0, 5 \<mapsto> ?ob]\<rparr>"
  have info: "GetObjectInfo ?E 3 ?s = Inr (?info, ?s)"
    by (simp add: GetObjectInfo_def info_of_type_def get_object_def deref_def step_simps blank_object_def)
  have "GetMaxMana ?ob \<noteq> 0" by (simp add: GetMaxMana_def trunc_int_def)
  then show ?thesis using potions_have_no_effect [OF info, of 5 ?ob] by (simp add: Let_def)
qed

end
