(* ===== verification/Thing_Bin.thy ===== *)
theory Thing_Bin
  imports Thing_Props Nox_Buffer Object_Mgr
begin

text \<open>
  The sections of \<open>thing.bin\<close> before the objects: tiles, edges, walls, sounds and images
  (\<open>src/src/game/NoxThinglib.{h,cpp}\<close>).

  The functions read the decrypted file from a position \<open>count\<close>, a \<open>long\<close> of 32 bits, without looking at its length:
  a read outside the buffer, which has ten zero bytes behind the file, is \<open>OutOfBounds\<close>, and so is a name that does not fit the
  array it is copied to. \<open>Type\<close> holds the last tag of four bytes.

  Lists are values, except those of the sounds: \<open>Load_Sounds\<close> copies one \<open>DUA\<close> again and again without clearing it, so all
  sounds share one chain of nodes, which \<open>~MLIST\<close> frees when \<open>Load_Sounds\<close> returns.
\<close>

section \<open>Reading\<close>

definition rd :: "bytes \<Rightarrow> nat \<Rightarrow> int \<Rightarrow> bytes res" where
  "rd buff n count =
     (if n = 0 then Inr []
      else if 0 \<le> count \<and> nat count + n \<le> length buff then Inr (take n (drop (nat count) buff)) else Inl OutOfBounds)"

definition rd_byte :: "bytes \<Rightarrow> int \<Rightarrow> u8 res" where
  "rd_byte buff count = rmap hd (rd buff 1 count)"

definition rd_int :: "bytes \<Rightarrow> int \<Rightarrow> u32 res" where
  "rd_int buff count = rmap le_word (rd buff 4 count)"

text \<open>\<open>memcpy\<close> to the start of an array.\<close>

definition copy_to :: "bytes \<Rightarrow> bytes \<Rightarrow> bytes res" where
  "copy_to src dst = (if length src \<le> length dst then Inr (src @ drop (length src) dst) else Inl OutOfBounds)"

text \<open>A length and as many bytes, copied to an array.\<close>

definition rd_name :: "bytes \<Rightarrow> bytes \<Rightarrow> int \<Rightarrow> (u8 \<times> bytes \<times> int) res" where
  "rd_name dst buff count =
     rbind (rd_byte buff count) (\<lambda>len.
     rbind (rd buff (unat len) (count + 1)) (\<lambda>src.
     rbind (copy_to src dst) (\<lambda>dst.
     Inr (len, dst, count + 1 + int (unat len)))))"

definition align :: "int \<Rightarrow> int" where
  "align count = count + (8 - count mod 8) mod 8"

abbreviation (input) zeros :: "nat \<Rightarrow> bytes" where "zeros n \<equiv> replicate n 0"

abbreviation (input) DNE :: bytes where "DNE \<equiv> string_bytes '' DNE''"
abbreviation (input) ROLF :: bytes where "ROLF \<equiv> string_bytes ''ROLF''"
abbreviation (input) EGDE :: bytes where "EGDE \<equiv> string_bytes ''EGDE''"
abbreviation (input) LLAW :: bytes where "LLAW \<equiv> string_bytes ''LLAW''"
abbreviation (input) DUA :: bytes where "DUA \<equiv> string_bytes '' DUA''"
abbreviation (input) GAMI :: bytes where "GAMI \<equiv> string_bytes ''GAMI''"
abbreviation (input) GNHT :: bytes where "GNHT \<equiv> string_bytes ''GNHT''"

lemma rd_inside: "rd buff n count = Inr bs \<Longrightarrow> 0 < n \<Longrightarrow> 0 \<le> count \<and> nat count + n \<le> length buff"
  by (auto simp: rd_def split: if_splits)

lemma rd_byte_inside: "rd_byte buff count = Inr b \<Longrightarrow> 0 \<le> count \<and> nat count < length buff"
  by (auto simp: rd_byte_def rmap_Inr_iff dest: rd_inside)

lemma rd_name_forward: "rd_name dst buff count = Inr (len, dst', count') \<Longrightarrow> 0 \<le> count \<and> nat count < length buff \<and> count < count'"
  by (auto simp: rd_name_def rbind_Inr_iff add_pos_nonneg dest: rd_byte_inside)

lemma align_forward: "count \<le> align count"
  by (simp add: align_def)

text \<open>Words of four bytes up to a tag that stops the loop: the words, the tag and its position.\<close>

function words_until :: "(bytes \<Rightarrow> bool) \<Rightarrow> bytes \<Rightarrow> int \<Rightarrow> (u32 list \<times> bytes \<times> int) res" where
  "words_until stop buff count =
     rbind (rd buff 4 count) (\<lambda>tag.
       if stop tag then Inr ([], tag, count)
       else rmap (\<lambda>(ws, r). (le_word tag # ws, r)) (words_until stop buff (count + 4)))"
  by pat_completeness auto
termination
  by (relation "measure (\<lambda>(stop, buff, count). length buff - nat count)") (auto dest!: rd_inside)

primrec read_words :: "nat \<Rightarrow> bytes \<Rightarrow> int \<Rightarrow> u32 list res" where
  "read_words 0 buff count = Inr []"
| "read_words (Suc n) buff count =
     rbind (rd_int buff count) (\<lambda>w. rmap (\<lambda>ws. w # ws) (read_words n buff (count + 4)))"

text \<open>\<open>memcpy(Type, buff + count, 4); count++\<close> until \<open>Type\<close> is the tag: the position behind its first byte.\<close>

function find_tag :: "bytes \<Rightarrow> bytes \<Rightarrow> int \<Rightarrow> int res" where
  "find_tag tag buff count = rbind (rd buff 4 count) (\<lambda>t. if t = tag then Inr (count + 1) else find_tag tag buff (count + 1))"
  by pat_completeness auto
termination
  by (relation "measure (\<lambda>(tag, buff, count). length buff - nat count)") (auto dest!: rd_inside)

text \<open>The same, up to the end of the file: the tag last read and the position.\<close>

function find_tag_in :: "bytes \<Rightarrow> int \<Rightarrow> bytes \<Rightarrow> bytes \<Rightarrow> int \<Rightarrow> (bytes \<times> int) res" where
  "find_tag_in tag len buff t count =
     (if t \<noteq> tag \<and> count < len then rbind (rd buff 4 count) (\<lambda>t. find_tag_in tag len buff t (count + 1))
      else Inr (t, count))"
  by pat_completeness auto
termination
  by (relation "measure (\<lambda>(tag, len, buff, t, count). length buff - nat count)") (auto dest!: rd_inside)

declare words_until.simps [simp del] find_tag.simps [simp del] find_tag_in.simps [simp del]

section \<open>Tiles and edges\<close>

record rolf =
  ro_unknown :: u32
  ro_nameLen :: u8
  ro_name :: bytes
  ro_unknowns :: bytes
  ro_one :: bytes
  ro_images :: "u32 list"

record egde =
  eg_unknown :: u32
  eg_nameLen :: u8
  eg_name :: bytes
  eg_unknowns :: bytes
  eg_images :: "u32 list"

definition Load_Edge :: "bytes \<Rightarrow> int \<Rightarrow> (egde \<times> int) res" where
  "Load_Edge buff count =
     rbind (rd_int buff count) (\<lambda>unknown.
     rbind (rd_name (zeros 25) buff (count + 4)) (\<lambda>(len, name, count).
     rbind (rd buff 14 count) (\<lambda>unknowns.
     rbind (words_until (\<lambda>t. t = DNE) buff (count + 14)) (\<lambda>(images, _, count).
     Inr (\<lparr>eg_unknown = unknown, eg_nameLen = len, eg_name = name, eg_unknowns = unknowns, eg_images = images\<rparr>, count + 4)))))"

definition Load_Tile :: "bytes \<Rightarrow> int \<Rightarrow> (rolf \<times> int) res" where
  "Load_Tile buff count =
     rbind (rd_int buff count) (\<lambda>unknown.
     rbind (rd_name (zeros 25) buff (count + 4)) (\<lambda>(len, name, count).
     rbind (rd buff 14 count) (\<lambda>unknowns.
     rbind (rd buff 2 (count + 14)) (\<lambda>one.
     rbind (words_until (\<lambda>t. t = DNE) buff (count + 16)) (\<lambda>(images, _, count).
     Inr (\<lparr>ro_unknown = unknown, ro_nameLen = len, ro_name = name, ro_unknowns = unknowns, ro_one = one, ro_images = images\<rparr>,
          count + 4))))))"

lemma words_until_forward: "words_until stop buff count = Inr (ws, tag, count') \<Longrightarrow> count \<le> count'"
proof (induction stop buff count arbitrary: ws rule: words_until.induct)
  case (1 stop buff count)
  from "1.prems" show ?case
    by (subst (asm) words_until.simps) (auto simp: res_iffs split: if_splits dest: "1.IH")
qed

lemma Load_Edge_forward: "Load_Edge buff count = Inr (e, count') \<Longrightarrow> 0 \<le> count \<and> nat count < length buff \<and> count < count'"
  by (fastforce simp: Load_Edge_def rd_int_def res_iffs dest!: rd_inside rd_name_forward words_until_forward)

lemma Load_Tile_forward: "Load_Tile buff count = Inr (e, count') \<Longrightarrow> 0 \<le> count \<and> nat count < length buff \<and> count < count'"
  by (fastforce simp: Load_Tile_def rd_int_def res_iffs dest!: rd_inside rd_name_forward words_until_forward)

function tiles_loop :: "bytes \<Rightarrow> bytes \<Rightarrow> int \<Rightarrow> (rolf list \<times> egde list \<times> bytes \<times> int) res" where
  "tiles_loop buff t count =
     (if t = ROLF then
        rbind (Load_Tile buff count) (\<lambda>(tile, count).
        rbind (rd buff 4 count) (\<lambda>t.
        rmap (\<lambda>(tiles, r). (tile # tiles, r)) (tiles_loop buff t (count + 4))))
      else if t = EGDE then
        rbind (Load_Edge buff count) (\<lambda>(edge, count).
        rbind (rd buff 4 count) (\<lambda>t.
        rmap (\<lambda>(tiles, edges, r). (tiles, edge # edges, r)) (tiles_loop buff t (count + 4))))
      else Inr ([], [], t, count))"
  by pat_completeness auto
termination
  by (relation "measure (\<lambda>(buff, t, count). length buff - nat count)")
    (auto dest!: Load_Tile_forward Load_Edge_forward)

declare tiles_loop.simps [simp del]

definition Load_Tiles :: "bytes \<Rightarrow> int \<Rightarrow> (rolf list \<times> egde list \<times> bytes \<times> int) res" where
  "Load_Tiles buff count = rbind (rd buff 4 count) (\<lambda>t. tiles_loop buff t (count + 4))"

section \<open>Walls\<close>

record bin_prop =
  pr_len :: u8
  pr_value :: bytes

record llaw =
  la_unknown :: u8
  la_nameLen :: u8
  la_name :: bytes
  la_objects :: "bin_prop list"
  la_open :: "u8 \<times> bytes"
  la_close :: "u8 \<times> bytes"
  la_destroy :: "u8 \<times> bytes"
  la_images :: "u32 list"

primrec wall_objects :: "nat \<Rightarrow> bytes \<Rightarrow> int \<Rightarrow> (bin_prop list \<times> int) res" where
  "wall_objects 0 buff count = Inr ([], count)"
| "wall_objects (Suc n) buff count =
     rbind (rd_name (zeros 255) buff count) (\<lambda>(len, v, count).
     rmap (\<lambda>(obs, r). (\<lparr>pr_len = len, pr_value = v\<rparr> # obs, r)) (wall_objects n buff count))"

text \<open>The way to the images: a zero byte at a multiple of eight.\<close>

function wall_blocks :: "bytes \<Rightarrow> int \<Rightarrow> int res" where
  "wall_blocks buff count =
     rbind (rd_byte buff count) (\<lambda>b. if b \<noteq> 0 then wall_blocks buff (align (count + 1)) else Inr count)"
  by pat_completeness auto
termination
proof (relation "measure (\<lambda>(buff, count). nat (int (length buff) - count))")
  fix buff count x
  assume "rd_byte buff count = Inr x"
  then show "((buff, align (count + 1)), (buff, count)) \<in> measure (\<lambda>(buff, count). nat (int (length buff) - count))"
    using rd_byte_inside [of buff count x] align_forward [of "count + 1"] by (auto simp: nat_less_iff)
qed simp

text \<open>The images of a wall, from the tag \<open>t\<close> in \<open>Type\<close>.\<close>

function wall_images :: "bytes \<Rightarrow> bytes \<Rightarrow> int \<Rightarrow> (u32 list \<times> int) res" where
  "wall_images buff t count =
     (if t = DNE then Inr ([], count + 4)
      else rbind (rd buff 4 (count + 4)) (\<lambda>t'.
           rbind (if t' \<noteq> DNE then rmap (\<lambda>b. count + 6 + (if b > 0 then 14 else 6)) (rd_byte buff (count + 4)) else Inr (count + 4)) (\<lambda>count.
           rbind (rd buff 4 count) (\<lambda>t'.
           rmap (\<lambda>(ws, r). (le_word t # ws, r)) (wall_images buff t' count)))))"
  by pat_completeness auto
termination
  by (relation "measure (\<lambda>(buff, t, count). nat (int (length buff) - count))")
    (auto dest!: rd_inside simp: rmap_Inr_iff split: if_splits)

declare wall_blocks.simps [simp del] wall_images.simps [simp del]

definition Load_Wall :: "bytes \<Rightarrow> bytes \<Rightarrow> int \<Rightarrow> (llaw \<times> int) res" where
  "Load_Wall buff t count =
     rbind (rd_byte buff count) (\<lambda>unknown.
     rbind (rd_name (zeros 25) buff (count + 4)) (\<lambda>(len, name, count).
     let count = align (count + 14) in
     rbind (rd_byte buff count) (\<lambda>num.
     rbind (wall_objects (unat num) buff (align (count + 4))) (\<lambda>(objects, count).
     rbind (rd_name (zeros 25) buff count) (\<lambda>(len1, open1, count).
     rbind (rd_name (zeros 25) buff count) (\<lambda>(len2, close2, count).
     rbind (rd_name (zeros 25) buff count) (\<lambda>(len3, destroy3, count).
     rbind (wall_blocks buff (align count)) (\<lambda>count.
     rbind (wall_images buff t (align (count + 1))) (\<lambda>(images, count).
     Inr (\<lparr>la_unknown = unknown, la_nameLen = len, la_name = name, la_objects = objects, la_open = (len1, open1),
           la_close = (len2, close2), la_destroy = (len3, destroy3), la_images = images\<rparr>, count))))))))))"

lemma wall_objects_forward: "wall_objects n buff count = Inr (obs, count') \<Longrightarrow> count \<le> count'"
  by (induction n arbitrary: count obs) (fastforce simp: res_iffs dest!: rd_name_forward)+

lemma wall_blocks_forward: "wall_blocks buff count = Inr count' \<Longrightarrow> count \<le> count'"
proof (induction buff count rule: wall_blocks.induct)
  case (1 buff count)
  obtain b where b: "rd_byte buff count = Inr b" using "1.prems" by (subst (asm) wall_blocks.simps) (auto simp: res_iffs)
  show ?case
  proof (cases "b = 0")
    case True
    then show ?thesis using "1.prems" b by (simp add: wall_blocks.simps [of buff count])
  next
    case False
    then have "wall_blocks buff (align (count + 1)) = Inr count'" using "1.prems" b by (simp add: wall_blocks.simps [of buff count])
    then show ?thesis using "1.IH" [OF b False] align_forward [of "count + 1"] by simp
  qed
qed

lemma wall_images_forward: "wall_images buff t count = Inr (ws, count') \<Longrightarrow> count < count'"
proof (induction buff t count arbitrary: ws rule: wall_images.induct)
  case (1 buff t count)
  from "1.prems" show ?case
    by (subst (asm) wall_images.simps) (fastforce simp: res_iffs split: if_splits dest!: "1.IH")
qed

lemma Load_Wall_forward:
  assumes "Load_Wall buff t count = Inr (w, count')"
  shows "0 \<le> count \<and> nat count < length buff \<and> count < count'"
proof -
  obtain l1 n1 c1 obs c2 l3 n3 c3 l4 n4 c4 l5 n5 c5 c6 num where
    "rd_byte buff count = Inr num" "rd_name (zeros 25) buff (count + 4) = Inr (l1, n1, c1)"
    "\<exists>num. wall_objects num buff (align (align (c1 + 14) + 4)) = Inr (obs, c2)"
    "rd_name (zeros 25) buff c2 = Inr (l3, n3, c3)" "rd_name (zeros 25) buff c3 = Inr (l4, n4, c4)"
    "rd_name (zeros 25) buff c4 = Inr (l5, n5, c5)" "wall_blocks buff (align c5) = Inr c6"
    "\<exists>ws. wall_images buff t (align (c6 + 1)) = Inr (ws, count')"
    using assms by (force simp: Load_Wall_def Let_def res_iffs)
  then show ?thesis
    using align_forward [of "align (c1 + 14) + 4"] align_forward [of "c1 + 14"] align_forward [of c5] align_forward [of "c6 + 1"]
    by (fastforce dest!: rd_byte_inside rd_name_forward wall_objects_forward wall_blocks_forward wall_images_forward)
qed

function walls_loop :: "bytes \<Rightarrow> bytes \<Rightarrow> int \<Rightarrow> (llaw list \<times> int) res" where
  "walls_loop buff t count =
     (if t = LLAW then
        rbind (Load_Wall buff t count) (\<lambda>(wall, count).
        rbind (rd buff 4 count) (\<lambda>t.
        rmap (\<lambda>(walls, r). (wall # walls, r)) (walls_loop buff t (count + 4))))
      else Inr ([], count))"
  by pat_completeness auto
termination
  by (relation "measure (\<lambda>(buff, t, count). length buff - nat count)") (auto dest!: Load_Wall_forward)

declare walls_loop.simps [simp del]

definition Load_Walls :: "bytes \<Rightarrow> bytes \<Rightarrow> int \<Rightarrow> (llaw list \<times> int) res" where
  "Load_Walls buff t count = rmap (\<lambda>(walls, count). (walls, count - 4)) (walls_loop buff t count)"

section \<open>Sounds\<close>

text \<open>A sound's list is a handle on the chain of nodes: whether its first pointer is set, and its count of nodes.\<close>

record dua =
  du_nameLen :: u8
  du_name :: bytes
  du_unknowns :: bytes
  du_has_first :: bool
  du_numNodes :: nat

text \<open>The names of one sound; \<open>v\<close> is the array the last name was read to, of which only 25 bytes are cleared.\<close>

function aud_names :: "bytes \<Rightarrow> bytes \<Rightarrow> int \<Rightarrow> (bin_prop list \<times> int) res" where
  "aud_names v buff count =
     rbind (rd_byte buff count) (\<lambda>b.
       if b \<noteq> 0 then
         rbind (rd_name (zeros 25 @ drop 25 v) buff count) (\<lambda>(len, v, count).
         rmap (\<lambda>(ps, r). (\<lparr>pr_len = len, pr_value = v\<rparr> # ps, r)) (aud_names v buff count))
       else Inr ([], count + 1))"
  by pat_completeness auto
termination
  by (relation "measure (\<lambda>(v, buff, count). length buff - nat count)") (auto dest!: rd_name_forward)

declare aud_names.simps [simp del]

text \<open>\<open>Load_Aud\<close> appends to the chain; the array of the names is a local variable.\<close>

definition Load_Aud :: "bytes \<Rightarrow> bin_prop list \<Rightarrow> int \<Rightarrow> (dua \<times> bin_prop list \<times> int) res" where
  "Load_Aud buff chain count =
     rbind (rd_name (zeros 25) buff count) (\<lambda>(len, name, count).
     rbind (rd buff 9 count) (\<lambda>unknowns.
     rmap (\<lambda>(ps, count).
       let chain = chain @ ps
       in (\<lparr>du_nameLen = len, du_name = name, du_unknowns = unknowns, du_has_first = (chain \<noteq> []), du_numNodes = length chain\<rparr>,
           chain, count)) (aud_names (zeros 255) buff (count + 9))))"

primrec auds_loop :: "nat \<Rightarrow> bytes \<Rightarrow> bin_prop list \<Rightarrow> int \<Rightarrow> (dua list \<times> bin_prop list \<times> int) res" where
  "auds_loop 0 buff chain count = Inr ([], chain, count)"
| "auds_loop (Suc n) buff chain count =
     rbind (Load_Aud buff chain count) (\<lambda>(aud, chain, count).
     rmap (\<lambda>(auds, r). (aud # auds, r)) (auds_loop n buff chain count))"

text \<open>The sounds, the chain of nodes that is freed on return, the tag and the position.\<close>

definition Load_Sounds :: "bytes \<Rightarrow> int \<Rightarrow> (dua list \<times> bin_prop list \<times> bytes \<times> int) res" where
  "Load_Sounds buff count =
     rbind (rd buff 4 count) (\<lambda>t.
       if t = DUA then
         rbind (rd_int buff (count + 4)) (\<lambda>len.
         rmap (\<lambda>(auds, chain, count). (auds, chain, t, count)) (auds_loop (nat (sint len)) buff [] (count + 8)))
       else Inr ([], [], t, count + 4))"

section \<open>Images\<close>

record gami =
  ga_nameLen :: u8
  ga_name :: bytes
  ga_aniName :: bytes
  ga_images :: "u32 list"

definition Load_Image :: "bytes \<Rightarrow> int \<Rightarrow> (gami \<times> int) res" where
  "Load_Image buff count =
     rbind (rd_name (zeros 50) buff count) (\<lambda>(len, name, count).
     rbind (rd_byte buff count) (\<lambda>numImages.
       if numImages = 1 then
         rbind (rd_int buff (count + 1)) (\<lambda>code.
         rbind (copy_to (string_bytes ''Static Image'') (zeros 50)) (\<lambda>ani.
         Inr (\<lparr>ga_nameLen = len, ga_name = name, ga_aniName = ani, ga_images = [code]\<rparr>, count + 5)))
       else
         rbind (rd_byte buff (count + 1)) (\<lambda>numLoop.
         rbind (rd_name (zeros 50) buff (count + 3)) (\<lambda>(_, ani, count).
         rbind (read_words (unat numLoop) buff count) (\<lambda>codes.
         Inr (\<lparr>ga_nameLen = len, ga_name = name, ga_aniName = ani, ga_images = codes\<rparr>, count + 4 * int (unat numLoop)))))))"

primrec images_loop :: "nat \<Rightarrow> bytes \<Rightarrow> int \<Rightarrow> (gami list \<times> int) res" where
  "images_loop 0 buff count = Inr ([], count)"
| "images_loop (Suc n) buff count =
     rbind (Load_Image buff count) (\<lambda>(image, count). rmap (\<lambda>(images, r). (image # images, r)) (images_loop n buff count))"

definition Load_Images :: "bytes \<Rightarrow> int \<Rightarrow> (gami list \<times> bytes \<times> int) res" where
  "Load_Images buff count =
     rbind (rd_int buff count) (\<lambda>num.
     rbind (images_loop (nat (sint num)) buff (count + 4)) (\<lambda>(images, count).
     rbind (rd buff 4 count) (\<lambda>t. Inr (images, t, count + 4))))"

text \<open>Looking a sound up by name: \<open>DUASTRUCT::GetIndex\<close>.\<close>

fun sound_from :: "u16 \<Rightarrow> nat \<Rightarrow> string \<Rightarrow> dua list \<Rightarrow> u16" where
  "sound_from i n name [] = 0"
| "sound_from i n name (aud # auds) =
     (if same_upto n (chars (c_str (du_name aud))) name then i + 1 else sound_from (i + 1) n name auds)"

definition sound_GetIndex :: "string \<Rightarrow> nat \<Rightarrow> dua list \<Rightarrow> u16" where
  "sound_GetIndex name mx auds = sound_from 0 (max 50 mx) name auds"

end
