(* ===== verification/Thing_Objects.thy ===== *)
theory Thing_Objects
  imports Thing_Bin
begin

text \<open>
  The objects of \<open>thing.bin\<close> and the loading of the whole file: \<open>ThingBin::Load_Object\<close>, \<open>Load_Objects\<close> and \<open>Load_Thingdb\<close>
  (\<open>src/src/game/NoxThinglib.cpp\<close>).

  An object is its name and lines. A line is a property, or names one of ten ways of drawing, whose data follow. A block of
  such data starts with the length of what follows, and most end where this length says, which may be before the object: the
  loop over the lines is a partial function.

  The list of images of \<open>TATS\<close> is copied with its pointers: the copies of one \<open>TATS\<close> that was not cleared in between share a
  chain of nodes. Here a list is a handle, the number of its chain and its count of nodes, and the chains are a store.
\<close>

section \<open>State\<close>

record tats =
  ta_subCat :: u32
  ta_loopName :: bytes
  ta_nullString :: bytes
  ta_chain :: "nat option"
  ta_numNodes :: nat

definition blank_tats :: tats where
  "blank_tats = \<lparr>ta_subCat = 0, ta_loopName = zeros 50, ta_nullString = zeros 50, ta_chain = None, ta_numNodes = 0\<rparr>"

record gnht =
  gn_nameLen :: u8
  gn_name :: bytes
  gn_thing :: thing
  gn_properties :: "string list"
  gn_imageCode :: u32
  gn_menuIcon :: u32
  gn_prettyImage :: u32
  gn_aniName :: bytes
  gn_stats :: "tats list"
  gn_playerStats :: "tats list"
  gn_subcats :: "bin_prop list"

definition blank_thing :: thing where
  "blank_thing =
     \<lparr>t_flags = 0, t_classes = 0, t_subclass = 0, t_collide = 0, t_update = 0, t_pickup = 0, t_use = 0,
      t_use_args = replicate 5 '''', t_update_args = replicate 5 '''', t_collide_args = replicate 5 '''',
      t_shape = 0, t_extent_x = 0, t_extent_y = 0\<rparr>"

definition blank_gnht :: gnht where
  "blank_gnht =
     \<lparr>gn_nameLen = 0, gn_name = zeros 50, gn_thing = blank_thing, gn_properties = [], gn_imageCode = 0, gn_menuIcon = 0,
      gn_prettyImage = 0, gn_aniName = zeros 255, gn_stats = [], gn_playerStats = [], gn_subcats = []\<rparr>"

text \<open>The variables of the loop: \<open>count\<close>, \<open>Type\<close>, \<open>Length32\<close>, \<open>Stat\<close>, the object, and the chains of images.\<close>

record object_state =
  os_count :: int
  os_type :: bytes
  os_length32 :: u32
  os_stat :: tats
  os_ob :: gnht
  os_chains :: "u32 list list"

definition on_ob :: "(gnht \<Rightarrow> gnht) \<Rightarrow> object_state \<Rightarrow> object_state" where
  "on_ob f st = st\<lparr>os_ob := f (os_ob st)\<rparr>"

section \<open>Steps\<close>

text \<open>\<open>Stat.Images.Add\<close>: a new chain, or a node behind the last one this list knows.\<close>

definition add_image :: "u32 \<Rightarrow> object_state \<Rightarrow> object_state" where
  "add_image w st =
     (let s = os_stat st; cs = os_chains st
      in case ta_chain s of
           None \<Rightarrow> st\<lparr>os_stat := s\<lparr>ta_chain := Some (length cs), ta_numNodes := 1\<rparr>, os_chains := cs @ [[w]],
                      os_ob := (os_ob st)\<lparr>gn_imageCode := w\<rparr>\<rparr>
         | Some c \<Rightarrow> st\<lparr>os_stat := s\<lparr>ta_numNodes := ta_numNodes s + 1\<rparr>, os_chains := cs[c := take (ta_numNodes s) (cs ! c) @ [w]],
                        os_ob := (os_ob st)\<lparr>gn_imageCode := w\<rparr>\<rparr>)"

definition add_images :: "u32 list \<Rightarrow> object_state \<Rightarrow> object_state" where
  "add_images ws st = fold add_image ws st"

definition clear_stat :: "object_state \<Rightarrow> object_state" where
  "clear_stat st = st\<lparr>os_stat := blank_tats\<rparr>"

definition push_stat :: "object_state \<Rightarrow> object_state" where
  "push_stat st = on_ob (\<lambda>ob. ob\<lparr>gn_stats := gn_stats ob @ [os_stat st]\<rparr>) st"

definition push_player_stat :: "object_state \<Rightarrow> object_state" where
  "push_player_stat st = on_ob (\<lambda>ob. ob\<lparr>gn_playerStats := gn_playerStats ob @ [os_stat st]\<rparr>) st"

text \<open>\<open>strcpy\<close> from the array \<open>src\<close> to the array \<open>dst\<close>.\<close>

definition strcpy :: "bytes \<Rightarrow> bytes \<Rightarrow> bytes res" where
  "strcpy src dst =
     (if c_str src = src then Inl OutOfBounds else copy_to (c_str src @ [0]) dst)"

definition loop_name :: "object_state \<Rightarrow> object_state res" where
  "loop_name st = rmap (\<lambda>n. st\<lparr>os_stat := (os_stat st)\<lparr>ta_loopName := n\<rparr>\<rparr>) (strcpy (gn_aniName (os_ob st)) (ta_loopName (os_stat st)))"

definition null_string :: "object_state \<Rightarrow> object_state res" where
  "null_string st = rmap (\<lambda>n. st\<lparr>os_stat := (os_stat st)\<lparr>ta_nullString := n\<rparr>\<rparr>) (strcpy (gn_aniName (os_ob st)) (ta_nullString (os_stat st)))"

text \<open>The name of the animation is the first 50 bytes of the line.\<close>

definition ani_line :: "bytes \<Rightarrow> object_state \<Rightarrow> object_state" where
  "ani_line str st = on_ob (\<lambda>ob. ob\<lparr>gn_aniName := take 50 str @ drop 50 (gn_aniName ob)\<rparr>) st"

text \<open>\<open>memset(aniName, 0, n)\<close>.\<close>

definition clear_ani :: "nat \<Rightarrow> object_state \<Rightarrow> object_state" where
  "clear_ani n st = on_ob (\<lambda>ob. ob\<lparr>gn_aniName := zeros n @ drop n (gn_aniName ob)\<rparr>) st"

text \<open>\<open>memcpy\<close> of one byte to \<open>Length32\<close>, then of as many bytes to \<open>aniName\<close>.\<close>

definition read_length :: "bytes \<Rightarrow> object_state \<Rightarrow> object_state res" where
  "read_length buff st =
     rmap (\<lambda>b. st\<lparr>os_length32 := (os_length32 st AND 0xFFFFFF00) OR ucast b, os_count := os_count st + 1\<rparr>) (rd_byte buff (os_count st))"

definition read_ani :: "bytes \<Rightarrow> object_state \<Rightarrow> object_state res" where
  "read_ani buff st =
     rbind (read_length buff st) (\<lambda>st.
     if unat (os_length32 st) > 255 then Inl OutOfBounds
     else rbind (rd buff (unat (os_length32 st)) (os_count st)) (\<lambda>src.
     rbind (copy_to src (gn_aniName (os_ob st))) (\<lambda>ani.
     Inr (on_ob (\<lambda>ob. ob\<lparr>gn_aniName := ani\<rparr>) (st\<lparr>os_count := os_count st + int (unat (os_length32 st))\<rparr>)))))"

text \<open>The variant that clears \<open>Length32\<close> and the first bytes of the name before.\<close>

definition read_ani_clear :: "nat \<Rightarrow> bytes \<Rightarrow> object_state \<Rightarrow> object_state res" where
  "read_ani_clear n buff st = read_ani buff (clear_ani n (st\<lparr>os_length32 := 0\<rparr>))"

text \<open>The length of a block at the next multiple of eight: its end and its start.\<close>

definition block_end :: "bytes \<Rightarrow> int \<Rightarrow> (int \<times> int) res" where
  "block_end buff count =
     rbind (rd_int buff (align count)) (\<lambda>len.
       let start = align count + 8; finish = start + sint len
       in if - (2 ^ 31) \<le> finish \<and> finish < 2 ^ 31 then Inr (finish, start) else Inl IntOverflow)"

text \<open>Images up to the end of a block; a rest of less than four bytes is not read.\<close>

function block_images :: "bytes \<Rightarrow> int \<Rightarrow> int \<Rightarrow> u32 list res" where
  "block_images buff finish count =
     (if count < finish \<and> count + 4 \<le> finish
      then rbind (rd_int buff count) (\<lambda>w. rmap (\<lambda>ws. w # ws) (block_images buff finish (count + 4)))
      else Inr [])"
  by pat_completeness auto
termination
  by (relation "measure (\<lambda>(buff, finish, count). nat (finish - count))") auto

declare block_images.simps [simp del]

section \<open>The ways of drawing\<close>

definition draw_static :: "bytes \<Rightarrow> bytes \<Rightarrow> object_state \<Rightarrow> object_state res" where
  "draw_static buff str st =
     rbind (block_end buff (os_count st)) (\<lambda>(finish, start).
     rbind (if chars (c_str str) = ''SlaveDraw'' then
              rbind (read_length buff (st\<lparr>os_count := start\<rparr>)) (\<lambda>st.
              rmap (\<lambda>ws. (ws, st\<lparr>os_length32 := - 1\<rparr>)) (read_words (unat (os_length32 st)) buff (os_count st)))
            else rmap (\<lambda>w. ([w], st)) (rd_int buff start)) (\<lambda>(ws, st).
     Inr (ani_line str (push_stat (add_images ws (st\<lparr>os_count := finish\<rparr>))))))"

definition draw_animate :: "bool \<Rightarrow> bytes \<Rightarrow> bytes \<Rightarrow> object_state \<Rightarrow> object_state res" where
  "draw_animate clear buff str st =
     rbind (block_end buff (os_count st)) (\<lambda>(finish, start).
     rbind (read_ani buff (st\<lparr>os_count := start + 2\<rparr>)) (\<lambda>st.
     rbind (loop_name st) (\<lambda>st.
     rbind (block_images buff finish (os_count st)) (\<lambda>ws.
     let st = push_stat (add_images ws (st\<lparr>os_count := finish\<rparr>))
     in Inr (ani_line str (if clear then clear_stat st else st))))))"

definition draw_random :: "bytes \<Rightarrow> bytes \<Rightarrow> object_state \<Rightarrow> object_state res" where
  "draw_random buff str st =
     rbind (block_end buff (os_count st)) (\<lambda>(finish, start).
     rbind (rd_byte buff start) (\<lambda>numFrames.
     rbind (read_words (unat numFrames) buff (start + 1)) (\<lambda>ws.
     Inr (ani_line str (clear_stat (push_stat (add_images ws (st\<lparr>os_count := finish\<rparr>))))))))"

primrec conditional_stats :: "nat \<Rightarrow> bytes \<Rightarrow> object_state \<Rightarrow> object_state res" where
  "conditional_stats 0 buff st = Inr st"
| "conditional_stats (Suc n) buff st =
     rbind (rd_byte buff (os_count st)) (\<lambda>numImages.
     rbind (read_ani_clear 70 buff (clear_stat (st\<lparr>os_count := os_count st + 2\<rparr>))) (\<lambda>st.
     rbind (loop_name st) (\<lambda>st.
     rbind (read_words (unat numImages) buff (os_count st)) (\<lambda>ws.
     conditional_stats n buff
       (clear_stat (push_stat (add_images ws (st\<lparr>os_count := os_count st + 4 * int (unat numImages)\<rparr>))))))))"

definition draw_conditional :: "bytes \<Rightarrow> bytes \<Rightarrow> object_state \<Rightarrow> object_state res" where
  "draw_conditional buff str st =
     rbind (block_end buff (os_count st)) (\<lambda>(finish, start).
     rbind (rd_byte buff start) (\<lambda>numStats.
     rbind (conditional_stats (unat numStats) buff (st\<lparr>os_count := start + 1\<rparr>)) (\<lambda>st.
     Inr (ani_line str (st\<lparr>os_count := finish\<rparr>)))))"

text \<open>One entry of \<open>PlayerDraw\<close>, behind its tag \<open>t\<close>; \<open>Prop\<close> gets the first name.\<close>

abbreviation (input) UQES :: bytes where "UQES \<equiv> string_bytes ''UQES''"
abbreviation (input) TATS :: bytes where "TATS \<equiv> string_bytes ''TATS''"

definition add_subcat :: "object_state \<Rightarrow> object_state" where
  "add_subcat st =
     (let s = c_str (gn_aniName (os_ob st))
      in on_ob (\<lambda>ob. ob\<lparr>gn_subcats := gn_subcats ob @ [\<lparr>pr_len = of_nat (length s), pr_value = s @ zeros (255 - length s)\<rparr>]\<rparr>) st)"

definition player_names :: "bytes \<Rightarrow> bytes \<Rightarrow> object_state \<Rightarrow> object_state res" where
  "player_names buff t st =
     (if t = UQES then rbind (read_ani_clear 50 buff st) loop_name
      else rbind (read_ani_clear 50 buff st) (\<lambda>st.
           rbind (null_string st) (\<lambda>st.
           rbind (read_ani_clear 50 buff ((add_subcat st)\<lparr>os_count := os_count st + 2\<rparr>)) (\<lambda>st.
           rbind (loop_name st) (\<lambda>st.
           rbind (rd buff 4 (os_count st)) (\<lambda>t.
           if t = UQES then rbind (read_ani_clear 50 buff (st\<lparr>os_count := os_count st + 4\<rparr>)) loop_name else Inr st))))))"

definition set_subcat :: "object_state \<Rightarrow> object_state" where
  "set_subcat st = st\<lparr>os_stat := (os_stat st)\<lparr>ta_subCat := of_nat (length (gn_subcats (os_ob st)))\<rparr>\<rparr>"

definition player_entry :: "bytes \<Rightarrow> bytes \<Rightarrow> object_state \<Rightarrow> object_state res" where
  "player_entry buff t st =
     rbind (player_names buff t (clear_stat st)) (\<lambda>st.
     rbind (words_until (\<lambda>t. t = DNE \<or> t = TATS \<or> t = UQES) buff (os_count st)) (\<lambda>(ws, _, count).
     let st = add_images ws (st\<lparr>os_count := count\<rparr>)
     in Inr (clear_stat (push_player_stat (if ws = [] then st else set_subcat st)))))"

definition monster_entry :: "bytes \<Rightarrow> object_state \<Rightarrow> object_state res" where
  "monster_entry buff st =
     rbind (read_ani_clear 20 buff (st\<lparr>os_count := os_count st + 1\<rparr>)) (\<lambda>st.
     rbind (null_string st) (\<lambda>st.
     rbind (read_ani_clear 20 buff (st\<lparr>os_count := os_count st + 4\<rparr>)) (\<lambda>st.
     rbind (loop_name st) (\<lambda>st.
     rbind (words_until (\<lambda>t. t = DNE \<or> t = TATS) buff (os_count st)) (\<lambda>(ws, _, count).
     Inr (clear_stat (push_stat (add_images ws (st\<lparr>os_count := count\<rparr>)))))))))"

lemma add_images_count [simp]: "os_count (add_images ws st) = os_count st"
proof -
  have "os_count (fold add_image ws st) = os_count st"
    by (induction ws arbitrary: st) (simp_all add: add_image_def Let_def split: option.split)
  then show ?thesis by (simp add: add_images_def)
qed

lemma step_counts [simp]:
  "os_count (on_ob f st) = os_count st" "os_count (clear_stat st) = os_count st" "os_count (push_stat st) = os_count st"
  "os_count (push_player_stat st) = os_count st" "os_count (clear_ani n st) = os_count st"
  "os_count (add_subcat st) = os_count st" "os_count (set_subcat st) = os_count st" "os_count (ani_line str st) = os_count st"
  by (simp_all add: on_ob_def clear_stat_def push_stat_def push_player_stat_def clear_ani_def add_subcat_def set_subcat_def
      ani_line_def Let_def)

lemma name_counts:
  "loop_name st = Inr st' \<Longrightarrow> os_count st' = os_count st" "null_string st = Inr st' \<Longrightarrow> os_count st' = os_count st"
  by (auto simp: loop_name_def null_string_def rmap_Inr_iff)

lemma read_ani_forward: "read_ani buff st = Inr st' \<Longrightarrow> os_count st < os_count st'"
  by (auto simp: read_ani_def read_length_def res_iffs add_pos_nonneg split: if_splits)

lemma read_ani_clear_forward: "read_ani_clear n buff st = Inr st' \<Longrightarrow> os_count st < os_count st'"
  by (auto simp: read_ani_clear_def dest: read_ani_forward)

lemma player_names_forward: "player_names buff t st = Inr st' \<Longrightarrow> os_count st < os_count st'"
  by (fastforce simp: player_names_def res_iffs dest!: read_ani_clear_forward name_counts split: if_splits)

lemma player_entry_forward: "player_entry buff t st = Inr st' \<Longrightarrow> os_count st < os_count st'"
  by (fastforce simp: player_entry_def res_iffs Let_def dest!: player_names_forward words_until_forward)

lemma monster_entry_forward: "monster_entry buff st = Inr st' \<Longrightarrow> os_count st < os_count st'"
  by (fastforce simp: monster_entry_def res_iffs dest!: read_ani_clear_forward name_counts words_until_forward)

function player_loop :: "bytes \<Rightarrow> int \<Rightarrow> object_state \<Rightarrow> object_state res" where
  "player_loop buff finish st =
     (if os_count st < finish then
        rbind (rd buff 4 (os_count st)) (\<lambda>t.
          if t = DNE then Inr (clear_stat (st\<lparr>os_count := finish\<rparr>))
          else rbind (player_entry buff t (st\<lparr>os_count := os_count st + 4\<rparr>)) (\<lambda>st. player_loop buff finish st))
      else Inr st)"
  by pat_completeness auto
termination
  by (relation "measure (\<lambda>(buff, finish, st). nat (finish - os_count st))") (auto dest!: player_entry_forward)

function monster_loop :: "bytes \<Rightarrow> int \<Rightarrow> object_state \<Rightarrow> object_state res" where
  "monster_loop buff finish st =
     (if os_count st < finish then
        rbind (rd buff 4 (os_count st)) (\<lambda>t.
          if t = DNE then Inr (st\<lparr>os_count := finish\<rparr>)
          else rbind (monster_entry buff (st\<lparr>os_count := os_count st + 4\<rparr>)) (\<lambda>st. monster_loop buff finish st))
      else Inr st)"
  by pat_completeness auto
termination
  by (relation "measure (\<lambda>(buff, finish, st). nat (finish - os_count st))") (auto dest!: monster_entry_forward)

declare player_loop.simps [simp del] monster_loop.simps [simp del]

definition draw_player :: "bytes \<Rightarrow> bytes \<Rightarrow> object_state \<Rightarrow> object_state res" where
  "draw_player buff str st =
     rbind (block_end buff (os_count st)) (\<lambda>(finish, start).
     rbind (player_loop buff finish (st\<lparr>os_count := start\<rparr>)) (\<lambda>st.
     rbind (find_tag DNE buff finish) (\<lambda>_.
     Inr ((ani_line str st)\<lparr>os_count := finish\<rparr>))))"

definition draw_monster :: "bytes \<Rightarrow> bytes \<Rightarrow> object_state \<Rightarrow> object_state res" where
  "draw_monster buff str st =
     rbind (block_end buff (os_count st)) (\<lambda>(finish, start).
       if chars (c_str str) \<notin> {''MonsterDraw'', ''MaidenDraw'', ''AnimateDraw''} then Inr (st\<lparr>os_count := finish\<rparr>)
       else rbind (monster_loop buff finish (st\<lparr>os_count := start\<rparr>)) (\<lambda>st.
            rbind (find_tag DNE buff (os_count st)) (\<lambda>_.
            Inr ((ani_line str st)\<lparr>os_count := finish\<rparr>))))"

definition draw :: "nat \<Rightarrow> bytes \<Rightarrow> bytes \<Rightarrow> object_state \<Rightarrow> object_state res" where
  "draw aniType buff str st =
     (if aniType = 1 then draw_static buff str st
      else if aniType = 2 then draw_animate False buff str st
      else if aniType = 10 then draw_player buff str st
      else if aniType = 3 then draw_monster buff str st
      else if aniType = 4 then draw_random buff str st
      else if aniType = 5 then draw_animate True buff str st
      else if aniType = 6 then draw_conditional buff str st
      else if aniType = 7 then
        rmap (\<lambda>w. on_ob (\<lambda>ob. ob\<lparr>gn_menuIcon := w\<rparr>) (st\<lparr>os_count := os_count st + 4\<rparr>)) (rd_int buff (os_count st))
      else if aniType = 8 then
        rmap (\<lambda>w. on_ob (\<lambda>ob. ob\<lparr>gn_prettyImage := w\<rparr>) (st\<lparr>os_count := os_count st + 4\<rparr>)) (rd_int buff (os_count st))
      else if aniType = 9 then Inr (st\<lparr>os_count := align (os_count st) + 8\<rparr>)
      else Inr st)"

section \<open>Lines and objects\<close>

text \<open>What \<open>strtok\<close> leaves of a property line as a C string: it ends behind the first token.\<close>

definition stored_line :: "string \<Rightarrow> string" where
  "stored_line line =
     (let d = (\<lambda>c. c \<in> set '' +'') in takeWhile d line @ takeWhile (\<lambda>c. \<not> d c) (dropWhile d line))"

definition add_property :: "string \<Rightarrow> object_state \<Rightarrow> object_state res" where
  "add_property line st =
     rmap (\<lambda>t. on_ob (\<lambda>ob. ob\<lparr>gn_thing := t, gn_properties := gn_properties ob @ [stored_line line]\<rparr>) st)
       (property_line line (gn_thing (os_ob st)))"

definition object_line :: "bytes \<Rightarrow> object_state \<Rightarrow> object_state res" where
  "object_line buff st =
     rbind (rd_byte buff (os_count st)) (\<lambda>len.
     rbind (rd buff (unat len) (os_count st + 1)) (\<lambda>s.
       let str = s @ zeros (255 - unat len); line = chars (c_str str);
           st = st\<lparr>os_count := os_count st + 1 + int (unat len)\<rparr>
       in if 0 \<notin> set str then Inl OutOfBounds
          else rbind (if Parse_String line = 0 \<and> len > 0 then add_property line st else Inr st) (\<lambda>st.
               rbind (draw (Parse_String line) buff str st) (\<lambda>st.
               rbind (rd_byte buff (os_count st)) (\<lambda>b.
               let count = os_count st + (if b = 0 then 1 else 0)
               in rmap (\<lambda>t. st\<lparr>os_count := count, os_type := t\<rparr>) (rd buff 4 count))))))"

partial_function (option) object_lines :: "bytes \<Rightarrow> int \<Rightarrow> object_state \<Rightarrow> object_state res option" where
  [code]: "object_lines buff filelen st =
     (if os_type st \<noteq> GNHT \<and> os_count st < filelen
      then obind (Some (object_line buff st)) (\<lambda>st. object_lines buff filelen st)
      else Some (Inr st))"

definition begin_lines :: "u8 \<Rightarrow> bytes \<Rightarrow> int \<Rightarrow> object_state" where
  "begin_lines len name count =
     \<lparr>os_count = count, os_type = zeros 4, os_length32 = 0, os_stat = blank_tats,
      os_ob = blank_gnht\<lparr>gn_nameLen := len, gn_name := name\<rparr>, os_chains = []\<rparr>"

text \<open>The object, the chains its lists of images point to, the last tag and the position.\<close>

definition Load_Object :: "bytes \<Rightarrow> int \<Rightarrow> int \<Rightarrow> (gnht \<times> u32 list list \<times> bytes \<times> int) res option" where
  "Load_Object buff filelen count =
     obind (Some (rd_name (zeros 50) buff count)) (\<lambda>(len, name, count).
     obind (object_lines buff filelen (begin_lines len name count)) (\<lambda>st.
     Some (Inr (os_ob st, os_chains st, os_type st, os_count st + 4))))"

partial_function (option) Load_Objects :: "bytes \<Rightarrow> int \<Rightarrow> bytes \<Rightarrow> int \<Rightarrow> (gnht \<times> u32 list list) list res option" where
  [code]: "Load_Objects buff filelen t count =
     (if t = GNHT then
        obind (Load_Object buff filelen count) (\<lambda>(ob, chains, t, count).
        obind (Some (find_tag_in GNHT filelen buff t count)) (\<lambda>(t, count).
        obind (Load_Objects buff filelen t count) (\<lambda>obs.
        Some (Inr ((ob, chains) # obs)))))
      else Some (Inr []))"

section \<open>The file\<close>

record thing_db =
  td_tiles :: "rolf list"
  td_edges :: "egde list"
  td_walls :: "llaw list"
  td_sounds :: "dua list"
  td_images :: "gami list"
  td_objects :: "(gnht \<times> u32 list list) list"

text \<open>The buffer: the file and ten bytes. The cipher decrypts whole blocks, up to seven of the bytes behind the file.\<close>

definition thing_buffer :: "bytes \<Rightarrow> bytes res" where
  "thing_buffer file =
     (let buff = file @ zeros 10; n = (length file + 7) div 8 * 8
      in rmap (\<lambda>(_, plain). plain @ drop n buff) (nox_decrypt (take n buff) NC_THING_BIN))"

definition Load_Thingdb :: "bytes \<Rightarrow> thing_db res option" where
  "Load_Thingdb file =
     obind (Some (thing_buffer file)) (\<lambda>buff.
     let len = int (length file)
     in obind (Some (Load_Tiles buff 0)) (\<lambda>(tiles, edges, t, count).
        obind (Some (Load_Walls buff t count)) (\<lambda>(walls, count).
        obind (Some (Load_Sounds buff count)) (\<lambda>(sounds, _, t, count).
        obind (Some (find_tag_in GAMI len buff t count)) (\<lambda>(t, count).
        obind (Some (Load_Images buff (count + 3))) (\<lambda>(images, t, count).
        obind (Some (if t = GNHT then Inr count else find_tag GNHT buff count)) (\<lambda>count.
        obind (Load_Objects buff len GNHT count) (\<lambda>objects.
        Some (Inr \<lparr>td_tiles = tiles, td_edges = edges, td_walls = walls, td_sounds = sounds, td_images = images,
                  td_objects = objects\<rparr>)))))))))"

text \<open>What the rest of the server uses of an object type; no line sets \<open>xfer\<close>.\<close>

definition thing_info_of :: "gnht \<Rightarrow> thing_info" where
  "thing_info_of ob =
     (let t = gn_thing ob
      in \<lparr>th_Name = chars (c_str (gn_name ob)), th_flags = t_flags t, th_classes = t_classes t, th_subclass = t_subclass t,
          th_collide = t_collide t, th_update = t_update t, th_pickup = t_pickup t, th_use = t_use t, th_xfer = XFER_DEFAULT,
          th_use_args = t_use_args t, th_collide_args = t_collide_args t\<rparr>)"

end
