(* ===== verification/Thing_Encoding.thy ===== *)
theory Thing_Encoding
  imports Thing_Objects
begin

text \<open>
  \<open>thing.bin\<close> written from what it describes, and read back: sections of tiles, edges, walls, sounds and images, and
  objects of property lines. What reading does not give back is stated as well: the first image of a wall is lost, and
  the sounds share one list.
\<close>

section \<open>Bytes at a position\<close>

definition lies :: "bytes \<Rightarrow> int \<Rightarrow> bytes \<Rightarrow> bool" where
  "lies buff count bs \<longleftrightarrow> 0 \<le> count \<and> (\<exists>rest. drop (nat count) buff = bs @ rest)"

lemma lies_append: "lies buff count (as @ bs) \<longleftrightarrow> lies buff count as \<and> lies buff (count + int (length as)) bs"
proof
  assume a: "lies buff count (as @ bs)"
  then obtain rest where rest: "0 \<le> count" "drop (nat count) buff = as @ bs @ rest" by (auto simp: lies_def)
  have "drop (nat (count + int (length as))) buff = drop (length as) (drop (nat count) buff)"
    using rest(1) by (simp add: nat_add_distrib add.commute)
  then show "lies buff count as \<and> lies buff (count + int (length as)) bs" using rest by (simp add: lies_def)
next
  assume b: "lies buff count as \<and> lies buff (count + int (length as)) bs"
  then obtain rest where rest: "0 \<le> count" "drop (nat count) buff = as @ rest" by (auto simp: lies_def)
  have "drop (nat (count + int (length as))) buff = drop (length as) (drop (nat count) buff)"
    using rest(1) by (simp add: nat_add_distrib add.commute)
  then have "drop (nat (count + int (length as))) buff = rest" using rest(2) by simp
  then show "lies buff count (as @ bs)" using b rest by (auto simp: lies_def)
qed

lemma lies_Cons: "lies buff count (b # bs) \<longleftrightarrow> lies buff count [b] \<and> lies buff (count + 1) bs"
  using lies_append [of buff count "[b]" bs] by simp

lemma lies_Nil [simp]: "lies buff count [] \<longleftrightarrow> 0 \<le> count"
  by (simp add: lies_def)

lemma rd_prefix:
  assumes "lies buff count bs" "n \<le> length bs"
  shows "rd buff n count = Inr (take n bs)"
proof -
  obtain rest where rest: "0 \<le> count" "drop (nat count) buff = bs @ rest" using assms(1) by (auto simp: lies_def)
  have len: "length buff - nat count = length bs + length rest" using arg_cong [OF rest(2), of length] by simp
  show ?thesis
  proof (cases "n = 0")
    case False
    then have "nat count + n \<le> length buff" using assms(2) len by linarith
    then show ?thesis using rest assms(2) False by (simp add: rd_def)
  qed (simp add: rd_def)
qed

lemma rd_lies: "lies buff count bs \<Longrightarrow> n = length bs \<Longrightarrow> rd buff n count = Inr bs"
  using rd_prefix by fastforce

lemma rd_byte_lies: "lies buff count [b] \<Longrightarrow> rd_byte buff count = Inr b"
  using rd_lies [of buff count "[b]" 1] by (simp add: rd_byte_def)

lemma rd_int_lies: "lies buff count (le_bytes 4 w) \<Longrightarrow> rd_int buff count = Inr w"
  using rd_lies [of buff count "le_bytes 4 w" 4] by (simp add: rd_int_def le_word_le_bytes)

text \<open>A name behind its length, in an array of \<open>n\<close> bytes.\<close>

definition enc_name :: "bytes \<Rightarrow> bytes" where
  "enc_name s = of_nat (length s) # s"

definition array :: "nat \<Rightarrow> bytes \<Rightarrow> bytes" where
  "array n s = s @ zeros (n - length s)"

lemma length_enc_name [simp]: "length (enc_name s) = length s + 1"
  by (simp add: enc_name_def)

lemma rd_name_lies:
  assumes "lies buff count (enc_name s)" "length s \<le> length dst" "length s < 256"
  shows "rd_name dst buff count = Inr (of_nat (length s), s @ drop (length s) dst, count + 1 + int (length s))"
proof -
  have u: "unat (of_nat (length s) :: u8) = length s" using assms(3) by (simp add: unsigned_of_nat take_bit_nat_eq_self)
  then have ui: "uint (of_nat (length s) :: u8) = int (length s)" using arg_cong [OF u, of int] by simp
  have "lies buff count [of_nat (length s)]" "lies buff (count + 1) s"
    using assms(1) lies_append [of buff count "[of_nat (length s)]" s] by (simp_all add: enc_name_def)
  then show ?thesis using assms(2) u ui rd_lies [of buff "count + 1" s] by (simp add: rd_name_def rd_byte_lies copy_to_def)
qed

lemma rd_name_array:
  "lies buff count (enc_name s) \<Longrightarrow> length s \<le> n \<Longrightarrow> length s < 256 \<Longrightarrow>
   rd_name (zeros n) buff count = Inr (of_nat (length s), array n s, count + 1 + int (length s))"
  by (simp add: rd_name_lies array_def)

lemma words_until_lies:
  assumes "lies buff count (concat (map (le_bytes 4) ws) @ tag)" "length tag = 4" "stop tag" "\<forall>w \<in> set ws. \<not> stop (le_bytes 4 w)"
  shows "words_until stop buff count = Inr (ws, tag, count + 4 * int (length ws))"
  using assms
proof (induction ws arbitrary: count)
  case Nil
  then show ?case by (simp add: words_until.simps [of stop buff count] rd_lies)
next
  case (Cons w ws)
  have "lies buff count (le_bytes 4 w)" "lies buff (count + 4) (concat (map (le_bytes 4) ws) @ tag)"
    using Cons.prems(1) by (simp_all add: lies_append)
  then show ?case
    using Cons.prems Cons.IH [of "count + 4"] rd_lies [of buff count "le_bytes 4 w" 4]
    by (simp add: words_until.simps [of stop buff count] le_word_le_bytes)
qed

lemma read_words_lies: "lies buff count (concat (map (le_bytes 4) ws)) \<Longrightarrow> read_words (length ws) buff count = Inr ws"
proof (induction ws arbitrary: count)
  case (Cons w ws)
  then have "lies buff count (le_bytes 4 w)" "lies buff (count + 4) (concat (map (le_bytes 4) ws))"
    by (simp_all add: lies_append)
  then show ?case using Cons.IH by (simp add: rd_int_lies)
qed simp

section \<open>Tiles and edges\<close>

datatype ground = Tile rolf | Edge egde

fun enc_ground :: "ground \<Rightarrow> bytes" where
  "enc_ground (Tile r) =
     ROLF @ le_bytes 4 (ro_unknown r) @ enc_name (ro_name r) @ ro_unknowns r @ ro_one r @
     concat (map (le_bytes 4) (ro_images r)) @ DNE"
| "enc_ground (Edge e) =
     EGDE @ le_bytes 4 (eg_unknown e) @ enc_name (eg_name e) @ eg_unknowns e @ concat (map (le_bytes 4) (eg_images e)) @ DNE"

text \<open>What fits: names of 25 bytes, 14 unknown bytes, and no image code that reads \<open>" DNE"\<close>.\<close>

definition codes_ok :: "u32 list \<Rightarrow> bool" where
  "codes_ok ws \<longleftrightarrow> (\<forall>w \<in> set ws. le_bytes 4 w \<noteq> DNE)"

fun ground_ok :: "ground \<Rightarrow> bool" where
  "ground_ok (Tile r) \<longleftrightarrow> length (ro_name r) \<le> 25 \<and> length (ro_unknowns r) = 14 \<and> length (ro_one r) = 2 \<and> codes_ok (ro_images r)"
| "ground_ok (Edge e) \<longleftrightarrow> length (eg_name e) \<le> 25 \<and> length (eg_unknowns e) = 14 \<and> codes_ok (eg_images e)"

text \<open>A name as it is read: with its length, in its array.\<close>

definition read_rolf :: "rolf \<Rightarrow> rolf" where
  "read_rolf r = r\<lparr>ro_nameLen := of_nat (length (ro_name r)), ro_name := array 25 (ro_name r)\<rparr>"

definition read_egde :: "egde \<Rightarrow> egde" where
  "read_egde e = e\<lparr>eg_nameLen := of_nat (length (eg_name e)), eg_name := array 25 (eg_name e)\<rparr>"

fun tiles_of :: "ground list \<Rightarrow> rolf list" where
  "tiles_of [] = []" | "tiles_of (Tile r # gs) = read_rolf r # tiles_of gs" | "tiles_of (Edge e # gs) = tiles_of gs"

fun edges_of :: "ground list \<Rightarrow> egde list" where
  "edges_of [] = []" | "edges_of (Tile r # gs) = edges_of gs" | "edges_of (Edge e # gs) = read_egde e # edges_of gs"

lemma length_codes [simp]: "length (concat (map (le_bytes 4 :: u32 \<Rightarrow> bytes) ws)) = 4 * length ws"
  by (induction ws) simp_all

lemma Load_Tile_lies:
  assumes "lies buff count (enc_ground (Tile r))" "ground_ok (Tile r)"
  shows "Load_Tile buff (count + 4) = Inr (read_rolf r, count + int (length (enc_ground (Tile r))))"
proof -
  let ?c = "count + 4 + 4" let ?d = "?c + 1 + int (length (ro_name r))"
  have parts: "lies buff (count + 4) (le_bytes 4 (ro_unknown r))" "lies buff ?c (enc_name (ro_name r))"
      "lies buff ?d (ro_unknowns r)" "lies buff (?d + 14) (ro_one r)" "lies buff (?d + 16) (concat (map (le_bytes 4) (ro_images r)) @ DNE)"
    using assms by (simp_all add: lies_append add.assoc)
  have "words_until (\<lambda>t. t = DNE) buff (?d + 16) = Inr (ro_images r, DNE, ?d + 16 + 4 * int (length (ro_images r)))"
    using parts(5) assms(2) by (intro words_until_lies) (simp_all add: codes_ok_def)
  then show ?thesis
    using assms(2) rd_int_lies [OF parts(1)] rd_name_array [OF parts(2), of 25] rd_lies [OF parts(3)] rd_lies [OF parts(4)]
    by (simp add: Load_Tile_def read_rolf_def)
qed

lemma Load_Edge_lies:
  assumes "lies buff count (enc_ground (Edge e))" "ground_ok (Edge e)"
  shows "Load_Edge buff (count + 4) = Inr (read_egde e, count + int (length (enc_ground (Edge e))))"
proof -
  let ?c = "count + 4 + 4" let ?d = "?c + 1 + int (length (eg_name e))"
  have parts: "lies buff (count + 4) (le_bytes 4 (eg_unknown e))" "lies buff ?c (enc_name (eg_name e))"
      "lies buff ?d (eg_unknowns e)" "lies buff (?d + 14) (concat (map (le_bytes 4) (eg_images e)) @ DNE)"
    using assms by (simp_all add: lies_append add.assoc)
  have "words_until (\<lambda>t. t = DNE) buff (?d + 14) = Inr (eg_images e, DNE, ?d + 14 + 4 * int (length (eg_images e)))"
    using parts(4) assms(2) by (intro words_until_lies) (simp_all add: codes_ok_def)
  then show ?thesis
    using assms(2) rd_int_lies [OF parts(1)] rd_name_array [OF parts(2), of 25] rd_lies [OF parts(3)]
    by (simp add: Load_Edge_def read_egde_def)
qed

text \<open>Tiles and edges in any order, up to another tag.\<close>

lemma tiles_loop_lies:
  "lies buff count (concat (map enc_ground gs) @ tag) \<Longrightarrow> length tag = 4 \<Longrightarrow> tag \<noteq> ROLF \<Longrightarrow> tag \<noteq> EGDE \<Longrightarrow> \<forall>g \<in> set gs. ground_ok g \<Longrightarrow>
   rd buff 4 count = Inr t \<Longrightarrow>
   tiles_loop buff t (count + 4) = Inr (tiles_of gs, edges_of gs, tag, count + int (length (concat (map enc_ground gs))) + 4)"
proof (induction gs arbitrary: count t)
  case Nil
  then have "t = tag" using rd_lies [of buff count tag] by simp
  then show ?case using Nil by (subst tiles_loop.simps) simp
next
  case (Cons g gs)
  let ?n = "count + int (length (enc_ground g))"
  have here: "lies buff count (enc_ground g)" and others: "lies buff ?n (concat (map enc_ground gs) @ tag)"
    using Cons.prems(1) by (simp_all add: lies_append add.assoc)
  have "4 \<le> length (concat (map enc_ground gs) @ tag)" using Cons.prems(2) by simp
  from rd_prefix [OF others this] obtain t' where t': "rd buff 4 ?n = Inr t'" by blast
  have IH: "tiles_loop buff t' (?n + 4) = Inr (tiles_of gs, edges_of gs, tag, ?n + int (length (concat (map enc_ground gs))) + 4)"
    using Cons.IH [OF others _ _ _ _ t'] Cons.prems by simp
  show ?case
  proof (cases g)
    case (Tile r)
    have "t = ROLF" using here Tile Cons.prems(6) rd_lies [of buff count ROLF 4] by (simp add: lies_append)
    then show ?thesis
      using Load_Tile_lies [of buff count r] here Tile Cons.prems(5) t' IH
      by (subst tiles_loop.simps) (simp del: enc_ground.simps ground_ok.simps)
  next
    case (Edge e)
    have "t = EGDE" using here Edge Cons.prems(6) rd_lies [of buff count EGDE 4] by (simp add: lies_append)
    moreover have "EGDE \<noteq> ROLF" by (simp add: string_bytes_def)
    ultimately show ?thesis
      using Load_Edge_lies [of buff count e] here Edge Cons.prems(5) t' IH
      by (subst tiles_loop.simps) (simp del: enc_ground.simps ground_ok.simps)
  qed
qed

section \<open>Images\<close>

datatype image_source = Static bytes u32 | Animation bytes u8 bytes "u32 list"

fun enc_image :: "image_source \<Rightarrow> bytes" where
  "enc_image (Static name code) = enc_name name @ [1] @ le_bytes 4 code"
| "enc_image (Animation name n ani codes) =
     enc_name name @ [n, of_nat (length codes), 0] @ enc_name ani @ concat (map (le_bytes 4) codes)"

fun image_ok :: "image_source \<Rightarrow> bool" where
  "image_ok (Static name code) \<longleftrightarrow> length name \<le> 50"
| "image_ok (Animation name n ani codes) \<longleftrightarrow> length name \<le> 50 \<and> n \<noteq> 1 \<and> length ani \<le> 50 \<and> length codes < 256"

fun read_image :: "image_source \<Rightarrow> gami" where
  "read_image (Static name code) =
     \<lparr>ga_nameLen = of_nat (length name), ga_name = array 50 name, ga_aniName = array 50 (string_bytes ''Static Image''), ga_images = [code]\<rparr>"
| "read_image (Animation name n ani codes) =
     \<lparr>ga_nameLen = of_nat (length name), ga_name = array 50 name, ga_aniName = array 50 ani, ga_images = codes\<rparr>"

lemma u8_of_length: "n < 256 \<Longrightarrow> unat (of_nat n :: u8) = n" "n < 256 \<Longrightarrow> uint (of_nat n :: u8) = int n"
proof -
  show a: "n < 256 \<Longrightarrow> unat (of_nat n :: u8) = n" by (simp add: unsigned_of_nat take_bit_nat_eq_self)
  show "n < 256 \<Longrightarrow> uint (of_nat n :: u8) = int n" using arg_cong [OF a, of int] by simp
qed

lemma Load_Image_lies:
  assumes "lies buff count (enc_image i)" "image_ok i"
  shows "Load_Image buff count = Inr (read_image i, count + int (length (enc_image i)))"
proof (cases i)
  case (Static name code)
  let ?c = "count + 1 + int (length name)"
  have parts: "lies buff count (enc_name name)" "lies buff ?c ([1] @ le_bytes 4 code)"
    using assms Static by (simp_all add: lies_append add.assoc)
  then have "lies buff ?c [1]" "lies buff (?c + 1) (le_bytes 4 code)"
    unfolding lies_append by simp_all
  then show ?thesis
    using assms(2) Static parts(1)
    by (simp add: Load_Image_def rd_name_array rd_byte_lies rd_int_lies copy_to_def array_def)
next
  case (Animation name n ani codes)
  let ?c = "count + 1 + int (length name)"
  let ?d = "?c + 3 + 1 + int (length ani)"
  have parts: "lies buff count (enc_name name)" "lies buff ?c ([n] @ [of_nat (length codes)] @ [0] @ enc_name ani @ concat (map (le_bytes 4) codes))"
    using assms Animation by (simp_all add: lies_append add.assoc)
  then have "lies buff ?c [n]" "lies buff (?c + 1) [of_nat (length codes)]" "lies buff (?c + 3) (enc_name ani)"
      "lies buff ?d (concat (map (le_bytes 4) codes))"
    unfolding lies_append by (simp_all add: add.assoc)
  then show ?thesis
    using assms(2) Animation parts(1)
    by (simp add: Load_Image_def rd_name_array rd_byte_lies u8_of_length read_words_lies)
qed

lemma images_loop_lies:
  "lies buff count (concat (map enc_image is)) \<Longrightarrow> \<forall>i \<in> set is. image_ok i \<Longrightarrow>
   images_loop (length is) buff count = Inr (map read_image is, count + int (length (concat (map enc_image is))))"
proof (induction "is" arbitrary: count)
  case (Cons i "is")
  then have "lies buff count (enc_image i)" "lies buff (count + int (length (enc_image i))) (concat (map enc_image is))"
    by (simp_all add: lies_append)
  then show ?case using Cons Load_Image_lies [of buff count i] by (simp del: enc_image.simps image_ok.simps)
qed simp

lemma Load_Images_lies:
  assumes "lies buff count (le_bytes 4 (of_nat (length is) :: u32) @ concat (map enc_image is) @ tag)" "length tag = 4"
    and "\<forall>i \<in> set is. image_ok i" "length is < 2 ^ 31"
  shows "Load_Images buff count = Inr (map read_image is, tag, count + 4 + int (length (concat (map enc_image is))) + 4)"
proof -
  have "sint (of_nat (length is) :: u32) = int (length is)"
    using assms(4) by (simp add: signed_of_nat signed_take_bit_int_eq_self)
  moreover have "lies buff count (le_bytes 4 (of_nat (length is) :: u32))" "lies buff (count + 4) (concat (map enc_image is))"
      "lies buff (count + 4 + int (length (concat (map enc_image is)))) tag"
    using assms(1) by (simp_all add: lies_append add.assoc)
  ultimately show ?thesis
    using images_loop_lies assms(2,3) by (simp add: Load_Images_def rd_int_lies rd_lies)
qed

section \<open>Sounds\<close>

record sound_source =
  so_name :: bytes
  so_unknowns :: bytes
  so_sounds :: "bytes list"

definition enc_sound :: "sound_source \<Rightarrow> bytes" where
  "enc_sound a = enc_name (so_name a) @ so_unknowns a @ concat (map enc_name (so_sounds a)) @ [0]"

definition sound_ok :: "sound_source \<Rightarrow> bool" where
  "sound_ok a \<longleftrightarrow> length (so_name a) \<le> 25 \<and> length (so_unknowns a) = 9 \<and> (\<forall>s \<in> set (so_sounds a). s \<noteq> [] \<and> length s \<le> 25)"

definition read_prop :: "bytes \<Rightarrow> bin_prop" where
  "read_prop s = \<lparr>pr_len = of_nat (length s), pr_value = array 255 s\<rparr>"

lemma array_array: "length s \<le> k \<Longrightarrow> k \<le> n \<Longrightarrow> length t \<le> k \<Longrightarrow> t @ drop (length t) (zeros k @ drop k (array n s)) = array n t"
proof -
  assume a: "length s \<le> k" "k \<le> n" "length t \<le> k"
  have "drop k (array n s) = zeros (n - k)" using a by (simp add: array_def)
  moreover have "zeros k @ zeros (n - k) = zeros n" using a(2) by (simp flip: replicate_add)
  ultimately show ?thesis by (simp add: array_def)
qed

lemma aud_names_lies:
  "lies buff count (concat (map enc_name ss) @ [0]) \<Longrightarrow> \<forall>s \<in> set ss. s \<noteq> [] \<and> length s \<le> 25 \<Longrightarrow> length v \<le> 25 \<Longrightarrow>
   aud_names (array 255 v) buff count = Inr (map read_prop ss, count + int (length (concat (map enc_name ss))) + 1)"
proof (induction ss arbitrary: count v)
  case Nil
  then show ?case by (subst aud_names.simps) (simp add: rd_byte_lies)
next
  case (Cons s ss)
  let ?c = "count + 1 + int (length s)"
  have here: "lies buff count (enc_name s)" and others: "lies buff ?c (concat (map enc_name ss) @ [0])"
    using Cons.prems(1) by (simp_all add: lies_append add.assoc)
  have s: "s \<noteq> []" "length s \<le> 25" using Cons.prems(2) by simp_all
  have "lies buff count [of_nat (length s)]" using here lies_append [of buff count "[of_nat (length s)]" s] by (simp add: enc_name_def)
  then have byte: "rd_byte buff count = Inr (of_nat (length s))" by (rule rd_byte_lies)
  have nonzero: "(of_nat (length s) :: u8) \<noteq> 0" using s u8_of_length(1) [of "length s"] by auto
  have "rd_name (zeros 25 @ drop 25 (array 255 v)) buff count = Inr (of_nat (length s), array 255 s, ?c)"
    using rd_name_lies [OF here] s array_array [of v 25 255 s] Cons.prems(3) by (simp add: array_def)
  moreover have "aud_names (array 255 s) buff ?c = Inr (map read_prop ss, ?c + int (length (concat (map enc_name ss))) + 1)"
    using Cons.IH [OF others] Cons.prems(2) s(2) by simp
  ultimately show ?case
    using byte nonzero by (subst aud_names.simps) (simp add: read_prop_def)
qed

text \<open>The handles of the sounds, on one chain.\<close>

fun read_sounds :: "bin_prop list \<Rightarrow> sound_source list \<Rightarrow> dua list" where
  "read_sounds chain [] = []"
| "read_sounds chain (a # as) =
     (let chain = chain @ map read_prop (so_sounds a)
      in \<lparr>du_nameLen = of_nat (length (so_name a)), du_name = array 25 (so_name a), du_unknowns = so_unknowns a,
          du_has_first = (chain \<noteq> []), du_numNodes = length chain\<rparr> # read_sounds chain as)"

lemma Load_Aud_lies:
  assumes "lies buff count (enc_sound a)" "sound_ok a"
  shows "Load_Aud buff chain count =
    Inr (hd (read_sounds chain [a]), chain @ map read_prop (so_sounds a), count + int (length (enc_sound a)))"
proof -
  let ?c = "count + 1 + int (length (so_name a))"
  have "lies buff count (enc_name (so_name a))" "lies buff ?c (so_unknowns a)" "lies buff (?c + 9) (concat (map enc_name (so_sounds a)) @ [0])"
    using assms by (simp_all add: enc_sound_def sound_ok_def lies_append add.assoc)
  moreover have "zeros 255 = array 255 []" by (simp add: array_def)
  ultimately show ?thesis
    using assms(2) aud_names_lies [of buff "?c + 9" "so_sounds a" "[]"]
    by (simp add: Load_Aud_def rd_name_array rd_lies sound_ok_def enc_sound_def Let_def)
qed

lemma auds_loop_lies:
  "lies buff count (concat (map enc_sound as)) \<Longrightarrow> \<forall>a \<in> set as. sound_ok a \<Longrightarrow>
   auds_loop (length as) buff chain count =
     Inr (read_sounds chain as, chain @ map read_prop (concat (map so_sounds as)), count + int (length (concat (map enc_sound as))))"
proof (induction as arbitrary: count chain)
  case (Cons a as)
  then have "lies buff count (enc_sound a)" "lies buff (count + int (length (enc_sound a))) (concat (map enc_sound as))"
    by (simp_all add: lies_append)
  then show ?case using Cons Load_Aud_lies [of buff count a chain] by (simp add: Let_def)
qed simp

lemma Load_Sounds_lies:
  assumes "lies buff count (DUA @ le_bytes 4 (of_nat (length as) :: u32) @ concat (map enc_sound as))"
    and "\<forall>a \<in> set as. sound_ok a" "length as < 2 ^ 31"
  shows "Load_Sounds buff count =
    Inr (read_sounds [] as, map read_prop (concat (map so_sounds as)), DUA, count + 8 + int (length (concat (map enc_sound as))))"
proof -
  have "sint (of_nat (length as) :: u32) = int (length as)"
    using assms(3) by (simp add: signed_of_nat signed_take_bit_int_eq_self)
  moreover have "lies buff count DUA" "lies buff (count + 4) (le_bytes 4 (of_nat (length as) :: u32))"
      "lies buff (count + 8) (concat (map enc_sound as))"
    using assms(1) by (simp_all add: lies_append add.assoc)
  ultimately show ?thesis
    using auds_loop_lies [of buff "count + 8" as "[]"] assms(2) by (simp add: Load_Sounds_def rd_lies rd_int_lies)
qed

section \<open>Walls\<close>

record wall_source =
  ws_unknown :: u8
  ws_name :: bytes
  ws_objects :: "bytes list"
  ws_open :: bytes
  ws_close :: bytes
  ws_destroy :: bytes
  ws_first :: u32
  ws_images :: "(bytes \<times> u32) list"

text \<open>Bytes at position \<open>p\<close>, filled up to a multiple of eight.\<close>

definition pad8 :: "nat \<Rightarrow> bytes \<Rightarrow> bytes" where
  "pad8 p bs = bs @ zeros ((8 - (p + length bs) mod 8) mod 8)"

lemma align_pad8: "align (int p + int (length bs)) = int p + int (length (pad8 p bs))"
proof -
  let ?m = "p + length bs"
  have "int ((8 - ?m mod 8) mod 8) = (8 - int ?m mod 8) mod 8"
    by (simp add: of_nat_diff of_nat_mod less_imp_le)
  then show ?thesis by (simp add: align_def pad8_def)
qed

lemma lies_pad8: "lies buff count (pad8 p bs) \<Longrightarrow> lies buff count bs"
  by (simp add: pad8_def lies_append)

definition wall_head :: "nat \<Rightarrow> wall_source \<Rightarrow> bytes" where
  "wall_head p w = pad8 p ([ws_unknown w] @ zeros 3 @ enc_name (ws_name w) @ zeros 14)"

definition wall_number :: "nat \<Rightarrow> wall_source \<Rightarrow> bytes" where
  "wall_number p w = pad8 p ([of_nat (length (ws_objects w))] @ zeros 3)"

definition wall_names :: "nat \<Rightarrow> wall_source \<Rightarrow> bytes" where
  "wall_names p w = pad8 p (concat (map enc_name (ws_objects w)) @ enc_name (ws_open w) @ enc_name (ws_close w) @ enc_name (ws_destroy w))"

definition wall_codes :: "(bytes \<times> u32) list \<Rightarrow> bytes" where
  "wall_codes is = concat (map (\<lambda>(blk, x). blk @ le_bytes 4 x) is) @ DNE"

text \<open>A wall at position \<open>p\<close>, behind its tag.\<close>

definition enc_wall :: "nat \<Rightarrow> wall_source \<Rightarrow> bytes" where
  "enc_wall p w =
     (let a = wall_head p w; b = wall_number (p + length a) w; c = wall_names (p + length a + length b) w;
          d = pad8 (p + length a + length b + length c) [0]
      in a @ b @ c @ d @ le_bytes 4 (ws_first w) @ wall_codes (ws_images w))"

definition block_ok :: "bytes \<times> u32 \<Rightarrow> bool" where
  "block_ok i \<longleftrightarrow> fst i \<noteq> [] \<and> length (fst i) = (if hd (fst i) > 0 then 16 else 8) \<and> take 4 (fst i) \<noteq> DNE \<and> le_bytes 4 (snd i) \<noteq> DNE"

definition wall_ok :: "wall_source \<Rightarrow> bool" where
  "wall_ok w \<longleftrightarrow> length (ws_name w) \<le> 25 \<and> length (ws_objects w) < 256 \<and> (\<forall>s \<in> set (ws_objects w). length s \<le> 255) \<and>
     length (ws_open w) \<le> 25 \<and> length (ws_close w) \<le> 25 \<and> length (ws_destroy w) \<le> 25 \<and> (\<forall>i \<in> set (ws_images w). block_ok i)"

definition read_wall_source :: "wall_source \<Rightarrow> llaw" where
  "read_wall_source w =
     (let n = (\<lambda>s. (of_nat (length s), array 25 s))
      in \<lparr>la_unknown = ws_unknown w, la_nameLen = of_nat (length (ws_name w)), la_name = array 25 (ws_name w),
          la_objects = map read_prop (ws_objects w), la_open = n (ws_open w), la_close = n (ws_close w),
          la_destroy = n (ws_destroy w), la_images = le_word LLAW # map snd (ws_images w)\<rparr>)"

lemma wall_objects_lies:
  "lies buff count (concat (map enc_name ss)) \<Longrightarrow> \<forall>s \<in> set ss. length s \<le> 255 \<Longrightarrow>
   wall_objects (length ss) buff count = Inr (map read_prop ss, count + int (length (concat (map enc_name ss))))"
proof (induction ss arbitrary: count)
  case (Cons s ss)
  then have "lies buff count (enc_name s)" "lies buff (count + 1 + int (length s)) (concat (map enc_name ss))"
    by (simp_all add: lies_append add.assoc)
  then show ?case using Cons by (simp add: rd_name_array read_prop_def)
qed simp

lemma wall_images_lies:
  "lies buff (count + 4) (wall_codes is) \<Longrightarrow> \<forall>i \<in> set is. block_ok i \<Longrightarrow> t \<noteq> DNE \<Longrightarrow>
   wall_images buff t count = Inr (le_word t # map snd is, count + 4 + int (length (wall_codes is)))"
proof (induction "is" arbitrary: count t)
  case Nil
  then have "rd buff 4 (count + 4) = Inr DNE" by (intro rd_lies) (simp_all add: wall_codes_def)
  then show ?case using Nil.prems
    by (subst wall_images.simps) (simp add: wall_codes_def wall_images.simps [of buff DNE])
next
  case (Cons i "is")
  obtain blk x where i: "i = (blk, x)" by (cases i)
  have ok: "blk \<noteq> []" "length blk = (if hd blk > 0 then 16 else 8)" "take 4 blk \<noteq> DNE" "le_bytes 4 x \<noteq> DNE"
    using Cons.prems(2) by (simp_all add: i block_ok_def)
  let ?c = "count + 4 + int (length blk)"
  have here: "lies buff (count + 4) blk" and code: "lies buff ?c (le_bytes 4 x)" and others: "lies buff (?c + 4) (wall_codes is)"
    using Cons.prems(1) by (simp_all add: i wall_codes_def lies_append add.assoc)
  have "4 \<le> length blk" using ok(2) by (simp split: if_splits)
  from rd_prefix [OF here this] have t1: "rd buff 4 (count + 4) = Inr (take 4 blk)" .
  have "lies buff (count + 4) [hd blk]" using here ok(1) lies_append [of buff "count + 4" "[hd blk]" "tl blk"] by simp
  then have byte: "rd_byte buff (count + 4) = Inr (hd blk)" by (rule rd_byte_lies)
  have next_count: "count + 6 + (if hd blk > 0 then 14 else 6) = ?c" using ok(2) by simp
  have rest: "wall_images buff (le_bytes 4 x) ?c = Inr (x # map snd is, ?c + 4 + int (length (wall_codes is)))"
    using Cons.IH [OF others _ ok(4)] Cons.prems(2) by simp
  have len: "length (wall_codes (i # is)) = length blk + 4 + length (wall_codes is)" by (simp add: i wall_codes_def)
  show ?case
    using Cons.prems(3) t1 ok(3) byte rd_lies [OF code, of 4] rest
    by (subst wall_images.simps) (simp add: next_count len [unfolded i] i)
qed

lemma LLAW_DNE: "LLAW \<noteq> DNE"
  by (simp add: string_bytes_def)

lemma Load_Wall_lies:
  assumes "lies buff (int p) (enc_wall p w)" "wall_ok w"
  shows "Load_Wall buff LLAW (int p) = Inr (read_wall_source w, int p + int (length (enc_wall p w)))"
proof -
  define a b c d where "a = wall_head p w" and "b = wall_number (p + length a) w" and "c = wall_names (p + length a + length b) w"
    and "d = pad8 (p + length a + length b + length c) [0]"
  define pb pc pd pe where "pb = p + length a" and "pc = pb + length b" and "pd = pc + length c" and "pe = pd + length d"
  note abcd = a_def b_def c_def d_def
  have bytes: "enc_wall p w = a @ b @ c @ d @ le_bytes 4 (ws_first w) @ wall_codes (ws_images w)"
    by (simp add: enc_wall_def Let_def flip: abcd)
  have parts: "lies buff (int p) a" "lies buff (int pb) b" "lies buff (int pc) c" "lies buff (int pd) d"
      "lies buff (int pe + 4) (wall_codes (ws_images w))"
    using assms(1) unfolding bytes lies_append by (simp_all add: pb_def pc_def pd_def pe_def add.assoc)
  let ?nm = "int p + 4 + 1 + int (length (ws_name w))"
  have "lies buff (int p) ([ws_unknown w] @ zeros 3 @ enc_name (ws_name w) @ zeros 14)"
    using parts(1) unfolding a_def wall_head_def by (rule lies_pad8)
  then have "lies buff (int p) [ws_unknown w]" "lies buff (int p + 4) (enc_name (ws_name w))"
    unfolding lies_append by (simp_all add: add.commute)
  then have unknown: "rd_byte buff (int p) = Inr (ws_unknown w)"
      and name: "rd_name (zeros 25) buff (int p + 4) = Inr (of_nat (length (ws_name w)), array 25 (ws_name w), ?nm)"
    using assms(2) rd_name_array [of buff "int p + 4" "ws_name w" 25] by (simp_all add: rd_byte_lies wall_ok_def)
  have pb: "align (?nm + 14) = int pb"
    using align_pad8 [of p "[ws_unknown w] @ zeros 3 @ enc_name (ws_name w) @ zeros 14"]
    by (simp add: pb_def a_def wall_head_def add.assoc)
  have "lies buff (int pb) ([of_nat (length (ws_objects w))] @ zeros 3)"
    using parts(2) unfolding b_def wall_number_def by (rule lies_pad8)
  then have num: "rd_byte buff (int pb) = Inr (of_nat (length (ws_objects w)))"
    unfolding lies_append by (auto intro: rd_byte_lies)
  have pc: "align (int pb + 4) = int pc"
    using align_pad8 [of pb "[of_nat (length (ws_objects w))] @ zeros 3"] by (simp add: pc_def b_def wall_number_def pb_def)
  let ?ob = "int pc + int (length (concat (map enc_name (ws_objects w))))"
  let ?op = "?ob + 1 + int (length (ws_open w))" let ?cl = "?op + 1 + int (length (ws_close w))"
  let ?de = "?cl + 1 + int (length (ws_destroy w))"
  have "lies buff (int pc) (concat (map enc_name (ws_objects w)) @ enc_name (ws_open w) @ enc_name (ws_close w) @ enc_name (ws_destroy w))"
    using parts(3) unfolding c_def wall_names_def by (rule lies_pad8)
  then have "lies buff (int pc) (concat (map enc_name (ws_objects w)))" "lies buff ?ob (enc_name (ws_open w))"
      "lies buff ?op (enc_name (ws_close w))" "lies buff ?cl (enc_name (ws_destroy w))"
    unfolding lies_append by (simp_all add: add.assoc)
  then have names: "wall_objects (length (ws_objects w)) buff (int pc) = Inr (map read_prop (ws_objects w), ?ob)"
      "rd_name (zeros 25) buff ?ob = Inr (of_nat (length (ws_open w)), array 25 (ws_open w), ?op)"
      "rd_name (zeros 25) buff ?op = Inr (of_nat (length (ws_close w)), array 25 (ws_close w), ?cl)"
      "rd_name (zeros 25) buff ?cl = Inr (of_nat (length (ws_destroy w)), array 25 (ws_destroy w), ?de)"
    using assms(2) wall_objects_lies [of buff "int pc" "ws_objects w"] rd_name_array [of buff ?ob "ws_open w" 25]
      rd_name_array [of buff ?op "ws_close w" 25] rd_name_array [of buff ?cl "ws_destroy w" 25]
    by (simp_all add: wall_ok_def)
  have pd: "align ?de = int pd"
    using align_pad8 [of pc "concat (map enc_name (ws_objects w)) @ enc_name (ws_open w) @ enc_name (ws_close w) @ enc_name (ws_destroy w)"]
    by (simp add: pd_def c_def wall_names_def pc_def pb_def ac_simps)
  have "lies buff (int pd) [0]" using parts(4) unfolding d_def by (rule lies_pad8)
  then have "wall_blocks buff (int pd) = Inr (int pd)" by (subst wall_blocks.simps) (simp add: rd_byte_lies)
  moreover have pe: "align (int pd + 1) = int pe"
    using align_pad8 [of pd "[0]"] by (simp add: pe_def d_def pd_def pc_def pb_def)
  moreover have "wall_images buff LLAW (int pe) = Inr (le_word LLAW # map snd (ws_images w), int pe + 4 + int (length (wall_codes (ws_images w))))"
    using assms(2) LLAW_DNE by (intro wall_images_lies parts(5)) (simp_all add: wall_ok_def)
  moreover have "int p + int (length (enc_wall p w)) = int pe + 4 + int (length (wall_codes (ws_images w)))"
    by (simp add: bytes pe_def pd_def pc_def pb_def)
  moreover have "length (ws_objects w) < 256" using assms(2) by (simp add: wall_ok_def)
  ultimately show ?thesis
    using unknown name pb num pc names pd
    by (simp add: Load_Wall_def u8_of_length read_wall_source_def Let_def)
qed

text \<open>Walls one after the other, each behind its tag, up to another tag.\<close>

fun enc_walls :: "nat \<Rightarrow> wall_source list \<Rightarrow> bytes" where
  "enc_walls p [] = []"
| "enc_walls p (w # ws) = (let e = LLAW @ enc_wall (p + 4) w in e @ enc_walls (p + length e) ws)"

lemma walls_loop_lies:
  "lies buff (int p) (enc_walls p ws @ tag) \<Longrightarrow> length tag = 4 \<Longrightarrow> tag \<noteq> LLAW \<Longrightarrow> \<forall>w \<in> set ws. wall_ok w \<Longrightarrow>
   rd buff 4 (int p) = Inr t \<Longrightarrow>
   walls_loop buff t (int p + 4) = Inr (map read_wall_source ws, int p + int (length (enc_walls p ws)) + 4)"
proof (induction ws arbitrary: p t)
  case Nil
  then have "t = tag" using rd_lies [of buff "int p" tag] by simp
  then show ?case using Nil by (subst walls_loop.simps) simp
next
  case (Cons w ws)
  let ?e = "LLAW @ enc_wall (p + 4) w"
  let ?q = "p + length ?e"
  have here: "lies buff (int p) LLAW" "lies buff (int (p + 4)) (enc_wall (p + 4) w)" and others: "lies buff (int ?q) (enc_walls ?q ws @ tag)"
    using Cons.prems(1) by (simp_all add: Let_def lies_append ac_simps)
  have t: "t = LLAW" using here(1) Cons.prems(5) rd_lies [of buff "int p" LLAW 4] by simp
  have "4 \<le> length (enc_walls ?q ws @ tag)" using Cons.prems(2) by simp
  from rd_prefix [OF others this] obtain t' where t': "rd buff 4 (int ?q) = Inr t'" by blast
  have "walls_loop buff t' (int ?q + 4) = Inr (map read_wall_source ws, int ?q + int (length (enc_walls ?q ws)) + 4)"
    using Cons.IH [OF others _ _ _ t'] Cons.prems(2,3,4) by simp
  moreover have "Load_Wall buff LLAW (int (p + 4)) = Inr (read_wall_source w, int ?q)"
    using Load_Wall_lies [OF here(2)] Cons.prems(4) by simp
  ultimately show ?case
    using t t' by (subst walls_loop.simps) (simp add: Let_def add.commute)
qed

end
