(* ===== verification/Thing_Loading.thy ===== *)
theory Thing_Loading
  imports Thing_Encoding
begin

text \<open>
  Loading \<open>thing.bin\<close>: a file written from tiles, edges, walls, sounds, images and objects of property lines
  loads to them (\<open>thing_file_loads\<close>).
\<close>

section \<open>Objects of property lines\<close>

record object_source =
  oo_name :: bytes
  oo_lines :: "string list"

definition enc_line :: "string \<Rightarrow> bytes" where
  "enc_line l = enc_name (string_bytes l) @ [0]"

definition enc_thing :: "object_source \<Rightarrow> bytes" where
  "enc_thing ob = enc_name (oo_name ob) @ concat (map enc_line (oo_lines ob))"

text \<open>A line that names no way of drawing, is a C string, and is not taken for the tag of the next object.\<close>

definition line_ok :: "string \<Rightarrow> bool" where
  "line_ok l \<longleftrightarrow> l \<noteq> '''' \<and> length l \<le> 254 \<and> 0 \<notin> set (string_bytes l) \<and> Parse_String l = 0 \<and> take 4 (enc_line l) \<noteq> GNHT"

definition source_ok :: "object_source \<Rightarrow> bool" where
  "source_ok ob \<longleftrightarrow> length (oo_name ob) \<le> 50 \<and> oo_lines ob \<noteq> [] \<and> (\<forall>l \<in> set (oo_lines ob). line_ok l)"

definition add_line :: "string \<Rightarrow> gnht \<Rightarrow> gnht res" where
  "add_line l ob =
     rmap (\<lambda>t. ob\<lparr>gn_thing := t, gn_properties := gn_properties ob @ [stored_line l]\<rparr>) (property_line l (gn_thing ob))"

definition read_source :: "object_source \<Rightarrow> gnht res" where
  "read_source ob =
     res_fold add_line (oo_lines ob) (blank_gnht\<lparr>gn_nameLen := of_nat (length (oo_name ob)), gn_name := array 50 (oo_name ob)\<rparr>)"

lemma add_property_line: "add_property l st = rmap (\<lambda>ob. st\<lparr>os_ob := ob\<rparr>) (add_line l (os_ob st))"
  by (cases "property_line l (gn_thing (os_ob st))") (simp_all add: add_property_def add_line_def on_ob_def)

lemma enc_line_length [simp]: "length (enc_line l) = length l + 2"
  by (simp add: enc_line_def)

lemma object_line_lies:
  assumes "lies buff (os_count st) (enc_line l)" "line_ok l" "rd buff 4 (os_count st + int (length l) + 2) = Inr t"
  shows "object_line buff st =
    rmap (\<lambda>ob. st\<lparr>os_ob := ob, os_count := os_count st + int (length l) + 2, os_type := t\<rparr>) (add_line l (os_ob st))"
proof -
  let ?c = "os_count st" and ?s = "string_bytes l"
  let ?d = "?c + 1 + int (length l)"
  have l: "l \<noteq> ''''" "length l \<le> 254" "0 \<notin> set ?s" "Parse_String l = 0" using assms(2) by (simp_all add: line_ok_def)
  have "lies buff ?c ([of_nat (length l)] @ ?s @ [0])" using assms(1) by (simp add: enc_line_def enc_name_def)
  then have parts: "lies buff ?c [of_nat (length l)]" "lies buff (?c + 1) ?s" "lies buff ?d [0]"
    unfolding lies_append by simp_all
  have str: "c_str (?s @ zeros (255 - length l)) = ?s" "0 \<in> set (?s @ zeros (255 - length l))"
    using l(2,3) by (simp_all add: c_str_def takeWhile_append)
  have len: "(of_nat (length l) :: u8) > 0" using l(1,2) u8_of_length(1) [of "length l"] by (simp add: word_less_nat_alt)
  show ?thesis
    using parts l str len assms(3) u8_of_length [of "length l"]
    by (cases "add_line l (os_ob st)")
      (simp_all add: object_line_def rd_byte_lies rd_lies chars_string_bytes draw_def add_property_line Let_def ac_simps)
qed

lemma first_line_tag:
  assumes "lies buff count (enc_line l)" "rd buff 4 count = Inr t" "line_ok l"
  shows "t \<noteq> GNHT"
proof (cases "4 \<le> length (enc_line l)")
  case True
  then have "t = take 4 (enc_line l)" using rd_prefix [OF assms(1)] assms(2) by simp
  then show ?thesis using assms(3) by (simp add: line_ok_def)
next
  case False
  then have "length l = 1" using assms(3) by (cases l; cases "tl l") (auto simp: line_ok_def)
  then have "lies buff count ([1] @ string_bytes l @ [0])" using assms(1) by (simp add: enc_line_def enc_name_def)
  then have "lies buff count [1]" unfolding lies_append by blast
  then have "hd t = 1" using assms(2) by (auto simp: lies_def rd_def split: if_splits)
  moreover have "hd GNHT \<noteq> 1" by (simp add: string_bytes_def)
  ultimately show ?thesis by metis
qed

text \<open>The lines of an object, up to the tag of the next object or the end of the file.\<close>

lemma object_lines_lies:
  "lies buff (os_count st) (concat (map enc_line ls)) \<Longrightarrow> ls \<noteq> [] \<Longrightarrow> \<forall>l \<in> set ls. line_ok l \<Longrightarrow> os_type st \<noteq> GNHT \<Longrightarrow>
   finish = os_count st + int (length (concat (map enc_line ls))) \<Longrightarrow> finish \<le> len \<Longrightarrow> rd buff 4 finish = Inr t \<Longrightarrow>
   t = GNHT \<or> finish = len \<Longrightarrow>
   object_lines buff len st = Some (rmap (\<lambda>ob. st\<lparr>os_ob := ob, os_count := finish, os_type := t\<rparr>) (res_fold add_line ls (os_ob st)))"
proof (induction ls arbitrary: st)
  case Nil
  then show ?case by simp
next
  case (Cons l ls)
  let ?c = "os_count st + int (length l) + 2"
  have here: "lies buff (os_count st) (enc_line l)" and others: "lies buff ?c (concat (map enc_line ls))"
    using Cons.prems(1) by (simp_all add: lies_append ac_simps)
  have go: "os_type st \<noteq> GNHT \<and> os_count st < len" using Cons.prems(4,5,6) by simp
  define g where "g = (\<lambda>c t ob. st\<lparr>os_ob := ob, os_count := c, os_type := t\<rparr>)"
  have g: "os_count (g c t ob) = c" "os_type (g c t ob) = t" "os_ob (g c t ob) = ob" for c t ob by (simp_all add: g_def)
  have gg: "(g c t ob)\<lparr>os_ob := ob', os_count := c', os_type := t'\<rparr> = g c' t' ob'" for c t ob c' t' ob' by (simp add: g_def)
  have goal: "object_lines buff len st = Some (rmap (g finish t) (res_fold add_line (l # ls) (os_ob st)))"
  proof (cases "ls = []")
    case True
    then have "?c = finish" using Cons.prems(5) by simp
    then have "object_line buff st = rmap (g finish t) (add_line l (os_ob st))"
      using object_line_lies [OF here] Cons.prems(3,7) by (simp add: g_def)
    moreover have "object_lines buff len (g finish t ob) = Some (Inr (g finish t ob))" for ob
      using Cons.prems(8) by (subst object_lines.simps) (auto simp: g)
    ultimately show ?thesis
      using go True by (subst object_lines.simps) (cases "add_line l (os_ob st)"; simp)
  next
    case False
    then obtain l' ls' where ls: "ls = l' # ls'" by (cases ls) auto
    have c: "0 \<le> ?c" "?c \<le> finish" using others Cons.prems(5) by (simp_all add: lies_def)
    have room: "nat finish + 4 \<le> length buff" using rd_inside [OF Cons.prems(7)] by simp
    then have "nat ?c + 4 \<le> length buff" using c by linarith
    then obtain t' where t': "rd buff 4 ?c = Inr t'" using c(1) by (simp add: rd_def)
    have first: "lies buff ?c (enc_line l')" using others by (simp add: ls lies_append)
    have "t' \<noteq> GNHT" using first_line_tag [OF first t'] Cons.prems(3) ls by simp
    then have "object_lines buff len (g ?c t' ob) = Some (rmap (g finish t) (res_fold add_line ls ob))" for ob
      using Cons.IH [of "g ?c t' ob"] others False Cons.prems(3,5,6,7,8) by (simp add: g gg ac_simps)
    moreover have "object_line buff st = rmap (g ?c t') (add_line l (os_ob st))"
      using object_line_lies [OF here _ t'] Cons.prems(3) by (simp add: g_def)
    ultimately show ?thesis
      using go by (subst object_lines.simps) (cases "add_line l (os_ob st)"; simp)
  qed
  then show ?case by (simp add: g_def)
qed

lemma zero_tag: "zeros 4 \<noteq> GNHT"
proof -
  have "hd GNHT \<noteq> 0" by (simp add: string_bytes_def)
  then show ?thesis by (metis hd_replicate zero_neq_numeral)
qed

text \<open>The objects one after the other.\<close>

fun read_sources :: "object_source list \<Rightarrow> (gnht \<times> u32 list list) list res" where
  "read_sources [] = Inr []"
| "read_sources (ob # obs) = rbind (read_source ob) (\<lambda>x. rmap (\<lambda>xs. (x, []) # xs) (read_sources obs))"

definition enc_things :: "object_source list \<Rightarrow> bytes" where
  "enc_things obs = concat (map (\<lambda>ob. GNHT @ enc_thing ob) obs)"

lemma Load_Object_lies:
  assumes "lies buff count (enc_thing ob)" "source_ok ob" "finish = count + int (length (enc_thing ob))" "finish \<le> len"
    and "rd buff 4 finish = Inr t" "t = GNHT \<or> finish = len"
  shows "Load_Object buff len count = Some (rmap (\<lambda>x. (x, [], t, finish + 4)) (read_source ob))"
proof -
  let ?c = "count + 1 + int (length (oo_name ob))"
  have parts: "lies buff count (enc_name (oo_name ob))" "lies buff ?c (concat (map enc_line (oo_lines ob)))"
    using assms(1) by (simp_all add: enc_thing_def lies_append ac_simps)
  have name: "rd_name (zeros 50) buff count = Inr (of_nat (length (oo_name ob)), array 50 (oo_name ob), ?c)"
    using assms(2) by (intro rd_name_array parts(1)) (simp_all add: source_ok_def)
  note tag = zero_tag
  have "finish = ?c + int (length (concat (map enc_line (oo_lines ob))))" using assms(3) by (simp add: enc_thing_def)
  then have "object_lines buff len (begin_lines (of_nat (length (oo_name ob))) (array 50 (oo_name ob)) ?c) =
      Some (rmap (\<lambda>x. (begin_lines (of_nat (length (oo_name ob))) (array 50 (oo_name ob)) ?c)\<lparr>os_ob := x, os_count := finish, os_type := t\<rparr>)
        (read_source ob))"
    using object_lines_lies [where st = "begin_lines (of_nat (length (oo_name ob))) (array 50 (oo_name ob)) ?c" and ls = "oo_lines ob"
        and finish = finish and len = len and t = t and buff = buff] parts(2) assms(2,4,5,6) tag
    by (simp add: begin_lines_def source_ok_def read_source_def)
  then show ?thesis
    using name by (cases "read_source ob") (simp_all add: Load_Object_def begin_lines_def)
qed

lemma find_tag_in_done: "t = tag \<or> len \<le> count \<Longrightarrow> find_tag_in tag len buff t count = Inr (t, count)"
  by (subst find_tag_in.simps) auto

lemma Load_Objects_lies:
  "lies buff count (enc_thing ob @ enc_things obs @ zeros 4) \<Longrightarrow> \<forall>ob \<in> set (ob # obs). source_ok ob \<Longrightarrow>
   len = count + int (length (enc_thing ob @ enc_things obs)) \<Longrightarrow>
   Load_Objects buff len GNHT count = Some (read_sources (ob # obs))"
proof (induction obs arbitrary: count ob)
  case Nil
  let ?f = "count + int (length (enc_thing ob))"
  have parts: "lies buff count (enc_thing ob)" "lies buff ?f (zeros 4)"
    using Nil.prems(1) by (simp_all add: enc_things_def lies_append)
  note tag = zero_tag
  have "Load_Object buff len count = Some (rmap (\<lambda>x. (x, [], zeros 4, ?f + 4)) (read_source ob))"
    using Nil.prems(2,3) by (intro Load_Object_lies parts rd_lies) (simp_all add: enc_things_def)
  moreover have "find_tag_in GNHT len buff (zeros 4) (?f + 4) = Inr (zeros 4, ?f + 4)"
    using Nil.prems(3) by (intro find_tag_in_done) (simp add: enc_things_def)
  moreover have "Load_Objects buff len (zeros 4) c = Some (Inr [])" for c
    using tag by (subst Load_Objects.simps) simp
  ultimately show ?case
    by (subst Load_Objects.simps) (cases "read_source ob"; simp)
next
  case (Cons ob' obs)
  let ?f = "count + int (length (enc_thing ob))"
  have parts: "lies buff count (enc_thing ob)" "lies buff ?f GNHT" "lies buff (?f + 4) (enc_thing ob' @ enc_things obs @ zeros 4)"
    using Cons.prems(1) by (simp_all add: enc_things_def lies_append ac_simps)
  have len: "len = (?f + 4) + int (length (enc_thing ob' @ enc_things obs))" using Cons.prems(3) by (simp add: enc_things_def)
  have "Load_Object buff len count = Some (rmap (\<lambda>x. (x, [], GNHT, ?f + 4)) (read_source ob))"
    using Cons.prems(2) len by (intro Load_Object_lies parts rd_lies) simp_all
  moreover have "find_tag_in GNHT len buff GNHT (?f + 4) = Inr (GNHT, ?f + 4)" by (rule find_tag_in_done) simp
  moreover have "Load_Objects buff len GNHT (?f + 4) = Some (read_sources (ob' # obs))"
    using Cons.IH [OF parts(3) _ len] Cons.prems(2) by simp
  ultimately show ?case
    by (subst Load_Objects.simps) (cases "read_source ob"; cases "read_sources (ob' # obs)"; simp)
qed

section \<open>The file\<close>

record thing_source =
  ts_grounds :: "ground list"
  ts_walls :: "wall_source list"
  ts_sounds :: "sound_source list"
  ts_images :: "image_source list"
  ts_objects :: "object_source list"

definition ground_bytes :: "thing_source \<Rightarrow> bytes" where
  "ground_bytes src = concat (map enc_ground (ts_grounds src))"

definition sound_bytes :: "thing_source \<Rightarrow> bytes" where
  "sound_bytes src = DUA @ le_bytes 4 (of_nat (length (ts_sounds src)) :: u32) @ concat (map enc_sound (ts_sounds src))"

definition image_bytes :: "thing_source \<Rightarrow> bytes" where
  "image_bytes src = le_bytes 4 (of_nat (length (ts_images src)) :: u32) @ concat (map enc_image (ts_images src))"

definition thing_bytes :: "thing_source \<Rightarrow> bytes" where
  "thing_bytes src =
     ground_bytes src @ enc_walls (length (ground_bytes src)) (ts_walls src) @ sound_bytes src @ GAMI @ image_bytes src @
     enc_things (ts_objects src)"

definition thing_source_ok :: "thing_source \<Rightarrow> bool" where
  "thing_source_ok src \<longleftrightarrow>
     (\<forall>g \<in> set (ts_grounds src). ground_ok g) \<and> (\<forall>w \<in> set (ts_walls src). wall_ok w) \<and>
     (\<forall>a \<in> set (ts_sounds src). sound_ok a) \<and> length (ts_sounds src) < 2 ^ 31 \<and>
     (\<forall>i \<in> set (ts_images src). image_ok i) \<and> length (ts_images src) < 2 ^ 31 \<and>
     ts_objects src \<noteq> [] \<and> (\<forall>ob \<in> set (ts_objects src). source_ok ob)"

definition read_thing_source :: "thing_source \<Rightarrow> (gnht \<times> u32 list list) list \<Rightarrow> thing_db" where
  "read_thing_source src objects =
     \<lparr>td_tiles = tiles_of (ts_grounds src), td_edges = edges_of (ts_grounds src), td_walls = map read_wall_source (ts_walls src),
      td_sounds = read_sounds [] (ts_sounds src), td_images = map read_image (ts_images src), td_objects = objects\<rparr>"

lemma tag_facts: "DUA \<noteq> LLAW" "DUA \<noteq> ROLF" "DUA \<noteq> EGDE" "LLAW \<noteq> ROLF" "LLAW \<noteq> EGDE" "GAMI \<noteq> DUA"
  by (simp_all add: string_bytes_def)

lemma walls_tag: "take 4 (enc_walls p ws @ sound_bytes src) \<in> {LLAW, DUA}"
  by (cases ws) (simp_all add: Let_def sound_bytes_def)

lemma sections_load:
  assumes "lies buff 0 (thing_bytes src @ zeros 10)" "thing_source_ok src" "len = int (length (thing_bytes src))"
  obtains t c1 c2 c3 where
    "Load_Tiles buff 0 = Inr (tiles_of (ts_grounds src), edges_of (ts_grounds src), t, c1)"
    "Load_Walls buff t c1 = Inr (map read_wall_source (ts_walls src), c2)"
    "Load_Sounds buff c2 = Inr (read_sounds [] (ts_sounds src), map read_prop (concat (map so_sounds (ts_sounds src))), DUA, c3)"
    "find_tag_in GAMI len buff DUA c3 = Inr (GAMI, c3 + 1)"
    "Load_Images buff (c3 + 4) = Inr (map read_image (ts_images src), GNHT, len - int (length (enc_things (ts_objects src))) + 4)"
    "lies buff (len - int (length (enc_things (ts_objects src)))) (enc_things (ts_objects src) @ zeros 10)"
proof -
  define p q r u where "p = length (ground_bytes src)" and "q = p + length (enc_walls p (ts_walls src))"
    and "r = q + length (sound_bytes src)" and "u = r + 4 + length (image_bytes src)"
  define obs where "obs = ts_objects src"
  have ok: "\<forall>g \<in> set (ts_grounds src). ground_ok g" "\<forall>w \<in> set (ts_walls src). wall_ok w" "\<forall>a \<in> set (ts_sounds src). sound_ok a"
      "length (ts_sounds src) < 2 ^ 31" "\<forall>i \<in> set (ts_images src). image_ok i" "length (ts_images src) < 2 ^ 31" "obs \<noteq> []"
    using assms(2) by (simp_all add: thing_source_ok_def obs_def)
  have whole: "thing_bytes src @ zeros 10 = ground_bytes src @ enc_walls p (ts_walls src) @ sound_bytes src @ GAMI @ image_bytes src @
      enc_things obs @ zeros 10" by (simp add: thing_bytes_def p_def obs_def)
  have at: "lies buff (int 0) (ground_bytes src)" "lies buff (int p) (enc_walls p (ts_walls src))" "lies buff (int q) (sound_bytes src)"
      "lies buff (int r) GAMI" "lies buff (int r + 4) (image_bytes src)" "lies buff (int u) (enc_things obs @ zeros 10)"
    using assms(1) unfolding whole lies_append by (simp_all add: p_def q_def r_def u_def ac_simps)
  have u: "int u = len - int (length (enc_things (ts_objects src)))"
    by (simp add: assms(3) thing_bytes_def u_def r_def q_def p_def)
  define tag where "tag = take 4 (enc_walls p (ts_walls src) @ sound_bytes src)"
  have tag: "tag \<in> {LLAW, DUA}" "length tag = 4" using walls_tag [of p "ts_walls src" src] by (auto simp: tag_def sound_bytes_def)
  have walls: "lies buff (int p) (enc_walls p (ts_walls src) @ sound_bytes src)" using at(2,3) by (simp add: lies_append q_def)
  have at_tag: "rd buff 4 (int p) = Inr tag"
    unfolding tag_def by (rule rd_prefix [OF walls]) (simp add: sound_bytes_def)
  have "lies buff (int p) (tag @ drop 4 (enc_walls p (ts_walls src) @ sound_bytes src))"
    unfolding tag_def append_take_drop_id by (rule walls)
  then have lies_tag: "lies buff (int p) tag" unfolding lies_append by blast
  have "tag \<noteq> ROLF" "tag \<noteq> EGDE" using tag(1) tag_facts by auto
  moreover have ground: "lies buff 0 (concat (map enc_ground (ts_grounds src)) @ tag)"
    using at(1) lies_tag by (simp add: lies_append ground_bytes_def p_def)
  moreover have "4 \<le> length (concat (map enc_ground (ts_grounds src)) @ tag)" using tag(2) by simp
  from rd_prefix [OF ground this] obtain t0 where t0: "rd buff 4 0 = Inr t0" by blast
  ultimately have "tiles_loop buff t0 (0 + 4) = Inr (tiles_of (ts_grounds src), edges_of (ts_grounds src), tag,
      0 + int (length (concat (map enc_ground (ts_grounds src)))) + 4)"
    using ok(1) tag(2) by (intro tiles_loop_lies)
  then have 1: "Load_Tiles buff 0 = Inr (tiles_of (ts_grounds src), edges_of (ts_grounds src), tag, int p + 4)"
    using t0 by (simp add: Load_Tiles_def p_def ground_bytes_def)
  have sound_parts: "lies buff (int q) (DUA @ le_bytes 4 (of_nat (length (ts_sounds src)) :: u32) @ concat (map enc_sound (ts_sounds src)))"
    using at(3) by (simp add: sound_bytes_def)
  have "lies buff (int p) (enc_walls p (ts_walls src) @ DUA)"
    using at(2) sound_parts by (simp add: lies_append q_def)
  then have "walls_loop buff tag (int p + 4) = Inr (map read_wall_source (ts_walls src), int p + int (length (enc_walls p (ts_walls src))) + 4)"
    using tag_facts(1) ok(2) at_tag by (intro walls_loop_lies) simp_all
  then have 2: "Load_Walls buff tag (int p + 4) = Inr (map read_wall_source (ts_walls src), int q)"
    by (simp add: Load_Walls_def q_def)
  have 3: "Load_Sounds buff (int q) = Inr (read_sounds [] (ts_sounds src), map read_prop (concat (map so_sounds (ts_sounds src))), DUA, int r)"
    using Load_Sounds_lies [OF sound_parts ok(3,4)] by (simp add: r_def sound_bytes_def)
  have "int r < len" by (simp add: assms(3) thing_bytes_def r_def q_def p_def)
  moreover have "rd buff 4 (int r) = Inr GAMI" by (rule rd_lies [OF at(4)]) simp
  ultimately have 4: "find_tag_in GAMI len buff DUA (int r) = Inr (GAMI, int r + 1)"
    using tag_facts(6) by (subst find_tag_in.simps) (simp add: find_tag_in_done)
  obtain ob obs' where obs: "obs = ob # obs'" using ok(7) by (cases obs) auto
  have "lies buff (int u) GNHT" using at(6) by (simp add: obs enc_things_def lies_append)
  then have "lies buff (int r + 4) (le_bytes 4 (of_nat (length (ts_images src)) :: u32) @ concat (map enc_image (ts_images src)) @ GNHT)"
    using at(5) by (simp add: image_bytes_def lies_append u_def ac_simps)
  from Load_Images_lies [OF this _ ok(5,6)] have 5: "Load_Images buff (int r + 4) = Inr (map read_image (ts_images src), GNHT, int u + 4)"
    by (simp add: u_def image_bytes_def)
  show thesis
    by (rule that [OF 1 2 3 4]) (use 5 at(6) u in \<open>simp_all add: obs_def\<close>)
qed

lemma buffer_of_plain:
  assumes "8 dvd length plain" "nox_encrypt plain NC_THING_BIN = Inr (r, file)"
  shows "thing_buffer file = Inr (plain @ zeros 10) \<and> length file = length plain"
proof -
  have dec: "nox_decrypt file NC_THING_BIN = Inr (0, plain)" and len: "length file = length plain"
    using nox_crypt_inverse [OF assms(1), of NC_THING_BIN] assms(2) by auto
  obtain k where "length plain = 8 * k" using assms(1) by blast
  then have "(length file + 7) div 8 * 8 = length file" using len by simp
  then show ?thesis using dec len by (simp add: thing_buffer_def)
qed

lemma load_thing_source:
  assumes "nox_encrypt (thing_bytes src) NC_THING_BIN = Inr (r, file)" "8 dvd length (thing_bytes src)" "thing_source_ok src"
  shows "Load_Thingdb file = Some (rmap (read_thing_source src) (read_sources (ts_objects src)))"
proof -
  let ?buff = "thing_bytes src @ zeros 10" let ?len = "int (length (thing_bytes src))"
  let ?c = "?len - int (length (enc_things (ts_objects src)))"
  have whole: "thing_buffer file = Inr ?buff" "int (length file) = ?len" using buffer_of_plain [OF assms(2,1)] by simp_all
  have "lies ?buff 0 ?buff" by (simp add: lies_def)
  then obtain t c1 c2 c3 where
    steps: "Load_Tiles ?buff 0 = Inr (tiles_of (ts_grounds src), edges_of (ts_grounds src), t, c1)"
      "Load_Walls ?buff t c1 = Inr (map read_wall_source (ts_walls src), c2)"
      "Load_Sounds ?buff c2 = Inr (read_sounds [] (ts_sounds src), map read_prop (concat (map so_sounds (ts_sounds src))), DUA, c3)"
      "find_tag_in GAMI ?len ?buff DUA c3 = Inr (GAMI, c3 + 1)"
      "Load_Images ?buff (c3 + 4) = Inr (map read_image (ts_images src), GNHT, ?c + 4)"
    and objs: "lies ?buff ?c (enc_things (ts_objects src) @ zeros 10)"
    using sections_load [OF _ assms(3) refl] by blast
  obtain ob obs where obs: "ts_objects src = ob # obs" using assms(3) by (cases "ts_objects src") (auto simp: thing_source_ok_def)
  have "zeros 10 = zeros 4 @ zeros 6" by (simp add: numeral_eq_Suc)
  then have "lies ?buff (?c + 4) (enc_thing ob @ enc_things obs @ zeros 4)"
    using objs by (simp add: obs enc_things_def lies_append add.assoc)
  moreover have "?len = (?c + 4) + int (length (enc_thing ob @ enc_things obs))" by (simp add: obs enc_things_def)
  ultimately have "Load_Objects ?buff ?len GNHT (?c + 4) = Some (read_sources (ob # obs))"
    using assms(3) by (intro Load_Objects_lies) (simp_all add: thing_source_ok_def obs)
  then show ?thesis
    using whole steps steps(5) [unfolded add.commute [of c3 4]] obs
    by (cases "read_sources (ob # obs)") (simp_all add: Load_Thingdb_def Let_def read_thing_source_def)
qed

text \<open>C13: a \<open>thing.bin\<close> written from tiles, edges, walls, sounds, images and objects of property lines loads to them: every name, image and
  property is there, the objects in their order with the flags of their lines; only the first image of a wall and the
  separate lists of the sounds are not.\<close>

theorem thing_file_loads:
  assumes "nox_encrypt (thing_bytes src) NC_THING_BIN = Inr (r, file)" "8 dvd length (thing_bytes src)" "thing_source_ok src"
  shows "Load_Thingdb file = Some (rmap (read_thing_source src) (read_sources (ts_objects src)))"
  using assms by (rule load_thing_source)

definition sample_source :: thing_source where
  "sample_source =
     \<lparr>ts_grounds = [], ts_walls = [], ts_sounds = [], ts_images = [],
      ts_objects = [\<lparr>oo_name = string_bytes ''Apple'', oo_lines = [''CLASS = FOOD'']\<rparr>]\<rparr>"

lemma sample_source_loads:
  "\<exists>x. read_sources (ts_objects sample_source) = Inr [(x, [])] \<and> th_classes (thing_info_of x) = 8 \<and> th_Name (thing_info_of x) = ''Apple''"
proof -
  have "case read_sources (ts_objects sample_source) of
      Inl e \<Rightarrow> False
    | Inr xs \<Rightarrow> length xs = 1 \<and> snd (hd xs) = [] \<and> th_classes (thing_info_of (fst (hd xs))) = 8 \<and>
        th_Name (thing_info_of (fst (hd xs))) = ''Apple''"
    by code_simp
  then show ?thesis by (auto simp: length_Suc_conv split: sum.splits)
qed

lemma sample_thing_file:
  "\<exists>f. nox_encrypt (thing_bytes sample_source) NC_THING_BIN = Inr (0, f) \<and> 8 dvd length (thing_bytes sample_source) \<and>
    thing_source_ok sample_source"
proof -
  have len: "length (thing_bytes sample_source) = 40"
    by (simp add: thing_bytes_def ground_bytes_def sound_bytes_def image_bytes_def enc_things_def enc_thing_def sample_source_def)
  then have dvd: "8 dvd length (thing_bytes sample_source)" by simp
  moreover have "thing_source_ok sample_source"
    by (simp add: thing_source_ok_def source_ok_def sample_source_def) code_simp
  ultimately show ?thesis using nox_crypt_inverse [OF dvd, of NC_THING_BIN] by blast
qed

theorem thing_file_loads_witness:
  "\<exists>f db x. nox_encrypt (thing_bytes sample_source) NC_THING_BIN = Inr (0, f) \<and> Load_Thingdb f = Some (Inr db) \<and>
     td_objects db = [(x, [])] \<and> th_classes (thing_info_of x) = 8 \<and> th_Name (thing_info_of x) = ''Apple''"
proof -
  obtain f where f: "nox_encrypt (thing_bytes sample_source) NC_THING_BIN = Inr (0, f)" "8 dvd length (thing_bytes sample_source)"
    "thing_source_ok sample_source"
    using sample_thing_file by blast
  from thing_file_loads [OF f] sample_source_loads show ?thesis
    using f(1) by (auto simp: read_thing_source_def)
qed

section \<open>The lists of the sounds\<close>

text \<open>The names a reader finds from the first node of a sound's list on.\<close>

definition sound_list :: "bin_prop list \<Rightarrow> dua \<Rightarrow> bin_prop list" where
  "sound_list chain aud = (if du_has_first aud then chain else [])"

lemma read_sounds_nth:
  "k < length as \<Longrightarrow>
     du_numNodes (read_sounds chain as ! k) = length chain + length (concat (map so_sounds (take (k + 1) as))) \<and>
     (du_has_first (read_sounds chain as ! k) \<longleftrightarrow> chain \<noteq> [] \<or> concat (map so_sounds (take (k + 1) as)) \<noteq> [])"
proof (induction as arbitrary: chain k)
  case (Cons a as)
  then show ?case by (cases k) (auto simp: Let_def)
qed simp

lemma length_read_sounds [simp]: "length (read_sounds chain as) = length as"
  by (induction as arbitrary: chain) (simp_all add: Let_def)

text \<open>All sounds of the file share one list: from the first sound with a name on, every sound leads to the names of all sounds, also of
  those after it, though it counts only the names up to its own. The nodes are freed when \<open>Load_Sounds\<close> returns.\<close>

theorem sounds_share_names:
  assumes "lies buff count (DUA @ le_bytes 4 (of_nat (length as) :: u32) @ concat (map enc_sound as))"
    and "\<forall>a \<in> set as. sound_ok a" "length as < 2 ^ 31" "k < length as"
  shows "\<exists>auds chain count'. Load_Sounds buff count = Inr (auds, chain, DUA, count') \<and> length auds = length as \<and>
    sound_list chain (auds ! k) =
      (if concat (map so_sounds (take (k + 1) as)) = [] then [] else map read_prop (concat (map so_sounds as))) \<and>
    du_numNodes (auds ! k) = length (concat (map so_sounds (take (k + 1) as)))"
  using Load_Sounds_lies [OF assms(1,2,3)] read_sounds_nth [OF assms(4), of "[]"] by (auto simp: sound_list_def)

definition sample_sounds :: "sound_source list" where
  "sample_sounds = [\<lparr>so_name = [65], so_unknowns = zeros 9, so_sounds = [[97]]\<rparr>, \<lparr>so_name = [66], so_unknowns = zeros 9, so_sounds = [[98], [99]]\<rparr>]"

theorem sounds_share_names_witness:
  "\<exists>auds chain count'. Load_Sounds (DUA @ le_bytes 4 (2 :: u32) @ concat (map enc_sound sample_sounds)) 0 = Inr (auds, chain, DUA, count') \<and>
     sound_list chain (auds ! 0) = map read_prop [[97], [98], [99]] \<and> du_numNodes (auds ! 0) = 1"
proof -
  let ?b = "DUA @ le_bytes 4 (2 :: u32) @ concat (map enc_sound sample_sounds)"
  have "lies ?b 0 (DUA @ le_bytes 4 (of_nat (length sample_sounds) :: u32) @ concat (map enc_sound sample_sounds))"
    by (simp add: lies_def sample_sounds_def)
  moreover have "\<forall>a \<in> set sample_sounds. sound_ok a" "length sample_sounds = 2"
    by (simp_all add: sample_sounds_def sound_ok_def)
  ultimately show ?thesis
    using sounds_share_names [of ?b 0 sample_sounds 0] by (auto simp: sample_sounds_def)
qed

section \<open>Objects that never load\<close>

lemma line_loop:
  assumes "object_line buff st = Inr st" "os_type st \<noteq> GNHT" "os_count st < len"
  shows "object_lines buff len st = None"
proof (rule ccontr)
  assume "object_lines buff len st \<noteq> None"
  then obtain r where "object_lines buff len st = Some r" by blast
  moreover have "st' \<noteq> st \<or> b \<noteq> buff \<or> l \<noteq> len" if "object_lines b l st' = Some r'" for b l st' r'
    using that
  proof (rule object_lines.raw_induct [where P = "\<lambda>b l st' r'. st' \<noteq> st \<or> b \<noteq> buff \<or> l \<noteq> len", rotated])
    fix ol b l st' r'
    assume IH: "\<And>b l st' r'. ol b l st' = Some r' \<Longrightarrow> st' \<noteq> st \<or> b \<noteq> buff \<or> l \<noteq> len"
      and body: "(if os_type st' \<noteq> GNHT \<and> os_count st' < l
        then obind (Some (object_line b st')) (\<lambda>st. ol b l st) else Some (Inr st')) = Some r'"
    show "st' \<noteq> st \<or> b \<noteq> buff \<or> l \<noteq> len"
    proof (rule ccontr)
      assume "\<not> ?thesis"
      then have "ol buff len st = Some r'" using body assms by simp
      from IH [OF this] show False by simp
    qed
  qed
  ultimately show False by blast
qed

text \<open>A line whose drawing data have a negative length, back to the line.\<close>

lemma sint_of_int32: "- (2 ^ 31) \<le> i \<Longrightarrow> i < 2 ^ 31 \<Longrightarrow> sint (of_int i :: u32) = i"
  by (simp add: signed_of_int signed_take_bit_int_eq_self)

definition back_line :: "nat \<Rightarrow> bytes" where
  "back_line p =
     (let l = enc_name (string_bytes ''AnimateStateDraw''); a = pad8 p l
      in a @ le_bytes 4 (of_int (- (int (length a) + 8)) :: u32))"

text \<open>An object whose drawing data have a negative length that leads back to the line itself keeps \<open>Load_Object\<close> in its loop for ever.\<close>

theorem object_loading_hangs:
  assumes "lies buff (int p) (enc_name name @ back_line (p + 1 + length name))" "length name \<le> 50"
    and "int p + int (length name) + 1 < len" "len < 2 ^ 31 - 64"
  shows "Load_Object buff len (int p) = None"
proof -
  let ?l = "enc_name (string_bytes ''AnimateStateDraw'')"
  define c0 where "c0 = p + 1 + length name"
  define a where "a = pad8 c0 ?l"
  have "back_line (p + 1 + length name) = a @ le_bytes 4 (of_int (- (int (length a) + 8)) :: u32)"
    unfolding back_line_def Let_def a_def c0_def by (rule refl)
  moreover have "int p + int (length (enc_name name)) = int c0" by (simp add: c0_def)
  ultimately have bytes: "lies buff (int p) (enc_name name)" "lies buff (int c0) (a @ le_bytes 4 (of_int (- (int (length a) + 8)) :: u32))"
    using assms(1) unfolding lies_append by (simp_all add: lies_append)
  have a8: "length a \<le> 24" "17 \<le> length a" by (simp_all add: a_def pad8_def)
  have line: "lies buff (int c0) (enc_name (string_bytes ''AnimateStateDraw''))"
    using bytes(2) lies_pad8 [of buff "int c0" c0 ?l] by (simp add: lies_append a_def)
  have "lies buff (int c0) ([16] @ string_bytes ''AnimateStateDraw'')" using line by (simp add: enc_name_def)
  then have parts: "lies buff (int c0) [16]" "lies buff (int c0 + 1) (string_bytes ''AnimateStateDraw'')"
    unfolding lies_append by simp_all
  obtain t where t: "rd buff 4 (int c0) = Inr t" "hd t = 16"
    using rd_prefix [OF line, of 4] by (simp add: enc_name_def)
  have "hd GNHT \<noteq> 16" by (simp add: string_bytes_def)
  then have tag: "t \<noteq> GNHT" using t(2) by metis
  have align: "align (int c0 + 17) = int c0 + int (length a)" using align_pad8 [of c0 ?l] by (simp add: a_def)
  have "lies buff (int c0 + int (length a)) (le_bytes 4 (of_int (- (int (length a) + 8)) :: u32))"
    using bytes(2) by (simp add: lies_append)
  then have len: "rd_int buff (int c0 + int (length a)) = Inr (of_int (- (int (length a) + 8)))" by (rule rd_int_lies)
  have "sint (of_int (- (int (length a) + 8)) :: u32) = - (int (length a) + 8)"
    by (rule sint_of_int32) (use a8 in simp_all)
  then have back_to: "block_end buff (int c0 + 17) = Inr (int c0, int c0 + int (length a) + 8)"
    using len align assms(3,4) by (simp add: block_end_def Let_def c0_def)
  have str: "c_str (string_bytes ''AnimateStateDraw'' @ zeros 239) = string_bytes ''AnimateStateDraw''"
    by (simp add: c_str_def string_bytes_def)
  have parse: "Parse_String ''AnimateStateDraw'' = 3" by code_simp
  have step: "object_line buff st = Inr (st\<lparr>os_count := int c0, os_type := t\<rparr>)" if "os_count st = int c0" for st
    using parts t that parse str back_to back_to [unfolded add.commute [of "int c0" 17]]
    by (simp add: object_line_def rd_byte_lies rd_lies chars_string_bytes Let_def draw_def draw_monster_def)
  have loops: "object_lines buff len st = None" if "os_count st = int c0" "os_type st = t" for st
    using line_loop [of buff st len] step [of st] that tag assms(3) by (simp add: c0_def)
  have "rd_name (zeros 50) buff (int p) = Inr (of_nat (length name), array 50 name, int c0)"
    using assms(2) bytes(1) by (simp add: rd_name_array c0_def)
  moreover have "object_lines buff len st = None" if "os_count st = int c0" "os_type st = zeros 4" for st
    using that step loops zero_tag assms(3) by (subst object_lines.simps) (simp add: c0_def)
  ultimately show ?thesis by (simp add: Load_Object_def begin_lines_def)
qed

theorem object_loading_hangs_witness: "Load_Object (enc_name [65] @ back_line 2 @ zeros 40) 60 0 = None"
proof -
  have "lies (enc_name [65] @ back_line 2 @ zeros 40) (int 0) (enc_name [65] @ back_line (0 + 1 + length [65 :: u8]))"
    unfolding lies_def by (auto simp: numeral_2_eq_2)
  from object_loading_hangs [OF this, of 60] show ?thesis by simp
qed

end
