(* ===== verification/Console.thy ===== *)
theory Console
  imports World_Update Thing_Props Nox_Buffer
begin

text \<open>
  The commands of an operator: \<open>noxserverd/CliRunnable.cpp\<close> parses the lines typed at the console of the process,
  \<open>noxserverd/RASocket.cpp\<close> those that come over a TCP connection from an administrator who has logged in. Both run
  \<open>ParseCommand\<close>, which acts on the world; what it prints are lines handed to a function of the caller.

  The connection collects the bytes it reads in a buffer of \<open>RA_BUFF_SIZE\<close> bytes until a line ends. The accounts, the
  configuration and the messages of the process are parameters; the log file is not modelled.
\<close>

section \<open>Commands\<close>

definition crlf :: string where "crlf = [CHR 0x0D, CHR 0x0A]"

definition Commands :: "(string \<times> string) list" where
  "Commands =
     [(''help'', ''Display this help message''), (''version'', ''Display server version''),
      (''idleshutdown'', ''Shutdown server with some delay when not active connections at server''),
      (''shutdown'', ''Shutdown server with some delay''), (''exit'', ''Shutdown server NOW'')]"

definition CliHelp :: "string list" where
  "CliHelp = map (\<lambda>(cmd, description). cmd @ replicate (13 - length cmd) (CHR '' '') @ '' - '' @ description @ ''.'' @ crlf) Commands"

definition CliExit :: "world \<Rightarrow> string list \<times> world" where
  "CliExit w = ([''Exiting daemon...'' @ crlf], w\<lparr>wo_stopEvent := True\<rparr>)"

text \<open>\<open>atoi\<close> gives an \<open>int\<close>.\<close>

definition int_arg :: "string \<Rightarrow> int res" where
  "int_arg args = (if - (2 ^ 31) \<le> atoi args \<and> atoi args < 2 ^ 31 then Inr (atoi args) else Inl IntOverflow)"

definition CliIdleShutdown :: "string \<Rightarrow> world \<Rightarrow> (string list \<times> world) res" where
  "CliIdleShutdown command w =
     (case strtok '' '' command of
        None \<Rightarrow> Inr ([''Syntax is: idleshutdown <seconds|cancel>'' @ crlf], w)
      | Some (args, _) \<Rightarrow>
          if args = ''cancel'' then Inr ([], ShutdownCancel w)
          else rbind (int_arg args) (\<lambda>i.
            let time = of_int i :: u32
            in if (time = 0 \<and> args \<noteq> ''0'') \<or> time < 0 then Inr ([''Syntax is: idleshutdown <seconds|cancel>'' @ crlf], w)
               else Inr ([], ShutdownServ time True w)))"

definition CliShutdown :: "string \<Rightarrow> world \<Rightarrow> (string list \<times> world) res" where
  "CliShutdown command w =
     (case strtok '' '' command of
        None \<Rightarrow> Inr ([''Syntax is: shutdown <seconds|cancel>'' @ crlf], w)
      | Some (args, _) \<Rightarrow>
          if args = ''cancel'' then Inr ([], ShutdownCancel w)
          else rbind (int_arg args) (\<lambda>time.
            if (time = 0 \<and> args \<noteq> ''0'') \<or> time < 0 then Inr ([''Syntax is: shutdown <seconds|cancel>'' @ crlf], w)
            else Inr ([], ShutdownServ (of_int time) False w)))"

definition CliVersion :: "string \<Rightarrow> string list" where
  "CliVersion fullversion = [''MaNGOS daemon version is '' @ fullversion @ crlf]"

definition run_command :: "string \<Rightarrow> string \<Rightarrow> string \<Rightarrow> world \<Rightarrow> (string list \<times> world) res" where
  "run_command v cmd args w =
     (if cmd = ''help'' then Inr (CliHelp, w)
      else if cmd = ''version'' then Inr (CliVersion v, w)
      else if cmd = ''idleshutdown'' then CliIdleShutdown args w
      else if cmd = ''shutdown'' then CliShutdown args w
      else Inr (CliExit w))"

text \<open>The string at the start of the line after \<open>strtok\<close> has ended it behind the command, spaces before the command included.\<close>

definition cut_input :: "string \<Rightarrow> string \<Rightarrow> string" where
  "cut_input input cmd = takeWhile (\<lambda>c. c = CHR '' '') input @ cmd"

text \<open>\<open>&input[strlen(supposedCommand)+1]\<close>: an index into the line, not behind the command.\<close>

definition arguments_of :: "string \<Rightarrow> string \<Rightarrow> string \<Rightarrow> string" where
  "arguments_of input cmd rest =
     (if length cmd + 1 \<le> length (cut_input input cmd) then drop (length cmd + 1) (cut_input input cmd) else rest)"

definition ParseCommand :: "string \<Rightarrow> string \<Rightarrow> world \<Rightarrow> (string list \<times> world) res" where
  "ParseCommand v input w =
     (case strtok '' '' input of
        None \<Rightarrow> Inr ([], w)
      | Some (cmd, rest) \<Rightarrow>
          if cmd \<in> fst ` set Commands
          then run_command v cmd (if length input > length cmd then arguments_of input cmd rest else '''') w
          else Inr ([''Unknown command: '' @ cut_input input cmd @ crlf], w))"

text \<open>The console: a line of \<open>fgets\<close>, cut at the first line break, or \<open>None\<close> at the end of the input.\<close>

fun console_run :: "string \<Rightarrow> string option list \<Rightarrow> world \<Rightarrow> (string list \<times> world) res" where
  "console_run v [] w = Inr ([], w)"
| "console_run v (line # ls) w =
     (if wo_stopEvent w then Inr ([], w)
      else case line of
        None \<Rightarrow> console_run v ls (w\<lparr>wo_stopEvent := True\<rparr>)
      | Some l \<Rightarrow>
          rbind (ParseCommand v (takeWhile (\<lambda>c. c \<notin> set crlf) l) w) (\<lambda>(out, w).
          rmap (\<lambda>(out', w). (out @ out', w)) (console_run v ls w)))"

section \<open>The connection of an administrator\<close>

definition RA_BUFF_SIZE :: nat where "RA_BUFF_SIZE = 1024"

datatype ra_stage = NONE | LG | OK

record ra_socket =
  ra_buff :: bytes
  ra_szLogin :: bytes
  ra_szPass :: bytes
  ra_iSess :: u32
  ra_iInputLength :: nat
  ra_bSecure :: bool
  ra_iMinLevel :: u8
  ra_stage :: ra_stage
  ra_closing :: bool

text \<open>\<open>RA.Secure\<close>, \<open>RA.MinLevel\<close>, the message of the day, \<open>_FULLVERSION\<close>, and password and level of an account.\<close>

record ra_config =
  rc_secure :: bool
  rc_minLevel :: u32
  rc_motd :: string
  rc_version :: string
  rc_account :: "bytes \<Rightarrow> (bytes \<times> u32) option"

text \<open>\<open>iUsers\<close>, \<open>iSession\<close>, the socket \<open>r\<close> of the last login, the connections by their sockets, the world and what was sent.\<close>

record console =
  co_users :: u32
  co_session :: u32
  co_r :: nat
  co_sockets :: "nat \<Rightarrow> ra_socket option"
  co_world :: world
  co_sent :: "(nat \<times> bytes) list"

definition put_socket :: "nat \<Rightarrow> ra_socket \<Rightarrow> console \<Rightarrow> console" where
  "put_socket a s c = c\<lparr>co_sockets := (co_sockets c)(a \<mapsto> s)\<rparr>"

definition ra_send :: "nat \<Rightarrow> bytes \<Rightarrow> console \<Rightarrow> console" where
  "ra_send a bs c = c\<lparr>co_sent := co_sent c @ [(a, bs)]\<rparr>"

definition Sendf :: "nat \<Rightarrow> string \<Rightarrow> console \<Rightarrow> console" where
  "Sendf a msg = ra_send a (string_bytes msg)"

definition SetCloseAndDelete :: "ra_socket \<Rightarrow> ra_socket" where
  "SetCloseAndDelete s = s\<lparr>ra_closing := True\<rparr>"

definition dropclient :: "nat \<Rightarrow> ra_socket \<Rightarrow> console \<Rightarrow> console" where
  "dropclient a s c = put_socket a (SetCloseAndDelete s) (Sendf a ''I'm busy right now, come back later.'' c)"

text \<open>A connection that comes in: the constructor and \<open>OnAccept\<close>.\<close>

definition new_socket :: "ra_config \<Rightarrow> u32 \<Rightarrow> ra_socket" where
  "new_socket C n =
     \<lparr>ra_buff = replicate RA_BUFF_SIZE 0, ra_szLogin = [], ra_szPass = [], ra_iSess = n, ra_iInputLength = 0,
      ra_bSecure = rc_secure C, ra_iMinLevel = ucast (rc_minLevel C), ra_stage = NONE, ra_closing = False\<rparr>"

definition RASocket_OnAccept :: "ra_config \<Rightarrow> nat \<Rightarrow> console \<Rightarrow> console" where
  "RASocket_OnAccept C a c =
     (let s = new_socket C (co_session c); c = c\<lparr>co_session := co_session c + 1\<rparr>
      in if co_users c \<noteq> 0
         then dropclient a s c
         else put_socket a s (Sendf a (rc_motd C @ crlf) c))"

text \<open>The destructor.\<close>

definition RASocket_delete :: "nat \<Rightarrow> console \<Rightarrow> console res" where
  "RASocket_delete a c =
     (case co_sockets c a of
        None \<Rightarrow> Inl Dangling
      | Some s \<Rightarrow>
          let c = c\<lparr>co_sockets := (co_sockets c)(a := None)\<rparr>
          in Inr (if ra_stage s = OK then c\<lparr>co_users := co_users c - 1\<rparr> else c))"

text \<open>\<open>vsnprintf\<close> to 1024 bytes, then \<open>send\<close> of the length the text would have had.\<close>

definition ra_zprintf :: "string \<Rightarrow> console \<Rightarrow> console res" where
  "ra_zprintf txt c =
     (let sz = length txt; megabuffer = take 1023 (string_bytes txt) @ [0]
      in if sz > 1024 then Inl OutOfBounds else Inr (ra_send (co_r c) (take sz megabuffer) c))"

definition refuse :: "nat \<Rightarrow> ra_socket \<Rightarrow> string \<Rightarrow> console \<Rightarrow> console" where
  "refuse a s msg c = put_socket a (if ra_bSecure s then SetCloseAndDelete s else s) (Sendf a msg c)"

definition ra_line :: "ra_config \<Rightarrow> nat \<Rightarrow> ra_socket \<Rightarrow> console \<Rightarrow> console res" where
  "ra_line C a s c =
     (let buff = ra_buff s; str = (\<lambda>n. c_str (drop n buff))
      in case ra_stage s of
           NONE \<Rightarrow>
             if take 5 buff \<noteq> string_bytes ''USER '' then Inr (put_socket a s c)
             else let s = s\<lparr>ra_szLogin := str 5\<rparr>
               in (case rc_account C (str 5) of
                     None \<Rightarrow> Inr (refuse a s (''-No such user.'' @ crlf) c)
                   | Some (pass, gmlevel) \<Rightarrow>
                       let s = s\<lparr>ra_szPass := pass\<rparr>
                       in if gmlevel < ucast (ra_iMinLevel s) then Inr (refuse a s (''-Not enough privileges.'' @ crlf) c)
                          else Inr (put_socket a (s\<lparr>ra_stage := LG\<rparr>) c))
         | LG \<Rightarrow>
             if take 5 buff \<noteq> string_bytes ''PASS '' then Inr (put_socket a s c)
             else if str 5 = c_str (ra_szPass s)
               then Inr (Sendf a (''+Logged in.'' @ crlf)
                      (put_socket a (s\<lparr>ra_stage := OK\<rparr>) (c\<lparr>co_r := a, co_users := co_users c + 1\<rparr>)))
               else Inr (refuse a s (''-Wrong pass.'' @ crlf) c)
         | OK \<Rightarrow>
             let c = put_socket a s c
             in if str 0 = [] then Inr c
                else rbind (ParseCommand (rc_version C) (chars (str 0)) (co_world c)) (\<lambda>(out, w).
                     res_fold ra_zprintf out (c\<lparr>co_world := w\<rparr>)))"

text \<open>\<open>inp\<close> is what \<open>TcpSocket::OnRead\<close> has read. What \<open>strtok\<close> writes to the buffer is behind what is read of it later and left out.\<close>

definition RASocket_OnRead :: "ra_config \<Rightarrow> nat \<Rightarrow> bytes \<Rightarrow> console \<Rightarrow> console res" where
  "RASocket_OnRead C a inp c =
     (case co_sockets c a of
        None \<Rightarrow> Inl Dangling
      | Some s \<Rightarrow>
          let sz = length inp; n = ra_iInputLength s
          in if n + sz \<ge> RA_BUFF_SIZE then Inr (put_socket a (SetCloseAndDelete s) c)
             else if ra_stage s \<noteq> OK \<and> co_users c \<noteq> 0
               then Inr (dropclient a s c)
             else if ra_stage s = NONE \<and> sz > 4 \<and> take 5 inp \<noteq> string_bytes ''USER '' then Inr c
             else let line = takeWhile (\<lambda>b. b \<noteq> 13 \<and> b \<noteq> 10) inp; y = length line; buff = ra_buff s
               in if n + y \<ge> length buff then Inl OutOfBounds
                  else let buff = take n buff @ line @ drop (n + y) buff
                    in if y < sz
                       then ra_line C a (s\<lparr>ra_buff := buff[n + y := 0], ra_iInputLength := 0\<rparr>) c
                       else Inr (put_socket a (s\<lparr>ra_buff := buff, ra_iInputLength := n + y\<rparr>) c))"

end
