(* ===== verification/Remote_Admin.thy ===== *)
theory Remote_Admin
  imports Console Server_Reach Util_Funcs
begin

text \<open>
  What the remote console guarantees, in every state that connections, disconnections and any bytes read lead to, whatever the
  rest of the server does to the world meanwhile: at most one administrator is logged in, with an account of the required
  level and its password; only this one acts on the world.
\<close>

section \<open>Steps\<close>

inductive admin_step :: "ra_config \<Rightarrow> console \<Rightarrow> console \<Rightarrow> bool" for C where
  accept: "co_sockets c a = None \<Longrightarrow> admin_step C c (RASocket_OnAccept C a c)"
| read: "RASocket_OnRead C a inp c = Inr c' \<Longrightarrow> admin_step C c c'"
| delete: "RASocket_delete a c = Inr c' \<Longrightarrow> admin_step C c c'"
| server: "world_step (co_world c) w \<Longrightarrow> admin_step C c (c\<lparr>co_world := w\<rparr>)"

definition new_console :: "world \<Rightarrow> console" where
  "new_console w = \<lparr>co_users = 0, co_session = 0, co_r = 0, co_sockets = \<lambda>_. None, co_world = w, co_sent = []\<rparr>"

inductive admin_reachable :: "ra_config \<Rightarrow> console \<Rightarrow> bool" for C where
  start: "world_reachable w \<Longrightarrow> admin_reachable C (new_console w)"
| step: "admin_reachable C c \<Longrightarrow> admin_step C c c' \<Longrightarrow> admin_reachable C c'"

inductive_cases admin_stepE: "admin_step C c c'"

section \<open>The invariant\<close>

text \<open>An account that may log in.\<close>

definition may_login :: "ra_config \<Rightarrow> bytes \<Rightarrow> bytes \<Rightarrow> bool" where
  "may_login C name pass \<longleftrightarrow>
     (\<exists>gmlevel. rc_account C name = Some (pass, gmlevel) \<and> ucast (ucast (rc_minLevel C) :: u8) \<le> gmlevel)"

definition socket_ok :: "ra_config \<Rightarrow> ra_socket \<Rightarrow> bool" where
  "socket_ok C s \<longleftrightarrow> length (ra_buff s) = RA_BUFF_SIZE \<and> ra_iInputLength s < RA_BUFF_SIZE \<and>
     ra_iMinLevel s = ucast (rc_minLevel C) \<and> (ra_stage s \<noteq> NONE \<longrightarrow> may_login C (ra_szLogin s) (ra_szPass s))"

definition sockets_ok :: "ra_config \<Rightarrow> console \<Rightarrow> bool" where
  "sockets_ok C c \<longleftrightarrow> (\<forall>a s. co_sockets c a = Some s \<longrightarrow> socket_ok C s)"

text \<open>The connections that are logged in.\<close>

definition admins :: "console \<Rightarrow> nat set" where
  "admins c = {a. \<exists>s. co_sockets c a = Some s \<and> ra_stage s = OK}"

definition one_admin :: "console \<Rightarrow> bool" where
  "one_admin c \<longleftrightarrow> (if co_users c = 0 then admins c = {} else co_users c = 1 \<and> admins c = {co_r c})"

definition console_ok :: "ra_config \<Rightarrow> console \<Rightarrow> bool" where
  "console_ok C c \<longleftrightarrow> sockets_ok C c \<and> one_admin c"

text \<open>What does not touch the connections.\<close>

lemma admins_put: "admins (put_socket a s c) = (if ra_stage s = OK then insert a (admins c) else admins c - {a})"
  by (auto simp: admins_def put_socket_def)

lemma sockets_put: "sockets_ok C c \<Longrightarrow> socket_ok C s \<Longrightarrow> sockets_ok C (put_socket a s c)"
  by (simp add: sockets_ok_def put_socket_def)

lemma console_fields [simp]:
  "co_users (put_socket a s c) = co_users c" "co_r (put_socket a s c) = co_r c" "co_world (put_socket a s c) = co_world c"
  "co_users (Sendf a m c) = co_users c" "co_r (Sendf a m c) = co_r c" "co_world (Sendf a m c) = co_world c"
  "co_sockets (Sendf a m c) = co_sockets c" "co_session (Sendf a m c) = co_session c"
  by (simp_all add: put_socket_def Sendf_def ra_send_def)

lemma console_ok_updates [simp]:
  "console_ok C (c\<lparr>co_world := w\<rparr>) = console_ok C c" "console_ok C (c\<lparr>co_session := n\<rparr>) = console_ok C c"
  "console_ok C (c\<lparr>co_sent := x\<rparr>) = console_ok C c" "console_ok C (Sendf a m c) = console_ok C c"
  by (simp_all add: console_ok_def sockets_ok_def one_admin_def admins_def Sendf_def ra_send_def)

text \<open>A connection whose stage is not that of an administrator before and after.\<close>

lemma console_ok_put:
  assumes "console_ok C c" "socket_ok C s" "ra_stage s = OK \<longleftrightarrow> a \<in> admins c"
  shows "console_ok C (put_socket a s c)"
proof -
  have "admins (put_socket a s c) = admins c" using assms(3) by (auto simp: admins_put)
  then show ?thesis using assms(1,2) by (simp add: console_ok_def one_admin_def sockets_put)
qed

lemma zprintf_world: "res_fold ra_zprintf out c = Inr c' \<Longrightarrow> co_world c' = co_world c \<and> (console_ok C c \<longrightarrow> console_ok C c')"
proof (induction out arbitrary: c)
  case (Cons t out)
  then obtain c1 where c1: "ra_zprintf t c = Inr c1" "res_fold ra_zprintf out c1 = Inr c'" by (auto simp: rbind_Inr_iff)
  from c1(1) have "c1 = ra_send (co_r c) (take (length t) (take 1023 (string_bytes t) @ [0])) c"
    by (simp add: ra_zprintf_def Let_def split: if_splits)
  then show ?case using Cons.IH [OF c1(2)] by (simp add: ra_send_def)
qed simp

section \<open>Every step keeps it\<close>

lemma socket_ok_close [simp]: "socket_ok C (SetCloseAndDelete s) = socket_ok C s" "ra_stage (SetCloseAndDelete s) = ra_stage s"
  by (simp_all add: socket_ok_def SetCloseAndDelete_def)

lemma refuse_ok:
  assumes "console_ok C c" "socket_ok C s" "ra_stage s = OK \<longleftrightarrow> a \<in> admins c"
  shows "console_ok C (refuse a s m c) \<and> co_world (refuse a s m c) = co_world c"
proof -
  have "console_ok C (put_socket a t (Sendf a m c))" if "socket_ok C t" "ra_stage t = ra_stage s" for t
    by (rule console_ok_put) (use assms that in \<open>simp_all add: admins_def\<close>)
  then show ?thesis using assms(2) by (simp add: refuse_def)
qed

lemma stage_admins: "co_sockets c a = Some s \<Longrightarrow> ra_stage s = OK \<longleftrightarrow> a \<in> admins c"
  by (simp add: admins_def)

lemma one_more_admin:
  assumes "console_ok C c" "socket_ok C s" "co_users c = 0" "ra_stage s = OK"
  shows "console_ok C (put_socket a s (c\<lparr>co_r := a, co_users := co_users c + 1\<rparr>))"
proof -
  have "admins c = {}" using assms(1,3) by (simp add: console_ok_def one_admin_def)
  then have "admins (c\<lparr>co_r := a, co_users := 1\<rparr>) = {}" by (simp add: admins_def)
  then show ?thesis
    using assms by (auto simp: console_ok_def one_admin_def sockets_ok_def put_socket_def admins_def)
qed

lemma ra_line_ok:
  assumes "console_ok C c" "socket_ok C s" "ra_stage s = OK \<longleftrightarrow> a \<in> admins c" "ra_stage s \<noteq> OK \<Longrightarrow> co_users c = 0"
    and "ra_line C a s c = Inr c'"
  shows "console_ok C c' \<and> (co_world c' \<noteq> co_world c \<longrightarrow> ra_stage s = OK)"
proof (cases "ra_stage s")
  case NONE
  have keep: "socket_ok C (s\<lparr>ra_szLogin := l\<rparr>)" "socket_ok C (s\<lparr>ra_szLogin := l, ra_szPass := p\<rparr>)" for l p
    using assms(2) NONE by (simp_all add: socket_ok_def)
  have login: "socket_ok C (s\<lparr>ra_szLogin := l, ra_szPass := p, ra_stage := LG\<rparr>)"
    if "rc_account C l = Some (p, g)" "\<not> g < ucast (ra_iMinLevel s)" for l p g
    using assms(2) that by (auto simp: socket_ok_def may_login_def)
  have stage: "a \<notin> admins c" using assms(3) NONE by simp
  let ?l = "c_str (drop 5 (ra_buff s))"
  have out: "c' \<in> {put_socket a s c, refuse a (s\<lparr>ra_szLogin := ?l\<rparr>) (''-No such user.'' @ crlf) c} \<or>
      (\<exists>p g. rc_account C ?l = Some (p, g) \<and>
        (c' = refuse a (s\<lparr>ra_szLogin := ?l, ra_szPass := p\<rparr>) (''-Not enough privileges.'' @ crlf) c \<or>
         (\<not> g < ucast (ra_iMinLevel s) \<and> c' = put_socket a (s\<lparr>ra_szLogin := ?l, ra_szPass := p, ra_stage := LG\<rparr>) c)))"
    using assms(5) NONE by (cases "rc_account C ?l") (simp_all add: ra_line_def Let_def split: if_splits prod.splits)
  have "console_ok C (put_socket a s c)" by (rule console_ok_put [OF assms(1-3)])
  moreover have "console_ok C (refuse a (s\<lparr>ra_szLogin := l\<rparr>) m c) \<and> co_world (refuse a (s\<lparr>ra_szLogin := l\<rparr>) m c) = co_world c" for l m
    by (rule refuse_ok [OF assms(1) keep(1)]) (simp add: NONE stage)
  moreover have "console_ok C (refuse a (s\<lparr>ra_szLogin := l, ra_szPass := p\<rparr>) m c) \<and>
      co_world (refuse a (s\<lparr>ra_szLogin := l, ra_szPass := p\<rparr>) m c) = co_world c" for l p m
    by (rule refuse_ok [OF assms(1) keep(2)]) (simp add: NONE stage)
  moreover have "console_ok C (put_socket a (s\<lparr>ra_szLogin := l, ra_szPass := p, ra_stage := LG\<rparr>) c)"
    if "rc_account C l = Some (p, g)" "\<not> g < ucast (ra_iMinLevel s)" for l p g
    by (rule console_ok_put [OF assms(1) login [OF that]]) (simp add: stage)
  ultimately show ?thesis using out by (elim disjE exE conjE insertE emptyE) (simp_all del: admins_put)
next
  case LG
  have "socket_ok C (s\<lparr>ra_stage := OK\<rparr>)" using assms(2) LG by (simp add: socket_ok_def)
  then show ?thesis
    using assms(5) LG assms(4) one_more_admin [OF assms(1), of "s\<lparr>ra_stage := OK\<rparr>" a] refuse_ok [OF assms(1-3)]
      console_ok_put [OF assms(1-3)]
    by (auto simp: ra_line_def Let_def split: if_splits)
next
  case OK
  have "console_ok C (put_socket a s c)" by (rule console_ok_put [OF assms(1-3)])
  then show ?thesis using assms(5) OK
    by (auto simp: ra_line_def Let_def rbind_Inr_iff dest!: zprintf_world [where C = C] split: if_splits)
qed

text \<open>What \<open>OnRead\<close> does before it looks at the line.\<close>

lemma OnRead_cases:
  assumes "co_sockets c a = Some s" "socket_ok C s"
  obtains (drop) c' where "RASocket_OnRead C a inp c = Inr c'" "co_world c' = co_world c"
      "c' = c \<or> c' = put_socket a (SetCloseAndDelete s) c \<or> c' = dropclient a s c"
  | (part) buff n where "RASocket_OnRead C a inp c = Inr (put_socket a (s\<lparr>ra_buff := buff, ra_iInputLength := n\<rparr>) c)"
      "length buff = RA_BUFF_SIZE" "n < RA_BUFF_SIZE"
  | (line) buff where "RASocket_OnRead C a inp c = ra_line C a (s\<lparr>ra_buff := buff, ra_iInputLength := 0\<rparr>) c"
      "length buff = RA_BUFF_SIZE" "ra_stage s \<noteq> OK \<Longrightarrow> co_users c = 0"
      "c_str buff = c_str (take (ra_iInputLength s) (ra_buff s) @ takeWhile (\<lambda>b. b \<noteq> 13 \<and> b \<noteq> 10) inp)"
proof -
  let ?n = "ra_iInputLength s" let ?line = "takeWhile (\<lambda>b. b \<noteq> 13 \<and> b \<noteq> 10) inp" let ?y = "length ?line"
  let ?buff = "take ?n (ra_buff s) @ ?line @ drop (?n + ?y) (ra_buff s)"
  have y: "?y \<le> length inp" by (rule length_takeWhile_le)
  have n: "length (ra_buff s) = RA_BUFF_SIZE" "?n < RA_BUFF_SIZE" using assms(2) by (simp_all add: socket_ok_def)
  consider "?n + length inp \<ge> RA_BUFF_SIZE" | "?n + length inp < RA_BUFF_SIZE" "ra_stage s \<noteq> OK \<and> co_users c \<noteq> 0"
    | "?n + length inp < RA_BUFF_SIZE" "\<not> (ra_stage s \<noteq> OK \<and> co_users c \<noteq> 0)"
        "ra_stage s = NONE \<and> length inp > 4 \<and> take 5 inp \<noteq> string_bytes ''USER ''"
    | "?n + length inp < RA_BUFF_SIZE" "\<not> (ra_stage s \<noteq> OK \<and> co_users c \<noteq> 0)"
        "\<not> (ra_stage s = NONE \<and> length inp > 4 \<and> take 5 inp \<noteq> string_bytes ''USER '')"
    by linarith
  then show thesis
  proof cases
    case 1
    show thesis by (rule drop [of "put_socket a (SetCloseAndDelete s) c"]) (use assms(1) 1 in \<open>simp_all add: RASocket_OnRead_def\<close>)
  next
    case 2
    show thesis by (rule drop [of "dropclient a s c"]) (use assms(1) 2 in \<open>simp_all add: RASocket_OnRead_def dropclient_def\<close>)
  next
    case 3
    show thesis by (rule drop [of c]) (use assms(1) 3 in \<open>simp_all add: RASocket_OnRead_def Let_def\<close>)
  next
    case 4
    have room: "?n + ?y < RA_BUFF_SIZE" using 4(1) y by simp
    then have len: "length ?buff = RA_BUFF_SIZE" using n by simp
    have guards: "(?n + length inp \<ge> RA_BUFF_SIZE) = False" "(ra_stage s \<noteq> OK \<and> co_users c \<noteq> 0) = False"
        "(ra_stage s = NONE \<and> length inp > 4 \<and> take 5 inp \<noteq> string_bytes ''USER '') = False"
        "(?n + ?y \<ge> length (ra_buff s)) = False"
      using 4 room n by auto
    have run: "RASocket_OnRead C a inp c =
        (if ?y < length inp then ra_line C a (s\<lparr>ra_buff := ?buff[?n + ?y := 0], ra_iInputLength := 0\<rparr>) c
         else Inr (put_socket a (s\<lparr>ra_buff := ?buff, ra_iInputLength := ?n + ?y\<rparr>) c))"
      by (simp only: RASocket_OnRead_def assms(1) option.case Let_def guards if_False)
    show thesis
    proof (cases "?y < length inp")
      case True
      have "drop (?n + ?y) (ra_buff s) \<noteq> []" using room n by simp
      then obtain b bs where "drop (?n + ?y) (ra_buff s) = b # bs" by (cases "drop (?n + ?y) (ra_buff s)") blast+
      then have cut: "?buff[?n + ?y := 0] = (take ?n (ra_buff s) @ ?line) @ 0 # bs" using n by (simp add: list_update_append)
      have str: "c_str (?buff[?n + ?y := 0]) = c_str (take ?n (ra_buff s) @ ?line)"
        unfolding cut c_str_def by (rule takeWhile_tail) simp
      show thesis
        by (rule line [of "?buff[?n + ?y := 0]"]) (use run True len str 4(2) in simp_all)
    next
      case False
      then show thesis using run room len part by simp
    qed
  qed
qed

lemma OnRead_ok:
  assumes "console_ok C c" "RASocket_OnRead C a inp c = Inr c'"
  shows "console_ok C c' \<and> (co_world c' \<noteq> co_world c \<longrightarrow> a \<in> admins c)"
proof (cases "co_sockets c a")
  case None
  then show ?thesis using assms(2) by (simp add: RASocket_OnRead_def)
next
  case (Some s)
  have s: "socket_ok C s" using assms(1) Some by (simp add: console_ok_def sockets_ok_def)
  show ?thesis
  proof (cases rule: OnRead_cases [where C = C and inp = inp, OF Some s, case_names drop part line])
    case (drop c1)
    have "console_ok C (put_socket a (SetCloseAndDelete s) (c\<lparr>co_sent := x\<rparr>))" for x
      by (rule console_ok_put) (use assms(1) s Some in \<open>simp_all add: admins_def\<close>)
    from this [of "co_sent c"] this have "console_ok C (put_socket a (SetCloseAndDelete s) c)" "console_ok C (dropclient a s c)"
      by (simp_all add: dropclient_def Sendf_def ra_send_def)
    then show ?thesis using drop assms by auto
  next
    case (part buff n)
    have "console_ok C (put_socket a (s\<lparr>ra_buff := buff, ra_iInputLength := n\<rparr>) c)"
      by (rule console_ok_put [OF assms(1)]) (use s Some part in \<open>simp_all add: socket_ok_def admins_def\<close>)
    then show ?thesis using part(1) assms(2) by auto
  next
    case (line buff)
    have "socket_ok C (s\<lparr>ra_buff := buff, ra_iInputLength := 0\<rparr>)"
      using s line(2) by (simp add: socket_ok_def RA_BUFF_SIZE_def)
    then show ?thesis
      using ra_line_ok [OF assms(1), of "s\<lparr>ra_buff := buff, ra_iInputLength := 0\<rparr>" a c'] line(1,3) assms(2) Some
      by (simp add: admins_def)
  qed
qed

lemma OnAccept_ok:
  assumes "console_ok C c" "co_sockets c a = None"
  shows "console_ok C (RASocket_OnAccept C a c)"
proof -
  have new: "socket_ok C (new_socket C n)" "ra_stage (new_socket C n) = NONE" for n
    by (simp_all add: socket_ok_def new_socket_def RA_BUFF_SIZE_def)
  have "console_ok C (put_socket a t (Sendf a m (c\<lparr>co_session := k\<rparr>)))" if "socket_ok C t" "ra_stage t = NONE" for t m k
    by (rule console_ok_put) (use assms that in \<open>simp_all add: admins_def\<close>)
  then show ?thesis using new by (simp add: RASocket_OnAccept_def dropclient_def Let_def)
qed

lemma delete_ok:
  assumes "console_ok C c" "RASocket_delete a c = Inr c'"
  shows "console_ok C c'"
proof -
  obtain s where s: "co_sockets c a = Some s" using assms(2) by (cases "co_sockets c a") (simp_all add: RASocket_delete_def)
  let ?c = "c\<lparr>co_sockets := (co_sockets c)(a := None)\<rparr>"
  have adm: "admins ?c = admins c - {a}" by (auto simp: admins_def)
  have socks: "sockets_ok C ?c" using assms(1) by (simp add: console_ok_def sockets_ok_def)
  have c': "c' = (if a \<in> admins c then ?c\<lparr>co_users := co_users c - 1\<rparr> else ?c)"
    using assms(2) s by (auto simp: RASocket_delete_def Let_def admins_def)
  have upd: "admins (?c\<lparr>co_users := u\<rparr>) = admins c - {a}" "sockets_ok C (?c\<lparr>co_users := u\<rparr>)" for u
    using adm socks by (simp_all add: admins_def sockets_ok_def)
  show ?thesis
    using assms(1) socks adm upd unfolding c' by (auto simp: console_ok_def one_admin_def split: if_splits)
qed

lemma reachable_ok: "admin_reachable C c \<Longrightarrow> console_ok C c"
proof (induction rule: admin_reachable.induct)
  case (start w)
  then show ?case by (simp add: new_console_def console_ok_def sockets_ok_def one_admin_def admins_def)
next
  case (step c c')
  from step.hyps(2) show ?case
  proof (rule admin_stepE)
    fix a
    assume "c' = RASocket_OnAccept C a c" "co_sockets c a = None"
    then show ?thesis using OnAccept_ok [OF step.IH] by simp
  next
    fix a inp
    assume "RASocket_OnRead C a inp c = Inr c'"
    then show ?thesis using OnRead_ok [OF step.IH] by simp
  next
    fix a
    assume "RASocket_delete a c = Inr c'"
    then show ?thesis by (rule delete_ok [OF step.IH])
  next
    fix w
    assume "c' = c\<lparr>co_world := w\<rparr>" "world_step (co_world c) w"
    then show ?thesis using step.IH by simp
  qed
qed

section \<open>The world\<close>

lemma ParseCommand_step:
  assumes "ParseCommand v input w = Inr (out, w')"
  shows "w' = w \<or> world_step w w'"
proof -
  have cli: "CliShutdown args w = Inr (out, w') \<Longrightarrow> w' = w \<or> world_step w w'"
    "CliIdleShutdown args w = Inr (out, w') \<Longrightarrow> w' = w \<or> world_step w w'" for args
    using world_step.shutdown world_step.cancel
    by (auto simp: CliShutdown_def CliIdleShutdown_def int_arg_def Let_def split: option.splits if_splits)
  show ?thesis using assms world_step.exit
    by (auto simp: ParseCommand_def run_command_def CliExit_def split: option.splits if_splits dest!: cli)
qed

lemma console_run_reachable: "world_reachable w \<Longrightarrow> console_run v ls w = Inr (out, w') \<Longrightarrow> world_reachable w'"
proof (induction v ls w arbitrary: out rule: console_run.induct)
  case (2 v line ls w)
  show ?case
  proof (cases "wo_stopEvent w")
    case False
    show ?thesis
    proof (cases line)
      case None
      then show ?thesis
        using "2.IH"(1) [OF False None world_reachable.step [OF "2.prems"(1) world_step.exit]] "2.prems"(2) False by simp
    next
      case (Some l)
      then obtain out1 w1 out2 where w1: "ParseCommand v (takeWhile (\<lambda>c. c \<notin> set crlf) l) w = Inr (out1, w1)"
        "console_run v ls w1 = Inr (out2, w')"
        using "2.prems"(2) False by (auto simp: res_iffs)
      have "world_reachable w1" using ParseCommand_step [OF w1(1)] "2.prems"(1) world_reachable.step by blast
      then show ?thesis using "2.IH"(2) [OF False Some w1(1) refl _ w1(2)] by simp
    qed
  qed (use "2.prems" in simp)
qed simp

lemma ra_line_world:
  assumes "ra_line C a s c = Inr c'" "world_reachable (co_world c)"
  shows "world_reachable (co_world c')"
proof (cases "ra_stage s")
  case OK
  then show ?thesis using assms
    by (auto simp: ra_line_def Let_def rbind_Inr_iff dest!: zprintf_world [where C = C] ParseCommand_step
        intro: world_reachable.step split: if_splits)
qed (use assms in \<open>auto simp: ra_line_def refuse_def Let_def split: if_splits option.splits\<close>)

lemma admin_world: "admin_reachable C c \<Longrightarrow> world_reachable (co_world c)"
proof (induction rule: admin_reachable.induct)
  case (start w)
  then show ?case by (simp add: new_console_def)
next
  case (step c c')
  from step.hyps(2) show ?case
  proof (rule admin_stepE)
    fix a inp
    assume "RASocket_OnRead C a inp c = Inr c'"
    then show ?thesis using step.IH ra_line_world
      by (fastforce simp: RASocket_OnRead_def Let_def dropclient_def split: option.splits if_splits)
  next
    fix w
    assume "c' = c\<lparr>co_world := w\<rparr>" "world_step (co_world c) w"
    then show ?thesis using world_reachable.step [OF step.IH] by simp
  qed (use step.IH in \<open>auto simp: RASocket_OnAccept_def RASocket_delete_def dropclient_def Let_def split: option.splits if_splits\<close>)
qed

section \<open>Safety\<close>

lemma ra_line_returns: "ra_stage s \<noteq> OK \<Longrightarrow> ra_line C a s c \<noteq> Inl e"
  by (cases "ra_stage s") (simp_all add: ra_line_def Let_def split: option.split)

lemma OnRead_returns:
  assumes "console_ok C c" "co_sockets c a = Some s" "ra_stage s \<noteq> OK"
  shows "RASocket_OnRead C a inp c \<noteq> Inl e"
proof -
  have s: "socket_ok C s" using assms(1,2) by (simp add: console_ok_def sockets_ok_def)
  show ?thesis
    by (cases rule: OnRead_cases [where C = C and inp = inp, OF assms(2) s, case_names drop part line])
      (use assms(3) in \<open>simp_all add: ra_line_returns\<close>)
qed

text \<open>C18: at the remote console at most one administrator is logged in, the one the output of commands goes to, with an account of
  the required level. Whatever bytes come over a connection, only this administrator's change the world, and
  nobody else's make the server fail; and the world stays one the rest of the development is about.\<close>

theorem remote_admin_safe:
  assumes "admin_reachable C c"
  shows "world_reachable (co_world c) \<and> (\<forall>a \<in> admins c. a = co_r c \<and> co_users c = 1) \<and>
    (\<forall>a \<in> admins c. \<exists>s. co_sockets c a = Some s \<and> may_login C (ra_szLogin s) (ra_szPass s)) \<and>
    (\<forall>a inp c'. RASocket_OnRead C a inp c = Inr c' \<longrightarrow> a \<notin> admins c \<longrightarrow> co_world c' = co_world c) \<and>
    (\<forall>a s inp e. co_sockets c a = Some s \<longrightarrow> a \<notin> admins c \<longrightarrow> RASocket_OnRead C a inp c \<noteq> Inl e)"
proof -
  have ok: "console_ok C c" by (rule reachable_ok [OF assms])
  then have "\<forall>a \<in> admins c. a = co_r c \<and> co_users c = 1" by (auto simp: console_ok_def one_admin_def split: if_splits)
  moreover have "\<forall>a \<in> admins c. \<exists>s. co_sockets c a = Some s \<and> may_login C (ra_szLogin s) (ra_szPass s)"
    using ok by (fastforce simp: console_ok_def sockets_ok_def socket_ok_def admins_def)
  moreover have "co_world c' = co_world c" if "RASocket_OnRead C a inp c = Inr c'" "a \<notin> admins c" for a inp c'
    using OnRead_ok [OF ok that(1)] that(2) by blast
  moreover have "RASocket_OnRead C a inp c \<noteq> Inl e" if "co_sockets c a = Some s" "a \<notin> admins c" for a s inp e
    by (rule OnRead_returns [OF ok that(1)]) (use that in \<open>auto simp: admins_def\<close>)
  ultimately show ?thesis using admin_world [OF assms] by blast
qed

section \<open>Logging in\<close>

lemma c_str_append: "0 \<notin> set xs \<Longrightarrow> c_str (xs @ ys) = xs @ c_str ys"
  unfolding c_str_def by (rule takeWhile_append2) auto

text \<open>C19: a connection becomes the administrator's only by a line \<open>PASS\<close> with the password of the account named before, while nobody
  else is logged in.\<close>

theorem login_needs_password:
  assumes "admin_reachable C c" "RASocket_OnRead C a inp c = Inr c'" "a \<notin> admins c" "a \<in> admins c'"
  shows "co_users c = 0 \<and> (\<exists>s. co_sockets c a = Some s \<and> may_login C (ra_szLogin s) (ra_szPass s) \<and>
    c_str (take (ra_iInputLength s) (ra_buff s) @ takeWhile (\<lambda>b. b \<noteq> 13 \<and> b \<noteq> 10) inp) =
      string_bytes ''PASS '' @ c_str (ra_szPass s))"
proof -
  obtain s where s: "co_sockets c a = Some s" using assms(2) by (cases "co_sockets c a") (simp_all add: RASocket_OnRead_def)
  have ok: "socket_ok C s" using reachable_ok [OF assms(1)] s by (simp add: console_ok_def sockets_ok_def)
  have no: "ra_stage s \<noteq> OK" using assms(3) s by (simp add: admins_def)
  show ?thesis
  proof (cases rule: OnRead_cases [where C = C and inp = inp, OF s ok, case_names drop part line])
    case (drop c1)
    then show ?thesis using assms(2-4) no
      by (auto simp: dropclient_def admins_put)
  next
    case (part buff n)
    then show ?thesis using assms(2-4) no by (auto simp: admins_put)
  next
    case (line buff)
    let ?s = "s\<lparr>ra_buff := buff, ra_iInputLength := 0\<rparr>"
    have run: "ra_line C a ?s c = Inr c'" using line(1) assms(2) by simp
    have keep: "a \<notin> admins (refuse a t m c)" "a \<notin> admins (put_socket a t c)" if "ra_stage t \<noteq> OK" for t m
      using that by (simp_all add: refuse_def admins_put)
    have stage: "ra_stage s = LG"
    proof (rule ccontr)
      assume "ra_stage s \<noteq> LG"
      then have "ra_stage ?s = NONE" using no by (cases "ra_stage s") simp_all
      then show False using run keep assms(4)
        by (auto simp: ra_line_def Let_def split: if_splits option.splits)
    qed
    then have "take 5 buff = string_bytes ''PASS ''" "c_str (drop 5 buff) = c_str (ra_szPass s)"
      using run keep [of ?s] keep [of "?s\<lparr>ra_closing := True\<rparr>"] assms(4) by (auto simp: ra_line_def Let_def split: if_splits)
    moreover have "0 \<notin> set (string_bytes ''PASS '')" by (simp add: string_bytes_def)
    ultimately have "c_str (take 5 buff @ drop 5 buff) = string_bytes ''PASS '' @ c_str (ra_szPass s)"
      using c_str_append [of "take 5 buff" "drop 5 buff"] by metis
    then have "c_str buff = string_bytes ''PASS '' @ c_str (ra_szPass s)" unfolding append_take_drop_id .
    then show ?thesis using s ok stage line(3) line(4) no by (simp add: socket_ok_def)
  qed
qed

text \<open>A whole line at once.\<close>

lemma OnRead_line:
  assumes "co_sockets c a = Some s" "socket_ok C s" "ra_iInputLength s = 0" "ra_stage s \<noteq> OK \<Longrightarrow> co_users c = 0"
    and "ra_stage s = NONE \<Longrightarrow> take 5 line = string_bytes ''USER ''" "set line \<inter> {10, 13} = {}" "length line + 2 < RA_BUFF_SIZE"
    and "5 \<le> length line"
  obtains rest where "RASocket_OnRead C a (line @ [13, 10]) c = ra_line C a (s\<lparr>ra_buff := line @ 0 # rest, ra_iInputLength := 0\<rparr>) c"
    "length (line @ 0 # rest) = RA_BUFF_SIZE"
proof -
  have n: "length (ra_buff s) = RA_BUFF_SIZE" using assms(2) by (simp add: socket_ok_def)
  have tw: "takeWhile (\<lambda>b. b \<noteq> 13 \<and> b \<noteq> 10) (line @ [13, 10]) = line"
    using assms(6) by (subst takeWhile_append2) auto
  have "drop (length line) (ra_buff s) \<noteq> []" using assms(7) n by simp
  then obtain b rest where rest: "drop (length line) (ra_buff s) = b # rest" by (cases "drop (length line) (ra_buff s)") blast+
  have "length (ra_buff s) - length line = Suc (length rest)" using arg_cong [OF rest, of length] unfolding length_drop by simp
  then have len: "length (line @ 0 # rest) = RA_BUFF_SIZE" using n assms(7) by simp
  have "RASocket_OnRead C a (line @ [13, 10]) c = ra_line C a (s\<lparr>ra_buff := line @ 0 # rest, ra_iInputLength := 0\<rparr>) c"
    using assms n tw rest by (auto simp: RASocket_OnRead_def Let_def list_update_append)
  then show thesis using that len by blast
qed

lemma login_runs:
  assumes "admin_reachable C c" "co_users c = 0" "co_sockets c a = None" "may_login C name pass"
    and "set name \<inter> {0, 10, 13} = {}" "set pass \<inter> {0, 10, 13} = {}" "length name < 1017" "length pass < 1017"
  shows "\<exists>c1 c2. RASocket_OnRead C a (string_bytes ''USER '' @ name @ [13, 10]) (RASocket_OnAccept C a c) = Inr c1 \<and>
    RASocket_OnRead C a (string_bytes ''PASS '' @ pass @ [13, 10]) c1 = Inr c2 \<and> admins c1 = {} \<and>
    admins c2 = {a} \<and> co_r c2 = a \<and> co_world c2 = co_world c"
proof -
  have user: "length (string_bytes ''USER '') = 5" "length (string_bytes ''PASS '') = 5"
    "set (string_bytes ''USER '') \<inter> {0, 10, 13} = {}" "set (string_bytes ''PASS '') \<inter> {0, 10, 13} = {}"
    by (simp_all add: string_bytes_def)
  have str: "c_str (bs @ 0 # r) = bs" if "set bs \<inter> {0, 10, 13} = {}" for bs r
    using that c_str_append [of bs "0 # r"] by (auto simp: c_str_def)
  obtain g where account: "rc_account C name = Some (pass, g)" "\<not> g < ucast (ucast (rc_minLevel C) :: u8)"
    using assms(4) by (auto simp: may_login_def)
  let ?s = "new_socket C (co_session c)" let ?c0 = "RASocket_OnAccept C a c"
  have s: "co_sockets ?c0 a = Some ?s" "co_users ?c0 = 0" "co_world ?c0 = co_world c"
    using assms(2) by (simp_all add: RASocket_OnAccept_def Let_def put_socket_def)
  have new: "socket_ok C ?s" "ra_iInputLength ?s = 0" "ra_stage ?s = NONE" "ra_iMinLevel ?s = ucast (rc_minLevel C)"
    by (simp_all add: new_socket_def socket_ok_def RA_BUFF_SIZE_def)
  obtain r1 where r1: "RASocket_OnRead C a ((string_bytes ''USER '' @ name) @ [13, 10]) ?c0 =
      ra_line C a (?s\<lparr>ra_buff := (string_bytes ''USER '' @ name) @ 0 # r1, ra_iInputLength := 0\<rparr>) ?c0"
    "length ((string_bytes ''USER '' @ name) @ 0 # r1) = RA_BUFF_SIZE"
    by (rule OnRead_line [OF s(1) new(1,2), where line = "string_bytes ''USER '' @ name"])
      (use s user assms(5,7) in \<open>auto simp: RA_BUFF_SIZE_def\<close>)
  let ?s1 = "?s\<lparr>ra_buff := string_bytes ''USER '' @ name @ 0 # r1, ra_iInputLength := 0, ra_szLogin := name, ra_szPass := pass, ra_stage := LG\<rparr>"
  let ?c1 = "put_socket a ?s1 ?c0"
  have one: "RASocket_OnRead C a (string_bytes ''USER '' @ name @ [13, 10]) ?c0 = Inr ?c1"
    using r1(1) user new account str [OF assms(5)] by (simp add: ra_line_def Let_def)
  have s1: "co_sockets ?c1 a = Some ?s1" "socket_ok C ?s1" "ra_iInputLength ?s1 = 0" "co_users ?c1 = 0"
    using new r1(2) assms(4) s(2) by (simp_all add: put_socket_def socket_ok_def RA_BUFF_SIZE_def)
  obtain r2 where r2: "RASocket_OnRead C a ((string_bytes ''PASS '' @ pass) @ [13, 10]) ?c1 =
      ra_line C a (?s1\<lparr>ra_buff := (string_bytes ''PASS '' @ pass) @ 0 # r2, ra_iInputLength := 0\<rparr>) ?c1"
    by (rule OnRead_line [OF s1(1-3), where line = "string_bytes ''PASS '' @ pass"])
      (use s1 user assms(6,8) in \<open>auto simp: RA_BUFF_SIZE_def\<close>)
  have pass: "c_str pass = pass" using assms(6) by (auto simp: c_str_def takeWhile_eq_all_conv)
  let ?s2 = "?s1\<lparr>ra_buff := string_bytes ''PASS '' @ pass @ 0 # r2, ra_iInputLength := 0, ra_stage := OK\<rparr>"
  let ?c2 = "Sendf a (''+Logged in.'' @ crlf) (put_socket a ?s2 (?c1\<lparr>co_r := a, co_users := co_users ?c1 + 1\<rparr>))"
  have two: "RASocket_OnRead C a (string_bytes ''PASS '' @ pass @ [13, 10]) ?c1 = Inr ?c2"
    using r2 user str [OF assms(6)] pass by (simp add: ra_line_def Let_def)
  have "admins c = {}" using reachable_ok [OF assms(1)] assms(2) by (simp add: console_ok_def one_admin_def)
  then have "admins ?c1 = {}" "admins ?c2 = {a}" by (auto simp: admins_def put_socket_def RASocket_OnAccept_def Let_def assms(2))
  then show ?thesis using one two s(3) by (intro exI [of _ ?c1] exI [of _ ?c2]) simp
qed

text \<open>While nobody is logged in, a client that connects and sends the name and the password of an account of the required
  level becomes the administrator.\<close>

theorem login_succeeds:
  assumes "admin_reachable C c" "co_users c = 0" "co_sockets c a = None" "may_login C name pass"
    and "set name \<inter> {0, 10, 13} = {}" "set pass \<inter> {0, 10, 13} = {}" "length name < 1017" "length pass < 1017"
  shows "\<exists>c1 c2. RASocket_OnRead C a (string_bytes ''USER '' @ name @ [13, 10]) (RASocket_OnAccept C a c) = Inr c1 \<and>
    RASocket_OnRead C a (string_bytes ''PASS '' @ pass @ [13, 10]) c1 = Inr c2 \<and>
    admins c2 = {a} \<and> co_r c2 = a \<and> co_world c2 = co_world c"
  using login_runs [OF assms] by blast

text \<open>An account with a password of one letter, and a client that logs in.\<close>

definition sample_config :: ra_config where
  "sample_config = \<lparr>rc_secure = True, rc_minLevel = 3, rc_motd = ''Welcome'', rc_version = ''0.1'',
     rc_account = [[98, 111, 98] \<mapsto> ([115], 3)]\<rparr>"

lemma sample_may_login: "may_login sample_config [98, 111, 98] [115]"
  by (simp add: may_login_def sample_config_def)

lemma sample_start: "admin_reachable sample_config (new_console (new_world 0))"
  by (intro admin_reachable.start world_reachable.start)

lemma sample_login:
  "\<exists>c1 c2. admin_reachable sample_config c1 \<and> admin_reachable sample_config c2 \<and> admins c1 = {} \<and> admins c2 = {7} \<and>
    RASocket_OnRead sample_config 7 (string_bytes ''PASS '' @ [115] @ [13, 10]) c1 = Inr c2"
proof -
  let ?c = "new_console (new_world 0)" let ?c0 = "RASocket_OnAccept sample_config 7 ?c"
  obtain c1 c2 where runs: "RASocket_OnRead sample_config 7 (string_bytes ''USER '' @ [98, 111, 98] @ [13, 10]) ?c0 = Inr c1"
    "RASocket_OnRead sample_config 7 (string_bytes ''PASS '' @ [115] @ [13, 10]) c1 = Inr c2" "admins c1 = {}" "admins c2 = {7}"
    using login_runs [OF sample_start _ _ sample_may_login, of 7] by (auto simp: new_console_def)
  have "admin_reachable sample_config ?c0"
    by (rule admin_reachable.step [OF sample_start admin_step.accept]) (simp add: new_console_def)
  then have "admin_reachable sample_config c1" by (rule admin_reachable.step [OF _ admin_step.read [OF runs(1)]])
  then have "admin_reachable sample_config c1" "admin_reachable sample_config c2"
    using admin_reachable.step [OF _ admin_step.read [OF runs(2)]] by blast+
  then show ?thesis using runs by blast
qed

theorem login_succeeds_witness:
  "\<exists>c1 c2. RASocket_OnRead sample_config 7 (string_bytes ''USER '' @ [98, 111, 98] @ [13, 10])
      (RASocket_OnAccept sample_config 7 (new_console (new_world 0))) = Inr c1 \<and>
    RASocket_OnRead sample_config 7 (string_bytes ''PASS '' @ [115] @ [13, 10]) c1 = Inr c2 \<and> admins c2 = {7}"
  using login_succeeds [OF sample_start _ _ sample_may_login, of 7] by (auto simp: new_console_def)

theorem remote_admin_safe_witness:
  "\<exists>c s. admin_reachable sample_config c \<and> admins c = {7} \<and> co_r c = 7 \<and> co_users c = 1 \<and>
    co_sockets c 7 = Some s \<and> may_login sample_config (ra_szLogin s) (ra_szPass s)"
proof -
  obtain c where c: "admin_reachable sample_config c" "admins c = {7}" using sample_login by blast
  then show ?thesis using remote_admin_safe [OF c(1)] by auto
qed

theorem login_needs_password_witness:
  "\<exists>c c' s. RASocket_OnRead sample_config 7 (string_bytes ''PASS '' @ [115] @ [13, 10]) c = Inr c' \<and> admins c' = {7} \<and>
    co_users c = 0 \<and> co_sockets c 7 = Some s \<and> may_login sample_config (ra_szLogin s) (ra_szPass s)"
proof -
  obtain c1 c2 where c: "admin_reachable sample_config c1" "admins c1 = {}" "admins c2 = {7}"
    "RASocket_OnRead sample_config 7 (string_bytes ''PASS '' @ [115] @ [13, 10]) c1 = Inr c2"
    using sample_login by blast
  then show ?thesis using login_needs_password [OF c(1,4)] by auto
qed

section \<open>Commands\<close>

lemma digits_value_append:
  "\<forall>c \<in> set xs. of_char c \<in> {48..57 :: nat} \<Longrightarrow> digits_value n (xs @ ys) = digits_value (digits_value n xs) ys"
  by (induction xs arbitrary: n) simp_all

lemma digit_value: "n < 10 \<Longrightarrow> (of_char (char_of (48 + n)) :: int) = 48 + int n"
proof -
  assume "n < 10"
  then have "(of_char (char_of (48 + n)) :: nat) = 48 + n" by simp
  then show ?thesis using of_nat_of_char [of "char_of (48 + n)", where 'a = int] by simp
qed

lemma show_nat_digits: "(\<forall>c \<in> set (show_nat n). of_char c \<in> {48..57 :: nat}) \<and> digits_value 0 (show_nat n) = int n"
proof (induction n rule: show_nat.induct)
  case (1 n)
  show ?case
  proof (cases "n < 10")
    case True
    then show ?thesis by (simp add: show_nat.simps [of n] digit_value)
  next
    case False
    have "int (n div 10) * 10 + int (n mod 10) = int n"
      unfolding zdiv_int zmod_int by (simp add: div_mult_mod_eq)
    moreover have "n mod 10 \<le> 9" using mod_less_divisor [of 10 n] by linarith
    ultimately show ?thesis
      using 1 False digit_value [of "n mod 10"] by (simp add: show_nat.simps [of n] digits_value_append)
  qed
qed

lemma show_nat_Cons: obtains c cs where "show_nat n = c # cs"
  by (cases "show_nat n") (use show_nat.simps [of n] in \<open>auto split: if_splits\<close>)

lemma digit_chars: "of_char c \<in> {48..57 :: nat} \<Longrightarrow> c \<noteq> CHR '' '' \<and> c \<noteq> CHR ''-'' \<and> c \<noteq> CHR ''+'' \<and> \<not> is_space c"
  by (auto simp: is_space_def)

lemma atoi_show: "atoi (show_nat n) = int n" "atoi (''-'' @ show_nat n) = - int n"
proof -
  obtain c cs where c: "show_nat n = c # cs" by (rule show_nat_Cons)
  then have "of_char c \<in> {48..57 :: nat}" using show_nat_digits [of n] by simp
  then show "atoi (show_nat n) = int n" using digit_chars [of c] show_nat_digits [of n] c by (simp add: atoi_def)
  show "atoi (''-'' @ show_nat n) = - int n" using show_nat_digits [of n] by (simp add: atoi_def is_space_def)
qed

lemma show_nat_zero: "show_nat n = ''0'' \<longleftrightarrow> n = 0"
proof -
  have "show_nat 0 = ''0''" by code_simp
  then show ?thesis using atoi_show(1) [of n] atoi_show(1) [of 0] by auto
qed

lemma strtok_args:
  assumes "w \<noteq> []" "CHR '' '' \<notin> set w"
  shows "strtok '' '' w = Some (w, [])" "strtok '' '' (w @ CHR '' '' # rest) = Some (w, rest)"
    "strtok '' '' (replicate k (CHR '' '') @ w @ CHR '' '' # rest) = Some (w, rest)" "strtok '' '' (replicate k (CHR '' '') @ w) = Some (w, [])"
proof -
  have "set w \<inter> set '' '' = {}" using assms(2) by simp
  note word = strtok_word [OF assms(1) this, where d = "CHR '' ''"]
  show "strtok '' '' w = Some (w, [])" "strtok '' '' (w @ CHR '' '' # rest) = Some (w, rest)"
    using word [of "[]"] by simp_all
  show "strtok '' '' (replicate k (CHR '' '') @ w @ CHR '' '' # rest) = Some (w, rest)" "strtok '' '' (replicate k (CHR '' '') @ w) = Some (w, [])"
    using word [of "replicate k (CHR '' '')"] by (auto simp: subset_iff)
qed

lemma show_nat_arg: "show_nat n \<noteq> []" "CHR '' '' \<notin> set (show_nat n)" "CHR '' '' \<notin> set (''-'' @ show_nat n)"
proof -
  show "show_nat n \<noteq> []" by (rule show_nat_Cons [of n]) simp
  show "CHR '' '' \<notin> set (show_nat n)" using show_nat_digits [of n] digit_chars by blast
  then show "CHR '' '' \<notin> set (''-'' @ show_nat n)" by simp
qed

lemma ParseCommand_word:
  assumes "cmd \<in> fst ` set Commands" "rest \<noteq> []"
  shows "ParseCommand v (cmd @ CHR '' '' # rest) w = run_command v cmd rest w"
proof -
  have cmd: "cmd \<noteq> []" "CHR '' '' \<notin> set cmd" using assms(1) by (auto simp: Commands_def)
  then have "takeWhile (\<lambda>c. c = CHR '' '') (cmd @ CHR '' '' # rest) = []" by (cases cmd) auto
  then show ?thesis using assms(1) strtok_args(2) [OF cmd] by (simp add: ParseCommand_def arguments_of_def cut_input_def)
qed

text \<open>With spaces before the command, its arguments are taken from the end of the command.\<close>

lemma ParseCommand_indented:
  assumes "0 < k"
  shows "ParseCommand v (replicate k (CHR '' '') @ ''shutdown '' @ args) w =
    Inr ([''Syntax is: shutdown <seconds|cancel>'' @ crlf], w)"
proof -
  let ?in = "replicate k (CHR '' '') @ ''shutdown '' @ args" let ?cut = "replicate k (CHR '' '') @ ''shutdown''"
  have "takeWhile (\<lambda>c. c = CHR '' '') ?in = replicate k (CHR '' '')"
    by (subst takeWhile_append2) auto
  then have cut: "cut_input ?in ''shutdown'' = ?cut" by (simp add: cut_input_def)
  have tok: "strtok '' '' ?in = Some (''shutdown'', args)" using strtok_args(3) [of "''shutdown''" k args] by simp
  have "ParseCommand v ?in w = CliShutdown (drop 9 ?cut) w"
    using assms tok cut by (simp add: ParseCommand_def Commands_def run_command_def arguments_of_def eval_nat_numeral)
  also have "\<dots> = Inr ([''Syntax is: shutdown <seconds|cancel>'' @ crlf], w)"
  proof (cases "k < 9")
    case True
    then have "k \<in> {1..<9}" using assms by simp
    then have "k \<in> {1, 2, 3, 4, 5, 6, 7, 8}" by auto
    then show ?thesis by (elim insertE emptyE) (simp_all add: CliShutdown_def strtok_def atoi_def is_space_def int_arg_def)
  next
    case False
    then have "drop 9 ?cut = replicate (k - 9) (CHR '' '') @ ''shutdown''" by simp
    moreover have "strtok '' '' \<dots> = Some (''shutdown'', [])" by (rule strtok_args(4)) simp_all
    ultimately show ?thesis by (simp add: CliShutdown_def atoi_def is_space_def int_arg_def)
  qed
  finally show ?thesis .
qed

text \<open>The shutdown commands with a number of seconds announce that shutdown; a negative number is refused, except by
  \<open>idleshutdown\<close>, which takes it as unsigned and announces one in years. A space before the command
  makes its arguments unreadable.\<close>

theorem shutdown_commands:
  assumes "n < 2 ^ 31"
  shows "ParseCommand v (''shutdown '' @ show_nat n) w = Inr ([], ShutdownServ (of_nat n) False w) \<and>
    ParseCommand v (''idleshutdown '' @ show_nat n) w = Inr ([], ShutdownServ (of_nat n) True w) \<and>
    (0 < n \<longrightarrow> ParseCommand v (''shutdown -'' @ show_nat n) w = Inr ([''Syntax is: shutdown <seconds|cancel>'' @ crlf], w)) \<and>
    (0 < n \<longrightarrow> ParseCommand v (''idleshutdown -'' @ show_nat n) w = Inr ([], ShutdownServ (- of_nat n) True w)) \<and>
    (0 < k \<longrightarrow> ParseCommand v (replicate k (CHR '' '') @ ''shutdown '' @ show_nat n) w =
       Inr ([''Syntax is: shutdown <seconds|cancel>'' @ crlf], w))"
proof -
  have parse: "ParseCommand v (cmd @ CHR '' '' # args) w = run_command v cmd args w"
    if "cmd \<in> {''shutdown'', ''idleshutdown''}" "args \<noteq> []" for cmd args
    by (rule ParseCommand_word) (use that in \<open>auto simp: Commands_def\<close>)
  have tok: "strtok '' '' (show_nat n) = Some (show_nat n, [])" "strtok '' '' (''-'' @ show_nat n) = Some (''-'' @ show_nat n, [])"
    by (rule strtok_args(1), simp_all add: show_nat_arg)+
  have neq: "show_nat n \<noteq> ''cancel''" "''-'' @ show_nat n \<noteq> ''cancel''"
    using atoi_show(1) [of n] show_nat_digits [of n] by auto
  have int: "int_arg (show_nat n) = Inr (int n)" "int_arg (''-'' @ show_nat n) = Inr (- int n)"
    using assms atoi_show by (simp_all add: int_arg_def)
  have word: "(of_nat n :: u32) = 0 \<longleftrightarrow> n = 0" using assms by (auto simp: word_of_nat_eq_0_iff dest!: dvd_imp_le)
  show ?thesis
    using parse [of "''shutdown''" "show_nat n"] parse [of "''idleshutdown''" "show_nat n"]
      parse [of "''shutdown''" "''-'' @ show_nat n"] parse [of "''idleshutdown''" "''-'' @ show_nat n"]
      tok neq int word show_nat_zero [of n] show_nat_arg(1) [of n] ParseCommand_indented [of k v "show_nat n" w]
    by (simp add: run_command_def CliShutdown_def CliIdleShutdown_def Let_def) linarith
qed

theorem shutdown_commands_witness:
  "ParseCommand ''0.1'' (''shutdown '' @ show_nat 5) (new_world 0) = Inr ([], ShutdownServ 5 False (new_world 0)) \<and>
    ParseCommand ''0.1'' (''idleshutdown -'' @ show_nat 5) (new_world 0) = Inr ([], ShutdownServ (- 5) True (new_world 0)) \<and>
    ParseCommand ''0.1'' (replicate 2 (CHR '' '') @ ''shutdown '' @ show_nat 5) (new_world 0) =
      Inr ([''Syntax is: shutdown <seconds|cancel>'' @ crlf], new_world 0)"
  using shutdown_commands [of 5 "''0.1''" "new_world 0" 2] by simp

end
