(* ===== verification/Linked_Chain.thy ===== *)
theory Linked_Chain
  imports Nox_Prelude
begin

text \<open>
  Singly linked lists in memory. A store maps addresses to nodes; \<open>chain\<close> says which addresses the pointers pass from one
  pointer to another. What a class stores in a node is its own: the locale \<open>linked\<close> states what the lemmas need of it, a
  field for the next node that can be read and set.
\<close>

text \<open>Reading a node that has been deleted is a fault.\<close>

definition node_at :: "(nat \<Rightarrow> 'n option) \<Rightarrow> nat \<Rightarrow> 'n res" where
  "node_at h a = (case h a of None \<Rightarrow> Inl Dangling | Some n \<Rightarrow> Inr n)"

section \<open>Chains\<close>

locale linked =
  fixes next_of :: "'n \<Rightarrow> nat option"
    and set_next :: "nat option \<Rightarrow> 'n \<Rightarrow> 'n"
  assumes next_set [simp]: "next_of (set_next p n) = p"
    and set_set [simp]: "set_next p (set_next q n) = set_next p n"
begin

fun chain :: "(nat \<Rightarrow> 'n option) \<Rightarrow> nat option \<Rightarrow> nat list \<Rightarrow> nat option \<Rightarrow> bool" where
  "chain h p [] q \<longleftrightarrow> p = q"
| "chain h p (a # as) q \<longleftrightarrow> p = Some a \<and> (\<exists>n. h a = Some n \<and> chain h (next_of n) as q)"

lemma chain_append: "chain h p (as @ bs) q \<longleftrightarrow> (\<exists>r. chain h p as r \<and> chain h r bs q)"
  by (induction as arbitrary: p) auto

lemma chain_snoc: "chain h p (as @ [a]) q \<longleftrightarrow> chain h p as (Some a) \<and> (\<exists>n. h a = Some n \<and> next_of n = q)"
  by (auto simp: chain_append)

lemma chain_frame: "a \<notin> set as \<Longrightarrow> chain (h(a := x)) p as q = chain h p as q"
  by (induction as arbitrary: p) auto

lemma chain_eq: "(\<And>a. a \<in> set as \<Longrightarrow> h' a = h a) \<Longrightarrow> chain h' p as q = chain h p as q"
  by (induction as arbitrary: p) auto

lemma chain_same_next:
  "(\<And>a. a \<in> set as \<Longrightarrow> map_option next_of (h' a) = map_option next_of (h a)) \<Longrightarrow> chain h' p as q = chain h p as q"
proof (induction as arbitrary: p)
  case (Cons a as)
  have IH: "chain h' r as q = chain h r as q" for r using Cons by simp
  have "map_option next_of (h' a) = map_option next_of (h a)" using Cons.prems by simp
  then show ?case by (cases "h a"; cases "h' a") (simp_all add: IH)
qed simp

lemma chain_alive: "chain h p as q \<Longrightarrow> a \<in> set as \<Longrightarrow> h a \<noteq> None"
  by (induction as arbitrary: p) auto

lemma chain_Nil_iff [simp]: "chain h None as None \<longleftrightarrow> as = []"
  by (cases as) auto

lemma chain_first: "chain h p as None \<Longrightarrow> p = (case as of [] \<Rightarrow> None | a # _ \<Rightarrow> Some a)"
  by (cases as) auto

lemma chain_unique: "chain h p as None \<Longrightarrow> chain h p bs None \<Longrightarrow> as = bs"
proof (induction as arbitrary: p bs)
  case (Cons a as)
  then show ?case by (cases bs) auto
qed (use chain_Nil_iff in auto)

lemma chain_distinct: "chain h p as None \<Longrightarrow> distinct as"
proof (induction as arbitrary: p)
  case (Cons a as)
  then obtain n where n: "h a = Some n" "chain h (next_of n) as None" by auto
  have "a \<notin> set as"
  proof
    assume "a \<in> set as"
    then obtain bs cs where as: "as = bs @ a # cs" by (auto dest: split_list)
    then have "chain h (Some a) (a # cs) None" using n(2) by (auto simp: chain_append)
    moreover have "chain h (Some a) (a # as) None" using Cons.prems n by simp
    ultimately have "a # cs = a # as" by (rule chain_unique)
    then show False using as by simp
  qed
  then show ?case using Cons.IH [OF n(2)] by simp
qed simp

text \<open>A new node behind one of the chain.\<close>

lemma chain_insert:
  assumes "chain h p (as @ a # bs) None" "h a = Some n" "b \<notin> set (as @ a # bs)"
  shows "chain (h(b \<mapsto> set_next (next_of n) m, a \<mapsto> set_next (Some b) n)) p (as @ a # b # bs) None"
proof -
  have d: "distinct (as @ a # bs)" by (rule chain_distinct [OF assms(1)])
  have ab: "a \<noteq> b" using assms(3) by auto
  have parts: "chain h p as (Some a)" "chain h (next_of n) bs None" using assms(1,2) by (auto simp: chain_append)
  let ?h = "h(b \<mapsto> set_next (next_of n) m, a \<mapsto> set_next (Some b) n)"
  have "chain ?h p as (Some a)" "chain ?h (next_of n) bs None"
    using parts d assms(3) by (simp_all add: chain_frame)
  then show ?thesis using ab by (simp add: chain_append)
qed

text \<open>A node taken out of the chain behind another one.\<close>

lemma chain_unlink:
  assumes "chain h p (as @ a # b # bs) None" "h a = Some n" "h b = Some m"
  shows "chain (h(a \<mapsto> set_next (next_of m) n, b := None)) p (as @ a # bs) None"
proof -
  have d: "distinct (as @ a # b # bs)" by (rule chain_distinct [OF assms(1)])
  have parts: "chain h p as (Some a)" "chain h (next_of m) bs None" using assms by (auto simp: chain_append)
  let ?h = "h(a \<mapsto> set_next (next_of m) n, b := None)"
  have "chain ?h p as (Some a)" "chain ?h (next_of m) bs None"
    using parts d by (simp_all add: chain_frame)
  then show ?thesis using d by (simp add: chain_append)
qed

text \<open>The first node taken off.\<close>

lemma chain_tail:
  assumes "chain h (Some a) (a # as) None" "h a = Some n"
  shows "chain (h(a := None)) (next_of n) as None"
  using assms chain_distinct [OF assms(1)] by (simp add: chain_frame)

text \<open>What the nodes hold, without their pointers.\<close>

definition contents :: "(nat \<Rightarrow> 'n option) \<Rightarrow> nat list \<Rightarrow> 'n list" where
  "contents h as = map (\<lambda>a. set_next None (the (h a))) as"

lemma contents_simps [simp]:
  "contents h [] = []" "contents h (a # as) = set_next None (the (h a)) # contents h as"
  "contents h (as @ bs) = contents h as @ contents h bs" "length (contents h as) = length as"
  by (simp_all add: contents_def)

lemma contents_frame: "a \<notin> set as \<Longrightarrow> contents (h(a := x)) as = contents h as"
  by (auto simp: contents_def)

lemma contents_eq: "(\<And>a. a \<in> set as \<Longrightarrow> h' a = h a) \<Longrightarrow> contents h' as = contents h as"
  by (simp add: contents_def)

text \<open>Several lists with nodes below an address, none of them shared.\<close>

definition lists :: "(nat \<Rightarrow> 'n option) \<Rightarrow> ('q \<Rightarrow> nat option) \<Rightarrow> nat \<Rightarrow> ('q \<Rightarrow> nat list) \<Rightarrow> bool" where
  "lists h heads k Q \<longleftrightarrow> (\<forall>q. chain h (heads q) (Q q) None \<and> (\<forall>a \<in> set (Q q). a < k)) \<and>
     (\<forall>q q'. q \<noteq> q' \<longrightarrow> set (Q q) \<inter> set (Q q') = {})"

definition holds :: "(nat \<Rightarrow> 'n option) \<Rightarrow> ('q \<Rightarrow> nat option) \<Rightarrow> nat \<Rightarrow> ('q \<Rightarrow> 'n list) \<Rightarrow> bool" where
  "holds h heads k X \<longleftrightarrow> (\<exists>Q. lists h heads k Q \<and> (\<forall>q. X q = contents h (Q q)))"

lemma holds_more: "holds h heads k X \<Longrightarrow> k \<le> k' \<Longrightarrow> holds h heads k' X"
  unfolding holds_def lists_def by (meson order_less_le_trans)

lemma holds_unique: "holds h heads k X \<Longrightarrow> holds h heads k Y \<Longrightarrow> X = Y"
  unfolding holds_def lists_def using chain_unique by (metis ext)

lemma holds_frame: "holds h heads k X \<Longrightarrow> k \<le> a \<Longrightarrow> holds (h(a := x)) heads k X"
proof -
  assume a: "holds h heads k X" "k \<le> a"
  then obtain Q where Q: "lists h heads k Q" "\<forall>q. X q = contents h (Q q)" by (auto simp: holds_def)
  have "a \<notin> set (Q q)" for q using Q(1) a(2) unfolding lists_def by (metis leD)
  then show ?thesis using Q unfolding holds_def by (intro exI [of _ Q]) (simp add: lists_def chain_frame contents_frame)
qed

text \<open>A change of one list leaves the others as they are.\<close>

lemma lists_change:
  assumes "lists h heads k Q" "\<And>b. b \<notin> set (Q q) \<Longrightarrow> b < k \<Longrightarrow> h' b = h b"
    and "chain h' p as None" "set as \<subseteq> set (Q q) \<union> {k..<k'}" "k \<le> k'"
  shows "lists h' (heads(q := p)) k' (Q(q := as)) \<and> (\<forall>r. r \<noteq> q \<longrightarrow> contents h' (Q r) = contents h (Q r))"
proof -
  have other: "\<forall>a \<in> set (Q r). h' a = h a" if "r \<noteq> q" for r
    using assms(1,2) that by (fastforce simp: lists_def)
  have "chain h' (heads r) (Q r) None \<and> contents h' (Q r) = contents h (Q r)" if "r \<noteq> q" for r
    using assms(1) other [OF that] chain_eq [of "Q r" h' h] contents_eq [of "Q r" h' h] by (simp add: lists_def)
  moreover have "a < k'" if "a \<in> set (Q r)" for a r using assms(1,5) that by (fastforce simp: lists_def)
  moreover have "a < k'" if "a \<in> set as" for a using assms(1,4,5) that by (fastforce simp: lists_def)
  moreover have "set as \<inter> set (Q r) = {} \<and> set (Q r) \<inter> set as = {}" if "r \<noteq> q" for r
  proof -
    have "set (Q q) \<inter> set (Q r) = {}" "\<forall>a \<in> set (Q r). a < k" using assms(1) that by (auto simp: lists_def)
    then show ?thesis using assms(4) by fastforce
  qed
  ultimately show ?thesis using assms(1,3) by (auto simp: lists_def)
qed

lemma holds_change:
  assumes "lists h heads k Q" "\<And>r. X r = contents h (Q r)" "\<And>b. b \<notin> set (Q q) \<Longrightarrow> b < k \<Longrightarrow> h' b = h b"
    and "chain h' p as None" "set as \<subseteq> set (Q q) \<union> {k..<k'}" "k \<le> k'"
  shows "holds h' (heads(q := p)) k' (X(q := contents h' as))"
  using lists_change [OF assms(1,3-6)] assms(2) unfolding holds_def by (intro exI [of _ "Q(q := as)"]) auto

end

end
