(* ===== verification/Event_System.thy ===== *)
theory Event_System
  imports Linked_Chain
begin

text \<open>
  The timers of \<open>shared/EventSystem.cpp\<close>: three queues of events that run once, kept by their time, and three lists of periodic ones, for delays
  of up to a minute, an hour and more. The code has one copy of every function per queue; here the queue is an argument. Each list
  has a thread that looks at it every \<open>ES_RESOLUTION\<close> milliseconds, or 30 or 1800 times that: a turn of it is a step here, and so is every
  call from outside. What the locks between them do is in \<open>Event_Locks\<close>.

  Nodes are in a store; a handler is a number, and calling it is noted in \<open>es_started\<close>, with whether it got a thread of its own. What a
  handler does to the lists are steps of their own. The clock is an argument, a number of milliseconds that wraps around.
\<close>

section \<open>State\<close>

datatype timer_list = MS | S | M

record event =
  ev_handler :: nat
  ev_param :: nat
  ev_time :: u32
  ev_st :: bool
  ev_pNext :: "nat option"

record periodic_event =
  pv_handler :: nat
  pv_param :: nat
  pv_time :: u32
  pv_st :: bool
  pv_id :: u32
  pv_period :: u32
  pv_pNext :: "nat option"

record event_system =
  es_Events :: "timer_list \<Rightarrow> nat option"
  es_PEvents :: "timer_list \<Rightarrow> nat option"
  es_nodes :: "nat \<Rightarrow> event option"
  es_pnodes :: "nat \<Rightarrow> periodic_event option"
  es_fresh :: nat
  es_eventid :: u32
  es_avalabelid :: u32
  es_started :: "(nat \<times> nat \<times> bool) list"

definition no_events :: event_system where
  "no_events = \<lparr>es_Events = \<lambda>_. None, es_PEvents = \<lambda>_. None, es_nodes = \<lambda>_. None, es_pnodes = \<lambda>_. None, es_fresh = 0,
     es_eventid = 0, es_avalabelid = 0, es_started = []\<rparr>"

section \<open>Events that run once\<close>

text \<open>The node a new event of time \<open>t\<close> goes behind: \<open>while(pos->pNext && pos->pNext->time <= event->time)\<close>.\<close>

partial_function (option) push_pos :: "(nat \<Rightarrow> event option) \<Rightarrow> u32 \<Rightarrow> nat \<Rightarrow> nat res option" where
  [code]: "push_pos h t pos =
     obind (Some (node_at h pos)) (\<lambda>n.
     case ev_pNext n of
       None \<Rightarrow> Some (Inr pos)
     | Some p \<Rightarrow> obind (Some (node_at h p)) (\<lambda>m. if ev_time m \<le> t then push_pos h t p else Some (Inr pos)))"

definition PushEvent :: "timer_list \<Rightarrow> nat \<Rightarrow> event_system \<Rightarrow> event_system res option" where
  "PushEvent q a es =
     obind (Some (node_at (es_nodes es) a)) (\<lambda>e.
     case es_Events es q of
       None \<Rightarrow> Some (Inr (es\<lparr>es_nodes := (es_nodes es)(a \<mapsto> e\<lparr>ev_pNext := None\<rparr>), es_Events := (es_Events es)(q \<mapsto> a)\<rparr>))
     | Some pos \<Rightarrow>
         obind (push_pos (es_nodes es) (ev_time e) pos) (\<lambda>pos.
         obind (Some (node_at (es_nodes es) pos)) (\<lambda>n.
         Some (Inr (es\<lparr>es_nodes := (es_nodes es)(a \<mapsto> e\<lparr>ev_pNext := ev_pNext n\<rparr>, pos \<mapsto> n\<lparr>ev_pNext := Some a\<rparr>)\<rparr>)))))"

definition list_for :: "u32 \<Rightarrow> timer_list" where
  "list_for timer = (if timer \<le> 60000 then MS else if timer \<le> 3600000 then S else M)"

definition new_event :: "nat \<Rightarrow> nat \<Rightarrow> u32 \<Rightarrow> bool \<Rightarrow> u32 \<Rightarrow> event" where
  "new_event func param timer st now =
     \<lparr>ev_handler = func, ev_param = param, ev_time = now + timer, ev_st = st, ev_pNext = None\<rparr>"

definition add_periodic :: "nat \<Rightarrow> nat \<Rightarrow> u32 \<Rightarrow> bool \<Rightarrow> u32 \<Rightarrow> event_system \<Rightarrow> u32 \<times> event_system" where
  "add_periodic func param timer st now es =
     (let es = (if es_avalabelid es = 0 then es\<lparr>es_eventid := es_eventid es + 1, es_avalabelid := es_eventid es + 1\<rparr> else es);
          q = list_for timer; a = es_fresh es; useid = es_avalabelid es;
          e = \<lparr>pv_handler = func, pv_param = param, pv_time = now + timer, pv_st = st, pv_id = useid, pv_period = timer,
               pv_pNext = es_PEvents es q\<rparr>
      in (useid, es\<lparr>es_pnodes := (es_pnodes es)(a \<mapsto> e), es_PEvents := (es_PEvents es)(q \<mapsto> a), es_fresh := a + 1,
                    es_avalabelid := 0\<rparr>))"

definition AddEvent :: "nat \<Rightarrow> nat \<Rightarrow> u32 \<Rightarrow> bool \<Rightarrow> bool \<Rightarrow> u32 \<Rightarrow> event_system \<Rightarrow> (u32 \<times> event_system) res option" where
  "AddEvent func param timer separate_thread bPeriodic now es =
     (if bPeriodic then Some (Inr (add_periodic func param timer separate_thread now es))
      else let a = es_fresh es
           in obind (PushEvent (list_for timer) a
                (es\<lparr>es_nodes := (es_nodes es)(a \<mapsto> new_event func param timer separate_thread now), es_fresh := a + 1\<rparr>))
                (\<lambda>es. Some (Inr (0, es))))"

text \<open>One turn of \<open>msThread\<close>, \<open>sThread\<close> or \<open>mThread\<close>.\<close>

partial_function (option) event_turn :: "timer_list \<Rightarrow> u32 \<Rightarrow> event_system \<Rightarrow> event_system res option" where
  [code]: "event_turn q cur es =
     (case es_Events es q of
        None \<Rightarrow> Some (Inr es)
      | Some pos \<Rightarrow>
          obind (Some (node_at (es_nodes es) pos)) (\<lambda>n.
          if cur \<ge> ev_time n then
            event_turn q cur
              (es\<lparr>es_started := es_started es @ [(ev_handler n, ev_param n, ev_st n)],
                  es_Events := (es_Events es)(q := ev_pNext n), es_nodes := (es_nodes es)(pos := None)\<rparr>)
          else Some (Inr es)))"

section \<open>Periodic events\<close>

text \<open>The event of a list with an id, and the one before it.\<close>

partial_function (option) find_periodic ::
    "(nat \<Rightarrow> periodic_event option) \<Rightarrow> u32 \<Rightarrow> nat option \<Rightarrow> nat option \<Rightarrow> (nat option \<times> nat) option res option" where
  [code]: "find_periodic h eventid prev pos =
     (if pos = None then Some (Inr None)
      else obind (Some (node_at h (the pos))) (\<lambda>n.
           if pv_id n = eventid then Some (Inr (Some (prev, the pos))) else find_periodic h eventid pos (pv_pNext n)))"

text \<open>Taking it out of the list; its id is used again for the next one.\<close>

definition unlink_periodic :: "timer_list \<Rightarrow> u32 \<Rightarrow> nat option \<Rightarrow> nat \<Rightarrow> event_system \<Rightarrow> event_system res" where
  "unlink_periodic q eventid prev pos es =
     rbind (node_at (es_pnodes es) pos) (\<lambda>n.
     rmap (\<lambda>es. es\<lparr>es_pnodes := (es_pnodes es)(pos := None),
                   es_avalabelid := (if es_avalabelid es = 0 then eventid else es_avalabelid es)\<rparr>)
       (case prev of
          Some b \<Rightarrow> rmap (\<lambda>m. es\<lparr>es_pnodes := (es_pnodes es)(b \<mapsto> m\<lparr>pv_pNext := pv_pNext n\<rparr>)\<rparr>) (node_at (es_pnodes es) b)
        | None \<Rightarrow> Inr (es\<lparr>es_PEvents := (es_PEvents es)(q := pv_pNext n)\<rparr>)))"

fun remove_from :: "timer_list list \<Rightarrow> u32 \<Rightarrow> event_system \<Rightarrow> event_system res option" where
  "remove_from [] eventid es = Some (Inr es)"
| "remove_from (q # qs) eventid es =
     obind (find_periodic (es_pnodes es) eventid None (es_PEvents es q)) (\<lambda>r.
     case r of
       None \<Rightarrow> remove_from qs eventid es
     | Some (prev, pos) \<Rightarrow> Some (unlink_periodic q eventid prev pos es))"

definition RemovePeriodicEvent :: "u32 \<Rightarrow> event_system \<Rightarrow> event_system res option" where
  "RemovePeriodicEvent eventid es = remove_from [MS, S, M] eventid es"

text \<open>One turn of \<open>mspThread\<close>, \<open>spThread\<close> or \<open>mpThread\<close>, from \<open>ppos\<close> on.\<close>

partial_function (option) periodic_loop :: "u32 \<Rightarrow> nat option \<Rightarrow> event_system \<Rightarrow> event_system res option" where
  [code]: "periodic_loop cur ppos es =
     (if ppos = None then Some (Inr es)
      else obind (Some (node_at (es_pnodes es) (the ppos))) (\<lambda>n.
           periodic_loop cur (pv_pNext n)
             (if cur \<ge> pv_time n
              then es\<lparr>es_started := es_started es @ [(pv_handler n, pv_param n, pv_st n)],
                      es_pnodes := (es_pnodes es)(the ppos \<mapsto> n\<lparr>pv_time := cur + pv_period n\<rparr>)\<rparr>
              else es)))"

definition periodic_turn :: "timer_list \<Rightarrow> u32 \<Rightarrow> event_system \<Rightarrow> event_system res option" where
  "periodic_turn q cur es = periodic_loop cur (es_PEvents es q) es"

section \<open>The time between turns\<close>

definition ES_RESOLUTION :: u32 where "ES_RESOLUTION = 33"

definition resolution :: "timer_list \<Rightarrow> u32" where
  "resolution q = (case q of MS \<Rightarrow> ES_RESOLUTION | S \<Rightarrow> ES_RESOLUTION * 30 | M \<Rightarrow> ES_RESOLUTION * 30 * 60)"

text \<open>What a thread sleeps after a turn that began at \<open>cur\<close>.\<close>

definition sleep_time :: "timer_list \<Rightarrow> u32 \<Rightarrow> u32 \<Rightarrow> u32" where
  "sleep_time q cur now = resolution q - (now - cur)"

end
