(* ===== verification/Event_Queues.thy ===== *)
theory Event_Queues
  imports Event_System
begin

text \<open>
  The queues of the event system as lists: every operation returns, leaves well-formed lists in memory and changes their contents
  as a plain function on lists says. From that: no event is started before its time, none is lost or started twice, one may be late by as
  much as the first of its queue is in the future, and the ids of periodic events are unique.
\<close>

section \<open>Lists in memory\<close>

interpretation evs: linked ev_pNext "\<lambda>p n. n\<lparr>ev_pNext := p\<rparr>"
  by unfold_locales simp_all

interpretation pvs: linked pv_pNext "\<lambda>p n. n\<lparr>pv_pNext := p\<rparr>"
  by unfold_locales simp_all

definition queues :: "event_system \<Rightarrow> (timer_list \<Rightarrow> event list) \<Rightarrow> bool" where
  "queues es X \<longleftrightarrow> evs.holds (es_nodes es) (es_Events es) (es_fresh es) X"

definition periodics :: "event_system \<Rightarrow> (timer_list \<Rightarrow> periodic_event list) \<Rightarrow> bool" where
  "periodics es Y \<longleftrightarrow> pvs.holds (es_pnodes es) (es_PEvents es) (es_fresh es) Y"

lemma event_None: "ev_pNext e = None \<Longrightarrow> e\<lparr>ev_pNext := None\<rparr> = e"
  by (cases e) simp

section \<open>Adding an event\<close>

text \<open>A new event goes behind the first one, and behind those after it that are not later.\<close>

definition push_spec :: "event \<Rightarrow> event list \<Rightarrow> event list" where
  "push_spec e xs =
     (case xs of [] \<Rightarrow> [e]
      | x # ys \<Rightarrow> x # takeWhile (\<lambda>y. ev_time y \<le> ev_time e) ys @ e # dropWhile (\<lambda>y. ev_time y \<le> ev_time e) ys)"

lemma push_pos_chain:
  "evs.chain h (Some a) (a # as) None \<Longrightarrow>
    push_pos h t a = Some (Inr (last (a # takeWhile (\<lambda>b. ev_time (the (h b)) \<le> t) as)))"
proof (induction as arbitrary: a)
  case Nil
  then show ?case by (subst push_pos.simps) (auto simp: node_at_def)
next
  case (Cons b as)
  then obtain n m where n: "h a = Some n" "ev_pNext n = Some b" "h b = Some m" "evs.chain h (Some b) (b # as) None" by auto
  then show ?case using Cons.IH [OF n(4)] by (subst push_pos.simps) (simp add: node_at_def)
qed

lemma contents_while:
  "evs.contents h (takeWhile (\<lambda>b. ev_time (the (h b)) \<le> t) as) = takeWhile (\<lambda>y. ev_time y \<le> t) (evs.contents h as)"
  "evs.contents h (dropWhile (\<lambda>b. ev_time (the (h b)) \<le> t) as) = dropWhile (\<lambda>y. ev_time y \<le> t) (evs.contents h as)"
  by (simp_all add: evs.contents_def takeWhile_map dropWhile_map comp_def)

lemma PushEvent_holds:
  assumes "queues es X" "a = es_fresh es" "ev_pNext e = None"
  shows "\<exists>es'. PushEvent q a (es\<lparr>es_nodes := (es_nodes es)(a \<mapsto> e), es_fresh := a + 1\<rparr>) = Some (Inr es') \<and>
    queues es' (X(q := push_spec e (X q))) \<and>
    es' = es\<lparr>es_nodes := es_nodes es', es_Events := es_Events es', es_fresh := a + 1\<rparr>"
proof -
  let ?h = "es_nodes es" let ?es = "es\<lparr>es_nodes := ?h(a \<mapsto> e), es_fresh := a + 1\<rparr>"
  obtain Q where Q: "evs.lists ?h (es_Events es) a Q" "\<And>q. X q = evs.contents ?h (Q q)"
    using assms(1,2) by (auto simp: queues_def evs.holds_def)
  have chain: "evs.chain ?h (es_Events es q) (Q q) None" and below: "\<forall>b \<in> set (Q q). b < a"
    using Q(1) by (simp_all add: evs.lists_def)
  show ?thesis
  proof (cases "Q q")
    case Nil
    let ?h' = "?h(a \<mapsto> e\<lparr>ev_pNext := None\<rparr>)"
    have "evs.holds ?h' ((es_Events es)(q := Some a)) (a + 1) (X(q := evs.contents ?h' [a]))"
      by (rule evs.holds_change [OF Q]) (auto simp: Nil)
    then show ?thesis using chain Nil assms(3) Q(2) [of q]
      by (auto simp: PushEvent_def queues_def node_at_def push_spec_def event_None)
  next
    case (Cons b bs)
    define tw where "tw = takeWhile (\<lambda>b. ev_time (the (?h b)) \<le> ev_time e) bs"
    define dw where "dw = dropWhile (\<lambda>b. ev_time (the (?h b)) \<le> ev_time e) bs"
    define pos where "pos = last (b # tw)"
    define pre where "pre = butlast (b # tw)"
    have split1: "pre @ [pos] = b # tw" unfolding pre_def pos_def by (rule append_butlast_last_id) simp
    moreover have "b # bs = (b # tw) @ dw" by (simp add: tw_def dw_def)
    ultimately have split: "pre @ [pos] = b # tw" "b # bs = (pre @ [pos]) @ dw" by simp_all
    have as: "Q q = pre @ pos # dw" using Cons split(2) by simp
    have new: "a \<notin> set (Q q)" using below by blast
    have head: "es_Events es q = Some b" using chain Cons by simp
    obtain n where n: "?h pos = Some n" using chain as by (auto simp: evs.chain_append)
    let ?h' = "?h(a \<mapsto> e\<lparr>ev_pNext := ev_pNext n\<rparr>, pos \<mapsto> n\<lparr>ev_pNext := Some a\<rparr>)"
    have linked: "evs.chain ?h' (Some b) (pre @ pos # a # dw) None"
      using evs.chain_insert [of ?h "Some b" pre pos dw n a e] chain as n new head by simp
    have same: "pos \<noteq> a" "pos \<notin> set pre" "pos \<notin> set dw" "a \<notin> set pre" "a \<notin> set dw"
      using evs.chain_distinct [OF chain] new by (auto simp: as)
    have "evs.contents ?h' (pre @ pos # a # dw) = evs.contents ?h (pre @ [pos]) @ e # evs.contents ?h dw"
      using same n assms(3) by (simp add: evs.contents_frame)
    also have "\<dots> = evs.contents ?h (b # tw) @ e # evs.contents ?h dw" using split by simp
    also have "\<dots> = push_spec e (X q)"
      using Cons by (simp add: Q(2) push_spec_def tw_def dw_def contents_while)
    finally have cont: "evs.contents ?h' (pre @ pos # a # dw) = push_spec e (X q)" .
    have "evs.holds ?h' ((es_Events es)(q := Some b)) (a + 1) (X(q := evs.contents ?h' (pre @ pos # a # dw)))"
      by (rule evs.holds_change [OF Q _ linked]) (use as same in auto)
    moreover have "(es_Events es)(q := Some b) = es_Events es" using head by auto
    moreover have "push_pos (?h(a \<mapsto> e)) (ev_time e) b = Some (Inr pos)"
    proof -
      have off: "a \<notin> set (b # bs)" using new Cons by simp
      have "evs.chain ?h (Some b) (b # bs) None" using chain Cons head by simp
      then have "evs.chain (?h(a \<mapsto> e)) (Some b) (b # bs) None" unfolding evs.chain_frame [OF off] .
      moreover have "takeWhile (\<lambda>x. ev_time (the ((?h(a \<mapsto> e)) x)) \<le> ev_time e) bs = tw"
        unfolding tw_def by (rule takeWhile_cong) (use off in auto)
      ultimately show ?thesis using push_pos_chain by (simp add: pos_def)
    qed
    ultimately show ?thesis using cont head n same
      by (auto simp: PushEvent_def queues_def node_at_def)
  qed
qed

section \<open>A turn of the thread of a queue\<close>

definition started :: "event list \<Rightarrow> (nat \<times> nat \<times> bool) list" where
  "started xs = map (\<lambda>e. (ev_handler e, ev_param e, ev_st e)) xs"

lemma event_turn_holds:
  assumes "queues es X"
  shows "\<exists>es'. event_turn q cur es = Some (Inr es') \<and> queues es' (X(q := dropWhile (\<lambda>e. ev_time e \<le> cur) (X q))) \<and>
    es' = es\<lparr>es_started := es_started es @ started (takeWhile (\<lambda>e. ev_time e \<le> cur) (X q)),
             es_Events := es_Events es', es_nodes := es_nodes es'\<rparr>"
  using assms
proof (induction "X q" arbitrary: es X)
  case Nil
  obtain Q where Q: "evs.lists (es_nodes es) (es_Events es) (es_fresh es) Q" "\<And>q. X q = evs.contents (es_nodes es) (Q q)"
    using Nil.prems by (auto simp: queues_def evs.holds_def)
  have "Q q = []" using Nil.hyps Q(2) [of q] by (simp add: evs.contents_def)
  moreover have "evs.chain (es_nodes es) (es_Events es q) (Q q) None" using Q(1) by (simp add: evs.lists_def)
  moreover have "X(q := []) = X" using Nil.hyps by auto
  ultimately show ?case using Nil by (subst event_turn.simps) (simp add: started_def)
next
  case (Cons e xs)
  obtain Q where Q: "evs.lists (es_nodes es) (es_Events es) (es_fresh es) Q" "\<And>q. X q = evs.contents (es_nodes es) (Q q)"
    using Cons.prems by (auto simp: queues_def evs.holds_def)
  obtain a as where as: "Q q = a # as" using Cons.hyps(2) Q(2) [of q] by (cases "Q q") simp_all
  have chain: "evs.chain (es_nodes es) (es_Events es q) (a # as) None" using Q(1) as by (metis evs.lists_def)
  then obtain n where n: "es_Events es q = Some a" "es_nodes es a = Some n" by auto
  have e: "e = n\<lparr>ev_pNext := None\<rparr>" "xs = evs.contents (es_nodes es) as" using Cons.hyps(2) Q(2) [of q] as n by simp_all
  show ?case
  proof (cases "ev_time n \<le> cur")
    case False
    have "X(q := X q) = X" by simp
    moreover have "dropWhile (\<lambda>e. ev_time e \<le> cur) (X q) = X q" "takeWhile (\<lambda>e. ev_time e \<le> cur) (X q) = []"
      using Cons.hyps(2) [symmetric] False e by simp_all
    ultimately show ?thesis using Cons.prems n False by (subst event_turn.simps) (simp add: node_at_def started_def)
  next
    case True
    let ?es = "es\<lparr>es_started := es_started es @ [(ev_handler n, ev_param n, ev_st n)],
      es_Events := (es_Events es)(q := ev_pNext n), es_nodes := (es_nodes es)(a := None)\<rparr>"
    have tail: "evs.chain ((es_nodes es)(a := None)) (ev_pNext n) as None"
      using evs.chain_tail [of "es_nodes es" a as n] chain n by simp
    have "a \<notin> set as" using evs.chain_distinct [OF chain] by simp
    then have xs: "evs.contents ((es_nodes es)(a := None)) as = xs" by (simp add: evs.contents_frame e)
    have "evs.holds ((es_nodes es)(a := None)) ((es_Events es)(q := ev_pNext n)) (es_fresh es)
        (X(q := evs.contents ((es_nodes es)(a := None)) as))"
      by (rule evs.holds_change [OF Q _ tail]) (use as in auto)
    then have holds: "queues ?es (X(q := xs))" by (simp add: queues_def xs)
    from Cons.hyps(1) [of "X(q := xs)", OF _ holds] obtain es' where
      es': "event_turn q cur ?es = Some (Inr es')" "queues es' (X(q := dropWhile (\<lambda>e. ev_time e \<le> cur) xs))"
        "es' = ?es\<lparr>es_started := es_started ?es @ started (takeWhile (\<lambda>e. ev_time e \<le> cur) xs),
          es_Events := es_Events es', es_nodes := es_nodes es'\<rparr>"
      by auto
    have "event_turn q cur es = Some (Inr es')" using n True es'(1) by (subst event_turn.simps) (simp add: node_at_def)
    moreover have "es' = es\<lparr>es_started := es_started es @ started (takeWhile (\<lambda>e. ev_time e \<le> cur) (X q)),
        es_Events := es_Events es', es_nodes := es_nodes es'\<rparr>"
      using Cons.hyps(2) [symmetric] True e(1) es'(3) by (simp add: started_def)
    ultimately show ?thesis using es'(2) Cons.hyps(2) [symmetric] True e(1) by auto
  qed
qed

section \<open>Periodic events\<close>

lemma add_periodic_holds:
  assumes "periodics es Y" "add_periodic func param timer st now es = (useid, es')"
  shows "periodics es' (Y(list_for timer := \<lparr>pv_handler = func, pv_param = param, pv_time = now + timer, pv_st = st, pv_id = useid,
      pv_period = timer, pv_pNext = None\<rparr> # Y (list_for timer)))"
    and "useid = (if es_avalabelid es = 0 then es_eventid es + 1 else es_avalabelid es)"
    and "es' = es\<lparr>es_pnodes := es_pnodes es', es_PEvents := es_PEvents es', es_fresh := es_fresh es + 1, es_avalabelid := 0,
      es_eventid := (if es_avalabelid es = 0 then es_eventid es + 1 else es_eventid es)\<rparr>"
proof -
  let ?q = "list_for timer" let ?h = "es_pnodes es" let ?a = "es_fresh es"
  let ?id = "if es_avalabelid es = 0 then es_eventid es + 1 else es_avalabelid es"
  let ?n = "\<lparr>pv_handler = func, pv_param = param, pv_time = now + timer, pv_st = st, pv_id = ?id, pv_period = timer,
    pv_pNext = es_PEvents es ?q\<rparr>"
  obtain P where P: "pvs.lists ?h (es_PEvents es) ?a P" "\<And>q. Y q = pvs.contents ?h (P q)"
    using assms(1) by (auto simp: periodics_def pvs.holds_def)
  have chain: "pvs.chain ?h (es_PEvents es ?q) (P ?q) None" and new: "?a \<notin> set (P ?q)"
    using P(1) by (auto simp: pvs.lists_def)
  have linked: "pvs.chain (?h(?a \<mapsto> ?n)) (Some ?a) (?a # P ?q) None" using chain by (simp add: pvs.chain_frame [OF new])
  have "pvs.holds (?h(?a \<mapsto> ?n)) ((es_PEvents es)(?q := Some ?a)) (?a + 1) (Y(?q := pvs.contents (?h(?a \<mapsto> ?n)) (?a # P ?q)))"
    by (rule pvs.holds_change [OF P _ linked]) auto
  moreover have "pvs.contents (?h(?a \<mapsto> ?n)) (?a # P ?q) = ?n\<lparr>pv_pNext := None\<rparr> # Y ?q"
    using new by (simp add: P(2) pvs.contents_frame)
  ultimately have holds: "pvs.holds (?h(?a \<mapsto> ?n)) ((es_PEvents es)(?q \<mapsto> ?a)) (?a + 1) (Y(?q := ?n\<lparr>pv_pNext := None\<rparr> # Y ?q))"
    by simp
  show id: "useid = ?id" using assms(2) by (auto simp: add_periodic_def Let_def split: if_splits)
  show "periodics es' (Y(?q := \<lparr>pv_handler = func, pv_param = param, pv_time = now + timer, pv_st = st, pv_id = useid,
      pv_period = timer, pv_pNext = None\<rparr> # Y ?q))"
    using holds assms(2) id by (auto simp: add_periodic_def Let_def periodics_def split: if_splits)
  show "es' = es\<lparr>es_pnodes := es_pnodes es', es_PEvents := es_PEvents es', es_fresh := es_fresh es + 1, es_avalabelid := 0,
      es_eventid := (if es_avalabelid es = 0 then es_eventid es + 1 else es_eventid es)\<rparr>"
    using assms(2) by (auto simp: add_periodic_def Let_def split: if_splits)
qed

text \<open>What a turn makes of an event, and the calls of those that are due.\<close>

definition renew :: "u32 \<Rightarrow> periodic_event \<Rightarrow> periodic_event" where
  "renew cur e = (if pv_time e \<le> cur then e\<lparr>pv_time := cur + pv_period e\<rparr> else e)"

definition pstarted :: "u32 \<Rightarrow> periodic_event list \<Rightarrow> (nat \<times> nat \<times> bool) list" where
  "pstarted cur xs = map (\<lambda>e. (pv_handler e, pv_param e, pv_st e)) (filter (\<lambda>e. pv_time e \<le> cur) xs)"

lemma renew_next [simp]: "pv_pNext (renew cur n) = pv_pNext n" "(renew cur n)\<lparr>pv_pNext := p\<rparr> = renew cur (n\<lparr>pv_pNext := p\<rparr>)"
  by (simp_all add: renew_def)

lemma periodic_loop_chain:
  "pvs.chain (es_pnodes es) p as None \<Longrightarrow> periodic_loop cur p es = Some (Inr (es\<lparr>
    es_started := es_started es @ pstarted cur (pvs.contents (es_pnodes es) as),
    es_pnodes := \<lambda>a. if a \<in> set as then map_option (renew cur) (es_pnodes es a) else es_pnodes es a\<rparr>))"
proof (induction as arbitrary: p es)
  case Nil
  then show ?case by (subst periodic_loop.simps) (simp add: pstarted_def)
next
  case (Cons a as)
  then obtain n where n: "p = Some a" "es_pnodes es a = Some n" "pvs.chain (es_pnodes es) (pv_pNext n) as None" by auto
  have new: "a \<notin> set as" using pvs.chain_distinct [OF Cons.prems] by simp
  define es1 where "es1 = (if pv_time n \<le> cur then es\<lparr>es_started := es_started es @ [(pv_handler n, pv_param n, pv_st n)],
      es_pnodes := (es_pnodes es)(a \<mapsto> n\<lparr>pv_time := cur + pv_period n\<rparr>)\<rparr> else es)"
  have step: "periodic_loop cur p es = periodic_loop cur (pv_pNext n) es1"
    using n by (subst periodic_loop.simps) (simp add: node_at_def es1_def)
  have es1: "es_pnodes es1 = (es_pnodes es)(a \<mapsto> renew cur n)"
    "es_started es1 = es_started es @ pstarted cur [n\<lparr>pv_pNext := None\<rparr>]"
    "es1\<lparr>es_started := x, es_pnodes := y\<rparr> = es\<lparr>es_started := x, es_pnodes := y\<rparr>" for x y
    using n(2) by (auto simp: es1_def renew_def pstarted_def)
  have "pvs.chain (es_pnodes es1) (pv_pNext n) as None" using n(3) new by (simp add: es1 pvs.chain_frame)
  note IH = Cons.IH [OF this]
  have "(\<lambda>b. if b \<in> set as then map_option (renew cur) (es_pnodes es1 b) else es_pnodes es1 b) =
      (\<lambda>b. if b \<in> set (a # as) then map_option (renew cur) (es_pnodes es b) else es_pnodes es b)"
    using n(2) new by (auto simp: es1 fun_eq_iff)
  moreover have "es_started es1 @ pstarted cur (pvs.contents (es_pnodes es1) as) =
      es_started es @ pstarted cur (pvs.contents (es_pnodes es) (a # as))"
    using n(2) new by (simp add: es1 pstarted_def pvs.contents_frame)
  ultimately show ?case unfolding step IH es1(3) by simp
qed

lemma periodic_turn_holds:
  assumes "periodics es Y"
  shows "\<exists>es'. periodic_turn q cur es = Some (Inr es') \<and> periodics es' (Y(q := map (renew cur) (Y q))) \<and>
    es' = es\<lparr>es_started := es_started es @ pstarted cur (Y q), es_pnodes := es_pnodes es'\<rparr>"
proof -
  let ?h = "es_pnodes es"
  obtain P where P: "pvs.lists ?h (es_PEvents es) (es_fresh es) P" "\<And>q. Y q = pvs.contents ?h (P q)"
    using assms by (auto simp: periodics_def pvs.holds_def)
  let ?h' = "\<lambda>a. if a \<in> set (P q) then map_option (renew cur) (?h a) else ?h a"
  have chain: "pvs.chain ?h (es_PEvents es q) (P q) None" using P(1) by (simp add: pvs.lists_def)
  have linked: "pvs.chain ?h' (es_PEvents es q) (P q) None"
    using chain by (subst pvs.chain_same_next [of _ _ ?h]) (simp_all add: option.map_comp comp_def)
  have "pvs.holds ?h' ((es_PEvents es)(q := es_PEvents es q)) (es_fresh es) (Y(q := pvs.contents ?h' (P q)))"
    by (rule pvs.holds_change [OF P _ linked]) auto
  moreover have "pvs.contents ?h' (P q) = map (renew cur) (Y q)"
  proof -
    have "(the (?h' a))\<lparr>pv_pNext := None\<rparr> = renew cur ((the (?h a))\<lparr>pv_pNext := None\<rparr>)" if "a \<in> set (P q)" for a
      using pvs.chain_alive [OF chain that] that by auto
    then show ?thesis by (simp add: P(2) pvs.contents_def)
  qed
  ultimately show ?thesis using periodic_loop_chain [OF chain, of cur]
    by (simp add: periodic_turn_def periodics_def P(2))
qed

section \<open>Removing a periodic event\<close>

definition drop_first :: "u32 \<Rightarrow> periodic_event list \<Rightarrow> periodic_event list" where
  "drop_first eventid xs =
     takeWhile (\<lambda>e. pv_id e \<noteq> eventid) xs @ drop 1 (dropWhile (\<lambda>e. pv_id e \<noteq> eventid) xs)"

fun remove_spec :: "timer_list list \<Rightarrow> u32 \<Rightarrow> (timer_list \<Rightarrow> periodic_event list) \<Rightarrow> (timer_list \<Rightarrow> periodic_event list)" where
  "remove_spec [] eventid Y = Y"
| "remove_spec (q # qs) eventid Y =
     (if eventid \<in> pv_id ` set (Y q) then Y(q := drop_first eventid (Y q)) else remove_spec qs eventid Y)"

lemma find_periodic_chain:
  "pvs.chain h p as None \<Longrightarrow> find_periodic h eventid prev p =
    Some (Inr (case dropWhile (\<lambda>b. pv_id (the (h b)) \<noteq> eventid) as of [] \<Rightarrow> None
      | a # _ \<Rightarrow> Some (let pre = takeWhile (\<lambda>b. pv_id (the (h b)) \<noteq> eventid) as in if pre = [] then prev else Some (last pre), a)))"
proof (induction as arbitrary: p prev)
  case Nil
  then show ?case by (subst find_periodic.simps) simp
next
  case (Cons a as)
  then obtain n where n: "p = Some a" "h a = Some n" "pvs.chain h (pv_pNext n) as None" by auto
  have found: "\<not> (\<forall>x \<in> set as. pv_id (the (h x)) \<noteq> eventid)" if "dropWhile (\<lambda>b. pv_id (the (h b)) \<noteq> eventid) as = b # bs" for b bs
    using that dropWhile_eq_Nil_conv [of "\<lambda>b. pv_id (the (h b)) \<noteq> eventid" as] by simp
  show ?case using n Cons.IH [OF n(3), of p] found
    by (subst find_periodic.simps) (auto simp: node_at_def Let_def split: list.split)
qed

lemma unlink_periodic_holds:
  assumes "pvs.lists (es_pnodes es) (es_PEvents es) (es_fresh es) P" "P q = pre @ a # post" "es_pnodes es a = Some n"
  shows "\<exists>es'. unlink_periodic q eventid (if pre = [] then None else Some (last pre)) a es = Inr es' \<and>
    pvs.lists (es_pnodes es') (es_PEvents es') (es_fresh es) (P(q := pre @ post)) \<and>
    pvs.contents (es_pnodes es') (pre @ post) = pvs.contents (es_pnodes es) (pre @ post) \<and>
    (\<forall>r. r \<noteq> q \<longrightarrow> pvs.contents (es_pnodes es') (P r) = pvs.contents (es_pnodes es) (P r)) \<and>
    es' = es\<lparr>es_pnodes := es_pnodes es', es_PEvents := es_PEvents es',
      es_avalabelid := (if es_avalabelid es = 0 then eventid else es_avalabelid es)\<rparr>"
proof -
  let ?h = "es_pnodes es"
  have chain: "pvs.chain ?h (es_PEvents es q) (pre @ a # post) None" using assms(1,2) by (metis pvs.lists_def)
  then have d: "distinct (pre @ a # post)" by (rule pvs.chain_distinct)
  show ?thesis
  proof (cases "pre = []")
    case True
    have linked: "pvs.chain (?h(a := None)) (pv_pNext n) post None"
      using pvs.chain_tail [of ?h a post n] chain assms(3) True by simp
    have "pvs.lists (?h(a := None)) ((es_PEvents es)(q := pv_pNext n)) (es_fresh es) (P(q := post)) \<and>
        (\<forall>r. r \<noteq> q \<longrightarrow> pvs.contents (?h(a := None)) (P r) = pvs.contents ?h (P r))"
      by (rule pvs.lists_change [OF assms(1) _ linked]) (use assms(2) True in auto)
    then show ?thesis using True d assms(3)
      by (simp add: unlink_periodic_def node_at_def pvs.contents_frame)
  next
    case False
    then obtain us b where us: "pre = us @ [b]" by (cases pre rule: rev_cases) auto
    then obtain m where m: "?h b = Some m" using pvs.chain_alive [OF chain, of b] by auto
    let ?h' = "?h(b \<mapsto> m\<lparr>pv_pNext := pv_pNext n\<rparr>, a := None)"
    have linked: "pvs.chain ?h' (es_PEvents es q) (pre @ post) None"
      using pvs.chain_unlink [of ?h "es_PEvents es q" us b a post m n] chain us m assms(3) by simp
    have "pvs.lists ?h' ((es_PEvents es)(q := es_PEvents es q)) (es_fresh es) (P(q := pre @ post)) \<and>
        (\<forall>r. r \<noteq> q \<longrightarrow> pvs.contents ?h' (P r) = pvs.contents ?h (P r))"
      by (rule pvs.lists_change [OF assms(1) _ linked]) (use assms(2) us in auto)
    moreover have "pvs.contents ?h' (pre @ post) = pvs.contents ?h (pre @ post)"
      using d us m by (simp add: pvs.contents_frame)
    ultimately show ?thesis using False us m d assms(3) by (simp add: unlink_periodic_def node_at_def)
  qed
qed

lemma remove_from_holds:
  assumes "periodics es Y"
  shows "\<exists>es'. remove_from qs eventid es = Some (Inr es') \<and> periodics es' (remove_spec qs eventid Y) \<and>
    es' = es\<lparr>es_pnodes := es_pnodes es', es_PEvents := es_PEvents es', es_avalabelid :=
      (if (\<exists>q \<in> set qs. eventid \<in> pv_id ` set (Y q)) \<and> es_avalabelid es = 0 then eventid else es_avalabelid es)\<rparr>"
proof (induction qs)
  case Nil
  then show ?case using assms by simp
next
  case (Cons q qs)
  let ?h = "es_pnodes es" let ?f = "\<lambda>b. pv_id (the (?h b)) \<noteq> eventid"
  obtain P where P: "pvs.lists ?h (es_PEvents es) (es_fresh es) P" "\<And>q. Y q = pvs.contents ?h (P q)"
    using assms by (auto simp: periodics_def pvs.holds_def)
  have chain: "pvs.chain ?h (es_PEvents es q) (P q) None" using P(1) by (simp add: pvs.lists_def)
  have ids: "pv_id ` set (Y q) = (\<lambda>b. pv_id (the (?h b))) ` set (P q)"
    by (simp add: P(2) pvs.contents_def image_image)
  have while: "pvs.contents ?h (takeWhile ?f (P q)) = takeWhile (\<lambda>e. pv_id e \<noteq> eventid) (Y q)"
    "pvs.contents ?h (dropWhile ?f (P q)) = dropWhile (\<lambda>e. pv_id e \<noteq> eventid) (Y q)"
    by (simp_all add: P(2) pvs.contents_def takeWhile_map dropWhile_map comp_def)
  show ?case
  proof (cases "dropWhile ?f (P q)")
    case Nil
    then have "eventid \<notin> pv_id ` set (Y q)" unfolding ids dropWhile_eq_Nil_conv by auto
    then show ?thesis using find_periodic_chain [OF chain, of eventid None] Nil Cons by simp
  next
    case (Cons a post)
    let ?pre = "takeWhile ?f (P q)"
    have split: "P q = ?pre @ a # post" using takeWhile_dropWhile_id [of ?f "P q"] Cons by simp
    then have "a \<in> set (P q)" "\<not> ?f a" using hd_dropWhile [of ?f "P q"] Cons by (auto simp: in_set_conv_decomp)
    then have here: "eventid \<in> pv_id ` set (Y q)" unfolding ids by auto
    obtain n where n: "?h a = Some n" using pvs.chain_alive [OF chain \<open>a \<in> set (P q)\<close>] by auto
    obtain es' where es': "unlink_periodic q eventid (if ?pre = [] then None else Some (last ?pre)) a es = Inr es'"
      "pvs.lists (es_pnodes es') (es_PEvents es') (es_fresh es) (P(q := ?pre @ post))"
      "pvs.contents (es_pnodes es') (?pre @ post) = pvs.contents ?h (?pre @ post)"
      "\<forall>r. r \<noteq> q \<longrightarrow> pvs.contents (es_pnodes es') (P r) = pvs.contents ?h (P r)"
      "es' = es\<lparr>es_pnodes := es_pnodes es', es_PEvents := es_PEvents es',
        es_avalabelid := (if es_avalabelid es = 0 then eventid else es_avalabelid es)\<rparr>"
      using unlink_periodic_holds [OF P(1) split n, of eventid] by blast
    have "pvs.contents ?h (?pre @ post) = drop_first eventid (Y q)"
      using while Cons by (simp add: drop_first_def) (metis drop0 drop_Suc_Cons pvs.contents_simps(2))
    then have "periodics es' (remove_spec (q # qs) eventid Y)"
      using es'(2-4) here P(2) arg_cong [OF es'(5), of es_fresh]
      unfolding periodics_def pvs.holds_def by (intro exI [of _ "P(q := ?pre @ post)"]) auto
    moreover have "remove_from (q # qs) eventid es = Some (Inr es')"
      using find_periodic_chain [OF chain, of eventid None] Cons es'(1) by (simp add: Let_def)
    ultimately show ?thesis using es'(5) here by (simp add: fun_upd_def)
  qed
qed

section \<open>Refinement\<close>

lemma holds_parts:
  "periodics es Y \<Longrightarrow> es_pnodes es' = es_pnodes es \<Longrightarrow> es_PEvents es' = es_PEvents es \<Longrightarrow> es_fresh es \<le> es_fresh es' \<Longrightarrow> periodics es' Y"
  "queues es X \<Longrightarrow> es_nodes es' = es_nodes es \<Longrightarrow> es_Events es' = es_Events es \<Longrightarrow> es_fresh es \<le> es_fresh es' \<Longrightarrow> queues es' X"
  by (simp_all add: periodics_def queues_def evs.holds_more pvs.holds_more)

lemma refines_AddEvent:
  assumes "queues es X" "periodics es Y"
  shows "\<exists>es'. AddEvent f p timer st False now es = Some (Inr (0, es')) \<and> periodics es' Y \<and> es_started es' = es_started es \<and>
    queues es' (X(list_for timer := push_spec (new_event f p timer st now) (X (list_for timer)))) \<and>
    es_eventid es' = es_eventid es \<and> es_avalabelid es' = es_avalabelid es"
proof -
  let ?e = "new_event f p timer st now" let ?q = "list_for timer"
  obtain es' where es': "PushEvent ?q (es_fresh es) (es\<lparr>es_nodes := (es_nodes es)(es_fresh es \<mapsto> ?e), es_fresh := es_fresh es + 1\<rparr>) =
      Some (Inr es')" "queues es' (X(?q := push_spec ?e (X ?q)))"
      "es' = es\<lparr>es_nodes := es_nodes es', es_Events := es_Events es', es_fresh := es_fresh es + 1\<rparr>"
    using PushEvent_holds [OF assms(1) refl, of ?e ?q] by (auto simp: new_event_def)
  have same: "es_pnodes es' = es_pnodes es" "es_PEvents es' = es_PEvents es" "es_fresh es \<le> es_fresh es'"
    "es_started es' = es_started es" "es_eventid es' = es_eventid es" "es_avalabelid es' = es_avalabelid es"
    by (subst es'(3), simp)+
  then show ?thesis using es'(1,2) holds_parts(1) [OF assms(2) same(1-3)] by (simp add: AddEvent_def Let_def)
qed

lemma refines_periodic:
  assumes "queues es X" "periodics es Y"
  shows "\<exists>es' n. AddEvent f p timer st True now es = Some (Inr (n, es')) \<and> queues es' X \<and> es_started es' = es_started es \<and>
    periodics es' (Y(list_for timer := \<lparr>pv_handler = f, pv_param = p, pv_time = now + timer, pv_st = st, pv_id = n,
      pv_period = timer, pv_pNext = None\<rparr> # Y (list_for timer)))"
proof -
  obtain n es' where es': "add_periodic f p timer st now es = (n, es')" by fastforce
  note facts = add_periodic_holds [OF assms(2) es']
  have same: "es_nodes es' = es_nodes es" "es_Events es' = es_Events es" "es_fresh es \<le> es_fresh es'" "es_started es' = es_started es"
    by (subst facts(3), simp)+
  then show ?thesis using es' facts(1) holds_parts(2) [OF assms(1) same(1-3)] by (auto simp: AddEvent_def)
qed

lemma refines_Remove:
  assumes "queues es X" "periodics es Y"
  shows "\<exists>es'. RemovePeriodicEvent i es = Some (Inr es') \<and> queues es' X \<and> es_started es' = es_started es \<and>
    periodics es' (remove_spec [MS, S, M] i Y)"
proof -
  obtain es' v where es': "remove_from [MS, S, M] i es = Some (Inr es')" "periodics es' (remove_spec [MS, S, M] i Y)"
    "es' = es\<lparr>es_pnodes := es_pnodes es', es_PEvents := es_PEvents es', es_avalabelid := v\<rparr>"
    using remove_from_holds [OF assms(2), of "[MS, S, M]" i] by blast
  have same: "es_nodes es' = es_nodes es" "es_Events es' = es_Events es" "es_fresh es \<le> es_fresh es'" "es_started es' = es_started es"
    by (subst es'(3), simp)+
  then show ?thesis using es'(1,2) holds_parts(2) [OF assms(1) same(1-3)] by (simp add: RemovePeriodicEvent_def)
qed

lemma refines_turn:
  assumes "queues es X" "periodics es Y"
  shows "\<exists>es'. event_turn q cur es = Some (Inr es') \<and> periodics es' Y \<and>
    queues es' (X(q := dropWhile (\<lambda>e. ev_time e \<le> cur) (X q))) \<and>
    es_started es' = es_started es @ started (takeWhile (\<lambda>e. ev_time e \<le> cur) (X q))"
proof -
  obtain es' where es': "event_turn q cur es = Some (Inr es')" "queues es' (X(q := dropWhile (\<lambda>e. ev_time e \<le> cur) (X q)))"
    "es' = es\<lparr>es_started := es_started es @ started (takeWhile (\<lambda>e. ev_time e \<le> cur) (X q)), es_Events := es_Events es',
      es_nodes := es_nodes es'\<rparr>"
    using event_turn_holds [OF assms(1), of q cur] by blast
  have same: "es_pnodes es' = es_pnodes es" "es_PEvents es' = es_PEvents es" "es_fresh es \<le> es_fresh es'"
    "es_started es' = es_started es @ started (takeWhile (\<lambda>e. ev_time e \<le> cur) (X q))"
    by (subst es'(3), simp)+
  then show ?thesis using es'(1,2) holds_parts(1) [OF assms(2) same(1-3)] by simp
qed

lemma refines_periodic_turn:
  assumes "queues es X" "periodics es Y"
  shows "\<exists>es'. periodic_turn q cur es = Some (Inr es') \<and> queues es' X \<and> periodics es' (Y(q := map (renew cur) (Y q))) \<and>
    es_started es' = es_started es @ pstarted cur (Y q)"
proof -
  obtain es' where es': "periodic_turn q cur es = Some (Inr es')" "periodics es' (Y(q := map (renew cur) (Y q)))"
    "es' = es\<lparr>es_started := es_started es @ pstarted cur (Y q), es_pnodes := es_pnodes es'\<rparr>"
    using periodic_turn_holds [OF assms(2), of q cur] by blast
  have same: "es_nodes es' = es_nodes es" "es_Events es' = es_Events es" "es_fresh es \<le> es_fresh es'"
    "es_started es' = es_started es @ pstarted cur (Y q)"
    by (subst es'(3), simp)+
  then show ?thesis using es'(1,2) holds_parts(2) [OF assms(1) same(1-3)] by simp
qed

text \<open>C25: the event system in memory refines queues of events that are plain lists: in every state that holds lists \<open>X\<close> and \<open>Y\<close>,
  each operation returns and leaves the lists the functions \<open>push_spec\<close>, \<open>remove_spec\<close>, \<open>dropWhile\<close> and \<open>renew\<close> make of them; a turn calls
  the handlers of the events that are due, from the front of a queue on, in order.\<close>

theorem event_system_refines:
  assumes "queues es X" "periodics es Y"
  shows "(\<exists>es'. AddEvent f p timer st False now es = Some (Inr (0, es')) \<and> periodics es' Y \<and> es_started es' = es_started es \<and>
      queues es' (X(list_for timer := push_spec (new_event f p timer st now) (X (list_for timer))))) \<and>
    (\<exists>es' n. AddEvent f p timer st True now es = Some (Inr (n, es')) \<and> queues es' X \<and> es_started es' = es_started es \<and>
      periodics es' (Y(list_for timer := \<lparr>pv_handler = f, pv_param = p, pv_time = now + timer, pv_st = st, pv_id = n,
        pv_period = timer, pv_pNext = None\<rparr> # Y (list_for timer)))) \<and>
    (\<exists>es'. RemovePeriodicEvent i es = Some (Inr es') \<and> queues es' X \<and> es_started es' = es_started es \<and>
      periodics es' (remove_spec [MS, S, M] i Y)) \<and>
    (\<exists>es'. event_turn q cur es = Some (Inr es') \<and> periodics es' Y \<and>
      queues es' (X(q := dropWhile (\<lambda>e. ev_time e \<le> cur) (X q))) \<and>
      es_started es' = es_started es @ started (takeWhile (\<lambda>e. ev_time e \<le> cur) (X q))) \<and>
    (\<exists>es'. periodic_turn q cur es = Some (Inr es') \<and> queues es' X \<and> periodics es' (Y(q := map (renew cur) (Y q))) \<and>
      es_started es' = es_started es @ pstarted cur (Y q))"
  using refines_AddEvent [OF assms, of f p timer st now] refines_periodic [OF assms, of f p timer st now] refines_Remove [OF assms, of i]
    refines_turn [OF assms, of q cur] refines_periodic_turn [OF assms, of q cur] by blast

lemma no_events_holds: "queues no_events (\<lambda>_. [])" "periodics no_events (\<lambda>_. [])"
  by (auto simp: queues_def periodics_def no_events_def evs.holds_def pvs.holds_def evs.lists_def pvs.lists_def
    intro!: exI [of _ "\<lambda>_. []"])

lemma event_system_refines_witness:
  "\<exists>es'. AddEvent 7 1 61000 True False 100 no_events = Some (Inr (0, es')) \<and>
    queues es' ((\<lambda>_. [])(S := [new_event 7 1 61000 True 100]))"
proof -
  have parts: "list_for 61000 = S" "push_spec e [] = [e]" for e by (simp_all add: list_for_def push_spec_def)
  show ?thesis using event_system_refines [OF no_events_holds, of 7 1 61000 True 100, THEN conjunct1] unfolding parts by blast
qed

end
