(* ===== verification/Event_Delays.thy ===== *)
theory Event_Delays
  imports Event_Queues
begin

text \<open>
  When the events are started. The states the program reaches while the clock runs from its start to its first wrap-around, by calls of
  \<open>AddEvent\<close> and \<open>RemovePeriodicEvent\<close> and turns of the threads in any order; in them a queue is sorted behind its first event, so an event
  is late by less than the longest delay of its queue, and the periodic events have ids of their own.
\<close>

section \<open>Reachable states\<close>

text \<open>The time is a number of milliseconds that has not wrapped around yet, and the ids have not been used up.\<close>

inductive es_reach :: "nat \<Rightarrow> event_system \<Rightarrow> bool" where
  start: "es_reach t no_events"
| later: "es_reach t es \<Longrightarrow> t \<le> t' \<Longrightarrow> es_reach t' es"
| add: "es_reach t es \<Longrightarrow> t + unat timer < 2 ^ 32 \<Longrightarrow> es_eventid es < - 1 \<Longrightarrow>
    AddEvent f p timer st b (word_of_nat t) es = Some (Inr (n, es')) \<Longrightarrow> es_reach t es'"
| remove: "es_reach t es \<Longrightarrow> RemovePeriodicEvent i es = Some (Inr es') \<Longrightarrow> es_reach t es'"
| turn: "es_reach t es \<Longrightarrow> t < 2 ^ 32 \<Longrightarrow> event_turn q (word_of_nat t) es = Some (Inr es') \<Longrightarrow> es_reach t es'"
| periodic: "es_reach t es \<Longrightarrow> periodic_turn q cur es = Some (Inr es') \<Longrightarrow> es_reach t es'"

text \<open>The longest delay an event of a queue was asked for.\<close>

definition longest :: "timer_list \<Rightarrow> nat" where
  "longest q = (case q of MS \<Rightarrow> 60000 | S \<Rightarrow> 3600000 | M \<Rightarrow> 2 ^ 32)"

lemma list_for_longest: "unat timer \<le> longest (list_for timer)"
proof -
  have "unat timer < 2 ^ 32" using unsigned_less [of timer] by simp
  then show ?thesis by (auto simp: longest_def list_for_def word_le_nat_alt)
qed

section \<open>The order of a queue\<close>

definition queue_ok :: "nat \<Rightarrow> nat \<Rightarrow> event list \<Rightarrow> bool" where
  "queue_ok t d xs \<longleftrightarrow> (\<forall>e \<in> set xs. unat (ev_time e) \<le> t + d) \<and> sorted (map ev_time (tl xs)) \<and>
     (\<forall>e \<in> set xs. unat (ev_time (hd xs)) \<le> unat (ev_time e) + d)"

lemma queue_ok_Nil [simp]: "queue_ok t d []"
  by (simp add: queue_ok_def)

lemma queue_ok_later: "queue_ok t d xs \<Longrightarrow> t \<le> t' \<Longrightarrow> queue_ok t' d xs"
  unfolding queue_ok_def by force

lemma sorted_push:
  "sorted (map f ys) \<Longrightarrow> sorted (map f (takeWhile (\<lambda>y. f y \<le> f e) ys @ e # dropWhile (\<lambda>y. f y \<le> f e) ys))"
  for f :: "'a \<Rightarrow> 'b::linorder"
proof (induction ys)
  case (Cons y ys)
  then show ?case by (auto dest: set_takeWhileD set_dropWhileD)
qed simp

lemma queue_ok_push:
  assumes "queue_ok t d xs" "unat (ev_time e) = t + k" "k \<le> d"
  shows "queue_ok t d (push_spec e xs)"
proof (cases xs)
  case Nil
  then show ?thesis using assms by (simp add: queue_ok_def push_spec_def)
next
  case (Cons x ys)
  have "set (push_spec e xs) = insert e (set xs)"
    using Cons by (auto simp: push_spec_def dest: set_takeWhileD set_dropWhileD)
      (metis (lifting) Un_iff set_append takeWhile_dropWhile_id)
  then show ?thesis using assms Cons sorted_push [of ev_time ys e]
    by (auto simp: queue_ok_def push_spec_def)
qed

lemma queue_ok_turn: "queue_ok t d xs \<Longrightarrow> queue_ok t d (dropWhile (\<lambda>e. ev_time e \<le> cur) xs)"
proof (induction xs)
  case (Cons x xs)
  have "queue_ok t d xs"
    using Cons.prems by (cases xs) (auto simp: queue_ok_def word_le_nat_alt)
  then show ?case using Cons by simp
qed simp

section \<open>The ids of periodic events\<close>

definition all_ids :: "(timer_list \<Rightarrow> periodic_event list) \<Rightarrow> u32 list" where
  "all_ids Y = map pv_id (Y MS @ Y S @ Y M)"

definition ids_ok :: "u32 \<Rightarrow> u32 \<Rightarrow> (timer_list \<Rightarrow> periodic_event list) \<Rightarrow> bool" where
  "ids_ok k free Y \<longleftrightarrow> distinct (all_ids Y) \<and> (\<forall>i \<in> set (all_ids Y). 0 < i \<and> i \<le> k) \<and> free \<le> k \<and> free \<notin> set (all_ids Y)"

lemma ids_ok_add:
  assumes "ids_ok k free Y" "k < - 1" "pv_id e = (if free = 0 then k + 1 else free)"
  shows "ids_ok (if free = 0 then k + 1 else k) 0 (Y(q := e # Y q))"
proof -
  have "1 + k \<noteq> 0" using assms(2) by (metis add.commute max_word_wrap order_less_irrefl)
  then have k: "k < k + 1" using unatSuc [of k] by (simp add: word_less_nat_alt add.commute)
  have "set (all_ids (Y(q := e # Y q))) = insert (pv_id e) (set (all_ids Y))" 
    "distinct (all_ids (Y(q := e # Y q))) \<longleftrightarrow> pv_id e \<notin> set (all_ids Y) \<and> distinct (all_ids Y)"
    by (cases q; auto simp: all_ids_def)+
  moreover have "pv_id e \<notin> set (all_ids Y)"
  proof (cases "free = 0")
    case True
    then show ?thesis using assms k unfolding ids_ok_def by (metis leD)
  qed (use assms in \<open>simp add: ids_ok_def\<close>)
  moreover have "0 < pv_id e" using assms(3) k by (auto simp: word_gt_0)
  ultimately show ?thesis using assms k unfolding ids_ok_def
    by (auto simp: word_gt_0 intro: order_trans less_imp_le)
qed

lemma drop_first_filter: "distinct (map pv_id xs) \<Longrightarrow> drop_first i xs = filter (\<lambda>e. pv_id e \<noteq> i) xs"
proof (induction xs)
  case (Cons x xs)
  have "filter (\<lambda>e. pv_id e \<noteq> pv_id x) xs = xs" using Cons.prems
    by (intro filter_True) (metis distinct.simps(2) image_eqI list.set_map list.simps(9))
  then show ?case using Cons by (auto simp: drop_first_def)
qed (simp add: drop_first_def)

text \<open>With distinct ids a removal takes out the event with this id, in whichever list it is, and no other.\<close>

lemma remove_spec_filter:
  assumes "distinct (all_ids Y)"
  shows "remove_spec [MS, S, M] i Y = (\<lambda>q. filter (\<lambda>e. pv_id e \<noteq> i) (Y q))"
proof -
  have d: "distinct (map pv_id (Y q))" for q using assms by (cases q) (auto simp: all_ids_def)
  have apart: "i \<notin> pv_id ` set (Y r)" if "i \<in> pv_id ` set (Y q)" "q \<noteq> r" for q r
    using assms that by (cases q; cases r) (auto simp: all_ids_def)
  have same: "filter (\<lambda>e. pv_id e \<noteq> i) (Y r) = Y r" if "i \<notin> pv_id ` set (Y r)" for r
    using that by (auto simp: filter_id_conv)
  have upd: "Y(q := drop_first i (Y q)) = (\<lambda>q. filter (\<lambda>e. pv_id e \<noteq> i) (Y q))" if "i \<in> pv_id ` set (Y q)" for q
  proof
    fix r
    show "(Y(q := drop_first i (Y q))) r = filter (\<lambda>e. pv_id e \<noteq> i) (Y r)"
      using drop_first_filter [OF d] apart [OF that, of r] same [of r] by (cases "r = q") simp_all
  qed
  have none: "Y = (\<lambda>q. filter (\<lambda>e. pv_id e \<noteq> i) (Y q))" if "\<And>q. i \<notin> pv_id ` set (Y q)"
    using same [OF that] by simp
  have all: "i \<notin> pv_id ` set (Y q)" if "i \<notin> pv_id ` set (Y MS)" "i \<notin> pv_id ` set (Y S)" "i \<notin> pv_id ` set (Y M)" for q
    using that by (cases q) simp_all
  show ?thesis using upd none all by auto
qed

lemma ids_ok_remove:
  assumes "ids_ok k free Y"
  shows "ids_ok k (if (\<exists>q \<in> set [MS, S, M]. i \<in> pv_id ` set (Y q)) \<and> free = 0 then i else free) (remove_spec [MS, S, M] i Y)"
proof -
  have d: "distinct (all_ids Y)" using assms by (simp add: ids_ok_def)
  have "all_ids (\<lambda>q. filter (\<lambda>e. pv_id e \<noteq> i) (Y q)) = filter (\<lambda>j. j \<noteq> i) (all_ids Y)"
    by (simp add: all_ids_def filter_map comp_def)
  moreover have "(\<exists>q \<in> set [MS, S, M]. i \<in> pv_id ` set (Y q)) \<longleftrightarrow> i \<in> set (all_ids Y)"
    by (auto simp: all_ids_def)
  ultimately show ?thesis using assms unfolding remove_spec_filter [OF d] by (auto simp: ids_ok_def)
qed

lemma all_ids_renew: "all_ids (Y(q := map (renew cur) (Y q))) = all_ids Y"
proof -
  have "pv_id (renew cur e) = pv_id e" for e by (simp add: renew_def)
  then show ?thesis by (cases q) (simp_all add: all_ids_def)
qed

section \<open>The invariant\<close>

definition es_inv :: "nat \<Rightarrow> event_system \<Rightarrow> bool" where
  "es_inv t es \<longleftrightarrow> (\<exists>X Y. queues es X \<and> periodics es Y \<and> (\<forall>q. queue_ok t (longest q) (X q)) \<and>
     ids_ok (es_eventid es) (es_avalabelid es) Y)"


lemma es_inv_reach: "es_reach t es \<Longrightarrow> es_inv t es"
proof (induction rule: es_reach.induct)
  case (start t)
  show ?case using no_events_holds unfolding es_inv_def
    by (intro exI [of _ "\<lambda>_. []"]) (auto simp: ids_ok_def all_ids_def no_events_def)
next
  case (later t es t')
  then show ?case unfolding es_inv_def using queue_ok_later by blast
next
  case (add t es timer f p st b n es')
  obtain X Y where XY: "queues es X" "periodics es Y" "\<forall>q. queue_ok t (longest q) (X q)" "ids_ok (es_eventid es) (es_avalabelid es) Y"
    using add.IH by (auto simp: es_inv_def)
  let ?q = "list_for timer"
  show ?case
  proof (cases b)
    case False
    let ?e = "new_event f p timer st (word_of_nat t)"
    have "unat (word_of_nat t + timer) = t + unat timer"
      using add.hyps(2) by (simp add: unat_word_ariths unat_of_nat take_bit_eq_mod)
    then have ok: "queue_ok t (longest ?q) (push_spec ?e (X ?q))"
      using queue_ok_push [of t "longest ?q" "X ?q" ?e "unat timer"] XY(3) list_for_longest by (simp add: new_event_def)
    have "queues es' (X(?q := push_spec ?e (X ?q)))" "periodics es' Y" "es_eventid es' = es_eventid es" "es_avalabelid es' = es_avalabelid es"
      using refines_AddEvent [OF XY(1,2), of f p timer st "word_of_nat t"] add.hyps(4) False by auto
    then show ?thesis using ok XY(3,4) unfolding es_inv_def
      by (intro exI [of _ "X(?q := push_spec ?e (X ?q))"] exI [of _ Y]) simp
  next
    case True
    then have step: "add_periodic f p timer st (word_of_nat t) es = (n, es')" using add.hyps(4) by (simp add: AddEvent_def)
    note facts = add_periodic_holds [OF XY(2) step]
    let ?e = "\<lparr>pv_handler = f, pv_param = p, pv_time = word_of_nat t + timer, pv_st = st, pv_id = n, pv_period = timer, pv_pNext = None\<rparr>"
    have same: "es_nodes es' = es_nodes es" "es_Events es' = es_Events es" "es_fresh es \<le> es_fresh es'" "es_avalabelid es' = 0"
      "es_eventid es' = (if es_avalabelid es = 0 then es_eventid es + 1 else es_eventid es)"
      by (subst facts(3), simp)+
    have "ids_ok (es_eventid es') (es_avalabelid es') (Y(?q := ?e # Y ?q))"
      using ids_ok_add [OF XY(4) add.hyps(3), of ?e ?q] facts(2) unfolding same by simp
    then show ?thesis using facts(1) holds_parts(2) [OF XY(1) same(1-3)] XY(3) unfolding es_inv_def by blast
  qed
next
  case (remove t es i es')
  obtain X Y where XY: "queues es X" "periodics es Y" "\<forall>q. queue_ok t (longest q) (X q)" "ids_ok (es_eventid es) (es_avalabelid es) Y"
    using remove.IH by (auto simp: es_inv_def)
  define free where "free = (if (\<exists>q \<in> set [MS, S, M]. i \<in> pv_id ` set (Y q)) \<and> es_avalabelid es = 0 then i else es_avalabelid es)"
  have holds: "periodics es' (remove_spec [MS, S, M] i Y)"
    and eq: "es' = es\<lparr>es_pnodes := es_pnodes es', es_PEvents := es_PEvents es', es_avalabelid := free\<rparr>"
    using remove_from_holds [OF XY(2), of "[MS, S, M]" i] remove.hyps(2) unfolding RemovePeriodicEvent_def free_def by auto
  have same: "es_nodes es' = es_nodes es" "es_Events es' = es_Events es" "es_fresh es \<le> es_fresh es'" "es_avalabelid es' = free"
    "es_eventid es' = es_eventid es"
    by (subst eq, simp)+
  have "ids_ok (es_eventid es') (es_avalabelid es') (remove_spec [MS, S, M] i Y)" unfolding same free_def by (rule ids_ok_remove [OF XY(4)])
  then show ?case using holds holds_parts(2) [OF XY(1) same(1-3)] XY(3) unfolding es_inv_def by blast
next
  case (turn t es q es')
  obtain X Y where XY: "queues es X" "periodics es Y" "\<forall>q. queue_ok t (longest q) (X q)" "ids_ok (es_eventid es) (es_avalabelid es) Y"
    using turn.IH by (auto simp: es_inv_def)
  let ?X = "X(q := dropWhile (\<lambda>e. ev_time e \<le> word_of_nat t) (X q))"
  obtain es1 where es1: "event_turn q (word_of_nat t) es = Some (Inr es1)" "queues es1 ?X"
    "es1 = es\<lparr>es_started := es_started es @ started (takeWhile (\<lambda>e. ev_time e \<le> word_of_nat t) (X q)), es_Events := es_Events es1,
      es_nodes := es_nodes es1\<rparr>"
    using event_turn_holds [OF XY(1), of q "word_of_nat t"] by blast
  have same: "es_pnodes es1 = es_pnodes es" "es_PEvents es1 = es_PEvents es" "es_fresh es \<le> es_fresh es1"
    "es_avalabelid es1 = es_avalabelid es" "es_eventid es1 = es_eventid es"
    by (subst es1(3), simp)+
  have "es1 = es'" using es1(1) turn.hyps(3) by simp
  moreover have "\<forall>r. queue_ok t (longest r) (?X r)" using XY(3) queue_ok_turn by simp
  moreover have "periodics es1 Y" by (rule holds_parts(1) [OF XY(2) same(1-3)])
  ultimately show ?case using es1(2) XY(4) same(4,5) unfolding es_inv_def by metis
next
  case (periodic t es q cur es')
  obtain X Y where XY: "queues es X" "periodics es Y" "\<forall>q. queue_ok t (longest q) (X q)" "ids_ok (es_eventid es) (es_avalabelid es) Y"
    using periodic.IH by (auto simp: es_inv_def)
  let ?Y = "Y(q := map (renew cur) (Y q))"
  obtain es1 where es1: "periodic_turn q cur es = Some (Inr es1)" "periodics es1 ?Y"
    "es1 = es\<lparr>es_started := es_started es @ pstarted cur (Y q), es_pnodes := es_pnodes es1\<rparr>"
    using periodic_turn_holds [OF XY(2), of q cur] by blast
  have same: "es_nodes es1 = es_nodes es" "es_Events es1 = es_Events es" "es_fresh es \<le> es_fresh es1"
    "es_avalabelid es1 = es_avalabelid es" "es_eventid es1 = es_eventid es"
    by (subst es1(3), simp)+
  have "es1 = es'" using es1(1) periodic.hyps(2) by simp
  moreover have "ids_ok (es_eventid es) (es_avalabelid es) ?Y" using XY(4) by (simp add: ids_ok_def all_ids_renew)
  moreover have "queues es1 X" by (rule holds_parts(2) [OF XY(1) same(1-3)])
  ultimately show ?case using es1(2) XY(3) same(4,5) unfolding es_inv_def by metis
qed

section \<open>When an event is started\<close>

text \<open>C26: while the clock has not wrapped around, a turn starts events of its queue from the front, none before its time; an event that stays
  although its time has come is behind one that is not due, and that cannot last longer than the longest delay of its queue (a minute for
  the first queue, an hour for the second): every event is started in the end.\<close>

theorem event_delay_bound:
  assumes "es_reach t es" "t < 2 ^ 32" "queues es X"
  shows "\<exists>es' due rest. event_turn q (word_of_nat t) es = Some (Inr es') \<and> X q = due @ rest \<and> queues es' (X(q := rest)) \<and>
    es_started es' = es_started es @ started due \<and>
    (\<forall>e \<in> set due. unat (ev_time e) \<le> t) \<and> (\<forall>e \<in> set rest. t < unat (ev_time e) + longest q)"
proof -
  obtain Y X' where inv: "periodics es Y" "queues es X'" "queue_ok t (longest q) (X' q)"
    using es_inv_reach [OF assms(1)] by (auto simp: es_inv_def)
  have "X' = X" using inv(2) assms(3) unfolding queues_def by (rule evs.holds_unique)
  define due where "due = takeWhile (\<lambda>e. ev_time e \<le> word_of_nat t) (X q)"
  define rest where "rest = dropWhile (\<lambda>e. ev_time e \<le> word_of_nat t) (X q)"
  have time: "unat (word_of_nat t :: u32) = t" using assms(2) by (simp add: unat_of_nat take_bit_eq_mod)
  have "\<forall>e \<in> set due. unat (ev_time e) \<le> t"
    unfolding due_def by (auto dest!: set_takeWhileD simp: word_le_nat_alt time)
  moreover have "queue_ok t (longest q) rest"
    unfolding rest_def using queue_ok_turn inv(3) \<open>X' = X\<close> by simp
  moreover have "t < unat (ev_time (hd rest))" if "rest \<noteq> []"
    using hd_dropWhile [OF that [unfolded rest_def]] by (simp add: rest_def word_le_nat_alt time)
  ultimately have "t < unat (ev_time e) + longest q" if "e \<in> set rest" for e
    using that unfolding queue_ok_def by fastforce
  moreover have "X q = due @ rest" by (simp add: due_def rest_def)
  moreover obtain es' where "event_turn q (word_of_nat t) es = Some (Inr es')" "queues es' (X(q := rest))"
    "es_started es' = es_started es @ started due"
    using refines_turn [OF assms(3) inv(1), of q "word_of_nat t"] unfolding due_def rest_def by blast
  ultimately show ?thesis using \<open>\<forall>e \<in> set due. _\<close> by blast
qed

text \<open>The bound is reached: an event of one millisecond behind one of a minute is not started before the minute is over.\<close>

lemma event_delay_bound_witness:
  "\<exists>es es' X. es_reach 59999 es \<and> queues es X \<and> X MS = [new_event 1 0 60000 False 0, new_event 2 0 1 False 0] \<and>
    event_turn MS 59999 es = Some (Inr es') \<and> queues es' X \<and> es_started es' = []"
proof -
  have parts: "list_for 60000 = MS" "list_for 1 = MS" by (simp_all add: list_for_def)
  obtain es1 where es1: "AddEvent 1 0 60000 False False (word_of_nat 0) no_events = Some (Inr (0, es1))" "periodics es1 (\<lambda>_. [])"
    "es_started es1 = []" "queues es1 ((\<lambda>_. [])(MS := [new_event 1 0 60000 False 0]))" "es_eventid es1 = 0"
    using refines_AddEvent [OF no_events_holds, of 1 0 60000 False 0] by (auto simp: parts push_spec_def no_events_def)
  obtain es2 where es2: "AddEvent 2 0 1 False False (word_of_nat 0) es1 = Some (Inr (0, es2))" "es_started es2 = []"
    "queues es2 ((\<lambda>_. [])(MS := [new_event 1 0 60000 False 0, new_event 2 0 1 False 0]))"
    using refines_AddEvent [OF es1(4,2), of 2 0 1 False 0] es1(3)
    by (auto simp: parts push_spec_def)
  have "es_reach 0 es2"
    by (rule es_reach.add [OF es_reach.add [OF es_reach.start _ _ es1(1)] _ _ es2(1)]) (simp_all add: es1(5) no_events_def word_gt_0)
  then have "es_reach 59999 es2" by (rule es_reach.later) simp
  from event_delay_bound [OF this _ es2(3), of MS] obtain es' due rest where
    turn: "event_turn MS 59999 es2 = Some (Inr es')" "[new_event 1 0 60000 False 0, new_event 2 0 1 False 0] = due @ rest"
      "queues es' ((\<lambda>_. [])(MS := rest))" "es_started es' = started due" "\<forall>e \<in> set due. unat (ev_time e) \<le> 59999"
    by (auto simp: es2(2))
  have "due = []" using turn(2,5) by (cases due) (auto simp: new_event_def)
  then show ?thesis using turn \<open>es_reach 59999 es2\<close> es2(3)
    by (intro exI [of _ es2] exI [of _ es'] exI [of _ "(\<lambda>_. [])(MS := rest)"]) (simp add: started_def)
qed

text \<open>C27: in every reachable state the periodic events of the three lists have different ids, none of them 0; a removal takes out the event of
  this id, from whichever list it is in, and nothing else.\<close>

theorem periodic_ids_unique:
  assumes "es_reach t es" "periodics es Y"
  shows "distinct (all_ids Y) \<and> 0 \<notin> set (all_ids Y) \<and>
    (\<exists>es'. RemovePeriodicEvent i es = Some (Inr es') \<and> periodics es' (\<lambda>q. filter (\<lambda>e. pv_id e \<noteq> i) (Y q)) \<and>
      es_started es' = es_started es \<and> (\<forall>X. queues es X \<longrightarrow> queues es' X))"
proof -
  obtain X Y' where inv: "queues es X" "periodics es Y'" "ids_ok (es_eventid es) (es_avalabelid es) Y'"
    using es_inv_reach [OF assms(1)] by (auto simp: es_inv_def)
  have "Y' = Y" using inv(2) assms(2) unfolding periodics_def by (rule pvs.holds_unique)
  then have ids: "distinct (all_ids Y)" "0 \<notin> set (all_ids Y)" using inv(3) by (auto simp: ids_ok_def)
  obtain es' where es': "RemovePeriodicEvent i es = Some (Inr es')" "queues es' X" "es_started es' = es_started es"
    "periodics es' (remove_spec [MS, S, M] i Y)"
    using refines_Remove [OF inv(1) assms(2), of i] by auto
  have "queues es' Z" if "queues es Z" for Z
    using es'(2) inv(1) that unfolding queues_def by (metis evs.holds_unique)
  then show ?thesis using ids es' unfolding remove_spec_filter [OF ids(1)] by blast
qed

lemma periodic_ids_unique_witness:
  "\<exists>n es. AddEvent 5 0 61000 False True (word_of_nat 0) no_events = Some (Inr (n, es)) \<and> n \<noteq> 0 \<and>
    (\<exists>es'. RemovePeriodicEvent n es = Some (Inr es') \<and> periodics es' (\<lambda>_. []))"
proof -
  have parts: "list_for 61000 = S" by (simp add: list_for_def)
  obtain n es where es: "AddEvent 5 0 61000 False True (word_of_nat 0) no_events = Some (Inr (n, es))"
    "periodics es ((\<lambda>_. [])(S := [\<lparr>pv_handler = 5, pv_param = 0, pv_time = word_of_nat 0 + 61000, pv_st = False, pv_id = n,
      pv_period = 61000, pv_pNext = None\<rparr>]))" (is "periodics es ?Y")
    using refines_periodic [OF no_events_holds, of 5 0 61000 False "word_of_nat 0"] unfolding parts by blast
  have "es_reach 0 es" by (rule es_reach.add [OF es_reach.start _ _ es(1)]) (simp_all add: no_events_def word_gt_0)
  from periodic_ids_unique [OF this es(2), of n]
  have "0 \<notin> set (all_ids ?Y)" "\<exists>es'. RemovePeriodicEvent n es = Some (Inr es') \<and> periodics es' (\<lambda>q. filter (\<lambda>e. pv_id e \<noteq> n) (?Y q))"
    by blast+
  moreover have "(\<lambda>q. filter (\<lambda>e. pv_id e \<noteq> n) (?Y q)) = (\<lambda>_. [])" by auto
  ultimately show ?thesis using es(1) by (auto simp: all_ids_def)
qed

section \<open>The time between turns\<close>

text \<open>A thread sleeps for what is left of its interval after the time since its last turn began; when the turn and the rest took longer than the
  interval, the difference is negative and it sleeps for almost 2 ^ 32 milliseconds instead.\<close>

theorem sleep_time_value:
  "unat (sleep_time q cur now) =
    (let used = unat (now - cur); step = unat (resolution q) in if used \<le> step then step - used else 2 ^ 32 - (used - step))"
proof -
  have "unat (resolution q - (now - cur)) = (if unat (now - cur) \<le> unat (resolution q) then unat (resolution q) - unat (now - cur)
      else unat (resolution q) + 2 ^ 32 - unat (now - cur))"
    by (simp add: unat_sub_if')
  moreover have "unat (now - cur) < 2 ^ 32" using unsigned_less [of "now - cur"] by simp
  ultimately show ?thesis by (auto simp: sleep_time_def Let_def)
qed

end
