(* ===== verification/Event_Locks.thy ===== *)
theory Event_Locks
  imports Event_Queues
begin

text \<open>
  The locks of \<open>shared/EventSystem.cpp\<close>. A queue has a count of its readers and a flag for its writer, in two volatile variables; the macros
  \<open>read_\<close>, \<open>write_\<close>, \<open>end_read_\<close>, \<open>end_write_\<close> and \<open>expand_\<close> of each queue wait for them and change them. First each macro is one
  step, which is what they are meant as; then every load and store is one, which is what they are. Last, what the gap in \<open>expand_\<close> does
  to \<open>PushmsEvent\<close>.
\<close>

section \<open>Macros as single steps\<close>

datatype section_pc = Outside | Reading | Expanding | Writing

record lock_state =
  ls_r :: u32
  ls_w :: u32
  ls_pc :: "nat \<Rightarrow> section_pc"

definition no_locks :: lock_state where
  "no_locks = \<lparr>ls_r = 0, ls_w = 0, ls_pc = \<lambda>_. Outside\<rparr>"

text \<open>\<open>n\<close> threads; \<open>expand_\<close> is two macros, \<open>end_read_\<close> and \<open>write_\<close>.\<close>

inductive macro_step :: "nat \<Rightarrow> lock_state \<Rightarrow> lock_state \<Rightarrow> bool" for n where
  begin_read: "i < n \<Longrightarrow> ls_pc s i = Outside \<Longrightarrow> ls_w s = 0 \<Longrightarrow>
    macro_step n s (s\<lparr>ls_r := ls_r s + 1, ls_pc := (ls_pc s)(i := Reading)\<rparr>)"
| end_read: "i < n \<Longrightarrow> ls_pc s i = Reading \<Longrightarrow>
    macro_step n s (s\<lparr>ls_r := ls_r s - 1, ls_pc := (ls_pc s)(i := Outside)\<rparr>)"
| expand: "i < n \<Longrightarrow> ls_pc s i = Reading \<Longrightarrow>
    macro_step n s (s\<lparr>ls_r := ls_r s - 1, ls_pc := (ls_pc s)(i := Expanding)\<rparr>)"
| begin_write: "i < n \<Longrightarrow> ls_pc s i = Outside \<or> ls_pc s i = Expanding \<Longrightarrow> ls_r s = 0 \<Longrightarrow> ls_w s = 0 \<Longrightarrow>
    macro_step n s (s\<lparr>ls_w := 1, ls_pc := (ls_pc s)(i := Writing)\<rparr>)"
| end_write: "i < n \<Longrightarrow> ls_pc s i = Writing \<Longrightarrow>
    macro_step n s (s\<lparr>ls_w := 0, ls_pc := (ls_pc s)(i := Outside)\<rparr>)"

definition readers :: "nat \<Rightarrow> lock_state \<Rightarrow> nat set" where
  "readers n s = {i. i < n \<and> ls_pc s i = Reading}"

definition locks_ok :: "nat \<Rightarrow> lock_state \<Rightarrow> bool" where
  "locks_ok n s \<longleftrightarrow> unat (ls_r s) = card (readers n s) \<and>
     (\<forall>i < n. ls_pc s i = Writing \<longrightarrow> ls_w s \<noteq> 0 \<and> readers n s = {} \<and> (\<forall>j < n. ls_pc s j = Writing \<longrightarrow> j = i))"

lemma finite_readers [simp]: "finite (readers n s)"
  by (simp add: readers_def)

lemma readers_add: "i < n \<Longrightarrow> readers n (s\<lparr>ls_r := r, ls_pc := (ls_pc s)(i := Reading)\<rparr>) = insert i (readers n s)"
  by (auto simp: readers_def)

lemma readers_remove: "pc \<noteq> Reading \<Longrightarrow> readers n (s\<lparr>ls_r := r, ls_pc := (ls_pc s)(i := pc)\<rparr>) = readers n s - {i}"
  "pc \<noteq> Reading \<Longrightarrow> readers n (s\<lparr>ls_w := r, ls_pc := (ls_pc s)(i := pc)\<rparr>) = readers n s - {i}"
  by (auto simp: readers_def)

lemma card_readers: "card (readers n s) \<le> n"
  using card_mono [of "{..<n}" "readers n s"] by (auto simp: readers_def)

lemma unat_plus_one: "unat x < k \<Longrightarrow> k < 2 ^ 32 \<Longrightarrow> unat (x + 1) = Suc (unat x)" for x :: u32
  by (simp add: unat_word_ariths)

lemma unat_minus_one': "0 < unat x \<Longrightarrow> unat (x - 1) = unat x - 1" for x :: u32
  by (subst unat_sub) (auto simp: word_le_nat_alt)

lemma locks_ok_step: "macro_step n s s' \<Longrightarrow> n < 2 ^ 32 \<Longrightarrow> locks_ok n s \<Longrightarrow> locks_ok n s'"
proof (induction rule: macro_step.induct)
  case (begin_read i s)
  have new: "i \<notin> readers n s" using begin_read.hyps by (simp add: readers_def)
  have "card (insert i (readers n s)) \<le> n" using card_mono [of "{..<n}" "insert i (readers n s)"] begin_read.hyps(1) by (auto simp: readers_def)
  then have "unat (ls_r s + 1) = card (insert i (readers n s))"
    using new begin_read.prems unat_plus_one [of "ls_r s" n] by (simp add: locks_ok_def)
  then show ?case using begin_read.prems(2) begin_read.hyps by (auto simp: locks_ok_def readers_add)
next
  case (end_read i s)
  then have "i \<in> readers n s" by (simp add: readers_def)
  then have "0 < card (readers n s)" "card (readers n s - {i}) = card (readers n s) - 1" by (auto simp: card_gt_0_iff)
  then show ?case using end_read unat_minus_one' [of "ls_r s"] \<open>i \<in> readers n s\<close> unfolding locks_ok_def by (auto simp: readers_remove)
next
  case (expand i s)
  then have "i \<in> readers n s" by (simp add: readers_def)
  then have "0 < card (readers n s)" "card (readers n s - {i}) = card (readers n s) - 1" by (auto simp: card_gt_0_iff)
  then show ?case using expand unat_minus_one' [of "ls_r s"] \<open>i \<in> readers n s\<close> unfolding locks_ok_def by (auto simp: readers_remove)
next
  case (begin_write i s)
  then have "readers n s = {}" by (auto simp: locks_ok_def)
  then show ?case using begin_write unfolding locks_ok_def by (auto simp: readers_remove)
next
  case (end_write i s)
  then have "readers n s = {}" by (auto simp: locks_ok_def)
  then show ?case using end_write unfolding locks_ok_def by (auto simp: readers_remove)
qed

lemma locks_ok_reach: "(macro_step n)\<^sup>*\<^sup>* no_locks s \<Longrightarrow> n < 2 ^ 32 \<Longrightarrow> locks_ok n s"
proof (induction rule: rtranclp_induct)
  case base
  show ?case by (simp add: locks_ok_def no_locks_def readers_def)
qed (auto intro: locks_ok_step)

section \<open>Macros as they are\<close>

text \<open>Each load and store is a step of its own. A thread has the values it loaded; \<open>Drop\<close> is \<open>rmse--\<close>, for \<open>end_read_\<close> or, with the flag
  set, for \<open>expand_\<close>. The bool of a step is the choice a thread has at the end of a section or outside of one: to read or to write, to end
  or to expand.\<close>

datatype lock_pc = Outside_pc | Read_test | Read_load | Read_store u32 | In_read | Drop_load bool | Drop_store bool u32
  | Write_test_r | Write_test_w | Write_set | In_write

fun lock_instr :: "bool \<Rightarrow> lock_pc \<Rightarrow> u32 \<Rightarrow> u32 \<Rightarrow> lock_pc \<times> u32 \<times> u32" where
  "lock_instr b Outside_pc r w = (if b then Read_test else Write_test_r, r, w)"
| "lock_instr b Read_test r w = (if w \<noteq> 0 then Read_test else Read_load, r, w)"
| "lock_instr b Read_load r w = (Read_store r, r, w)"
| "lock_instr b (Read_store v) r w = (In_read, v + 1, w)"
| "lock_instr b In_read r w = (Drop_load (\<not> b), r, w)"
| "lock_instr b (Drop_load x) r w = (Drop_store x r, r, w)"
| "lock_instr b (Drop_store x v) r w = (if x then Write_test_r else Outside_pc, v - 1, w)"
| "lock_instr b Write_test_r r w = (if r \<noteq> 0 then Write_test_r else Write_test_w, r, w)"
| "lock_instr b Write_test_w r w = (if w \<noteq> 0 then Write_test_r else Write_set, r, w)"
| "lock_instr b Write_set r w = (In_write, r, 1)"
| "lock_instr b In_write r w = (Outside_pc, r, 0)"

text \<open>A schedule says which thread goes next, and with which choice.\<close>

fun lock_run :: "(nat \<times> bool) list \<Rightarrow> (nat \<Rightarrow> lock_pc) \<times> u32 \<times> u32 \<Rightarrow> (nat \<Rightarrow> lock_pc) \<times> u32 \<times> u32" where
  "lock_run [] s = s"
| "lock_run ((i, b) # xs) (pc, r, w) = (let (p, r', w') = lock_instr b (pc i) r w in lock_run xs (pc(i := p), r', w'))"

section \<open>Adding an event, in its two sections\<close>

text \<open>What \<open>Push*Event\<close> does before \<open>expand_\<close>, and after it.\<close>

definition push_begin :: "timer_list \<Rightarrow> nat \<Rightarrow> event_system \<Rightarrow> (nat option \<times> event_system) res option" where
  "push_begin q a es =
     obind (Some (node_at (es_nodes es) a)) (\<lambda>e.
     case es_Events es q of
       None \<Rightarrow> Some (Inr (None, es\<lparr>es_nodes := (es_nodes es)(a \<mapsto> e\<lparr>ev_pNext := None\<rparr>)\<rparr>))
     | Some pos \<Rightarrow>
         obind (push_pos (es_nodes es) (ev_time e) pos) (\<lambda>pos.
         obind (Some (node_at (es_nodes es) pos)) (\<lambda>n.
         Some (Inr (Some pos, es\<lparr>es_nodes := (es_nodes es)(a \<mapsto> e\<lparr>ev_pNext := ev_pNext n\<rparr>)\<rparr>)))))"

definition push_end :: "timer_list \<Rightarrow> nat \<Rightarrow> nat option \<Rightarrow> event_system \<Rightarrow> event_system res" where
  "push_end q a pos es =
     (case pos of
        None \<Rightarrow> Inr (es\<lparr>es_Events := (es_Events es)(q \<mapsto> a)\<rparr>)
      | Some p \<Rightarrow> rmap (\<lambda>n. es\<lparr>es_nodes := (es_nodes es)(p \<mapsto> n\<lparr>ev_pNext := Some a\<rparr>)\<rparr>) (node_at (es_nodes es) p))"

lemma event_turn_all:
  "evs.chain (es_nodes es) (es_Events es q) as None \<Longrightarrow> \<forall>a \<in> set as. ev_time (the (es_nodes es a)) \<le> cur \<Longrightarrow>
    \<exists>es'. event_turn q cur es = Some (Inr es') \<and> es_nodes es' = (\<lambda>b. if b \<in> set as then None else es_nodes es b)"
proof (induction as arbitrary: es)
  case Nil
  then show ?case by (subst event_turn.simps) simp
next
  case (Cons a as)
  obtain n where n: "es_Events es q = Some a" "es_nodes es a = Some n" using Cons.prems(1) by auto
  let ?es = "es\<lparr>es_started := es_started es @ [(ev_handler n, ev_param n, ev_st n)],
    es_Events := (es_Events es)(q := ev_pNext n), es_nodes := (es_nodes es)(a := None)\<rparr>"
  have new: "a \<notin> set as" using evs.chain_distinct [OF Cons.prems(1)] by simp
  have "evs.chain (es_nodes ?es) (es_Events ?es q) as None"
    using evs.chain_tail [of "es_nodes es" a as n] Cons.prems(1) n by simp
  moreover have "\<forall>b \<in> set as. ev_time (the (es_nodes ?es b)) \<le> cur" using Cons.prems(2) new by auto
  ultimately obtain es' where es': "event_turn q cur ?es = Some (Inr es')"
    "es_nodes es' = (\<lambda>b. if b \<in> set as then None else es_nodes ?es b)"
    using Cons.IH [of ?es] by blast
  have "event_turn q cur es = Some (Inr es')"
    using n Cons.prems(2) es'(1) by (subst event_turn.simps) (simp add: node_at_def)
  then show ?case using es'(2) new by (auto simp: fun_eq_iff)
qed

section \<open>What holds\<close>

text \<open>If every macro were one step, the locks of a queue would do what they are for: with any number of threads below 2 ^ 32, while one is in a
  section for writing, every other is outside or waits, and the count of readers is right.\<close>

theorem macros_exclude:
  assumes "(macro_step n)\<^sup>*\<^sup>* no_locks s" "n < 2 ^ 32"
  shows "unat (ls_r s) = card {i. i < n \<and> ls_pc s i = Reading} \<and>
    (\<forall>i j. i < n \<and> j < n \<and> ls_pc s i = Writing \<and> j \<noteq> i \<longrightarrow> ls_pc s j = Outside \<or> ls_pc s j = Expanding)"
proof -
  have inv: "unat (ls_r s) = card (readers n s)"
    "\<And>i. i < n \<Longrightarrow> ls_pc s i = Writing \<Longrightarrow> readers n s = {} \<and> (\<forall>j < n. ls_pc s j = Writing \<longrightarrow> j = i)"
    using locks_ok_reach [OF assms] by (auto simp: locks_ok_def)
  have "ls_pc s j = Outside \<or> ls_pc s j = Expanding" if "i < n" "j < n" "ls_pc s i = Writing" "j \<noteq> i" for i j
  proof -
    have "readers n s = {}" "ls_pc s j \<noteq> Writing" using inv(2) [OF that(1,3)] that(2,4) by blast+
    then have "ls_pc s j \<noteq> Reading" using that(2) unfolding readers_def by blast
    then show ?thesis using \<open>ls_pc s j \<noteq> Writing\<close> by (cases "ls_pc s j") simp_all
  qed
  then show ?thesis using inv(1) unfolding readers_def by blast
qed

lemma macros_exclude_witness:
  "\<exists>s. (macro_step 2)\<^sup>*\<^sup>* no_locks s \<and> ls_pc s 0 = Writing \<and> ls_r s = 0"
proof -
  let ?s = "no_locks\<lparr>ls_w := 1, ls_pc := (\<lambda>_. Outside)(0 := Writing)\<rparr>"
  have "macro_step 2 no_locks ?s" using macro_step.begin_write [of 0 2 no_locks] by (simp add: no_locks_def)
  then have "(macro_step 2)\<^sup>*\<^sup>* no_locks ?s" by simp
  from macros_exclude [OF this] have "unat (ls_r ?s) = card {i. i < (2::nat) \<and> ls_pc ?s i = Reading}" by simp
  moreover have "{i. i < (2::nat) \<and> ls_pc ?s i = Reading} = {}" by (auto simp: no_locks_def)
  ultimately have "unat (ls_r ?s) = 0" by (metis card.empty)
  then have "ls_r ?s = 0" by (simp only: unat_eq_0)
  then show ?thesis using \<open>(macro_step 2)\<^sup>*\<^sup>* no_locks ?s\<close> by (intro exI [of _ ?s]) simp
qed

text \<open>The macros as they are, in turns: a thread goes on alone, for any number of steps and with any choices, until it is outside, in a section, or at
  the test of a loop that waits; then any thread may go on.\<close>

fun at_rest :: "lock_pc \<Rightarrow> bool" where
  "at_rest Outside_pc \<longleftrightarrow> True"
| "at_rest Read_test \<longleftrightarrow> True"
| "at_rest In_read \<longleftrightarrow> True"
| "at_rest Write_test_r \<longleftrightarrow> True"
| "at_rest In_write \<longleftrightarrow> True"
| "at_rest _ \<longleftrightarrow> False"

inductive turns :: "nat \<Rightarrow> (nat \<Rightarrow> lock_pc) \<times> u32 \<times> u32 \<Rightarrow> bool" for n where
  start: "turns n (\<lambda>_. Outside_pc, 0, 0)"
| turn: "turns n s \<Longrightarrow> i < n \<Longrightarrow> lock_run (map (Pair i) bs) s = (pc, r, w) \<Longrightarrow> at_rest (pc i) \<Longrightarrow> turns n (pc, r, w)"

text \<open>What holds while thread \<open>i\<close> goes on and the others rest; \<open>k\<close> of them read.\<close>

definition others :: "nat \<Rightarrow> nat \<Rightarrow> (nat \<Rightarrow> lock_pc) \<Rightarrow> lock_pc \<Rightarrow> nat set" where
  "others n i pc p = {j. j < n \<and> j \<noteq> i \<and> pc j = p}"

fun own_ok :: "lock_pc \<Rightarrow> nat \<Rightarrow> bool \<Rightarrow> u32 \<Rightarrow> u32 \<Rightarrow> bool" where
  "own_ok Read_load k W r w \<longleftrightarrow> unat r = k \<and> w = 0 \<and> \<not> W"
| "own_ok (Read_store v) k W r w \<longleftrightarrow> unat r = k \<and> v = r \<and> w = 0 \<and> \<not> W"
| "own_ok In_read k W r w \<longleftrightarrow> unat r = k + 1 \<and> w = 0 \<and> \<not> W"
| "own_ok (Drop_load x) k W r w \<longleftrightarrow> unat r = k + 1 \<and> w = 0 \<and> \<not> W"
| "own_ok (Drop_store x v) k W r w \<longleftrightarrow> unat r = k + 1 \<and> v = r \<and> w = 0 \<and> \<not> W"
| "own_ok Write_test_w k W r w \<longleftrightarrow> r = 0 \<and> k = 0 \<and> (w \<noteq> 0 \<longleftrightarrow> W)"
| "own_ok Write_set k W r w \<longleftrightarrow> r = 0 \<and> k = 0 \<and> w = 0 \<and> \<not> W"
| "own_ok In_write k W r w \<longleftrightarrow> r = 0 \<and> k = 0 \<and> w \<noteq> 0 \<and> \<not> W"
| "own_ok _ k W r w \<longleftrightarrow> unat r = k \<and> (w \<noteq> 0 \<longleftrightarrow> W) \<and> (W \<longrightarrow> k = 0)"

lemma own_step:
  assumes "own_ok p k W r w" "lock_instr b p r w = (p', r', w')" "k + 1 < 2 ^ 32"
  shows "own_ok p' k W r' w'"
  using assms unat_plus_one [of r "k + 1"] unat_minus_one' [of r]
  by (cases p) (auto split: if_splits simp: unat_eq_0)

definition turn_ok :: "nat \<Rightarrow> nat \<Rightarrow> (nat \<Rightarrow> lock_pc) \<times> u32 \<times> u32 \<Rightarrow> bool" where
  "turn_ok n i = (\<lambda>(pc, r, w). own_ok (pc i) (card (others n i pc In_read)) (others n i pc In_write \<noteq> {}) r w \<and>
     card (others n i pc In_write) \<le> 1 \<and> (\<forall>j. j \<noteq> i \<longrightarrow> at_rest (pc j)))"

lemma others_upd [simp]: "others n i (pc(i := p)) q = others n i pc q"
  by (auto simp: others_def)

lemma card_others: "i < n \<Longrightarrow> card (others n i pc p) + 1 \<le> n"
  using card_mono [of "{..<n} - {i}" "others n i pc p"] by (fastforce simp: others_def)

lemma turn_run:
  assumes "turn_ok n i s" "i < n" "n < 2 ^ 32"
  shows "turn_ok n i (lock_run (map (Pair i) bs) s)"
  using assms(1)
proof (induction bs arbitrary: s)
  case (Cons b bs)
  obtain pc r w where s: "s = (pc, r, w)" by (cases s) auto
  obtain p' r' w' where step: "lock_instr b (pc i) r w = (p', r', w')" by (cases "lock_instr b (pc i) r w") auto
  have "own_ok p' (card (others n i pc In_read)) (others n i pc In_write \<noteq> {}) r' w'"
    using own_step [OF _ step] Cons.prems card_others [OF assms(2), of pc In_read] assms(3) by (simp add: turn_ok_def s)
  then have "turn_ok n i (pc(i := p'), r', w')" using Cons.prems by (auto simp: turn_ok_def s)
  from Cons.IH [OF this] show ?case by (simp add: s step)
qed simp

text \<open>Between turns, it does not matter which thread one looks at.\<close>

definition at_p :: "nat \<Rightarrow> (nat \<Rightarrow> lock_pc) \<Rightarrow> lock_pc \<Rightarrow> nat set" where
  "at_p n pc p = {j. j < n \<and> pc j = p}"

lemma finite_at [simp]: "finite (at_p n pc p)" "finite (others n i pc p)"
  by (simp_all add: at_p_def others_def)

lemma at_others: "i < n \<Longrightarrow> at_p n pc p = (if pc i = p then insert i (others n i pc p) else others n i pc p)"
  by (auto simp: at_p_def others_def)

lemma not_other [simp]: "i \<notin> others n i pc p"
  by (simp add: others_def)

definition rest_ok :: "nat \<Rightarrow> (nat \<Rightarrow> lock_pc) \<times> u32 \<times> u32 \<Rightarrow> bool" where
  "rest_ok n = (\<lambda>(pc, r, w). unat r = card (at_p n pc In_read) \<and> (w \<noteq> 0 \<longleftrightarrow> at_p n pc In_write \<noteq> {}) \<and>
     (at_p n pc In_write \<noteq> {} \<longrightarrow> at_p n pc In_read = {}) \<and> card (at_p n pc In_write) \<le> 1 \<and> (\<forall>j. at_rest (pc j)))"

lemma rest_turn:
  assumes "rest_ok n (pc, r, w)" "i < n"
  shows "turn_ok n i (pc, r, w)"
proof -
  have "at_rest (pc i)" using assms(1) by (simp add: rest_ok_def)
  then show ?thesis using assms by (cases "pc i") (auto simp: rest_ok_def turn_ok_def at_others unat_eq_0 split: if_splits)
qed

lemma turn_rest:
  assumes "turn_ok n i (pc, r, w)" "i < n" "at_rest (pc i)"
  shows "rest_ok n (pc, r, w)"
proof -
  have "at_rest (pc j)" for j using assms(1,3) by (cases "j = i") (simp_all add: turn_ok_def)
  then show ?thesis using assms by (cases "pc i") (auto simp: rest_ok_def turn_ok_def at_others split: if_splits)
qed

lemma turns_ok: "turns n s \<Longrightarrow> n < 2 ^ 32 \<Longrightarrow> rest_ok n s"
proof (induction rule: turns.induct)
  case start
  show ?case by (simp add: rest_ok_def at_p_def)
next
  case (turn s i bs pc r w)
  obtain pc0 r0 w0 where s: "s = (pc0, r0, w0)" by (cases s) auto
  then have "turn_ok n i (pc0, r0, w0)" using turn.IH turn.prems turn.hyps(2) rest_turn by blast
  from turn_run [OF this turn.hyps(2) turn.prems, of bs] show ?case
    using turn.hyps(2-4) turn_rest by (simp add: s)
qed

text \<open>C39: as long as no turn ends within a macro, the locks exclude: the count of readers is right, no thread reads while another writes, and at most one
  writes. But threads do not wait for each other's macros, and step by step the locks do not exclude: from the same start, two threads may pass the test before
  either has set the flag, and both write; and two that begin to read at once may count as one, so that when one of them ends the other
  reads beside a thread that writes.\<close>

theorem locks_do_not_exclude:
  assumes "turns n (pc, r, w)" "n < 2 ^ 32"
  shows "unat r = card {i. i < n \<and> pc i = In_read} \<and> (w \<noteq> 0 \<longleftrightarrow> (\<exists>i < n. pc i = In_write)) \<and>
    (\<forall>i < n. \<forall>j < n. pc i = In_write \<longrightarrow> pc j \<noteq> In_read \<and> (pc j = In_write \<longrightarrow> j = i)) \<and>
    (\<exists>xs pc r w. lock_run xs (\<lambda>_. Outside_pc, 0, 0) = (pc, r, w) \<and> pc 0 = In_write \<and> pc 1 = In_write) \<and>
    (\<exists>xs pc r w. lock_run xs (\<lambda>_. Outside_pc, 0, 0) = (pc, r, w) \<and> pc 1 = In_read \<and> r = 0 \<and> pc 2 = In_write)"
proof (intro conjI)
  have inv: "rest_ok n (pc, r, w)" using turns_ok assms .
  then show "unat r = card {i. i < n \<and> pc i = In_read}" "w \<noteq> 0 \<longleftrightarrow> (\<exists>i < n. pc i = In_write)"
    by (auto simp: rest_ok_def at_p_def)
  have "card (at_p n pc In_write) \<le> 1" "at_p n pc In_write \<noteq> {} \<longrightarrow> at_p n pc In_read = {}" using inv by (simp_all add: rest_ok_def)
  then show "\<forall>i < n. \<forall>j < n. pc i = In_write \<longrightarrow> pc j \<noteq> In_read \<and> (pc j = In_write \<longrightarrow> j = i)"
    by (auto simp: card_le_Suc0_iff_eq at_p_def)
  let ?xs = "[(0, False), (1, False), (0, False), (1, False), (0, False), (1, False), (0, False), (1, False)]"
  show "\<exists>xs pc r w. lock_run xs (\<lambda>_. Outside_pc, 0, 0) = (pc, r, w) \<and> pc 0 = In_write \<and> pc 1 = In_write"
    by (rule exI [of _ ?xs]) simp
  let ?ys = "[(0, True), (1, True), (0, True), (1, True), (0, True), (1, True), (0, True), (1, True), (0, True), (0, True), (0, True),
    (2, False), (2, False), (2, False), (2, False)]"
  show "\<exists>xs pc r w. lock_run xs (\<lambda>_. Outside_pc, 0, 0) = (pc, r, w) \<and> pc 1 = In_read \<and> r = 0 \<and> pc 2 = In_write"
    by (rule exI [of _ ?ys]) simp
qed

text \<open>Two threads read, and a third waits to write.\<close>

lemma locks_do_not_exclude_witness:
  "\<exists>pc. turns 3 (pc, 2, 0) \<and> pc 2 = Write_test_r \<and> card {i. i < 3 \<and> pc i = In_read} = 2 \<and> (\<forall>i < 3. pc i \<noteq> In_write)"
proof -
  define pc :: "nat \<Rightarrow> lock_pc" where "pc = (\<lambda>_. Outside_pc)(0 := In_read, 1 := In_read, 2 := Write_test_r)"
  have one: "turns 3 ((\<lambda>_. Outside_pc)(0 := In_read), 1, 0)"
    by (rule turns.turn [OF turns.start, of 0 3 "[True, True, True, True]"]) (simp_all add: fun_upd_def fun_eq_iff)
  have two: "turns 3 ((\<lambda>_. Outside_pc)(0 := In_read, 1 := In_read), 2, 0)"
    by (rule turns.turn [OF one, of 1 "[True, True, True, True]"]) (simp_all add: fun_upd_def fun_eq_iff)
  have run: "turns 3 (pc, 2, 0)"
    by (rule turns.turn [OF two, of 2 "[False, False]"]) (simp_all add: pc_def fun_upd_def fun_eq_iff)
  note here = locks_do_not_exclude [OF run]
  have "card {i. i < 3 \<and> pc i = In_read} = 2" "\<forall>i < 3. pc i \<noteq> In_write" using here by simp_all
  moreover have "pc 2 = Write_test_r" by (simp add: pc_def)
  ultimately show ?thesis using run by blast
qed

text \<open>A handler of a periodic event that removes an event of its own list, on the thread of the list, waits for ever: the turn is one of the
  readers the removal waits for.\<close>

lemma run_waiting: "v \<noteq> 0 \<Longrightarrow> lock_run (replicate k (i, False)) (pc(i := Write_test_r), v, w) = (pc(i := Write_test_r), v, w)"
  by (induction k) simp_all

theorem removal_waits_for_itself:
  assumes "v \<noteq> 0"
  shows "lock_run (replicate (6 + k) (i, False)) (pc(i := Read_test), v, 0) = (pc(i := Write_test_r), v, 0)"
proof -
  have "replicate (6 + k) (i, False) = [(i, False), (i, False), (i, False), (i, False), (i, False), (i, False)] @ replicate k (i, False)"
    by (simp add: eval_nat_numeral)
  then show ?thesis using run_waiting [OF assms, of k i pc 0] by simp
qed

lemma removal_waits_for_itself_witness:
  "lock_run (replicate 1000 (0, False)) ((\<lambda>_. Outside_pc)(0 := Read_test), 1, 0) = ((\<lambda>_. Outside_pc)(0 := Write_test_r), 1, 0)"
  using removal_waits_for_itself [of 1 994 0 "\<lambda>_. Outside_pc"] by simp

text \<open>The two sections of adding an event, one after the other, are the whole of it.\<close>

theorem PushEvent_sections:
  "PushEvent q a es = obind (push_begin q a es) (\<lambda>(pos, es). Some (push_end q a pos es))"
proof (cases "node_at (es_nodes es) a")
  case (Inr e)
  show ?thesis
  proof (cases "es_Events es q")
    case (Some pos)
    show ?thesis
    proof (cases "push_pos (es_nodes es) (ev_time e) pos")
      case (Some r)
      then show ?thesis
        using Inr \<open>es_Events es q = Some pos\<close>
        by (cases r; auto simp: PushEvent_def push_begin_def push_end_def node_at_def split: option.splits)
    qed (use Inr Some in \<open>simp add: PushEvent_def push_begin_def\<close>)
  qed (use Inr in \<open>simp add: PushEvent_def push_begin_def push_end_def\<close>)
qed (simp add: PushEvent_def push_begin_def)

text \<open>C40: but between them no lock is held. If a turn of the thread that starts every event of the queue comes there, the node the new event is
  put behind has been deleted, and the code writes to it; and if the queue was empty, an event that another thread adds there is lost.\<close>

theorem expand_gap:
  assumes "queues es X" "a = es_fresh es" "X q \<noteq> []" "\<forall>x \<in> set (X q). ev_time x \<le> cur"
  shows "\<exists>pos es1 es2. push_begin q a (es\<lparr>es_nodes := (es_nodes es)(a \<mapsto> e), es_fresh := a + 1\<rparr>) = Some (Inr (pos, es1)) \<and>
    event_turn q cur es1 = Some (Inr es2) \<and> push_end q a pos es2 = Inl Dangling"
proof -
  let ?h = "es_nodes es" let ?es = "es\<lparr>es_nodes := ?h(a \<mapsto> e), es_fresh := a + 1\<rparr>"
  obtain Q where Q: "evs.lists ?h (es_Events es) a Q" "X q = evs.contents ?h (Q q)"
    using assms(1,2) by (auto simp: queues_def evs.holds_def)
  have chain: "evs.chain ?h (es_Events es q) (Q q) None" and new: "a \<notin> set (Q q)" using Q(1) by (auto simp: evs.lists_def)
  obtain b bs where bs: "Q q = b # bs" using assms(3) Q(2) by (cases "Q q") auto
  define p where "p = last (b # takeWhile (\<lambda>x. ev_time (the ((?h(a \<mapsto> e)) x)) \<le> ev_time e) bs)"
  have "evs.chain (?h(a \<mapsto> e)) (Some b) (b # bs) None" using chain bs new by (simp add: evs.chain_frame)
  then have find: "push_pos (?h(a \<mapsto> e)) (ev_time e) b = Some (Inr p)" using push_pos_chain by (simp add: p_def)
  have "p \<in> set (b # takeWhile (\<lambda>x. ev_time (the ((?h(a \<mapsto> e)) x)) \<le> ev_time e) bs)" unfolding p_def by (rule last_in_set) simp
  then have p: "p \<in> set (Q q)" unfolding bs by (auto dest: set_takeWhileD)
  then obtain n where n: "?h p = Some n" "p \<noteq> a" using evs.chain_alive [OF chain] new by blast
  define es1 where "es1 = ?es\<lparr>es_nodes := ?h(a \<mapsto> e\<lparr>ev_pNext := ev_pNext n\<rparr>)\<rparr>"
  have step: "push_begin q a ?es = Some (Inr (Some p, es1))"
    using find n chain bs by (simp add: push_begin_def node_at_def es1_def)
  have "evs.chain (es_nodes es1) (es_Events es1 q) (Q q) None" using chain new by (simp add: es1_def evs.chain_frame)
  moreover have "\<forall>x \<in> set (Q q). ev_time (the (es_nodes es1 x)) \<le> cur"
  proof
    fix x assume x: "x \<in> set (Q q)"
    then have "(the (?h x))\<lparr>ev_pNext := None\<rparr> \<in> set (X q)" using Q(2) by (auto simp: evs.contents_def)
    then have "ev_time ((the (?h x))\<lparr>ev_pNext := None\<rparr>) \<le> cur" using assms(4) by blast
    then show "ev_time (the (es_nodes es1 x)) \<le> cur" using x new by (auto simp: es1_def)
  qed
  ultimately obtain es2 where "event_turn q cur es1 = Some (Inr es2)" "es_nodes es2 p = None"
    using event_turn_all [of es1 q "Q q" cur] p by auto
  then show ?thesis using step by (auto simp: push_end_def node_at_def)
qed

lemma expand_gap_witness:
  "\<exists>es pos es1 es2. push_begin MS 1 es = Some (Inr (pos, es1)) \<and> event_turn MS 150 es1 = Some (Inr es2) \<and>
    push_end MS 1 pos es2 = Inl Dangling"
proof -
  obtain es where es: "AddEvent 5 0 50 False False 100 no_events = Some (Inr (0, es))"
    "queues es ((\<lambda>_. [])(MS := [new_event 5 0 50 False 100]))"
    using refines_AddEvent [OF no_events_holds, of 5 0 50 False 100] by (auto simp: list_for_def push_spec_def)
  have "es_fresh es = 1" using es(1)
    by (simp add: AddEvent_def PushEvent_def no_events_def list_for_def node_at_def Let_def) (auto simp: new_event_def)
  then show ?thesis
    using expand_gap [OF es(2), of 1 MS 150 "new_event 6 0 70 False 100"] by (auto simp: new_event_def)
qed

end
