(* ===== verification/Class_Lists.thy ===== *)
theory Class_Lists
  imports Linked_Chain
begin

text \<open>
  The list classes of \<open>game/NoxThingClassDefs.h\<close>: the template \<open>MLIST\<close>, \<open>FASTLIST\<close> with its second list of every thousandth node, \<open>QUEUE\<close>
  over \<open>MLIST\<close> and \<open>CHAT_LIST\<close>. The lists of the loader of \<open>thing.bin\<close> are of these classes.

  Nodes are in a store of the list. A pointer to the \<open>msg\<close> of a node, which is its first field, is the address of the node. The \<open>long\<close>
  counters are integers.
\<close>

section \<open>MLIST\<close>

record 'v mlist_node =
  mn_msg :: 'v
  mn_ID :: int
  mn_next :: "nat option"
  mn_prev :: "nat option"

record 'v mlist =
  ml_first :: "nat option"
  ml_last :: "nat option"
  ml_cur :: "nat option"
  ml_numNodes :: int
  ml_nodes :: "nat \<Rightarrow> 'v mlist_node option"
  ml_fresh :: nat

definition MLIST :: "'v mlist" where
  "MLIST = \<lparr>ml_first = None, ml_last = None, ml_cur = None, ml_numNodes = 0, ml_nodes = \<lambda>_. None, ml_fresh = 0\<rparr>"

text \<open>\<open>for(i = 0; i < number && tem; i++, temback = tem, tem = tem->next)\<close>.\<close>

fun skip_nodes :: "('n \<Rightarrow> nat option) \<Rightarrow> (nat \<Rightarrow> 'n option) \<Rightarrow> nat \<Rightarrow> nat option \<Rightarrow> nat option \<Rightarrow> (nat option \<times> nat option) res" where
  "skip_nodes next_of h 0 temback tem = Inr (temback, tem)"
| "skip_nodes next_of h (Suc i) temback None = Inr (temback, None)"
| "skip_nodes next_of h (Suc i) temback (Some a) = rbind (node_at h a) (\<lambda>n. skip_nodes next_of h i (Some a) (next_of n))"

definition MLIST_Remove :: "int \<Rightarrow> 'v mlist \<Rightarrow> 'v mlist res" where
  "MLIST_Remove number l =
     (if number < 0 then Inr l
      else rbind (skip_nodes mn_next (ml_nodes l) (nat number) None (ml_first l)) (\<lambda>(temback, tem).
        case tem of
          None \<Rightarrow> Inr l
        | Some a \<Rightarrow>
            rbind (node_at (ml_nodes l) a) (\<lambda>n.
            rmap (\<lambda>l. let l = (if ml_first l = Some a then l\<lparr>ml_first := mn_next n\<rparr> else l);
                          l = (if ml_cur l = Some a then l\<lparr>ml_cur := ml_first l\<rparr> else l)
                      in l\<lparr>ml_nodes := (ml_nodes l)(a := None), ml_numNodes := ml_numNodes l - 1\<rparr>)
              (case temback of
                 None \<Rightarrow> Inr l
               | Some b \<Rightarrow> rmap (\<lambda>m. l\<lparr>ml_nodes := (ml_nodes l)(b \<mapsto> m\<lparr>mn_next := mn_next n\<rparr>)\<rparr>) (node_at (ml_nodes l) b)))))"

definition MLIST_Add :: "'v \<Rightarrow> int \<Rightarrow> 'v mlist \<Rightarrow> 'v mlist res" where
  "MLIST_Add val ID l =
     (let a = ml_fresh l; new = \<lparr>mn_msg = val, mn_ID = ID, mn_next = None, mn_prev = None\<rparr>
      in case ml_first l of
           None \<Rightarrow> Inr (l\<lparr>ml_first := Some a, ml_last := Some a, ml_cur := Some a, ml_nodes := (ml_nodes l)(a \<mapsto> new),
             ml_fresh := a + 1, ml_numNodes := ml_numNodes l + 1\<rparr>)
         | Some _ \<Rightarrow>
             (case ml_last l of
                None \<Rightarrow> Inl NullDeref
              | Some b \<Rightarrow>
                  rmap (\<lambda>m. l\<lparr>ml_last := Some a, ml_nodes := (ml_nodes l)(b \<mapsto> m\<lparr>mn_next := Some a\<rparr>, a \<mapsto> new),
                    ml_fresh := a + 1, ml_numNodes := ml_numNodes l + 1\<rparr>) (node_at (ml_nodes l) b)))"

text \<open>\<open>Get\<close> without a number goes on from the last time; with one it counts from the front.\<close>

definition MLIST_Get_next :: "'v mlist \<Rightarrow> (nat option \<times> 'v mlist) res" where
  "MLIST_Get_next l =
     (case ml_cur l of
        None \<Rightarrow> Inr (None, l\<lparr>ml_cur := ml_first l\<rparr>)
      | Some a \<Rightarrow> rmap (\<lambda>n. (Some a, l\<lparr>ml_cur := mn_next n\<rparr>)) (node_at (ml_nodes l) a))"

definition MLIST_Get :: "int \<Rightarrow> 'v mlist \<Rightarrow> (nat option \<times> 'v mlist) res" where
  "MLIST_Get number l =
     (if number = - 1 then MLIST_Get_next l
      else rmap (\<lambda>(temback, tem). (tem, l)) (skip_nodes mn_next (ml_nodes l) (nat number) None (ml_first l)))"

definition MLIST_ClearGet :: "'v mlist \<Rightarrow> 'v mlist" where
  "MLIST_ClearGet l = l\<lparr>ml_cur := ml_first l\<rparr>"

text \<open>\<open>for(; first; delete first, first = tem) tem = first->next\<close>.\<close>

partial_function (option) delete_nodes :: "('n \<Rightarrow> nat option) \<Rightarrow> nat option \<Rightarrow> (nat \<Rightarrow> 'n option) \<Rightarrow> (nat \<Rightarrow> 'n option) res option" where
  [code]: "delete_nodes next_of p h =
     (if p = None then Some (Inr h)
      else obind (Some (node_at h (the p))) (\<lambda>n. delete_nodes next_of (next_of n) (h(the p := None))))"

text \<open>\<open>cur\<close> is left as it is.\<close>

definition MLIST_Clear :: "'v mlist \<Rightarrow> 'v mlist res option" where
  "MLIST_Clear l =
     obind (delete_nodes mn_next (ml_first l) (ml_nodes l)) (\<lambda>h.
     Some (Inr (l\<lparr>ml_first := None, ml_last := None, ml_numNodes := 0, ml_nodes := h\<rparr>)))"

partial_function (option) find_ID :: "int \<Rightarrow> nat option \<Rightarrow> (nat \<Rightarrow> 'v mlist_node option) \<Rightarrow> nat option res option" where
  [code]: "find_ID ID tem h =
     (if tem = None then Some (Inr None)
      else obind (Some (node_at h (the tem))) (\<lambda>n. if ID = mn_ID n then Some (Inr tem) else find_ID ID (mn_next n) h))"

definition MLIST_Find :: "int \<Rightarrow> 'v mlist \<Rightarrow> nat option res option" where
  "MLIST_Find ID l = find_ID ID (ml_first l) (ml_nodes l)"

section \<open>FASTLIST\<close>

record 'v fastlist =
  fl_list :: "'v mlist"
  fl_SpeedList :: "nat mlist"

definition FASTLIST :: "'v fastlist" where
  "FASTLIST = \<lparr>fl_list = MLIST, fl_SpeedList = MLIST\<rparr>"

definition FASTLIST_Remove :: "int \<Rightarrow> 'v fastlist \<Rightarrow> 'v fastlist res" where
  "FASTLIST_Remove number l =
     rbind (MLIST_Remove number (fl_list l)) (\<lambda>b.
     rmap (\<lambda>s. \<lparr>fl_list = b, fl_SpeedList = s\<rparr>)
       (if ml_numNodes b div 1000 < ml_numNodes (fl_SpeedList l)
        then MLIST_Remove (ml_numNodes (fl_SpeedList l)) (fl_SpeedList l) else Inr (fl_SpeedList l)))"

definition FASTLIST_Add :: "'v \<Rightarrow> int \<Rightarrow> 'v fastlist \<Rightarrow> 'v fastlist res" where
  "FASTLIST_Add val ID l =
     rbind (MLIST_Add val ID (fl_list l)) (\<lambda>b.
     rmap (\<lambda>s. \<lparr>fl_list = b, fl_SpeedList = s\<rparr>)
       (if ml_numNodes b mod 1000 - 1 = 0
        then (case ml_last b of None \<Rightarrow> Inl NullDeref | Some a \<Rightarrow> MLIST_Add a 0 (fl_SpeedList l)) else Inr (fl_SpeedList l)))"

definition FASTLIST_Get :: "int \<Rightarrow> 'v fastlist \<Rightarrow> (nat option \<times> 'v fastlist) res" where
  "FASTLIST_Get number l =
     (if number = - 1 \<or> number < 1000 then rmap (\<lambda>(p, b). (p, l\<lparr>fl_list := b\<rparr>)) (MLIST_Get_next (fl_list l))
      else
        let walk = (\<lambda>n tem. rmap (\<lambda>(temback, tem). (tem, l)) (skip_nodes mn_next (ml_nodes (fl_list l)) (nat n) None tem)) in
        if number > 1000 then
          rbind (MLIST_Get (number div 1000) (fl_SpeedList l)) (\<lambda>(p, s).
          case p of
            None \<Rightarrow> Inl NullDeref
          | Some a \<Rightarrow> rbind (node_at (ml_nodes (fl_SpeedList l)) a) (\<lambda>n. walk (number mod 1000) (Some (mn_msg n))))
        else walk number (ml_first (fl_list l)))"

definition FASTLIST_ClearGet :: "'v fastlist \<Rightarrow> 'v fastlist" where
  "FASTLIST_ClearGet l = l\<lparr>fl_list := MLIST_ClearGet (fl_list l)\<rparr>"

definition FASTLIST_Clear :: "'v fastlist \<Rightarrow> 'v fastlist res option" where
  "FASTLIST_Clear l =
     obind (MLIST_Clear (fl_list l)) (\<lambda>b. obind (MLIST_Clear (fl_SpeedList l)) (\<lambda>s. Some (Inr \<lparr>fl_list = b, fl_SpeedList = s\<rparr>)))"

definition FASTLIST_Find :: "int \<Rightarrow> 'v fastlist \<Rightarrow> nat option res option" where
  "FASTLIST_Find ID l = find_ID ID (ml_first (fl_list l)) (ml_nodes (fl_list l))"

section \<open>QUEUE\<close>

definition EMPTY_QUEUE :: int where "EMPTY_QUEUE = - 1"

record ARG_STRUCT =
  MSG_ID :: int
  arg1 :: int
  arg2 :: int

definition QUEUE_Add :: "int \<Rightarrow> int \<Rightarrow> int \<Rightarrow> ARG_STRUCT mlist \<Rightarrow> ARG_STRUCT mlist res" where
  "QUEUE_Add msg a b l = MLIST_Add \<lparr>MSG_ID = msg, arg1 = a, arg2 = b\<rparr> 0 l"

definition QUEUE_GetCount :: "ARG_STRUCT mlist \<Rightarrow> int" where
  "QUEUE_GetCount l = ml_numNodes l"

definition QUEUE_Get :: "ARG_STRUCT mlist \<Rightarrow> (ARG_STRUCT \<times> ARG_STRUCT mlist) res" where
  "QUEUE_Get l =
     (if ml_numNodes l = 0 then Inr (\<lparr>MSG_ID = EMPTY_QUEUE, arg1 = 0, arg2 = 0\<rparr>, l)
      else rbind (MLIST_Get 0 l) (\<lambda>(p, l).
        case p of
          None \<Rightarrow> Inl NullDeref
        | Some a \<Rightarrow> rbind (node_at (ml_nodes l) a) (\<lambda>n. rmap (\<lambda>l. (mn_msg n, l)) (MLIST_Remove 0 l))))"

definition QUEUE_Clear :: "ARG_STRUCT mlist \<Rightarrow> ARG_STRUCT mlist res option" where
  "QUEUE_Clear l = MLIST_Clear l"

section \<open>CHAT_LIST\<close>

record chat_node =
  ch_Color :: u32
  ch_msg :: string
  ch_next :: "nat option"

record chat_list =
  cl_first :: "nat option"
  cl_last :: "nat option"
  cl_numNodes :: int
  cl_nodes :: "nat \<Rightarrow> chat_node option"
  cl_fresh :: nat

definition CHAT_LIST :: chat_list where
  "CHAT_LIST = \<lparr>cl_first = None, cl_last = None, cl_numNodes = 0, cl_nodes = \<lambda>_. None, cl_fresh = 0\<rparr>"

text \<open>The message is copied into an array of 255 bytes.\<close>

definition CHAT_LIST_Add :: "string \<Rightarrow> u32 \<Rightarrow> chat_list \<Rightarrow> chat_list res" where
  "CHAT_LIST_Add msg Color l =
     (let a = cl_fresh l; new = \<lparr>ch_Color = Color, ch_msg = msg, ch_next = None\<rparr>
      in rbind
        (case cl_first l of
           None \<Rightarrow> Inr (l\<lparr>cl_first := Some a, cl_last := Some a, cl_nodes := (cl_nodes l)(a \<mapsto> new), cl_fresh := a + 1\<rparr>)
         | Some _ \<Rightarrow>
             (case cl_last l of
                None \<Rightarrow> Inl NullDeref
              | Some b \<Rightarrow>
                  rmap (\<lambda>m. l\<lparr>cl_last := Some a, cl_nodes := (cl_nodes l)(b \<mapsto> m\<lparr>ch_next := Some a\<rparr>, a \<mapsto> new),
                    cl_fresh := a + 1, cl_numNodes := cl_numNodes l + 1\<rparr>) (node_at (cl_nodes l) b)))
        (\<lambda>l. if length msg < 255 then Inr l else Inl OutOfBounds))"

definition CHAT_LIST_GET_MSG :: "int \<Rightarrow> chat_list \<Rightarrow> (string \<times> u32) option res" where
  "CHAT_LIST_GET_MSG number l =
     rbind (skip_nodes ch_next (cl_nodes l) (nat number) None (cl_first l)) (\<lambda>(temback, tem).
     case tem of
       None \<Rightarrow> Inr None
     | Some a \<Rightarrow> rmap (\<lambda>n. Some (ch_msg n, ch_Color n)) (node_at (cl_nodes l) a))"

definition CHAT_LIST_Clear :: "chat_list \<Rightarrow> chat_list res option" where
  "CHAT_LIST_Clear l =
     obind (delete_nodes ch_next (cl_first l) (cl_nodes l)) (\<lambda>h.
     Some (Inr (l\<lparr>cl_first := None, cl_last := None, cl_numNodes := 0, cl_nodes := h\<rparr>)))"

text \<open>\<open>Export\<close> writes the messages to a file, with a title when the count is not 0, and clears the list.\<close>

partial_function (option) export_nodes ::
    "nat option \<Rightarrow> string list \<Rightarrow> (nat \<Rightarrow> chat_node option) \<Rightarrow> (string list \<times> (nat \<Rightarrow> chat_node option)) res option" where
  [code]: "export_nodes p out h =
     (if p = None then Some (Inr (out, h))
      else obind (Some (node_at h (the p))) (\<lambda>n. export_nodes (ch_next n) (out @ [ch_msg n]) (h(the p := None))))"

definition CHAT_LIST_Export :: "chat_list \<Rightarrow> (string list \<times> chat_list) res option" where
  "CHAT_LIST_Export l =
     obind (export_nodes (cl_first l) (if cl_numNodes l \<noteq> 0 then ['''', ''CHAT_LOG''] else []) (cl_nodes l)) (\<lambda>(out, h).
     Some (Inr (out, l\<lparr>cl_first := None, cl_last := None, cl_numNodes := 0, cl_nodes := h\<rparr>)))"

end
