(* ===== verification/List_Refinement.thy ===== *)
theory List_Refinement
  imports Class_Lists
begin

text \<open>
  The list classes as lists: what \<open>MLIST\<close> does as long as its last node is never removed, that \<open>QUEUE\<close>, which removes only the first one,
  is a queue, and where \<open>FASTLIST\<close> and \<open>CHAT_LIST\<close> are not what they seem.
\<close>

section \<open>Loops over the nodes\<close>

context linked
begin

lemma skip_nodes_split:
  "chain h p (pre @ rest) None \<Longrightarrow> skip_nodes next_of h (length pre) temback p =
    Inr (if pre = [] then temback else Some (last pre), case rest of [] \<Rightarrow> None | a # _ \<Rightarrow> Some a)"
proof (induction pre arbitrary: p temback)
  case Nil
  then show ?case using chain_first [of h p rest] by simp
next
  case (Cons a pre)
  then obtain n where n: "p = Some a" "h a = Some n" "chain h (next_of n) (pre @ rest) None" by auto
  show ?case using Cons.IH [OF n(3), of "Some a"] n(1,2) by (simp add: node_at_def)
qed

lemma skip_nodes_end:
  "chain h p as None \<Longrightarrow> length as < n \<Longrightarrow> \<exists>b. skip_nodes next_of h n temback p = Inr (b, None)"
proof (induction as arbitrary: p n temback)
  case Nil
  then show ?case by (cases n) simp_all
next
  case (Cons a as)
  then obtain m where m: "p = Some a" "h a = Some m" "chain h (next_of m) as None" by auto
  obtain i where "n = Suc i" "length as < i" using Cons.prems(2) by (cases n) auto
  then show ?case using Cons.IH [OF m(3), of i "Some a"] m(1,2) by (simp add: node_at_def)
qed

lemma skip_nodes_nth:
  assumes "chain h p as None"
  shows "\<exists>b. skip_nodes next_of h n temback p = Inr (b, if n < length as then Some (as ! n) else None)"
proof (cases "n \<le> length as")
  case True
  have "chain h p (take n as @ drop n as) None" using assms by simp
  from skip_nodes_split [OF this, of temback] True show ?thesis
    by (auto simp: min_def hd_drop_conv_nth split: list.split) (metis hd_drop_conv_nth list.sel(1))+
next
  case False
  then show ?thesis using skip_nodes_end [OF assms, of n temback] by simp
qed

lemma delete_nodes_chain:
  "chain h p as None \<Longrightarrow> delete_nodes next_of p h = Some (Inr (\<lambda>a. if a \<in> set as then None else h a))"
proof (induction as arbitrary: p h)
  case Nil
  then show ?case by (subst delete_nodes.simps) simp
next
  case (Cons a as)
  then obtain n where n: "p = Some a" "h a = Some n" by auto
  have "chain (h(a := None)) (next_of n) as None" using chain_tail [of h a as n] Cons.prems n by simp
  from Cons.IH [OF this] have "delete_nodes next_of p h = Some (Inr (\<lambda>b. if b \<in> set as then None else (h(a := None)) b))"
    using n by (subst delete_nodes.simps) (simp add: node_at_def fun_upd_def)
  moreover have "(\<lambda>b. if b \<in> set as then None else (h(a := None)) b) = (\<lambda>b. if b \<in> set (a # as) then None else h b)" by auto
  ultimately show ?case by simp
qed

end

interpretation mls: linked mn_next "\<lambda>p n. n\<lparr>mn_next := p\<rparr>"
  by unfold_locales simp_all

interpretation chs: linked ch_next "\<lambda>p n. n\<lparr>ch_next := p\<rparr>"
  by unfold_locales simp_all

section \<open>What an MLIST holds\<close>

definition item :: "(nat \<Rightarrow> 'v mlist_node option) \<Rightarrow> nat \<Rightarrow> 'v \<times> int" where
  "item h a = (mn_msg (the (h a)), mn_ID (the (h a)))"

text \<open>The nodes \<open>as\<close>, with the pointer of \<open>Get\<close> at number \<open>k\<close>, or past the end.\<close>

definition mlist_at :: "'v mlist \<Rightarrow> nat list \<Rightarrow> nat \<Rightarrow> bool" where
  "mlist_at l as k \<longleftrightarrow> mls.chain (ml_nodes l) (ml_first l) as None \<and> (\<forall>a \<in> set as. a < ml_fresh l) \<and>
     ml_numNodes l = int (length as) \<and> (as \<noteq> [] \<longrightarrow> ml_last l = Some (last as)) \<and>
     k \<le> length as \<and> ml_cur l = (if k < length as then Some (as ! k) else None)"

definition mlist_holds :: "'v mlist \<Rightarrow> ('v \<times> int) list \<Rightarrow> nat \<Rightarrow> bool" where
  "mlist_holds l xs k \<longleftrightarrow> (\<exists>as. mlist_at l as k \<and> xs = map (item (ml_nodes l)) as)"

definition pointed :: "'v mlist \<Rightarrow> nat option \<Rightarrow> 'v option" where
  "pointed l p = (case p of None \<Rightarrow> None | Some a \<Rightarrow> map_option mn_msg (ml_nodes l a))"

lemma MLIST_holds: "mlist_holds MLIST [] 0"
  by (simp add: mlist_holds_def mlist_at_def MLIST_def)

lemma pointed_nth: "mls.chain (ml_nodes l) p as None \<Longrightarrow> n < length as \<Longrightarrow> pointed l (Some (as ! n)) = Some (fst (item (ml_nodes l) (as ! n)))"
  using mls.chain_alive [of "ml_nodes l" p as None "as ! n"] by (auto simp: pointed_def item_def)

text \<open>The pointer of \<open>Get\<close> after a node has been added.\<close>

definition cur_added :: "nat \<Rightarrow> 'a list \<Rightarrow> nat" where
  "cur_added k xs = (if xs = [] then 0 else if k = length xs then length xs + 1 else k)"

lemma Add_at:
  assumes "mlist_at l as k"
  shows "\<exists>l'. MLIST_Add v i l = Inr l' \<and> mlist_at l' (as @ [ml_fresh l]) (cur_added k as) \<and>
    map (item (ml_nodes l')) (as @ [ml_fresh l]) = map (item (ml_nodes l)) as @ [(v, i)] \<and> ml_last l' = Some (ml_fresh l)"
proof -
  let ?h = "ml_nodes l" let ?a = "ml_fresh l" let ?new = "\<lparr>mn_msg = v, mn_ID = i, mn_next = None, mn_prev = None\<rparr>"
  have chain: "mls.chain ?h (ml_first l) as None" and new: "?a \<notin> set as" using assms by (auto simp: mlist_at_def)
  show ?thesis
  proof (cases "as" rule: rev_cases)
    case Nil
    then show ?thesis using assms by (auto simp: MLIST_Add_def mlist_at_def cur_added_def item_def Let_def)
  next
    case (snoc us b)
    obtain m where m: "?h b = Some m" "mn_next m = None" using chain unfolding snoc mls.chain_snoc by auto
    have last: "ml_last l = Some b" and first: "ml_first l \<noteq> None"
      using assms chain snoc by (auto simp: mlist_at_def) (cases us; auto)
    let ?h' = "?h(b \<mapsto> m\<lparr>mn_next := Some ?a\<rparr>, ?a \<mapsto> ?new)"
    have ab: "?a \<noteq> b" "b \<notin> set us" "?a \<notin> set us" using new mls.chain_distinct [OF chain] snoc by auto
    let ?l = "l\<lparr>ml_last := Some ?a, ml_nodes := ?h', ml_fresh := ?a + 1, ml_numNodes := ml_numNodes l + 1\<rparr>"
    have "?h' = ?h(?a \<mapsto> ?new\<lparr>mn_next := mn_next m\<rparr>, b \<mapsto> m\<lparr>mn_next := Some ?a\<rparr>)" using ab m(2) by (auto simp: fun_eq_iff)
    then have "mls.chain ?h' (ml_first l) (us @ [b, ?a]) None"
      using mls.chain_insert [of ?h "ml_first l" us b "[]" m ?a ?new] chain m new snoc by simp
    moreover have "map (item ?h') (us @ [b, ?a]) = map (item ?h) as @ [(v, i)]"
      using snoc ab m by (auto simp: item_def)
    moreover have "(us @ [b, ?a]) ! k = as ! k" if "k < length as" using that snoc by (auto simp: nth_append)
    ultimately have "mlist_at ?l (as @ [?a]) (cur_added k as)" "map (item ?h') (as @ [?a]) = map (item ?h) as @ [(v, i)]"
      using assms snoc by (auto simp: mlist_at_def cur_added_def less_Suc_eq)
    moreover have "MLIST_Add v i l = Inr ?l" using first last m(1) by (auto simp: MLIST_Add_def node_at_def Let_def)
    ultimately show ?thesis by (intro exI [of _ ?l]) simp
  qed
qed

lemma Add_holds:
  assumes "mlist_holds l xs k"
  shows "\<exists>l'. MLIST_Add v i l = Inr l' \<and> mlist_holds l' (xs @ [(v, i)]) (cur_added k xs)"
proof -
  obtain as where as: "mlist_at l as k" "xs = map (item (ml_nodes l)) as" using assms by (auto simp: mlist_holds_def)
  obtain l' where l': "MLIST_Add v i l = Inr l'" "mlist_at l' (as @ [ml_fresh l]) (cur_added k as)"
    "map (item (ml_nodes l')) (as @ [ml_fresh l]) = xs @ [(v, i)]"
    using Add_at [OF as(1), of v i] as(2) by auto
  moreover have "cur_added k as = cur_added k xs" using as(2) by (simp add: cur_added_def)
  ultimately show ?thesis unfolding mlist_holds_def by (metis (no_types))
qed

lemma Get_next_holds:
  assumes "mlist_holds l xs k"
  shows "\<exists>p l'. MLIST_Get_next l = Inr (p, l') \<and> pointed l' p = (if k < length xs then Some (fst (xs ! k)) else None) \<and>
    mlist_holds l' xs (if k < length xs then k + 1 else 0)"
proof -
  obtain as where as: "mlist_at l as k" "xs = map (item (ml_nodes l)) as" using assms by (auto simp: mlist_holds_def)
  have chain: "mls.chain (ml_nodes l) (ml_first l) as None" using as(1) by (simp add: mlist_at_def)
  show ?thesis
  proof (cases "k < length as")
    case False
    then have "MLIST_Get_next l = Inr (None, l\<lparr>ml_cur := ml_first l\<rparr>)" using as(1) by (simp add: MLIST_Get_next_def mlist_at_def)
    moreover have "ml_first l = (if 0 < length as then Some (as ! 0) else None)" using chain by (cases as) auto
    ultimately show ?thesis using as False unfolding mlist_holds_def
      by (auto simp: pointed_def mlist_at_def intro!: exI [of _ as])
  next
    case True
    have split: "as = take k as @ as ! k # drop (Suc k) as" using True by (simp add: id_take_nth_drop)
    obtain n where n: "ml_nodes l (as ! k) = Some n" "mls.chain (ml_nodes l) (mn_next n) (drop (Suc k) as) None"
      using chain by (subst (asm) split) (auto simp: mls.chain_append)
    have "mn_next n = (if Suc k < length as then Some (as ! Suc k) else None)"
      using mls.chain_first [OF n(2)] by (auto simp: hd_drop_conv_nth [symmetric] split: list.splits)
    moreover have "MLIST_Get_next l = Inr (Some (as ! k), l\<lparr>ml_cur := mn_next n\<rparr>)"
      using as(1) True n(1) by (simp add: MLIST_Get_next_def mlist_at_def node_at_def)
    ultimately show ?thesis using as True n(1) unfolding mlist_holds_def
      by (auto simp: pointed_def item_def mlist_at_def intro!: exI [of _ as])
  qed
qed

lemma Get_holds:
  assumes "mlist_holds l xs k"
  shows "\<exists>p. MLIST_Get (int n) l = Inr (p, l) \<and> pointed l p = (if n < length xs then Some (fst (xs ! n)) else None)"
proof -
  obtain as where as: "mls.chain (ml_nodes l) (ml_first l) as None" "xs = map (item (ml_nodes l)) as"
    using assms by (auto simp: mlist_holds_def mlist_at_def)
  show ?thesis using mls.skip_nodes_nth [OF as(1), of n None] pointed_nth [OF as(1), of n] as(2)
    by (auto simp: MLIST_Get_def pointed_def)
qed

lemma find_ID_chain:
  "mls.chain h p as None \<Longrightarrow> find_ID i p h = Some (Inr (find (\<lambda>a. snd (item h a) = i) as))"
proof (induction as arbitrary: p)
  case Nil
  then show ?case by (subst find_ID.simps) simp
next
  case (Cons a as)
  then show ?case by (subst find_ID.simps) (auto simp: node_at_def item_def)
qed

lemma Find_holds:
  assumes "mlist_holds l xs k"
  shows "\<exists>p. MLIST_Find i l = Some (Inr p) \<and> pointed l p = map_option fst (find (\<lambda>x. snd x = i) xs)"
proof -
  obtain as where as: "mls.chain (ml_nodes l) (ml_first l) as None" "xs = map (item (ml_nodes l)) as"
    using assms by (auto simp: mlist_holds_def mlist_at_def)
  have "pointed l (find (\<lambda>a. snd (item (ml_nodes l) a) = i) bs) = map_option fst (find (\<lambda>x. snd x = i) (map (item (ml_nodes l)) bs))"
    if "set bs \<subseteq> set as" for bs
    using that by (induction bs) (use mls.chain_alive [OF as(1)] in \<open>force simp: pointed_def item_def\<close>)+
  then show ?thesis using find_ID_chain [OF as(1), of i] by (auto simp: MLIST_Find_def as(2))
qed

section \<open>Removing\<close>

text \<open>The pointer of \<open>Get\<close> after node \<open>n\<close> has been removed.\<close>

definition cur_removed :: "nat \<Rightarrow> nat \<Rightarrow> nat" where
  "cur_removed n k = (if n = k then 0 else if n < k then k - 1 else k)"

lemma Remove_beyond:
  assumes "mlist_holds l xs k" "length xs \<le> n"
  shows "MLIST_Remove (int n) l = Inr l"
proof -
  obtain as where as: "mls.chain (ml_nodes l) (ml_first l) as None" "length as \<le> n"
    using assms by (auto simp: mlist_holds_def mlist_at_def)
  then show ?thesis using mls.skip_nodes_nth [OF as(1), of n None] by (auto simp: MLIST_Remove_def)
qed

text \<open>What is left is right but for \<open>last\<close>, which keeps its value.\<close>

lemma Remove_node:
  assumes "mlist_at l (pre @ a # post) k"
  defines "as' \<equiv> pre @ post" and "k' \<equiv> cur_removed (length pre) k"
  shows "\<exists>l'. MLIST_Remove (int (length pre)) l = Inr l' \<and> mls.chain (ml_nodes l') (ml_first l') as' None \<and>
    (\<forall>b \<in> set as'. b < ml_fresh l') \<and> ml_numNodes l' = int (length as') \<and> k' \<le> length as' \<and>
    ml_cur l' = (if k' < length as' then Some (as' ! k') else None) \<and> map (item (ml_nodes l')) as' = map (item (ml_nodes l)) as' \<and>
    ml_last l' = ml_last l \<and> ml_nodes l' a = None"
proof -
  let ?h = "ml_nodes l"
  have chain: "mls.chain ?h (ml_first l) (pre @ a # post) None" using assms(1) by (simp add: mlist_at_def)
  then have d: "distinct (pre @ a # post)" by (rule mls.chain_distinct)
  obtain n where n: "?h a = Some n" "mls.chain ?h (mn_next n) post None" using chain by (auto simp: mls.chain_append)
  have skip: "skip_nodes mn_next ?h (length pre) None (ml_first l) = Inr (if pre = [] then None else Some (last pre), Some a)"
    using mls.skip_nodes_split [OF chain, of None] by simp
  have cur: "ml_cur l = Some a \<longleftrightarrow> k = length pre"
  proof
    assume "ml_cur l = Some a"
    then have "k < length (pre @ a # post)" "(pre @ a # post) ! k = (pre @ a # post) ! length pre"
      using assms(1) by (auto simp: mlist_at_def split: if_splits)
    then show "k = length pre" using d nth_eq_iff_index_eq [of "pre @ a # post" k "length pre"] by simp
  qed (use assms(1) in \<open>simp add: mlist_at_def\<close>)
  have pos: "k \<noteq> length pre \<Longrightarrow> k' \<le> length as' \<and> (k' < length as' \<longleftrightarrow> k < length (pre @ a # post)) \<and>
      (k < length (pre @ a # post) \<longrightarrow> as' ! k' = (pre @ a # post) ! k)"
    using assms(1) by (auto simp: mlist_at_def as'_def k'_def cur_removed_def nth_append nth_Cons')
  have k0: "k = length pre \<Longrightarrow> k' = 0" by (simp add: k'_def cur_removed_def)
  show ?thesis
  proof (cases "pre = []")
    case True
    let ?l = "l\<lparr>ml_first := mn_next n, ml_cur := (if k = 0 then mn_next n else ml_cur l), ml_nodes := ?h(a := None),
      ml_numNodes := ml_numNodes l - 1\<rparr>"
    have first: "ml_first l = Some a" using chain True by simp
    have "MLIST_Remove (int (length pre)) l = Inr ?l"
      using skip True first n(1) cur by (simp add: MLIST_Remove_def node_at_def Let_def)
    moreover have "mls.chain (?h(a := None)) (mn_next n) post None" using n(2) d True by (simp add: mls.chain_frame)
    moreover have "mn_next n = (if 0 < length post then Some (post ! 0) else None)"
      using mls.chain_first [OF n(2)] by (cases post) simp_all
    ultimately show ?thesis using assms(1) True d pos k0 cur
      by (intro exI [of _ ?l]) (auto simp: mlist_at_def as'_def item_def)
  next
    case False
    then obtain us b where us: "pre = us @ [b]" by (cases pre rule: rev_cases) auto
    obtain m where m: "?h b = Some m" using mls.chain_alive [OF chain, of b] us by auto
    let ?h' = "?h(b \<mapsto> m\<lparr>mn_next := mn_next n\<rparr>, a := None)"
    let ?l = "l\<lparr>ml_cur := (if k = length pre then ml_first l else ml_cur l), ml_nodes := ?h', ml_numNodes := ml_numNodes l - 1\<rparr>"
    have first: "ml_first l = Some ((pre @ post) ! 0)" "ml_first l \<noteq> Some a" using chain d us by (cases us; auto)+
    have ab: "b \<noteq> a" using d us by auto
    have "skip_nodes mn_next ?h (length pre) None (ml_first l) = Inr (Some b, Some a)" using skip us by simp
    then have "MLIST_Remove (int (length pre)) l = Inr ?l"
      using first(2) n(1) m cur ab by (simp add: MLIST_Remove_def node_at_def Let_def)
    moreover have "mls.chain ?h' (ml_first l) (pre @ post) None"
      using mls.chain_unlink [of ?h "ml_first l" us b a post m n] chain us m n(1) by simp
    moreover have "map (item ?h') (pre @ post) = map (item ?h) (pre @ post)"
      using d us m by (auto simp: item_def)
    ultimately show ?thesis using assms(1) False d pos k0 cur first
      by (intro exI [of _ ?l]) (auto simp: mlist_at_def as'_def)
  qed
qed

lemma Remove_holds:
  assumes "mlist_holds l xs k" "n < length xs" "Suc n < length xs \<or> length xs = 1"
  shows "\<exists>l'. MLIST_Remove (int n) l = Inr l' \<and> mlist_holds l' (take n xs @ drop (Suc n) xs) (cur_removed n k)"
proof -
  obtain as where as: "mlist_at l as k" "xs = map (item (ml_nodes l)) as" using assms by (auto simp: mlist_holds_def)
  have split: "as = take n as @ as ! n # drop (Suc n) as" "length (take n as) = n"
    using assms(2) as(2) by (simp_all add: id_take_nth_drop)
  let ?as = "take n as @ drop (Suc n) as"
  obtain l' where l': "MLIST_Remove (int n) l = Inr l'" "mls.chain (ml_nodes l') (ml_first l') ?as None"
    "\<forall>b \<in> set ?as. b < ml_fresh l'" "ml_numNodes l' = int (length ?as)" "cur_removed n k \<le> length ?as"
    "ml_cur l' = (if cur_removed n k < length ?as then Some (?as ! cur_removed n k) else None)"
    "map (item (ml_nodes l')) ?as = map (item (ml_nodes l)) ?as" "ml_last l' = ml_last l"
    using Remove_node [of l "take n as" "as ! n" "drop (Suc n) as" k] as(1) split by auto
  have "?as \<noteq> [] \<Longrightarrow> ml_last l' = Some (last ?as)"
    using as assms(2,3) l'(8) by (auto simp: mlist_at_def last_append) 
  then have "mlist_at l' ?as (cur_removed n k)" using l' by (auto simp: mlist_at_def)
  moreover have "take n xs @ drop (Suc n) xs = map (item (ml_nodes l')) ?as"
    using l'(7) by (simp add: as(2) take_map drop_map)
  ultimately show ?thesis using l'(1) unfolding mlist_holds_def by auto
qed

text \<open>After the last one of several nodes has been removed, \<open>last\<close> points to deleted memory, and the next \<open>Add\<close> writes there.\<close>

lemma Remove_last:
  assumes "mlist_holds l xs k" "2 \<le> length xs"
  shows "\<exists>l'. MLIST_Remove (int (length xs - 1)) l = Inr l' \<and> MLIST_Add v i l' = Inl Dangling"
proof -
  obtain as where as: "mlist_at l as k" "length as = length xs" using assms by (auto simp: mlist_holds_def)
  then obtain us a where us1: "as = us @ [a]" using assms(2) by (cases "as" rule: rev_cases) auto
  then have us: "as = us @ [a]" "us \<noteq> []" using as(2) assms(2) by auto
  obtain l' where l': "MLIST_Remove (int (length us)) l = Inr l'" "mls.chain (ml_nodes l') (ml_first l') us None"
    "ml_last l' = ml_last l" "ml_nodes l' a = None"
    using Remove_node [of l us a "[]" k] as(1) us(1) by auto
  have "ml_last l' = Some a" "ml_first l' \<noteq> None" using as(1) us l'(2,3) by (auto simp: mlist_at_def) (cases us; auto)
  then have "MLIST_Add v i l' = Inl Dangling" using l'(4) by (auto simp: MLIST_Add_def node_at_def Let_def)
  moreover have "length xs - 1 = length us" using as(2) us(1) by simp
  ultimately show ?thesis using l'(1) by auto
qed

lemma Clear_holds:
  assumes "mlist_holds l xs k"
  shows "\<exists>l'. MLIST_Clear l = Some (Inr l') \<and> (k = length xs \<longrightarrow> mlist_holds l' [] 0) \<and>
    (k < length xs \<longrightarrow> MLIST_Get_next l' = Inl Dangling)"
proof -
  obtain as where as: "mlist_at l as k" "length as = length xs" using assms by (auto simp: mlist_holds_def)
  have "mls.chain (ml_nodes l) (ml_first l) as None" using as(1) by (simp add: mlist_at_def)
  from mls.delete_nodes_chain [OF this] show ?thesis using as
    by (auto simp: MLIST_Clear_def mlist_holds_def mlist_at_def MLIST_Get_next_def node_at_def)
qed

section \<open>QUEUE\<close>

definition queue_holds :: "ARG_STRUCT mlist \<Rightarrow> ARG_STRUCT list \<Rightarrow> bool" where
  "queue_holds l xs \<longleftrightarrow> (\<exists>k. mlist_holds l (map (\<lambda>x. (x, 0)) xs) k)"

lemma QUEUE_Add_holds:
  "queue_holds l xs \<Longrightarrow> \<exists>l'. QUEUE_Add (MSG_ID x) (arg1 x) (arg2 x) l = Inr l' \<and> queue_holds l' (xs @ [x])"
  unfolding queue_holds_def
proof (elim exE)
  fix k
  assume a: "mlist_holds l (map (\<lambda>x. (x, 0)) xs) k"
  obtain l' where l': "MLIST_Add x 0 l = Inr l'" "mlist_holds l' (map (\<lambda>x. (x, 0)) xs @ [(x, 0)]) (cur_added k (map (\<lambda>x. (x, 0 :: int)) xs))"
    using Add_holds [OF a, of x 0] by blast
  moreover have "QUEUE_Add (MSG_ID x) (arg1 x) (arg2 x) l = MLIST_Add x 0 l" by (cases x) (simp add: QUEUE_Add_def)
  ultimately show "\<exists>l'. QUEUE_Add (MSG_ID x) (arg1 x) (arg2 x) l = Inr l' \<and> (\<exists>k. mlist_holds l' (map (\<lambda>x. (x, 0)) (xs @ [x])) k)"
    by (intro exI [of _ l'] conjI exI [of _ "cur_added k (map (\<lambda>x. (x, 0 :: int)) xs)"]) simp_all
qed

lemma QUEUE_Get_empty: "queue_holds l [] \<Longrightarrow> QUEUE_Get l = Inr (\<lparr>MSG_ID = EMPTY_QUEUE, arg1 = 0, arg2 = 0\<rparr>, l)"
  by (auto simp: queue_holds_def mlist_holds_def mlist_at_def QUEUE_Get_def)

lemma QUEUE_Get_holds:
  assumes "queue_holds l (x # xs)"
  shows "\<exists>l'. QUEUE_Get l = Inr (x, l') \<and> queue_holds l' xs"
proof -
  obtain k where k: "mlist_holds l (map (\<lambda>x. (x, 0)) (x # xs)) k" using assms by (auto simp: queue_holds_def)
  obtain p where p: "MLIST_Get 0 l = Inr (p, l)" "pointed l p = Some x" using Get_holds [OF k, of 0] by auto
  obtain l' where l': "MLIST_Remove 0 l = Inr l'" "mlist_holds l' (map (\<lambda>x. (x, 0)) xs) (cur_removed 0 k)"
    using Remove_holds [OF k, of 0] by (cases xs) auto
  have "ml_numNodes l \<noteq> 0" using k by (auto simp: mlist_holds_def mlist_at_def)
  then show ?thesis using p l' by (auto simp: QUEUE_Get_def queue_holds_def pointed_def node_at_def split: option.splits)
qed

text \<open>A sequence of calls: \<open>Some x\<close> adds, \<open>None\<close> takes; and the same on a list.\<close>

fun queue_run :: "ARG_STRUCT option list \<Rightarrow> ARG_STRUCT mlist \<Rightarrow> ARG_STRUCT list res" where
  "queue_run [] l = Inr []"
| "queue_run (Some x # calls) l = rbind (QUEUE_Add (MSG_ID x) (arg1 x) (arg2 x) l) (queue_run calls)"
| "queue_run (None # calls) l = rbind (QUEUE_Get l) (\<lambda>(x, l). rmap (Cons x) (queue_run calls l))"

fun fifo_run :: "ARG_STRUCT option list \<Rightarrow> ARG_STRUCT list \<Rightarrow> ARG_STRUCT list" where
  "fifo_run [] xs = []"
| "fifo_run (Some x # calls) xs = fifo_run calls (xs @ [x])"
| "fifo_run (None # calls) [] = \<lparr>MSG_ID = EMPTY_QUEUE, arg1 = 0, arg2 = 0\<rparr> # fifo_run calls []"
| "fifo_run (None # calls) (x # xs) = x # fifo_run calls xs"

lemma queue_run_holds: "queue_holds l xs \<Longrightarrow> queue_run calls l = Inr (fifo_run calls xs)"
proof (induction calls xs arbitrary: l rule: fifo_run.induct)
  case (2 x calls xs)
  then show ?case using QUEUE_Add_holds [OF 2(2), of x] by auto
next
  case (3 calls)
  then show ?case using QUEUE_Get_empty [OF 3(2)] by simp
next
  case (4 calls x xs)
  then show ?case using QUEUE_Get_holds [OF 4(2)] by auto
qed simp

section \<open>FASTLIST\<close>

text \<open>After additions only: the second list holds the nodes of number 0, 1000, 2000 and so on.\<close>

definition fast_holds :: "'v fastlist \<Rightarrow> ('v \<times> int) list \<Rightarrow> bool" where
  "fast_holds l xs \<longleftrightarrow> (\<exists>as k j. mlist_at (fl_list l) as k \<and> xs = map (item (ml_nodes (fl_list l))) as \<and>
     mlist_holds (fl_SpeedList l) (map (\<lambda>i. (as ! (1000 * i), 0)) [0..<(length as + 999) div 1000]) j)"

lemma FASTLIST_holds: "fast_holds FASTLIST []"
  using MLIST_holds by (auto simp: fast_holds_def FASTLIST_def mlist_at_def MLIST_def mlist_holds_def)

lemma FASTLIST_Add_holds:
  assumes "fast_holds l xs"
  shows "\<exists>l'. FASTLIST_Add v i l = Inr l' \<and> fast_holds l' (xs @ [(v, i)])"
proof -
  obtain as k j where as: "mlist_at (fl_list l) as k" "xs = map (item (ml_nodes (fl_list l))) as"
    and speed: "mlist_holds (fl_SpeedList l) (map (\<lambda>i. (as ! (1000 * i), 0)) [0..<(length as + 999) div 1000]) j"
    using assms by (auto simp: fast_holds_def)
  let ?a = "ml_fresh (fl_list l)" let ?n = "(length as + 999) div 1000"
  obtain b where b: "MLIST_Add v i (fl_list l) = Inr b" "mlist_at b (as @ [?a]) (cur_added k as)"
    "map (item (ml_nodes b)) (as @ [?a]) = xs @ [(v, i)]" "ml_last b = Some ?a"
    using Add_at [OF as(1), of v i] as(2) by auto
  have num: "ml_numNodes b = int (length as + 1)" using b(2) by (simp add: mlist_at_def)
  have old: "map (\<lambda>i. ((as @ [?a]) ! (1000 * i), 0)) [0..<?n] = map (\<lambda>i. (as ! (1000 * i), 0 :: int)) [0..<?n]"
    by (rule map_cong) (auto simp: nth_append)
  show ?thesis
  proof (cases "length as mod 1000 = 0")
    case True
    then obtain q where q: "length as = 1000 * q" by auto
    have n: "?n = q" "(length (as @ [?a]) + 999) div 1000 = Suc q" using q by simp_all
    have "ml_numNodes b mod 1000 - 1 = 0" unfolding num q by simp
    moreover obtain s where s: "MLIST_Add ?a 0 (fl_SpeedList l) = Inr s" "mlist_holds s (map (\<lambda>i. (as ! (1000 * i), 0)) [0..<?n] @ [(?a, 0)])
        (cur_added j (map (\<lambda>i. (as ! (1000 * i), 0)) [0..<?n] :: (nat \<times> int) list))"
      using Add_holds [OF speed, of ?a 0] by blast
    ultimately have "FASTLIST_Add v i l = Inr \<lparr>fl_list = b, fl_SpeedList = s\<rparr>" using b(1,4) by (simp add: FASTLIST_Add_def)
    moreover have "map (\<lambda>i. ((as @ [?a]) ! (1000 * i), 0)) [0..<Suc q] = map (\<lambda>i. (as ! (1000 * i), 0 :: int)) [0..<?n] @ [(?a, 0)]"
      using old q n(1) by (simp add: nth_append)
    ultimately show ?thesis using b(2,3) s(2) n unfolding fast_holds_def by (metis fastlist.select_convs)
  next
    case False
    define q r where "q = length as div 1000" and "r = length as mod 1000"
    have qr: "length as = 1000 * q + r" "0 < r" "r < 1000" using False by (simp_all add: q_def r_def)
    have "(length as + 1) mod 1000 \<noteq> 1" using qr by (simp add: mod_Suc)
    moreover have "int (length as + 1) mod 1000 = int ((length as + 1) mod 1000)" by (simp only: zmod_int of_nat_numeral)
    ultimately have "int (length as + 1) mod 1000 - 1 \<noteq> 0" by linarith
    then have "FASTLIST_Add v i l = Inr \<lparr>fl_list = b, fl_SpeedList = fl_SpeedList l\<rparr>" using b(1) num by (simp add: FASTLIST_Add_def)
    moreover have "(length (as @ [?a]) + 999) div 1000 = ?n"
    proof -
      have "(length (as @ [?a]) + 999) div 1000 = Suc q" by (rule div_nat_eqI) (use qr in simp_all)
      moreover have "?n = Suc q" by (rule div_nat_eqI) (use qr in simp_all)
      ultimately show ?thesis by simp
    qed
    ultimately show ?thesis using b(2,3) speed old unfolding fast_holds_def by (metis fastlist.select_convs)
  qed
qed

lemma FASTLIST_Get_holds:
  assumes "fast_holds l xs" "1000 \<le> n" "n < length xs"
  shows "\<exists>p. FASTLIST_Get (int n) l = Inr (p, l) \<and> pointed (fl_list l) p = Some (fst (xs ! n))"
proof -
  obtain as k j where as: "mlist_at (fl_list l) as k" "xs = map (item (ml_nodes (fl_list l))) as"
    and speed: "mlist_holds (fl_SpeedList l) (map (\<lambda>i. (as ! (1000 * i), 0)) [0..<(length as + 999) div 1000]) j"
    using assms by (auto simp: fast_holds_def)
  let ?h = "ml_nodes (fl_list l)"
  have chain: "mls.chain ?h (ml_first (fl_list l)) as None" using as(1) by (simp add: mlist_at_def)
  have here: "pointed (fl_list l) (Some (as ! n)) = Some (fst (xs ! n))"
    using pointed_nth [OF chain, of n] assms(3) as(2) by simp
  show ?thesis
  proof (cases "n = 1000")
    case True
    obtain b where "skip_nodes mn_next ?h n None (ml_first (fl_list l)) = Inr (b, Some (as ! n))"
      using mls.skip_nodes_nth [OF chain, of n None] assms(3) as(2) by auto
    then show ?thesis using True here by (auto simp: FASTLIST_Get_def)
  next
    case False
    define q where "q = n div 1000"
    define r where "r = n mod 1000"
    have qr: "n = 1000 * q + r" "r < 1000" by (simp_all add: q_def r_def)
    have big: "1000 < n" "n < length as" using False assms(2,3) as(2) by simp_all
    then have "q < (length as + 999) div 1000" unfolding q_def by (simp add: less_eq_Suc_le div_le_mono)
    then obtain p where p: "MLIST_Get (int q) (fl_SpeedList l) = Inr (p, fl_SpeedList l)" "pointed (fl_SpeedList l) p = Some (as ! (1000 * q))"
      using Get_holds [OF speed, of q] by auto
    then obtain a m where m: "p = Some a" "ml_nodes (fl_SpeedList l) a = Some m" "mn_msg m = as ! (1000 * q)"
      by (auto simp: pointed_def split: option.splits)
    have "mls.chain ?h (ml_first (fl_list l)) (take (1000 * q) as @ drop (1000 * q) as) None" using chain by simp
    then obtain r0 where r0: "mls.chain ?h r0 (drop (1000 * q) as) None" unfolding mls.chain_append by blast
    have "1000 * q < length as" using qr big by simp
    then have "r0 = Some (as ! (1000 * q))" using mls.chain_first [OF r0] by (auto simp: hd_drop_conv_nth [symmetric] split: list.splits)
    then obtain b where "skip_nodes mn_next ?h r None (Some (as ! (1000 * q))) = Inr (b, Some (as ! n))"
      using mls.skip_nodes_nth [OF r0, of r None] qr big by auto
    moreover have "int n div 1000 = int q" "int n mod 1000 = int r" by (simp_all add: q_def r_def zdiv_int zmod_int)
    ultimately show ?thesis using p(1) m here big(1) by (auto simp: FASTLIST_Get_def node_at_def Let_def)
  qed
qed

lemma FASTLIST_fold: "\<exists>l. res_fold (\<lambda>(v, i) l. FASTLIST_Add v i l) xs FASTLIST = Inr l \<and> fast_holds l xs"
proof (induction xs rule: rev_induct)
  case Nil
  then show ?case using FASTLIST_holds by simp
next
  case (snoc x xs)
  then obtain l where l: "res_fold (\<lambda>(v, i) l. FASTLIST_Add v i l) xs FASTLIST = Inr l" "fast_holds l xs" by blast
  show ?case using FASTLIST_Add_holds [OF l(2), of "fst x" "snd x"] l(1) by (cases x) (simp add: res_fold_snoc)
qed

section \<open>What the lists are\<close>

text \<open>C17: an \<open>MLIST\<close> is a list with a place where \<open>Get\<close> goes on: adding appends, \<open>Get\<close> gives the items in order and then a null pointer, \<open>Get\<close> with a
  number and \<open>Find\<close> look items up, and \<open>Remove\<close> takes one out, provided it is not the last of several. When it is, the pointer to the last
  node is not corrected, and the next \<open>Add\<close> writes to memory that was deleted.\<close>

theorem mlist_refines_list:
  assumes "mlist_holds l xs k"
  shows "(\<exists>l'. MLIST_Add v i l = Inr l' \<and> mlist_holds l' (xs @ [(v, i)]) (cur_added k xs)) \<and>
    (\<exists>p l'. MLIST_Get_next l = Inr (p, l') \<and> pointed l' p = (if k < length xs then Some (fst (xs ! k)) else None) \<and>
      mlist_holds l' xs (if k < length xs then k + 1 else 0)) \<and>
    (\<exists>p. MLIST_Get (int n) l = Inr (p, l) \<and> pointed l p = (if n < length xs then Some (fst (xs ! n)) else None)) \<and>
    (\<exists>p. MLIST_Find i l = Some (Inr p) \<and> pointed l p = map_option fst (find (\<lambda>x. snd x = i) xs)) \<and>
    (length xs \<le> n \<longrightarrow> MLIST_Remove (int n) l = Inr l) \<and>
    (Suc n < length xs \<or> n = 0 \<and> length xs = 1 \<longrightarrow>
      (\<exists>l'. MLIST_Remove (int n) l = Inr l' \<and> mlist_holds l' (take n xs @ drop (Suc n) xs) (cur_removed n k))) \<and>
    (2 \<le> length xs \<longrightarrow> (\<exists>l'. MLIST_Remove (int (length xs - 1)) l = Inr l' \<and> MLIST_Add v i l' = Inl Dangling))"
  by (intro conjI impI Add_holds [OF assms] Get_next_holds [OF assms] Get_holds [OF assms] Find_holds [OF assms]
      Remove_beyond [OF assms] Remove_last [OF assms] Remove_holds [OF assms]) auto

lemma mlist_refines_list_witness:
  "\<exists>l'. MLIST_Add (5 :: nat) 0 MLIST = Inr l' \<and> mlist_holds l' [(5, 0)] 0"
  using mlist_refines_list [OF MLIST_holds, of 5 0, THEN conjunct1] by (simp add: cur_added_def)

text \<open>C30: a \<open>QUEUE\<close> gives back what was added in the order it was added, whatever the order of the calls, and \<open>EMPTY_QUEUE\<close> when nothing is
  left; no call fails.\<close>

theorem queue_is_fifo: "queue_run calls MLIST = Inr (fifo_run calls [])"
  by (rule queue_run_holds) (use MLIST_holds in \<open>auto simp: queue_holds_def\<close>)

text \<open>C29: as long as items are only added, the quick way of \<open>FASTLIST\<close> to a number from 1000 on, over every thousandth node, comes to the same item
  as counting from the front.\<close>

theorem fastlist_get:
  assumes "res_fold (\<lambda>(v, i) l. FASTLIST_Add v i l) xs FASTLIST = Inr l" "1000 \<le> n" "n < length xs"
  shows "\<exists>p q. FASTLIST_Get (int n) l = Inr (p, l) \<and> MLIST_Get (int n) (fl_list l) = Inr (q, fl_list l) \<and>
    pointed (fl_list l) p = Some (fst (xs ! n)) \<and> pointed (fl_list l) q = Some (fst (xs ! n))"
proof -
  have holds: "fast_holds l xs" using FASTLIST_fold [of xs] assms(1) by auto
  then obtain k where "mlist_holds (fl_list l) xs k" unfolding fast_holds_def mlist_holds_def by blast
  from Get_holds [OF this, of n] FASTLIST_Get_holds [OF holds assms(2,3)] assms(3) show ?thesis by auto
qed

lemma fastlist_get_witness:
  "\<exists>l p. res_fold (\<lambda>(v, i) l. FASTLIST_Add v i l) (replicate 1500 (7 :: nat, 0)) FASTLIST = Inr l \<and>
    FASTLIST_Get 1200 l = Inr (p, l) \<and> pointed (fl_list l) p = Some 7"
proof -
  obtain l where l: "res_fold (\<lambda>(v, i) l. FASTLIST_Add v i l) (replicate 1500 (7 :: nat, 0)) FASTLIST = Inr l"
    using FASTLIST_fold by blast
  then show ?thesis using fastlist_get [OF l, of 1200] by auto
qed

text \<open>Below 1000 the number is not used at all, and the item is the one \<open>Get\<close> without a number would give.\<close>

lemma fastlist_get_small: "0 \<le> n \<Longrightarrow> n < 1000 \<Longrightarrow> FASTLIST_Get n l = FASTLIST_Get (- 1) l"
  by (simp add: FASTLIST_Get_def)

text \<open>The second list is not shortened by a removal, as the number of its items is not the number of one of them.\<close>

lemma fastlist_remove_speed:
  assumes "mlist_holds (fl_SpeedList l) ys k" "FASTLIST_Remove n l = Inr l'"
  shows "fl_SpeedList l' = fl_SpeedList l"
proof -
  have "ml_numNodes (fl_SpeedList l) = int (length ys)" using assms(1) by (auto simp: mlist_holds_def mlist_at_def)
  then have "MLIST_Remove (ml_numNodes (fl_SpeedList l)) (fl_SpeedList l) = Inr (fl_SpeedList l)"
    using Remove_beyond [OF assms(1)] by simp
  then show ?thesis using assms(2) by (auto simp: FASTLIST_Remove_def rbind_Inr_iff rmap_Inr_iff split: if_splits)
qed

text \<open>\<open>CHAT_LIST\<close> counts all its messages but the first, so that a list of one is written without its title.\<close>

lemma chat_list_count:
  "length m < 255 \<Longrightarrow> \<exists>l. CHAT_LIST_Add m c CHAT_LIST = Inr l \<and> cl_numNodes l = 0 \<and> CHAT_LIST_GET_MSG 0 l = Inr (Some (m, c)) \<and>
    (\<exists>l'. CHAT_LIST_Export l = Some (Inr ([m], l')))"
  by (auto simp: CHAT_LIST_Add_def CHAT_LIST_def CHAT_LIST_GET_MSG_def CHAT_LIST_Export_def node_at_def Let_def
      export_nodes.simps [of "Some 0"] export_nodes.simps [of None])

text \<open>A longer message overruns its array.\<close>

lemma chat_list_overrun: "255 \<le> length m \<Longrightarrow> CHAT_LIST_Add m c CHAT_LIST = Inl OutOfBounds"
  by (simp add: CHAT_LIST_Add_def CHAT_LIST_def Let_def)

end
