(* ===== verification/Modifier_Bin.thy ===== *)
theory Modifier_Bin
  imports Thing_Props Nox_Buffer Nox_Crypt
begin

text \<open>
  The files \<open>modifier.bin\<close> and \<open>monster.bin\<close> (\<open>game/Modifierbin.cpp\<close>, \<open>Monsterbin.cpp\<close>) with the functions on strings they use
  (\<open>shared/stringfuncs.cpp\<close>): an encrypted text of sections, the objects of a section and the properties of an object, one to a line, each group
  with a line \<open>END\<close> behind it.

  The stream is the rest of its text with the flags for its end and for a failure. The texts of the structures are arrays of 80 bytes;
  one that does not fit is \<open>OutOfBounds\<close>.
\<close>

section \<open>Functions on strings\<close>

definition MAX_CHAR :: nat where "MAX_CHAR = 0x7E"
definition MIN_CHAR :: nat where "MIN_CHAR = 0x20"

definition isChar :: "char \<Rightarrow> bool" where
  "isChar a \<longleftrightarrow> MIN_CHAR \<le> of_char a \<and> of_char a \<le> MAX_CHAR"

definition isCharw :: "char \<Rightarrow> bool" where
  "isCharw a \<longleftrightarrow> MIN_CHAR < of_char a \<and> of_char a \<le> MAX_CHAR"

definition strcws :: "string \<Rightarrow> bool \<Rightarrow> string" where
  "strcws s removespaces = (if removespaces then filter isCharw s else filter isChar s)"

definition strrc :: "string \<Rightarrow> char \<Rightarrow> string" where
  "strrc s remove = filter (\<lambda>c. c \<noteq> remove) s"

text \<open>\<open>strcpy\<close> into an array of 80 bytes.\<close>

definition copy80 :: "string \<Rightarrow> string res" where
  "copy80 s = (if length s < 0x50 then Inr s else Inl OutOfBounds)"

section \<open>Lines\<close>

record stringstream =
  rd_rest :: string
  rd_eof :: bool
  rd_fail :: bool

abbreviation newline :: char where "newline \<equiv> CHR 0x0A"

text \<open>\<open>rdr->getline(buff, 255)\<close>.\<close>

definition read_line :: "stringstream \<Rightarrow> string \<times> stringstream" where
  "read_line rdr =
     (if rd_eof rdr \<or> rd_fail rdr then ([], rdr\<lparr>rd_fail := True\<rparr>)
      else let l = takeWhile (\<lambda>c. c \<noteq> newline) (rd_rest rdr); r = dropWhile (\<lambda>c. c \<noteq> newline) (rd_rest rdr) in
        if 254 < length l then (take 254 l, rdr\<lparr>rd_rest := drop 254 (rd_rest rdr), rd_fail := True\<rparr>)
        else (l, case r of [] \<Rightarrow> rdr\<lparr>rd_rest := [], rd_eof := True, rd_fail := (l = [])\<rparr> | _ # r' \<Rightarrow> rdr\<lparr>rd_rest := r'\<rparr>))"

text \<open>\<open>None\<close> when it returns false.\<close>

definition GetString :: "stringstream \<Rightarrow> string option \<times> stringstream" where
  "GetString rdr =
     (if rd_eof rdr then (None, rdr)
      else let (buff, rdr) = read_line rdr
           in (if rd_fail rdr then None else Some (strrc (strcws buff False) CHR '';''), rdr))"

definition TestEnd :: "string \<Rightarrow> bool" where
  "TestEnd buff \<longleftrightarrow> dropWhile (\<lambda>c. \<not> isCharw c) buff \<noteq> ''END''"

definition work_of :: "stringstream \<Rightarrow> nat" where
  "work_of rdr = (if rd_eof rdr \<or> rd_fail rdr then 0 else Suc (length (rd_rest rdr)))"

lemma read_line_work: "\<not> rd_eof rdr \<Longrightarrow> \<not> rd_fail rdr \<Longrightarrow> work_of (snd (read_line rdr)) < work_of rdr"
proof -
  assume a: "\<not> rd_eof rdr" "\<not> rd_fail rdr"
  obtain r where r: "dropWhile (\<lambda>c. c \<noteq> newline) (rd_rest rdr) = r" by simp
  then have "length r \<le> length (rd_rest rdr)" using length_dropWhile_le by blast
  then show ?thesis using a by (cases r) (simp_all add: read_line_def work_of_def Let_def r del: dropWhile_eq_Nil_conv)
qed

lemma GetString_work: "GetString rdr = (Some s, rdr') \<Longrightarrow> work_of rdr' < work_of rdr"
  using read_line_work [of rdr] by (auto simp: GetString_def read_line_def split: if_splits prod.splits)

lemma GetString_None: "GetString rdr = (None, rdr') \<Longrightarrow> work_of rdr' = 0"
  by (auto simp: GetString_def work_of_def split: if_splits prod.splits)

section \<open>Structures\<close>

record ModProperty =
  Ident :: string
  Value :: string

record MOD_OBJ =
  ObjectName :: string
  Properties :: "ModProperty list"

record MOD_LIST =
  SectionTitle :: string
  ElementList :: "MOD_OBJ list"

definition new_property :: ModProperty where
  "new_property = \<lparr>Ident = [], Value = []\<rparr>"

definition ModProperty_Load :: "string \<Rightarrow> ModProperty \<Rightarrow> ModProperty res" where
  "ModProperty_Load line prop =
     (case strtok '' ='' line of
        None \<Rightarrow> Inr prop
      | Some (t, r) \<Rightarrow>
          rbind (copy80 t) (\<lambda>t. let prop = prop\<lparr>Ident := t\<rparr> in
          case strtok '' ='' r of
            None \<Rightarrow> Inr prop
          | Some (v, _) \<Rightarrow> rmap (\<lambda>v. prop\<lparr>Value := v\<rparr>) (copy80 v)))"

section \<open>Loading\<close>

text \<open>The three loops; the one property that lines are read into is passed along.\<close>

function read_properties :: "stringstream \<Rightarrow> ModProperty \<Rightarrow> ModProperty list \<Rightarrow> (stringstream \<times> ModProperty \<times> ModProperty list) res" where
  "read_properties rdr prop ps =
     (case GetString rdr of
        (None, rdr') \<Rightarrow> Inr (rdr', prop, ps)
      | (Some buff, rdr') \<Rightarrow>
          if \<not> TestEnd buff then Inr (rdr', prop, ps)
          else if buff = [] then read_properties rdr' prop ps
          else rbind (ModProperty_Load buff prop) (\<lambda>prop. read_properties rdr' prop (ps @ [prop])))"
  by auto
termination
  by (relation "measure (\<lambda>(rdr, _). work_of rdr)") (auto dest: GetString_work [OF sym])

declare read_properties.simps [simp del]

lemma read_properties_work: "read_properties rdr pr ps = Inr (rdr', x) \<Longrightarrow> work_of rdr' \<le> work_of rdr"
proof (induction rdr pr ps rule: read_properties.induct)
  case (1 rdr pr ps)
  obtain o1 rdr1 where g: "GetString rdr = (o1, rdr1)" by fastforce
  show ?case
  proof (cases o1)
    case None
    then show ?thesis using "1.prems" g GetString_None [of rdr rdr1] by (subst (asm) read_properties.simps) simp
  next
    case (Some s)
    then have "work_of rdr1 < work_of rdr" using g GetString_work by simp
    then show ?thesis using "1.prems" "1.IH" g Some
      by (subst (asm) read_properties.simps) (fastforce simp: rbind_Inr_iff split: if_splits)
  qed
qed

function read_objects :: "stringstream \<Rightarrow> ModProperty \<Rightarrow> MOD_OBJ list \<Rightarrow> (stringstream \<times> ModProperty \<times> MOD_OBJ list) res" where
  "read_objects rdr prop os =
     (case GetString rdr of
        (None, rdr') \<Rightarrow> Inr (rdr', prop, os)
      | (Some buff, rdr') \<Rightarrow>
          if \<not> TestEnd buff then Inr (rdr', prop, os)
          else if buff = [] then read_objects rdr' prop os
          else rbind (copy80 buff) (\<lambda>name. rbind (read_properties rdr' prop []) (\<lambda>(rdr'', prop, ps).
            read_objects rdr'' prop (os @ [\<lparr>ObjectName = name, Properties = ps\<rparr>]))))"
  by auto
termination
  by (relation "measure (\<lambda>(rdr, _). work_of rdr)")
    (auto dest!: GetString_work [OF sym] dest: read_properties_work)

declare read_objects.simps [simp del]

lemma read_objects_work: "read_objects rdr pr os = Inr (rdr', x) \<Longrightarrow> work_of rdr' \<le> work_of rdr"
proof (induction rdr pr os rule: read_objects.induct)
  case (1 rdr pr os)
  obtain o1 rdr1 where g: "GetString rdr = (o1, rdr1)" by fastforce
  show ?case
  proof (cases o1)
    case None
    then show ?thesis using "1.prems" g GetString_None [of rdr rdr1] by (subst (asm) read_objects.simps) simp
  next
    case (Some s)
    then have "work_of rdr1 < work_of rdr" using g GetString_work by simp
    then show ?thesis using "1.prems" "1.IH" g Some
      by (subst (asm) read_objects.simps) (fastforce simp: rbind_Inr_iff split: if_splits dest: read_properties_work)
  qed
qed

function read_lists :: "stringstream \<Rightarrow> ModProperty \<Rightarrow> MOD_LIST list \<Rightarrow> MOD_LIST list res" where
  "read_lists rdr prop ls =
     (case GetString rdr of
        (None, rdr') \<Rightarrow> Inr ls
      | (Some buff, rdr') \<Rightarrow>
          if \<not> TestEnd buff then Inr ls
          else if buff = [] then read_lists rdr' prop ls
          else rbind (copy80 buff) (\<lambda>title. rbind (read_objects rdr' prop []) (\<lambda>(rdr'', prop, os).
            read_lists rdr'' prop (ls @ [\<lparr>SectionTitle = title, ElementList = os\<rparr>]))))"
  by auto
termination
  by (relation "measure (\<lambda>(rdr, _). work_of rdr)")
    (auto dest!: GetString_work [OF sym] dest: read_objects_work)

declare read_lists.simps [simp del]

text \<open>\<open>string st = buff\<close> reads up to the first zero byte, which the buffer need not have.\<close>

definition text_of :: "bytes \<Rightarrow> stringstream res" where
  "text_of buff = (if 0 \<in> set buff then Inr \<lparr>rd_rest = chars (c_str buff), rd_eof = False, rd_fail = False\<rparr> else Inl OutOfBounds)"

definition Load_Modifier :: "bytes \<Rightarrow> MOD_LIST list \<Rightarrow> MOD_LIST list res" where
  "Load_Modifier buff ModifierList = rbind (text_of buff) (\<lambda>rdr. read_lists rdr new_property ModifierList)"

definition Load_Monster :: "bytes \<Rightarrow> MOD_OBJ list \<Rightarrow> MOD_OBJ list res" where
  "Load_Monster buff MonsterList =
     rbind (text_of buff) (\<lambda>rdr. rmap (\<lambda>(rdr, prop, os). os) (read_objects rdr new_property MonsterList))"

text \<open>A file that cannot be opened is \<open>None\<close>; the value says whether it could.\<close>

definition ModifierBin_LoadBin :: "bytes option \<Rightarrow> MOD_LIST list \<Rightarrow> (bool \<times> MOD_LIST list) res" where
  "ModifierBin_LoadBin ifile ModifierList =
     (case ifile of
        None \<Rightarrow> Inr (False, ModifierList)
      | Some buff \<Rightarrow> rbind (nox_decrypt buff NC_MODIFIER_BIN) (\<lambda>(ret, buff). rmap (Pair True) (Load_Modifier buff ModifierList)))"

definition MonsterBin_LoadBin :: "bytes option \<Rightarrow> MOD_OBJ list \<Rightarrow> (bool \<times> MOD_OBJ list) res" where
  "MonsterBin_LoadBin ifile MonsterList =
     (case ifile of
        None \<Rightarrow> Inr (False, MonsterList)
      | Some buff \<Rightarrow> rbind (nox_decrypt buff NC_MONSTER_BIN) (\<lambda>(ret, buff). rmap (Pair True) (Load_Monster buff MonsterList)))"

end
