(* ===== verification/Modifier_Text.thy ===== *)
theory Modifier_Text
  imports Modifier_Bin
begin

text \<open>
  The text of \<open>modifier.bin\<close> and \<open>monster.bin\<close>: how sections, objects and properties are written, and that loading what is written gives
  them back. No code, but the proofs about \<open>Modifier_Bin\<close>.
\<close>

section \<open>Texts\<close>

text \<open>How a file is written: a name or a property to a line, and \<open>END\<close> behind each group.\<close>

definition property_text :: "ModProperty \<Rightarrow> string" where
  "property_text p = Ident p @ '' = '' @ Value p @ [newline]"

definition object_text :: "MOD_OBJ \<Rightarrow> string" where
  "object_text ob = ObjectName ob @ newline # concat (map property_text (Properties ob)) @ ''END'' @ [newline]"

definition list_text :: "MOD_LIST \<Rightarrow> string" where
  "list_text l = SectionTitle l @ newline # concat (map object_text (ElementList l)) @ ''END'' @ [newline]"

text \<open>Names and words that survive.\<close>

definition name_ok :: "string \<Rightarrow> bool" where
  "name_ok s \<longleftrightarrow> s \<noteq> [] \<and> length s < 0x50 \<and> (\<forall>c \<in> set s. isChar c \<and> c \<noteq> CHR '';'') \<and> TestEnd s"

definition word_ok :: "string \<Rightarrow> bool" where
  "word_ok s \<longleftrightarrow> s \<noteq> [] \<and> length s < 0x50 \<and> (\<forall>c \<in> set s. isCharw c \<and> c \<noteq> CHR '';'' \<and> c \<noteq> CHR ''='')"

definition object_ok :: "MOD_OBJ \<Rightarrow> bool" where
  "object_ok ob \<longleftrightarrow> name_ok (ObjectName ob) \<and> (\<forall>p \<in> set (Properties ob). word_ok (Ident p) \<and> word_ok (Value p))"

definition list_ok :: "MOD_LIST \<Rightarrow> bool" where
  "list_ok l \<longleftrightarrow> name_ok (SectionTitle l) \<and> (\<forall>ob \<in> set (ElementList l). object_ok ob)"

abbreviation stream :: "string \<Rightarrow> stringstream" where
  "stream s \<equiv> \<lparr>rd_rest = s, rd_eof = False, rd_fail = False\<rparr>"

lemma newline_not_char [simp]: "\<not> isChar newline"
  by (simp add: isChar_def MIN_CHAR_def)

lemma isCharw_isChar: "isCharw c \<Longrightarrow> isChar c"
  by (simp add: isChar_def isCharw_def)

lemma GetString_line:
  assumes "\<forall>c \<in> set l. isChar c \<and> c \<noteq> CHR '';''" "length l \<le> 254"
  shows "GetString (stream (l @ newline # rest)) = (Some l, stream rest)"
proof -
  have "\<forall>c \<in> set l. c \<noteq> newline" using assms(1) newline_not_char by blast
  then have "takeWhile (\<lambda>c. c \<noteq> newline) (l @ newline # rest) = l" "dropWhile (\<lambda>c. c \<noteq> newline) (l @ newline # rest) = newline # rest"
    by (simp_all add: takeWhile_append dropWhile_append)
  then have read: "read_line (stream (l @ newline # rest)) = (l, stream rest)" using assms(2) by (simp add: read_line_def)
  have "filter isChar l = l" "filter (\<lambda>c. c \<noteq> CHR '';'') l = l" using assms(1) by (simp_all add: filter_id_conv)
  then show ?thesis by (simp add: GetString_def read strcws_def strrc_def)
qed

lemma GetString_END: "GetString (stream (''END'' @ newline # rest)) = (Some ''END'', stream rest)"
  by (rule GetString_line) (simp_all add: isChar_def MIN_CHAR_def MAX_CHAR_def)

lemma TestEnd_END [simp]: "\<not> TestEnd ''END''"
  by (simp add: TestEnd_def isCharw_def MIN_CHAR_def MAX_CHAR_def)

lemma word_chars: "word_ok w \<Longrightarrow> w \<noteq> [] \<and> set w \<inter> set '' ='' = {}"
proof -
  assume a: "word_ok w"
  have "\<not> isCharw CHR '' ''" by (simp add: isCharw_def MIN_CHAR_def)
  then have "CHR '' '' \<notin> set w" "CHR ''='' \<notin> set w" using a unfolding word_ok_def by blast+
  then show ?thesis using a by (simp add: word_ok_def)
qed

lemma ModProperty_Load_text:
  assumes "word_ok (Ident p)" "word_ok (Value p)"
  shows "ModProperty_Load (Ident p @ '' = '' @ Value p) pr = Inr p"
proof -
  have split: "strtok '' ='' ([] @ Ident p @ CHR '' '' # (''= '' @ Value p)) = Some (Ident p, ''= '' @ Value p)"
    by (rule strtok_word(1)) (use word_chars [OF assms(1)] in simp_all)
  moreover have "strtok '' ='' (''= '' @ Value p) = Some (Value p, [])"
    by (rule strtok_word(2) [where d = "CHR '' ''"]) (use word_chars [OF assms(2)] in simp_all)
  moreover have "copy80 (Ident p) = Inr (Ident p)" "copy80 (Value p) = Inr (Value p)"
    using assms by (simp_all add: copy80_def word_ok_def)
  moreover have "Ident p @ '' = '' @ Value p = [] @ Ident p @ CHR '' '' # (''= '' @ Value p)" by simp
  ultimately have "ModProperty_Load (Ident p @ '' = '' @ Value p) pr = Inr (pr\<lparr>Ident := Ident p, Value := Value p\<rparr>)"
    by (simp only: ModProperty_Load_def option.case prod.case rbind.simps rmap_simps Let_def)
  then show ?thesis by simp
qed

lemma property_text_append: "property_text p @ s = (Ident p @ '' = '' @ Value p) @ newline # s"
  by (simp add: property_text_def)

lemma read_properties_text:
  assumes "\<forall>p \<in> set ps. word_ok (Ident p) \<and> word_ok (Value p)"
  shows "\<exists>pr'. read_properties (stream (concat (map property_text ps) @ ''END'' @ newline # rest)) pr acc = Inr (stream rest, pr', acc @ ps)"
  using assms
proof (induction ps arbitrary: pr acc)
  case Nil
  show ?case using GetString_END by (subst read_properties.simps) simp
next
  case (Cons p ps)
  let ?l = "Ident p @ '' = '' @ Value p"
  have ok: "word_ok (Ident p)" "word_ok (Value p)" using Cons.prems by simp_all
  have space: "isChar CHR '' ''" "isChar CHR ''=''" "\<not> isCharw CHR '' ''" by (simp_all add: isChar_def isCharw_def MIN_CHAR_def MAX_CHAR_def)
  have "GetString (stream (?l @ newline # concat (map property_text ps) @ ''END'' @ newline # rest)) =
      (Some ?l, stream (concat (map property_text ps) @ ''END'' @ newline # rest))"
    by (rule GetString_line) (use ok space isCharw_isChar in \<open>auto simp: word_ok_def\<close>)
  moreover have "TestEnd ?l" "?l \<noteq> []"
  proof -
    obtain c cs where c: "Ident p = c # cs" "isCharw c" using ok(1) by (cases "Ident p") (auto simp: word_ok_def)
    then have "dropWhile (\<lambda>c. \<not> isCharw c) ?l = ?l" by simp
    moreover have "CHR '' '' \<in> set ?l" "CHR '' '' \<notin> set ''END''" by simp_all
    ultimately show "TestEnd ?l" unfolding TestEnd_def by metis
  qed simp
  ultimately show ?case
    using Cons.IH [of p "acc @ [p]"] Cons.prems ModProperty_Load_text [OF ok, of pr]
    by (subst read_properties.simps) (simp add: property_text_append)
qed

lemma GetString_name:
  "name_ok s \<Longrightarrow> GetString (stream (s @ newline # rest)) = (Some s, stream rest) \<and> TestEnd s \<and> s \<noteq> [] \<and> copy80 s = Inr s"
  using GetString_line [of s rest] by (simp add: name_ok_def copy80_def)

lemma read_objects_text:
  assumes "\<forall>ob \<in> set obs. object_ok ob"
  shows "\<exists>pr'. read_objects (stream (concat (map object_text obs) @ ''END'' @ newline # rest)) pr acc = Inr (stream rest, pr', acc @ obs)"
  using assms
proof (induction obs arbitrary: pr acc)
  case Nil
  show ?case using GetString_END by (subst read_objects.simps) simp
next
  case (Cons ob obs)
  let ?more = "concat (map object_text obs) @ ''END'' @ newline # rest"
  have ok: "name_ok (ObjectName ob)" "\<forall>p \<in> set (Properties ob). word_ok (Ident p) \<and> word_ok (Value p)"
    using Cons.prems by (simp_all add: object_ok_def)
  obtain pr1 where pr1: "read_properties (stream (concat (map property_text (Properties ob)) @ ''END'' @ newline # ?more)) pr [] =
      Inr (stream ?more, pr1, Properties ob)"
    using read_properties_text [OF ok(2), of ?more pr "[]"] by auto
  obtain pr2 where pr2: "read_objects (stream ?more) pr1 (acc @ [ob]) = Inr (stream rest, pr2, acc @ ob # obs)"
    using Cons.IH [of pr1 "acc @ [ob]"] Cons.prems by auto
  show ?case using GetString_name [OF ok(1)] pr1 pr2
    by (subst read_objects.simps) (cases ob, simp add: object_text_def)
qed

lemma read_lists_text:
  assumes "\<forall>l \<in> set ls. list_ok l"
  shows "read_lists (stream (concat (map list_text ls) @ ''END'' @ newline # rest)) pr acc = Inr (acc @ ls)"
  using assms
proof (induction ls arbitrary: pr acc)
  case Nil
  show ?case using GetString_END by (subst read_lists.simps) simp
next
  case (Cons l ls)
  let ?more = "concat (map list_text ls) @ ''END'' @ newline # rest"
  have ok: "name_ok (SectionTitle l)" "\<forall>ob \<in> set (ElementList l). object_ok ob"
    using Cons.prems by (simp_all add: list_ok_def)
  obtain pr1 where pr1: "read_objects (stream (concat (map object_text (ElementList l)) @ ''END'' @ newline # ?more)) pr [] =
      Inr (stream ?more, pr1, ElementList l)"
    using read_objects_text [OF ok(2), of ?more pr "[]"] by auto
  have "read_lists (stream ?more) pr1 (acc @ [l]) = Inr (acc @ l # ls)"
    using Cons.IH [of pr1 "acc @ [l]"] Cons.prems by simp
  then show ?case using GetString_name [OF ok(1)] pr1
    by (subst read_lists.simps) (cases l, simp add: list_text_def)
qed

section \<open>Files\<close>

definition modifier_text :: "MOD_LIST list \<Rightarrow> string" where
  "modifier_text ls = concat (map list_text ls) @ ''END'' @ [newline]"

definition monster_text :: "MOD_OBJ list \<Rightarrow> string" where
  "monster_text obs = concat (map object_text obs) @ ''END'' @ [newline]"

text \<open>With zero bytes behind it, up to whole blocks of the cipher.\<close>

definition padded :: "string \<Rightarrow> bytes" where
  "padded s = string_bytes s @ replicate (8 - length s mod 8) 0"

definition plain :: "string \<Rightarrow> bool" where
  "plain s \<longleftrightarrow> (\<forall>c \<in> set s. isChar c \<or> c = newline)"

lemma plain_simps [simp]:
  "plain []" "plain (c # s) \<longleftrightarrow> (isChar c \<or> c = newline) \<and> plain s" "plain (s @ s') \<longleftrightarrow> plain s \<and> plain s'"
  by (auto simp: plain_def)

lemma plain_concat: "(\<And>x. x \<in> set xs \<Longrightarrow> plain (f x)) \<Longrightarrow> plain (concat (map f xs))"
  by (auto simp: plain_def)

lemma isChar_signs [simp]: "isChar CHR '' ''" "isChar CHR ''=''" "isChar CHR ''E''" "isChar CHR ''N''" "isChar CHR ''D''"
  by (simp_all add: isChar_def MIN_CHAR_def MAX_CHAR_def)

lemma plain_object: "object_ok ob \<Longrightarrow> plain (object_text ob)"
proof -
  assume ok: "object_ok ob"
  have name: "plain (ObjectName ob)" using ok by (simp add: object_ok_def name_ok_def plain_def)
  have "plain (property_text p)" if "p \<in> set (Properties ob)" for p
  proof -
    have "\<forall>c \<in> set (Ident p). isChar c" "\<forall>c \<in> set (Value p). isChar c"
      using ok that isCharw_isChar by (simp_all add: object_ok_def word_ok_def)
    then show ?thesis by (simp add: property_text_def) (simp add: plain_def)
  qed
  from plain_concat [OF this] name show ?thesis by (simp add: object_text_def)
qed

lemma plain_list: "list_ok l \<Longrightarrow> plain (list_text l)"
proof -
  assume ok: "list_ok l"
  have "plain (SectionTitle l)" using ok by (simp add: list_ok_def name_ok_def plain_def)
  moreover have "plain (concat (map object_text (ElementList l)))"
    by (rule plain_concat) (use ok plain_object in \<open>simp add: list_ok_def\<close>)
  ultimately show ?thesis by (simp add: list_text_def)
qed

lemma padded_blocks: "8 dvd length (padded s)"
proof -
  have "length s = 8 * (length s div 8) + length s mod 8" "length s mod 8 < 8" by simp_all
  then have "length (padded s) = 8 * (length s div 8 + 1)" unfolding padded_def length_append length_string_bytes length_replicate by arith
  then show ?thesis by (metis dvd_triv_left)
qed

lemma text_of_padded: "plain s \<Longrightarrow> text_of (padded s) = Inr (stream s)"
proof -
  assume s: "plain s"
  have "(of_nat (of_char c) :: u8) \<noteq> 0" if "c \<in> set s" for c
  proof -
    have "unat (of_nat (of_char c) :: u8) = of_char c" by (simp add: unsigned_of_nat take_bit_nat_eq_self)
    moreover
    have "isChar c \<or> c = newline" using s that unfolding plain_def by blast
    then have "of_char c \<noteq> (0 :: nat)" by (auto simp: isChar_def MIN_CHAR_def MAX_CHAR_def)
    ultimately show ?thesis by (metis unat_0)
  qed
  then have "\<forall>b \<in> set (string_bytes s). b \<noteq> 0" by (auto simp: string_bytes_def)
  then have "c_str (padded s) = string_bytes s" by (simp add: c_str_def padded_def takeWhile_append)
  moreover have "0 \<in> set (padded s)" by (simp add: padded_def)
  ultimately show ?thesis by (simp add: text_of_def chars_string_bytes)
qed

lemma encrypted_file:
  "\<exists>file. nox_encrypt (padded s) ft = Inr (0, file) \<and> nox_decrypt file ft = Inr (0, padded s)"
proof -
  obtain t where "crypt_table (file_type_code ft) = Some t" using crypt_table_file_type by blast
  from crypt_there_and_back [OF this padded_blocks] show ?thesis
    unfolding nox_encrypt_def nox_decrypt_def by blast
qed

lemma modifier_loads:
  assumes "\<forall>l \<in> set ls. list_ok l" "nox_encrypt (padded (modifier_text ls)) NC_MODIFIER_BIN = Inr (r, file)"
  shows "ModifierBin_LoadBin (Some file) acc = Inr (True, acc @ ls)"
proof -
  have "plain (concat (map list_text ls))" by (rule plain_concat) (use assms(1) plain_list in blast)
  then have src: "text_of (padded (modifier_text ls)) = Inr (stream (modifier_text ls))"
    by (intro text_of_padded) (simp add: modifier_text_def)
  have "Load_Modifier (padded (modifier_text ls)) acc = Inr (acc @ ls)"
    using read_lists_text [OF assms(1), of "[]" new_property acc] by (simp add: Load_Modifier_def src) (simp add: modifier_text_def)
  then show ?thesis
    using encrypted_file [of "modifier_text ls" NC_MODIFIER_BIN] assms(2) by (auto simp: ModifierBin_LoadBin_def)
qed

lemma monster_loads:
  assumes "\<forall>ob \<in> set obs. object_ok ob" "nox_encrypt (padded (monster_text obs)) NC_MONSTER_BIN = Inr (r, file)"
  shows "MonsterBin_LoadBin (Some file) acc = Inr (True, acc @ obs)"
proof -
  have "plain (concat (map object_text obs))" by (rule plain_concat) (use assms(1) plain_object in blast)
  then have src: "text_of (padded (monster_text obs)) = Inr (stream (monster_text obs))"
    by (intro text_of_padded) (simp add: monster_text_def)
  have "Load_Monster (padded (monster_text obs)) acc = Inr (acc @ obs)"
    using read_objects_text [OF assms(1), of "[]" new_property acc] by (auto simp: Load_Monster_def src) (auto simp: monster_text_def)
  then show ?thesis
    using encrypted_file [of "monster_text obs" NC_MONSTER_BIN] assms(2) by (auto simp: MonsterBin_LoadBin_def)
qed

text \<open>C14: an encrypted \<open>modifier.bin\<close> of sections, objects and properties whose names and values fit their arrays and have no character the
  loader drops, loads into exactly these sections; and so does \<open>monster.bin\<close> with its objects.\<close>

theorem modifier_file_loads:
  assumes "\<forall>l \<in> set ls. list_ok l" "\<forall>ob \<in> set obs. object_ok ob"
  shows "(\<exists>file. nox_encrypt (padded (modifier_text ls)) NC_MODIFIER_BIN = Inr (0, file) \<and>
      ModifierBin_LoadBin (Some file) [] = Inr (True, ls)) \<and>
    (\<exists>file. nox_encrypt (padded (monster_text obs)) NC_MONSTER_BIN = Inr (0, file) \<and>
      MonsterBin_LoadBin (Some file) [] = Inr (True, obs))"
  using modifier_loads [OF assms(1)] monster_loads [OF assms(2)] encrypted_file by fastforce

lemma modifier_file_loads_witness:
  "\<exists>file. ModifierBin_LoadBin (Some file) [] =
    Inr (True, [\<lparr>SectionTitle = ''WEAPON'', ElementList = [\<lparr>ObjectName = ''Sword'', Properties = [\<lparr>Ident = ''CLASS'', Value = ''2''\<rparr>]\<rparr>]\<rparr>])"
proof -
  have "list_ok \<lparr>SectionTitle = ''WEAPON'', ElementList = [\<lparr>ObjectName = ''Sword'', Properties = [\<lparr>Ident = ''CLASS'', Value = ''2''\<rparr>]\<rparr>]\<rparr>"
    by (simp add: list_ok_def name_ok_def object_ok_def word_ok_def TestEnd_def isChar_def isCharw_def MIN_CHAR_def MAX_CHAR_def)
  then show ?thesis
    using modifier_file_loads [of "[\<lparr>SectionTitle = ''WEAPON'', ElementList =
      [\<lparr>ObjectName = ''Sword'', Properties = [\<lparr>Ident = ''CLASS'', Value = ''2''\<rparr>]\<rparr>]\<rparr>]" "[]"] by auto
qed

section \<open>Other lines\<close>

text \<open>A line without a value gets the value of the property before.\<close>

lemma value_of_the_last_line: "word_ok w \<Longrightarrow> ModProperty_Load w pr = Inr (pr\<lparr>Ident := w\<rparr>)"
proof -
  assume w: "word_ok w"
  have "strtok '' ='' ([] @ w) = Some (w, [])" by (rule strtok_word(2) [where d = "CHR '' ''"]) (use word_chars [OF w] in simp_all)
  moreover have "strtok '' ='' [] = None" by (simp add: strtok_def)
  ultimately show ?thesis using w by (simp add: ModProperty_Load_def copy80_def word_ok_def)
qed

text \<open>A name of 80 to 254 characters overruns its array.\<close>

lemma long_name_overruns:
  assumes "\<forall>c \<in> set s. isChar c \<and> c \<noteq> CHR '';''" "80 \<le> length s" "length s \<le> 254" "TestEnd s"
  shows "read_objects (stream (s @ newline # rest)) pr os = Inl OutOfBounds"
proof -
  have "s \<noteq> []" using assms(2) by auto
  then show ?thesis using GetString_line [OF assms(1,3), of rest] assms(2,4) by (subst read_objects.simps) (simp add: copy80_def)
qed

end
