(* ===== verification/Wol_Socket.thy ===== *)
theory Wol_Socket
  imports Nox_Bitwise Nox_Buffer World_Packet
begin

text \<open>
  The connection to the lobby (\<open>game/WolSocket.cpp\<close>): it logs in when the connection is there, announces the game in the topic of a channel, in
  a description packed to seven bits, and answers pings. What it sends is a list of byte strings; the configuration is an argument.

  Name and password are arrays of ten bytes that \<open>strncpy\<close> fills, so that ten characters have no zero byte behind them: reading such a name
  is \<open>OutOfBounds\<close>.
\<close>

section \<open>State\<close>

record wol_config =
  wc_ServerName :: "bytes option"
  wc_MapName :: "bytes option"
  wc_NumPlayers :: "int option"

record wol_socket =
  wl_username :: bytes
  wl_password :: bytes
  wl_sendQueue :: "world_packet list"
  wl_sent :: "bytes list"

text \<open>\<open>strncpy(field, s, 10)\<close>.\<close>

definition strncpy10 :: "bytes \<Rightarrow> bytes" where
  "strncpy10 s = (let t = take 10 (c_str s) in t @ replicate (10 - length t) 0)"

definition field_str :: "bytes \<Rightarrow> bytes res" where
  "field_str f = (if 0 \<in> set f then Inr (c_str f) else Inl OutOfBounds)"

definition WolSocket :: wol_socket where
  "WolSocket = \<lparr>wl_username = strncpy10 (string_bytes ''Server''), wl_password = strncpy10 (string_bytes ''Secret''), wl_sendQueue = [], wl_sent = []\<rparr>"

definition Wol_Send :: "bytes \<Rightarrow> wol_socket \<Rightarrow> wol_socket" where
  "Wol_Send s w = w\<lparr>wl_sent := wl_sent w @ [s]\<rparr>"

definition Wol_SendPacket :: "world_packet \<Rightarrow> wol_socket \<Rightarrow> wol_socket" where
  "Wol_SendPacket pck w = w\<lparr>wl_sendQueue := wl_sendQueue w @ [pck]\<rparr>"

section \<open>The password\<close>

definition HASH :: string where
  "HASH = ''abcdefghijklmnopqrstuvwxyzABCDEFGHIJKLMNOPQRSTUVWXYZ0123456789./''"

text \<open>\<open>pwd1\<close> has nine bytes, and its last one is read before it is written; \<open>esi\<close> is \<open>len - i\<close>.\<close>

definition encode_byte :: "bytes \<Rightarrow> nat \<Rightarrow> nat \<Rightarrow> u8 res" where
  "encode_byte pwd1 len i =
     (if i < 9 \<and> len - i < 9
      then Inr (let p = pwd1 ! i; q = pwd1 ! (len - i) in if p AND 1 \<noteq> 0 then push_bit 1 p AND q else p XOR q)
      else Inl OutOfBounds)"

definition encode :: "bytes \<Rightarrow> bytes res" where
  "encode password =
     (if 9 < length password then Inl OutOfBounds
      else let len = length password; pwd1 = password @ replicate (9 - len) 0
        in rmap (\<lambda>(pwd2 :: bytes). take len (map (\<lambda>i. of_nat (of_char (HASH ! unat (pwd2 ! i AND 0x3f)))) [0..<8] @ drop 8 pwd1))
          (res_fold (\<lambda>i pwd2. rmap (\<lambda>b. pwd2[i := b]) (encode_byte pwd1 len i)) [0..<len] (replicate 9 0)))"

definition SetUsername :: "bytes \<Rightarrow> wol_socket \<Rightarrow> wol_socket" where
  "SetUsername username w = w\<lparr>wl_username := strncpy10 username\<rparr>"

definition SetPassword :: "bytes \<Rightarrow> wol_socket \<Rightarrow> wol_socket res" where
  "SetPassword password w =
     (let f = strncpy10 password
      in rbind (field_str f) (\<lambda>s. rmap (\<lambda>e. w\<lparr>wl_password := e @ drop (length e) f\<rparr>) (encode s)))"

section \<open>Messages\<close>

text \<open>\<open>line.find("PING")\<close> finds it anywhere.\<close>

fun contains :: "'a list \<Rightarrow> 'a list \<Rightarrow> bool" where
  "contains w [] \<longleftrightarrow> w = []"
| "contains w (c # s) \<longleftrightarrow> take (length w) (c # s) = w \<or> contains w s"

definition Wol_OnLine :: "bytes \<Rightarrow> wol_socket \<Rightarrow> wol_socket" where
  "Wol_OnLine line w =
     (if contains (string_bytes ''PING'') line then Wol_Send (string_bytes ''PONG :ircdev.westwood.com'' @ [0x0A]) w else w)"

definition gameData :: bytes where
  "gameData =
    [0x9A, 0x03, 0x01, 0x80, 0xFE, 0x87, 0x88, 0x80, 0xE4, 0xFF, 0xFF, 0xFF, 0xFF, 0xFB, 0xC4, 0xB4, 0xEA, 0xDB, 0xAF, 0xCF, 0xE0, 0x95,
     0xF3, 0x86, 0x80, 0x80, 0xAD, 0xEF, 0xC2, 0x95, 0xA2, 0xB4, 0x89, 0x88, 0xAA, 0xE5, 0xE6, 0xD1, 0x83, 0x80, 0x80, 0x80, 0x80, 0xFF,
     0xFF, 0xFF, 0xFF, 0xFF, 0xFF, 0xFF, 0xFF, 0xFF, 0xFF, 0xFF, 0xFF, 0xFF, 0xFF, 0xFF, 0xFF, 0xFF, 0xFF, 0xFF, 0xFF, 0xFF, 0xFF, 0xFF,
     0xFF, 0xFF, 0xFF, 0xFF, 0xFF, 0xFF, 0xFF, 0xFF, 0xFF, 0x87, 0xC1, 0xBC, 0x80, 0x80, 0x80, 0x0D, 0x0A, 0x00]"

definition gameData2 :: bytes where
  "gameData2 =
    [0x00, 0xFF, 0x01, 0x01, 0x20, 0xFF, 0xFF, 0xFF, 0xFF, 0x9E, 0x48, 0x53, 0x6F, 0x5F, 0x4F, 0x70, 0x65, 0x6E, 0x00, 0x00, 0x5A, 0x6F,
     0x61, 0x45, 0x44, 0x4B, 0x20, 0x54, 0x65, 0x73, 0x74, 0x00, 0x00, 0x00, 0x00, 0xFF, 0xFF, 0xFF, 0xFF, 0xFF, 0xFF, 0xFF, 0xFF, 0xFF,
     0xFF, 0xFF, 0xFF, 0xFF, 0xFF, 0xFF, 0xFF, 0xFF, 0xFF, 0xFF, 0xFF, 0xFF, 0xFF, 0xFF, 0xFF, 0xFF, 0xFF, 0xFF, 0xFF, 0x87, 0x20, 0x0F,
     0x00, 0x00, 0x34, 0x00, 0x00, 0x00, 0x00, 0x00, 0x00, 0x00, 0x00, 0x00]"

text \<open>\<open>memcpy(data + at, src, n)\<close> within \<open>data\<close>.\<close>

definition put_at :: "nat \<Rightarrow> bytes \<Rightarrow> bytes \<Rightarrow> bytes" where
  "put_at p src data = take p data @ src @ drop (p + length src) data"

definition set_field :: "nat \<Rightarrow> nat \<Rightarrow> bytes option \<Rightarrow> bytes \<Rightarrow> bytes" where
  "set_field p n val data = (case val of None \<Rightarrow> data | Some v \<Rightarrow> put_at p (if n < length v then take n v else v) data)"

definition game_description :: "wol_config \<Rightarrow> bytes" where
  "game_description cfg =
     (let data = set_field 0x14 0xE (wc_ServerName cfg) gameData2;
          data = set_field 0xB 0x08 (wc_MapName cfg) data
      in case wc_NumPlayers cfg of None \<Rightarrow> data | Some ival \<Rightarrow> put_at 0x4 [of_int ival] data)"

abbreviation text_line :: "string \<Rightarrow> bytes" where
  "text_line s \<equiv> string_bytes s @ [0x0A]"

definition Wol_OnConnect :: "wol_config \<Rightarrow> wol_socket \<Rightarrow> wol_socket res" where
  "Wol_OnConnect cfg w =
     rbind (EncryptBitwise (game_description cfg)) (\<lambda>packed.
     let data = put_at 3 packed gameData in
     rbind (field_str (wl_username w)) (\<lambda>name.
     rbind (field_str (wl_password w)) (\<lambda>password.
     let buffer = string_bytes ''TOPIC #'' @ name @ string_bytes '''s_game :g1P3'' @ data;
         topic = take (length buffer - 1) buffer
     in Inr (w\<lparr>wl_sent := wl_sent w @
       [text_line ''CVERS 11015 4610'', text_line ''PASS supersecret'',
        string_bytes ''NICK '' @ name @ [0x0A], string_bytes ''apgar '' @ password @ [0x0A],
        text_line ''USER UserName HostName irc.westwood.com :RealName'', text_line ''verchk 32512 720911'',
        text_line ''SETLOCALE 2'', text_line ''SETCODEPAGE 1252'', text_line ''SETOPT 17,33'',
        string_bytes ''JOINGAME #'' @ name @ text_line '''s_game 1 32 37 3 1 1 41681472'',
        topic, text_line ''LIST 37 37'', topic,
        string_bytes ''LISTSEARCH 9472 -1 0 0 0 :'' @ name @ text_line '':'', text_line ''LIST 37 37'']\<rparr>))))"

end
