(* ===== verification/Lobby.thy ===== *)
theory Lobby
  imports Wol_Socket
begin

text \<open>
  What the lobby gets: the announcement of a game is one line, and who unpacks it finds the configured name, map and number of players; the
  password field keeps to its alphabet. Names of ten characters and passwords of nine leave their arrays.
\<close>

section \<open>The description of the game\<close>

lemma length_gameData: "length gameData = 84" "length gameData2 = 78"
  by (simp_all add: gameData_def gameData2_def)

lemma length_put_at: "p + length src \<le> length data \<Longrightarrow> length (put_at p src data) = length data"
  by (simp add: put_at_def)

lemma nth_put_at:
  "p + length src \<le> length data \<Longrightarrow> i < length data \<Longrightarrow>
    put_at p src data ! i = (if p \<le> i \<and> i < p + length src then src ! (i - p) else data ! i)"
  by (auto simp: put_at_def nth_append min_def)

lemma length_set_field: "p + n \<le> length data \<Longrightarrow> length (set_field p n val data) = length data"
  by (auto simp: set_field_def length_put_at split: option.split)

lemma nth_set_field:
  "p + n \<le> length data \<Longrightarrow> i < length data \<Longrightarrow>
    set_field p n val data ! i =
      (case val of Some v \<Rightarrow> if p \<le> i \<and> i < p + n \<and> i < p + length v then v ! (i - p) else data ! i | None \<Rightarrow> data ! i)"
  by (auto simp: set_field_def nth_put_at split: option.split)

lemma length_description: "length (game_description cfg) = 78"
  by (simp add: game_description_def Let_def length_set_field length_put_at length_gameData split: option.split)

lemma nth_description:
  "wc_ServerName cfg = Some v \<Longrightarrow> i < 14 \<Longrightarrow> i < length v \<Longrightarrow> game_description cfg ! (20 + i) = v ! i"
  "wc_MapName cfg = Some v \<Longrightarrow> i < 8 \<Longrightarrow> i < length v \<Longrightarrow> game_description cfg ! (11 + i) = v ! i"
  "wc_NumPlayers cfg = Some n \<Longrightarrow> game_description cfg ! 4 = of_int n"
  by (simp_all add: game_description_def Let_def length_set_field length_put_at nth_put_at nth_set_field length_gameData split: option.split)

section \<open>The announcement\<close>

lemma packed_description:
  "\<exists>packed. EncryptBitwise (game_description cfg) = Inr packed \<and> length packed = 78 \<and> (\<forall>b \<in> set packed. 0x80 \<le> b) \<and>
    (\<forall>m < 68. dec_out packed m = game_description cfg ! m)"
proof -
  let ?d = "game_description cfg"
  obtain packed where p: "EncryptBitwise ?d = Inr packed" "length packed = 78" "\<forall>q < flushed (8 * 69). packed ! q = enc_out ?d q"
    using EncryptBitwise_in_bounds [of ?d] length_description [of cfg] by auto
  have all: "\<forall>q < 78. packed ! q = enc_out ?d q" using p(3) by (simp add: flushed_def)
  have "0x80 \<le> enc_out ?d q" for q
  proof -
    have "bit (enc_out ?d q) 7" by (simp add: enc_out_def bit_xor_iff bit_bits_upto bit_push_bit_iff)
    moreover have "\<not> bit (enc_out ?d q AND mask 7) 7" by (simp add: bit_and_iff bit_mask_iff)
    ultimately have "enc_out ?d q AND mask 7 \<noteq> enc_out ?d q" by metis
    then have "\<not> enc_out ?d q < 0x80" using less_mask_eq [of "enc_out ?d q" 7] by auto
    then show ?thesis by simp
  qed
  then have "\<forall>b \<in> set packed. 0x80 \<le> b" using all p(2) by (metis in_set_conv_nth)
  moreover have "dec_out packed m = ?d ! m" if "m < 68" for m
  proof (intro dec_out_eq bit7_enc_out [OF all])
    fix j :: nat assume "j < 8"
    then show "(8 * m + j) div 7 < 78" using that by linarith
  qed
  ultimately show ?thesis using p(1,2) by blast
qed

text \<open>C28: with a user name and a password that end inside their arrays the announcement is sent: one line of the topic, with no line end
  before its own, in whose packed part the configured server name (at most 14 bytes), map name (at most 8) and number of players
  are found again.\<close>

theorem lobby_announcement:
  assumes "0 \<in> set (wl_username w)" "0 \<in> set (wl_password w)"
  shows "\<exists>w' packed. Wol_OnConnect cfg w = Inr w' \<and>
    string_bytes ''TOPIC #'' @ c_str (wl_username w) @ string_bytes '''s_game :g1P3'' @ [0x9A, 0x03, 0x01] @ packed @ [0x0D, 0x0A] \<in> set (wl_sent w') \<and>
    length packed = 78 \<and> (\<forall>b \<in> set packed. 0x80 \<le> b) \<and>
    (\<forall>v. wc_ServerName cfg = Some v \<longrightarrow> map (dec_out packed) [0x14..<0x14 + min 14 (length v)] = take 14 v) \<and>
    (\<forall>v. wc_MapName cfg = Some v \<longrightarrow> map (dec_out packed) [0xB..<0xB + min 8 (length v)] = take 8 v) \<and>
    (\<forall>n. wc_NumPlayers cfg = Some n \<longrightarrow> dec_out packed 4 = of_int n)"
proof -
  obtain packed where p: "EncryptBitwise (game_description cfg) = Inr packed" "length packed = 78" "\<forall>b \<in> set packed. 0x80 \<le> b"
    "\<And>m. m < 68 \<Longrightarrow> dec_out packed m = game_description cfg ! m"
    using packed_description by blast
  have data: "put_at 3 packed gameData = [0x9A, 0x03, 0x01] @ packed @ [0x0D, 0x0A, 0x00]"
    by (simp add: put_at_def p(2) gameData_def)
  have "map (dec_out packed) [0x14..<0x14 + min 14 (length v)] = take 14 v" if "wc_ServerName cfg = Some v" for v
    by (rule nth_equalityI) (use that in \<open>auto simp: p(4) nth_description\<close>)
  moreover have "map (dec_out packed) [0xB..<0xB + min 8 (length v)] = take 8 v" if "wc_MapName cfg = Some v" for v
    by (rule nth_equalityI) (use that in \<open>auto simp: p(4) nth_description\<close>)
  moreover have "dec_out packed 4 = of_int n" if "wc_NumPlayers cfg = Some n" for n
    using p(4) [of 4] nth_description(3) [OF that] by simp
  ultimately show ?thesis using p(1-3) assms data
    by (auto simp: Wol_OnConnect_def field_str_def Let_def butlast_conv_take [symmetric] intro!: exI [of _ packed])
qed

lemma lobby_announcement_witness:
  "\<exists>w' packed. Wol_OnConnect \<lparr>wc_ServerName = Some [0x4E, 0x6F, 0x78], wc_MapName = None, wc_NumPlayers = Some 8\<rparr> WolSocket = Inr w' \<and>
    map (dec_out packed) [20..<23] = [0x4E, 0x6F, 0x78] \<and> dec_out packed 4 = 8"
proof -
  have "0 \<in> set (wl_username WolSocket)" "0 \<in> set (wl_password WolSocket)"
    by (simp_all add: WolSocket_def strncpy10_def string_bytes_def c_str_def Let_def)
  from lobby_announcement [OF this, of "\<lparr>wc_ServerName = Some [0x4E, 0x6F, 0x78], wc_MapName = None, wc_NumPlayers = Some 8\<rparr>"]
  show ?thesis by auto
qed

section \<open>Names and passwords\<close>

text \<open>A name of ten characters or more has no end in its array, and logging in reads on behind it.\<close>

lemma long_username:
  assumes "10 \<le> length (c_str name)"
  shows "Wol_OnConnect cfg (SetUsername name w) = Inl OutOfBounds"
proof -
  obtain packed where "EncryptBitwise (game_description cfg) = Inr packed" using packed_description by blast
  moreover have "0 \<notin> set (strncpy10 name)"
    using assms set_takeWhileD [of 0 "\<lambda>c. c \<noteq> 0" name] by (auto simp: strncpy10_def c_str_def Let_def dest: in_set_takeD)
  ultimately show ?thesis by (simp add: Wol_OnConnect_def SetUsername_def field_str_def Let_def)
qed

lemma set_HASH: "i < 64 \<Longrightarrow> HASH ! i \<in> set HASH"
  by (rule nth_mem) (simp add: HASH_def)

lemma encode_bytes:
  assumes "length pwd1 = 9" "n \<le> len" "len \<le> 8"
  shows "\<exists>pwd2. res_fold (\<lambda>i pwd2. rmap (\<lambda>b. pwd2[i := b]) (encode_byte pwd1 len i)) [0..<n] (replicate 9 0) = Inr pwd2 \<and> length pwd2 = 9"
  using assms(2)
proof (induction n)
  case (Suc n)
  then obtain pwd2 where "res_fold (\<lambda>i pwd2. rmap (\<lambda>b. pwd2[i := b]) (encode_byte pwd1 len i)) [0..<n] (replicate 9 0) = Inr pwd2" "length pwd2 = 9"
    by auto
  moreover have "\<exists>b. encode_byte pwd1 len n = Inr b" using Suc.prems assms(3) by (simp add: encode_byte_def)
  ultimately show ?case by (auto simp: res_fold_snoc)
qed simp

text \<open>A password of up to eight bytes is encoded to as many characters of the alphabet, so that it stays one word of the line it is sent in;
  one of nine bytes is read beyond its copy.\<close>

theorem encode_password:
  "(length p \<le> 8 \<longrightarrow> (\<exists>e. encode p = Inr e \<and> length e = length p \<and> (\<forall>b \<in> set e. b \<in> set (string_bytes HASH)))) \<and>
   (9 \<le> length p \<longrightarrow> encode p = Inl OutOfBounds)"
proof (intro conjI impI)
  assume len: "length p \<le> 8"
  let ?pwd1 = "p @ replicate (9 - length p) 0"
  obtain pwd2 where pwd2: "res_fold (\<lambda>i pwd2. rmap (\<lambda>b. pwd2[i := b]) (encode_byte ?pwd1 (length p) i)) [0..<length p] (replicate 9 0) =
      Inr (pwd2 :: bytes)"
    using encode_bytes [of ?pwd1 "length p" "length p"] len by auto
  let ?h = "\<lambda>i. of_nat (of_char (HASH ! unat (pwd2 ! i AND 0x3f))) :: u8"
  have "?h i \<in> set (string_bytes HASH)" for i
  proof -
    have "pwd2 ! i AND 0x3f < 0x40" using and_mask_less' [of 6 "pwd2 ! i"] by (simp add: mask_eq_decr_exp)
    then have "unat (pwd2 ! i AND 0x3f) < 64" by (simp add: word_less_nat_alt)
    from set_HASH [OF this] show ?thesis by (auto simp: string_bytes_def)
  qed
  then have "\<forall>b \<in> set (take (length p) (map ?h [0..<8] @ drop 8 ?pwd1)). b \<in> set (string_bytes HASH)"
    using len by (auto simp: take_map)
  moreover have "encode p = Inr (take (length p) (map ?h [0..<8] @ drop 8 ?pwd1))"
    using pwd2 len by (simp add: encode_def Let_def)
  ultimately show "\<exists>e. encode p = Inr e \<and> length e = length p \<and> (\<forall>b \<in> set e. b \<in> set (string_bytes HASH))"
    using len by (intro exI conjI) (assumption, simp_all)
next
  assume len: "9 \<le> length p"
  show "encode p = Inl OutOfBounds"
  proof (cases "length p = 9")
    case True
    then have "[0..<length p] = 0 # [1..<length p]" by (simp add: upt_rec)
    then show ?thesis using True by (simp add: encode_def encode_byte_def Let_def)
  qed (use len in \<open>simp add: encode_def\<close>)
qed

lemma encode_password_witness: "\<exists>e. encode [0x61, 0x62, 0x63] = Inr e \<and> length e = 3"
  using encode_password [of "[0x61, 0x62, 0x63]"] by auto

end
