(* ===== verification/Start_Up.thy ===== *)
theory Start_Up
  imports Server_Reach Thing_Loading Modifier_Text
begin

text \<open>
  The start of the server, \<open>World::SetInitialWorldSettings\<close> (\<open>game/World.cpp\<close>; most of it is a comment): where the files are, decrypting
  \<open>gamedata.bin\<close>, and loading the four files of the game one after another into the state the server begins with.

  The configuration and the reader of the game data, a library that parses files of settings, are arguments; so are the files, a map from names to
  contents, which writing the decrypted game data changes. Log messages are left out.
\<close>

section \<open>Settings\<close>

record nx_config =
  nx_GetString :: "string \<Rightarrow> string option"
  nx_GetBool :: "string \<Rightarrow> bool option"

type_synonym file_system = "string \<Rightarrow> bytes option"

record start_state =
  st_world :: world
  st_map :: nox_map
  st_things :: "thing_db option"
  st_ModifierList :: "MOD_LIST list"
  st_MonsterList :: "MOD_OBJ list"
  st_gameConfig :: "string \<Rightarrow> rat option"
  st_files :: file_system
  st_quit :: bool

definition before_start :: "int \<Rightarrow> file_system \<Rightarrow> start_state" where
  "before_start now files =
     \<lparr>st_world = new_world now, st_map = new_map, st_things = None, st_ModifierList = [], st_MonsterList = [], st_gameConfig = (\<lambda>_. None),
      st_files = files, st_quit = False\<rparr>"

definition default_map :: string where
  "default_map = ''maps'' @ CHR 0x5C # ''manamine'' @ CHR 0x5C # ''manamine.map''"

text \<open>The decrypted game data are written to the directory of the data, and read from where the server runs.\<close>

definition decode_gamedata :: "string \<Rightarrow> bytes \<Rightarrow> file_system \<Rightarrow> (string \<times> file_system) res" where
  "decode_gamedata DataPath buff files =
     rmap (\<lambda>(ret, buff). (''Gamedata.txt'', files(DataPath @ ''Gamedata.txt'' \<mapsto> buff))) (nox_decrypt buff NC_GAMEDATA_BIN)"

section \<open>Loading\<close>

text \<open>A \<open>thing.bin\<close> that cannot be opened has length -1, and decrypting as many bytes leaves the buffer.\<close>

definition load_things :: "bytes option \<Rightarrow> thing_db res option" where
  "load_things f = (case f of None \<Rightarrow> Some (Inl OutOfBounds) | Some f \<Rightarrow> Load_Thingdb f)"

definition object_types :: "thing_db \<Rightarrow> thing_info list" where
  "object_types db = map (\<lambda>(ob, _). thing_info_of ob) (td_objects db)"

definition load_files :: "env \<Rightarrow> string \<Rightarrow> string \<Rightarrow> int \<Rightarrow> start_state \<Rightarrow> start_state res option" where
  "load_files E DataPath MapLoc now st =
     (let files = st_files st
      in obind (load_things (files (DataPath @ ''thing.bin''))) (\<lambda>db.
         obind (Some (ModifierBin_LoadBin (files (DataPath @ ''modifier.bin'')) (st_ModifierList st))) (\<lambda>(_, mods).
         obind (Some (MonsterBin_LoadBin (files (DataPath @ ''monster.bin'')) (st_MonsterList st))) (\<lambda>(_, mons).
         obind (NoxMap_open (E\<lparr>e_things := object_types db, e_config := st_gameConfig st\<rparr>) files (DataPath @ MapLoc) (st_map st)
           (wo_server (st_world st))) (\<lambda>((_, m), s).
         Some (Inr (st\<lparr>st_things := Some db, st_ModifierList := mods, st_MonsterList := mons, st_map := m,
           st_world := (st_world st)\<lparr>wo_server := s, wo_gameTime := now, wo_timers := initial_timers\<rparr>\<rparr>)))))))"

definition SetInitialWorldSettings ::
    "(bytes option \<Rightarrow> (string \<Rightarrow> rat option) option) \<Rightarrow> nx_config \<Rightarrow> env \<Rightarrow> int \<Rightarrow> start_state \<Rightarrow> start_state res option" where
  "SetInitialWorldSettings SetSource cfg E now st =
     (let st = (if nx_GetString cfg ''DataPath'' = None then st\<lparr>st_quit := True\<rparr> else st);
          DataPath = (case nx_GetString cfg ''DataPath'' of None \<Rightarrow> '''' | Some p \<Rightarrow> p);
          MapLoc = (case nx_GetString cfg ''DefaultMap'' of None \<Rightarrow> default_map | Some p \<Rightarrow> p);
          GameDataName = (case nx_GetString cfg ''GamedataName'' of None \<Rightarrow> ''Gamedata.bin'' | Some p \<Rightarrow> p);
          GameDataEncoded = (case nx_GetBool cfg ''EncodedGamedata'' of None \<Rightarrow> False | Some b \<Rightarrow> b)
      in if GameDataEncoded \<and> st_files st GameDataName = None then Some (Inr st)
         else obind (Some (if GameDataEncoded then decode_gamedata DataPath (the (st_files st GameDataName)) (st_files st)
                           else Inr (GameDataName, st_files st))) (\<lambda>(GameDataName, files).
           case SetSource (files GameDataName) of
             None \<Rightarrow> Some (Inr (st\<lparr>st_files := files\<rparr>))
           | Some config \<Rightarrow> load_files E DataPath MapLoc now (st\<lparr>st_files := files, st_gameConfig := config\<rparr>)))"

text \<open>What the server goes on with.\<close>

definition env_of :: "env \<Rightarrow> start_state \<Rightarrow> env" where
  "env_of E st = E\<lparr>e_things := (case st_things st of None \<Rightarrow> [] | Some db \<Rightarrow> object_types db), e_config := st_gameConfig st,
     e_map := map_file_of (st_map st)\<rparr>"

text \<open>The numbers of the configuration; an index beyond them is ignored, and read as 0. Nothing in the server sets one.\<close>

definition setConfig :: "u32 \<Rightarrow> u32 \<Rightarrow> u32 list \<Rightarrow> u32 list" where
  "setConfig index val configs = (if unat index < length configs then configs[unat index := val] else configs)"

definition getConfig :: "u32 \<Rightarrow> u32 list \<Rightarrow> u32" where
  "getConfig index configs = (if unat index < length configs then configs ! unat index else 0)"

lemma getConfig_set: "getConfig i (setConfig j v c) = (if i = j \<and> unat i < length c then v else getConfig i c)"
  by (cases "i = j") (auto simp: getConfig_def setConfig_def nth_list_update dest: word_unat_eq_iff [THEN iffD2])

section \<open>Starting\<close>

text \<open>What the start goes by: the files once decrypted game data are written, and the settings, where there are any.\<close>

definition game_encoded :: "nx_config \<Rightarrow> bool" where
  "game_encoded cfg \<longleftrightarrow> nx_GetBool cfg ''EncodedGamedata'' = Some True"

definition game_path :: "nx_config \<Rightarrow> string" where
  "game_path cfg = (case nx_GetString cfg ''DataPath'' of None \<Rightarrow> [] | Some p \<Rightarrow> p)"

definition game_name :: "nx_config \<Rightarrow> string" where
  "game_name cfg = (case nx_GetString cfg ''GamedataName'' of None \<Rightarrow> ''Gamedata.bin'' | Some p \<Rightarrow> p)"

definition game_map :: "nx_config \<Rightarrow> string" where
  "game_map cfg = game_path cfg @ (case nx_GetString cfg ''DefaultMap'' of None \<Rightarrow> default_map | Some p \<Rightarrow> p)"

definition written_files :: "nx_config \<Rightarrow> file_system \<Rightarrow> file_system" where
  "written_files cfg files =
     (if game_encoded cfg then case files (game_name cfg) of
        None \<Rightarrow> files
      | Some f \<Rightarrow> (case nox_decrypt f NC_GAMEDATA_BIN of
          Inl _ \<Rightarrow> files
        | Inr (_, text) \<Rightarrow> files(game_path cfg @ ''Gamedata.txt'' \<mapsto> text))
      else files)"

definition game_settings ::
    "(bytes option \<Rightarrow> (string \<Rightarrow> rat option) option) \<Rightarrow> nx_config \<Rightarrow> file_system \<Rightarrow> (string \<Rightarrow> rat option) option" where
  "game_settings SetSource cfg files =
     (if \<not> game_encoded cfg then SetSource (files (game_name cfg))
      else if files (game_name cfg) = None then None
      else SetSource (written_files cfg files ''Gamedata.txt''))"

lemma start_up_cases:
  assumes "SetInitialWorldSettings SetSource cfg E now st = Some (Inr st')"
  shows "case game_settings SetSource cfg (st_files st) of
      None \<Rightarrow> st' = st\<lparr>st_quit := st_quit st \<or> nx_GetString cfg ''DataPath'' = None, st_files := written_files cfg (st_files st)\<rparr>
    | Some config \<Rightarrow> \<exists>p q. p @ q = game_map cfg \<and> p = game_path cfg \<and> load_files E p q now
        (st\<lparr>st_quit := st_quit st \<or> nx_GetString cfg ''DataPath'' = None, st_files := written_files cfg (st_files st), st_gameConfig := config\<rparr>) =
        Some (Inr st')"
proof (cases "game_encoded cfg")
  case False
  then have "\<not> (case nx_GetBool cfg ''EncodedGamedata'' of None \<Rightarrow> False | Some b \<Rightarrow> b)" by (auto simp: game_encoded_def split: option.splits)
  with False assms show ?thesis
    by (cases "nx_GetString cfg ''DataPath''")
      (auto simp: SetInitialWorldSettings_def Let_def obind_def game_settings_def written_files_def game_name_def game_path_def game_map_def
        split: option.splits)
next
  case True
  then have enc: "nx_GetBool cfg ''EncodedGamedata'' = Some True" by (simp add: game_encoded_def)
  note def = assms [unfolded SetInitialWorldSettings_def Let_def enc option.case simp_thms if_True, folded game_path_def game_name_def]
  show ?thesis
  proof (cases "st_files st (game_name cfg)")
    case None
    with True def show ?thesis
      by (cases "nx_GetString cfg ''DataPath''") (auto simp: game_settings_def written_files_def)
  next
    case (Some f)
    with True def show ?thesis
      by (cases "nx_GetString cfg ''DataPath''"; cases "nox_decrypt f NC_GAMEDATA_BIN")
        (auto simp: game_settings_def written_files_def decode_gamedata_def obind_def game_map_def split: option.splits)
  qed
qed

lemma load_files_cases:
  assumes "load_files E p q now st = Some (Inr st')"
  obtains db mods mons b1 b2 ok m s where
    "load_things (st_files st (p @ ''thing.bin'')) = Some (Inr db)"
    "ModifierBin_LoadBin (st_files st (p @ ''modifier.bin'')) (st_ModifierList st) = Inr (b1, mods)"
    "MonsterBin_LoadBin (st_files st (p @ ''monster.bin'')) (st_MonsterList st) = Inr (b2, mons)"
    "NoxMap_open (E\<lparr>e_things := object_types db, e_config := st_gameConfig st\<rparr>) (st_files st) (p @ q) (st_map st) (wo_server (st_world st)) =
      Some (Inr ((ok, m), s))"
    "st' = st\<lparr>st_things := Some db, st_ModifierList := mods, st_MonsterList := mons, st_map := m,
      st_world := (st_world st)\<lparr>wo_server := s, wo_gameTime := now, wo_timers := initial_timers\<rparr>\<rparr>"
  using assms by (auto simp: load_files_def Let_def obind_def split: option.splits sum.splits prod.splits)

text \<open>From a world with the invariant, every later tick returns, and the invariant stays.\<close>

lemma world_step_inv: "world_step w w' \<Longrightarrow> server_inv (wo_server w) \<Longrightarrow> server_inv (wo_server w')"
proof (erule world_stepE)
  fix E evs diff
  assume "World_Update (physics_run E evs) E diff w = Some (Inr w')" "server_inv (wo_server w)"
  then show ?thesis using World_Update_runs [of w E evs diff] by auto
qed (use net_step_inv in auto)

lemma runs_on: "world_step\<^sup>*\<^sup>* w w' \<Longrightarrow> server_inv (wo_server w) \<Longrightarrow>
    server_inv (wo_server w') \<and> (\<forall>E evs diff. \<exists>r. World_Update (physics_run E evs) E diff w' = Some r)"
proof (induction rule: rtranclp_induct)
  case base
  then show ?case using World_Update_runs by blast
next
  case (step w1 w2)
  then have "server_inv (wo_server w2)" using world_step_inv by blast
  then show ?case using World_Update_runs by blast
qed

text \<open>C16: what the start of the server leaves when it returns, whatever the configuration and the files are. Without settings, be it that the file
  of encoded game data is missing or that there is none to read them from, nothing is loaded, and the server is a new one. With them, the object types are
  those of \<open>thing.bin\<close>, the modifiers and monsters are those of their files, the map was loaded into a new server with these object types and these settings, and the timers begin now. The server is told to
  quit just when there is no path of the data. Either way, the invariant of the server holds in every world that ticks, datagrams
  and commands lead to from there, and the tick after it returns.\<close>

theorem start_up_reachable:
  assumes "SetInitialWorldSettings SetSource cfg E now (before_start t files) = Some (Inr st)"
  shows "(case game_settings SetSource cfg files of
        None \<Rightarrow> st_things st = None \<and> st_ModifierList st = [] \<and> st_MonsterList st = [] \<and> st_map st = new_map \<and> st_world st = new_world t
      | Some config \<Rightarrow> st_gameConfig st = config \<and> (\<exists>db b1 b2 ok s.
          load_things (written_files cfg files (game_path cfg @ ''thing.bin'')) = Some (Inr db) \<and> st_things st = Some db \<and>
          ModifierBin_LoadBin (written_files cfg files (game_path cfg @ ''modifier.bin'')) [] = Inr (b1, st_ModifierList st) \<and>
          MonsterBin_LoadBin (written_files cfg files (game_path cfg @ ''monster.bin'')) [] = Inr (b2, st_MonsterList st) \<and>
          NoxMap_open (E\<lparr>e_things := object_types db, e_config := config\<rparr>) (written_files cfg files) (game_map cfg) new_map new_server =
            Some (Inr ((ok, st_map st), s)) \<and>
          st_world st = (new_world now)\<lparr>wo_server := s\<rparr>)) \<and>
    st_files st = written_files cfg files \<and> (st_quit st \<longleftrightarrow> nx_GetString cfg ''DataPath'' = None) \<and>
    (\<forall>w. world_step\<^sup>*\<^sup>* (st_world st) w \<longrightarrow>
       server_inv (wo_server w) \<and> (\<forall>E' evs diff. \<exists>r. World_Update (physics_run E' evs) E' diff w = Some r))"
proof -
  note before = before_start_def new_world_def
  show ?thesis
  proof (cases "game_settings SetSource cfg files")
    case None
    then have st: "st = (before_start t files)\<lparr>st_quit := nx_GetString cfg ''DataPath'' = None, st_files := written_files cfg files\<rparr>"
      using start_up_cases [OF assms] by (simp add: before_start_def)
    then have "server_inv (wo_server (st_world st))" using server_inv_new by (simp add: before)
    from runs_on [OF _ this] show ?thesis using None st by (simp add: before_start_def)
  next
    case (Some config)
    let ?st = "(before_start t files)\<lparr>st_quit := nx_GetString cfg ''DataPath'' = None, st_files := written_files cfg files, st_gameConfig := config\<rparr>"
    obtain p q where path: "p @ q = game_map cfg" "p = game_path cfg" and load: "load_files E p q now ?st = Some (Inr st)"
      using start_up_cases [OF assms] Some by (auto simp: before_start_def)
    obtain db mods mons b1 b2 ok m s where
      raw: "load_things (st_files ?st (p @ ''thing.bin'')) = Some (Inr db)"
        "ModifierBin_LoadBin (st_files ?st (p @ ''modifier.bin'')) (st_ModifierList ?st) = Inr (b1, mods)"
        "MonsterBin_LoadBin (st_files ?st (p @ ''monster.bin'')) (st_MonsterList ?st) = Inr (b2, mons)"
        "NoxMap_open (E\<lparr>e_things := object_types db, e_config := st_gameConfig ?st\<rparr>) (st_files ?st) (p @ q) (st_map ?st) (wo_server (st_world ?st)) =
          Some (Inr ((ok, m), s))" and
      st: "st = ?st\<lparr>st_things := Some db, st_ModifierList := mods, st_MonsterList := mons, st_map := m,
        st_world := (st_world ?st)\<lparr>wo_server := s, wo_gameTime := now, wo_timers := initial_timers\<rparr>\<rparr>"
      by (rule load_files_cases [OF load])
    have db: "load_things (written_files cfg files (p @ ''thing.bin'')) = Some (Inr db)"
        "ModifierBin_LoadBin (written_files cfg files (p @ ''modifier.bin'')) [] = Inr (b1, mods)"
        "MonsterBin_LoadBin (written_files cfg files (p @ ''monster.bin'')) [] = Inr (b2, mons)" and
      map: "NoxMap_open (E\<lparr>e_things := object_types db, e_config := config\<rparr>) (written_files cfg files) (p @ q) new_map new_server =
        Some (Inr ((ok, m), s))"
      using raw by (simp_all add: before)
    have "server_inv s" using server_inv_loaded [OF map server_inv_new] .
    then have "server_inv (wo_server (st_world st))" by (simp add: st)
    from runs_on [OF _ this] show ?thesis using Some st db map path by (auto simp: before)
  qed
qed

text \<open>No path of the data, and encoded game data that are not there.\<close>

lemma start_up_reachable_witness:
  "\<exists>st. SetInitialWorldSettings (\<lambda>_. Some (\<lambda>_. None)) \<lparr>nx_GetString = \<lambda>_. None, nx_GetBool = \<lambda>_. Some True\<rparr> sample_env 100
      (before_start 0 (\<lambda>_. None)) = Some (Inr st) \<and>
    st_things st = None \<and> st_quit st \<and> (\<exists>r. World_Update (physics_run sample_env []) sample_env 50 (st_world st) = Some r)"
proof -
  let ?cfg = "\<lparr>nx_GetString = \<lambda>_. None, nx_GetBool = \<lambda>_. Some True\<rparr>"
  have run: "SetInitialWorldSettings (\<lambda>_. Some (\<lambda>_. None)) ?cfg sample_env 100 (before_start 0 (\<lambda>_. None)) =
      Some (Inr ((before_start 0 (\<lambda>_. None))\<lparr>st_quit := True\<rparr>))"
    by (simp add: SetInitialWorldSettings_def before_start_def Let_def)
  have "game_settings (\<lambda>_. Some (\<lambda>_. None)) ?cfg (\<lambda>_. None) = None" by (simp add: game_settings_def game_encoded_def)
  then show ?thesis using start_up_reachable [OF run] run by simp
qed

text \<open>A directory with the files of a game.\<close>

definition game_files ::
    "file_system \<Rightarrow> string \<Rightarrow> string \<Rightarrow> thing_source \<Rightarrow> MOD_LIST list \<Rightarrow> MOD_OBJ list \<Rightarrow> map_header \<Rightarrow> map_section list \<Rightarrow> bool" where
  "game_files files dir mapname things mods mons h secs \<longleftrightarrow>
     (\<exists>r f. files (dir @ ''thing.bin'') = Some f \<and> nox_encrypt (thing_bytes things) NC_THING_BIN = Inr (r, f)) \<and>
     (\<exists>r f. files (dir @ ''modifier.bin'') = Some f \<and> nox_encrypt (padded (modifier_text mods)) NC_MODIFIER_BIN = Inr (r, f)) \<and>
     (\<exists>r f. files (dir @ ''monster.bin'') = Some f \<and> nox_encrypt (padded (monster_text mons)) NC_MONSTER_BIN = Inr (r, f)) \<and>
     files (dir @ mapname) = Some (map_bytes h secs)"

definition game_ok :: "thing_source \<Rightarrow> MOD_LIST list \<Rightarrow> MOD_OBJ list \<Rightarrow> map_header \<Rightarrow> map_section list \<Rightarrow> bool" where
  "game_ok things mods mons h secs \<longleftrightarrow>
     8 dvd length (thing_bytes things) \<and> thing_source_ok things \<and> (\<forall>l \<in> set mods. list_ok l) \<and> (\<forall>ob \<in> set mons. object_ok ob) \<and>
     length (map_bytes h secs) < size_limit \<and> mh_fileid h = 0xFADEFACE \<and> sections_ok [] secs"

text \<open>C15: in a directory with the files of a game, written from descriptions of its object types, modifiers, monsters and map, the start of the server
  loads all of them: the object types of \<open>thing.bin\<close> are those the map's objects are made of, and the server begins with the walls and objects of
  the map, unless one of them cannot be made.\<close>

theorem start_up_loads:
  assumes "nx_GetString cfg ''DataPath'' = Some dir" "nx_GetString cfg ''DefaultMap'' = Some mapname"
    and "nx_GetBool cfg ''EncodedGamedata'' \<noteq> Some True" "nx_GetString cfg ''GamedataName'' = Some gd" "SetSource (files gd) = Some config"
    and "game_files files dir mapname things mods mons h secs" "game_ok things mods mons h secs"
    and "getNxz files (dir @ mapname) new_map = Inr m" "read_sources (ts_objects things) = Inr obs"
    and "apply_sections (E\<lparr>e_things := object_types (read_thing_source things obs), e_config := config\<rparr>) secs (m\<lparr>nm_header := h\<rparr>) new_server = Inr (m', s)"
  shows "\<exists>st. SetInitialWorldSettings SetSource cfg E now (before_start t files) = Some (Inr st) \<and>
    st_things st = Some (read_thing_source things obs) \<and> st_ModifierList st = mods \<and> st_MonsterList st = mons \<and> st_gameConfig st = config \<and>
    wo_server (st_world st) = s \<and> wo_gameTime (st_world st) = now \<and> nm_header (st_map st) = nm_header m' \<and> nm_walls (st_map st) = nm_walls m'"
proof -
  obtain r1 f1 r2 f2 r3 f3 where
    things: "files (dir @ ''thing.bin'') = Some f1" "nox_encrypt (thing_bytes things) NC_THING_BIN = Inr (r1, f1)" and
    mods: "files (dir @ ''modifier.bin'') = Some f2" "nox_encrypt (padded (modifier_text mods)) NC_MODIFIER_BIN = Inr (r2, f2)" and
    mons: "files (dir @ ''monster.bin'') = Some f3" "nox_encrypt (padded (monster_text mons)) NC_MONSTER_BIN = Inr (r3, f3)" and
    map: "files (dir @ mapname) = Some (map_bytes h secs)"
    using assms(6) unfolding game_files_def by blast
  have ok: "8 dvd length (thing_bytes things)" "thing_source_ok things" "\<forall>l \<in> set mods. list_ok l" "\<forall>ob \<in> set mons. object_ok ob"
    "length (map_bytes h secs) < size_limit" "mh_fileid h = 0xFADEFACE" "sections_ok [] secs"
    using assms(7) unfolding game_ok_def by blast+
  let ?E = "E\<lparr>e_things := object_types (read_thing_source things obs), e_config := config\<rparr>"
  have load: "load_things (Some f1) = Some (Inr (read_thing_source things obs))"
    using load_thing_source [OF things(2) ok(1,2)] assms(9) by (simp add: load_things_def)
  have "NoxMap_open ?E files (dir @ mapname) new_map new_server = Some (Inr ((True, read_up (map_bytes h secs) 0 m'), s))"
    using open_sections [of files "dir @ mapname" h secs m ?E new_server, OF map ok(5-7) assms(8)] assms(10) by simp
  then have "load_files E dir mapname now ((before_start t files)\<lparr>st_files := files, st_gameConfig := config\<rparr>) =
      Some (Inr ((before_start t files)\<lparr>st_files := files, st_gameConfig := config, st_things := Some (read_thing_source things obs),
        st_ModifierList := mods, st_MonsterList := mons, st_map := read_up (map_bytes h secs) 0 m',
        st_world := (new_world t)\<lparr>wo_server := s, wo_gameTime := now, wo_timers := initial_timers\<rparr>\<rparr>))"
    using load modifier_loads [OF ok(3) mods(2), of "[]"] monster_loads [OF ok(4) mons(2), of "[]"]
    by (simp add: load_files_def before_start_def new_world_def things(1) mods(1) mons(1) Let_def)
  moreover have "SetInitialWorldSettings SetSource cfg E now (before_start t files) =
      load_files E dir mapname now ((before_start t files)\<lparr>st_files := files, st_gameConfig := config\<rparr>)"
    using assms(1-5) by (auto simp: SetInitialWorldSettings_def before_start_def Let_def split: option.splits)
  ultimately show ?thesis by (simp add: read_up_def)
qed

lemma sample_sections_load:
  "\<exists>m s. apply_sections E sample_sections (new_map\<lparr>nm_header := sample_header\<rparr>) new_server = Inr (m, s) \<and> GetWall 0x403 m = Some sample_wall"
  by (simp add: sample_sections_def AddCollisionWalls_def new_address_def step_simps add_walls_def NoxWallMap_AddWall_def
      new_map_def new_server_def Let_def GetWall_def GetPositionKey_def sample_wall_def sample_header_def)

lemma start_up_loads_witness:
  "\<exists>SetSource cfg files st. SetInitialWorldSettings SetSource cfg sample_env 100 (before_start 0 files) = Some (Inr st) \<and>
    st_ModifierList st = [\<lparr>SectionTitle = ''WEAPON'', ElementList = []\<rparr>] \<and> GetWall 0x403 (st_map st) = Some sample_wall"
proof -
  let ?mods = "[\<lparr>SectionTitle = ''WEAPON'', ElementList = []\<rparr>]"
  obtain db where db: "read_sources (ts_objects sample_source) = Inr db" using sample_source_loads by blast
  obtain f1 where thing: "nox_encrypt (thing_bytes sample_source) NC_THING_BIN = Inr (0, f1)" "8 dvd length (thing_bytes sample_source)"
    "thing_source_ok sample_source"
    using sample_thing_file by blast
  obtain f2 f3 where mods: "nox_encrypt (padded (modifier_text ?mods)) NC_MODIFIER_BIN = Inr (0, f2)"
    and mons: "nox_encrypt (padded (monster_text [])) NC_MONSTER_BIN = Inr (0, f3)"
    using encrypted_file by blast
  have list: "\<forall>l \<in> set ?mods. list_ok l"
    by (simp add: list_ok_def name_ok_def TestEnd_def isChar_def isCharw_def MIN_CHAR_def MAX_CHAR_def)
  define files where "files = [''thing.bin'' \<mapsto> f1, ''modifier.bin'' \<mapsto> f2, ''monster.bin'' \<mapsto> f3, ''m'' \<mapsto> map_bytes sample_header sample_sections]"
  let ?cfg = "\<lparr>nx_GetString = [''DataPath'' \<mapsto> '''', ''DefaultMap'' \<mapsto> ''m'', ''GamedataName'' \<mapsto> ''g''], nx_GetBool = \<lambda>_. None\<rparr>"
  let ?E = "sample_env\<lparr>e_things := object_types (read_thing_source sample_source db), e_config := \<lambda>_. None\<rparr>"
  obtain m s where sections: "apply_sections ?E sample_sections (new_map\<lparr>nm_header := sample_header\<rparr>) new_server = Inr (m, s)"
    "GetWall 0x403 m = Some sample_wall"
    using sample_sections_load by blast
  have "game_files files '''' ''m'' sample_source ?mods [] sample_header sample_sections"
    using thing(1) mods mons by (simp add: game_files_def files_def)
  moreover have "game_ok sample_source ?mods [] sample_header sample_sections"
    unfolding game_ok_def using thing(2,3) list sample_fits by simp
  moreover have "getNxz files ('''' @ ''m'') new_map = Inr new_map" by (simp add: getNxz_def strrchr_def)
  ultimately obtain st where "SetInitialWorldSettings (\<lambda>_. Some (\<lambda>_. None)) ?cfg sample_env 100 (before_start 0 files) = Some (Inr st)"
    "st_ModifierList st = ?mods" "nm_walls (st_map st) = nm_walls m"
    using start_up_loads [of ?cfg "''''" "''m''" "''g''" "\<lambda>_. Some (\<lambda>_. None)" files "\<lambda>_. None" sample_source ?mods "[]" sample_header
        sample_sections new_map db sample_env m s 100 0] db sections(1)
    by auto
  moreover have "GetWall 0x403 (st_map st) = Some sample_wall" using calculation(3) sections(2) by (simp add: GetWall_def)
  ultimately show ?thesis by blast
qed

section \<open>Encoded game data\<close>

text \<open>The decrypted game data are written to one place and read from another: unless the directory of the data has an empty name, the settings are those
  of whatever file of this name was there before.\<close>

lemma encoded_gamedata_not_used:
  assumes "decode_gamedata dir buff files = Inr (name, files')" "dir \<noteq> []"
  shows "files' name = files ''Gamedata.txt''"
proof -
  have "name = ''Gamedata.txt''" "\<exists>b. files' = files(dir @ ''Gamedata.txt'' \<mapsto> b)"
    using assms(1) by (auto simp: decode_gamedata_def rmap_Inr_iff)
  then show ?thesis using assms(2) by auto
qed

end
