(* ===== verification/Circular_Buffer.thy ===== *)
theory Circular_Buffer
  imports Byte_Buffer Nox_Buffer
begin

text \<open>
  \<open>CircularBuffer\<close> of \<open>shared/Network/CircularBuffer.cpp\<close>, in which a TCP connection keeps what it has read. The memory has twice the size of
  the buffer, so that what is in it can also be looked at without a break. It refines a list of bytes of bounded length.

  What a write copies is in memory as the buffer is, so sums of \<open>size_t\<close> are those of numbers; the differences are never negative. An access
  outside of the memory is the fault \<open>OutOfBounds\<close>. The owner, which only logs, is left out.
\<close>

section \<open>The buffer\<close>

record circ =
  cb_buf :: bytes
  cb_max :: nat
  cb_q :: nat
  cb_b :: nat
  cb_t :: nat
  cb_count :: u32

text \<open>\<open>g\<close> is what the memory holds before anything is written.\<close>

definition CircularBuffer :: "(nat \<Rightarrow> u8) \<Rightarrow> nat \<Rightarrow> circ" where
  "CircularBuffer g n = \<lparr>cb_buf = map g [0..<2 * n], cb_max = n, cb_q = 0, cb_b = 0, cb_t = 0, cb_count = 0\<rparr>"

definition to_buf :: "nat \<Rightarrow> bytes \<Rightarrow> bytes \<Rightarrow> bytes res" where
  "to_buf p s buf = (if p + length s \<le> length buf then Inr (overwrite p s buf) else Inl OutOfBounds)"

definition from_buf :: "nat \<Rightarrow> nat \<Rightarrow> bytes \<Rightarrow> bytes res" where
  "from_buf p n buf = (if p + n \<le> length buf then Inr (take n (drop p buf)) else Inl OutOfBounds)"

definition CircularBuffer_Write :: "bytes \<Rightarrow> circ \<Rightarrow> (bool \<times> circ) res" where
  "CircularBuffer_Write s b =
     (let l = length s; t = cb_t b
      in if cb_q b + l > cb_max b then Inr (False, b)
         else
           let b = b\<lparr>cb_count := cb_count b + of_nat l\<rparr>
           in if t + l > cb_max b then
                let l1 = cb_max b - t
                in rbind (to_buf t s (cb_buf b)) (\<lambda>buf.
                   rbind (to_buf 0 (drop l1 s) buf) (\<lambda>buf.
                   Inr (True, b\<lparr>cb_buf := buf, cb_t := l - l1, cb_q := cb_q b + l\<rparr>)))
              else
                rbind (to_buf t s (cb_buf b)) (\<lambda>buf.
                rbind (to_buf (cb_max b + t) s buf) (\<lambda>buf.
                Inr (True, b\<lparr>cb_buf := buf, cb_t := (if t + l \<ge> cb_max b then t + l - cb_max b else t + l), cb_q := cb_q b + l\<rparr>))))"

text \<open>The copy of \<open>Read\<close> and \<open>SoftRead\<close>, when the destination \<open>s\<close> is not null.\<close>

definition copy_out :: "bool \<Rightarrow> nat \<Rightarrow> circ \<Rightarrow> bytes res" where
  "copy_out s l b =
     (if \<not> s then Inr []
      else if cb_b b + l > cb_max b then
        let l1 = cb_max b - cb_b b
        in rbind (from_buf (cb_b b) l1 (cb_buf b)) (\<lambda>x. rmap (\<lambda>y. x @ y) (from_buf 0 (l - l1) (cb_buf b)))
      else from_buf (cb_b b) l (cb_buf b))"

definition CircularBuffer_Read :: "bool \<Rightarrow> nat \<Rightarrow> circ \<Rightarrow> (bytes option \<times> circ) res" where
  "CircularBuffer_Read s l b =
     (if l > cb_q b then Inr (None, b)
      else
        rmap (\<lambda>out.
          let b = (if cb_b b + l > cb_max b then b\<lparr>cb_b := l - (cb_max b - cb_b b)\<rparr>
                   else b\<lparr>cb_b := (if cb_b b + l \<ge> cb_max b then cb_b b + l - cb_max b else cb_b b + l)\<rparr>);
              b = b\<lparr>cb_q := cb_q b - l\<rparr>
          in (Some out, if cb_q b = 0 then b\<lparr>cb_b := 0, cb_t := 0\<rparr> else b))
          (copy_out s l b))"

definition SoftRead :: "bool \<Rightarrow> nat \<Rightarrow> circ \<Rightarrow> bytes option res" where
  "SoftRead s l b = (if l > cb_q b then Inr None else rmap Some (copy_out s l b))"

definition CircularBuffer_Remove :: "nat \<Rightarrow> circ \<Rightarrow> (bool \<times> circ) res" where
  "CircularBuffer_Remove l b = rmap (\<lambda>(r, b). (r \<noteq> None, b)) (CircularBuffer_Read False l b)"

text \<open>What is seen from \<open>GetStart()\<close> on.\<close>

definition GetStart :: "circ \<Rightarrow> bytes" where
  "GetStart b = drop (cb_b b) (cb_buf b)"

definition GetL :: "circ \<Rightarrow> nat" where
  "GetL b = (if cb_b b + cb_q b > cb_max b then cb_max b - cb_b b else cb_q b)"

definition Space :: "circ \<Rightarrow> nat" where
  "Space b = cb_max b - cb_q b"

definition ByteCounter :: "bool \<Rightarrow> circ \<Rightarrow> u32 \<times> circ" where
  "ByteCounter clear b = (cb_count b, if clear then b\<lparr>cb_count := 0\<rparr> else b)"

text \<open>The characters read up to the first that is zero; none when there are not enough.\<close>

definition ReadString :: "nat \<Rightarrow> circ \<Rightarrow> (bytes \<times> circ) res" where
  "ReadString l b = rmap (\<lambda>(r, b). (case r of None \<Rightarrow> [] | Some sz \<Rightarrow> c_str (sz @ [0]), b)) (CircularBuffer_Read True l b)"

section \<open>What it holds\<close>

definition wrap :: "nat \<Rightarrow> nat \<Rightarrow> nat" where
  "wrap n i = (if i < n then i else i - n)"

text \<open>Every byte is where the reading position finds it, both with the break and without.\<close>

definition holds :: "nat \<Rightarrow> circ \<Rightarrow> bytes \<Rightarrow> bool" where
  "holds n b xs \<longleftrightarrow> cb_max b = n \<and> length (cb_buf b) = 2 * n \<and> cb_q b = length xs \<and> length xs \<le> n \<and>
     (cb_b b < n \<or> cb_b b = 0) \<and> cb_t b = wrap n (cb_b b + length xs) \<and>
     (\<forall>k < length xs. cb_buf b ! (cb_b b + k) = xs ! k \<and> cb_buf b ! wrap n (cb_b b + k) = xs ! k)"

lemma nth_overwrite:
  "p + length s \<le> length xs \<Longrightarrow> i < length xs \<Longrightarrow> overwrite p s xs ! i = (if p \<le> i \<and> i < p + length s then s ! (i - p) else xs ! i)"
  by (auto simp: overwrite_def nth_append min_def)

lemma length_overwrite: "p + length s \<le> length xs \<Longrightarrow> length (overwrite p s xs) = length xs"
  by (simp add: overwrite_def)

lemma holds_new: "holds n (CircularBuffer g n) []"
  by (simp add: holds_def CircularBuffer_def wrap_def)

lemma holds_full: "holds n b xs \<Longrightarrow> n < length xs + length s \<Longrightarrow> CircularBuffer_Write s b = Inr (False, b)"
  by (simp add: holds_def CircularBuffer_Write_def)

lemma holds_write:
  assumes "holds n b xs" "length xs + length s \<le> n"
  shows "\<exists>b'. CircularBuffer_Write s b = Inr (True, b') \<and> holds n b' (xs @ s) \<and> cb_count b' = cb_count b + of_nat (length s)"
proof (cases "cb_t b + length s > n")
  case True
  let ?l1 = "n - cb_t b"
  let ?buf = "overwrite 0 (drop ?l1 s) (overwrite (cb_t b) s (cb_buf b))"
  note h = assms(1) [unfolded holds_def] and len = length_overwrite nth_overwrite
  have t: "cb_b b + length xs < n" "cb_t b = cb_b b + length xs" using h assms(2) True by (auto simp: wrap_def split: if_splits)
  have "CircularBuffer_Write s b =
      Inr (True, b\<lparr>cb_count := cb_count b + of_nat (length s), cb_buf := ?buf, cb_t := length s - ?l1, cb_q := length (xs @ s)\<rparr>)"
    using h assms(2) True t by (simp add: CircularBuffer_Write_def Let_def to_buf_def len)
  moreover have "?buf ! i = (xs @ s) ! k" if "k < length (xs @ s)" "i = cb_b b + k \<or> i = wrap n (cb_b b + k)" for i k
    using h assms(2) True t that by (auto simp: len wrap_def nth_append)
  moreover have "length ?buf = 2 * n" "length (xs @ s) \<le> n" "length s - ?l1 = wrap n (cb_b b + length (xs @ s))"
    using h assms(2) True t by (auto simp: len wrap_def)
  ultimately show ?thesis using h assms(2) by (auto simp: holds_def simp del: length_append nth_append)
next
  case False
  let ?buf = "overwrite (n + cb_t b) s (overwrite (cb_t b) s (cb_buf b))"
  note h = assms(1) [unfolded holds_def] and len = length_overwrite nth_overwrite
  have "CircularBuffer_Write s b =
      Inr (True, b\<lparr>cb_count := cb_count b + of_nat (length s), cb_buf := ?buf,
        cb_t := (if cb_t b + length s \<ge> n then cb_t b + length s - n else cb_t b + length s), cb_q := length (xs @ s)\<rparr>)"
    using h assms(2) False by (simp add: CircularBuffer_Write_def Let_def to_buf_def len)
  moreover have "?buf ! i = (xs @ s) ! k" if "k < length (xs @ s)" "i = cb_b b + k \<or> i = wrap n (cb_b b + k)" for i k
    using h assms(2) False that by (auto simp: len wrap_def nth_append split: if_splits)
  moreover have "length ?buf = 2 * n" "length (xs @ s) \<le> n"
      "(if cb_t b + length s \<ge> n then cb_t b + length s - n else cb_t b + length s) = wrap n (cb_b b + length (xs @ s))"
    using h assms(2) False by (auto simp: len wrap_def split: if_splits)
  ultimately show ?thesis using h assms(2) by (auto simp: holds_def simp del: length_append nth_append)
qed

lemma view:
  assumes "holds n b xs"
  shows "take (cb_q b) (GetStart b) = xs" "take (GetL b) (GetStart b) = take (GetL b) xs" "GetL b \<le> length xs"
proof -
  show "take (cb_q b) (GetStart b) = xs" using assms by (auto simp: holds_def GetStart_def list_eq_iff_nth_eq)
  moreover have le: "GetL b \<le> cb_q b" by (auto simp: GetL_def)
  ultimately show "take (GetL b) (GetStart b) = take (GetL b) xs" by (metis min.absorb1 take_take)
  show "GetL b \<le> length xs" using le assms by (simp add: holds_def)
qed

lemma copy_out_holds:
  assumes "holds n b xs" "l \<le> length xs"
  shows "copy_out True l b = Inr (take l xs)"
proof -
  note h = assms(1) [unfolded holds_def]
  have at: "cb_buf b ! (cb_b b + k) = xs ! k" "cb_buf b ! wrap n (cb_b b + k) = xs ! k" if "k < l" for k
    using h assms(2) that by simp_all
  let ?l1 = "n - cb_b b"
  have "take ?l1 (drop (cb_b b) (cb_buf b)) @ take (l - ?l1) (cb_buf b) = take l xs" if "cb_b b + l > n"
  proof (rule nth_equalityI)
    show "length (take ?l1 (drop (cb_b b) (cb_buf b)) @ take (l - ?l1) (cb_buf b)) = length (take l xs)" using h assms(2) that by auto
    fix i assume "i < length (take ?l1 (drop (cb_b b) (cb_buf b)) @ take (l - ?l1) (cb_buf b))"
    then have i: "i < l" using h assms(2) that by auto
    show "(take ?l1 (drop (cb_b b) (cb_buf b)) @ take (l - ?l1) (cb_buf b)) ! i = take l xs ! i"
    proof (cases "i < ?l1")
      case True
      then show ?thesis using h i at(1) [OF i] by (simp add: nth_append)
    next
      case False
      then have "wrap n (cb_b b + i) = i - ?l1" using h that by (auto simp: wrap_def)
      then show ?thesis using False h i that assms(2) at(2) [OF i] by (auto simp: nth_append)
    qed
  qed
  moreover have "take l (drop (cb_b b) (cb_buf b)) = take l xs" if "cb_b b + l \<le> n"
    by (rule nth_equalityI) (use h assms(2) that at in auto)
  ultimately show ?thesis using h assms(2) by (auto simp: copy_out_def from_buf_def Let_def)
qed

lemma copy_out_null: "copy_out False l b = Inr []"
  by (simp add: copy_out_def)

lemma holds_read:
  assumes "holds n b xs" "l \<le> length xs"
  shows "\<exists>b'. CircularBuffer_Read s l b = Inr (Some (if s then take l xs else []), b') \<and> holds n b' (drop l xs) \<and> cb_count b' = cb_count b"
proof -
  note h = assms(1) [unfolded holds_def]
  define p where "p = (if l = length xs then 0 else wrap n (cb_b b + l))"
  define b' where "b' = b\<lparr>cb_b := p, cb_q := length xs - l, cb_t := if l = length xs then 0 else cb_t b\<rparr>"
  have "copy_out s l b = Inr (if s then take l xs else [])"
    by (cases s) (simp_all add: copy_out_holds [OF assms] copy_out_null)
  then have "CircularBuffer_Read s l b = Inr (Some (if s then take l xs else []), b')"
    using h assms(2) by (auto simp: CircularBuffer_Read_def Let_def b'_def p_def wrap_def)
  moreover have "holds n b' (drop l xs)"
  proof (cases "l = length xs")
    case True
    then show ?thesis using h by (simp add: holds_def b'_def p_def wrap_def)
  next
    case False
    have "cb_buf b ! i = xs ! (l + k)" if "k < length xs - l" "i = p + k \<or> i = wrap n (p + k)" for i k
    proof -
      have "l + k < length xs" using that(1) by simp
      then have "cb_buf b ! (cb_b b + (l + k)) = xs ! (l + k)" "cb_buf b ! wrap n (cb_b b + (l + k)) = xs ! (l + k)" using h by blast+
      moreover have "i = cb_b b + (l + k) \<or> i = wrap n (cb_b b + (l + k))"
        using that h False assms(2) by (auto simp: p_def wrap_def split: if_splits)
      ultimately show ?thesis by blast
    qed
    moreover have "p < n \<or> p = 0" "cb_t b = wrap n (p + (length xs - l))"
      using h False assms(2) by (auto simp: p_def wrap_def split: if_splits)
    ultimately show ?thesis using h False by (auto simp: holds_def b'_def)
  qed
  ultimately show ?thesis by (simp add: b'_def)
qed

lemma read_short: "holds n b xs \<Longrightarrow> length xs < l \<Longrightarrow> CircularBuffer_Read s l b = Inr (None, b)"
  by (simp add: holds_def CircularBuffer_Read_def)

section \<open>The interface of its clients\<close>

text \<open>
  What a client relies on: a buffer that holds \<open>xs\<close> takes more as long as there is room and gives back the first bytes of them.
\<close>

locale byte_queue =
  fixes put :: "bytes \<Rightarrow> 'q \<Rightarrow> (bool \<times> 'q) res"
    and get :: "nat \<Rightarrow> 'q \<Rightarrow> (bytes option \<times> 'q) res"
    and len :: "'q \<Rightarrow> nat"
    and rep :: "'q \<Rightarrow> bytes \<Rightarrow> bool"
    and cap :: nat
  assumes put_rep: "rep q xs \<Longrightarrow> length xs + length s \<le> cap \<Longrightarrow> \<exists>q'. put s q = Inr (True, q') \<and> rep q' (xs @ s)"
    and get_rep: "rep q xs \<Longrightarrow> l \<le> length xs \<Longrightarrow> \<exists>q'. get l q = Inr (Some (take l xs), q') \<and> rep q' (drop l xs)"
    and len_rep: "rep q xs \<Longrightarrow> len q = length xs"
begin

lemma put_then_all:
  assumes "rep q []" "length s \<le> cap"
  shows "\<exists>q1 q2. put s q = Inr (True, q1) \<and> rep q1 s \<and> len q1 = length s \<and> get (len q1) q1 = Inr (Some s, q2) \<and> rep q2 []"
proof -
  obtain q1 where q1: "put s q = Inr (True, q1)" "rep q1 s" using put_rep [OF assms(1), of s] assms(2) by auto
  obtain q2 where "get (length s) q1 = Inr (Some s, q2)" "rep q2 []" using get_rep [OF q1(2), of "length s"] by auto
  then show ?thesis using q1 len_rep by auto
qed

end

interpretation cbq: byte_queue CircularBuffer_Write "CircularBuffer_Read True" cb_q "holds n" n for n
proof unfold_locales
  show "\<exists>q'. CircularBuffer_Write s q = Inr (True, q') \<and> holds n q' (xs @ s)" if "holds n q xs" "length xs + length s \<le> n" for q xs s
    using holds_write [OF that] by blast
  show "\<exists>q'. CircularBuffer_Read True l q = Inr (Some (take l xs), q') \<and> holds n q' (drop l xs)" if "holds n q xs" "l \<le> length xs" for q xs l
    using holds_read [OF that, of True] by auto
qed (simp add: holds_def)

section \<open>Any sequence of calls\<close>

datatype buffer_call = DoWrite bytes | DoRead nat | DoSoftRead nat | DoRemove nat | DoReadString nat | DoGetLength | DoSpace | DoView | DoCount bool

datatype buffer_answer = Done bool | Bytes "bytes option" | Number nat | Count u32

fun circ_call :: "buffer_call \<Rightarrow> circ \<Rightarrow> (buffer_answer \<times> circ) res" where
  "circ_call (DoWrite s) b = rmap (\<lambda>(r, b). (Done r, b)) (CircularBuffer_Write s b)"
| "circ_call (DoRead l) b = rmap (\<lambda>(r, b). (Bytes r, b)) (CircularBuffer_Read True l b)"
| "circ_call (DoSoftRead l) b = rmap (\<lambda>r. (Bytes r, b)) (SoftRead True l b)"
| "circ_call (DoRemove l) b = rmap (\<lambda>(r, b). (Done r, b)) (CircularBuffer_Remove l b)"
| "circ_call (DoReadString l) b = rmap (\<lambda>(r, b). (Bytes (Some r), b)) (ReadString l b)"
| "circ_call DoGetLength b = Inr (Number (cb_q b), b)"
| "circ_call DoSpace b = Inr (Number (Space b), b)"
| "circ_call DoView b = Inr (Bytes (Some (take (cb_q b) (GetStart b))), b)"
| "circ_call (DoCount clear) b = Inr (case ByteCounter clear b of (c, b) \<Rightarrow> (Count c, b))"

fun circ_calls :: "buffer_call list \<Rightarrow> circ \<Rightarrow> (buffer_answer list \<times> circ) res" where
  "circ_calls [] b = Inr ([], b)"
| "circ_calls (c # cs) b = rbind (circ_call c b) (\<lambda>(a, b). rmap (\<lambda>(as, b). (a # as, b)) (circ_calls cs b))"

text \<open>The same on a list of bytes and the number of bytes written.\<close>

fun list_call :: "nat \<Rightarrow> buffer_call \<Rightarrow> bytes \<times> u32 \<Rightarrow> buffer_answer \<times> (bytes \<times> u32)" where
  "list_call n (DoWrite s) (xs, c) =
     (if length xs + length s \<le> n then (Done True, xs @ s, c + of_nat (length s)) else (Done False, xs, c))"
| "list_call n (DoRead l) (xs, c) = (if l \<le> length xs then (Bytes (Some (take l xs)), drop l xs, c) else (Bytes None, xs, c))"
| "list_call n (DoSoftRead l) (xs, c) = (Bytes (if l \<le> length xs then Some (take l xs) else None), xs, c)"
| "list_call n (DoRemove l) (xs, c) = (if l \<le> length xs then (Done True, drop l xs, c) else (Done False, xs, c))"
| "list_call n (DoReadString l) (xs, c) =
     (if l \<le> length xs then (Bytes (Some (c_str (take l xs))), drop l xs, c) else (Bytes (Some []), xs, c))"
| "list_call n DoGetLength (xs, c) = (Number (length xs), xs, c)"
| "list_call n DoSpace (xs, c) = (Number (n - length xs), xs, c)"
| "list_call n DoView (xs, c) = (Bytes (Some xs), xs, c)"
| "list_call n (DoCount clear) (xs, c) = (Count c, xs, if clear then 0 else c)"

fun list_calls :: "nat \<Rightarrow> buffer_call list \<Rightarrow> bytes \<times> u32 \<Rightarrow> buffer_answer list \<times> (bytes \<times> u32)" where
  "list_calls n [] q = ([], q)"
| "list_calls n (c # cs) q = (case list_call n c q of (a, q) \<Rightarrow> case list_calls n cs q of (as, q) \<Rightarrow> (a # as, q))"

definition same_bytes :: "nat \<Rightarrow> circ \<Rightarrow> bytes \<times> u32 \<Rightarrow> bool" where
  "same_bytes n b q \<longleftrightarrow> holds n b (fst q) \<and> cb_count b = snd q"

lemma c_str_stop: "c_str (xs @ [0]) = c_str xs"
  by (simp add: c_str_def takeWhile_tail)

lemma call_refines:
  assumes "same_bytes n b q"
  shows "\<exists>b'. circ_call c b = Inr (fst (list_call n c q), b') \<and> same_bytes n b' (snd (list_call n c q))"
proof -
  obtain xs k where q: "q = (xs, k)" "holds n b xs" "cb_count b = k" using assms by (cases q) (simp add: same_bytes_def)
  have len: "cb_q b = length xs" "cb_max b = n" using q(2) by (simp_all add: holds_def)
  note short = read_short [OF q(2)]
  show ?thesis
  proof (cases c)
    case (DoWrite s)
    then show ?thesis using holds_write [OF q(2), of s] holds_full [OF q(2), of s] q by (cases "length xs + length s \<le> n") (auto simp: same_bytes_def)
  next
    case (DoRead l)
    then show ?thesis using holds_read [OF q(2), of l True] short [of l True] q by (cases "l \<le> length xs") (auto simp: same_bytes_def)
  next
    case (DoRemove l)
    then show ?thesis using holds_read [OF q(2), of l False] short [of l False] q
      by (cases "l \<le> length xs") (auto simp: same_bytes_def CircularBuffer_Remove_def)
  next
    case (DoReadString l)
    then show ?thesis using holds_read [OF q(2), of l True] short [of l True] q
      by (cases "l \<le> length xs") (auto simp: same_bytes_def ReadString_def c_str_stop)
  next
    case (DoSoftRead l)
    then show ?thesis using copy_out_holds [OF q(2), of l] len q by (auto simp: same_bytes_def SoftRead_def)
  qed (use view(1) [OF q(2)] len q in \<open>auto simp: same_bytes_def Space_def ByteCounter_def holds_def\<close>)
qed

text \<open>C22: the circular buffer refines a list of bytes of bounded length: from its construction on, whatever its memory held, every sequence of calls
  returns, without an access outside of the memory, and gives the answers that the list gives; what is seen from \<open>GetStart()\<close> on is the whole content.\<close>

theorem circular_buffer_refines:
  "\<exists>b. circ_calls cs (CircularBuffer g n) = Inr (fst (list_calls n cs ([], 0)), b) \<and> same_bytes n b (snd (list_calls n cs ([], 0)))"
proof -
  have "\<exists>b'. circ_calls cs b = Inr (fst (list_calls n cs q), b') \<and> same_bytes n b' (snd (list_calls n cs q))" if "same_bytes n b q" for b q
    using that
  proof (induction cs arbitrary: b q)
    case (Cons c cs)
    obtain a q1 where q1: "list_call n c q = (a, q1)" by (rule prod.exhaust)
    obtain b1 where b1: "circ_call c b = Inr (a, b1)" "same_bytes n b1 q1" using call_refines [OF Cons.prems, of c] q1 by auto
    show ?case using Cons.IH [OF b1(2)] b1(1) q1 by (auto split: prod.split)
  qed simp
  moreover have "same_bytes n (CircularBuffer g n) ([], 0)"
    using holds_new [of n g] by (simp add: same_bytes_def CircularBuffer_def)
  ultimately show ?thesis by blast
qed

end
