(* ===== verification/Tcp_Output.thy ===== *)
theory Tcp_Output
  imports Circular_Buffer
begin

text \<open>
  How a TCP connection sends: \<open>SendBuf\<close> and \<open>OnWrite\<close> of \<open>shared/Network/TcpSocket.cpp\<close>. What does not fit into the buffer waits in a list of
  blocks. The remote console and the lobby client send this way.

  Modelled is a connection that is established and not encrypted. The system is asked for the result of \<open>send\<close>, and takes at most what it is
  given; \<open>to_wire\<close> is what it has taken. \<open>to_write\<close> is the flag with which the socket waits for the system to take more.
\<close>

section \<open>The output of a connection\<close>

record mes =
  ms_buf :: bytes
  ms_ptr :: nat

definition MES :: "bytes \<Rightarrow> mes" where
  "MES buf = \<lparr>ms_buf = buf, ms_ptr = 0\<rparr>"

definition left :: "mes \<Rightarrow> nat" where
  "left p = length (ms_buf p) - ms_ptr p"

definition curbuf :: "mes \<Rightarrow> bytes" where
  "curbuf p = drop (ms_ptr p) (ms_buf p)"

record tcp_output =
  to_obuf :: circ
  to_mes :: "mes list"
  to_bytes_sent :: u64
  to_connected :: bool
  to_closing :: bool
  to_write :: bool
  to_wire :: bytes

definition OBUF_SIZE :: nat where
  "OBUF_SIZE = 32768"

definition new_output :: "(nat \<Rightarrow> u8) \<Rightarrow> tcp_output" where
  "new_output g = \<lparr>to_obuf = CircularBuffer g OBUF_SIZE, to_mes = [], to_bytes_sent = 0, to_connected = True, to_closing = False,
     to_write = False, to_wire = []\<rparr>"

text \<open>\<open>send\<close> fails, only for now or for good, or takes a number of bytes.\<close>

datatype send_result = WouldBlock | SendError | Taken nat

text \<open>A write to the buffer that fails is not noticed.\<close>

lemma write_queued:
  "CircularBuffer_Write s b = Inr (r, b') \<Longrightarrow>
    cb_max b' = cb_max b \<and> cb_q b' = (if cb_q b + length s > cb_max b then cb_q b else cb_q b + length s)"
  by (auto simp: CircularBuffer_Write_def Let_def rbind_Inr_iff split: if_splits)

lemma write_space:
  assumes "CircularBuffer_Write s b = Inr (r, b')"
  shows "Space b' \<le> Space b" "0 < length s \<Longrightarrow> length s \<le> Space b \<Longrightarrow> Space b' < Space b"
  using write_queued [OF assms] unfolding Space_def by (auto simp del: length_greater_0_conv split: if_splits; linarith)+

function move_mes :: "mes list \<Rightarrow> circ \<Rightarrow> (mes list \<times> circ) res" where
  "move_mes ms b =
     (case ms of
        [] \<Rightarrow> Inr (ms, b)
      | p # rest \<Rightarrow>
          if Space b = 0 then Inr (ms, b)
          else if Space b > left p then rbind (CircularBuffer_Write (curbuf p) b) (\<lambda>x. move_mes rest (snd x))
          else rbind (CircularBuffer_Write (take (Space b) (curbuf p)) b) (\<lambda>x. move_mes (p\<lparr>ms_ptr := ms_ptr p + Space b\<rparr> # rest) (snd x)))"
  by pat_completeness auto
termination
proof (relation "measure (\<lambda>(ms, b). Space b + length ms)", goal_cases)
  case (2 ms b p rest x)
  then show ?case using write_space(1) [of "curbuf p" b "fst x" "snd x"] by simp
next
  case (3 ms b p rest x)
  then have "0 < length (take (Space b) (curbuf p))" "length (take (Space b) (curbuf p)) \<le> Space b" by (auto simp: left_def curbuf_def)
  then show ?case using 3 write_space(2) [of "take (Space b) (curbuf p)" b "fst x" "snd x"] by simp
qed simp

declare move_mes.simps [simp del]

definition OnWrite :: "send_result \<Rightarrow> tcp_output \<Rightarrow> tcp_output res" where
  "OnWrite r s =
     rmap (\<lambda>s. s\<lparr>to_write := (cb_q (to_obuf s) \<noteq> 0 \<or> to_mes s \<noteq> [])\<rparr>)
       (case r of
          WouldBlock \<Rightarrow> Inr s
        | SendError \<Rightarrow> Inr (s\<lparr>to_closing := True\<rparr>)
        | Taken k \<Rightarrow>
            let n = min k (cb_q (to_obuf s))
            in if n = 0 then Inr s
               else
                 let s = s\<lparr>to_wire := to_wire s @ take n (GetStart (to_obuf s)), to_bytes_sent := to_bytes_sent s + of_nat n\<rparr>
                 in rbind (CircularBuffer_Remove n (to_obuf s)) (\<lambda>(ok, b).
                    rmap (\<lambda>(ms, b). s\<lparr>to_obuf := b, to_mes := ms\<rparr>) (move_mes (to_mes s) b)))"

definition MAX_BLOCKSIZE :: nat where
  "MAX_BLOCKSIZE = 1024000"

text \<open>The blocks of what is left to send.\<close>

function blocks :: "bytes \<Rightarrow> mes list" where
  "blocks buf = (if buf = [] then [] else MES (take MAX_BLOCKSIZE buf) # blocks (drop MAX_BLOCKSIZE buf))"
  by pat_completeness auto
termination by (relation "measure length") (simp_all add: MAX_BLOCKSIZE_def)

declare blocks.simps [simp del]

text \<open>\<open>r\<close> is the result of \<open>send\<close>, in case it is called.\<close>

definition SendBuf :: "send_result \<Rightarrow> bytes \<Rightarrow> tcp_output \<Rightarrow> tcp_output res" where
  "SendBuf r buf s =
     (let n = cb_q (to_obuf s); len = length buf
      in if to_closing s then Inr s
         else
           rbind (if to_mes s = [] \<and> Space (to_obuf s) \<noteq> 0
                  then if len \<le> Space (to_obuf s) then rmap (\<lambda>x. (len, snd x)) (CircularBuffer_Write buf (to_obuf s))
                       else let ptr = Space (to_obuf s) in rmap (\<lambda>x. (ptr, snd x)) (CircularBuffer_Write (take ptr buf) (to_obuf s))
                  else Inr (0, to_obuf s)) (\<lambda>(ptr, b).
           let s = s\<lparr>to_obuf := b, to_mes := to_mes s @ blocks (drop ptr buf)\<rparr>
           in if n = 0 \<and> to_connected s then OnWrite r s else Inr s))"

definition GetOutputLength :: "tcp_output \<Rightarrow> nat" where
  "GetOutputLength s = cb_q (to_obuf s)"

section \<open>Nothing is lost\<close>

text \<open>What waits to be sent.\<close>

definition pending :: "tcp_output \<Rightarrow> bytes" where
  "pending s = take (cb_q (to_obuf s)) (GetStart (to_obuf s)) @ concat (map curbuf (to_mes s))"

text \<open>Blocks wait only behind a full buffer; the socket waits for the system exactly when something waits.\<close>

definition output_ok :: "bytes \<Rightarrow> tcp_output \<Rightarrow> bool" where
  "output_ok given s \<longleftrightarrow> (\<exists>xs. holds OBUF_SIZE (to_obuf s) xs \<and> (to_mes s \<noteq> [] \<longrightarrow> length xs = OBUF_SIZE) \<and>
     to_wire s @ xs @ concat (map curbuf (to_mes s)) = given \<and> to_write s = (xs \<noteq> []) \<and> to_connected s)"

lemma size_pos: "OBUF_SIZE \<noteq> 0"
  by (simp add: OBUF_SIZE_def)

lemma blocks_concat: "concat (map curbuf (blocks buf)) = buf"
proof (induction buf rule: blocks.induct)
  case (1 buf)
  then show ?case by (cases "buf = []") (simp_all add: MES_def curbuf_def blocks.simps [of buf] blocks.simps [of "[]"])
qed

lemma blocks_empty [simp]: "blocks [] = []"
  by (subst blocks.simps) simp

lemma holds_space: "holds n b xs \<Longrightarrow> Space b = n - length xs \<and> length xs \<le> n \<and> cb_q b = length xs"
  by (simp add: holds_def Space_def)

lemma move_mes_keeps:
  "holds n b xs \<Longrightarrow> \<exists>ms' b' ys. move_mes ms b = Inr (ms', b') \<and> holds n b' ys \<and> ys @ concat (map curbuf ms') = xs @ concat (map curbuf ms) \<and>
     (ms' \<noteq> [] \<longrightarrow> length ys = n)"
proof (induction ms b arbitrary: xs rule: move_mes.induct)
  case (1 ms b)
  note sp = holds_space [OF "1.prems"]
  show ?case
  proof (cases ms)
    case Nil
    then show ?thesis using "1.prems" by (subst move_mes.simps) auto
  next
    case (Cons p rest)
    consider (full) "Space b = 0" | (all) "Space b \<noteq> 0" "Space b > left p" | (part) "Space b \<noteq> 0" "\<not> Space b > left p" by linarith
    then show ?thesis
    proof cases
      case full
      then show ?thesis using "1.prems" Cons sp by (subst move_mes.simps) auto
    next
      case all
      have "length xs + length (curbuf p) \<le> n" using all sp by (simp add: curbuf_def left_def)
      from holds_write [OF "1.prems" this] obtain b1 where b1: "CircularBuffer_Write (curbuf p) b = Inr (True, b1)" "holds n b1 (xs @ curbuf p)"
        by blast
      have "move_mes ms b = move_mes rest b1" using all b1(1) Cons by (subst move_mes.simps) simp
      then show ?thesis using "1.IH"(1) [OF Cons all(1,2) b1(1), of "xs @ curbuf p"] b1(2) Cons by simp
    next
      case part
      let ?p = "p\<lparr>ms_ptr := ms_ptr p + Space b\<rparr>"
      have "length xs + length (take (Space b) (curbuf p)) \<le> n" using sp by (auto simp: min_def)
      from holds_write [OF "1.prems" this]
      obtain b1 where b1: "CircularBuffer_Write (take (Space b) (curbuf p)) b = Inr (True, b1)" "holds n b1 (xs @ take (Space b) (curbuf p))"
        by blast
      have "move_mes ms b = move_mes (?p # rest) b1" using part b1(1) Cons by (subst move_mes.simps) simp
      moreover obtain ms' b' ys where "move_mes (?p # rest) b1 = Inr (ms', b')" "holds n b' ys"
          "ys @ concat (map curbuf ms') = (xs @ take (Space b) (curbuf p)) @ concat (map curbuf (?p # rest))" "ms' \<noteq> [] \<longrightarrow> length ys = n"
        using "1.IH"(2) [OF Cons part b1(1), of "xs @ take (Space b) (curbuf p)"] b1(2) by auto
      moreover have "take (Space b) (curbuf p) @ curbuf ?p = curbuf p"
        by (simp add: curbuf_def add.commute flip: drop_drop)
      then have "(xs @ take (Space b) (curbuf p)) @ concat (map curbuf (?p # rest)) = xs @ concat (map curbuf ms)"
        using Cons by simp
      ultimately show ?thesis by metis
    qed
  qed
qed

section \<open>Any sequence of sends\<close>

datatype output_call = DoSend bytes send_result | DoWrite send_result

text \<open>With the bytes that were given to a connection that was not to be closed.\<close>

fun output_calls :: "output_call list \<Rightarrow> tcp_output \<times> bytes \<Rightarrow> (tcp_output \<times> bytes) res" where
  "output_calls [] p = Inr p"
| "output_calls (DoSend buf r # cs) (s, given) =
     rbind (SendBuf r buf s) (\<lambda>s'. output_calls cs (s', given @ (if to_closing s then [] else buf)))"
| "output_calls (DoWrite r # cs) (s, given) = rbind (OnWrite r s) (\<lambda>s'. output_calls cs (s', given))"

lemma OnWrite_keeps:
  assumes "holds OBUF_SIZE (to_obuf s) xs" "to_mes s \<noteq> [] \<longrightarrow> length xs = OBUF_SIZE" "to_connected s"
  shows "\<exists>s'. OnWrite r s = Inr s' \<and> output_ok (to_wire s @ xs @ concat (map curbuf (to_mes s))) s'"
proof -
  have len: "cb_q (to_obuf s) = length xs" using assms(1) by (simp add: holds_def)
  consider (taken) k where "r = Taken k" "min k (length xs) \<noteq> 0"
    | (none) "r = WouldBlock \<or> r = SendError \<or> (\<exists>k. r = Taken k \<and> min k (length xs) = 0)"
    by (cases r) blast+
  then show ?thesis
  proof cases
    case none
    have "xs = [] \<Longrightarrow> to_mes s = []" using assms(2) size_pos by auto
    then show ?thesis using none assms len by (auto simp: OnWrite_def output_ok_def Let_def)
  next
    case taken
    define n where "n = min k (length xs)"
    have n: "n \<le> length xs" "n \<noteq> 0" using taken(2) by (simp_all add: n_def)
    obtain b1 where b1: "CircularBuffer_Read False n (to_obuf s) = Inr (Some [], b1)" "holds OBUF_SIZE b1 (drop n xs)"
      using holds_read [OF assms(1) n(1), of False] by auto
    obtain ms b2 ys where b2: "move_mes (to_mes s) b1 = Inr (ms, b2)" "holds OBUF_SIZE b2 ys"
        "ys @ concat (map curbuf ms) = drop n xs @ concat (map curbuf (to_mes s))" "ms \<noteq> [] \<longrightarrow> length ys = OBUF_SIZE"
      using move_mes_keeps [OF b1(2), of "to_mes s"] by blast
    have start: "take n (GetStart (to_obuf s)) = take n xs"
      using view(1) [OF assms(1)] len n(1) by (metis min.absorb1 take_take)
    have wire: "take n xs @ ys @ concat (map curbuf ms) = xs @ concat (map curbuf (to_mes s))"
      using b2(3) by (metis append.assoc append_take_drop_id)
    have "ys = [] \<Longrightarrow> ms = []" using b2(4) size_pos by auto
    moreover have "cb_q b2 = length ys" using b2(2) by (simp add: holds_def)
    ultimately show ?thesis
      using taken(1) n len b1(1) b2(1,2,4) start wire assms(3)
      by (auto simp: OnWrite_def output_ok_def Let_def CircularBuffer_Remove_def n_def [symmetric])
  qed
qed

lemma SendBuf_keeps:
  assumes "output_ok given s"
  shows "\<exists>s'. SendBuf r buf s = Inr s' \<and> output_ok (given @ (if to_closing s then [] else buf)) s'"
proof (cases "to_closing s")
  case False
  obtain xs where xs: "holds OBUF_SIZE (to_obuf s) xs" "to_mes s \<noteq> [] \<longrightarrow> length xs = OBUF_SIZE"
      "to_wire s @ xs @ concat (map curbuf (to_mes s)) = given" "to_write s = (xs \<noteq> [])" "to_connected s"
    using assms by (auto simp: output_ok_def)
  note sp = holds_space [OF xs(1)]
  define ptr where "ptr = (if to_mes s = [] then min (length buf) (Space (to_obuf s)) else 0)"
  have "length xs + length (take ptr buf) \<le> OBUF_SIZE" using sp by (auto simp: ptr_def min_def)
  from holds_write [OF xs(1) this] obtain b where
    b: "CircularBuffer_Write (take ptr buf) (to_obuf s) = Inr (True, b)" "holds OBUF_SIZE b (xs @ take ptr buf)" by blast
  define t where "t = (if ptr = 0 \<and> (to_mes s \<noteq> [] \<or> Space (to_obuf s) = 0) then to_obuf s else b)"
  have t: "holds OBUF_SIZE t (xs @ take ptr buf)" using b(2) xs(1) by (simp add: t_def)
  have fill: "(if to_mes s = [] \<and> Space (to_obuf s) \<noteq> 0
      then if length buf \<le> Space (to_obuf s) then rmap (\<lambda>x. (length buf, snd x)) (CircularBuffer_Write buf (to_obuf s))
           else let ptr = Space (to_obuf s) in rmap (\<lambda>x. (ptr, snd x)) (CircularBuffer_Write (take ptr buf) (to_obuf s))
      else Inr (0, to_obuf s)) = Inr (ptr, t)"
    using b(1) by (auto simp: ptr_def t_def Let_def min_def split: if_splits)
  define s1 where "s1 = s\<lparr>to_obuf := t, to_mes := to_mes s @ blocks (drop ptr buf)\<rparr>"
  have run: "SendBuf r buf s = (if length xs = 0 \<and> to_connected s1 then OnWrite r s1 else Inr s1)"
    using False sp unfolding SendBuf_def Let_def [of "cb_q _"] Let_def [of "length buf"] fill by (simp add: s1_def Let_def)
  have given: "to_wire s1 @ (xs @ take ptr buf) @ concat (map curbuf (to_mes s1)) = given @ buf"
  proof (cases "to_mes s = []")
    case True
    then show ?thesis using xs(3) by (simp add: s1_def blocks_concat)
  next
    case mes: False
    then show ?thesis using xs(3) by (simp add: s1_def blocks_concat ptr_def)
  qed
  have full: "to_mes s1 \<noteq> [] \<longrightarrow> length (xs @ take ptr buf) = OBUF_SIZE"
    using xs(2) sp by (auto simp: s1_def ptr_def min_def split: if_splits)
  show ?thesis
  proof (cases "xs = []")
    case True
    then show ?thesis using OnWrite_keeps [of s1 "xs @ take ptr buf" r] t full given xs(5) run False by (simp add: s1_def)
  next
    case nonempty: False
    have "output_ok (given @ buf) s1" unfolding output_ok_def
      by (rule exI [of _ "xs @ take ptr buf"]) (use t full given xs(4,5) nonempty in \<open>simp add: s1_def\<close>)
    then show ?thesis using run nonempty False by simp
  qed
qed (use assms in \<open>simp add: SendBuf_def\<close>)

lemma output_ok_pending:
  assumes "output_ok given s"
  shows "to_wire s @ pending s = given" "to_write s = (pending s \<noteq> [])" "(GetOutputLength s = 0) = (pending s = [])"
proof -
  obtain xs where xs: "holds OBUF_SIZE (to_obuf s) xs" "to_mes s \<noteq> [] \<longrightarrow> length xs = OBUF_SIZE"
      "to_wire s @ xs @ concat (map curbuf (to_mes s)) = given" "to_write s = (xs \<noteq> [])"
    using assms by (auto simp: output_ok_def)
  have p: "pending s = xs @ concat (map curbuf (to_mes s))" using view(1) [OF xs(1)] by (simp add: pending_def)
  show "to_wire s @ pending s = given" using xs(3) p by simp
  have "xs = [] \<Longrightarrow> to_mes s = []" using xs(2) size_pos by auto
  then show "to_write s = (pending s \<noteq> [])" "(GetOutputLength s = 0) = (pending s = [])"
    using p xs(4) holds_space [OF xs(1)] by (auto simp: GetOutputLength_def)
qed

text \<open>C23: a connection loses nothing, sends nothing twice and keeps the order: after any sequence of sends and of writes, whatever the system takes each
  time, what it has taken followed by what waits is what was given to \<open>SendBuf\<close>. The socket waits for the system exactly when something waits, and
  the output length, which does not count the blocks, is 0 only when nothing does.\<close>

theorem tcp_output_stream:
  "\<exists>s given. output_calls cs (new_output g, []) = Inr (s, given) \<and> to_wire s @ pending s = given \<and> to_write s = (pending s \<noteq> []) \<and>
    (GetOutputLength s = 0) = (pending s = [])"
proof -
  have "\<exists>s' given'. output_calls cs (s, given) = Inr (s', given') \<and> output_ok given' s'" if "output_ok given s" for s given
    using that
  proof (induction cs arbitrary: s given)
    case (Cons c cs)
    show ?case
    proof (cases c)
      case (DoSend buf r)
      obtain s' where "SendBuf r buf s = Inr s'" "output_ok (given @ (if to_closing s then [] else buf)) s'"
        using SendBuf_keeps [OF Cons.prems] by blast
      then show ?thesis using Cons.IH DoSend by auto
    next
      case (DoWrite r)
      obtain xs where "holds OBUF_SIZE (to_obuf s) xs" "to_mes s \<noteq> [] \<longrightarrow> length xs = OBUF_SIZE" "to_connected s"
          "to_wire s @ xs @ concat (map curbuf (to_mes s)) = given" using Cons.prems by (auto simp: output_ok_def)
      then obtain s' where "OnWrite r s = Inr s'" "output_ok given s'" using OnWrite_keeps [of s xs r] by auto
      then show ?thesis using Cons.IH DoWrite by simp
    qed
  qed simp
  moreover have "output_ok [] (new_output g)"
    using holds_new [of OBUF_SIZE g] by (auto simp: output_ok_def new_output_def)
  ultimately obtain s given where "output_calls cs (new_output g, []) = Inr (s, given)" "output_ok given s" by blast
  then show ?thesis using output_ok_pending by blast
qed

end
