(* ===== verification/Console_Input.thy ===== *)
theory Console_Input
  imports Circular_Buffer Console
begin

text \<open>
  How the bytes of a TCP connection come to the remote console: \<open>TcpSocket::OnRead\<close> of \<open>shared/Network/TcpSocket.cpp\<close> puts what \<open>recv\<close>
  returns into the buffer of the connection, \<open>RASocket::OnRead\<close> takes all of it out. The console is a client of the interface
  \<open>byte_queue\<close>; what it makes of the bytes is \<open>RASocket_OnRead\<close> of \<open>Console\<close>.

  Left out is what the remote console does not use: encryption, the line protocol, SOCKS, the traffic monitor, and
  the flags that say whether a connection to be closed is flushed and shut down first.
\<close>

section \<open>Reading a connection\<close>

definition TCP_BUFSIZE_READ :: nat where
  "TCP_BUFSIZE_READ = 16400"

text \<open>\<open>recv\<close> returns -1, or a number of bytes; no byte at all is the end of the connection.\<close>

datatype received = RecvError | RecvBytes bytes

record tcp_input =
  ti_ibuf :: circ
  ti_input_buffer_disabled :: bool
  ti_bytes_received :: u64

definition TcpSocket :: "(nat \<Rightarrow> u8) \<Rightarrow> tcp_input" where
  "TcpSocket g = \<lparr>ti_ibuf = CircularBuffer g TCP_BUFSIZE_READ, ti_input_buffer_disabled = False, ti_bytes_received = 0\<rparr>"

definition TcpSocket_OnRead :: "received \<Rightarrow> tcp_input \<Rightarrow> ra_socket \<Rightarrow> (tcp_input \<times> ra_socket) res" where
  "TcpSocket_OnRead r t s =
     (case r of
        RecvError \<Rightarrow> Inr (t, SetCloseAndDelete s)
      | RecvBytes buf \<Rightarrow>
          if buf = [] then Inr (t, SetCloseAndDelete s)
          else if length buf \<le> TCP_BUFSIZE_READ then
            let t = t\<lparr>ti_bytes_received := ti_bytes_received t + of_nat (length buf)\<rparr>
            in if ti_input_buffer_disabled t then Inr (t, s)
               else rmap (\<lambda>(done, b). (t\<lparr>ti_ibuf := b\<rparr>, s)) (CircularBuffer_Write buf (ti_ibuf t))
          else Inr (t, s))"

text \<open>
  \<open>RASocket::OnRead\<close> from the call of \<open>TcpSocket::OnRead\<close> on. The first two branches return before the buffer is read; behind them
  \<open>RASocket_OnRead\<close> goes on with what was in it.
\<close>

definition RASocket_OnRead_tcp :: "ra_config \<Rightarrow> nat \<Rightarrow> received \<Rightarrow> tcp_input \<times> console \<Rightarrow> (tcp_input \<times> console) res" where
  "RASocket_OnRead_tcp C a r = (\<lambda>(t, c).
     case co_sockets c a of
       None \<Rightarrow> Inl Dangling
     | Some s \<Rightarrow>
         rbind (TcpSocket_OnRead r t s) (\<lambda>(t, s).
         let c = put_socket a s c; sz = cb_q (ti_ibuf t)
         in if ra_iInputLength s + sz \<ge> RA_BUFF_SIZE then Inr (t, put_socket a (SetCloseAndDelete s) c)
            else if ra_stage s \<noteq> OK \<and> co_users c \<noteq> 0 then Inr (t, dropclient a s c)
            else
              rbind (CircularBuffer_Read True sz (ti_ibuf t)) (\<lambda>(inp, b).
              case inp of
                None \<Rightarrow> Inl OutOfBounds
              | Some inp \<Rightarrow> rmap (Pair (t\<lparr>ti_ibuf := b\<rparr>)) (RASocket_OnRead C a inp c))))"

text \<open>A connection that is to be closed is not read any more.\<close>

definition closing :: "nat \<Rightarrow> console \<Rightarrow> bool" where
  "closing a c = (case co_sockets c a of None \<Rightarrow> True | Some s \<Rightarrow> ra_closing s)"

fun tcp_session :: "ra_config \<Rightarrow> nat \<Rightarrow> received list \<Rightarrow> tcp_input \<times> console \<Rightarrow> console res" where
  "tcp_session C a [] p = Inr (snd p)"
| "tcp_session C a (r # rs) p =
     (if closing a (snd p) then Inr (snd p) else rbind (RASocket_OnRead_tcp C a r p) (\<lambda>p. tcp_session C a rs p))"

section \<open>The same without a buffer\<close>

definition bytes_of :: "received \<Rightarrow> bytes" where
  "bytes_of r = (case r of RecvError \<Rightarrow> [] | RecvBytes buf \<Rightarrow> if length buf \<le> TCP_BUFSIZE_READ then buf else [])"

definition ended :: "received \<Rightarrow> bool" where
  "ended r \<longleftrightarrow> r = RecvError \<or> r = RecvBytes []"

fun byte_session :: "ra_config \<Rightarrow> nat \<Rightarrow> received list \<Rightarrow> console \<Rightarrow> console res" where
  "byte_session C a [] c = Inr c"
| "byte_session C a (r # rs) c =
     (case co_sockets c a of
        None \<Rightarrow> Inr c
      | Some s \<Rightarrow>
          if ra_closing s then Inr c
          else rbind (RASocket_OnRead C a (bytes_of r) (put_socket a (if ended r then SetCloseAndDelete s else s) c))
                 (\<lambda>c. byte_session C a rs c))"

text \<open>The buffer is empty before and after every read, unless the connection is to be closed.\<close>

definition input_empty :: "tcp_input \<Rightarrow> bool" where
  "input_empty t \<longleftrightarrow> holds TCP_BUFSIZE_READ (ti_ibuf t) [] \<and> \<not> ti_input_buffer_disabled t"

lemma socket_put [simp]: "co_sockets (put_socket a s c) a = Some s" "co_users (put_socket a s c) = co_users c"
    "put_socket a t (put_socket a s c) = put_socket a t c"
  by (simp_all add: put_socket_def)

lemma socket_same: "co_sockets c a = Some s \<Longrightarrow> put_socket a s c = c"
  by (cases c) (auto simp: put_socket_def)

lemma tcp_read:
  assumes "input_empty t"
  shows "\<exists>t'. TcpSocket_OnRead r t s = Inr (t', if ended r then SetCloseAndDelete s else s) \<and>
    holds TCP_BUFSIZE_READ (ti_ibuf t') (bytes_of r) \<and> \<not> ti_input_buffer_disabled t'"
proof (cases "\<exists>buf. r = RecvBytes buf \<and> buf \<noteq> [] \<and> length buf \<le> TCP_BUFSIZE_READ")
  case True
  then obtain buf where r: "r = RecvBytes buf" "buf \<noteq> []" "length buf \<le> TCP_BUFSIZE_READ" by blast
  obtain q where "CircularBuffer_Write buf (ti_ibuf t) = Inr (True, q)" "holds TCP_BUFSIZE_READ q buf"
    using cbq.put_then_all [OF _ r(3)] assms by (auto simp: input_empty_def)
  then show ?thesis using r assms by (simp add: TcpSocket_OnRead_def bytes_of_def ended_def input_empty_def Let_def)
next
  case False
  then show ?thesis using assms
    by (cases r) (auto simp: TcpSocket_OnRead_def bytes_of_def ended_def input_empty_def)
qed

lemma tcp_step:
  assumes "input_empty t" "co_sockets c a = Some s"
  shows "case RASocket_OnRead C a (bytes_of r) (put_socket a (if ended r then SetCloseAndDelete s else s) c) of
      Inl e \<Rightarrow> RASocket_OnRead_tcp C a r (t, c) = Inl e
    | Inr c' \<Rightarrow> \<exists>t'. RASocket_OnRead_tcp C a r (t, c) = Inr (t', c') \<and> (input_empty t' \<or> closing a c')"
proof -
  define s' c1 inp where "s' = (if ended r then SetCloseAndDelete s else s)" and "c1 = put_socket a s' c" and "inp = bytes_of r"
  obtain t1 where t1: "TcpSocket_OnRead r t s = Inr (t1, s')" "holds TCP_BUFSIZE_READ (ti_ibuf t1) inp" "\<not> ti_input_buffer_disabled t1"
    using tcp_read [OF assms(1), of r s] by (auto simp: s'_def inp_def)
  have sz: "cb_q (ti_ibuf t1) = length inp" by (rule cbq.len_rep [OF t1(2)])
  obtain q where q: "CircularBuffer_Read True (length inp) (ti_ibuf t1) = Inr (Some inp, q)" "holds TCP_BUFSIZE_READ q []"
    using cbq.get_rep [OF t1(2), of "length inp"] by auto
  consider (full) "ra_iInputLength s' + length inp \<ge> RA_BUFF_SIZE"
    | (busy) "ra_iInputLength s' + length inp < RA_BUFF_SIZE" "ra_stage s' \<noteq> OK" "co_users c \<noteq> 0"
    | (bytes) "ra_iInputLength s' + length inp < RA_BUFF_SIZE" "ra_stage s' = OK \<or> co_users c = 0" by linarith
  then show ?thesis
  proof cases
    case bytes
    have "RASocket_OnRead_tcp C a r (t, c) = rmap (Pair (t1\<lparr>ti_ibuf := q\<rparr>)) (RASocket_OnRead C a inp c1)"
      using bytes t1(1) sz q(1) assms(2) by (auto simp: RASocket_OnRead_tcp_def c1_def Let_def)
    then show ?thesis using q(2) t1(3)
      by (simp add: s'_def [symmetric] c1_def [symmetric] inp_def [symmetric] input_empty_def split: sum.split)
  next
    case full
    have "RASocket_OnRead C a inp c1 = Inr (put_socket a (SetCloseAndDelete s') c1)"
      using full by (simp add: RASocket_OnRead_def c1_def Let_def)
    moreover have "RASocket_OnRead_tcp C a r (t, c) = Inr (t1, put_socket a (SetCloseAndDelete s') c1)"
      using full t1(1) sz assms(2) by (simp add: RASocket_OnRead_tcp_def c1_def Let_def)
    ultimately show ?thesis by (simp add: s'_def [symmetric] c1_def [symmetric] inp_def [symmetric] closing_def SetCloseAndDelete_def)
  next
    case busy
    have "RASocket_OnRead C a inp c1 = Inr (dropclient a s' c1)"
      using busy by (simp add: RASocket_OnRead_def c1_def Let_def)
    moreover have "RASocket_OnRead_tcp C a r (t, c) = Inr (t1, dropclient a s' c1)"
      using busy t1(1) sz assms(2) by (simp add: RASocket_OnRead_tcp_def c1_def Let_def)
    ultimately show ?thesis
      by (simp add: s'_def [symmetric] c1_def [symmetric] inp_def [symmetric] closing_def dropclient_def SetCloseAndDelete_def)
  qed
qed

text \<open>C21: reading a connection through its buffer is the same as handing over the bytes received: from the constructor on, whatever the memory of the
  buffer held, any sequence of reads leads to the same console, commands, answers and faults included.\<close>

theorem console_gets_the_bytes:
  "tcp_session C a rs (TcpSocket g, c) = byte_session C a rs c"
proof -
  have closed: "byte_session C a rs c = Inr c \<and> tcp_session C a rs (t, c) = Inr c" if "closing a c" for rs t c
    using that by (cases rs) (auto simp: closing_def split: option.splits)
  have "tcp_session C a rs (t, c) = byte_session C a rs c" if "input_empty t" for t
    using that
  proof (induction rs arbitrary: t c)
    case (Cons r rs)
    show ?case
    proof (cases "closing a c")
      case False
      then obtain s where s: "co_sockets c a = Some s" "\<not> ra_closing s" by (auto simp: closing_def split: option.splits)
      let ?run = "RASocket_OnRead C a (bytes_of r) (put_socket a (if ended r then SetCloseAndDelete s else s) c)"
      have byte: "byte_session C a (r # rs) c = rbind ?run (\<lambda>c. byte_session C a rs c)" using s by simp
      have tcp: "tcp_session C a (r # rs) (t, c) = rbind (RASocket_OnRead_tcp C a r (t, c)) (\<lambda>p. tcp_session C a rs p)" using False by simp
      show ?thesis
      proof (cases ?run)
        case (Inl e)
        then show ?thesis using tcp_step [OF Cons.prems s(1), of C r] byte tcp by simp
      next
        case (Inr c')
        then obtain t' where t': "RASocket_OnRead_tcp C a r (t, c) = Inr (t', c')" "input_empty t' \<or> closing a c'"
          using tcp_step [OF Cons.prems s(1), of C r] by auto
        have "tcp_session C a rs (t', c') = byte_session C a rs c'" using t'(2) Cons.IH closed by metis
        then show ?thesis using byte tcp t'(1) Inr by simp
      qed
    qed (simp add: closed del: tcp_session.simps byte_session.simps)
  qed simp
  then show ?thesis using holds_new [of TCP_BUFSIZE_READ g] by (simp add: input_empty_def TcpSocket_def)
qed

end
