(* ===== verification/Line_Input.thy ===== *)
theory Line_Input
  imports Console_Input Wol_Socket
begin

text \<open>
  The line protocol of \<open>TcpSocket::OnRead\<close> (\<open>shared/Network/TcpSocket.cpp\<close>), with which the lobby client reads: what comes is cut into lines, the
  end of what was read waits in \<open>m_line\<close> for the next read. \<open>OnLine\<close> is called for every line; here the lines are collected, as no
  \<open>OnLine\<close> changes how they are read.
\<close>

section \<open>Reading lines\<close>

record line_state =
  ls_line :: bytes
  ls_skip_c :: bool
  ls_c :: u8

definition line_break :: "u8 \<Rightarrow> bool" where
  "line_break b \<longleftrightarrow> b = 13 \<or> b = 10"

text \<open>\<open>if (buf[x]) m_line += (buf + x)\<close>.\<close>

definition add_line :: "nat \<Rightarrow> bytes \<Rightarrow> line_state \<Rightarrow> line_state" where
  "add_line x buf s = (if buf ! x \<noteq> 0 then s\<lparr>ls_line := ls_line s @ c_str (drop x buf)\<rparr> else s)"

text \<open>The \<open>while\<close> loop at position \<open>i\<close>; \<open>x\<close> is where the line begins.\<close>

function line_while :: "nat \<Rightarrow> bytes \<Rightarrow> nat \<Rightarrow> nat \<Rightarrow> line_state \<Rightarrow> bytes list \<Rightarrow> (nat \<times> bytes \<times> nat \<times> line_state \<times> bytes list) res" where
  "line_while n buf i x s out =
     (if i \<ge> length buf \<or> x \<ge> length buf then Inl OutOfBounds
      else if \<not> line_break (buf ! i) then Inr (i, buf, x, s, out)
      else
        let c = buf ! i; buf = buf[i := 0]; s = add_line x buf s; out = out @ [ls_line s];
            pair = (i + 1 < n \<and> line_break (buf ! (i + 1)) \<and> buf ! (i + 1) \<noteq> c);
            i = (if pair then i + 2 else i + 1)
        in line_while n buf i i \<lparr>ls_line = [], ls_skip_c = \<not> pair, ls_c = c\<rparr> out)"
  by pat_completeness auto
termination by (relation "measure (\<lambda>(n, buf, i, x, s, out). length buf - i)") (auto simp: Let_def)

declare line_while.simps [simp del]

lemma line_while_forward: "line_while n buf i x s out = Inr (i', r) \<Longrightarrow> i \<le> i'"
proof (induction n buf i x s out rule: line_while.induct)
  case (1 n buf i x s out)
  note run = "1.prems" [unfolded line_while.simps [of n buf i x s out] Let_def]
  show ?case
  proof (cases "\<not> line_break (buf ! i)")
    case True
    then show ?thesis using run by (simp split: if_splits)
  next
    case False
    have "\<not> (i \<ge> length buf \<or> x \<ge> length buf)" using run by (auto split: if_splits)
    with False run "1.IH" [OF this _ refl refl refl refl refl refl] show ?thesis by (auto split: if_splits)
  qed
qed

function line_for :: "nat \<Rightarrow> bytes \<Rightarrow> nat \<Rightarrow> nat \<Rightarrow> line_state \<Rightarrow> bytes list \<Rightarrow> (bytes \<times> nat \<times> line_state \<times> bytes list) res" where
  "line_for n buf i x s out =
     (if i < n
      then rbind (line_while n buf i x s out) (\<lambda>r. case r of (i, buf, x, s, out) \<Rightarrow> line_for n buf (i + 1) x s out)
      else Inr (buf, x, s, out))"
  by pat_completeness auto
termination
  by (relation "measure (\<lambda>(n, buf, i, x, s, out). n - i)") (auto dest!: line_while_forward)

declare line_for.simps [simp del]

text \<open>A read of no byte or of too many changes no line; that the first closes the connection is in \<open>TcpSocket_OnRead\<close>.\<close>

definition OnRead_lines :: "bytes \<Rightarrow> line_state \<Rightarrow> (bytes list \<times> line_state) res" where
  "OnRead_lines dat s =
     (if dat = [] \<or> length dat > TCP_BUFSIZE_READ then Inr ([], s)
      else
        let n = length dat; buf = dat @ [0];
            (i, s) = (if ls_skip_c s \<and> line_break (buf ! 0) \<and> buf ! 0 \<noteq> ls_c s then (1, s\<lparr>ls_skip_c := False\<rparr>) else (0, s))
        in rbind (line_for n buf i 0 s []) (\<lambda>(buf, x, s, out).
           if x \<ge> length buf then Inl OutOfBounds else Inr (out, add_line x buf s)))"

text \<open>The lobby client: its \<open>OnLine\<close> answers pings.\<close>

definition WolSocket_OnRead :: "bytes \<Rightarrow> line_state \<times> wol_socket \<Rightarrow> (line_state \<times> wol_socket) res" where
  "WolSocket_OnRead dat = (\<lambda>(s, w). rmap (\<lambda>(ls, s). (s, fold Wol_OnLine ls w)) (OnRead_lines dat s))"

definition new_lines :: line_state where
  "new_lines = \<lparr>ls_line = [], ls_skip_c = False, ls_c = 0\<rparr>"

section \<open>The lines of a text\<close>

text \<open>A line ends with one of the two characters, or with both in any order. The second component is what comes after the last end.\<close>

fun lines_of :: "bytes \<Rightarrow> bytes \<Rightarrow> bytes list \<times> bytes" where
  "lines_of cur [] = ([], cur)"
| "lines_of cur [b] = (if line_break b then ([cur], []) else ([], cur @ [b]))"
| "lines_of cur (b # c # bs) =
     (if line_break b
      then case lines_of [] (if line_break c \<and> c \<noteq> b then bs else c # bs) of (ls, r) \<Rightarrow> (cur # ls, r)
      else lines_of (cur @ [b]) (c # bs))"

lemma lines_of_text: "\<not> line_break b \<Longrightarrow> lines_of cur (b # bs) = lines_of (cur @ [b]) bs"
  by (cases bs) simp_all

lemma lines_of_break:
  "line_break b \<Longrightarrow> lines_of cur (b # bs) =
    (case lines_of [] (if bs \<noteq> [] \<and> line_break (hd bs) \<and> hd bs \<noteq> b then tl bs else bs) of (ls, r) \<Rightarrow> (cur # ls, r))"
  by (cases bs) simp_all

lemma lines_of_append:
  "bs \<noteq> [] \<Longrightarrow> \<not> line_break (hd bs) \<Longrightarrow> lines_of cur (as @ bs) =
    (case lines_of cur as of (ls, r) \<Rightarrow> case lines_of r bs of (ls', r') \<Rightarrow> (ls @ ls', r'))"
proof (induction cur as rule: lines_of.induct)
  case (2 cur b)
  then show ?case by (cases "line_break b") (simp_all add: lines_of_text lines_of_break split: prod.split)
next
  case (3 cur b c as)
  then show ?case by (cases "line_break b") (auto simp: lines_of_text lines_of_break split: prod.split)
qed simp

section \<open>What is called for\<close>

text \<open>A buffer in which \<open>seg\<close> is the line so far and \<open>rest\<close> is still to be looked at.\<close>

definition at_line :: "nat \<Rightarrow> bytes \<Rightarrow> nat \<Rightarrow> nat \<Rightarrow> bytes \<Rightarrow> bytes \<Rightarrow> bool" where
  "at_line n buf i x seg rest \<longleftrightarrow> (\<exists>junk. buf = junk @ seg @ rest @ [0] \<and> length junk = x \<and> i = x + length seg \<and> length buf = n + 1) \<and>
     0 \<notin> set seg \<and> 0 \<notin> set rest"

lemma add_line_segment:
  assumes "at_line n buf i x seg rest"
  shows "add_line x (buf[i := 0]) s = s\<lparr>ls_line := ls_line s @ seg\<rparr>"
proof -
  obtain junk where b: "buf = junk @ seg @ rest @ [0]" "length junk = x" "i = x + length seg" "0 \<notin> set seg" using assms by (auto simp: at_line_def)
  obtain tail where "buf[i := 0] = junk @ seg @ 0 # tail"
    using b(1-3) by (cases rest) (auto simp: list_update_append)
  then show ?thesis using b(2,4) by (cases seg) (auto simp: add_line_def c_str_def takeWhile_append)
qed

lemma while_lines:
  "at_line n buf i x seg rest \<Longrightarrow> \<exists>i' buf' x' s' ls seg' rest'. line_while n buf i x s out = Inr (i', buf', x', s', out @ ls) \<and>
     at_line n buf' i' x' seg' rest' \<and> (rest' = [] \<or> \<not> line_break (hd rest')) \<and> length rest' \<le> length rest \<and>
     (rest' = [] \<longrightarrow> seg' = [] \<or> rest = [] \<and> seg' = seg) \<and>
     lines_of (ls_line s @ seg) rest = (ls @ fst (lines_of (ls_line s' @ seg') rest'), snd (lines_of (ls_line s' @ seg') rest'))"
proof (induction rest arbitrary: buf i x seg s out rule: length_induct)
  case (1 rest)
  from "1.prems" obtain junk where b: "buf = junk @ seg @ rest @ [0]" "length junk = x" "i = x + length seg" "length buf = n + 1"
      "0 \<notin> set seg" "0 \<notin> set rest"
    by (auto simp: at_line_def)
  have in_buf: "\<not> (i \<ge> length buf \<or> x \<ge> length buf)" using b by auto
  have nth: "buf ! i = (rest @ [0]) ! 0" using b by (simp add: nth_append)
  show ?case
  proof (cases "rest \<noteq> [] \<and> line_break (hd rest)")
    case False
    have "\<not> line_break (buf ! i)" using False nth by (cases rest) (auto simp: line_break_def)
    then have "line_while n buf i x s out = Inr (i, buf, x, s, out)" using in_buf by (subst line_while.simps) simp
    then show ?thesis using "1.prems" False by (intro exI [of _ i] exI [of _ buf] exI [of _ x] exI [of _ s] exI [of _ "[]"] exI [of _ seg] exI [of _ rest]) auto
  next
    case True
    then obtain c cs where rest: "rest = c # cs" "line_break c" by (cases rest) auto
    have c: "buf ! i = c" using nth rest(1) by simp
    define pair where "pair = (cs \<noteq> [] \<and> line_break (hd cs) \<and> hd cs \<noteq> c)"
    define cs' where "cs' = (if pair then tl cs else cs)"
    define i' where "i' = (if pair then i + 2 else i + 1)"
    define s1 where "s1 = \<lparr>ls_line = [], ls_skip_c = \<not> pair, ls_c = c\<rparr>"
    have buf1: "buf[i := 0] = junk @ seg @ 0 # cs @ [0]" using b rest by (simp add: list_update_append)
    have len: "n = x + length seg + 1 + length cs" using b rest by simp
    have pair': "(i + 1 < n \<and> line_break (buf[i := 0] ! (i + 1)) \<and> buf[i := 0] ! (i + 1) \<noteq> c) = pair"
      unfolding buf1 pair_def using b(2,3) len by (cases cs) (auto simp: nth_append)
    have step: "line_while n buf i x s out = line_while n (buf[i := 0]) i' i' s1 (out @ [ls_line s @ seg])"
      using in_buf rest(2)
      by (subst line_while.simps, unfold Let_def c pair' add_line_segment [OF "1.prems"]) (simp add: i'_def s1_def)
    have at_cs: "at_line n (buf[i := 0]) i' i' [] cs'"
      unfolding at_line_def buf1 using b rest len
      by (auto simp: cs'_def i'_def pair_def neq_Nil_conv intro: exI [of _ "junk @ seg @ [0]"] exI [of _ "junk @ seg @ [0, hd cs]"])
    have less: "length cs' < length rest" using rest by (auto simp: cs'_def)
    obtain i2 buf2 x2 s2 ls seg2 rest2 where
      ih: "line_while n (buf[i := 0]) i' i' s1 (out @ [ls_line s @ seg]) = Inr (i2, buf2, x2, s2, (out @ [ls_line s @ seg]) @ ls)" "at_line n buf2 i2 x2 seg2 rest2"
        "rest2 = [] \<or> \<not> line_break (hd rest2)" "length rest2 \<le> length cs'" "rest2 = [] \<longrightarrow> seg2 = [] \<or> cs' = [] \<and> seg2 = []"
        "lines_of (ls_line s1 @ []) cs' = (ls @ fst (lines_of (ls_line s2 @ seg2) rest2), snd (lines_of (ls_line s2 @ seg2) rest2))"
      using "1.IH" [rule_format, OF less at_cs, of s1 "out @ [ls_line s @ seg]"] by blast
    have "lines_of (ls_line s @ seg) rest = (let (ls, r) = lines_of [] cs' in ((ls_line s @ seg) # ls, r))"
      using rest by (simp add: lines_of_break cs'_def pair_def split: prod.split)
    then have "lines_of (ls_line s @ seg) rest =
        (((ls_line s @ seg) # ls) @ fst (lines_of (ls_line s2 @ seg2) rest2), snd (lines_of (ls_line s2 @ seg2) rest2))"
      using ih(6) by (simp add: s1_def)
    moreover have "length rest2 \<le> length rest" using ih(4) less by simp
    moreover have "line_while n buf i x s out = Inr (i2, buf2, x2, s2, out @ (ls_line s @ seg) # ls)" using step ih(1) by simp
    ultimately show ?thesis using ih(2,3,5) by blast
  qed
qed

lemma c_str_segment:
  assumes "at_line n buf i x seg []"
  shows "x < length buf" "add_line x buf s = s\<lparr>ls_line := ls_line s @ seg\<rparr>"
proof -
  obtain junk where b: "buf = junk @ seg @ [0]" "length junk = x" "0 \<notin> set seg" using assms by (auto simp: at_line_def)
  then show "x < length buf" by simp
  show "add_line x buf s = s\<lparr>ls_line := ls_line s @ seg\<rparr>"
    using b by (cases seg) (auto simp: add_line_def c_str_def takeWhile_append)
qed

lemma for_lines:
  "at_line n buf i x seg rest \<Longrightarrow> \<exists>buf' x' s'. line_for n buf i x s out = Inr (buf', x', s', out @ fst (lines_of (ls_line s @ seg) rest)) \<and>
     x' < length buf' \<and> ls_line (add_line x' buf' s') = snd (lines_of (ls_line s @ seg) rest)"
proof (induction rest arbitrary: buf i x seg s out rule: length_induct)
  case (1 rest)
  have i: "(i < n) = (rest \<noteq> [])" using "1.prems" by (auto simp: at_line_def)
  show ?case
  proof (cases "rest = []")
    case True
    then show ?thesis using i c_str_segment [of n buf i x seg] "1.prems" by (subst line_for.simps) auto
  next
    case False
    obtain i1 buf1 x1 s1 ls seg1 rest1 where
      w: "line_while n buf i x s out = Inr (i1, buf1, x1, s1, out @ ls)" "at_line n buf1 i1 x1 seg1 rest1" "rest1 = [] \<or> \<not> line_break (hd rest1)"
        "length rest1 \<le> length rest" "rest1 = [] \<longrightarrow> seg1 = [] \<or> rest = [] \<and> seg1 = seg"
        "lines_of (ls_line s @ seg) rest = (ls @ fst (lines_of (ls_line s1 @ seg1) rest1), snd (lines_of (ls_line s1 @ seg1) rest1))"
      using while_lines [OF "1.prems", of s out] by blast
    have run: "line_for n buf i x s out = line_for n buf1 (i1 + 1) x1 s1 (out @ ls)" using i False w(1) by (subst line_for.simps) simp
    show ?thesis
    proof (cases rest1)
      case Nil
      have "\<not> i1 + 1 < n" using w(2) Nil by (auto simp: at_line_def)
      then have "line_for n buf1 (i1 + 1) x1 s1 (out @ ls) = Inr (buf1, x1, s1, out @ ls)" by (subst line_for.simps) simp
      moreover have "at_line n buf1 i1 x1 seg1 []" using w(2) Nil by simp
      ultimately show ?thesis using run w(6) Nil c_str_segment [of n buf1 i1 x1 seg1] by simp
    next
      case (Cons b bs)
      have "at_line n buf1 (i1 + 1) x1 (seg1 @ [b]) bs" using w(2) Cons by (auto simp: at_line_def)
      moreover have "length bs < length rest" using w(4) Cons by simp
      ultimately obtain buf' x' s' where
        "line_for n buf1 (i1 + 1) x1 s1 (out @ ls) = Inr (buf', x', s', (out @ ls) @ fst (lines_of (ls_line s1 @ seg1 @ [b]) bs))"
          "x' < length buf'" "ls_line (add_line x' buf' s') = snd (lines_of (ls_line s1 @ seg1 @ [b]) bs)"
        using "1.IH" [rule_format, of bs buf1 "i1 + 1" x1 "seg1 @ [b]" s1 "out @ ls"] by blast
      moreover have "lines_of (ls_line s1 @ seg1) rest1 = lines_of (ls_line s1 @ seg1 @ [b]) bs"
        using w(3) Cons by (simp add: lines_of_text)
      ultimately show ?thesis using run w(6) by auto
    qed
  qed
qed

text \<open>What one read does, in any case: a character taken for the second half of an earlier end of line is not skipped but goes to the next line.\<close>

definition wrongly_kept :: "line_state \<Rightarrow> bytes \<Rightarrow> bytes" where
  "wrongly_kept s dat = (if dat \<noteq> [] \<and> ls_skip_c s \<and> line_break (hd dat) \<and> hd dat \<noteq> ls_c s then [hd dat] else [])"

lemma OnRead_lines_eq:
  fixes s :: line_state
  assumes "0 \<notin> set dat" "dat \<noteq> []" "length dat \<le> TCP_BUFSIZE_READ"
  defines "k \<equiv> wrongly_kept s dat"
  shows "\<exists>s'. OnRead_lines dat s = Inr (fst (lines_of (ls_line s @ k) (drop (length k) dat)), s') \<and>
    ls_line s' = snd (lines_of (ls_line s @ k) (drop (length k) dat))"
proof -
  obtain d ds where dat: "dat = d # ds" using assms(2) by (cases dat) auto
  define s1 where "s1 = (if k = [] then s else s\<lparr>ls_skip_c := False\<rparr>)"
  have start: "at_line (length dat) (dat @ [0]) (length k) 0 k (drop (length k) dat)"
    using assms(1) dat by (auto simp: at_line_def k_def wrongly_kept_def)
  obtain buf x s' where f: "line_for (length dat) (dat @ [0]) (length k) 0 s1 [] = Inr (buf, x, s', fst (lines_of (ls_line s1 @ k) (drop (length k) dat)))"
      "x < length buf" "ls_line (add_line x buf s') = snd (lines_of (ls_line s1 @ k) (drop (length k) dat))"
    using for_lines [OF start, of s1 "[]"] by auto
  have "(if ls_skip_c s \<and> line_break ((dat @ [0]) ! 0) \<and> (dat @ [0]) ! 0 \<noteq> ls_c s then (1, s\<lparr>ls_skip_c := False\<rparr>) else (0, s)) = (length k, s1)"
    using dat by (simp add: k_def s1_def wrongly_kept_def)
  then have "OnRead_lines dat s = Inr (fst (lines_of (ls_line s1 @ k) (drop (length k) dat)), add_line x buf s')"
    using assms(2,3) f(1,2) unfolding OnRead_lines_def Let_def by simp
  moreover have "ls_line s1 = ls_line s" by (simp add: s1_def)
  ultimately show ?thesis using f(3) by simp
qed

section \<open>The lobby client\<close>

definition good_read :: "bytes \<Rightarrow> bool" where
  "good_read dat \<longleftrightarrow> dat \<noteq> [] \<and> 0 \<notin> set dat \<and> \<not> line_break (hd dat) \<and> length dat \<le> TCP_BUFSIZE_READ"

text \<open>C24: when the lobby sends text without zero bytes and no read begins with a character that ends a line, the lobby client handles exactly the lines of
  the text, wherever the reads cut it, and keeps what comes after the last one.\<close>

theorem lobby_lines:
  assumes "list_all good_read reads"
  shows "\<exists>s. res_fold WolSocket_OnRead reads (new_lines, w) = Inr (s, fold Wol_OnLine (fst (lines_of [] (concat reads))) w) \<and>
    ls_line s = snd (lines_of [] (concat reads))"
proof -
  have "\<exists>s'. res_fold WolSocket_OnRead reads (s, w) = Inr (s', fold Wol_OnLine (fst (lines_of (ls_line s) (concat reads))) w) \<and>
      ls_line s' = snd (lines_of (ls_line s) (concat reads))" for s
    using assms
  proof (induction reads arbitrary: s w)
    case (Cons dat reads)
    have good: "dat \<noteq> []" "0 \<notin> set dat" "\<not> line_break (hd dat)" "length dat \<le> TCP_BUFSIZE_READ" using Cons.prems by (simp_all add: good_read_def)
    obtain s1 where s1: "OnRead_lines dat s = Inr (fst (lines_of (ls_line s) dat), s1)" "ls_line s1 = snd (lines_of (ls_line s) dat)"
      using OnRead_lines_eq [OF good(2,1,4), of s] good(3) by (auto simp: wrongly_kept_def)
    obtain s2 where s2: "res_fold WolSocket_OnRead reads (s1, fold Wol_OnLine (fst (lines_of (ls_line s) dat)) w) =
        Inr (s2, fold Wol_OnLine (fst (lines_of (ls_line s1) (concat reads))) (fold Wol_OnLine (fst (lines_of (ls_line s) dat)) w))"
        "ls_line s2 = snd (lines_of (ls_line s1) (concat reads))"
      using Cons.IH [of s1] Cons.prems by auto
    have "lines_of (ls_line s) (dat @ concat reads) =
        (fst (lines_of (ls_line s) dat) @ fst (lines_of (ls_line s1) (concat reads)), snd (lines_of (ls_line s1) (concat reads)))"
    proof (cases reads)
      case (Cons r rs)
      then have "concat reads \<noteq> []" "\<not> line_break (hd (concat reads))" using Cons.prems by (simp_all add: good_read_def)
      then show ?thesis using lines_of_append [of "concat reads" "ls_line s" dat] s1(2) by (simp add: case_prod_beta)
    qed (use s1(2) in simp)
    moreover have "WolSocket_OnRead dat (s, w) = Inr (s1, fold Wol_OnLine (fst (lines_of (ls_line s) dat)) w)"
      using s1(1) by (simp add: WolSocket_OnRead_def)
    ultimately show ?case using s2 by simp
  qed simp
  from this [of new_lines] show ?thesis by (simp add: new_lines_def)
qed

lemma lobby_lines_witness:
  "\<exists>s. res_fold WolSocket_OnRead [string_bytes ''PI'', string_bytes ''NG :x'' @ [13, 10], string_bytes ''PIN''] (new_lines, WolSocket) =
      Inr (s, Wol_Send (string_bytes ''PONG :ircdev.westwood.com'' @ [0x0A]) WolSocket) \<and> ls_line s = string_bytes ''PIN''"
proof -
  let ?reads = "[string_bytes ''PI'', string_bytes ''NG :x'' @ [13, 10], string_bytes ''PIN'']"
  have good: "list_all good_read ?reads" by code_simp
  have lines: "lines_of [] (concat ?reads) = ([string_bytes ''PING :x''], string_bytes ''PIN'')" by code_simp
  have "contains (string_bytes ''PING'') (string_bytes ''PING :x'')" by code_simp
  then show ?thesis using lobby_lines [OF good, of WolSocket] unfolding lines by (simp add: Wol_OnLine_def)
qed

text \<open>An end of line cut in two by a read: its second character becomes the first one of the next line.\<close>

lemma split_line_end:
  "rmap snd (res_fold (\<lambda>dat (s, ls). rmap (\<lambda>(ls', s). (s, ls @ ls')) (OnRead_lines dat s))
      [string_bytes ''a'' @ [13], [10] @ string_bytes ''b'' @ [13, 10]] (new_lines, [])) =
    Inr [string_bytes ''a'', [10] @ string_bytes ''b'']"
  "fst (lines_of [] ((string_bytes ''a'' @ [13]) @ [10] @ string_bytes ''b'' @ [13, 10])) = [string_bytes ''a'', string_bytes ''b'']"
  by code_simp+

end
